(* ===== verification/Antares_Prelude.thy ===== *)
theory Antares_Prelude
  imports Complex_Main "HOL-Library.Signed_Division"
begin

text \<open>
  The shared vocabulary of the development.

  \<^item> \<open>resultat\<close>: the result of a C++ statement or function. \<open>Inl\<close> is an abnormal end: an
    index outside a \<open>std::vector\<close> (undefined behaviour in C++), an exception, or a loop that
    ran out of the fuel of its model.
  \<^item> \<open>lire\<close>, \<open>ecrire\<close>: checked reads and writes of a vector.
  \<^item> \<open>seqE\<close>, \<open>forE\<close>, \<open>whenE\<close>: the statement sequence, the counted loop and the conditional.
  \<^item> \<open>returns\<close>: the weakest precondition (total: a failing run satisfies nothing), with
    the collection \<open>wp\<close> of its rules.
  \<^item> \<open>append_store\<close>: the contract of a component that only ever appends records to a store,
    used for the rows of the constraint matrix and for the variables of the problem.
\<close>

subsection \<open>Results and errors\<close>

datatype erreur =
    IndexHorsBornes          \<comment> \<open>out-of-range index on a vector\<close>
  | InvalidOperator char     \<comment> \<open>\<open>ConstraintBuilderInvalidOperator\<close>\<close>
  | FatalError string        \<comment> \<open>\<open>Antares::FatalError\<close>\<close>
  | CarburantEpuise          \<comment> \<open>fuel of a possibly endless loop exhausted\<close>

type_synonym 'a resultat = "erreur + 'a"

definition bindE :: "'a resultat \<Rightarrow> ('a \<Rightarrow> 'b resultat) \<Rightarrow> 'b resultat" where
  "bindE m f = (case m of Inl e \<Rightarrow> Inl e | Inr a \<Rightarrow> f a)"

fun seqE :: "('s \<Rightarrow> 's resultat) list \<Rightarrow> 's \<Rightarrow> 's resultat" where
  "seqE [] s = Inr s"
| "seqE (f # fs) s = bindE (f s) (seqE fs)"

fun forE :: "'a list \<Rightarrow> ('a \<Rightarrow> 's \<Rightarrow> 's resultat) \<Rightarrow> 's \<Rightarrow> 's resultat" where
  "forE [] f s = Inr s"
| "forE (x # xs) f s = bindE (f x s) (forE xs f)"

definition whenE :: "bool \<Rightarrow> ('s \<Rightarrow> 's resultat) \<Rightarrow> 's \<Rightarrow> 's resultat" where
  "whenE b f s = (if b then f s else Inr s)"

definition lire :: "'a list \<Rightarrow> nat \<Rightarrow> 'a resultat" where
  "lire xs i = (if i < length xs then Inr (xs ! i) else Inl IndexHorsBornes)"

definition ecrire :: "'a list \<Rightarrow> nat \<Rightarrow> 'a \<Rightarrow> 'a list resultat" where
  "ecrire xs i v = (if i < length xs then Inr (xs[i := v]) else Inl IndexHorsBornes)"

definition lire_int :: "'a list \<Rightarrow> int \<Rightarrow> 'a resultat" where
  "lire_int xs i = (if i < 0 then Inl IndexHorsBornes else lire xs (nat i))"

lemma bindE_simps [simp]:
  "bindE (Inl e) f = Inl e" "bindE (Inr a) f = f a"
  by (simp_all add: bindE_def)

lemma bindE_Inr: "bindE m f = Inr b \<longleftrightarrow> (\<exists>a. m = Inr a \<and> f a = Inr b)"
  by (cases m) simp_all

lemma bindE_assoc: "bindE (bindE m f) g = bindE m (\<lambda>a. bindE (f a) g)"
  by (cases m) simp_all

lemma lire_in [simp]: "i < length xs \<Longrightarrow> lire xs i = Inr (xs ! i)"
  by (simp add: lire_def)

lemma ecrire_in [simp]: "i < length xs \<Longrightarrow> ecrire xs i v = Inr (xs[i := v])"
  by (simp add: ecrire_def)

lemma lire_out: "\<not> i < length xs \<Longrightarrow> lire xs i = Inl IndexHorsBornes"
  by (simp add: lire_def)

lemma lire_int_in [simp]: "0 \<le> i \<Longrightarrow> nat i < length xs \<Longrightarrow> lire_int xs i = Inr (xs ! nat i)"
  by (simp add: lire_int_def)

lemma lire_int_of_nat [simp]: "lire_int xs (int i) = lire xs i"
  by (simp add: lire_int_def)

lemma lire_int_neg [simp]: "i < 0 \<Longrightarrow> lire_int xs i = Inl IndexHorsBornes"
  by (simp add: lire_int_def)

lemma seqE_append: "seqE (fs @ gs) s = bindE (seqE fs s) (seqE gs)"
proof (induction fs arbitrary: s)
  case (Cons f fs)
  then show ?case by (cases "f s") simp_all
qed simp

lemma forE_append: "forE (xs @ ys) f s = bindE (forE xs f s) (forE ys f)"
proof (induction xs arbitrary: s)
  case (Cons x xs)
  then show ?case by (cases "f x s") simp_all
qed simp

subsection \<open>Weakest preconditions\<close>

definition returns :: "'a resultat \<Rightarrow> ('a \<Rightarrow> bool) \<Rightarrow> bool" where
  "returns m Q = (case m of Inl _ \<Rightarrow> False | Inr a \<Rightarrow> Q a)"

named_theorems wp \<open>weakest-precondition rules of statements\<close>

lemma returns_Inr [simp]: "returns (Inr a) Q = Q a"
  by (simp add: returns_def)

lemma returns_Inl [simp]: "returns (Inl e) Q = False"
  by (simp add: returns_def)

lemma returns_bindE [simp]: "returns (bindE m f) Q = returns m (\<lambda>a. returns (f a) Q)"
  by (cases m) simp_all

lemma returns_mono: "returns m P \<Longrightarrow> (\<And>a. P a \<Longrightarrow> Q a) \<Longrightarrow> returns m Q"
  by (cases m) simp_all

lemma returnsD: "returns m Q \<Longrightarrow> \<exists>a. m = Inr a \<and> Q a"
  by (cases m) simp_all

lemma returnsE:
  assumes "returns m Q" obtains a where "m = Inr a" "Q a"
  using assms by (cases m) simp_all

lemma returns_seqE_Cons [simp]:
  "returns (seqE (f # fs) s) Q = returns (f s) (\<lambda>s'. returns (seqE fs s') Q)"
  by simp

lemma returns_seqE_Nil [simp]: "returns (seqE [] s) Q = Q s"
  by simp

lemma returns_whenE: "returns (whenE b f s) Q = (if b then returns (f s) Q else Q s)"
  by (simp add: whenE_def)

text \<open>Loop rule: an invariant indexed by the part of the list already done.\<close>

lemma returns_forE:
  assumes "I [] s"
    and "\<And>ys x zs s. xs = ys @ x # zs \<Longrightarrow> I ys s \<Longrightarrow> returns (f x s) (I (ys @ [x]))"
  shows "returns (forE xs f s) (I xs)"
proof -
  have "returns (forE zs f s) (I xs)" if "xs = ys @ zs" "I ys s" for ys zs s
    using that
  proof (induction zs arbitrary: ys s)
    case Nil
    then show ?case by simp
  next
    case (Cons z zs)
    have "returns (f z s) (I (ys @ [z]))"
      using assms(2) Cons.prems by blast
    then show ?case
      using Cons.IH [of "ys @ [z]"] Cons.prems(1) by (auto elim: returns_mono)
  qed
  from this [of "[]" xs s] assms(1) show ?thesis by simp
qed

lemma returns_forE_inv:
  assumes "I s" and "\<And>x s. x \<in> set xs \<Longrightarrow> I s \<Longrightarrow> returns (f x s) I"
  shows "returns (forE xs f s) I"
  using returns_forE [of "\<lambda>_. I" s xs f] assms by auto

lemma returns_for_upt:
  assumes "I 0 s" and step: "\<And>k s. k < n \<Longrightarrow> I k s \<Longrightarrow> returns (f k s) (I (Suc k))"
  shows "returns (forE [0..<n] f s) (I n)"
proof -
  have "returns (forE [0..<m] f s) (I m)" if "m \<le> n" for m
    using that
  proof (induction m)
    case 0
    then show ?case using assms(1) by simp
  next
    case (Suc m)
    then show ?case
      using step by (auto simp: forE_append elim!: returns_mono)
  qed
  then show ?thesis by simp
qed

subsection \<open>Loops\<close>

lemma forE_map: "forE (map g xs) f = forE xs (\<lambda>x. f (g x))"
proof
  show "forE (map g xs) f s = forE xs (\<lambda>x. f (g x)) s" for s
  proof (induction xs arbitrary: s)
    case (Cons x xs)
    then show ?case by (cases "f (g x) s") simp_all
  qed simp
qed

lemma forE_intervalle: "forE [a..<a + b] f = forE [0..<b] (\<lambda>j. f (a + j))"
proof -
  have "[a..<a + b] = map (\<lambda>j. a + j) [0..<b]" by (simp add: map_add_upt add.commute)
  then show ?thesis by (simp only: forE_map)
qed

lemma forE_concat: "forE (concat (map g xs)) f = forE xs (\<lambda>x. forE (g x) f)"
proof
  show "forE (concat (map g xs)) f s = forE xs (\<lambda>x. forE (g x) f) s" for s
  proof (induction xs arbitrary: s)
    case (Cons x xs)
    then show ?case by (cases "forE (g x) f s") (simp_all add: forE_append)
  qed simp
qed

lemma forE_cong: "(\<And>x s. x \<in> set xs \<Longrightarrow> f x s = g x s) \<Longrightarrow> forE xs f s = forE xs g s"
proof (induction xs arbitrary: s)
  case (Cons x xs)
  then show ?case by (cases "g x s") simp_all
qed simp

subsection \<open>Stores that only grow\<close>

text \<open>
  \<open>rep i s L\<close>: the state \<open>s\<close> is well formed, in mode \<open>i\<close>, and holds the records \<open>L\<close>. \<open>adm\<close> is a
  prefix-closed condition on the record list, \<open>cap\<close> the allocated size. \<open>emits i f rs k j\<close>: a
  statement that goes from mode \<open>i\<close> to mode \<open>j\<close>, appends exactly the records \<open>rs\<close> and never
  touches more than \<open>k\<close> slots beyond the current end.
\<close>

locale append_store =
  fixes rep :: "'i \<Rightarrow> 's \<Rightarrow> 'r list \<Rightarrow> bool"
    and adm :: "'r list \<Rightarrow> bool"
    and cap :: nat
  assumes adm_prefix: "adm (xs @ ys) \<Longrightarrow> adm xs"
begin

definition emits :: "'i \<Rightarrow> ('s \<Rightarrow> 's resultat) \<Rightarrow> 'r list \<Rightarrow> nat \<Rightarrow> 'i \<Rightarrow> bool" where
  "emits i f rs k j \<longleftrightarrow> length rs \<le> k \<and>
     (\<forall>s L. rep i s L \<and> adm (L @ rs) \<and> length L + k \<le> cap \<longrightarrow>
        returns (f s) (\<lambda>s'. rep j s' (L @ rs)))"

lemma emitsI:
  assumes "length rs \<le> k"
    and "\<And>s L. rep i s L \<Longrightarrow> adm (L @ rs) \<Longrightarrow> length L + k \<le> cap \<Longrightarrow>
      returns (f s) (\<lambda>s'. rep j s' (L @ rs))"
  shows "emits i f rs k j"
  using assms by (simp add: emits_def)

lemma emitsD:
  "emits i f rs k j \<Longrightarrow> rep i s L \<Longrightarrow> adm (L @ rs) \<Longrightarrow> length L + k \<le> cap \<Longrightarrow>
     returns (f s) (\<lambda>s'. rep j s' (L @ rs))"
  by (simp add: emits_def)

lemma emits_length: "emits i f rs k j \<Longrightarrow> length rs \<le> k"
  by (simp add: emits_def)

lemma emits_weaken: "emits i f rs k j \<Longrightarrow> k \<le> k' \<Longrightarrow> emits i f rs k' j"
  by (auto simp: emits_def)

lemma emits_pre:
  "emits i f rs k j \<Longrightarrow> (\<And>s L. rep i' s L \<Longrightarrow> rep i s L) \<Longrightarrow> emits i' f rs k j"
  by (auto simp: emits_def)

lemma emits_post:
  assumes "emits i f rs k j" and "\<And>s L. rep j s L \<Longrightarrow> rep j' s L"
  shows "emits i f rs k j'"
proof (rule emitsI)
  fix s L
  assume "rep i s L" "adm (L @ rs)" "length L + k \<le> cap"
  then show "returns (f s) (\<lambda>s'. rep j' s' (L @ rs))"
    by (intro returns_mono [OF emitsD [OF assms(1)]] assms(2))
qed (rule emits_length [OF assms(1)])

lemma emits_Inr: "emits i Inr [] 0 i"
  by (simp add: emits_def)

lemma emits_bind:
  assumes f: "emits i f rs k j" and g: "emits j g rs' k' l"
  shows "emits i (\<lambda>s. bindE (f s) g) (rs @ rs') (k + k') l"
proof (rule emitsI)
  show "length (rs @ rs') \<le> k + k'"
    using f g by (simp add: emits_def)
next
  fix s L
  assume s: "rep i s L" and adm: "adm (L @ rs @ rs')" and room: "length L + (k + k') \<le> cap"
  have "returns (f s) (\<lambda>s'. rep j s' (L @ rs))"
    using f s adm room adm_prefix [of "L @ rs" rs'] by (auto intro: emitsD)
  moreover have "returns (g s') (\<lambda>s''. rep l s'' ((L @ rs) @ rs'))" if "rep j s' (L @ rs)" for s'
    by (rule emitsD [OF g that]) (use adm room emits_length [OF f] in simp_all)
  ultimately show "returns (bindE (f s) g) (\<lambda>s'. rep l s' (L @ rs @ rs'))"
    by (auto elim: returns_mono)
qed

lemma emits_seqE_Nil: "emits i (seqE []) [] 0 i"
  by (simp add: emits_def)

lemma emits_seqE_Cons:
  assumes "emits i f rs k j" and "emits j (seqE fs) rs' k' l"
  shows "emits i (seqE (f # fs)) (rs @ rs') (k + k') l"
  using emits_bind [OF assms] by (simp add: emits_def)

lemma emits_forE:
  assumes "\<And>x. x \<in> set xs \<Longrightarrow> emits i (f x) (rs x) (k x) i"
  shows "emits i (forE xs f) (concat (map rs xs)) (sum_list (map k xs)) i"
  using assms
proof (induction xs)
  case Nil
  then show ?case by (simp add: emits_def)
next
  case (Cons x xs)
  have "emits i (\<lambda>s. bindE (f x s) (forE xs f)) (rs x @ concat (map rs xs))
          (k x + sum_list (map k xs)) i"
    using Cons by (intro emits_bind) auto
  then show ?case by (simp add: emits_def)
qed

lemma emits_whenE:
  assumes "b \<Longrightarrow> emits i f rs k i"
  shows "emits i (whenE b f) (if b then rs else []) (if b then k else 0) i"
  using assms by (auto simp: emits_def whenE_def)

end

text \<open>A store with its append operation.\<close>

locale append_store_push = append_store rep adm cap
  for rep :: "'i \<Rightarrow> 's \<Rightarrow> 'r list \<Rightarrow> bool" and adm :: "'r list \<Rightarrow> bool" and cap :: nat +
  fixes push :: "'r \<Rightarrow> 's \<Rightarrow> 's resultat"
  assumes push: "rep i s L \<Longrightarrow> adm (L @ [r]) \<Longrightarrow> length L < cap \<Longrightarrow>
      returns (push r s) (\<lambda>s'. rep i s' (L @ [r]))"
begin

lemma emits_push: "emits i (push r) [r] 1 i"
  by (rule emitsI) (use push in auto)

lemma emits_push_all: "emits i (forE rs push) rs (length rs) i"
  using emits_forE [of rs i push "\<lambda>r. [r]" "\<lambda>_. 1"] emits_push by (simp add: sum_list_triv)

end

subsection \<open>Lists\<close>

lemma take_list_update_le [simp]: "n \<le> i \<Longrightarrow> take n (xs[i := v]) = take n xs"
  by (simp add: take_update_cancel)

lemma take_Suc_update: "n < length xs \<Longrightarrow> take (Suc n) (xs[n := v]) = take n xs @ [v]"
  by (simp add: take_Suc_conv_app_nth)

lemma take_append_prefix: "take n xs = take n ys \<Longrightarrow> m \<le> n \<Longrightarrow> take m xs = take m ys"
  by (metis min.absorb1 take_take)

lemma sum_list_map_mono:
  "(\<And>x. x \<in> set xs \<Longrightarrow> f x \<le> g x) \<Longrightarrow> sum_list (map f xs) \<le> sum_list (map (g :: 'a \<Rightarrow> nat) xs)"
  by (induction xs) (auto intro: add_mono)

lemma sum_list_ge_elem: "x \<in> set xs \<Longrightarrow> (f :: 'a \<Rightarrow> nat) x \<le> sum_list (map f xs)"
  by (induction xs) auto

text \<open>\<open>resize\<close>: a vector keeps its prefix and is filled with the default value.\<close>

definition resize :: "'a \<Rightarrow> nat \<Rightarrow> 'a list \<Rightarrow> 'a list" where
  "resize d n xs = take n xs @ replicate (n - length xs) d"

lemma length_resize [simp]: "length (resize d n xs) = n"
  by (simp add: resize_def)

lemma take_resize: "m \<le> n \<Longrightarrow> m \<le> length xs \<Longrightarrow> take m (resize d n xs) = take m xs"
  by (simp add: resize_def min_absorb1)

text \<open>Concatenations without repetition.\<close>

lemma distinct_concat_mapI:
  assumes "distinct xs" and "\<And>x. x \<in> set xs \<Longrightarrow> distinct (f x)"
    and "\<And>x y. x \<in> set xs \<Longrightarrow> y \<in> set xs \<Longrightarrow> x \<noteq> y \<Longrightarrow> set (f x) \<inter> set (f y) = {}"
  shows "distinct (concat (map f xs))"
  using assms
proof (induction xs)
  case (Cons x xs)
  have "distinct (f x)" "distinct (concat (map f xs))"
    using Cons by (auto intro: Cons.IH)
  moreover have "set (f x) \<inter> set (f y) = {}" if "y \<in> set xs" for y
    using Cons.prems(1) that by (intro Cons.prems(3)) auto
  ultimately show ?case by auto
qed simp

lemma distinct_concat_map_elem:
  "distinct (concat (map f xs)) \<Longrightarrow> x \<in> set xs \<Longrightarrow> distinct (f x)"
  by (induction xs) auto

lemma distinct_concat_map_disjoint:
  assumes "distinct (concat (map f xs))" and "x \<in> set xs" and "y \<in> set xs" and "x \<noteq> y"
  shows "set (f x) \<inter> set (f y) = {}"
  using assms by (induction xs) auto

lemma concat_map_Nil: "concat (map (\<lambda>_. []) xs) = []"
  by (induction xs) simp_all

end
