(* ===== verification/Probleme_Hebdo.thy ===== *)
theory Probleme_Hebdo
  imports Antares_Prelude
begin

text \<open>
  The data of the weekly problem (\<open>src/src/solver/simulation/sim_structure_probleme_economique.h\<close>
  and \<open>src/src/solver/optimisation/opt_structure_probleme_a_resoudre.h\<close>).

  \<open>PROBLEME_HEBDO\<close> is the business part of the C++ structure: the construction of the linear
  problem reads it and never writes it. \<open>etat\<close> is its optimisation part together with the
  \<open>PROBLEME_ANTARES_A_RESOUDRE\<close> it points to: everything the construction writes. A structure
  whose fields are all \<open>vector<int>\<close> (the two \<open>CORRESPONDANCES_DES_...\<close>) is a map from its field
  names to vectors. A \<open>double\<close> is a real number.
\<close>

subsection \<open>Constants (\<open>opt_constants.h\<close>)\<close>

datatype type_contrainte = CONTRAINTE_HORAIRE | CONTRAINTE_JOURNALIERE | CONTRAINTE_HEBDOMADAIRE

datatype lissage =
    PAS_DE_LISSAGE_HYDRAULIQUE
  | LISSAGE_HYDRAULIQUE_SUR_SOMME_DES_VARIATIONS
  | LISSAGE_HYDRAULIQUE_SUR_VARIATION_MAX

text \<open>The types of variables; \<open>TYPE_NON_RENSEIGNE\<close> is the 0 every entry is allocated with.\<close>

datatype type_variable =
    TYPE_NON_RENSEIGNE
  | VARIABLE_FIXE
  | VARIABLE_BORNEE_DES_DEUX_COTES
  | VARIABLE_BORNEE_INFERIEUREMENT
  | VARIABLE_BORNEE_SUPERIEUREMENT
  | VARIABLE_NON_BORNEE

subsection \<open>The business problem\<close>

record COUTS_DE_TRANSPORT =
  IntercoGereeAvecDesCouts :: bool

record PALIERS_THERMIQUES =
  NombreDePaliersThermiques :: nat
  NumeroDuPalierDansLEnsembleDesPaliersThermiques :: "nat list"
  pminDUnGroupeDuPalierThermique :: "real list"
  PmaxDUnGroupeDuPalierThermique :: "real list"
  DureeMinimaleDeMarcheDUnGroupeDuPalierThermique :: "int list"
  DureeMinimaleDArretDUnGroupeDuPalierThermique :: "int list"
  NomsDesPaliersThermiques :: "string list"

record ENERGIES_ET_PUISSANCES_HYDRAULIQUES =
  PresenceDePompageModulable :: bool
  PresenceDHydrauliqueModulable :: bool
  TurbinageEntreBornes :: bool
  SuiviNiveauHoraire :: bool
  DirectLevelAccess :: bool
  AccurateWaterValue :: bool
  PumpingRatio :: real

record STS_PROPERTIES =
  efficiency :: real
  clusterGlobalIndex :: nat
  storage_name :: string

record CONTRAINTES_COUPLANTES =
  TypeDeContrainteCouplante :: type_contrainte
  SensDeLaContrainteCouplante :: char
  NombreDInterconnexionsDansLaContrainteCouplante :: nat
  PoidsDeLInterconnexion :: "real list"
  NumeroDeLInterconnexion :: "nat list"
  OffsetTemporelSurLInterco :: "int list"
  NombreDePaliersDispatchDansLaContrainteCouplante :: nat
  PoidsDuPalierDispatch :: "real list"
  PaysDuPalierDispatch :: "nat list"
  NumeroDuPalierDispatch :: "nat list"
  OffsetTemporelSurLePalierDispatch :: "int list"
  NomDeLaContrainteCouplante :: string

record PROBLEME_HEBDO =
  weekInTheYear :: nat
  OptimisationAuPasHebdomadaire :: bool
  TypeDeLissageHydraulique :: lissage
  OptimisationAvecCoutsDeDemarrage :: bool
  OptimisationAvecVariablesEntieres :: bool
  NombreDePays :: nat
  NomsDesPays :: "string list"
  NombreTotalDePaliersThermiques :: nat
  NombreDInterconnexions :: nat
  PaysOrigineDeLInterconnexion :: "nat list"
  PaysExtremiteDeLInterconnexion :: "nat list"
  CoutDeTransport :: "COUTS_DE_TRANSPORT list"
  NombreDePasDeTemps :: nat
  NumeroDeJourDuPasDeTemps :: "nat list"
  NombreDePasDeTempsPourUneOptimisation :: nat
  NumeroDIntervalleOptimiseDuPasDeTemps :: "nat list"
  NombreDeJours :: nat
  NombreDePasDeTempsDUneJournee :: nat
  PaliersThermiquesDuPays :: "PALIERS_THERMIQUES list"
  CaracteristiquesHydrauliques :: "ENERGIES_ET_PUISSANCES_HYDRAULIQUES list"
  NumberOfShortTermStorages :: nat
  ShortTermStorage :: "STS_PROPERTIES list list"
  DefaillanceNegativeUtiliserHydro :: "bool list"
  NombreDeContraintesCouplantes :: nat
  MatriceDesContraintesCouplantes :: "CONTRAINTES_COUPLANTES list"
  IndexDebutIntercoOrigine :: "int list"
  IndexSuivantIntercoOrigine :: "int list"
  IndexDebutIntercoExtremite :: "int list"
  IndexSuivantIntercoExtremite :: "int list"

subsection \<open>The numbers of the variables and of the constraints\<close>

datatype champ_var =
    NumeroDeVariableDeLInterconnexion
  | NumeroDeVariableCoutOrigineVersExtremiteDeLInterconnexion
  | NumeroDeVariableCoutExtremiteVersOrigineDeLInterconnexion
  | NumeroDeVariableDuPalierThermique
  | NumeroDeVariablesDeLaProdHyd
  | NumeroDeVariablesDePompage
  | NumeroDeVariablesDeNiveau
  | NumeroDeVariablesDeDebordement
  | NumeroDeVariableDefaillancePositive
  | NumeroDeVariableDefaillanceNegative
  | NumeroDeVariablesVariationHydALaBaisse
  | NumeroDeVariablesVariationHydALaHausse
  | NumeroDeVariableDuNombreDeGroupesEnMarcheDuPalierThermique
  | NumeroDeVariableDuNombreDeGroupesQuiDemarrentDuPalierThermique
  | NumeroDeVariableDuNombreDeGroupesQuiSArretentDuPalierThermique
  | NumeroDeVariableDuNombreDeGroupesQuiTombentEnPanneDuPalierThermique
  | InjectionVariable
  | WithdrawalVariable
  | LevelVariable

type_synonym CORRESPONDANCES_DES_VARIABLES = "champ_var \<Rightarrow> int list"

datatype champ_cnt =
    NumeroDeContrainteDesBilansPays
  | NumeroDeContraintePourEviterLesChargesFictives
  | NumeroPremiereContrainteDeReserveParZone
  | NumeroDeuxiemeContrainteDeReserveParZone
  | NumeroDeContrainteDeDissociationDeFlux
  | NumeroDeContrainteDesContraintesCouplantes
  | NumeroDeContrainteDesContraintesDeDureeMinDeMarche
  | NumeroDeContrainteDesContraintesDeDureeMinDArret
  | NumeroDeLaDeuxiemeContrainteDesContraintesDesGroupesQuiTombentEnPanne
  | NumeroDeContrainteDesNiveauxPays
  | ShortTermStorageLevelConstraint

type_synonym CORRESPONDANCES_DES_CONTRAINTES = "champ_cnt \<Rightarrow> int list"

text \<open>The vectors of \<open>PROBLEME_HEBDO\<close> that hold one constraint number per area.\<close>

datatype champ_pays =
    NumeroDeContrainteEnergieHydraulique
  | NumeroDeContrainteMinEnergieHydraulique
  | NumeroDeContrainteMaxEnergieHydraulique
  | NumeroDeContrainteMaxPompage
  | NumeroDeContrainteEquivalenceStockFinal
  | NumeroDeContrainteExpressionStockFinal

subsection \<open>The linear problem\<close>

text \<open>A bound is a \<open>double\<close> that may be infinite (\<open>yuni/core/math.h\<close> tells the two infinities apart).\<close>

datatype borne = MoinsInfini | Fini real | PlusInfini

text \<open>
  The entries of the vectors of \<open>double*\<close>: the place of the results of the week an optimised value, a reduced
  cost or a dual value is copied to; a null pointer is \<open>None\<close>. Hours are hours of the week, clusters and
  storages are ranks in their area.
\<close>

datatype adresse =
    ValeurDuFlux nat nat
  | VariableDualeParInterconnexion nat nat
  | ProductionThermiqueDuPalier nat nat nat
  | NombreDeGroupesEnMarcheDuPalier nat nat nat
  | NombreDeGroupesQuiDemarrentDuPalier nat nat nat
  | NombreDeGroupesQuiSArretentDuPalier nat nat nat
  | NombreDeGroupesQuiTombentEnPanneDuPalier nat nat nat
  | TurbinageHoraire_de nat nat
  | PompageHoraire_de nat nat
  | NiveauxHoraires_de nat nat
  | DefaillancePositive_de nat nat
  | DefaillanceNegative_de nat nat
  | STS_injection nat nat nat
  | STS_withdrawal nat nat nat
  | STS_level nat nat nat
  | CoutsMarginauxHoraires_de nat nat
  | VariablesDuales_de nat nat

record PROBLEME_ANTARES_A_RESOUDRE =
  NombreDeVariables :: nat
  NombreDeContraintes :: nat
  Sens :: "char list"
  IndicesDebutDeLigne :: "nat list"
  NombreDeTermesDesLignes :: "nat list"
  CoefficientsDeLaMatriceDesContraintes :: "real list"
  IndicesColonnes :: "int list"
  NombreDeTermesAllouesDansLaMatriceDesContraintes :: nat
  IncrementDAllocationMatriceDesContraintes :: nat
  NombreDeTermesDansLaMatriceDesContraintes :: nat
  TypeDeVariable :: "type_variable list"
  Pi :: "real list"
  Colonne :: "int list"
  NomDesVariables :: "string list"
  NomDesContraintes :: "string list"
  VariablesEntieres :: "bool list"
  CoutQuadratique :: "real list"
  CoutLineaire :: "real list"
  Xmin :: "borne list"
  Xmax :: "borne list"
  SecondMembre :: "real list"
  AdresseOuPlacerLaValeurDesVariablesOptimisees :: "adresse option list"
  AdresseOuPlacerLaValeurDesCoutsReduits :: "adresse option list"
  AdresseOuPlacerLaValeurDesCoutsMarginaux :: "adresse option list"

subsection \<open>The constraint classes and their builders\<close>

text \<open>
  Every class of \<open>src/src/solver/optimisation/constraints/\<close> is a \<open>ConstraintFactory\<close>: it owns one
  \<open>ConstraintBuilder\<close>, whose fields live as long as the object. \<open>builders\<close> holds the builder
  of each class, \<open>courant\<close> the one the running \<open>add\<close> works on.
\<close>

datatype classe =
    C_AreaBalance | C_FictitiousLoad | C_ShortTermStorageLevel | C_FlowDissociation
  | C_BindingConstraintHour | C_BindingConstraintDay | C_BindingConstraintWeek
  | C_HydroPower | C_HydroPowerSmoothingUsingVariationSum
  | C_HydroPowerSmoothingUsingVariationMaxDown | C_HydroPowerSmoothingUsingVariationMaxUp
  | C_MinHydroPower | C_MaxHydroPower | C_MaxPumping | C_AreaHydroLevel
  | C_FinalStockEquivalent | C_FinalStockExpression
  | C_PMaxDispatchableGeneration | C_PMinDispatchableGeneration
  | C_ConsistenceNumberOfDispatchableUnits | C_NbUnitsOutageLessThanNbUnitsStop
  | C_NbDispUnitsMinBoundSinceMinUpTime | C_MinDownTime

record builder =
  hourInWeek :: nat
  operateur :: char
  nombreDeTermes :: nat

definition builder_init :: builder where
  "builder_init = \<lparr>hourInWeek = 0, operateur = CHR ''='', nombreDeTermes = 0\<rparr>"

record etat =
  CorrespondanceVarNativesVarOptim :: "CORRESPONDANCES_DES_VARIABLES list"
  CorrespondanceCntNativesCntOptim :: "CORRESPONDANCES_DES_CONTRAINTES list"
  CorrespondanceCntNativesCntOptimJournalieres :: "int list list"
  CorrespondanceCntNativesCntOptimHebdomadaires :: "int list"
  NumerosDeContrainteDuPays :: "champ_pays \<Rightarrow> int list"
  NumeroDeVariableStockFinal :: "int list"
  NumeroDeVariableDeTrancheDeStock :: "int list list"
  NbTermesContraintesPourLesCoutsDeDemarrage :: int
  ProblemeAResoudre :: PROBLEME_ANTARES_A_RESOUDRE
  builders :: "classe \<Rightarrow> builder"
  courant :: builder

subsection \<open>Enumeration of the field names\<close>

text \<open>
  The field names and the classes are finite enumerations, so that a statement about every field of a
  correspondence, or about every builder, can be evaluated.
\<close>

instantiation champ_var :: enum
begin

definition enum_champ_var :: "champ_var list" where
  "enum_champ_var =
    [NumeroDeVariableDeLInterconnexion,
     NumeroDeVariableCoutOrigineVersExtremiteDeLInterconnexion,
     NumeroDeVariableCoutExtremiteVersOrigineDeLInterconnexion,
     NumeroDeVariableDuPalierThermique, NumeroDeVariablesDeLaProdHyd, NumeroDeVariablesDePompage,
     NumeroDeVariablesDeNiveau, NumeroDeVariablesDeDebordement,
     NumeroDeVariableDefaillancePositive, NumeroDeVariableDefaillanceNegative,
     NumeroDeVariablesVariationHydALaBaisse, NumeroDeVariablesVariationHydALaHausse,
     NumeroDeVariableDuNombreDeGroupesEnMarcheDuPalierThermique,
     NumeroDeVariableDuNombreDeGroupesQuiDemarrentDuPalierThermique,
     NumeroDeVariableDuNombreDeGroupesQuiSArretentDuPalierThermique,
     NumeroDeVariableDuNombreDeGroupesQuiTombentEnPanneDuPalierThermique, InjectionVariable,
     WithdrawalVariable, LevelVariable]"

definition enum_all_champ_var :: "(champ_var \<Rightarrow> bool) \<Rightarrow> bool" where
  "enum_all_champ_var P \<longleftrightarrow> list_all P enum_class.enum"

definition enum_ex_champ_var :: "(champ_var \<Rightarrow> bool) \<Rightarrow> bool" where
  "enum_ex_champ_var P \<longleftrightarrow> list_ex P enum_class.enum"

instance
proof
  show univ: "(UNIV :: champ_var set) = set enum_class.enum"
  proof (rule UNIV_eq_I)
    show "x \<in> set enum_class.enum" for x :: champ_var
      by (cases x) (simp_all add: enum_champ_var_def)
  qed
  show "distinct (enum_class.enum :: champ_var list)"
    by (simp add: enum_champ_var_def)
  show "enum_class.enum_all P \<longleftrightarrow> Ball UNIV P" for P :: "champ_var \<Rightarrow> bool"
    by (simp only: enum_all_champ_var_def list_all_iff univ)
  show "enum_class.enum_ex P \<longleftrightarrow> Bex UNIV P" for P :: "champ_var \<Rightarrow> bool"
    by (simp only: enum_ex_champ_var_def list_ex_iff univ)
qed

end

instantiation champ_cnt :: enum
begin

definition enum_champ_cnt :: "champ_cnt list" where
  "enum_champ_cnt =
    [NumeroDeContrainteDesBilansPays, NumeroDeContraintePourEviterLesChargesFictives,
     NumeroPremiereContrainteDeReserveParZone, NumeroDeuxiemeContrainteDeReserveParZone,
     NumeroDeContrainteDeDissociationDeFlux, NumeroDeContrainteDesContraintesCouplantes,
     NumeroDeContrainteDesContraintesDeDureeMinDeMarche,
     NumeroDeContrainteDesContraintesDeDureeMinDArret,
     NumeroDeLaDeuxiemeContrainteDesContraintesDesGroupesQuiTombentEnPanne,
     NumeroDeContrainteDesNiveauxPays, ShortTermStorageLevelConstraint]"

definition enum_all_champ_cnt :: "(champ_cnt \<Rightarrow> bool) \<Rightarrow> bool" where
  "enum_all_champ_cnt P \<longleftrightarrow> list_all P enum_class.enum"

definition enum_ex_champ_cnt :: "(champ_cnt \<Rightarrow> bool) \<Rightarrow> bool" where
  "enum_ex_champ_cnt P \<longleftrightarrow> list_ex P enum_class.enum"

instance
proof
  show univ: "(UNIV :: champ_cnt set) = set enum_class.enum"
  proof (rule UNIV_eq_I)
    show "x \<in> set enum_class.enum" for x :: champ_cnt
      by (cases x) (simp_all add: enum_champ_cnt_def)
  qed
  show "distinct (enum_class.enum :: champ_cnt list)"
    by (simp add: enum_champ_cnt_def)
  show "enum_class.enum_all P \<longleftrightarrow> Ball UNIV P" for P :: "champ_cnt \<Rightarrow> bool"
    by (simp only: enum_all_champ_cnt_def list_all_iff univ)
  show "enum_class.enum_ex P \<longleftrightarrow> Bex UNIV P" for P :: "champ_cnt \<Rightarrow> bool"
    by (simp only: enum_ex_champ_cnt_def list_ex_iff univ)
qed

end

instantiation champ_pays :: enum
begin

definition enum_champ_pays :: "champ_pays list" where
  "enum_champ_pays =
    [NumeroDeContrainteEnergieHydraulique, NumeroDeContrainteMinEnergieHydraulique,
     NumeroDeContrainteMaxEnergieHydraulique, NumeroDeContrainteMaxPompage,
     NumeroDeContrainteEquivalenceStockFinal, NumeroDeContrainteExpressionStockFinal]"

definition enum_all_champ_pays :: "(champ_pays \<Rightarrow> bool) \<Rightarrow> bool" where
  "enum_all_champ_pays P \<longleftrightarrow> list_all P enum_class.enum"

definition enum_ex_champ_pays :: "(champ_pays \<Rightarrow> bool) \<Rightarrow> bool" where
  "enum_ex_champ_pays P \<longleftrightarrow> list_ex P enum_class.enum"

instance
proof
  show univ: "(UNIV :: champ_pays set) = set enum_class.enum"
  proof (rule UNIV_eq_I)
    show "x \<in> set enum_class.enum" for x :: champ_pays
      by (cases x) (simp_all add: enum_champ_pays_def)
  qed
  show "distinct (enum_class.enum :: champ_pays list)"
    by (simp add: enum_champ_pays_def)
  show "enum_class.enum_all P \<longleftrightarrow> Ball UNIV P" for P :: "champ_pays \<Rightarrow> bool"
    by (simp only: enum_all_champ_pays_def list_all_iff univ)
  show "enum_class.enum_ex P \<longleftrightarrow> Bex UNIV P" for P :: "champ_pays \<Rightarrow> bool"
    by (simp only: enum_ex_champ_pays_def list_ex_iff univ)
qed

end

instantiation classe :: enum
begin

definition enum_classe :: "classe list" where
  "enum_classe =
    [C_AreaBalance, C_FictitiousLoad, C_ShortTermStorageLevel, C_FlowDissociation,
     C_BindingConstraintHour, C_BindingConstraintDay, C_BindingConstraintWeek, C_HydroPower,
     C_HydroPowerSmoothingUsingVariationSum, C_HydroPowerSmoothingUsingVariationMaxDown,
     C_HydroPowerSmoothingUsingVariationMaxUp, C_MinHydroPower, C_MaxHydroPower, C_MaxPumping,
     C_AreaHydroLevel, C_FinalStockEquivalent, C_FinalStockExpression,
     C_PMaxDispatchableGeneration, C_PMinDispatchableGeneration,
     C_ConsistenceNumberOfDispatchableUnits, C_NbUnitsOutageLessThanNbUnitsStop,
     C_NbDispUnitsMinBoundSinceMinUpTime, C_MinDownTime]"

definition enum_all_classe :: "(classe \<Rightarrow> bool) \<Rightarrow> bool" where
  "enum_all_classe P \<longleftrightarrow> list_all P enum_class.enum"

definition enum_ex_classe :: "(classe \<Rightarrow> bool) \<Rightarrow> bool" where
  "enum_ex_classe P \<longleftrightarrow> list_ex P enum_class.enum"

instance
proof
  show univ: "(UNIV :: classe set) = set enum_class.enum"
  proof (rule UNIV_eq_I)
    show "x \<in> set enum_class.enum" for x :: classe
      by (cases x) (simp_all add: enum_classe_def)
  qed
  show "distinct (enum_class.enum :: classe list)"
    by (simp add: enum_classe_def)
  show "enum_class.enum_all P \<longleftrightarrow> Ball UNIV P" for P :: "classe \<Rightarrow> bool"
    by (simp only: enum_all_classe_def list_all_iff univ)
  show "enum_class.enum_ex P \<longleftrightarrow> Bex UNIV P" for P :: "classe \<Rightarrow> bool"
    by (simp only: enum_ex_classe_def list_ex_iff univ)
qed

end

subsection \<open>Allocation of the numbers (\<open>sim_alloc_probleme_hebdo.cpp\<close>)\<close>

text \<open>Which of its dimensions a field of the correspondences is indexed by.\<close>

fun taille_var :: "PROBLEME_HEBDO \<Rightarrow> champ_var \<Rightarrow> nat" where
  "taille_var h NumeroDeVariableDeLInterconnexion = NombreDInterconnexions h"
| "taille_var h NumeroDeVariableCoutOrigineVersExtremiteDeLInterconnexion = NombreDInterconnexions h"
| "taille_var h NumeroDeVariableCoutExtremiteVersOrigineDeLInterconnexion = NombreDInterconnexions h"
| "taille_var h NumeroDeVariableDuPalierThermique = NombreTotalDePaliersThermiques h"
| "taille_var h NumeroDeVariableDuNombreDeGroupesEnMarcheDuPalierThermique =
     NombreTotalDePaliersThermiques h"
| "taille_var h NumeroDeVariableDuNombreDeGroupesQuiDemarrentDuPalierThermique =
     NombreTotalDePaliersThermiques h"
| "taille_var h NumeroDeVariableDuNombreDeGroupesQuiSArretentDuPalierThermique =
     NombreTotalDePaliersThermiques h"
| "taille_var h NumeroDeVariableDuNombreDeGroupesQuiTombentEnPanneDuPalierThermique =
     NombreTotalDePaliersThermiques h"
| "taille_var h InjectionVariable = NumberOfShortTermStorages h"
| "taille_var h WithdrawalVariable = NumberOfShortTermStorages h"
| "taille_var h LevelVariable = NumberOfShortTermStorages h"
| "taille_var h _ = NombreDePays h"

fun taille_cnt :: "PROBLEME_HEBDO \<Rightarrow> champ_cnt \<Rightarrow> nat" where
  "taille_cnt h NumeroDeContrainteDeDissociationDeFlux = NombreDInterconnexions h"
| "taille_cnt h NumeroDeContrainteDesContraintesCouplantes = NombreDeContraintesCouplantes h"
| "taille_cnt h NumeroDeContrainteDesContraintesDeDureeMinDeMarche =
     NombreTotalDePaliersThermiques h"
| "taille_cnt h NumeroDeContrainteDesContraintesDeDureeMinDArret =
     NombreTotalDePaliersThermiques h"
| "taille_cnt h NumeroDeLaDeuxiemeContrainteDesContraintesDesGroupesQuiTombentEnPanne =
     NombreTotalDePaliersThermiques h"
| "taille_cnt h ShortTermStorageLevelConstraint = NumberOfShortTermStorages h"
| "taille_cnt h _ = NombreDePays h"

definition PROBLEME_ANTARES_A_RESOUDRE_vide :: PROBLEME_ANTARES_A_RESOUDRE where
  "PROBLEME_ANTARES_A_RESOUDRE_vide =
     \<lparr>NombreDeVariables = 0, NombreDeContraintes = 0, Sens = [], IndicesDebutDeLigne = [],
      NombreDeTermesDesLignes = [], CoefficientsDeLaMatriceDesContraintes = [],
      IndicesColonnes = [], NombreDeTermesAllouesDansLaMatriceDesContraintes = 0,
      IncrementDAllocationMatriceDesContraintes = 0,
      NombreDeTermesDansLaMatriceDesContraintes = 0, TypeDeVariable = [], Pi = [], Colonne = [],
      NomDesVariables = [], NomDesContraintes = [], VariablesEntieres = [],
      CoutQuadratique = [], CoutLineaire = [], Xmin = [], Xmax = [], SecondMembre = [],
      AdresseOuPlacerLaValeurDesVariablesOptimisees = [],
      AdresseOuPlacerLaValeurDesCoutsReduits = [], AdresseOuPlacerLaValeurDesCoutsMarginaux = []\<rparr>"

definition SIM_AllocationProblemePasDeTemps ::
  "PROBLEME_HEBDO \<Rightarrow> CORRESPONDANCES_DES_VARIABLES \<times> CORRESPONDANCES_DES_CONTRAINTES" where
  "SIM_AllocationProblemePasDeTemps h =
     ((\<lambda>c. replicate (taille_var h c) 0), (\<lambda>c. replicate (taille_cnt h c) 0))"

definition SIM_AllocationProblemeHebdo :: "PROBLEME_HEBDO \<Rightarrow> etat" where
  "SIM_AllocationProblemeHebdo h =
     (let (var, cnt) = SIM_AllocationProblemePasDeTemps h in
      \<lparr>CorrespondanceVarNativesVarOptim = replicate (NombreDePasDeTemps h) var,
       CorrespondanceCntNativesCntOptim = replicate (NombreDePasDeTemps h) cnt,
       CorrespondanceCntNativesCntOptimJournalieres =
         replicate 7 (replicate (NombreDeContraintesCouplantes h) 0),
       CorrespondanceCntNativesCntOptimHebdomadaires =
         replicate (NombreDeContraintesCouplantes h) 0,
       NumerosDeContrainteDuPays = (\<lambda>_. replicate (NombreDePays h) 0),
       NumeroDeVariableStockFinal = replicate (NombreDePays h) 0,
       NumeroDeVariableDeTrancheDeStock = replicate (NombreDePays h) (replicate 100 0),
       NbTermesContraintesPourLesCoutsDeDemarrage = 0,
       ProblemeAResoudre = PROBLEME_ANTARES_A_RESOUDRE_vide,
       builders = (\<lambda>_. builder_init), courant = builder_init\<rparr>)"

subsection \<open>Writes to the correspondences\<close>

definition ecrire_var :: "champ_var \<Rightarrow> nat \<Rightarrow> nat \<Rightarrow> int \<Rightarrow> etat \<Rightarrow> etat resultat" where
  "ecrire_var c pdt i v s =
     bindE (lire (CorrespondanceVarNativesVarOptim s) pdt) (\<lambda>corr.
     bindE (ecrire (corr c) i v) (\<lambda>xs.
     Inr (s\<lparr>CorrespondanceVarNativesVarOptim :=
              (CorrespondanceVarNativesVarOptim s)[pdt := corr(c := xs)]\<rparr>)))"

definition ecrire_cnt :: "champ_cnt \<Rightarrow> nat \<Rightarrow> nat \<Rightarrow> int \<Rightarrow> etat \<Rightarrow> etat resultat" where
  "ecrire_cnt c pdt i v s =
     bindE (lire (CorrespondanceCntNativesCntOptim s) pdt) (\<lambda>corr.
     bindE (ecrire (corr c) i v) (\<lambda>xs.
     Inr (s\<lparr>CorrespondanceCntNativesCntOptim :=
              (CorrespondanceCntNativesCntOptim s)[pdt := corr(c := xs)]\<rparr>)))"

definition ecrire_cnt_jour :: "nat \<Rightarrow> nat \<Rightarrow> int \<Rightarrow> etat \<Rightarrow> etat resultat" where
  "ecrire_cnt_jour jour i v s =
     bindE (lire (CorrespondanceCntNativesCntOptimJournalieres s) jour) (\<lambda>corr.
     bindE (ecrire corr i v) (\<lambda>xs.
     Inr (s\<lparr>CorrespondanceCntNativesCntOptimJournalieres :=
              (CorrespondanceCntNativesCntOptimJournalieres s)[jour := xs]\<rparr>)))"

definition ecrire_cnt_hebdo :: "nat \<Rightarrow> int \<Rightarrow> etat \<Rightarrow> etat resultat" where
  "ecrire_cnt_hebdo i v s =
     bindE (ecrire (CorrespondanceCntNativesCntOptimHebdomadaires s) i v) (\<lambda>xs.
     Inr (s\<lparr>CorrespondanceCntNativesCntOptimHebdomadaires := xs\<rparr>))"

definition ecrire_cnt_pays :: "champ_pays \<Rightarrow> nat \<Rightarrow> int \<Rightarrow> etat \<Rightarrow> etat resultat" where
  "ecrire_cnt_pays c pays v s =
     bindE (ecrire (NumerosDeContrainteDuPays s c) pays v) (\<lambda>xs.
     Inr (s\<lparr>NumerosDeContrainteDuPays := (NumerosDeContrainteDuPays s)(c := xs)\<rparr>))"

text \<open>The number the next constraint will get.\<close>

definition numero_courant :: "etat \<Rightarrow> int" where
  "numero_courant s = int (NombreDeContraintes (ProblemeAResoudre s))"

end
