(* ===== verification/Constraint_Matrix.thy ===== *)
theory Constraint_Matrix
  imports Probleme_Hebdo
begin

text \<open>
  The sparse constraint matrix: rows stored one after the other in two growing vectors
  (\<open>src/src/solver/optimisation/opt_construction_matrice_des_contraintes_outils.cpp\<close>, and
  \<open>OPT_AugmenterLaTailleDeLaMatriceDesContraintes\<close> of \<open>opt_alloc_probleme_a_optimiser.cpp\<close>).
  The abstraction \<open>lignes\<close> reads the rows back; \<open>matrice_inv\<close> is the layout invariant. Main fact:
  loading a constraint appends exactly that row, whatever the number of enlargements on the way.
\<close>

subsection \<open>The operations\<close>

definition OPT_AugmenterLaTailleDeLaMatriceDesContraintes ::
  "PROBLEME_ANTARES_A_RESOUDRE \<Rightarrow> PROBLEME_ANTARES_A_RESOUDRE" where
  "OPT_AugmenterLaTailleDeLaMatriceDesContraintes p =
     (let NbTermes = NombreDeTermesAllouesDansLaMatriceDesContraintes p
                     + IncrementDAllocationMatriceDesContraintes p
      in p\<lparr>CoefficientsDeLaMatriceDesContraintes :=
             resize 0 NbTermes (CoefficientsDeLaMatriceDesContraintes p),
           IndicesColonnes := resize 0 NbTermes (IndicesColonnes p),
           NombreDeTermesAllouesDansLaMatriceDesContraintes := NbTermes\<rparr>)"

definition charger_terme ::
  "real list \<Rightarrow> int list \<Rightarrow> nat \<Rightarrow> PROBLEME_ANTARES_A_RESOUDRE
     \<Rightarrow> PROBLEME_ANTARES_A_RESOUDRE resultat" where
  "charger_terme vpi colonne i p =
     (let n = NombreDeTermesDansLaMatriceDesContraintes p in
      bindE (lire vpi i) (\<lambda>v.
      bindE (ecrire (CoefficientsDeLaMatriceDesContraintes p) n v) (\<lambda>coeffs.
      bindE (lire colonne i) (\<lambda>j.
      bindE (ecrire (IndicesColonnes p) n j) (\<lambda>cols.
      (let p' = p\<lparr>CoefficientsDeLaMatriceDesContraintes := coeffs, IndicesColonnes := cols,
                  NombreDeTermesDansLaMatriceDesContraintes := n + 1\<rparr>
       in Inr (if n + 1 = NombreDeTermesAllouesDansLaMatriceDesContraintes p
               then OPT_AugmenterLaTailleDeLaMatriceDesContraintes p' else p')))))))"

definition OPT_ChargerLaContrainteDansLaMatriceDesContraintes ::
  "real list \<Rightarrow> int list \<Rightarrow> nat \<Rightarrow> char \<Rightarrow> PROBLEME_ANTARES_A_RESOUDRE
     \<Rightarrow> PROBLEME_ANTARES_A_RESOUDRE resultat" where
  "OPT_ChargerLaContrainteDansLaMatriceDesContraintes vpi colonne nTermes sens p =
     (let nc = NombreDeContraintes p in
      bindE (ecrire (IndicesDebutDeLigne p) nc (NombreDeTermesDansLaMatriceDesContraintes p)) (\<lambda>d.
      bindE (forE [0..<nTermes] (charger_terme vpi colonne) (p\<lparr>IndicesDebutDeLigne := d\<rparr>)) (\<lambda>p.
      bindE (ecrire (NombreDeTermesDesLignes p) nc nTermes) (\<lambda>t.
      bindE (ecrire (Sens p) nc sens) (\<lambda>ss.
      Inr (p\<lparr>NombreDeTermesDesLignes := t, Sens := ss, NombreDeContraintes := nc + 1\<rparr>))))))"

subsection \<open>The rows and the invariant\<close>

type_synonym ligne = "char \<times> (int \<times> real) list"

definition ligne_at :: "PROBLEME_ANTARES_A_RESOUDRE \<Rightarrow> nat \<Rightarrow> ligne" where
  "ligne_at p i =
     (let d = IndicesDebutDeLigne p ! i; n = NombreDeTermesDesLignes p ! i
      in (Sens p ! i, zip (take n (drop d (IndicesColonnes p)))
                          (take n (drop d (CoefficientsDeLaMatriceDesContraintes p)))))"

definition lignes :: "PROBLEME_ANTARES_A_RESOUDRE \<Rightarrow> ligne list" where
  "lignes p = map (ligne_at p) [0..<NombreDeContraintes p]"

lemma length_lignes [simp]: "length (lignes p) = NombreDeContraintes p"
  by (simp add: lignes_def)

definition stockage_ok :: "PROBLEME_ANTARES_A_RESOUDRE \<Rightarrow> bool" where
  "stockage_ok p \<longleftrightarrow>
     length (CoefficientsDeLaMatriceDesContraintes p)
       = NombreDeTermesAllouesDansLaMatriceDesContraintes p \<and>
     length (IndicesColonnes p) = NombreDeTermesAllouesDansLaMatriceDesContraintes p \<and>
     NombreDeTermesDansLaMatriceDesContraintes p
       < NombreDeTermesAllouesDansLaMatriceDesContraintes p \<and>
     0 < IncrementDAllocationMatriceDesContraintes p"

definition matrice_inv :: "nat \<Rightarrow> PROBLEME_ANTARES_A_RESOUDRE \<Rightarrow> bool" where
  "matrice_inv nc p \<longleftrightarrow> stockage_ok p \<and>
     length (Sens p) = nc \<and> length (IndicesDebutDeLigne p) = nc \<and>
     length (NombreDeTermesDesLignes p) = nc \<and> NombreDeContraintes p \<le> nc \<and>
     (\<forall>i < NombreDeContraintes p.
        IndicesDebutDeLigne p ! i = sum_list (take i (NombreDeTermesDesLignes p))) \<and>
     NombreDeTermesDansLaMatriceDesContraintes p
       = sum_list (take (NombreDeContraintes p) (NombreDeTermesDesLignes p))"

text \<open>The vectors that the construction only allocates: costs, bounds, right-hand sides and result pointers.\<close>

type_synonym vecteurs = "real list \<times> real list \<times> borne list \<times> borne list \<times> real list \<times>
  adresse option list \<times> adresse option list \<times> adresse option list"

definition cote_vecteurs :: "PROBLEME_ANTARES_A_RESOUDRE \<Rightarrow> vecteurs" where
  "cote_vecteurs p = (CoutQuadratique p, CoutLineaire p, Xmin p, Xmax p, SecondMembre p,
     AdresseOuPlacerLaValeurDesVariablesOptimisees p, AdresseOuPlacerLaValeurDesCoutsReduits p,
     AdresseOuPlacerLaValeurDesCoutsMarginaux p)"

lemma cote_vecteurs_autres [simp]:
  "cote_vecteurs (p\<lparr>NombreDeVariables := x0\<rparr>) = cote_vecteurs p"
  "cote_vecteurs (p\<lparr>NombreDeContraintes := x1\<rparr>) = cote_vecteurs p"
  "cote_vecteurs (p\<lparr>Sens := x2\<rparr>) = cote_vecteurs p"
  "cote_vecteurs (p\<lparr>IndicesDebutDeLigne := x3\<rparr>) = cote_vecteurs p"
  "cote_vecteurs (p\<lparr>NombreDeTermesDesLignes := x4\<rparr>) = cote_vecteurs p"
  "cote_vecteurs (p\<lparr>CoefficientsDeLaMatriceDesContraintes := x5\<rparr>) = cote_vecteurs p"
  "cote_vecteurs (p\<lparr>IndicesColonnes := x6\<rparr>) = cote_vecteurs p"
  "cote_vecteurs (p\<lparr>NombreDeTermesAllouesDansLaMatriceDesContraintes := x7\<rparr>) = cote_vecteurs p"
  "cote_vecteurs (p\<lparr>IncrementDAllocationMatriceDesContraintes := x8\<rparr>) = cote_vecteurs p"
  "cote_vecteurs (p\<lparr>NombreDeTermesDansLaMatriceDesContraintes := x9\<rparr>) = cote_vecteurs p"
  "cote_vecteurs (p\<lparr>TypeDeVariable := x10\<rparr>) = cote_vecteurs p"
  "cote_vecteurs (p\<lparr>Pi := x11\<rparr>) = cote_vecteurs p"
  "cote_vecteurs (p\<lparr>Colonne := x12\<rparr>) = cote_vecteurs p"
  "cote_vecteurs (p\<lparr>NomDesVariables := x13\<rparr>) = cote_vecteurs p"
  "cote_vecteurs (p\<lparr>NomDesContraintes := x14\<rparr>) = cote_vecteurs p"
  "cote_vecteurs (p\<lparr>VariablesEntieres := x15\<rparr>) = cote_vecteurs p"
  by (simp_all add: cote_vecteurs_def)

text \<open>What loading a constraint leaves alone.\<close>

definition hors_matrice :: "PROBLEME_ANTARES_A_RESOUDRE \<Rightarrow> PROBLEME_ANTARES_A_RESOUDRE" where
  "hors_matrice p =
     p\<lparr>NombreDeContraintes := 0, Sens := [], IndicesDebutDeLigne := [],
       NombreDeTermesDesLignes := [], CoefficientsDeLaMatriceDesContraintes := [],
       IndicesColonnes := [], NombreDeTermesAllouesDansLaMatriceDesContraintes := 0,
       NombreDeTermesDansLaMatriceDesContraintes := 0\<rparr>"

lemma hors_matriceD:
  assumes "hors_matrice p' = hors_matrice p"
  shows "NombreDeVariables p' = NombreDeVariables p" "Pi p' = Pi p" "Colonne p' = Colonne p"
    "NomDesContraintes p' = NomDesContraintes p" "NomDesVariables p' = NomDesVariables p"
    "TypeDeVariable p' = TypeDeVariable p" "VariablesEntieres p' = VariablesEntieres p"
    "IncrementDAllocationMatriceDesContraintes p' = IncrementDAllocationMatriceDesContraintes p"
    "cote_vecteurs p' = cote_vecteurs p"
  using arg_cong [OF assms, of cote_vecteurs] arg_cong [OF assms, of NombreDeVariables] arg_cong [OF assms, of Pi]
    arg_cong [OF assms, of Colonne] arg_cong [OF assms, of NomDesContraintes]
    arg_cong [OF assms, of NomDesVariables] arg_cong [OF assms, of TypeDeVariable]
    arg_cong [OF assms, of VariablesEntieres]
    arg_cong [OF assms, of IncrementDAllocationMatriceDesContraintes]
  by (simp_all add: hors_matrice_def)

subsection \<open>Loading the terms\<close>

text \<open>The state after \<open>k\<close> terms: the terms follow the old content, the row tables are untouched.\<close>

definition termes_charges ::
  "real list \<Rightarrow> int list \<Rightarrow> PROBLEME_ANTARES_A_RESOUDRE \<Rightarrow> nat \<Rightarrow> PROBLEME_ANTARES_A_RESOUDRE \<Rightarrow> bool"
  where
  "termes_charges vpi colonne p k p' \<longleftrightarrow>
     hors_matrice p' = hors_matrice p \<and> stockage_ok p' \<and>
     Sens p' = Sens p \<and> IndicesDebutDeLigne p' = IndicesDebutDeLigne p \<and>
     NombreDeTermesDesLignes p' = NombreDeTermesDesLignes p \<and>
     NombreDeContraintes p' = NombreDeContraintes p \<and>
     NombreDeTermesDansLaMatriceDesContraintes p'
       = NombreDeTermesDansLaMatriceDesContraintes p + k \<and>
     take (NombreDeTermesDansLaMatriceDesContraintes p') (CoefficientsDeLaMatriceDesContraintes p')
       = take (NombreDeTermesDansLaMatriceDesContraintes p) (CoefficientsDeLaMatriceDesContraintes p)
         @ take k vpi \<and>
     take (NombreDeTermesDansLaMatriceDesContraintes p') (IndicesColonnes p')
       = take (NombreDeTermesDansLaMatriceDesContraintes p) (IndicesColonnes p) @ take k colonne"

lemma charger_terme_ok:
  assumes inv: "termes_charges vpi colonne p k p'" and k: "k < length vpi" "k < length colonne"
  shows "returns (charger_terme vpi colonne k p') (termes_charges vpi colonne p (Suc k))"
proof -
  let ?n = "NombreDeTermesDansLaMatriceDesContraintes p'"
  have len: "?n < length (CoefficientsDeLaMatriceDesContraintes p')"
    "?n < length (IndicesColonnes p')"
    using inv by (simp_all add: termes_charges_def stockage_ok_def)
  let ?p1 = "p'\<lparr>CoefficientsDeLaMatriceDesContraintes :=
                 (CoefficientsDeLaMatriceDesContraintes p')[?n := vpi ! k],
               IndicesColonnes := (IndicesColonnes p')[?n := colonne ! k],
               NombreDeTermesDansLaMatriceDesContraintes := ?n + 1\<rparr>"
  define q where "q = (if ?n + 1 = NombreDeTermesAllouesDansLaMatriceDesContraintes p'
     then OPT_AugmenterLaTailleDeLaMatriceDesContraintes ?p1 else ?p1)"
  have run: "charger_terme vpi colonne k p' = Inr q"
    using len k by (simp add: charger_terme_def Let_def q_def)
  have take_q: "take (Suc ?n) (CoefficientsDeLaMatriceDesContraintes q)
       = take ?n (CoefficientsDeLaMatriceDesContraintes p') @ [vpi ! k]"
    "take (Suc ?n) (IndicesColonnes q) = take ?n (IndicesColonnes p') @ [colonne ! k]"
    using take_Suc_update [OF len(1), of "vpi ! k"] take_Suc_update [OF len(2), of "colonne ! k"] len
    unfolding q_def
    by (auto simp: OPT_AugmenterLaTailleDeLaMatriceDesContraintes_def Let_def take_resize
        simp del: take_all take_all_iff)
  have fields: "NombreDeTermesDansLaMatriceDesContraintes q = Suc ?n" "Sens q = Sens p'"
    "IndicesDebutDeLigne q = IndicesDebutDeLigne p'"
    "NombreDeTermesDesLignes q = NombreDeTermesDesLignes p'"
    "NombreDeContraintes q = NombreDeContraintes p'" "hors_matrice q = hors_matrice p'"
    "stockage_ok q"
    using inv
    by (auto simp: q_def OPT_AugmenterLaTailleDeLaMatriceDesContraintes_def Let_def hors_matrice_def
        stockage_ok_def termes_charges_def)
  have "termes_charges vpi colonne p (Suc k) q"
    using inv k fields(7) unfolding termes_charges_def fields take_q
    by (auto simp add: take_Suc_conv_app_nth)
  with run show ?thesis by simp
qed

lemma charger_termes_ok:
  assumes "stockage_ok p" and "n \<le> length vpi" and "n \<le> length colonne"
  shows "returns (forE [0..<n] (charger_terme vpi colonne) p) (termes_charges vpi colonne p n)"
proof (rule returns_for_upt)
  show "termes_charges vpi colonne p 0 p"
    using assms(1) by (simp add: termes_charges_def)
next
  fix k p'
  assume "k < n" and "termes_charges vpi colonne p k p'"
  then show "returns (charger_terme vpi colonne k p') (termes_charges vpi colonne p (Suc k))"
    using assms(2,3) by (intro charger_terme_ok) simp_all
qed


subsection \<open>Loading a constraint\<close>

lemma take_drop_add: "take n (drop d xs) = drop d (take (d + n) xs)"
  by (simp add: take_drop add.commute)

text \<open>A row only depends on its own table entries and on the terms stored before the end.\<close>

lemma ligne_at_cong:
  assumes "IndicesDebutDeLigne p' ! i = IndicesDebutDeLigne p ! i"
    and "NombreDeTermesDesLignes p' ! i = NombreDeTermesDesLignes p ! i"
    and "Sens p' ! i = Sens p ! i"
    and "take m (IndicesColonnes p') = take m (IndicesColonnes p)"
    and "take m (CoefficientsDeLaMatriceDesContraintes p')
          = take m (CoefficientsDeLaMatriceDesContraintes p)"
    and "IndicesDebutDeLigne p ! i + NombreDeTermesDesLignes p ! i \<le> m"
  shows "ligne_at p' i = ligne_at p i"
proof -
  let ?d = "IndicesDebutDeLigne p ! i" and ?n = "NombreDeTermesDesLignes p ! i"
  have "take (?d + ?n) (IndicesColonnes p') = take (?d + ?n) (IndicesColonnes p)"
    "take (?d + ?n) (CoefficientsDeLaMatriceDesContraintes p')
      = take (?d + ?n) (CoefficientsDeLaMatriceDesContraintes p)"
    using assms(4-6) by (auto intro: take_append_prefix)
  then show ?thesis
    using assms(1-3) by (simp add: ligne_at_def Let_def take_drop_add)
qed

lemma fin_ligne_le:
  assumes "i < m" "m \<le> length xs"
  shows "sum_list (take i xs) + xs ! i \<le> sum_list (take m (xs :: nat list))"
proof -
  have "sum_list (take i xs) + xs ! i = sum_list (take (Suc i) xs)"
    using assms by (simp add: take_Suc_conv_app_nth)
  also have "\<dots> \<le> sum_list (take m xs)"
  proof -
    have "take m xs = take (Suc i) xs @ take (m - Suc i) (drop (Suc i) xs)"
      using assms by (metis Suc_leI le_add_diff_inverse take_add)
    then show ?thesis by simp
  qed
  finally show ?thesis .
qed

lemma OPT_Charger_ok:
  assumes inv: "matrice_inv nc p" and room: "NombreDeContraintes p < nc"
    and n: "n \<le> length vpi" "n \<le> length colonne"
  shows "returns (OPT_ChargerLaContrainteDansLaMatriceDesContraintes vpi colonne n sens p)
    (\<lambda>p'. matrice_inv nc p' \<and> hors_matrice p' = hors_matrice p \<and>
       lignes p' = lignes p @ [(sens, zip (take n colonne) (take n vpi))])"
proof -
  let ?nc = "NombreDeContraintes p" and ?nt = "NombreDeTermesDansLaMatriceDesContraintes p"
  let ?p1 = "p\<lparr>IndicesDebutDeLigne := (IndicesDebutDeLigne p)[?nc := ?nt]\<rparr>"
  have len: "?nc < length (IndicesDebutDeLigne p)" "?nc < length (NombreDeTermesDesLignes p)"
    "?nc < length (Sens p)"
    using inv room by (simp_all add: matrice_inv_def)
  have "stockage_ok ?p1" using inv by (simp add: matrice_inv_def stockage_ok_def)
  from charger_termes_ok [OF this n] obtain p2
    where p2: "forE [0..<n] (charger_terme vpi colonne) ?p1 = Inr p2"
      and T: "termes_charges vpi colonne ?p1 n p2"
    by (auto elim: returnsE)
  define p' where "p' = p2\<lparr>NombreDeTermesDesLignes := (NombreDeTermesDesLignes p)[?nc := n],
     Sens := (Sens p)[?nc := sens], NombreDeContraintes := ?nc + 1\<rparr>"
  have run: "OPT_ChargerLaContrainteDansLaMatriceDesContraintes vpi colonne n sens p = Inr p'"
    using len p2 T
    by (simp add: OPT_ChargerLaContrainteDansLaMatriceDesContraintes_def Let_def p'_def
        termes_charges_def)
  have inv': "matrice_inv nc p'"
    using inv T room len
    by (auto simp: matrice_inv_def termes_charges_def p'_def stockage_ok_def nth_list_update
        take_Suc_update less_Suc_eq)
  have hors: "hors_matrice p' = hors_matrice p"
    using T by (simp add: termes_charges_def p'_def hors_matrice_def)
  have nt: "?nt \<le> length (IndicesColonnes p)"
    "?nt \<le> length (CoefficientsDeLaMatriceDesContraintes p)"
    using inv by (simp_all add: matrice_inv_def stockage_ok_def)
  have charge: "take (?nt + n) (IndicesColonnes p') = take ?nt (IndicesColonnes p) @ take n colonne"
    "take (?nt + n) (CoefficientsDeLaMatriceDesContraintes p')
      = take ?nt (CoefficientsDeLaMatriceDesContraintes p) @ take n vpi"
    using T by (auto simp: termes_charges_def p'_def)
  have prefixe: "take ?nt (IndicesColonnes p') = take ?nt (IndicesColonnes p)"
    "take ?nt (CoefficientsDeLaMatriceDesContraintes p')
      = take ?nt (CoefficientsDeLaMatriceDesContraintes p)"
    using arg_cong [OF charge(1), of "take ?nt"] arg_cong [OF charge(2), of "take ?nt"] nt
    by (simp_all add: min_absorb1)
  have "ligne_at p' i = ligne_at p i" if i: "i < ?nc" for i
  proof (rule ligne_at_cong [where m = ?nt])
    show "IndicesDebutDeLigne p ! i + NombreDeTermesDesLignes p ! i \<le> ?nt"
      using inv i fin_ligne_le [of i ?nc "NombreDeTermesDesLignes p"]
      by (simp add: matrice_inv_def)
  next
    show "take ?nt (IndicesColonnes p') = take ?nt (IndicesColonnes p)"
      "take ?nt (CoefficientsDeLaMatriceDesContraintes p')
        = take ?nt (CoefficientsDeLaMatriceDesContraintes p)"
      using prefixe by simp_all
  qed (use i T len in \<open>simp_all add: termes_charges_def p'_def\<close>)
  moreover have "ligne_at p' ?nc = (sens, zip (take n colonne) (take n vpi))"
  proof -
    have "IndicesDebutDeLigne p' ! ?nc = ?nt" "NombreDeTermesDesLignes p' ! ?nc = n"
      "Sens p' ! ?nc = sens"
      using T len by (simp_all add: p'_def termes_charges_def)
    then show ?thesis
      using charge nt by (simp add: ligne_at_def Let_def take_drop_add)
  qed
  ultimately have "lignes p' = lignes p @ [(sens, zip (take n colonne) (take n vpi))]"
    by (simp add: lignes_def p'_def)
  with run inv' hors show ?thesis by simp
qed

text \<open>
  The matrix as an append-only store of rows: its capacity is the number of constraints it was
  allocated for; the terms are never a limit.
\<close>

definition rep_matrice ::
  "PROBLEME_ANTARES_A_RESOUDRE \<Rightarrow> nat \<Rightarrow> PROBLEME_ANTARES_A_RESOUDRE \<Rightarrow> ligne list \<Rightarrow> bool" where
  "rep_matrice p0 nc p ls \<longleftrightarrow>
     matrice_inv nc p \<and> hors_matrice p = hors_matrice p0 \<and> lignes p = ls"

definition charger_ligne ::
  "ligne \<Rightarrow> PROBLEME_ANTARES_A_RESOUDRE \<Rightarrow> PROBLEME_ANTARES_A_RESOUDRE resultat" where
  "charger_ligne l = OPT_ChargerLaContrainteDansLaMatriceDesContraintes
     (map snd (snd l)) (map fst (snd l)) (length (snd l)) (fst l)"

interpretation matrice: append_store_push "\<lambda>_ :: unit. rep_matrice p0 nc" "\<lambda>_. True" nc charger_ligne
  for p0 nc
proof unfold_locales
  fix p ls r
  assume rep: "rep_matrice p0 nc p ls" and room: "length ls < nc"
  have "NombreDeContraintes p < nc"
    using rep room by (auto simp: rep_matrice_def)
  with rep show "returns (charger_ligne r p) (\<lambda>p'. rep_matrice p0 nc p' (ls @ [r]))"
    unfolding charger_ligne_def rep_matrice_def
    by (intro returns_mono [OF OPT_Charger_ok]) (auto simp: zip_map_fst_snd)
qed simp

end
