(* ===== verification/Naming.thy ===== *)
theory Naming
  imports Probleme_Hebdo
begin

text \<open>
  The names of the variables and of the constraints
  (\<open>src/src/solver/optimisation/opt_rename_problem.h\<close> and \<open>opt_rename_problem.cpp\<close>). A \<open>namer\<close> is
  the state of a C++ \<open>Namer\<close> object; its methods are functions to the name they build, and
  \<open>nommer_variable\<close> / \<open>nommer_contrainte\<close> are \<open>TargetVectorUpdater::UpdateTargetAtIndex\<close> on the
  two target vectors. Main fact: the time identifier is injective, so that rows and columns of one
  kind and place at two time steps never share a name.
\<close>

subsection \<open>Decimal notation (\<open>std::to_string\<close>)\<close>

definition chiffre :: "nat \<Rightarrow> char" where
  "chiffre d = ''0123456789'' ! (d mod 10)"

fun to_string :: "nat \<Rightarrow> string" where
  "to_string n = (if n < 10 then [chiffre n] else to_string (n div 10) @ [chiffre n])"

declare to_string.simps [simp del]

definition valeur :: "string \<Rightarrow> nat" where
  "valeur = foldl (\<lambda>a c. 10 * a + (of_char c - 48)) 0"

lemma valeur_snoc: "valeur (xs @ [c]) = 10 * valeur xs + (of_char c - 48)"
  by (simp add: valeur_def)

lemma of_char_chiffre: "of_char (chiffre d) = 48 + d mod (10::nat)"
proof -
  have "\<forall>i \<in> {0..<10::nat}. of_char (''0123456789'' ! i) = (48 + i :: nat)"
    by (simp add: atLeast0_lessThan_Suc eval_nat_numeral)
  then show ?thesis by (auto simp: chiffre_def)
qed

lemma valeur_to_string: "valeur (to_string n) = n"
proof (induction n rule: to_string.induct)
  case (1 n)
  show ?case
  proof (cases "n < 10")
    case True
    then show ?thesis
      by (subst to_string.simps) (simp add: valeur_def of_char_chiffre)
  next
    case False
    with 1 show ?thesis
      by (subst to_string.simps) (simp add: valeur_snoc of_char_chiffre)
  qed
qed

lemma to_string_inj: "to_string m = to_string n \<Longrightarrow> m = n"
  by (metis valeur_to_string)

lemma chiffre_neq_space: "chiffre d \<noteq> CHR '' ''"
proof
  assume "chiffre d = CHR '' ''"
  then have "of_char (chiffre d) = (of_char CHR '' '' :: nat)" by simp
  then show False by (simp only: of_char_chiffre) simp
qed

lemma to_string_no_space: "CHR '' '' \<notin> set (to_string n)"
proof (induction n rule: to_string.induct)
  case (1 n)
  then show ?case
    by (subst to_string.simps) (use chiffre_neq_space in \<open>auto simp: eq_commute [of "CHR '' ''"]\<close>)
qed

subsection \<open>Identifiers\<close>

datatype granularite = HOUR | DAY | WEEK

fun nom_granularite :: "granularite \<Rightarrow> string" where
  "nom_granularite HOUR = ''hour''"
| "nom_granularite DAY = ''day''"
| "nom_granularite WEEK = ''week''"

fun BindingConstraintTimeGranularity :: "granularite \<Rightarrow> string" where
  "BindingConstraintTimeGranularity HOUR = ''hourly''"
| "BindingConstraintTimeGranularity DAY = ''daily''"
| "BindingConstraintTimeGranularity WEEK = ''weekly''"

definition SEPARATOR :: string where "SEPARATOR = ''::''"

definition AREA_SEP :: string where "AREA_SEP = ''$$''"

definition TimeIdentifier :: "nat \<Rightarrow> granularite \<Rightarrow> string" where
  "TimeIdentifier timeStep timeStepType =
     nom_granularite timeStepType @ ''<'' @ to_string timeStep @ ''>''"

definition LocationIdentifier :: "string \<Rightarrow> string \<Rightarrow> string" where
  "LocationIdentifier location locationType = locationType @ ''<'' @ location @ ''>''"

definition remplacer_espaces :: "string \<Rightarrow> string" where
  "remplacer_espaces = map (\<lambda>c. if c = CHR '' '' then CHR ''*'' else c)"

definition BuildName :: "string \<Rightarrow> string \<Rightarrow> string \<Rightarrow> string" where
  "BuildName name location timeIdentifier =
     remplacer_espaces (name @ SEPARATOR @ location @ SEPARATOR @ timeIdentifier)"

subsection \<open>The namers\<close>

record namer =
  namer_timeStep :: nat
  namer_origin :: string
  namer_destination :: string
  namer_area :: string

definition namer_init :: namer where
  "namer_init = \<lparr>namer_timeStep = 0, namer_origin = '''', namer_destination = '''', namer_area = ''''\<rparr>"

definition SetLinkElementName :: "namer \<Rightarrow> string \<Rightarrow> string" where
  "SetLinkElementName nm elementType =
     BuildName elementType (LocationIdentifier (namer_origin nm @ AREA_SEP @ namer_destination nm) ''link'')
       (TimeIdentifier (namer_timeStep nm) HOUR)"

definition SetAreaElementName :: "namer \<Rightarrow> string \<Rightarrow> granularite \<Rightarrow> string" where
  "SetAreaElementName nm elementType timeStepType =
     BuildName elementType (LocationIdentifier (namer_area nm) ''area'')
       (TimeIdentifier (namer_timeStep nm) timeStepType)"

definition SetAreaElementNameHour :: "namer \<Rightarrow> string \<Rightarrow> string" where
  "SetAreaElementNameHour nm elementType = SetAreaElementName nm elementType HOUR"

definition SetAreaElementNameWeek :: "namer \<Rightarrow> string \<Rightarrow> string" where
  "SetAreaElementNameWeek nm elementType = SetAreaElementName nm elementType WEEK"

definition SetAreaVariableName :: "namer \<Rightarrow> string \<Rightarrow> nat \<Rightarrow> string" where
  "SetAreaVariableName nm variableType layerIndex =
     BuildName variableType
       (LocationIdentifier (namer_area nm) ''area'' @ SEPARATOR @ ''Layer<'' @ to_string layerIndex @ ''>'')
       (TimeIdentifier (namer_timeStep nm) HOUR)"

definition SetThermalClusterElementName :: "namer \<Rightarrow> string \<Rightarrow> string \<Rightarrow> string" where
  "SetThermalClusterElementName nm elementType clusterName =
     BuildName elementType
       (LocationIdentifier (namer_area nm) ''area'' @ SEPARATOR @ ''ThermalCluster'' @ ''<'' @ clusterName
          @ ''>'')
       (TimeIdentifier (namer_timeStep nm) HOUR)"

definition SetShortTermStorageVariableName :: "namer \<Rightarrow> string \<Rightarrow> string \<Rightarrow> string" where
  "SetShortTermStorageVariableName nm variableType shortTermStorageName =
     BuildName variableType
       (LocationIdentifier (namer_area nm) ''area'' @ SEPARATOR @ ''ShortTermStorage'' @ ''<''
          @ shortTermStorageName @ ''>'')
       (TimeIdentifier (namer_timeStep nm) HOUR)"

definition nameWithTimeGranularity :: "namer \<Rightarrow> string \<Rightarrow> granularite \<Rightarrow> string" where
  "nameWithTimeGranularity nm name type =
     BuildName name (BindingConstraintTimeGranularity type) (TimeIdentifier (namer_timeStep nm) type)"

text \<open>The methods of \<open>VariableNamer\<close>, one constructor each.\<close>

datatype nom_variable =
    VN_DispatchableProduction string | VN_NODU string
  | VN_NumberStoppingDispatchableUnits string | VN_NumberStartingDispatchableUnits string
  | VN_NumberBreakingDownDispatchableUnits string
  | VN_NTCDirect string string | VN_IntercoDirectCost string string
  | VN_IntercoIndirectCost string string
  | VN_ShortTermStorageInjection string | VN_ShortTermStorageWithdrawal string
  | VN_ShortTermStorageLevel string
  | VN_HydProd | VN_HydProdDown | VN_HydProdUp | VN_Pumping | VN_HydroLevel | VN_Overflow
  | VN_LayerStorage nat | VN_FinalStorage
  | VN_PositiveUnsuppliedEnergy | VN_NegativeUnsuppliedEnergy

fun VariableNamer :: "namer \<Rightarrow> nom_variable \<Rightarrow> string" where
  "VariableNamer nm (VN_DispatchableProduction c) =
     SetThermalClusterElementName nm ''DispatchableProduction'' c"
| "VariableNamer nm (VN_NODU c) = SetThermalClusterElementName nm ''NODU'' c"
| "VariableNamer nm (VN_NumberStoppingDispatchableUnits c) =
     SetThermalClusterElementName nm ''NumberStoppingDispatchableUnits'' c"
| "VariableNamer nm (VN_NumberStartingDispatchableUnits c) =
     SetThermalClusterElementName nm ''NumberStartingDispatchableUnits'' c"
| "VariableNamer nm (VN_NumberBreakingDownDispatchableUnits c) =
     SetThermalClusterElementName nm ''NumberBreakingDownDispatchableUnits'' c"
| "VariableNamer nm (VN_NTCDirect orig dest) =
     SetLinkElementName (nm\<lparr>namer_origin := orig, namer_destination := dest\<rparr>) ''NTCDirect''"
| "VariableNamer nm (VN_IntercoDirectCost orig dest) =
     SetLinkElementName (nm\<lparr>namer_origin := orig, namer_destination := dest\<rparr>) ''IntercoDirectCost''"
| "VariableNamer nm (VN_IntercoIndirectCost orig dest) =
     SetLinkElementName (nm\<lparr>namer_origin := orig, namer_destination := dest\<rparr>) ''IntercoIndirectCost''"
| "VariableNamer nm (VN_ShortTermStorageInjection st) =
     SetShortTermStorageVariableName nm ''Injection'' st"
| "VariableNamer nm (VN_ShortTermStorageWithdrawal st) =
     SetShortTermStorageVariableName nm ''Withdrawal'' st"
| "VariableNamer nm (VN_ShortTermStorageLevel st) = SetShortTermStorageVariableName nm ''Level'' st"
| "VariableNamer nm VN_HydProd = SetAreaElementNameHour nm ''HydProd''"
| "VariableNamer nm VN_HydProdDown = SetAreaElementNameHour nm ''HydProdDown''"
| "VariableNamer nm VN_HydProdUp = SetAreaElementNameHour nm ''HydProdUp''"
| "VariableNamer nm VN_Pumping = SetAreaElementNameHour nm ''Pumping''"
| "VariableNamer nm VN_HydroLevel = SetAreaElementNameHour nm ''HydroLevel''"
| "VariableNamer nm VN_Overflow = SetAreaElementNameHour nm ''Overflow''"
| "VariableNamer nm (VN_LayerStorage l) = SetAreaVariableName nm ''LayerStorage'' l"
| "VariableNamer nm VN_FinalStorage = SetAreaElementNameHour nm ''FinalStorage''"
| "VariableNamer nm VN_PositiveUnsuppliedEnergy =
     SetAreaElementNameHour nm ''PositiveUnsuppliedEnergy''"
| "VariableNamer nm VN_NegativeUnsuppliedEnergy =
     SetAreaElementNameHour nm ''NegativeUnsuppliedEnergy''"

text \<open>The methods of \<open>ConstraintNamer\<close>.\<close>

datatype nom_contrainte =
    CN_FlowDissociation string string
  | CN_AreaBalance | CN_FictiveLoads | CN_HydroPower
  | CN_HydroPowerSmoothingUsingVariationSum | CN_HydroPowerSmoothingUsingVariationMaxDown
  | CN_HydroPowerSmoothingUsingVariationMaxUp
  | CN_MinHydroPower | CN_MaxHydroPower | CN_MaxPumping | CN_AreaHydroLevel
  | CN_FinalStockEquivalent | CN_FinalStockExpression
  | CN_NbUnitsOutageLessThanNbUnitsStop string | CN_NbDispUnitsMinBoundSinceMinUpTime string
  | CN_MinDownTime string | CN_PMaxDispatchableGeneration string
  | CN_PMinDispatchableGeneration string | CN_ConsistenceNODU string
  | CN_ShortTermStorageLevel string
  | CN_BindingConstraintHour string | CN_BindingConstraintDay string
  | CN_BindingConstraintWeek string

fun ConstraintNamer :: "namer \<Rightarrow> nom_contrainte \<Rightarrow> string" where
  "ConstraintNamer nm (CN_FlowDissociation orig dest) =
     SetLinkElementName (nm\<lparr>namer_origin := orig, namer_destination := dest\<rparr>) ''FlowDissociation''"
| "ConstraintNamer nm CN_AreaBalance = SetAreaElementNameHour nm ''AreaBalance''"
| "ConstraintNamer nm CN_FictiveLoads = SetAreaElementNameHour nm ''FictiveLoads''"
| "ConstraintNamer nm CN_HydroPower = SetAreaElementNameWeek nm ''HydroPower''"
| "ConstraintNamer nm CN_HydroPowerSmoothingUsingVariationSum =
     SetAreaElementNameHour nm ''HydroPowerSmoothingUsingVariationSum''"
| "ConstraintNamer nm CN_HydroPowerSmoothingUsingVariationMaxDown =
     SetAreaElementNameHour nm ''HydroPowerSmoothingUsingVariationMaxDown''"
| "ConstraintNamer nm CN_HydroPowerSmoothingUsingVariationMaxUp =
     SetAreaElementNameHour nm ''HydroPowerSmoothingUsingVariationMaxUp''"
| "ConstraintNamer nm CN_MinHydroPower = SetAreaElementNameWeek nm ''MinHydroPower''"
| "ConstraintNamer nm CN_MaxHydroPower = SetAreaElementNameWeek nm ''MaxHydroPower''"
| "ConstraintNamer nm CN_MaxPumping = SetAreaElementNameWeek nm ''MaxPumping''"
| "ConstraintNamer nm CN_AreaHydroLevel = SetAreaElementNameHour nm ''AreaHydroLevel''"
| "ConstraintNamer nm CN_FinalStockEquivalent = SetAreaElementNameHour nm ''FinalStockEquivalent''"
| "ConstraintNamer nm CN_FinalStockExpression = SetAreaElementNameHour nm ''FinalStockExpression''"
| "ConstraintNamer nm (CN_NbUnitsOutageLessThanNbUnitsStop c) =
     SetThermalClusterElementName nm ''NbUnitsOutageLessThanNbUnitsStop'' c"
| "ConstraintNamer nm (CN_NbDispUnitsMinBoundSinceMinUpTime c) =
     SetThermalClusterElementName nm ''NbDispUnitsMinBoundSinceMinUpTime'' c"
| "ConstraintNamer nm (CN_MinDownTime c) = SetThermalClusterElementName nm ''MinDownTime'' c"
| "ConstraintNamer nm (CN_PMaxDispatchableGeneration c) =
     SetThermalClusterElementName nm ''PMaxDispatchableGeneration'' c"
| "ConstraintNamer nm (CN_PMinDispatchableGeneration c) =
     SetThermalClusterElementName nm ''PMinDispatchableGeneration'' c"
| "ConstraintNamer nm (CN_ConsistenceNODU c) = SetThermalClusterElementName nm ''ConsistenceNODU'' c"
| "ConstraintNamer nm (CN_ShortTermStorageLevel n) =
     BuildName ''Level''
       (LocationIdentifier (namer_area nm) ''area'' @ SEPARATOR @ ''ShortTermStorage'' @ ''<'' @ n @ ''>'')
       (TimeIdentifier (namer_timeStep nm) HOUR)"
| "ConstraintNamer nm (CN_BindingConstraintHour n) = nameWithTimeGranularity nm n HOUR"
| "ConstraintNamer nm (CN_BindingConstraintDay n) = nameWithTimeGranularity nm n DAY"
| "ConstraintNamer nm (CN_BindingConstraintWeek n) = nameWithTimeGranularity nm n WEEK"

subsection \<open>Writing the names\<close>

definition maj_probleme ::
  "(PROBLEME_ANTARES_A_RESOUDRE \<Rightarrow> PROBLEME_ANTARES_A_RESOUDRE resultat) \<Rightarrow> etat \<Rightarrow> etat resultat"
  where
  "maj_probleme f s = bindE (f (ProblemeAResoudre s)) (\<lambda>p. Inr (s\<lparr>ProblemeAResoudre := p\<rparr>))"

definition nommer_variable :: "namer \<Rightarrow> nom_variable \<Rightarrow> nat \<Rightarrow> etat \<Rightarrow> etat resultat" where
  "nommer_variable nm v index = maj_probleme (\<lambda>p.
     bindE (ecrire (NomDesVariables p) index (VariableNamer nm v)) (\<lambda>xs.
     Inr (p\<lparr>NomDesVariables := xs\<rparr>)))"

text \<open>Every constraint is named at the current number of constraints.\<close>

definition nommer_contrainte :: "namer \<Rightarrow> nom_contrainte \<Rightarrow> etat \<Rightarrow> etat resultat" where
  "nommer_contrainte nm c = maj_probleme (\<lambda>p.
     bindE (ecrire (NomDesContraintes p) (NombreDeContraintes p) (ConstraintNamer nm c)) (\<lambda>xs.
     Inr (p\<lparr>NomDesContraintes := xs\<rparr>)))"

subsection \<open>The time identifier tells the time steps apart\<close>

lemma remplacer_espaces_append:
  "remplacer_espaces (xs @ ys) = remplacer_espaces xs @ remplacer_espaces ys"
  by (simp add: remplacer_espaces_def)

lemma remplacer_espaces_id: "CHR '' '' \<notin> set xs \<Longrightarrow> remplacer_espaces xs = xs"
  by (induction xs) (auto simp: remplacer_espaces_def)

lemma TimeIdentifier_no_space: "CHR '' '' \<notin> set (TimeIdentifier t g)"
  by (cases g) (simp_all add: TimeIdentifier_def to_string_no_space)

lemma TimeIdentifier_inj: "TimeIdentifier t g = TimeIdentifier t' g \<Longrightarrow> t = t'"
  by (auto simp: TimeIdentifier_def dest: to_string_inj)

lemma BuildName_time_inj:
  assumes "BuildName n l (TimeIdentifier t g) = BuildName n l (TimeIdentifier t' g)"
  shows "t = t'"
  using assms TimeIdentifier_inj
  by (simp add: BuildName_def remplacer_espaces_append remplacer_espaces_id TimeIdentifier_no_space)

lemma BuildName_no_space: "CHR '' '' \<notin> set (BuildName n l t)"
  by (auto simp: BuildName_def remplacer_espaces_def)

subsection \<open>Reading the time step back\<close>

text \<open>The number between the last \<open><\<close> and the final \<open>>\<close> of a name.\<close>

definition pas_du_nom :: "string \<Rightarrow> nat" where
  "pas_du_nom nom = valeur (rev (takeWhile (\<lambda>c. c \<noteq> CHR ''<'') (tl (rev nom))))"

lemma chiffre_neq_chevron: "chiffre d \<noteq> CHR ''<''"
proof
  assume "chiffre d = CHR ''<''"
  then have "of_char (chiffre d) = (of_char CHR ''<'' :: nat)" by simp
  then show False by (simp only: of_char_chiffre) simp
qed

lemma to_string_no_chevron: "CHR ''<'' \<notin> set (to_string n)"
proof (induction n rule: to_string.induct)
  case (1 n)
  then show ?case
    by (subst to_string.simps) (use chiffre_neq_chevron in \<open>auto simp: eq_commute [of "CHR ''<''"]\<close>)
qed

lemma pas_BuildName: "pas_du_nom (BuildName n l (TimeIdentifier t g)) = t"
proof -
  obtain xs where nom: "BuildName n l (TimeIdentifier t g) = xs @ ''<'' @ to_string t @ ''>''"
    by (simp add: BuildName_def remplacer_espaces_append remplacer_espaces_id TimeIdentifier_no_space
        del: append_assoc) (simp add: TimeIdentifier_def)
  have "takeWhile (\<lambda>c. c \<noteq> CHR ''<'') (rev (to_string t) @ CHR ''<'' # rev xs) = rev (to_string t)"
    using to_string_no_chevron [of t] by (subst takeWhile_append2) auto
  then show ?thesis
    unfolding nom by (simp add: pas_du_nom_def valeur_to_string)
qed

lemmas noms_elements = SetLinkElementName_def SetAreaElementName_def SetAreaElementNameHour_def
  SetAreaElementNameWeek_def SetAreaVariableName_def SetThermalClusterElementName_def
  SetShortTermStorageVariableName_def nameWithTimeGranularity_def

lemma pas_VariableNamer: "pas_du_nom (VariableNamer nm v) = namer_timeStep nm"
  by (cases v) (simp_all add: noms_elements pas_BuildName)

lemma pas_ConstraintNamer: "pas_du_nom (ConstraintNamer nm c) = namer_timeStep nm"
  by (cases c) (simp_all add: noms_elements pas_BuildName)

lemma VariableNamer_no_space: "CHR '' '' \<notin> set (VariableNamer nm v)"
  by (cases v) (simp_all add: noms_elements BuildName_no_space)

lemma ConstraintNamer_no_space: "CHR '' '' \<notin> set (ConstraintNamer nm c)"
  by (cases c) (simp_all add: noms_elements BuildName_no_space)

end
