(* ===== verification/Interco_Chaining.thy ===== *)
theory Interco_Chaining
  imports Probleme_Hebdo
begin

text \<open>
  The linked lists of the links leaving and entering an area
  (\<open>src/src/solver/optimisation/opt_chainage_intercos.cpp\<close>), and the loop that walks them.
  Main facts: the chaining never fails on well-formed input, and a walk from the head of an
  area's list visits exactly the links with that area as origin (or end), each once, and stops.
\<close>

subsection \<open>The chaining\<close>

definition initialiser_debuts :: "nat \<Rightarrow> PROBLEME_HEBDO \<Rightarrow> PROBLEME_HEBDO resultat" where
  "initialiser_debuts pays h =
     bindE (ecrire (IndexDebutIntercoOrigine h) pays (-1)) (\<lambda>do.
     bindE (ecrire (IndexDebutIntercoExtremite h) pays (-1)) (\<lambda>de.
     Inr (h\<lparr>IndexDebutIntercoOrigine := do, IndexDebutIntercoExtremite := de\<rparr>)))"

definition chainer_interco :: "nat \<Rightarrow> PROBLEME_HEBDO \<Rightarrow> PROBLEME_HEBDO resultat" where
  "chainer_interco interco h =
     bindE (lire (PaysOrigineDeLInterconnexion h) interco) (\<lambda>noeudOrigine.
     bindE (lire (IndexDebutIntercoOrigine h) noeudOrigine) (\<lambda>index.
     bindE (ecrire (IndexDebutIntercoOrigine h) noeudOrigine (int interco)) (\<lambda>do.
     bindE (ecrire (IndexSuivantIntercoOrigine h) interco index) (\<lambda>so.
     bindE (lire (PaysExtremiteDeLInterconnexion h) interco) (\<lambda>noeudExtremite.
     bindE (lire (IndexDebutIntercoExtremite h) noeudExtremite) (\<lambda>index.
     bindE (ecrire (IndexDebutIntercoExtremite h) noeudExtremite (int interco)) (\<lambda>de.
     bindE (ecrire (IndexSuivantIntercoExtremite h) interco index) (\<lambda>se.
     Inr (h\<lparr>IndexDebutIntercoOrigine := do, IndexSuivantIntercoOrigine := so,
            IndexDebutIntercoExtremite := de, IndexSuivantIntercoExtremite := se\<rparr>)))))))))"

definition OPT_ChainagesDesIntercoPartantDUnNoeud ::
  "PROBLEME_HEBDO \<Rightarrow> PROBLEME_HEBDO resultat" where
  "OPT_ChainagesDesIntercoPartantDUnNoeud h =
     bindE (forE [0..<NombreDePays h] initialiser_debuts h)
           (forE [0..<NombreDInterconnexions h] chainer_interco)"

text \<open>
  The walk \<open>while (interco >= 0) { body(interco); interco = suivant[interco]; }\<close>. The number
  of links is fuel enough on a chained structure (\<open>boucle_interco_chaine\<close>).
\<close>

fun boucle_interco ::
  "int list \<Rightarrow> (nat \<Rightarrow> 's \<Rightarrow> 's resultat) \<Rightarrow> nat \<Rightarrow> int \<Rightarrow> 's \<Rightarrow> 's resultat" where
  "boucle_interco suivant f 0 interco s = (if interco < 0 then Inr s else Inl CarburantEpuise)"
| "boucle_interco suivant f (Suc n) interco s =
     (if interco < 0 then Inr s
      else bindE (f (nat interco) s) (\<lambda>s'.
           bindE (lire suivant (nat interco)) (\<lambda>j. boucle_interco suivant f n j s')))"

subsection \<open>Chains\<close>

fun chaine :: "int list \<Rightarrow> int \<Rightarrow> nat list \<Rightarrow> bool" where
  "chaine suivant i [] = (i < 0)"
| "chaine suivant i (l # ls) =
     (i = int l \<and> l < length suivant \<and> chaine suivant (suivant ! l) ls)"

lemma boucle_interco_chaine:
  "chaine suivant i ls \<Longrightarrow> length ls \<le> n \<Longrightarrow> boucle_interco suivant f n i s = forE ls f s"
proof (induction ls arbitrary: i n s)
  case Nil
  then show ?case by (cases n) auto
next
  case (Cons l ls)
  then obtain m where m: "n = Suc m" by (cases n) auto
  show ?case
    using Cons m by (cases "f l s") auto
qed

lemma chaine_frame:
  "chaine suivant i ls \<Longrightarrow> k \<notin> set ls \<Longrightarrow> chaine (suivant[k := v]) i ls"
  by (induction ls arbitrary: i) auto

text \<open>The links among the first \<open>n\<close> whose end point (in \<open>xs\<close>) is \<open>p\<close>, last one first.\<close>

definition liens :: "nat list \<Rightarrow> nat \<Rightarrow> nat \<Rightarrow> nat list" where
  "liens xs p n = rev (filter (\<lambda>l. xs ! l = p) [0..<n])"

lemma liens_0 [simp]: "liens xs p 0 = []"
  by (simp add: liens_def)

lemma liens_Suc: "liens xs p (Suc n) = (if xs ! n = p then n # liens xs p n else liens xs p n)"
  by (simp add: liens_def)

lemma set_liens [simp]: "set (liens xs p n) = {l. l < n \<and> xs ! l = p}"
  by (auto simp: liens_def)

lemma distinct_liens [simp]: "distinct (liens xs p n)"
  by (simp add: liens_def)

lemma length_liens_le: "length (liens xs p n) \<le> n"
  by (simp add: liens_def) (metis length_filter_le length_upt minus_nat.diff_0)

definition chainage_jusqua :: "PROBLEME_HEBDO \<Rightarrow> nat \<Rightarrow> bool" where
  "chainage_jusqua h n \<longleftrightarrow> (\<forall>p < NombreDePays h.
     chaine (IndexSuivantIntercoOrigine h) (IndexDebutIntercoOrigine h ! p)
            (liens (PaysOrigineDeLInterconnexion h) p n) \<and>
     chaine (IndexSuivantIntercoExtremite h) (IndexDebutIntercoExtremite h ! p)
            (liens (PaysExtremiteDeLInterconnexion h) p n))"

definition intercos_ok :: "PROBLEME_HEBDO \<Rightarrow> bool" where
  "intercos_ok h \<longleftrightarrow>
     length (PaysOrigineDeLInterconnexion h) = NombreDInterconnexions h \<and>
     length (PaysExtremiteDeLInterconnexion h) = NombreDInterconnexions h \<and>
     list_all (\<lambda>p. p < NombreDePays h) (PaysOrigineDeLInterconnexion h) \<and>
     list_all (\<lambda>p. p < NombreDePays h) (PaysExtremiteDeLInterconnexion h) \<and>
     length (IndexDebutIntercoOrigine h) = NombreDePays h \<and>
     length (IndexDebutIntercoExtremite h) = NombreDePays h \<and>
     length (IndexSuivantIntercoOrigine h) = NombreDInterconnexions h \<and>
     length (IndexSuivantIntercoExtremite h) = NombreDInterconnexions h"

text \<open>What the chaining leaves alone: every field but the four index vectors.\<close>

definition sans_index :: "PROBLEME_HEBDO \<Rightarrow> PROBLEME_HEBDO" where
  "sans_index h = h\<lparr>IndexDebutIntercoOrigine := [], IndexSuivantIntercoOrigine := [],
     IndexDebutIntercoExtremite := [], IndexSuivantIntercoExtremite := []\<rparr>"


subsection \<open>The loops\<close>

lemma sans_indexD:
  assumes "sans_index h' = sans_index h"
  shows "NombreDePays h' = NombreDePays h" "NombreDInterconnexions h' = NombreDInterconnexions h"
    "PaysOrigineDeLInterconnexion h' = PaysOrigineDeLInterconnexion h"
    "PaysExtremiteDeLInterconnexion h' = PaysExtremiteDeLInterconnexion h"
  using arg_cong [OF assms, of NombreDePays] arg_cong [OF assms, of NombreDInterconnexions]
    arg_cong [OF assms, of PaysOrigineDeLInterconnexion]
    arg_cong [OF assms, of PaysExtremiteDeLInterconnexion]
  by (simp_all add: sans_index_def)

lemma initialiser_debuts_ok:
  assumes "intercos_ok h" and "p < NombreDePays h"
  shows "returns (initialiser_debuts p h) (\<lambda>h'. sans_index h' = sans_index h \<and> intercos_ok h' \<and>
    IndexDebutIntercoOrigine h' = (IndexDebutIntercoOrigine h)[p := -1] \<and>
    IndexDebutIntercoExtremite h' = (IndexDebutIntercoExtremite h)[p := -1])"
  using assms by (simp add: initialiser_debuts_def intercos_ok_def sans_index_def)

lemma boucle_initialiser:
  assumes "intercos_ok h"
  shows "returns (forE [0..<NombreDePays h] initialiser_debuts h)
    (\<lambda>h'. sans_index h' = sans_index h \<and> intercos_ok h' \<and> chainage_jusqua h' 0)"
proof -
  let ?I = "\<lambda>n h'. sans_index h' = sans_index h \<and> intercos_ok h' \<and>
     (\<forall>p<n. IndexDebutIntercoOrigine h' ! p = -1 \<and> IndexDebutIntercoExtremite h' ! p = -1)"
  have "returns (forE [0..<NombreDePays h] initialiser_debuts h) (?I (NombreDePays h))"
  proof (rule returns_for_upt)
    show "?I 0 h" using assms by simp
  next
    fix p h'
    assume p: "p < NombreDePays h" and I: "?I p h'"
    then have "p < NombreDePays h'"
      using sans_indexD(1) [of h' h] by simp
    moreover from this have "p < length (IndexDebutIntercoOrigine h')"
      "p < length (IndexDebutIntercoExtremite h')"
      using I by (simp_all add: intercos_ok_def)
    ultimately show "returns (initialiser_debuts p h') (?I (Suc p))"
      by (intro returns_mono [OF initialiser_debuts_ok])
        (use I in \<open>auto simp: nth_list_update less_Suc_eq\<close>)
  qed
  then show ?thesis
  proof (rule returns_mono)
    fix h' assume I: "?I (NombreDePays h) h'"
    then show "sans_index h' = sans_index h \<and> intercos_ok h' \<and> chainage_jusqua h' 0"
      using sans_indexD(1) [of h' h] by (simp add: chainage_jusqua_def)
  qed
qed

lemma chainer_interco_ok:
  assumes ok: "intercos_ok h" and k: "k < NombreDInterconnexions h" and ch: "chainage_jusqua h k"
  shows "returns (chainer_interco k h)
    (\<lambda>h'. sans_index h' = sans_index h \<and> intercos_ok h' \<and> chainage_jusqua h' (Suc k))"
proof -
  let ?o = "PaysOrigineDeLInterconnexion h ! k" and ?e = "PaysExtremiteDeLInterconnexion h ! k"
  have oe: "?o < NombreDePays h" "?e < NombreDePays h"
    using ok k by (simp_all add: intercos_ok_def list_all_length)
  have "chaine ((IndexSuivantIntercoOrigine h)[k := IndexDebutIntercoOrigine h ! ?o])
     (if p = ?o then int k else IndexDebutIntercoOrigine h ! p)
     (liens (PaysOrigineDeLInterconnexion h) p (Suc k))" if "p < NombreDePays h" for p
    using ch that ok k by (auto simp: chainage_jusqua_def liens_Suc intercos_ok_def intro!: chaine_frame)
  moreover have "chaine ((IndexSuivantIntercoExtremite h)[k := IndexDebutIntercoExtremite h ! ?e])
     (if p = ?e then int k else IndexDebutIntercoExtremite h ! p)
     (liens (PaysExtremiteDeLInterconnexion h) p (Suc k))" if "p < NombreDePays h" for p
    using ch that ok k by (auto simp: chainage_jusqua_def liens_Suc intercos_ok_def intro!: chaine_frame)
  ultimately show ?thesis
    using ok k oe
    by (simp add: chainer_interco_def intercos_ok_def sans_index_def chainage_jusqua_def
        nth_list_update eq_commute [of _ "PaysOrigineDeLInterconnexion h ! k"]
        eq_commute [of _ "PaysExtremiteDeLInterconnexion h ! k"])
qed

lemma OPT_Chainages_ok:
  assumes "intercos_ok h"
  shows "returns (OPT_ChainagesDesIntercoPartantDUnNoeud h)
    (\<lambda>h'. sans_index h' = sans_index h \<and> intercos_ok h' \<and>
       chainage_jusqua h' (NombreDInterconnexions h))"
proof -
  let ?n = "NombreDInterconnexions h"
  let ?I = "\<lambda>k h'. sans_index h' = sans_index h \<and> intercos_ok h' \<and> chainage_jusqua h' k"
  have "returns (forE [0..<?n] chainer_interco h1) (?I ?n)" if h1: "?I 0 h1" for h1
  proof (rule returns_for_upt)
    show "?I 0 h1" by (rule h1)
  next
    fix k h'
    assume k: "k < ?n" and I: "?I k h'"
    show "returns (chainer_interco k h') (?I (Suc k))"
      by (rule returns_mono [OF chainer_interco_ok]) (use I k sans_indexD(2) [of h' h] in auto)
  qed
  then show ?thesis
    unfolding OPT_ChainagesDesIntercoPartantDUnNoeud_def returns_bindE
    by (intro returns_mono [OF boucle_initialiser [OF assms]]) simp
qed

text \<open>
  After \<open>OPT_ChainagesDesIntercoPartantDUnNoeud\<close>, the walk over the links leaving an area
  (and the walk over the links entering it) terminates within one step per link and runs its body
  exactly once on each such link, in decreasing link order, and on no other link.
\<close>

theorem chainage_parcours:
  assumes "intercos_ok h" and "pays < NombreDePays h"
  shows "\<exists>h'. OPT_ChainagesDesIntercoPartantDUnNoeud h = Inr h' \<and>
    boucle_interco (IndexSuivantIntercoOrigine h') f (NombreDInterconnexions h)
        (IndexDebutIntercoOrigine h' ! pays) s =
      forE (liens (PaysOrigineDeLInterconnexion h) pays (NombreDInterconnexions h)) f s \<and>
    boucle_interco (IndexSuivantIntercoExtremite h') f (NombreDInterconnexions h)
        (IndexDebutIntercoExtremite h' ! pays) s =
      forE (liens (PaysExtremiteDeLInterconnexion h) pays (NombreDInterconnexions h)) f s"
proof -
  from OPT_Chainages_ok [OF assms(1)] obtain h' where
    h': "OPT_ChainagesDesIntercoPartantDUnNoeud h = Inr h'" and sans: "sans_index h' = sans_index h"
    and ch: "chainage_jusqua h' (NombreDInterconnexions h)"
    by (auto elim: returnsE)
  from sans have eqs: "NombreDePays h' = NombreDePays h"
    "PaysOrigineDeLInterconnexion h' = PaysOrigineDeLInterconnexion h"
    "PaysExtremiteDeLInterconnexion h' = PaysExtremiteDeLInterconnexion h"
    by (auto dest: sans_indexD)
  show ?thesis
    using h' ch assms(2) eqs length_liens_le
    by (auto simp: chainage_jusqua_def intro!: boucle_interco_chaine)
qed

end
