(* ===== verification/Hebdo_Invariant.thy ===== *)
theory Hebdo_Invariant
  imports Interco_Chaining
begin

text \<open>
  What the construction of the linear problem relies on: the sizes of the vectors of
  \<open>PROBLEME_HEBDO\<close> (\<open>SIM_AllocationProblemeHebdo\<close>), indices that stay in range, chained links
  (\<open>OPT_ChainagesDesIntercoPartantDUnNoeud\<close>), the bounds the data loading enforces (offsets of
  binding constraints, minimum up and down times), and the two supported optimisation ranges
  (one day at a time, or the whole week).
\<close>

definition horizon_ok :: "PROBLEME_HEBDO \<Rightarrow> bool" where
  "horizon_ok h \<longleftrightarrow> 0 < NombreDePasDeTempsPourUneOptimisation h \<and>
     NombreDePasDeTempsPourUneOptimisation h dvd NombreDePasDeTemps h \<and>
     NombreDePasDeTempsPourUneOptimisation h \<le> NombreDePasDeTemps h \<and>
     NombreDePasDeTemps h < 2 ^ 30"

text \<open>The numbering of days: every time step of a day-long slot belongs to one of the 7 days.\<close>

definition jours_ok :: "PROBLEME_HEBDO \<Rightarrow> bool" where
  "jours_ok h \<longleftrightarrow> 0 < NombreDePasDeTempsDUneJournee h \<and>
     NombreDePasDeTempsDUneJournee h dvd NombreDePasDeTempsPourUneOptimisation h \<and>
     length (NumeroDeJourDuPasDeTemps h) = NombreDePasDeTemps h \<and>
     list_all (\<lambda>j. j < 7) (NumeroDeJourDuPasDeTemps h)"

definition paliers_ok :: "PROBLEME_HEBDO \<Rightarrow> PALIERS_THERMIQUES \<Rightarrow> bool" where
  "paliers_ok h pt \<longleftrightarrow>
     length (NumeroDuPalierDansLEnsembleDesPaliersThermiques pt) = NombreDePaliersThermiques pt \<and>
     list_all (\<lambda>p. p < NombreTotalDePaliersThermiques h)
       (NumeroDuPalierDansLEnsembleDesPaliersThermiques pt) \<and>
     length (pminDUnGroupeDuPalierThermique pt) = NombreDePaliersThermiques pt \<and>
     length (PmaxDUnGroupeDuPalierThermique pt) = NombreDePaliersThermiques pt \<and>
     length (DureeMinimaleDeMarcheDUnGroupeDuPalierThermique pt) = NombreDePaliersThermiques pt \<and>
     length (DureeMinimaleDArretDUnGroupeDuPalierThermique pt) = NombreDePaliersThermiques pt \<and>
     length (NomsDesPaliersThermiques pt) = NombreDePaliersThermiques pt"

text \<open>
  The minimum up and down times fit in the optimisation range, and the down time is at least one
  hour. They only matter when the start-up costs are optimised.
\<close>

definition demarrage_ok :: "PROBLEME_HEBDO \<Rightarrow> PALIERS_THERMIQUES \<Rightarrow> bool" where
  "demarrage_ok h pt \<longleftrightarrow>
     list_all (\<lambda>d. d \<le> int (NombreDePasDeTempsPourUneOptimisation h))
       (DureeMinimaleDeMarcheDUnGroupeDuPalierThermique pt) \<and>
     list_all (\<lambda>d. 1 \<le> d \<and> d \<le> int (NombreDePasDeTempsPourUneOptimisation h))
       (DureeMinimaleDArretDUnGroupeDuPalierThermique pt)"

definition decalages_ok :: "PROBLEME_HEBDO \<Rightarrow> int list \<Rightarrow> bool" where
  "decalages_ok h os \<longleftrightarrow> list_all (\<lambda>d. - int (NombreDePasDeTemps h) \<le> d \<and> d < 2 ^ 30) os"

definition couplante_ok :: "PROBLEME_HEBDO \<Rightarrow> CONTRAINTES_COUPLANTES \<Rightarrow> bool" where
  "couplante_ok h c \<longleftrightarrow>
     SensDeLaContrainteCouplante c \<in> {CHR ''<'', CHR ''='', CHR ''>''} \<and>
     length (PoidsDeLInterconnexion c) = NombreDInterconnexionsDansLaContrainteCouplante c \<and>
     length (NumeroDeLInterconnexion c) = NombreDInterconnexionsDansLaContrainteCouplante c \<and>
     length (OffsetTemporelSurLInterco c) = NombreDInterconnexionsDansLaContrainteCouplante c \<and>
     list_all (\<lambda>l. l < NombreDInterconnexions h) (NumeroDeLInterconnexion c) \<and>
     decalages_ok h (OffsetTemporelSurLInterco c) \<and>
     length (PoidsDuPalierDispatch c) = NombreDePaliersDispatchDansLaContrainteCouplante c \<and>
     length (PaysDuPalierDispatch c) = NombreDePaliersDispatchDansLaContrainteCouplante c \<and>
     length (NumeroDuPalierDispatch c) = NombreDePaliersDispatchDansLaContrainteCouplante c \<and>
     length (OffsetTemporelSurLePalierDispatch c)
       = NombreDePaliersDispatchDansLaContrainteCouplante c \<and>
     list_all (\<lambda>p. p < NombreDePays h) (PaysDuPalierDispatch c) \<and>
     list_all2 (\<lambda>p i. i < NombreDePaliersThermiques (PaliersThermiquesDuPays h ! p))
       (PaysDuPalierDispatch c) (NumeroDuPalierDispatch c) \<and>
     decalages_ok h (OffsetTemporelSurLePalierDispatch c)"

definition hebdo_ok :: "PROBLEME_HEBDO \<Rightarrow> bool" where
  "hebdo_ok h \<longleftrightarrow> horizon_ok h \<and> jours_ok h \<and> intercos_ok h \<and>
     chainage_jusqua h (NombreDInterconnexions h) \<and>
     length (NomsDesPays h) = NombreDePays h \<and>
     length (CoutDeTransport h) = NombreDInterconnexions h \<and>
     length (PaliersThermiquesDuPays h) = NombreDePays h \<and>
     list_all (paliers_ok h) (PaliersThermiquesDuPays h) \<and>
     (OptimisationAvecCoutsDeDemarrage h \<longrightarrow> list_all (demarrage_ok h) (PaliersThermiquesDuPays h)) \<and>
     length (CaracteristiquesHydrauliques h) = NombreDePays h \<and>
     length (ShortTermStorage h) = NombreDePays h \<and>
     list_all (list_all (\<lambda>st. clusterGlobalIndex st < NumberOfShortTermStorages h))
       (ShortTermStorage h) \<and>
     length (DefaillanceNegativeUtiliserHydro h) = NombreDePays h \<and>
     length (MatriceDesContraintesCouplantes h) = NombreDeContraintesCouplantes h \<and>
     list_all (couplante_ok h) (MatriceDesContraintesCouplantes h)"

lemma hebdo_ok_len [simp]:
  assumes "hebdo_ok h"
  shows "length (NomsDesPays h) = NombreDePays h"
    "length (CoutDeTransport h) = NombreDInterconnexions h"
    "length (PaliersThermiquesDuPays h) = NombreDePays h"
    "length (CaracteristiquesHydrauliques h) = NombreDePays h"
    "length (ShortTermStorage h) = NombreDePays h"
    "length (DefaillanceNegativeUtiliserHydro h) = NombreDePays h"
    "length (MatriceDesContraintesCouplantes h) = NombreDeContraintesCouplantes h"
    "length (IndexDebutIntercoOrigine h) = NombreDePays h"
    "length (IndexDebutIntercoExtremite h) = NombreDePays h"
    "length (PaysOrigineDeLInterconnexion h) = NombreDInterconnexions h"
    "length (PaysExtremiteDeLInterconnexion h) = NombreDInterconnexions h"
    "length (NumeroDeJourDuPasDeTemps h) = NombreDePasDeTemps h"
  using assms by (simp_all add: hebdo_ok_def intercos_ok_def jours_ok_def)

lemma hebdo_ok_horizon [simp]:
  assumes "hebdo_ok h"
  shows "0 < NombreDePasDeTempsPourUneOptimisation h"
    "NombreDePasDeTempsPourUneOptimisation h dvd NombreDePasDeTemps h"
    "NombreDePasDeTempsPourUneOptimisation h \<le> NombreDePasDeTemps h"
    "0 < NombreDePasDeTemps h"
    "0 < NombreDePasDeTempsDUneJournee h"
    "NombreDePasDeTempsDUneJournee h dvd NombreDePasDeTempsPourUneOptimisation h"
  using assms unfolding hebdo_ok_def horizon_ok_def jours_ok_def by (blast intro: less_le_trans)+

lemma pdt_lt [simp]:
  "hebdo_ok h \<Longrightarrow> pdt < NombreDePasDeTempsPourUneOptimisation h \<Longrightarrow> pdt < NombreDePasDeTemps h"
  using hebdo_ok_horizon(3) [of h] by linarith

lemma hebdo_ok_extremites [simp]:
  assumes "hebdo_ok h" and "l < NombreDInterconnexions h"
  shows "PaysOrigineDeLInterconnexion h ! l < NombreDePays h"
    "PaysExtremiteDeLInterconnexion h ! l < NombreDePays h"
  using assms unfolding hebdo_ok_def intercos_ok_def by (simp_all add: list_all_length)

lemma hebdo_ok_paliers:
  assumes "hebdo_ok h" and "pays < NombreDePays h"
  shows "paliers_ok h (PaliersThermiquesDuPays h ! pays)"
  using assms hebdo_ok_len(3) [OF assms(1)] unfolding hebdo_ok_def by (auto simp: list_all_length)

lemma hebdo_ok_palier [simp]:
  assumes "hebdo_ok h" and "pays < NombreDePays h"
    and "i < NombreDePaliersThermiques (PaliersThermiquesDuPays h ! pays)"
  shows "NumeroDuPalierDansLEnsembleDesPaliersThermiques (PaliersThermiquesDuPays h ! pays) ! i
    < NombreTotalDePaliersThermiques h"
  using hebdo_ok_paliers [OF assms(1,2)] assms(3) by (simp add: paliers_ok_def list_all_length)

lemma hebdo_ok_len_paliers [simp]:
  assumes "hebdo_ok h" and "pays < NombreDePays h"
  defines "pt \<equiv> PaliersThermiquesDuPays h ! pays"
  shows "length (NumeroDuPalierDansLEnsembleDesPaliersThermiques pt) = NombreDePaliersThermiques pt"
    "length (pminDUnGroupeDuPalierThermique pt) = NombreDePaliersThermiques pt"
    "length (PmaxDUnGroupeDuPalierThermique pt) = NombreDePaliersThermiques pt"
    "length (DureeMinimaleDeMarcheDUnGroupeDuPalierThermique pt) = NombreDePaliersThermiques pt"
    "length (DureeMinimaleDArretDUnGroupeDuPalierThermique pt) = NombreDePaliersThermiques pt"
    "length (NomsDesPaliersThermiques pt) = NombreDePaliersThermiques pt"
  using hebdo_ok_paliers [OF assms(1,2)] by (simp_all add: paliers_ok_def pt_def)

lemma hebdo_ok_stockage [simp]:
  assumes "hebdo_ok h" and "pays < NombreDePays h" and "st \<in> set (ShortTermStorage h ! pays)"
  shows "clusterGlobalIndex st < NumberOfShortTermStorages h"
  using assms hebdo_ok_len(5) [OF assms(1)] unfolding hebdo_ok_def
  by (auto simp: in_set_conv_nth list_all_length)

lemma hebdo_ok_couplante:
  assumes "hebdo_ok h" and "c < NombreDeContraintesCouplantes h"
  shows "couplante_ok h (MatriceDesContraintesCouplantes h ! c)"
  using assms hebdo_ok_len(7) [OF assms(1)] unfolding hebdo_ok_def by (auto simp: list_all_length)

lemma hebdo_ok_jour [simp]:
  assumes "hebdo_ok h" and "pdt < NombreDePasDeTemps h"
  shows "NumeroDeJourDuPasDeTemps h ! pdt < 7"
  using assms hebdo_ok_len(12) [OF assms(1)] unfolding hebdo_ok_def jours_ok_def
  by (auto simp: list_all_length)

text \<open>The two walks of an area's links, on a chained problem.\<close>

lemma hebdo_ok_chaine:
  assumes "hebdo_ok h" and "pays < NombreDePays h"
  shows "boucle_interco (IndexSuivantIntercoOrigine h) f (NombreDInterconnexions h)
      (IndexDebutIntercoOrigine h ! pays) s =
    forE (liens (PaysOrigineDeLInterconnexion h) pays (NombreDInterconnexions h)) f s"
   "boucle_interco (IndexSuivantIntercoExtremite h) f (NombreDInterconnexions h)
      (IndexDebutIntercoExtremite h ! pays) s =
    forE (liens (PaysExtremiteDeLInterconnexion h) pays (NombreDInterconnexions h)) f s"
  using assms length_liens_le unfolding hebdo_ok_def chainage_jusqua_def
  by (auto intro!: boucle_interco_chaine)

end
