(* ===== verification/Constraint_Builder.thy ===== *)
theory Constraint_Builder
  imports Constraint_Matrix Naming Hebdo_Invariant
begin

text \<open>
  \<open>ConstraintBuilder\<close> and \<open>VariableManager\<close>
  (\<open>src/src/solver/optimisation/constraints/ConstraintBuilder.h\<close> and \<open>.cpp\<close>).

  A constraint class collects terms in the work vectors \<open>Pi\<close> and \<open>Colonne\<close> and loads them as one
  row with \<open>build\<close>. The contract is stated with \<open>append_store\<close> at two levels: \<open>termes\<close> (the
  terms being collected; a term whose variable has number -1 is dropped) and \<open>rangs\<close> (the rows of
  the matrix). \<open>en_cours\<close> is the invariant while a row is being built, \<open>rep_lignes\<close> the one between
  two rows.
\<close>

subsection \<open>The native variables\<close>

text \<open>One constructor per accessor of \<open>VariableManager\<close>.\<close>

datatype native =
    DispatchableProduction nat
  | NumberOfDispatchableUnits nat
  | NumberStoppingDispatchableUnits nat
  | NumberStartingDispatchableUnits nat
  | NumberBreakingDownDispatchableUnits nat
  | NTCDirect nat
  | IntercoDirectCost nat
  | IntercoIndirectCost nat
  | ShortTermStorageInjection nat
  | ShortTermStorageWithdrawal nat
  | ShortTermStorageLevel nat
  | HydProd nat
  | HydProdDown nat
  | HydProdUp nat
  | Pumping nat
  | HydroLevel nat
  | Overflow nat
  | FinalStorage nat
  | LayerStorage nat nat
  | PositiveUnsuppliedEnergy nat
  | NegativeUnsuppliedEnergy nat

fun VariableManager ::
  "CORRESPONDANCES_DES_VARIABLES \<Rightarrow> int list \<Rightarrow> int list list \<Rightarrow> native \<Rightarrow> int resultat" where
  "VariableManager corr stock tranche (DispatchableProduction index) =
     lire (corr NumeroDeVariableDuPalierThermique) index"
| "VariableManager corr stock tranche (NumberOfDispatchableUnits index) =
     lire (corr NumeroDeVariableDuNombreDeGroupesEnMarcheDuPalierThermique) index"
| "VariableManager corr stock tranche (NumberStoppingDispatchableUnits index) =
     lire (corr NumeroDeVariableDuNombreDeGroupesQuiSArretentDuPalierThermique) index"
| "VariableManager corr stock tranche (NumberStartingDispatchableUnits index) =
     lire (corr NumeroDeVariableDuNombreDeGroupesQuiDemarrentDuPalierThermique) index"
| "VariableManager corr stock tranche (NumberBreakingDownDispatchableUnits index) =
     lire (corr NumeroDeVariableDuNombreDeGroupesQuiTombentEnPanneDuPalierThermique) index"
| "VariableManager corr stock tranche (NTCDirect index) =
     lire (corr NumeroDeVariableDeLInterconnexion) index"
| "VariableManager corr stock tranche (IntercoDirectCost index) =
     lire (corr NumeroDeVariableCoutOrigineVersExtremiteDeLInterconnexion) index"
| "VariableManager corr stock tranche (IntercoIndirectCost index) =
     lire (corr NumeroDeVariableCoutExtremiteVersOrigineDeLInterconnexion) index"
| "VariableManager corr stock tranche (ShortTermStorageInjection index) =
     lire (corr InjectionVariable) index"
| "VariableManager corr stock tranche (ShortTermStorageWithdrawal index) =
     lire (corr WithdrawalVariable) index"
| "VariableManager corr stock tranche (ShortTermStorageLevel index) =
     lire (corr LevelVariable) index"
| "VariableManager corr stock tranche (HydProd index) =
     lire (corr NumeroDeVariablesDeLaProdHyd) index"
| "VariableManager corr stock tranche (HydProdDown index) =
     lire (corr NumeroDeVariablesVariationHydALaBaisse) index"
| "VariableManager corr stock tranche (HydProdUp index) =
     lire (corr NumeroDeVariablesVariationHydALaHausse) index"
| "VariableManager corr stock tranche (Pumping index) =
     lire (corr NumeroDeVariablesDePompage) index"
| "VariableManager corr stock tranche (HydroLevel index) =
     lire (corr NumeroDeVariablesDeNiveau) index"
| "VariableManager corr stock tranche (Overflow index) =
     lire (corr NumeroDeVariablesDeDebordement) index"
| "VariableManager corr stock tranche (FinalStorage index) = lire stock index"
| "VariableManager corr stock tranche (LayerStorage area layer) =
     bindE (lire tranche area) (\<lambda>layers. lire layers layer)"
| "VariableManager corr stock tranche (PositiveUnsuppliedEnergy index) =
     lire (corr NumeroDeVariableDefaillancePositive) index"
| "VariableManager corr stock tranche (NegativeUnsuppliedEnergy index) =
     lire (corr NumeroDeVariableDefaillanceNegative) index"

subsection \<open>The builder\<close>

text \<open>
  \<open>int pdt = hourInWeek_ + offset\<close> is computed on 32 bits; the remainder is C's, of the sign of
  its first operand.
\<close>

definition GetShiftedTimeStep :: "PROBLEME_HEBDO \<Rightarrow> nat \<Rightarrow> int \<Rightarrow> int \<Rightarrow> int" where
  "GetShiftedTimeStep h hour offset delta =
     (let pdt = signed_take_bit 31 (int hour + offset);
          nbTimeSteps = int (NombreDePasDeTempsPourUneOptimisation h)
      in if offset \<noteq> 0
         then if 0 \<le> offset then pdt smod nbTimeSteps else (pdt + delta) smod nbTimeSteps
         else pdt)"

definition maj_builder :: "(builder \<Rightarrow> builder) \<Rightarrow> etat \<Rightarrow> etat" where
  "maj_builder f s = s\<lparr>courant := f (courant s)\<rparr>"

definition updateHourWithinWeek :: "nat \<Rightarrow> etat \<Rightarrow> etat resultat" where
  "updateHourWithinWeek hour s = Inr (maj_builder (\<lambda>b. b\<lparr>hourInWeek := hour\<rparr>) s)"

definition AddVariable :: "int \<Rightarrow> real \<Rightarrow> etat \<Rightarrow> etat resultat" where
  "AddVariable varIndex coeff s =
     (if 0 \<le> varIndex
      then let n = nombreDeTermes (courant s); p = ProblemeAResoudre s in
        bindE (ecrire (Pi p) n coeff) (\<lambda>pis.
        bindE (ecrire (Colonne p) n varIndex) (\<lambda>cols.
        Inr (maj_builder (\<lambda>b. b\<lparr>nombreDeTermes := n + 1\<rparr>)
               (s\<lparr>ProblemeAResoudre := p\<lparr>Pi := pis, Colonne := cols\<rparr>\<rparr>))))
      else Inr s)"

definition GetVariable ::
  "PROBLEME_HEBDO \<Rightarrow> native \<Rightarrow> int \<Rightarrow> int \<Rightarrow> etat \<Rightarrow> int resultat" where
  "GetVariable h nv offset delta s =
     bindE (lire_int (CorrespondanceVarNativesVarOptim s)
              (GetShiftedTimeStep h (hourInWeek (courant s)) offset delta)) (\<lambda>corr.
     VariableManager corr (NumeroDeVariableStockFinal s) (NumeroDeVariableDeTrancheDeStock s) nv)"

text \<open>The method of the builder named by the constructor of \<open>nv\<close>, all its arguments given.\<close>

definition ajouter_decale ::
  "PROBLEME_HEBDO \<Rightarrow> native \<Rightarrow> real \<Rightarrow> int \<Rightarrow> int \<Rightarrow> etat \<Rightarrow> etat resultat" where
  "ajouter_decale h nv coeff offset delta s =
     bindE (GetVariable h nv offset delta s) (\<lambda>varIndex. AddVariable varIndex coeff s)"

text \<open>The same with the default arguments \<open>offset = 0\<close>, \<open>delta = 0\<close>.\<close>

definition ajouter :: "PROBLEME_HEBDO \<Rightarrow> native \<Rightarrow> real \<Rightarrow> etat \<Rightarrow> etat resultat" where
  "ajouter h nv coeff = ajouter_decale h nv coeff 0 0"

definition SetOperator :: "char \<Rightarrow> etat \<Rightarrow> etat resultat" where
  "SetOperator c s =
     (if c = CHR ''<'' \<or> c = CHR ''='' \<or> c = CHR ''>''
      then Inr (maj_builder (\<lambda>b. b\<lparr>operateur := c\<rparr>) s)
      else Inl (InvalidOperator c))"

definition equalTo :: "etat \<Rightarrow> etat resultat" where
  "equalTo s = Inr (maj_builder (\<lambda>b. b\<lparr>operateur := CHR ''=''\<rparr>) s)"

definition lessThan :: "etat \<Rightarrow> etat resultat" where
  "lessThan s = Inr (maj_builder (\<lambda>b. b\<lparr>operateur := CHR ''<''\<rparr>) s)"

definition greaterThan :: "etat \<Rightarrow> etat resultat" where
  "greaterThan s = Inr (maj_builder (\<lambda>b. b\<lparr>operateur := CHR ''>''\<rparr>) s)"

definition NumberOfVariables :: "etat \<Rightarrow> nat" where
  "NumberOfVariables s = nombreDeTermes (courant s)"

definition build :: "etat \<Rightarrow> etat resultat" where
  "build s =
     bindE (if 0 < nombreDeTermes (courant s)
            then maj_probleme (\<lambda>p. OPT_ChargerLaContrainteDansLaMatriceDesContraintes
                   (Pi p) (Colonne p) (nombreDeTermes (courant s)) (operateur (courant s)) p) s
            else Inr s) (\<lambda>s'.
     Inr (maj_builder (\<lambda>b. b\<lparr>nombreDeTermes := 0\<rparr>) s'))"

text \<open>Running the body of an \<open>add\<close> on the builder of its class; creating the object of a class.\<close>

definition avec :: "classe \<Rightarrow> (etat \<Rightarrow> etat resultat) \<Rightarrow> etat \<Rightarrow> etat resultat" where
  "avec c body s =
     bindE (body (s\<lparr>courant := builders s c\<rparr>)) (\<lambda>s'.
     Inr (s'\<lparr>builders := (builders s')(c := courant s')\<rparr>))"

definition nouveau :: "classe \<Rightarrow> etat \<Rightarrow> etat resultat" where
  "nouveau c s = Inr (s\<lparr>builders := (builders s)(c := builder_init)\<rparr>)"

text \<open>\<open>exportPaliers\<close>: the generation of every thermal cluster of an area, with coefficient -1.\<close>

definition exportPaliers :: "PROBLEME_HEBDO \<Rightarrow> nat \<Rightarrow> etat \<Rightarrow> etat resultat" where
  "exportPaliers h pays s =
     bindE (lire (PaliersThermiquesDuPays h) pays) (\<lambda>pt.
     forE [0..<NombreDePaliersThermiques pt] (\<lambda>index s.
       bindE (lire (NumeroDuPalierDansLEnsembleDesPaliersThermiques pt) index) (\<lambda>palier.
       ajouter h (DispatchableProduction palier) (- 1) s)) s)"

text \<open>Recording the number the next constraint will get.\<close>

definition numeroter_cnt :: "champ_cnt \<Rightarrow> nat \<Rightarrow> nat \<Rightarrow> etat \<Rightarrow> etat resultat" where
  "numeroter_cnt c pdt i s = ecrire_cnt c pdt i (numero_courant s) s"

definition numeroter_cnt_pays :: "champ_pays \<Rightarrow> nat \<Rightarrow> etat \<Rightarrow> etat resultat" where
  "numeroter_cnt_pays c pays s = ecrire_cnt_pays c pays (numero_courant s) s"

subsection \<open>What a construction of the matrix starts from\<close>

text \<open>
  A \<open>contexte\<close> is what the matrix construction reads and never writes: the business problem, the
  numbers of the variables, and the sizes the linear problem was allocated with. \<open>kcote\<close> is the
  part of the linear problem that belongs to the variables.
\<close>

definition cote_variables ::
  "PROBLEME_ANTARES_A_RESOUDRE \<Rightarrow> nat \<times> type_variable list \<times> string list \<times> bool list \<times> vecteurs" where
  "cote_variables p =
     (NombreDeVariables p, TypeDeVariable p, NomDesVariables p, VariablesEntieres p, cote_vecteurs p)"

record contexte =
  kh :: PROBLEME_HEBDO
  kvar :: "CORRESPONDANCES_DES_VARIABLES list"
  kstock :: "int list"
  ktranche :: "int list list"
  knv :: nat
  knc :: nat
  kcote :: "nat \<times> type_variable list \<times> string list \<times> bool list \<times> vecteurs"

definition dims_var ::
  "PROBLEME_HEBDO \<Rightarrow> CORRESPONDANCES_DES_VARIABLES list \<Rightarrow> int list \<Rightarrow> int list list \<Rightarrow> bool" where
  "dims_var h var stock tranche \<longleftrightarrow>
     length var = NombreDePasDeTemps h \<and>
     (\<forall>corr \<in> set var. \<forall>c. length (corr c) = taille_var h c) \<and>
     length stock = NombreDePays h \<and> length tranche = NombreDePays h \<and>
     (\<forall>t \<in> set tranche. length t = 100)"

definition dims_cnt :: "PROBLEME_HEBDO \<Rightarrow> etat \<Rightarrow> bool" where
  "dims_cnt h s \<longleftrightarrow>
     length (CorrespondanceCntNativesCntOptim s) = NombreDePasDeTemps h \<and>
     (\<forall>corr \<in> set (CorrespondanceCntNativesCntOptim s). \<forall>c. length (corr c) = taille_cnt h c) \<and>
     length (CorrespondanceCntNativesCntOptimJournalieres s) = 7 \<and>
     (\<forall>corr \<in> set (CorrespondanceCntNativesCntOptimJournalieres s).
        length corr = NombreDeContraintesCouplantes h) \<and>
     length (CorrespondanceCntNativesCntOptimHebdomadaires s) = NombreDeContraintesCouplantes h \<and>
     (\<forall>c. length (NumerosDeContrainteDuPays s c) = NombreDePays h)"

definition contexte_ok :: "contexte \<Rightarrow> bool" where
  "contexte_ok K \<longleftrightarrow> hebdo_ok (kh K) \<and> dims_var (kh K) (kvar K) (kstock K) (ktranche K)"

lemma contexte_ok_hebdo [simp]: "contexte_ok K \<Longrightarrow> hebdo_ok (kh K)"
  by (simp add: contexte_ok_def)

lemma contexte_ok_horizon: "contexte_ok K \<Longrightarrow> horizon_ok (kh K)"
  unfolding contexte_ok_def hebdo_ok_def by blast

definition inv :: "contexte \<Rightarrow> etat \<Rightarrow> bool" where
  "inv K s \<longleftrightarrow>
     CorrespondanceVarNativesVarOptim s = kvar K \<and> NumeroDeVariableStockFinal s = kstock K \<and>
     NumeroDeVariableDeTrancheDeStock s = ktranche K \<and> dims_cnt (kh K) s \<and>
     matrice_inv (knc K) (ProblemeAResoudre s) \<and>
     length (Pi (ProblemeAResoudre s)) = knv K \<and> length (Colonne (ProblemeAResoudre s)) = knv K \<and>
     length (NomDesContraintes (ProblemeAResoudre s)) = knc K \<and>
     cote_variables (ProblemeAResoudre s) = kcote K \<and>
     (\<forall>c. nombreDeTermes (builders s c) = 0)"

text \<open>Between two rows.\<close>

definition rep_lignes :: "contexte \<Rightarrow> unit \<Rightarrow> etat \<Rightarrow> ligne list \<Rightarrow> bool" where
  "rep_lignes K u s ls \<longleftrightarrow> inv K s \<and> lignes (ProblemeAResoudre s) = ls"

text \<open>
  While a row is being built: \<open>ls\<close> are the rows of the matrix, \<open>ts\<close> the terms collected so far.
  The mode tells the hour and the operator of the running builder, where they are known.
\<close>

definition mode_ok :: "contexte \<Rightarrow> nat option \<times> char option \<Rightarrow> builder \<Rightarrow> bool" where
  "mode_ok K m b \<longleftrightarrow>
     (case fst m of None \<Rightarrow> True | Some hr \<Rightarrow> hourInWeek b = hr \<and> hr < NombreDePasDeTemps (kh K)) \<and>
     (case snd m of None \<Rightarrow> True | Some op \<Rightarrow> operateur b = op)"

definition en_cours ::
  "contexte \<Rightarrow> ligne list \<Rightarrow> nat option \<times> char option \<Rightarrow> etat \<Rightarrow> (int \<times> real) list \<Rightarrow> bool" where
  "en_cours K ls m s ts \<longleftrightarrow>
     inv K s \<and> lignes (ProblemeAResoudre s) = ls \<and> length ls < knc K \<and>
     mode_ok K m (courant s) \<and> nombreDeTermes (courant s) = length ts \<and> length ts \<le> knv K \<and>
     take (length ts) (Colonne (ProblemeAResoudre s)) = map fst ts \<and>
     take (length ts) (Pi (ProblemeAResoudre s)) = map snd ts"

interpretation termes: append_store "en_cours K ls" "\<lambda>_. True" "knv K" for K ls
  by unfold_locales simp

text \<open>A row must fit in the work vectors, which have one slot per variable.\<close>

definition tient :: "contexte \<Rightarrow> ligne list \<Rightarrow> bool" where
  "tient K ls \<longleftrightarrow> (\<forall>l \<in> set ls. length (snd l) \<le> knv K)"

interpretation rangs: append_store "rep_lignes K" "tient K" "knc K" for K
  by unfold_locales (simp add: tient_def)

abbreviation collecte ::
  "contexte \<Rightarrow> ligne list \<Rightarrow> nat option \<times> char option \<Rightarrow> (etat \<Rightarrow> etat resultat)
     \<Rightarrow> (int \<times> real) list \<Rightarrow> nat option \<times> char option \<Rightarrow> bool" where
  "collecte K ls i f ts j \<equiv>
     append_store.emits (en_cours K ls) (\<lambda>_. True) (knv K) i f ts (length ts) j"

abbreviation construit ::
  "contexte \<Rightarrow> (etat \<Rightarrow> etat resultat) \<Rightarrow> ligne list \<Rightarrow> nat \<Rightarrow> bool" where
  "construit K f ls k \<equiv> append_store.emits (rep_lignes K) (tient K) (knc K) () f ls k ()"

subsection \<open>The terms of a row\<close>

fun native_ok :: "PROBLEME_HEBDO \<Rightarrow> native \<Rightarrow> bool" where
  "native_ok h (DispatchableProduction i) = (i < NombreTotalDePaliersThermiques h)"
| "native_ok h (NumberOfDispatchableUnits i) = (i < NombreTotalDePaliersThermiques h)"
| "native_ok h (NumberStoppingDispatchableUnits i) = (i < NombreTotalDePaliersThermiques h)"
| "native_ok h (NumberStartingDispatchableUnits i) = (i < NombreTotalDePaliersThermiques h)"
| "native_ok h (NumberBreakingDownDispatchableUnits i) = (i < NombreTotalDePaliersThermiques h)"
| "native_ok h (NTCDirect i) = (i < NombreDInterconnexions h)"
| "native_ok h (IntercoDirectCost i) = (i < NombreDInterconnexions h)"
| "native_ok h (IntercoIndirectCost i) = (i < NombreDInterconnexions h)"
| "native_ok h (ShortTermStorageInjection i) = (i < NumberOfShortTermStorages h)"
| "native_ok h (ShortTermStorageWithdrawal i) = (i < NumberOfShortTermStorages h)"
| "native_ok h (ShortTermStorageLevel i) = (i < NumberOfShortTermStorages h)"
| "native_ok h (LayerStorage i l) = (i < NombreDePays h \<and> l < 100)"
| "native_ok h (HydProd i) = (i < NombreDePays h)"
| "native_ok h (HydProdDown i) = (i < NombreDePays h)"
| "native_ok h (HydProdUp i) = (i < NombreDePays h)"
| "native_ok h (Pumping i) = (i < NombreDePays h)"
| "native_ok h (HydroLevel i) = (i < NombreDePays h)"
| "native_ok h (Overflow i) = (i < NombreDePays h)"
| "native_ok h (FinalStorage i) = (i < NombreDePays h)"
| "native_ok h (PositiveUnsuppliedEnergy i) = (i < NombreDePays h)"
| "native_ok h (NegativeUnsuppliedEnergy i) = (i < NombreDePays h)"

definition numero :: "contexte \<Rightarrow> nat \<Rightarrow> native \<Rightarrow> int" where
  "numero K hr nv = (case VariableManager (kvar K ! hr) (kstock K) (ktranche K) nv of
     Inl _ \<Rightarrow> -1 | Inr v \<Rightarrow> v)"

text \<open>The term of a variable at an hour: nothing when the variable does not exist.\<close>

definition terme :: "contexte \<Rightarrow> nat \<Rightarrow> native \<Rightarrow> real \<Rightarrow> (int \<times> real) list" where
  "terme K hr nv coeff = (if numero K hr nv < 0 then [] else [(numero K hr nv, coeff)])"

definition decale :: "contexte \<Rightarrow> nat \<Rightarrow> int \<Rightarrow> nat" where
  "decale K hr offset =
     nat ((int hr + offset) mod int (NombreDePasDeTempsPourUneOptimisation (kh K)))"

lemma VariableManager_numero:
  assumes "contexte_ok K" and "hr < NombreDePasDeTemps (kh K)" and "native_ok (kh K) nv"
  shows "VariableManager (kvar K ! hr) (kstock K) (ktranche K) nv = Inr (numero K hr nv)"
proof -
  have "length ((kvar K ! hr) c) = taille_var (kh K) c" for c
    using assms(1,2) by (auto simp: contexte_ok_def dims_var_def)
  moreover have "length (kstock K) = NombreDePays (kh K)" "length (ktranche K) = NombreDePays (kh K)"
    "i < NombreDePays (kh K) \<Longrightarrow> length (ktranche K ! i) = 100" for i
    using assms(1) by (auto simp: contexte_ok_def dims_var_def)
  ultimately show ?thesis
    using assms(3) by (cases nv) (auto simp: numero_def)
qed

subsection \<open>The shifted hour\<close>

lemma signed_take_bit_31_id: "- (2 ^ 31) \<le> i \<Longrightarrow> i < 2 ^ 31 \<Longrightarrow> signed_take_bit 31 i = (i :: int)"
  by (rule signed_take_bit_int_eq_self) simp_all

lemma smod_nonneg: "0 \<le> (a::int) \<Longrightarrow> 0 < b \<Longrightarrow> a smod b = a mod b"
  by (cases "a = 0") (simp_all add: signed_modulo_int_def)

lemma GetShiftedTimeStep_cyclic:
  assumes T: "hour < NombreDePasDeTempsPourUneOptimisation h"
    and d: "int (NombreDePasDeTempsPourUneOptimisation h) dvd delta"
    and bornes: "0 \<le> int hour + offset + delta" "- (2 ^ 31) \<le> int hour + offset"
      "int hour + offset < 2 ^ 31"
  shows "GetShiftedTimeStep h hour offset delta =
    (int hour + offset) mod int (NombreDePasDeTempsPourUneOptimisation h)"
proof -
  let ?T = "int (NombreDePasDeTempsPourUneOptimisation h)"
  have "(int hour + offset + delta) mod ?T = (int hour + offset) mod ?T"
    using d by auto
  then show ?thesis
    using T bornes by (simp add: GetShiftedTimeStep_def Let_def signed_take_bit_31_id smod_nonneg)
qed

subsection \<open>Collecting terms\<close>

lemma inv_cong:
  assumes "inv K s"
    and "CorrespondanceVarNativesVarOptim s' = CorrespondanceVarNativesVarOptim s"
    and "NumeroDeVariableStockFinal s' = NumeroDeVariableStockFinal s"
    and "NumeroDeVariableDeTrancheDeStock s' = NumeroDeVariableDeTrancheDeStock s"
    and "dims_cnt (kh K) s'" and "ProblemeAResoudre s' = ProblemeAResoudre s"
    and "builders s' = builders s"
  shows "inv K s'"
  using assms by (simp add: inv_def)

lemma collecteI:
  assumes "\<And>s L. en_cours K ls i s L \<Longrightarrow> length L + length ts \<le> knv K \<Longrightarrow>
      returns (f s) (\<lambda>s'. en_cours K ls j s' (L @ ts))"
  shows "collecte K ls i f ts j"
  by (rule termes.emitsI) (use assms in auto)

lemma en_cours_maj_builder:
  assumes "en_cours K ls i s L" and "\<And>b. mode_ok K i b \<Longrightarrow> mode_ok K j (f b)"
    and "\<And>b. nombreDeTermes (f b) = nombreDeTermes b"
  shows "en_cours K ls j (maj_builder f s) L"
  using assms by (simp add: en_cours_def maj_builder_def inv_def dims_cnt_def)

lemma collecte_heure [wp]:
  assumes "hr < NombreDePasDeTemps (kh K)"
  shows "collecte K ls (x, op) (updateHourWithinWeek hr) [] (Some hr, op)"
  by (rule collecteI) (use assms in \<open>auto simp: updateHourWithinWeek_def mode_ok_def
      split: option.splits intro!: en_cours_maj_builder\<close>)

lemma collecte_equalTo [wp]: "collecte K ls (hr, x) equalTo [] (hr, Some CHR ''='')"
  by (rule collecteI) (auto simp: equalTo_def mode_ok_def split: option.splits
      intro!: en_cours_maj_builder)

lemma collecte_lessThan [wp]: "collecte K ls (hr, x) lessThan [] (hr, Some CHR ''<'')"
  by (rule collecteI) (auto simp: lessThan_def mode_ok_def split: option.splits
      intro!: en_cours_maj_builder)

lemma collecte_greaterThan [wp]: "collecte K ls (hr, x) greaterThan [] (hr, Some CHR ''>'')"
  by (rule collecteI) (auto simp: greaterThan_def mode_ok_def split: option.splits
      intro!: en_cours_maj_builder)

lemma collecte_SetOperator [wp]:
  assumes "c = CHR ''<'' \<or> c = CHR ''='' \<or> c = CHR ''>''"
  shows "collecte K ls (hr, x) (SetOperator c) [] (hr, Some c)"
  by (rule collecteI) (use assms in \<open>auto simp: SetOperator_def mode_ok_def
      split: option.splits intro!: en_cours_maj_builder\<close>)

lemma en_cours_oubli: "en_cours K ls i s L \<Longrightarrow> en_cours K ls (None, snd i) s L"
  by (auto simp: en_cours_def mode_ok_def)

lemma take_Suc_update_nth:
  "n < length xs \<Longrightarrow> take n xs = ys \<Longrightarrow> take (Suc n) (xs[n := v]) = ys @ [v]"
  by (auto simp: take_Suc_update)

lemma matrice_inv_Pi_Colonne [simp]:
  "matrice_inv nc (p\<lparr>Pi := a, Colonne := b\<rparr>) = matrice_inv nc p"
  "lignes (p\<lparr>Pi := a, Colonne := b\<rparr>) = lignes p"
  by (auto simp: matrice_inv_def stockage_ok_def lignes_def ligne_at_def Let_def)

lemma AddVariable_ok:
  assumes s: "en_cours K ls m s L" and room: "0 \<le> v \<Longrightarrow> length L < knv K"
  shows "returns (AddVariable v coeff s)
    (\<lambda>s'. en_cours K ls m s' (L @ (if v < 0 then [] else [(v, coeff)])))"
proof (cases "v < 0")
  case True
  with s show ?thesis by (simp add: AddVariable_def)
next
  case False
  let ?p = "ProblemeAResoudre s" and ?n = "length L"
  have n: "nombreDeTermes (courant s) = ?n" "?n < length (Pi ?p)" "?n < length (Colonne ?p)"
    using s room False by (auto simp: en_cours_def inv_def)
  let ?s' = "maj_builder (\<lambda>b. b\<lparr>nombreDeTermes := ?n + 1\<rparr>)
     (s\<lparr>ProblemeAResoudre := ?p\<lparr>Pi := (Pi ?p)[?n := coeff], Colonne := (Colonne ?p)[?n := v]\<rparr>\<rparr>)"
  have run: "AddVariable v coeff s = Inr ?s'"
    using n False by (simp add: AddVariable_def Let_def)
  have "inv K ?s'"
    using s by (simp add: en_cours_def inv_def maj_builder_def dims_cnt_def cote_variables_def)
  moreover have "take (Suc ?n) ((Pi ?p)[?n := coeff]) = map snd (L @ [(v, coeff)])"
    "take (Suc ?n) ((Colonne ?p)[?n := v]) = map fst (L @ [(v, coeff)])"
    using take_Suc_update_nth [OF n(2)] take_Suc_update_nth [OF n(3)] s
    by (simp_all add: en_cours_def)
  ultimately have "en_cours K ls m ?s' (L @ [(v, coeff)])"
    using s room False
    by (simp add: en_cours_def maj_builder_def mode_ok_def split: option.splits)
  with run False show ?thesis by simp
qed

lemma collecte_ajouter_decale:
  assumes K: "contexte_ok K" and nv: "native_ok (kh K) nv"
    and hr: "hr < NombreDePasDeTempsPourUneOptimisation (kh K)"
    and d: "int (NombreDePasDeTempsPourUneOptimisation (kh K)) dvd delta"
    and bornes: "0 \<le> int hr + offset + delta" "- (2 ^ 30) \<le> offset" "offset < 2 ^ 30"
  shows "collecte K ls (Some hr, op) (ajouter_decale (kh K) nv coeff offset delta)
    (terme K (decale K hr offset) nv coeff) (Some hr, op)"
proof (rule collecteI)
  fix s L
  assume s: "en_cours K ls (Some hr, op) s L"
    and room: "length L + length (terme K (decale K hr offset) nv coeff) \<le> knv K"
  let ?T = "NombreDePasDeTempsPourUneOptimisation (kh K)"
  have H: "horizon_ok (kh K)" by (rule contexte_ok_horizon [OF K])
  have shift: "GetShiftedTimeStep (kh K) hr offset delta = int (decale K hr offset)"
  proof -
    have "- (2 ^ 31) \<le> int hr + offset \<and> int hr + offset < 2 ^ 31"
      using H hr bornes(2,3) by (auto simp: horizon_ok_def)
    moreover have "0 \<le> (int hr + offset) mod int ?T"
      using H by (simp add: horizon_ok_def)
    ultimately show ?thesis
      using GetShiftedTimeStep_cyclic [OF hr d bornes(1)] by (simp add: decale_def)
  qed
  have lt: "decale K hr offset < NombreDePasDeTemps (kh K)"
  proof -
    have "(int hr + offset) mod int ?T < int ?T" "int ?T \<le> int (NombreDePasDeTemps (kh K))"
      using H by (simp_all add: horizon_ok_def)
    then have "(int hr + offset) mod int ?T < int (NombreDePasDeTemps (kh K))"
      by linarith
    then show ?thesis
      using H by (simp add: decale_def horizon_ok_def nat_less_iff)
  qed
  have "length (kvar K) = NombreDePasDeTemps (kh K)"
    using K by (simp add: contexte_ok_def dims_var_def)
  then have "GetVariable (kh K) nv offset delta s = Inr (numero K (decale K hr offset) nv)"
    using s lt VariableManager_numero [OF K lt nv]
    by (simp add: GetVariable_def en_cours_def mode_ok_def inv_def shift)
  then show "returns (ajouter_decale (kh K) nv coeff offset delta s)
      (\<lambda>s'. en_cours K ls (Some hr, op) s' (L @ terme K (decale K hr offset) nv coeff))"
    using AddVariable_ok [OF s, of "numero K (decale K hr offset) nv" coeff] room
    by (simp add: ajouter_decale_def terme_def split: if_splits)
qed

lemma collecte_ajouter [wp]:
  assumes K: "contexte_ok K" and nv: "native_ok (kh K) nv"
  shows "collecte K ls (Some hr, op) (ajouter (kh K) nv coeff) (terme K hr nv coeff) (Some hr, op)"
proof (rule collecteI)
  fix s L
  assume s: "en_cours K ls (Some hr, op) s L"
    and room: "length L + length (terme K hr nv coeff) \<le> knv K"
  have hr: "hr < NombreDePasDeTemps (kh K)" "hourInWeek (courant s) = hr"
    using s by (auto simp: en_cours_def mode_ok_def)
  have "length (kvar K) = NombreDePasDeTemps (kh K)" "int hr < 2 ^ 31"
    using K hr contexte_ok_horizon [OF K] by (auto simp: contexte_ok_def dims_var_def horizon_ok_def)
  then have "GetVariable (kh K) nv 0 0 s = Inr (numero K hr nv)"
    using s hr VariableManager_numero [OF K hr(1) nv]
    by (simp add: GetVariable_def en_cours_def inv_def GetShiftedTimeStep_def Let_def
        signed_take_bit_31_id)
  then show "returns (ajouter (kh K) nv coeff s)
      (\<lambda>s'. en_cours K ls (Some hr, op) s' (L @ terme K hr nv coeff))"
    using AddVariable_ok [OF s, of "numero K hr nv" coeff] room
    by (simp add: ajouter_def ajouter_decale_def terme_def split: if_splits)
qed

subsection \<open>Statements that leave the row alone\<close>

text \<open>Naming and numbering: they need at most the slot of the next row.\<close>

definition neutre :: "contexte \<Rightarrow> bool \<Rightarrow> (etat \<Rightarrow> etat resultat) \<Rightarrow> bool" where
  "neutre K place f \<longleftrightarrow> (\<forall>s. inv K s \<and> (place \<longrightarrow> NombreDeContraintes (ProblemeAResoudre s) < knc K) \<longrightarrow>
     returns (f s) (\<lambda>s'. inv K s' \<and> courant s' = courant s \<and>
       lignes (ProblemeAResoudre s') = lignes (ProblemeAResoudre s) \<and>
       Pi (ProblemeAResoudre s') = Pi (ProblemeAResoudre s) \<and>
       Colonne (ProblemeAResoudre s') = Colonne (ProblemeAResoudre s)))"

lemma neutreI:
  assumes "\<And>s. inv K s \<Longrightarrow> (place \<Longrightarrow> NombreDeContraintes (ProblemeAResoudre s) < knc K) \<Longrightarrow>
     \<exists>s'. f s = Inr s' \<and> inv K s' \<and> courant s' = courant s \<and>
       lignes (ProblemeAResoudre s') = lignes (ProblemeAResoudre s) \<and>
       Pi (ProblemeAResoudre s') = Pi (ProblemeAResoudre s) \<and>
       Colonne (ProblemeAResoudre s') = Colonne (ProblemeAResoudre s)"
  shows "neutre K place f"
  unfolding neutre_def
proof (intro allI impI)
  fix s
  assume "inv K s \<and> (place \<longrightarrow> NombreDeContraintes (ProblemeAResoudre s) < knc K)"
  then obtain s' where "f s = Inr s'" "inv K s' \<and> courant s' = courant s \<and>
       lignes (ProblemeAResoudre s') = lignes (ProblemeAResoudre s) \<and>
       Pi (ProblemeAResoudre s') = Pi (ProblemeAResoudre s) \<and>
       Colonne (ProblemeAResoudre s') = Colonne (ProblemeAResoudre s)"
    using assms [of s] by blast
  then show "returns (f s) (\<lambda>s'. inv K s' \<and> courant s' = courant s \<and>
       lignes (ProblemeAResoudre s') = lignes (ProblemeAResoudre s) \<and>
       Pi (ProblemeAResoudre s') = Pi (ProblemeAResoudre s) \<and>
       Colonne (ProblemeAResoudre s') = Colonne (ProblemeAResoudre s))"
    by simp
qed

lemma all_set_update:
  "(\<forall>x \<in> set xs. P x) \<Longrightarrow> P y \<Longrightarrow> \<forall>x \<in> set (xs[i := y]). P x"
  using set_update_subset_insert [of xs i y] by auto

lemma neutre_ecrire_cnt:
  assumes "pdt < NombreDePasDeTemps (kh K)" and "i < taille_cnt (kh K) c"
  shows "neutre K False (\<lambda>s. ecrire_cnt c pdt i (v s) s)"
proof (rule neutreI)
  fix s assume s: "inv K s"
  let ?C = "CorrespondanceCntNativesCntOptim s"
  have d: "pdt < length ?C" "\<forall>corr \<in> set ?C. \<forall>c. length (corr c) = taille_cnt (kh K) c"
    using s assms(1) by (simp_all add: inv_def dims_cnt_def)
  have len: "length ((?C ! pdt) c) = taille_cnt (kh K) c" for c
    using d by simp
  define corr where "corr = (?C ! pdt)(c := ((?C ! pdt) c)[i := v s])"
  have "\<forall>x \<in> set (?C[pdt := corr]). \<forall>c. length (x c) = taille_cnt (kh K) c"
    by (rule all_set_update) (use d len in \<open>simp_all add: corr_def\<close>)
  then have "inv K (s\<lparr>CorrespondanceCntNativesCntOptim := ?C[pdt := corr]\<rparr>)"
    using s by (simp add: inv_def dims_cnt_def)
  moreover have "ecrire_cnt c pdt i (v s) s = Inr (s\<lparr>CorrespondanceCntNativesCntOptim := ?C[pdt := corr]\<rparr>)"
    using d len assms(2) by (simp add: ecrire_cnt_def corr_def)
  ultimately show "\<exists>s'. ecrire_cnt c pdt i (v s) s = Inr s' \<and> inv K s' \<and> courant s' = courant s \<and>
       lignes (ProblemeAResoudre s') = lignes (ProblemeAResoudre s) \<and>
       Pi (ProblemeAResoudre s') = Pi (ProblemeAResoudre s) \<and>
       Colonne (ProblemeAResoudre s') = Colonne (ProblemeAResoudre s)"
    by simp
qed

lemma neutre_ecrire_cnt_jour:
  assumes "jour < 7" and "i < NombreDeContraintesCouplantes (kh K)"
  shows "neutre K False (\<lambda>s. ecrire_cnt_jour jour i (v s) s)"
proof (rule neutreI)
  fix s assume s: "inv K s"
  let ?C = "CorrespondanceCntNativesCntOptimJournalieres s"
  have d: "jour < length ?C" "\<forall>corr \<in> set ?C. length corr = NombreDeContraintesCouplantes (kh K)"
    using s assms(1) by (simp_all add: inv_def dims_cnt_def)
  have "\<forall>x \<in> set (?C[jour := (?C ! jour)[i := v s]]).
      length x = NombreDeContraintesCouplantes (kh K)"
    by (rule all_set_update) (use d in simp_all)
  then have "inv K (s\<lparr>CorrespondanceCntNativesCntOptimJournalieres := ?C[jour := (?C ! jour)[i := v s]]\<rparr>)"
    using s by (simp add: inv_def dims_cnt_def)
  moreover have "i < length (?C ! jour)" using d assms(2) by simp
  ultimately show "\<exists>s'. ecrire_cnt_jour jour i (v s) s = Inr s' \<and> inv K s' \<and> courant s' = courant s \<and>
       lignes (ProblemeAResoudre s') = lignes (ProblemeAResoudre s) \<and>
       Pi (ProblemeAResoudre s') = Pi (ProblemeAResoudre s) \<and>
       Colonne (ProblemeAResoudre s') = Colonne (ProblemeAResoudre s)"
    using d by (simp add: ecrire_cnt_jour_def)
qed

lemma neutre_ecrire_cnt_hebdo:
  assumes "i < NombreDeContraintesCouplantes (kh K)"
  shows "neutre K False (\<lambda>s. ecrire_cnt_hebdo i (v s) s)"
proof (rule neutreI)
  fix s assume s: "inv K s"
  let ?C = "CorrespondanceCntNativesCntOptimHebdomadaires s"
  have "i < length ?C" using s assms by (simp add: inv_def dims_cnt_def)
  then have "ecrire_cnt_hebdo i (v s) s =
      Inr (s\<lparr>CorrespondanceCntNativesCntOptimHebdomadaires := ?C[i := v s]\<rparr>)"
    by (simp add: ecrire_cnt_hebdo_def)
  moreover have "inv K (s\<lparr>CorrespondanceCntNativesCntOptimHebdomadaires := ?C[i := v s]\<rparr>)"
    using s by (simp add: inv_def dims_cnt_def)
  ultimately show "\<exists>s'. ecrire_cnt_hebdo i (v s) s = Inr s' \<and> inv K s' \<and> courant s' = courant s \<and>
       lignes (ProblemeAResoudre s') = lignes (ProblemeAResoudre s) \<and>
       Pi (ProblemeAResoudre s') = Pi (ProblemeAResoudre s) \<and>
       Colonne (ProblemeAResoudre s') = Colonne (ProblemeAResoudre s)"
    by simp
qed

lemma neutre_ecrire_cnt_pays:
  assumes "pays < NombreDePays (kh K)"
  shows "neutre K False (\<lambda>s. ecrire_cnt_pays c pays (v s) s)"
proof (rule neutreI)
  fix s assume s: "inv K s"
  let ?C = "NumerosDeContrainteDuPays s"
  have "pays < length (?C c)" using s assms by (simp add: inv_def dims_cnt_def)
  then have "ecrire_cnt_pays c pays (v s) s =
      Inr (s\<lparr>NumerosDeContrainteDuPays := ?C(c := (?C c)[pays := v s])\<rparr>)"
    by (simp add: ecrire_cnt_pays_def)
  moreover have "inv K (s\<lparr>NumerosDeContrainteDuPays := ?C(c := (?C c)[pays := v s])\<rparr>)"
    using s by (simp add: inv_def dims_cnt_def)
  ultimately show "\<exists>s'. ecrire_cnt_pays c pays (v s) s = Inr s' \<and> inv K s' \<and> courant s' = courant s \<and>
       lignes (ProblemeAResoudre s') = lignes (ProblemeAResoudre s) \<and>
       Pi (ProblemeAResoudre s') = Pi (ProblemeAResoudre s) \<and>
       Colonne (ProblemeAResoudre s') = Colonne (ProblemeAResoudre s)"
    by simp
qed

lemma neutre_nommer_contrainte: "neutre K True (nommer_contrainte nm c)"
proof (rule neutreI)
  fix s assume s: "inv K s" and place: "True \<Longrightarrow> NombreDeContraintes (ProblemeAResoudre s) < knc K"
  let ?p = "ProblemeAResoudre s"
  have "NombreDeContraintes ?p < length (NomDesContraintes ?p)"
    using s place by (simp add: inv_def)
  moreover have "lignes (?p\<lparr>NomDesContraintes := x\<rparr>) = lignes ?p"
    "matrice_inv nc (?p\<lparr>NomDesContraintes := x\<rparr>) = matrice_inv nc ?p" for x nc
    by (auto simp: lignes_def ligne_at_def Let_def matrice_inv_def stockage_ok_def)
  ultimately show "\<exists>s'. nommer_contrainte nm c s = Inr s' \<and> inv K s' \<and> courant s' = courant s \<and>
       lignes (ProblemeAResoudre s') = lignes (ProblemeAResoudre s) \<and>
       Pi (ProblemeAResoudre s') = Pi (ProblemeAResoudre s) \<and>
       Colonne (ProblemeAResoudre s') = Colonne (ProblemeAResoudre s)"
    using s
    by (simp add: nommer_contrainte_def maj_probleme_def inv_def dims_cnt_def cote_variables_def)
qed

lemma neutre_Inr: "neutre K place Inr"
  by (simp add: neutre_def)

lemma neutre_whenE: "neutre K place f \<Longrightarrow> neutre K place (\<lambda>s. whenE (b s) f s)"
  by (simp add: neutre_def whenE_def)

lemma collecte_neutre:
  assumes "neutre K place f"
  shows "collecte K ls m f [] m"
proof (rule collecteI)
  fix s L assume s: "en_cours K ls m s L"
  then have "inv K s" "NombreDeContraintes (ProblemeAResoudre s) < knc K"
    by (auto simp: en_cours_def simp flip: length_lignes)
  then have "returns (f s) (\<lambda>s'. inv K s' \<and> courant s' = courant s \<and>
       lignes (ProblemeAResoudre s') = lignes (ProblemeAResoudre s) \<and>
       Pi (ProblemeAResoudre s') = Pi (ProblemeAResoudre s) \<and>
       Colonne (ProblemeAResoudre s') = Colonne (ProblemeAResoudre s))"
    using assms by (simp add: neutre_def)
  then show "returns (f s) (\<lambda>s'. en_cours K ls m s' (L @ []))"
    by (rule returns_mono) (use s in \<open>auto simp: en_cours_def\<close>)
qed

lemmas neutres = neutre_ecrire_cnt neutre_ecrire_cnt_jour neutre_ecrire_cnt_hebdo
  neutre_ecrire_cnt_pays neutre_nommer_contrainte

lemma collecte_nommer [wp]: "collecte K ls m (nommer_contrainte nm c) [] m"
  by (rule collecte_neutre [OF neutre_nommer_contrainte])

lemma collecte_numeroter_cnt [wp]:
  "pdt < NombreDePasDeTemps (kh K) \<Longrightarrow> i < taille_cnt (kh K) c \<Longrightarrow>
     collecte K ls m (numeroter_cnt c pdt i) [] m"
  unfolding numeroter_cnt_def by (rule collecte_neutre [OF neutre_ecrire_cnt])

lemma collecte_ecrire_cnt [wp]:
  "pdt < NombreDePasDeTemps (kh K) \<Longrightarrow> i < taille_cnt (kh K) c \<Longrightarrow>
     collecte K ls m (ecrire_cnt c pdt i v) [] m"
  using collecte_neutre [OF neutre_ecrire_cnt [where v = "\<lambda>_. v"]] .

lemma collecte_numeroter_cnt_pays [wp]:
  "pays < NombreDePays (kh K) \<Longrightarrow> collecte K ls m (numeroter_cnt_pays c pays) [] m"
  unfolding numeroter_cnt_pays_def by (rule collecte_neutre [OF neutre_ecrire_cnt_pays])

subsection \<open>Composition\<close>

definition mode_le :: "nat option \<times> char option \<Rightarrow> nat option \<times> char option \<Rightarrow> bool" where
  "mode_le m m' \<longleftrightarrow> (fst m' = None \<or> fst m' = fst m) \<and> (snd m' = None \<or> snd m' = snd m)"

lemma mode_le_simps [simp]:
  "mode_le m m" "mode_le m (None, None)" "mode_le (hr, op) (None, op)" "mode_le (hr, op) (hr, None)"
  by (simp_all add: mode_le_def)

lemma mode_ok_le: "mode_ok K m b \<Longrightarrow> mode_le m m' \<Longrightarrow> mode_ok K m' b"
  by (auto simp: mode_ok_def mode_le_def)

lemma en_cours_le: "en_cours K ls m s L \<Longrightarrow> mode_le m m' \<Longrightarrow> en_cours K ls m' s L"
  by (auto simp: en_cours_def intro: mode_ok_le)

lemma collecte_le:
  assumes "collecte K ls i f ts j" and "mode_le i' i" and "mode_le j j'"
  shows "collecte K ls i' f ts j'"
  by (rule termes.emits_post [OF termes.emits_pre [OF assms(1)]])
    (use assms(2,3) in \<open>auto intro: en_cours_le\<close>)

lemma collecte_Inr: "collecte K ls i Inr [] i"
  using termes.emits_Inr [of K ls i] by simp

lemma collecte_seqE_Nil: "collecte K ls i (seqE []) [] i"
  using termes.emits_seqE_Nil [of K ls i] by simp

lemma collecte_seqE_Cons:
  assumes "collecte K ls i f ts j" and "collecte K ls j (seqE fs) ts' l"
  shows "collecte K ls i (seqE (f # fs)) (ts @ ts') l"
  using termes.emits_seqE_Cons [OF assms] by simp

lemma collecte_forE:
  assumes "\<And>x. x \<in> set xs \<Longrightarrow> collecte K ls i (f x) (ts x) i"
  shows "collecte K ls i (forE xs f) (concat (map ts xs)) i"
  using termes.emits_forE [of xs K ls i f ts "\<lambda>x. length (ts x)"] assms
  by (simp add: length_concat comp_def)

text \<open>A loop whose body sets the hour itself.\<close>

lemma collecte_forE_heure:
  assumes "\<And>x. x \<in> set xs \<Longrightarrow> collecte K ls (None, op) (f x) (ts x) (hr x, op)"
  shows "collecte K ls (hr0, op) (forE xs f) (concat (map ts xs)) (None, op)"
proof (rule collecte_le [OF collecte_forE])
  fix x assume "x \<in> set xs"
  from assms [OF this] show "collecte K ls (None, op) (f x) (ts x) (None, op)"
    by (rule collecte_le) simp_all
qed simp_all

lemma collecte_si:
  assumes "b \<Longrightarrow> collecte K ls i f ts j" and "\<not> b \<Longrightarrow> collecte K ls i g ts' j"
  shows "collecte K ls i (\<lambda>s. if b then f s else g s) (if b then ts else ts') j"
  using assms by simp

lemma collecte_exportPaliers [wp]:
  assumes K: "contexte_ok K" and pays: "pays < length (PaliersThermiquesDuPays (kh K))"
    and pt: "pt = PaliersThermiquesDuPays (kh K) ! pays"
    and len: "NombreDePaliersThermiques pt
      \<le> length (NumeroDuPalierDansLEnsembleDesPaliersThermiques pt)"
    and num: "list_all (\<lambda>p. p < NombreTotalDePaliersThermiques (kh K))
      (NumeroDuPalierDansLEnsembleDesPaliersThermiques pt)"
  shows "collecte K ls (Some hr, op) (exportPaliers (kh K) pays)
    (concat (map (\<lambda>i. terme K hr (DispatchableProduction
        (NumeroDuPalierDansLEnsembleDesPaliersThermiques pt ! i)) (- 1))
      [0..<NombreDePaliersThermiques pt])) (Some hr, op)"
proof -
  have "exportPaliers (kh K) pays = forE [0..<NombreDePaliersThermiques pt] (\<lambda>index s.
       bindE (lire (NumeroDuPalierDansLEnsembleDesPaliersThermiques pt) index) (\<lambda>palier.
       ajouter (kh K) (DispatchableProduction palier) (- 1) s))"
    using pays pt by (simp add: exportPaliers_def fun_eq_iff)
  moreover have "collecte K ls (Some hr, op) (\<lambda>s.
       bindE (lire (NumeroDuPalierDansLEnsembleDesPaliersThermiques pt) i) (\<lambda>palier.
       ajouter (kh K) (DispatchableProduction palier) (- 1) s))
     (terme K hr (DispatchableProduction (NumeroDuPalierDansLEnsembleDesPaliersThermiques pt ! i))
        (- 1)) (Some hr, op)" if "i < NombreDePaliersThermiques pt" for i
    using that len num by (simp add: list_all_length collecte_ajouter [OF K])
  ultimately show ?thesis
    by (auto intro!: collecte_forE)
qed

text \<open>
  \<open>acheve n i f op ts j\<close>: started in mode \<open>i\<close> with at least \<open>n\<close> terms collected, \<open>f\<close> collects
  \<open>ts\<close>, then loads the row with operator \<open>op\<close> (no row at all when it has no term) and leaves the
  builder empty in mode \<open>j\<close>.
\<close>

definition rang :: "char \<Rightarrow> (int \<times> real) list \<Rightarrow> ligne list" where
  "rang op ts = (if ts = [] then [] else [(op, ts)])"

definition fini :: "contexte \<Rightarrow> nat option \<times> char option \<Rightarrow> etat \<Rightarrow> ligne list \<Rightarrow> bool" where
  "fini K m s ls \<longleftrightarrow> rep_lignes K () s ls \<and> mode_ok K m (courant s) \<and> nombreDeTermes (courant s) = 0"

definition acheve ::
  "contexte \<Rightarrow> ligne list \<Rightarrow> nat \<Rightarrow> nat option \<times> char option \<Rightarrow> (etat \<Rightarrow> etat resultat) \<Rightarrow> char
     \<Rightarrow> (int \<times> real) list \<Rightarrow> nat option \<times> char option \<Rightarrow> bool" where
  "acheve K ls n i f op ts' j \<longleftrightarrow>
     (\<forall>s ts. n \<le> length ts \<and> length (ts @ ts') \<le> knv K \<and> en_cours K ls i s ts \<longrightarrow>
        returns (f s) (\<lambda>s'. fini K j s' (ls @ rang op (ts @ ts'))))"

lemma acheve_Cons:
  assumes f: "collecte K ls i f ts j" and fs: "acheve K ls (n + length ts) j (seqE fs) op ts' l"
  shows "acheve K ls n i (seqE (f # fs)) op (ts @ ts') l"
  unfolding acheve_def
proof (intro allI impI)
  fix s L
  assume s: "n \<le> length L \<and> length (L @ ts @ ts') \<le> knv K \<and> en_cours K ls i s L"
  then have "returns (f s) (\<lambda>s'. en_cours K ls j s' (L @ ts))"
    by (intro termes.emitsD [OF f]) auto
  moreover have "returns (seqE fs s') (\<lambda>s''. fini K l s'' (ls @ rang op ((L @ ts) @ ts')))"
    if "en_cours K ls j s' (L @ ts)" for s'
    using fs [unfolded acheve_def, rule_format, of "L @ ts" s'] s that by simp
  ultimately show "returns (seqE (f # fs) s) (\<lambda>s'. fini K l s' (ls @ rang op (L @ ts @ ts')))"
    by (auto elim: returns_mono)
qed

lemma acheve_seqE_1: "acheve K ls n i f op ts j \<Longrightarrow> acheve K ls n i (seqE [f]) op ts j"
  by (auto simp: acheve_def elim: returns_mono)

lemma acheve_si:
  assumes "m < n" and "acheve K ls n i f op ts j"
  shows "acheve K ls n i (\<lambda>s. if m < NumberOfVariables s then f s else g s) op ts j"
  using assms by (auto simp: acheve_def NumberOfVariables_def en_cours_def)

lemma mode_ok_nombreDeTermes [simp]: "mode_ok K m (b\<lparr>nombreDeTermes := n\<rparr>) = mode_ok K m b"
  by (cases "fst m"; cases "snd m") (simp_all add: mode_ok_def)

lemma zip_termes: "xs = map fst ts \<Longrightarrow> ys = map snd ts \<Longrightarrow> zip xs ys = ts"
  by (simp add: zip_map_fst_snd)

lemma acheve_build: "acheve K ls n (hr, Some op) build op [] (hr, Some op)"
  unfolding acheve_def
proof (intro allI impI)
  fix s ts
  assume "n \<le> length ts \<and> length (ts @ []) \<le> knv K \<and> en_cours K ls (hr, Some op) s ts"
  then have s: "en_cours K ls (hr, Some op) s ts" by simp
  let ?p = "ProblemeAResoudre s"
  show "returns (build s) (\<lambda>s'. fini K (hr, Some op) s' (ls @ rang op (ts @ [])))"
  proof (cases "ts = []")
    case True
    with s show ?thesis
      by (simp add: build_def en_cours_def fini_def rep_lignes_def rang_def maj_builder_def inv_def
          dims_cnt_def)
  next
    case False
    have op: "operateur (courant s) = op" and n: "nombreDeTermes (courant s) = length ts"
      using s by (auto simp: en_cours_def mode_ok_def)
    have "matrice_inv (knc K) ?p" "NombreDeContraintes ?p < knc K" "length ts \<le> length (Pi ?p)"
      "length ts \<le> length (Colonne ?p)"
      using s by (auto simp: en_cours_def inv_def simp flip: length_lignes)
    from OPT_Charger_ok [OF this, of op] obtain p'
      where run: "OPT_ChargerLaContrainteDansLaMatriceDesContraintes (Pi ?p) (Colonne ?p)
          (length ts) op ?p = Inr p'"
        and inv': "matrice_inv (knc K) p'" and hors: "hors_matrice p' = hors_matrice ?p"
        and ls': "lignes p' = lignes ?p @
          [(op, zip (take (length ts) (Colonne ?p)) (take (length ts) (Pi ?p)))]"
      by (auto elim!: returnsE)
    let ?s' = "maj_builder (\<lambda>b. b\<lparr>nombreDeTermes := 0\<rparr>) (s\<lparr>ProblemeAResoudre := p'\<rparr>)"
    have "build s = Inr ?s'"
      using run False by (simp add: build_def maj_probleme_def op n)
    moreover have "inv K ?s'"
      using s inv' hors_matriceD [OF hors]
      by (simp add: en_cours_def inv_def maj_builder_def dims_cnt_def cote_variables_def)
    moreover have "lignes p' = ls @ rang op ts"
      using ls' s False by (simp add: en_cours_def rang_def zip_map_fst_snd)
    moreover have "mode_ok K (hr, Some op) (courant s)"
      using s by (simp add: en_cours_def)
    ultimately show ?thesis
      by (simp add: fini_def rep_lignes_def maj_builder_def)
  qed
qed

interpretation rangs_avec: append_store "fini K" "tient K" "knc K" for K
  by unfold_locales (simp add: tient_def)

abbreviation produit ::
  "contexte \<Rightarrow> nat option \<times> char option \<Rightarrow> (etat \<Rightarrow> etat resultat) \<Rightarrow> ligne list \<Rightarrow> nat
     \<Rightarrow> nat option \<times> char option \<Rightarrow> bool" where
  "produit K i f ls k j \<equiv> append_store.emits (fini K) (tient K) (knc K) i f ls k j"

lemma fini_en_cours:
  "fini K i s L \<Longrightarrow> length L < knc K \<Longrightarrow> en_cours K L i s []"
  by (simp add: fini_def en_cours_def rep_lignes_def)

lemma length_rang_le [simp]: "length (rang op ts) \<le> 1" "length (rang op ts) \<le> Suc 0"
  by (simp_all add: rang_def)

lemma produit_acheve:
  assumes "\<And>ls. acheve K ls 0 i f op ts j"
  shows "produit K i f (rang op ts) 1 j"
proof (rule rangs_avec.emitsI)
  fix s L
  assume s: "fini K i s L" and adm: "tient K (L @ rang op ts)" and room: "length L + 1 \<le> knc K"
  have "length ts \<le> knv K"
    using adm by (cases "ts = []") (auto simp: tient_def rang_def)
  moreover have "en_cours K L i s []"
    using s room by (intro fini_en_cours) simp_all
  ultimately show "returns (f s) (\<lambda>s'. fini K j s' (L @ rang op ts))"
    using assms [of L, unfolded acheve_def, rule_format, of "[]" s] by simp
qed simp

lemma fini_le: "fini K m s L \<Longrightarrow> mode_le m m' \<Longrightarrow> fini K m' s L"
  by (auto simp: fini_def intro: mode_ok_le)

lemma produit_le:
  assumes "produit K i f ls k j" and "mode_le i' i" and "mode_le j j'"
  shows "produit K i' f ls k j'"
  by (rule rangs_avec.emits_post [OF rangs_avec.emits_pre [OF assms(1)]])
    (use assms(2,3) in \<open>auto intro: fini_le\<close>)

lemma produit_neutre:
  assumes "neutre K place f"
  shows "produit K i f [] (if place then 1 else 0) i"
proof (rule rangs_avec.emitsI)
  fix s L
  assume s: "fini K i s L" and room: "length L + (if place then 1 else 0) \<le> knc K"
  have "inv K s" and len: "NombreDeContraintes (ProblemeAResoudre s) = length L"
    using s by (auto simp: fini_def rep_lignes_def)
  then have "returns (f s) (\<lambda>s'. inv K s' \<and> courant s' = courant s \<and>
       lignes (ProblemeAResoudre s') = lignes (ProblemeAResoudre s) \<and>
       Pi (ProblemeAResoudre s') = Pi (ProblemeAResoudre s) \<and>
       Colonne (ProblemeAResoudre s') = Colonne (ProblemeAResoudre s))"
    using assms room by (auto simp: neutre_def split: if_splits)
  then show "returns (f s) (\<lambda>s'. fini K i s' (L @ []))"
    by (rule returns_mono) (use s in \<open>auto simp: fini_def rep_lignes_def\<close>)
qed simp

lemma produit_numeroter_cnt:
  "pdt < NombreDePasDeTemps (kh K) \<Longrightarrow> i < taille_cnt (kh K) c \<Longrightarrow>
     produit K m (numeroter_cnt c pdt i) [] 0 m"
  unfolding numeroter_cnt_def using produit_neutre [OF neutre_ecrire_cnt] by simp

lemma produit_ecrire_cnt:
  "pdt < NombreDePasDeTemps (kh K) \<Longrightarrow> i < taille_cnt (kh K) c \<Longrightarrow>
     produit K m (ecrire_cnt c pdt i v) [] 0 m"
  using produit_neutre [OF neutre_ecrire_cnt [where v = "\<lambda>_. v"]] by simp

lemma produit_ecrire_cnt_pays:
  "pays < NombreDePays (kh K) \<Longrightarrow> produit K m (ecrire_cnt_pays c pays v) [] 0 m"
  using produit_neutre [OF neutre_ecrire_cnt_pays [where v = "\<lambda>_. v"]] by simp

lemma produit_heure:
  assumes "hr < NombreDePasDeTemps (kh K)"
  shows "produit K (x, op) (updateHourWithinWeek hr) [] 0 (Some hr, op)"
  by (rule rangs_avec.emitsI) (use assms in \<open>auto simp: updateHourWithinWeek_def fini_def
    rep_lignes_def inv_def dims_cnt_def maj_builder_def mode_ok_def split: option.splits\<close>)

lemma produit_seqE:
  assumes "produit K i f ls k j" and "produit K j (seqE fs) ls' k' l"
  shows "produit K i (seqE (f # fs)) (ls @ ls') (k + k') l"
  by (rule rangs_avec.emits_seqE_Cons [OF assms])

lemma produit_seqE_Nil: "produit K i (seqE []) [] 0 i"
  by (rule rangs_avec.emits_seqE_Nil)

lemma produit_si:
  assumes "b \<Longrightarrow> produit K i f ls k j" and "\<not> b \<Longrightarrow> produit K i g ls' k' j"
  shows "produit K i (\<lambda>s. if b then f s else g s) (if b then ls else ls') (if b then k else k') j"
  using assms by simp

text \<open>The body of an \<open>add\<close>, run on the builder of its class.\<close>

lemma construit_avec:
  assumes "produit K (None, None) f ls k j"
  shows "construit K (avec c f) ls k"
proof (rule rangs.emitsI)
  fix s L
  assume s: "rep_lignes K () s L" and adm: "tient K (L @ ls)" and room: "length L + k \<le> knc K"
  have "fini K (None, None) (s\<lparr>courant := builders s c\<rparr>) L"
    using s by (simp add: fini_def rep_lignes_def mode_ok_def inv_def dims_cnt_def)
  from rangs_avec.emitsD [OF assms this adm room]
  show "returns (avec c f s) (\<lambda>s'. rep_lignes K () s' (L @ ls))"
    by (auto simp: avec_def fini_def rep_lignes_def inv_def dims_cnt_def elim: returns_mono)
qed (rule rangs_avec.emits_length [OF assms])

lemma construit_nouveau: "construit K (nouveau c) [] 0"
  by (rule rangs.emitsI)
    (auto simp: nouveau_def rep_lignes_def inv_def dims_cnt_def builder_init_def)

lemmas construit_acheve = construit_avec [OF produit_acheve]

end
