(* ===== verification/Constraints_Area.thy ===== *)
theory Constraints_Area
  imports Constraint_Builder
begin

text \<open>
  The constraint classes of \<open>src/src/solver/optimisation/constraints/\<close> that hold at every time step
  for an area or for a link: \<open>AreaBalance\<close>, \<open>FictitiousLoad\<close>, \<open>ShortTermStorageLevel\<close> and
  \<open>FlowDissociation\<close>. Each \<open>X_add\<close> is the C++ \<open>X::add\<close>; each \<open>ligne_X\<close> (\<open>lignes_X\<close>) is the row
  (the rows) it must add, written over the numbers of the variables.
\<close>

subsection \<open>Naming\<close>

definition heure_annee :: "PROBLEME_HEBDO \<Rightarrow> nat \<Rightarrow> nat" where
  "heure_annee h pdt = weekInTheYear h * 168 + pdt"

text \<open>\<open>UpdateTimeStep\<close>, \<open>UpdateArea\<close> and the method of the namer.\<close>

definition nommer_pays ::
  "PROBLEME_HEBDO \<Rightarrow> nat \<Rightarrow> nat \<Rightarrow> nom_contrainte \<Rightarrow> etat \<Rightarrow> etat resultat" where
  "nommer_pays h timeStep pays cn s =
     bindE (lire (NomsDesPays h) pays) (\<lambda>nom.
     nommer_contrainte (namer_init\<lparr>namer_timeStep := timeStep, namer_area := nom\<rparr>) cn s)"

lemma neutre_nommer_pays:
  "hebdo_ok (kh K) \<Longrightarrow> pays < NombreDePays (kh K) \<Longrightarrow> neutre K True (nommer_pays (kh K) ts pays cn)"
  using neutre_nommer_contrainte
  by (simp add: nommer_pays_def neutre_def)

lemma collecte_nommer_pays [wp]:
  "hebdo_ok (kh K) \<Longrightarrow> pays < NombreDePays (kh K) \<Longrightarrow>
     collecte K ls m (nommer_pays (kh K) ts pays cn) [] m"
  by (rule collecte_neutre [OF neutre_nommer_pays])

subsection \<open>AreaBalance\<close>

definition intercos_origine :: "PROBLEME_HEBDO \<Rightarrow> nat \<Rightarrow> etat \<Rightarrow> etat resultat" where
  "intercos_origine h pays s =
     bindE (lire (IndexDebutIntercoOrigine h) pays) (\<lambda>interco.
     boucle_interco (IndexSuivantIntercoOrigine h) (\<lambda>interco. ajouter h (NTCDirect interco) 1)
       (NombreDInterconnexions h) interco s)"

definition intercos_extremite :: "PROBLEME_HEBDO \<Rightarrow> nat \<Rightarrow> etat \<Rightarrow> etat resultat" where
  "intercos_extremite h pays s =
     bindE (lire (IndexDebutIntercoExtremite h) pays) (\<lambda>interco.
     boucle_interco (IndexSuivantIntercoExtremite h) (\<lambda>interco. ajouter h (NTCDirect interco) (- 1))
       (NombreDInterconnexions h) interco s)"

definition shortTermStorageBalance :: "PROBLEME_HEBDO \<Rightarrow> nat \<Rightarrow> etat \<Rightarrow> etat resultat" where
  "shortTermStorageBalance h pays s =
     bindE (lire (ShortTermStorage h) pays) (\<lambda>storages.
     forE storages (\<lambda>storage. seqE
       [ajouter h (ShortTermStorageInjection (clusterGlobalIndex storage)) 1,
        ajouter h (ShortTermStorageWithdrawal (clusterGlobalIndex storage)) (- 1)]) s)"

definition AreaBalance_add :: "PROBLEME_HEBDO \<Rightarrow> nat \<Rightarrow> nat \<Rightarrow> etat \<Rightarrow> etat resultat" where
  "AreaBalance_add h pdt pays = avec C_AreaBalance (seqE
     [numeroter_cnt NumeroDeContrainteDesBilansPays pdt pays,
      nommer_pays h (heure_annee h pdt) pays CN_AreaBalance,
      updateHourWithinWeek pdt,
      intercos_origine h pays,
      intercos_extremite h pays,
      exportPaliers h pays,
      ajouter h (HydProd pays) (- 1),
      ajouter h (Pumping pays) 1,
      ajouter h (PositiveUnsuppliedEnergy pays) (- 1),
      ajouter h (NegativeUnsuppliedEnergy pays) 1,
      shortTermStorageBalance h pays,
      equalTo,
      build])"

definition termes_paliers :: "contexte \<Rightarrow> nat \<Rightarrow> nat \<Rightarrow> (int \<times> real) list" where
  "termes_paliers K hr pays =
     concat (map (\<lambda>p. terme K hr (DispatchableProduction p) (- 1))
       (NumeroDuPalierDansLEnsembleDesPaliersThermiques (PaliersThermiquesDuPays (kh K) ! pays)))"

definition liens_origine :: "PROBLEME_HEBDO \<Rightarrow> nat \<Rightarrow> nat list" where
  "liens_origine h pays = liens (PaysOrigineDeLInterconnexion h) pays (NombreDInterconnexions h)"

definition liens_extremite :: "PROBLEME_HEBDO \<Rightarrow> nat \<Rightarrow> nat list" where
  "liens_extremite h pays = liens (PaysExtremiteDeLInterconnexion h) pays (NombreDInterconnexions h)"

text \<open>
  Flows out minus flows in, minus the generation of the area, plus pumping and spillage, minus
  the unsupplied energy, plus what the short-term storages inject minus what they withdraw.
\<close>

definition ligne_AreaBalance :: "contexte \<Rightarrow> nat \<Rightarrow> nat \<Rightarrow> ligne list" where
  "ligne_AreaBalance K pdt pays = rang CHR ''=''
     (concat (map (\<lambda>l. terme K pdt (NTCDirect l) 1) (liens_origine (kh K) pays)) @
      concat (map (\<lambda>l. terme K pdt (NTCDirect l) (- 1)) (liens_extremite (kh K) pays)) @
      termes_paliers K pdt pays @
      terme K pdt (HydProd pays) (- 1) @ terme K pdt (Pumping pays) 1 @
      terme K pdt (PositiveUnsuppliedEnergy pays) (- 1) @
      terme K pdt (NegativeUnsuppliedEnergy pays) 1 @
      concat (map (\<lambda>st. terme K pdt (ShortTermStorageInjection (clusterGlobalIndex st)) 1 @
                        terme K pdt (ShortTermStorageWithdrawal (clusterGlobalIndex st)) (- 1))
        (ShortTermStorage (kh K) ! pays)))"

lemma collecte_exportPaliers_pays [wp]:
  assumes K: "contexte_ok K" and pays: "pays < NombreDePays (kh K)"
  shows "collecte K ls (Some hr, op) (exportPaliers (kh K) pays) (termes_paliers K hr pays) (Some hr, op)"
proof -
  let ?pt = "PaliersThermiquesDuPays (kh K) ! pays"
  have len: "length (NumeroDuPalierDansLEnsembleDesPaliersThermiques ?pt) = NombreDePaliersThermiques ?pt"
    using K pays by simp
  have "termes_paliers K hr pays = concat (map (\<lambda>i. terme K hr (DispatchableProduction
        (NumeroDuPalierDansLEnsembleDesPaliersThermiques ?pt ! i)) (- 1))
      [0..<NombreDePaliersThermiques ?pt])"
    unfolding termes_paliers_def len [symmetric]
    by (subst map_nth [symmetric]) (simp add: comp_def del: map_nth)
  then show ?thesis
    using K pays by (auto intro!: collecte_exportPaliers simp: list_all_length)
qed

lemma collecte_intercos [wp]:
  assumes K: "contexte_ok K" and pays: "pays < NombreDePays (kh K)"
  shows "collecte K ls (Some hr, op) (intercos_origine (kh K) pays)
      (concat (map (\<lambda>l. terme K hr (NTCDirect l) 1) (liens_origine (kh K) pays))) (Some hr, op)"
    and "collecte K ls (Some hr, op) (intercos_extremite (kh K) pays)
      (concat (map (\<lambda>l. terme K hr (NTCDirect l) (- 1)) (liens_extremite (kh K) pays))) (Some hr, op)"
  using K pays
  by (auto simp: intercos_origine_def [abs_def] intercos_extremite_def [abs_def] hebdo_ok_chaine
      liens_origine_def liens_extremite_def intro!: collecte_forE collecte_ajouter)

lemma collecte_shortTermStorageBalance [wp]:
  assumes K: "contexte_ok K" and pays: "pays < NombreDePays (kh K)"
  shows "collecte K ls (Some hr, op) (shortTermStorageBalance (kh K) pays)
    (concat (map (\<lambda>st. terme K hr (ShortTermStorageInjection (clusterGlobalIndex st)) 1 @
                       terme K hr (ShortTermStorageWithdrawal (clusterGlobalIndex st)) (- 1))
        (ShortTermStorage (kh K) ! pays))) (Some hr, op)"
proof -
  have "collecte K ls (Some hr, op) (seqE
       [ajouter (kh K) (ShortTermStorageInjection (clusterGlobalIndex st)) 1,
        ajouter (kh K) (ShortTermStorageWithdrawal (clusterGlobalIndex st)) (- 1)])
     (terme K hr (ShortTermStorageInjection (clusterGlobalIndex st)) 1 @
      terme K hr (ShortTermStorageWithdrawal (clusterGlobalIndex st)) (- 1) @ []) (Some hr, op)"
    if "st \<in> set (ShortTermStorage (kh K) ! pays)" for st
    by ((rule collecte_seqE_Cons, (rule wp;
        simp add: K hebdo_ok_stockage [OF contexte_ok_hebdo [OF K] pays that]; fail))+,
      rule collecte_seqE_Nil)
  then show ?thesis
    using K pays by (auto simp: shortTermStorageBalance_def [abs_def] intro!: collecte_forE)
qed

lemma construit_row:
  assumes "\<And>ls. acheve K ls 0 (None, None) f op ts j" and "rang op ts = r"
  shows "construit K (avec c f) r 1"
  using construit_acheve [OF assms(1)] assms(2) by simp

lemma AreaBalance_ok:
  assumes [simp]: "contexte_ok K" "pdt < NombreDePasDeTempsPourUneOptimisation (kh K)"
    "pays < NombreDePays (kh K)"
  shows "construit K (AreaBalance_add (kh K) pdt pays) (ligne_AreaBalance K pdt pays) 1"
  unfolding AreaBalance_add_def
  apply (rule construit_row)
   apply ((rule acheve_Cons, (rule wp; simp; fail))+)
   apply (rule acheve_seqE_1, rule acheve_build)
  apply (simp add: ligne_AreaBalance_def)
  done

subsection \<open>FictitiousLoad\<close>

definition FictitiousLoad_add :: "PROBLEME_HEBDO \<Rightarrow> nat \<Rightarrow> nat \<Rightarrow> etat \<Rightarrow> etat resultat" where
  "FictitiousLoad_add h pdt pays = avec C_FictitiousLoad (seqE
     [numeroter_cnt NumeroDeContraintePourEviterLesChargesFictives pdt pays,
      nommer_pays h (heure_annee h pdt) pays CN_FictiveLoads,
      updateHourWithinWeek pdt,
      exportPaliers h pays,
      (\<lambda>s. bindE (lire (DefaillanceNegativeUtiliserHydro h) pays) (\<lambda>use.
           ajouter h (HydProd pays) (if use then - 1 else 0) s)),
      ajouter h (NegativeUnsuppliedEnergy pays) 1,
      lessThan,
      build])"

definition ligne_FictitiousLoad :: "contexte \<Rightarrow> nat \<Rightarrow> nat \<Rightarrow> ligne list" where
  "ligne_FictitiousLoad K pdt pays = rang CHR ''<''
     (termes_paliers K pdt pays @
      terme K pdt (HydProd pays) (if DefaillanceNegativeUtiliserHydro (kh K) ! pays then - 1 else 0) @
      terme K pdt (NegativeUnsuppliedEnergy pays) 1)"

text \<open>A statement that first reads a vector.\<close>

lemma collecte_lire [wp]:
  assumes "i < length xs" and "collecte K ls m (f (xs ! i)) ts j"
  shows "collecte K ls m (\<lambda>s. bindE (lire xs i) (\<lambda>x. f x s)) ts j"
  using assms by simp

lemma FictitiousLoad_ok:
  assumes [simp]: "contexte_ok K" "pdt < NombreDePasDeTempsPourUneOptimisation (kh K)"
    "pays < NombreDePays (kh K)"
  shows "construit K (FictitiousLoad_add (kh K) pdt pays) (ligne_FictitiousLoad K pdt pays) 1"
  unfolding FictitiousLoad_add_def
  apply (rule construit_row)
   apply ((rule acheve_Cons, (rule wp; (rule wp)?; simp; fail))+)
   apply (rule acheve_seqE_1, rule acheve_build)
  apply (simp add: ligne_FictitiousLoad_def)
  done

subsection \<open>ShortTermStorageLevel\<close>

definition ShortTermStorageLevel_corps ::
  "PROBLEME_HEBDO \<Rightarrow> nat \<Rightarrow> nat \<Rightarrow> STS_PROPERTIES \<Rightarrow> etat \<Rightarrow> etat resultat" where
  "ShortTermStorageLevel_corps h pdt pays storage =
     (let index = clusterGlobalIndex storage in seqE
      [nommer_pays h (heure_annee h pdt) pays (CN_ShortTermStorageLevel (storage_name storage)),
       numeroter_cnt ShortTermStorageLevelConstraint pdt index,
       ajouter h (ShortTermStorageLevel index) 1,
       ajouter_decale h (ShortTermStorageLevel index) (- 1) (- 1)
         (int (NombreDePasDeTempsPourUneOptimisation h)),
       ajouter h (ShortTermStorageInjection index) (- 1 * efficiency storage),
       ajouter h (ShortTermStorageWithdrawal index) 1,
       equalTo,
       build])"

definition ShortTermStorageLevel_add :: "PROBLEME_HEBDO \<Rightarrow> nat \<Rightarrow> nat \<Rightarrow> etat \<Rightarrow> etat resultat" where
  "ShortTermStorageLevel_add h pdt pays = avec C_ShortTermStorageLevel (seqE
     [updateHourWithinWeek pdt,
      (\<lambda>s. bindE (lire (ShortTermStorage h) pays) (\<lambda>storages.
           forE storages (ShortTermStorageLevel_corps h pdt pays) s))])"

text \<open>Level now, minus the level one hour before (the last hour of the range before the first),
  minus the efficiency times the injection, plus the withdrawal.\<close>

definition ligne_stockage :: "contexte \<Rightarrow> nat \<Rightarrow> STS_PROPERTIES \<Rightarrow> ligne list" where
  "ligne_stockage K pdt st = (let i = clusterGlobalIndex st in rang CHR ''=''
     (terme K pdt (ShortTermStorageLevel i) 1 @
      terme K (decale K pdt (- 1)) (ShortTermStorageLevel i) (- 1) @
      terme K pdt (ShortTermStorageInjection i) (- efficiency st) @
      terme K pdt (ShortTermStorageWithdrawal i) 1))"

definition lignes_ShortTermStorageLevel :: "contexte \<Rightarrow> nat \<Rightarrow> nat \<Rightarrow> ligne list" where
  "lignes_ShortTermStorageLevel K pdt pays =
     concat (map (ligne_stockage K pdt) (ShortTermStorage (kh K) ! pays))"

lemma produit_row:
  assumes "\<And>ls. acheve K ls 0 i f op ts j" and "rang op ts = r"
  shows "produit K i f r 1 j"
  using produit_acheve [OF assms(1)] assms(2) by simp

lemma ShortTermStorageLevel_corps_ok:
  assumes K [simp]: "contexte_ok K" and pdt [simp]: "pdt < NombreDePasDeTempsPourUneOptimisation (kh K)"
    and pays [simp]: "pays < NombreDePays (kh K)" and st [simp]: "st \<in> set (ShortTermStorage (kh K) ! pays)"
  shows "produit K (Some pdt, None) (ShortTermStorageLevel_corps (kh K) pdt pays st)
    (ligne_stockage K pdt st) 1 (Some pdt, None)"
proof -
  have i [simp]: "clusterGlobalIndex st < NumberOfShortTermStorages (kh K)"
    by (rule hebdo_ok_stockage [OF _ pays st]) simp
  have d: "collecte K ls (Some pdt, op) (ajouter_decale (kh K) (ShortTermStorageLevel i) c (- 1)
        (int (NombreDePasDeTempsPourUneOptimisation (kh K))))
      (terme K (decale K pdt (- 1)) (ShortTermStorageLevel i) c) (Some pdt, op)"
    if "i < NumberOfShortTermStorages (kh K)" for i op ls c
  proof (rule collecte_ajouter_decale)
    have "0 < NombreDePasDeTempsPourUneOptimisation (kh K)" by simp
    then show "0 \<le> int pdt + - 1 + int (NombreDePasDeTempsPourUneOptimisation (kh K))" by linarith
  qed (use that in simp_all)
  have "produit K (Some pdt, None) (ShortTermStorageLevel_corps (kh K) pdt pays st)
    (ligne_stockage K pdt st) 1 (Some pdt, Some CHR ''='')"
    unfolding ShortTermStorageLevel_corps_def Let_def
    apply (rule produit_row)
     apply ((rule acheve_Cons, (rule wp d; simp; fail))+)
     apply (rule acheve_seqE_1, rule acheve_build)
    apply (simp add: ligne_stockage_def Let_def)
    done
  then show ?thesis by (rule produit_le) simp_all
qed

lemma ShortTermStorageLevel_ok:
  assumes [simp]: "contexte_ok K" "pdt < NombreDePasDeTempsPourUneOptimisation (kh K)"
    "pays < NombreDePays (kh K)"
  shows "construit K (ShortTermStorageLevel_add (kh K) pdt pays)
    (lignes_ShortTermStorageLevel K pdt pays) (length (ShortTermStorage (kh K) ! pays))"
proof -
  have "produit K (Some pdt, None) (forE (ShortTermStorage (kh K) ! pays)
      (ShortTermStorageLevel_corps (kh K) pdt pays)) (lignes_ShortTermStorageLevel K pdt pays)
      (sum_list (map (\<lambda>_. 1) (ShortTermStorage (kh K) ! pays))) (Some pdt, None)"
    unfolding lignes_ShortTermStorageLevel_def
    by (rule rangs_avec.emits_forE, rule ShortTermStorageLevel_corps_ok) simp_all
  then have "produit K (None, None) (seqE [updateHourWithinWeek pdt,
      forE (ShortTermStorage (kh K) ! pays) (ShortTermStorageLevel_corps (kh K) pdt pays)])
      ([] @ lignes_ShortTermStorageLevel K pdt pays @ [])
      (0 + (sum_list (map (\<lambda>_. 1) (ShortTermStorage (kh K) ! pays)) + 0)) (Some pdt, None)"
    by (intro produit_seqE [OF produit_heure] produit_seqE [OF _ produit_seqE_Nil]) simp_all
  from construit_avec [OF this] show ?thesis
    unfolding ShortTermStorageLevel_add_def
    by (simp add: sum_list_triv)
qed

subsection \<open>FlowDissociation\<close>

text \<open>The name of a link's row (of its variables) is made of the names of its two ends.\<close>

definition nommer_interco ::
  "PROBLEME_HEBDO \<Rightarrow> nat \<Rightarrow> nat \<Rightarrow> (string \<Rightarrow> string \<Rightarrow> nom_contrainte) \<Rightarrow> etat \<Rightarrow> etat resultat" where
  "nommer_interco h timeStep interco cn s =
     bindE (lire (PaysOrigineDeLInterconnexion h) interco) (\<lambda>no.
     bindE (lire (NomsDesPays h) no) (\<lambda>origin.
     bindE (lire (PaysExtremiteDeLInterconnexion h) interco) (\<lambda>ne.
     bindE (lire (NomsDesPays h) ne) (\<lambda>destination.
     nommer_contrainte (namer_init\<lparr>namer_timeStep := timeStep\<rparr>) (cn origin destination) s))))"

definition FlowDissociation_add :: "PROBLEME_HEBDO \<Rightarrow> nat \<Rightarrow> nat \<Rightarrow> etat \<Rightarrow> etat resultat" where
  "FlowDissociation_add h pdt interco s =
     bindE (lire (CoutDeTransport h) interco) (\<lambda>cout.
     if IntercoGereeAvecDesCouts cout
     then avec C_FlowDissociation (seqE
       [numeroter_cnt NumeroDeContrainteDeDissociationDeFlux pdt interco,
        nommer_interco h (heure_annee h pdt) interco CN_FlowDissociation,
        updateHourWithinWeek pdt,
        ajouter h (NTCDirect interco) 1,
        ajouter h (IntercoDirectCost interco) (- 1),
        ajouter h (IntercoIndirectCost interco) 1,
        equalTo,
        build]) s
     else Inr s)"

definition ligne_FlowDissociation :: "contexte \<Rightarrow> nat \<Rightarrow> nat \<Rightarrow> ligne list" where
  "ligne_FlowDissociation K pdt l =
     (if IntercoGereeAvecDesCouts (CoutDeTransport (kh K) ! l)
      then rang CHR ''='' (terme K pdt (NTCDirect l) 1 @ terme K pdt (IntercoDirectCost l) (- 1) @
                           terme K pdt (IntercoIndirectCost l) 1)
      else [])"

lemma collecte_nommer_interco [wp]:
  assumes [simp]: "hebdo_ok (kh K)" "l < NombreDInterconnexions (kh K)"
  shows "collecte K ls m (nommer_interco (kh K) ts l cn) [] m"
  by (rule collecte_neutre [where place = True])
    (use neutre_nommer_contrainte in \<open>simp add: nommer_interco_def neutre_def\<close>)

lemma construit_Inr: "construit K Inr [] 0"
  by (rule rangs.emits_Inr)

lemma FlowDissociation_ok:
  assumes [simp]: "contexte_ok K" "pdt < NombreDePasDeTempsPourUneOptimisation (kh K)"
    "l < NombreDInterconnexions (kh K)"
  shows "construit K (FlowDissociation_add (kh K) pdt l) (ligne_FlowDissociation K pdt l) 1"
proof (cases "IntercoGereeAvecDesCouts (CoutDeTransport (kh K) ! l)")
  case True
  then have "FlowDissociation_add (kh K) pdt l = avec C_FlowDissociation (seqE
       [numeroter_cnt NumeroDeContrainteDeDissociationDeFlux pdt l,
        nommer_interco (kh K) (heure_annee (kh K) pdt) l CN_FlowDissociation,
        updateHourWithinWeek pdt,
        ajouter (kh K) (NTCDirect l) 1,
        ajouter (kh K) (IntercoDirectCost l) (- 1),
        ajouter (kh K) (IntercoIndirectCost l) 1,
        equalTo,
        build])"
    by (simp add: FlowDissociation_add_def fun_eq_iff)
  then show ?thesis
    apply simp
    apply (rule construit_row [simplified])
     apply ((rule acheve_Cons, (rule wp; simp; fail))+)
     apply (rule acheve_seqE_1, rule acheve_build)
    apply (simp add: ligne_FlowDissociation_def True)
    done
next
  case False
  then have "FlowDissociation_add (kh K) pdt l = Inr" "ligne_FlowDissociation K pdt l = []"
    by (simp_all add: FlowDissociation_add_def ligne_FlowDissociation_def fun_eq_iff)
  then show ?thesis
    using rangs.emits_weaken [OF construit_Inr, of 1] by simp
qed

end
