(* ===== verification/Constraints_Hydro.thy ===== *)
theory Constraints_Hydro
  imports Constraints_Area
begin

text \<open>
  The hydro constraint classes of \<open>src/src/solver/optimisation/constraints/\<close>: the energy of the
  range (\<open>HydroPower\<close>, \<open>MinHydroPower\<close>, \<open>MaxHydroPower\<close>, \<open>MaxPumping\<close>), the smoothing of the
  generation, the hourly reservoir levels (\<open>AreaHydroLevel\<close>) and the final stock. Names as in
  \<open>Constraints_Area\<close>.
\<close>

subsection \<open>Sums over the hours of the range\<close>

definition heures :: "PROBLEME_HEBDO \<Rightarrow> nat list" where
  "heures h = [0..<NombreDePasDeTempsPourUneOptimisation h]"

lemma set_heures [simp]: "pdt \<in> set (heures h) \<longleftrightarrow> pdt < NombreDePasDeTempsPourUneOptimisation h"
  by (simp add: heures_def)

lemma length_heures [simp]: "length (heures h) = NombreDePasDeTempsPourUneOptimisation h"
  by (simp add: heures_def)

lemma collecte_heures:
  assumes "\<And>pdt. pdt \<in> set xs \<Longrightarrow> pdt < NombreDePasDeTemps (kh K)"
    and "\<And>pdt. pdt \<in> set xs \<Longrightarrow> collecte K ls (Some pdt, op) (seqE (fs pdt)) (ts pdt) (Some pdt, op)"
  shows "collecte K ls (hr0, op) (forE xs (\<lambda>pdt. seqE (updateHourWithinWeek pdt # fs pdt)))
    (concat (map ts xs)) (None, op)"
proof (rule collecte_forE_heure)
  fix pdt assume "pdt \<in> set xs"
  from collecte_seqE_Cons [OF collecte_heure [OF assms(1) [OF this]] assms(2) [OF this]]
  show "collecte K ls (None, op) (seqE (updateHourWithinWeek pdt # fs pdt)) (ts pdt) (Some pdt, op)"
    by simp
qed

lemma construit_neutre:
  assumes "neutre K place f"
  shows "construit K f [] (if place then 1 else 0)"
proof (rule rangs.emitsI)
  fix s L
  assume s: "rep_lignes K () s L" and room: "length L + (if place then 1 else 0) \<le> knc K"
  have "inv K s" and len: "NombreDeContraintes (ProblemeAResoudre s) = length L"
    using s by (auto simp: rep_lignes_def)
  then have "returns (f s) (\<lambda>s'. inv K s' \<and> courant s' = courant s \<and>
       lignes (ProblemeAResoudre s') = lignes (ProblemeAResoudre s) \<and>
       Pi (ProblemeAResoudre s') = Pi (ProblemeAResoudre s) \<and>
       Colonne (ProblemeAResoudre s') = Colonne (ProblemeAResoudre s))"
    using assms room by (auto simp: neutre_def split: if_splits)
  then show "returns (f s) (\<lambda>s'. rep_lignes K () s' (L @ []))"
    by (rule returns_mono) (use s in \<open>auto simp: rep_lignes_def\<close>)
qed simp

text \<open>A class whose row is conditional: the other branch records that there is no row.\<close>

lemma construit_si:
  assumes "b \<Longrightarrow> construit K f ls k" and "\<not> b \<Longrightarrow> construit K g ls' k'"
  shows "construit K (\<lambda>s. if b then f s else g s) (if b then ls else ls') (if b then k else k')"
  using assms by simp

lemma construit_lire:
  assumes "i < length xs" and "construit K (f (xs ! i)) ls k"
  shows "construit K (\<lambda>s. bindE (lire xs i) (\<lambda>x. f x s)) ls k"
  using assms by simp

lemma construit_ecrire_cnt_pays:
  "pays < NombreDePays (kh K) \<Longrightarrow> construit K (ecrire_cnt_pays c pays v) [] 0"
  using construit_neutre [OF neutre_ecrire_cnt_pays [where v = "\<lambda>_. v"]] by simp

abbreviation hydro :: "contexte \<Rightarrow> nat \<Rightarrow> ENERGIES_ET_PUISSANCES_HYDRAULIQUES" where
  "hydro K pays \<equiv> CaracteristiquesHydrauliques (kh K) ! pays"

subsection \<open>Energy over the range\<close>

definition HydroPower_add :: "PROBLEME_HEBDO \<Rightarrow> nat \<Rightarrow> etat \<Rightarrow> etat resultat" where
  "HydroPower_add h pays s =
     bindE (lire (CaracteristiquesHydrauliques h) pays) (\<lambda>c.
     if PresenceDHydrauliqueModulable c \<and> \<not> TurbinageEntreBornes c
     then avec C_HydroPower (seqE
       [(if PresenceDePompageModulable c
         then seqE
           [numeroter_cnt_pays NumeroDeContrainteEnergieHydraulique pays,
            forE (heures h) (\<lambda>pdt. seqE
              [updateHourWithinWeek pdt,
               ajouter h (HydProd pays) 1,
               ajouter h (Pumping pays) (- PumpingRatio c)])]
         else forE (heures h) (\<lambda>pdt. seqE
              [updateHourWithinWeek pdt,
               ajouter h (HydProd pays) 1])),
        numeroter_cnt_pays NumeroDeContrainteEnergieHydraulique pays,
        equalTo,
        nommer_pays h (weekInTheYear h) pays CN_HydroPower,
        build]) s
     else ecrire_cnt_pays NumeroDeContrainteEnergieHydraulique pays (- 1) s)"

definition MinHydroPower_add :: "PROBLEME_HEBDO \<Rightarrow> nat \<Rightarrow> etat \<Rightarrow> etat resultat" where
  "MinHydroPower_add h pays s =
     bindE (lire (CaracteristiquesHydrauliques h) pays) (\<lambda>c.
     if PresenceDHydrauliqueModulable c \<and> (TurbinageEntreBornes c \<or> PresenceDePompageModulable c)
     then avec C_MinHydroPower (seqE
       [numeroter_cnt_pays NumeroDeContrainteMinEnergieHydraulique pays,
        nommer_pays h (weekInTheYear h) pays CN_MinHydroPower,
        forE (heures h) (\<lambda>pdt. seqE
          [updateHourWithinWeek pdt,
           ajouter h (HydProd pays) 1]),
        numeroter_cnt_pays NumeroDeContrainteMinEnergieHydraulique pays,
        greaterThan,
        build]) s
     else ecrire_cnt_pays NumeroDeContrainteMinEnergieHydraulique pays (- 1) s)"

definition MaxHydroPower_add :: "PROBLEME_HEBDO \<Rightarrow> nat \<Rightarrow> etat \<Rightarrow> etat resultat" where
  "MaxHydroPower_add h pays s =
     bindE (lire (CaracteristiquesHydrauliques h) pays) (\<lambda>c.
     if PresenceDHydrauliqueModulable c \<and> (TurbinageEntreBornes c \<or> PresenceDePompageModulable c)
     then avec C_MaxHydroPower (seqE
       [numeroter_cnt_pays NumeroDeContrainteMaxEnergieHydraulique pays,
        forE (heures h) (\<lambda>pdt. seqE
          [updateHourWithinWeek pdt,
           ajouter h (HydProd pays) 1]),
        numeroter_cnt_pays NumeroDeContrainteMaxEnergieHydraulique pays,
        nommer_pays h (weekInTheYear h) pays CN_MaxHydroPower,
        lessThan,
        build]) s
     else ecrire_cnt_pays NumeroDeContrainteMaxEnergieHydraulique pays (- 1) s)"

definition MaxPumping_add :: "PROBLEME_HEBDO \<Rightarrow> nat \<Rightarrow> etat \<Rightarrow> etat resultat" where
  "MaxPumping_add h pays s =
     bindE (lire (CaracteristiquesHydrauliques h) pays) (\<lambda>c.
     if PresenceDePompageModulable c
     then avec C_MaxPumping (seqE
       [numeroter_cnt_pays NumeroDeContrainteMaxPompage pays,
        forE (heures h) (\<lambda>pdt. seqE
          [updateHourWithinWeek pdt,
           ajouter h (Pumping pays) 1]),
        numeroter_cnt_pays NumeroDeContrainteMaxPompage pays,
        nommer_pays h (weekInTheYear h) pays CN_MaxPumping,
        lessThan,
        build]) s
     else ecrire_cnt_pays NumeroDeContrainteMaxPompage pays (- 1) s)"

definition somme :: "contexte \<Rightarrow> (nat \<Rightarrow> (int \<times> real) list) \<Rightarrow> (int \<times> real) list" where
  "somme K f = concat (map f (heures (kh K)))"

definition ligne_HydroPower :: "contexte \<Rightarrow> nat \<Rightarrow> ligne list" where
  "ligne_HydroPower K pays =
     (if PresenceDHydrauliqueModulable (hydro K pays) \<and> \<not> TurbinageEntreBornes (hydro K pays)
      then rang CHR ''='' (somme K (\<lambda>pdt. terme K pdt (HydProd pays) 1 @
        (if PresenceDePompageModulable (hydro K pays)
         then terme K pdt (Pumping pays) (- PumpingRatio (hydro K pays)) else [])))
      else [])"

definition ligne_MinHydroPower :: "contexte \<Rightarrow> nat \<Rightarrow> ligne list" where
  "ligne_MinHydroPower K pays =
     (if PresenceDHydrauliqueModulable (hydro K pays) \<and>
         (TurbinageEntreBornes (hydro K pays) \<or> PresenceDePompageModulable (hydro K pays))
      then rang CHR ''>'' (somme K (\<lambda>pdt. terme K pdt (HydProd pays) 1))
      else [])"

definition ligne_MaxHydroPower :: "contexte \<Rightarrow> nat \<Rightarrow> ligne list" where
  "ligne_MaxHydroPower K pays =
     (if PresenceDHydrauliqueModulable (hydro K pays) \<and>
         (TurbinageEntreBornes (hydro K pays) \<or> PresenceDePompageModulable (hydro K pays))
      then rang CHR ''<'' (somme K (\<lambda>pdt. terme K pdt (HydProd pays) 1))
      else [])"

definition ligne_MaxPumping :: "contexte \<Rightarrow> nat \<Rightarrow> ligne list" where
  "ligne_MaxPumping K pays =
     (if PresenceDePompageModulable (hydro K pays)
      then rang CHR ''<'' (somme K (\<lambda>pdt. terme K pdt (Pumping pays) 1))
      else [])"

lemma collecte_somme_1 [wp]:
  assumes "contexte_ok K" and "native_ok (kh K) nv"
  shows "collecte K ls (hr, op) (forE (heures (kh K)) (\<lambda>pdt. seqE
      [updateHourWithinWeek pdt, ajouter (kh K) nv c]))
    (somme K (\<lambda>pdt. terme K pdt nv c)) (None, op)"
  unfolding somme_def
proof (rule collecte_heures)
  fix pdt
  show "collecte K ls (Some pdt, op) (seqE [ajouter (kh K) nv c]) (terme K pdt nv c) (Some pdt, op)"
    using collecte_seqE_Cons [OF collecte_ajouter [OF assms] collecte_seqE_Nil] by simp
qed (use assms(1) in simp)

lemma collecte_somme_2 [wp]:
  assumes "contexte_ok K" and "native_ok (kh K) nv" and "native_ok (kh K) nv'"
  shows "collecte K ls (hr, op) (forE (heures (kh K)) (\<lambda>pdt. seqE
      [updateHourWithinWeek pdt, ajouter (kh K) nv c, ajouter (kh K) nv' c']))
    (somme K (\<lambda>pdt. terme K pdt nv c @ terme K pdt nv' c')) (None, op)"
  unfolding somme_def
proof (rule collecte_heures)
  fix pdt
  show "collecte K ls (Some pdt, op) (seqE [ajouter (kh K) nv c, ajouter (kh K) nv' c'])
      (terme K pdt nv c @ terme K pdt nv' c') (Some pdt, op)"
    using collecte_seqE_Cons [OF collecte_ajouter [OF assms(1,2)]
        collecte_seqE_Cons [OF collecte_ajouter [OF assms(1,3)] collecte_seqE_Nil]]
    by simp
qed (use assms(1) in simp)

lemma somme_cong:
  "(\<And>pdt. pdt < NombreDePasDeTempsPourUneOptimisation (kh K) \<Longrightarrow> f pdt = g pdt) \<Longrightarrow> somme K f = somme K g"
  unfolding somme_def by (rule arg_cong [where f = concat], rule map_cong) auto

lemma collecte_acheve_si:
  assumes "b \<Longrightarrow> collecte K ls i f ts j" and "\<not> b \<Longrightarrow> collecte K ls i g ts' j"
  shows "collecte K ls i (if b then f else g) (if b then ts else ts') j"
  using assms by simp

lemma construit_si_ligne:
  assumes "b \<Longrightarrow> construit K f ls 1" and "\<not> b \<Longrightarrow> construit K g [] 0"
  shows "construit K (if b then f else g) (if b then ls else []) (if b then 1 else 0)"
  using assms by simp

lemma construit_caracteristiques:
  assumes "contexte_ok K" and "pays < NombreDePays (kh K)" and "construit K (f (hydro K pays)) ls k"
  shows "construit K (\<lambda>s. bindE (lire (CaracteristiquesHydrauliques (kh K)) pays) (\<lambda>c. f c s)) ls k"
  using assms by simp

text \<open>The conditional form shared by the classes of this section.\<close>

lemma construit_hydro:
  assumes K: "contexte_ok K" and pays: "pays < NombreDePays (kh K)"
    and X: "\<And>s. X s = bindE (lire (CaracteristiquesHydrauliques (kh K)) pays) (\<lambda>c.
      if b c then avec cl (f c) s else ecrire_cnt_pays ch pays (- 1) s)"
    and f: "b (hydro K pays) \<Longrightarrow> construit K (avec cl (f (hydro K pays))) ls 1"
  shows "construit K X (if b (hydro K pays) then ls else []) (if b (hydro K pays) then 1 else 0)"
proof -
  have "X = (if b (hydro K pays) then avec cl (f (hydro K pays)) else ecrire_cnt_pays ch pays (- 1))"
    using K pays by (simp add: X fun_eq_iff)
  moreover have "construit K (if b (hydro K pays) then avec cl (f (hydro K pays))
      else ecrire_cnt_pays ch pays (- 1)) (if b (hydro K pays) then ls else [])
      (if b (hydro K pays) then 1 else 0)"
    by (rule construit_si_ligne) (use f construit_ecrire_cnt_pays [OF pays] in blast)+
  ultimately show ?thesis by simp
qed

lemma HydroPower_ok:
  assumes [simp]: "contexte_ok K" "pays < NombreDePays (kh K)"
  shows "construit K (HydroPower_add (kh K) pays) (ligne_HydroPower K pays)
    (if PresenceDHydrauliqueModulable (hydro K pays) \<and> \<not> TurbinageEntreBornes (hydro K pays) then 1 else 0)"
  unfolding ligne_HydroPower_def
proof (rule construit_hydro [OF _ _ HydroPower_add_def])
  let ?c = "hydro K pays"
  assume "PresenceDHydrauliqueModulable ?c \<and> \<not> TurbinageEntreBornes ?c"
  have P: "collecte K ls (hr, op) (seqE
     [numeroter_cnt_pays NumeroDeContrainteEnergieHydraulique pays,
      forE (heures (kh K)) (\<lambda>pdt. seqE
        [updateHourWithinWeek pdt,
         ajouter (kh K) (HydProd pays) 1,
         ajouter (kh K) (Pumping pays) (- PumpingRatio ?c)])])
     (somme K (\<lambda>pdt. terme K pdt (HydProd pays) 1 @ terme K pdt (Pumping pays) (- PumpingRatio ?c)))
     (None, op)" for ls hr op
    using collecte_seqE_Cons [OF collecte_numeroter_cnt_pays
        collecte_seqE_Cons [OF collecte_somme_2 collecte_seqE_Nil]] by simp
  show "construit K (avec C_HydroPower (seqE
       [(if PresenceDePompageModulable ?c
         then seqE
           [numeroter_cnt_pays NumeroDeContrainteEnergieHydraulique pays,
            forE (heures (kh K)) (\<lambda>pdt. seqE
              [updateHourWithinWeek pdt,
               ajouter (kh K) (HydProd pays) 1,
               ajouter (kh K) (Pumping pays) (- PumpingRatio ?c)])]
         else forE (heures (kh K)) (\<lambda>pdt. seqE
              [updateHourWithinWeek pdt,
               ajouter (kh K) (HydProd pays) 1])),
        numeroter_cnt_pays NumeroDeContrainteEnergieHydraulique pays,
        equalTo,
        nommer_pays (kh K) (weekInTheYear (kh K)) pays CN_HydroPower,
        build]))
     (rang CHR ''='' (somme K (\<lambda>pdt. terme K pdt (HydProd pays) 1 @
        (if PresenceDePompageModulable ?c then terme K pdt (Pumping pays) (- PumpingRatio ?c)
         else [])))) 1"
    apply (rule construit_row)
     apply (rule acheve_Cons, (rule collecte_acheve_si, rule P, (rule collecte_somme_1; simp)))
     apply ((rule acheve_Cons, (rule wp; simp; fail))+)
     apply (rule acheve_seqE_1, rule acheve_build)
    apply simp
    done
qed simp_all

lemma MinHydroPower_ok:
  assumes [simp]: "contexte_ok K" "pays < NombreDePays (kh K)"
  shows "construit K (MinHydroPower_add (kh K) pays) (ligne_MinHydroPower K pays)
    (if PresenceDHydrauliqueModulable (hydro K pays) \<and>
        (TurbinageEntreBornes (hydro K pays) \<or> PresenceDePompageModulable (hydro K pays)) then 1 else 0)"
  unfolding ligne_MinHydroPower_def
  apply (rule construit_hydro [OF _ _ MinHydroPower_add_def], simp, simp)
  apply (rule construit_row)
   apply ((rule acheve_Cons, (rule wp; simp; fail))+)
   apply (rule acheve_seqE_1, rule acheve_build)
  apply simp
  done

lemma MaxHydroPower_ok:
  assumes [simp]: "contexte_ok K" "pays < NombreDePays (kh K)"
  shows "construit K (MaxHydroPower_add (kh K) pays) (ligne_MaxHydroPower K pays)
    (if PresenceDHydrauliqueModulable (hydro K pays) \<and>
        (TurbinageEntreBornes (hydro K pays) \<or> PresenceDePompageModulable (hydro K pays)) then 1 else 0)"
  unfolding ligne_MaxHydroPower_def
  apply (rule construit_hydro [OF _ _ MaxHydroPower_add_def], simp, simp)
  apply (rule construit_row)
   apply ((rule acheve_Cons, (rule wp; simp; fail))+)
   apply (rule acheve_seqE_1, rule acheve_build)
  apply simp
  done

lemma MaxPumping_ok:
  assumes [simp]: "contexte_ok K" "pays < NombreDePays (kh K)"
  shows "construit K (MaxPumping_add (kh K) pays) (ligne_MaxPumping K pays)
    (if PresenceDePompageModulable (hydro K pays) then 1 else 0)"
  unfolding ligne_MaxPumping_def
  apply (rule construit_hydro [OF _ _ MaxPumping_add_def], simp, simp)
  apply (rule construit_row)
   apply ((rule acheve_Cons, (rule wp; simp; fail))+)
   apply (rule acheve_seqE_1, rule acheve_build)
  apply simp
  done

subsection \<open>Smoothing\<close>

definition HydroPowerSmoothingUsingVariationSum_corps ::
  "PROBLEME_HEBDO \<Rightarrow> nat \<Rightarrow> nat \<Rightarrow> etat \<Rightarrow> etat resultat" where
  "HydroPowerSmoothingUsingVariationSum_corps h pays pdt =
     (let pdt1 = (if NombreDePasDeTempsPourUneOptimisation h \<le> pdt + 1 then 0 else pdt + 1) in seqE
      [nommer_pays h (heure_annee h pdt) pays CN_HydroPowerSmoothingUsingVariationSum,
       updateHourWithinWeek pdt,
       ajouter h (HydProd pays) 1,
       updateHourWithinWeek pdt1,
       ajouter h (HydProd pays) (- 1),
       updateHourWithinWeek pdt,
       ajouter h (HydProdDown pays) (- 1),
       ajouter h (HydProdUp pays) 1,
       equalTo,
       build])"

definition HydroPowerSmoothingUsingVariationSum_add ::
  "PROBLEME_HEBDO \<Rightarrow> nat \<Rightarrow> etat \<Rightarrow> etat resultat" where
  "HydroPowerSmoothingUsingVariationSum_add h pays s =
     bindE (lire (CaracteristiquesHydrauliques h) pays) (\<lambda>c.
     if \<not> PresenceDHydrauliqueModulable c then Inr s
     else avec C_HydroPowerSmoothingUsingVariationSum
       (forE (heures h) (HydroPowerSmoothingUsingVariationSum_corps h pays)) s)"

definition HydroPowerSmoothingUsingVariationMaxDown_add ::
  "PROBLEME_HEBDO \<Rightarrow> nat \<Rightarrow> nat \<Rightarrow> etat \<Rightarrow> etat resultat" where
  "HydroPowerSmoothingUsingVariationMaxDown_add h pays pdt s =
     bindE (lire (CaracteristiquesHydrauliques h) pays) (\<lambda>c.
     if \<not> PresenceDHydrauliqueModulable c then Inr s
     else avec C_HydroPowerSmoothingUsingVariationMaxDown (seqE
      [nommer_pays h (heure_annee h pdt) pays CN_HydroPowerSmoothingUsingVariationMaxDown,
       updateHourWithinWeek pdt,
       ajouter h (HydProd pays) 1,
       updateHourWithinWeek 0,
       ajouter h (HydProdDown pays) (- 1),
       lessThan,
       build]) s)"

definition HydroPowerSmoothingUsingVariationMaxUp_add ::
  "PROBLEME_HEBDO \<Rightarrow> nat \<Rightarrow> nat \<Rightarrow> etat \<Rightarrow> etat resultat" where
  "HydroPowerSmoothingUsingVariationMaxUp_add h pays pdt s =
     bindE (lire (CaracteristiquesHydrauliques h) pays) (\<lambda>c.
     if \<not> PresenceDHydrauliqueModulable c then Inr s
     else avec C_HydroPowerSmoothingUsingVariationMaxUp (seqE
      [nommer_pays h (heure_annee h pdt) pays CN_HydroPowerSmoothingUsingVariationMaxUp,
       updateHourWithinWeek pdt,
       ajouter h (HydProd pays) 1,
       updateHourWithinWeek 0,
       ajouter h (HydProdUp pays) (- 1),
       greaterThan,
       build]) s)"

text \<open>The generation of an hour and of the next one (cyclically) differ by the up and down
  variations of the hour; or by at most the two variations of hour 0.\<close>

definition suivante :: "contexte \<Rightarrow> nat \<Rightarrow> nat" where
  "suivante K pdt = Suc pdt mod NombreDePasDeTempsPourUneOptimisation (kh K)"

definition ligne_VariationSum :: "contexte \<Rightarrow> nat \<Rightarrow> nat \<Rightarrow> ligne list" where
  "ligne_VariationSum K pays pdt = rang CHR ''=''
     (terme K pdt (HydProd pays) 1 @ terme K (suivante K pdt) (HydProd pays) (- 1) @
      terme K pdt (HydProdDown pays) (- 1) @ terme K pdt (HydProdUp pays) 1)"

definition lignes_VariationSum :: "contexte \<Rightarrow> nat \<Rightarrow> ligne list" where
  "lignes_VariationSum K pays =
     (if PresenceDHydrauliqueModulable (hydro K pays)
      then concat (map (ligne_VariationSum K pays) (heures (kh K))) else [])"

definition ligne_VariationMaxDown :: "contexte \<Rightarrow> nat \<Rightarrow> nat \<Rightarrow> ligne list" where
  "ligne_VariationMaxDown K pays pdt =
     (if PresenceDHydrauliqueModulable (hydro K pays)
      then rang CHR ''<'' (terme K pdt (HydProd pays) 1 @ terme K 0 (HydProdDown pays) (- 1))
      else [])"

definition ligne_VariationMaxUp :: "contexte \<Rightarrow> nat \<Rightarrow> nat \<Rightarrow> ligne list" where
  "ligne_VariationMaxUp K pays pdt =
     (if PresenceDHydrauliqueModulable (hydro K pays)
      then rang CHR ''>'' (terme K pdt (HydProd pays) 1 @ terme K 0 (HydProdUp pays) (- 1))
      else [])"

lemma suivante_lt [simp]:
  "hebdo_ok (kh K) \<Longrightarrow> suivante K pdt < NombreDePasDeTempsPourUneOptimisation (kh K)"
  by (simp add: suivante_def)

lemma HydroPowerSmoothingUsingVariationSum_corps_ok:
  assumes [simp]: "contexte_ok K" "pays < NombreDePays (kh K)"
    and pdt [simp]: "pdt < NombreDePasDeTempsPourUneOptimisation (kh K)"
  shows "produit K (None, None) (HydroPowerSmoothingUsingVariationSum_corps (kh K) pays pdt)
    (ligne_VariationSum K pays pdt) 1 (None, None)"
proof -
  have next_hour: "(if NombreDePasDeTempsPourUneOptimisation (kh K) \<le> pdt + 1 then 0 else pdt + 1)
      = suivante K pdt"
    using pdt unfolding suivante_def by (auto simp: le_Suc_eq simp del: pdt)
  have "produit K (None, None) (HydroPowerSmoothingUsingVariationSum_corps (kh K) pays pdt)
    (ligne_VariationSum K pays pdt) 1 (Some pdt, Some CHR ''='')"
    unfolding HydroPowerSmoothingUsingVariationSum_corps_def Let_def next_hour
    apply (rule produit_row)
     apply ((rule acheve_Cons, (rule wp; simp; fail))+)
     apply (rule acheve_seqE_1, rule acheve_build)
    apply (simp add: ligne_VariationSum_def)
    done
  then show ?thesis by (rule produit_le) simp_all
qed

lemma construit_smoothing:
  assumes K: "contexte_ok K" and pays: "pays < NombreDePays (kh K)"
    and X: "\<And>s. X s = bindE (lire (CaracteristiquesHydrauliques (kh K)) pays) (\<lambda>c.
      if \<not> PresenceDHydrauliqueModulable c then Inr s else f s)"
    and f: "construit K f ls k"
  shows "construit K X (if PresenceDHydrauliqueModulable (hydro K pays) then ls else [])
    (if PresenceDHydrauliqueModulable (hydro K pays) then k else 0)"
proof (cases "PresenceDHydrauliqueModulable (hydro K pays)")
  case True
  then have "X = f" using K pays by (simp add: X fun_eq_iff)
  with f True show ?thesis by simp
next
  case False
  then have "X = Inr" using K pays by (simp add: X fun_eq_iff)
  with False show ?thesis
    using construit_Inr by simp
qed

lemma HydroPowerSmoothingUsingVariationSum_ok:
  assumes [simp]: "contexte_ok K" "pays < NombreDePays (kh K)"
  shows "construit K (HydroPowerSmoothingUsingVariationSum_add (kh K) pays)
    (lignes_VariationSum K pays) (if PresenceDHydrauliqueModulable (hydro K pays)
       then NombreDePasDeTempsPourUneOptimisation (kh K) else 0)"
  unfolding lignes_VariationSum_def
proof (rule construit_smoothing [OF _ _ HydroPowerSmoothingUsingVariationSum_add_def])
  have "produit K (None, None) (forE (heures (kh K))
      (HydroPowerSmoothingUsingVariationSum_corps (kh K) pays))
      (concat (map (ligne_VariationSum K pays) (heures (kh K))))
      (sum_list (map (\<lambda>_. 1) (heures (kh K)))) (None, None)"
    by (rule rangs_avec.emits_forE, rule HydroPowerSmoothingUsingVariationSum_corps_ok) simp_all
  from construit_avec [OF this]
  show "construit K (avec C_HydroPowerSmoothingUsingVariationSum (forE (heures (kh K))
      (HydroPowerSmoothingUsingVariationSum_corps (kh K) pays)))
      (concat (map (ligne_VariationSum K pays) (heures (kh K))))
      (NombreDePasDeTempsPourUneOptimisation (kh K))"
    by (simp add: sum_list_triv)
qed simp_all

lemma HydroPowerSmoothingUsingVariationMaxDown_ok:
  assumes [simp]: "contexte_ok K" "pays < NombreDePays (kh K)"
    "pdt < NombreDePasDeTempsPourUneOptimisation (kh K)"
  shows "construit K (HydroPowerSmoothingUsingVariationMaxDown_add (kh K) pays pdt)
    (ligne_VariationMaxDown K pays pdt)
    (if PresenceDHydrauliqueModulable (hydro K pays) then 1 else 0)"
  unfolding ligne_VariationMaxDown_def
  apply (rule construit_smoothing [OF _ _ HydroPowerSmoothingUsingVariationMaxDown_add_def], simp, simp)
  apply (rule construit_row)
   apply ((rule acheve_Cons, (rule wp; simp; fail))+)
   apply (rule acheve_seqE_1, rule acheve_build)
  apply simp
  done

lemma HydroPowerSmoothingUsingVariationMaxUp_ok:
  assumes [simp]: "contexte_ok K" "pays < NombreDePays (kh K)"
    "pdt < NombreDePasDeTempsPourUneOptimisation (kh K)"
  shows "construit K (HydroPowerSmoothingUsingVariationMaxUp_add (kh K) pays pdt)
    (ligne_VariationMaxUp K pays pdt)
    (if PresenceDHydrauliqueModulable (hydro K pays) then 1 else 0)"
  unfolding ligne_VariationMaxUp_def
  apply (rule construit_smoothing [OF _ _ HydroPowerSmoothingUsingVariationMaxUp_add_def], simp, simp)
  apply (rule construit_row)
   apply ((rule acheve_Cons, (rule wp; simp; fail))+)
   apply (rule acheve_seqE_1, rule acheve_build)
  apply simp
  done

subsection \<open>Reservoir levels and final stock\<close>

definition AreaHydroLevel_corps ::
  "PROBLEME_HEBDO \<Rightarrow> nat \<Rightarrow> nat \<Rightarrow> ENERGIES_ET_PUISSANCES_HYDRAULIQUES \<Rightarrow> etat \<Rightarrow> etat resultat" where
  "AreaHydroLevel_corps h pays pdt c = seqE
     [numeroter_cnt NumeroDeContrainteDesNiveauxPays pdt pays,
      updateHourWithinWeek pdt,
      ajouter h (HydroLevel pays) 1,
      (if 0 < pdt then seqE [updateHourWithinWeek (pdt - 1), ajouter h (HydroLevel pays) (- 1)]
       else seqE []),
      nommer_pays h (heure_annee h pdt) pays CN_AreaHydroLevel,
      numeroter_cnt NumeroDeContrainteDesNiveauxPays pdt pays,
      updateHourWithinWeek pdt,
      ajouter h (HydProd pays) 1,
      ajouter h (Pumping pays) (- PumpingRatio c),
      ajouter h (Overflow pays) 1,
      equalTo,
      build]"

definition AreaHydroLevel_add :: "PROBLEME_HEBDO \<Rightarrow> nat \<Rightarrow> nat \<Rightarrow> etat \<Rightarrow> etat resultat" where
  "AreaHydroLevel_add h pays pdt s =
     bindE (lire (CaracteristiquesHydrauliques h) pays) (\<lambda>c.
     if SuiviNiveauHoraire c
     then avec C_AreaHydroLevel (AreaHydroLevel_corps h pays pdt c) s
     else seqE [numeroter_cnt NumeroDeContrainteDesNiveauxPays pdt pays,
                ecrire_cnt NumeroDeContrainteDesNiveauxPays pdt pays (- 1)] s)"

definition FinalStockEquivalent_add :: "PROBLEME_HEBDO \<Rightarrow> nat \<Rightarrow> etat \<Rightarrow> etat resultat" where
  "FinalStockEquivalent_add h pays s =
     (let pdt = NombreDePasDeTempsPourUneOptimisation h - 1 in
     bindE (lire (CaracteristiquesHydrauliques h) pays) (\<lambda>c.
     if AccurateWaterValue c \<and> DirectLevelAccess c
     then avec C_FinalStockEquivalent (seqE
       [numeroter_cnt_pays NumeroDeContrainteEquivalenceStockFinal pays,
        nommer_pays h (heure_annee h pdt) pays CN_FinalStockEquivalent,
        updateHourWithinWeek pdt,
        ajouter h (FinalStorage pays) 1,
        updateHourWithinWeek (NombreDePasDeTempsPourUneOptimisation h - 1),
        ajouter h (HydroLevel pays) (- 1),
        equalTo,
        build]) s
     else Inr s))"

definition FinalStockExpression_add :: "PROBLEME_HEBDO \<Rightarrow> nat \<Rightarrow> etat \<Rightarrow> etat resultat" where
  "FinalStockExpression_add h pays s =
     (let pdt = NombreDePasDeTempsPourUneOptimisation h - 1 in
     bindE (lire (CaracteristiquesHydrauliques h) pays) (\<lambda>c.
     if AccurateWaterValue c
     then avec C_FinalStockExpression (seqE
       [updateHourWithinWeek pdt,
        ajouter h (FinalStorage pays) (- 1),
        forE [0..<100] (\<lambda>layerindex. ajouter h (LayerStorage pays layerindex) 1),
        numeroter_cnt_pays NumeroDeContrainteExpressionStockFinal pays,
        nommer_pays h (heure_annee h pdt) pays CN_FinalStockExpression,
        equalTo,
        build]) s
     else Inr s))"

definition derniere_heure :: "contexte \<Rightarrow> nat" where
  "derniere_heure K = NombreDePasDeTempsPourUneOptimisation (kh K) - 1"

text \<open>The level of an hour minus the one before (no term before hour 0), plus the generation,
  minus the pumped energy at its ratio, plus the overflow.\<close>

definition ligne_AreaHydroLevel :: "contexte \<Rightarrow> nat \<Rightarrow> nat \<Rightarrow> ligne list" where
  "ligne_AreaHydroLevel K pays pdt =
     (if SuiviNiveauHoraire (hydro K pays)
      then rang CHR ''='' (terme K pdt (HydroLevel pays) 1 @
        (if 0 < pdt then terme K (pdt - 1) (HydroLevel pays) (- 1) else []) @
        terme K pdt (HydProd pays) 1 @
        terme K pdt (Pumping pays) (- PumpingRatio (hydro K pays)) @
        terme K pdt (Overflow pays) 1)
      else [])"

definition ligne_FinalStockEquivalent :: "contexte \<Rightarrow> nat \<Rightarrow> ligne list" where
  "ligne_FinalStockEquivalent K pays =
     (if AccurateWaterValue (hydro K pays) \<and> DirectLevelAccess (hydro K pays)
      then rang CHR ''='' (terme K (derniere_heure K) (FinalStorage pays) 1 @
                           terme K (derniere_heure K) (HydroLevel pays) (- 1))
      else [])"

definition ligne_FinalStockExpression :: "contexte \<Rightarrow> nat \<Rightarrow> ligne list" where
  "ligne_FinalStockExpression K pays =
     (if AccurateWaterValue (hydro K pays)
      then rang CHR ''='' (terme K (derniere_heure K) (FinalStorage pays) (- 1) @
        concat (map (\<lambda>l. terme K (derniere_heure K) (LayerStorage pays l) 1) [0..<100]))
      else [])"

lemma derniere_heure_lt [simp]:
  "hebdo_ok (kh K) \<Longrightarrow> derniere_heure K < NombreDePasDeTempsPourUneOptimisation (kh K)"
  "hebdo_ok (kh K) \<Longrightarrow> derniere_heure K < NombreDePasDeTemps (kh K)"
  using hebdo_ok_horizon(1,3) [of "kh K"] by (auto simp: derniere_heure_def)

lemma AreaHydroLevel_corps_ok:
  assumes [simp]: "contexte_ok K" "pays < NombreDePays (kh K)"
    "pdt < NombreDePasDeTempsPourUneOptimisation (kh K)"
  shows "construit K (avec C_AreaHydroLevel (AreaHydroLevel_corps (kh K) pays pdt (hydro K pays)))
    (rang CHR ''='' (terme K pdt (HydroLevel pays) 1 @
        (if 0 < pdt then terme K (pdt - 1) (HydroLevel pays) (- 1) else []) @
        terme K pdt (HydProd pays) 1 @
        terme K pdt (Pumping pays) (- PumpingRatio (hydro K pays)) @
        terme K pdt (Overflow pays) 1)) 1"
proof -
  have veille: "collecte K ls (Some pdt, op)
      (if 0 < pdt then seqE [updateHourWithinWeek (pdt - 1), ajouter (kh K) (HydroLevel pays) (- 1)]
       else seqE [])
      (if 0 < pdt then terme K (pdt - 1) (HydroLevel pays) (- 1) else []) (None, op)" for ls op
  proof (rule collecte_acheve_si)
    have "pdt - 1 < NombreDePasDeTemps (kh K)"
      using pdt_lt [of "kh K" pdt] by (simp add: less_imp_diff_less)
    from collecte_seqE_Cons [OF collecte_heure [OF this] collecte_seqE_Cons
      [OF collecte_ajouter collecte_seqE_Nil]]
    have "collecte K ls (Some pdt, op)
        (seqE [updateHourWithinWeek (pdt - 1), ajouter (kh K) (HydroLevel pays) (- 1)])
        (terme K (pdt - 1) (HydroLevel pays) (- 1)) (Some (pdt - 1), op)"
      by simp
    then show "collecte K ls (Some pdt, op)
        (seqE [updateHourWithinWeek (pdt - 1), ajouter (kh K) (HydroLevel pays) (- 1)])
        (terme K (pdt - 1) (HydroLevel pays) (- 1)) (None, op)"
      by (rule collecte_le) simp_all
    show "collecte K ls (Some pdt, op) (seqE []) [] (None, op)"
      by (rule collecte_le [OF collecte_seqE_Nil [of K ls "(Some pdt, op)"]]) simp_all
  qed
  show ?thesis
    unfolding AreaHydroLevel_corps_def
    apply (rule construit_row)
     apply ((rule acheve_Cons, (rule wp veille; simp; fail))+)
     apply (rule acheve_seqE_1, rule acheve_build)
    apply simp
    done
qed

lemma construit_ecrire_cnt:
  "pdt < NombreDePasDeTemps (kh K) \<Longrightarrow> i < taille_cnt (kh K) c \<Longrightarrow>
     construit K (ecrire_cnt c pdt i v) [] 0"
  using construit_neutre [OF neutre_ecrire_cnt [where v = "\<lambda>_. v"]] by simp

lemma construit_numeroter_cnt:
  "pdt < NombreDePasDeTemps (kh K) \<Longrightarrow> i < taille_cnt (kh K) c \<Longrightarrow>
     construit K (numeroter_cnt c pdt i) [] 0"
  unfolding numeroter_cnt_def using construit_neutre [OF neutre_ecrire_cnt] by simp

lemma AreaHydroLevel_ok:
  assumes [simp]: "contexte_ok K" "pays < NombreDePays (kh K)"
    "pdt < NombreDePasDeTempsPourUneOptimisation (kh K)"
  shows "construit K (AreaHydroLevel_add (kh K) pays pdt) (ligne_AreaHydroLevel K pays pdt)
    (if SuiviNiveauHoraire (hydro K pays) then 1 else 0)"
proof -
  have "AreaHydroLevel_add (kh K) pays pdt = (if SuiviNiveauHoraire (hydro K pays)
     then avec C_AreaHydroLevel (AreaHydroLevel_corps (kh K) pays pdt (hydro K pays))
     else seqE [numeroter_cnt NumeroDeContrainteDesNiveauxPays pdt pays,
                ecrire_cnt NumeroDeContrainteDesNiveauxPays pdt pays (- 1)])"
    by (simp add: AreaHydroLevel_add_def fun_eq_iff)
  moreover have "construit K (seqE [numeroter_cnt NumeroDeContrainteDesNiveauxPays pdt pays,
                ecrire_cnt NumeroDeContrainteDesNiveauxPays pdt pays (- 1)]) [] 0"
    using rangs.emits_seqE_Cons [OF construit_numeroter_cnt
        rangs.emits_seqE_Cons [OF construit_ecrire_cnt rangs.emits_seqE_Nil]] by simp
  ultimately show ?thesis
    using construit_si_ligne [OF AreaHydroLevel_corps_ok] by (simp add: ligne_AreaHydroLevel_def)
qed

lemma construit_final:
  assumes K: "contexte_ok K" and pays: "pays < NombreDePays (kh K)"
    and X: "\<And>s. X s = (let pdt = NombreDePasDeTempsPourUneOptimisation (kh K) - 1 in
      bindE (lire (CaracteristiquesHydrauliques (kh K)) pays) (\<lambda>c.
      if b c then avec cl (f pdt) s else Inr s))"
    and f: "construit K (avec cl (f (derniere_heure K))) ls 1"
  shows "construit K X (if b (hydro K pays) then ls else []) (if b (hydro K pays) then 1 else 0)"
proof -
  have "X = (if b (hydro K pays) then avec cl (f (derniere_heure K)) else Inr)"
    using K pays by (simp add: X fun_eq_iff derniere_heure_def)
  then show ?thesis
    using construit_si_ligne [OF f construit_Inr] by simp
qed

lemma FinalStockEquivalent_ok:
  assumes [simp]: "contexte_ok K" "pays < NombreDePays (kh K)"
  shows "construit K (FinalStockEquivalent_add (kh K) pays) (ligne_FinalStockEquivalent K pays)
    (if AccurateWaterValue (hydro K pays) \<and> DirectLevelAccess (hydro K pays) then 1 else 0)"
  unfolding ligne_FinalStockEquivalent_def
  apply (rule construit_final [OF _ _ FinalStockEquivalent_add_def], simp, simp)
  apply (fold derniere_heure_def)
  apply (rule construit_row)
   apply ((rule acheve_Cons, (rule wp; simp; fail))+)
   apply (rule acheve_seqE_1, rule acheve_build)
  apply simp
  done

lemma FinalStockExpression_ok:
  assumes [simp]: "contexte_ok K" "pays < NombreDePays (kh K)"
  shows "construit K (FinalStockExpression_add (kh K) pays) (ligne_FinalStockExpression K pays)
    (if AccurateWaterValue (hydro K pays) then 1 else 0)"
  unfolding ligne_FinalStockExpression_def
proof (rule construit_final [OF _ _ FinalStockExpression_add_def])
  have tranches: "collecte K ls (Some hr, op)
      (forE [0..<100] (\<lambda>layerindex. ajouter (kh K) (LayerStorage pays layerindex) 1))
      (concat (map (\<lambda>l. terme K hr (LayerStorage pays l) 1) [0..<100])) (Some hr, op)" for ls hr op
    by (rule collecte_forE, rule collecte_ajouter) simp_all
  show "construit K (avec C_FinalStockExpression (seqE
       [updateHourWithinWeek (derniere_heure K),
        ajouter (kh K) (FinalStorage pays) (- 1),
        forE [0..<100] (\<lambda>layerindex. ajouter (kh K) (LayerStorage pays layerindex) 1),
        numeroter_cnt_pays NumeroDeContrainteExpressionStockFinal pays,
        nommer_pays (kh K) (heure_annee (kh K) (derniere_heure K)) pays CN_FinalStockExpression,
        equalTo,
        build]))
     (rang CHR ''='' (terme K (derniere_heure K) (FinalStorage pays) (- 1) @
        concat (map (\<lambda>l. terme K (derniere_heure K) (LayerStorage pays l) 1) [0..<100]))) 1"
    apply (rule construit_row)
     apply ((rule acheve_Cons, (rule wp tranches; simp del: upt_rec_numeral; fail))+)
     apply (rule acheve_seqE_1, rule acheve_build)
    apply (simp del: upt_rec_numeral)
    done
qed simp_all

end
