(* ===== verification/Constraints_Binding.thy ===== *)
theory Constraints_Binding
  imports Constraints_Hydro
begin

text \<open>
  The binding constraints (\<open>BindingConstraintHour\<close>, \<open>BindingConstraintDay\<close>,
  \<open>BindingConstraintWeek\<close> under \<open>src/src/solver/optimisation/constraints/\<close>): weighted sums of flows
  and of thermal generations, each taken at a shifted hour. The shift is cyclic over the
  optimisation range (\<open>GetShiftedTimeStep_cyclic\<close>).
\<close>

subsection \<open>The terms of a binding constraint\<close>

definition pour_intercos ::
  "CONTRAINTES_COUPLANTES \<Rightarrow> (nat \<Rightarrow> real \<Rightarrow> int \<Rightarrow> etat \<Rightarrow> etat resultat) \<Rightarrow> etat \<Rightarrow> etat resultat" where
  "pour_intercos c f = forE [0..<NombreDInterconnexionsDansLaContrainteCouplante c] (\<lambda>index s.
     bindE (lire (NumeroDeLInterconnexion c) index) (\<lambda>interco.
     bindE (lire (PoidsDeLInterconnexion c) index) (\<lambda>poids.
     bindE (lire (OffsetTemporelSurLInterco c) index) (\<lambda>offset.
     f interco poids offset s))))"

definition pour_paliers ::
  "PROBLEME_HEBDO \<Rightarrow> CONTRAINTES_COUPLANTES \<Rightarrow> (nat \<Rightarrow> real \<Rightarrow> int \<Rightarrow> etat \<Rightarrow> etat resultat)
     \<Rightarrow> etat \<Rightarrow> etat resultat" where
  "pour_paliers h c f = forE [0..<NombreDePaliersDispatchDansLaContrainteCouplante c] (\<lambda>index s.
     bindE (lire (PaysDuPalierDispatch c) index) (\<lambda>pays.
     bindE (lire (PaliersThermiquesDuPays h) pays) (\<lambda>pt.
     bindE (lire (NumeroDuPalierDispatch c) index) (\<lambda>i.
     bindE (lire (NumeroDuPalierDansLEnsembleDesPaliersThermiques pt) i) (\<lambda>palier.
     bindE (lire (PoidsDuPalierDispatch c) index) (\<lambda>poids.
     bindE (lire (OffsetTemporelSurLePalierDispatch c) index) (\<lambda>offset.
     f palier poids offset s)))))))"

text \<open>\<open>builder.updateHourWithinWeek(pdt).X(number, weight, offset, NombreDePasDeTemps)\<close>.\<close>

definition terme_couplant ::
  "PROBLEME_HEBDO \<Rightarrow> (nat \<Rightarrow> native) \<Rightarrow> nat \<Rightarrow> nat \<Rightarrow> real \<Rightarrow> int \<Rightarrow> etat \<Rightarrow> etat resultat" where
  "terme_couplant h nv pdt i poids offset = seqE
     [updateHourWithinWeek pdt,
      ajouter_decale h (nv i) poids offset (int (NombreDePasDeTemps h))]"

definition somme_couplante ::
  "PROBLEME_HEBDO \<Rightarrow> (nat \<Rightarrow> native) \<Rightarrow> nat list \<Rightarrow> nat \<Rightarrow> real \<Rightarrow> int \<Rightarrow> etat \<Rightarrow> etat resultat" where
  "somme_couplante h nv pdts i poids offset =
     forE pdts (\<lambda>pdt. terme_couplant h nv pdt i poids offset)"

text \<open>The name of a binding constraint row.\<close>

definition nommer_couplante :: "nat \<Rightarrow> nom_contrainte \<Rightarrow> etat \<Rightarrow> etat resultat" where
  "nommer_couplante timeStep cn = nommer_contrainte (namer_init\<lparr>namer_timeStep := timeStep\<rparr>) cn"

subsection \<open>The three classes\<close>

definition BindingConstraintHour_corps ::
  "PROBLEME_HEBDO \<Rightarrow> nat \<Rightarrow> CONTRAINTES_COUPLANTES \<Rightarrow> etat \<Rightarrow> etat resultat" where
  "BindingConstraintHour_corps h pdt c = seqE
     [updateHourWithinWeek pdt,
      pour_intercos c (terme_couplant h NTCDirect pdt),
      pour_paliers h c (terme_couplant h DispatchableProduction pdt),
      SetOperator (SensDeLaContrainteCouplante c),
      nommer_couplante (heure_annee h pdt) (CN_BindingConstraintHour (NomDeLaContrainteCouplante c)),
      build]"

definition BindingConstraintHour_add :: "PROBLEME_HEBDO \<Rightarrow> nat \<Rightarrow> nat \<Rightarrow> etat \<Rightarrow> etat resultat" where
  "BindingConstraintHour_add h pdt cnt s =
     bindE (lire (MatriceDesContraintesCouplantes h) cnt) (\<lambda>c. seqE
     [numeroter_cnt NumeroDeContrainteDesContraintesCouplantes pdt cnt,
      (if TypeDeContrainteCouplante c \<noteq> CONTRAINTE_HORAIRE then Inr
       else avec C_BindingConstraintHour (BindingConstraintHour_corps h pdt c))] s)"

text \<open>\<open>while (pdtDebut < T) { ...; pdtDebut += D; }\<close>. The number of time steps is fuel enough as
  soon as the day has a positive length (\<open>boucle_jours_forE\<close>).\<close>

fun boucle_jours ::
  "PROBLEME_HEBDO \<Rightarrow> (nat \<Rightarrow> etat \<Rightarrow> etat resultat) \<Rightarrow> nat \<Rightarrow> nat \<Rightarrow> etat \<Rightarrow> etat resultat" where
  "boucle_jours h f 0 pdtDebut s =
     (if pdtDebut < NombreDePasDeTempsPourUneOptimisation h then Inl CarburantEpuise else Inr s)"
| "boucle_jours h f (Suc n) pdtDebut s =
     (if pdtDebut < NombreDePasDeTempsPourUneOptimisation h
      then bindE (f pdtDebut s)
             (boucle_jours h f n (pdtDebut + NombreDePasDeTempsDUneJournee h))
      else Inr s)"

definition BindingConstraintDay_corps ::
  "PROBLEME_HEBDO \<Rightarrow> nat \<Rightarrow> CONTRAINTES_COUPLANTES \<Rightarrow> nat \<Rightarrow> etat \<Rightarrow> etat resultat" where
  "BindingConstraintDay_corps h cnt c pdtDebut s =
     bindE (lire (NumeroDeJourDuPasDeTemps h) pdtDebut) (\<lambda>jour.
     let pdts = [pdtDebut..<pdtDebut + NombreDePasDeTempsDUneJournee h] in seqE
     [pour_intercos c (somme_couplante h NTCDirect pdts),
      pour_paliers h c (somme_couplante h DispatchableProduction pdts),
      (\<lambda>s. ecrire_cnt_jour jour cnt (numero_courant s) s),
      SetOperator (SensDeLaContrainteCouplante c),
      nommer_couplante jour (CN_BindingConstraintDay (NomDeLaContrainteCouplante c)),
      build] s)"

definition BindingConstraintDay_add :: "PROBLEME_HEBDO \<Rightarrow> nat \<Rightarrow> etat \<Rightarrow> etat resultat" where
  "BindingConstraintDay_add h cnt s =
     bindE (lire (MatriceDesContraintesCouplantes h) cnt) (\<lambda>c.
     if TypeDeContrainteCouplante c \<noteq> CONTRAINTE_JOURNALIERE then Inr s
     else avec C_BindingConstraintDay
       (boucle_jours h (BindingConstraintDay_corps h cnt c)
          (NombreDePasDeTempsPourUneOptimisation h) 0) s)"

definition BindingConstraintWeek_corps ::
  "PROBLEME_HEBDO \<Rightarrow> nat \<Rightarrow> CONTRAINTES_COUPLANTES \<Rightarrow> etat \<Rightarrow> etat resultat" where
  "BindingConstraintWeek_corps h cnt c = seqE
     [pour_intercos c (somme_couplante h NTCDirect (heures h)),
      pour_paliers h c (somme_couplante h DispatchableProduction (heures h)),
      SetOperator (SensDeLaContrainteCouplante c),
      (\<lambda>s. ecrire_cnt_hebdo cnt (numero_courant s) s),
      nommer_couplante (weekInTheYear h) (CN_BindingConstraintWeek (NomDeLaContrainteCouplante c)),
      build]"

definition BindingConstraintWeek_add :: "PROBLEME_HEBDO \<Rightarrow> nat \<Rightarrow> etat \<Rightarrow> etat resultat" where
  "BindingConstraintWeek_add h cnt s =
     bindE (lire (MatriceDesContraintesCouplantes h) cnt) (\<lambda>c.
     if TypeDeContrainteCouplante c \<noteq> CONTRAINTE_HEBDOMADAIRE then Inr s
     else avec C_BindingConstraintWeek (BindingConstraintWeek_corps h cnt c) s)"

subsection \<open>The rows\<close>

definition palier_couplant :: "PROBLEME_HEBDO \<Rightarrow> CONTRAINTES_COUPLANTES \<Rightarrow> nat \<Rightarrow> nat" where
  "palier_couplant h c i =
     NumeroDuPalierDansLEnsembleDesPaliersThermiques
       (PaliersThermiquesDuPays h ! (PaysDuPalierDispatch c ! i)) ! (NumeroDuPalierDispatch c ! i)"

definition termes_decales ::
  "contexte \<Rightarrow> (nat \<Rightarrow> native) \<Rightarrow> nat list \<Rightarrow> nat \<Rightarrow> real \<Rightarrow> int \<Rightarrow> (int \<times> real) list" where
  "termes_decales K nv pdts i poids offset =
     concat (map (\<lambda>pdt. terme K (decale K pdt offset) (nv i) poids) pdts)"

definition termes_couplante ::
  "contexte \<Rightarrow> CONTRAINTES_COUPLANTES \<Rightarrow> nat list \<Rightarrow> (int \<times> real) list" where
  "termes_couplante K c pdts =
     concat (map (\<lambda>i. termes_decales K NTCDirect pdts (NumeroDeLInterconnexion c ! i)
         (PoidsDeLInterconnexion c ! i) (OffsetTemporelSurLInterco c ! i))
       [0..<NombreDInterconnexionsDansLaContrainteCouplante c]) @
     concat (map (\<lambda>i. termes_decales K DispatchableProduction pdts (palier_couplant (kh K) c i)
         (PoidsDuPalierDispatch c ! i) (OffsetTemporelSurLePalierDispatch c ! i))
       [0..<NombreDePaliersDispatchDansLaContrainteCouplante c])"

definition ligne_couplante :: "contexte \<Rightarrow> CONTRAINTES_COUPLANTES \<Rightarrow> nat list \<Rightarrow> ligne list" where
  "ligne_couplante K c pdts = rang (SensDeLaContrainteCouplante c) (termes_couplante K c pdts)"

definition debuts_de_jour :: "PROBLEME_HEBDO \<Rightarrow> nat list" where
  "debuts_de_jour h = map (\<lambda>j. j * NombreDePasDeTempsDUneJournee h)
     [0..<NombreDePasDeTempsPourUneOptimisation h div NombreDePasDeTempsDUneJournee h]"

definition jour_depuis :: "PROBLEME_HEBDO \<Rightarrow> nat \<Rightarrow> nat list" where
  "jour_depuis h d = [d..<d + NombreDePasDeTempsDUneJournee h]"

abbreviation couplante :: "contexte \<Rightarrow> nat \<Rightarrow> CONTRAINTES_COUPLANTES" where
  "couplante K cnt \<equiv> MatriceDesContraintesCouplantes (kh K) ! cnt"

definition ligne_BindingConstraintHour :: "contexte \<Rightarrow> nat \<Rightarrow> nat \<Rightarrow> ligne list" where
  "ligne_BindingConstraintHour K pdt cnt =
     (if TypeDeContrainteCouplante (couplante K cnt) = CONTRAINTE_HORAIRE
      then ligne_couplante K (couplante K cnt) [pdt] else [])"

definition lignes_BindingConstraintDay :: "contexte \<Rightarrow> nat \<Rightarrow> ligne list" where
  "lignes_BindingConstraintDay K cnt =
     (if TypeDeContrainteCouplante (couplante K cnt) = CONTRAINTE_JOURNALIERE
      then concat (map (\<lambda>d. ligne_couplante K (couplante K cnt) (jour_depuis (kh K) d))
             (debuts_de_jour (kh K)))
      else [])"

definition ligne_BindingConstraintWeek :: "contexte \<Rightarrow> nat \<Rightarrow> ligne list" where
  "ligne_BindingConstraintWeek K cnt =
     (if TypeDeContrainteCouplante (couplante K cnt) = CONTRAINTE_HEBDOMADAIRE
      then ligne_couplante K (couplante K cnt) (heures (kh K)) else [])"

subsection \<open>The loops\<close>

lemma boucle_jours_forE_aux:
  assumes D: "0 < NombreDePasDeTempsDUneJournee h"
    and T: "NombreDePasDeTempsPourUneOptimisation h = m * NombreDePasDeTempsDUneJournee h"
  shows "j \<le> m \<Longrightarrow> m - j \<le> n \<Longrightarrow> boucle_jours h f n (j * NombreDePasDeTempsDUneJournee h) s =
    forE (map (\<lambda>j. j * NombreDePasDeTempsDUneJournee h) [j..<m]) f s"
proof (induction n arbitrary: j s)
  case 0
  then show ?case using T by simp
next
  case (Suc n)
  show ?case
  proof (cases "j = m")
    case True
    then show ?thesis using T by simp
  next
    case False
    with Suc.prems have "j < m" by simp
    moreover have "boucle_jours h f n (Suc j * NombreDePasDeTempsDUneJournee h) s' =
        forE (map (\<lambda>j. j * NombreDePasDeTempsDUneJournee h) [Suc j..<m]) f s'" for s'
      using Suc.IH [of "Suc j" s'] Suc.prems \<open>j < m\<close> by simp
    ultimately show ?thesis
      using D T by (simp add: upt_rec [of j] add.commute fun_eq_iff bindE_def split: sum.split)
  qed
qed

lemma boucle_jours_forE:
  assumes "hebdo_ok h"
  shows "boucle_jours h f (NombreDePasDeTempsPourUneOptimisation h) 0 s = forE (debuts_de_jour h) f s"
proof -
  let ?D = "NombreDePasDeTempsDUneJournee h"
  obtain m where m: "NombreDePasDeTempsPourUneOptimisation h = m * ?D"
    using hebdo_ok_horizon(6) [OF assms] by (metis dvdE mult.commute)
  have D: "0 < ?D" by (rule hebdo_ok_horizon(5) [OF assms])
  have "m \<le> m * ?D" using D by simp
  then show ?thesis
    using boucle_jours_forE_aux [OF D m, of 0 "m * ?D" f s] m D by (simp add: debuts_de_jour_def)
qed

lemma debuts_de_jour_bornes:
  assumes "hebdo_ok h" and "d \<in> set (debuts_de_jour h)" and "pdt \<in> set (jour_depuis h d)"
  shows "pdt < NombreDePasDeTempsPourUneOptimisation h"
proof -
  let ?D = "NombreDePasDeTempsDUneJournee h" and ?T = "NombreDePasDeTempsPourUneOptimisation h"
  from assms(2) obtain j where j: "d = j * ?D" "j < ?T div ?D"
    unfolding debuts_de_jour_def set_map by (metis atLeastLessThan_iff imageE set_upt)
  have "pdt < Suc j * ?D" using assms(3) j(1) by (simp add: jour_depuis_def)
  also have "Suc j * ?D \<le> ?T div ?D * ?D" using j(2) by (simp only: mult_le_mono1 Suc_leI)
  also have "\<dots> = ?T" using hebdo_ok_horizon(6) [OF assms(1)] by simp
  finally show ?thesis .
qed

lemma debuts_de_jour_lt:
  assumes "hebdo_ok h" and "d \<in> set (debuts_de_jour h)"
  shows "d < NombreDePasDeTempsPourUneOptimisation h"
  using debuts_de_jour_bornes [OF assms, of d] assms(1) by (simp add: jour_depuis_def)

lemma length_debuts_de_jour [simp]:
  "length (debuts_de_jour h) =
     NombreDePasDeTempsPourUneOptimisation h div NombreDePasDeTempsDUneJournee h"
  by (simp add: debuts_de_jour_def)

subsection \<open>Correctness\<close>

lemma couplante_ok_interco [simp]:
  assumes "couplante_ok h c" and "i < NombreDInterconnexionsDansLaContrainteCouplante c"
  shows "NumeroDeLInterconnexion c ! i < NombreDInterconnexions h"
    "- int (NombreDePasDeTemps h) \<le> OffsetTemporelSurLInterco c ! i"
    "OffsetTemporelSurLInterco c ! i < 2 ^ 30"
  using assms unfolding couplante_ok_def decalages_ok_def by (simp_all add: list_all_length)

lemma couplante_ok_palier [simp]:
  assumes "couplante_ok h c" and "i < NombreDePaliersDispatchDansLaContrainteCouplante c"
  shows "PaysDuPalierDispatch c ! i < NombreDePays h"
    "NumeroDuPalierDispatch c ! i
       < NombreDePaliersThermiques (PaliersThermiquesDuPays h ! (PaysDuPalierDispatch c ! i))"
    "- int (NombreDePasDeTemps h) \<le> OffsetTemporelSurLePalierDispatch c ! i"
    "OffsetTemporelSurLePalierDispatch c ! i < 2 ^ 30"
  using assms unfolding couplante_ok_def decalages_ok_def
  by (simp_all add: list_all_length list_all2_conv_all_nth)

lemma couplante_ok_len:
  assumes "couplante_ok h c"
  shows "length (PoidsDeLInterconnexion c) = NombreDInterconnexionsDansLaContrainteCouplante c"
    "length (NumeroDeLInterconnexion c) = NombreDInterconnexionsDansLaContrainteCouplante c"
    "length (OffsetTemporelSurLInterco c) = NombreDInterconnexionsDansLaContrainteCouplante c"
    "length (PoidsDuPalierDispatch c) = NombreDePaliersDispatchDansLaContrainteCouplante c"
    "length (PaysDuPalierDispatch c) = NombreDePaliersDispatchDansLaContrainteCouplante c"
    "length (NumeroDuPalierDispatch c) = NombreDePaliersDispatchDansLaContrainteCouplante c"
    "length (OffsetTemporelSurLePalierDispatch c) = NombreDePaliersDispatchDansLaContrainteCouplante c"
    "SensDeLaContrainteCouplante c = CHR ''<'' \<or> SensDeLaContrainteCouplante c = CHR ''='' \<or>
       SensDeLaContrainteCouplante c = CHR ''>''"
  using assms unfolding couplante_ok_def by simp_all

lemma collecte_terme_couplant:
  assumes K: "contexte_ok K" and nv: "native_ok (kh K) (nv i)"
    and pdt: "pdt < NombreDePasDeTempsPourUneOptimisation (kh K)"
    and off: "- int (NombreDePasDeTemps (kh K)) \<le> offset" "offset < 2 ^ 30"
  shows "collecte K ls (hr, op) (terme_couplant (kh K) nv pdt i poids offset)
    (terme K (decale K pdt offset) (nv i) poids) (Some pdt, op)"
proof -
  have d: "collecte K ls (Some pdt, op) (ajouter_decale (kh K) (nv i) poids offset
      (int (NombreDePasDeTemps (kh K)))) (terme K (decale K pdt offset) (nv i) poids) (Some pdt, op)"
  proof (rule collecte_ajouter_decale [where nv = "nv i", OF K nv pdt])
    show "int (NombreDePasDeTempsPourUneOptimisation (kh K)) dvd int (NombreDePasDeTemps (kh K))"
      using K by simp
    have "NombreDePasDeTemps (kh K) < 2 ^ 30"
      using contexte_ok_horizon [OF K] by (simp add: horizon_ok_def)
    then show "- (2 ^ 30) \<le> offset" using off(1) by simp
  qed (use off in simp_all)
  show ?thesis
    using collecte_seqE_Cons [OF collecte_heure collecte_seqE_Cons [OF d collecte_seqE_Nil]] K pdt
    by (simp add: terme_couplant_def)
qed

lemma collecte_terme_couplant_1:
  assumes "contexte_ok K" and "native_ok (kh K) (nv i)"
    and "pdt < NombreDePasDeTempsPourUneOptimisation (kh K)"
    and "- int (NombreDePasDeTemps (kh K)) \<le> offset" "offset < 2 ^ 30"
  shows "collecte K ls (None, op) (terme_couplant (kh K) nv pdt i poids offset)
    (termes_decales K nv [pdt] i poids offset) (None, op)"
proof -
  have "collecte K ls (None, op) (terme_couplant (kh K) nv pdt i poids offset)
    (terme K (decale K pdt offset) (nv i) poids) (None, op)"
    by (rule collecte_le, rule collecte_terme_couplant [where nv = nv and i = i and op = op and hr = None,
        OF assms]) simp_all
  then show ?thesis by (simp add: termes_decales_def)
qed

lemma collecte_somme_couplante:
  assumes "contexte_ok K" and "native_ok (kh K) (nv i)"
    and "\<And>pdt. pdt \<in> set pdts \<Longrightarrow> pdt < NombreDePasDeTempsPourUneOptimisation (kh K)"
    and "- int (NombreDePasDeTemps (kh K)) \<le> offset" "offset < 2 ^ 30"
  shows "collecte K ls (None, op) (somme_couplante (kh K) nv pdts i poids offset)
    (termes_decales K nv pdts i poids offset) (None, op)"
  unfolding somme_couplante_def [abs_def] termes_decales_def
  by (rule collecte_forE_heure, rule collecte_terme_couplant) (use assms in simp_all)

text \<open>Both loops of a class, for any way \<open>f\<close> of adding one element's terms.\<close>

lemma collecte_pour_intercos:
  assumes K: "contexte_ok K" and c: "couplante_ok (kh K) c"
    and f: "\<And>i p d. i < NombreDInterconnexions (kh K) \<Longrightarrow> - int (NombreDePasDeTemps (kh K)) \<le> d \<Longrightarrow>
      d < 2 ^ 30 \<Longrightarrow> collecte K ls (None, op) (f i p d) (ts i p d) (None, op)"
  shows "collecte K ls (None, op) (pour_intercos c f)
    (concat (map (\<lambda>i. ts (NumeroDeLInterconnexion c ! i) (PoidsDeLInterconnexion c ! i)
       (OffsetTemporelSurLInterco c ! i)) [0..<NombreDInterconnexionsDansLaContrainteCouplante c]))
    (None, op)"
  unfolding pour_intercos_def
  by (rule collecte_forE)
    (use f couplante_ok_interco [OF c] in \<open>simp add: couplante_ok_len [OF c]\<close>)

lemma collecte_pour_paliers:
  assumes K: "contexte_ok K" and c: "couplante_ok (kh K) c"
    and f: "\<And>i p d. i < NombreTotalDePaliersThermiques (kh K) \<Longrightarrow>
      - int (NombreDePasDeTemps (kh K)) \<le> d \<Longrightarrow> d < 2 ^ 30 \<Longrightarrow>
      collecte K ls (None, op) (f i p d) (ts i p d) (None, op)"
  shows "collecte K ls (None, op) (pour_paliers (kh K) c f)
    (concat (map (\<lambda>i. ts (palier_couplant (kh K) c i) (PoidsDuPalierDispatch c ! i)
       (OffsetTemporelSurLePalierDispatch c ! i))
      [0..<NombreDePaliersDispatchDansLaContrainteCouplante c])) (None, op)"
  unfolding pour_paliers_def
proof (rule collecte_forE, goal_cases)
  case (1 i)
  then have i: "i < NombreDePaliersDispatchDansLaContrainteCouplante c" by simp
  note [simp] = couplante_ok_palier [OF c i]
  have "palier_couplant (kh K) c i < NombreTotalDePaliersThermiques (kh K)"
    using K unfolding palier_couplant_def by (intro hebdo_ok_palier) simp_all
  from f [OF this couplante_ok_palier(3,4) [OF c i], of "PoidsDuPalierDispatch c ! i"] i K
  show ?case
    by (simp add: couplante_ok_len [OF c] palier_couplant_def)
qed

lemma collecte_couplante_heure:
  assumes K: "contexte_ok K" and c: "couplante_ok (kh K) c"
    and pdt: "pdt < NombreDePasDeTempsPourUneOptimisation (kh K)"
  shows "collecte K ls (None, op) (pour_intercos c (terme_couplant (kh K) NTCDirect pdt))
      (concat (map (\<lambda>i. termes_decales K NTCDirect [pdt] (NumeroDeLInterconnexion c ! i)
         (PoidsDeLInterconnexion c ! i) (OffsetTemporelSurLInterco c ! i))
       [0..<NombreDInterconnexionsDansLaContrainteCouplante c])) (None, op)"
    and "collecte K ls (None, op)
      (pour_paliers (kh K) c (terme_couplant (kh K) DispatchableProduction pdt))
      (concat (map (\<lambda>i. termes_decales K DispatchableProduction [pdt] (palier_couplant (kh K) c i)
         (PoidsDuPalierDispatch c ! i) (OffsetTemporelSurLePalierDispatch c ! i))
       [0..<NombreDePaliersDispatchDansLaContrainteCouplante c])) (None, op)"
  by (rule collecte_pour_intercos [OF K c] collecte_pour_paliers [OF K c],
      rule collecte_terme_couplant_1 [OF K]; (rule pdt | simp))+

lemma collecte_couplante_somme:
  assumes K: "contexte_ok K" and c: "couplante_ok (kh K) c"
    and pdts: "\<And>pdt. pdt \<in> set pdts \<Longrightarrow> pdt < NombreDePasDeTempsPourUneOptimisation (kh K)"
  shows "collecte K ls (None, op) (pour_intercos c (somme_couplante (kh K) NTCDirect pdts))
      (concat (map (\<lambda>i. termes_decales K NTCDirect pdts (NumeroDeLInterconnexion c ! i)
         (PoidsDeLInterconnexion c ! i) (OffsetTemporelSurLInterco c ! i))
       [0..<NombreDInterconnexionsDansLaContrainteCouplante c])) (None, op)"
    and "collecte K ls (None, op)
      (pour_paliers (kh K) c (somme_couplante (kh K) DispatchableProduction pdts))
      (concat (map (\<lambda>i. termes_decales K DispatchableProduction pdts (palier_couplant (kh K) c i)
         (PoidsDuPalierDispatch c ! i) (OffsetTemporelSurLePalierDispatch c ! i))
       [0..<NombreDePaliersDispatchDansLaContrainteCouplante c])) (None, op)"
  by (rule collecte_pour_intercos [OF K c] collecte_pour_paliers [OF K c],
      rule collecte_somme_couplante [OF K]; (erule pdts | simp))+

lemma collecte_heure_oubliee:
  assumes "hr < NombreDePasDeTemps (kh K)"
  shows "collecte K ls (x, op) (updateHourWithinWeek hr) [] (None, op)"
  by (rule collecte_le [OF collecte_heure [OF assms, of ls x op]]) simp_all

lemma collecte_nommer_couplante [wp]: "collecte K ls m (nommer_couplante ts cn) [] m"
  unfolding nommer_couplante_def by (rule collecte_nommer)

lemma collecte_ecrire_cnt_jour [wp]:
  "jour < 7 \<Longrightarrow> i < NombreDeContraintesCouplantes (kh K) \<Longrightarrow>
     collecte K ls m (\<lambda>s. ecrire_cnt_jour jour i (v s) s) [] m"
  by (rule collecte_neutre [OF neutre_ecrire_cnt_jour])

lemma collecte_ecrire_cnt_hebdo [wp]:
  "i < NombreDeContraintesCouplantes (kh K) \<Longrightarrow>
     collecte K ls m (\<lambda>s. ecrire_cnt_hebdo i (v s) s) [] m"
  by (rule collecte_neutre [OF neutre_ecrire_cnt_hebdo])

lemma BindingConstraintHour_ok:
  assumes [simp]: "contexte_ok K" "pdt < NombreDePasDeTempsPourUneOptimisation (kh K)"
    "cnt < NombreDeContraintesCouplantes (kh K)"
  shows "construit K (BindingConstraintHour_add (kh K) pdt cnt) (ligne_BindingConstraintHour K pdt cnt)
    (if TypeDeContrainteCouplante (couplante K cnt) = CONTRAINTE_HORAIRE then 1 else 0)"
proof -
  let ?c = "couplante K cnt"
  have c: "couplante_ok (kh K) ?c" by (rule hebdo_ok_couplante) simp_all
  have "construit K (avec C_BindingConstraintHour (BindingConstraintHour_corps (kh K) pdt ?c))
      (ligne_couplante K ?c [pdt]) 1"
    unfolding BindingConstraintHour_corps_def
    apply (rule construit_row)
     apply (rule acheve_Cons, rule collecte_heure_oubliee, simp)
     apply (rule acheve_Cons, rule collecte_couplante_heure [OF _ c], simp, simp)+
     apply (rule acheve_Cons, rule collecte_SetOperator, rule couplante_ok_len [OF c])
     apply ((rule acheve_Cons, (rule wp; simp; fail))+)
     apply (rule acheve_seqE_1, rule acheve_build)
    apply (simp add: ligne_couplante_def termes_couplante_def)
    done
  then have "construit K (if TypeDeContrainteCouplante ?c \<noteq> CONTRAINTE_HORAIRE then Inr
       else avec C_BindingConstraintHour (BindingConstraintHour_corps (kh K) pdt ?c))
     (ligne_BindingConstraintHour K pdt cnt)
     (if TypeDeContrainteCouplante ?c = CONTRAINTE_HORAIRE then 1 else 0)"
    using construit_Inr by (simp add: ligne_BindingConstraintHour_def)
  note corps = rangs.emits_seqE_Cons [OF construit_numeroter_cnt [of pdt K cnt
      NumeroDeContrainteDesContraintesCouplantes] rangs.emits_seqE_Cons [OF this rangs.emits_seqE_Nil]]
  have "BindingConstraintHour_add (kh K) pdt cnt = seqE
     [numeroter_cnt NumeroDeContrainteDesContraintesCouplantes pdt cnt,
      (if TypeDeContrainteCouplante ?c \<noteq> CONTRAINTE_HORAIRE then Inr
       else avec C_BindingConstraintHour (BindingConstraintHour_corps (kh K) pdt ?c))]"
    by (simp add: BindingConstraintHour_add_def fun_eq_iff)
  with corps show ?thesis by simp
qed

lemma BindingConstraintDay_corps_ok:
  assumes [simp]: "contexte_ok K" "cnt < NombreDeContraintesCouplantes (kh K)"
    and d: "d \<in> set (debuts_de_jour (kh K))"
  shows "produit K (None, None) (BindingConstraintDay_corps (kh K) cnt (couplante K cnt) d)
    (ligne_couplante K (couplante K cnt) (jour_depuis (kh K) d)) 1 (None, None)"
proof -
  let ?c = "couplante K cnt" and ?jour = "NumeroDeJourDuPasDeTemps (kh K) ! d"
  have c: "couplante_ok (kh K) ?c" by (rule hebdo_ok_couplante) simp_all
  have [simp]: "d < NombreDePasDeTemps (kh K)" "?jour < 7"
    using debuts_de_jour_lt [OF _ d] by simp_all
  have pdts: "pdt < NombreDePasDeTempsPourUneOptimisation (kh K)"
    if "pdt \<in> set (jour_depuis (kh K) d)" for pdt
    by (rule debuts_de_jour_bornes [OF _ d that]) simp
  have "produit K (None, None) (seqE
     [pour_intercos ?c (somme_couplante (kh K) NTCDirect (jour_depuis (kh K) d)),
      pour_paliers (kh K) ?c (somme_couplante (kh K) DispatchableProduction (jour_depuis (kh K) d)),
      (\<lambda>s. ecrire_cnt_jour ?jour cnt (numero_courant s) s),
      SetOperator (SensDeLaContrainteCouplante ?c),
      nommer_couplante ?jour (CN_BindingConstraintDay (NomDeLaContrainteCouplante ?c)),
      build]) (ligne_couplante K ?c (jour_depuis (kh K) d)) 1
     (None, Some (SensDeLaContrainteCouplante ?c))"
    apply (rule produit_row)
     apply (rule acheve_Cons, rule collecte_couplante_somme [OF _ c pdts], simp, assumption)+
     apply (rule acheve_Cons, rule collecte_ecrire_cnt_jour, simp, simp)
     apply (rule acheve_Cons, rule collecte_SetOperator, rule couplante_ok_len [OF c])
     apply ((rule acheve_Cons, (rule wp; simp; fail))+)
     apply (rule acheve_seqE_1, rule acheve_build)
    apply (simp add: ligne_couplante_def termes_couplante_def)
    done
  moreover have "BindingConstraintDay_corps (kh K) cnt ?c d = seqE
     [pour_intercos ?c (somme_couplante (kh K) NTCDirect (jour_depuis (kh K) d)),
      pour_paliers (kh K) ?c (somme_couplante (kh K) DispatchableProduction (jour_depuis (kh K) d)),
      (\<lambda>s. ecrire_cnt_jour ?jour cnt (numero_courant s) s),
      SetOperator (SensDeLaContrainteCouplante ?c),
      nommer_couplante ?jour (CN_BindingConstraintDay (NomDeLaContrainteCouplante ?c)),
      build]"
    by (simp add: BindingConstraintDay_corps_def Let_def jour_depuis_def fun_eq_iff)
  ultimately have "produit K (None, None) (BindingConstraintDay_corps (kh K) cnt ?c d)
     (ligne_couplante K ?c (jour_depuis (kh K) d)) 1 (None, Some (SensDeLaContrainteCouplante ?c))"
    by simp
  then show ?thesis by (rule produit_le) simp_all
qed

lemma BindingConstraintDay_ok:
  assumes [simp]: "contexte_ok K" "cnt < NombreDeContraintesCouplantes (kh K)"
  shows "construit K (BindingConstraintDay_add (kh K) cnt) (lignes_BindingConstraintDay K cnt)
    (if TypeDeContrainteCouplante (couplante K cnt) = CONTRAINTE_JOURNALIERE
     then NombreDePasDeTempsPourUneOptimisation (kh K) div NombreDePasDeTempsDUneJournee (kh K)
     else 0)"
proof (cases "TypeDeContrainteCouplante (couplante K cnt) = CONTRAINTE_JOURNALIERE")
  case True
  let ?c = "couplante K cnt"
  have "produit K (None, None)
      (forE (debuts_de_jour (kh K)) (BindingConstraintDay_corps (kh K) cnt ?c))
      (concat (map (\<lambda>d. ligne_couplante K ?c (jour_depuis (kh K) d)) (debuts_de_jour (kh K))))
      (sum_list (map (\<lambda>_. 1) (debuts_de_jour (kh K)))) (None, None)"
    by (rule rangs_avec.emits_forE, rule BindingConstraintDay_corps_ok) simp_all
  note corps = construit_avec [OF this, of C_BindingConstraintDay]
  have "boucle_jours (kh K) f (NombreDePasDeTempsPourUneOptimisation (kh K)) 0
      = forE (debuts_de_jour (kh K)) f" for f
    by (rule ext, rule boucle_jours_forE) simp
  then have "BindingConstraintDay_add (kh K) cnt = avec C_BindingConstraintDay
      (forE (debuts_de_jour (kh K)) (BindingConstraintDay_corps (kh K) cnt ?c))"
    using True by (intro ext) (simp add: BindingConstraintDay_add_def)
  with corps True show ?thesis
    by (simp add: lignes_BindingConstraintDay_def sum_list_triv)
next
  case False
  then show ?thesis
    using construit_Inr
    by (simp add: BindingConstraintDay_add_def [abs_def] lignes_BindingConstraintDay_def)
qed

lemma BindingConstraintWeek_ok:
  assumes [simp]: "contexte_ok K" "cnt < NombreDeContraintesCouplantes (kh K)"
  shows "construit K (BindingConstraintWeek_add (kh K) cnt) (ligne_BindingConstraintWeek K cnt)
    (if TypeDeContrainteCouplante (couplante K cnt) = CONTRAINTE_HEBDOMADAIRE then 1 else 0)"
proof -
  let ?c = "couplante K cnt"
  have c: "couplante_ok (kh K) ?c" by (rule hebdo_ok_couplante) simp_all
  have pdts: "pdt < NombreDePasDeTempsPourUneOptimisation (kh K)"
    if "pdt \<in> set (heures (kh K))" for pdt
    using that by simp
  have "construit K (avec C_BindingConstraintWeek (BindingConstraintWeek_corps (kh K) cnt ?c))
      (ligne_couplante K ?c (heures (kh K))) 1"
    unfolding BindingConstraintWeek_corps_def
    apply (rule construit_row)
     apply (rule acheve_Cons, rule collecte_couplante_somme [OF _ c pdts], simp, assumption)+
     apply (rule acheve_Cons, rule collecte_SetOperator, rule couplante_ok_len [OF c])
     apply (rule acheve_Cons, rule collecte_ecrire_cnt_hebdo, simp)
     apply ((rule acheve_Cons, (rule wp; simp; fail))+)
     apply (rule acheve_seqE_1, rule acheve_build)
    apply (simp add: ligne_couplante_def termes_couplante_def)
    done
  then show ?thesis
    using construit_Inr
    by (simp add: BindingConstraintWeek_add_def [abs_def] ligne_BindingConstraintWeek_def)
qed

end
