(* ===== verification/Constraints_Thermal.thy ===== *)
theory Constraints_Thermal
  imports Constraints_Binding
begin

text \<open>
  The constraints of the optimisation with start-up costs: the six thermal classes of
  \<open>src/src/solver/optimisation/constraints/\<close> and
  \<open>OPT_ConstruireLaMatriceDesContraintesDuProblemeLineaireCoutsDeDemarrage\<close>
  (\<open>opt_construction_contraintes_couts_demarrage.cpp\<close>). The same code runs twice: with
  \<open>Simulation\<close> it only counts rows and terms, without it builds the rows.
\<close>

subsection \<open>Counting instead of building\<close>

text \<open>\<open>NbTermesContraintesPourLesCoutsDeDemarrage\<close> is a \<open>uint32_t\<close>: it wraps around.\<close>

definition compter :: "int \<Rightarrow> etat \<Rightarrow> etat resultat" where
  "compter nbTermes s = Inr (s\<lparr>NbTermesContraintesPourLesCoutsDeDemarrage :=
       (NbTermesContraintesPourLesCoutsDeDemarrage s + nbTermes) mod 2 ^ 32,
     ProblemeAResoudre := (ProblemeAResoudre s)\<lparr>NombreDeContraintes :=
       NombreDeContraintes (ProblemeAResoudre s) + 1\<rparr>\<rparr>)"

definition nommer_palier ::
  "PROBLEME_HEBDO \<Rightarrow> nat \<Rightarrow> nat \<Rightarrow> nat \<Rightarrow> (string \<Rightarrow> nom_contrainte) \<Rightarrow> etat \<Rightarrow> etat resultat" where
  "nommer_palier h timeStep pays clusterIndex cn s =
     bindE (lire (NomsDesPays h) pays) (\<lambda>nom.
     bindE (lire (PaliersThermiquesDuPays h) pays) (\<lambda>pt.
     bindE (lire (NomsDesPaliersThermiques pt) clusterIndex) (\<lambda>nomPalier.
     nommer_contrainte (namer_init\<lparr>namer_timeStep := timeStep, namer_area := nom\<rparr>)
       (cn nomPalier) s)))"

text \<open>A possibly negative \<open>int\<close> passed as an \<open>unsigned int\<close>.\<close>

definition unsigned_int :: "int \<Rightarrow> nat" where
  "unsigned_int i = nat (i mod 2 ^ 32)"

subsection \<open>The classes\<close>

definition PMaxDispatchableGeneration_add ::
  "PROBLEME_HEBDO \<Rightarrow> nat \<Rightarrow> nat \<Rightarrow> nat \<Rightarrow> nat \<Rightarrow> bool \<Rightarrow> etat \<Rightarrow> etat resultat" where
  "PMaxDispatchableGeneration_add h pays cluster clusterIndex pdt Simulation s =
     (if \<not> Simulation then
        bindE (lire (PaliersThermiquesDuPays h) pays) (\<lambda>pt.
        bindE (lire (PmaxDUnGroupeDuPalierThermique pt) clusterIndex) (\<lambda>pmax.
        avec C_PMaxDispatchableGeneration (seqE
          [updateHourWithinWeek pdt,
           ajouter h (DispatchableProduction cluster) 1,
           ajouter h (NumberOfDispatchableUnits cluster) (- pmax),
           lessThan,
           (\<lambda>s. whenE (0 < NumberOfVariables s) (nommer_palier h (heure_annee h pdt) pays
              clusterIndex CN_PMaxDispatchableGeneration) s),
           build]) s))
      else compter 2 s)"

definition PMinDispatchableGeneration_add ::
  "PROBLEME_HEBDO \<Rightarrow> nat \<Rightarrow> nat \<Rightarrow> nat \<Rightarrow> nat \<Rightarrow> bool \<Rightarrow> etat \<Rightarrow> etat resultat" where
  "PMinDispatchableGeneration_add h pays cluster clusterIndex pdt Simulation s =
     (if \<not> Simulation then
        bindE (lire (PaliersThermiquesDuPays h) pays) (\<lambda>pt.
        bindE (lire (pminDUnGroupeDuPalierThermique pt) clusterIndex) (\<lambda>pmin.
        avec C_PMinDispatchableGeneration (seqE
          [updateHourWithinWeek pdt,
           ajouter h (DispatchableProduction cluster) 1,
           ajouter h (NumberOfDispatchableUnits cluster) (- pmin),
           greaterThan,
           (\<lambda>s. whenE (0 < NumberOfVariables s) (nommer_palier h (heure_annee h pdt) pays
              clusterIndex CN_PMinDispatchableGeneration) s),
           build]) s))
      else compter 2 s)"

definition ConsistenceNumberOfDispatchableUnits_add ::
  "PROBLEME_HEBDO \<Rightarrow> nat \<Rightarrow> nat \<Rightarrow> nat \<Rightarrow> nat \<Rightarrow> bool \<Rightarrow> etat \<Rightarrow> etat resultat" where
  "ConsistenceNumberOfDispatchableUnits_add h pays cluster clusterIndex pdt Simulation s =
     (if \<not> Simulation then
        (let Pdtmoins1 = (if int pdt - 1 < 0
             then int (NombreDePasDeTempsPourUneOptimisation h) + (int pdt - 1)
             else int pdt - 1) in
        avec C_ConsistenceNumberOfDispatchableUnits (seqE
          [updateHourWithinWeek pdt,
           ajouter h (NumberOfDispatchableUnits cluster) 1,
           updateHourWithinWeek (unsigned_int Pdtmoins1),
           ajouter h (NumberOfDispatchableUnits cluster) (- 1),
           updateHourWithinWeek pdt,
           ajouter h (NumberStartingDispatchableUnits cluster) (- 1),
           ajouter h (NumberStoppingDispatchableUnits cluster) 1,
           equalTo,
           (\<lambda>s. if 0 < NumberOfVariables s
                then seqE
                  [nommer_palier h (heure_annee h pdt) pays clusterIndex CN_ConsistenceNODU,
                   build] s
                else Inr s)]) s)
      else compter 4 s)"

definition NbUnitsOutageLessThanNbUnitsStop_add ::
  "PROBLEME_HEBDO \<Rightarrow> nat \<Rightarrow> nat \<Rightarrow> nat \<Rightarrow> nat \<Rightarrow> bool \<Rightarrow> etat \<Rightarrow> etat resultat" where
  "NbUnitsOutageLessThanNbUnitsStop_add h pays cluster clusterIndex pdt Simulation s =
     (if \<not> Simulation then
        avec C_NbUnitsOutageLessThanNbUnitsStop (seqE
          [ecrire_cnt NumeroDeContrainteDesContraintesDeDureeMinDeMarche pdt cluster (- 1),
           updateHourWithinWeek pdt,
           ajouter h (NumberBreakingDownDispatchableUnits cluster) 1,
           ajouter h (NumberStoppingDispatchableUnits cluster) (- 1),
           lessThan,
           (\<lambda>s. if 0 < NumberOfVariables s
                then seqE
                  [nommer_palier h (heure_annee h pdt) pays clusterIndex
                     CN_NbUnitsOutageLessThanNbUnitsStop,
                   build] s
                else Inr s)]) s
      else compter 2 s)"

text \<open>The loop \<open>for (int k = pdt - duree + 1; k <= pdt; k++)\<close> over the hours of the window.\<close>

definition pour_fenetre ::
  "PROBLEME_HEBDO \<Rightarrow> nat \<Rightarrow> int \<Rightarrow> (nat \<Rightarrow> etat \<Rightarrow> etat resultat) \<Rightarrow> etat \<Rightarrow> etat resultat" where
  "pour_fenetre h pdt duree f = forE [int pdt - duree + 1..int pdt] (\<lambda>k.
     let t1 = (if k < 0 then int (NombreDePasDeTempsPourUneOptimisation h) + k else k)
     in f (unsigned_int t1))"

definition NbDispUnitsMinBoundSinceMinUpTime_add ::
  "PROBLEME_HEBDO \<Rightarrow> nat \<Rightarrow> nat \<Rightarrow> nat \<Rightarrow> nat \<Rightarrow> bool \<Rightarrow> etat \<Rightarrow> etat resultat" where
  "NbDispUnitsMinBoundSinceMinUpTime_add h pays cluster clusterIndex pdt Simulation s =
     bindE (lire (PaliersThermiquesDuPays h) pays) (\<lambda>pt.
     bindE (lire (DureeMinimaleDeMarcheDUnGroupeDuPalierThermique pt) clusterIndex) (\<lambda>duree. seqE
     [ecrire_cnt NumeroDeContrainteDesContraintesDeDureeMinDeMarche pdt cluster (- 1),
      (if \<not> Simulation then
         avec C_NbDispUnitsMinBoundSinceMinUpTime (seqE
           [updateHourWithinWeek pdt,
            ajouter h (NumberOfDispatchableUnits cluster) 1,
            pour_fenetre h pdt duree (\<lambda>t1. seqE
              [updateHourWithinWeek t1,
               ajouter h (NumberStartingDispatchableUnits cluster) (- 1),
               ajouter h (NumberBreakingDownDispatchableUnits cluster) 1]),
            greaterThan,
            (\<lambda>s. if 1 < NumberOfVariables s
                 then seqE
                   [numeroter_cnt NumeroDeContrainteDesContraintesDeDureeMinDeMarche pdt cluster,
                    nommer_palier h (heure_annee h pdt) pays clusterIndex
                      CN_NbDispUnitsMinBoundSinceMinUpTime,
                    build] s
                 else Inr s)])
       else compter (1 + 2 * duree))] s))"

definition MinDownTime_add ::
  "PROBLEME_HEBDO \<Rightarrow> nat \<Rightarrow> nat \<Rightarrow> nat \<Rightarrow> nat \<Rightarrow> bool \<Rightarrow> etat \<Rightarrow> etat resultat" where
  "MinDownTime_add h pays cluster clusterIndex pdt Simulation s =
     bindE (lire (PaliersThermiquesDuPays h) pays) (\<lambda>pt.
     bindE (lire (DureeMinimaleDArretDUnGroupeDuPalierThermique pt) clusterIndex) (\<lambda>duree. seqE
     [ecrire_cnt NumeroDeContrainteDesContraintesDeDureeMinDArret pdt cluster (- 1),
      (if \<not> Simulation then
         avec C_MinDownTime (seqE
           [updateHourWithinWeek pdt,
            ajouter h (NumberOfDispatchableUnits cluster) 1,
            pour_fenetre h pdt duree (\<lambda>t1. seqE
              [updateHourWithinWeek t1,
               ajouter h (NumberStoppingDispatchableUnits cluster) 1]),
            lessThan,
            (\<lambda>s. if 1 < NumberOfVariables s
                 then seqE
                   [numeroter_cnt NumeroDeContrainteDesContraintesDeDureeMinDArret pdt cluster,
                    nommer_palier h (heure_annee h pdt) pays clusterIndex CN_MinDownTime,
                    build] s
                 else Inr s)])
       else compter (1 + duree))] s))"

subsection \<open>The five loops\<close>

text \<open>All clusters of an area, and the area loop around it.\<close>

definition pour_paliers_du_pays ::
  "PROBLEME_HEBDO \<Rightarrow> nat \<Rightarrow> (nat \<Rightarrow> nat \<Rightarrow> 's \<Rightarrow> 's resultat) \<Rightarrow> 's \<Rightarrow> 's resultat" where
  "pour_paliers_du_pays h pays f s =
     bindE (lire (PaliersThermiquesDuPays h) pays) (\<lambda>pt.
     forE [0..<NombreDePaliersThermiques pt] (\<lambda>index s.
       bindE (lire (NumeroDuPalierDansLEnsembleDesPaliersThermiques pt) index) (\<lambda>palier.
       f index palier s)) s)"

definition boucle_PMax_PMin :: "PROBLEME_HEBDO \<Rightarrow> bool \<Rightarrow> nat \<Rightarrow> etat \<Rightarrow> etat resultat" where
  "boucle_PMax_PMin h Simulation pays = pour_paliers_du_pays h pays (\<lambda>index palier. seqE
     [nouveau C_PMaxDispatchableGeneration,
      nouveau C_PMinDispatchableGeneration,
      forE (heures h) (\<lambda>pdt. seqE
        [PMaxDispatchableGeneration_add h pays palier index pdt Simulation,
         PMinDispatchableGeneration_add h pays palier index pdt Simulation])])"

definition boucle_Consistence :: "PROBLEME_HEBDO \<Rightarrow> bool \<Rightarrow> nat \<Rightarrow> etat \<Rightarrow> etat resultat" where
  "boucle_Consistence h Simulation pays = pour_paliers_du_pays h pays (\<lambda>index palier.
     forE (heures h) (\<lambda>pdt. seqE
       [nouveau C_ConsistenceNumberOfDispatchableUnits,
        ConsistenceNumberOfDispatchableUnits_add h pays palier index pdt Simulation]))"

definition boucle_NbUnitsOutage :: "PROBLEME_HEBDO \<Rightarrow> bool \<Rightarrow> nat \<Rightarrow> etat \<Rightarrow> etat resultat" where
  "boucle_NbUnitsOutage h Simulation pays = seqE
     [nouveau C_NbUnitsOutageLessThanNbUnitsStop,
      pour_paliers_du_pays h pays (\<lambda>index palier.
        forE (heures h) (\<lambda>pdt.
          NbUnitsOutageLessThanNbUnitsStop_add h pays palier index pdt Simulation))]"

definition boucle_MinUpTime :: "PROBLEME_HEBDO \<Rightarrow> bool \<Rightarrow> nat \<Rightarrow> etat \<Rightarrow> etat resultat" where
  "boucle_MinUpTime h Simulation pays = seqE
     [nouveau C_NbDispUnitsMinBoundSinceMinUpTime,
      (\<lambda>s. bindE (lire (PaliersThermiquesDuPays h) pays) (\<lambda>pt.
        forE [0..<NombreDePaliersThermiques pt] (\<lambda>index s.
          bindE (lire (DureeMinimaleDeMarcheDUnGroupeDuPalierThermique pt) index) (\<lambda>duree.
          if duree \<le> 0 then Inr s
          else bindE (lire (NumeroDuPalierDansLEnsembleDesPaliersThermiques pt) index) (\<lambda>palier.
            forE (heures h) (\<lambda>pdt.
              NbDispUnitsMinBoundSinceMinUpTime_add h pays palier index pdt Simulation) s))) s))]"

definition boucle_MinDownTime :: "PROBLEME_HEBDO \<Rightarrow> bool \<Rightarrow> nat \<Rightarrow> etat \<Rightarrow> etat resultat" where
  "boucle_MinDownTime h Simulation pays = seqE
     [nouveau C_MinDownTime,
      pour_paliers_du_pays h pays (\<lambda>index palier.
        forE (heures h) (\<lambda>pdt. MinDownTime_add h pays palier index pdt Simulation))]"

definition OPT_ConstruireLaMatriceDesContraintesDuProblemeLineaireCoutsDeDemarrage ::
  "PROBLEME_HEBDO \<Rightarrow> bool \<Rightarrow> etat \<Rightarrow> etat resultat" where
  "OPT_ConstruireLaMatriceDesContraintesDuProblemeLineaireCoutsDeDemarrage h Simulation = seqE
     [forE [0..<NombreDePays h] (boucle_PMax_PMin h Simulation),
      forE [0..<NombreDePays h] (boucle_Consistence h Simulation),
      forE [0..<NombreDePays h] (boucle_NbUnitsOutage h Simulation),
      forE [0..<NombreDePays h] (boucle_MinUpTime h Simulation),
      forE [0..<NombreDePays h] (boucle_MinDownTime h Simulation)]"

subsection \<open>The rows\<close>

text \<open>The hours \<open>pdt - duree + 1 .. pdt\<close>, cyclically.\<close>

definition fenetre :: "contexte \<Rightarrow> nat \<Rightarrow> int \<Rightarrow> nat list" where
  "fenetre K pdt duree =
     map (\<lambda>k. nat (k mod int (NombreDePasDeTempsPourUneOptimisation (kh K)))) [int pdt - duree + 1..int pdt]"

abbreviation palier_du :: "contexte \<Rightarrow> nat \<Rightarrow> nat \<Rightarrow> nat" where
  "palier_du K pays i \<equiv>
     NumeroDuPalierDansLEnsembleDesPaliersThermiques (PaliersThermiquesDuPays (kh K) ! pays) ! i"

abbreviation paliers_du :: "contexte \<Rightarrow> nat \<Rightarrow> PALIERS_THERMIQUES" where
  "paliers_du K pays \<equiv> PaliersThermiquesDuPays (kh K) ! pays"

definition ligne_PMax :: "contexte \<Rightarrow> nat \<Rightarrow> nat \<Rightarrow> nat \<Rightarrow> ligne list" where
  "ligne_PMax K pays i pdt = rang CHR ''<''
     (terme K pdt (DispatchableProduction (palier_du K pays i)) 1 @
      terme K pdt (NumberOfDispatchableUnits (palier_du K pays i))
        (- (PmaxDUnGroupeDuPalierThermique (paliers_du K pays) ! i)))"

definition ligne_PMin :: "contexte \<Rightarrow> nat \<Rightarrow> nat \<Rightarrow> nat \<Rightarrow> ligne list" where
  "ligne_PMin K pays i pdt = rang CHR ''>''
     (terme K pdt (DispatchableProduction (palier_du K pays i)) 1 @
      terme K pdt (NumberOfDispatchableUnits (palier_du K pays i))
        (- (pminDUnGroupeDuPalierThermique (paliers_du K pays) ! i)))"

text \<open>Running units now = running units one hour before (cyclically) + started - stopped.\<close>

definition ligne_Consistence :: "contexte \<Rightarrow> nat \<Rightarrow> nat \<Rightarrow> nat \<Rightarrow> ligne list" where
  "ligne_Consistence K pays i pdt = rang CHR ''=''
     (terme K pdt (NumberOfDispatchableUnits (palier_du K pays i)) 1 @
      terme K (decale K pdt (- 1)) (NumberOfDispatchableUnits (palier_du K pays i)) (- 1) @
      terme K pdt (NumberStartingDispatchableUnits (palier_du K pays i)) (- 1) @
      terme K pdt (NumberStoppingDispatchableUnits (palier_du K pays i)) 1)"

definition ligne_NbUnitsOutage :: "contexte \<Rightarrow> nat \<Rightarrow> nat \<Rightarrow> nat \<Rightarrow> ligne list" where
  "ligne_NbUnitsOutage K pays i pdt = rang CHR ''<''
     (terme K pdt (NumberBreakingDownDispatchableUnits (palier_du K pays i)) 1 @
      terme K pdt (NumberStoppingDispatchableUnits (palier_du K pays i)) (- 1))"

definition ligne_MinUpTime :: "contexte \<Rightarrow> nat \<Rightarrow> nat \<Rightarrow> nat \<Rightarrow> ligne list" where
  "ligne_MinUpTime K pays i pdt = rang CHR ''>''
     (terme K pdt (NumberOfDispatchableUnits (palier_du K pays i)) 1 @
      concat (map (\<lambda>t. terme K t (NumberStartingDispatchableUnits (palier_du K pays i)) (- 1) @
                       terme K t (NumberBreakingDownDispatchableUnits (palier_du K pays i)) 1)
        (fenetre K pdt (DureeMinimaleDeMarcheDUnGroupeDuPalierThermique (paliers_du K pays) ! i))))"

definition ligne_MinDownTime :: "contexte \<Rightarrow> nat \<Rightarrow> nat \<Rightarrow> nat \<Rightarrow> ligne list" where
  "ligne_MinDownTime K pays i pdt = rang CHR ''<''
     (terme K pdt (NumberOfDispatchableUnits (palier_du K pays i)) 1 @
      concat (map (\<lambda>t. terme K t (NumberStoppingDispatchableUnits (palier_du K pays i)) 1)
        (fenetre K pdt (DureeMinimaleDArretDUnGroupeDuPalierThermique (paliers_du K pays) ! i))))"

subsection \<open>Correctness of the classes\<close>

lemma neutre_nommer_palier:
  assumes [simp]: "hebdo_ok (kh K)" "pays < NombreDePays (kh K)"
    "i < NombreDePaliersThermiques (paliers_du K pays)"
  shows "neutre K True (nommer_palier (kh K) ts pays i cn)"
  using neutre_nommer_contrainte by (simp add: nommer_palier_def neutre_def)

lemma collecte_nommer_palier [wp]:
  "hebdo_ok (kh K) \<Longrightarrow> pays < NombreDePays (kh K) \<Longrightarrow>
     i < NombreDePaliersThermiques (paliers_du K pays) \<Longrightarrow>
     collecte K ls m (nommer_palier (kh K) ts pays i cn) [] m"
  by (rule collecte_neutre [OF neutre_nommer_palier])

lemma collecte_nommer_palier_si [wp]:
  "hebdo_ok (kh K) \<Longrightarrow> pays < NombreDePays (kh K) \<Longrightarrow>
     i < NombreDePaliersThermiques (paliers_du K pays) \<Longrightarrow>
     collecte K ls m (\<lambda>s. whenE (b s) (nommer_palier (kh K) ts pays i cn) s) [] m"
  by (rule collecte_neutre [OF neutre_whenE [OF neutre_nommer_palier]])

lemma unsigned_int_id [simp]: "0 \<le> i \<Longrightarrow> i < 2 ^ 32 \<Longrightarrow> unsigned_int i = nat i"
  by (simp add: unsigned_int_def)

lemma PMaxDispatchableGeneration_ok:
  assumes [simp]: "contexte_ok K" "pays < NombreDePays (kh K)"
    "i < NombreDePaliersThermiques (paliers_du K pays)"
    "pdt < NombreDePasDeTempsPourUneOptimisation (kh K)"
  shows "construit K (PMaxDispatchableGeneration_add (kh K) pays (palier_du K pays i) i pdt False)
    (ligne_PMax K pays i pdt) 1"
proof -
  let ?p = "palier_du K pays i"
  have "PMaxDispatchableGeneration_add (kh K) pays ?p i pdt False =
      avec C_PMaxDispatchableGeneration (seqE
          [updateHourWithinWeek pdt,
           ajouter (kh K) (DispatchableProduction ?p) 1,
           ajouter (kh K) (NumberOfDispatchableUnits ?p)
             (- (PmaxDUnGroupeDuPalierThermique (paliers_du K pays) ! i)),
           lessThan,
           (\<lambda>s. whenE (0 < NumberOfVariables s) (nommer_palier (kh K) (heure_annee (kh K) pdt) pays
              i CN_PMaxDispatchableGeneration) s),
           build])"
    by (intro ext) (simp add: PMaxDispatchableGeneration_add_def)
  moreover have "construit K \<dots> (ligne_PMax K pays i pdt) 1"
    apply (rule construit_row)
     apply ((rule acheve_Cons, (rule wp; simp; fail))+)
     apply (rule acheve_seqE_1, rule acheve_build)
    apply (simp add: ligne_PMax_def)
    done
  ultimately show ?thesis by simp
qed

lemma PMinDispatchableGeneration_ok:
  assumes [simp]: "contexte_ok K" "pays < NombreDePays (kh K)"
    "i < NombreDePaliersThermiques (paliers_du K pays)"
    "pdt < NombreDePasDeTempsPourUneOptimisation (kh K)"
  shows "construit K (PMinDispatchableGeneration_add (kh K) pays (palier_du K pays i) i pdt False)
    (ligne_PMin K pays i pdt) 1"
proof -
  let ?p = "palier_du K pays i"
  have "PMinDispatchableGeneration_add (kh K) pays ?p i pdt False =
      avec C_PMinDispatchableGeneration (seqE
          [updateHourWithinWeek pdt,
           ajouter (kh K) (DispatchableProduction ?p) 1,
           ajouter (kh K) (NumberOfDispatchableUnits ?p)
             (- (pminDUnGroupeDuPalierThermique (paliers_du K pays) ! i)),
           greaterThan,
           (\<lambda>s. whenE (0 < NumberOfVariables s) (nommer_palier (kh K) (heure_annee (kh K) pdt) pays
              i CN_PMinDispatchableGeneration) s),
           build])"
    by (intro ext) (simp add: PMinDispatchableGeneration_add_def)
  moreover have "construit K \<dots> (ligne_PMin K pays i pdt) 1"
    apply (rule construit_row)
     apply ((rule acheve_Cons, (rule wp; simp; fail))+)
     apply (rule acheve_seqE_1, rule acheve_build)
    apply (simp add: ligne_PMin_def)
    done
  ultimately show ?thesis by simp
qed

text \<open>
  The remaining classes skip the row (and keep the collected terms in the builder) when the
  variables do not exist; they are only used once the variables of the start-up costs are numbered.
\<close>

definition demarrage_numerote :: "contexte \<Rightarrow> bool" where
  "demarrage_numerote K \<longleftrightarrow> (\<forall>pays < NombreDePays (kh K).
     \<forall>i < NombreDePaliersThermiques (paliers_du K pays).
     \<forall>hr < NombreDePasDeTempsPourUneOptimisation (kh K).
       0 \<le> numero K hr (NumberOfDispatchableUnits (palier_du K pays i)) \<and>
       0 \<le> numero K hr (NumberStartingDispatchableUnits (palier_du K pays i)) \<and>
       0 \<le> numero K hr (NumberStoppingDispatchableUnits (palier_du K pays i)) \<and>
       0 \<le> numero K hr (NumberBreakingDownDispatchableUnits (palier_du K pays i)))"

lemma demarrage_numerote_terme:
  assumes "demarrage_numerote K" and "pays < NombreDePays (kh K)"
    and "i < NombreDePaliersThermiques (paliers_du K pays)"
    and "hr < NombreDePasDeTempsPourUneOptimisation (kh K)"
  shows "length (terme K hr (NumberOfDispatchableUnits (palier_du K pays i)) c) = 1"
    "length (terme K hr (NumberStartingDispatchableUnits (palier_du K pays i)) c) = 1"
    "length (terme K hr (NumberStoppingDispatchableUnits (palier_du K pays i)) c) = 1"
    "length (terme K hr (NumberBreakingDownDispatchableUnits (palier_du K pays i)) c) = 1"
  using assms by (auto simp: demarrage_numerote_def terme_def not_less)

lemma veille_decale:
  assumes "hebdo_ok (kh K)" and "pdt < NombreDePasDeTempsPourUneOptimisation (kh K)"
  shows "unsigned_int (if int pdt - 1 < 0
      then int (NombreDePasDeTempsPourUneOptimisation (kh K)) + (int pdt - 1) else int pdt - 1)
    = decale K pdt (- 1)"
    "decale K pdt (- 1) < NombreDePasDeTempsPourUneOptimisation (kh K)"
proof -
  let ?T = "int (NombreDePasDeTempsPourUneOptimisation (kh K))"
  let ?t = "if int pdt - 1 < 0 then ?T + (int pdt - 1) else int pdt - 1"
  have T: "?T < 2 ^ 32" "0 < ?T"
    using assms(1) unfolding hebdo_ok_def horizon_ok_def by simp_all
  have t: "0 \<le> ?t" "?t < ?T" using assms(2) by auto
  moreover have "(int pdt + - 1) mod ?T = ?t"
  proof (cases "pdt = 0")
    case True
    then show ?thesis using T by (simp add: zmod_minus1)
  next
    case False
    then show ?thesis using assms(2) by simp
  qed
  ultimately show "unsigned_int ?t = decale K pdt (- 1)"
    using T by (simp add: decale_def)
  show "decale K pdt (- 1) < NombreDePasDeTempsPourUneOptimisation (kh K)"
    using T(2) by (simp add: decale_def nat_less_iff)
qed

lemma ConsistenceNumberOfDispatchableUnits_ok:
  assumes [simp]: "contexte_ok K" "pays < NombreDePays (kh K)"
    "i < NombreDePaliersThermiques (paliers_du K pays)"
    "pdt < NombreDePasDeTempsPourUneOptimisation (kh K)"
    and num: "demarrage_numerote K"
  shows "construit K (ConsistenceNumberOfDispatchableUnits_add (kh K) pays (palier_du K pays i) i pdt
    False) (ligne_Consistence K pays i pdt) 1"
proof -
  let ?p = "palier_du K pays i"
  note [simp] = demarrage_numerote_terme [OF num]
  have v: "decale K pdt (- 1) < NombreDePasDeTemps (kh K)"
    using veille_decale(2) [of K pdt] by simp
  have "ConsistenceNumberOfDispatchableUnits_add (kh K) pays ?p i pdt False =
      avec C_ConsistenceNumberOfDispatchableUnits (seqE
          [updateHourWithinWeek pdt,
           ajouter (kh K) (NumberOfDispatchableUnits ?p) 1,
           updateHourWithinWeek (decale K pdt (- 1)),
           ajouter (kh K) (NumberOfDispatchableUnits ?p) (- 1),
           updateHourWithinWeek pdt,
           ajouter (kh K) (NumberStartingDispatchableUnits ?p) (- 1),
           ajouter (kh K) (NumberStoppingDispatchableUnits ?p) 1,
           equalTo,
           (\<lambda>s. if 0 < NumberOfVariables s
                then seqE
                  [nommer_palier (kh K) (heure_annee (kh K) pdt) pays i CN_ConsistenceNODU,
                   build] s
                else Inr s)])"
    by (intro ext) (simp only: ConsistenceNumberOfDispatchableUnits_add_def Let_def
      veille_decale(1) [OF contexte_ok_hebdo [OF assms(1)] assms(4)] simp_thms if_True)
  moreover have "construit K \<dots> (ligne_Consistence K pays i pdt) 1"
    apply (rule construit_row)
     apply ((rule acheve_Cons, (rule wp; simp add: v; fail))+)
     apply (rule acheve_seqE_1, rule acheve_si, simp)
     apply ((rule acheve_Cons, (rule wp; simp; fail))+)
     apply (rule acheve_seqE_1, rule acheve_build)
    apply (simp add: ligne_Consistence_def)
    done
  ultimately show ?thesis by simp
qed

lemma NbUnitsOutageLessThanNbUnitsStop_ok:
  assumes [simp]: "contexte_ok K" "pays < NombreDePays (kh K)"
    "i < NombreDePaliersThermiques (paliers_du K pays)"
    "pdt < NombreDePasDeTempsPourUneOptimisation (kh K)"
    and num: "demarrage_numerote K"
  shows "construit K (NbUnitsOutageLessThanNbUnitsStop_add (kh K) pays (palier_du K pays i) i pdt
    False) (ligne_NbUnitsOutage K pays i pdt) 1"
proof -
  let ?p = "palier_du K pays i"
  note [simp] = demarrage_numerote_terme [OF num]
  have "NbUnitsOutageLessThanNbUnitsStop_add (kh K) pays ?p i pdt False =
      avec C_NbUnitsOutageLessThanNbUnitsStop (seqE
          [ecrire_cnt NumeroDeContrainteDesContraintesDeDureeMinDeMarche pdt ?p (- 1),
           updateHourWithinWeek pdt,
           ajouter (kh K) (NumberBreakingDownDispatchableUnits ?p) 1,
           ajouter (kh K) (NumberStoppingDispatchableUnits ?p) (- 1),
           lessThan,
           (\<lambda>s. if 0 < NumberOfVariables s
                then seqE
                  [nommer_palier (kh K) (heure_annee (kh K) pdt) pays i
                     CN_NbUnitsOutageLessThanNbUnitsStop,
                   build] s
                else Inr s)])"
    by (intro ext) (simp only: NbUnitsOutageLessThanNbUnitsStop_add_def simp_thms if_True)
  moreover have "construit K \<dots> (ligne_NbUnitsOutage K pays i pdt) 1"
    apply (rule construit_row)
     apply ((rule acheve_Cons, (rule wp; simp; fail))+)
     apply (rule acheve_seqE_1, rule acheve_si, simp)
     apply ((rule acheve_Cons, (rule wp; simp; fail))+)
     apply (rule acheve_seqE_1, rule acheve_build)
    apply (simp add: ligne_NbUnitsOutage_def)
    done
  ultimately show ?thesis by simp
qed

text \<open>The window of the minimum up and down times.\<close>

lemma fenetre_heure:
  assumes T: "hebdo_ok (kh K)" and pdt: "pdt < NombreDePasDeTempsPourUneOptimisation (kh K)"
    and d: "duree \<le> int (NombreDePasDeTempsPourUneOptimisation (kh K))"
    and k: "k \<in> set [int pdt - duree + 1..int pdt]"
  shows "unsigned_int (if k < 0 then int (NombreDePasDeTempsPourUneOptimisation (kh K)) + k else k)
      = nat (k mod int (NombreDePasDeTempsPourUneOptimisation (kh K)))"
    "nat (k mod int (NombreDePasDeTempsPourUneOptimisation (kh K)))
      < NombreDePasDeTempsPourUneOptimisation (kh K)"
proof -
  let ?T = "int (NombreDePasDeTempsPourUneOptimisation (kh K))"
  have b: "?T < 2 ^ 32" "0 < ?T"
    using T unfolding hebdo_ok_def horizon_ok_def by simp_all
  have k': "- ?T < k" "k < ?T" using k d pdt by auto
  have "(if k < 0 then ?T + k else k) = k mod ?T"
  proof (cases "k < 0")
    case True
    have "k mod ?T = (?T + k) mod ?T" by simp
    also have "\<dots> = ?T + k" using True k' by (intro mod_pos_pos_trivial) simp_all
    finally show ?thesis using True by simp
  qed (use k' in simp)
  moreover have "0 \<le> k mod ?T" "k mod ?T < ?T" using b by simp_all
  moreover from this(2) b(1) have "k mod ?T < 2 ^ 32" by linarith
  ultimately show "unsigned_int (if k < 0 then ?T + k else k) = nat (k mod ?T)"
    "nat (k mod ?T) < NombreDePasDeTempsPourUneOptimisation (kh K)"
    by (simp_all add: nat_less_iff)
qed

lemma length_fenetre [simp]: "length (fenetre K pdt duree) = nat duree"
  by (simp add: fenetre_def)

lemma collecte_pour_fenetre:
  assumes "hebdo_ok (kh K)" and "pdt < NombreDePasDeTempsPourUneOptimisation (kh K)"
    and "duree \<le> int (NombreDePasDeTempsPourUneOptimisation (kh K))"
    and f: "\<And>t. t < NombreDePasDeTempsPourUneOptimisation (kh K) \<Longrightarrow>
      collecte K ls (None, op) (f t) (ts t) (None, op)"
  shows "collecte K ls (hr, op) (pour_fenetre (kh K) pdt duree f)
    (concat (map ts (fenetre K pdt duree))) (None, op)"
proof -
  have "collecte K ls (hr, op) (pour_fenetre (kh K) pdt duree f)
    (concat (map (\<lambda>k. ts (nat (k mod int (NombreDePasDeTempsPourUneOptimisation (kh K)))))
       [int pdt - duree + 1..int pdt])) (None, op)"
    unfolding pour_fenetre_def Let_def
  proof (rule collecte_forE_heure [where hr = "\<lambda>_. None"], goal_cases)
    case (1 k)
    from fenetre_heure [OF assms(1-3) this] f show ?case by simp
  qed
  then show ?thesis by (simp add: fenetre_def comp_def)
qed

lemma fenetre_lt:
  assumes "hebdo_ok (kh K)" and "pdt < NombreDePasDeTempsPourUneOptimisation (kh K)"
    and "duree \<le> int (NombreDePasDeTempsPourUneOptimisation (kh K))"
    and "t \<in> set (fenetre K pdt duree)"
  shows "t < NombreDePasDeTempsPourUneOptimisation (kh K)"
  using fenetre_heure(2) [OF assms(1-3)] assms(4) unfolding fenetre_def set_map by blast

lemma length_concat_1:
  "(\<And>t. t \<in> set xs \<Longrightarrow> length (f t) = n) \<Longrightarrow> length (concat (map f xs)) = n * length xs"
  by (induction xs) auto

lemma collecte_demarrages:
  assumes [simp]: "contexte_ok K" "p < NombreTotalDePaliersThermiques (kh K)"
    "t < NombreDePasDeTempsPourUneOptimisation (kh K)"
  shows "collecte K ls (None, op) (seqE
      [updateHourWithinWeek t,
       ajouter (kh K) (NumberStartingDispatchableUnits p) (- 1),
       ajouter (kh K) (NumberBreakingDownDispatchableUnits p) 1])
     (terme K t (NumberStartingDispatchableUnits p) (- 1) @
      terme K t (NumberBreakingDownDispatchableUnits p) 1) (None, op)"
    and "collecte K ls (None, op) (seqE
      [updateHourWithinWeek t,
       ajouter (kh K) (NumberStoppingDispatchableUnits p) 1])
     (terme K t (NumberStoppingDispatchableUnits p) 1) (None, op)"
proof -
  have h: "collecte K ls (None, op) (updateHourWithinWeek t) [] (Some t, op)"
    by (rule collecte_heure) simp
  have "collecte K ls (None, op) (seqE
      [updateHourWithinWeek t,
       ajouter (kh K) (NumberStartingDispatchableUnits p) (- 1),
       ajouter (kh K) (NumberBreakingDownDispatchableUnits p) 1])
     ([] @ terme K t (NumberStartingDispatchableUnits p) (- 1) @
      terme K t (NumberBreakingDownDispatchableUnits p) 1 @ []) (Some t, op)"
    by (rule collecte_seqE_Cons [OF h], (rule collecte_seqE_Cons, rule collecte_ajouter, simp, simp)+,
      rule collecte_seqE_Nil)
  then show "collecte K ls (None, op) (seqE
      [updateHourWithinWeek t,
       ajouter (kh K) (NumberStartingDispatchableUnits p) (- 1),
       ajouter (kh K) (NumberBreakingDownDispatchableUnits p) 1])
     (terme K t (NumberStartingDispatchableUnits p) (- 1) @
      terme K t (NumberBreakingDownDispatchableUnits p) 1) (None, op)"
    by - (rule collecte_le [where i = "(None, op)" and j = "(Some t, op)"], simp_all)
  have "collecte K ls (None, op) (seqE
      [updateHourWithinWeek t,
       ajouter (kh K) (NumberStoppingDispatchableUnits p) 1])
     ([] @ terme K t (NumberStoppingDispatchableUnits p) 1 @ []) (Some t, op)"
    by (rule collecte_seqE_Cons [OF h], (rule collecte_seqE_Cons, rule collecte_ajouter, simp, simp)+,
      rule collecte_seqE_Nil)
  then show "collecte K ls (None, op) (seqE
      [updateHourWithinWeek t,
       ajouter (kh K) (NumberStoppingDispatchableUnits p) 1])
     (terme K t (NumberStoppingDispatchableUnits p) 1) (None, op)"
    by - (rule collecte_le [where i = "(None, op)" and j = "(Some t, op)"], simp_all)
qed

lemma NbDispUnitsMinBoundSinceMinUpTime_ok:
  assumes [simp]: "contexte_ok K" "pays < NombreDePays (kh K)"
    "i < NombreDePaliersThermiques (paliers_du K pays)"
    "pdt < NombreDePasDeTempsPourUneOptimisation (kh K)"
    and num: "demarrage_numerote K"
    and d: "0 < DureeMinimaleDeMarcheDUnGroupeDuPalierThermique (paliers_du K pays) ! i"
      "DureeMinimaleDeMarcheDUnGroupeDuPalierThermique (paliers_du K pays) ! i
         \<le> int (NombreDePasDeTempsPourUneOptimisation (kh K))"
  shows "construit K (NbDispUnitsMinBoundSinceMinUpTime_add (kh K) pays (palier_du K pays i) i pdt
    False) (ligne_MinUpTime K pays i pdt) 1"
proof -
  let ?p = "palier_du K pays i"
  let ?d = "DureeMinimaleDeMarcheDUnGroupeDuPalierThermique (paliers_du K pays) ! i"
  note [simp] = demarrage_numerote_terme [OF num]
  have lt: "t < NombreDePasDeTempsPourUneOptimisation (kh K)" if "t \<in> set (fenetre K pdt ?d)" for t
    by (rule fenetre_lt [OF _ _ d(2) that]) simp_all
  have [simp]: "length (concat (map (\<lambda>t. terme K t (NumberStartingDispatchableUnits ?p) (- 1) @
      terme K t (NumberBreakingDownDispatchableUnits ?p) 1) (fenetre K pdt ?d))) = 2 * nat ?d"
    by (subst length_concat_1 [where n = 2]) (simp_all add: lt)
  have eq: "NbDispUnitsMinBoundSinceMinUpTime_add (kh K) pays ?p i pdt False = seqE
      [ecrire_cnt NumeroDeContrainteDesContraintesDeDureeMinDeMarche pdt ?p (- 1),
       avec C_NbDispUnitsMinBoundSinceMinUpTime (seqE
           [updateHourWithinWeek pdt,
            ajouter (kh K) (NumberOfDispatchableUnits ?p) 1,
            pour_fenetre (kh K) pdt ?d (\<lambda>t1. seqE
              [updateHourWithinWeek t1,
               ajouter (kh K) (NumberStartingDispatchableUnits ?p) (- 1),
               ajouter (kh K) (NumberBreakingDownDispatchableUnits ?p) 1]),
            greaterThan,
            (\<lambda>s. if 1 < NumberOfVariables s
                 then seqE
                   [numeroter_cnt NumeroDeContrainteDesContraintesDeDureeMinDeMarche pdt ?p,
                    nommer_palier (kh K) (heure_annee (kh K) pdt) pays i
                      CN_NbDispUnitsMinBoundSinceMinUpTime,
                    build] s
                 else Inr s)])]"
    by (intro ext) (simp add: NbDispUnitsMinBoundSinceMinUpTime_add_def)
  have "construit K (avec C_NbDispUnitsMinBoundSinceMinUpTime (seqE
           [updateHourWithinWeek pdt,
            ajouter (kh K) (NumberOfDispatchableUnits ?p) 1,
            pour_fenetre (kh K) pdt ?d (\<lambda>t1. seqE
              [updateHourWithinWeek t1,
               ajouter (kh K) (NumberStartingDispatchableUnits ?p) (- 1),
               ajouter (kh K) (NumberBreakingDownDispatchableUnits ?p) 1]),
            greaterThan,
            (\<lambda>s. if 1 < NumberOfVariables s
                 then seqE
                   [numeroter_cnt NumeroDeContrainteDesContraintesDeDureeMinDeMarche pdt ?p,
                    nommer_palier (kh K) (heure_annee (kh K) pdt) pays i
                      CN_NbDispUnitsMinBoundSinceMinUpTime,
                    build] s
                 else Inr s)])) (ligne_MinUpTime K pays i pdt) 1"
    apply (rule construit_row)
     apply ((rule acheve_Cons, (rule wp; simp; fail))+)
     apply (rule acheve_Cons, rule collecte_pour_fenetre, simp, simp, rule d(2),
        rule collecte_demarrages, simp, simp, assumption)
     apply (rule acheve_Cons, rule collecte_greaterThan)
     apply (rule acheve_seqE_1, rule acheve_si, use d(1) in simp)
     apply ((rule acheve_Cons, (rule wp; simp; fail))+)
     apply (rule acheve_seqE_1, rule acheve_build)
    apply (simp add: ligne_MinUpTime_def)
    done
  from rangs.emits_seqE_Cons [OF construit_ecrire_cnt [of pdt K ?p
      NumeroDeContrainteDesContraintesDeDureeMinDeMarche "- 1"]
      rangs.emits_seqE_Cons [OF this rangs.emits_seqE_Nil]]
  show ?thesis unfolding eq by simp
qed

lemma MinDownTime_ok:
  assumes [simp]: "contexte_ok K" "pays < NombreDePays (kh K)"
    "i < NombreDePaliersThermiques (paliers_du K pays)"
    "pdt < NombreDePasDeTempsPourUneOptimisation (kh K)"
    and num: "demarrage_numerote K"
    and d: "0 < DureeMinimaleDArretDUnGroupeDuPalierThermique (paliers_du K pays) ! i"
      "DureeMinimaleDArretDUnGroupeDuPalierThermique (paliers_du K pays) ! i
         \<le> int (NombreDePasDeTempsPourUneOptimisation (kh K))"
  shows "construit K (MinDownTime_add (kh K) pays (palier_du K pays i) i pdt False)
    (ligne_MinDownTime K pays i pdt) 1"
proof -
  let ?p = "palier_du K pays i"
  let ?d = "DureeMinimaleDArretDUnGroupeDuPalierThermique (paliers_du K pays) ! i"
  note [simp] = demarrage_numerote_terme [OF num]
  have lt: "t < NombreDePasDeTempsPourUneOptimisation (kh K)" if "t \<in> set (fenetre K pdt ?d)" for t
    by (rule fenetre_lt [OF _ _ d(2) that]) simp_all
  have [simp]: "length (concat (map (\<lambda>t. terme K t (NumberStoppingDispatchableUnits ?p) 1)
      (fenetre K pdt ?d))) = nat ?d"
    by (subst length_concat_1 [where n = 1]) (simp_all add: lt)
  have eq: "MinDownTime_add (kh K) pays ?p i pdt False = seqE
      [ecrire_cnt NumeroDeContrainteDesContraintesDeDureeMinDArret pdt ?p (- 1),
       avec C_MinDownTime (seqE
           [updateHourWithinWeek pdt,
            ajouter (kh K) (NumberOfDispatchableUnits ?p) 1,
            pour_fenetre (kh K) pdt ?d (\<lambda>t1. seqE
              [updateHourWithinWeek t1,
               ajouter (kh K) (NumberStoppingDispatchableUnits ?p) 1]),
            lessThan,
            (\<lambda>s. if 1 < NumberOfVariables s
                 then seqE
                   [numeroter_cnt NumeroDeContrainteDesContraintesDeDureeMinDArret pdt ?p,
                    nommer_palier (kh K) (heure_annee (kh K) pdt) pays i CN_MinDownTime,
                    build] s
                 else Inr s)])]"
    by (intro ext) (simp add: MinDownTime_add_def)
  have "construit K (avec C_MinDownTime (seqE
           [updateHourWithinWeek pdt,
            ajouter (kh K) (NumberOfDispatchableUnits ?p) 1,
            pour_fenetre (kh K) pdt ?d (\<lambda>t1. seqE
              [updateHourWithinWeek t1,
               ajouter (kh K) (NumberStoppingDispatchableUnits ?p) 1]),
            lessThan,
            (\<lambda>s. if 1 < NumberOfVariables s
                 then seqE
                   [numeroter_cnt NumeroDeContrainteDesContraintesDeDureeMinDArret pdt ?p,
                    nommer_palier (kh K) (heure_annee (kh K) pdt) pays i CN_MinDownTime,
                    build] s
                 else Inr s)])) (ligne_MinDownTime K pays i pdt) 1"
    apply (rule construit_row)
     apply ((rule acheve_Cons, (rule wp; simp; fail))+)
     apply (rule acheve_Cons, rule collecte_pour_fenetre, simp, simp, rule d(2),
        rule collecte_demarrages, simp, simp, assumption)
     apply (rule acheve_Cons, rule collecte_lessThan)
     apply (rule acheve_seqE_1, rule acheve_si, use d(1) in simp)
     apply ((rule acheve_Cons, (rule wp; simp; fail))+)
     apply (rule acheve_seqE_1, rule acheve_build)
    apply (simp add: ligne_MinDownTime_def)
    done
  from rangs.emits_seqE_Cons [OF construit_ecrire_cnt [of pdt K ?p
      NumeroDeContrainteDesContraintesDeDureeMinDArret "- 1"]
      rangs.emits_seqE_Cons [OF this rangs.emits_seqE_Nil]]
  show ?thesis unfolding eq by simp
qed

subsection \<open>The five loops: the rows they build\<close>

abbreviation nb_paliers :: "PROBLEME_HEBDO \<Rightarrow> nat \<Rightarrow> nat" where
  "nb_paliers h pays \<equiv> NombreDePaliersThermiques (PaliersThermiquesDuPays h ! pays)"

definition par_palier :: "PROBLEME_HEBDO \<Rightarrow> (nat \<Rightarrow> nat \<Rightarrow> 'a list) \<Rightarrow> 'a list" where
  "par_palier h g =
     concat (map (\<lambda>pays. concat (map (g pays) [0..<nb_paliers h pays])) [0..<NombreDePays h])"

definition somme_paliers :: "PROBLEME_HEBDO \<Rightarrow> (nat \<Rightarrow> nat \<Rightarrow> nat) \<Rightarrow> nat" where
  "somme_paliers h k =
     sum_list (map (\<lambda>pays. sum_list (map (k pays) [0..<nb_paliers h pays])) [0..<NombreDePays h])"

definition duree_marche :: "PROBLEME_HEBDO \<Rightarrow> nat \<Rightarrow> nat \<Rightarrow> int" where
  "duree_marche h pays i =
     DureeMinimaleDeMarcheDUnGroupeDuPalierThermique (PaliersThermiquesDuPays h ! pays) ! i"

definition lignes_demarrage :: "contexte \<Rightarrow> ligne list" where
  "lignes_demarrage K =
     par_palier (kh K) (\<lambda>pays i. concat (map (\<lambda>pdt. ligne_PMax K pays i pdt @ ligne_PMin K pays i pdt)
       (heures (kh K)))) @
     par_palier (kh K) (\<lambda>pays i. concat (map (ligne_Consistence K pays i) (heures (kh K)))) @
     par_palier (kh K) (\<lambda>pays i. concat (map (ligne_NbUnitsOutage K pays i) (heures (kh K)))) @
     par_palier (kh K) (\<lambda>pays i. if duree_marche (kh K) pays i \<le> 0 then []
       else concat (map (ligne_MinUpTime K pays i) (heures (kh K)))) @
     par_palier (kh K) (\<lambda>pays i. concat (map (ligne_MinDownTime K pays i) (heures (kh K))))"

text \<open>The number of rows the loops make room for, and count under \<open>Simulation\<close>.\<close>

definition places_demarrage :: "PROBLEME_HEBDO \<Rightarrow> nat" where
  "places_demarrage h =
     (let T = NombreDePasDeTempsPourUneOptimisation h in
      somme_paliers h (\<lambda>pays i. 2 * T) + (somme_paliers h (\<lambda>pays i. T) + (somme_paliers h (\<lambda>pays i. T) +
      (somme_paliers h (\<lambda>pays i. if duree_marche h pays i \<le> 0 then 0 else T) +
       somme_paliers h (\<lambda>pays i. T)))))"

text \<open>The loops nest the same way for building and for counting: one rule per store.\<close>

lemma construit_pour_paliers_du_pays:
  assumes [simp]: "contexte_ok K" "pays < NombreDePays (kh K)"
    and f: "\<And>i. i < nb_paliers (kh K) pays \<Longrightarrow> construit K (f i (palier_du K pays i)) (ls i) (k i)"
  shows "construit K (pour_paliers_du_pays (kh K) pays f)
    (concat (map ls [0..<nb_paliers (kh K) pays])) (sum_list (map k [0..<nb_paliers (kh K) pays]))"
proof -
  have "pour_paliers_du_pays (kh K) pays f = forE [0..<nb_paliers (kh K) pays] (\<lambda>index s.
       bindE (lire (NumeroDuPalierDansLEnsembleDesPaliersThermiques (paliers_du K pays)) index)
         (\<lambda>palier. f index palier s))"
    by (intro ext) (simp add: pour_paliers_du_pays_def)
  moreover have "construit K \<dots> (concat (map ls [0..<nb_paliers (kh K) pays]))
      (sum_list (map k [0..<nb_paliers (kh K) pays]))"
    by (rule rangs.emits_forE) (use f in simp)
  ultimately show ?thesis by simp
qed

lemma construit_heures:
  assumes "\<And>pdt. pdt < NombreDePasDeTempsPourUneOptimisation (kh K) \<Longrightarrow> construit K (f pdt) (ls pdt) n"
  shows "construit K (forE (heures (kh K)) f) (concat (map ls (heures (kh K))))
    (n * NombreDePasDeTempsPourUneOptimisation (kh K))"
  using rangs.emits_forE [of "heures (kh K)" K "()" f ls "\<lambda>_. n"] assms
  by (simp add: sum_list_triv mult.commute)

lemma construit_seqE_nouveau:
  assumes "construit K f ls k"
  shows "construit K (seqE [nouveau c, f]) ls k"
  using rangs.emits_seqE_Cons [OF construit_nouveau rangs.emits_seqE_Cons [OF assms rangs.emits_seqE_Nil]]
  by simp

lemma construit_seqE_2:
  assumes "construit K f ls k" and "construit K g ls' k'"
  shows "construit K (seqE [f, g]) (ls @ ls') (k + k')"
  using rangs.emits_seqE_Cons [OF assms(1) rangs.emits_seqE_Cons [OF assms(2) rangs.emits_seqE_Nil]]
  by simp

lemma construit_pays:
  assumes "\<And>pays. pays < NombreDePays (kh K) \<Longrightarrow> construit K (f pays) (ls pays) (k pays)"
  shows "construit K (forE [0..<NombreDePays (kh K)] f)
    (concat (map ls [0..<NombreDePays (kh K)])) (sum_list (map k [0..<NombreDePays (kh K)]))"
  by (rule rangs.emits_forE) (use assms in simp)

lemma hebdo_ok_demarrage:
  assumes "hebdo_ok h" and "OptimisationAvecCoutsDeDemarrage h" and "pays < NombreDePays h"
    and "i < nb_paliers h pays"
  shows "duree_marche h pays i \<le> int (NombreDePasDeTempsPourUneOptimisation h)"
    "0 < DureeMinimaleDArretDUnGroupeDuPalierThermique (PaliersThermiquesDuPays h ! pays) ! i"
    "DureeMinimaleDArretDUnGroupeDuPalierThermique (PaliersThermiquesDuPays h ! pays) ! i
       \<le> int (NombreDePasDeTempsPourUneOptimisation h)"
proof -
  have "demarrage_ok h (PaliersThermiquesDuPays h ! pays)"
    using assms hebdo_ok_len(3) [OF assms(1)] unfolding hebdo_ok_def by (auto simp: list_all_length)
  moreover have "length (DureeMinimaleDeMarcheDUnGroupeDuPalierThermique (PaliersThermiquesDuPays h ! pays))
      = nb_paliers h pays"
    "length (DureeMinimaleDArretDUnGroupeDuPalierThermique (PaliersThermiquesDuPays h ! pays))
      = nb_paliers h pays"
    using assms by simp_all
  ultimately show "duree_marche h pays i \<le> int (NombreDePasDeTempsPourUneOptimisation h)"
    "0 < DureeMinimaleDArretDUnGroupeDuPalierThermique (PaliersThermiquesDuPays h ! pays) ! i"
    "DureeMinimaleDArretDUnGroupeDuPalierThermique (PaliersThermiquesDuPays h ! pays) ! i
       \<le> int (NombreDePasDeTempsPourUneOptimisation h)"
    using assms(4) by (auto simp: demarrage_ok_def list_all_length duree_marche_def)
qed

lemma boucle_MinUpTime_ok:
  assumes [simp]: "contexte_ok K" and num: "demarrage_numerote K"
    and dem: "OptimisationAvecCoutsDeDemarrage (kh K)" and pays [simp]: "pays < NombreDePays (kh K)"
  shows "construit K (boucle_MinUpTime (kh K) False pays)
    (concat (map (\<lambda>i. if duree_marche (kh K) pays i \<le> 0 then []
       else concat (map (ligne_MinUpTime K pays i) (heures (kh K)))) [0..<nb_paliers (kh K) pays]))
    (sum_list (map (\<lambda>i. if duree_marche (kh K) pays i \<le> 0 then 0
       else NombreDePasDeTempsPourUneOptimisation (kh K)) [0..<nb_paliers (kh K) pays]))"
proof -
  let ?pt = "paliers_du K pays"
  have "construit K (forE [0..<nb_paliers (kh K) pays] (\<lambda>index s.
      bindE (lire (DureeMinimaleDeMarcheDUnGroupeDuPalierThermique ?pt) index) (\<lambda>duree.
          if duree \<le> 0 then Inr s
          else bindE (lire (NumeroDuPalierDansLEnsembleDesPaliersThermiques ?pt) index) (\<lambda>palier.
            forE (heures (kh K)) (\<lambda>pdt.
              NbDispUnitsMinBoundSinceMinUpTime_add (kh K) pays palier index pdt False) s))))
    (concat (map (\<lambda>i. if duree_marche (kh K) pays i \<le> 0 then []
       else concat (map (ligne_MinUpTime K pays i) (heures (kh K)))) [0..<nb_paliers (kh K) pays]))
    (sum_list (map (\<lambda>i. if duree_marche (kh K) pays i \<le> 0 then 0
       else NombreDePasDeTempsPourUneOptimisation (kh K)) [0..<nb_paliers (kh K) pays]))"
  proof (rule rangs.emits_forE, goal_cases)
    case (1 i)
    then have i [simp]: "i < nb_paliers (kh K) pays" by simp
    show ?case
    proof (cases "duree_marche (kh K) pays i \<le> 0")
      case True
      then show ?thesis
        using construit_Inr by (simp add: duree_marche_def)
    next
      case False
      have "construit K (forE (heures (kh K)) (\<lambda>pdt.
              NbDispUnitsMinBoundSinceMinUpTime_add (kh K) pays (palier_du K pays i) i pdt False))
         (concat (map (ligne_MinUpTime K pays i) (heures (kh K))))
         (1 * NombreDePasDeTempsPourUneOptimisation (kh K))"
        using False hebdo_ok_demarrage(1) [OF _ dem pays i]
        by (intro construit_heures NbDispUnitsMinBoundSinceMinUpTime_ok num)
          (simp_all add: duree_marche_def)
      with False show ?thesis by (simp add: duree_marche_def)
    qed
  qed
  note corps = construit_seqE_nouveau [OF this, of C_NbDispUnitsMinBoundSinceMinUpTime]
  have "boucle_MinUpTime (kh K) False pays = seqE
     [nouveau C_NbDispUnitsMinBoundSinceMinUpTime,
      forE [0..<nb_paliers (kh K) pays] (\<lambda>index s.
      bindE (lire (DureeMinimaleDeMarcheDUnGroupeDuPalierThermique ?pt) index) (\<lambda>duree.
          if duree \<le> 0 then Inr s
          else bindE (lire (NumeroDuPalierDansLEnsembleDesPaliersThermiques ?pt) index) (\<lambda>palier.
            forE (heures (kh K)) (\<lambda>pdt.
              NbDispUnitsMinBoundSinceMinUpTime_add (kh K) pays palier index pdt False) s)))]"
    by (intro ext) (simp add: boucle_MinUpTime_def)
  with corps show ?thesis by simp
qed

lemma construit_seqE_1: "construit K f ls k \<Longrightarrow> construit K (seqE [f]) ls k"
  using rangs.emits_seqE_Cons [OF _ rangs.emits_seqE_Nil, of K "()" f ls k "()"] by simp

lemma construit_seqE_nouveau_Cons:
  assumes "construit K (seqE fs) ls k"
  shows "construit K (seqE (nouveau c # fs)) ls k"
  using rangs.emits_seqE_Cons [OF construit_nouveau assms] by simp

lemma boucle_PMax_PMin_ok:
  assumes [simp]: "contexte_ok K" "pays < NombreDePays (kh K)"
  shows "construit K (boucle_PMax_PMin (kh K) False pays)
    (concat (map (\<lambda>i. concat (map (\<lambda>pdt. ligne_PMax K pays i pdt @ ligne_PMin K pays i pdt)
       (heures (kh K)))) [0..<nb_paliers (kh K) pays]))
    (sum_list (map (\<lambda>i. 2 * NombreDePasDeTempsPourUneOptimisation (kh K))
       [0..<nb_paliers (kh K) pays]))"
  unfolding boucle_PMax_PMin_def
proof (rule construit_pour_paliers_du_pays, simp, simp, goal_cases)
  case (1 i)
  have "construit K (seqE
        [PMaxDispatchableGeneration_add (kh K) pays (palier_du K pays i) i pdt False,
         PMinDispatchableGeneration_add (kh K) pays (palier_du K pays i) i pdt False])
      (ligne_PMax K pays i pdt @ ligne_PMin K pays i pdt) 2"
    if "pdt < NombreDePasDeTempsPourUneOptimisation (kh K)" for pdt
    using construit_seqE_2 [OF PMaxDispatchableGeneration_ok PMinDispatchableGeneration_ok] 1 that
    by (simp add: numeral_2_eq_2)
  then show ?case
    by (intro construit_seqE_nouveau_Cons construit_seqE_1 construit_heures)
qed

lemma boucles_paliers_ok:
  assumes [simp]: "contexte_ok K" and pays [simp]: "pays < NombreDePays (kh K)"
    and num: "demarrage_numerote K" and dem: "OptimisationAvecCoutsDeDemarrage (kh K)"
  shows "construit K (boucle_Consistence (kh K) False pays)
      (concat (map (\<lambda>i. concat (map (ligne_Consistence K pays i) (heures (kh K))))
        [0..<nb_paliers (kh K) pays]))
      (sum_list (map (\<lambda>i. NombreDePasDeTempsPourUneOptimisation (kh K)) [0..<nb_paliers (kh K) pays]))"
    and "construit K (boucle_NbUnitsOutage (kh K) False pays)
      (concat (map (\<lambda>i. concat (map (ligne_NbUnitsOutage K pays i) (heures (kh K))))
        [0..<nb_paliers (kh K) pays]))
      (sum_list (map (\<lambda>i. NombreDePasDeTempsPourUneOptimisation (kh K)) [0..<nb_paliers (kh K) pays]))"
    and "construit K (boucle_MinDownTime (kh K) False pays)
      (concat (map (\<lambda>i. concat (map (ligne_MinDownTime K pays i) (heures (kh K))))
        [0..<nb_paliers (kh K) pays]))
      (sum_list (map (\<lambda>i. NombreDePasDeTempsPourUneOptimisation (kh K)) [0..<nb_paliers (kh K) pays]))"
proof -
  note une_ligne = construit_heures [where n = 1, simplified mult_1]
  show "construit K (boucle_Consistence (kh K) False pays)
      (concat (map (\<lambda>i. concat (map (ligne_Consistence K pays i) (heures (kh K))))
        [0..<nb_paliers (kh K) pays]))
      (sum_list (map (\<lambda>i. NombreDePasDeTempsPourUneOptimisation (kh K)) [0..<nb_paliers (kh K) pays]))"
    unfolding boucle_Consistence_def
    by (intro construit_pour_paliers_du_pays une_ligne construit_seqE_nouveau
        ConsistenceNumberOfDispatchableUnits_ok num) simp_all
  show "construit K (boucle_NbUnitsOutage (kh K) False pays)
      (concat (map (\<lambda>i. concat (map (ligne_NbUnitsOutage K pays i) (heures (kh K))))
        [0..<nb_paliers (kh K) pays]))
      (sum_list (map (\<lambda>i. NombreDePasDeTempsPourUneOptimisation (kh K)) [0..<nb_paliers (kh K) pays]))"
    unfolding boucle_NbUnitsOutage_def
    by (intro construit_seqE_nouveau construit_pour_paliers_du_pays une_ligne
        NbUnitsOutageLessThanNbUnitsStop_ok num) simp_all
  show "construit K (boucle_MinDownTime (kh K) False pays)
      (concat (map (\<lambda>i. concat (map (ligne_MinDownTime K pays i) (heures (kh K))))
        [0..<nb_paliers (kh K) pays]))
      (sum_list (map (\<lambda>i. NombreDePasDeTempsPourUneOptimisation (kh K)) [0..<nb_paliers (kh K) pays]))"
    unfolding boucle_MinDownTime_def
    by (intro construit_seqE_nouveau construit_pour_paliers_du_pays une_ligne MinDownTime_ok num
        hebdo_ok_demarrage(2,3) [OF _ dem]) simp_all
qed

lemma OPT_ConstruireMatriceCoutsDeDemarrage_ok:
  assumes [simp]: "contexte_ok K" and num: "demarrage_numerote K"
    and dem: "OptimisationAvecCoutsDeDemarrage (kh K)"
  shows "construit K
    (OPT_ConstruireLaMatriceDesContraintesDuProblemeLineaireCoutsDeDemarrage (kh K) False)
    (lignes_demarrage K) (places_demarrage (kh K))"
proof -
  show ?thesis
    unfolding OPT_ConstruireLaMatriceDesContraintesDuProblemeLineaireCoutsDeDemarrage_def
      lignes_demarrage_def places_demarrage_def Let_def par_palier_def somme_paliers_def
    by (intro rangs.emits_seqE_Cons [OF construit_pays] construit_seqE_1 [OF construit_pays]
        boucle_PMax_PMin_ok boucles_paliers_ok boucle_MinUpTime_ok num dem) simp_all
qed

subsection \<open>The five loops under \<open>Simulation\<close>: the number of rows they count\<close>

text \<open>What counting leaves alone.\<close>

definition hors_compte :: "etat \<Rightarrow> etat" where
  "hors_compte s = s\<lparr>CorrespondanceCntNativesCntOptim := [],
     NbTermesContraintesPourLesCoutsDeDemarrage := 0, builders := (\<lambda>_. builder_init),
     ProblemeAResoudre := (ProblemeAResoudre s)\<lparr>NombreDeContraintes := 0\<rparr>\<rparr>"

definition compte :: "PROBLEME_HEBDO \<Rightarrow> (etat \<Rightarrow> etat resultat) \<Rightarrow> nat \<Rightarrow> bool" where
  "compte h f n \<longleftrightarrow> (\<forall>s. dims_cnt h s \<and> (\<forall>c. nombreDeTermes (builders s c) = 0) \<longrightarrow>
     returns (f s) (\<lambda>s'. dims_cnt h s' \<and> (\<forall>c. nombreDeTermes (builders s' c) = 0) \<and>
       hors_compte s' = hors_compte s \<and>
       NombreDeContraintes (ProblemeAResoudre s') = NombreDeContraintes (ProblemeAResoudre s) + n))"

lemma compteI:
  assumes "\<And>s. dims_cnt h s \<Longrightarrow> (\<forall>c. nombreDeTermes (builders s c) = 0) \<Longrightarrow>
     \<exists>s'. f s = Inr s' \<and> dims_cnt h s' \<and> (\<forall>c. nombreDeTermes (builders s' c) = 0) \<and>
       hors_compte s' = hors_compte s \<and>
       NombreDeContraintes (ProblemeAResoudre s') = NombreDeContraintes (ProblemeAResoudre s) + n"
  shows "compte h f n"
  unfolding compte_def
proof (intro allI impI, elim conjE)
  fix s assume "dims_cnt h s" "\<forall>c. nombreDeTermes (builders s c) = 0"
  from assms [OF this] obtain s' where "f s = Inr s'"
    "dims_cnt h s' \<and> (\<forall>c. nombreDeTermes (builders s' c) = 0) \<and>
     hors_compte s' = hors_compte s \<and>
     NombreDeContraintes (ProblemeAResoudre s') = NombreDeContraintes (ProblemeAResoudre s) + n"
    by blast
  then show "returns (f s) (\<lambda>s'. dims_cnt h s' \<and> (\<forall>c. nombreDeTermes (builders s' c) = 0) \<and>
       hors_compte s' = hors_compte s \<and>
       NombreDeContraintes (ProblemeAResoudre s') = NombreDeContraintes (ProblemeAResoudre s) + n)"
    by simp
qed

lemma compteE:
  assumes "compte h f n" and "dims_cnt h s" and "\<forall>c. nombreDeTermes (builders s c) = 0"
  obtains s' where "f s = Inr s'" "dims_cnt h s'" "\<forall>c. nombreDeTermes (builders s' c) = 0"
    "hors_compte s' = hors_compte s"
    "NombreDeContraintes (ProblemeAResoudre s') = NombreDeContraintes (ProblemeAResoudre s) + n"
proof -
  have "returns (f s) (\<lambda>s'. dims_cnt h s' \<and> (\<forall>c. nombreDeTermes (builders s' c) = 0) \<and>
       hors_compte s' = hors_compte s \<and>
       NombreDeContraintes (ProblemeAResoudre s') = NombreDeContraintes (ProblemeAResoudre s) + n)"
    using assms unfolding compte_def by blast
  then show ?thesis by (rule returnsE) (use that in blast)
qed

lemma compte_bind:
  assumes f: "compte h f n" and g: "compte h g m"
  shows "compte h (\<lambda>s. bindE (f s) g) (n + m)"
proof (rule compteI)
  fix s assume s: "dims_cnt h s" "\<forall>c. nombreDeTermes (builders s c) = 0"
  from compteE [OF f s] obtain s1 where 1: "f s = Inr s1" "dims_cnt h s1"
    "\<forall>c. nombreDeTermes (builders s1 c) = 0" "hors_compte s1 = hors_compte s"
    "NombreDeContraintes (ProblemeAResoudre s1) = NombreDeContraintes (ProblemeAResoudre s) + n" .
  from compteE [OF g 1(2,3)] obtain s2 where 2: "g s1 = Inr s2" "dims_cnt h s2"
    "\<forall>c. nombreDeTermes (builders s2 c) = 0" "hors_compte s2 = hors_compte s1"
    "NombreDeContraintes (ProblemeAResoudre s2) = NombreDeContraintes (ProblemeAResoudre s1) + m" .
  have "bindE (f s) g = Inr s2" using 1(1) 2(1) by simp
  moreover have "hors_compte s2 = hors_compte s" using 1(4) 2(4) by (rule trans [rotated])
  moreover have "NombreDeContraintes (ProblemeAResoudre s2)
      = NombreDeContraintes (ProblemeAResoudre s) + (n + m)"
    using 1(5) 2(5) by linarith
  ultimately show "\<exists>s'. bindE (f s) g = Inr s' \<and> dims_cnt h s' \<and>
       (\<forall>c. nombreDeTermes (builders s' c) = 0) \<and> hors_compte s' = hors_compte s \<and>
       NombreDeContraintes (ProblemeAResoudre s') = NombreDeContraintes (ProblemeAResoudre s) + (n + m)"
    using 2(2,3) by blast
qed

lemma compte_Inr: "compte h Inr 0"
  by (simp add: compte_def)

lemma compte_seqE_Nil: "compte h (seqE []) 0"
  by (simp add: compte_def)

lemma compte_seqE_Cons: "compte h f n \<Longrightarrow> compte h (seqE fs) m \<Longrightarrow> compte h (seqE (f # fs)) (n + m)"
  using compte_bind [of h f n "seqE fs" m] by (simp add: compte_def)

lemma compte_seqE_1: "compte h f n \<Longrightarrow> compte h (seqE [f]) n"
  using compte_seqE_Cons [OF _ compte_seqE_Nil] by simp

lemma compte_forE:
  assumes "\<And>x. x \<in> set xs \<Longrightarrow> compte h (f x) (n x)"
  shows "compte h (forE xs f) (sum_list (map n xs))"
  using assms
proof (induction xs)
  case Nil
  then show ?case by (simp add: compte_def)
next
  case (Cons x xs)
  then have "compte h (\<lambda>s. bindE (f x s) (forE xs f)) (n x + sum_list (map n xs))"
    by (intro compte_bind) simp_all
  then show ?case by (simp add: compte_def)
qed

lemma compte_compter: "compte h (compter n) 1"
  by (rule compteI) (simp add: compter_def hors_compte_def dims_cnt_def)

lemma compte_nouveau: "compte h (nouveau c) 0"
  by (rule compteI) (simp add: nouveau_def hors_compte_def dims_cnt_def builder_init_def)

lemma compte_ecrire_cnt:
  assumes "pdt < NombreDePasDeTemps h" and "i < taille_cnt h c"
  shows "compte h (ecrire_cnt c pdt i v) 0"
proof (rule compteI)
  fix s assume s: "dims_cnt h s" "\<forall>c. nombreDeTermes (builders s c) = 0"
  let ?C = "CorrespondanceCntNativesCntOptim s"
  have d: "pdt < length ?C" "\<forall>corr \<in> set ?C. \<forall>c. length (corr c) = taille_cnt h c"
    using s assms(1) by (simp_all add: dims_cnt_def)
  have len: "length ((?C ! pdt) c) = taille_cnt h c" for c
    using d by simp
  define corr where "corr = (?C ! pdt)(c := ((?C ! pdt) c)[i := v])"
  have "\<forall>x \<in> set (?C[pdt := corr]). \<forall>c. length (x c) = taille_cnt h c"
    by (rule all_set_update) (use d len in \<open>simp_all add: corr_def\<close>)
  then have "dims_cnt h (s\<lparr>CorrespondanceCntNativesCntOptim := ?C[pdt := corr]\<rparr>)"
    using s by (simp add: dims_cnt_def)
  moreover have "ecrire_cnt c pdt i v s = Inr (s\<lparr>CorrespondanceCntNativesCntOptim := ?C[pdt := corr]\<rparr>)"
    using d len assms(2) by (simp add: ecrire_cnt_def corr_def)
  ultimately show "\<exists>s'. ecrire_cnt c pdt i v s = Inr s' \<and> dims_cnt h s' \<and>
       (\<forall>c. nombreDeTermes (builders s' c) = 0) \<and> hors_compte s' = hors_compte s \<and>
       NombreDeContraintes (ProblemeAResoudre s') = NombreDeContraintes (ProblemeAResoudre s) + 0"
    using s by (simp add: hors_compte_def)
qed

lemma compte_paliers:
  assumes "hebdo_ok h" and "pays < NombreDePays h"
    and f: "\<And>i. i < nb_paliers h pays \<Longrightarrow> compte h
      (f i (NumeroDuPalierDansLEnsembleDesPaliersThermiques (PaliersThermiquesDuPays h ! pays) ! i)) (k i)"
  shows "compte h (pour_paliers_du_pays h pays f) (sum_list (map k [0..<nb_paliers h pays]))"
proof -
  have "pour_paliers_du_pays h pays f = forE [0..<nb_paliers h pays] (\<lambda>index s.
       bindE (lire (NumeroDuPalierDansLEnsembleDesPaliersThermiques (PaliersThermiquesDuPays h ! pays))
         index) (\<lambda>palier. f index palier s))"
    using assms(1,2) by (intro ext) (simp add: pour_paliers_du_pays_def)
  moreover have "compte h \<dots> (sum_list (map k [0..<nb_paliers h pays]))"
    by (rule compte_forE) (use f assms(1,2) in simp)
  ultimately show ?thesis by simp
qed

lemma compte_heures:
  assumes "\<And>pdt. pdt < NombreDePasDeTempsPourUneOptimisation h \<Longrightarrow> compte h (f pdt) n"
  shows "compte h (forE (heures h) f) (n * NombreDePasDeTempsPourUneOptimisation h)"
  using compte_forE [of "heures h" h f "\<lambda>_. n"] assms by (simp add: sum_list_triv mult.commute)

lemma compte_classes:
  assumes [simp]: "hebdo_ok h" "pays < NombreDePays h" "i < nb_paliers h pays"
    "pdt < NombreDePasDeTempsPourUneOptimisation h"
  defines "p \<equiv> NumeroDuPalierDansLEnsembleDesPaliersThermiques (PaliersThermiquesDuPays h ! pays) ! i"
  shows "compte h (PMaxDispatchableGeneration_add h pays p i pdt True) 1"
    "compte h (PMinDispatchableGeneration_add h pays p i pdt True) 1"
    "compte h (ConsistenceNumberOfDispatchableUnits_add h pays p i pdt True) 1"
    "compte h (NbUnitsOutageLessThanNbUnitsStop_add h pays p i pdt True) 1"
    "compte h (NbDispUnitsMinBoundSinceMinUpTime_add h pays p i pdt True) 1"
    "compte h (MinDownTime_add h pays p i pdt True) 1"
proof -
  note e = compte_ecrire_cnt [of pdt h p _ "- 1"]
  have p: "p < NombreTotalDePaliersThermiques h" by (simp add: p_def)
  show "compte h (PMaxDispatchableGeneration_add h pays p i pdt True) 1"
    "compte h (PMinDispatchableGeneration_add h pays p i pdt True) 1"
    "compte h (ConsistenceNumberOfDispatchableUnits_add h pays p i pdt True) 1"
    "compte h (NbUnitsOutageLessThanNbUnitsStop_add h pays p i pdt True) 1"
    using compte_compter
    by (simp_all add: PMaxDispatchableGeneration_add_def [abs_def]
        PMinDispatchableGeneration_add_def [abs_def]
        ConsistenceNumberOfDispatchableUnits_add_def [abs_def]
        NbUnitsOutageLessThanNbUnitsStop_add_def [abs_def])
  have "NbDispUnitsMinBoundSinceMinUpTime_add h pays p i pdt True = seqE
     [ecrire_cnt NumeroDeContrainteDesContraintesDeDureeMinDeMarche pdt p (- 1),
      compter (1 + 2 * duree_marche h pays i)]"
    by (intro ext) (simp add: NbDispUnitsMinBoundSinceMinUpTime_add_def duree_marche_def)
  moreover have "compte h \<dots> (0 + 1)"
    by (intro compte_seqE_Cons compte_seqE_1 compte_compter e) (simp_all add: p)
  ultimately show "compte h (NbDispUnitsMinBoundSinceMinUpTime_add h pays p i pdt True) 1" by simp
  have "MinDownTime_add h pays p i pdt True = seqE
     [ecrire_cnt NumeroDeContrainteDesContraintesDeDureeMinDArret pdt p (- 1),
      compter (1 + DureeMinimaleDArretDUnGroupeDuPalierThermique (PaliersThermiquesDuPays h ! pays) ! i)]"
    by (intro ext) (simp add: MinDownTime_add_def)
  moreover have "compte h \<dots> (0 + 1)"
    by (intro compte_seqE_Cons compte_seqE_1 compte_compter e) (simp_all add: p)
  ultimately show "compte h (MinDownTime_add h pays p i pdt True) 1" by simp
qed

lemma compte_boucles:
  assumes [simp]: "hebdo_ok h" "pays < NombreDePays h"
  defines "T \<equiv> NombreDePasDeTempsPourUneOptimisation h"
  shows "compte h (boucle_PMax_PMin h True pays) (sum_list (map (\<lambda>i. 2 * T) [0..<nb_paliers h pays]))"
    and "compte h (boucle_Consistence h True pays) (sum_list (map (\<lambda>i. T) [0..<nb_paliers h pays]))"
    and "compte h (boucle_NbUnitsOutage h True pays) (sum_list (map (\<lambda>i. T) [0..<nb_paliers h pays]))"
    and "compte h (boucle_MinUpTime h True pays)
      (sum_list (map (\<lambda>i. if duree_marche h pays i \<le> 0 then 0 else T) [0..<nb_paliers h pays]))"
    and "compte h (boucle_MinDownTime h True pays) (sum_list (map (\<lambda>i. T) [0..<nb_paliers h pays]))"
proof -
  note une = compte_heures [where n = 1 and h = h, simplified mult_1, folded T_def]
    and deux = compte_heures [where n = 2 and h = h, folded T_def]
  note nouv = compte_seqE_Cons [OF compte_nouveau, simplified add_0]
  have paire: "compte h (seqE [f, g]) 2" if "compte h f 1" "compte h g 1" for f g
    using compte_seqE_Cons [OF that(1) compte_seqE_1 [OF that(2)]] by (simp add: numeral_2_eq_2)
  show "compte h (boucle_PMax_PMin h True pays) (sum_list (map (\<lambda>i. 2 * T) [0..<nb_paliers h pays]))"
    unfolding boucle_PMax_PMin_def
    by (intro compte_paliers nouv compte_seqE_1 deux paire compte_classes) (simp_all add: T_def)
  show "compte h (boucle_Consistence h True pays) (sum_list (map (\<lambda>i. T) [0..<nb_paliers h pays]))"
    unfolding boucle_Consistence_def
    by (intro compte_paliers une nouv compte_seqE_1 compte_classes) (simp_all add: T_def)
  show "compte h (boucle_NbUnitsOutage h True pays) (sum_list (map (\<lambda>i. T) [0..<nb_paliers h pays]))"
    unfolding boucle_NbUnitsOutage_def
    by (intro nouv compte_seqE_1 compte_paliers une compte_classes) (simp_all add: T_def)
  show "compte h (boucle_MinDownTime h True pays) (sum_list (map (\<lambda>i. T) [0..<nb_paliers h pays]))"
    unfolding boucle_MinDownTime_def
    by (intro nouv compte_seqE_1 compte_paliers une compte_classes) (simp_all add: T_def)
  let ?pt = "PaliersThermiquesDuPays h ! pays"
  have "boucle_MinUpTime h True pays = seqE
     [nouveau C_NbDispUnitsMinBoundSinceMinUpTime,
      forE [0..<nb_paliers h pays] (\<lambda>index s.
      bindE (lire (DureeMinimaleDeMarcheDUnGroupeDuPalierThermique ?pt) index) (\<lambda>duree.
          if duree \<le> 0 then Inr s
          else bindE (lire (NumeroDuPalierDansLEnsembleDesPaliersThermiques ?pt) index) (\<lambda>palier.
            forE (heures h) (\<lambda>pdt.
              NbDispUnitsMinBoundSinceMinUpTime_add h pays palier index pdt True) s)))]"
    by (intro ext) (simp add: boucle_MinUpTime_def)
  moreover have "compte h \<dots>
      (sum_list (map (\<lambda>i. if duree_marche h pays i \<le> 0 then 0 else T) [0..<nb_paliers h pays]))"
  proof (intro nouv compte_seqE_1 compte_forE, goal_cases)
    case (1 i)
    then have i [simp]: "i < nb_paliers h pays" by simp
    have "compte h (forE (heures h) (\<lambda>pdt. NbDispUnitsMinBoundSinceMinUpTime_add h pays
        (NumeroDuPalierDansLEnsembleDesPaliersThermiques ?pt ! i) i pdt True)) T"
      by (intro une compte_classes) (simp_all add: T_def)
    then show ?case
      using compte_Inr [of h] by (simp add: duree_marche_def)
  qed
  ultimately show "compte h (boucle_MinUpTime h True pays)
      (sum_list (map (\<lambda>i. if duree_marche h pays i \<le> 0 then 0 else T) [0..<nb_paliers h pays]))"
    by simp
qed

text \<open>The same number of rows is counted as is built.\<close>

lemma compte_ConstruireMatriceCoutsDeDemarrage:
  assumes "hebdo_ok h"
  shows "compte h (OPT_ConstruireLaMatriceDesContraintesDuProblemeLineaireCoutsDeDemarrage h True)
    (places_demarrage h)"
  unfolding OPT_ConstruireLaMatriceDesContraintesDuProblemeLineaireCoutsDeDemarrage_def
    places_demarrage_def Let_def somme_paliers_def
  by (intro compte_seqE_Cons compte_seqE_1 compte_forE compte_boucles assms) simp_all

end
