(* ===== verification/Matrix_Construction.thy ===== *)
theory Matrix_Construction
  imports Constraints_Thermal
begin

text \<open>
  \<open>OPT_ConstruireLaMatriceDesContraintesDuProblemeLineaire\<close>
  (\<open>src/src/solver/optimisation/opt_construction_matrice_des_contraintes_cas_lineaire.cpp\<close>): the
  classes in the order the code runs them. \<open>liste_lignes\<close> is the list of rows it must produce,
  \<open>places\<close> the number of rows it needs to have been allocated. Main fact: from any state whose
  vectors have these sizes it ends normally (no index out of a vector, no exception), the rows of
  the matrix are exactly \<open>liste_lignes\<close>, and the variables are left alone.
\<close>

subsection \<open>The code\<close>

definition vider_matrice :: "etat \<Rightarrow> etat" where
  "vider_matrice s = s\<lparr>ProblemeAResoudre := (ProblemeAResoudre s)
     \<lparr>NombreDeContraintes := 0, NombreDeTermesDansLaMatriceDesContraintes := 0\<rparr>\<rparr>"

text \<open>The constraint objects the function declares.\<close>

definition classes_lineaires :: "classe list" where
  "classes_lineaires =
     [C_AreaBalance, C_FictitiousLoad, C_ShortTermStorageLevel, C_FlowDissociation,
      C_BindingConstraintHour, C_BindingConstraintDay, C_BindingConstraintWeek, C_HydroPower,
      C_HydroPowerSmoothingUsingVariationSum, C_HydroPowerSmoothingUsingVariationMaxDown,
      C_HydroPowerSmoothingUsingVariationMaxUp, C_MinHydroPower, C_MaxHydroPower, C_MaxPumping,
      C_AreaHydroLevel, C_FinalStockEquivalent, C_FinalStockExpression]"

definition contraintes_horaires :: "PROBLEME_HEBDO \<Rightarrow> nat \<Rightarrow> etat \<Rightarrow> etat resultat" where
  "contraintes_horaires h pdt = seqE
     [forE [0..<NombreDePays h] (\<lambda>pays. seqE
        [AreaBalance_add h pdt pays,
         FictitiousLoad_add h pdt pays,
         ShortTermStorageLevel_add h pdt pays]),
      forE [0..<NombreDInterconnexions h] (FlowDissociation_add h pdt),
      forE [0..<NombreDeContraintesCouplantes h] (BindingConstraintHour_add h pdt)]"

text \<open>\<open>if (!PresenceDHydrauliqueModulable) continue;\<close>\<close>

definition si_hydraulique ::
  "PROBLEME_HEBDO \<Rightarrow> nat \<Rightarrow> (etat \<Rightarrow> etat resultat) \<Rightarrow> etat \<Rightarrow> etat resultat" where
  "si_hydraulique h pays f s =
     bindE (lire (CaracteristiquesHydrauliques h) pays) (\<lambda>c.
     if \<not> PresenceDHydrauliqueModulable c then Inr s else f s)"

definition contraintes_lissage :: "PROBLEME_HEBDO \<Rightarrow> etat \<Rightarrow> etat resultat" where
  "contraintes_lissage h =
     (if TypeDeLissageHydraulique h = LISSAGE_HYDRAULIQUE_SUR_SOMME_DES_VARIATIONS
      then forE [0..<NombreDePays h] (\<lambda>pays.
        si_hydraulique h pays (HydroPowerSmoothingUsingVariationSum_add h pays))
      else if TypeDeLissageHydraulique h = LISSAGE_HYDRAULIQUE_SUR_VARIATION_MAX
      then forE [0..<NombreDePays h] (\<lambda>pays. si_hydraulique h pays
        (forE (heures h) (\<lambda>pdt. seqE
          [HydroPowerSmoothingUsingVariationMaxDown_add h pays pdt,
           HydroPowerSmoothingUsingVariationMaxUp_add h pays pdt])))
      else Inr)"

definition OPT_ConstruireLaMatriceDesContraintesDuProblemeLineaire ::
  "PROBLEME_HEBDO \<Rightarrow> etat \<Rightarrow> etat resultat" where
  "OPT_ConstruireLaMatriceDesContraintesDuProblemeLineaire h = seqE
     [(\<lambda>s. Inr (vider_matrice s)),
      forE classes_lineaires nouveau,
      forE (heures h) (contraintes_horaires h),
      forE [0..<NombreDeContraintesCouplantes h] (BindingConstraintDay_add h),
      whenE (NombreDePasDeTempsDUneJournee h < NombreDePasDeTempsPourUneOptimisation h)
        (forE [0..<NombreDeContraintesCouplantes h] (BindingConstraintWeek_add h)),
      forE [0..<NombreDePays h] (HydroPower_add h),
      contraintes_lissage h,
      forE [0..<NombreDePays h] (\<lambda>pays. seqE [MinHydroPower_add h pays, MaxHydroPower_add h pays]),
      forE [0..<NombreDePays h] (MaxPumping_add h),
      forE (heures h) (\<lambda>pdt. forE [0..<NombreDePays h] (\<lambda>pays. AreaHydroLevel_add h pays pdt)),
      forE [0..<NombreDePays h] (\<lambda>pays. seqE
        [FinalStockEquivalent_add h pays, FinalStockExpression_add h pays]),
      whenE (OptimisationAvecCoutsDeDemarrage h)
        (OPT_ConstruireLaMatriceDesContraintesDuProblemeLineaireCoutsDeDemarrage h False)]"

subsection \<open>The rows\<close>

definition par_pays :: "PROBLEME_HEBDO \<Rightarrow> (nat \<Rightarrow> 'a list) \<Rightarrow> 'a list" where
  "par_pays h f = concat (map f [0..<NombreDePays h])"

definition par_couplante :: "PROBLEME_HEBDO \<Rightarrow> (nat \<Rightarrow> 'a list) \<Rightarrow> 'a list" where
  "par_couplante h f = concat (map f [0..<NombreDeContraintesCouplantes h])"

definition lignes_horaires :: "contexte \<Rightarrow> nat \<Rightarrow> ligne list" where
  "lignes_horaires K pdt =
     par_pays (kh K) (\<lambda>pays. ligne_AreaBalance K pdt pays @ ligne_FictitiousLoad K pdt pays @
       lignes_ShortTermStorageLevel K pdt pays) @
     concat (map (ligne_FlowDissociation K pdt) [0..<NombreDInterconnexions (kh K)]) @
     par_couplante (kh K) (ligne_BindingConstraintHour K pdt)"

definition lignes_lissage :: "contexte \<Rightarrow> ligne list" where
  "lignes_lissage K = (case TypeDeLissageHydraulique (kh K) of
     PAS_DE_LISSAGE_HYDRAULIQUE \<Rightarrow> []
   | LISSAGE_HYDRAULIQUE_SUR_SOMME_DES_VARIATIONS \<Rightarrow> par_pays (kh K) (lignes_VariationSum K)
   | LISSAGE_HYDRAULIQUE_SUR_VARIATION_MAX \<Rightarrow> par_pays (kh K) (\<lambda>pays.
       concat (map (\<lambda>pdt. ligne_VariationMaxDown K pays pdt @ ligne_VariationMaxUp K pays pdt)
         (heures (kh K)))))"

definition liste_lignes :: "contexte \<Rightarrow> ligne list" where
  "liste_lignes K =
     concat (map (lignes_horaires K) (heures (kh K))) @
     par_couplante (kh K) (lignes_BindingConstraintDay K) @
     (if NombreDePasDeTempsDUneJournee (kh K) < NombreDePasDeTempsPourUneOptimisation (kh K)
      then par_couplante (kh K) (ligne_BindingConstraintWeek K) else []) @
     par_pays (kh K) (ligne_HydroPower K) @
     lignes_lissage K @
     par_pays (kh K) (\<lambda>pays. ligne_MinHydroPower K pays @ ligne_MaxHydroPower K pays) @
     par_pays (kh K) (ligne_MaxPumping K) @
     concat (map (\<lambda>pdt. par_pays (kh K) (\<lambda>pays. ligne_AreaHydroLevel K pays pdt)) (heures (kh K))) @
     par_pays (kh K) (\<lambda>pays. ligne_FinalStockEquivalent K pays @ ligne_FinalStockExpression K pays) @
     (if OptimisationAvecCoutsDeDemarrage (kh K) then lignes_demarrage K else [])"

subsection \<open>The number of rows they need\<close>

definition somme_pays :: "PROBLEME_HEBDO \<Rightarrow> (nat \<Rightarrow> nat) \<Rightarrow> nat" where
  "somme_pays h f = sum_list (map f [0..<NombreDePays h])"

definition nb_couplantes :: "PROBLEME_HEBDO \<Rightarrow> type_contrainte \<Rightarrow> nat" where
  "nb_couplantes h t = sum_list (map (\<lambda>c.
     if TypeDeContrainteCouplante (MatriceDesContraintesCouplantes h ! c) = t then 1 else 0)
     [0..<NombreDeContraintesCouplantes h])"

abbreviation hydro_de :: "PROBLEME_HEBDO \<Rightarrow> nat \<Rightarrow> ENERGIES_ET_PUISSANCES_HYDRAULIQUES" where
  "hydro_de h pays \<equiv> CaracteristiquesHydrauliques h ! pays"

definition places_horaires :: "PROBLEME_HEBDO \<Rightarrow> nat" where
  "places_horaires h = somme_pays h (\<lambda>pays. 2 + length (ShortTermStorage h ! pays)) +
     (NombreDInterconnexions h + nb_couplantes h CONTRAINTE_HORAIRE)"

definition places_lissage :: "PROBLEME_HEBDO \<Rightarrow> nat" where
  "places_lissage h = (case TypeDeLissageHydraulique h of
     PAS_DE_LISSAGE_HYDRAULIQUE \<Rightarrow> 0
   | LISSAGE_HYDRAULIQUE_SUR_SOMME_DES_VARIATIONS \<Rightarrow> somme_pays h (\<lambda>pays.
       if PresenceDHydrauliqueModulable (hydro_de h pays)
       then NombreDePasDeTempsPourUneOptimisation h else 0)
   | LISSAGE_HYDRAULIQUE_SUR_VARIATION_MAX \<Rightarrow> somme_pays h (\<lambda>pays.
       if PresenceDHydrauliqueModulable (hydro_de h pays)
       then 2 * NombreDePasDeTempsPourUneOptimisation h else 0))"

definition places_energie :: "PROBLEME_HEBDO \<Rightarrow> nat \<Rightarrow> nat" where
  "places_energie h pays =
     (if PresenceDHydrauliqueModulable (hydro_de h pays) \<and> \<not> TurbinageEntreBornes (hydro_de h pays)
      then 1 else 0)"

definition places_bornes :: "PROBLEME_HEBDO \<Rightarrow> nat \<Rightarrow> nat" where
  "places_bornes h pays =
     (if PresenceDHydrauliqueModulable (hydro_de h pays) \<and>
         (TurbinageEntreBornes (hydro_de h pays) \<or> PresenceDePompageModulable (hydro_de h pays))
      then 2 else 0)"

definition places_pompage :: "PROBLEME_HEBDO \<Rightarrow> nat \<Rightarrow> nat" where
  "places_pompage h pays = (if PresenceDePompageModulable (hydro_de h pays) then 1 else 0)"

definition places_niveau :: "PROBLEME_HEBDO \<Rightarrow> nat \<Rightarrow> nat" where
  "places_niveau h pays = (if SuiviNiveauHoraire (hydro_de h pays) then 1 else 0)"

definition places_stock :: "PROBLEME_HEBDO \<Rightarrow> nat \<Rightarrow> nat" where
  "places_stock h pays =
     (if AccurateWaterValue (hydro_de h pays) \<and> DirectLevelAccess (hydro_de h pays) then 1 else 0) +
     (if AccurateWaterValue (hydro_de h pays) then 1 else 0)"

definition places :: "PROBLEME_HEBDO \<Rightarrow> nat" where
  "places h =
     places_horaires h * NombreDePasDeTempsPourUneOptimisation h +
     (nb_couplantes h CONTRAINTE_JOURNALIERE *
        (NombreDePasDeTempsPourUneOptimisation h div NombreDePasDeTempsDUneJournee h) +
     ((if NombreDePasDeTempsDUneJournee h < NombreDePasDeTempsPourUneOptimisation h
       then nb_couplantes h CONTRAINTE_HEBDOMADAIRE else 0) +
     (somme_pays h (places_energie h) +
     (places_lissage h +
     (somme_pays h (places_bornes h) +
     (somme_pays h (places_pompage h) +
     (somme_pays h (places_niveau h) * NombreDePasDeTempsPourUneOptimisation h +
     (somme_pays h (places_stock h) +
      (if OptimisationAvecCoutsDeDemarrage h then places_demarrage h else 0)))))))))"

subsection \<open>Correctness\<close>

lemma construit_seqE_Cons:
  "construit K f ls k \<Longrightarrow> construit K (seqE fs) ls' k' \<Longrightarrow>
     construit K (seqE (f # fs)) (ls @ ls') (k + k')"
  by (rule rangs.emits_seqE_Cons)

lemma construit_par_pays:
  assumes "\<And>pays. pays < NombreDePays (kh K) \<Longrightarrow> construit K (f pays) (ls pays) (k pays)"
  shows "construit K (forE [0..<NombreDePays (kh K)] f) (par_pays (kh K) ls) (somme_pays (kh K) k)"
  unfolding par_pays_def somme_pays_def by (rule construit_pays) (rule assms)

lemma contraintes_horaires_ok:
  assumes [simp]: "contexte_ok K" "pdt < NombreDePasDeTempsPourUneOptimisation (kh K)"
  shows "construit K (contraintes_horaires (kh K) pdt) (lignes_horaires K pdt) (places_horaires (kh K))"
proof -
  have pays: "construit K (seqE
        [AreaBalance_add (kh K) pdt pays,
         FictitiousLoad_add (kh K) pdt pays,
         ShortTermStorageLevel_add (kh K) pdt pays])
      (ligne_AreaBalance K pdt pays @ ligne_FictitiousLoad K pdt pays @
       lignes_ShortTermStorageLevel K pdt pays) (2 + length (ShortTermStorage (kh K) ! pays))"
    if "pays < NombreDePays (kh K)" for pays
    using rangs.emits_seqE_Cons [OF AreaBalance_ok [OF _ _ that, of pdt] rangs.emits_seqE_Cons
        [OF FictitiousLoad_ok [OF _ _ that, of pdt] construit_seqE_1
        [OF ShortTermStorageLevel_ok [OF _ _ that, of pdt]]]] that
    by simp
  have couts: "construit K (forE [0..<NombreDInterconnexions (kh K)] (FlowDissociation_add (kh K) pdt))
      (concat (map (ligne_FlowDissociation K pdt) [0..<NombreDInterconnexions (kh K)]))
      (NombreDInterconnexions (kh K))"
    using rangs.emits_forE [of "[0..<NombreDInterconnexions (kh K)]" K "()"
        "FlowDissociation_add (kh K) pdt" "ligne_FlowDissociation K pdt" "\<lambda>_. 1"] FlowDissociation_ok
    by (simp add: sum_list_triv)
  have cnt: "construit K (forE [0..<NombreDeContraintesCouplantes (kh K)]
        (BindingConstraintHour_add (kh K) pdt))
      (par_couplante (kh K) (ligne_BindingConstraintHour K pdt))
      (nb_couplantes (kh K) CONTRAINTE_HORAIRE)"
    unfolding par_couplante_def nb_couplantes_def
    by (rule rangs.emits_forE, rule BindingConstraintHour_ok) simp_all
  show ?thesis
    unfolding contraintes_horaires_def lignes_horaires_def places_horaires_def
    by (intro construit_seqE_Cons construit_par_pays pays couts construit_seqE_1 cnt)
qed

lemma construit_si_hydraulique:
  assumes "contexte_ok K" and "pays < NombreDePays (kh K)" and "construit K f ls k"
  shows "construit K (si_hydraulique (kh K) pays f)
    (if PresenceDHydrauliqueModulable (hydro K pays) then ls else [])
    (if PresenceDHydrauliqueModulable (hydro K pays) then k else 0)"
  by (rule construit_smoothing [OF assms(1,2) _ assms(3)]) (simp add: si_hydraulique_def)

lemma contraintes_lissage_ok:
  assumes [simp]: "contexte_ok K"
  shows "construit K (contraintes_lissage (kh K)) (lignes_lissage K) (places_lissage (kh K))"
proof -
  let ?T = "NombreDePasDeTempsPourUneOptimisation (kh K)"
  have "construit K (forE [0..<NombreDePays (kh K)] (\<lambda>pays.
        si_hydraulique (kh K) pays (HydroPowerSmoothingUsingVariationSum_add (kh K) pays)))
      (par_pays (kh K) (lignes_VariationSum K))
      (somme_pays (kh K) (\<lambda>pays. if PresenceDHydrauliqueModulable (hydro K pays) then ?T else 0))"
  proof (rule construit_par_pays)
    fix pays assume pays: "pays < NombreDePays (kh K)"
    from construit_si_hydraulique [OF _ pays HydroPowerSmoothingUsingVariationSum_ok [OF _ pays]]
    show "construit K (si_hydraulique (kh K) pays (HydroPowerSmoothingUsingVariationSum_add (kh K) pays))
        (lignes_VariationSum K pays) (if PresenceDHydrauliqueModulable (hydro K pays) then ?T else 0)"
      by (simp add: lignes_VariationSum_def split: if_splits)
  qed
  moreover have "construit K (forE [0..<NombreDePays (kh K)] (\<lambda>pays. si_hydraulique (kh K) pays
        (forE (heures (kh K)) (\<lambda>pdt. seqE
          [HydroPowerSmoothingUsingVariationMaxDown_add (kh K) pays pdt,
           HydroPowerSmoothingUsingVariationMaxUp_add (kh K) pays pdt]))))
      (par_pays (kh K) (\<lambda>pays.
        concat (map (\<lambda>pdt. ligne_VariationMaxDown K pays pdt @ ligne_VariationMaxUp K pays pdt)
          (heures (kh K)))))
      (somme_pays (kh K) (\<lambda>pays. if PresenceDHydrauliqueModulable (hydro K pays) then 2 * ?T else 0))"
  proof (rule construit_par_pays)
    fix pays assume pays: "pays < NombreDePays (kh K)"
    let ?b = "PresenceDHydrauliqueModulable (hydro K pays)"
    have "construit K (seqE
          [HydroPowerSmoothingUsingVariationMaxDown_add (kh K) pays pdt,
           HydroPowerSmoothingUsingVariationMaxUp_add (kh K) pays pdt])
        (ligne_VariationMaxDown K pays pdt @ ligne_VariationMaxUp K pays pdt)
        (if ?b then 2 else 0)" if "pdt < ?T" for pdt
      using construit_seqE_2 [OF HydroPowerSmoothingUsingVariationMaxDown_ok [OF _ pays that]
          HydroPowerSmoothingUsingVariationMaxUp_ok [OF _ pays that]]
      by (simp add: numeral_2_eq_2 split: if_splits)
    from construit_si_hydraulique [OF _ pays construit_heures [OF this]]
    show "construit K (si_hydraulique (kh K) pays
        (forE (heures (kh K)) (\<lambda>pdt. seqE
          [HydroPowerSmoothingUsingVariationMaxDown_add (kh K) pays pdt,
           HydroPowerSmoothingUsingVariationMaxUp_add (kh K) pays pdt])))
       (concat (map (\<lambda>pdt. ligne_VariationMaxDown K pays pdt @ ligne_VariationMaxUp K pays pdt)
          (heures (kh K)))) (if ?b then 2 * ?T else 0)"
      by (cases ?b) (simp_all add: ligne_VariationMaxDown_def ligne_VariationMaxUp_def concat_map_Nil)
  qed
  ultimately show ?thesis
    using construit_Inr
    by (cases "TypeDeLissageHydraulique (kh K)")
      (simp_all add: contraintes_lissage_def lignes_lissage_def places_lissage_def)
qed

lemma construit_couplantes:
  assumes "\<And>c. c < NombreDeContraintesCouplantes (kh K) \<Longrightarrow> construit K (f c) (ls c) (k c)"
  shows "construit K (forE [0..<NombreDeContraintesCouplantes (kh K)] f)
    (par_couplante (kh K) ls) (sum_list (map k [0..<NombreDeContraintesCouplantes (kh K)]))"
  unfolding par_couplante_def by (rule rangs.emits_forE) (use assms in simp)

lemma BindingConstraintDay_boucle_ok:
  assumes "contexte_ok K"
  shows "construit K (forE [0..<NombreDeContraintesCouplantes (kh K)] (BindingConstraintDay_add (kh K)))
    (par_couplante (kh K) (lignes_BindingConstraintDay K))
    (nb_couplantes (kh K) CONTRAINTE_JOURNALIERE *
       (NombreDePasDeTempsPourUneOptimisation (kh K) div NombreDePasDeTempsDUneJournee (kh K)))"
proof -
  let ?n = "NombreDePasDeTempsPourUneOptimisation (kh K) div NombreDePasDeTempsDUneJournee (kh K)"
  have "sum_list (map (\<lambda>c. if b c then n else 0) xs) = sum_list (map (\<lambda>c. if b c then 1 else 0) xs) * n"
    for b and n :: nat and xs :: "nat list"
    by (induction xs) simp_all
  note mult = this [of "\<lambda>c. TypeDeContrainteCouplante (couplante K c) = CONTRAINTE_JOURNALIERE" ?n,
    symmetric]
  show ?thesis
    unfolding nb_couplantes_def mult
    by (rule construit_couplantes) (rule BindingConstraintDay_ok [OF assms])
qed

lemma BindingConstraintWeek_boucle_ok:
  assumes "contexte_ok K"
  shows "construit K (forE [0..<NombreDeContraintesCouplantes (kh K)] (BindingConstraintWeek_add (kh K)))
    (par_couplante (kh K) (ligne_BindingConstraintWeek K))
    (nb_couplantes (kh K) CONTRAINTE_HEBDOMADAIRE)"
  unfolding nb_couplantes_def
  by (rule construit_couplantes) (rule BindingConstraintWeek_ok [OF assms])

lemma construit_bornes:
  assumes K: "contexte_ok K" and pays: "pays < NombreDePays (kh K)"
  shows "construit K (seqE [MinHydroPower_add (kh K) pays, MaxHydroPower_add (kh K) pays])
      (ligne_MinHydroPower K pays @ ligne_MaxHydroPower K pays) (places_bornes (kh K) pays)"
    and "construit K (seqE [FinalStockEquivalent_add (kh K) pays, FinalStockExpression_add (kh K) pays])
      (ligne_FinalStockEquivalent K pays @ ligne_FinalStockExpression K pays)
      (places_stock (kh K) pays)"
    and "construit K (HydroPower_add (kh K) pays) (ligne_HydroPower K pays) (places_energie (kh K) pays)"
    and "construit K (MaxPumping_add (kh K) pays) (ligne_MaxPumping K pays) (places_pompage (kh K) pays)"
  using construit_seqE_2 [OF MinHydroPower_ok [OF K pays] MaxHydroPower_ok [OF K pays]]
    construit_seqE_2 [OF FinalStockEquivalent_ok [OF K pays] FinalStockExpression_ok [OF K pays]]
    HydroPower_ok [OF K pays] MaxPumping_ok [OF K pays]
  by (simp_all add: places_bornes_def places_stock_def places_energie_def places_pompage_def
      numeral_2_eq_2 split: if_splits)

lemma construit_niveaux:
  assumes K: "contexte_ok K" and pdt: "pdt < NombreDePasDeTempsPourUneOptimisation (kh K)"
  shows "construit K (forE [0..<NombreDePays (kh K)] (\<lambda>pays. AreaHydroLevel_add (kh K) pays pdt))
    (par_pays (kh K) (\<lambda>pays. ligne_AreaHydroLevel K pays pdt))
    (somme_pays (kh K) (places_niveau (kh K)))"
proof (rule construit_par_pays)
  fix pays assume "pays < NombreDePays (kh K)"
  from AreaHydroLevel_ok [OF K this pdt]
  show "construit K (AreaHydroLevel_add (kh K) pays pdt) (ligne_AreaHydroLevel K pays pdt)
      (places_niveau (kh K) pays)"
    by (simp add: places_niveau_def)
qed

text \<open>Everything after the reset of the matrix.\<close>

definition pret :: "contexte \<Rightarrow> etat \<Rightarrow> bool" where
  "pret K s \<longleftrightarrow> inv K (vider_matrice s)"

lemma rep_lignes_vider: "pret K s \<Longrightarrow> rep_lignes K () (vider_matrice s) []"
  by (simp add: pret_def rep_lignes_def lignes_def vider_matrice_def)

lemma OPT_ConstruireMatrice_ok:
  assumes K: "contexte_ok K"
    and num: "OptimisationAvecCoutsDeDemarrage (kh K) \<Longrightarrow> demarrage_numerote K"
    and s: "pret K s" and larg: "tient K (liste_lignes K)" and place: "places (kh K) \<le> knc K"
  shows "returns (OPT_ConstruireLaMatriceDesContraintesDuProblemeLineaire (kh K) s)
    (\<lambda>s'. rep_lignes K () s' (liste_lignes K))"
proof -
  let ?h = "kh K"
  have demarrage: "construit K (whenE (OptimisationAvecCoutsDeDemarrage ?h)
        (OPT_ConstruireLaMatriceDesContraintesDuProblemeLineaireCoutsDeDemarrage ?h False))
      (if OptimisationAvecCoutsDeDemarrage ?h then lignes_demarrage K else [])
      (if OptimisationAvecCoutsDeDemarrage ?h then places_demarrage ?h else 0)"
    by (rule rangs.emits_whenE) (rule OPT_ConstruireMatriceCoutsDeDemarrage_ok [OF K num])
  have nouveaux: "construit K (forE classes_lineaires nouveau) [] 0"
    using rangs.emits_forE [of classes_lineaires K "()" nouveau "\<lambda>_. []" "\<lambda>_. 0"] construit_nouveau
    by (simp add: concat_map_Nil)
  have "construit K (seqE
     [forE classes_lineaires nouveau,
      forE (heures ?h) (contraintes_horaires ?h),
      forE [0..<NombreDeContraintesCouplantes ?h] (BindingConstraintDay_add ?h),
      whenE (NombreDePasDeTempsDUneJournee ?h < NombreDePasDeTempsPourUneOptimisation ?h)
        (forE [0..<NombreDeContraintesCouplantes ?h] (BindingConstraintWeek_add ?h)),
      forE [0..<NombreDePays ?h] (HydroPower_add ?h),
      contraintes_lissage ?h,
      forE [0..<NombreDePays ?h] (\<lambda>pays. seqE [MinHydroPower_add ?h pays, MaxHydroPower_add ?h pays]),
      forE [0..<NombreDePays ?h] (MaxPumping_add ?h),
      forE (heures ?h) (\<lambda>pdt. forE [0..<NombreDePays ?h] (\<lambda>pays. AreaHydroLevel_add ?h pays pdt)),
      forE [0..<NombreDePays ?h] (\<lambda>pays. seqE
        [FinalStockEquivalent_add ?h pays, FinalStockExpression_add ?h pays]),
      whenE (OptimisationAvecCoutsDeDemarrage ?h)
        (OPT_ConstruireLaMatriceDesContraintesDuProblemeLineaireCoutsDeDemarrage ?h False)])
     ([] @ liste_lignes K) (0 + places ?h)"
    unfolding liste_lignes_def places_def
    by (intro construit_seqE_Cons construit_seqE_1 nouveaux construit_heures contraintes_horaires_ok
        BindingConstraintDay_boucle_ok BindingConstraintWeek_boucle_ok rangs.emits_whenE
        construit_par_pays contraintes_lissage_ok construit_bornes construit_niveaux demarrage K)
  from rangs.emitsD [OF this rep_lignes_vider [OF s]] larg place show ?thesis
    by (simp add: OPT_ConstruireLaMatriceDesContraintesDuProblemeLineaire_def)
qed

end
