(* ===== verification/Variables_Construction.thy ===== *)
theory Variables_Construction
  imports Matrix_Construction
begin

text \<open>
  The list of the variables of the linear problem:
  \<open>opt_construction_variables_optimisees_lineaire.cpp\<close> and
  \<open>opt_construction_variables_couts_demarrages.cpp\<close> under \<open>src/src/solver/optimisation/\<close>. A variable
  that exists gets the next number, a type and a name; one that does not exist gets number -1.
  \<open>liste_variables\<close> is the list of both kinds in the order of the code. Main facts: the code ends
  normally when enough variables were allocated, every existing variable is numbered by its rank,
  two variables never share a number, and the others have number -1.
\<close>

subsection \<open>Where a number is kept\<close>

datatype place = Var champ_var nat nat | Stock nat | Tranche nat nat

fun ecrire_place :: "place \<Rightarrow> int \<Rightarrow> etat \<Rightarrow> etat resultat" where
  "ecrire_place (Var c pdt i) v s = ecrire_var c pdt i v s"
| "ecrire_place (Stock pays) v s =
     bindE (ecrire (NumeroDeVariableStockFinal s) pays v) (\<lambda>xs.
     Inr (s\<lparr>NumeroDeVariableStockFinal := xs\<rparr>))"
| "ecrire_place (Tranche pays layer) v s =
     bindE (lire (NumeroDeVariableDeTrancheDeStock s) pays) (\<lambda>layers.
     bindE (ecrire layers layer v) (\<lambda>xs.
     Inr (s\<lparr>NumeroDeVariableDeTrancheDeStock := (NumeroDeVariableDeTrancheDeStock s)[pays := xs]\<rparr>)))"

fun lecture :: "etat \<Rightarrow> place \<Rightarrow> int" where
  "lecture s (Var c pdt i) = (CorrespondanceVarNativesVarOptim s ! pdt) c ! i"
| "lecture s (Stock pays) = NumeroDeVariableStockFinal s ! pays"
| "lecture s (Tranche pays layer) = NumeroDeVariableDeTrancheDeStock s ! pays ! layer"

fun place_ok :: "PROBLEME_HEBDO \<Rightarrow> place \<Rightarrow> bool" where
  "place_ok h (Var c pdt i) = (pdt < NombreDePasDeTemps h \<and> i < taille_var h c)"
| "place_ok h (Stock pays) = (pays < NombreDePays h)"
| "place_ok h (Tranche pays layer) = (pays < NombreDePays h \<and> layer < 100)"

subsection \<open>Creating a variable\<close>

text \<open>
  The state is the counter \<open>NombreDeVariables\<close> (a local variable, or the field of the problem in
  the start-up part) with the rest. \<open>entiere\<close> is the value stored in \<open>VariablesEntieres\<close>, if any.
\<close>

definition creer ::
  "place \<Rightarrow> type_variable \<Rightarrow> bool option \<Rightarrow> namer \<Rightarrow> nom_variable \<Rightarrow> nat \<times> etat \<Rightarrow> (nat \<times> etat) resultat"
  where
  "creer p ty entiere nm v ns = (case ns of (n, s) \<Rightarrow>
     bindE (ecrire_place p (int n) s) (\<lambda>s.
     bindE (maj_probleme (\<lambda>pb. bindE (ecrire (TypeDeVariable pb) n ty)
              (\<lambda>x. Inr (pb\<lparr>TypeDeVariable := x\<rparr>))) s) (\<lambda>s.
     bindE (case entiere of None \<Rightarrow> Inr s | Some b \<Rightarrow>
              maj_probleme (\<lambda>pb. bindE (ecrire (VariablesEntieres pb) n b)
                (\<lambda>x. Inr (pb\<lparr>VariablesEntieres := x\<rparr>))) s) (\<lambda>s.
     bindE (nommer_variable nm v n s) (\<lambda>s.
     Inr (n + 1, s))))))"

definition absente :: "place \<Rightarrow> nat \<times> etat \<Rightarrow> (nat \<times> etat) resultat" where
  "absente p ns = (case ns of (n, s) \<Rightarrow> bindE (ecrire_place p (- 1) s) (\<lambda>s. Inr (n, s)))"

subsection \<open>The records and the invariant\<close>

text \<open>A record: the place of the number, and type, integrality and name when the variable exists.\<close>

type_synonym fiche = "place \<times> (type_variable \<times> bool option \<times> string) option"

fun creees :: "fiche list \<Rightarrow> (place \<times> type_variable \<times> bool option \<times> string) list" where
  "creees [] = []"
| "creees ((p, None) # fs) = creees fs"
| "creees ((p, Some v) # fs) = (p, v) # creees fs"

lemma creees_append [simp]: "creees (xs @ ys) = creees xs @ creees ys"
  by (induction xs rule: creees.induct) simp_all

lemma creees_subset: "(p, v) \<in> set (creees fs) \<longleftrightarrow> (p, Some v) \<in> set fs"
  by (induction fs rule: creees.induct) auto

definition hors_variables :: "etat \<Rightarrow> etat" where
  "hors_variables s = s\<lparr>CorrespondanceVarNativesVarOptim := [], NumeroDeVariableStockFinal := [],
     NumeroDeVariableDeTrancheDeStock := [], ProblemeAResoudre := (ProblemeAResoudre s)
       \<lparr>NombreDeVariables := 0, TypeDeVariable := [], NomDesVariables := [], VariablesEntieres := []\<rparr>\<rparr>"

definition dims_variables :: "PROBLEME_HEBDO \<Rightarrow> nat \<Rightarrow> etat \<Rightarrow> bool" where
  "dims_variables h nv s \<longleftrightarrow>
     dims_var h (CorrespondanceVarNativesVarOptim s) (NumeroDeVariableStockFinal s)
       (NumeroDeVariableDeTrancheDeStock s) \<and>
     length (TypeDeVariable (ProblemeAResoudre s)) = nv \<and>
     length (NomDesVariables (ProblemeAResoudre s)) = nv \<and>
     length (VariablesEntieres (ProblemeAResoudre s)) = nv"

definition variable_ok :: "etat \<Rightarrow> nat \<Rightarrow> place \<times> type_variable \<times> bool option \<times> string \<Rightarrow> bool" where
  "variable_ok s k f = (case f of (p, ty, entiere, nom) \<Rightarrow>
     lecture s p = int k \<and> TypeDeVariable (ProblemeAResoudre s) ! k = ty \<and>
     NomDesVariables (ProblemeAResoudre s) ! k = nom \<and>
     (\<forall>b. entiere = Some b \<longrightarrow> VariablesEntieres (ProblemeAResoudre s) ! k = b))"

definition rep_variables :: "PROBLEME_HEBDO \<Rightarrow> nat \<Rightarrow> etat \<Rightarrow> unit \<Rightarrow> nat \<times> etat \<Rightarrow> fiche list \<Rightarrow> bool" where
  "rep_variables h nv s0 u ns fs = (case ns of (n, s) \<Rightarrow>
     n = length (creees fs) \<and> n \<le> nv \<and> dims_variables h nv s \<and> hors_variables s = hors_variables s0 \<and>
     (\<forall>p. (p, None) \<in> set fs \<longrightarrow> lecture s p = - 1) \<and>
     (\<forall>k < n. variable_ok s k (creees fs ! k)))"

definition fiches_ok :: "PROBLEME_HEBDO \<Rightarrow> nat \<Rightarrow> fiche list \<Rightarrow> bool" where
  "fiches_ok h nv fs \<longleftrightarrow> distinct (map fst fs) \<and> length (creees fs) \<le> nv \<and>
     (\<forall>f \<in> set fs. place_ok h (fst f))"

definition pousser :: "fiche \<Rightarrow> nat \<times> etat \<Rightarrow> (nat \<times> etat) resultat" where
  "pousser f ns = (case snd f of None \<Rightarrow> absente (fst f) ns | Some (ty, entiere, nom) \<Rightarrow> (case ns of (n, s) \<Rightarrow>
     bindE (ecrire_place (fst f) (int n) s) (\<lambda>s.
     bindE (maj_probleme (\<lambda>pb. bindE (ecrire (TypeDeVariable pb) n ty)
              (\<lambda>x. Inr (pb\<lparr>TypeDeVariable := x\<rparr>))) s) (\<lambda>s.
     bindE (case entiere of None \<Rightarrow> Inr s | Some b \<Rightarrow>
              maj_probleme (\<lambda>pb. bindE (ecrire (VariablesEntieres pb) n b)
                (\<lambda>x. Inr (pb\<lparr>VariablesEntieres := x\<rparr>))) s) (\<lambda>s.
     bindE (maj_probleme (\<lambda>pb. bindE (ecrire (NomDesVariables pb) n nom)
              (\<lambda>x. Inr (pb\<lparr>NomDesVariables := x\<rparr>))) s) (\<lambda>s.
     Inr (n + 1, s)))))))"

lemma creer_pousser: "creer p ty e nm v = pousser (p, Some (ty, e, VariableNamer nm v))"
  by (simp add: creer_def pousser_def nommer_variable_def fun_eq_iff)

lemma absente_pousser: "absente p = pousser (p, None)"
  by (simp add: pousser_def fun_eq_iff)

text \<open>Writing one place.\<close>

lemma ecrire_place_ok:
  assumes d: "dims_variables h nv s" and p: "place_ok h p"
  shows "\<exists>s'. ecrire_place p v s = Inr s' \<and> dims_variables h nv s' \<and>
    hors_variables s' = hors_variables s \<and> ProblemeAResoudre s' = ProblemeAResoudre s \<and>
    lecture s' p = v \<and> (\<forall>q. place_ok h q \<and> q \<noteq> p \<longrightarrow> lecture s' q = lecture s q)"
proof (cases p)
  case (Var c pdt i)
  let ?C = "CorrespondanceVarNativesVarOptim s"
  define corr where "corr = (?C ! pdt)(c := ((?C ! pdt) c)[i := v])"
  have C: "pdt < length ?C" "\<forall>x \<in> set ?C. \<forall>c. length (x c) = taille_var h c" "i < taille_var h c"
    using d p Var by (simp_all add: dims_variables_def dims_var_def)
  have len: "length ((?C ! pdt) c) = taille_var h c" for c
    using C(1,2) by simp
  have "\<forall>x \<in> set (?C[pdt := corr]). \<forall>c. length (x c) = taille_var h c"
    by (rule all_set_update) (use C(2) len in \<open>simp_all add: corr_def\<close>)
  then have "dims_variables h nv (s\<lparr>CorrespondanceVarNativesVarOptim := ?C[pdt := corr]\<rparr>)"
    using d by (simp add: dims_variables_def dims_var_def)
  moreover have "ecrire_place p v s = Inr (s\<lparr>CorrespondanceVarNativesVarOptim := ?C[pdt := corr]\<rparr>)"
    using C len Var by (simp add: ecrire_var_def corr_def)
  moreover have "lecture (s\<lparr>CorrespondanceVarNativesVarOptim := ?C[pdt := corr]\<rparr>) p = v"
    using C len Var by (simp add: corr_def)
  moreover have "lecture (s\<lparr>CorrespondanceVarNativesVarOptim := ?C[pdt := corr]\<rparr>) q = lecture s q"
    if "q \<noteq> p" for q
    using that Var C(1) by (cases q) (auto simp: corr_def nth_list_update)
  moreover have "hors_variables (s\<lparr>CorrespondanceVarNativesVarOptim := (CorrespondanceVarNativesVarOptim s)[pdt := corr]\<rparr>) = hors_variables s"
    by (simp add: hors_variables_def)
  ultimately show ?thesis
    by (intro exI [of _ "s\<lparr>CorrespondanceVarNativesVarOptim := (CorrespondanceVarNativesVarOptim s)[pdt := corr]\<rparr>"] conjI allI impI) (blast | simp)+
next
  case (Stock pays)
  let ?C = "NumeroDeVariableStockFinal s"
  have "pays < length ?C"
    using d p Stock by (simp add: dims_variables_def dims_var_def)
  moreover from this have "lecture (s\<lparr>NumeroDeVariableStockFinal := ?C[pays := v]\<rparr>) q = lecture s q"
    if "q \<noteq> p" for q
    using that Stock by (cases q) (auto simp: nth_list_update)
  ultimately show ?thesis
    using d Stock by (simp add: dims_variables_def dims_var_def hors_variables_def)
next
  case (Tranche pays layer)
  let ?C = "NumeroDeVariableDeTrancheDeStock s"
  define xs where "xs = (?C ! pays)[layer := v]"
  have C: "pays < length ?C" "\<forall>x \<in> set ?C. length x = 100" "layer < 100"
    using d p Tranche by (simp_all add: dims_variables_def dims_var_def)
  then have len: "length (?C ! pays) = 100" by simp
  have "\<forall>x \<in> set (?C[pays := xs]). length x = 100"
    by (rule all_set_update) (use C(2) len in \<open>simp_all add: xs_def\<close>)
  then have "dims_variables h nv (s\<lparr>NumeroDeVariableDeTrancheDeStock := ?C[pays := xs]\<rparr>)"
    using d by (simp add: dims_variables_def dims_var_def)
  moreover have "ecrire_place p v s = Inr (s\<lparr>NumeroDeVariableDeTrancheDeStock := ?C[pays := xs]\<rparr>)"
    using C len Tranche by (simp add: xs_def)
  moreover have "lecture (s\<lparr>NumeroDeVariableDeTrancheDeStock := ?C[pays := xs]\<rparr>) p = v"
    using C len Tranche by (simp add: xs_def)
  moreover have "lecture (s\<lparr>NumeroDeVariableDeTrancheDeStock := ?C[pays := xs]\<rparr>) q = lecture s q"
    if "q \<noteq> p" for q
    using that Tranche C len by (cases q) (auto simp: xs_def nth_list_update)
  moreover have "hors_variables (s\<lparr>NumeroDeVariableDeTrancheDeStock := (NumeroDeVariableDeTrancheDeStock s)[pays := xs]\<rparr>) = hors_variables s"
    by (simp add: hors_variables_def)
  ultimately show ?thesis
    by (intro exI [of _ "s\<lparr>NumeroDeVariableDeTrancheDeStock := (NumeroDeVariableDeTrancheDeStock s)[pays := xs]\<rparr>"] conjI allI impI) (blast | simp)+
qed

text \<open>One more record.\<close>

lemma variable_ok_cong:
  assumes "variable_ok s k f" and "lecture s' (fst f) = lecture s (fst f)"
    and "TypeDeVariable (ProblemeAResoudre s') ! k = TypeDeVariable (ProblemeAResoudre s) ! k"
    and "NomDesVariables (ProblemeAResoudre s') ! k = NomDesVariables (ProblemeAResoudre s) ! k"
    and "VariablesEntieres (ProblemeAResoudre s') ! k = VariablesEntieres (ProblemeAResoudre s) ! k"
  shows "variable_ok s' k f"
  using assms by (cases f) (simp add: variable_ok_def)

lemma creees_place: "k < length (creees fs) \<Longrightarrow> fst (creees fs ! k) \<in> fst ` set fs"
  by (metis creees_subset fst_conv image_eqI nth_mem prod.collapse)

lemma lecture_probleme [simp]: "lecture (s\<lparr>ProblemeAResoudre := pb\<rparr>) p = lecture s p"
  by (cases p) simp_all

text \<open>The writes to the three tables of a new variable.\<close>

definition inscrire :: "nat \<Rightarrow> type_variable \<times> bool option \<times> string \<Rightarrow> etat \<Rightarrow> etat" where
  "inscrire n v s = (case v of (ty, entiere, nom) \<Rightarrow>
     s\<lparr>ProblemeAResoudre := (ProblemeAResoudre s)
        \<lparr>TypeDeVariable := (TypeDeVariable (ProblemeAResoudre s))[n := ty],
         VariablesEntieres := (case entiere of None \<Rightarrow> VariablesEntieres (ProblemeAResoudre s)
            | Some b \<Rightarrow> (VariablesEntieres (ProblemeAResoudre s))[n := b]),
         NomDesVariables := (NomDesVariables (ProblemeAResoudre s))[n := nom]\<rparr>\<rparr>)"

lemma pousser_Some:
  assumes "ecrire_place p (int n) s = Inr s1" and "dims_variables h nv s1" and "n < nv"
  shows "pousser (p, Some v) (n, s) = Inr (n + 1, inscrire n v s1)"
  using assms
  by (cases v) (auto simp: pousser_def inscrire_def maj_probleme_def dims_variables_def split: option.splits)

lemma inscrire_ok:
  assumes "dims_variables h nv s"
  shows "dims_variables h nv (inscrire n v s)" "hors_variables (inscrire n v s) = hors_variables s"
    "lecture (inscrire n v s) p = lecture s p"
  using assms
  by (cases v; auto simp: inscrire_def dims_variables_def hors_variables_def split: option.splits)+

lemma inscrire_autre:
  assumes "k \<noteq> n" and "variable_ok s k f"
  shows "variable_ok (inscrire n v s) k f"
  by (rule variable_ok_cong [OF assms(2)])
    (use assms(1) in \<open>cases v; auto simp: inscrire_def split: option.splits\<close>)+

lemma inscrire_nouveau:
  assumes "dims_variables h nv s" and "n < nv" and "lecture s p = int n"
  shows "variable_ok (inscrire n v s) n (p, v)"
  using assms
  by (cases v) (auto simp: inscrire_def variable_ok_def dims_variables_def split: option.splits)

interpretation variables: append_store_push "rep_variables h nv s0" "fiches_ok h nv" cap pousser
  for h nv s0 cap
proof unfold_locales
  fix xs ys assume "fiches_ok h nv (xs @ ys)"
  then show "fiches_ok h nv xs" by (auto simp: fiches_ok_def)
next
  fix u ns fs and f :: fiche
  assume rep: "rep_variables h nv s0 u ns fs" and adm: "fiches_ok h nv (fs @ [f])"
  obtain n s where ns: "ns = (n, s)" by (cases ns)
  obtain p v where f: "f = (p, v)" by (cases f)
  have n: "n = length (creees fs)" "n \<le> nv" and d: "dims_variables h nv s"
    and hors: "hors_variables s = hors_variables s0"
    and abs: "\<And>q. (q, None) \<in> set fs \<Longrightarrow> lecture s q = - 1"
    and ok: "\<And>k. k < n \<Longrightarrow> variable_ok s k (creees fs ! k)"
    using rep by (auto simp: rep_variables_def ns)
  have p: "place_ok h p" "p \<notin> fst ` set fs" and places: "\<And>q. q \<in> fst ` set fs \<Longrightarrow> place_ok h q"
    using adm by (auto simp: fiches_ok_def f)
  from ecrire_place_ok [OF d p(1), of "case v of None \<Rightarrow> - 1 | Some _ \<Rightarrow> int n"] obtain s1 where
    s1: "ecrire_place p (case v of None \<Rightarrow> - 1 | Some _ \<Rightarrow> int n) s = Inr s1"
    and d1: "dims_variables h nv s1" and hors1: "hors_variables s1 = hors_variables s"
    and pb: "ProblemeAResoudre s1 = ProblemeAResoudre s"
    and lp: "lecture s1 p = (case v of None \<Rightarrow> - 1 | Some _ \<Rightarrow> int n)"
    and lq: "\<And>q. place_ok h q \<Longrightarrow> q \<noteq> p \<Longrightarrow> lecture s1 q = lecture s q"
    by blast
  have ok1: "variable_ok s1 k (creees fs ! k)" if "k < n" for k
  proof (rule variable_ok_cong [OF ok [OF that]])
    have "fst (creees fs ! k) \<in> fst ` set fs" using that n by (simp add: creees_place)
    then show "lecture s1 (fst (creees fs ! k)) = lecture s (fst (creees fs ! k))"
      using lq places p(2) by metis
  qed (simp_all add: pb)
  have abs1: "lecture s1 q = - 1" if "(q, None) \<in> set fs" for q
  proof -
    have "q \<in> fst ` set fs" using that by force
    then have "lecture s1 q = lecture s q" using lq places p(2) by metis
    with abs [OF that] show ?thesis by simp
  qed
  show "returns (pousser f ns) (\<lambda>ns'. rep_variables h nv s0 u ns' (fs @ [f]))"
  proof (cases v)
    case None
    then have "pousser f ns = Inr (n, s1)"
      using s1 by (simp add: pousser_def absente_def f ns)
    moreover have "rep_variables h nv s0 u (n, s1) (fs @ [f])"
      using n d1 hors hors1 abs1 ok1 lp None by (auto simp: rep_variables_def f)
    ultimately show ?thesis by simp
  next
    case (Some w)
    have room: "n < nv" using adm n Some by (simp add: fiches_ok_def f)
    let ?s2 = "inscrire n w s1"
    have run: "pousser f ns = Inr (n + 1, ?s2)"
      unfolding f ns Some by (rule pousser_Some [OF _ d1 room]) (use s1 Some in simp)
    have "variable_ok ?s2 k (creees (fs @ [f]) ! k)" if "k < n + 1" for k
    proof (cases "k = n")
      case True
      have "lecture s1 p = int n" using lp Some by simp
      from inscrire_nouveau [OF d1 room this] True n Some show ?thesis
        by (simp add: f nth_append)
    next
      case False
      with that have "k < n" by simp
      with inscrire_autre [OF False ok1] n Some show ?thesis
        by (simp add: f nth_append)
    qed
    moreover have "lecture ?s2 q = - 1" if "(q, None) \<in> set (fs @ [f])" for q
      using that abs1 Some by (auto simp: f inscrire_ok(3) [OF d1])
    ultimately have "rep_variables h nv s0 u (n + 1, ?s2) (fs @ [f])"
      using n room inscrire_ok(1,2) [OF d1] hors hors1 Some by (simp add: rep_variables_def f)
    with run show ?thesis by simp
  qed
qed

subsection \<open>The code\<close>

definition namer_variable :: "nat \<Rightarrow> string \<Rightarrow> namer" where
  "namer_variable timeStep area = namer_init\<lparr>namer_timeStep := timeStep, namer_area := area\<rparr>"

definition variables_interco :: "PROBLEME_HEBDO \<Rightarrow> nat \<Rightarrow> nat \<Rightarrow> nat \<times> etat \<Rightarrow> (nat \<times> etat) resultat" where
  "variables_interco h pdt interco ns =
     bindE (lire (PaysOrigineDeLInterconnexion h) interco) (\<lambda>no.
     bindE (lire (NomsDesPays h) no) (\<lambda>origin.
     bindE (lire (PaysExtremiteDeLInterconnexion h) interco) (\<lambda>ne.
     bindE (lire (NomsDesPays h) ne) (\<lambda>destination.
     bindE (lire (CoutDeTransport h) interco) (\<lambda>cout.
     let nm = namer_variable (heure_annee h pdt) '''' in seqE
     [creer (Var NumeroDeVariableDeLInterconnexion pdt interco) VARIABLE_BORNEE_DES_DEUX_COTES None nm
        (VN_NTCDirect origin destination),
      whenE (IntercoGereeAvecDesCouts cout) (seqE
        [creer (Var NumeroDeVariableCoutOrigineVersExtremiteDeLInterconnexion pdt interco)
           VARIABLE_BORNEE_DES_DEUX_COTES None nm (VN_IntercoDirectCost origin destination),
         creer (Var NumeroDeVariableCoutExtremiteVersOrigineDeLInterconnexion pdt interco)
           VARIABLE_BORNEE_DES_DEUX_COTES None nm (VN_IntercoIndirectCost origin destination)])] ns)))))"

definition variables_palier ::
  "PROBLEME_HEBDO \<Rightarrow> nat \<Rightarrow> namer \<Rightarrow> PALIERS_THERMIQUES \<Rightarrow> nat \<Rightarrow> nat \<times> etat \<Rightarrow> (nat \<times> etat) resultat" where
  "variables_palier h pdt nm pt index ns =
     bindE (lire (NumeroDuPalierDansLEnsembleDesPaliersThermiques pt) index) (\<lambda>palier.
     bindE (lire (NomsDesPaliersThermiques pt) index) (\<lambda>clusterName.
     creer (Var NumeroDeVariableDuPalierThermique pdt palier) VARIABLE_BORNEE_DES_DEUX_COTES None nm
       (VN_DispatchableProduction clusterName) ns))"

definition variables_stockage ::
  "nat \<Rightarrow> namer \<Rightarrow> STS_PROPERTIES \<Rightarrow> nat \<times> etat \<Rightarrow> (nat \<times> etat) resultat" where
  "variables_stockage pdt nm storage = (let i = clusterGlobalIndex storage in seqE
     [creer (Var InjectionVariable pdt i) VARIABLE_BORNEE_DES_DEUX_COTES None nm
        (VN_ShortTermStorageInjection (storage_name storage)),
      creer (Var WithdrawalVariable pdt i) VARIABLE_BORNEE_DES_DEUX_COTES None nm
        (VN_ShortTermStorageWithdrawal (storage_name storage)),
      creer (Var LevelVariable pdt i) VARIABLE_BORNEE_DES_DEUX_COTES None nm
        (VN_ShortTermStorageLevel (storage_name storage))])"

definition variables_pays :: "PROBLEME_HEBDO \<Rightarrow> nat \<Rightarrow> nat \<Rightarrow> nat \<times> etat \<Rightarrow> (nat \<times> etat) resultat" where
  "variables_pays h pdt pays ns =
     bindE (lire (PaliersThermiquesDuPays h) pays) (\<lambda>pt.
     bindE (lire (NomsDesPays h) pays) (\<lambda>nom.
     bindE (lire (ShortTermStorage h) pays) (\<lambda>storages.
     let nm = namer_variable (heure_annee h pdt) nom in seqE
     [forE [0..<NombreDePaliersThermiques pt] (variables_palier h pdt nm pt),
      forE storages (variables_stockage pdt nm),
      creer (Var NumeroDeVariableDefaillancePositive pdt pays) VARIABLE_BORNEE_DES_DEUX_COTES None nm
        VN_PositiveUnsuppliedEnergy,
      creer (Var NumeroDeVariableDefaillanceNegative pdt pays) VARIABLE_BORNEE_INFERIEUREMENT None nm
        VN_NegativeUnsuppliedEnergy] ns)))"

definition variables_hydro :: "PROBLEME_HEBDO \<Rightarrow> nat \<Rightarrow> nat \<Rightarrow> nat \<times> etat \<Rightarrow> (nat \<times> etat) resultat" where
  "variables_hydro h pdt pays ns =
     bindE (lire (NomsDesPays h) pays) (\<lambda>nom.
     bindE (lire (CaracteristiquesHydrauliques h) pays) (\<lambda>c.
     let nm = namer_variable (heure_annee h pdt) nom;
         baisse = Var NumeroDeVariablesVariationHydALaBaisse pdt pays;
         hausse = Var NumeroDeVariablesVariationHydALaHausse pdt pays in seqE
     [(if PresenceDHydrauliqueModulable c
       then creer (Var NumeroDeVariablesDeLaProdHyd pdt pays) VARIABLE_BORNEE_DES_DEUX_COTES None nm
              VN_HydProd
       else absente (Var NumeroDeVariablesDeLaProdHyd pdt pays)),
      absente baisse,
      absente hausse,
      (if TypeDeLissageHydraulique h = LISSAGE_HYDRAULIQUE_SUR_SOMME_DES_VARIATIONS
       then if PresenceDHydrauliqueModulable c
            then seqE
              [creer baisse VARIABLE_BORNEE_INFERIEUREMENT None nm VN_HydProdDown,
               creer hausse VARIABLE_BORNEE_INFERIEUREMENT None nm VN_HydProdUp]
            else Inr
       else if TypeDeLissageHydraulique h = LISSAGE_HYDRAULIQUE_SUR_VARIATION_MAX \<and>
               PresenceDHydrauliqueModulable c \<and> pdt = 0
       then seqE
              [creer baisse VARIABLE_BORNEE_DES_DEUX_COTES None nm VN_HydProdDown,
               creer hausse VARIABLE_BORNEE_DES_DEUX_COTES None nm VN_HydProdUp]
       else Inr),
      (if PresenceDePompageModulable c
       then creer (Var NumeroDeVariablesDePompage pdt pays) VARIABLE_BORNEE_DES_DEUX_COTES None nm
              VN_Pumping
       else absente (Var NumeroDeVariablesDePompage pdt pays)),
      (if SuiviNiveauHoraire c
       then seqE
         [creer (Var NumeroDeVariablesDeNiveau pdt pays) VARIABLE_BORNEE_DES_DEUX_COTES None nm
            VN_HydroLevel,
          creer (Var NumeroDeVariablesDeDebordement pdt pays) VARIABLE_BORNEE_DES_DEUX_COTES None nm
            VN_Overflow]
       else seqE
         [absente (Var NumeroDeVariablesDeNiveau pdt pays),
          absente (Var NumeroDeVariablesDeDebordement pdt pays)])] ns))"

definition variables_stock :: "PROBLEME_HEBDO \<Rightarrow> nat \<Rightarrow> nat \<times> etat \<Rightarrow> (nat \<times> etat) resultat" where
  "variables_stock h pays ns =
     bindE (lire (NomsDesPays h) pays) (\<lambda>nom.
     bindE (lire (CaracteristiquesHydrauliques h) pays) (\<lambda>c.
     let nm = namer_variable (weekInTheYear h * 168 + NombreDePasDeTempsPourUneOptimisation h - 1) nom in
     (if AccurateWaterValue c
      then seqE
        [creer (Stock pays) VARIABLE_NON_BORNEE None nm VN_FinalStorage,
         forE [0..<100] (\<lambda>nblayer. creer (Tranche pays nblayer) VARIABLE_BORNEE_DES_DEUX_COTES None nm
           (VN_LayerStorage nblayer))]
      else seqE
        [absente (Stock pays),
         forE [0..<100] (\<lambda>nblayer. absente (Tranche pays nblayer))]) ns))"

text \<open>Under \<open>Simulation\<close> the four variables of a cluster and an hour are only counted.\<close>

definition variables_demarrage ::
  "PROBLEME_HEBDO \<Rightarrow> bool \<Rightarrow> namer \<Rightarrow> string \<Rightarrow> nat \<Rightarrow> nat \<Rightarrow> nat \<times> etat \<Rightarrow> (nat \<times> etat) resultat" where
  "variables_demarrage h Simulation nm clusterName palier pdt ns =
     (if Simulation then Inr (fst ns + 4, snd ns)
      else let b = Some (OptimisationAvecVariablesEntieres h) in seqE
       [creer (Var NumeroDeVariableDuNombreDeGroupesEnMarcheDuPalierThermique pdt palier)
          VARIABLE_BORNEE_DES_DEUX_COTES b nm (VN_NODU clusterName),
        creer (Var NumeroDeVariableDuNombreDeGroupesQuiDemarrentDuPalierThermique pdt palier)
          VARIABLE_BORNEE_INFERIEUREMENT b nm (VN_NumberStartingDispatchableUnits clusterName),
        creer (Var NumeroDeVariableDuNombreDeGroupesQuiSArretentDuPalierThermique pdt palier)
          VARIABLE_BORNEE_INFERIEUREMENT b nm (VN_NumberStoppingDispatchableUnits clusterName),
        creer (Var NumeroDeVariableDuNombreDeGroupesQuiTombentEnPanneDuPalierThermique pdt palier)
          VARIABLE_BORNEE_DES_DEUX_COTES b nm (VN_NumberBreakingDownDispatchableUnits clusterName)] ns)"

definition variables_demarrage_pays ::
  "PROBLEME_HEBDO \<Rightarrow> bool \<Rightarrow> nat \<Rightarrow> nat \<times> etat \<Rightarrow> (nat \<times> etat) resultat" where
  "variables_demarrage_pays h Simulation pays ns =
     bindE (lire (NomsDesPays h) pays) (\<lambda>nom.
     bindE (lire (PaliersThermiquesDuPays h) pays) (\<lambda>pt.
     pour_paliers_du_pays h pays (\<lambda>index palier ns.
       bindE (lire (NomsDesPaliersThermiques pt) index) (\<lambda>clusterName.
       forE (heures h) (\<lambda>pdt. variables_demarrage h Simulation
         (namer_variable (heure_annee h pdt) nom) clusterName palier pdt) ns)) ns))"

text \<open>A function that works on the counter \<open>ProblemeAResoudre->NombreDeVariables\<close> itself.\<close>

definition avec_compteur ::
  "(nat \<times> etat \<Rightarrow> (nat \<times> etat) resultat) \<Rightarrow> etat \<Rightarrow> etat resultat" where
  "avec_compteur f s =
     bindE (f (NombreDeVariables (ProblemeAResoudre s), s)) (\<lambda>ns.
     Inr ((snd ns)\<lparr>ProblemeAResoudre := (ProblemeAResoudre (snd ns))\<lparr>NombreDeVariables := fst ns\<rparr>\<rparr>))"

definition OPT_ConstruireLaListeDesVariablesOptimiseesDuProblemeLineaireCoutsDeDemarrage ::
  "PROBLEME_HEBDO \<Rightarrow> bool \<Rightarrow> etat \<Rightarrow> etat resultat" where
  "OPT_ConstruireLaListeDesVariablesOptimiseesDuProblemeLineaireCoutsDeDemarrage h Simulation =
     avec_compteur (forE [0..<NombreDePays h] (variables_demarrage_pays h Simulation))"

definition variables_lineaires :: "PROBLEME_HEBDO \<Rightarrow> nat \<times> etat \<Rightarrow> (nat \<times> etat) resultat" where
  "variables_lineaires h = seqE
     [forE (heures h) (\<lambda>pdt. seqE
        [forE [0..<NombreDInterconnexions h] (variables_interco h pdt),
         forE [0..<NombreDePays h] (variables_pays h pdt),
         forE [0..<NombreDePays h] (variables_hydro h pdt)]),
      forE [0..<NombreDePays h] (variables_stock h)]"

definition OPT_ConstruireLaListeDesVariablesOptimiseesDuProblemeLineaire ::
  "PROBLEME_HEBDO \<Rightarrow> etat \<Rightarrow> etat resultat" where
  "OPT_ConstruireLaListeDesVariablesOptimiseesDuProblemeLineaire h s =
     bindE (variables_lineaires h (0, s)) (\<lambda>(n, s).
     whenE (OptimisationAvecCoutsDeDemarrage h)
       (OPT_ConstruireLaListeDesVariablesOptimiseesDuProblemeLineaireCoutsDeDemarrage h False)
       (s\<lparr>ProblemeAResoudre := (ProblemeAResoudre s)\<lparr>NombreDeVariables := n\<rparr>\<rparr>))"

subsection \<open>The list of the variables\<close>

definition existe :: "place \<Rightarrow> type_variable \<Rightarrow> namer \<Rightarrow> nom_variable \<Rightarrow> fiche" where
  "existe p ty nm v = (p, Some (ty, None, VariableNamer nm v))"

definition entiere :: "place \<Rightarrow> type_variable \<Rightarrow> bool \<Rightarrow> namer \<Rightarrow> nom_variable \<Rightarrow> fiche" where
  "entiere p ty b nm v = (p, Some (ty, Some b, VariableNamer nm v))"

definition inexistante :: "place \<Rightarrow> fiche" where
  "inexistante p = (p, None)"

definition fiches_interco :: "PROBLEME_HEBDO \<Rightarrow> nat \<Rightarrow> nat \<Rightarrow> fiche list" where
  "fiches_interco h pdt l =
     (let nm = namer_variable (heure_annee h pdt) '''';
          origin = NomsDesPays h ! (PaysOrigineDeLInterconnexion h ! l);
          destination = NomsDesPays h ! (PaysExtremiteDeLInterconnexion h ! l) in
      [existe (Var NumeroDeVariableDeLInterconnexion pdt l) VARIABLE_BORNEE_DES_DEUX_COTES nm
         (VN_NTCDirect origin destination)] @
      (if IntercoGereeAvecDesCouts (CoutDeTransport h ! l) then
        [existe (Var NumeroDeVariableCoutOrigineVersExtremiteDeLInterconnexion pdt l)
           VARIABLE_BORNEE_DES_DEUX_COTES nm (VN_IntercoDirectCost origin destination),
         existe (Var NumeroDeVariableCoutExtremiteVersOrigineDeLInterconnexion pdt l)
           VARIABLE_BORNEE_DES_DEUX_COTES nm (VN_IntercoIndirectCost origin destination)]
       else []))"

definition fiche_palier :: "PROBLEME_HEBDO \<Rightarrow> nat \<Rightarrow> nat \<Rightarrow> nat \<Rightarrow> fiche" where
  "fiche_palier h pdt pays i = (let pt = PaliersThermiquesDuPays h ! pays in
     existe (Var NumeroDeVariableDuPalierThermique pdt
        (NumeroDuPalierDansLEnsembleDesPaliersThermiques pt ! i)) VARIABLE_BORNEE_DES_DEUX_COTES
        (namer_variable (heure_annee h pdt) (NomsDesPays h ! pays))
        (VN_DispatchableProduction (NomsDesPaliersThermiques pt ! i)))"

definition fiches_stockage :: "PROBLEME_HEBDO \<Rightarrow> nat \<Rightarrow> nat \<Rightarrow> STS_PROPERTIES \<Rightarrow> fiche list" where
  "fiches_stockage h pdt pays st =
     (let nm = namer_variable (heure_annee h pdt) (NomsDesPays h ! pays); i = clusterGlobalIndex st in
     [existe (Var InjectionVariable pdt i) VARIABLE_BORNEE_DES_DEUX_COTES nm
        (VN_ShortTermStorageInjection (storage_name st)),
      existe (Var WithdrawalVariable pdt i) VARIABLE_BORNEE_DES_DEUX_COTES nm
        (VN_ShortTermStorageWithdrawal (storage_name st)),
      existe (Var LevelVariable pdt i) VARIABLE_BORNEE_DES_DEUX_COTES nm
        (VN_ShortTermStorageLevel (storage_name st))])"

definition fiches_pays :: "PROBLEME_HEBDO \<Rightarrow> nat \<Rightarrow> nat \<Rightarrow> fiche list" where
  "fiches_pays h pdt pays =
     (let nm = namer_variable (heure_annee h pdt) (NomsDesPays h ! pays) in
      map (fiche_palier h pdt pays) [0..<nb_paliers h pays] @
      concat (map (fiches_stockage h pdt pays) (ShortTermStorage h ! pays)) @
      [existe (Var NumeroDeVariableDefaillancePositive pdt pays) VARIABLE_BORNEE_DES_DEUX_COTES nm
         VN_PositiveUnsuppliedEnergy,
       existe (Var NumeroDeVariableDefaillanceNegative pdt pays) VARIABLE_BORNEE_INFERIEUREMENT nm
         VN_NegativeUnsuppliedEnergy])"

definition fiche_si :: "bool \<Rightarrow> place \<Rightarrow> type_variable \<Rightarrow> namer \<Rightarrow> nom_variable \<Rightarrow> fiche" where
  "fiche_si b p ty nm v = (if b then existe p ty nm v else inexistante p)"

text \<open>The variation variables exist at every hour, at hour 0 only, or not at all.\<close>

definition variation_existe :: "PROBLEME_HEBDO \<Rightarrow> nat \<Rightarrow> nat \<Rightarrow> bool" where
  "variation_existe h pdt pays \<longleftrightarrow> PresenceDHydrauliqueModulable (hydro_de h pays) \<and>
     (TypeDeLissageHydraulique h = LISSAGE_HYDRAULIQUE_SUR_SOMME_DES_VARIATIONS \<or>
      TypeDeLissageHydraulique h = LISSAGE_HYDRAULIQUE_SUR_VARIATION_MAX \<and> pdt = 0)"

definition type_variation :: "PROBLEME_HEBDO \<Rightarrow> type_variable" where
  "type_variation h =
     (if TypeDeLissageHydraulique h = LISSAGE_HYDRAULIQUE_SUR_SOMME_DES_VARIATIONS
      then VARIABLE_BORNEE_INFERIEUREMENT else VARIABLE_BORNEE_DES_DEUX_COTES)"

definition fiches_hydro :: "PROBLEME_HEBDO \<Rightarrow> nat \<Rightarrow> nat \<Rightarrow> fiche list" where
  "fiches_hydro h pdt pays =
     (let c = hydro_de h pays; nm = namer_variable (heure_annee h pdt) (NomsDesPays h ! pays) in
      [fiche_si (PresenceDHydrauliqueModulable c) (Var NumeroDeVariablesDeLaProdHyd pdt pays)
         VARIABLE_BORNEE_DES_DEUX_COTES nm VN_HydProd,
       fiche_si (variation_existe h pdt pays) (Var NumeroDeVariablesVariationHydALaBaisse pdt pays)
         (type_variation h) nm VN_HydProdDown,
       fiche_si (variation_existe h pdt pays) (Var NumeroDeVariablesVariationHydALaHausse pdt pays)
         (type_variation h) nm VN_HydProdUp,
       fiche_si (PresenceDePompageModulable c) (Var NumeroDeVariablesDePompage pdt pays)
         VARIABLE_BORNEE_DES_DEUX_COTES nm VN_Pumping,
       fiche_si (SuiviNiveauHoraire c) (Var NumeroDeVariablesDeNiveau pdt pays)
         VARIABLE_BORNEE_DES_DEUX_COTES nm VN_HydroLevel,
       fiche_si (SuiviNiveauHoraire c) (Var NumeroDeVariablesDeDebordement pdt pays)
         VARIABLE_BORNEE_DES_DEUX_COTES nm VN_Overflow])"

definition fiches_stock :: "PROBLEME_HEBDO \<Rightarrow> nat \<Rightarrow> fiche list" where
  "fiches_stock h pays =
     (let b = AccurateWaterValue (hydro_de h pays);
          nm = namer_variable (weekInTheYear h * 168 + NombreDePasDeTempsPourUneOptimisation h - 1)
                 (NomsDesPays h ! pays) in
      fiche_si b (Stock pays) VARIABLE_NON_BORNEE nm VN_FinalStorage #
      map (\<lambda>l. fiche_si b (Tranche pays l) VARIABLE_BORNEE_DES_DEUX_COTES nm (VN_LayerStorage l))
        [0..<100])"

definition fiches_demarrage :: "PROBLEME_HEBDO \<Rightarrow> nat \<Rightarrow> nat \<Rightarrow> nat \<Rightarrow> fiche list" where
  "fiches_demarrage h pays i pdt =
     (let pt = PaliersThermiquesDuPays h ! pays;
          palier = NumeroDuPalierDansLEnsembleDesPaliersThermiques pt ! i;
          clusterName = NomsDesPaliersThermiques pt ! i;
          nm = namer_variable (heure_annee h pdt) (NomsDesPays h ! pays);
          b = OptimisationAvecVariablesEntieres h in
      [entiere (Var NumeroDeVariableDuNombreDeGroupesEnMarcheDuPalierThermique pdt palier)
         VARIABLE_BORNEE_DES_DEUX_COTES b nm (VN_NODU clusterName),
       entiere (Var NumeroDeVariableDuNombreDeGroupesQuiDemarrentDuPalierThermique pdt palier)
         VARIABLE_BORNEE_INFERIEUREMENT b nm (VN_NumberStartingDispatchableUnits clusterName),
       entiere (Var NumeroDeVariableDuNombreDeGroupesQuiSArretentDuPalierThermique pdt palier)
         VARIABLE_BORNEE_INFERIEUREMENT b nm (VN_NumberStoppingDispatchableUnits clusterName),
       entiere (Var NumeroDeVariableDuNombreDeGroupesQuiTombentEnPanneDuPalierThermique pdt palier)
         VARIABLE_BORNEE_DES_DEUX_COTES b nm (VN_NumberBreakingDownDispatchableUnits clusterName)])"

definition fiches_lineaires :: "PROBLEME_HEBDO \<Rightarrow> fiche list" where
  "fiches_lineaires h =
     concat (map (\<lambda>pdt. concat (map (fiches_interco h pdt) [0..<NombreDInterconnexions h]) @
                        par_pays h (fiches_pays h pdt) @ par_pays h (fiches_hydro h pdt))
       (heures h)) @
     par_pays h (fiches_stock h)"

definition fiches_demarrages :: "PROBLEME_HEBDO \<Rightarrow> fiche list" where
  "fiches_demarrages h = par_palier h (\<lambda>pays i. concat (map (fiches_demarrage h pays i) (heures h)))"

definition liste_variables :: "PROBLEME_HEBDO \<Rightarrow> fiche list" where
  "liste_variables h = fiches_lineaires h @
     (if OptimisationAvecCoutsDeDemarrage h then fiches_demarrages h else [])"

subsection \<open>The code produces the list\<close>

definition liste :: "PROBLEME_HEBDO \<Rightarrow> nat \<Rightarrow> etat \<Rightarrow> (nat \<times> etat \<Rightarrow> (nat \<times> etat) resultat) \<Rightarrow> fiche list \<Rightarrow> bool"
  where
  "liste h nv s0 f fs \<longleftrightarrow> (\<forall>cap. append_store.emits (rep_variables h nv s0) (fiches_ok h nv) cap
     () f fs (length fs) ())"

lemma listeI:
  assumes "\<And>ns L. rep_variables h nv s0 () ns L \<Longrightarrow> fiches_ok h nv (L @ fs) \<Longrightarrow>
    returns (f ns) (\<lambda>ns'. rep_variables h nv s0 () ns' (L @ fs))"
  shows "liste h nv s0 f fs"
  unfolding liste_def by (intro allI variables.emitsI) (use assms in auto)

lemma listeD:
  assumes "liste h nv s0 f fs" and "rep_variables h nv s0 () ns L" and "fiches_ok h nv (L @ fs)"
  shows "returns (f ns) (\<lambda>ns'. rep_variables h nv s0 () ns' (L @ fs))"
  using variables.emitsD [OF assms(1) [unfolded liste_def, rule_format, of "length L + length fs"]
      assms(2,3)] by simp

lemma liste_creer:
  "liste h nv s0 (creer p ty None nm v) [existe p ty nm v]"
  "liste h nv s0 (creer p ty (Some b) nm v) [entiere p ty b nm v]"
  unfolding liste_def existe_def entiere_def creer_pousser
  using variables.emits_push [where h = h and nv = nv and ?s0.0 = s0] by simp_all

lemma liste_absente: "liste h nv s0 (absente p) [inexistante p]"
  unfolding liste_def inexistante_def absente_pousser
  using variables.emits_push [where h = h and nv = nv and ?s0.0 = s0] by simp

lemma liste_Inr: "liste h nv s0 Inr []"
  by (rule listeI) simp

lemma liste_seqE_Nil: "liste h nv s0 (seqE []) []"
  by (rule listeI) simp

lemma liste_seqE_Cons:
  assumes "liste h nv s0 f fs" and "liste h nv s0 (seqE gs) fs'"
  shows "liste h nv s0 (seqE (f # gs)) (fs @ fs')"
  using assms unfolding liste_def length_append by (blast intro: variables.emits_seqE_Cons)

lemma liste_seqE_1: "liste h nv s0 f fs \<Longrightarrow> liste h nv s0 (seqE [f]) fs"
  using liste_seqE_Cons [OF _ liste_seqE_Nil] by simp

lemma liste_forE:
  assumes "\<And>x. x \<in> set xs \<Longrightarrow> liste h nv s0 (f x) (fs x)"
  shows "liste h nv s0 (forE xs f) (concat (map fs xs))"
  using assms
proof (induction xs)
  case Nil
  then show ?case using liste_Inr [of h nv s0] by (simp add: liste_def variables.emits_def)
next
  case (Cons x xs)
  have "liste h nv s0 (seqE [f x, forE xs f]) (fs x @ concat (map fs xs))"
    using Cons by (intro liste_seqE_Cons liste_seqE_1) auto
  moreover have "seqE [f x, forE xs f] = forE (x # xs) f"
  proof
    fix s show "seqE [f x, forE xs f] s = forE (x # xs) f s"
    proof (cases "f x s")
      case (Inr s')
      then show ?thesis by (cases "forE xs f s'") simp_all
    qed simp
  qed
  ultimately have "liste h nv s0 (forE (x # xs) f) (fs x @ concat (map fs xs))" by (simp only:)
  then show ?case by (simp only: list.map concat.simps)
qed

lemma liste_if:
  assumes "b \<Longrightarrow> liste h nv s0 f fs" and "\<not> b \<Longrightarrow> liste h nv s0 g fs'"
  shows "liste h nv s0 (if b then f else g) (if b then fs else fs')"
  using assms by simp

lemma liste_whenE:
  assumes "b \<Longrightarrow> liste h nv s0 f fs"
  shows "liste h nv s0 (whenE b f) (if b then fs else [])"
proof -
  have "whenE b f = (if b then f else Inr)" by (simp add: whenE_def fun_eq_iff)
  then show ?thesis using liste_if [OF assms liste_Inr] by simp
qed

lemma liste_fiche_si:
  "liste h nv s0 (if b then creer p ty None nm v else absente p) [fiche_si b p ty nm v]"
  using liste_creer(1) liste_absente by (simp add: fiche_si_def)

text \<open>Writing -1 first and creating the variable afterwards.\<close>

lemma absente_neutre:
  assumes rep: "rep_variables h nv s0 () ns L" and p: "place_ok h p" "p \<notin> fst ` set L"
    and L: "\<And>f. f \<in> set L \<Longrightarrow> place_ok h (fst f)"
  shows "returns (absente p ns) (\<lambda>ns'. rep_variables h nv s0 () ns' L)"
proof -
  obtain n s where ns: "ns = (n, s)" by (cases ns)
  have d: "dims_variables h nv s" using rep by (simp add: rep_variables_def ns)
  from ecrire_place_ok [OF d p(1), of "- 1"] obtain s1 where s1: "ecrire_place p (- 1) s = Inr s1"
    and d1: "dims_variables h nv s1" and hors1: "hors_variables s1 = hors_variables s"
    and pb: "ProblemeAResoudre s1 = ProblemeAResoudre s"
    and lq: "\<And>q. place_ok h q \<Longrightarrow> q \<noteq> p \<Longrightarrow> lecture s1 q = lecture s q"
    by blast
  have lL: "lecture s1 q = lecture s q" if "q \<in> fst ` set L" for q
    using lq [of q] that L p(2) by fastforce
  have "variable_ok s1 k (creees L ! k)" if "k < n" for k
  proof (rule variable_ok_cong)
    show "variable_ok s k (creees L ! k)" using rep that by (simp add: rep_variables_def ns)
    show "lecture s1 (fst (creees L ! k)) = lecture s (fst (creees L ! k))"
      using rep that by (intro lL creees_place) (simp add: rep_variables_def ns)
  qed (simp_all add: pb)
  moreover have "lecture s1 q = - 1" if "(q, None) \<in> set L" for q
    using rep that lL [of q] by (force simp: rep_variables_def ns)
  ultimately have "rep_variables h nv s0 () (n, s1) L"
    using rep d1 hors1 by (simp add: rep_variables_def ns)
  then show ?thesis by (simp add: absente_def ns s1)
qed

lemma liste_absente_puis:
  assumes f: "liste h nv s0 (seqE fs) gs" and p: "p \<in> fst ` set gs"
  shows "liste h nv s0 (seqE (absente p # fs)) gs"
proof (rule listeI)
  fix ns L
  assume rep: "rep_variables h nv s0 () ns L" and adm: "fiches_ok h nv (L @ gs)"
  have "place_ok h p" "p \<notin> fst ` set L" "\<And>f. f \<in> set L \<Longrightarrow> place_ok h (fst f)"
    using adm p by (auto simp: fiches_ok_def)
  then have "returns (absente p ns) (\<lambda>ns'. rep_variables h nv s0 () ns' L)"
    by (rule absente_neutre [OF rep])
  then show "returns (seqE (absente p # fs) ns) (\<lambda>ns'. rep_variables h nv s0 () ns' (L @ gs))"
    unfolding returns_seqE_Cons by (rule returns_mono) (rule listeD [OF f _ adm])
qed

lemma liste_lire:
  assumes "i < length xs" and "liste h nv s0 (f (xs ! i)) fs"
  shows "liste h nv s0 (\<lambda>ns. bindE (lire xs i) (\<lambda>x. f x ns)) fs"
  using assms by simp

lemma variables_interco_ok:
  assumes [simp]: "hebdo_ok h" "l < NombreDInterconnexions h"
  shows "liste h nv s0 (variables_interco h pdt l) (fiches_interco h pdt l)"
  unfolding variables_interco_def [abs_def] Let_def fiches_interco_def
  by (intro liste_lire liste_seqE_Cons liste_seqE_1 liste_whenE liste_creer
      liste_seqE_Cons [where fs = "[x]" and fs' = "[y]" for x y, simplified]) simp_all

lemma variables_palier_ok:
  assumes [simp]: "hebdo_ok h" "pays < NombreDePays h" "i < nb_paliers h pays"
  shows "liste h nv s0 (variables_palier h pdt (namer_variable (heure_annee h pdt) (NomsDesPays h ! pays))
    (PaliersThermiquesDuPays h ! pays) i) [fiche_palier h pdt pays i]"
  unfolding variables_palier_def [abs_def] fiche_palier_def Let_def
  by (intro liste_lire liste_creer) simp_all

lemma liste_2:
  "liste h nv s0 f [x] \<Longrightarrow> liste h nv s0 g [y] \<Longrightarrow> liste h nv s0 (seqE [f, g]) [x, y]"
  using liste_seqE_Cons [OF _ liste_seqE_1] by fastforce

lemma liste_Cons:
  "liste h nv s0 f [x] \<Longrightarrow> liste h nv s0 (seqE fs) xs \<Longrightarrow> liste h nv s0 (seqE (f # fs)) (x # xs)"
  using liste_seqE_Cons by fastforce

lemma variables_stockage_ok:
  "liste h nv s0 (variables_stockage pdt (namer_variable (heure_annee h pdt) (NomsDesPays h ! pays)) st)
    (fiches_stockage h pdt pays st)"
  unfolding variables_stockage_def fiches_stockage_def Let_def
  by (intro liste_Cons liste_seqE_Nil liste_creer)

lemma variables_pays_ok:
  assumes [simp]: "hebdo_ok h" "pays < NombreDePays h"
  shows "liste h nv s0 (variables_pays h pdt pays) (fiches_pays h pdt pays)"
proof -
  have paliers: "liste h nv s0 (forE [0..<nb_paliers h pays] (variables_palier h pdt
        (namer_variable (heure_annee h pdt) (NomsDesPays h ! pays)) (PaliersThermiquesDuPays h ! pays)))
      (map (fiche_palier h pdt pays) [0..<nb_paliers h pays])"
    using liste_forE [of "[0..<nb_paliers h pays]" h nv s0 _ "\<lambda>i. [fiche_palier h pdt pays i]"]
      variables_palier_ok by (simp add: concat_map_singleton)
  show ?thesis
    unfolding variables_pays_def [abs_def] Let_def fiches_pays_def
    by (intro liste_lire liste_seqE_Cons [OF paliers] liste_seqE_Cons [OF liste_forE]
        variables_stockage_ok liste_Cons liste_seqE_Nil liste_creer) simp_all
qed

lemma variations_ok:
  fixes baisse hausse :: place
  defines "corps \<equiv> (\<lambda>h pdt c nm. if TypeDeLissageHydraulique h = LISSAGE_HYDRAULIQUE_SUR_SOMME_DES_VARIATIONS
       then if PresenceDHydrauliqueModulable c
            then seqE
              [creer baisse VARIABLE_BORNEE_INFERIEUREMENT None nm VN_HydProdDown,
               creer hausse VARIABLE_BORNEE_INFERIEUREMENT None nm VN_HydProdUp]
            else Inr
       else if TypeDeLissageHydraulique h = LISSAGE_HYDRAULIQUE_SUR_VARIATION_MAX \<and>
               PresenceDHydrauliqueModulable c \<and> pdt = (0::nat)
       then seqE
              [creer baisse VARIABLE_BORNEE_DES_DEUX_COTES None nm VN_HydProdDown,
               creer hausse VARIABLE_BORNEE_DES_DEUX_COTES None nm VN_HydProdUp]
       else Inr)"
  assumes reste: "liste h nv s0 (seqE gs) fs"
  shows "liste h nv s0 (seqE (absente baisse # absente hausse # corps h pdt (hydro_de h pays) nm # gs))
    (fiche_si (variation_existe h pdt pays) baisse (type_variation h) nm VN_HydProdDown #
     fiche_si (variation_existe h pdt pays) hausse (type_variation h) nm VN_HydProdUp # fs)"
proof (cases "variation_existe h pdt pays")
  case True
  then have "corps h pdt (hydro_de h pays) nm = seqE
     [creer baisse (type_variation h) None nm VN_HydProdDown,
      creer hausse (type_variation h) None nm VN_HydProdUp]"
    by (auto simp: corps_def variation_existe_def type_variation_def)
  moreover have "liste h nv s0 (seqE (absente baisse # absente hausse # seqE
     [creer baisse (type_variation h) None nm VN_HydProdDown,
      creer hausse (type_variation h) None nm VN_HydProdUp] # gs))
    ([existe baisse (type_variation h) nm VN_HydProdDown, existe hausse (type_variation h) nm VN_HydProdUp]
     @ fs)"
    by (intro liste_absente_puis liste_seqE_Cons liste_2 liste_creer reste) (simp_all add: existe_def)
  ultimately show ?thesis using True by (simp add: fiche_si_def)
next
  case False
  then have "corps h pdt (hydro_de h pays) nm = Inr"
    by (auto simp: corps_def variation_existe_def)
  with False show ?thesis
    using liste_Cons [OF liste_absente liste_Cons [OF liste_absente liste_seqE_Cons [OF liste_Inr reste]]]
    by (simp add: fiche_si_def)
qed

lemma variables_hydro_ok:
  assumes [simp]: "hebdo_ok h" "pays < NombreDePays h"
  shows "liste h nv s0 (variables_hydro h pdt pays) (fiches_hydro h pdt pays)"
  unfolding variables_hydro_def [abs_def] Let_def fiches_hydro_def
proof (intro liste_lire liste_Cons [OF liste_fiche_si] variations_ok)
  let ?c = "hydro_de h pays" and ?nm = "namer_variable (heure_annee h pdt) (NomsDesPays h ! pays)"
  show "liste h nv s0 (seqE [if SuiviNiveauHoraire ?c
       then seqE
         [creer (Var NumeroDeVariablesDeNiveau pdt pays) VARIABLE_BORNEE_DES_DEUX_COTES None ?nm
            VN_HydroLevel,
          creer (Var NumeroDeVariablesDeDebordement pdt pays) VARIABLE_BORNEE_DES_DEUX_COTES None ?nm
            VN_Overflow]
       else seqE
         [absente (Var NumeroDeVariablesDeNiveau pdt pays),
          absente (Var NumeroDeVariablesDeDebordement pdt pays)]])
     [fiche_si (SuiviNiveauHoraire ?c) (Var NumeroDeVariablesDeNiveau pdt pays)
         VARIABLE_BORNEE_DES_DEUX_COTES ?nm VN_HydroLevel,
       fiche_si (SuiviNiveauHoraire ?c) (Var NumeroDeVariablesDeDebordement pdt pays)
         VARIABLE_BORNEE_DES_DEUX_COTES ?nm VN_Overflow]"
    using liste_seqE_1 [OF liste_2 [OF liste_creer(1) liste_creer(1)]]
      liste_seqE_1 [OF liste_2 [OF liste_absente liste_absente]]
    by (simp add: fiche_si_def)
qed simp_all

lemma variables_stock_ok:
  assumes [simp]: "hebdo_ok h" "pays < NombreDePays h"
  shows "liste h nv s0 (variables_stock h pays) (fiches_stock h pays)"
  unfolding variables_stock_def [abs_def] Let_def
proof (intro liste_lire)
  let ?b = "AccurateWaterValue (hydro_de h pays)"
  let ?nm = "namer_variable (weekInTheYear h * 168 + NombreDePasDeTempsPourUneOptimisation h - 1)
    (NomsDesPays h ! pays)"
  have "liste h nv s0 (seqE [creer (Stock pays) VARIABLE_NON_BORNEE None ?nm VN_FinalStorage,
         forE [0..<100] (\<lambda>nblayer. creer (Tranche pays nblayer) VARIABLE_BORNEE_DES_DEUX_COTES None ?nm
           (VN_LayerStorage nblayer))])
     (existe (Stock pays) VARIABLE_NON_BORNEE ?nm VN_FinalStorage #
      concat (map (\<lambda>l. [existe (Tranche pays l) VARIABLE_BORNEE_DES_DEUX_COTES ?nm (VN_LayerStorage l)])
        [0..<100]))"
    by (intro liste_Cons liste_seqE_1 liste_forE liste_creer)
  moreover have "liste h nv s0 (seqE [absente (Stock pays),
         forE [0..<100] (\<lambda>nblayer. absente (Tranche pays nblayer))])
     (inexistante (Stock pays) # concat (map (\<lambda>l. [inexistante (Tranche pays l)]) [0..<100]))"
    by (intro liste_Cons liste_seqE_1 liste_forE liste_absente)
  ultimately show "liste h nv s0 (if ?b
      then seqE
        [creer (Stock pays) VARIABLE_NON_BORNEE None ?nm VN_FinalStorage,
         forE [0..<100] (\<lambda>nblayer. creer (Tranche pays nblayer) VARIABLE_BORNEE_DES_DEUX_COTES None ?nm
           (VN_LayerStorage nblayer))]
      else seqE
        [absente (Stock pays),
         forE [0..<100] (\<lambda>nblayer. absente (Tranche pays nblayer))]) (fiches_stock h pays)"
    by (simp add: fiches_stock_def Let_def fiche_si_def concat_map_singleton del: upt_rec_numeral)
qed simp_all

lemma variables_lineaires_ok:
  assumes [simp]: "hebdo_ok h"
  shows "liste h nv s0 (variables_lineaires h) (fiches_lineaires h)"
  unfolding variables_lineaires_def fiches_lineaires_def par_pays_def
  by (intro liste_seqE_Cons liste_seqE_1 liste_forE variables_interco_ok variables_pays_ok
      variables_hydro_ok variables_stock_ok) simp_all

lemma variables_demarrage_ok:
  assumes [simp]: "hebdo_ok h" "pays < NombreDePays h"
  shows "liste h nv s0 (variables_demarrage_pays h False pays)
    (concat (map (\<lambda>i. concat (map (fiches_demarrage h pays i) (heures h))) [0..<nb_paliers h pays]))"
proof -
  have "liste h nv s0 (variables_demarrage h False nm clusterName palier pdt)
     [entiere (Var NumeroDeVariableDuNombreDeGroupesEnMarcheDuPalierThermique pdt palier)
         VARIABLE_BORNEE_DES_DEUX_COTES (OptimisationAvecVariablesEntieres h) nm (VN_NODU clusterName),
       entiere (Var NumeroDeVariableDuNombreDeGroupesQuiDemarrentDuPalierThermique pdt palier)
         VARIABLE_BORNEE_INFERIEUREMENT (OptimisationAvecVariablesEntieres h) nm
         (VN_NumberStartingDispatchableUnits clusterName),
       entiere (Var NumeroDeVariableDuNombreDeGroupesQuiSArretentDuPalierThermique pdt palier)
         VARIABLE_BORNEE_INFERIEUREMENT (OptimisationAvecVariablesEntieres h) nm
         (VN_NumberStoppingDispatchableUnits clusterName),
       entiere (Var NumeroDeVariableDuNombreDeGroupesQuiTombentEnPanneDuPalierThermique pdt palier)
         VARIABLE_BORNEE_DES_DEUX_COTES (OptimisationAvecVariablesEntieres h) nm
         (VN_NumberBreakingDownDispatchableUnits clusterName)]" for nm clusterName palier pdt
    unfolding variables_demarrage_def [abs_def] Let_def if_False
    by (intro liste_Cons liste_seqE_Nil liste_creer)
  note quatre = this [of "namer_variable (heure_annee h pdt) (NomsDesPays h ! pays)" for pdt]
  show ?thesis
    unfolding variables_demarrage_pays_def [abs_def] pour_paliers_du_pays_def [abs_def]
      fiches_demarrage_def Let_def
    by (intro liste_lire liste_forE quatre) simp_all
qed

text \<open>The whole function: the counter ends in the problem, and nothing but the variables changed.\<close>

lemma rep_variables_compteur:
  "rep_variables h nv s0 () (n, s\<lparr>ProblemeAResoudre := (ProblemeAResoudre s)\<lparr>NombreDeVariables := m\<rparr>\<rparr>) fs
     = rep_variables h nv s0 () (n, s) fs"
proof -
  let ?s = "s\<lparr>ProblemeAResoudre := (ProblemeAResoudre s)\<lparr>NombreDeVariables := m\<rparr>\<rparr>"
  have "variable_ok ?s k f = variable_ok s k f" for k f
    by (cases f) (simp add: variable_ok_def)
  then show ?thesis
    by (simp add: rep_variables_def dims_variables_def hors_variables_def)
qed

lemma OPT_ConstruireListeCoutsDeDemarrage_ok:
  assumes h: "hebdo_ok h"
    and rep: "rep_variables h nv s0 () (NombreDeVariables (ProblemeAResoudre s), s) L"
    and adm: "fiches_ok h nv (L @ fiches_demarrages h)"
  shows "returns
    (OPT_ConstruireLaListeDesVariablesOptimiseesDuProblemeLineaireCoutsDeDemarrage h False s)
    (\<lambda>s'. rep_variables h nv s0 () (NombreDeVariables (ProblemeAResoudre s'), s')
       (L @ fiches_demarrages h))"
proof -
  have "liste h nv s0 (forE [0..<NombreDePays h] (variables_demarrage_pays h False))
      (fiches_demarrages h)"
    unfolding fiches_demarrages_def par_palier_def
    by (intro liste_forE variables_demarrage_ok h) simp
  from listeD [OF this rep adm] show ?thesis
    unfolding OPT_ConstruireLaListeDesVariablesOptimiseesDuProblemeLineaireCoutsDeDemarrage_def
      avec_compteur_def returns_bindE
    by (rule returns_mono) (auto simp: rep_variables_compteur)
qed

lemma OPT_ConstruireListe_ok:
  assumes h: "hebdo_ok h" and d: "dims_variables h nv s" and adm: "fiches_ok h nv (liste_variables h)"
  shows "returns (OPT_ConstruireLaListeDesVariablesOptimiseesDuProblemeLineaire h s)
    (\<lambda>s'. rep_variables h nv s () (NombreDeVariables (ProblemeAResoudre s'), s') (liste_variables h))"
proof -
  let ?D = "OptimisationAvecCoutsDeDemarrage h"
  have adm1: "fiches_ok h nv (fiches_lineaires h)"
    using adm by (auto simp: liste_variables_def fiches_ok_def)
  have "rep_variables h nv s () (0, s) []"
    using d by (simp add: rep_variables_def)
  from listeD [OF variables_lineaires_ok [OF h] this] adm1
  have "returns (variables_lineaires h (0, s)) (\<lambda>ns. rep_variables h nv s () ns (fiches_lineaires h))"
    by simp
  then show ?thesis
    unfolding OPT_ConstruireLaListeDesVariablesOptimiseesDuProblemeLineaire_def returns_bindE
  proof (rule returns_mono)
    fix ns assume ns: "rep_variables h nv s () ns (fiches_lineaires h)"
    obtain n s1 where n: "ns = (n, s1)" by (cases ns)
    let ?s1 = "s1\<lparr>ProblemeAResoudre := (ProblemeAResoudre s1)\<lparr>NombreDeVariables := n\<rparr>\<rparr>"
    have rep: "rep_variables h nv s () (NombreDeVariables (ProblemeAResoudre ?s1), ?s1)
        (fiches_lineaires h)"
      using ns by (simp add: n rep_variables_compteur)
    show "returns (case ns of (n, s) \<Rightarrow> whenE ?D
        (OPT_ConstruireLaListeDesVariablesOptimiseesDuProblemeLineaireCoutsDeDemarrage h False)
        (s\<lparr>ProblemeAResoudre := (ProblemeAResoudre s)\<lparr>NombreDeVariables := n\<rparr>\<rparr>))
      (\<lambda>s'. rep_variables h nv s () (NombreDeVariables (ProblemeAResoudre s'), s') (liste_variables h))"
    proof (cases ?D)
      case True
      then show ?thesis
        using OPT_ConstruireListeCoutsDeDemarrage_ok [OF h rep] adm
        by (simp add: n whenE_def liste_variables_def)
    next
      case False
      then show ?thesis
        using rep by (simp add: n whenE_def liste_variables_def)
    qed
  qed
qed

end
