(* ===== verification/Variables_Numbering.thy ===== *)
theory Variables_Numbering
  imports Variables_Construction
begin

text \<open>
  The numbering is one to one: no place occurs twice in \<open>liste_variables\<close>, so that the construction
  of the variables always succeeds when there is room, and every number is used exactly once.
\<close>

subsection \<open>No place is used twice\<close>

text \<open>Every thermal cluster and every short-term storage has a number of its own.\<close>

definition numeros_distincts :: "PROBLEME_HEBDO \<Rightarrow> bool" where
  "numeros_distincts h \<longleftrightarrow>
     distinct (concat (map (\<lambda>pays. map (\<lambda>i. NumeroDuPalierDansLEnsembleDesPaliersThermiques
         (PaliersThermiquesDuPays h ! pays) ! i) [0..<nb_paliers h pays]) [0..<NombreDePays h])) \<and>
     distinct (concat (map (\<lambda>pays. map clusterGlobalIndex (ShortTermStorage h ! pays))
       [0..<NombreDePays h]))"

definition places_de :: "fiche list \<Rightarrow> place list" where
  "places_de = map fst"

lemma places_de_simps [simp]:
  "places_de [] = []" "places_de (f # fs) = fst f # places_de fs"
  "places_de (fs @ gs) = places_de fs @ places_de gs"
  "places_de (concat (map g xs)) = concat (map (\<lambda>x. places_de (g x)) xs)"
  "places_de (map k xs) = map (\<lambda>x. fst (k x)) xs"
  by (simp_all add: places_de_def map_concat comp_def)

lemma fst_fiche [simp]:
  "fst (existe p ty nm v) = p" "fst (entiere p ty b nm v) = p" "fst (inexistante p) = p"
  "fst (fiche_si b p ty nm v) = p"
  by (simp_all add: existe_def entiere_def inexistante_def fiche_si_def)

lemma places_interco:
  "distinct (places_de (fiches_interco h pdt l))"
  "p \<in> set (places_de (fiches_interco h pdt l)) \<Longrightarrow> \<exists>c \<in>
     {NumeroDeVariableDeLInterconnexion, NumeroDeVariableCoutOrigineVersExtremiteDeLInterconnexion,
      NumeroDeVariableCoutExtremiteVersOrigineDeLInterconnexion}. p = Var c pdt l"
  by (auto simp: fiches_interco_def Let_def split: if_splits)

lemma places_stockage:
  "distinct (places_de (fiches_stockage h pdt pays st))"
  "p \<in> set (places_de (fiches_stockage h pdt pays st)) \<Longrightarrow>
     \<exists>c \<in> {InjectionVariable, WithdrawalVariable, LevelVariable}. p = Var c pdt (clusterGlobalIndex st)"
  by (auto simp: fiches_stockage_def Let_def)

lemma places_hydro:
  "distinct (places_de (fiches_hydro h pdt pays))"
  "p \<in> set (places_de (fiches_hydro h pdt pays)) \<Longrightarrow> \<exists>c \<in>
     {NumeroDeVariablesDeLaProdHyd, NumeroDeVariablesVariationHydALaBaisse,
      NumeroDeVariablesVariationHydALaHausse, NumeroDeVariablesDePompage, NumeroDeVariablesDeNiveau,
      NumeroDeVariablesDeDebordement}. p = Var c pdt pays"
  by (auto simp: fiches_hydro_def Let_def)

lemma places_stock:
  "distinct (places_de (fiches_stock h pays))"
  "p \<in> set (places_de (fiches_stock h pays)) \<Longrightarrow> p = Stock pays \<or> (\<exists>l < 100. p = Tranche pays l)"
  by (auto simp: fiches_stock_def Let_def distinct_map inj_on_def simp del: upt_rec_numeral)

abbreviation numero_palier :: "PROBLEME_HEBDO \<Rightarrow> nat \<Rightarrow> nat \<Rightarrow> nat" where
  "numero_palier h pays i \<equiv>
     NumeroDuPalierDansLEnsembleDesPaliersThermiques (PaliersThermiquesDuPays h ! pays) ! i"

lemma places_demarrage:
  "distinct (places_de (fiches_demarrage h pays i pdt))"
  "p \<in> set (places_de (fiches_demarrage h pays i pdt)) \<Longrightarrow> \<exists>c \<in>
     {NumeroDeVariableDuNombreDeGroupesEnMarcheDuPalierThermique,
      NumeroDeVariableDuNombreDeGroupesQuiDemarrentDuPalierThermique,
      NumeroDeVariableDuNombreDeGroupesQuiSArretentDuPalierThermique,
      NumeroDeVariableDuNombreDeGroupesQuiTombentEnPanneDuPalierThermique}.
     p = Var c pdt (numero_palier h pays i)"
  by (auto simp: fiches_demarrage_def Let_def)

lemma paliers_distincts:
  assumes "numeros_distincts h" and "pays < NombreDePays h" and "i < nb_paliers h pays"
    and "pays' < NombreDePays h" and "i' < nb_paliers h pays'"
    and "numero_palier h pays i = numero_palier h pays' i'"
  shows "pays = pays' \<and> i = i'"
proof (cases "pays = pays'")
  case True
  have "distinct (map (numero_palier h pays) [0..<nb_paliers h pays])"
    using assms(1,2) unfolding numeros_distincts_def
    by - (rule distinct_concat_map_elem [where xs = "[0..<NombreDePays h]" and x = pays], simp_all)
  then have "inj_on (numero_palier h pays) {0..<nb_paliers h pays}"
    by (simp add: distinct_map)
  then show ?thesis
    using assms(3,5,6) True by (auto dest: inj_onD)
next
  case False
  have "set (map (numero_palier h pays) [0..<nb_paliers h pays]) \<inter>
      set (map (numero_palier h pays') [0..<nb_paliers h pays']) = {}"
    using assms(1,2,4) False unfolding numeros_distincts_def
    by - (rule distinct_concat_map_disjoint [where xs = "[0..<NombreDePays h]" and x = pays
      and y = pays'], simp_all)
  moreover have "numero_palier h pays i \<in> set (map (numero_palier h pays) [0..<nb_paliers h pays])"
    using assms(3) by simp
  moreover have "numero_palier h pays i \<in> set (map (numero_palier h pays') [0..<nb_paliers h pays'])"
    unfolding assms(6) using assms(5) by simp
  ultimately show ?thesis by blast
qed

lemma stockages_distincts:
  assumes "numeros_distincts h" and "pays < NombreDePays h"
  shows "distinct (map clusterGlobalIndex (ShortTermStorage h ! pays))"
    "pays' < NombreDePays h \<Longrightarrow> pays \<noteq> pays' \<Longrightarrow> st \<in> set (ShortTermStorage h ! pays) \<Longrightarrow>
     st' \<in> set (ShortTermStorage h ! pays') \<Longrightarrow> clusterGlobalIndex st \<noteq> clusterGlobalIndex st'"
proof -
  show "distinct (map clusterGlobalIndex (ShortTermStorage h ! pays))"
    using assms unfolding numeros_distincts_def
    by - (rule distinct_concat_map_elem [where xs = "[0..<NombreDePays h]" and x = pays], simp_all)
  assume p': "pays' < NombreDePays h" "pays \<noteq> pays'"
    and st: "st \<in> set (ShortTermStorage h ! pays)" "st' \<in> set (ShortTermStorage h ! pays')"
  have "set (map clusterGlobalIndex (ShortTermStorage h ! pays)) \<inter>
      set (map clusterGlobalIndex (ShortTermStorage h ! pays')) = {}"
    using assms p' unfolding numeros_distincts_def
    by - (rule distinct_concat_map_disjoint [where xs = "[0..<NombreDePays h]" and x = pays
      and y = pays'], simp_all)
  with st show "clusterGlobalIndex st \<noteq> clusterGlobalIndex st'" by auto
qed

definition champs_pays :: "champ_var set" where
  "champs_pays = {NumeroDeVariableDuPalierThermique, InjectionVariable, WithdrawalVariable,
     LevelVariable, NumeroDeVariableDefaillancePositive, NumeroDeVariableDefaillanceNegative}"

lemma places_pays:
  assumes "numeros_distincts h" and "pays < NombreDePays h"
  shows "distinct (places_de (fiches_pays h pdt pays))"
    and "p \<in> set (places_de (fiches_pays h pdt pays)) \<Longrightarrow>
      (\<exists>i < nb_paliers h pays. p = Var NumeroDeVariableDuPalierThermique pdt (numero_palier h pays i)) \<or>
      (\<exists>st \<in> set (ShortTermStorage h ! pays). \<exists>c \<in> {InjectionVariable, WithdrawalVariable, LevelVariable}.
         p = Var c pdt (clusterGlobalIndex st)) \<or>
      p = Var NumeroDeVariableDefaillancePositive pdt pays \<or>
      p = Var NumeroDeVariableDefaillanceNegative pdt pays"
proof -
  let ?P = "map (\<lambda>i. fst (fiche_palier h pdt pays i)) [0..<nb_paliers h pays]"
  let ?S = "concat (map (\<lambda>st. places_de (fiches_stockage h pdt pays st)) (ShortTermStorage h ! pays))"
  have P: "p \<in> set ?P \<Longrightarrow> \<exists>i < nb_paliers h pays.
      p = Var NumeroDeVariableDuPalierThermique pdt (numero_palier h pays i)" for p
    by (auto simp: fiche_palier_def Let_def)
  have S: "p \<in> set ?S \<Longrightarrow> \<exists>st \<in> set (ShortTermStorage h ! pays).
      \<exists>c \<in> {InjectionVariable, WithdrawalVariable, LevelVariable}. p = Var c pdt (clusterGlobalIndex st)"
    for p by (auto dest!: places_stockage(2))
  have "distinct ?P"
    using paliers_distincts [OF assms(1,2) _ assms(2)]
    by (auto simp: distinct_map inj_on_def fiche_palier_def Let_def)
  moreover have "distinct ?S"
  proof (rule distinct_concat_mapI)
    have d: "distinct (map clusterGlobalIndex (ShortTermStorage h ! pays))"
      by (rule stockages_distincts [OF assms])
    then show "distinct (ShortTermStorage h ! pays)" by (simp add: distinct_map)
    fix x y assume "x \<in> set (ShortTermStorage h ! pays)" "y \<in> set (ShortTermStorage h ! pays)" "x \<noteq> y"
    then have "clusterGlobalIndex x \<noteq> clusterGlobalIndex y"
      using d by (auto simp: distinct_map dest: inj_onD)
    then show "set (places_de (fiches_stockage h pdt pays x)) \<inter>
        set (places_de (fiches_stockage h pdt pays y)) = {}"
      by (fastforce dest!: places_stockage(2))
  qed (rule places_stockage)
  moreover have "set ?P \<inter> set ?S = {}"
    by (fastforce dest: P S)
  moreover have "Var c pdt pays \<notin> set ?P" "Var c pdt pays \<notin> set ?S"
    if "c \<in> {NumeroDeVariableDefaillancePositive, NumeroDeVariableDefaillanceNegative}" for c
    using that P [of "Var c pdt pays"] S [of "Var c pdt pays"] by auto
  ultimately show "distinct (places_de (fiches_pays h pdt pays))"
    by (simp add: fiches_pays_def Let_def)
  show "p \<in> set (places_de (fiches_pays h pdt pays)) \<Longrightarrow>
      (\<exists>i < nb_paliers h pays. p = Var NumeroDeVariableDuPalierThermique pdt (numero_palier h pays i)) \<or>
      (\<exists>st \<in> set (ShortTermStorage h ! pays). \<exists>c \<in> {InjectionVariable, WithdrawalVariable, LevelVariable}.
         p = Var c pdt (clusterGlobalIndex st)) \<or>
      p = Var NumeroDeVariableDefaillancePositive pdt pays \<or>
      p = Var NumeroDeVariableDefaillanceNegative pdt pays"
    using P [of p] S [of p] by (auto simp: fiches_pays_def Let_def)
qed

lemma places_pays_disjointes:
  assumes "numeros_distincts h" and "pays < NombreDePays h" and "pays' < NombreDePays h"
    and "pays \<noteq> pays'"
  shows "set (places_de (fiches_pays h pdt pays)) \<inter> set (places_de (fiches_pays h pdt pays')) = {}"
proof (rule equals0I)
  fix p
  assume p: "p \<in> set (places_de (fiches_pays h pdt pays)) \<inter> set (places_de (fiches_pays h pdt pays'))"
  have num: "numero_palier h pays i \<noteq> numero_palier h pays' i'"
    if "i < nb_paliers h pays" "i' < nb_paliers h pays'" for i i'
    using paliers_distincts [OF assms(1,2) that(1) assms(3) that(2)] assms(4) by blast
  note st = stockages_distincts(2) [OF assms(1,2,3,4)]
  from p have "p \<in> set (places_de (fiches_pays h pdt pays))" "p \<in> set (places_de (fiches_pays h pdt pays'))"
    by simp_all
  from places_pays(2) [OF assms(1,2) this(1)] places_pays(2) [OF assms(1,3) this(2)] show False
    using assms(4) by (elim disjE) (auto dest: num st)
qed

text \<open>The places of one hour.\<close>

definition fiches_heure :: "PROBLEME_HEBDO \<Rightarrow> nat \<Rightarrow> fiche list" where
  "fiches_heure h pdt = concat (map (fiches_interco h pdt) [0..<NombreDInterconnexions h]) @
     par_pays h (fiches_pays h pdt) @ par_pays h (fiches_hydro h pdt)"

definition champs_interco :: "champ_var set" where
  "champs_interco =
     {NumeroDeVariableDeLInterconnexion, NumeroDeVariableCoutOrigineVersExtremiteDeLInterconnexion,
      NumeroDeVariableCoutExtremiteVersOrigineDeLInterconnexion}"

definition champs_hydro :: "champ_var set" where
  "champs_hydro =
     {NumeroDeVariablesDeLaProdHyd, NumeroDeVariablesVariationHydALaBaisse,
      NumeroDeVariablesVariationHydALaHausse, NumeroDeVariablesDePompage, NumeroDeVariablesDeNiveau,
      NumeroDeVariablesDeDebordement}"

definition champs_demarrage :: "champ_var set" where
  "champs_demarrage =
     {NumeroDeVariableDuNombreDeGroupesEnMarcheDuPalierThermique,
      NumeroDeVariableDuNombreDeGroupesQuiDemarrentDuPalierThermique,
      NumeroDeVariableDuNombreDeGroupesQuiSArretentDuPalierThermique,
      NumeroDeVariableDuNombreDeGroupesQuiTombentEnPanneDuPalierThermique}"

lemma champs_disjoints:
  "champs_interco \<inter> champs_pays = {}" "champs_interco \<inter> champs_hydro = {}"
  "champs_pays \<inter> champs_hydro = {}" "champs_demarrage \<inter> champs_interco = {}"
  "champs_demarrage \<inter> champs_pays = {}" "champs_demarrage \<inter> champs_hydro = {}"
  by (auto simp: champs_interco_def champs_pays_def champs_hydro_def champs_demarrage_def)

lemma places_interco_champ:
  "p \<in> set (places_de (concat (map (fiches_interco h pdt) ls))) \<Longrightarrow>
     \<exists>c \<in> champs_interco. \<exists>i. p = Var c pdt i"
  by (auto simp: champs_interco_def dest!: places_interco(2))

lemma places_pays_champ:
  assumes "numeros_distincts h"
  shows "p \<in> set (places_de (par_pays h (fiches_pays h pdt))) \<Longrightarrow> \<exists>c \<in> champs_pays. \<exists>i. p = Var c pdt i"
  by (auto simp: par_pays_def champs_pays_def dest!: places_pays(2) [OF assms])

lemma places_hydro_champ:
  "p \<in> set (places_de (par_pays h (fiches_hydro h pdt))) \<Longrightarrow> \<exists>c \<in> champs_hydro. \<exists>i. p = Var c pdt i"
  by (auto simp: par_pays_def champs_hydro_def dest!: places_hydro(2))

lemma places_heure:
  assumes "numeros_distincts h"
  shows "distinct (places_de (fiches_heure h pdt))"
    and "p \<in> set (places_de (fiches_heure h pdt)) \<Longrightarrow>
      \<exists>c \<in> champs_interco \<union> champs_pays \<union> champs_hydro. \<exists>i. p = Var c pdt i"
proof -
  let ?A = "places_de (concat (map (fiches_interco h pdt) [0..<NombreDInterconnexions h]))"
  let ?B = "places_de (par_pays h (fiches_pays h pdt))"
  let ?C = "places_de (par_pays h (fiches_hydro h pdt))"
  have "distinct ?A"
    unfolding places_de_simps
    by (rule distinct_concat_mapI) (auto intro: places_interco(1) dest!: places_interco(2))
  moreover have "distinct ?B"
    unfolding par_pays_def places_de_simps
    by (rule distinct_concat_mapI)
      (simp_all add: places_pays(1) [OF assms] places_pays_disjointes [OF assms])
  moreover have "distinct ?C"
    unfolding par_pays_def places_de_simps
    by (rule distinct_concat_mapI) (auto intro: places_hydro(1) dest!: places_hydro(2))
  moreover have "set ?A \<inter> set ?B = {}" "set ?A \<inter> set ?C = {}" "set ?B \<inter> set ?C = {}"
  proof -
    have "False" if "p \<in> set ?A" "p \<in> set ?B" for p
      using places_interco_champ [OF that(1)] places_pays_champ [OF assms that(2)] champs_disjoints(1)
      by auto
    moreover have "False" if "p \<in> set ?A" "p \<in> set ?C" for p
      using places_interco_champ [OF that(1)] places_hydro_champ [OF that(2)] champs_disjoints(2)
      by auto
    moreover have "False" if "p \<in> set ?B" "p \<in> set ?C" for p
      using places_pays_champ [OF assms that(1)] places_hydro_champ [OF that(2)] champs_disjoints(3)
      by auto
    ultimately show "set ?A \<inter> set ?B = {}" "set ?A \<inter> set ?C = {}" "set ?B \<inter> set ?C = {}"
      by blast+
  qed
  moreover have "places_de (fiches_heure h pdt) = ?A @ ?B @ ?C"
    by (simp add: fiches_heure_def)
  ultimately show "distinct (places_de (fiches_heure h pdt))"
    by (simp only: distinct_append set_append Int_Un_distrib) simp
  assume "p \<in> set (places_de (fiches_heure h pdt))"
  then have "p \<in> set ?A \<or> p \<in> set ?B \<or> p \<in> set ?C" by (simp add: fiches_heure_def)
  then show "\<exists>c \<in> champs_interco \<union> champs_pays \<union> champs_hydro. \<exists>i. p = Var c pdt i"
    using places_interco_champ places_pays_champ [OF assms] places_hydro_champ by blast
qed

lemma fiches_lineaires_heures:
  "fiches_lineaires h = concat (map (fiches_heure h) (heures h)) @ par_pays h (fiches_stock h)"
  by (simp add: fiches_lineaires_def fiches_heure_def [abs_def])

lemma distinct_heures [simp]: "distinct (heures h)"
  by (simp add: heures_def)

lemma places_demarrage_champ:
  "p \<in> set (places_de (fiches_demarrages h)) \<Longrightarrow> \<exists>c \<in> champs_demarrage. \<exists>pdt i. p = Var c pdt i"
  by (auto simp: fiches_demarrages_def par_palier_def champs_demarrage_def dest!: places_demarrage(2))

lemma places_demarrages:
  assumes "numeros_distincts h"
  shows "distinct (places_de (fiches_demarrages h))"
proof -
  let ?F = "\<lambda>pays i. concat (map (\<lambda>pdt. places_de (fiches_demarrage h pays i pdt)) (heures h))"
  have F: "\<exists>c pdt. p = Var c pdt (numero_palier h pays i)" if "p \<in> set (?F pays i)" for p pays i
    using that by (auto dest!: places_demarrage(2))
  have dF: "distinct (?F pays i)" for pays i
    by (rule distinct_concat_mapI) (auto intro: places_demarrage(1) dest!: places_demarrage(2))
  have palier: "distinct (concat (map (?F pays) [0..<nb_paliers h pays]))"
    if "pays < NombreDePays h" for pays
  proof (rule distinct_concat_mapI)
    fix i j assume ij: "i \<in> set [0..<nb_paliers h pays]" "j \<in> set [0..<nb_paliers h pays]" "i \<noteq> j"
    then have "numero_palier h pays i \<noteq> numero_palier h pays j"
      using paliers_distincts [OF assms that _ that] by auto
    then show "set (?F pays i) \<inter> set (?F pays j) = {}"
      using F [of _ pays i] F [of _ pays j] by fastforce
  qed (simp_all add: dF)
  have "distinct (concat (map (\<lambda>pays. concat (map (?F pays) [0..<nb_paliers h pays])) [0..<NombreDePays h]))"
  proof (rule distinct_concat_mapI)
    fix pays pays'
    assume "pays \<in> set [0..<NombreDePays h]" "pays' \<in> set [0..<NombreDePays h]" "pays \<noteq> pays'"
    then have "numero_palier h pays i \<noteq> numero_palier h pays' j"
      if "i < nb_paliers h pays" "j < nb_paliers h pays'" for i j
      using paliers_distincts [OF assms, of pays i pays' j] that by auto
    then show "set (concat (map (?F pays) [0..<nb_paliers h pays])) \<inter>
        set (concat (map (?F pays') [0..<nb_paliers h pays'])) = {}"
      using F [of _ pays] F [of _ pays'] by fastforce
  qed (simp_all add: palier)
  then show ?thesis by (simp add: fiches_demarrages_def par_palier_def)
qed

lemma places_distinctes:
  assumes "numeros_distincts h"
  shows "distinct (places_de (liste_variables h))"
proof -
  let ?A = "concat (map (\<lambda>pdt. places_de (fiches_heure h pdt)) (heures h))"
  let ?B = "places_de (par_pays h (fiches_stock h))"
  have A: "\<exists>c \<in> champs_interco \<union> champs_pays \<union> champs_hydro. \<exists>pdt i. p = Var c pdt i"
    if "p \<in> set ?A" for p
    using that by (auto dest!: places_heure(2) [OF assms])
  have B: "(\<exists>pays. p = Stock pays) \<or> (\<exists>pays l. p = Tranche pays l)" if "p \<in> set ?B" for p
    using that by (auto simp: par_pays_def dest!: places_stock(2))
  have "distinct ?A"
  proof (rule distinct_concat_mapI)
    fix pdt pdt' :: nat assume "pdt \<noteq> pdt'"
    then show "set (places_de (fiches_heure h pdt)) \<inter> set (places_de (fiches_heure h pdt')) = {}"
      using places_heure(2) [OF assms, of _ pdt] places_heure(2) [OF assms, of _ pdt'] by fastforce
  qed (simp_all add: places_heure(1) [OF assms])
  moreover have "distinct ?B"
    unfolding par_pays_def places_de_simps
  proof (rule distinct_concat_mapI)
    fix pays pays' :: nat assume "pays \<noteq> pays'"
    then show "set (places_de (fiches_stock h pays)) \<inter> set (places_de (fiches_stock h pays')) = {}"
      using places_stock(2) [of _ h pays] places_stock(2) [of _ h pays'] by fastforce
  qed (simp_all add: places_stock(1))
  moreover have "set ?A \<inter> set ?B = {}" using A B by fastforce
  moreover have "set (?A @ ?B) \<inter> set (places_de (fiches_demarrages h)) = {}"
  proof (rule equals0I)
    fix p assume p: "p \<in> set (?A @ ?B) \<inter> set (places_de (fiches_demarrages h))"
    then have "p \<in> set (places_de (fiches_demarrages h))" by blast
    from places_demarrage_champ [OF this] p A [of p] B [of p] champs_disjoints(4-6) show False
      by auto
  qed
  moreover have "places_de (fiches_lineaires h) = ?A @ ?B"
    by (simp add: fiches_lineaires_heures)
  ultimately show ?thesis
    using places_demarrages [OF assms] by (simp add: liste_variables_def Int_Un_distrib Int_Un_distrib2)
qed

text \<open>Every place is inside its vector.\<close>

lemma places_heure_ok:
  assumes [simp]: "hebdo_ok h" "pdt < NombreDePasDeTempsPourUneOptimisation h"
    and n: "numeros_distincts h" and p: "p \<in> set (places_de (fiches_heure h pdt))"
  shows "place_ok h p"
proof -
  have "p \<in> set (places_de (concat (map (fiches_interco h pdt) [0..<NombreDInterconnexions h]))) \<or>
      p \<in> set (places_de (par_pays h (fiches_pays h pdt))) \<or>
      p \<in> set (places_de (par_pays h (fiches_hydro h pdt)))"
    using p by (simp add: fiches_heure_def)
  then show ?thesis
  proof (elim disjE)
    assume "p \<in> set (places_de (concat (map (fiches_interco h pdt) [0..<NombreDInterconnexions h])))"
    then show ?thesis by (auto dest!: places_interco(2))
  next
    assume "p \<in> set (places_de (par_pays h (fiches_pays h pdt)))"
    then obtain pays where "pays < NombreDePays h" "p \<in> set (places_de (fiches_pays h pdt pays))"
      by (auto simp: par_pays_def)
    with places_pays(2) [OF n this] show ?thesis
      using hebdo_ok_stockage [of h pays] by (elim disjE) auto
  next
    assume "p \<in> set (places_de (par_pays h (fiches_hydro h pdt)))"
    then show ?thesis by (auto simp: par_pays_def dest!: places_hydro(2))
  qed
qed

lemma places_variables_ok:
  assumes [simp]: "hebdo_ok h" and n: "numeros_distincts h"
    and p: "p \<in> set (places_de (liste_variables h))"
  shows "place_ok h p"
proof -
  have "(\<exists>pdt < NombreDePasDeTempsPourUneOptimisation h. p \<in> set (places_de (fiches_heure h pdt))) \<or>
      p \<in> set (places_de (par_pays h (fiches_stock h))) \<or> p \<in> set (places_de (fiches_demarrages h))"
    using p by (auto simp: liste_variables_def fiches_lineaires_heures split: if_splits)
  then show ?thesis
  proof (elim disjE exE conjE)
    assume "p \<in> set (places_de (par_pays h (fiches_stock h)))"
    then show ?thesis by (auto simp: par_pays_def dest!: places_stock(2))
  next
    assume "p \<in> set (places_de (fiches_demarrages h))"
    then show ?thesis
      by (auto simp: fiches_demarrages_def par_palier_def dest!: places_demarrage(2))
  qed (rule places_heure_ok [OF _ _ n], simp_all)
qed

subsection \<open>How many variables there are\<close>

definition nb_stockages :: "PROBLEME_HEBDO \<Rightarrow> nat" where
  "nb_stockages h = somme_pays h (\<lambda>pays. length (ShortTermStorage h ! pays))"

definition nb_variables :: "PROBLEME_HEBDO \<Rightarrow> nat" where
  "nb_variables h = length (creees (liste_variables h))"

lemma length_creees_concat:
  "length (creees (concat (map f xs))) = sum_list (map (\<lambda>x. length (creees (f x))) xs)"
  by (induction xs) simp_all

lemma creees_existe [simp]:
  "length (creees [existe p ty nm v]) = 1"
  "length (creees (existe p ty nm v # fs)) = Suc (length (creees fs))"
  "length (creees (entiere p ty b nm v # fs)) = Suc (length (creees fs))"
  "length (creees (inexistante p # fs)) = length (creees fs)"
  "length (creees (fiche_si b p ty nm v # fs)) = (if b then 1 else 0) + length (creees fs)"
  by (simp_all add: existe_def entiere_def inexistante_def fiche_si_def)

lemma length_creees_map:
  "(\<And>x. x \<in> set xs \<Longrightarrow> \<exists>p ty nm v. f x = existe p ty nm v) \<Longrightarrow> length (creees (map f xs)) = length xs"
  by (induction xs) fastforce+

lemma length_creees_fiche_si:
  "length (creees (map (\<lambda>l. fiche_si b (p l) ty nm (v l)) xs)) = (if b then length xs else 0)"
  by (induction xs) simp_all

lemma creees_interco: "length (creees (fiches_interco h pdt l)) \<le> 3"
  by (simp add: fiches_interco_def Let_def)

lemma creees_pays:
  "length (creees (fiches_pays h pdt pays)) = nb_paliers h pays + 3 * length (ShortTermStorage h ! pays) + 2"
proof -
  have "length (creees (map (fiche_palier h pdt pays) [0..<nb_paliers h pays])) = nb_paliers h pays"
    by (subst length_creees_map) (auto simp: fiche_palier_def Let_def)
  moreover have "length (creees (concat (map (fiches_stockage h pdt pays) (ShortTermStorage h ! pays))))
      = 3 * length (ShortTermStorage h ! pays)"
    by (simp add: length_creees_concat fiches_stockage_def Let_def sum_list_triv)
  ultimately show ?thesis by (simp add: fiches_pays_def Let_def)
qed

definition nb_hydro :: "PROBLEME_HEBDO \<Rightarrow> nat \<Rightarrow> nat" where
  "nb_hydro h pays = (if PresenceDHydrauliqueModulable (hydro_de h pays) then 1 else 0) +
     (if PresenceDePompageModulable (hydro_de h pays) then 1 else 0) +
     (if SuiviNiveauHoraire (hydro_de h pays) then 2 else 0)"

lemma creees_hydro:
  "length (creees (fiches_hydro h pdt pays)) =
     nb_hydro h pays + (if variation_existe h pdt pays then 2 else 0)"
  by (simp add: fiches_hydro_def Let_def nb_hydro_def)

lemma creees_stock:
  "length (creees (fiches_stock h pays)) = (if AccurateWaterValue (hydro_de h pays) then 101 else 0)"
  by (simp add: fiches_stock_def Let_def length_creees_fiche_si del: upt_rec_numeral)

lemma creees_demarrage: "length (creees (fiches_demarrage h pays i pdt)) = 4"
  by (simp add: fiches_demarrage_def Let_def)

lemma somme_pays_add: "somme_pays h (\<lambda>p. f p + g p) = somme_pays h f + somme_pays h g"
  by (simp add: somme_pays_def sum_list_addf)

lemma somme_pays_mono:
  "(\<And>p. p < NombreDePays h \<Longrightarrow> f p \<le> g p) \<Longrightarrow> somme_pays h f \<le> somme_pays h g"
  unfolding somme_pays_def by (rule sum_list_map_mono) simp

lemma somme_pays_mult: "somme_pays h (\<lambda>p. c * f p) = c * somme_pays h f"
  by (simp add: somme_pays_def sum_list_const_mult)

lemma somme_heures: "sum_list (map (\<lambda>pdt. c) (heures h)) = c * NombreDePasDeTempsPourUneOptimisation h"
  by (simp add: sum_list_triv mult.commute)

text \<open>The variations: two per hour under the sum, two in all under the maximum.\<close>

definition nb_variations :: "PROBLEME_HEBDO \<Rightarrow> nat \<Rightarrow> nat" where
  "nb_variations h pays =
     (if PresenceDHydrauliqueModulable (hydro_de h pays)
      then (case TypeDeLissageHydraulique h of
              PAS_DE_LISSAGE_HYDRAULIQUE \<Rightarrow> 0
            | LISSAGE_HYDRAULIQUE_SUR_SOMME_DES_VARIATIONS \<Rightarrow>
                NombreDePasDeTempsPourUneOptimisation h * 2
            | LISSAGE_HYDRAULIQUE_SUR_VARIATION_MAX \<Rightarrow> 2)
      else 0)"

lemma somme_variations:
  assumes "0 < NombreDePasDeTempsPourUneOptimisation h"
  shows "sum_list (map (\<lambda>pdt. if variation_existe h pdt pays then 2 else 0) (heures h)) = nb_variations h pays"
proof -
  have zero: "sum_list (map (\<lambda>pdt. if pdt = 0 then 2 else 0) [0..<n]) = (2::nat)" if "0 < n" for n
    using that by (induction n) (auto simp: le_Suc_eq less_Suc_eq_0_disj)
  show ?thesis
    using zero [OF assms]
    by (cases "TypeDeLissageHydraulique h")
      (simp_all add: variation_existe_def nb_variations_def heures_def sum_list_triv)
qed

lemma sum_list_swap:
  "sum_list (map (\<lambda>x. sum_list (map (f x) ys)) xs) =
   sum_list (map (\<lambda>y. sum_list (map (\<lambda>x. f x y) xs)) ys :: nat list)"
  by (induction xs) (simp_all add: sum_list_addf)

lemma somme_pays_heures:
  "sum_list (map (\<lambda>pdt. somme_pays h (f pdt)) (heures h)) =
   somme_pays h (\<lambda>pays. sum_list (map (\<lambda>pdt. f pdt pays) (heures h)))"
  unfolding somme_pays_def by (rule sum_list_swap)

lemma creees_heure:
  "length (creees (fiches_heure h pdt)) \<le> 3 * NombreDInterconnexions h +
     somme_pays h (\<lambda>pays. nb_paliers h pays + nb_hydro h pays + 2) + 3 * nb_stockages h +
     somme_pays h (\<lambda>pays. if variation_existe h pdt pays then 2 else 0)"
proof -
  have "sum_list (map (\<lambda>l. length (creees (fiches_interco h pdt l))) [0..<NombreDInterconnexions h])
      \<le> sum_list (map (\<lambda>_. 3) [0..<NombreDInterconnexions h])"
    by (rule sum_list_map_mono) (rule creees_interco)
  moreover have "length (creees (par_pays h (fiches_pays h pdt))) =
      somme_pays h (\<lambda>pays. nb_paliers h pays + 2) + 3 * nb_stockages h"
    by (simp add: par_pays_def length_creees_concat creees_pays nb_stockages_def
        somme_pays_mult [symmetric] somme_pays_add [symmetric] somme_pays_def [symmetric] add_ac)
  moreover have "length (creees (par_pays h (fiches_hydro h pdt))) =
      somme_pays h (nb_hydro h) + somme_pays h (\<lambda>pays. if variation_existe h pdt pays then 2 else 0)"
    by (simp add: par_pays_def length_creees_concat creees_hydro somme_pays_add [symmetric]
        somme_pays_def [symmetric])
  moreover have "somme_pays h (\<lambda>pays. nb_paliers h pays + nb_hydro h pays + 2) =
      somme_pays h (\<lambda>pays. nb_paliers h pays + 2) + somme_pays h (nb_hydro h)"
    by (simp add: somme_pays_add [symmetric] add_ac)
  ultimately show ?thesis
    by (simp add: fiches_heure_def length_creees_concat sum_list_triv)
qed

text \<open>The number of variables the allocation makes room for.\<close>

definition nb_variables_prevues :: "PROBLEME_HEBDO \<Rightarrow> nat" where
  "nb_variables_prevues h =
     (3 * NombreDInterconnexions h + somme_pays h (\<lambda>pays. nb_paliers h pays + nb_hydro h pays + 2)) *
       NombreDePasDeTempsPourUneOptimisation h +
     somme_pays h (\<lambda>pays. if AccurateWaterValue (hydro_de h pays) then 101 else 0) +
     3 * NumberOfShortTermStorages h * NombreDePasDeTempsPourUneOptimisation h +
     somme_pays h (nb_variations h) +
     (if OptimisationAvecCoutsDeDemarrage h
      then somme_paliers h (\<lambda>pays i. 4 * NombreDePasDeTempsPourUneOptimisation h) else 0)"

lemma nb_stockages_le:
  assumes "hebdo_ok h" and "numeros_distincts h"
  shows "nb_stockages h \<le> NumberOfShortTermStorages h"
proof -
  let ?I = "concat (map (\<lambda>pays. map clusterGlobalIndex (ShortTermStorage h ! pays)) [0..<NombreDePays h])"
  have "set ?I \<subseteq> {..<NumberOfShortTermStorages h}"
    using hebdo_ok_stockage [OF assms(1)] by auto
  then have "card (set ?I) \<le> NumberOfShortTermStorages h"
    using card_mono [of "{..<NumberOfShortTermStorages h}"] by fastforce
  moreover have "card (set ?I) = length ?I"
    using assms(2) unfolding numeros_distincts_def by (intro distinct_card) blast
  moreover have "length ?I = nb_stockages h"
    by (simp add: nb_stockages_def somme_pays_def length_concat comp_def)
  ultimately show ?thesis by simp
qed

lemma creees_demarrages:
  "length (creees (fiches_demarrages h)) =
     somme_paliers h (\<lambda>pays i. 4 * NombreDePasDeTempsPourUneOptimisation h)"
  by (simp add: fiches_demarrages_def par_palier_def somme_paliers_def length_creees_concat
      creees_demarrage somme_heures)

lemma nb_variables_le:
  assumes h: "hebdo_ok h" and n: "numeros_distincts h"
  shows "nb_variables h \<le> nb_variables_prevues h"
proof -
  let ?T = "NombreDePasDeTempsPourUneOptimisation h"
  let ?c = "3 * NombreDInterconnexions h +
     somme_pays h (\<lambda>pays. nb_paliers h pays + nb_hydro h pays + 2) + 3 * nb_stockages h"
  let ?v = "\<lambda>pdt. somme_pays h (\<lambda>pays. if variation_existe h pdt pays then 2 else 0)"
  have "sum_list (map (\<lambda>pdt. length (creees (fiches_heure h pdt))) (heures h))
      \<le> sum_list (map (\<lambda>pdt. ?c + ?v pdt) (heures h))"
    by (rule sum_list_map_mono) (rule creees_heure)
  also have "\<dots> = ?c * ?T + somme_pays h (nb_variations h)"
    using somme_variations [of h] h
    by (simp add: sum_list_addf somme_heures somme_pays_heures add_mult_distrib)
  also have "\<dots> \<le> (3 * NombreDInterconnexions h +
      somme_pays h (\<lambda>pays. nb_paliers h pays + nb_hydro h pays + 2)) * ?T +
      3 * NumberOfShortTermStorages h * ?T + somme_pays h (nb_variations h)"
    using nb_stockages_le [OF h n] by (simp add: add_mult_distrib)
  finally show ?thesis
    using creees_demarrages [of h]
    by (simp add: nb_variables_def nb_variables_prevues_def liste_variables_def fiches_lineaires_heures
        length_creees_concat par_pays_def creees_stock somme_pays_def [symmetric])
qed

lemma fiches_variables_ok:
  assumes "hebdo_ok h" and "numeros_distincts h" and "nb_variables h \<le> nv"
  shows "fiches_ok h nv (liste_variables h)"
  using places_distinctes [OF assms(2)] places_variables_ok [OF assms(1,2)] assms(3)
  by (simp add: fiches_ok_def nb_variables_def places_de_def)

end
