(* ===== verification/Problem_Counting.thy ===== *)
theory Problem_Counting
  imports Variables_Numbering
begin

text \<open>
  The size of the linear problem and its allocation: \<open>opt_decompte_variables_et_contraintes.cpp\<close>,
  \<open>opt_decompte_variables_et_contraintes_couts_demarrage.cpp\<close> and
  \<open>opt_alloc_probleme_a_optimiser.cpp\<close> under \<open>src/src/solver/optimisation/\<close>. Main facts: the counts
  have the closed forms \<open>nb_variables_prevues\<close> and \<open>nb_contraintes_prevues\<close>; they are never below
  what the construction uses; the only abnormal end is the \<open>FatalError\<close> of an area whose level is
  followed hour by hour although its generation is not flexible.
\<close>

subsection \<open>Counting\<close>

definition plus_variables :: "nat \<Rightarrow> etat \<Rightarrow> etat resultat" where
  "plus_variables k s = Inr (s\<lparr>ProblemeAResoudre := (ProblemeAResoudre s)
     \<lparr>NombreDeVariables := NombreDeVariables (ProblemeAResoudre s) + k\<rparr>\<rparr>)"

definition fois_variables :: "nat \<Rightarrow> etat \<Rightarrow> etat resultat" where
  "fois_variables k s = Inr (s\<lparr>ProblemeAResoudre := (ProblemeAResoudre s)
     \<lparr>NombreDeVariables := NombreDeVariables (ProblemeAResoudre s) * k\<rparr>\<rparr>)"

definition plus_contraintes :: "nat \<Rightarrow> etat \<Rightarrow> etat resultat" where
  "plus_contraintes k s = Inr (s\<lparr>ProblemeAResoudre := (ProblemeAResoudre s)
     \<lparr>NombreDeContraintes := NombreDeContraintes (ProblemeAResoudre s) + k\<rparr>\<rparr>)"

definition fois_contraintes :: "nat \<Rightarrow> etat \<Rightarrow> etat resultat" where
  "fois_contraintes k s = Inr (s\<lparr>ProblemeAResoudre := (ProblemeAResoudre s)
     \<lparr>NombreDeContraintes := NombreDeContraintes (ProblemeAResoudre s) * k\<rparr>\<rparr>)"

definition affecter_tailles :: "nat \<Rightarrow> nat \<Rightarrow> etat \<Rightarrow> etat resultat" where
  "affecter_tailles nv nc s = Inr (s\<lparr>ProblemeAResoudre := (ProblemeAResoudre s)
     \<lparr>NombreDeVariables := nv, NombreDeContraintes := nc\<rparr>\<rparr>)"

definition decompte_variables_pays :: "PROBLEME_HEBDO \<Rightarrow> nat \<Rightarrow> etat \<Rightarrow> etat resultat" where
  "decompte_variables_pays h pays s =
     bindE (lire (PaliersThermiquesDuPays h) pays) (\<lambda>pt.
     bindE (lire (CaracteristiquesHydrauliques h) pays) (\<lambda>c. seqE
     [plus_variables (NombreDePaliersThermiques pt),
      whenE (PresenceDHydrauliqueModulable c) (plus_variables 1),
      whenE (PresenceDePompageModulable c) (plus_variables 1),
      whenE (SuiviNiveauHoraire c) (seqE [plus_variables 1, plus_variables 1]),
      plus_variables 2] s))"

text \<open>\<open>mxPaliers\<close>: the total number of clusters.\<close>

definition compter_mxPaliers :: "PROBLEME_HEBDO \<Rightarrow> nat resultat" where
  "compter_mxPaliers h = forE [0..<NombreDePays h] (\<lambda>pays mx.
     bindE (lire (PaliersThermiquesDuPays h) pays) (\<lambda>pt.
     Inr (mx + NombreDePaliersThermiques pt))) 0"

definition decompte_couplantes ::
  "PROBLEME_HEBDO \<Rightarrow> type_contrainte \<Rightarrow> nat \<Rightarrow> etat \<Rightarrow> etat resultat" where
  "decompte_couplantes h t k = forE [0..<NombreDeContraintesCouplantes h] (\<lambda>cnt s.
     bindE (lire (MatriceDesContraintesCouplantes h) cnt) (\<lambda>c.
     whenE (TypeDeContrainteCouplante c = t) (plus_contraintes k) s))"

definition decompte_hydro :: "PROBLEME_HEBDO \<Rightarrow> nat \<Rightarrow> etat \<Rightarrow> etat resultat" where
  "decompte_hydro h pays s =
     bindE (lire (CaracteristiquesHydrauliques h) pays) (\<lambda>c.
     let Pump = PresenceDePompageModulable c; TurbEntreBornes = TurbinageEntreBornes c;
         MonitorHourlyLev = SuiviNiveauHoraire c; T = NombreDePasDeTempsPourUneOptimisation h in seqE
     [whenE (\<not> Pump \<and> \<not> TurbEntreBornes \<and> \<not> MonitorHourlyLev \<and> PresenceDHydrauliqueModulable c)
        (plus_contraintes 1),
      whenE (Pump \<and> \<not> TurbEntreBornes \<and> \<not> MonitorHourlyLev)
        (seqE [plus_contraintes 2, plus_contraintes 1, plus_contraintes 1]),
      whenE (\<not> Pump \<and> TurbEntreBornes \<and> \<not> MonitorHourlyLev)
        (seqE [plus_contraintes 1, plus_contraintes 1]),
      whenE (Pump \<and> TurbEntreBornes \<and> \<not> MonitorHourlyLev)
        (seqE [plus_contraintes 1, plus_contraintes 1, plus_contraintes 1]),
      whenE (\<not> Pump \<and> TurbEntreBornes \<and> MonitorHourlyLev)
        (seqE [plus_contraintes 1, plus_contraintes 1, plus_contraintes T]),
      whenE (Pump \<and> TurbEntreBornes \<and> MonitorHourlyLev)
        (seqE [plus_contraintes 1, plus_contraintes 1, plus_contraintes 1, plus_contraintes T]),
      whenE (Pump \<and> \<not> TurbEntreBornes \<and> MonitorHourlyLev)
        (seqE [plus_contraintes 2, plus_contraintes 1, plus_contraintes 1, plus_contraintes T]),
      whenE (\<not> Pump \<and> \<not> TurbEntreBornes \<and> MonitorHourlyLev)
        (\<lambda>s. bindE (lire (NomsDesPays h) pays) (\<lambda>areaName.
           Inl (FatalError (''Level explicit modeling requires flexible generation in area ''
             @ areaName))))] s)"

definition decompte_lissage :: "PROBLEME_HEBDO \<Rightarrow> nat \<Rightarrow> etat \<Rightarrow> etat resultat" where
  "decompte_lissage h pays s =
     (let T = NombreDePasDeTempsPourUneOptimisation h in
     bindE (lire (CaracteristiquesHydrauliques h) pays) (\<lambda>c.
     whenE (PresenceDHydrauliqueModulable c)
       (if TypeDeLissageHydraulique h = LISSAGE_HYDRAULIQUE_SUR_SOMME_DES_VARIATIONS
        then seqE [plus_variables (T * 2), plus_contraintes T]
        else if TypeDeLissageHydraulique h = LISSAGE_HYDRAULIQUE_SUR_VARIATION_MAX
        then seqE [plus_variables 2, plus_contraintes (T * 2)]
        else Inr) s))"

definition si_valeur_eau ::
  "PROBLEME_HEBDO \<Rightarrow> (etat \<Rightarrow> etat resultat) \<Rightarrow> nat \<Rightarrow> etat \<Rightarrow> etat resultat" where
  "si_valeur_eau h f pays s =
     bindE (lire (CaracteristiquesHydrauliques h) pays) (\<lambda>c. whenE (AccurateWaterValue c) f s)"

definition OPT_DecompteDesVariablesEtDesContraintesCoutsDeDemarrage ::
  "PROBLEME_HEBDO \<Rightarrow> etat \<Rightarrow> etat resultat" where
  "OPT_DecompteDesVariablesEtDesContraintesCoutsDeDemarrage h =
     (if \<not> OptimisationAvecCoutsDeDemarrage h then Inr
      else seqE
        [OPT_ConstruireLaMatriceDesContraintesDuProblemeLineaireCoutsDeDemarrage h True,
         OPT_ConstruireLaListeDesVariablesOptimiseesDuProblemeLineaireCoutsDeDemarrage h True])"

definition nombreDeJoursDansUnIntervalleOptimise :: "PROBLEME_HEBDO \<Rightarrow> nat" where
  "nombreDeJoursDansUnIntervalleOptimise h =
     (if NombreDePasDeTempsDUneJournee h < NombreDePasDeTempsPourUneOptimisation h
      then NombreDePasDeTemps h div NombreDePasDeTempsDUneJournee h else 1)"

definition OPT_DecompteDesVariablesEtDesContraintesDuProblemeAOptimiser ::
  "PROBLEME_HEBDO \<Rightarrow> etat \<Rightarrow> (nat \<times> etat) resultat" where
  "OPT_DecompteDesVariablesEtDesContraintesDuProblemeAOptimiser h s =
     (let T = NombreDePasDeTempsPourUneOptimisation h; pays = [0..<NombreDePays h] in
     bindE (compter_mxPaliers h) (\<lambda>mxPaliers.
     bindE (seqE
       [affecter_tailles (NombreDInterconnexions h)
          (NombreDeContraintes (ProblemeAResoudre s)),
        plus_variables (2 * NombreDInterconnexions h),
        forE pays (decompte_variables_pays h),
        fois_variables T,
        forE pays (si_valeur_eau h (seqE [plus_variables 1, plus_variables 100])),
        (\<lambda>s. affecter_tailles (NombreDeVariables (ProblemeAResoudre s)) (NombreDePays h) s),
        plus_contraintes (NombreDePays h),
        plus_contraintes (NombreDInterconnexions h),
        decompte_couplantes h CONTRAINTE_HORAIRE 1,
        fois_contraintes T,
        decompte_couplantes h CONTRAINTE_JOURNALIERE (nombreDeJoursDansUnIntervalleOptimise h),
        whenE (NombreDePasDeTempsDUneJournee h < T)
          (decompte_couplantes h CONTRAINTE_HEBDOMADAIRE 1),
        forE pays (decompte_hydro h),
        plus_variables (3 * NumberOfShortTermStorages h * T),
        plus_contraintes (NumberOfShortTermStorages h * T),
        forE pays (decompte_lissage h),
        forE pays (si_valeur_eau h (plus_contraintes 2)),
        whenE (OptimisationAvecCoutsDeDemarrage h)
          (OPT_DecompteDesVariablesEtDesContraintesCoutsDeDemarrage h)] s) (\<lambda>s.
     Inr (mxPaliers, s))))"

subsection \<open>Allocating\<close>

definition OPT_AllocateFromNumberOfVariableConstraints ::
  "PROBLEME_ANTARES_A_RESOUDRE \<Rightarrow> nat \<Rightarrow> PROBLEME_ANTARES_A_RESOUDRE" where
  "OPT_AllocateFromNumberOfVariableConstraints p NbTermes =
     (let nbVariables = NombreDeVariables p; nbConstraints = NombreDeContraintes p in
      p\<lparr>Sens := resize (CHR 0x00) nbConstraints (Sens p),
        IndicesDebutDeLigne := replicate nbConstraints 0,
        NombreDeTermesDesLignes := replicate nbConstraints 0,
        CoefficientsDeLaMatriceDesContraintes := replicate NbTermes 0,
        IndicesColonnes := replicate NbTermes 0,
        NombreDeTermesAllouesDansLaMatriceDesContraintes := NbTermes,
        IncrementDAllocationMatriceDesContraintes := NbTermes div 10,
        CoutQuadratique := replicate nbVariables 0,
        CoutLineaire := replicate nbVariables 0,
        TypeDeVariable := replicate nbVariables TYPE_NON_RENSEIGNE,
        Xmin := replicate nbVariables (Fini 0),
        Xmax := replicate nbVariables (Fini 0),
        SecondMembre := replicate nbConstraints 0,
        AdresseOuPlacerLaValeurDesVariablesOptimisees := replicate nbVariables None,
        AdresseOuPlacerLaValeurDesCoutsReduits := replicate nbVariables None,
        AdresseOuPlacerLaValeurDesCoutsMarginaux := replicate nbConstraints None,
        Pi := replicate nbVariables 0,
        Colonne := replicate nbVariables 0,
        NomDesVariables := resize '''' nbVariables (NomDesVariables p),
        NomDesContraintes := resize '''' nbConstraints (NomDesContraintes p),
        VariablesEntieres := resize False nbVariables (VariablesEntieres p)\<rparr>)"

definition nombreDeTermesPrevus :: "PROBLEME_HEBDO \<Rightarrow> nat \<Rightarrow> etat \<Rightarrow> nat" where
  "nombreDeTermesPrevus h mxPaliers s =
     (let T = NombreDePasDeTempsPourUneOptimisation h; nP = NombreDePays h;
          nI = NombreDInterconnexions h; nC = NombreDeContraintesCouplantes h;
          Sparsity = min 100 (mxPaliers * nP + nI);
          Adder = ((mxPaliers + 4) * nP + 2 * nI) * T in
      NombreDeContraintes (ProblemeAResoudre s) + Adder + Adder + 3 * nI * T +
      (Sparsity * nC * T + Sparsity * (7 + 7) * nC) +
      3 * nP * T + nP * T * 4 + nP * T * 5 + nP * T * 2 + 1 + 101 +
      nat (NbTermesContraintesPourLesCoutsDeDemarrage s))"

definition optimisationAllocateProblem :: "PROBLEME_HEBDO \<Rightarrow> nat \<Rightarrow> etat \<Rightarrow> etat resultat" where
  "optimisationAllocateProblem h mxPaliers s =
     Inr (s\<lparr>ProblemeAResoudre := OPT_AllocateFromNumberOfVariableConstraints (ProblemeAResoudre s)
       (nombreDeTermesPrevus h mxPaliers s)\<rparr>)"

definition OPT_AllocDuProblemeAOptimiser :: "PROBLEME_HEBDO \<Rightarrow> etat \<Rightarrow> etat resultat" where
  "OPT_AllocDuProblemeAOptimiser h s =
     bindE (OPT_DecompteDesVariablesEtDesContraintesDuProblemeAOptimiser h
       (s\<lparr>ProblemeAResoudre := PROBLEME_ANTARES_A_RESOUDRE_vide\<rparr>)) (\<lambda>(mxPaliers, s).
     optimisationAllocateProblem h mxPaliers s)"


subsection \<open>What the counting returns\<close>

text \<open>Every step before the start-up costs adds to the two counters, and to nothing else.\<close>

definition agrandir :: "nat \<Rightarrow> nat \<Rightarrow> etat \<Rightarrow> etat" where
  "agrandir nv nc s = s\<lparr>ProblemeAResoudre := (ProblemeAResoudre s)
     \<lparr>NombreDeVariables := NombreDeVariables (ProblemeAResoudre s) + nv,
      NombreDeContraintes := NombreDeContraintes (ProblemeAResoudre s) + nc\<rparr>\<rparr>"

lemma agrandir_agrandir [simp]: "agrandir a b (agrandir c d s) = agrandir (c + a) (d + b) s"
  by (simp add: agrandir_def add.assoc)

lemma agrandir_0 [simp]: "agrandir 0 0 s = s"
  by (simp add: agrandir_def)

lemma plus_agrandir [simp]:
  "plus_variables k s = Inr (agrandir k 0 s)" "plus_contraintes k s = Inr (agrandir 0 k s)"
  by (simp_all add: plus_variables_def plus_contraintes_def agrandir_def)

lemma forE_agrandir:
  assumes "\<And>x s. x \<in> set xs \<Longrightarrow> f x s = Inr (agrandir (a x) (b x) s)"
  shows "forE xs f s = Inr (agrandir (sum_list (map a xs)) (sum_list (map b xs)) s)"
  using assms by (induction xs arbitrary: s) simp_all

lemmas pas_de_comptage = whenE_def Let_def

lemma decompte_variables_pays_ok:
  assumes "hebdo_ok h" and "pays < NombreDePays h"
  shows "decompte_variables_pays h pays s = Inr (agrandir (nb_paliers h pays + nb_hydro h pays + 2) 0 s)"
  using assms by (simp add: decompte_variables_pays_def pas_de_comptage nb_hydro_def)

lemma compter_mxPaliers_ok:
  assumes "hebdo_ok h"
  shows "compter_mxPaliers h = Inr (somme_pays h (nb_paliers h))"
proof -
  have "forE xs (\<lambda>pays mx. bindE (lire (PaliersThermiquesDuPays h) pays) (\<lambda>pt.
      Inr (mx + NombreDePaliersThermiques pt))) m = Inr (m + sum_list (map (nb_paliers h) xs))"
    if "\<forall>p \<in> set xs. p < NombreDePays h" for xs m
    using that by (induction xs arbitrary: m) (simp_all add: assms)
  then show ?thesis by (simp add: compter_mxPaliers_def somme_pays_def)
qed

lemma decompte_couplantes_ok:
  assumes "hebdo_ok h"
  shows "decompte_couplantes h t k s = Inr (agrandir 0 (nb_couplantes h t * k) s)"
proof -
  have "decompte_couplantes h t k s = Inr (agrandir (sum_list (map (\<lambda>_. 0) [0..<NombreDeContraintesCouplantes h]))
     (sum_list (map (\<lambda>c. if TypeDeContrainteCouplante (MatriceDesContraintesCouplantes h ! c) = t
       then k else 0) [0..<NombreDeContraintesCouplantes h])) s)"
    unfolding decompte_couplantes_def
    by (rule forE_agrandir) (use assms in \<open>simp add: whenE_def\<close>)
  moreover have "sum_list (map (\<lambda>c. if P c then k else 0) xs) = sum_list (map (\<lambda>c. if P c then 1 else 0) xs) * k"
    for P and xs :: "nat list"
    by (induction xs) simp_all
  ultimately show ?thesis
    by (simp add: nb_couplantes_def)
qed

text \<open>
  The rows of an area's reservoir. \<open>niveau_impossible\<close>: the level is followed hour by hour although
  the area has neither pumping nor bounded generation.
\<close>

definition niveau_impossible :: "PROBLEME_HEBDO \<Rightarrow> nat \<Rightarrow> bool" where
  "niveau_impossible h pays \<longleftrightarrow> SuiviNiveauHoraire (hydro_de h pays) \<and>
     \<not> PresenceDePompageModulable (hydro_de h pays) \<and> \<not> TurbinageEntreBornes (hydro_de h pays)"

definition nb_contraintes_hydro :: "PROBLEME_HEBDO \<Rightarrow> nat \<Rightarrow> nat" where
  "nb_contraintes_hydro h pays =
     (if PresenceDePompageModulable (hydro_de h pays)
      then (if TurbinageEntreBornes (hydro_de h pays) then 3 else 4)
      else if TurbinageEntreBornes (hydro_de h pays) then 2
      else if PresenceDHydrauliqueModulable (hydro_de h pays) then 1 else 0) +
     (if SuiviNiveauHoraire (hydro_de h pays) then NombreDePasDeTempsPourUneOptimisation h else 0)"

lemma decompte_hydro_ok:
  assumes "hebdo_ok h" and "pays < NombreDePays h" and "\<not> niveau_impossible h pays"
  shows "decompte_hydro h pays s = Inr (agrandir 0 (nb_contraintes_hydro h pays) s)"
  using assms
  by (cases "PresenceDePompageModulable (hydro_de h pays)";
      cases "TurbinageEntreBornes (hydro_de h pays)"; cases "SuiviNiveauHoraire (hydro_de h pays)")
    (simp_all add: decompte_hydro_def pas_de_comptage nb_contraintes_hydro_def niveau_impossible_def
      eval_nat_numeral)

definition message_niveau :: "string \<Rightarrow> string" where
  "message_niveau areaName = ''Level explicit modeling requires flexible generation in area '' @ areaName"

lemma decompte_hydro_erreur:
  assumes "hebdo_ok h" and "pays < NombreDePays h" and "niveau_impossible h pays"
  shows "decompte_hydro h pays s = Inl (FatalError (message_niveau (NomsDesPays h ! pays)))"
  using assms
  by (simp add: decompte_hydro_def pas_de_comptage niveau_impossible_def message_niveau_def)

definition nb_lissage :: "PROBLEME_HEBDO \<Rightarrow> nat \<Rightarrow> nat" where
  "nb_lissage h pays =
     (if PresenceDHydrauliqueModulable (hydro_de h pays)
      then (case TypeDeLissageHydraulique h of
              PAS_DE_LISSAGE_HYDRAULIQUE \<Rightarrow> 0
            | LISSAGE_HYDRAULIQUE_SUR_SOMME_DES_VARIATIONS \<Rightarrow> NombreDePasDeTempsPourUneOptimisation h
            | LISSAGE_HYDRAULIQUE_SUR_VARIATION_MAX \<Rightarrow> NombreDePasDeTempsPourUneOptimisation h * 2)
      else 0)"

lemma decompte_lissage_ok:
  assumes "hebdo_ok h" and "pays < NombreDePays h"
  shows "decompte_lissage h pays s = Inr (agrandir (nb_variations h pays) (nb_lissage h pays) s)"
  using assms
  by (cases "TypeDeLissageHydraulique h")
    (simp_all add: decompte_lissage_def pas_de_comptage nb_variations_def nb_lissage_def)

lemma si_valeur_eau_ok:
  assumes "hebdo_ok h" and "pays < NombreDePays h" and "\<And>s. f s = Inr (agrandir a b s)"
  shows "si_valeur_eau h f pays s = Inr (agrandir
    (if AccurateWaterValue (hydro_de h pays) then a else 0)
    (if AccurateWaterValue (hydro_de h pays) then b else 0) s)"
  using assms by (simp add: si_valeur_eau_def whenE_def)

text \<open>The counters as they are assigned.\<close>

definition avec_tailles :: "nat \<Rightarrow> nat \<Rightarrow> etat \<Rightarrow> etat" where
  "avec_tailles nv nc s = s\<lparr>ProblemeAResoudre := (ProblemeAResoudre s)
     \<lparr>NombreDeVariables := nv, NombreDeContraintes := nc\<rparr>\<rparr>"

lemma avec_tailles_simps [simp]:
  "affecter_tailles nv nc s = Inr (avec_tailles nv nc s)"
  "agrandir a b (avec_tailles nv nc s) = avec_tailles (nv + a) (nc + b) s"
  "fois_variables k (avec_tailles nv nc s) = Inr (avec_tailles (nv * k) nc s)"
  "fois_contraintes k (avec_tailles nv nc s) = Inr (avec_tailles nv (nc * k) s)"
  "avec_tailles a b (avec_tailles nv nc s) = avec_tailles a b s"
  "NombreDeVariables (ProblemeAResoudre (avec_tailles nv nc s)) = nv"
  "NombreDeContraintes (ProblemeAResoudre (avec_tailles nv nc s)) = nc"
  by (simp_all add: affecter_tailles_def avec_tailles_def agrandir_def fois_variables_def
      fois_contraintes_def)

definition nb_contraintes_lineaires :: "PROBLEME_HEBDO \<Rightarrow> nat" where
  "nb_contraintes_lineaires h =
     (NombreDePays h + NombreDePays h + NombreDInterconnexions h + nb_couplantes h CONTRAINTE_HORAIRE) *
       NombreDePasDeTempsPourUneOptimisation h +
     nb_couplantes h CONTRAINTE_JOURNALIERE * nombreDeJoursDansUnIntervalleOptimise h +
     (if NombreDePasDeTempsDUneJournee h < NombreDePasDeTempsPourUneOptimisation h
      then nb_couplantes h CONTRAINTE_HEBDOMADAIRE else 0) +
     somme_pays h (nb_contraintes_hydro h) +
     NumberOfShortTermStorages h * NombreDePasDeTempsPourUneOptimisation h +
     somme_pays h (nb_lissage h) +
     somme_pays h (\<lambda>pays. if AccurateWaterValue (hydro_de h pays) then 2 else 0)"

definition nb_contraintes_prevues :: "PROBLEME_HEBDO \<Rightarrow> nat" where
  "nb_contraintes_prevues h = nb_contraintes_lineaires h +
     (if OptimisationAvecCoutsDeDemarrage h then places_demarrage h else 0)"

definition nb_variables_lineaires :: "PROBLEME_HEBDO \<Rightarrow> nat" where
  "nb_variables_lineaires h =
     (NombreDInterconnexions h + 2 * NombreDInterconnexions h + somme_pays h (\<lambda>pays. nb_paliers h pays + nb_hydro h pays + 2)) *
       NombreDePasDeTempsPourUneOptimisation h +
     somme_pays h (\<lambda>pays. if AccurateWaterValue (hydro_de h pays) then 101 else 0) +
     3 * NumberOfShortTermStorages h * NombreDePasDeTempsPourUneOptimisation h +
     somme_pays h (nb_variations h)"

lemma nb_variables_lineaires_eq:
  "nb_variables_lineaires h =
     (3 * NombreDInterconnexions h + somme_pays h (\<lambda>pays. nb_paliers h pays + nb_hydro h pays + 2)) *
       NombreDePasDeTempsPourUneOptimisation h +
     somme_pays h (\<lambda>pays. if AccurateWaterValue (hydro_de h pays) then 101 else 0) +
     3 * NumberOfShortTermStorages h * NombreDePasDeTempsPourUneOptimisation h +
     somme_pays h (nb_variations h)"
  by (simp add: nb_variables_lineaires_def)

lemma bindE_seqE_Nil [simp]: "bindE m (seqE []) = m"
  by (cases m) simp_all

lemma somme_pays_0 [simp]: "somme_pays h (\<lambda>_. 0) = 0"
  by (simp add: somme_pays_def)

lemma boucles_decompte:
  assumes h: "hebdo_ok h"
  shows "forE [0..<NombreDePays h] (decompte_variables_pays h) s = Inr (agrandir
      (somme_pays h (\<lambda>pays. nb_paliers h pays + nb_hydro h pays + 2)) 0 s)"
    and "(\<And>s. f s = Inr (agrandir a b s)) \<Longrightarrow>
      forE [0..<NombreDePays h] (si_valeur_eau h f) s = Inr (agrandir
        (somme_pays h (\<lambda>pays. if AccurateWaterValue (hydro_de h pays) then a else 0))
        (somme_pays h (\<lambda>pays. if AccurateWaterValue (hydro_de h pays) then b else 0)) s)"
    and "forE [0..<NombreDePays h] (decompte_lissage h) s = Inr (agrandir
      (somme_pays h (nb_variations h)) (somme_pays h (nb_lissage h)) s)"
    and "(\<forall>pays < NombreDePays h. \<not> niveau_impossible h pays) \<Longrightarrow>
      forE [0..<NombreDePays h] (decompte_hydro h) s = Inr (agrandir 0
        (somme_pays h (nb_contraintes_hydro h)) s)"
  using forE_agrandir [of "[0..<NombreDePays h]" "decompte_variables_pays h"
      "\<lambda>pays. nb_paliers h pays + nb_hydro h pays + 2" "\<lambda>_. 0" s]
    forE_agrandir [of "[0..<NombreDePays h]" "si_valeur_eau h f"
      "\<lambda>pays. if AccurateWaterValue (hydro_de h pays) then a else 0"
      "\<lambda>pays. if AccurateWaterValue (hydro_de h pays) then b else 0" s]
    forE_agrandir [of "[0..<NombreDePays h]" "decompte_lissage h" "nb_variations h" "nb_lissage h" s]
    forE_agrandir [of "[0..<NombreDePays h]" "decompte_hydro h" "\<lambda>_. 0" "nb_contraintes_hydro h" s]
  by (simp_all add: h decompte_variables_pays_ok si_valeur_eau_ok decompte_lissage_ok decompte_hydro_ok
      somme_pays_def)

subsection \<open>The start-up variables counted under \<open>Simulation\<close>\<close>

lemma variables_demarrage_simulees:
  assumes "hebdo_ok h" and "pays < NombreDePays h"
  shows "variables_demarrage_pays h True pays (n, s) = Inr
    (n + sum_list (map (\<lambda>i. 4 * NombreDePasDeTempsPourUneOptimisation h) [0..<nb_paliers h pays]), s)"
proof -
  have heure: "forE xs (\<lambda>pdt. variables_demarrage h True (nm pdt) cl palier pdt) (n, s)
      = Inr (n + 4 * length xs, s)" for xs nm cl palier n s
    by (induction xs arbitrary: n) (simp_all add: variables_demarrage_def)
  have palier: "forE xs (\<lambda>i ns. bindE (lire (NumeroDuPalierDansLEnsembleDesPaliersThermiques
        (PaliersThermiquesDuPays h ! pays)) i) (\<lambda>palier. bindE (lire (NomsDesPaliersThermiques
        (PaliersThermiquesDuPays h ! pays)) i) (\<lambda>cl. forE (heures h)
        (\<lambda>pdt. variables_demarrage h True (nm pdt) cl palier pdt) ns))) (n, s)
      = Inr (n + sum_list (map (\<lambda>i. 4 * NombreDePasDeTempsPourUneOptimisation h) xs), s)"
    if "\<forall>i \<in> set xs. i < nb_paliers h pays" for xs nm n s
    using that assms by (induction xs arbitrary: n) (simp_all add: heure heures_def)
  show ?thesis
    using assms by (simp add: variables_demarrage_pays_def pour_paliers_du_pays_def palier)
qed

lemma OPT_ConstruireListe_simulee:
  assumes h: "hebdo_ok h"
  shows "OPT_ConstruireLaListeDesVariablesOptimiseesDuProblemeLineaireCoutsDeDemarrage h True s =
    Inr (agrandir (somme_paliers h (\<lambda>pays i. 4 * NombreDePasDeTempsPourUneOptimisation h)) 0 s)"
proof -
  have "forE xs (variables_demarrage_pays h True) (n, s) = Inr (n + sum_list (map (\<lambda>pays.
      sum_list (map (\<lambda>i. 4 * NombreDePasDeTempsPourUneOptimisation h) [0..<nb_paliers h pays])) xs), s)"
    if "\<forall>p \<in> set xs. p < NombreDePays h" for xs n s
    using that by (induction xs arbitrary: n) (simp_all add: h variables_demarrage_simulees)
  then show ?thesis
    by (simp add: OPT_ConstruireLaListeDesVariablesOptimiseesDuProblemeLineaireCoutsDeDemarrage_def
        avec_compteur_def somme_paliers_def agrandir_def)
qed

subsection \<open>The counting theorem\<close>

definition hors_decompte :: "etat \<Rightarrow> etat" where
  "hors_decompte s = hors_compte (avec_tailles 0 0 s)"

lemma hors_compte_tailles:
  "hors_compte (avec_tailles nv nc s) = avec_tailles nv 0 (hors_compte s)"
  by (simp add: hors_compte_def avec_tailles_def)

lemma dims_cnt_tailles [simp]:
  "dims_cnt h (avec_tailles nv nc s) = dims_cnt h s" "dims_cnt h (agrandir a b s) = dims_cnt h s"
  "builders (avec_tailles nv nc s) = builders s" "builders (agrandir a b s) = builders s"
  by (simp_all add: dims_cnt_def avec_tailles_def agrandir_def)

lemma hors_compte_variables:
  assumes "hors_compte s = hors_compte s'"
  shows "NombreDeVariables (ProblemeAResoudre s) = NombreDeVariables (ProblemeAResoudre s')"
    and "hors_decompte s = hors_decompte s'"
proof -
  have "NombreDeVariables (ProblemeAResoudre (hors_compte s))
      = NombreDeVariables (ProblemeAResoudre (hors_compte s'))"
    using assms by simp
  then show "NombreDeVariables (ProblemeAResoudre s) = NombreDeVariables (ProblemeAResoudre s')"
    by (simp add: hors_compte_def)
  have "hors_decompte t = avec_tailles 0 0 (hors_compte t)" for t
    by (simp add: hors_decompte_def hors_compte_def avec_tailles_def)
  with assms show "hors_decompte s = hors_decompte s'" by simp
qed

lemma decompte_lineaire:
  assumes h: "hebdo_ok h" and niv: "\<forall>pays < NombreDePays h. \<not> niveau_impossible h pays"
  shows "OPT_DecompteDesVariablesEtDesContraintesDuProblemeAOptimiser h s =
    bindE (whenE (OptimisationAvecCoutsDeDemarrage h)
       (OPT_DecompteDesVariablesEtDesContraintesCoutsDeDemarrage h)
       (avec_tailles (nb_variables_lineaires h) (nb_contraintes_lineaires h) s))
     (\<lambda>s. Inr (somme_pays h (nb_paliers h), s))"
  using boucles_decompte [OF h] niv
  by (simp add: OPT_DecompteDesVariablesEtDesContraintesDuProblemeAOptimiser_def Let_def
      compter_mxPaliers_ok [OF h] decompte_couplantes_ok [OF h] whenE_def nb_variables_lineaires_def
      nb_contraintes_lineaires_def)

theorem OPT_Decompte_ok:
  assumes h: "hebdo_ok h" and niv: "\<forall>pays < NombreDePays h. \<not> niveau_impossible h pays"
    and d: "dims_cnt h s" and b: "\<forall>c. nombreDeTermes (builders s c) = 0"
  shows "returns (OPT_DecompteDesVariablesEtDesContraintesDuProblemeAOptimiser h s) (\<lambda>(mx, s').
    mx = somme_pays h (nb_paliers h) \<and>
    NombreDeVariables (ProblemeAResoudre s') = nb_variables_prevues h \<and>
    NombreDeContraintes (ProblemeAResoudre s') = nb_contraintes_prevues h \<and>
    dims_cnt h s' \<and> (\<forall>c. nombreDeTermes (builders s' c) = 0) \<and> hors_decompte s' = hors_decompte s)"
proof (cases "OptimisationAvecCoutsDeDemarrage h")
  case False
  then show ?thesis
    using d b by (simp add: decompte_lineaire [OF h niv] whenE_def nb_variables_prevues_def
        nb_variables_lineaires_eq nb_contraintes_prevues_def hors_decompte_def hors_compte_tailles)
next
  case True
  let ?s = "avec_tailles (nb_variables_lineaires h) (nb_contraintes_lineaires h) s"
  obtain s1 where s1: "OPT_ConstruireLaMatriceDesContraintesDuProblemeLineaireCoutsDeDemarrage h True ?s = Inr s1"
    and d1: "dims_cnt h s1" and b1: "\<forall>c. nombreDeTermes (builders s1 c) = 0"
    and hors: "hors_compte s1 = hors_compte ?s"
    and nc: "NombreDeContraintes (ProblemeAResoudre s1)
      = NombreDeContraintes (ProblemeAResoudre ?s) + places_demarrage h"
    by (rule compteE [OF compte_ConstruireMatriceCoutsDeDemarrage [OF h], of ?s]) (use d b in simp_all)
  note hv = hors_compte_variables [OF hors]
  let ?k = "somme_paliers h (\<lambda>pays i. 4 * NombreDePasDeTempsPourUneOptimisation h)"
  have "OPT_DecompteDesVariablesEtDesContraintesDuProblemeAOptimiser h s
      = Inr (somme_pays h (nb_paliers h), agrandir ?k 0 s1)"
    using True s1
    by (simp add: decompte_lineaire [OF h niv] whenE_def OPT_ConstruireListe_simulee [OF h]
        OPT_DecompteDesVariablesEtDesContraintesCoutsDeDemarrage_def)
  moreover have "hors_decompte (agrandir ?k 0 s1) = hors_decompte s"
  proof -
    have "hors_decompte (agrandir ?k 0 s1) = hors_decompte s1"
      by (simp add: hors_decompte_def agrandir_def avec_tailles_def)
    also have "\<dots> = hors_decompte s" using hv(2) by (simp add: hors_decompte_def hors_compte_tailles)
    finally show ?thesis .
  qed
  ultimately show ?thesis
    using True d1 b1 nc hv(1)
    by (simp add: nb_variables_prevues_def nb_variables_lineaires_eq nb_contraintes_prevues_def
        agrandir_def dims_cnt_def)
qed

subsection \<open>The only abnormal end\<close>

lemma forE_premiere_erreur:
  assumes "xs = ys @ x # zs" and "\<And>y s. y \<in> set ys \<Longrightarrow> \<exists>s'. f y s = Inr s'" and "\<And>s. f x s = Inl e"
  shows "forE xs f s = Inl e"
  unfolding assms(1) using assms(2,3)
proof (induction ys arbitrary: s)
  case (Cons y ys)
  then obtain s' where "f y s = Inr s'" by fastforce
  with Cons show ?case by simp
qed simp

theorem OPT_Decompte_erreur:
  assumes h: "hebdo_ok h" and p: "pays < NombreDePays h" and "niveau_impossible h pays"
    and premier: "\<forall>q < pays. \<not> niveau_impossible h q"
  shows "OPT_DecompteDesVariablesEtDesContraintesDuProblemeAOptimiser h s =
    Inl (FatalError (''Level explicit modeling requires flexible generation in area '' @ NomsDesPays h ! pays))"
proof -
  have "[0..<NombreDePays h] = [0..<pays] @ pays # [Suc pays..<NombreDePays h]"
    using p by (metis less_imp_le_nat upt_add_eq_append upt_conv_Cons le_add_diff_inverse zero_le)
  then have "forE [0..<NombreDePays h] (decompte_hydro h) s = Inl (FatalError (message_niveau (NomsDesPays h ! pays)))"
    for s
    by (rule forE_premiere_erreur)
      (use h p premier assms(3) in \<open>auto simp: decompte_hydro_ok decompte_hydro_erreur\<close>)
  then show ?thesis
    using boucles_decompte [OF h]
    by (simp add: OPT_DecompteDesVariablesEtDesContraintesDuProblemeAOptimiser_def Let_def
        compter_mxPaliers_ok [OF h] decompte_couplantes_ok [OF h] whenE_def message_niveau_def)
qed

subsection \<open>There is room for every row\<close>

lemma nb_jours_le:
  assumes "hebdo_ok h"
  shows "NombreDePasDeTempsPourUneOptimisation h div NombreDePasDeTempsDUneJournee h
    \<le> nombreDeJoursDansUnIntervalleOptimise h"
proof -
  have "horizon_ok h" "jours_ok h" using assms unfolding hebdo_ok_def by auto
  then show ?thesis
    by (auto simp: nombreDeJoursDansUnIntervalleOptimise_def horizon_ok_def jours_ok_def
        intro: div_le_mono dest: dvd_imp_le)
qed

lemma places_hydro_le:
  assumes "\<forall>pays < NombreDePays h. \<not> niveau_impossible h pays" and "pays < NombreDePays h"
  shows "places_energie h pays + places_bornes h pays + places_pompage h pays +
      places_niveau h pays * NombreDePasDeTempsPourUneOptimisation h \<le> nb_contraintes_hydro h pays"
  using assms
  by (auto simp: niveau_impossible_def places_energie_def places_bornes_def places_pompage_def
      places_niveau_def nb_contraintes_hydro_def)

lemma places_horaires_eq:
  "places_horaires h = 2 * NombreDePays h + nb_stockages h + NombreDInterconnexions h +
     nb_couplantes h CONTRAINTE_HORAIRE"
  by (simp add: places_horaires_def nb_stockages_def somme_pays_def sum_list_Suc sum_list_triv)

lemma places_lissage_eq: "places_lissage h = somme_pays h (nb_lissage h)"
  by (cases "TypeDeLissageHydraulique h")
    (simp_all add: places_lissage_def nb_lissage_def [abs_def] somme_pays_def mult.commute cong: if_cong)

theorem places_le:
  assumes h: "hebdo_ok h" and n: "numeros_distincts h"
    and niv: "\<forall>pays < NombreDePays h. \<not> niveau_impossible h pays"
  shows "places h \<le> nb_contraintes_prevues h"
proof -
  let ?T = "NombreDePasDeTempsPourUneOptimisation h"
  have "somme_pays h (\<lambda>p. places_energie h p + places_bornes h p + places_pompage h p +
      places_niveau h p * ?T) \<le> somme_pays h (nb_contraintes_hydro h)"
    by (rule somme_pays_mono) (rule places_hydro_le [OF niv])
  then have hydro: "somme_pays h (places_energie h) + somme_pays h (places_bornes h) +
      somme_pays h (places_pompage h) + somme_pays h (places_niveau h) * ?T
      \<le> somme_pays h (nb_contraintes_hydro h)"
    by (simp add: somme_pays_add somme_pays_mult mult.commute [of _ ?T])
  have stock: "somme_pays h (places_stock h)
      \<le> somme_pays h (\<lambda>pays. if AccurateWaterValue (hydro_de h pays) then 2 else 0)"
    by (rule somme_pays_mono) (simp add: places_stock_def)
  have heures: "places_horaires h * ?T \<le> (NombreDePays h + NombreDePays h + NombreDInterconnexions h +
      nb_couplantes h CONTRAINTE_HORAIRE) * ?T + NumberOfShortTermStorages h * ?T"
    using mult_le_mono1 [OF nb_stockages_le [OF h n], of ?T]
    by (simp add: places_horaires_eq add_mult_distrib)
  have jours: "nb_couplantes h CONTRAINTE_JOURNALIERE * (?T div NombreDePasDeTempsDUneJournee h)
      \<le> nb_couplantes h CONTRAINTE_JOURNALIERE * nombreDeJoursDansUnIntervalleOptimise h"
    by (rule mult_le_mono2) (rule nb_jours_le [OF h])
  show ?thesis
    using hydro stock heures jours
    unfolding places_def nb_contraintes_prevues_def nb_contraintes_lineaires_def places_lissage_eq
    by linarith
qed
end
