(* ===== verification/Row_Width.thy ===== *)
theory Row_Width
  imports Problem_Counting
begin

text \<open>
  The work vectors \<open>Pi\<close> and \<open>Colonne\<close> of \<open>PROBLEME_ANTARES_A_RESOUDRE\<close> hold one row while a
  \<open>ConstraintBuilder\<close> collects it. They are allocated with one slot per variable
  (\<open>OPT_AllocateFromNumberOfVariableConstraints\<close>), without any check in
  \<open>ConstraintBuilder::AddVariable\<close>. Main fact (\<open>lignes_tiennent\<close>): no row of the problem is longer
  than that, as soon as the optimisation range has four hours and no binding constraint names a link
  or a cluster more than once.
\<close>

definition tailles_ok :: "PROBLEME_HEBDO \<Rightarrow> bool" where
  "tailles_ok h \<longleftrightarrow> 4 \<le> NombreDePasDeTempsPourUneOptimisation h \<and>
     list_all (\<lambda>c. NombreDInterconnexionsDansLaContrainteCouplante c \<le> NombreDInterconnexions h \<and>
        NombreDePaliersDispatchDansLaContrainteCouplante c \<le> somme_pays h (nb_paliers h))
       (MatriceDesContraintesCouplantes h)"

subsection \<open>Lengths\<close>

lemma length_terme: "length (terme K hr nv c) \<le> 1"
  by (simp add: terme_def)

lemma length_concat_le:
  "(\<And>x. x \<in> set xs \<Longrightarrow> length (f x) \<le> k) \<Longrightarrow> length (concat (map f xs)) \<le> length xs * k"
  by (induction xs) (auto intro: add_mono)

lemma length_concat_termes: "length (concat (map (\<lambda>x. terme K (hr x) (nv x) (c x)) xs)) \<le> length xs"
  using length_concat_le [of xs "\<lambda>x. terme K (hr x) (nv x) (c x)" 1] length_terme by simp

lemma length_append_le: "length xs \<le> m \<Longrightarrow> length ys \<le> n \<Longrightarrow> length (xs @ ys) \<le> m + n"
  by simp



lemma tient_rang: "length ts \<le> knv K \<Longrightarrow> tient K (rang op ts)"
  by (simp add: tient_def rang_def)

lemma tient_Nil [simp]: "tient K []"
  by (simp add: tient_def)

lemma tient_append [simp]: "tient K (xs @ ys) \<longleftrightarrow> tient K xs \<and> tient K ys"
  by (auto simp: tient_def)

lemma tient_concat: "(\<And>x. x \<in> set xs \<Longrightarrow> tient K (f x)) \<Longrightarrow> tient K (concat (map f xs))"
  by (fastforce simp: tient_def)

lemma tient_rang_le: "length ts \<le> n \<Longrightarrow> n \<le> knv K \<Longrightarrow> tient K (rang op ts)"
  by (rule tient_rang) (rule order_trans)

subsection \<open>The room there is\<close>

lemma somme_pays_elem: "p < NombreDePays h \<Longrightarrow> f p \<le> somme_pays h f"
  unfolding somme_pays_def by (rule sum_list_ge_elem) simp

lemma elem_somme_paliers:
  assumes "pays < NombreDePays h" and "i < nb_paliers h pays"
  shows "k pays i \<le> somme_paliers h k"
proof -
  have "k pays i \<le> sum_list (map (k pays) [0..<nb_paliers h pays])"
    by (rule sum_list_ge_elem) (use assms in simp)
  also have "\<dots> \<le> somme_paliers h k"
    unfolding somme_paliers_def
    by (rule sum_list_ge_elem [where f = "\<lambda>p. sum_list (map (k p) [0..<nb_paliers h p])"])
      (use assms in simp)
  finally show ?thesis .
qed

lemma stockages_pays_le:
  assumes "hebdo_ok h" and "numeros_distincts h" and "pays < NombreDePays h"
  shows "length (ShortTermStorage h ! pays) \<le> NumberOfShortTermStorages h"
  using nb_stockages_le [OF assms(1,2)] somme_pays_elem [OF assms(3), of "\<lambda>p. length (ShortTermStorage h ! p)"]
  by (simp add: nb_stockages_def)

lemma nb_variables_prevues_ge:
  "(3 * NombreDInterconnexions h + somme_pays h (\<lambda>pays. nb_paliers h pays + nb_hydro h pays + 2)) *
       NombreDePasDeTempsPourUneOptimisation h +
     3 * NumberOfShortTermStorages h * NombreDePasDeTempsPourUneOptimisation h \<le> nb_variables_prevues h"
  unfolding nb_variables_prevues_def by linarith

lemma place_pays:
  assumes h: "hebdo_ok h" and n: "numeros_distincts h" and t: "tailles_ok h" and p: "pays < NombreDePays h"
  shows "2 * NombreDInterconnexions h + nb_paliers h pays + 4 + 2 * length (ShortTermStorage h ! pays)
      \<le> nb_variables_prevues h"
    and "2 * NombreDePasDeTempsPourUneOptimisation h \<le> nb_variables_prevues h"
proof -
  let ?T = "NombreDePasDeTempsPourUneOptimisation h"
  let ?I = "NombreDInterconnexions h"
  let ?S = "somme_pays h (\<lambda>pays. nb_paliers h pays + nb_hydro h pays + 2)"
  have T: "4 \<le> ?T" using t by (simp add: tailles_ok_def)
  have S: "nb_paliers h pays + 2 \<le> ?S"
    using somme_pays_elem [OF p, of "\<lambda>pays. nb_paliers h pays + nb_hydro h pays + 2"] by simp
  note total = nb_variables_prevues_ge [of h]
  have "(3 * ?I + nb_paliers h pays + 2) * ?T \<le> (3 * ?I + ?S) * ?T"
    using S by (intro mult_le_mono1) simp
  moreover have "(3 * ?I + nb_paliers h pays + 2) * 4 \<le> (3 * ?I + nb_paliers h pays + 2) * ?T"
    using T by (intro mult_le_mono2)
  moreover have "3 * length (ShortTermStorage h ! pays) * 4 \<le> 3 * NumberOfShortTermStorages h * ?T"
    using stockages_pays_le [OF h n p] T by (intro mult_le_mono) simp_all
  ultimately have "(3 * ?I + nb_paliers h pays + 2) * 4 + 3 * length (ShortTermStorage h ! pays) * 4
      \<le> nb_variables_prevues h"
    by (intro order_trans [OF _ total] add_mono) (erule (1) order_trans)
  then show "2 * ?I + nb_paliers h pays + 4 + 2 * length (ShortTermStorage h ! pays)
      \<le> nb_variables_prevues h"
    by simp
  have "2 * ?T \<le> (3 * ?I + ?S) * ?T"
    using S by (intro mult_le_mono1) simp
  with add_leD1 [OF total] show "2 * ?T \<le> nb_variables_prevues h" by (rule order_trans [rotated])
qed

lemma place_interco:
  assumes "tailles_ok h" and "l < NombreDInterconnexions h"
  shows "3 \<le> nb_variables_prevues h"
proof -
  have "3 * 1 * 1 \<le> (3 * NombreDInterconnexions h + somme_pays h (\<lambda>pays. nb_paliers h pays + nb_hydro h pays + 2)) *
      NombreDePasDeTempsPourUneOptimisation h"
    using assms by (intro mult_le_mono) (auto simp: tailles_ok_def)
  with add_leD1 [OF nb_variables_prevues_ge [of h]] show ?thesis by simp
qed

lemma place_couplante:
  "(NombreDInterconnexions h + somme_pays h (nb_paliers h)) * NombreDePasDeTempsPourUneOptimisation h
     \<le> nb_variables_prevues h"
proof -
  have "somme_pays h (nb_paliers h) \<le> somme_pays h (\<lambda>pays. nb_paliers h pays + nb_hydro h pays + 2)"
    by (rule somme_pays_mono) simp
  then have "(NombreDInterconnexions h + somme_pays h (nb_paliers h)) * NombreDePasDeTempsPourUneOptimisation h
      \<le> (3 * NombreDInterconnexions h + somme_pays h (\<lambda>pays. nb_paliers h pays + nb_hydro h pays + 2)) *
        NombreDePasDeTempsPourUneOptimisation h"
    by (intro mult_le_mono1) simp
  with add_leD1 [OF nb_variables_prevues_ge [of h]] show ?thesis by (rule order_trans [rotated])
qed

lemma place_stock:
  assumes "pays < NombreDePays h" and "AccurateWaterValue (hydro_de h pays)"
  shows "101 \<le> nb_variables_prevues h"
  using somme_pays_elem [OF assms(1), of "\<lambda>pays. if AccurateWaterValue (hydro_de h pays) then 101 else 0"]
    assms(2) by (simp add: nb_variables_prevues_def)

lemma place_demarrage:
  assumes "OptimisationAvecCoutsDeDemarrage h" and "pays < NombreDePays h" and "i < nb_paliers h pays"
  shows "4 * NombreDePasDeTempsPourUneOptimisation h \<le> nb_variables_prevues h"
  using elem_somme_paliers [OF assms(2,3), of "\<lambda>pays i. 4 * NombreDePasDeTempsPourUneOptimisation h"] assms(1)
  by (simp add: nb_variables_prevues_def)

subsection \<open>Every row fits\<close>

text \<open>A context whose work vectors have one slot per variable that was counted.\<close>

definition contexte_large :: "contexte \<Rightarrow> bool" where
  "contexte_large K \<longleftrightarrow> hebdo_ok (kh K) \<and> numeros_distincts (kh K) \<and> tailles_ok (kh K) \<and>
     knv K = nb_variables_prevues (kh K)"

lemma length_termes_paliers:
  assumes "hebdo_ok (kh K)" and "pays < NombreDePays (kh K)"
  shows "length (termes_paliers K hr pays) \<le> nb_paliers (kh K) pays"
  using length_concat_termes [of K "\<lambda>_. hr" DispatchableProduction "\<lambda>_. - 1"] assms
  by (simp add: termes_paliers_def) (metis hebdo_ok_len_paliers(1))

lemma length_liens:
  "length (liens_origine h pays) \<le> NombreDInterconnexions h"
  "length (liens_extremite h pays) \<le> NombreDInterconnexions h"
  by (simp_all add: liens_origine_def liens_extremite_def length_liens_le)

lemma tient_AreaBalance:
  assumes K: "contexte_large K" and p: "pays < NombreDePays (kh K)"
  shows "tient K (ligne_AreaBalance K pdt pays)"
proof -
  let ?h = "kh K"
  have h: "hebdo_ok ?h" using K by (simp add: contexte_large_def)
  have "length (concat (map (\<lambda>st. terme K pdt (ShortTermStorageInjection (clusterGlobalIndex st)) 1 @
       terme K pdt (ShortTermStorageWithdrawal (clusterGlobalIndex st)) (- 1)) (ShortTermStorage ?h ! pays)))
     \<le> length (ShortTermStorage ?h ! pays) * (1 + 1)"
    by (intro length_concat_le length_append_le length_terme)
  note s = this
  note l = order_trans [OF length_concat_termes length_liens(1)]
    order_trans [OF length_concat_termes length_liens(2)]
  show ?thesis
    unfolding ligne_AreaBalance_def
    by (rule tient_rang_le, (rule length_append_le l s length_termes_paliers [OF h p] length_terme)+)
      (use place_pays(1) [of ?h pays] K p in \<open>simp add: contexte_large_def\<close>)
qed

lemma tient_FictitiousLoad:
  assumes K: "contexte_large K" and p: "pays < NombreDePays (kh K)"
  shows "tient K (ligne_FictitiousLoad K pdt pays)"
proof -
  have h: "hebdo_ok (kh K)" using K by (simp add: contexte_large_def)
  show ?thesis
    unfolding ligne_FictitiousLoad_def
    by (rule tient_rang_le, (rule length_append_le length_termes_paliers [OF h p] length_terme)+)
      (use place_pays(1) [of "kh K" pays] K p in \<open>simp add: contexte_large_def\<close>)
qed

lemma place_petite:
  assumes "contexte_large K" and "pays < NombreDePays (kh K)"
  shows "8 \<le> knv K"
  using place_pays(2) [of "kh K" pays] assms by (simp add: contexte_large_def tailles_ok_def)

lemma tient_petite:
  assumes "contexte_large K" and "pays < NombreDePays (kh K)" and "length ts \<le> 8"
  shows "tient K (rang op ts)"
  by (rule tient_rang_le [OF assms(3) place_petite [OF assms(1,2)]])

lemma length_5_termes:
  "length (terme K a na ca @ terme K b nb cb @ terme K c nc cc @ terme K d nd cd) \<le> 8"
  "length (terme K a na ca @ terme K b nb cb) \<le> 8"
  "length (terme K a na ca @ terme K b nb cb @ terme K c nc cc @ terme K d nd cd @ terme K e ne ce) \<le> 8"
  by (simp_all add: terme_def)

lemma tient_petites_lignes:
  assumes K: "contexte_large K" and p: "pays < NombreDePays (kh K)"
  shows "tient K (lignes_ShortTermStorageLevel K pdt pays)"
    and "tient K (ligne_VariationSum K pays pdt)" and "tient K (lignes_VariationSum K pays)"
    and "tient K (ligne_VariationMaxDown K pays pdt)" and "tient K (ligne_VariationMaxUp K pays pdt)"
    and "tient K (ligne_AreaHydroLevel K pays pdt)" and "tient K (ligne_FinalStockEquivalent K pays)"
    and "tient K (ligne_PMax K pays i pdt)" and "tient K (ligne_PMin K pays i pdt)"
    and "tient K (ligne_Consistence K pays i pdt)" and "tient K (ligne_NbUnitsOutage K pays i pdt)"
proof -
  note t = tient_petite [OF K p]
  show "tient K (lignes_ShortTermStorageLevel K pdt pays)"
    unfolding lignes_ShortTermStorageLevel_def ligne_stockage_def Let_def
    by (intro tient_concat t length_5_termes)
  show v: "tient K (ligne_VariationSum K pays pdt)" for pdt
    unfolding ligne_VariationSum_def by (intro t length_5_termes)
  show "tient K (lignes_VariationSum K pays)"
    unfolding lignes_VariationSum_def by (auto intro!: tient_concat v)
  show "tient K (ligne_VariationMaxDown K pays pdt)" "tient K (ligne_VariationMaxUp K pays pdt)"
    "tient K (ligne_AreaHydroLevel K pays pdt)" "tient K (ligne_FinalStockEquivalent K pays)"
    unfolding ligne_VariationMaxDown_def ligne_VariationMaxUp_def ligne_AreaHydroLevel_def
      ligne_FinalStockEquivalent_def
    by (auto intro!: t length_5_termes simp del: length_append)
  show "tient K (ligne_PMax K pays i pdt)" "tient K (ligne_PMin K pays i pdt)"
    "tient K (ligne_Consistence K pays i pdt)" "tient K (ligne_NbUnitsOutage K pays i pdt)"
    unfolding ligne_PMax_def ligne_PMin_def ligne_Consistence_def ligne_NbUnitsOutage_def
    by (intro t length_5_termes)+
qed

lemma tient_FlowDissociation:
  assumes K: "contexte_large K" and "l < NombreDInterconnexions (kh K)"
  shows "tient K (ligne_FlowDissociation K pdt l)"
proof -
  have "3 \<le> knv K"
    using place_interco [of "kh K" l] assms by (simp add: contexte_large_def)
  then show ?thesis
    by (auto simp: ligne_FlowDissociation_def terme_def intro!: tient_rang)
qed

lemma tient_somme:
  assumes K: "contexte_large K" and p: "pays < NombreDePays (kh K)" and f: "\<And>pdt. length (f pdt) \<le> 2"
  shows "tient K (rang op (somme K f))"
proof (rule tient_rang_le)
  show "length (somme K f) \<le> length (heures (kh K)) * 2"
    unfolding somme_def by (rule length_concat_le) (rule f)
  show "length (heures (kh K)) * 2 \<le> knv K"
    using place_pays(2) [of "kh K" pays] K p by (simp add: contexte_large_def)
qed

lemma tient_energies:
  assumes "contexte_large K" and "pays < NombreDePays (kh K)"
  shows "tient K (ligne_HydroPower K pays)" and "tient K (ligne_MinHydroPower K pays)"
    and "tient K (ligne_MaxHydroPower K pays)" and "tient K (ligne_MaxPumping K pays)"
  unfolding ligne_HydroPower_def ligne_MinHydroPower_def ligne_MaxHydroPower_def ligne_MaxPumping_def
  by (auto intro!: tient_somme [OF assms] simp: terme_def)

lemma tient_FinalStockExpression:
  assumes K: "contexte_large K" and p: "pays < NombreDePays (kh K)"
  shows "tient K (ligne_FinalStockExpression K pays)"
proof (cases "AccurateWaterValue (hydro K pays)")
  case True
  have "101 \<le> knv K"
    using place_stock [OF p True] K by (simp add: contexte_large_def)
  moreover have "length (concat (map (\<lambda>l. terme K (derniere_heure K) (LayerStorage pays l) 1) [0..<100])) \<le> 100"
    using length_concat_termes [of K "\<lambda>_. derniere_heure K" "LayerStorage pays" "\<lambda>_. 1" "[0..<100]"]
    by (simp del: upt_rec_numeral)
  ultimately show ?thesis
    unfolding ligne_FinalStockExpression_def
    using length_terme [of K "derniere_heure K" "FinalStorage pays" "- 1"]
    by (auto intro!: tient_rang simp del: upt_rec_numeral)
qed (simp add: ligne_FinalStockExpression_def)

lemma taille_fenetre: "int (length (fenetre K pdt d)) = max 0 d"
  by (simp add: fenetre_def)

lemma tient_demarrage:
  assumes K: "contexte_large K" and D: "OptimisationAvecCoutsDeDemarrage (kh K)"
    and p: "pays < NombreDePays (kh K)" and i: "i < nb_paliers (kh K) pays"
  shows "tient K (ligne_MinUpTime K pays i pdt)" and "tient K (ligne_MinDownTime K pays i pdt)"
proof -
  let ?h = "kh K"
  let ?T = "NombreDePasDeTempsPourUneOptimisation ?h"
  have h: "hebdo_ok ?h" using K by (simp add: contexte_large_def)
  have "list_all (demarrage_ok ?h) (PaliersThermiquesDuPays ?h)"
    using h D unfolding hebdo_ok_def by blast
  then have d: "demarrage_ok ?h (paliers_du K pays)"
    using h p by (simp add: list_all_length)
  have larg: "1 + ?T * 2 \<le> knv K"
    using place_demarrage [OF D p i] K by (simp add: contexte_large_def tailles_ok_def)
  have fen: "length (fenetre K pdt e) \<le> ?T" if "e \<le> int ?T" for e
    using taille_fenetre [of K pdt e] that by linarith
  have up: "length (fenetre K pdt (DureeMinimaleDeMarcheDUnGroupeDuPalierThermique (paliers_du K pays) ! i)) \<le> ?T"
    and down: "length (fenetre K pdt (DureeMinimaleDArretDUnGroupeDuPalierThermique (paliers_du K pays) ! i)) \<le> ?T"
    using d h p i by (auto simp: demarrage_ok_def list_all_length intro!: fen)
  have court: "length (concat (map f (fenetre K pdt e))) \<le> ?T * 2"
    if "length (fenetre K pdt e) \<le> ?T" and "\<And>t. length (f t) \<le> 2" for f :: "nat \<Rightarrow> (int \<times> real) list" and e
    by (rule order_trans [OF length_concat_le [where k = 2]]) (use that in simp_all)
  show "tient K (ligne_MinUpTime K pays i pdt)"
    unfolding ligne_MinUpTime_def
    by (rule tient_rang_le [OF length_append_le [OF length_terme court [OF up]] larg]) (simp add: terme_def)
  show "tient K (ligne_MinDownTime K pays i pdt)"
    unfolding ligne_MinDownTime_def
    by (rule tient_rang_le [OF length_append_le [OF length_terme court [OF down]] larg]) (simp add: terme_def)
qed

lemma tient_couplante:
  assumes K: "contexte_large K" and c: "cnt < NombreDeContraintesCouplantes (kh K)"
    and "length pdts \<le> NombreDePasDeTempsPourUneOptimisation (kh K)"
  shows "tient K (ligne_couplante K (couplante K cnt) pdts)"
  unfolding ligne_couplante_def
proof (rule tient_rang_le)
  let ?h = "kh K" and ?c = "couplante K cnt"
  let ?P = "length pdts * 1"
  have dec: "length (termes_decales K nv pdts i poids off) \<le> ?P" for nv i poids off
    unfolding termes_decales_def by (rule length_concat_le) (rule length_terme)
  show "length (termes_couplante K ?c pdts) \<le>
      length [0..<NombreDInterconnexionsDansLaContrainteCouplante ?c] * ?P +
      length [0..<NombreDePaliersDispatchDansLaContrainteCouplante ?c] * ?P"
    unfolding termes_couplante_def by (intro length_append_le length_concat_le dec)
  have n: "NombreDInterconnexionsDansLaContrainteCouplante ?c \<le> NombreDInterconnexions ?h"
    "NombreDePaliersDispatchDansLaContrainteCouplante ?c \<le> somme_pays ?h (nb_paliers ?h)"
    using K c by (auto simp: contexte_large_def tailles_ok_def list_all_length)
  have "(NombreDInterconnexionsDansLaContrainteCouplante ?c +
      NombreDePaliersDispatchDansLaContrainteCouplante ?c) * ?P
    \<le> (NombreDInterconnexions ?h + somme_pays ?h (nb_paliers ?h)) * NombreDePasDeTempsPourUneOptimisation ?h"
    using n assms(3) by (intro mult_le_mono add_mono) simp_all
  also have "\<dots> \<le> knv K" using place_couplante [of ?h] K by (simp add: contexte_large_def)
  finally show "length [0..<NombreDInterconnexionsDansLaContrainteCouplante ?c] * ?P +
      length [0..<NombreDePaliersDispatchDansLaContrainteCouplante ?c] * ?P \<le> knv K"
    by (simp add: add_mult_distrib)
qed

lemma tient_couplantes:
  assumes K: "contexte_large K" and c: "cnt < NombreDeContraintesCouplantes (kh K)"
  shows "tient K (ligne_BindingConstraintHour K pdt cnt)"
    and "tient K (lignes_BindingConstraintDay K cnt)" and "tient K (ligne_BindingConstraintWeek K cnt)"
proof -
  let ?h = "kh K"
  have h: "hebdo_ok ?h" using K by (simp add: contexte_large_def)
  then have "horizon_ok ?h" "jours_ok ?h" unfolding hebdo_ok_def by auto
  then have j: "length (jour_depuis ?h d) \<le> NombreDePasDeTempsPourUneOptimisation ?h" for d
    by (auto simp: jour_depuis_def horizon_ok_def jours_ok_def dest: dvd_imp_le)
  have un: "length [pdt] \<le> NombreDePasDeTempsPourUneOptimisation ?h"
    using K by (simp add: contexte_large_def tailles_ok_def)
  show "tient K (ligne_BindingConstraintHour K pdt cnt)"
    "tient K (lignes_BindingConstraintDay K cnt)" "tient K (ligne_BindingConstraintWeek K cnt)"
    using tient_couplante [OF K c un] tient_couplante [OF K c j]
      tient_couplante [OF K c, of "heures ?h"]
    by (auto simp: ligne_BindingConstraintHour_def lignes_BindingConstraintDay_def
        ligne_BindingConstraintWeek_def intro!: tient_concat)
qed

lemma tient_par_pays:
  "(\<And>pays. pays < NombreDePays h \<Longrightarrow> tient K (f pays)) \<Longrightarrow> tient K (par_pays h f)"
  unfolding par_pays_def by (rule tient_concat) simp

lemma tient_par_couplante:
  "(\<And>c. c < NombreDeContraintesCouplantes h \<Longrightarrow> tient K (f c)) \<Longrightarrow> tient K (par_couplante h f)"
  unfolding par_couplante_def by (rule tient_concat) simp

lemma tient_par_palier:
  "(\<And>pays i. pays < NombreDePays h \<Longrightarrow> i < nb_paliers h pays \<Longrightarrow> tient K (f pays i)) \<Longrightarrow>
     tient K (par_palier h f)"
  unfolding par_palier_def by (intro tient_concat) simp

lemma tient_lignes_demarrage:
  assumes K: "contexte_large K" and D: "OptimisationAvecCoutsDeDemarrage (kh K)"
  shows "tient K (lignes_demarrage K)"
  unfolding lignes_demarrage_def tient_append
  using tient_petites_lignes [OF K] tient_demarrage [OF K D]
  by (auto intro!: tient_par_palier tient_concat)

theorem lignes_tiennent:
  assumes K: "contexte_large K"
  shows "tient K (liste_lignes K)"
proof -
  have "tient K (lignes_horaires K pdt)" for pdt
    unfolding lignes_horaires_def
    using tient_AreaBalance [OF K] tient_FictitiousLoad [OF K] tient_petites_lignes [OF K]
      tient_FlowDissociation [OF K] tient_couplantes [OF K]
    by (auto intro!: tient_par_pays tient_par_couplante tient_concat)
  moreover have "tient K (lignes_lissage K)"
    using tient_petites_lignes [OF K]
    by (cases "TypeDeLissageHydraulique (kh K)")
      (auto simp: lignes_lissage_def intro!: tient_par_pays tient_concat)
  ultimately show ?thesis
    unfolding liste_lignes_def
    using tient_couplantes [OF K] tient_energies [OF K] tient_petites_lignes [OF K]
      tient_FinalStockExpression [OF K] tient_lignes_demarrage [OF K]
    by (auto intro!: tient_par_pays tient_par_couplante tient_concat)
qed

end
