(* ===== verification/Problem_Pipeline.thy ===== *)
theory Problem_Pipeline
  imports Row_Width
begin

text \<open>
  The whole construction, as \<open>OPT_PilotageOptimisationLineaire\<close>
  (\<open>src/src/solver/optimisation/opt_pilotage_optimisation_lineaire.cpp\<close>) and
  \<open>OPT_OptimisationLineaire\<close> (\<open>opt_optimisation_lineaire.cpp\<close>) run it: choice of the optimisation
  range, allocation, chaining of the links, numbering of the days and of the ranges
  (\<open>opt_numero_de_jour_du_pas_de_temps.cpp\<close>), numbering of the variables, matrix. Main fact
  (\<open>construire_probleme_ok\<close>): on well-formed data every step ends normally, the rows are those of
  \<open>liste_lignes\<close> and the variables those of \<open>liste_variables\<close>; and the construction can be run again
  on its own result, week after week.
\<close>

subsection \<open>The code\<close>

definition choisir_horizon :: "PROBLEME_HEBDO \<Rightarrow> PROBLEME_HEBDO" where
  "choisir_horizon h = h\<lparr>NombreDePasDeTempsPourUneOptimisation :=
     (if \<not> OptimisationAuPasHebdomadaire h then NombreDePasDeTempsDUneJournee h
      else NombreDePasDeTemps h)\<rparr>"

text \<open>The part of the pilot that runs once, when the problem is not yet instantiated.\<close>

definition instancier :: "PROBLEME_HEBDO \<Rightarrow> etat \<Rightarrow> (PROBLEME_HEBDO \<times> etat) resultat" where
  "instancier h s =
     (let h = choisir_horizon (h\<lparr>NombreDeJours :=
            NombreDePasDeTemps h div NombreDePasDeTempsDUneJournee h\<rparr>) in
      bindE (OPT_AllocDuProblemeAOptimiser h s) (\<lambda>s.
      bindE (OPT_ChainagesDesIntercoPartantDUnNoeud h) (\<lambda>h. Inr (h, s))))"

definition OPT_NumeroDeJourDuPasDeTemps :: "PROBLEME_HEBDO \<Rightarrow> PROBLEME_HEBDO resultat" where
  "OPT_NumeroDeJourDuPasDeTemps h =
     forE [0..<NombreDePasDeTemps h] (\<lambda>pdtHebdo h.
       bindE (ecrire (NumeroDeJourDuPasDeTemps h) pdtHebdo
                (pdtHebdo div NombreDePasDeTempsDUneJournee h)) (\<lambda>xs.
       Inr (h\<lparr>NumeroDeJourDuPasDeTemps := xs\<rparr>)))
     (h\<lparr>NombreDeJours := NombreDePasDeTemps h div NombreDePasDeTempsDUneJournee h\<rparr>)"

definition OPT_NumeroDIntervalleOptimiseDuPasDeTemps :: "PROBLEME_HEBDO \<Rightarrow> PROBLEME_HEBDO resultat" where
  "OPT_NumeroDIntervalleOptimiseDuPasDeTemps h =
     forE [0..<NombreDePasDeTemps h] (\<lambda>pdtHebdo h.
       bindE (ecrire (NumeroDIntervalleOptimiseDuPasDeTemps h) pdtHebdo
                (pdtHebdo div NombreDePasDeTempsPourUneOptimisation h)) (\<lambda>xs.
       Inr (h\<lparr>NumeroDIntervalleOptimiseDuPasDeTemps := xs\<rparr>))) h"

text \<open>The part of \<open>OPT_OptimisationLineaire\<close> before the bounds, the costs and the solver.\<close>

definition construire_probleme :: "PROBLEME_HEBDO \<Rightarrow> etat \<Rightarrow> (PROBLEME_HEBDO \<times> etat) resultat" where
  "construire_probleme h s =
     bindE (OPT_NumeroDeJourDuPasDeTemps (choisir_horizon h)) (\<lambda>h.
     bindE (OPT_NumeroDIntervalleOptimiseDuPasDeTemps h) (\<lambda>h.
     bindE (OPT_ConstruireLaListeDesVariablesOptimiseesDuProblemeLineaire h s) (\<lambda>s.
     bindE (OPT_ConstruireLaMatriceDesContraintesDuProblemeLineaire h s) (\<lambda>s.
     Inr (h, s)))))"

subsection \<open>What the allocation reads\<close>

text \<open>The allocation does not look at the chaining of the links nor at the numbering of the days.\<close>

definition avec_preparation ::
  "PROBLEME_HEBDO \<Rightarrow> PROBLEME_HEBDO \<Rightarrow> PROBLEME_HEBDO" where
  "avec_preparation g h = h\<lparr>NombreDeJours := NombreDeJours g,
     NumeroDeJourDuPasDeTemps := NumeroDeJourDuPasDeTemps g,
     NumeroDIntervalleOptimiseDuPasDeTemps := NumeroDIntervalleOptimiseDuPasDeTemps g,
     IndexDebutIntercoOrigine := IndexDebutIntercoOrigine g,
     IndexSuivantIntercoOrigine := IndexSuivantIntercoOrigine g,
     IndexDebutIntercoExtremite := IndexDebutIntercoExtremite g,
     IndexSuivantIntercoExtremite := IndexSuivantIntercoExtremite g\<rparr>"

lemma avec_preparation_sel [simp]:
  "NombreDePays (avec_preparation g h) = NombreDePays h"
  "NombreDInterconnexions (avec_preparation g h) = NombreDInterconnexions h"
  "NombreDePasDeTemps (avec_preparation g h) = NombreDePasDeTemps h"
  "NombreDePasDeTempsPourUneOptimisation (avec_preparation g h) = NombreDePasDeTempsPourUneOptimisation h"
  "NombreDePasDeTempsDUneJournee (avec_preparation g h) = NombreDePasDeTempsDUneJournee h"
  "PaliersThermiquesDuPays (avec_preparation g h) = PaliersThermiquesDuPays h"
  "CaracteristiquesHydrauliques (avec_preparation g h) = CaracteristiquesHydrauliques h"
  "NombreDeContraintesCouplantes (avec_preparation g h) = NombreDeContraintesCouplantes h"
  "MatriceDesContraintesCouplantes (avec_preparation g h) = MatriceDesContraintesCouplantes h"
  "NumberOfShortTermStorages (avec_preparation g h) = NumberOfShortTermStorages h"
  "TypeDeLissageHydraulique (avec_preparation g h) = TypeDeLissageHydraulique h"
  "OptimisationAvecCoutsDeDemarrage (avec_preparation g h) = OptimisationAvecCoutsDeDemarrage h"
  "OptimisationAvecVariablesEntieres (avec_preparation g h) = OptimisationAvecVariablesEntieres h"
  "NomsDesPays (avec_preparation g h) = NomsDesPays h"
  "weekInTheYear (avec_preparation g h) = weekInTheYear h"
  "NombreTotalDePaliersThermiques (avec_preparation g h) = NombreTotalDePaliersThermiques h"
  "ShortTermStorage (avec_preparation g h) = ShortTermStorage h"
  by (simp_all add: avec_preparation_def)

lemma pour_paliers_preparation [simp]:
  "pour_paliers_du_pays (avec_preparation g h) = pour_paliers_du_pays h"
  "heures (avec_preparation g h) = heures h"
  "heure_annee (avec_preparation g h) = heure_annee h"
  "variables_demarrage (avec_preparation g h) True = variables_demarrage h True"
  by (simp_all add: pour_paliers_du_pays_def [abs_def] heures_def heure_annee_def [abs_def]
      variables_demarrage_def [abs_def] Let_def)

lemma demarrage_simule_preparation:
  "PMaxDispatchableGeneration_add (avec_preparation g h) pays p i pdt True = PMaxDispatchableGeneration_add h pays p i pdt True"
  "PMinDispatchableGeneration_add (avec_preparation g h) pays p i pdt True = PMinDispatchableGeneration_add h pays p i pdt True"
  "ConsistenceNumberOfDispatchableUnits_add (avec_preparation g h) pays p i pdt True = ConsistenceNumberOfDispatchableUnits_add h pays p i pdt True"
  "NbUnitsOutageLessThanNbUnitsStop_add (avec_preparation g h) pays p i pdt True = NbUnitsOutageLessThanNbUnitsStop_add h pays p i pdt True"
  "NbDispUnitsMinBoundSinceMinUpTime_add (avec_preparation g h) pays p i pdt True = NbDispUnitsMinBoundSinceMinUpTime_add h pays p i pdt True"
  "MinDownTime_add (avec_preparation g h) pays p i pdt True = MinDownTime_add h pays p i pdt True"
  by (simp_all add: PMaxDispatchableGeneration_add_def [abs_def] PMinDispatchableGeneration_add_def [abs_def]
    ConsistenceNumberOfDispatchableUnits_add_def [abs_def] NbUnitsOutageLessThanNbUnitsStop_add_def [abs_def]
    NbDispUnitsMinBoundSinceMinUpTime_add_def [abs_def] MinDownTime_add_def [abs_def])

lemma variables_demarrage_preparation:
  "variables_demarrage_pays (avec_preparation g h) True = variables_demarrage_pays h True"
  by (simp add: variables_demarrage_pays_def [abs_def])

lemma OPT_Alloc_preparation:
  "OPT_AllocDuProblemeAOptimiser (avec_preparation g h) = OPT_AllocDuProblemeAOptimiser h"
proof -
  have 1: "decompte_variables_pays (avec_preparation g h) = decompte_variables_pays h"
    "decompte_couplantes (avec_preparation g h) = decompte_couplantes h"
    "decompte_hydro (avec_preparation g h) = decompte_hydro h"
    "decompte_lissage (avec_preparation g h) = decompte_lissage h"
    "si_valeur_eau (avec_preparation g h) = si_valeur_eau h"
    "compter_mxPaliers (avec_preparation g h) = compter_mxPaliers h"
    "nombreDeJoursDansUnIntervalleOptimise (avec_preparation g h) = nombreDeJoursDansUnIntervalleOptimise h"
    "optimisationAllocateProblem (avec_preparation g h) = optimisationAllocateProblem h"
    by (simp_all add: decompte_variables_pays_def [abs_def] decompte_couplantes_def [abs_def]
        decompte_hydro_def [abs_def] decompte_lissage_def [abs_def] si_valeur_eau_def [abs_def]
        compter_mxPaliers_def nombreDeJoursDansUnIntervalleOptimise_def
        optimisationAllocateProblem_def [abs_def] nombreDeTermesPrevus_def Let_def)
  have 2: "boucle_PMax_PMin (avec_preparation g h) True = boucle_PMax_PMin h True"
    "boucle_Consistence (avec_preparation g h) True = boucle_Consistence h True"
    "boucle_NbUnitsOutage (avec_preparation g h) True = boucle_NbUnitsOutage h True"
    "boucle_MinUpTime (avec_preparation g h) True = boucle_MinUpTime h True"
    "boucle_MinDownTime (avec_preparation g h) True = boucle_MinDownTime h True"
    by (simp_all add: boucle_PMax_PMin_def [abs_def] boucle_Consistence_def [abs_def]
        boucle_NbUnitsOutage_def [abs_def] boucle_MinUpTime_def [abs_def] boucle_MinDownTime_def [abs_def]
        demarrage_simule_preparation cong: if_cong)
  have 3: "OPT_DecompteDesVariablesEtDesContraintesCoutsDeDemarrage (avec_preparation g h)
      = OPT_DecompteDesVariablesEtDesContraintesCoutsDeDemarrage h"
    by (simp add: OPT_DecompteDesVariablesEtDesContraintesCoutsDeDemarrage_def 2
        OPT_ConstruireLaMatriceDesContraintesDuProblemeLineaireCoutsDeDemarrage_def
        OPT_ConstruireLaListeDesVariablesOptimiseesDuProblemeLineaireCoutsDeDemarrage_def
        variables_demarrage_preparation)
  show ?thesis
    by (simp add: OPT_AllocDuProblemeAOptimiser_def [abs_def] 1 3
        OPT_DecompteDesVariablesEtDesContraintesDuProblemeAOptimiser_def)
qed

subsection \<open>The data\<close>

text \<open>What the input data must satisfy before anything is prepared: \<open>hebdo_ok\<close> without the chaining and
  the numbering of the days, which the code computes.\<close>

definition horaire_ok :: "PROBLEME_HEBDO \<Rightarrow> bool" where
  "horaire_ok h \<longleftrightarrow> 0 < NombreDePasDeTempsDUneJournee h \<and>
     NombreDePasDeTempsDUneJournee h dvd NombreDePasDeTemps h \<and> 0 < NombreDePasDeTemps h \<and>
     NombreDePasDeTemps h \<le> 7 * NombreDePasDeTempsDUneJournee h \<and> NombreDePasDeTemps h < 2 ^ 30 \<and>
     length (NumeroDeJourDuPasDeTemps h) = NombreDePasDeTemps h \<and>
     length (NumeroDIntervalleOptimiseDuPasDeTemps h) = NombreDePasDeTemps h"

definition structure_ok :: "PROBLEME_HEBDO \<Rightarrow> bool" where
  "structure_ok h \<longleftrightarrow> length (NomsDesPays h) = NombreDePays h \<and>
     length (CoutDeTransport h) = NombreDInterconnexions h \<and>
     length (PaliersThermiquesDuPays h) = NombreDePays h \<and>
     list_all (paliers_ok h) (PaliersThermiquesDuPays h) \<and>
     length (CaracteristiquesHydrauliques h) = NombreDePays h \<and>
     length (ShortTermStorage h) = NombreDePays h \<and>
     list_all (list_all (\<lambda>st. clusterGlobalIndex st < NumberOfShortTermStorages h)) (ShortTermStorage h) \<and>
     length (DefaillanceNegativeUtiliserHydro h) = NombreDePays h \<and>
     length (MatriceDesContraintesCouplantes h) = NombreDeContraintesCouplantes h \<and>
     list_all (couplante_ok h) (MatriceDesContraintesCouplantes h) \<and>
     (OptimisationAvecCoutsDeDemarrage h \<longrightarrow>
        list_all (demarrage_ok (choisir_horizon h)) (PaliersThermiquesDuPays h))"

text \<open>The data of a run: well formed, with distinct cluster and storage numbers, binding constraints
  without repeated members, and no area whose level cannot be followed.\<close>

definition donnees_ok :: "PROBLEME_HEBDO \<Rightarrow> bool" where
  "donnees_ok h \<longleftrightarrow> horaire_ok h \<and> structure_ok h \<and> intercos_ok h \<and> numeros_distincts h \<and>
     tailles_ok (choisir_horizon h) \<and> (\<forall>pays < NombreDePays h. \<not> niveau_impossible h pays)"

text \<open>The data once prepared.\<close>

definition pret_a_construire :: "PROBLEME_HEBDO \<Rightarrow> bool" where
  "pret_a_construire h \<longleftrightarrow> hebdo_ok h \<and> numeros_distincts h \<and> tailles_ok h \<and>
     (\<forall>pays < NombreDePays h. \<not> niveau_impossible h pays)"

lemma OPT_NumeroDeJour_ok:
  assumes "length (NumeroDeJourDuPasDeTemps h) = NombreDePasDeTemps h"
  shows "OPT_NumeroDeJourDuPasDeTemps h =
    Inr (h\<lparr>NombreDeJours := NombreDePasDeTemps h div NombreDePasDeTempsDUneJournee h,
           NumeroDeJourDuPasDeTemps :=
             map (\<lambda>pdt. pdt div NombreDePasDeTempsDUneJournee h) [0..<NombreDePasDeTemps h]\<rparr>)"
proof -
  let ?D = "NombreDePasDeTempsDUneJournee h"
  let ?J = "\<lambda>n. map (\<lambda>pdt. pdt div ?D) [0..<n] @ drop n (NumeroDeJourDuPasDeTemps h)"
  let ?h = "h\<lparr>NombreDeJours := NombreDePasDeTemps h div ?D\<rparr>"
  have "returns (forE [0..<NombreDePasDeTemps h] (\<lambda>pdtHebdo h.
       bindE (ecrire (NumeroDeJourDuPasDeTemps h) pdtHebdo
                (pdtHebdo div NombreDePasDeTempsDUneJournee h)) (\<lambda>xs.
       Inr (h\<lparr>NumeroDeJourDuPasDeTemps := xs\<rparr>))) ?h)
     (\<lambda>h'. h' = ?h\<lparr>NumeroDeJourDuPasDeTemps := ?J (NombreDePasDeTemps h)\<rparr>)"
    by (rule returns_for_upt)
      (use assms in \<open>auto simp: list_update_append1 list_update_append nth_append upd_conv_take_nth_drop
        Cons_nth_drop_Suc [symmetric]\<close>)
  then show ?thesis
    using assms by (auto simp: OPT_NumeroDeJourDuPasDeTemps_def dest!: returnsD)
qed

lemma OPT_NumeroDIntervalle_ok:
  assumes "length (NumeroDIntervalleOptimiseDuPasDeTemps h) = NombreDePasDeTemps h"
  shows "OPT_NumeroDIntervalleOptimiseDuPasDeTemps h =
    Inr (h\<lparr>NumeroDIntervalleOptimiseDuPasDeTemps :=
      map (\<lambda>pdt. pdt div NombreDePasDeTempsPourUneOptimisation h) [0..<NombreDePasDeTemps h]\<rparr>)"
proof -
  let ?D = "NombreDePasDeTempsPourUneOptimisation h"
  let ?J = "\<lambda>n. map (\<lambda>pdt. pdt div ?D) [0..<n] @ drop n (NumeroDIntervalleOptimiseDuPasDeTemps h)"
  have "returns (forE [0..<NombreDePasDeTemps h] (\<lambda>pdtHebdo h.
       bindE (ecrire (NumeroDIntervalleOptimiseDuPasDeTemps h) pdtHebdo
                (pdtHebdo div NombreDePasDeTempsPourUneOptimisation h)) (\<lambda>xs.
       Inr (h\<lparr>NumeroDIntervalleOptimiseDuPasDeTemps := xs\<rparr>))) h)
     (\<lambda>h'. h' = h\<lparr>NumeroDIntervalleOptimiseDuPasDeTemps := ?J (NombreDePasDeTemps h)\<rparr>)"
    by (rule returns_for_upt)
      (use assms in \<open>auto simp: list_update_append1 list_update_append nth_append upd_conv_take_nth_drop
        Cons_nth_drop_Suc [symmetric]\<close>)
  then show ?thesis
    using assms by (auto simp: OPT_NumeroDIntervalleOptimiseDuPasDeTemps_def dest!: returnsD)
qed

subsection \<open>The prepared data\<close>

definition prepare :: "PROBLEME_HEBDO \<Rightarrow> PROBLEME_HEBDO" where
  "prepare h = (let h = choisir_horizon h in
     h\<lparr>NombreDeJours := NombreDePasDeTemps h div NombreDePasDeTempsDUneJournee h,
       NumeroDeJourDuPasDeTemps :=
         map (\<lambda>pdt. pdt div NombreDePasDeTempsDUneJournee h) [0..<NombreDePasDeTemps h],
       NumeroDIntervalleOptimiseDuPasDeTemps :=
         map (\<lambda>pdt. pdt div NombreDePasDeTempsPourUneOptimisation h) [0..<NombreDePasDeTemps h]\<rparr>)"

lemma prepare_prepare [simp]: "prepare (prepare h) = prepare h"
  by (simp add: prepare_def Let_def choisir_horizon_def)

lemma sans_index_explicite:
  assumes "sans_index h' = sans_index h"
  shows "h' = h\<lparr>IndexDebutIntercoOrigine := IndexDebutIntercoOrigine h',
     IndexSuivantIntercoOrigine := IndexSuivantIntercoOrigine h',
     IndexDebutIntercoExtremite := IndexDebutIntercoExtremite h',
     IndexSuivantIntercoExtremite := IndexSuivantIntercoExtremite h'\<rparr>"
  using assms by (cases h; cases h') (simp add: sans_index_def)

text \<open>The data as \<open>instancier\<close> leaves them: the range is chosen and the links are chained.\<close>

definition avec_horizon :: "PROBLEME_HEBDO \<Rightarrow> PROBLEME_HEBDO" where
  "avec_horizon h = choisir_horizon (h\<lparr>NombreDeJours :=
     NombreDePasDeTemps h div NombreDePasDeTempsDUneJournee h\<rparr>)"

definition instancie :: "PROBLEME_HEBDO \<Rightarrow> PROBLEME_HEBDO \<Rightarrow> bool" where
  "instancie h h' \<longleftrightarrow> (\<exists>a b c d. h' = (avec_horizon h)\<lparr>IndexDebutIntercoOrigine := a,
       IndexSuivantIntercoOrigine := b, IndexDebutIntercoExtremite := c,
       IndexSuivantIntercoExtremite := d\<rparr>) \<and>
     intercos_ok h' \<and> chainage_jusqua h' (NombreDInterconnexions h')"

lemma instancieI:
  assumes "sans_index h' = sans_index (avec_horizon h)" and "intercos_ok h'"
    and "chainage_jusqua h' (NombreDInterconnexions h')"
  shows "instancie h h'"
  using assms sans_index_explicite [OF assms(1)] unfolding instancie_def by blast

text \<open>What the preparation and the chaining do not touch is read from the input data.\<close>

lemma paliers_ok_cong:
  "NombreTotalDePaliersThermiques h' = NombreTotalDePaliersThermiques h \<Longrightarrow> paliers_ok h' = paliers_ok h"
  by (intro ext) (simp add: paliers_ok_def)

lemma demarrage_ok_cong:
  "NombreDePasDeTempsPourUneOptimisation h' = NombreDePasDeTempsPourUneOptimisation h \<Longrightarrow>
     demarrage_ok h' = demarrage_ok h"
  by (intro ext) (simp add: demarrage_ok_def)

lemma couplante_ok_cong:
  assumes "NombreDInterconnexions h' = NombreDInterconnexions h" "NombreDePays h' = NombreDePays h"
    "NombreDePasDeTemps h' = NombreDePasDeTemps h" "PaliersThermiquesDuPays h' = PaliersThermiquesDuPays h"
  shows "couplante_ok h' = couplante_ok h"
  by (intro ext) (simp add: couplante_ok_def decalages_ok_def assms)

lemma pret_a_construire_prepare:
  assumes d: "donnees_ok h" and i: "instancie h h'"
  shows "pret_a_construire (prepare h')"
proof -
  obtain a b c e where h': "h' = (avec_horizon h)\<lparr>IndexDebutIntercoOrigine := a,
      IndexSuivantIntercoOrigine := b, IndexDebutIntercoExtremite := c, IndexSuivantIntercoExtremite := e\<rparr>"
    and ch: "intercos_ok h'" "chainage_jusqua h' (NombreDInterconnexions h')"
    using i unfolding instancie_def by blast
  let ?p = "prepare h'"
  have sel: "NombreDePays ?p = NombreDePays h" "NombreDInterconnexions ?p = NombreDInterconnexions h"
    "NombreDePasDeTemps ?p = NombreDePasDeTemps h"
    "NombreDePasDeTempsDUneJournee ?p = NombreDePasDeTempsDUneJournee h"
    "NombreDePasDeTempsPourUneOptimisation ?p = NombreDePasDeTempsPourUneOptimisation (choisir_horizon h)"
    "PaliersThermiquesDuPays ?p = PaliersThermiquesDuPays h"
    "CaracteristiquesHydrauliques ?p = CaracteristiquesHydrauliques h"
    "NombreTotalDePaliersThermiques ?p = NombreTotalDePaliersThermiques h"
    "NombreDeContraintesCouplantes ?p = NombreDeContraintesCouplantes h"
    "MatriceDesContraintesCouplantes ?p = MatriceDesContraintesCouplantes h"
    "NumberOfShortTermStorages ?p = NumberOfShortTermStorages h" "ShortTermStorage ?p = ShortTermStorage h"
    "OptimisationAvecCoutsDeDemarrage ?p = OptimisationAvecCoutsDeDemarrage h"
    "NomsDesPays ?p = NomsDesPays h" "CoutDeTransport ?p = CoutDeTransport h"
    "DefaillanceNegativeUtiliserHydro ?p = DefaillanceNegativeUtiliserHydro h"
    "NumeroDeJourDuPasDeTemps ?p = map (\<lambda>pdt. pdt div NombreDePasDeTempsDUneJournee h) [0..<NombreDePasDeTemps h]"
    by (simp_all add: h' prepare_def Let_def avec_horizon_def choisir_horizon_def)
  have T: "NombreDePasDeTempsPourUneOptimisation (choisir_horizon h) =
      (if \<not> OptimisationAuPasHebdomadaire h then NombreDePasDeTempsDUneJournee h else NombreDePasDeTemps h)"
    by (simp add: choisir_horizon_def)
  have hor: "horaire_ok h" and str: "structure_ok h" and nd: "numeros_distincts h"
    and ta: "tailles_ok (choisir_horizon h)" and ni: "\<forall>pays < NombreDePays h. \<not> niveau_impossible h pays"
    using d by (simp_all add: donnees_ok_def)
  have "horizon_ok ?p"
    using hor by (auto simp: horizon_ok_def horaire_ok_def sel T dvd_imp_le)
  moreover have "jours_ok ?p"
    using hor by (auto simp: jours_ok_def horaire_ok_def sel T list_all_length div_less_iff_less_mult)
  moreover have "intercos_ok ?p"
    using ch(1) by (simp add: intercos_ok_def prepare_def choisir_horizon_def Let_def)
  moreover have "chainage_jusqua ?p (NombreDInterconnexions ?p)"
    using ch(2) by (simp add: chainage_jusqua_def prepare_def choisir_horizon_def Let_def)
  moreover have "paliers_ok ?p = paliers_ok h" by (rule paliers_ok_cong) (simp add: sel)
  moreover have "demarrage_ok ?p = demarrage_ok (choisir_horizon h)" by (rule demarrage_ok_cong) (simp add: sel)
  moreover have "couplante_ok ?p = couplante_ok h" by (rule couplante_ok_cong) (simp_all add: sel)
  ultimately have "hebdo_ok ?p"
    using str unfolding hebdo_ok_def structure_ok_def sel by simp
  moreover have "numeros_distincts ?p"
    using nd unfolding numeros_distincts_def sel .
  moreover have "tailles_ok ?p"
    using ta by (simp add: tailles_ok_def sel T somme_pays_def) (simp add: choisir_horizon_def)
  moreover have "\<forall>pays < NombreDePays ?p. \<not> niveau_impossible ?p pays"
    using ni by (simp add: niveau_impossible_def sel)
  ultimately show ?thesis by (simp add: pret_a_construire_def)
qed

subsection \<open>The allocated state\<close>

text \<open>The vectors of the state and of the linear problem have the sizes the allocation gives them.\<close>

definition alloue_matrice :: "PROBLEME_HEBDO \<Rightarrow> etat \<Rightarrow> bool" where
  "alloue_matrice h s \<longleftrightarrow> dims_cnt h s \<and> (\<forall>c. nombreDeTermes (builders s c) = 0) \<and>
     (let p = ProblemeAResoudre s; nv = nb_variables_prevues h; nc = nb_contraintes_prevues h in
      length (Sens p) = nc \<and> length (IndicesDebutDeLigne p) = nc \<and>
      length (NombreDeTermesDesLignes p) = nc \<and> length (NomDesContraintes p) = nc \<and>
      length (Pi p) = nv \<and> length (Colonne p) = nv \<and>
      length (CoefficientsDeLaMatriceDesContraintes p) = NombreDeTermesAllouesDansLaMatriceDesContraintes p \<and>
      length (IndicesColonnes p) = NombreDeTermesAllouesDansLaMatriceDesContraintes p \<and>
      0 < NombreDeTermesAllouesDansLaMatriceDesContraintes p \<and>
      0 < IncrementDAllocationMatriceDesContraintes p)"

definition vecteurs_alloues :: "nat \<Rightarrow> nat \<Rightarrow> vecteurs \<Rightarrow> bool" where
  "vecteurs_alloues nv nc v = (case v of (quadratique, lineaire, xmin, xmax, membre, optimisees, reduits, marginaux) \<Rightarrow>
     length quadratique \<le> nv \<and> length lineaire = nv \<and> length xmin = nv \<and> length xmax = nv \<and>
     length membre = nc \<and> length optimisees = nv \<and> length reduits = nv \<and> length marginaux = nc)"

definition alloue :: "PROBLEME_HEBDO \<Rightarrow> etat \<Rightarrow> bool" where
  "alloue h s \<longleftrightarrow> dims_variables h (nb_variables_prevues h) s \<and> alloue_matrice h s \<and>
     vecteurs_alloues (nb_variables_prevues h) (nb_contraintes_prevues h) (cote_vecteurs (ProblemeAResoudre s))"

text \<open>The state before the allocation: the correspondences have the sizes of
  \<open>SIM_AllocationProblemeHebdo\<close>.\<close>

definition etat_ok :: "PROBLEME_HEBDO \<Rightarrow> etat \<Rightarrow> bool" where
  "etat_ok h s \<longleftrightarrow> dims_var h (CorrespondanceVarNativesVarOptim s) (NumeroDeVariableStockFinal s)
       (NumeroDeVariableDeTrancheDeStock s) \<and>
     dims_cnt h s \<and> (\<forall>c. nombreDeTermes (builders s c) = 0)"

lemma SIM_Allocation_ok: "etat_ok h (SIM_AllocationProblemeHebdo h)"
  by (simp add: etat_ok_def SIM_AllocationProblemeHebdo_def SIM_AllocationProblemePasDeTemps_def
      dims_var_def dims_cnt_def builder_init_def)

lemma hors_decompteD:
  assumes "hors_decompte s' = hors_decompte s"
  shows "CorrespondanceVarNativesVarOptim s' = CorrespondanceVarNativesVarOptim s"
    "NumeroDeVariableStockFinal s' = NumeroDeVariableStockFinal s"
    "NumeroDeVariableDeTrancheDeStock s' = NumeroDeVariableDeTrancheDeStock s"
  using arg_cong [OF assms, of CorrespondanceVarNativesVarOptim]
    arg_cong [OF assms, of NumeroDeVariableStockFinal]
    arg_cong [OF assms, of NumeroDeVariableDeTrancheDeStock]
  by (simp_all add: hors_decompte_def hors_compte_def avec_tailles_def)

lemma OPT_Alloc_ok:
  assumes h: "hebdo_ok h" and niv: "\<forall>pays < NombreDePays h. \<not> niveau_impossible h pays"
    and s: "etat_ok h s"
  shows "returns (OPT_AllocDuProblemeAOptimiser h s) (alloue h)"
proof -
  let ?s = "s\<lparr>ProblemeAResoudre := PROBLEME_ANTARES_A_RESOUDRE_vide\<rparr>"
  have d: "dims_cnt h ?s" and b: "\<forall>c. nombreDeTermes (builders ?s c) = 0"
    using s by (simp_all add: etat_ok_def dims_cnt_def)
  have "returns (OPT_DecompteDesVariablesEtDesContraintesDuProblemeAOptimiser h ?s)
     (\<lambda>ms. returns (case ms of (mx, s) \<Rightarrow> optimisationAllocateProblem h mx s) (alloue h))"
    using OPT_Decompte_ok [OF h niv d b]
  proof (rule returns_mono)
    fix ms
    assume m: "case ms of (mx, s') \<Rightarrow> mx = somme_pays h (nb_paliers h) \<and>
        NombreDeVariables (ProblemeAResoudre s') = nb_variables_prevues h \<and>
        NombreDeContraintes (ProblemeAResoudre s') = nb_contraintes_prevues h \<and>
        dims_cnt h s' \<and> (\<forall>c. nombreDeTermes (builders s' c) = 0) \<and> hors_decompte s' = hors_decompte ?s"
    obtain mx s' where ms: "ms = (mx, s')" by (cases ms)
    have hd: "hors_decompte s' = hors_decompte ?s" using m ms by simp
    note eq = hors_decompteD [OF hd]
    have "102 \<le> nombreDeTermesPrevus h mx s'"
      by (simp add: nombreDeTermesPrevus_def Let_def)
    then show "returns (case ms of (mx, s) \<Rightarrow> optimisationAllocateProblem h mx s) (alloue h)"
      using m s eq
      by (simp add: ms optimisationAllocateProblem_def OPT_AllocateFromNumberOfVariableConstraints_def
          Let_def alloue_def alloue_matrice_def dims_variables_def etat_ok_def dims_cnt_def
          vecteurs_alloues_def cote_vecteurs_def)
  qed
  then show ?thesis by (simp add: OPT_AllocDuProblemeAOptimiser_def)
qed

subsection \<open>The construction\<close>

definition contexte_de :: "PROBLEME_HEBDO \<Rightarrow> etat \<Rightarrow> contexte" where
  "contexte_de h s = \<lparr>kh = h, kvar = CorrespondanceVarNativesVarOptim s,
     kstock = NumeroDeVariableStockFinal s, ktranche = NumeroDeVariableDeTrancheDeStock s,
     knv = nb_variables_prevues h, knc = nb_contraintes_prevues h,
     kcote = cote_variables (ProblemeAResoudre s)\<rparr>"

text \<open>The variables of the problem: each variable of the list has its rank as number, the absent ones
  have -1.\<close>

definition variables_construites :: "PROBLEME_HEBDO \<Rightarrow> etat \<Rightarrow> bool" where
  "variables_construites h s \<longleftrightarrow>
     NombreDeVariables (ProblemeAResoudre s) = nb_variables h \<and>
     (\<forall>p. (p, None) \<in> set (liste_variables h) \<longrightarrow> lecture s p = - 1) \<and>
     (\<forall>k < nb_variables h. variable_ok s k (creees (liste_variables h) ! k))"

definition probleme_construit :: "PROBLEME_HEBDO \<Rightarrow> etat \<Rightarrow> bool" where
  "probleme_construit h s \<longleftrightarrow> variables_construites h s \<and>
     lignes (ProblemeAResoudre s) = liste_lignes (contexte_de h s)"

lemma alloue_matrice_hors_variables: "alloue_matrice h (hors_variables s) = alloue_matrice h s"
  by (simp add: alloue_matrice_def hors_variables_def dims_cnt_def Let_def)

lemma hors_variables_vecteurs:
  "cote_vecteurs (ProblemeAResoudre (hors_variables s)) = cote_vecteurs (ProblemeAResoudre s)"
  by (simp add: hors_variables_def)

lemma liste_construite:
  assumes p: "pret_a_construire h" and s: "alloue h s"
  shows "returns (OPT_ConstruireLaListeDesVariablesOptimiseesDuProblemeLineaire h s)
    (\<lambda>s'. alloue h s' \<and> variables_construites h s')"
proof -
  have h: "hebdo_ok h" "numeros_distincts h" using p by (simp_all add: pret_a_construire_def)
  have f: "fiches_ok h (nb_variables_prevues h) (liste_variables h)"
    by (rule fiches_variables_ok [OF h nb_variables_le [OF h]])
  have d: "dims_variables h (nb_variables_prevues h) s" using s by (simp add: alloue_def)
  show ?thesis
    using OPT_ConstruireListe_ok [OF h(1) d f]
  proof (rule returns_mono)
    fix s'
    assume r: "rep_variables h (nb_variables_prevues h) s () (NombreDeVariables (ProblemeAResoudre s'), s')
        (liste_variables h)"
    then have "hors_variables s' = hors_variables s" by (simp add: rep_variables_def)
    then have "alloue_matrice h s'" "cote_vecteurs (ProblemeAResoudre s') = cote_vecteurs (ProblemeAResoudre s)"
      using s alloue_matrice_hors_variables [of h s] alloue_matrice_hors_variables [of h s']
        hors_variables_vecteurs [of s] hors_variables_vecteurs [of s']
      by (simp_all add: alloue_def)
    with r s show "alloue h s' \<and> variables_construites h s'"
      by (simp add: rep_variables_def alloue_def variables_construites_def nb_variables_def)
  qed
qed

text \<open>The start-up variables of every cluster and hour have a number.\<close>

lemma numero_demarrage:
  assumes "variables_construites h s" and "OptimisationAvecCoutsDeDemarrage h"
    and "pays < NombreDePays h" and "i < nb_paliers h pays"
    and "hr < NombreDePasDeTempsPourUneOptimisation h"
    and f: "(p, Some v) \<in> set (fiches_demarrage h pays i hr)"
  shows "0 \<le> lecture s p"
proof -
  have "(p, Some v) \<in> set (liste_variables h)"
    using assms(2-5) f by (auto simp: liste_variables_def fiches_demarrages_def par_palier_def)
  then have "(p, v) \<in> set (creees (liste_variables h))"
    by (simp add: creees_subset)
  then obtain k where "k < nb_variables h" "creees (liste_variables h) ! k = (p, v)"
    by (auto simp: in_set_conv_nth nb_variables_def)
  then have "variable_ok s k (p, v)"
    using assms(1) by (auto simp: variables_construites_def)
  then show ?thesis by (cases v) (simp add: variable_ok_def)
qed

text \<open>Where the number of a native variable is stored.\<close>

fun place_native :: "nat \<Rightarrow> native \<Rightarrow> place" where
  "place_native hr (DispatchableProduction i) = Var NumeroDeVariableDuPalierThermique hr i"
| "place_native hr (NumberOfDispatchableUnits i) =
     Var NumeroDeVariableDuNombreDeGroupesEnMarcheDuPalierThermique hr i"
| "place_native hr (NumberStoppingDispatchableUnits i) =
     Var NumeroDeVariableDuNombreDeGroupesQuiSArretentDuPalierThermique hr i"
| "place_native hr (NumberStartingDispatchableUnits i) =
     Var NumeroDeVariableDuNombreDeGroupesQuiDemarrentDuPalierThermique hr i"
| "place_native hr (NumberBreakingDownDispatchableUnits i) =
     Var NumeroDeVariableDuNombreDeGroupesQuiTombentEnPanneDuPalierThermique hr i"
| "place_native hr (NTCDirect i) = Var NumeroDeVariableDeLInterconnexion hr i"
| "place_native hr (IntercoDirectCost i) =
     Var NumeroDeVariableCoutOrigineVersExtremiteDeLInterconnexion hr i"
| "place_native hr (IntercoIndirectCost i) =
     Var NumeroDeVariableCoutExtremiteVersOrigineDeLInterconnexion hr i"
| "place_native hr (ShortTermStorageInjection i) = Var InjectionVariable hr i"
| "place_native hr (ShortTermStorageWithdrawal i) = Var WithdrawalVariable hr i"
| "place_native hr (ShortTermStorageLevel i) = Var LevelVariable hr i"
| "place_native hr (HydProd i) = Var NumeroDeVariablesDeLaProdHyd hr i"
| "place_native hr (HydProdDown i) = Var NumeroDeVariablesVariationHydALaBaisse hr i"
| "place_native hr (HydProdUp i) = Var NumeroDeVariablesVariationHydALaHausse hr i"
| "place_native hr (Pumping i) = Var NumeroDeVariablesDePompage hr i"
| "place_native hr (HydroLevel i) = Var NumeroDeVariablesDeNiveau hr i"
| "place_native hr (Overflow i) = Var NumeroDeVariablesDeDebordement hr i"
| "place_native hr (FinalStorage i) = Stock i"
| "place_native hr (LayerStorage i l) = Tranche i l"
| "place_native hr (PositiveUnsuppliedEnergy i) = Var NumeroDeVariableDefaillancePositive hr i"
| "place_native hr (NegativeUnsuppliedEnergy i) = Var NumeroDeVariableDefaillanceNegative hr i"

lemma numero_lecture:
  assumes K: "contexte_ok (contexte_de h s)" and hr: "hr < NombreDePasDeTemps h" and nv: "native_ok h nv"
  shows "numero (contexte_de h s) hr nv = lecture s (place_native hr nv)"
proof -
  have "VariableManager (CorrespondanceVarNativesVarOptim s ! hr) (NumeroDeVariableStockFinal s)
      (NumeroDeVariableDeTrancheDeStock s) nv = Inr (numero (contexte_de h s) hr nv)"
    using VariableManager_numero [OF K, of hr nv] hr nv by (simp add: contexte_de_def)
  then show ?thesis
    by (cases nv) (auto simp: lire_def split: if_splits)
qed

lemma demarrage_numerote_construit:
  assumes v: "variables_construites h s" and D: "OptimisationAvecCoutsDeDemarrage h"
    and K: "contexte_ok (contexte_de h s)"
  shows "demarrage_numerote (contexte_de h s)"
proof -
  have h: "hebdo_ok h" using contexte_ok_hebdo [OF K] by (simp add: contexte_de_def)
  note num = numero_lecture [OF K]
  have kh: "kh (contexte_de h s) = h" by (simp add: contexte_de_def)
  have "0 \<le> numero (contexte_de h s) hr nv"
    if a: "pays < NombreDePays h" "i < nb_paliers h pays" "hr < NombreDePasDeTempsPourUneOptimisation h"
      and nv: "nv \<in> (\<lambda>c. c (palier_du (contexte_de h s) pays i)) ` {NumberOfDispatchableUnits,
        NumberStartingDispatchableUnits, NumberStoppingDispatchableUnits, NumberBreakingDownDispatchableUnits}"
    for pays i hr nv
  proof -
    have "\<exists>v. (place_native hr nv, Some v) \<in> set (fiches_demarrage h pays i hr)"
      using nv by (auto simp: fiches_demarrage_def Let_def entiere_def contexte_de_def)
    then have "0 \<le> lecture s (place_native hr nv)"
      using numero_demarrage [OF v D a] by blast
    moreover have "native_ok h nv" "hr < NombreDePasDeTemps h"
      using nv h a by (auto simp: contexte_de_def)
    ultimately show ?thesis using num by simp
  qed
  then show ?thesis unfolding demarrage_numerote_def kh by blast
qed

lemma alloue_pret:
  assumes "alloue h s"
  shows "pret (contexte_de h s) s"
  using assms
  by (simp add: alloue_def alloue_matrice_def pret_def inv_def vider_matrice_def contexte_de_def Let_def
      matrice_inv_def stockage_ok_def cote_variables_def dims_cnt_def)

lemma inv_alloue:
  assumes i: "inv (contexte_de h s) s'" and s: "alloue h s"
  shows "alloue h s'"
proof -
  have "cote_variables (ProblemeAResoudre s') = cote_variables (ProblemeAResoudre s)"
    using i by (simp add: inv_def contexte_de_def)
  then have "dims_variables h (nb_variables_prevues h) s'"
    using s i by (simp add: alloue_def dims_variables_def inv_def contexte_de_def cote_variables_def)
  moreover have "alloue_matrice h s'"
    using i s by (simp add: alloue_matrice_def inv_def contexte_de_def matrice_inv_def stockage_ok_def Let_def)
  moreover have "cote_vecteurs (ProblemeAResoudre s') = cote_vecteurs (ProblemeAResoudre s)"
    using \<open>cote_variables _ = _\<close> by (simp add: cote_variables_def)
  ultimately show ?thesis using s by (simp add: alloue_def)
qed

lemma inv_variables:
  assumes i: "inv (contexte_de h s) s'"
  shows "contexte_de h s' = contexte_de h s"
    and "variables_construites h s' = variables_construites h s"
proof -
  have c: "CorrespondanceVarNativesVarOptim s' = CorrespondanceVarNativesVarOptim s"
    "NumeroDeVariableStockFinal s' = NumeroDeVariableStockFinal s"
    "NumeroDeVariableDeTrancheDeStock s' = NumeroDeVariableDeTrancheDeStock s"
    "cote_variables (ProblemeAResoudre s') = cote_variables (ProblemeAResoudre s)"
    using i by (simp_all add: inv_def contexte_de_def)
  then show "contexte_de h s' = contexte_de h s" by (simp add: contexte_de_def)
  have "lecture s' p = lecture s p" for p
    using c by (cases p) simp_all
  moreover have "variable_ok s' k f = variable_ok s k f" for k f
    using c \<open>lecture s' _ = lecture s _\<close> by (cases f) (simp add: variable_ok_def cote_variables_def)
  ultimately show "variables_construites h s' = variables_construites h s"
    using c by (simp add: variables_construites_def cote_variables_def)
qed

theorem construction_ok:
  assumes p: "pret_a_construire h" and s: "alloue h s"
  shows "returns (bindE (OPT_ConstruireLaListeDesVariablesOptimiseesDuProblemeLineaire h s) (\<lambda>s.
     OPT_ConstruireLaMatriceDesContraintesDuProblemeLineaire h s))
   (\<lambda>s'. alloue h s' \<and> probleme_construit h s')"
  unfolding returns_bindE
  using liste_construite [OF p s]
proof (rule returns_mono)
  fix s1 assume s1: "alloue h s1 \<and> variables_construites h s1"
  let ?K = "contexte_de h s1"
  have h: "hebdo_ok h" "numeros_distincts h" "tailles_ok h"
    and niv: "\<forall>pays < NombreDePays h. \<not> niveau_impossible h pays"
    using p by (simp_all add: pret_a_construire_def)
  have K: "contexte_ok ?K"
    using h s1 by (simp add: contexte_ok_def contexte_de_def alloue_def dims_variables_def)
  have large: "tient ?K (liste_lignes ?K)"
    by (rule lignes_tiennent) (use h in \<open>simp add: contexte_large_def contexte_de_def\<close>)
  have place: "places (kh ?K) \<le> knc ?K"
    using places_le [OF h(1,2) niv] by (simp add: contexte_de_def)
  have num: "OptimisationAvecCoutsDeDemarrage (kh ?K) \<Longrightarrow> demarrage_numerote ?K"
    using demarrage_numerote_construit [OF _ _ K] s1 by (simp add: contexte_de_def)
  have "returns (OPT_ConstruireLaMatriceDesContraintesDuProblemeLineaire (kh ?K) s1)
      (\<lambda>s'. rep_lignes ?K () s' (liste_lignes ?K))"
    by (rule OPT_ConstruireMatrice_ok [OF K num _ large place]) (use s1 alloue_pret in auto)
  then have "returns (OPT_ConstruireLaMatriceDesContraintesDuProblemeLineaire h s1)
      (\<lambda>s'. rep_lignes ?K () s' (liste_lignes ?K))"
    by (simp add: contexte_de_def)
  then show "returns (OPT_ConstruireLaMatriceDesContraintesDuProblemeLineaire h s1)
      (\<lambda>s'. alloue h s' \<and> probleme_construit h s')"
  proof (rule returns_mono)
    fix s' assume r: "rep_lignes ?K () s' (liste_lignes ?K)"
    then have i: "inv ?K s'" by (simp add: rep_lignes_def)
    from r show "alloue h s' \<and> probleme_construit h s'"
      using inv_alloue [OF i] inv_variables [OF i] s1
      by (simp add: probleme_construit_def rep_lignes_def)
  qed
qed

subsection \<open>The pipeline\<close>

definition numerotation_ok :: "PROBLEME_HEBDO \<Rightarrow> bool" where
  "numerotation_ok h \<longleftrightarrow> length (NumeroDeJourDuPasDeTemps h) = NombreDePasDeTemps h \<and>
     length (NumeroDIntervalleOptimiseDuPasDeTemps h) = NombreDePasDeTemps h"

lemma numeroter_prepare:
  assumes "numerotation_ok h"
  shows "bindE (OPT_NumeroDeJourDuPasDeTemps (choisir_horizon h)) (\<lambda>h. bindE (OPT_NumeroDIntervalleOptimiseDuPasDeTemps h) F) =
    F (prepare h)"
proof -
  let ?h = "choisir_horizon h"
  have n: "length (NumeroDeJourDuPasDeTemps ?h) = NombreDePasDeTemps ?h"
    "length (NumeroDIntervalleOptimiseDuPasDeTemps ?h) = NombreDePasDeTemps ?h"
    using assms by (simp_all add: numerotation_ok_def choisir_horizon_def)
  have "OPT_NumeroDeJourDuPasDeTemps ?h = Inr (?h\<lparr>NombreDeJours := NombreDePasDeTemps ?h div NombreDePasDeTempsDUneJournee ?h,
      NumeroDeJourDuPasDeTemps := map (\<lambda>pdt. pdt div NombreDePasDeTempsDUneJournee ?h) [0..<NombreDePasDeTemps ?h]\<rparr>)"
    (is "_ = Inr ?g") by (rule OPT_NumeroDeJour_ok [OF n(1)])
  moreover have "OPT_NumeroDIntervalleOptimiseDuPasDeTemps ?g = Inr (prepare h)"
    using OPT_NumeroDIntervalle_ok [of ?g] n(2) by (simp add: prepare_def Let_def)
  ultimately show ?thesis by simp
qed

lemma construire_probleme_prepare:
  assumes "numerotation_ok h"
  shows "construire_probleme h s =
    bindE (bindE (OPT_ConstruireLaListeDesVariablesOptimiseesDuProblemeLineaire (prepare h) s)
      (OPT_ConstruireLaMatriceDesContraintesDuProblemeLineaire (prepare h))) (\<lambda>s. Inr (prepare h, s))"
  by (simp add: construire_probleme_def numeroter_prepare [OF assms] bindE_assoc)

lemma construire_probleme_ok:
  assumes n: "numerotation_ok h" and p: "pret_a_construire (prepare h)" and s: "alloue (prepare h) s"
  shows "returns (construire_probleme h s) (\<lambda>(h', s'). h' = prepare h \<and> alloue h' s' \<and> probleme_construit h' s')"
proof -
  have "returns (bindE (OPT_ConstruireLaListeDesVariablesOptimiseesDuProblemeLineaire (prepare h) s)
      (OPT_ConstruireLaMatriceDesContraintesDuProblemeLineaire (prepare h)))
    (\<lambda>s'. returns (Inr (prepare h, s')) (\<lambda>(h', s'). h' = prepare h \<and> alloue h' s' \<and> probleme_construit h' s'))"
    using construction_ok [OF p s] by simp
  then show ?thesis
    unfolding construire_probleme_prepare [OF n] returns_bindE .
qed

lemma prepare_instancie:
  assumes "instancie h h'"
  shows "avec_horizon h = avec_preparation (avec_horizon h) (prepare h')"
proof -
  obtain a b c d where "h' = (avec_horizon h)\<lparr>IndexDebutIntercoOrigine := a,
      IndexSuivantIntercoOrigine := b, IndexDebutIntercoExtremite := c, IndexSuivantIntercoExtremite := d\<rparr>"
    using assms unfolding instancie_def by blast
  then show ?thesis
    by (cases h) (simp add: prepare_def Let_def avec_horizon_def choisir_horizon_def avec_preparation_def)
qed

lemma prepare_selecteurs:
  assumes "instancie h h'"
  shows "NombreDePays (prepare h') = NombreDePays h"
    and "taille_var (prepare h') = taille_var h" and "taille_cnt (prepare h') = taille_cnt h"
    and "NombreDePasDeTemps (prepare h') = NombreDePasDeTemps h"
    and "NombreDeContraintesCouplantes (prepare h') = NombreDeContraintesCouplantes h"
proof -
  obtain a b c d where h': "h' = (avec_horizon h)\<lparr>IndexDebutIntercoOrigine := a,
      IndexSuivantIntercoOrigine := b, IndexDebutIntercoExtremite := c, IndexSuivantIntercoExtremite := d\<rparr>"
    using assms unfolding instancie_def by blast
  show "NombreDePays (prepare h') = NombreDePays h"
    "NombreDePasDeTemps (prepare h') = NombreDePasDeTemps h"
    "NombreDeContraintesCouplantes (prepare h') = NombreDeContraintesCouplantes h"
    by (simp_all add: h' prepare_def Let_def avec_horizon_def choisir_horizon_def)
  have "taille_var (prepare h') c = taille_var h c" for c
    by (cases c) (simp_all add: h' prepare_def Let_def avec_horizon_def choisir_horizon_def)
  then show "taille_var (prepare h') = taille_var h" by (rule ext)
  have "taille_cnt (prepare h') c = taille_cnt h c" for c
    by (cases c) (simp_all add: h' prepare_def Let_def avec_horizon_def choisir_horizon_def)
  then show "taille_cnt (prepare h') = taille_cnt h" by (rule ext)
qed

lemma etat_ok_prepare: "instancie h h' \<Longrightarrow> etat_ok (prepare h') s = etat_ok h s"
  by (simp add: etat_ok_def dims_var_def dims_cnt_def prepare_selecteurs)

lemma instancier_ok:
  assumes d: "donnees_ok h" and s: "etat_ok h s"
  shows "returns (instancier h s) (\<lambda>(h', s'). instancie h h' \<and> alloue (prepare h') s')"
proof -
  let ?h = "avec_horizon h"
  have io: "intercos_ok ?h"
    using d by (simp add: donnees_ok_def avec_horizon_def choisir_horizon_def intercos_ok_def)
  from OPT_Chainages_ok [OF io] obtain h' where run: "OPT_ChainagesDesIntercoPartantDUnNoeud ?h = Inr h'"
    and h': "sans_index h' = sans_index ?h" "intercos_ok h'" "chainage_jusqua h' (NombreDInterconnexions ?h)"
    by (auto elim: returnsE)
  have i: "instancie h h'"
    by (rule instancieI [OF h'(1,2)]) (use h'(3) sans_indexD(2) [OF h'(1)] in simp)
  let ?p = "prepare h'"
  have p: "pret_a_construire ?p" by (rule pret_a_construire_prepare [OF d i])
  have "OPT_AllocDuProblemeAOptimiser ?h = OPT_AllocDuProblemeAOptimiser ?p"
    by (subst prepare_instancie [OF i]) (rule OPT_Alloc_preparation)
  moreover have "returns (OPT_AllocDuProblemeAOptimiser ?p s) (alloue ?p)"
    by (rule OPT_Alloc_ok) (use p s etat_ok_prepare [OF i] in \<open>simp_all add: pret_a_construire_def\<close>)
  ultimately have "returns (OPT_AllocDuProblemeAOptimiser ?h s) (alloue ?p)" by simp
  then show ?thesis
    using run i by (auto simp: instancier_def avec_horizon_def Let_def elim!: returns_mono)
qed

lemma instancie_numerotation:
  assumes "donnees_ok h" and "instancie h h'"
  shows "numerotation_ok h'"
proof -
  obtain a b c d where "h' = (avec_horizon h)\<lparr>IndexDebutIntercoOrigine := a,
      IndexSuivantIntercoOrigine := b, IndexDebutIntercoExtremite := c, IndexSuivantIntercoExtremite := d\<rparr>"
    using assms(2) unfolding instancie_def by blast
  then show ?thesis
    using assms(1) by (simp add: numerotation_ok_def donnees_ok_def horaire_ok_def avec_horizon_def
        choisir_horizon_def)
qed

text \<open>The first week: the problem is instantiated, then constructed.\<close>

theorem premiere_semaine_ok:
  assumes d: "donnees_ok h" and s: "etat_ok h s"
  shows "returns (bindE (instancier h s) (\<lambda>(h', s'). construire_probleme h' s'))
    (\<lambda>(h', s'). (\<exists>g. instancie h g \<and> h' = prepare g) \<and> pret_a_construire h' \<and> numerotation_ok h' \<and>
       alloue h' s' \<and> probleme_construit h' s')"
  unfolding returns_bindE
  using instancier_ok [OF d s]
proof (rule returns_mono)
  fix hs assume hs: "case hs of (h', s') \<Rightarrow> instancie h h' \<and> alloue (prepare h') s'"
  obtain h1 s1 where [simp]: "hs = (h1, s1)" by (cases hs)
  have i: "instancie h h1" and a: "alloue (prepare h1) s1" using hs by simp_all
  have p: "pret_a_construire (prepare h1)" by (rule pret_a_construire_prepare [OF d i])
  have n: "numerotation_ok h1" by (rule instancie_numerotation [OF d i])
  have n': "numerotation_ok (prepare h1)"
    by (simp add: numerotation_ok_def prepare_def Let_def choisir_horizon_def)
  show "returns (case hs of (h', s') \<Rightarrow> construire_probleme h' s')
      (\<lambda>(h', s'). (\<exists>g. instancie h g \<and> h' = prepare g) \<and> pret_a_construire h' \<and> numerotation_ok h' \<and>
         alloue h' s' \<and> probleme_construit h' s')"
    using construire_probleme_ok [OF n p a] i p n' by (auto elim!: returns_mono)
qed

text \<open>The weeks that follow only change the week: the problem is constructed again in the vectors of the
  week before.\<close>

definition semaine_suivante :: "nat \<Rightarrow> PROBLEME_HEBDO \<times> etat \<Rightarrow> (PROBLEME_HEBDO \<times> etat) resultat" where
  "semaine_suivante semaine hs = construire_probleme ((fst hs)\<lparr>weekInTheYear := semaine\<rparr>) (snd hs)"

definition en_service :: "PROBLEME_HEBDO \<times> etat \<Rightarrow> bool" where
  "en_service hs \<longleftrightarrow> pret_a_construire (fst hs) \<and> numerotation_ok (fst hs) \<and>
     prepare (fst hs) = fst hs \<and> alloue (fst hs) (snd hs)"

lemma semaine_preparation:
  fixes h :: PROBLEME_HEBDO and w :: nat
  defines "h' \<equiv> h\<lparr>weekInTheYear := w\<rparr>"
  shows "prepare h' = (prepare h)\<lparr>weekInTheYear := w\<rparr>" and "numerotation_ok h' = numerotation_ok h"
    and "pret_a_construire h' = pret_a_construire h" and "alloue h' = alloue h"
proof -
  show "prepare h' = (prepare h)\<lparr>weekInTheYear := w\<rparr>" "numerotation_ok h' = numerotation_ok h"
    by (simp_all add: h'_def prepare_def Let_def choisir_horizon_def numerotation_ok_def)
  have "paliers_ok h' = paliers_ok h" by (rule paliers_ok_cong) (simp add: h'_def)
  moreover have "demarrage_ok h' = demarrage_ok h" by (rule demarrage_ok_cong) (simp add: h'_def)
  moreover have "couplante_ok h' = couplante_ok h" by (rule couplante_ok_cong) (simp_all add: h'_def)
  ultimately have hebdo: "hebdo_ok h' = hebdo_ok h"
    unfolding hebdo_ok_def horizon_ok_def jours_ok_def intercos_ok_def chainage_jusqua_def
    by (simp add: h'_def)
  have "numeros_distincts h' = numeros_distincts h" "tailles_ok h' = tailles_ok h"
    "niveau_impossible h' = niveau_impossible h"
    by (simp_all add: h'_def numeros_distincts_def tailles_ok_def somme_pays_def niveau_impossible_def [abs_def])
  with hebdo show "pret_a_construire h' = pret_a_construire h"
    by (simp add: pret_a_construire_def) (simp add: h'_def)
  have t: "taille_var h' c = taille_var h c" "taille_cnt h' d = taille_cnt h d" for c d
    by (cases c; simp add: h'_def) (cases d; simp add: h'_def)
  have "nb_variables_prevues h' = nb_variables_prevues h"
    by (simp add: nb_variables_prevues_def somme_pays_def somme_paliers_def nb_hydro_def nb_variations_def [abs_def] h'_def
        cong: if_cong lissage.case_cong)
  moreover have "nb_contraintes_prevues h' = nb_contraintes_prevues h"
    by (simp add: nb_contraintes_prevues_def nb_contraintes_lineaires_def nb_couplantes_def
        nombreDeJoursDansUnIntervalleOptimise_def somme_pays_def nb_contraintes_hydro_def [abs_def] nb_lissage_def [abs_def]
        places_demarrage_def somme_paliers_def duree_marche_def h'_def cong: if_cong lissage.case_cong)
  moreover have "dims_cnt h' = dims_cnt h" "dims_var h' = dims_var h"
    using t by (simp_all add: dims_cnt_def [abs_def] dims_var_def [abs_def] h'_def)
  ultimately show "alloue h' = alloue h"
    by (intro ext) (simp add: alloue_def alloue_matrice_def dims_variables_def)
qed

lemma semaine_suivante_ok:
  assumes "en_service hs"
  shows "returns (semaine_suivante w hs) (\<lambda>hs'. en_service hs' \<and>
    fst hs' = (fst hs)\<lparr>weekInTheYear := w\<rparr> \<and> probleme_construit (fst hs') (snd hs'))"
proof -
  let ?h = "(fst hs)\<lparr>weekInTheYear := w\<rparr>"
  have e: "pret_a_construire (fst hs)" "numerotation_ok (fst hs)" "prepare (fst hs) = fst hs"
    "alloue (fst hs) (snd hs)"
    using assms by (simp_all add: en_service_def)
  have p: "prepare ?h = ?h" using e(3) by (simp add: semaine_preparation(1))
  have "returns (construire_probleme ?h (snd hs))
      (\<lambda>(h', s'). h' = prepare ?h \<and> alloue h' s' \<and> probleme_construit h' s')"
    by (rule construire_probleme_ok) (use e p semaine_preparation in simp_all)
  then show ?thesis
    unfolding semaine_suivante_def
    by (rule returns_mono) (use e p semaine_preparation in \<open>auto simp: en_service_def\<close>)
qed

theorem semaines_ok:
  assumes "en_service hs"
  shows "returns (forE semaines semaine_suivante hs) (\<lambda>hs'. en_service hs' \<and>
    (semaines \<noteq> [] \<longrightarrow> fst hs' = (fst hs)\<lparr>weekInTheYear := last semaines\<rparr> \<and>
       probleme_construit (fst hs') (snd hs')))"
  using assms
proof (induction semaines arbitrary: hs)
  case (Cons w ws)
  from semaine_suivante_ok [OF Cons.prems, of w] obtain hs1 where
    1: "semaine_suivante w hs = Inr hs1" "en_service hs1" "fst hs1 = (fst hs)\<lparr>weekInTheYear := w\<rparr>"
    "probleme_construit (fst hs1) (snd hs1)"
    by (auto elim: returnsE)
  show ?case
  proof (cases "ws = []")
    case True
    then show ?thesis using 1 by simp
  next
    case False
    then show ?thesis using Cons.IH [OF 1(2)] 1 by (auto elim!: returns_mono)
  qed
qed simp

end
