(* ===== verification/Row_Semantics.thy ===== *)
theory Row_Semantics
  imports Problem_Pipeline
begin

text \<open>
  What the rows say of a solution. \<open>valeur x l\<close> is the left-hand side of a row \<open>l\<close> for the values \<open>x\<close> of
  the variables. The balances that hold by construction of the rows are proved here: what leaves an area
  by a link enters another one; a stock that is followed over the cyclic hours ends where it started; the
  level of a reservoir at the end of the range is what came in minus what went out.
\<close>

subsection \<open>The value of a row\<close>

definition valeur_termes :: "(int \<Rightarrow> real) \<Rightarrow> (int \<times> real) list \<Rightarrow> real" where
  "valeur_termes x ts = sum_list (map (\<lambda>(j, a). a * x j) ts)"

definition valeur_lignes :: "(int \<Rightarrow> real) \<Rightarrow> ligne list \<Rightarrow> real" where
  "valeur_lignes x ls = sum_list (map (\<lambda>l. valeur_termes x (snd l)) ls)"

text \<open>The value of a variable of the business problem at an hour; a variable that was not created is 0.\<close>

definition valeur_native :: "contexte \<Rightarrow> (int \<Rightarrow> real) \<Rightarrow> nat \<Rightarrow> native \<Rightarrow> real" where
  "valeur_native K x hr nv = (if numero K hr nv < 0 then 0 else x (numero K hr nv))"

lemma valeur_termes_simps [simp]:
  "valeur_termes x [] = 0"
  "valeur_termes x (ts @ us) = valeur_termes x ts + valeur_termes x us"
  "valeur_termes x (terme K hr nv c) = c * valeur_native K x hr nv"
  by (simp_all add: valeur_termes_def terme_def valeur_native_def)

lemma valeur_termes_concat [simp]:
  "valeur_termes x (concat (map f xs)) = sum_list (map (\<lambda>i. valeur_termes x (f i)) xs)"
  by (induction xs) simp_all

lemma valeur_lignes_simps [simp]:
  "valeur_lignes x [] = 0"
  "valeur_lignes x (ls @ ms) = valeur_lignes x ls + valeur_lignes x ms"
  "valeur_lignes x (rang op ts) = valeur_termes x ts"
  by (simp_all add: valeur_lignes_def rang_def)

lemma valeur_lignes_concat [simp]:
  "valeur_lignes x (concat (map f xs)) = sum_list (map (\<lambda>i. valeur_lignes x (f i)) xs)"
  by (induction xs) simp_all

subsection \<open>Sums over the cyclic hours\<close>

lemma somme_sur_heures: "sum_list (map f (heures h)) = (\<Sum>t < NombreDePasDeTempsPourUneOptimisation h. f t)"
  by (simp add: heures_def interv_sum_list_conv_sum_set_nat atLeast0LessThan)

lemma decale_bij:
  assumes "0 < NombreDePasDeTempsPourUneOptimisation (kh K)"
  shows "bij_betw (\<lambda>t. decale K t d) {..<NombreDePasDeTempsPourUneOptimisation (kh K)}
    {..<NombreDePasDeTempsPourUneOptimisation (kh K)}"
proof -
  let ?T = "NombreDePasDeTempsPourUneOptimisation (kh K)"
  have inj: "inj_on (\<lambda>t. decale K t d) {..<?T}"
  proof (rule inj_onI)
    fix t u assume t: "t \<in> {..<?T}" and u: "u \<in> {..<?T}" and "decale K t d = decale K u d"
    then have "(int t + d) mod int ?T = (int u + d) mod int ?T"
      using assms by (simp add: decale_def eq_nat_nat_iff)
    then have "int t mod int ?T = int u mod int ?T"
      by (simp add: mod_eq_dvd_iff)
    with t u show "t = u" by simp
  qed
  moreover have "(\<lambda>t. decale K t d) ` {..<?T} \<subseteq> {..<?T}"
    using assms by (auto simp: decale_def nat_less_iff)
  ultimately show ?thesis
    by (simp add: bij_betw_def endo_inj_surj)
qed

lemma somme_decalee:
  assumes "0 < NombreDePasDeTempsPourUneOptimisation (kh K)"
  shows "(\<Sum>t < NombreDePasDeTempsPourUneOptimisation (kh K). f (decale K t d))
    = (\<Sum>t < NombreDePasDeTempsPourUneOptimisation (kh K). (f t :: real))"
  using sum.reindex_bij_betw [OF decale_bij [OF assms]] .

lemma suivante_decale:
  assumes "t < NombreDePasDeTempsPourUneOptimisation (kh K)"
  shows "suivante K t = decale K t 1"
proof -
  have "(int t + 1) mod int (NombreDePasDeTempsPourUneOptimisation (kh K)) =
      int (Suc t mod NombreDePasDeTempsPourUneOptimisation (kh K))"
    by (simp add: zmod_int add.commute)
  then show ?thesis by (simp add: suivante_def decale_def)
qed

subsection \<open>The balances\<close>

text \<open>The links: what an area sends, another one receives.\<close>

lemma valeur_liens:
  "sum_list (map f (liens xs p n)) = (\<Sum>l < n. if xs ! l = p then (f l :: real) else 0)"
proof -
  have "sum_list (map f (liens xs p n)) = sum_list (map f (filter (\<lambda>l. xs ! l = p) [0..<n]))"
    by (simp add: liens_def flip: rev_map)
  also have "\<dots> = sum_list (map (\<lambda>l. if xs ! l = p then f l else 0) [0..<n])"
    by (simp add: sum_list_map_filter')
  finally show ?thesis
    by (simp add: interv_sum_list_conv_sum_set_nat atLeast0LessThan)
qed

lemma somme_liens:
  assumes "\<forall>l < n. xs ! l < m"
  shows "(\<Sum>p < m. sum_list (map f (liens xs p n))) = (\<Sum>l < n. (f l :: real))"
proof -
  have "(\<Sum>p < m. sum_list (map f (liens xs p n))) = (\<Sum>l < n. \<Sum>p < m. if xs ! l = p then f l else 0)"
    unfolding valeur_liens by (rule sum.swap)
  also have "\<dots> = (\<Sum>l < n. f l)"
    using assms by (intro sum.cong) (auto simp: sum.delta)
  finally show ?thesis .
qed

text \<open>What the balance of an area counts besides the links.\<close>

definition production_nette :: "contexte \<Rightarrow> (int \<Rightarrow> real) \<Rightarrow> nat \<Rightarrow> nat \<Rightarrow> real" where
  "production_nette K x pdt pays =
     (let v = valeur_native K x pdt; pt = PaliersThermiquesDuPays (kh K) ! pays in
      sum_list (map (\<lambda>p. v (DispatchableProduction p)) (NumeroDuPalierDansLEnsembleDesPaliersThermiques pt)) +
      v (HydProd pays) - v (Pumping pays) + v (PositiveUnsuppliedEnergy pays) - v (NegativeUnsuppliedEnergy pays) +
      sum_list (map (\<lambda>st. v (ShortTermStorageWithdrawal (clusterGlobalIndex st)) -
        v (ShortTermStorageInjection (clusterGlobalIndex st))) (ShortTermStorage (kh K) ! pays)))"

lemma valeur_AreaBalance:
  "valeur_lignes x (ligne_AreaBalance K pdt pays) =
     sum_list (map (\<lambda>l. valeur_native K x pdt (NTCDirect l)) (liens_origine (kh K) pays)) -
     sum_list (map (\<lambda>l. valeur_native K x pdt (NTCDirect l)) (liens_extremite (kh K) pays)) -
     production_nette K x pdt pays"
proof -
  let ?v = "valeur_native K x pdt"
  have 1: "sum_list (map (\<lambda>i. - 1 * f i) xs) = - sum_list (map f xs)" for f :: "nat \<Rightarrow> real" and xs
    by (induction xs) simp_all
  have 2: "sum_list (map (\<lambda>st. 1 * f st + - 1 * g st) xs) = - sum_list (map (\<lambda>st. g st - f st) xs)"
    for f g :: "STS_PROPERTIES \<Rightarrow> real" and xs
    by (induction xs) simp_all
  show ?thesis
    unfolding ligne_AreaBalance_def termes_paliers_def production_nette_def Let_def valeur_lignes_simps
      valeur_termes_simps valeur_termes_concat 1 2
    by simp
qed

lemma somme_AreaBalance:
  assumes "intercos_ok (kh K)"
  shows "(\<Sum>pays < NombreDePays (kh K). valeur_lignes x (ligne_AreaBalance K pdt pays)) =
    - (\<Sum>pays < NombreDePays (kh K). production_nette K x pdt pays)"
proof -
  let ?f = "\<lambda>l. valeur_native K x pdt (NTCDirect l)" and ?n = "NombreDePays (kh K)"
  have "\<forall>l < NombreDInterconnexions (kh K). PaysOrigineDeLInterconnexion (kh K) ! l < ?n"
    "\<forall>l < NombreDInterconnexions (kh K). PaysExtremiteDeLInterconnexion (kh K) ! l < ?n"
    using assms by (auto simp: intercos_ok_def list_all_length)
  from somme_liens [OF this(1), of ?f] somme_liens [OF this(2), of ?f]
  have "(\<Sum>pays < ?n. sum_list (map ?f (liens_origine (kh K) pays))) =
      (\<Sum>pays < ?n. sum_list (map ?f (liens_extremite (kh K) pays)))"
    by (simp add: liens_origine_def liens_extremite_def)
  then show ?thesis by (simp add: valeur_AreaBalance sum_subtractf sum_negf)
qed

text \<open>The stocks followed over the cyclic hours.\<close>

lemma somme_ligne_stockage:
  assumes "0 < NombreDePasDeTempsPourUneOptimisation (kh K)"
  shows "valeur_lignes x (concat (map (\<lambda>t. ligne_stockage K t st) (heures (kh K)))) =
    (\<Sum>t < NombreDePasDeTempsPourUneOptimisation (kh K).
       valeur_native K x t (ShortTermStorageWithdrawal (clusterGlobalIndex st)) -
       efficiency st * valeur_native K x t (ShortTermStorageInjection (clusterGlobalIndex st)))"
  using somme_decalee [OF assms, of "\<lambda>t. valeur_native K x t (ShortTermStorageLevel (clusterGlobalIndex st))" "- 1"]
  by (simp add: ligne_stockage_def Let_def somme_sur_heures sum.distrib sum_subtractf sum_negf)

lemma somme_ligne_Consistence:
  assumes "0 < NombreDePasDeTempsPourUneOptimisation (kh K)"
  shows "valeur_lignes x (concat (map (ligne_Consistence K pays i) (heures (kh K)))) =
    (\<Sum>t < NombreDePasDeTempsPourUneOptimisation (kh K).
       valeur_native K x t (NumberStoppingDispatchableUnits (palier_du K pays i)) -
       valeur_native K x t (NumberStartingDispatchableUnits (palier_du K pays i)))"
  using somme_decalee [OF assms, of "\<lambda>t. valeur_native K x t (NumberOfDispatchableUnits (palier_du K pays i))" "- 1"]
  by (simp add: ligne_Consistence_def somme_sur_heures sum.distrib sum_subtractf sum_negf)

lemma somme_ligne_VariationSum:
  assumes "0 < NombreDePasDeTempsPourUneOptimisation (kh K)"
  shows "valeur_lignes x (concat (map (ligne_VariationSum K pays) (heures (kh K)))) =
    (\<Sum>t < NombreDePasDeTempsPourUneOptimisation (kh K).
       valeur_native K x t (HydProdUp pays) - valeur_native K x t (HydProdDown pays))"
  using somme_decalee [OF assms, of "\<lambda>t. valeur_native K x t (HydProd pays)" 1]
  by (simp add: ligne_VariationSum_def somme_sur_heures sum.distrib sum_subtractf sum_negf suivante_decale
      cong: sum.cong_simp)

text \<open>The level of a reservoir.\<close>

lemma somme_ligne_AreaHydroLevel:
  assumes "SuiviNiveauHoraire (hydro K pays)" and "n \<le> NombreDePasDeTempsPourUneOptimisation (kh K)"
  shows "(\<Sum>t < n. valeur_lignes x (ligne_AreaHydroLevel K pays t)) =
    (if n = 0 then 0 else valeur_native K x (n - 1) (HydroLevel pays)) +
    (\<Sum>t < n. valeur_native K x t (HydProd pays) - PumpingRatio (hydro K pays) * valeur_native K x t (Pumping pays) +
       valeur_native K x t (Overflow pays))"
  using assms(2) by (induction n) (auto simp: ligne_AreaHydroLevel_def assms(1))

end
