(* ===== verification/Row_Columns.thy ===== *)
theory Row_Columns
  imports Row_Semantics
begin

text \<open>
  The columns of the matrix: in a constructed problem every term of every row has a column between 0 and
  \<open>NombreDeVariables\<close>. Each row only names variables that the list of variables declares, at hours of the
  optimisation range, and a declared variable has either a number of the problem or -1 (and then no term).
\<close>

subsection \<open>Declared variables\<close>

definition declaree :: "PROBLEME_HEBDO \<Rightarrow> nat \<Rightarrow> native \<Rightarrow> bool" where
  "declaree h hr nv \<longleftrightarrow> (\<exists>v. (place_native hr nv, v) \<in> set (liste_variables h))"

lemma fiche_si_paire: "fiche_si b p ty nm v = (p, if b then Some (ty, None, VariableNamer nm v) else None)"
  by (simp add: fiche_si_def existe_def inexistante_def)

lemmas fiches_paires = existe_def entiere_def fiche_si_paire

text \<open>Where the records of the list come from.\<close>

lemma dans_liste_heure:
  assumes "hr < NombreDePasDeTempsPourUneOptimisation h" and "f \<in> set (fiches_heure h hr)"
  shows "f \<in> set (liste_variables h)"
  using assms by (auto simp: liste_variables_def fiches_lineaires_def fiches_heure_def)

lemma dans_liste_interco:
  assumes "hr < NombreDePasDeTempsPourUneOptimisation h" and "l < NombreDInterconnexions h"
    and "f \<in> set (fiches_interco h hr l)"
  shows "f \<in> set (liste_variables h)"
  using assms by (intro dans_liste_heure [of hr]) (auto simp: fiches_heure_def)

lemma dans_liste_pays:
  assumes "hr < NombreDePasDeTempsPourUneOptimisation h" and "pays < NombreDePays h"
    and "f \<in> set (fiches_pays h hr pays) \<union> set (fiches_hydro h hr pays)"
  shows "f \<in> set (liste_variables h)"
  using assms by (intro dans_liste_heure [of hr]) (auto simp: fiches_heure_def par_pays_def)

lemma dans_liste_stock:
  assumes "pays < NombreDePays h" and "f \<in> set (fiches_stock h pays)"
  shows "f \<in> set (liste_variables h)"
  using assms by (auto simp: liste_variables_def fiches_lineaires_def par_pays_def)

lemma dans_liste_demarrage:
  assumes "OptimisationAvecCoutsDeDemarrage h" and "hr < NombreDePasDeTempsPourUneOptimisation h"
    and "pays < NombreDePays h" and "i < nb_paliers h pays" and "f \<in> set (fiches_demarrage h pays i hr)"
  shows "f \<in> set (liste_variables h)"
  using assms by (auto simp: liste_variables_def fiches_demarrages_def par_palier_def)

lemma declaree_interco [simp]:
  assumes "hr < NombreDePasDeTempsPourUneOptimisation h" and "l < NombreDInterconnexions h"
  shows "declaree h hr (NTCDirect l)"
    and "IntercoGereeAvecDesCouts (CoutDeTransport h ! l) \<Longrightarrow> declaree h hr (IntercoDirectCost l)"
    and "IntercoGereeAvecDesCouts (CoutDeTransport h ! l) \<Longrightarrow> declaree h hr (IntercoIndirectCost l)"
proof -
  have "set (fiches_interco h hr l) \<subseteq> set (liste_variables h)"
    using dans_liste_interco [OF assms] by blast
  then show "declaree h hr (NTCDirect l)"
    "IntercoGereeAvecDesCouts (CoutDeTransport h ! l) \<Longrightarrow> declaree h hr (IntercoDirectCost l)"
    "IntercoGereeAvecDesCouts (CoutDeTransport h ! l) \<Longrightarrow> declaree h hr (IntercoIndirectCost l)"
    by (auto simp: declaree_def fiches_interco_def fiches_paires Let_def)
qed

lemma declaree_palier [simp]:
  assumes "hr < NombreDePasDeTempsPourUneOptimisation h" and "pays < NombreDePays h" and "i < nb_paliers h pays"
  shows "declaree h hr (DispatchableProduction (numero_palier h pays i))"
proof -
  have "fiche_palier h hr pays i \<in> set (liste_variables h)"
    by (rule dans_liste_pays [OF assms(1,2)]) (use assms(3) in \<open>simp add: fiches_pays_def Let_def\<close>)
  then show ?thesis
    by (auto simp: declaree_def fiche_palier_def fiches_paires Let_def)
qed

lemma declaree_stockage [simp]:
  assumes "hr < NombreDePasDeTempsPourUneOptimisation h" and "pays < NombreDePays h"
    and "st \<in> set (ShortTermStorage h ! pays)"
  shows "declaree h hr (ShortTermStorageInjection (clusterGlobalIndex st))"
    and "declaree h hr (ShortTermStorageWithdrawal (clusterGlobalIndex st))"
    and "declaree h hr (ShortTermStorageLevel (clusterGlobalIndex st))"
proof -
  have "set (fiches_stockage h hr pays st) \<subseteq> set (liste_variables h)"
    by (rule subsetI, rule dans_liste_pays [OF assms(1,2)])
      (use assms(3) in \<open>auto simp: fiches_pays_def Let_def\<close>)
  then show "declaree h hr (ShortTermStorageInjection (clusterGlobalIndex st))"
    "declaree h hr (ShortTermStorageWithdrawal (clusterGlobalIndex st))"
    "declaree h hr (ShortTermStorageLevel (clusterGlobalIndex st))"
    by (auto simp: declaree_def fiches_stockage_def fiches_paires Let_def)
qed

lemma declaree_pays [simp]:
  assumes "hr < NombreDePasDeTempsPourUneOptimisation h" and "pays < NombreDePays h"
  shows "declaree h hr (PositiveUnsuppliedEnergy pays)" and "declaree h hr (NegativeUnsuppliedEnergy pays)"
    and "declaree h hr (HydProd pays)" and "declaree h hr (HydProdDown pays)" and "declaree h hr (HydProdUp pays)"
    and "declaree h hr (Pumping pays)" and "declaree h hr (HydroLevel pays)" and "declaree h hr (Overflow pays)"
proof -
  have "set (fiches_pays h hr pays) \<subseteq> set (liste_variables h)" "set (fiches_hydro h hr pays) \<subseteq> set (liste_variables h)"
    using dans_liste_pays [OF assms] by auto
  then show "declaree h hr (PositiveUnsuppliedEnergy pays)" "declaree h hr (NegativeUnsuppliedEnergy pays)"
    "declaree h hr (HydProd pays)" "declaree h hr (HydProdDown pays)" "declaree h hr (HydProdUp pays)"
    "declaree h hr (Pumping pays)" "declaree h hr (HydroLevel pays)" "declaree h hr (Overflow pays)"
    by (auto simp: declaree_def fiches_pays_def fiches_hydro_def fiches_paires Let_def)
qed

lemma declaree_stock [simp]:
  assumes "pays < NombreDePays h"
  shows "declaree h hr (FinalStorage pays)" and "l < 100 \<Longrightarrow> declaree h hr (LayerStorage pays l)"
proof -
  have "set (fiches_stock h pays) \<subseteq> set (liste_variables h)"
    using dans_liste_stock [OF assms] by blast
  then show "declaree h hr (FinalStorage pays)" "l < 100 \<Longrightarrow> declaree h hr (LayerStorage pays l)"
    by (auto simp: declaree_def fiches_stock_def fiches_paires Let_def image_subset_iff)
qed

lemma declaree_demarrage:
  assumes "OptimisationAvecCoutsDeDemarrage h" and "hr < NombreDePasDeTempsPourUneOptimisation h"
    and "pays < NombreDePays h" and "i < nb_paliers h pays"
  shows "declaree h hr (NumberOfDispatchableUnits (numero_palier h pays i))"
    and "declaree h hr (NumberStartingDispatchableUnits (numero_palier h pays i))"
    and "declaree h hr (NumberStoppingDispatchableUnits (numero_palier h pays i))"
    and "declaree h hr (NumberBreakingDownDispatchableUnits (numero_palier h pays i))"
proof -
  have "set (fiches_demarrage h pays i hr) \<subseteq> set (liste_variables h)"
    using dans_liste_demarrage [OF assms] by blast
  then show "declaree h hr (NumberOfDispatchableUnits (numero_palier h pays i))"
    "declaree h hr (NumberStartingDispatchableUnits (numero_palier h pays i))"
    "declaree h hr (NumberStoppingDispatchableUnits (numero_palier h pays i))"
    "declaree h hr (NumberBreakingDownDispatchableUnits (numero_palier h pays i))"
    by (auto simp: declaree_def fiches_demarrage_def fiches_paires Let_def)
qed

subsection \<open>The columns of a row\<close>

definition colonnes_ok :: "nat \<Rightarrow> (int \<times> real) list \<Rightarrow> bool" where
  "colonnes_ok n ts \<longleftrightarrow> (\<forall>t \<in> set ts. 0 \<le> fst t \<and> fst t < int n)"

definition lignes_colonnes :: "nat \<Rightarrow> ligne list \<Rightarrow> bool" where
  "lignes_colonnes n ls \<longleftrightarrow> (\<forall>l \<in> set ls. colonnes_ok n (snd l))"

lemma colonnes_simps [simp]:
  "colonnes_ok n []" "colonnes_ok n (ts @ us) \<longleftrightarrow> colonnes_ok n ts \<and> colonnes_ok n us"
  "colonnes_ok n (concat (map f xs)) \<longleftrightarrow> (\<forall>x \<in> set xs. colonnes_ok n (f x))"
  "lignes_colonnes n []" "lignes_colonnes n (ls @ ms) \<longleftrightarrow> lignes_colonnes n ls \<and> lignes_colonnes n ms"
  "lignes_colonnes n (concat (map g ys)) \<longleftrightarrow> (\<forall>y \<in> set ys. lignes_colonnes n (g y))"
  "lignes_colonnes n (rang op ts) \<longleftrightarrow> colonnes_ok n ts"
  by (auto simp: colonnes_ok_def lignes_colonnes_def rang_def)

text \<open>The number of a declared variable is below \<open>NombreDeVariables\<close>.\<close>

lemma lecture_declaree:
  assumes "variables_construites h s" and "declaree h hr nv"
  shows "lecture s (place_native hr nv) < int (nb_variables h)"
proof -
  obtain v where v: "(place_native hr nv, v) \<in> set (liste_variables h)"
    using assms(2) by (auto simp: declaree_def)
  show ?thesis
  proof (cases v)
    case None
    then have "lecture s (place_native hr nv) = - 1"
      using v assms(1) by (simp add: variables_construites_def)
    then show ?thesis by simp
  next
    case (Some w)
    then have "(place_native hr nv, w) \<in> set (creees (liste_variables h))"
      using v by (simp add: creees_subset)
    then obtain k where k: "k < nb_variables h" "creees (liste_variables h) ! k = (place_native hr nv, w)"
      by (auto simp: in_set_conv_nth nb_variables_def)
    then have "variable_ok s k (place_native hr nv, w)"
      using assms(1) by (auto simp: variables_construites_def)
    then show ?thesis using k(1) by (cases w) (simp add: variable_ok_def)
  qed
qed


text \<open>A problem whose variables are numbered, with vectors of the right sizes.\<close>

definition probleme_numerote :: "PROBLEME_HEBDO \<Rightarrow> etat \<Rightarrow> bool" where
  "probleme_numerote h s \<longleftrightarrow> variables_construites h s \<and> contexte_ok (contexte_de h s)"

lemma contexte_de_kh [simp]: "kh (contexte_de h s) = h"
  by (simp add: contexte_de_def)

lemma numerote_ok:
  assumes "probleme_numerote h s"
  shows "variables_construites h s" "contexte_ok (contexte_de h s)" "hebdo_ok h"
  using assms contexte_ok_hebdo [of "contexte_de h s"] by (simp_all add: probleme_numerote_def)

lemma terme_ok:
  assumes N: "probleme_numerote h s" and "declaree h hr nv" and "hr < NombreDePasDeTemps h" and "native_ok h nv"
  shows "colonnes_ok (nb_variables h) (terme (contexte_de h s) hr nv c)"
  using lecture_declaree [OF numerote_ok(1) [OF N] assms(2)] numero_lecture [OF numerote_ok(2) [OF N] assms(3,4)]
  by (simp add: terme_def colonnes_ok_def)

lemma terme_heure [simp]:
  assumes N: "probleme_numerote h s" and "hr < NombreDePasDeTempsPourUneOptimisation h" and "declaree h hr nv" and "native_ok h nv"
  shows "colonnes_ok (nb_variables h) (terme (contexte_de h s) hr nv c)"
  by (rule terme_ok) (use N numerote_ok(3) [OF N] assms in simp_all)

lemma termes_paliers_ok [simp]:
  assumes N: "probleme_numerote h s" and "pdt < NombreDePasDeTempsPourUneOptimisation h" and "pays < NombreDePays h"
  shows "colonnes_ok (nb_variables h) (termes_paliers (contexte_de h s) pdt pays)"
proof -
  have "colonnes_ok (nb_variables h) (terme (contexte_de h s) pdt (DispatchableProduction p) (- 1))"
    if "p \<in> set (NumeroDuPalierDansLEnsembleDesPaliersThermiques (PaliersThermiquesDuPays h ! pays))" for p
  proof -
    have "length (NumeroDuPalierDansLEnsembleDesPaliersThermiques (PaliersThermiquesDuPays h ! pays)) = nb_paliers h pays"
      using numerote_ok(3) [OF N] assms(3) by simp
    with that obtain i where i: "i < nb_paliers h pays" "p = numero_palier h pays i"
      by (auto simp: in_set_conv_nth)
    show ?thesis
      unfolding i(2) by (rule terme_heure) (use i(1) N numerote_ok(3) [OF N] assms in simp_all)
  qed
  then show ?thesis by (simp add: termes_paliers_def)
qed

lemma liens_bornes:
  "l \<in> set (liens_origine h pays) \<Longrightarrow> l < NombreDInterconnexions h"
  "l \<in> set (liens_extremite h pays) \<Longrightarrow> l < NombreDInterconnexions h"
  by (auto simp: liens_origine_def liens_extremite_def liens_def)

lemma colonnes_areas [simp]:
  assumes N: "probleme_numerote h s" and "pdt < NombreDePasDeTempsPourUneOptimisation h" and "pays < NombreDePays h"
  shows "lignes_colonnes (nb_variables h) (ligne_AreaBalance (contexte_de h s) pdt pays)"
    and "lignes_colonnes (nb_variables h) (ligne_FictitiousLoad (contexte_de h s) pdt pays)"
  using N numerote_ok(3) [OF N] assms by (auto simp: ligne_AreaBalance_def ligne_FictitiousLoad_def dest: liens_bornes)

lemma decale_borne [simp]:
  "hebdo_ok h \<Longrightarrow> decale (contexte_de h s) pdt d < NombreDePasDeTempsPourUneOptimisation h"
  using hebdo_ok_horizon(1) [of h] by (simp add: decale_def nat_less_iff)

lemma colonnes_stockage [simp]:
  assumes N: "probleme_numerote h s" and "pdt < NombreDePasDeTempsPourUneOptimisation h" and "pays < NombreDePays h"
  shows "lignes_colonnes (nb_variables h) (lignes_ShortTermStorageLevel (contexte_de h s) pdt pays)"
  using N numerote_ok(3) [OF N] assms by (auto simp: lignes_ShortTermStorageLevel_def ligne_stockage_def Let_def)

lemma colonnes_couts [simp]:
  assumes N: "probleme_numerote h s" and "pdt < NombreDePasDeTempsPourUneOptimisation h" and "l < NombreDInterconnexions h"
  shows "lignes_colonnes (nb_variables h) (ligne_FlowDissociation (contexte_de h s) pdt l)"
  using N numerote_ok(3) [OF N] assms by (auto simp: ligne_FlowDissociation_def)

lemma suivante_borne [simp]:
  "hebdo_ok h \<Longrightarrow> suivante (contexte_de h s) pdt < NombreDePasDeTempsPourUneOptimisation h"
  using suivante_lt [of "contexte_de h s"] by simp

lemma colonnes_hydro [simp]:
  assumes N: "probleme_numerote h s" and "pays < NombreDePays h"
  shows "lignes_colonnes (nb_variables h) (ligne_HydroPower (contexte_de h s) pays)"
    and "lignes_colonnes (nb_variables h) (ligne_MinHydroPower (contexte_de h s) pays)"
    and "lignes_colonnes (nb_variables h) (ligne_MaxHydroPower (contexte_de h s) pays)"
    and "lignes_colonnes (nb_variables h) (ligne_MaxPumping (contexte_de h s) pays)"
    and "lignes_colonnes (nb_variables h) (ligne_FinalStockEquivalent (contexte_de h s) pays)"
    and "lignes_colonnes (nb_variables h) (ligne_FinalStockExpression (contexte_de h s) pays)"
    and "lignes_colonnes (nb_variables h) (lignes_VariationSum (contexte_de h s) pays)"
  using N numerote_ok(3) [OF N] assms derniere_heure_lt [of "contexte_de h s"]
  by (auto simp: ligne_HydroPower_def ligne_MinHydroPower_def ligne_MaxHydroPower_def ligne_MaxPumping_def
      ligne_FinalStockEquivalent_def ligne_FinalStockExpression_def lignes_VariationSum_def
      ligne_VariationSum_def somme_def)

lemma colonnes_hydro_heure [simp]:
  assumes N: "probleme_numerote h s" and "pays < NombreDePays h" and "pdt < NombreDePasDeTempsPourUneOptimisation h"
  shows "lignes_colonnes (nb_variables h) (ligne_VariationMaxDown (contexte_de h s) pays pdt)"
    and "lignes_colonnes (nb_variables h) (ligne_VariationMaxUp (contexte_de h s) pays pdt)"
    and "lignes_colonnes (nb_variables h) (ligne_AreaHydroLevel (contexte_de h s) pays pdt)"
  using N numerote_ok(3) [OF N] assms by (auto simp: ligne_VariationMaxDown_def ligne_VariationMaxUp_def ligne_AreaHydroLevel_def)

lemma couplante_termes:
  assumes N: "probleme_numerote h s" and "cnt < NombreDeContraintesCouplantes h"
  shows "colonnes_ok (nb_variables h) (termes_couplante (contexte_de h s) (couplante (contexte_de h s) cnt) pdts)"
proof -
  let ?c = "couplante (contexte_de h s) cnt"
  have c: "couplante_ok h ?c"
    unfolding contexte_de_kh by (rule hebdo_ok_couplante [OF numerote_ok(3) [OF N] assms(2)])
  have 1: "NumeroDeLInterconnexion ?c ! i < NombreDInterconnexions h"
    if "i < NombreDInterconnexionsDansLaContrainteCouplante ?c" for i
    by (rule couplante_ok_interco(1) [OF c that])
  have 2: "declaree h t (DispatchableProduction (palier_couplant h ?c i)) \<and>
      palier_couplant h ?c i < NombreTotalDePaliersThermiques h"
    if "i < NombreDePaliersDispatchDansLaContrainteCouplante ?c" "t < NombreDePasDeTempsPourUneOptimisation h" for i t
    using couplante_ok_palier [OF c that(1)] that(2)
    unfolding palier_couplant_def by (intro conjI declaree_palier hebdo_ok_palier numerote_ok(3) [OF N])
  have "colonnes_ok (nb_variables h) (terme (contexte_de h s) (decale (contexte_de h s) t d) (NTCDirect (NumeroDeLInterconnexion ?c ! i)) a)"
    if "i < NombreDInterconnexionsDansLaContrainteCouplante ?c" for i t d a
    by (rule terme_heure) (use N numerote_ok(3) [OF N] 1 [OF that] in simp_all)
  moreover have "colonnes_ok (nb_variables h) (terme (contexte_de h s) (decale (contexte_de h s) t d) (DispatchableProduction (palier_couplant h ?c i)) a)"
    if "i < NombreDePaliersDispatchDansLaContrainteCouplante ?c" for i t d a
    by (rule terme_heure) (use N numerote_ok(3) [OF N] 2 [OF that decale_borne] in simp_all)
  ultimately show ?thesis
    unfolding termes_couplante_def termes_decales_def colonnes_simps by auto
qed

lemma colonnes_couplante [simp]:
  assumes N: "probleme_numerote h s" and "cnt < NombreDeContraintesCouplantes h"
  shows "lignes_colonnes (nb_variables h) (ligne_BindingConstraintHour (contexte_de h s) pdt cnt)"
    and "lignes_colonnes (nb_variables h) (lignes_BindingConstraintDay (contexte_de h s) cnt)"
    and "lignes_colonnes (nb_variables h) (ligne_BindingConstraintWeek (contexte_de h s) cnt)"
  using N numerote_ok(3) [OF N] couplante_termes [OF assms]
  by (auto simp: ligne_BindingConstraintHour_def lignes_BindingConstraintDay_def ligne_BindingConstraintWeek_def
      ligne_couplante_def)

lemma fenetre_borne: "hebdo_ok h \<Longrightarrow> t \<in> set (fenetre (contexte_de h s) pdt d) \<Longrightarrow> t < NombreDePasDeTempsPourUneOptimisation h"
  using hebdo_ok_horizon(1) [of h] by (auto simp: fenetre_def nat_less_iff)

lemma colonnes_demarrage:
  assumes N: "probleme_numerote h s" and "OptimisationAvecCoutsDeDemarrage h"
  shows "lignes_colonnes (nb_variables h) (lignes_demarrage (contexte_de h s))"
  using N numerote_ok(3) [OF N] declaree_demarrage [OF assms(2)]
  by (auto simp: lignes_demarrage_def par_palier_def ligne_PMax_def ligne_PMin_def ligne_Consistence_def
      ligne_NbUnitsOutage_def ligne_MinUpTime_def ligne_MinDownTime_def dest!: fenetre_borne [OF numerote_ok(3) [OF N]])

lemma liste_lignes_colonnes:
  assumes N: "probleme_numerote h s"
  shows "lignes_colonnes (nb_variables h) (liste_lignes (contexte_de h s))"
  using N numerote_ok(3) [OF N] colonnes_demarrage [OF N]
  by (auto simp: liste_lignes_def lignes_horaires_def lignes_lissage_def par_pays_def par_couplante_def
      split: lissage.split)

end
