(* ===== verification/Worked_Example.thy ===== *)
theory Worked_Example
  imports Problem_Pipeline
begin

text \<open>
  A small week, with every kind of row: two areas, a link with costs between them, two thermal clusters
  with start-up costs, a reservoir followed hour by hour, a storage, and one binding constraint of each
  kind. The properties of the development are applied to it.
\<close>

definition grappe :: "nat \<Rightarrow> string \<Rightarrow> PALIERS_THERMIQUES" where
  "grappe n nom = \<lparr>NombreDePaliersThermiques = 1,
     NumeroDuPalierDansLEnsembleDesPaliersThermiques = [n],
     pminDUnGroupeDuPalierThermique = [10], PmaxDUnGroupeDuPalierThermique = [100],
     DureeMinimaleDeMarcheDUnGroupeDuPalierThermique = [2],
     DureeMinimaleDArretDUnGroupeDuPalierThermique = [1], NomsDesPaliersThermiques = [nom]\<rparr>"

definition reservoir :: ENERGIES_ET_PUISSANCES_HYDRAULIQUES where
  "reservoir = \<lparr>PresenceDePompageModulable = True, PresenceDHydrauliqueModulable = True,
     TurbinageEntreBornes = True, SuiviNiveauHoraire = True, DirectLevelAccess = True,
     AccurateWaterValue = True, PumpingRatio = 3 / 4\<rparr>"

definition sans_reservoir :: ENERGIES_ET_PUISSANCES_HYDRAULIQUES where
  "sans_reservoir = \<lparr>PresenceDePompageModulable = False, PresenceDHydrauliqueModulable = True,
     TurbinageEntreBornes = False, SuiviNiveauHoraire = False, DirectLevelAccess = False,
     AccurateWaterValue = False, PumpingRatio = 1\<rparr>"

definition contrainte :: "type_contrainte \<Rightarrow> string \<Rightarrow> CONTRAINTES_COUPLANTES" where
  "contrainte ty nom = \<lparr>TypeDeContrainteCouplante = ty, SensDeLaContrainteCouplante = CHR ''<'',
     NombreDInterconnexionsDansLaContrainteCouplante = 1, PoidsDeLInterconnexion = [1],
     NumeroDeLInterconnexion = [0], OffsetTemporelSurLInterco = [- 1],
     NombreDePaliersDispatchDansLaContrainteCouplante = 1, PoidsDuPalierDispatch = [2],
     PaysDuPalierDispatch = [1], NumeroDuPalierDispatch = [0], OffsetTemporelSurLePalierDispatch = [3],
     NomDeLaContrainteCouplante = nom\<rparr>"

definition exemple :: PROBLEME_HEBDO where
  "exemple = \<lparr>weekInTheYear = 3, OptimisationAuPasHebdomadaire = True,
     TypeDeLissageHydraulique = LISSAGE_HYDRAULIQUE_SUR_SOMME_DES_VARIATIONS,
     OptimisationAvecCoutsDeDemarrage = True, OptimisationAvecVariablesEntieres = True,
     NombreDePays = 2, NomsDesPays = [''north'', ''south''], NombreTotalDePaliersThermiques = 2,
     NombreDInterconnexions = 1, PaysOrigineDeLInterconnexion = [0], PaysExtremiteDeLInterconnexion = [1],
     CoutDeTransport = [\<lparr>IntercoGereeAvecDesCouts = True\<rparr>], NombreDePasDeTemps = 8,
     NumeroDeJourDuPasDeTemps = replicate 8 0, NombreDePasDeTempsPourUneOptimisation = 0,
     NumeroDIntervalleOptimiseDuPasDeTemps = replicate 8 0, NombreDeJours = 0,
     NombreDePasDeTempsDUneJournee = 4, PaliersThermiquesDuPays = [grappe 0 ''gas'', grappe 1 ''coal''],
     CaracteristiquesHydrauliques = [reservoir, sans_reservoir], NumberOfShortTermStorages = 1,
     ShortTermStorage = [[], [\<lparr>efficiency = 9 / 10, clusterGlobalIndex = 0, storage_name = ''battery''\<rparr>]],
     DefaillanceNegativeUtiliserHydro = [True, False], NombreDeContraintesCouplantes = 3,
     MatriceDesContraintesCouplantes = [contrainte CONTRAINTE_HORAIRE ''bc1'',
       contrainte CONTRAINTE_JOURNALIERE ''bc2'', contrainte CONTRAINTE_HEBDOMADAIRE ''bc3''],
     IndexDebutIntercoOrigine = [0, 0], IndexSuivantIntercoOrigine = [0],
     IndexDebutIntercoExtremite = [0, 0], IndexSuivantIntercoExtremite = [0]\<rparr>"

lemmas exemple_defs = exemple_def grappe_def reservoir_def sans_reservoir_def contrainte_def
  choisir_horizon_def

lemma exemple_horaire: "horaire_ok exemple"
  by (simp add: horaire_ok_def exemple_def)

lemma exemple_intercos: "intercos_ok exemple"
  by (simp add: intercos_ok_def exemple_def)

lemma exemple_numeros: "numeros_distincts exemple"
  by (simp add: numeros_distincts_def exemple_defs eval_nat_numeral)

lemma exemple_structure: "structure_ok exemple"
  by (simp add: structure_ok_def paliers_ok_def couplante_ok_def decalages_ok_def demarrage_ok_def
      exemple_defs eval_nat_numeral)

lemma exemple_tailles: "tailles_ok (choisir_horizon exemple)"
  by (simp add: tailles_ok_def somme_pays_def exemple_defs eval_nat_numeral)

lemma exemple_niveaux: "pays < 2 \<Longrightarrow> \<not> niveau_impossible exemple pays"
  by (auto simp: niveau_impossible_def exemple_defs eval_nat_numeral less_Suc_eq)

lemma exemple_ok: "donnees_ok exemple"
  using exemple_horaire exemple_intercos exemple_numeros exemple_structure exemple_tailles exemple_niveaux
  by (simp add: donnees_ok_def) (simp add: exemple_def)


subsection \<open>The example once prepared\<close>

definition exemple_chaine :: PROBLEME_HEBDO where
  "exemple_chaine = (avec_horizon exemple)\<lparr>IndexDebutIntercoOrigine := [0, - 1],
     IndexSuivantIntercoOrigine := [- 1], IndexDebutIntercoExtremite := [- 1, 0],
     IndexSuivantIntercoExtremite := [- 1]\<rparr>"

definition exemple_pret :: PROBLEME_HEBDO where
  "exemple_pret = prepare exemple_chaine"

lemma exemple_chainage: "OPT_ChainagesDesIntercoPartantDUnNoeud (avec_horizon exemple) = Inr exemple_chaine"
  by (simp add: OPT_ChainagesDesIntercoPartantDUnNoeud_def initialiser_debuts_def chainer_interco_def
      exemple_chaine_def avec_horizon_def exemple_defs upt_rec Let_def)

lemma exemple_instancie: "instancie exemple exemple_chaine"
proof (rule instancieI)
  have "returns (OPT_ChainagesDesIntercoPartantDUnNoeud (avec_horizon exemple))
    (\<lambda>h'. sans_index h' = sans_index (avec_horizon exemple) \<and> intercos_ok h' \<and>
       chainage_jusqua h' (NombreDInterconnexions (avec_horizon exemple)))"
    by (rule OPT_Chainages_ok) (simp add: intercos_ok_def exemple_defs avec_horizon_def)
  then show "intercos_ok exemple_chaine" "chainage_jusqua exemple_chaine (NombreDInterconnexions exemple_chaine)"
    by (simp_all add: exemple_chainage) (simp add: exemple_chaine_def)
qed (simp add: exemple_chaine_def sans_index_def)

lemma exemple_pret_ok: "pret_a_construire exemple_pret"
  unfolding exemple_pret_def by (rule pret_a_construire_prepare [OF exemple_ok exemple_instancie])

lemmas exemple_pret_defs = exemple_pret_def exemple_chaine_def prepare_def avec_horizon_def exemple_defs

lemma exemple_pret_sel [simp]:
  "NombreDePays exemple_pret = 2" "NombreDInterconnexions exemple_pret = 1"
  "NombreDePasDeTempsPourUneOptimisation exemple_pret = 8" "NombreDePasDeTemps exemple_pret = 8"
  "NombreDePasDeTempsDUneJournee exemple_pret = 4" "NombreDeContraintesCouplantes exemple_pret = 3"
  "NombreTotalDePaliersThermiques exemple_pret = 2" "NumberOfShortTermStorages exemple_pret = 1"
  "PaliersThermiquesDuPays exemple_pret = [grappe 0 ''gas'', grappe 1 ''coal'']"
  "CaracteristiquesHydrauliques exemple_pret = [reservoir, sans_reservoir]"
  "ShortTermStorage exemple_pret = [[], [\<lparr>efficiency = 9 / 10, clusterGlobalIndex = 0, storage_name = ''battery''\<rparr>]]"
  "PaysOrigineDeLInterconnexion exemple_pret = [0]" "PaysExtremiteDeLInterconnexion exemple_pret = [1]"
  "CoutDeTransport exemple_pret = [\<lparr>IntercoGereeAvecDesCouts = True\<rparr>]"
  "MatriceDesContraintesCouplantes exemple_pret = [contrainte CONTRAINTE_HORAIRE ''bc1'',
       contrainte CONTRAINTE_JOURNALIERE ''bc2'', contrainte CONTRAINTE_HEBDOMADAIRE ''bc3'']"
  "OptimisationAvecCoutsDeDemarrage exemple_pret" "OptimisationAvecVariablesEntieres exemple_pret"
  "TypeDeLissageHydraulique exemple_pret = LISSAGE_HYDRAULIQUE_SUR_SOMME_DES_VARIATIONS"
  "DefaillanceNegativeUtiliserHydro exemple_pret = [True, False]"
  "NomsDesPays exemple_pret = [''north'', ''south'']"
  "weekInTheYear exemple_pret = 3"
  by (simp_all add: exemple_pret_def exemple_chaine_def prepare_def Let_def avec_horizon_def choisir_horizon_def exemple_def)

lemma exemple_hebdo: "hebdo_ok exemple_pret" "numeros_distincts exemple_pret"
    "\<forall>pays < NombreDePays exemple_pret. \<not> niveau_impossible exemple_pret pays"
  using exemple_pret_ok by (simp_all add: pret_a_construire_def)

text \<open>The first week of the example, up to the construction of its problem.\<close>

lemma exemple_construit:
  obtains s where "alloue exemple_pret s" and "probleme_construit exemple_pret s"
    and "contexte_ok (contexte_de exemple_pret s)" and "contexte_large (contexte_de exemple_pret s)"
    and "demarrage_numerote (contexte_de exemple_pret s)"
    and "rep_lignes (contexte_de exemple_pret s) () (vider_matrice s) []"
proof -
  have "etat_ok exemple_pret (SIM_AllocationProblemeHebdo exemple_pret)" by (rule SIM_Allocation_ok)
  then obtain s0 where "alloue exemple_pret s0"
    using OPT_Alloc_ok [OF exemple_hebdo(1,3)] by (blast elim: returnsE)
  from construction_ok [OF exemple_pret_ok this] obtain s
    where s: "alloue exemple_pret s" "probleme_construit exemple_pret s" by (blast elim: returnsE)
  show thesis
  proof
    show "contexte_ok (contexte_de exemple_pret s)" (is "contexte_ok ?K")
      using exemple_hebdo(1) s(1) by (simp add: contexte_ok_def contexte_de_def alloue_def dims_variables_def)
    then show "demarrage_numerote ?K"
      using s(2) by (intro demarrage_numerote_construit) (simp_all add: probleme_construit_def)
    show "contexte_large ?K"
      using exemple_pret_ok by (simp add: contexte_large_def contexte_de_def pret_a_construire_def)
    show "rep_lignes ?K () (vider_matrice s) []"
      by (rule rep_lignes_vider) (rule alloue_pret [OF s(1)])
  qed (use s in simp_all)
qed

end
