(* ===== verification/Row_Properties.thy ===== *)
theory Row_Properties
  imports Row_Columns Worked_Example
begin

text \<open>
  The rows, one class of constraints at a time: what \<open>add\<close> appends to a matrix that has room for it. The
  rows are written in terms of \<open>terme K hr nv c\<close>: the coefficient \<open>c\<close> on the number that variable \<open>nv\<close> has
  at hour \<open>hr\<close>, or nothing when it was not created; \<open>decale K pdt d\<close> is the hour \<open>d\<close> steps later in the
  cyclic range, \<open>rang op ts\<close> the row of direction \<open>op\<close> and terms \<open>ts\<close>, or no row when there is no term.
  Each property is applied to the example of \<open>Worked_Example\<close>.
\<close>

subsection \<open>Appending a row\<close>

definition ajout_possible :: "contexte \<Rightarrow> etat \<Rightarrow> ligne list \<Rightarrow> bool" where
  "ajout_possible K s L \<longleftrightarrow> contexte_ok K \<and> contexte_large K \<and> rep_lignes K () s L \<and> tient K L \<and> length L < knc K"

lemma ajoute:
  assumes "ajout_possible K s L" and "construit K f ls k" and "tient K ls" and "k \<le> 1"
  shows "\<exists>s'. f s = Inr s' \<and> rep_lignes K () s' (L @ ls)"
proof -
  have "returns (f s) (\<lambda>s'. rep_lignes K () s' (L @ ls))"
    by (rule rangs.emitsD [OF assms(2)]) (use assms in \<open>simp_all add: ajout_possible_def\<close>)
  then show ?thesis by (auto elim: returnsE)
qed

lemma exemple_ajout:
  obtains K s where "kh K = exemple_pret" and "ajout_possible K s []" and "demarrage_numerote K" and "2 \<le> knc K"
proof -
  obtain s where s: "contexte_ok (contexte_de exemple_pret s)" "contexte_large (contexte_de exemple_pret s)"
    "demarrage_numerote (contexte_de exemple_pret s)" "rep_lignes (contexte_de exemple_pret s) () (vider_matrice s) []"
    using exemple_construit by metis
  have n: "2 \<le> knc (contexte_de exemple_pret s)"
    by (simp add: contexte_de_def nb_contraintes_prevues_def nb_contraintes_lineaires_def)
  with s have "ajout_possible (contexte_de exemple_pret s) (vider_matrice s) []"
    by (simp add: ajout_possible_def)
  then show thesis using that [of "contexte_de exemple_pret s"] s(3) n by simp
qed

section \<open>The areas\<close>

text \<open>
  C10: the balance of an area at an hour. \<open>AreaBalance::add\<close> appends one row, an equality: the flows of the
  links that leave the area, minus those that enter it, minus the thermal and hydraulic generation, plus the
  pumping, minus the unsupplied energy, plus the spilled energy, plus the injections into the storages of the
  area minus their withdrawals.
\<close>

theorem area_balance_row:
  assumes "ajout_possible K s L" and "pdt < NombreDePasDeTempsPourUneOptimisation (kh K)"
    and "pays < NombreDePays (kh K)"
  shows "\<exists>s'. AreaBalance_add (kh K) pdt pays s = Inr s' \<and> rep_lignes K () s' (L @ rang CHR ''=''
    (concat (map (\<lambda>l. terme K pdt (NTCDirect l) 1)
       (liens (PaysOrigineDeLInterconnexion (kh K)) pays (NombreDInterconnexions (kh K)))) @
     concat (map (\<lambda>l. terme K pdt (NTCDirect l) (- 1))
       (liens (PaysExtremiteDeLInterconnexion (kh K)) pays (NombreDInterconnexions (kh K)))) @
     concat (map (\<lambda>p. terme K pdt (DispatchableProduction p) (- 1))
       (NumeroDuPalierDansLEnsembleDesPaliersThermiques (PaliersThermiquesDuPays (kh K) ! pays))) @
     terme K pdt (HydProd pays) (- 1) @ terme K pdt (Pumping pays) 1 @
     terme K pdt (PositiveUnsuppliedEnergy pays) (- 1) @ terme K pdt (NegativeUnsuppliedEnergy pays) 1 @
     concat (map (\<lambda>st. terme K pdt (ShortTermStorageInjection (clusterGlobalIndex st)) 1 @
                       terme K pdt (ShortTermStorageWithdrawal (clusterGlobalIndex st)) (- 1))
       (ShortTermStorage (kh K) ! pays))))"
  using ajoute [OF assms(1) AreaBalance_ok tient_AreaBalance] assms
  by (simp add: ajout_possible_def ligne_AreaBalance_def termes_paliers_def liens_origine_def liens_extremite_def)

theorem area_balance_row_witness:
  "\<exists>K s s'. kh K = exemple_pret \<and> AreaBalance_add exemple_pret 5 1 s = Inr s' \<and> rep_lignes K () s' (rang CHR ''=''
    (terme K 5 (NTCDirect 0) (- 1) @ terme K 5 (DispatchableProduction 1) (- 1) @
     terme K 5 (HydProd 1) (- 1) @ terme K 5 (Pumping 1) 1 @
     terme K 5 (PositiveUnsuppliedEnergy 1) (- 1) @ terme K 5 (NegativeUnsuppliedEnergy 1) 1 @
     terme K 5 (ShortTermStorageInjection 0) 1 @ terme K 5 (ShortTermStorageWithdrawal 0) (- 1)))"
proof -
  obtain K s where K: "kh K = exemple_pret" "ajout_possible K s []" using exemple_ajout by metis
  show ?thesis
    using area_balance_row [OF K(2), of 5 1] K(1) by (force simp: liens_def grappe_def)
qed

text \<open>
  C13: the level of the storages of an area. \<open>ShortTermStorageLevel::add\<close> appends one equality per storage:
  the level, minus the level one hour before (the hour before the first one is the last one), minus the
  injection times the efficiency, plus the withdrawal.
\<close>

theorem storage_level_row:
  assumes "ajout_possible K s L" and "pdt < NombreDePasDeTempsPourUneOptimisation (kh K)"
    and "pays < NombreDePays (kh K)" and "length L + length (ShortTermStorage (kh K) ! pays) \<le> knc K"
  shows "\<exists>s'. ShortTermStorageLevel_add (kh K) pdt pays s = Inr s' \<and>
    rep_lignes K () s' (L @ concat (map (\<lambda>st. let i = clusterGlobalIndex st in rang CHR ''=''
      (terme K pdt (ShortTermStorageLevel i) 1 @ terme K (decale K pdt (- 1)) (ShortTermStorageLevel i) (- 1) @
       terme K pdt (ShortTermStorageInjection i) (- efficiency st) @ terme K pdt (ShortTermStorageWithdrawal i) 1))
     (ShortTermStorage (kh K) ! pays)))"
proof -
  have "returns (ShortTermStorageLevel_add (kh K) pdt pays s)
      (\<lambda>s'. rep_lignes K () s' (L @ lignes_ShortTermStorageLevel K pdt pays))"
    by (rule rangs.emitsD [OF ShortTermStorageLevel_ok])
      (use assms tient_petites_lignes(1) in \<open>simp_all add: ajout_possible_def\<close>)
  then show ?thesis
    by (auto simp: lignes_ShortTermStorageLevel_def ligne_stockage_def [abs_def] elim!: returnsE)
qed

theorem storage_level_row_witness:
  "\<exists>K s s'. kh K = exemple_pret \<and> ShortTermStorageLevel_add exemple_pret 0 1 s = Inr s' \<and>
    rep_lignes K () s' (rang CHR ''=''
      (terme K 0 (ShortTermStorageLevel 0) 1 @ terme K 7 (ShortTermStorageLevel 0) (- 1) @
       terme K 0 (ShortTermStorageInjection 0) (- (9 / 10)) @ terme K 0 (ShortTermStorageWithdrawal 0) 1))"
proof -
  obtain K s where K: "kh K = exemple_pret" "ajout_possible K s []" using exemple_ajout by metis
  show ?thesis
    using storage_level_row [OF K(2), of 0 1] K by (force simp: decale_def Let_def ajout_possible_def)
qed

section \<open>The links\<close>

text \<open>
  C19: the flow of a link with costs. \<open>FlowDissociation::add\<close> appends the equality flow = direct flow minus
  indirect flow, when the link is managed with costs, and no row otherwise.
\<close>

theorem flow_dissociation_row:
  assumes "ajout_possible K s L" and "pdt < NombreDePasDeTempsPourUneOptimisation (kh K)"
    and "l < NombreDInterconnexions (kh K)"
  shows "\<exists>s'. FlowDissociation_add (kh K) pdt l s = Inr s' \<and> rep_lignes K () s' (L @
    (if IntercoGereeAvecDesCouts (CoutDeTransport (kh K) ! l)
     then rang CHR ''='' (terme K pdt (NTCDirect l) 1 @ terme K pdt (IntercoDirectCost l) (- 1) @
       terme K pdt (IntercoIndirectCost l) 1) else []))"
  using ajoute [OF assms(1) FlowDissociation_ok tient_FlowDissociation] assms
  by (simp add: ajout_possible_def ligne_FlowDissociation_def)

theorem flow_dissociation_row_witness:
  "\<exists>K s s'. kh K = exemple_pret \<and> FlowDissociation_add exemple_pret 3 0 s = Inr s' \<and> rep_lignes K () s'
    (rang CHR ''='' (terme K 3 (NTCDirect 0) 1 @ terme K 3 (IntercoDirectCost 0) (- 1) @
       terme K 3 (IntercoIndirectCost 0) 1))"
proof -
  obtain K s where K: "kh K = exemple_pret" "ajout_possible K s []" using exemple_ajout by metis
  show ?thesis
    using flow_dissociation_row [OF K(2), of 3 0] K(1) by force
qed

section \<open>The binding constraints\<close>

text \<open>
  C11: an hourly binding constraint. \<open>BindingConstraintHour::add\<close> appends, for a constraint of hourly type,
  one row with the direction of the constraint: each link and each cluster it names contributes its weight on
  the variable read at the hour shifted by its own offset, cyclically in the optimisation range. A constraint
  of another type adds no row.
\<close>

theorem binding_hour_row:
  assumes "ajout_possible K s L" and "pdt < NombreDePasDeTempsPourUneOptimisation (kh K)"
    and "cnt < NombreDeContraintesCouplantes (kh K)"
  defines "c \<equiv> MatriceDesContraintesCouplantes (kh K) ! cnt"
  shows "\<exists>s'. BindingConstraintHour_add (kh K) pdt cnt s = Inr s' \<and> rep_lignes K () s' (L @
    (if TypeDeContrainteCouplante c = CONTRAINTE_HORAIRE then rang (SensDeLaContrainteCouplante c)
      (concat (map (\<lambda>i. terme K (decale K pdt (OffsetTemporelSurLInterco c ! i))
           (NTCDirect (NumeroDeLInterconnexion c ! i)) (PoidsDeLInterconnexion c ! i))
         [0..<NombreDInterconnexionsDansLaContrainteCouplante c]) @
       concat (map (\<lambda>i. terme K (decale K pdt (OffsetTemporelSurLePalierDispatch c ! i))
           (DispatchableProduction (NumeroDuPalierDansLEnsembleDesPaliersThermiques
             (PaliersThermiquesDuPays (kh K) ! (PaysDuPalierDispatch c ! i)) ! (NumeroDuPalierDispatch c ! i)))
           (PoidsDuPalierDispatch c ! i))
         [0..<NombreDePaliersDispatchDansLaContrainteCouplante c])) else []))"
proof -
  have "\<exists>s'. BindingConstraintHour_add (kh K) pdt cnt s = Inr s' \<and>
      rep_lignes K () s' (L @ ligne_BindingConstraintHour K pdt cnt)"
    by (rule ajoute [OF assms(1) BindingConstraintHour_ok tient_couplantes(1)])
      (use assms(1-3) in \<open>simp_all add: ajout_possible_def\<close>)
  then show ?thesis
    by (simp add: ligne_BindingConstraintHour_def ligne_couplante_def termes_couplante_def
        termes_decales_def palier_couplant_def c_def cong: if_cong)
qed

theorem binding_hour_row_witness:
  "\<exists>K s s'. kh K = exemple_pret \<and> BindingConstraintHour_add exemple_pret 0 0 s = Inr s' \<and> rep_lignes K () s'
    (rang CHR ''<'' (terme K 7 (NTCDirect 0) 1 @ terme K 3 (DispatchableProduction 1) 2))"
proof -
  obtain K s where K: "kh K = exemple_pret" "ajout_possible K s []" using exemple_ajout by metis
  show ?thesis
    using binding_hour_row [OF K(2), of 0 0] K(1) by (force simp: contrainte_def decale_def grappe_def)
qed

text \<open>
  C12: a daily binding constraint. \<open>BindingConstraintDay::add\<close> terminates (its \<open>while\<close> loop advances by one
  day at a time) and appends one row per day of the optimisation range: the weights on the variables of all
  the hours of that day, each shifted by the offset of its link or cluster.
\<close>

theorem binding_day_rows:
  assumes "ajout_possible K s L" and "cnt < NombreDeContraintesCouplantes (kh K)"
  defines "c \<equiv> MatriceDesContraintesCouplantes (kh K) ! cnt"
    and "jours \<equiv> NombreDePasDeTempsPourUneOptimisation (kh K) div NombreDePasDeTempsDUneJournee (kh K)"
  assumes "TypeDeContrainteCouplante c = CONTRAINTE_JOURNALIERE" and "length L + jours \<le> knc K"
  shows "\<exists>s'. BindingConstraintDay_add (kh K) cnt s = Inr s' \<and> rep_lignes K () s' (L @
    concat (map (\<lambda>j. let hs = [j * NombreDePasDeTempsDUneJournee (kh K)..<
          j * NombreDePasDeTempsDUneJournee (kh K) + NombreDePasDeTempsDUneJournee (kh K)] in
       rang (SensDeLaContrainteCouplante c)
        (concat (map (\<lambda>i. concat (map (\<lambda>t. terme K (decale K t (OffsetTemporelSurLInterco c ! i))
             (NTCDirect (NumeroDeLInterconnexion c ! i)) (PoidsDeLInterconnexion c ! i)) hs))
           [0..<NombreDInterconnexionsDansLaContrainteCouplante c]) @
         concat (map (\<lambda>i. concat (map (\<lambda>t. terme K (decale K t (OffsetTemporelSurLePalierDispatch c ! i))
             (DispatchableProduction (palier_couplant (kh K) c i)) (PoidsDuPalierDispatch c ! i)) hs))
           [0..<NombreDePaliersDispatchDansLaContrainteCouplante c])))
      [0..<jours]))"
proof -
  have "returns (BindingConstraintDay_add (kh K) cnt s)
      (\<lambda>s'. rep_lignes K () s' (L @ lignes_BindingConstraintDay K cnt))"
    by (rule rangs.emitsD [OF BindingConstraintDay_ok])
      (use assms tient_couplantes(2) in \<open>simp_all add: ajout_possible_def\<close>)
  then show ?thesis
    using assms(5)
    by (auto simp: c_def jours_def lignes_BindingConstraintDay_def ligne_couplante_def termes_couplante_def
        termes_decales_def debuts_de_jour_def jour_depuis_def comp_def Let_def elim!: returnsE)
qed

theorem binding_day_rows_witness:
  "\<exists>K s s'. kh K = exemple_pret \<and> BindingConstraintDay_add exemple_pret 1 s = Inr s' \<and> rep_lignes K () s'
    (concat (map (\<lambda>j. rang CHR ''<''
      (concat (map (\<lambda>t. terme K (decale K t (- 1)) (NTCDirect 0) 1) [4 * j..<4 * j + 4]) @
       concat (map (\<lambda>t. terme K (decale K t 3) (DispatchableProduction 1) 2) [4 * j..<4 * j + 4]))) [0, 1]))"
proof -
  obtain K s where K: "kh K = exemple_pret" "ajout_possible K s []" "2 \<le> knc K" using exemple_ajout by metis
  have "\<exists>s'. BindingConstraintDay_add exemple_pret 1 s = Inr s' \<and> rep_lignes K () s'
    (concat (map (\<lambda>j. rang CHR ''<''
      (concat (map (\<lambda>t. terme K (decale K t (- 1)) (NTCDirect 0) 1) [4 * j..<4 * j + 4]) @
       concat (map (\<lambda>t. terme K (decale K t 3) (DispatchableProduction 1) 2) [4 * j..<4 * j + 4]))) [0, 1]))"
    using binding_day_rows [OF K(2), of 1] K(1,3)
    by (simp add: contrainte_def grappe_def palier_couplant_def mult.commute Let_def upt_rec)
  with K(1) show ?thesis by blast
qed

section \<open>The reservoirs\<close>

text \<open>
  C15: the weekly energy of a reservoir. \<open>HydroPower::add\<close> appends, when the area has a modulable reservoir
  whose generation is not bounded from both sides, the equality on the sum over the hours of the generation,
  minus the pumping ratio times the pumping when the area pumps; otherwise no row.
\<close>

theorem hydro_power_row:
  assumes "ajout_possible K s L" and "pays < NombreDePays (kh K)"
  defines "c \<equiv> CaracteristiquesHydrauliques (kh K) ! pays"
  shows "\<exists>s'. HydroPower_add (kh K) pays s = Inr s' \<and> rep_lignes K () s' (L @
    (if PresenceDHydrauliqueModulable c \<and> \<not> TurbinageEntreBornes c
     then rang CHR ''='' (concat (map (\<lambda>pdt. terme K pdt (HydProd pays) 1 @
        (if PresenceDePompageModulable c then terme K pdt (Pumping pays) (- PumpingRatio c) else []))
      [0..<NombreDePasDeTempsPourUneOptimisation (kh K)])) else []))"
proof -
  have "\<exists>s'. HydroPower_add (kh K) pays s = Inr s' \<and> rep_lignes K () s' (L @ ligne_HydroPower K pays)"
    by (rule ajoute [OF assms(1) HydroPower_ok tient_energies(1)])
      (use assms(1,2) in \<open>simp_all add: ajout_possible_def\<close>)
  then show ?thesis by (simp only: ligne_HydroPower_def somme_def heures_def c_def)
qed

theorem hydro_power_row_witness:
  "\<exists>K s s'. kh K = exemple_pret \<and> HydroPower_add exemple_pret 1 s = Inr s' \<and> rep_lignes K () s'
    (rang CHR ''='' (concat (map (\<lambda>pdt. terme K pdt (HydProd 1) 1) [0..<8])))"
proof -
  obtain K s where K: "kh K = exemple_pret" "ajout_possible K s []" using exemple_ajout by metis
  show ?thesis
    using hydro_power_row [OF K(2), of 1] K(1) by (force simp: sans_reservoir_def)
qed

text \<open>
  C14: the level of a reservoir. \<open>AreaHydroLevel::add\<close> appends, when the level is followed hour by hour, the
  equality level(t) - level(t-1) + generation - pumping ratio * pumping + overflow; at the first hour there
  is no previous level in the row (the initial level is in the right-hand side).
\<close>

theorem hydro_level_row:
  assumes "ajout_possible K s L" and "pays < NombreDePays (kh K)"
    and "pdt < NombreDePasDeTempsPourUneOptimisation (kh K)"
  defines "c \<equiv> CaracteristiquesHydrauliques (kh K) ! pays"
  shows "\<exists>s'. AreaHydroLevel_add (kh K) pays pdt s = Inr s' \<and> rep_lignes K () s' (L @
    (if SuiviNiveauHoraire c then rang CHR ''='' (terme K pdt (HydroLevel pays) 1 @
       (if 0 < pdt then terme K (pdt - 1) (HydroLevel pays) (- 1) else []) @
       terme K pdt (HydProd pays) 1 @ terme K pdt (Pumping pays) (- PumpingRatio c) @
       terme K pdt (Overflow pays) 1) else []))"
proof -
  have "\<exists>s'. AreaHydroLevel_add (kh K) pays pdt s = Inr s' \<and> rep_lignes K () s' (L @ ligne_AreaHydroLevel K pays pdt)"
    by (rule ajoute [OF assms(1) AreaHydroLevel_ok tient_petites_lignes(6)])
      (use assms(1-3) in \<open>simp_all add: ajout_possible_def\<close>)
  then show ?thesis by (simp only: ligne_AreaHydroLevel_def c_def)
qed

theorem hydro_level_row_witness:
  "\<exists>K s s'. kh K = exemple_pret \<and> AreaHydroLevel_add exemple_pret 0 2 s = Inr s' \<and> rep_lignes K () s'
    (rang CHR ''='' (terme K 2 (HydroLevel 0) 1 @ terme K 1 (HydroLevel 0) (- 1) @
       terme K 2 (HydProd 0) 1 @ terme K 2 (Pumping 0) (- (3 / 4)) @ terme K 2 (Overflow 0) 1))"
proof -
  obtain K s where K: "kh K = exemple_pret" "ajout_possible K s []" using exemple_ajout by metis
  show ?thesis
    using hydro_level_row [OF K(2), of 0 2] K(1) by (force simp: reservoir_def)
qed

section \<open>The thermal clusters\<close>

text \<open>
  C16: the consistency of the running units. \<open>ConsistenceNumberOfDispatchableUnits::add\<close> (with start-up
  costs) appends the equality running(t) - running(t-1) - started(t) + stopped(t), where the hour before the
  first one is the last one.
\<close>

theorem running_units_row:
  assumes "ajout_possible K s L" and "demarrage_numerote K" and "pays < NombreDePays (kh K)"
    and "pdt < NombreDePasDeTempsPourUneOptimisation (kh K)"
  defines "pt \<equiv> PaliersThermiquesDuPays (kh K) ! pays"
  assumes "i < NombreDePaliersThermiques pt"
  defines "p \<equiv> NumeroDuPalierDansLEnsembleDesPaliersThermiques pt ! i"
  shows "\<exists>s'. ConsistenceNumberOfDispatchableUnits_add (kh K) pays p i pdt False s = Inr s' \<and>
    rep_lignes K () s' (L @ rang CHR ''=''
      (terme K pdt (NumberOfDispatchableUnits p) 1 @ terme K (decale K pdt (- 1)) (NumberOfDispatchableUnits p) (- 1) @
       terme K pdt (NumberStartingDispatchableUnits p) (- 1) @ terme K pdt (NumberStoppingDispatchableUnits p) 1))"
proof -
  have "\<exists>s'. ConsistenceNumberOfDispatchableUnits_add (kh K) pays (palier_du K pays i) i pdt False s = Inr s' \<and>
      rep_lignes K () s' (L @ ligne_Consistence K pays i pdt)"
    by (rule ajoute [OF assms(1) ConsistenceNumberOfDispatchableUnits_ok tient_petites_lignes(10)])
      (use assms(1-4,6) in \<open>simp_all add: ajout_possible_def pt_def\<close>)
  then show ?thesis by (simp add: ligne_Consistence_def p_def pt_def)
qed

theorem running_units_row_witness:
  "\<exists>K s s'. kh K = exemple_pret \<and> ConsistenceNumberOfDispatchableUnits_add exemple_pret 1 1 0 0 False s = Inr s' \<and>
    rep_lignes K () s' (rang CHR ''=''
      (terme K 0 (NumberOfDispatchableUnits 1) 1 @ terme K 7 (NumberOfDispatchableUnits 1) (- 1) @
       terme K 0 (NumberStartingDispatchableUnits 1) (- 1) @ terme K 0 (NumberStoppingDispatchableUnits 1) 1))"
proof -
  obtain K s where K: "kh K = exemple_pret" "ajout_possible K s []" "demarrage_numerote K" using exemple_ajout by metis
  show ?thesis
    using running_units_row [OF K(2,3), of 1 0 0] K(1) by (force simp: grappe_def decale_def)
qed

text \<open>
  C17: the minimum up time. \<open>NbDispUnitsMinBoundSinceMinUpTime::add\<close> appends, for a minimum up time \<open>d\<close>
  within the range, the row running(t) - sum over the hours t-d+1 .. t (cyclically) of
  (started - broken down) > : a unit started in the last \<open>d\<close> hours and not broken down since is running.
\<close>

theorem min_up_time_row:
  assumes "ajout_possible K s L" and "demarrage_numerote K" and "OptimisationAvecCoutsDeDemarrage (kh K)"
    and "pays < NombreDePays (kh K)" and "pdt < NombreDePasDeTempsPourUneOptimisation (kh K)"
  defines "pt \<equiv> PaliersThermiquesDuPays (kh K) ! pays"
  assumes "i < NombreDePaliersThermiques pt"
  defines "p \<equiv> NumeroDuPalierDansLEnsembleDesPaliersThermiques pt ! i"
    and "d \<equiv> DureeMinimaleDeMarcheDUnGroupeDuPalierThermique pt ! i"
  assumes "0 < d" and "d \<le> int (NombreDePasDeTempsPourUneOptimisation (kh K))"
  shows "\<exists>s'. NbDispUnitsMinBoundSinceMinUpTime_add (kh K) pays p i pdt False s = Inr s' \<and>
    rep_lignes K () s' (L @ rang CHR ''>'' (terme K pdt (NumberOfDispatchableUnits p) 1 @
      concat (map (\<lambda>k. let t = nat (k mod int (NombreDePasDeTempsPourUneOptimisation (kh K))) in
          terme K t (NumberStartingDispatchableUnits p) (- 1) @
          terme K t (NumberBreakingDownDispatchableUnits p) 1)
        [int pdt - d + 1..int pdt])))"
proof -
  have "\<exists>s'. NbDispUnitsMinBoundSinceMinUpTime_add (kh K) pays (palier_du K pays i) i pdt False s = Inr s' \<and>
      rep_lignes K () s' (L @ ligne_MinUpTime K pays i pdt)"
    by (rule ajoute [OF assms(1) NbDispUnitsMinBoundSinceMinUpTime_ok tient_demarrage(1)])
      (use assms(1-5,7,10,11) in \<open>simp_all add: ajout_possible_def pt_def d_def\<close>)
  then show ?thesis by (simp add: ligne_MinUpTime_def fenetre_def p_def pt_def d_def comp_def Let_def)
qed

theorem min_up_time_row_witness:
  "\<exists>K s s'. kh K = exemple_pret \<and> NbDispUnitsMinBoundSinceMinUpTime_add exemple_pret 0 0 0 0 False s = Inr s' \<and>
    rep_lignes K () s' (rang CHR ''>'' (terme K 0 (NumberOfDispatchableUnits 0) 1 @
      terme K 7 (NumberStartingDispatchableUnits 0) (- 1) @ terme K 7 (NumberBreakingDownDispatchableUnits 0) 1 @
      terme K 0 (NumberStartingDispatchableUnits 0) (- 1) @ terme K 0 (NumberBreakingDownDispatchableUnits 0) 1))"
proof -
  obtain K s where K: "kh K = exemple_pret" "ajout_possible K s []" "demarrage_numerote K" using exemple_ajout by metis
  have "[- 1..0] = [- 1, 0 :: int]" by (simp add: upto.simps)
  then show ?thesis
    using min_up_time_row [OF K(2,3), of 0 0 0] K(1) by (force simp: grappe_def)
qed

text \<open>
  C18: the minimum down time. \<open>MinDownTime::add\<close> appends, for a minimum down time \<open>d\<close> of 1 to the length of
  the range, the row running(t) + sum over the hours t-d+1 .. t (cyclically) of stopped < : a unit stopped in
  the last \<open>d\<close> hours is not running.
\<close>

theorem min_down_time_row:
  assumes "ajout_possible K s L" and "demarrage_numerote K" and "OptimisationAvecCoutsDeDemarrage (kh K)"
    and "pays < NombreDePays (kh K)" and "pdt < NombreDePasDeTempsPourUneOptimisation (kh K)"
  defines "pt \<equiv> PaliersThermiquesDuPays (kh K) ! pays"
  assumes "i < NombreDePaliersThermiques pt"
  defines "p \<equiv> NumeroDuPalierDansLEnsembleDesPaliersThermiques pt ! i"
    and "d \<equiv> DureeMinimaleDArretDUnGroupeDuPalierThermique pt ! i"
  assumes "0 < d" and "d \<le> int (NombreDePasDeTempsPourUneOptimisation (kh K))"
  shows "\<exists>s'. MinDownTime_add (kh K) pays p i pdt False s = Inr s' \<and>
    rep_lignes K () s' (L @ rang CHR ''<'' (terme K pdt (NumberOfDispatchableUnits p) 1 @
      concat (map (\<lambda>k. terme K (nat (k mod int (NombreDePasDeTempsPourUneOptimisation (kh K))))
          (NumberStoppingDispatchableUnits p) 1) [int pdt - d + 1..int pdt])))"
proof -
  have "\<exists>s'. MinDownTime_add (kh K) pays (palier_du K pays i) i pdt False s = Inr s' \<and>
      rep_lignes K () s' (L @ ligne_MinDownTime K pays i pdt)"
    by (rule ajoute [OF assms(1) MinDownTime_ok tient_demarrage(2)])
      (use assms(1-5,7,10,11) in \<open>simp_all add: ajout_possible_def pt_def d_def\<close>)
  then show ?thesis by (simp add: ligne_MinDownTime_def fenetre_def p_def pt_def d_def comp_def)
qed

theorem min_down_time_row_witness:
  "\<exists>K s s'. kh K = exemple_pret \<and> MinDownTime_add exemple_pret 1 1 0 6 False s = Inr s' \<and>
    rep_lignes K () s' (rang CHR ''<'' (terme K 6 (NumberOfDispatchableUnits 1) 1 @
      terme K 6 (NumberStoppingDispatchableUnits 1) 1))"
proof -
  obtain K s where K: "kh K = exemple_pret" "ajout_possible K s []" "demarrage_numerote K" using exemple_ajout by metis
  show ?thesis
    using min_down_time_row [OF K(2,3), of 1 6 0] K(1) by (force simp: grappe_def)
qed

end
