(* ===== verification/Weekly_Data.thy ===== *)
theory Weekly_Data
  imports Row_Columns
begin

text \<open>
  The numeric data of a week: the fields of \<open>PROBLEME_HEBDO\<close> and of the structures in it
  (\<open>src/src/solver/simulation/sim_structure_probleme_economique.h\<close>) that the construction of the
  matrix does not read, but the costs, the bounds, the right-hand sides and the preparation of the data do. The
  fields of one C++ structure are therefore in two records: \<open>PALIERS_THERMIQUES\<close> and \<open>PALIERS_DONNEES\<close>,
  \<open>COUTS_DE_TRANSPORT\<close> and \<open>TRANSPORT_DONNEES\<close>, \<open>ENERGIES_ET_PUISSANCES_HYDRAULIQUES\<close> and
  \<open>HYDRO_DONNEES\<close>, \<open>STS_PROPERTIES\<close> and \<open>STS_DONNEES\<close>, \<open>PROBLEME_HEBDO\<close> and \<open>DONNEES\<close>. \<open>donnees_hebdo_ok\<close>
  says that the two agree on their sizes.
\<close>

subsection \<open>The records\<close>

record TRANSPORT_DONNEES =
  IntercoGereeAvecLoopFlow :: bool
  CoutDeTransportOrigineVersExtremite :: "real list"
  CoutDeTransportExtremiteVersOrigine :: "real list"
  CoutDeTransportOrigineVersExtremiteRef :: "real list"
  CoutDeTransportExtremiteVersOrigineRef :: "real list"

record VALEURS_DE_NTC_ET_RESISTANCES =
  ValeurDeNTCOrigineVersExtremite :: "borne list"
  ValeurDeNTCExtremiteVersOrigine :: "borne list"
  ValeurDeLoopFlowOrigineVersExtremite :: "real list"

record PDISP_ET_COUTS_HORAIRES_PAR_PALIER =
  PuissanceDisponibleDuPalierThermique :: "real list"
  PuissanceDisponibleDuPalierThermiqueRef :: "real list"
  PuissanceMinDuPalierThermique :: "real list"
  PuissanceMinDuPalierThermiqueRef :: "real list"
  CoutHoraireDeProductionDuPalierThermique :: "real list"
  NombreMaxDeGroupesEnMarcheDuPalierThermique :: "int list"
  NombreMinDeGroupesEnMarcheDuPalierThermique :: "int list"

record PALIERS_DONNEES =
  minUpDownTime :: "int list"
  TailleUnitaireDUnGroupeDuPalierThermique :: "real list"
  PminDuPalierThermiquePendantUneHeure :: "real list"
  PuissanceDisponibleEtCout :: "PDISP_ET_COUTS_HORAIRES_PAR_PALIER list"
  CoutDeDemarrageDUnGroupeDuPalierThermique :: "real list"
  CoutDArretDUnGroupeDuPalierThermique :: "real list"
  CoutFixeDeMarcheDUnGroupeDuPalierThermique :: "real list"

record HYDRO_DONNEES =
  MinEnergieHydrauParIntervalleOptimise :: "real list"
  MaxEnergieHydrauParIntervalleOptimise :: "real list"
  CntEnergieH2OParIntervalleOptimise :: "real list"
  CntEnergieH2OParJour :: "real list"
  ContrainteDePmaxHydrauliqueHoraire :: "real list"
  ContrainteDePmaxHydrauliqueHoraireRef :: "real list"
  MaxEnergiePompageParIntervalleOptimise :: "real list"
  ContrainteDePmaxPompageHoraire :: "real list"
  MaxDesPmaxHydrauliques :: real
  PenalisationSurSommeDesVariations :: real
  PenalisationSurVariationMax :: real
  WeeklyWaterValueStateRegular :: real
  SansHeuristique :: bool
  NiveauHoraireSup :: "real list"
  NiveauHoraireInf :: "real list"
  ApportNaturelHoraire :: "real list"
  MingenHoraire :: "real list"
  NiveauInitialReservoir :: real
  TailleReservoir :: real
  WaterLayerValues :: "real list"
  InflowForTimeInterval :: "real list"

record STS_DONNEES =
  reservoirCapacity :: real
  injectionNominalCapacity :: real
  withdrawalNominalCapacity :: real
  initialLevel :: real
  initialLevelOptim :: bool
  maxInjectionModulation :: "real list"
  maxWithdrawalModulation :: "real list"
  series_inflows :: "real list"
  lowerRuleCurve :: "real list"
  upperRuleCurve :: "real list"

text \<open>The adequacy patch: the mode of an area, and which step of the patch is running.\<close>

datatype AdequacyPatchMode = virtualArea | physicalAreaOutsideAdqPatch | physicalAreaInsideAdqPatch

record AdequacyPatchRuntimeData =
  areaMode :: "AdequacyPatchMode list"
  originAreaMode :: "AdequacyPatchMode list"
  extremityAreaMode :: "AdequacyPatchMode list"
  AdequacyFirstStep :: bool

record AdqPatchParams =
  adq_enabled :: bool
  localMatching_enabled :: bool
  setToZeroOutsideInsideLinks :: bool
  setToZeroOutsideOutsideLinks :: bool

record DONNEES =
  HeureDansLAnnee :: nat
  TransportDonnees :: "TRANSPORT_DONNEES list"
  ValeursDeNTC :: "VALEURS_DE_NTC_ET_RESISTANCES list"
  ConsommationAbattueDuPays :: "real list list"
  AllMustRunGenerationOfArea :: "real list list"
  CoutDeDefaillancePositive :: "real list"
  CoutDeDefaillanceNegative :: "real list"
  CoutDeDefaillanceEnReserve :: "real list"
  PaliersDonnees :: "PALIERS_DONNEES list"
  HydroDonnees :: "HYDRO_DONNEES list"
  StockageDonnees :: "STS_DONNEES list list"
  DefaillanceNegativeUtiliserPMinThermique :: "bool list"
  DefaillanceNegativeUtiliserConsoAbattue :: "bool list"
  BruitSurCoutHydraulique :: "real list list"
  SecondMembreDeLaContrainteCouplante :: "real list list"
  ReserveHoraireJMoins1 :: "real list list"
  YaDeLaReserveJmoins1 :: bool
  CoefficientEcretementPMaxHydraulique :: "real list"
  adequacyPatchRuntimeData :: AdequacyPatchRuntimeData
  NbGrpCourbeGuide :: "int list"
  NbGrpOpt :: "int list"

text \<open>The hourly results that the bounds reset or read, one record per area.\<close>

record RESULTATS_HORAIRES =
  ValeursHorairesDeDefaillancePositive :: "real list"
  ValeursHorairesDENS :: "real list"
  ValeursHorairesDeDefaillanceNegative :: "real list"
  ValeursHorairesDeDefaillanceEnReserve :: "real list"
  PompageHoraire :: "real list"
  TurbinageHoraire :: "real list"
  debordementsHoraires :: "real list"

datatype numero_optimisation = PREMIERE_OPTIMISATION | DEUXIEME_OPTIMISATION

subsection \<open>Checked access\<close>

definition ecrire_int :: "'a list \<Rightarrow> int \<Rightarrow> 'a \<Rightarrow> 'a list resultat" where
  "ecrire_int xs i v = (if i < 0 then Inl IndexHorsBornes else ecrire xs (nat i) v)"

lemma ecrire_int_in [simp]: "0 \<le> i \<Longrightarrow> nat i < length xs \<Longrightarrow> ecrire_int xs i v = Inr (xs[nat i := v])"
  by (simp add: ecrire_int_def)

lemma ecrire_int_of_nat [simp]: "ecrire_int xs (int i) v = ecrire xs i v"
  by (simp add: ecrire_int_def)

text \<open>The number of a variable, read from its correspondence.\<close>

definition lire_var :: "etat \<Rightarrow> champ_var \<Rightarrow> nat \<Rightarrow> nat \<Rightarrow> int resultat" where
  "lire_var s c pdt i =
     bindE (lire (CorrespondanceVarNativesVarOptim s) pdt) (\<lambda>corr. lire (corr c) i)"

text \<open>\<open>palier_donnees d pays index\<close>: \<open>PaliersThermiquesDuPays[pays].PuissanceDisponibleEtCout[index]\<close>.\<close>

definition palier_donnees :: "DONNEES \<Rightarrow> nat \<Rightarrow> nat \<Rightarrow> PDISP_ET_COUTS_HORAIRES_PAR_PALIER resultat" where
  "palier_donnees d pays index =
     bindE (lire (PaliersDonnees d) pays) (\<lambda>pd. lire (PuissanceDisponibleEtCout pd) index)"

subsection \<open>Sizes\<close>

definition transport_donnees_ok :: "nat \<Rightarrow> TRANSPORT_DONNEES \<Rightarrow> bool" where
  "transport_donnees_ok T t \<longleftrightarrow> length (CoutDeTransportOrigineVersExtremite t) = T \<and>
     length (CoutDeTransportExtremiteVersOrigine t) = T \<and>
     length (CoutDeTransportOrigineVersExtremiteRef t) = T \<and>
     length (CoutDeTransportExtremiteVersOrigineRef t) = T"

definition ntc_ok :: "nat \<Rightarrow> VALEURS_DE_NTC_ET_RESISTANCES \<Rightarrow> bool" where
  "ntc_ok n v \<longleftrightarrow> length (ValeurDeNTCOrigineVersExtremite v) = n \<and>
     length (ValeurDeNTCExtremiteVersOrigine v) = n \<and> length (ValeurDeLoopFlowOrigineVersExtremite v) = n"

definition pdisp_ok :: "nat \<Rightarrow> PDISP_ET_COUTS_HORAIRES_PAR_PALIER \<Rightarrow> bool" where
  "pdisp_ok T p \<longleftrightarrow> length (PuissanceDisponibleDuPalierThermique p) = T \<and>
     length (PuissanceDisponibleDuPalierThermiqueRef p) = T \<and>
     length (PuissanceMinDuPalierThermique p) = T \<and> length (PuissanceMinDuPalierThermiqueRef p) = T \<and>
     length (CoutHoraireDeProductionDuPalierThermique p) = T \<and>
     length (NombreMaxDeGroupesEnMarcheDuPalierThermique p) = T \<and>
     length (NombreMinDeGroupesEnMarcheDuPalierThermique p) = T"

definition paliers_donnees_ok :: "nat \<Rightarrow> nat \<Rightarrow> PALIERS_DONNEES \<Rightarrow> bool" where
  "paliers_donnees_ok T n p \<longleftrightarrow> length (minUpDownTime p) = n \<and>
     length (TailleUnitaireDUnGroupeDuPalierThermique p) = n \<and>
     length (PminDuPalierThermiquePendantUneHeure p) = n \<and> length (PuissanceDisponibleEtCout p) = n \<and>
     length (CoutDeDemarrageDUnGroupeDuPalierThermique p) = n \<and>
     length (CoutDArretDUnGroupeDuPalierThermique p) = n \<and>
     length (CoutFixeDeMarcheDUnGroupeDuPalierThermique p) = n \<and>
     list_all (pdisp_ok T) (PuissanceDisponibleEtCout p)"

text \<open>The energies have one entry per day of the week; the layers of a reservoir are 100.\<close>

definition hydro_donnees_ok :: "nat \<Rightarrow> nat \<Rightarrow> HYDRO_DONNEES \<Rightarrow> bool" where
  "hydro_donnees_ok T jours p \<longleftrightarrow> length (MinEnergieHydrauParIntervalleOptimise p) = jours \<and>
     length (MaxEnergieHydrauParIntervalleOptimise p) = jours \<and>
     length (CntEnergieH2OParIntervalleOptimise p) = jours \<and> length (CntEnergieH2OParJour p) = jours \<and>
     length (ContrainteDePmaxHydrauliqueHoraire p) = T \<and>
     length (ContrainteDePmaxHydrauliqueHoraireRef p) = T \<and>
     length (MaxEnergiePompageParIntervalleOptimise p) = jours \<and>
     length (ContrainteDePmaxPompageHoraire p) = T \<and> length (NiveauHoraireSup p) = T \<and>
     length (NiveauHoraireInf p) = T \<and> length (ApportNaturelHoraire p) = T \<and>
     length (MingenHoraire p) = T \<and> length (WaterLayerValues p) = 100 \<and>
     length (InflowForTimeInterval p) = jours"

text \<open>The series of a storage have one entry per hour of the year; those of the week are read.\<close>

definition sts_donnees_ok :: "nat \<Rightarrow> STS_DONNEES \<Rightarrow> bool" where
  "sts_donnees_ok annee p \<longleftrightarrow> annee \<le> length (maxInjectionModulation p) \<and>
     annee \<le> length (maxWithdrawalModulation p) \<and> annee \<le> length (series_inflows p) \<and>
     annee \<le> length (lowerRuleCurve p) \<and> annee \<le> length (upperRuleCurve p)"

definition resultat_ok :: "nat \<Rightarrow> RESULTATS_HORAIRES \<Rightarrow> bool" where
  "resultat_ok T r \<longleftrightarrow> length (ValeursHorairesDeDefaillancePositive r) = T \<and> length (ValeursHorairesDENS r) = T \<and>
     length (ValeursHorairesDeDefaillanceNegative r) = T \<and> length (ValeursHorairesDeDefaillanceEnReserve r) = T \<and>
     length (PompageHoraire r) = T \<and> length (TurbinageHoraire r) = T \<and> length (debordementsHoraires r) = T"

definition resultats_ok :: "PROBLEME_HEBDO \<Rightarrow> RESULTATS_HORAIRES list \<Rightarrow> bool" where
  "resultats_ok h rs \<longleftrightarrow> length rs = NombreDePays h \<and> (\<forall>r \<in> set rs. resultat_ok (NombreDePasDeTemps h) r)"

definition donnees_hebdo_ok :: "PROBLEME_HEBDO \<Rightarrow> DONNEES \<Rightarrow> bool" where
  "donnees_hebdo_ok h d \<longleftrightarrow> (let T = NombreDePasDeTemps h; n = NombreDePays h in
     length (TransportDonnees d) = NombreDInterconnexions h \<and>
     (\<forall>l < NombreDInterconnexions h. transport_donnees_ok T (TransportDonnees d ! l)) \<and>
     length (ValeursDeNTC d) = T \<and> (\<forall>t < T. ntc_ok (NombreDInterconnexions h) (ValeursDeNTC d ! t)) \<and>
     length (ConsommationAbattueDuPays d) = T \<and>
     (\<forall>t < T. length (ConsommationAbattueDuPays d ! t) = n) \<and>
     length (AllMustRunGenerationOfArea d) = T \<and>
     (\<forall>t < T. length (AllMustRunGenerationOfArea d ! t) = n) \<and>
     length (CoutDeDefaillancePositive d) = n \<and> length (CoutDeDefaillanceNegative d) = n \<and>
     length (CoutDeDefaillanceEnReserve d) = n \<and>
     length (PaliersDonnees d) = n \<and>
     (\<forall>p < n. paliers_donnees_ok T (nb_paliers h p) (PaliersDonnees d ! p)) \<and>
     length (HydroDonnees d) = n \<and> (\<forall>p < n. hydro_donnees_ok T (NombreDeJours h) (HydroDonnees d ! p)) \<and>
     length (StockageDonnees d) = n \<and>
     (\<forall>p < n. length (StockageDonnees d ! p) = length (ShortTermStorage h ! p) \<and>
        list_all (sts_donnees_ok (weekInTheYear h * 168 + T)) (StockageDonnees d ! p)) \<and>
     length (DefaillanceNegativeUtiliserPMinThermique d) = n \<and>
     length (DefaillanceNegativeUtiliserConsoAbattue d) = n \<and>
     length (BruitSurCoutHydraulique d) = n \<and>
     (\<forall>p < n. HeureDansLAnnee d + T \<le> length (BruitSurCoutHydraulique d ! p)) \<and>
     length (SecondMembreDeLaContrainteCouplante d) = NombreDeContraintesCouplantes h \<and>
     (\<forall>c < NombreDeContraintesCouplantes h.
        (case TypeDeContrainteCouplante (MatriceDesContraintesCouplantes h ! c) of
           CONTRAINTE_HORAIRE \<Rightarrow> T | CONTRAINTE_JOURNALIERE \<Rightarrow> NombreDeJours h | CONTRAINTE_HEBDOMADAIRE \<Rightarrow> 1)
        \<le> length (SecondMembreDeLaContrainteCouplante d ! c)) \<and>
     length (ReserveHoraireJMoins1 d) = n \<and> (\<forall>p < n. length (ReserveHoraireJMoins1 d ! p) = T) \<and>
     length (CoefficientEcretementPMaxHydraulique d) = n \<and>
     length (areaMode (adequacyPatchRuntimeData d)) = n \<and>
     length (originAreaMode (adequacyPatchRuntimeData d)) = NombreDInterconnexions h \<and>
     length (extremityAreaMode (adequacyPatchRuntimeData d)) = NombreDInterconnexions h \<and>
     length (NbGrpCourbeGuide d) = T \<and> length (NbGrpOpt d) = T)"

text \<open>Destruction rules for the proofs.\<close>

lemma donnees_tailles:
  assumes "donnees_hebdo_ok h d"
  shows "length (TransportDonnees d) = NombreDInterconnexions h" "length (ValeursDeNTC d) = NombreDePasDeTemps h"
    "length (ConsommationAbattueDuPays d) = NombreDePasDeTemps h"
    "length (AllMustRunGenerationOfArea d) = NombreDePasDeTemps h"
    "length (CoutDeDefaillancePositive d) = NombreDePays h" "length (CoutDeDefaillanceNegative d) = NombreDePays h"
    "length (CoutDeDefaillanceEnReserve d) = NombreDePays h"
    "length (PaliersDonnees d) = NombreDePays h" "length (HydroDonnees d) = NombreDePays h"
    "length (StockageDonnees d) = NombreDePays h"
    "length (DefaillanceNegativeUtiliserPMinThermique d) = NombreDePays h"
    "length (DefaillanceNegativeUtiliserConsoAbattue d) = NombreDePays h"
    "length (BruitSurCoutHydraulique d) = NombreDePays h"
    "length (SecondMembreDeLaContrainteCouplante d) = NombreDeContraintesCouplantes h"
    "length (ReserveHoraireJMoins1 d) = NombreDePays h"
    "length (CoefficientEcretementPMaxHydraulique d) = NombreDePays h"
    "length (areaMode (adequacyPatchRuntimeData d)) = NombreDePays h"
    "length (originAreaMode (adequacyPatchRuntimeData d)) = NombreDInterconnexions h"
    "length (extremityAreaMode (adequacyPatchRuntimeData d)) = NombreDInterconnexions h"
    "length (NbGrpCourbeGuide d) = NombreDePasDeTemps h" "length (NbGrpOpt d) = NombreDePasDeTemps h"
  using assms unfolding donnees_hebdo_ok_def Let_def by blast+

lemma donnees_lien:
  assumes "donnees_hebdo_ok h d" and "l < NombreDInterconnexions h"
  shows "transport_donnees_ok (NombreDePasDeTemps h) (TransportDonnees d ! l)"
  using assms unfolding donnees_hebdo_ok_def Let_def by blast

lemma donnees_heure:
  assumes "donnees_hebdo_ok h d" and "t < NombreDePasDeTemps h"
  shows "ntc_ok (NombreDInterconnexions h) (ValeursDeNTC d ! t)"
    and "length (ConsommationAbattueDuPays d ! t) = NombreDePays h"
    and "length (AllMustRunGenerationOfArea d ! t) = NombreDePays h"
  using assms unfolding donnees_hebdo_ok_def Let_def by blast+

lemma donnees_pays:
  assumes "donnees_hebdo_ok h d" and "p < NombreDePays h"
  shows "paliers_donnees_ok (NombreDePasDeTemps h) (nb_paliers h p) (PaliersDonnees d ! p)"
    and "hydro_donnees_ok (NombreDePasDeTemps h) (NombreDeJours h) (HydroDonnees d ! p)"
    and "length (StockageDonnees d ! p) = length (ShortTermStorage h ! p)"
    and "list_all (sts_donnees_ok (weekInTheYear h * 168 + NombreDePasDeTemps h)) (StockageDonnees d ! p)"
    and "HeureDansLAnnee d + NombreDePasDeTemps h \<le> length (BruitSurCoutHydraulique d ! p)"
    and "length (ReserveHoraireJMoins1 d ! p) = NombreDePasDeTemps h"
  using assms unfolding donnees_hebdo_ok_def Let_def by blast+

lemma donnees_couplante:
  assumes "donnees_hebdo_ok h d" and "c < NombreDeContraintesCouplantes h"
  shows "(case TypeDeContrainteCouplante (MatriceDesContraintesCouplantes h ! c) of
       CONTRAINTE_HORAIRE \<Rightarrow> NombreDePasDeTemps h | CONTRAINTE_JOURNALIERE \<Rightarrow> NombreDeJours h
     | CONTRAINTE_HEBDOMADAIRE \<Rightarrow> 1) \<le> length (SecondMembreDeLaContrainteCouplante d ! c)"
  using assms unfolding donnees_hebdo_ok_def Let_def by blast

lemma donnees_palier:
  assumes "donnees_hebdo_ok h d" and "p < NombreDePays h" and "i < nb_paliers h p"
  shows "palier_donnees d p i = Inr (PuissanceDisponibleEtCout (PaliersDonnees d ! p) ! i)"
    and "pdisp_ok (NombreDePasDeTemps h) (PuissanceDisponibleEtCout (PaliersDonnees d ! p) ! i)"
  using donnees_tailles(8) [OF assms(1)] donnees_pays(1) [OF assms(1,2)] assms(2,3)
  by (simp_all add: palier_donnees_def paliers_donnees_ok_def list_all_length)

end
