(* ===== verification/Cell_Writes.thy ===== *)
theory Cell_Writes
  imports Weekly_Data
begin

text \<open>
  A calculus for the code that fills the vectors of the linear problem (bounds, costs, right-hand sides) one
  cell after the other, each at the number of a variable or of a constraint. The locale \<open>cellules\<close> has a state
  seen as \<open>n\<close> cells, each of which belongs to a place; \<open>maj p\<close> is the change the code must make to the
  cell of \<open>p\<close>. \<open>ecrites P f\<close>: the statement \<open>f\<close> ends normally, makes exactly this change to the cells whose
  place is in \<open>P\<close>, and leaves every other cell alone. It is closed under the statements of the code.
\<close>

locale cellules =
  fixes correct :: "'z \<Rightarrow> bool" and cellule :: "'z \<Rightarrow> nat \<Rightarrow> 'c" and n :: nat and place :: "nat \<Rightarrow> 'p"
    and maj :: "'p \<Rightarrow> 'c \<Rightarrow> 'c"
  assumes maj_maj: "maj p (maj p c) = maj p c"
begin

definition ecrites :: "'p set \<Rightarrow> ('z \<Rightarrow> 'z resultat) \<Rightarrow> bool" where
  "ecrites P f \<longleftrightarrow> (\<forall>z. correct z \<longrightarrow> returns (f z) (\<lambda>z'. correct z' \<and>
     (\<forall>i < n. cellule z' i = (if place i \<in> P then maj (place i) (cellule z i) else cellule z i))))"

lemma ecritesI:
  assumes "\<And>z. correct z \<Longrightarrow> returns (f z) (\<lambda>z'. correct z' \<and>
     (\<forall>i < n. cellule z' i = (if place i \<in> P then maj (place i) (cellule z i) else cellule z i)))"
  shows "ecrites P f"
  using assms by (simp add: ecrites_def)

lemma ecritesD:
  assumes "ecrites P f" and "correct z"
  shows "returns (f z) (\<lambda>z'. correct z' \<and>
     (\<forall>i < n. cellule z' i = (if place i \<in> P then maj (place i) (cellule z i) else cellule z i)))"
  using assms by (simp add: ecrites_def)

lemma ecrites_Inr: "ecrites {} Inr"
  by (simp add: ecrites_def)

lemma ecrites_puis:
  assumes "ecrites P f" and "ecrites Q g"
  shows "ecrites (P \<union> Q) (\<lambda>z. bindE (f z) g)"
proof (rule ecritesI)
  fix z assume "correct z"
  from ecritesD [OF assms(1) this]
  show "returns (bindE (f z) g) (\<lambda>z'. correct z' \<and> (\<forall>i < n. cellule z' i =
      (if place i \<in> P \<union> Q then maj (place i) (cellule z i) else cellule z i)))"
    unfolding returns_bindE
  proof (rule returns_mono)
    fix z1 assume z1: "correct z1 \<and> (\<forall>i < n. cellule z1 i =
      (if place i \<in> P then maj (place i) (cellule z i) else cellule z i))"
    from ecritesD [OF assms(2), of z1] z1
    show "returns (g z1) (\<lambda>z'. correct z' \<and> (\<forall>i < n. cellule z' i =
        (if place i \<in> P \<union> Q then maj (place i) (cellule z i) else cellule z i)))"
      by (auto simp: maj_maj elim!: returns_mono)
  qed
qed

lemma ecrites_seqE_Nil: "ecrites {} (seqE [])"
  by (simp add: ecrites_def)

lemma ecrites_seqE_Cons:
  assumes "ecrites P f" and "ecrites Q (seqE fs)"
  shows "ecrites (P \<union> Q) (seqE (f # fs))"
  using ecrites_puis [OF assms] by (simp add: ecrites_def)

lemma ecrites_forE:
  assumes "\<And>x. x \<in> set xs \<Longrightarrow> ecrites (P x) (f x)"
  shows "ecrites (\<Union>x \<in> set xs. P x) (forE xs f)"
  using assms
proof (induction xs)
  case Nil
  then show ?case by (simp add: ecrites_def)
next
  case (Cons x xs)
  have "ecrites (P x \<union> (\<Union>x \<in> set xs. P x)) (\<lambda>z. bindE (f x z) (forE xs f))"
    using Cons by (intro ecrites_puis) auto
  then show ?case by (simp add: ecrites_def)
qed

lemma ecrites_whenE:
  assumes "b \<Longrightarrow> ecrites P f"
  shows "ecrites (if b then P else {}) (whenE b f)"
  using assms by (auto simp: ecrites_def whenE_def)

lemma ecrites_lire:
  assumes "m = Inr x" and "ecrites P (f x)"
  shows "ecrites P (\<lambda>z. bindE m (\<lambda>x. f x z))"
  using assms by simp

lemma ecrites_egal: "ecrites P f \<Longrightarrow> (\<And>i. i < n \<Longrightarrow> place i \<in> P \<longleftrightarrow> place i \<in> Q) \<Longrightarrow> ecrites Q f"
  unfolding ecrites_def by (auto elim!: returns_mono)

lemma ecrites_absent: "ecrites P f \<Longrightarrow> (\<And>i. i < n \<Longrightarrow> place i \<in> Q \<Longrightarrow> place i \<in> P) \<Longrightarrow> P \<subseteq> Q \<Longrightarrow> ecrites Q f"
  by (erule ecrites_egal) blast

text \<open>One place: nothing is done when no cell belongs to it, its cell changes otherwise.\<close>

lemma ecrites_place:
  assumes "inj_on place {..<n}"
    and "\<And>z. correct z \<Longrightarrow> \<forall>i < n. place i \<noteq> p \<Longrightarrow>
      returns (f z) (\<lambda>z'. correct z' \<and> (\<forall>i < n. cellule z' i = cellule z i))"
    and "\<And>z k. correct z \<Longrightarrow> k < n \<Longrightarrow> place k = p \<Longrightarrow>
      returns (f z) (\<lambda>z'. correct z' \<and> cellule z' k = maj p (cellule z k) \<and>
        (\<forall>i < n. i \<noteq> k \<longrightarrow> cellule z' i = cellule z i))"
  shows "ecrites {p} f"
proof (rule ecritesI)
  fix z assume z: "correct z"
  show "returns (f z) (\<lambda>z'. correct z' \<and> (\<forall>i < n. cellule z' i =
      (if place i \<in> {p} then maj (place i) (cellule z i) else cellule z i)))"
  proof (cases "\<forall>i < n. place i \<noteq> p")
    case True
    then show ?thesis using assms(2) [OF z] by simp
  next
    case False
    then obtain k where k: "k < n" "place k = p" by blast
    have u: "place i \<in> {p} \<longleftrightarrow> i = k" if "i < n" for i
      using assms(1) k that by (auto simp: inj_on_def)
    show ?thesis
      using assms(3) [OF z k]
    proof (rule returns_mono)
      fix z' assume z': "correct z' \<and> cellule z' k = maj p (cellule z k) \<and> (\<forall>i < n. i \<noteq> k \<longrightarrow> cellule z' i = cellule z i)"
      have "cellule z' i = (if place i \<in> {p} then maj (place i) (cellule z i) else cellule z i)" if "i < n" for i
        using u [OF that] z' k that by (cases "i = k") simp_all
      with z' show "correct z' \<and> (\<forall>i < n. cellule z' i =
          (if place i \<in> {p} then maj (place i) (cellule z i) else cellule z i))" by blast
    qed
  qed
qed

text \<open>Everything is written.\<close>

lemma ecrites_toutes:
  assumes "ecrites P f" and "\<And>i. i < n \<Longrightarrow> place i \<in> P" and "correct z"
  shows "returns (f z) (\<lambda>z'. correct z' \<and> (\<forall>i < n. cellule z' i = maj (place i) (cellule z i)))"
  using ecritesD [OF assms(1,3)] assms(2) by (auto elim!: returns_mono)

end

subsection \<open>Places and numbers of variables\<close>

abbreviation place_de :: "PROBLEME_HEBDO \<Rightarrow> nat \<Rightarrow> place" where
  "place_de h k \<equiv> fst (creees (liste_variables h) ! k)"

lemma place_de_injective:
  assumes "numeros_distincts h"
  shows "inj_on (place_de h) {..<nb_variables h}"
proof -
  have "distinct (map fst (creees fs))" if "distinct (places_de fs)" for fs
    using that
  proof (induction fs rule: creees.induct)
    case (3 p v fs)
    have "(p, x) \<notin> set (creees fs)" for x
      using 3 by (auto simp: creees_subset places_de_def image_iff)
    then show ?case using 3 by (auto simp: places_de_def)
  qed (simp_all add: places_de_def)
  from this [OF places_distinctes [OF assms]] show ?thesis
    by (auto simp: inj_on_def nb_variables_def distinct_conv_nth)
qed

lemma place_de_dans:
  assumes "k < nb_variables h"
  shows "\<exists>v. (place_de h k, Some v) \<in> set (liste_variables h)"
  using assms by (metis creees_subset nb_variables_def nth_mem prod.collapse)

text \<open>The numbers of the variables: the k-th variable of the list has the number k, the absent ones have -1.\<close>

definition variables_numerotees :: "PROBLEME_HEBDO \<Rightarrow> etat \<Rightarrow> bool" where
  "variables_numerotees h s \<longleftrightarrow> NombreDeVariables (ProblemeAResoudre s) = nb_variables h \<and>
     (\<forall>p. (p, None) \<in> set (liste_variables h) \<longrightarrow> lecture s p = - 1) \<and>
     (\<forall>k < nb_variables h. lecture s (place_de h k) = int k)"

lemma variables_numerotees_construites:
  assumes "variables_construites h s"
  shows "variables_numerotees h s"
proof -
  have "lecture s (place_de h k) = int k" if "k < nb_variables h" for k
    using assms that by (cases "creees (liste_variables h) ! k") (fastforce simp: variables_construites_def variable_ok_def)
  then show ?thesis using assms by (simp add: variables_numerotees_def variables_construites_def)
qed

lemma lecture_place:
  assumes "variables_numerotees h s" and "k < nb_variables h"
  shows "lecture s (place_de h k) = int k"
  using assms by (simp add: variables_numerotees_def)

lemma lecture_sans_place:
  assumes "variables_numerotees h s" and "p \<in> set (places_de (liste_variables h))"
    and "\<forall>k < nb_variables h. place_de h k \<noteq> p"
  shows "lecture s p = - 1"
proof -
  obtain v where v: "(p, v) \<in> set (liste_variables h)"
    using assms(2) by (auto simp: places_de_def)
  have "v = None"
  proof (rule ccontr)
    assume "v \<noteq> None"
    then obtain w where "(p, w) \<in> set (creees (liste_variables h))"
      using v by (auto simp: creees_subset)
    then show False
      using assms(3) by (metis fst_conv in_set_conv_nth nb_variables_def)
  qed
  with v assms(1) show ?thesis by (simp add: variables_numerotees_def)
qed

text \<open>What the numeric passes start from, and what they keep: allocated vectors and numbered variables.\<close>

definition pret_a_remplir :: "PROBLEME_HEBDO \<Rightarrow> etat \<Rightarrow> bool" where
  "pret_a_remplir h s \<longleftrightarrow> pret_a_construire h \<and> alloue h s \<and> variables_numerotees h s"

lemma pret_a_remplir_construit:
  "pret_a_construire h \<Longrightarrow> alloue h s \<Longrightarrow> probleme_construit h s \<Longrightarrow> pret_a_remplir h s"
  by (simp add: pret_a_remplir_def probleme_construit_def variables_numerotees_construites)

lemma remplir_ok:
  assumes "pret_a_remplir h s"
  shows "hebdo_ok h" "numeros_distincts h" "variables_numerotees h s" "alloue h s"
    "dims_variables h (nb_variables_prevues h) s" "NombreDeVariables (ProblemeAResoudre s) = nb_variables h"
    "nb_variables h \<le> nb_variables_prevues h"
  using assms nb_variables_le
  by (auto simp: pret_a_remplir_def pret_a_construire_def alloue_def variables_numerotees_def)

lemma lire_var_ok:
  assumes "pret_a_remplir h s" and "Var c pdt i \<in> set (places_de (liste_variables h))"
  shows "lire_var s c pdt i = Inr (lecture s (Var c pdt i))"
proof -
  have "place_ok h (Var c pdt i)"
    using places_variables_ok [OF remplir_ok(1,2) [OF assms(1)] assms(2)] .
  moreover have "length (CorrespondanceVarNativesVarOptim s) = NombreDePasDeTemps h"
    "\<forall>x \<in> set (CorrespondanceVarNativesVarOptim s). length (x c) = taille_var h c"
    using remplir_ok(5) [OF assms(1)] by (simp_all add: dims_variables_def dims_var_def)
  ultimately show ?thesis by (simp add: lire_var_def)
qed

subsection \<open>Where a cluster and a storage are\<close>

lemma find_unique:
  "x \<in> set xs \<Longrightarrow> P x \<Longrightarrow> (\<And>y. y \<in> set xs \<Longrightarrow> P y \<Longrightarrow> y = x) \<Longrightarrow> find P xs = Some x"
proof (induction xs)
  case (Cons z zs)
  show ?case
  proof (cases "P z")
    case True
    then have "z = x" using Cons.prems by (meson list.set_intros(1))
    then show ?thesis using True by simp
  next
    case False
    then have "x \<in> set zs" using Cons.prems(1,2) by auto
    then have "find P zs = Some x" using Cons.IH Cons.prems(2,3) by (meson list.set_intros(2))
    then show ?thesis using False by simp
  qed
qed simp

definition palier_de :: "PROBLEME_HEBDO \<Rightarrow> nat \<Rightarrow> nat \<times> nat" where
  "palier_de h p = the (find (\<lambda>(pays, i). numero_palier h pays i = p)
     (concat (map (\<lambda>pays. map (Pair pays) [0..<nb_paliers h pays]) [0..<NombreDePays h])))"

lemma palier_de_numero [simp]:
  assumes "numeros_distincts h" and "pays < NombreDePays h" and "i < nb_paliers h pays"
  shows "palier_de h (numero_palier h pays i) = (pays, i)"
  unfolding palier_de_def
proof (subst find_unique [of "(pays, i)"])
  fix y
  assume "y \<in> set (concat (map (\<lambda>pays. map (Pair pays) [0..<nb_paliers h pays]) [0..<NombreDePays h]))"
    and "case y of (q, j) \<Rightarrow> numero_palier h q j = numero_palier h pays i"
  then show "y = (pays, i)"
    using paliers_distincts [OF assms(1)] assms(2,3) by auto
qed (use assms in \<open>auto intro!: bexI [of _ pays]\<close>)

definition stockage_de :: "PROBLEME_HEBDO \<Rightarrow> nat \<Rightarrow> nat \<times> nat" where
  "stockage_de h g = the (find (\<lambda>(pays, k). clusterGlobalIndex (ShortTermStorage h ! pays ! k) = g)
     (concat (map (\<lambda>pays. map (Pair pays) [0..<length (ShortTermStorage h ! pays)]) [0..<NombreDePays h])))"

lemma stockages_numeros:
  assumes "numeros_distincts h" and "pays < NombreDePays h" and "k < length (ShortTermStorage h ! pays)"
    and "pays' < NombreDePays h" and "k' < length (ShortTermStorage h ! pays')"
    and "clusterGlobalIndex (ShortTermStorage h ! pays ! k) = clusterGlobalIndex (ShortTermStorage h ! pays' ! k')"
  shows "pays = pays' \<and> k = k'"
proof -
  let ?f = "\<lambda>pays. map clusterGlobalIndex (ShortTermStorage h ! pays)"
  have d: "distinct (concat (map ?f [0..<NombreDePays h]))"
    using assms(1) unfolding numeros_distincts_def by blast
  show ?thesis
  proof (cases "pays = pays'")
    case True
    have "distinct (?f pays)" using distinct_concat_map_elem [OF d, of pays] assms(2) by simp
    then have "?f pays ! k = ?f pays ! k' \<longleftrightarrow> k = k'"
      using assms(3,5) True by (intro nth_eq_iff_index_eq) simp_all
    with True assms(3,5,6) show ?thesis by simp
  next
    case False
    then have "set (?f pays) \<inter> set (?f pays') = {}"
      using distinct_concat_map_disjoint [OF d, of pays pays'] assms(2,4) by simp
    moreover have "clusterGlobalIndex (ShortTermStorage h ! pays ! k) \<in> set (?f pays)"
      "clusterGlobalIndex (ShortTermStorage h ! pays' ! k') \<in> set (?f pays')"
      using assms(3,5) by simp_all
    ultimately show ?thesis using assms(6) by auto
  qed
qed

lemma stockage_de_numero [simp]:
  assumes "numeros_distincts h" and "pays < NombreDePays h" and "k < length (ShortTermStorage h ! pays)"
  shows "stockage_de h (clusterGlobalIndex (ShortTermStorage h ! pays ! k)) = (pays, k)"
  unfolding stockage_de_def
proof (subst find_unique [of "(pays, k)"])
  fix y
  assume "y \<in> set (concat (map (\<lambda>pays. map (Pair pays) [0..<length (ShortTermStorage h ! pays)]) [0..<NombreDePays h]))"
    and "case y of (q, j) \<Rightarrow> clusterGlobalIndex (ShortTermStorage h ! q ! j) =
      clusterGlobalIndex (ShortTermStorage h ! pays ! k)"
  then show "y = (pays, k)"
    using stockages_numeros [OF assms(1)] assms(2,3) by auto
qed (use assms in \<open>auto intro!: bexI [of _ pays]\<close>)

subsection \<open>A pass over a range\<close>

lemma places_de_subset: "set fs \<subseteq> set gs \<Longrightarrow> p \<in> set (places_de fs) \<Longrightarrow> p \<in> set (places_de gs)"
  by (auto simp: places_de_def)

lemma places_dans_liste:
  "j < NombreDePasDeTempsPourUneOptimisation h \<Longrightarrow> l < NombreDInterconnexions h \<Longrightarrow>
     p \<in> set (places_de (fiches_interco h j l)) \<Longrightarrow> p \<in> set (places_de (liste_variables h))"
  "j < NombreDePasDeTempsPourUneOptimisation h \<Longrightarrow> pays < NombreDePays h \<Longrightarrow>
     p \<in> set (places_de (fiches_pays h j pays)) \<Longrightarrow> p \<in> set (places_de (liste_variables h))"
  "j < NombreDePasDeTempsPourUneOptimisation h \<Longrightarrow> pays < NombreDePays h \<Longrightarrow>
     p \<in> set (places_de (fiches_hydro h j pays)) \<Longrightarrow> p \<in> set (places_de (liste_variables h))"
  "pays < NombreDePays h \<Longrightarrow> p \<in> set (places_de (fiches_stock h pays)) \<Longrightarrow> p \<in> set (places_de (liste_variables h))"
  "OptimisationAvecCoutsDeDemarrage h \<Longrightarrow> j < NombreDePasDeTempsPourUneOptimisation h \<Longrightarrow> pays < NombreDePays h \<Longrightarrow>
     i < nb_paliers h pays \<Longrightarrow> p \<in> set (places_de (fiches_demarrage h pays i j)) \<Longrightarrow>
     p \<in> set (places_de (liste_variables h))"
  by (erule places_de_subset [rotated], auto dest: dans_liste_interco dans_liste_pays dans_liste_stock dans_liste_demarrage)+

text \<open>A pass over one range: the week, its data, the constructed problem, and a range that starts at \<open>premier\<close>
  and ends within the week.\<close>

definition remplissage :: "PROBLEME_HEBDO \<Rightarrow> DONNEES \<Rightarrow> etat \<Rightarrow> nat \<Rightarrow> bool" where
  "remplissage h d s premier \<longleftrightarrow> pret_a_remplir h s \<and> donnees_hebdo_ok h d \<and>
     premier + NombreDePasDeTempsPourUneOptimisation h \<le> NombreDePasDeTemps h"

lemma remplissage_simps:
  assumes R: "remplissage h d s premier"
  shows "hebdo_ok h"
    and "j < NombreDePasDeTempsPourUneOptimisation h \<Longrightarrow> premier + j < NombreDePasDeTemps h"
    and "pays < NombreDePays h \<Longrightarrow> i < nb_paliers h pays \<Longrightarrow>
      palier_donnees d pays i = Inr (PuissanceDisponibleEtCout (PaliersDonnees d ! pays) ! i)"
    and "pays < NombreDePays h \<Longrightarrow> i < nb_paliers h pays \<Longrightarrow> palier_de h (numero_palier h pays i) = (pays, i)"
proof -
  have r: "pret_a_remplir h s" "donnees_hebdo_ok h d"
    and plage: "premier + NombreDePasDeTempsPourUneOptimisation h \<le> NombreDePasDeTemps h"
    using R by (simp_all add: remplissage_def)
  show "hebdo_ok h" using remplir_ok(1) [OF r(1)] .
  show "j < NombreDePasDeTempsPourUneOptimisation h \<Longrightarrow> premier + j < NombreDePasDeTemps h"
    using plage by linarith
  show "pays < NombreDePays h \<Longrightarrow> i < nb_paliers h pays \<Longrightarrow>
      palier_donnees d pays i = Inr (PuissanceDisponibleEtCout (PaliersDonnees d ! pays) ! i)"
    by (rule donnees_palier(1) [OF r(2)])
  show "pays < NombreDePays h \<Longrightarrow> i < nb_paliers h pays \<Longrightarrow> palier_de h (numero_palier h pays i) = (pays, i)"
    by (rule palier_de_numero [OF remplir_ok(2) [OF r(1)]])
qed

text \<open>The sizes a pass reads within.\<close>

lemma remplissage_tailles:
  assumes R: "remplissage h d s premier"
  shows "length (TransportDonnees d) = NombreDInterconnexions h" "length (ValeursDeNTC d) = NombreDePasDeTemps h"
    "length (ConsommationAbattueDuPays d) = NombreDePasDeTemps h"
    "length (AllMustRunGenerationOfArea d) = NombreDePasDeTemps h"
    "length (CoutDeDefaillancePositive d) = NombreDePays h" "length (CoutDeDefaillanceNegative d) = NombreDePays h"
    "length (PaliersDonnees d) = NombreDePays h" "length (HydroDonnees d) = NombreDePays h"
    "length (StockageDonnees d) = NombreDePays h"
    "length (DefaillanceNegativeUtiliserPMinThermique d) = NombreDePays h"
    "length (DefaillanceNegativeUtiliserConsoAbattue d) = NombreDePays h"
    "length (SecondMembreDeLaContrainteCouplante d) = NombreDeContraintesCouplantes h"
    "length (ReserveHoraireJMoins1 d) = NombreDePays h"
    "length (areaMode (adequacyPatchRuntimeData d)) = NombreDePays h"
    "length (originAreaMode (adequacyPatchRuntimeData d)) = NombreDInterconnexions h"
    "length (extremityAreaMode (adequacyPatchRuntimeData d)) = NombreDInterconnexions h"
  using donnees_tailles [of h d] R by (simp_all add: remplissage_def)

lemma remplissage_lien:
  assumes R: "remplissage h d s premier" and "l < NombreDInterconnexions h"
  shows "length (CoutDeTransportOrigineVersExtremite (TransportDonnees d ! l)) = NombreDePasDeTemps h"
    "length (CoutDeTransportExtremiteVersOrigine (TransportDonnees d ! l)) = NombreDePasDeTemps h"
  using donnees_lien [of h d l] R assms(2) by (simp_all add: transport_donnees_ok_def remplissage_def)

lemma remplissage_pays:
  assumes R: "remplissage h d s premier" and "pays < NombreDePays h"
  shows "length (PuissanceDisponibleEtCout (PaliersDonnees d ! pays)) = nb_paliers h pays"
    "length (CoutDeDemarrageDUnGroupeDuPalierThermique (PaliersDonnees d ! pays)) = nb_paliers h pays"
    "length (CoutDArretDUnGroupeDuPalierThermique (PaliersDonnees d ! pays)) = nb_paliers h pays"
    "length (CoutFixeDeMarcheDUnGroupeDuPalierThermique (PaliersDonnees d ! pays)) = nb_paliers h pays"
    "length (WaterLayerValues (HydroDonnees d ! pays)) = 100"
    "length (StockageDonnees d ! pays) = length (ShortTermStorage h ! pays)"
    "i < nb_paliers h pays \<Longrightarrow> pdisp_ok (NombreDePasDeTemps h) (PuissanceDisponibleEtCout (PaliersDonnees d ! pays) ! i)"
  using donnees_pays [of h d pays] donnees_palier [of h d pays i] R assms(2)
  by (simp_all add: hydro_donnees_ok_def paliers_donnees_ok_def remplissage_def)

lemma remplissage_pret: "remplissage h d s premier \<Longrightarrow> pret_a_remplir h s"
  by (simp add: remplissage_def)

subsection \<open>The places a pass goes through\<close>

lemma places_pays_dans:
  "i < nb_paliers h pays \<Longrightarrow> Var NumeroDeVariableDuPalierThermique j (numero_palier h pays i) \<in> set (places_de (fiches_pays h j pays))"
  "Var NumeroDeVariableDefaillancePositive j pays \<in> set (places_de (fiches_pays h j pays))"
  "Var NumeroDeVariableDefaillanceNegative j pays \<in> set (places_de (fiches_pays h j pays))"
  "st \<in> set (ShortTermStorage h ! pays) \<Longrightarrow> c \<in> {InjectionVariable, WithdrawalVariable, LevelVariable} \<Longrightarrow>
     Var c j (clusterGlobalIndex st) \<in> set (places_de (fiches_pays h j pays))"
  by (auto simp: fiches_pays_def fiche_palier_def fiches_stockage_def Let_def)

lemma places_hydro_dans:
  assumes "c \<in> {NumeroDeVariablesDeLaProdHyd, NumeroDeVariablesVariationHydALaBaisse,
      NumeroDeVariablesVariationHydALaHausse, NumeroDeVariablesDePompage, NumeroDeVariablesDeNiveau,
      NumeroDeVariablesDeDebordement}"
  shows "Var c j pays \<in> set (places_de (fiches_hydro h j pays))"
  using assms by (auto simp: fiches_hydro_def Let_def)

text \<open>The places of an area at an hour, storages apart.\<close>

definition places_pays_heure :: "PROBLEME_HEBDO \<Rightarrow> nat \<Rightarrow> nat \<Rightarrow> place set" where
  "places_pays_heure h j pays =
     (\<lambda>i. Var NumeroDeVariableDuPalierThermique j (numero_palier h pays i)) ` {0..<nb_paliers h pays} \<union>
     (\<lambda>c. Var c j pays) ` {NumeroDeVariablesDeLaProdHyd, NumeroDeVariablesVariationHydALaBaisse,
      NumeroDeVariablesVariationHydALaHausse, NumeroDeVariablesDePompage, NumeroDeVariablesDeNiveau,
      NumeroDeVariablesDeDebordement, NumeroDeVariableDefaillancePositive, NumeroDeVariableDefaillanceNegative}"

text \<open>The four variables of a cluster at an hour.\<close>

definition places_demarrage_heure :: "PROBLEME_HEBDO \<Rightarrow> nat \<Rightarrow> nat \<Rightarrow> nat \<Rightarrow> place set" where
  "places_demarrage_heure h j pays i = (\<lambda>c. Var c j (numero_palier h pays i)) `
     {NumeroDeVariableDuNombreDeGroupesEnMarcheDuPalierThermique,
      NumeroDeVariableDuNombreDeGroupesQuiDemarrentDuPalierThermique,
      NumeroDeVariableDuNombreDeGroupesQuiSArretentDuPalierThermique,
      NumeroDeVariableDuNombreDeGroupesQuiTombentEnPanneDuPalierThermique}"

lemma places_demarrage_dans:
  "q \<in> places_demarrage_heure h j pays i \<Longrightarrow> q \<in> set (places_de (fiches_demarrage h pays i j))"
  by (auto simp: places_demarrage_heure_def fiches_demarrage_def Let_def)

text \<open>The numbers of the final stocks.\<close>

definition lire_stock :: "etat \<Rightarrow> nat \<Rightarrow> int resultat" where
  "lire_stock s pays = lire (NumeroDeVariableStockFinal s) pays"

definition lire_tranche :: "etat \<Rightarrow> nat \<Rightarrow> nat \<Rightarrow> int resultat" where
  "lire_tranche s pays layer = bindE (lire (NumeroDeVariableDeTrancheDeStock s) pays) (\<lambda>ls. lire ls layer)"

lemma lire_stock_ok:
  assumes "remplissage h d s premier" and "pays < NombreDePays h"
  shows "lire_stock s pays = Inr (lecture s (Stock pays))"
    and "l < 100 \<Longrightarrow> lire_tranche s pays l = Inr (lecture s (Tranche pays l))"
  using remplir_ok(5) [OF remplissage_pret [OF assms(1)]] assms(2)
  by (simp_all add: lire_stock_def lire_tranche_def dims_variables_def dims_var_def)

end
