(* ===== verification/Mersenne_Twister.thy ===== *)
theory Mersenne_Twister
  imports Antares_Prelude "HOL-Library.Word"
begin

unbundle bit_operations_syntax

text \<open>
  The pseudo-random generator of the simulator, \<^verbatim>\<open>src/src/libs/antares/mersenne-twister/mersenne-twister.cpp\<close>,
  and \<open>SpreadGenerator\<close> (\<open>src/src/solver/simulation/sim_spread_generator.cpp\<close>), which draws the small costs
  that tell the short-term storages apart. The state vector is a list of \<open>32 word\<close>; a computation
  the code does in \<open>unsigned long\<close> is done on \<open>64 word\<close>. \<open>suite\<close> is the sequence of the published
  algorithm: the main lemma says that the in-place generation of 624 words at a time produces it.
\<close>

subsection \<open>The code\<close>

definition periodN :: nat where "periodN = 624"
definition periodM :: nat where "periodM = 397"
definition MATRIX_A :: "32 word" where "MATRIX_A = 0x9908b0df"
definition UPPER_MASK :: "32 word" where "UPPER_MASK = 0x80000000"
definition LOWER_MASK :: "32 word" where "LOWER_MASK = 0x7fffffff"
definition defaultSeed :: "32 word" where "defaultSeed = 5489"

record mersenne =
  mt :: "32 word list"
  mti :: nat

definition initialiser_mot :: "nat \<Rightarrow> 32 word list \<Rightarrow> 32 word list resultat" where
  "initialiser_mot i x =
     bindE (lire x (i - 1)) (\<lambda>p.
     bindE (ecrire x i (ucast (1812433253 * ucast (p XOR drop_bit 30 p) + of_nat i :: 64 word))) (\<lambda>x.
     bindE (lire x i) (\<lambda>v. ecrire x i (v AND 0xffffffff))))"

definition reset :: "32 word \<Rightarrow> mersenne \<Rightarrow> mersenne resultat" where
  "reset seed g =
     bindE (ecrire (mt g) 0 (seed AND 0xffffffff)) (\<lambda>x.
     bindE (forE [1..<periodN] initialiser_mot x) (\<lambda>x.
     Inr (g\<lparr>mt := x, mti := periodN\<rparr>)))"

text \<open>The constructor runs \<open>reset\<close> on whatever the array holds.\<close>

definition MersenneTwister :: "mersenne \<Rightarrow> mersenne resultat" where
  "MersenneTwister g = reset defaultSeed g"

definition mag01 :: "32 word \<Rightarrow> 32 word" where
  "mag01 b = (if b = 0 then 0 else MATRIX_A)"

text \<open>\<open>mt[kk] = mt[j] ^ (y >> 1) ^ mag01[y & 1]\<close> with \<open>y\<close> from \<open>mt[kk]\<close> and \<open>mt[suivant]\<close>.\<close>

definition tordre :: "nat \<Rightarrow> nat \<Rightarrow> int \<Rightarrow> 32 word list \<Rightarrow> 32 word list resultat" where
  "tordre kk suivant j x =
     bindE (lire x kk) (\<lambda>a.
     bindE (lire x suivant) (\<lambda>b.
     bindE (lire_int x j) (\<lambda>m.
     let y = (a AND UPPER_MASK) OR (b AND LOWER_MASK) in
     ecrire x kk (m XOR drop_bit 1 y XOR mag01 (y AND 1)))))"

definition generer :: "32 word list \<Rightarrow> 32 word list resultat" where
  "generer = seqE
     [forE [0..<periodN - periodM] (\<lambda>kk. tordre kk (kk + 1) (int kk + int periodM)),
      forE [periodN - periodM..<periodN - 1]
        (\<lambda>kk. tordre kk (kk + 1) (int kk + (int periodM - int periodN))),
      tordre (periodN - 1) 0 (int periodM - 1)]"

definition temperer :: "32 word \<Rightarrow> 32 word" where
  "temperer y =
     (let y = y XOR drop_bit 11 y;
          y = y XOR (push_bit 7 y AND 0x9d2c5680);
          y = y XOR (push_bit 15 y AND 0xefc60000)
      in y XOR drop_bit 18 y)"

definition next_twister :: "mersenne \<Rightarrow> (mersenne \<times> real) resultat" where
  "next_twister g =
     bindE (if mti g \<ge> periodN
            then bindE (generer (mt g)) (\<lambda>x. Inr (g\<lparr>mt := x, mti := 0\<rparr>)) else Inr g) (\<lambda>g.
     bindE (lire (mt g) (mti g)) (\<lambda>y.
     Inr (g\<lparr>mti := mti g + 1\<rparr>, real (unat (temperer y)) * (1 / 4294967295))))"

text \<open>\<open>SpreadGenerator\<close> with its default range.\<close>

definition rangeDefault :: real where "rangeDefault = 1 / 1000"

definition SpreadGenerator_generate :: "mersenne \<Rightarrow> (mersenne \<times> real) resultat" where
  "SpreadGenerator_generate g =
     bindE (next_twister g) (\<lambda>(g, x). Inr (g, x * rangeDefault))"

subsection \<open>The sequence of the algorithm\<close>

definition torsion :: "32 word \<Rightarrow> 32 word \<Rightarrow> 32 word" where
  "torsion a b = (let y = (a AND UPPER_MASK) OR (b AND LOWER_MASK) in drop_bit 1 y XOR mag01 (y AND 1))"

function suite :: "32 word list \<Rightarrow> nat \<Rightarrow> 32 word" where
  "suite x k = (if k < 624 then x ! k
     else suite x (k - 227) XOR torsion (suite x (k - 624)) (suite x (k - 623)))"
  by pat_completeness auto
termination by (relation "measure snd") auto

declare suite.simps [simp del]

lemma suite_debut [simp]: "k < 624 \<Longrightarrow> suite x k = x ! k"
  by (simp add: suite.simps)

lemma suite_recurrence: "suite x (k + 624) = suite x (k + 397) XOR torsion (suite x k) (suite x (k + 1))"
  by (subst suite.simps) (simp add: add.commute)

text \<open>A window of 624 terms generates the rest of the sequence.\<close>

definition mots_apres :: "32 word list \<Rightarrow> nat \<Rightarrow> 32 word list" where
  "mots_apres x n = map (\<lambda>k. suite x (k + n)) [0..<624]"

lemma length_mots_apres [simp]: "length (mots_apres x n) = 624"
  by (simp add: mots_apres_def)

lemma mots_apres_0: "length x = 624 \<Longrightarrow> mots_apres x 0 = x"
  by (rule nth_equalityI) (simp_all add: mots_apres_def del: upt_rec_numeral)

lemma suite_mots_apres: "suite (mots_apres x n) k = suite x (k + n)"
proof (induction k rule: less_induct)
  case (less k)
  show ?case
  proof (cases "k < 624")
    case True
    then show ?thesis by (simp add: mots_apres_def del: upt_rec_numeral)
  next
    case False
    then obtain j where j: "k = j + 624" by (metis add.commute le_Suc_ex not_less)
    have "suite (mots_apres x n) k = suite x (j + 397 + n) XOR torsion (suite x (j + n)) (suite x (j + 1 + n))"
      unfolding j suite_recurrence by (simp add: less j)
    also have "\<dots> = suite x (j + n + 624)"
      unfolding suite_recurrence by (simp add: add_ac)
    finally show ?thesis by (simp add: j add_ac)
  qed
qed

subsection \<open>The generation in place\<close>

text \<open>The vector when its first \<open>kk\<close> words are already those of the next window.\<close>

definition avancement :: "32 word list \<Rightarrow> nat \<Rightarrow> 32 word list" where
  "avancement x kk = map (\<lambda>i. if i < kk then suite x (i + 624) else suite x i) [0..<624]"

lemma length_avancement [simp]: "length (avancement x kk) = 624"
  by (simp add: avancement_def)

lemma nth_avancement:
  "i < 624 \<Longrightarrow> avancement x kk ! i = (if i < kk then suite x (i + 624) else suite x i)"
  by (simp add: avancement_def del: upt_rec_numeral)

lemma avancement_suivant:
  assumes "kk < 624"
  shows "(avancement x kk)[kk := suite x (kk + 624)] = avancement x (kk + 1)"
  by (rule nth_equalityI) (use assms in \<open>auto simp: nth_avancement nth_list_update less_Suc_eq\<close>)

lemma tordre_ok:
  assumes "kk < 624" and "s < 624" and "0 \<le> j" and "j < 624"
    and "avancement x kk ! kk = suite x kk" and "avancement x kk ! s = suite x (kk + 1)"
    and "avancement x kk ! nat j = suite x (kk + 397)"
  shows "tordre kk s j (avancement x kk) = Inr (avancement x (kk + 1))"
proof -
  have "tordre kk s j (avancement x kk) = Inr ((avancement x kk)[kk := suite x (kk + 624)])"
    using assms by (simp add: tordre_def torsion_def Let_def suite_recurrence xor.assoc)
  then show ?thesis using avancement_suivant [OF assms(1)] by simp
qed

lemma returns_for_upt_from:
  assumes "a \<le> b" and "I a s" and "\<And>k s. a \<le> k \<Longrightarrow> k < b \<Longrightarrow> I k s \<Longrightarrow> returns (f k s) (I (Suc k))"
  shows "returns (forE [a..<b] f s) (I b)"
proof -
  have "returns (forE [a..<a + m] f s) (I (a + m))" if "a + m \<le> b" for m
    using that
  proof (induction m)
    case (Suc m)
    then show ?case
      using assms(3) [of "a + m"] by (auto simp: forE_append elim!: returns_mono)
  qed (simp add: assms(2))
  from this [of "b - a"] assms(1) show ?thesis by simp
qed

lemma generer_ok:
  assumes "length x = 624"
  shows "generer x = Inr (mots_apres x 624)"
proof -
  have debut: "avancement x 0 = x"
    using assms by (intro nth_equalityI) (simp_all add: nth_avancement)
  have fin: "avancement x 624 = mots_apres x 624"
    by (rule nth_equalityI) (simp_all add: nth_avancement mots_apres_def del: upt_rec_numeral)
  have 1: "tordre kk (kk + 1) (int kk + int periodM) (avancement x kk) = Inr (avancement x (kk + 1))"
    if "kk < 227" for kk
    by (rule tordre_ok) (use that in \<open>simp_all add: periodM_def nth_avancement nat_add_distrib\<close>)
  have 2: "tordre kk (kk + 1) (int kk + (int periodM - int periodN)) (avancement x kk) = Inr (avancement x (kk + 1))"
    if "227 \<le> kk" "kk < 623" for kk
  proof -
    have "nat (int kk + (int periodM - int periodN)) = kk - 227"
      using that by (simp add: periodM_def periodN_def)
    with that show ?thesis
      by (intro tordre_ok) (simp_all add: periodM_def periodN_def nth_avancement add.commute)
  qed
  have 3: "tordre 623 0 396 (avancement x 623) = Inr (avancement x 624)"
    using tordre_ok [of 623 0 396 x] by (simp add: nth_avancement)
  have "returns (forE [0..<227] (\<lambda>kk. tordre kk (kk + 1) (int kk + int periodM)) x)
      (\<lambda>y. y = avancement x 227)"
    by (rule returns_for_upt_from [where I = "\<lambda>k y. y = avancement x k"]) (use 1 in \<open>simp_all add: debut\<close>)
  moreover have "returns (forE [227..<623] (\<lambda>kk. tordre kk (kk + 1) (int kk + (int periodM - int periodN)))
      (avancement x 227)) (\<lambda>y. y = avancement x 623)"
    by (rule returns_for_upt_from [where I = "\<lambda>k y. y = avancement x k"]) (use 2 in simp_all)
  ultimately show ?thesis
    using 3 unfolding generer_def
    by (auto simp: periodN_def periodM_def fin simp del: upt_rec_numeral elim!: returnsE)
qed


subsection \<open>The numbers drawn\<close>

text \<open>The state after \<open>n\<close> draws: the window that holds the next number and its rank in it.\<close>

definition apres_tirages :: "32 word list \<Rightarrow> nat \<Rightarrow> mersenne \<Rightarrow> bool" where
  "apres_tirages x n g \<longleftrightarrow>
     (\<exists>b. mt g = mots_apres x (624 * b) \<and> mti g \<le> 624 \<and> 624 * b + mti g = 624 + n)"

definition tirage :: "32 word list \<Rightarrow> nat \<Rightarrow> real" where
  "tirage x n = real (unat (temperer (suite x (624 + n)))) * (1 / 4294967295)"

lemma mots_apres_suivants: "generer (mots_apres x n) = Inr (mots_apres x (n + 624))"
proof -
  have "mots_apres (mots_apres x n) 624 = mots_apres x (n + 624)"
    by (rule nth_equalityI) (simp_all add: mots_apres_def suite_mots_apres [unfolded mots_apres_def] add_ac del: upt_rec_numeral)
  then show ?thesis by (simp add: generer_ok)
qed

lemma next_twister_ok:
  assumes "apres_tirages x n g"
  shows "returns (next_twister g) (\<lambda>(g', v). v = tirage x n \<and> apres_tirages x (n + 1) g')"
proof -
  obtain b where b: "mt g = mots_apres x (624 * b)" "mti g \<le> 624" "624 * b + mti g = 624 + n"
    using assms by (auto simp: apres_tirages_def)
  have nth: "mots_apres x m ! i = suite x (i + m)" if "i < 624" for m i
    using that by (simp add: mots_apres_def del: upt_rec_numeral)
  show ?thesis
  proof (cases "mti g = 624")
    case True
    then have "apres_tirages x (n + 1) (g\<lparr>mt := mots_apres x (624 * b + 624), mti := Suc 0\<rparr>)"
      using b(3) unfolding apres_tirages_def by (intro exI [of _ "Suc b"]) (simp add: algebra_simps)
    then show ?thesis
      using True b by (simp add: next_twister_def periodN_def mots_apres_suivants nth tirage_def add.commute)
  next
    case False
    then have "apres_tirages x (n + 1) (g\<lparr>mti := mti g + 1\<rparr>)"
      using b unfolding apres_tirages_def by (intro exI [of _ b]) simp
    moreover have "mti g + 624 * b = 624 + n" using b(3) by simp
    ultimately show ?thesis
      using False b by (simp add: next_twister_def periodN_def nth tirage_def add.commute)
  qed
qed

text \<open>The state after \<open>reset\<close>: the words of the seed.\<close>

fun mots_graine :: "32 word \<Rightarrow> nat \<Rightarrow> 32 word" where
  "mots_graine seed 0 = seed"
| "mots_graine seed (Suc i) =
     1812433253 * (mots_graine seed i XOR drop_bit 30 (mots_graine seed i)) + of_nat (Suc i)"

definition graine :: "32 word \<Rightarrow> 32 word list" where
  "graine seed = map (mots_graine seed) [0..<624]"

lemma tous_les_bits: "(x :: 32 word) AND 0xffffffff = x"
proof -
  have "(0xffffffff :: 32 word) = - 1" by simp
  then show ?thesis by (simp only: and.right_neutral)
qed

lemma ucast_produit:
  "ucast (1812433253 * ucast (w :: 32 word) + of_nat i :: 64 word) = (1812433253 * w + of_nat i :: 32 word)"
proof -
  have "(1812433253 * ucast w + of_nat i :: 64 word) = word_of_int (1812433253 * uint w + int i)"
    by (simp only: ucast_eq of_int_add of_int_mult of_int_numeral of_int_of_nat_eq)
  moreover have "ucast (word_of_int z :: 64 word) = (word_of_int z :: 32 word)" for z
    by (rule ucast_down_wi) (simp add: is_down)
  moreover have "(word_of_int (1812433253 * uint w + int i) :: 32 word) = 1812433253 * w + of_nat i"
    by (simp only: of_int_add of_int_mult of_int_numeral of_int_of_nat_eq word_of_int_uint)
  ultimately show ?thesis
    by (simp only:)
qed

lemma initialiser_mot_ok:
  assumes "0 < i" and "i < length x"
  shows "initialiser_mot i x =
    Inr (x[i := 1812433253 * (x ! (i - 1) XOR drop_bit 30 (x ! (i - 1))) + of_nat i])"
  using assms unfolding initialiser_mot_def ucast_produit by (simp add: tous_les_bits)

lemma reset_ok:
  assumes "length (mt g) = 624"
  shows "reset seed g = Inr \<lparr>mt = graine seed, mti = 624\<rparr>"
proof -
  let ?I = "\<lambda>k x. length x = 624 \<and> (\<forall>i < k. x ! i = mots_graine seed i)"
  have "returns (forE [1..<624] initialiser_mot ((mt g)[0 := seed])) (?I 624)"
  proof (rule returns_for_upt_from [where I = ?I])
    fix k and x :: "32 word list"
    assume "1 \<le> k" "k < 624" "?I k x"
    moreover from this obtain j where j: "k = Suc j" by (cases k) simp_all
    ultimately have "initialiser_mot k x = Inr (x[k := mots_graine seed k])"
      using initialiser_mot_ok [of k x] by (simp add: j)
    then show "returns (initialiser_mot k x) (?I (Suc k))"
      using \<open>k < 624\<close> \<open>?I k x\<close> by (simp add: nth_list_update less_Suc_eq)
  qed (use assms in simp_all)
  then obtain x where x: "forE [1..<624] initialiser_mot ((mt g)[0 := seed]) = Inr x" "?I 624 x"
    by (auto elim: returnsE)
  then have "x = graine seed"
    by (intro nth_equalityI) (simp_all add: graine_def del: upt_rec_numeral)
  moreover have "0 < length (mt g)" using assms by simp
  ultimately show ?thesis
    using x(1) by (cases g) (simp add: reset_def periodN_def tous_les_bits del: upt_rec_numeral)
qed

lemma reset_tirages: "apres_tirages (graine seed) 0 \<lparr>mt = graine seed, mti = 624\<rparr>"
proof -
  have "length (graine seed) = 624" by (simp add: graine_def del: upt_rec_numeral)
  then show ?thesis
    unfolding apres_tirages_def by (intro exI [of _ 0]) (simp add: mots_apres_0)
qed

subsection \<open>The draws are between the bounds of the class\<close>

lemma tirage_bornes: "0 \<le> tirage x n" "tirage x n \<le> 1"
proof -
  have "unat (temperer (suite x (624 + n))) < 2 ^ LENGTH(32)"
    by (rule unsigned_less)
  then have "unat (temperer (suite x (624 + n))) \<le> 4294967295"
    by simp
  then show "0 \<le> tirage x n" "tirage x n \<le> 1"
    unfolding tirage_def by (simp_all del: of_nat_unat add: field_simps)
qed

subsection \<open>Tempering loses nothing\<close>

lemma xor_nul: "(a XOR b = 0) = (a = (b :: 32 word))"
  by (metis xor.assoc xor.left_neutral xor.right_neutral xor_self_eq)

text \<open>A step \<open>y ^= f y\<close> with \<open>f\<close> moving bits in one direction can be undone.\<close>

lemma xor_decale_injectif:
  fixes f :: "32 word \<Rightarrow> 32 word" and r :: "nat \<Rightarrow> nat"
  assumes lin: "\<And>a b. f (a XOR b) = f a XOR f b"
    and dep: "\<And>d i. i < 32 \<Longrightarrow> bit (f d) i \<Longrightarrow> \<exists>j < 32. r j < r i \<and> bit d j"
  shows "inj (\<lambda>y. y XOR f y)"
proof (rule injI)
  fix y z assume "y XOR f y = z XOR f z"
  then have "(y XOR f y) XOR (z XOR f z) = 0" by simp
  then have "(y XOR z) XOR f (y XOR z) = 0" by (simp add: lin ac_simps)
  then have d: "f (y XOR z) = y XOR z" by (metis xor_nul)
  have "\<not> bit (y XOR z) i" if "i < 32" for i
    using that
  proof (induction "r i" arbitrary: i rule: less_induct)
    case less
    then show ?case using dep [of i "y XOR z"] by (metis d)
  qed
  then have "y XOR z = 0" by (intro bit_word_eqI) simp
  then show "y = z" by (metis xor_nul)
qed

lemma temperer_injectif: "inj temperer"
proof -
  have droite: "inj (\<lambda>y :: 32 word. y XOR drop_bit n y)" if "0 < n" for n
    by (rule xor_decale_injectif [where r = "\<lambda>i. 32 - i"])
      (use that in \<open>auto simp: bit_simps drop_bit_xor intro!: exI [of _ "n + _"] dest: bit_imp_le_length\<close>)
  have gauche: "inj (\<lambda>y :: 32 word. y XOR (push_bit n y AND m))" if "0 < n" for n m
    by (rule xor_decale_injectif [where r = "\<lambda>i. i"])
      (use that in \<open>auto simp: bit_simps push_bit_xor intro!: bit_word_eqI exI [of _ "_ - n"]\<close>)
  have e: "temperer = (\<lambda>y. y XOR drop_bit 18 y) \<circ> (\<lambda>y. y XOR (push_bit 15 y AND 0xefc60000)) \<circ>
      (\<lambda>y. y XOR (push_bit 7 y AND 0x9d2c5680)) \<circ> (\<lambda>y. y XOR drop_bit 11 y)"
    by (simp add: temperer_def fun_eq_iff Let_def)
  show ?thesis
    unfolding e by (intro inj_compose droite gauche) simp_all
qed

end
