(* ===== verification/Costs.thy ===== *)
theory Costs
  imports Cell_Writes Mersenne_Twister
begin

text \<open>
  The costs of the variables: \<open>opt_gestion_des_couts_cas_lineaire.cpp\<close> and
  \<open>opt_gestion_des_couts_couts_demarrage.cpp\<close> under \<open>src/src/solver/optimisation/\<close>. \<open>cout_de\<close> is the table of the
  costs: what the variable of a place must cost. Main fact: the code ends normally and gives every variable of
  the problem its cost of the table.
\<close>

subsection \<open>Writing a cost\<close>

definition ecrire_CoutLineaire ::
  "int \<Rightarrow> real \<Rightarrow> PROBLEME_ANTARES_A_RESOUDRE \<Rightarrow> PROBLEME_ANTARES_A_RESOUDRE resultat" where
  "ecrire_CoutLineaire var c p =
     bindE (ecrire_int (CoutLineaire p) var c) (\<lambda>x. Inr (p\<lparr>CoutLineaire := x\<rparr>))"

definition modifier_CoutLineaire ::
  "int \<Rightarrow> (real \<Rightarrow> real) \<Rightarrow> PROBLEME_ANTARES_A_RESOUDRE \<Rightarrow> PROBLEME_ANTARES_A_RESOUDRE resultat" where
  "modifier_CoutLineaire var f p =
     bindE (lire_int (CoutLineaire p) var) (\<lambda>c. ecrire_CoutLineaire var (f c) p)"

text \<open>\<open>if (var >= 0 && var < ProblemeAResoudre->NombreDeVariables)\<close>.\<close>

definition si_existe ::
  "int \<Rightarrow> (PROBLEME_ANTARES_A_RESOUDRE \<Rightarrow> PROBLEME_ANTARES_A_RESOUDRE resultat) \<Rightarrow>
     PROBLEME_ANTARES_A_RESOUDRE \<Rightarrow> PROBLEME_ANTARES_A_RESOUDRE resultat" where
  "si_existe var f p = whenE (0 \<le> var \<and> var < int (NombreDeVariables p)) f p"

subsection \<open>The short-term storages\<close>

definition cout_stockage ::
  "etat \<Rightarrow> STS_PROPERTIES \<Rightarrow> nat \<Rightarrow> mersenne \<times> PROBLEME_ANTARES_A_RESOUDRE \<Rightarrow>
     (mersenne \<times> PROBLEME_ANTARES_A_RESOUDRE) resultat" where
  "cout_stockage s storage pdtJour gp = (case gp of (g, p) \<Rightarrow>
     bindE (lire_var s LevelVariable pdtJour (clusterGlobalIndex storage)) (\<lambda>varLevel.
     bindE (whenE (varLevel \<ge> 0) (ecrire_CoutLineaire varLevel 0) p) (\<lambda>p.
     bindE (SpreadGenerator_generate g) (\<lambda>(g, cost).
     bindE (lire_var s InjectionVariable pdtJour (clusterGlobalIndex storage)) (\<lambda>varInjection.
     bindE (whenE (varInjection \<ge> 0) (ecrire_CoutLineaire varInjection cost) p) (\<lambda>p.
     bindE (lire_var s WithdrawalVariable pdtJour (clusterGlobalIndex storage)) (\<lambda>varWithdrawal.
     bindE (whenE (varWithdrawal \<ge> 0)
              (ecrire_CoutLineaire varWithdrawal (efficiency storage * cost)) p) (\<lambda>p.
     Inr (g, p)))))))))"

text \<open>The generator is a local object; its array holds anything before the constructor resets it.\<close>

definition shortTermStorageCost ::
  "PROBLEME_HEBDO \<Rightarrow> etat \<Rightarrow> nat \<Rightarrow> nat \<Rightarrow> PROBLEME_ANTARES_A_RESOUDRE \<Rightarrow>
     PROBLEME_ANTARES_A_RESOUDRE resultat" where
  "shortTermStorageCost h s premier dernier p =
     bindE (MersenneTwister \<lparr>mt = replicate periodN 0, mti = 0\<rparr>) (\<lambda>g.
     bindE (forE [0..<NombreDePays h] (\<lambda>pays gp.
              bindE (lire (ShortTermStorage h) pays) (\<lambda>storages.
              forE storages (\<lambda>storage. forE [premier..<dernier] (\<lambda>pdtHebdo.
                cout_stockage s storage (pdtHebdo - premier))) gp)) (g, p)) (\<lambda>gp.
     Inr (snd gp)))"

subsection \<open>The links\<close>

definition cout_interco ::
  "PROBLEME_HEBDO \<Rightarrow> DONNEES \<Rightarrow> etat \<Rightarrow> nat \<Rightarrow> nat \<Rightarrow> nat \<Rightarrow> PROBLEME_ANTARES_A_RESOUDRE \<Rightarrow>
     PROBLEME_ANTARES_A_RESOUDRE resultat" where
  "cout_interco h d s pdtHebdo pdtJour interco p =
     bindE (lire (CoutDeTransport h) interco) (\<lambda>cout.
     bindE (lire (TransportDonnees d) interco) (\<lambda>transport. seqE
     [\<lambda>p. bindE (lire_var s NumeroDeVariableDeLInterconnexion pdtJour interco) (\<lambda>var.
        si_existe var (ecrire_CoutLineaire var 0) p),
      whenE (IntercoGereeAvecDesCouts cout) (seqE
        [\<lambda>p. bindE (lire_var s NumeroDeVariableCoutOrigineVersExtremiteDeLInterconnexion pdtJour interco)
           (\<lambda>var. si_existe var (\<lambda>p.
              bindE (lire (CoutDeTransportOrigineVersExtremite transport) pdtHebdo) (\<lambda>c.
              ecrire_CoutLineaire var c p)) p),
         \<lambda>p. bindE (lire_var s NumeroDeVariableCoutExtremiteVersOrigineDeLInterconnexion pdtJour interco)
           (\<lambda>var. si_existe var (\<lambda>p.
              bindE (lire (CoutDeTransportExtremiteVersOrigine transport) pdtHebdo) (\<lambda>c.
              ecrire_CoutLineaire var c p)) p)])] p))"

subsection \<open>The areas\<close>

definition cout_palier ::
  "PROBLEME_HEBDO \<Rightarrow> DONNEES \<Rightarrow> etat \<Rightarrow> nat \<Rightarrow> nat \<Rightarrow> nat \<Rightarrow> nat \<Rightarrow> PROBLEME_ANTARES_A_RESOUDRE \<Rightarrow>
     PROBLEME_ANTARES_A_RESOUDRE resultat" where
  "cout_palier h d s pdtHebdo pdtJour pays index p =
     bindE (lire (PaliersThermiquesDuPays h) pays) (\<lambda>pt.
     bindE (lire (NumeroDuPalierDansLEnsembleDesPaliersThermiques pt) index) (\<lambda>palier.
     bindE (lire_var s NumeroDeVariableDuPalierThermique pdtJour palier) (\<lambda>var.
     si_existe var (\<lambda>p.
       bindE (palier_donnees d pays index) (\<lambda>pdisp.
       bindE (lire (CoutHoraireDeProductionDuPalierThermique pdisp) pdtHebdo) (\<lambda>c.
       ecrire_CoutLineaire var c p))) p)))"

definition bruit_hydro :: "DONNEES \<Rightarrow> nat \<Rightarrow> nat \<Rightarrow> real resultat" where
  "bruit_hydro d pays pdtHebdo =
     bindE (lire (BruitSurCoutHydraulique d) pays) (\<lambda>b. lire b (HeureDansLAnnee d + pdtHebdo))"

definition cout_prod_hydro ::
  "PROBLEME_HEBDO \<Rightarrow> DONNEES \<Rightarrow> etat \<Rightarrow> nat \<Rightarrow> nat \<Rightarrow> nat \<Rightarrow> PROBLEME_ANTARES_A_RESOUDRE \<Rightarrow>
     PROBLEME_ANTARES_A_RESOUDRE resultat" where
  "cout_prod_hydro h d s pdtHebdo pdtJour pays p =
     bindE (lire_var s NumeroDeVariablesDeLaProdHyd pdtJour pays) (\<lambda>var. seqE
     [si_existe var (ecrire_CoutLineaire var 0),
      si_existe var (\<lambda>p.
        bindE (bruit_hydro d pays pdtHebdo) (\<lambda>b.
        bindE (ecrire_CoutLineaire var b p) (\<lambda>p.
        bindE (lire (CaracteristiquesHydrauliques h) pays) (\<lambda>c.
        bindE (lire (HydroDonnees d) pays) (\<lambda>hd.
        whenE (\<not> AccurateWaterValue c)
          (modifier_CoutLineaire var (\<lambda>x. x + WeeklyWaterValueStateRegular hd)) p)))))] p)"

definition cout_variations ::
  "PROBLEME_HEBDO \<Rightarrow> DONNEES \<Rightarrow> etat \<Rightarrow> nat \<Rightarrow> nat \<Rightarrow> nat \<Rightarrow> PROBLEME_ANTARES_A_RESOUDRE \<Rightarrow>
     PROBLEME_ANTARES_A_RESOUDRE resultat" where
  "cout_variations h d s pdtHebdo pdtJour pays p =
     bindE (lire (CaracteristiquesHydrauliques h) pays) (\<lambda>c.
     bindE (lire (HydroDonnees d) pays) (\<lambda>hd.
     let baisse = (\<lambda>P p. bindE (lire_var s NumeroDeVariablesVariationHydALaBaisse pdtJour pays)
           (\<lambda>var. si_existe var (ecrire_CoutLineaire var P) p));
         hausse = (\<lambda>P p. bindE (lire_var s NumeroDeVariablesVariationHydALaHausse pdtJour pays)
           (\<lambda>var. si_existe var (ecrire_CoutLineaire var P) p)) in
     whenE (PresenceDHydrauliqueModulable c)
       (if TypeDeLissageHydraulique h = LISSAGE_HYDRAULIQUE_SUR_SOMME_DES_VARIATIONS
        then (let P = PenalisationSurSommeDesVariations hd in seqE [baisse P, hausse P])
        else if TypeDeLissageHydraulique h = LISSAGE_HYDRAULIQUE_SUR_VARIATION_MAX \<and> pdtJour = 0
        then (let P = PenalisationSurVariationMax hd in seqE [baisse P, hausse (- P)])
        else Inr) p))"

definition cout_pompage ::
  "PROBLEME_HEBDO \<Rightarrow> DONNEES \<Rightarrow> etat \<Rightarrow> nat \<Rightarrow> nat \<Rightarrow> nat \<Rightarrow> PROBLEME_ANTARES_A_RESOUDRE \<Rightarrow>
     PROBLEME_ANTARES_A_RESOUDRE resultat" where
  "cout_pompage h d s pdtHebdo pdtJour pays p =
     bindE (lire_var s NumeroDeVariablesDePompage pdtJour pays) (\<lambda>var.
     si_existe var (\<lambda>p.
       bindE (lire (CaracteristiquesHydrauliques h) pays) (\<lambda>c.
       bindE (lire (HydroDonnees d) pays) (\<lambda>hd.
       bindE (bruit_hydro d pays pdtHebdo) (\<lambda>b.
       (if \<not> AccurateWaterValue c
        then seqE [ecrire_CoutLineaire var (WeeklyWaterValueStateRegular hd),
                   modifier_CoutLineaire var (\<lambda>x. x * PumpingRatio c),
                   modifier_CoutLineaire var (\<lambda>x. x * (- 1)),
                   modifier_CoutLineaire var (\<lambda>x. x + 2 * \<bar>b\<bar>)]
        else ecrire_CoutLineaire var (2 * \<bar>b\<bar>)) p)))) p)"

definition cout_debordement ::
  "PROBLEME_HEBDO \<Rightarrow> DONNEES \<Rightarrow> etat \<Rightarrow> nat \<Rightarrow> nat \<Rightarrow> PROBLEME_ANTARES_A_RESOUDRE \<Rightarrow>
     PROBLEME_ANTARES_A_RESOUDRE resultat" where
  "cout_debordement h d s pdtJour pays p =
     bindE (lire_var s NumeroDeVariablesDeDebordement pdtJour pays) (\<lambda>var.
     si_existe var (\<lambda>p.
       bindE (lire (CaracteristiquesHydrauliques h) pays) (\<lambda>c.
       bindE (lire (HydroDonnees d) pays) (\<lambda>hd.
       bindE (lire (CoutDeDefaillanceNegative d) pays) (\<lambda>cout.
       (if \<not> AccurateWaterValue c
        then seqE [ecrire_CoutLineaire var cout,
                   modifier_CoutLineaire var (\<lambda>x. x + WeeklyWaterValueStateRegular hd)]
        else ecrire_CoutLineaire var cout) p)))) p)"

definition cout_defaillances ::
  "PROBLEME_HEBDO \<Rightarrow> DONNEES \<Rightarrow> etat \<Rightarrow> nat \<Rightarrow> nat \<Rightarrow> PROBLEME_ANTARES_A_RESOUDRE \<Rightarrow>
     PROBLEME_ANTARES_A_RESOUDRE resultat" where
  "cout_defaillances h d s pdtJour pays = seqE
     [\<lambda>p. bindE (lire_var s NumeroDeVariablesDeNiveau pdtJour pays) (\<lambda>var.
        si_existe var (ecrire_CoutLineaire var 0) p),
      \<lambda>p. bindE (lire_var s NumeroDeVariableDefaillancePositive pdtJour pays) (\<lambda>var.
        si_existe var (\<lambda>p. bindE (lire (CoutDeDefaillancePositive d) pays) (\<lambda>c.
          ecrire_CoutLineaire var c p)) p),
      \<lambda>p. bindE (lire_var s NumeroDeVariableDefaillanceNegative pdtJour pays) (\<lambda>var.
        si_existe var (\<lambda>p. bindE (lire (CoutDeDefaillanceNegative d) pays) (\<lambda>c.
          ecrire_CoutLineaire var c p)) p)]"

definition couts_pays ::
  "PROBLEME_HEBDO \<Rightarrow> DONNEES \<Rightarrow> etat \<Rightarrow> nat \<Rightarrow> nat \<Rightarrow> nat \<Rightarrow> PROBLEME_ANTARES_A_RESOUDRE \<Rightarrow>
     PROBLEME_ANTARES_A_RESOUDRE resultat" where
  "couts_pays h d s pdtHebdo pdtJour pays p =
     bindE (lire (PaliersThermiquesDuPays h) pays) (\<lambda>pt. seqE
     [forE [0..<NombreDePaliersThermiques pt] (cout_palier h d s pdtHebdo pdtJour pays),
      cout_prod_hydro h d s pdtHebdo pdtJour pays,
      cout_variations h d s pdtHebdo pdtJour pays,
      cout_pompage h d s pdtHebdo pdtJour pays,
      cout_debordement h d s pdtJour pays,
      cout_defaillances h d s pdtJour pays] p)"

subsection \<open>The final stocks and the start-up variables\<close>

definition couts_stock ::
  "PROBLEME_HEBDO \<Rightarrow> DONNEES \<Rightarrow> etat \<Rightarrow> nat \<Rightarrow> PROBLEME_ANTARES_A_RESOUDRE \<Rightarrow>
     PROBLEME_ANTARES_A_RESOUDRE resultat" where
  "couts_stock h d s pays p =
     bindE (lire (CaracteristiquesHydrauliques h) pays) (\<lambda>c.
     bindE (lire (HydroDonnees d) pays) (\<lambda>hd.
     whenE (AccurateWaterValue c) (seqE
       [\<lambda>p. bindE (lire_stock s pays) (\<lambda>var. si_existe var (ecrire_CoutLineaire var 0) p),
        forE [0..<100] (\<lambda>layerindex p.
          bindE (lire_tranche s pays layerindex) (\<lambda>var.
          si_existe var (\<lambda>p. bindE (lire (WaterLayerValues hd) layerindex) (\<lambda>v.
            ecrire_CoutLineaire var (- v) p)) p))]) p))"

definition couts_demarrage ::
  "PROBLEME_HEBDO \<Rightarrow> DONNEES \<Rightarrow> etat \<Rightarrow> nat \<Rightarrow> nat \<Rightarrow> nat \<Rightarrow> PROBLEME_ANTARES_A_RESOUDRE \<Rightarrow>
     PROBLEME_ANTARES_A_RESOUDRE resultat" where
  "couts_demarrage h d s pdtJour pays index p =
     bindE (lire (PaliersThermiquesDuPays h) pays) (\<lambda>pt.
     bindE (lire (PaliersDonnees d) pays) (\<lambda>pd.
     bindE (lire (NumeroDuPalierDansLEnsembleDesPaliersThermiques pt) index) (\<lambda>palier. seqE
     [\<lambda>p. bindE (lire_var s NumeroDeVariableDuNombreDeGroupesEnMarcheDuPalierThermique pdtJour palier)
        (\<lambda>var. si_existe var (\<lambda>p. bindE (lire (CoutFixeDeMarcheDUnGroupeDuPalierThermique pd) index) (\<lambda>c.
          ecrire_CoutLineaire var c p)) p),
      \<lambda>p. bindE (lire_var s NumeroDeVariableDuNombreDeGroupesQuiSArretentDuPalierThermique pdtJour palier)
        (\<lambda>var. si_existe var (\<lambda>p. bindE (lire (CoutDArretDUnGroupeDuPalierThermique pd) index) (\<lambda>c.
          ecrire_CoutLineaire var c p)) p),
      \<lambda>p. bindE (lire_var s NumeroDeVariableDuNombreDeGroupesQuiTombentEnPanneDuPalierThermique pdtJour palier)
        (\<lambda>var. si_existe var (ecrire_CoutLineaire var 0) p),
      \<lambda>p. bindE (lire_var s NumeroDeVariableDuNombreDeGroupesQuiDemarrentDuPalierThermique pdtJour palier)
        (\<lambda>var. si_existe var (\<lambda>p. bindE (lire (CoutDeDemarrageDUnGroupeDuPalierThermique pd) index) (\<lambda>c.
          ecrire_CoutLineaire var c p)) p)] p)))"

definition OPT_InitialiserLesCoutsLineaireCoutsDeDemarrage ::
  "PROBLEME_HEBDO \<Rightarrow> DONNEES \<Rightarrow> etat \<Rightarrow> nat \<Rightarrow> nat \<Rightarrow> PROBLEME_ANTARES_A_RESOUDRE \<Rightarrow>
     PROBLEME_ANTARES_A_RESOUDRE resultat" where
  "OPT_InitialiserLesCoutsLineaireCoutsDeDemarrage h d s premier dernier =
     forE [premier..<dernier] (\<lambda>pdtHebdo.
       forE [0..<NombreDePays h] (\<lambda>pays p.
         bindE (lire (PaliersThermiquesDuPays h) pays) (\<lambda>pt.
         forE [0..<NombreDePaliersThermiques pt] (couts_demarrage h d s (pdtHebdo - premier) pays) p)))"

subsection \<open>The whole function\<close>

definition couts_lineaires ::
  "PROBLEME_HEBDO \<Rightarrow> DONNEES \<Rightarrow> etat \<Rightarrow> nat \<Rightarrow> nat \<Rightarrow> PROBLEME_ANTARES_A_RESOUDRE \<Rightarrow>
     PROBLEME_ANTARES_A_RESOUDRE resultat" where
  "couts_lineaires h d s premier dernier = seqE
     [\<lambda>p. Inr (p\<lparr>CoutQuadratique := replicate (NombreDeVariables p) 0\<rparr>),
      shortTermStorageCost h s premier dernier,
      forE [premier..<dernier] (\<lambda>pdtHebdo. seqE
        [forE [0..<NombreDInterconnexions h] (cout_interco h d s pdtHebdo (pdtHebdo - premier)),
         forE [0..<NombreDePays h] (couts_pays h d s pdtHebdo (pdtHebdo - premier))]),
      forE [0..<NombreDePays h] (couts_stock h d s),
      whenE (OptimisationAvecCoutsDeDemarrage h)
        (OPT_InitialiserLesCoutsLineaireCoutsDeDemarrage h d s premier dernier)]"

definition OPT_InitialiserLesCoutsLineaire ::
  "PROBLEME_HEBDO \<Rightarrow> DONNEES \<Rightarrow> nat \<Rightarrow> nat \<Rightarrow> etat \<Rightarrow> etat resultat" where
  "OPT_InitialiserLesCoutsLineaire h d premier dernier s =
     maj_probleme (couts_lineaires h d s premier dernier) s"

subsection \<open>The table of the costs\<close>

text \<open>The numbers drawn for the storages, in the order of the draws: storage and hour.\<close>

definition tirages_stockage :: "PROBLEME_HEBDO \<Rightarrow> (STS_PROPERTIES \<times> nat) list" where
  "tirages_stockage h = concat (map (\<lambda>pays. concat (map (\<lambda>st. map (Pair st) (heures h))
     (ShortTermStorage h ! pays))) [0..<NombreDePays h])"

definition rang_tirage :: "PROBLEME_HEBDO \<Rightarrow> nat \<Rightarrow> nat \<Rightarrow> nat" where
  "rang_tirage h g t = length (takeWhile (\<lambda>(st, t'). (clusterGlobalIndex st, t') \<noteq> (g, t)) (tirages_stockage h))"

definition bruit_stockage :: "PROBLEME_HEBDO \<Rightarrow> nat \<Rightarrow> nat \<Rightarrow> real" where
  "bruit_stockage h g t = tirage (graine defaultSeed) (rang_tirage h g t) * rangeDefault"

definition valeur_eau :: "PROBLEME_HEBDO \<Rightarrow> DONNEES \<Rightarrow> nat \<Rightarrow> real" where
  "valeur_eau h d pays = (if AccurateWaterValue (hydro_de h pays) then 0
     else WeeklyWaterValueStateRegular (HydroDonnees d ! pays))"

definition bruit_de :: "DONNEES \<Rightarrow> nat \<Rightarrow> nat \<Rightarrow> real" where
  "bruit_de d pays t = BruitSurCoutHydraulique d ! pays ! (HeureDansLAnnee d + t)"

fun cout_de :: "PROBLEME_HEBDO \<Rightarrow> DONNEES \<Rightarrow> nat \<Rightarrow> place \<Rightarrow> real" where
  "cout_de h d premier (Var NumeroDeVariableDeLInterconnexion t l) = 0"
| "cout_de h d premier (Var NumeroDeVariableCoutOrigineVersExtremiteDeLInterconnexion t l) =
     CoutDeTransportOrigineVersExtremite (TransportDonnees d ! l) ! (premier + t)"
| "cout_de h d premier (Var NumeroDeVariableCoutExtremiteVersOrigineDeLInterconnexion t l) =
     CoutDeTransportExtremiteVersOrigine (TransportDonnees d ! l) ! (premier + t)"
| "cout_de h d premier (Var NumeroDeVariableDuPalierThermique t p) = (case palier_de h p of (pays, i) \<Rightarrow>
     CoutHoraireDeProductionDuPalierThermique (PuissanceDisponibleEtCout (PaliersDonnees d ! pays) ! i)
       ! (premier + t))"
| "cout_de h d premier (Var NumeroDeVariablesDeLaProdHyd t pays) =
     bruit_de d pays (premier + t) + valeur_eau h d pays"
| "cout_de h d premier (Var NumeroDeVariablesVariationHydALaBaisse t pays) =
     (if TypeDeLissageHydraulique h = LISSAGE_HYDRAULIQUE_SUR_SOMME_DES_VARIATIONS
      then PenalisationSurSommeDesVariations (HydroDonnees d ! pays)
      else PenalisationSurVariationMax (HydroDonnees d ! pays))"
| "cout_de h d premier (Var NumeroDeVariablesVariationHydALaHausse t pays) =
     (if TypeDeLissageHydraulique h = LISSAGE_HYDRAULIQUE_SUR_SOMME_DES_VARIATIONS
      then PenalisationSurSommeDesVariations (HydroDonnees d ! pays)
      else - PenalisationSurVariationMax (HydroDonnees d ! pays))"
| "cout_de h d premier (Var NumeroDeVariablesDePompage t pays) =
     2 * \<bar>bruit_de d pays (premier + t)\<bar> - valeur_eau h d pays * PumpingRatio (hydro_de h pays)"
| "cout_de h d premier (Var NumeroDeVariablesDeDebordement t pays) =
     CoutDeDefaillanceNegative d ! pays + valeur_eau h d pays"
| "cout_de h d premier (Var NumeroDeVariablesDeNiveau t pays) = 0"
| "cout_de h d premier (Var NumeroDeVariableDefaillancePositive t pays) = CoutDeDefaillancePositive d ! pays"
| "cout_de h d premier (Var NumeroDeVariableDefaillanceNegative t pays) = CoutDeDefaillanceNegative d ! pays"
| "cout_de h d premier (Var InjectionVariable t g) = bruit_stockage h g t"
| "cout_de h d premier (Var WithdrawalVariable t g) = (case stockage_de h g of (pays, k) \<Rightarrow>
     efficiency (ShortTermStorage h ! pays ! k) * bruit_stockage h g t)"
| "cout_de h d premier (Var LevelVariable t g) = 0"
| "cout_de h d premier (Var NumeroDeVariableDuNombreDeGroupesEnMarcheDuPalierThermique t p) =
     (case palier_de h p of (pays, i) \<Rightarrow> CoutFixeDeMarcheDUnGroupeDuPalierThermique (PaliersDonnees d ! pays) ! i)"
| "cout_de h d premier (Var NumeroDeVariableDuNombreDeGroupesQuiSArretentDuPalierThermique t p) =
     (case palier_de h p of (pays, i) \<Rightarrow> CoutDArretDUnGroupeDuPalierThermique (PaliersDonnees d ! pays) ! i)"
| "cout_de h d premier (Var NumeroDeVariableDuNombreDeGroupesQuiTombentEnPanneDuPalierThermique t p) = 0"
| "cout_de h d premier (Var NumeroDeVariableDuNombreDeGroupesQuiDemarrentDuPalierThermique t p) =
     (case palier_de h p of (pays, i) \<Rightarrow> CoutDeDemarrageDUnGroupeDuPalierThermique (PaliersDonnees d ! pays) ! i)"
| "cout_de h d premier (Stock pays) = 0"
| "cout_de h d premier (Tranche pays l) = - (WaterLayerValues (HydroDonnees d ! pays) ! l)"

subsection \<open>The statements of the code\<close>

text \<open>The linear problem while its costs are written: nothing else changes.\<close>

definition couts_ok :: "PROBLEME_HEBDO \<Rightarrow> PROBLEME_ANTARES_A_RESOUDRE \<Rightarrow> PROBLEME_ANTARES_A_RESOUDRE \<Rightarrow> bool" where
  "couts_ok h p0 p \<longleftrightarrow> length (CoutLineaire p) = nb_variables_prevues h \<and>
     p\<lparr>CoutLineaire := []\<rparr> = p0\<lparr>CoutLineaire := []\<rparr> \<and> NombreDeVariables p = nb_variables h"

interpretation couts: cellules "couts_ok h p0" "\<lambda>p i. CoutLineaire p ! i" "nb_variables h" "place_de h"
    "\<lambda>q _. cout_de h d premier q" for h p0 d premier
  by unfold_locales simp

abbreviation couts_ecrits ::
  "PROBLEME_HEBDO \<Rightarrow> DONNEES \<Rightarrow> nat \<Rightarrow> PROBLEME_ANTARES_A_RESOUDRE \<Rightarrow> place set \<Rightarrow>
     (PROBLEME_ANTARES_A_RESOUDRE \<Rightarrow> PROBLEME_ANTARES_A_RESOUDRE resultat) \<Rightarrow> bool" where
  "couts_ecrits h d premier p0 \<equiv> cellules.ecrites (couts_ok h p0) (\<lambda>p i. CoutLineaire p ! i) (nb_variables h)
     (place_de h) (\<lambda>q _. cout_de h d premier q)"

definition poser_cout :: "nat \<Rightarrow> real \<Rightarrow> PROBLEME_ANTARES_A_RESOUDRE \<Rightarrow> PROBLEME_ANTARES_A_RESOUDRE" where
  "poser_cout k c p = p\<lparr>CoutLineaire := (CoutLineaire p)[k := c]\<rparr>"

lemma poser_cout_simps [simp]:
  "poser_cout k c (poser_cout k c' p) = poser_cout k c p"
  "couts_ok h p0 (poser_cout k c p) = couts_ok h p0 p"
  "length (CoutLineaire (poser_cout k c p)) = length (CoutLineaire p)"
  "k < length (CoutLineaire p) \<Longrightarrow> CoutLineaire (poser_cout k c p) ! k = c"
  by (simp_all add: poser_cout_def couts_ok_def)

lemma ecrire_cout [simp]:
  "k < length (CoutLineaire p) \<Longrightarrow> ecrire_CoutLineaire (int k) c p = Inr (poser_cout k c p)"
  by (simp add: ecrire_CoutLineaire_def poser_cout_def)

lemma modifier_cout [simp]:
  "k < length (CoutLineaire p) \<Longrightarrow>
     modifier_CoutLineaire (int k) f p = Inr (poser_cout k (f (CoutLineaire p ! k)) p)"
  by (simp add: modifier_CoutLineaire_def)

lemma couts_ok_taille:
  assumes "pret_a_remplir h s" and "couts_ok h p0 p" and "k < nb_variables h"
  shows "k < length (CoutLineaire p)"
  using assms(2,3) remplir_ok(7) [OF assms(1)] by (simp add: couts_ok_def)

lemma cout_ecrit:
  assumes R: "pret_a_remplir h s" and q: "q \<in> set (places_de (liste_variables h))"
    and absente: "\<And>p. couts_ok h p0 p \<Longrightarrow> lecture s q = - 1 \<Longrightarrow> f p = Inr p"
    and presente: "\<And>p k. couts_ok h p0 p \<Longrightarrow> k < nb_variables h \<Longrightarrow> k < length (CoutLineaire p) \<Longrightarrow>
      lecture s q = int k \<Longrightarrow> f p = Inr (poser_cout k (cout_de h d premier q) p)"
  shows "couts_ecrits h d premier p0 {q} f"
proof (rule couts.ecrites_place)
  show "inj_on (place_de h) {..<nb_variables h}"
    by (rule place_de_injective [OF remplir_ok(2) [OF R]])
  show "returns (f p) (\<lambda>p'. couts_ok h p0 p' \<and> (\<forall>i < nb_variables h. CoutLineaire p' ! i = CoutLineaire p ! i))"
    if "couts_ok h p0 p" "\<forall>i < nb_variables h. place_de h i \<noteq> q" for p
    using absente [OF that(1)] lecture_sans_place [OF remplir_ok(3) [OF R] q that(2)] that(1) by simp
  fix p k assume p: "couts_ok h p0 p" and k: "k < nb_variables h" "place_de h k = q"
  have "lecture s q = int k" using lecture_place [OF remplir_ok(3) [OF R] k(1)] k(2) by simp
  from presente [OF p k(1) couts_ok_taille [OF R p k(1)] this]
  show "returns (f p) (\<lambda>p'. couts_ok h p0 p' \<and> CoutLineaire p' ! k = cout_de h d premier q \<and>
      (\<forall>i < nb_variables h. i \<noteq> k \<longrightarrow> CoutLineaire p' ! i = CoutLineaire p ! i))"
    using p couts_ok_taille [OF R p k(1)] by (simp add: poser_cout_def couts_ok_def)
qed

lemma cout_si_existe:
  assumes R: "pret_a_remplir h s" and q: "Var c pdt i \<in> set (places_de (liste_variables h))"
    and f: "\<And>p k. couts_ok h p0 p \<Longrightarrow> k < length (CoutLineaire p) \<Longrightarrow>
      f (int k) p = Inr (poser_cout k (cout_de h d premier (Var c pdt i)) p)"
  shows "couts_ecrits h d premier p0 {Var c pdt i}
     (\<lambda>p. bindE (lire_var s c pdt i) (\<lambda>var. si_existe var (f var) p))"
  using f
  by (intro cout_ecrit [OF R q]) (simp_all add: lire_var_ok [OF R q] si_existe_def whenE_def couts_ok_def del: lecture.simps)

subsection \<open>The code writes the table\<close>

lemma bruit_hydro_ok:
  assumes R: "remplissage h d s premier" and a: "pays < NombreDePays h" "j < NombreDePasDeTempsPourUneOptimisation h"
  shows "bruit_hydro d pays (premier + j) = Inr (bruit_de d pays (premier + j))"
proof -
  have r: "donnees_hebdo_ok h d" "premier + NombreDePasDeTempsPourUneOptimisation h \<le> NombreDePasDeTemps h"
    using R by (simp_all add: remplissage_def)
  have "HeureDansLAnnee d + (premier + j) < length (BruitSurCoutHydraulique d ! pays)"
    using donnees_pays(5) [OF r(1) a(1)] a(2) r(2) by linarith
  then show ?thesis
    using donnees_tailles(13) [OF r(1)] a by (simp add: bruit_hydro_def bruit_de_def)
qed

lemma cout_interco_ok:
  assumes R: "remplissage h d s premier"
    and [simp]: "j < NombreDePasDeTempsPourUneOptimisation h" "l < NombreDInterconnexions h"
  shows "couts_ecrits h d premier p0 (set (places_de (fiches_interco h j l)))
    (cout_interco h d s (premier + j) j l)"
proof -
  note [simp] = remplissage_simps [OF R] bruit_hydro_ok [OF R] remplissage_tailles [OF R] remplissage_lien [OF R assms(3)]
  note pret = remplissage_pret [OF R] and dans = places_dans_liste(1) [OF assms(2,3)]
  let ?c = "CoutDeTransport h ! l" and ?t = "TransportDonnees d ! l"
  have lus: "lire (CoutDeTransport h) l = Inr ?c" "lire (TransportDonnees d) l = Inr ?t" by simp_all
  have 1: "couts_ecrits h d premier p0 {Var NumeroDeVariableDeLInterconnexion j l}
     (\<lambda>p. bindE (lire_var s NumeroDeVariableDeLInterconnexion j l) (\<lambda>var. si_existe var (ecrire_CoutLineaire var 0) p))"
    by (rule cout_si_existe [OF pret dans]) (simp_all add: fiches_interco_def Let_def)
  have 2: "couts_ecrits h d premier p0 {Var NumeroDeVariableCoutOrigineVersExtremiteDeLInterconnexion j l}
     (\<lambda>p. bindE (lire_var s NumeroDeVariableCoutOrigineVersExtremiteDeLInterconnexion j l)
       (\<lambda>var. si_existe var (\<lambda>p. bindE (lire (CoutDeTransportOrigineVersExtremite ?t) (premier + j)) (\<lambda>c.
          ecrire_CoutLineaire var c p)) p))"
    "couts_ecrits h d premier p0 {Var NumeroDeVariableCoutExtremiteVersOrigineDeLInterconnexion j l}
     (\<lambda>p. bindE (lire_var s NumeroDeVariableCoutExtremiteVersOrigineDeLInterconnexion j l)
       (\<lambda>var. si_existe var (\<lambda>p. bindE (lire (CoutDeTransportExtremiteVersOrigine ?t) (premier + j)) (\<lambda>c.
          ecrire_CoutLineaire var c p)) p))"
    if "IntercoGereeAvecDesCouts ?c"
    by (rule cout_si_existe [OF pret dans]; simp add: fiches_interco_def Let_def that)+
  show ?thesis
    unfolding cout_interco_def [abs_def]
    by (intro couts.ecrites_lire [OF lus(1)] couts.ecrites_lire [OF lus(2)]
        couts.ecrites_egal [OF couts.ecrites_seqE_Cons [OF 1 couts.ecrites_seqE_Cons [OF couts.ecrites_whenE
          [OF couts.ecrites_seqE_Cons [OF 2(1) couts.ecrites_seqE_Cons [OF 2(2) couts.ecrites_seqE_Nil]]]
          couts.ecrites_seqE_Nil]]])
      (auto simp: fiches_interco_def Let_def)
qed


lemma cout_palier_ok:
  assumes R: "remplissage h d s premier"
    and [simp]: "j < NombreDePasDeTempsPourUneOptimisation h" "pays < NombreDePays h" "i < nb_paliers h pays"
  shows "couts_ecrits h d premier p0 {Var NumeroDeVariableDuPalierThermique j (numero_palier h pays i)}
    (cout_palier h d s (premier + j) j pays i)"
proof -
  note [simp] = remplissage_simps [OF R] bruit_hydro_ok [OF R] remplissage_pays(7) [OF R assms(3), unfolded pdisp_ok_def]
  let ?pt = "PaliersThermiquesDuPays h ! pays"
  have lus: "lire (PaliersThermiquesDuPays h) pays = Inr ?pt"
    "lire (NumeroDuPalierDansLEnsembleDesPaliersThermiques ?pt) i = Inr (numero_palier h pays i)"
    by simp_all
  show ?thesis
    unfolding cout_palier_def [abs_def]
    by (intro couts.ecrites_lire [OF lus(1)] couts.ecrites_lire [OF lus(2)]
        cout_si_existe [OF remplissage_pret [OF R] places_dans_liste(2) [OF assms(2,3) places_pays_dans(1)]])
      simp_all
qed

lemma cout_variable:
  assumes R: "remplissage h d s premier"
    and a: "j < NombreDePasDeTempsPourUneOptimisation h" "pays < NombreDePays h"
    and c: "Var c j pays \<in> set (places_de (fiches_pays h j pays)) \<union> set (places_de (fiches_hydro h j pays))"
    and f: "\<And>p k. couts_ok h p0 p \<Longrightarrow> k < length (CoutLineaire p) \<Longrightarrow>
      f (int k) p = Inr (poser_cout k (cout_de h d premier (Var c j pays)) p)"
  shows "couts_ecrits h d premier p0 {Var c j pays}
     (\<lambda>p. bindE (lire_var s c j pays) (\<lambda>var. si_existe var (f var) p))"
  by (rule cout_si_existe [OF remplissage_pret [OF R]]) (use f c places_dans_liste(2,3) [OF a] in auto)

lemma cout_prod_hydro_ok:
  assumes R: "remplissage h d s premier"
    and [simp]: "j < NombreDePasDeTempsPourUneOptimisation h" "pays < NombreDePays h"
  shows "couts_ecrits h d premier p0 {Var NumeroDeVariablesDeLaProdHyd j pays}
    (cout_prod_hydro h d s (premier + j) j pays)"
proof -
  note [simp] = remplissage_simps [OF R] bruit_hydro_ok [OF R] remplissage_tailles [OF R]
  have "cout_prod_hydro h d s (premier + j) j pays = (\<lambda>p.
      bindE (lire_var s NumeroDeVariablesDeLaProdHyd j pays) (\<lambda>var. si_existe var (seqE
        [ecrire_CoutLineaire var 0,
         \<lambda>p. bindE (ecrire_CoutLineaire var (bruit_de d pays (premier + j)) p)
           (whenE (\<not> AccurateWaterValue (hydro_de h pays))
             (modifier_CoutLineaire var (\<lambda>x. x + WeeklyWaterValueStateRegular (HydroDonnees d ! pays))))]) p))"
  proof
    show "cout_prod_hydro h d s (premier + j) j pays p = bindE (lire_var s NumeroDeVariablesDeLaProdHyd j pays)
        (\<lambda>var. si_existe var (seqE
        [ecrire_CoutLineaire var 0,
         \<lambda>p. bindE (ecrire_CoutLineaire var (bruit_de d pays (premier + j)) p)
           (whenE (\<not> AccurateWaterValue (hydro_de h pays))
             (modifier_CoutLineaire var (\<lambda>x. x + WeeklyWaterValueStateRegular (HydroDonnees d ! pays))))]) p)" for p
    proof -
      have n: "NombreDeVariables p' = NombreDeVariables p" if "ecrire_CoutLineaire v c p = Inr p'" for v c p'
        using that by (auto simp: ecrire_CoutLineaire_def bindE_def split: sum.splits)
      show ?thesis
        by (auto simp: cout_prod_hydro_def si_existe_def whenE_def bindE_def n split: sum.splits)
    qed
  qed
  moreover have "couts_ecrits h d premier p0 {Var NumeroDeVariablesDeLaProdHyd j pays} \<dots>"
    by (rule cout_variable [OF R assms(2,3)]) (simp_all add: places_hydro_dans whenE_def valeur_eau_def)
  ultimately show ?thesis by simp
qed

lemma cout_variations_ok:
  assumes R: "remplissage h d s premier"
    and [simp]: "j < NombreDePasDeTempsPourUneOptimisation h" "pays < NombreDePays h"
  shows "couts_ecrits h d premier p0
      {Var NumeroDeVariablesVariationHydALaBaisse j pays, Var NumeroDeVariablesVariationHydALaHausse j pays}
    (cout_variations h d s (premier + j) j pays)"
proof -
  note [simp] = remplissage_simps [OF R] bruit_hydro_ok [OF R] remplissage_tailles [OF R]
  let ?B = "Var NumeroDeVariablesVariationHydALaBaisse j pays" and ?H = "Var NumeroDeVariablesVariationHydALaHausse j pays"
  have ecrit: "couts_ecrits h d premier p0 {Var c j pays}
      (\<lambda>p. bindE (lire_var s c j pays) (\<lambda>var. si_existe var (ecrire_CoutLineaire var v) p))"
    if "c \<in> {NumeroDeVariablesVariationHydALaBaisse, NumeroDeVariablesVariationHydALaHausse}"
      and "v = cout_de h d premier (Var c j pays)" for c v
    by (rule cout_variable [OF R assms(2,3)]) (use that in \<open>auto simp: places_hydro_dans\<close>)
  have lus: "lire (CaracteristiquesHydrauliques h) pays = Inr (hydro_de h pays)"
    "lire (HydroDonnees d) pays = Inr (HydroDonnees d ! pays)" by simp_all
  show ?thesis
  proof (cases "variation_existe h j pays")
    case True
    let ?baisse = "\<lambda>P p. bindE (lire_var s NumeroDeVariablesVariationHydALaBaisse j pays)
        (\<lambda>var. si_existe var (ecrire_CoutLineaire var P) p)"
    let ?hausse = "\<lambda>P p. bindE (lire_var s NumeroDeVariablesVariationHydALaHausse j pays)
        (\<lambda>var. si_existe var (ecrire_CoutLineaire var P) p)"
    have deux: "couts_ecrits h d premier p0 {?B, ?H} (seqE [?baisse v, ?hausse w])"
      if "v = cout_de h d premier ?B" "w = cout_de h d premier ?H" for v w
      by (rule couts.ecrites_egal [OF couts.ecrites_seqE_Cons [OF ecrit [of NumeroDeVariablesVariationHydALaBaisse]
            couts.ecrites_seqE_Cons [OF ecrit [of NumeroDeVariablesVariationHydALaHausse] couts.ecrites_seqE_Nil]]])
        (use that in auto)
    let ?hd = "HydroDonnees d ! pays"
    have "cout_variations h d s (premier + j) j pays =
        (if TypeDeLissageHydraulique h = LISSAGE_HYDRAULIQUE_SUR_SOMME_DES_VARIATIONS
         then seqE [?baisse (PenalisationSurSommeDesVariations ?hd), ?hausse (PenalisationSurSommeDesVariations ?hd)]
         else seqE [?baisse (PenalisationSurVariationMax ?hd), ?hausse (- PenalisationSurVariationMax ?hd)])"
      using True by (auto simp: cout_variations_def variation_existe_def whenE_def fun_eq_iff Let_def simp del: seqE.simps)
    note e = this
    show ?thesis
    proof (cases "TypeDeLissageHydraulique h = LISSAGE_HYDRAULIQUE_SUR_SOMME_DES_VARIATIONS")
      case True
      show ?thesis unfolding e if_P [OF True] by (rule deux) (simp_all add: True)
    next
      case False
      show ?thesis unfolding e if_not_P [OF False] by (rule deux) (simp_all add: False)
    qed
  next
    case False
    have absentes: "place_de h i \<notin> {?B, ?H}" if i: "i < nb_variables h" for i
    proof
      assume p: "place_de h i \<in> {?B, ?H}"
      have "(place_de h i, None) \<in> set (fiches_hydro h j pays)"
        using p False by (auto simp: fiches_hydro_def Let_def fiche_si_paire)
      then have "(place_de h i, None) \<in> set (liste_variables h)"
        by (intro dans_liste_pays [OF assms(2,3)]) blast
      then have "lecture s (place_de h i) = - 1"
        using remplir_ok(3) [OF remplissage_pret [OF R]] by (auto simp: variables_numerotees_def)
      then show False
        using lecture_place [OF remplir_ok(3) [OF remplissage_pret [OF R]] i] by simp
    qed
    have "couts_ecrits h d premier p0 {} (cout_variations h d s (premier + j) j pays)"
      unfolding cout_variations_def [abs_def] Let_def
      by (intro couts.ecrites_lire [OF lus(1)] couts.ecrites_lire [OF lus(2)])
        (use False in \<open>auto simp: variation_existe_def whenE_def [abs_def] intro!: couts.ecrites_Inr\<close>)
    then show ?thesis
      by (rule couts.ecrites_egal) (use absentes in auto)
  qed
qed

lemma cout_autres_hydro_ok:
  assumes R: "remplissage h d s premier"
    and [simp]: "j < NombreDePasDeTempsPourUneOptimisation h" "pays < NombreDePays h"
  shows "couts_ecrits h d premier p0 {Var NumeroDeVariablesDePompage j pays} (cout_pompage h d s (premier + j) j pays)"
    and "couts_ecrits h d premier p0 {Var NumeroDeVariablesDeDebordement j pays} (cout_debordement h d s j pays)"
proof -
  note [simp] = remplissage_simps [OF R] bruit_hydro_ok [OF R] remplissage_tailles [OF R]
  show "couts_ecrits h d premier p0 {Var NumeroDeVariablesDePompage j pays} (cout_pompage h d s (premier + j) j pays)"
    unfolding cout_pompage_def [abs_def]
    by (rule cout_variable [OF R assms(2,3)]) (simp_all add: places_hydro_dans valeur_eau_def)
  show "couts_ecrits h d premier p0 {Var NumeroDeVariablesDeDebordement j pays} (cout_debordement h d s j pays)"
    unfolding cout_debordement_def [abs_def]
    by (rule cout_variable [OF R assms(2,3)]) (simp_all add: places_hydro_dans valeur_eau_def)
qed

lemma cout_defaillances_ok:
  assumes R: "remplissage h d s premier"
    and [simp]: "j < NombreDePasDeTempsPourUneOptimisation h" "pays < NombreDePays h"
  shows "couts_ecrits h d premier p0 {Var NumeroDeVariablesDeNiveau j pays,
      Var NumeroDeVariableDefaillancePositive j pays, Var NumeroDeVariableDefaillanceNegative j pays}
    (cout_defaillances h d s j pays)"
proof -
  note [simp] = remplissage_simps [OF R] bruit_hydro_ok [OF R] remplissage_tailles [OF R]
  have "couts_ecrits h d premier p0 ({Var NumeroDeVariablesDeNiveau j pays} \<union>
      ({Var NumeroDeVariableDefaillancePositive j pays} \<union> ({Var NumeroDeVariableDefaillanceNegative j pays} \<union> {})))
    (cout_defaillances h d s j pays)"
    unfolding cout_defaillances_def
    by (intro couts.ecrites_seqE_Cons couts.ecrites_seqE_Nil cout_variable [OF R assms(2,3)])
      (simp_all add: places_hydro_dans places_pays_dans)
  then show ?thesis by (rule couts.ecrites_egal) auto
qed

lemma couts_pays_ok:
  assumes R: "remplissage h d s premier"
    and [simp]: "j < NombreDePasDeTempsPourUneOptimisation h" "pays < NombreDePays h"
  shows "couts_ecrits h d premier p0 (places_pays_heure h j pays) (couts_pays h d s (premier + j) j pays)"
proof -
  note [simp] = remplissage_simps [OF R] bruit_hydro_ok [OF R]
  have lus: "lire (PaliersThermiquesDuPays h) pays = Inr (PaliersThermiquesDuPays h ! pays)" by simp
  have paliers: "couts_ecrits h d premier p0
      (\<Union>i \<in> set [0..<nb_paliers h pays]. {Var NumeroDeVariableDuPalierThermique j (numero_palier h pays i)})
      (forE [0..<nb_paliers h pays] (cout_palier h d s (premier + j) j pays))"
    by (rule couts.ecrites_forE) (use cout_palier_ok [OF R assms(2,3)] in simp)
  have "couts_ecrits h d premier p0
      ((\<Union>i \<in> set [0..<nb_paliers h pays]. {Var NumeroDeVariableDuPalierThermique j (numero_palier h pays i)}) \<union>
       ({Var NumeroDeVariablesDeLaProdHyd j pays} \<union>
        ({Var NumeroDeVariablesVariationHydALaBaisse j pays, Var NumeroDeVariablesVariationHydALaHausse j pays} \<union>
         ({Var NumeroDeVariablesDePompage j pays} \<union> ({Var NumeroDeVariablesDeDebordement j pays} \<union>
          ({Var NumeroDeVariablesDeNiveau j pays, Var NumeroDeVariableDefaillancePositive j pays,
            Var NumeroDeVariableDefaillanceNegative j pays} \<union> {}))))))
      (couts_pays h d s (premier + j) j pays)"
    unfolding couts_pays_def [abs_def]
    by (intro couts.ecrites_lire [OF lus] couts.ecrites_seqE_Cons couts.ecrites_seqE_Nil paliers
        cout_prod_hydro_ok [OF R assms(2,3)] cout_variations_ok [OF R assms(2,3)]
        cout_autres_hydro_ok [OF R assms(2,3)] cout_defaillances_ok [OF R assms(2,3)])
  then show ?thesis
    by (rule couts.ecrites_egal) (auto simp: places_pays_heure_def)
qed

lemma cout_stock_ecrit:
  assumes R: "remplissage h d s premier" and q: "q \<in> set (places_de (liste_variables h))"
    and lu: "m = Inr (lecture s q)"
    and f: "\<And>p k. couts_ok h p0 p \<Longrightarrow> k < length (CoutLineaire p) \<Longrightarrow>
      f (int k) p = Inr (poser_cout k (cout_de h d premier q) p)"
  shows "couts_ecrits h d premier p0 {q} (\<lambda>p. bindE m (\<lambda>var. si_existe var (f var) p))"
  using f
  by (intro cout_ecrit [OF remplissage_pret [OF R] q])
    (simp_all add: lu si_existe_def whenE_def couts_ok_def del: lecture.simps)

lemma couts_stock_ok:
  assumes R: "remplissage h d s premier" and [simp]: "pays < NombreDePays h"
  shows "couts_ecrits h d premier p0 (insert (Stock pays) (Tranche pays ` {..<100})) (couts_stock h d s pays)"
proof -
  note [simp] = remplissage_simps [OF R] bruit_hydro_ok [OF R] remplissage_tailles [OF R] remplissage_pays(5) [OF R assms(2)]
  let ?c = "hydro_de h pays" and ?hd = "HydroDonnees d ! pays"
  have lus: "lire (CaracteristiquesHydrauliques h) pays = Inr ?c" "lire (HydroDonnees d) pays = Inr ?hd" by simp_all
  have dans: "Stock pays \<in> set (places_de (liste_variables h))" "l < 100 \<Longrightarrow> Tranche pays l \<in> set (places_de (liste_variables h))" for l
    by (rule places_dans_liste(4) [OF assms(2)]; simp add: fiches_stock_def Let_def image_iff del: upt_rec_numeral)+
  have 1: "couts_ecrits h d premier p0 {Stock pays}
      (\<lambda>p. bindE (lire_stock s pays) (\<lambda>var. si_existe var (ecrire_CoutLineaire var 0) p))"
    by (rule cout_stock_ecrit [OF R dans(1) lire_stock_ok(1) [OF R assms(2)]]) simp
  have 2: "couts_ecrits h d premier p0 (\<Union>l \<in> set [0..<100]. {Tranche pays l})
      (forE [0..<100] (\<lambda>l p. bindE (lire_tranche s pays l) (\<lambda>var.
          si_existe var (\<lambda>p. bindE (lire (WaterLayerValues ?hd) l) (\<lambda>v. ecrire_CoutLineaire var (- v) p)) p)))"
  proof (rule couts.ecrites_forE)
    fix l assume "l \<in> set [0..<100::nat]"
    then have [simp]: "l < 100" by simp
    show "couts_ecrits h d premier p0 {Tranche pays l} (\<lambda>p. bindE (lire_tranche s pays l) (\<lambda>var.
          si_existe var (\<lambda>p. bindE (lire (WaterLayerValues ?hd) l) (\<lambda>v. ecrire_CoutLineaire var (- v) p)) p))"
      by (rule cout_stock_ecrit [OF R dans(2) lire_stock_ok(2) [OF R assms(2)]]) simp_all
  qed
  have "couts_ecrits h d premier p0
      (if AccurateWaterValue ?c then {Stock pays} \<union> ((\<Union>l \<in> set [0..<100]. {Tranche pays l}) \<union> {}) else {})
      (couts_stock h d s pays)"
    unfolding couts_stock_def [abs_def]
    by (intro couts.ecrites_lire [OF lus(1)] couts.ecrites_lire [OF lus(2)] couts.ecrites_whenE
        couts.ecrites_seqE_Cons couts.ecrites_seqE_Nil 1 2)
  then show ?thesis
  proof (rule couts.ecrites_egal)
    fix i assume i: "i < nb_variables h"
    show "place_de h i \<in> (if AccurateWaterValue ?c then {Stock pays} \<union> ((\<Union>l \<in> set [0..<100]. {Tranche pays l}) \<union> {}) else {})
        \<longleftrightarrow> place_de h i \<in> insert (Stock pays) (Tranche pays ` {..<100})"
    proof (cases "AccurateWaterValue ?c")
      case True
      then show ?thesis by (auto simp del: upt_rec_numeral)
    next
      case False
      have "place_de h i \<notin> insert (Stock pays) (Tranche pays ` {..<100})"
      proof
        assume "place_de h i \<in> insert (Stock pays) (Tranche pays ` {..<100})"
        then have "(place_de h i, None) \<in> set (fiches_stock h pays)"
          using False by (auto simp: fiches_stock_def Let_def fiche_si_paire image_iff simp del: upt_rec_numeral)
        then have "(place_de h i, None) \<in> set (liste_variables h)"
          by (rule dans_liste_stock [OF assms(2)])
        then have "lecture s (place_de h i) = - 1"
          using remplir_ok(3) [OF remplissage_pret [OF R]] by (auto simp: variables_numerotees_def)
        then show False
          using lecture_place [OF remplir_ok(3) [OF remplissage_pret [OF R]] i] by simp
      qed
      with False show ?thesis by simp
    qed
  qed
qed

lemma couts_demarrage_ok:
  assumes R: "remplissage h d s premier" and D: "OptimisationAvecCoutsDeDemarrage h"
    and [simp]: "j < NombreDePasDeTempsPourUneOptimisation h" "pays < NombreDePays h" "i < nb_paliers h pays"
  shows "couts_ecrits h d premier p0 (places_demarrage_heure h j pays i) (couts_demarrage h d s j pays i)"
proof -
  note [simp] = remplissage_simps [OF R] bruit_hydro_ok [OF R] remplissage_tailles [OF R] remplissage_pays [OF R assms(4)]
  let ?pt = "PaliersThermiquesDuPays h ! pays" and ?pd = "PaliersDonnees d ! pays"
  have lus: "lire (PaliersThermiquesDuPays h) pays = Inr ?pt" "lire (PaliersDonnees d) pays = Inr ?pd"
    "lire (NumeroDuPalierDansLEnsembleDesPaliersThermiques ?pt) i = Inr (numero_palier h pays i)"
    by simp_all
  have ecrit: "couts_ecrits h d premier p0 {Var c j (numero_palier h pays i)}
      (\<lambda>p. bindE (lire_var s c j (numero_palier h pays i)) (\<lambda>var. si_existe var (f var) p))"
    if "Var c j (numero_palier h pays i) \<in> places_demarrage_heure h j pays i"
      and "\<And>p k. couts_ok h p0 p \<Longrightarrow> k < length (CoutLineaire p) \<Longrightarrow>
        f (int k) p = Inr (poser_cout k (cout_de h d premier (Var c j (numero_palier h pays i))) p)" for c f
    by (rule cout_si_existe [OF remplissage_pret [OF R]])
      (use that places_dans_liste(5) [OF D assms(3-5) places_demarrage_dans] in auto)
  have "couts_ecrits h d premier p0
     ({Var NumeroDeVariableDuNombreDeGroupesEnMarcheDuPalierThermique j (numero_palier h pays i)} \<union>
      ({Var NumeroDeVariableDuNombreDeGroupesQuiSArretentDuPalierThermique j (numero_palier h pays i)} \<union>
       ({Var NumeroDeVariableDuNombreDeGroupesQuiTombentEnPanneDuPalierThermique j (numero_palier h pays i)} \<union>
        ({Var NumeroDeVariableDuNombreDeGroupesQuiDemarrentDuPalierThermique j (numero_palier h pays i)} \<union> {}))))
     (couts_demarrage h d s j pays i)"
    unfolding couts_demarrage_def [abs_def]
    by (intro couts.ecrites_lire [OF lus(1)] couts.ecrites_lire [OF lus(2)] couts.ecrites_lire [OF lus(3)]
        couts.ecrites_seqE_Cons couts.ecrites_seqE_Nil ecrit)
      (simp_all add: places_demarrage_heure_def)
  then show ?thesis by (rule couts.ecrites_egal) (auto simp: places_demarrage_heure_def)
qed

subsection \<open>The costs of the storages\<close>

definition ecrire_si_place ::
  "etat \<Rightarrow> champ_var \<Rightarrow> nat \<Rightarrow> nat \<Rightarrow> real \<Rightarrow> PROBLEME_ANTARES_A_RESOUDRE \<Rightarrow>
     PROBLEME_ANTARES_A_RESOUDRE resultat" where
  "ecrire_si_place s c t g v p =
     bindE (lire_var s c t g) (\<lambda>var. whenE (var \<ge> 0) (ecrire_CoutLineaire var v) p)"

lemma cout_stockage_tirage:
  assumes "SpreadGenerator_generate g = Inr (g', cost)"
  shows "cout_stockage s st t (g, p) = bindE (seqE
    [ecrire_si_place s LevelVariable t (clusterGlobalIndex st) 0,
     ecrire_si_place s InjectionVariable t (clusterGlobalIndex st) cost,
     ecrire_si_place s WithdrawalVariable t (clusterGlobalIndex st) (efficiency st * cost)] p)
    (\<lambda>p. Inr (g', p))"
  using assms
  by (auto simp: cout_stockage_def ecrire_si_place_def bindE_def split: sum.splits)

lemma generate_ok:
  assumes "apres_tirages x n g"
  shows "\<exists>g'. SpreadGenerator_generate g = Inr (g', tirage x n * rangeDefault) \<and> apres_tirages x (n + 1) g'"
proof -
  from next_twister_ok [OF assms] obtain gv where "next_twister g = Inr gv"
    and "case gv of (g', v) \<Rightarrow> v = tirage x n \<and> apres_tirages x (n + 1) g'"
    by (auto elim: returnsE)
  then show ?thesis by (cases gv) (auto simp: SpreadGenerator_generate_def)
qed

lemma dans_tirages:
  assumes "(st, t) \<in> set (tirages_stockage h)"
  obtains pays k where "pays < NombreDePays h" "k < length (ShortTermStorage h ! pays)"
    "st = ShortTermStorage h ! pays ! k" "t < NombreDePasDeTempsPourUneOptimisation h"
proof -
  from assms obtain pays where "pays < NombreDePays h" "st \<in> set (ShortTermStorage h ! pays)"
    "t < NombreDePasDeTempsPourUneOptimisation h"
    by (auto simp: tirages_stockage_def)
  then show thesis using that by (metis in_set_conv_nth)
qed

lemma tirages_distincts:
  assumes "numeros_distincts h"
  shows "distinct (map (\<lambda>(st, t). (clusterGlobalIndex st, t)) (tirages_stockage h))"
proof -
  let ?G = "concat (map (\<lambda>pays. map clusterGlobalIndex (ShortTermStorage h ! pays)) [0..<NombreDePays h])"
  have plat: "concat (map (\<lambda>x. concat (map k (f x))) xs) = concat (map k (concat (map f xs)))"
    for f :: "nat \<Rightarrow> 'a list" and k :: "'a \<Rightarrow> 'b list" and xs
    by (induction xs) simp_all
  have "map (\<lambda>(st, t). (clusterGlobalIndex st, t)) (tirages_stockage h) = concat (map (\<lambda>g. map (Pair g) (heures h)) ?G)"
    by (simp add: tirages_stockage_def map_concat comp_def plat)
  moreover have "distinct (concat (map (\<lambda>g. map (Pair g) (heures h)) ?G))"
  proof (rule distinct_concat_mapI)
    show "distinct ?G" using assms unfolding numeros_distincts_def by blast
  qed (auto simp: distinct_map inj_on_def)
  ultimately show ?thesis by (simp only:)
qed

lemma rang_tirage_rang:
  assumes "numeros_distincts h" and "tirages_stockage h = ys @ (st, t) # zs"
  shows "rang_tirage h (clusterGlobalIndex st) t = length ys"
proof -
  let ?Q = "\<lambda>(st', t'). (clusterGlobalIndex st', t') \<noteq> (clusterGlobalIndex st, t)"
  have "?Q x" if "x \<in> set ys" for x
    using tirages_distincts [OF assms(1)] that by (auto simp: assms(2) image_iff)
  then have "takeWhile ?Q (tirages_stockage h) = ys"
    unfolding assms(2) by (subst takeWhile_append2) auto
  then show ?thesis unfolding rang_tirage_def by (rule arg_cong)
qed

text \<open>The places of a storage at an hour.\<close>

definition places_stockage_heure :: "STS_PROPERTIES \<times> nat \<Rightarrow> place set" where
  "places_stockage_heure e = (\<lambda>c. Var c (snd e) (clusterGlobalIndex (fst e))) `
     {InjectionVariable, WithdrawalVariable, LevelVariable}"

lemma ecrire_si_place_ok:
  assumes R: "remplissage h d s premier" and e: "(st, t) \<in> set (tirages_stockage h)"
    and c: "c \<in> {InjectionVariable, WithdrawalVariable, LevelVariable}"
    and v: "v = cout_de h d premier (Var c t (clusterGlobalIndex st))"
  shows "couts_ecrits h d premier p0 {Var c t (clusterGlobalIndex st)}
    (ecrire_si_place s c t (clusterGlobalIndex st) v)"
proof -
  from dans_tirages [OF e] obtain pays k where a: "pays < NombreDePays h" "st = ShortTermStorage h ! pays ! k"
    "k < length (ShortTermStorage h ! pays)" "t < NombreDePasDeTempsPourUneOptimisation h" by blast
  have q: "Var c t (clusterGlobalIndex st) \<in> set (places_de (liste_variables h))"
    by (rule places_dans_liste(2) [OF a(4,1) places_pays_dans(4)]) (use a c in auto)
  show ?thesis
    by (rule cout_ecrit [OF remplissage_pret [OF R] q])
      (simp_all add: ecrire_si_place_def lire_var_ok [OF remplissage_pret [OF R] q] whenE_def v del: lecture.simps)
qed

lemma cout_stockage_ok:
  assumes R: "remplissage h d s premier" and e: "tirages_stockage h = ys @ (st, t) # zs"
    and g: "apres_tirages (graine defaultSeed) (length ys) g"
  shows "\<exists>g' f. apres_tirages (graine defaultSeed) (length ys + 1) g' \<and>
    (\<forall>p. cout_stockage s st t (g, p) = bindE (f p) (\<lambda>p. Inr (g', p))) \<and>
    couts_ecrits h d premier p0 (places_stockage_heure (st, t)) f"
proof -
  let ?i = "clusterGlobalIndex st"
  have dans: "(st, t) \<in> set (tirages_stockage h)" by (simp add: e)
  from dans_tirages [OF dans] obtain pays k where a: "pays < NombreDePays h" "st = ShortTermStorage h ! pays ! k"
    "k < length (ShortTermStorage h ! pays)" by blast
  have n: "numeros_distincts h" using remplir_ok(2) [OF remplissage_pret [OF R]] .
  from generate_ok [OF g] obtain g' where g': "apres_tirages (graine defaultSeed) (length ys + 1) g'"
    and gen: "SpreadGenerator_generate g = Inr (g', bruit_stockage h ?i t)"
    by (auto simp: bruit_stockage_def rang_tirage_rang [OF n e])
  let ?c = "bruit_stockage h ?i t"
  have "couts_ecrits h d premier p0
      ({Var LevelVariable t ?i} \<union> ({Var InjectionVariable t ?i} \<union> ({Var WithdrawalVariable t ?i} \<union> {})))
      (seqE [ecrire_si_place s LevelVariable t ?i 0, ecrire_si_place s InjectionVariable t ?i ?c,
         ecrire_si_place s WithdrawalVariable t ?i (efficiency st * ?c)])"
    by (intro couts.ecrites_seqE_Cons couts.ecrites_seqE_Nil ecrire_si_place_ok [OF R dans])
      (simp_all add: a stockage_de_numero [OF n a(1,3)])
  then have "couts_ecrits h d premier p0 (places_stockage_heure (st, t))
      (seqE [ecrire_si_place s LevelVariable t ?i 0, ecrire_si_place s InjectionVariable t ?i ?c,
         ecrire_si_place s WithdrawalVariable t ?i (efficiency st * ?c)])"
    by (rule couts.ecrites_egal) (auto simp: places_stockage_heure_def)
  then show ?thesis using g' cout_stockage_tirage [OF gen] by blast
qed

text \<open>The loops of the code go through the list of the draws.\<close>

lemma couts_tirages_ok:
  assumes R: "remplissage h d s premier" and e: "tirages_stockage h = ys @ zs"
    and g: "apres_tirages (graine defaultSeed) (length ys) g"
  shows "\<exists>g' f. (\<forall>p. forE zs (\<lambda>(st, t). cout_stockage s st t) (g, p) = bindE (f p) (\<lambda>p. Inr (g', p))) \<and>
    couts_ecrits h d premier p0 (\<Union>e \<in> set zs. places_stockage_heure e) f"
  using e g
proof (induction zs arbitrary: ys g)
  case Nil
  show ?case by (intro exI [of _ g] exI [of _ Inr]) (simp add: couts.ecrites_Inr)
next
  case (Cons z zs)
  obtain st t where z: "z = (st, t)" by (cases z)
  from cout_stockage_ok [OF R Cons.prems(1) [unfolded z] Cons.prems(2), of p0] obtain g1 f1 where
    1: "apres_tirages (graine defaultSeed) (length ys + 1) g1"
    "\<And>p. cout_stockage s st t (g, p) = bindE (f1 p) (\<lambda>p. Inr (g1, p))"
    "couts_ecrits h d premier p0 (places_stockage_heure (st, t)) f1" by blast
  from Cons.IH [of "ys @ [z]" g1] Cons.prems(1) 1(1) obtain g2 f2 where
    2: "\<And>p. forE zs (\<lambda>(st, t). cout_stockage s st t) (g1, p) = bindE (f2 p) (\<lambda>p. Inr (g2, p))"
    "couts_ecrits h d premier p0 (\<Union>e \<in> set zs. places_stockage_heure e) f2" by auto
  have "forE (z # zs) (\<lambda>(st, t). cout_stockage s st t) (g, p) = bindE (bindE (f1 p) f2) (\<lambda>p. Inr (g2, p))" for p
    by (cases "f1 p") (simp_all add: z 1(2) 2(1))
  moreover have "couts_ecrits h d premier p0 (\<Union>e \<in> set (z # zs). places_stockage_heure e) (\<lambda>p. bindE (f1 p) f2)"
    using couts.ecrites_puis [OF 1(3) 2(2)] by (simp add: z)
  ultimately show ?case
    by (intro exI [of _ g2] exI [of _ "\<lambda>p. bindE (f1 p) f2"] conjI allI)
qed

lemma boucles_tirages:
  assumes "hebdo_ok h"
  shows "forE [0..<NombreDePays h] (\<lambda>pays gp. bindE (lire (ShortTermStorage h) pays) (\<lambda>storages.
      forE storages (\<lambda>storage. forE [premier..<premier + NombreDePasDeTempsPourUneOptimisation h] (\<lambda>pdtHebdo.
        cout_stockage s storage (pdtHebdo - premier))) gp)) gp =
    forE (tirages_stockage h) (\<lambda>(st, t). cout_stockage s st t) gp"
proof -
  have "forE (tirages_stockage h) (\<lambda>(st, t). cout_stockage s st t) gp =
      forE [0..<NombreDePays h] (\<lambda>pays. forE (ShortTermStorage h ! pays)
        (\<lambda>storage. forE (heures h) (\<lambda>t. cout_stockage s storage t))) gp"
    by (simp add: tirages_stockage_def forE_concat forE_map)
  also have "\<dots> = forE [0..<NombreDePays h] (\<lambda>pays gp. bindE (lire (ShortTermStorage h) pays) (\<lambda>storages.
      forE storages (\<lambda>storage. forE [premier..<premier + NombreDePasDeTempsPourUneOptimisation h] (\<lambda>pdtHebdo.
        cout_stockage s storage (pdtHebdo - premier))) gp)) gp"
    using assms by (intro forE_cong) (simp add: forE_intervalle heures_def)
  finally show ?thesis by simp
qed

lemma shortTermStorageCost_ok:
  assumes R: "remplissage h d s premier"
  shows "couts_ecrits h d premier p0 (\<Union>e \<in> set (tirages_stockage h). places_stockage_heure e)
    (shortTermStorageCost h s premier (premier + NombreDePasDeTempsPourUneOptimisation h))"
proof -
  let ?g = "\<lparr>mt = graine defaultSeed, mti = 624\<rparr>"
  have init: "MersenneTwister \<lparr>mt = replicate periodN 0, mti = 0\<rparr> = Inr ?g"
    using reset_ok [of "\<lparr>mt = replicate periodN 0, mti = 0\<rparr>"] by (simp add: MersenneTwister_def periodN_def)
  from couts_tirages_ok [OF R, of "[]" "tirages_stockage h" ?g p0] reset_tirages obtain g' f where
    f: "\<And>p. forE (tirages_stockage h) (\<lambda>(st, t). cout_stockage s st t) (?g, p) = bindE (f p) (\<lambda>p. Inr (g', p))"
    "couts_ecrits h d premier p0 (\<Union>e \<in> set (tirages_stockage h). places_stockage_heure e) f" by auto
  have "shortTermStorageCost h s premier (premier + NombreDePasDeTempsPourUneOptimisation h) p = f p" for p
    unfolding shortTermStorageCost_def init boucles_tirages [OF remplissage_simps(1) [OF R]]
    by (cases "f p") (simp_all add: f(1))
  then have "shortTermStorageCost h s premier (premier + NombreDePasDeTempsPourUneOptimisation h) = f" by (rule ext)
  with f(2) show ?thesis by simp
qed

subsection \<open>The whole function\<close>

lemma couts_demarrages_ok:
  assumes R: "remplissage h d s premier" and D: "OptimisationAvecCoutsDeDemarrage h"
  shows "couts_ecrits h d premier p0
    (\<Union>j \<in> set (heures h). \<Union>pays \<in> set [0..<NombreDePays h]. \<Union>i \<in> set [0..<nb_paliers h pays].
       places_demarrage_heure h j pays i)
    (OPT_InitialiserLesCoutsLineaireCoutsDeDemarrage h d s premier (premier + NombreDePasDeTempsPourUneOptimisation h))"
  unfolding OPT_InitialiserLesCoutsLineaireCoutsDeDemarrage_def forE_intervalle heures_def [symmetric]
proof (intro couts.ecrites_forE)
  fix j pays
  assume "j \<in> set (heures h)" "pays \<in> set [0..<NombreDePays h]"
  then have a: "j < NombreDePasDeTempsPourUneOptimisation h" "pays < NombreDePays h" by simp_all
  then have lus: "lire (PaliersThermiquesDuPays h) pays = Inr (PaliersThermiquesDuPays h ! pays)"
    using remplissage_simps(1) [OF R] by simp
  show "couts_ecrits h d premier p0 (\<Union>i \<in> set [0..<nb_paliers h pays]. places_demarrage_heure h j pays i)
      (\<lambda>p. bindE (lire (PaliersThermiquesDuPays h) pays) (\<lambda>pt.
         forE [0..<NombreDePaliersThermiques pt] (couts_demarrage h d s (premier + j - premier) pays) p))"
    by (intro couts.ecrites_lire [OF lus] couts.ecrites_forE) (use couts_demarrage_ok [OF R D a] in simp)
qed

text \<open>Every variable of the problem gets a cost.\<close>

lemma places_toutes:
  assumes h: "hebdo_ok h" and i: "i < nb_variables h"
  shows "place_de h i \<in> (\<Union>e \<in> set (tirages_stockage h). places_stockage_heure e) \<union>
    ((\<Union>j \<in> set (heures h). (\<Union>l \<in> set [0..<NombreDInterconnexions h]. set (places_de (fiches_interco h j l))) \<union>
       ((\<Union>pays \<in> set [0..<NombreDePays h]. places_pays_heure h j pays) \<union> {})) \<union>
     ((\<Union>pays \<in> set [0..<NombreDePays h]. insert (Stock pays) (Tranche pays ` {..<100})) \<union>
      ((if OptimisationAvecCoutsDeDemarrage h then (\<Union>j \<in> set (heures h). \<Union>pays \<in> set [0..<NombreDePays h].
         \<Union>i \<in> set [0..<nb_paliers h pays]. places_demarrage_heure h j pays i) else {}) \<union> {})))" (is "?p \<in> _")
proof -
  have p: "?p \<in> set (places_de (liste_variables h))"
    using place_de_dans [OF i] by (force simp: places_de_def)
  have paysh: "q \<in> places_pays_heure h j pays \<or>
      (\<exists>st \<in> set (ShortTermStorage h ! pays). q \<in> places_stockage_heure (st, j))"
    if "q \<in> set (places_de (fiches_pays h j pays)) \<union> set (places_de (fiches_hydro h j pays))" for q j pays
    using that by (auto simp: fiches_pays_def fiches_hydro_def fiche_palier_def fiches_stockage_def Let_def
        places_pays_heure_def places_stockage_heure_def)
  have st: "(st, j) \<in> set (tirages_stockage h)"
    if "st \<in> set (ShortTermStorage h ! pays)" "pays < NombreDePays h" "j \<in> set (heures h)" for st pays j
    using that by (auto simp: tirages_stockage_def intro!: bexI [of _ pays] bexI [of _ st])
  have stock: "q \<in> insert (Stock pays) (Tranche pays ` {..<100})"
    if "q \<in> set (places_de (fiches_stock h pays))" for q pays
    using that by (auto dest!: places_stock(2))
  have dem: "q \<in> places_demarrage_heure h j pays i" if "q \<in> set (places_de (fiches_demarrage h pays i j))" for q j pays i
    using that by (auto simp: fiches_demarrage_def places_demarrage_heure_def Let_def)
  from p consider
      j l where "j \<in> set (heures h)" "l < NombreDInterconnexions h" "?p \<in> set (places_de (fiches_interco h j l))"
    | j pays where "j \<in> set (heures h)" "pays < NombreDePays h"
        "?p \<in> set (places_de (fiches_pays h j pays)) \<union> set (places_de (fiches_hydro h j pays))"
    | pays where "pays < NombreDePays h" "?p \<in> set (places_de (fiches_stock h pays))"
    | j pays k where "OptimisationAvecCoutsDeDemarrage h" "j \<in> set (heures h)" "pays < NombreDePays h"
        "k < nb_paliers h pays" "?p \<in> set (places_de (fiches_demarrage h pays k j))"
    by (auto simp: liste_variables_def fiches_lineaires_def fiches_demarrages_def par_pays_def par_palier_def
        split: if_splits)
  then show ?thesis
  proof cases
    case 1
    then show ?thesis by auto
  next
    case 2
    from paysh [OF 2(3)] show ?thesis
    proof
      assume "?p \<in> places_pays_heure h j pays"
      with 2 show ?thesis by auto
    next
      assume "\<exists>st \<in> set (ShortTermStorage h ! pays). ?p \<in> places_stockage_heure (st, j)"
      then obtain st where "st \<in> set (ShortTermStorage h ! pays)" "?p \<in> places_stockage_heure (st, j)" by blast
      with st [OF this(1) 2(2,1)] show ?thesis by blast
    qed
  next
    case 3
    then have "?p \<in> (\<Union>pays \<in> set [0..<NombreDePays h]. insert (Stock pays) (Tranche pays ` {..<100}))"
      using stock by (intro UN_I [of pays]) auto
    then show ?thesis by blast
  next
    case 4
    then have "?p \<in> (\<Union>j \<in> set (heures h). \<Union>pays \<in> set [0..<NombreDePays h].
         \<Union>i \<in> set [0..<nb_paliers h pays]. places_demarrage_heure h j pays i)"
      using dem by (intro UN_I [of j] UN_I [of pays] UN_I [of k]) auto
    then show ?thesis unfolding if_P [OF 4(1)] by blast
  qed
qed

lemma couts_lineaires_ok:
  assumes R: "remplissage h d s premier" and p: "couts_ok h p0 p"
  shows "returns (couts_lineaires h d s premier (premier + NombreDePasDeTempsPourUneOptimisation h) p)
    (\<lambda>p'. couts_ok h (p0\<lparr>CoutQuadratique := replicate (nb_variables h) 0\<rparr>) p' \<and>
      (\<forall>i < nb_variables h. CoutLineaire p' ! i = cout_de h d premier (place_de h i)))"
proof -
  have h: "hebdo_ok h" using remplissage_simps(1) [OF R] .
  let ?T = "NombreDePasDeTempsPourUneOptimisation h" and ?debut = "p0\<lparr>CoutQuadratique := replicate (nb_variables h) 0\<rparr>"
  let ?q = "p\<lparr>CoutQuadratique := replicate (NombreDeVariables p) 0\<rparr>"
  let ?demarrage = "OPT_InitialiserLesCoutsLineaireCoutsDeDemarrage h d s premier (premier + ?T)"
  have q: "couts_ok h ?debut ?q"
    using p by (cases p; cases p0) (simp add: couts_ok_def)
  have intercos: "couts_ecrits h d premier ?debut (\<Union>l \<in> set [0..<NombreDInterconnexions h]. set (places_de (fiches_interco h j l)))
      (forE [0..<NombreDInterconnexions h] (cout_interco h d s (premier + j) j))" if "j \<in> set (heures h)" for j
    by (rule couts.ecrites_forE) (use cout_interco_ok [OF R] that in simp)
  have lespays: "couts_ecrits h d premier ?debut (\<Union>pays \<in> set [0..<NombreDePays h]. places_pays_heure h j pays)
      (forE [0..<NombreDePays h] (couts_pays h d s (premier + j) j))" if "j \<in> set (heures h)" for j
    by (rule couts.ecrites_forE) (use couts_pays_ok [OF R] that in simp)
  have stocks: "couts_ecrits h d premier ?debut (\<Union>pays \<in> set [0..<NombreDePays h]. insert (Stock pays) (Tranche pays ` {..<100}))
      (forE [0..<NombreDePays h] (couts_stock h d s))"
    by (rule couts.ecrites_forE) (use couts_stock_ok [OF R] in simp)
  have heures: "couts_ecrits h d premier ?debut
      (\<Union>j \<in> set (heures h). (\<Union>l \<in> set [0..<NombreDInterconnexions h]. set (places_de (fiches_interco h j l))) \<union>
        ((\<Union>pays \<in> set [0..<NombreDePays h]. places_pays_heure h j pays) \<union> {}))
      (forE [premier..<premier + ?T] (\<lambda>pdtHebdo. seqE
        [forE [0..<NombreDInterconnexions h] (cout_interco h d s pdtHebdo (pdtHebdo - premier)),
         forE [0..<NombreDePays h] (couts_pays h d s pdtHebdo (pdtHebdo - premier))]))"
    unfolding forE_intervalle heures_def [symmetric] add_diff_cancel_left'
    by (intro couts.ecrites_forE couts.ecrites_seqE_Cons couts.ecrites_seqE_Nil intercos lespays)
  have "couts_ecrits h d premier ?debut
      ((\<Union>e \<in> set (tirages_stockage h). places_stockage_heure e) \<union>
       ((\<Union>j \<in> set (heures h). (\<Union>l \<in> set [0..<NombreDInterconnexions h]. set (places_de (fiches_interco h j l))) \<union>
         ((\<Union>pays \<in> set [0..<NombreDePays h]. places_pays_heure h j pays) \<union> {})) \<union>
        ((\<Union>pays \<in> set [0..<NombreDePays h]. insert (Stock pays) (Tranche pays ` {..<100})) \<union>
         ((if OptimisationAvecCoutsDeDemarrage h then (\<Union>j \<in> set (heures h). \<Union>pays \<in> set [0..<NombreDePays h].
            \<Union>i \<in> set [0..<nb_paliers h pays]. places_demarrage_heure h j pays i) else {}) \<union> {}))))
      (seqE [shortTermStorageCost h s premier (premier + ?T),
        forE [premier..<premier + ?T] (\<lambda>pdtHebdo. seqE
          [forE [0..<NombreDInterconnexions h] (cout_interco h d s pdtHebdo (pdtHebdo - premier)),
           forE [0..<NombreDePays h] (couts_pays h d s pdtHebdo (pdtHebdo - premier))]),
        forE [0..<NombreDePays h] (couts_stock h d s),
        whenE (OptimisationAvecCoutsDeDemarrage h) ?demarrage])"
    by (intro couts.ecrites_seqE_Cons couts.ecrites_seqE_Nil shortTermStorageCost_ok [OF R] heures stocks
        couts.ecrites_whenE couts_demarrages_ok [OF R])
  from couts.ecrites_toutes [OF this places_toutes [OF h] q]
  show ?thesis
    unfolding couts_lineaires_def by (subst seqE.simps(2)) (simp only: bindE_simps)
qed

text \<open>On the state: nothing but the two vectors of costs changes.\<close>

definition hors_couts :: "etat \<Rightarrow> etat" where
  "hors_couts s = s\<lparr>ProblemeAResoudre := (ProblemeAResoudre s)\<lparr>CoutQuadratique := [], CoutLineaire := []\<rparr>\<rparr>"

lemma OPT_InitialiserLesCouts_ok:
  assumes R: "remplissage h d s premier"
  shows "returns (OPT_InitialiserLesCoutsLineaire h d premier (premier + NombreDePasDeTempsPourUneOptimisation h) s)
    (\<lambda>s'. hors_couts s' = hors_couts s \<and>
      length (CoutLineaire (ProblemeAResoudre s')) = nb_variables_prevues h \<and>
      CoutQuadratique (ProblemeAResoudre s') = replicate (nb_variables h) 0 \<and>
      (\<forall>i < nb_variables h. CoutLineaire (ProblemeAResoudre s') ! i = cout_de h d premier (place_de h i)))"
proof -
  let ?p = "ProblemeAResoudre s"
  have "length (CoutLineaire ?p) = nb_variables_prevues h"
    using remplir_ok(4) [OF remplissage_pret [OF R]] by (simp add: alloue_def vecteurs_alloues_def cote_vecteurs_def)
  then have "couts_ok h ?p ?p"
    using remplir_ok(6) [OF remplissage_pret [OF R]] by (simp add: couts_ok_def)
  from couts_lineaires_ok [OF R this] show ?thesis
    unfolding OPT_InitialiserLesCoutsLineaire_def maj_probleme_def returns_bindE
  proof (rule returns_mono)
    fix p' assume p': "couts_ok h (?p\<lparr>CoutQuadratique := replicate (nb_variables h) 0\<rparr>) p' \<and>
        (\<forall>i < nb_variables h. CoutLineaire p' ! i = cout_de h d premier (place_de h i))"
    then have "p'\<lparr>CoutLineaire := []\<rparr> = ?p\<lparr>CoutQuadratique := replicate (nb_variables h) 0, CoutLineaire := []\<rparr>"
      by (simp add: couts_ok_def)
    then have "p'\<lparr>CoutQuadratique := [], CoutLineaire := []\<rparr> = ?p\<lparr>CoutQuadratique := [], CoutLineaire := []\<rparr>"
      and "CoutQuadratique p' = replicate (nb_variables h) 0"
      by (cases p'; cases ?p; simp)+
    then show "returns (Inr (s\<lparr>ProblemeAResoudre := p'\<rparr>)) (\<lambda>s'. hors_couts s' = hors_couts s \<and>
      length (CoutLineaire (ProblemeAResoudre s')) = nb_variables_prevues h \<and>
      CoutQuadratique (ProblemeAResoudre s') = replicate (nb_variables h) 0 \<and>
      (\<forall>i < nb_variables h. CoutLineaire (ProblemeAResoudre s') ! i = cout_de h d premier (place_de h i)))"
      using p' by (simp add: hors_couts_def couts_ok_def)
  qed
qed

end
