(* ===== verification/Bounds.thy ===== *)
theory Bounds
  imports Costs
begin

text \<open>
  The bounds of the variables: \<open>opt_gestion_des_bornes_cas_lineaire.cpp\<close>,
  \<open>opt_gestion_des_bornes_couts_demarrage.cpp\<close> and the restriction of the links in the first step of the
  adequacy patch (\<open>adequacy_patch_local_matching/adq_patch_local_matching.cpp\<close>), under
  \<open>src/src/solver/optimisation/\<close>. The functions also say where the optimised value and the reduced cost of each
  variable go, and reset the hourly results. They change the results and the linear problem: their
  state is a pair.
\<close>

subsection \<open>Bounds that may be infinite\<close>

definition LINFINI_ANTARES :: borne where "LINFINI_ANTARES = Fini (10 ^ 80)"

definition DBL_MAX :: real where "DBL_MAX = (2 - 1 / 2 ^ 52) * 2 ^ 1023"

fun Infinite :: "borne \<Rightarrow> int" where
  "Infinite (Fini x) = (if x \<ge> DBL_MAX then 1 else if x \<le> - DBL_MAX then - 1 else 0)"
| "Infinite PlusInfini = 1"
| "Infinite MoinsInfini = - 1"

fun opposee :: "borne \<Rightarrow> borne" where
  "opposee (Fini x) = Fini (- x)"
| "opposee PlusInfini = MoinsInfini"
| "opposee MoinsInfini = PlusInfini"

fun plus_reel :: "borne \<Rightarrow> real \<Rightarrow> borne" where
  "plus_reel (Fini x) y = Fini (x + y)"
| "plus_reel PlusInfini y = PlusInfini"
| "plus_reel MoinsInfini y = MoinsInfini"

fun minimum_reel :: "borne \<Rightarrow> real \<Rightarrow> borne" where
  "minimum_reel (Fini x) y = Fini (if y < x then y else x)"
| "minimum_reel PlusInfini y = Fini y"
| "minimum_reel MoinsInfini y = MoinsInfini"

subsection \<open>The links in the first step of the adequacy patch\<close>

datatype NtcSetToZeroStatus_AdqPatchStep1 =
  leaveLocalValues | setToZero | setOriginExtremityToZero | setExtremityOriginToZero

definition SetNTCForAdequacyFirstStepOriginNodeInsideAdq ::
  "AdequacyPatchMode \<Rightarrow> NtcSetToZeroStatus_AdqPatchStep1" where
  "SetNTCForAdequacyFirstStepOriginNodeInsideAdq extremity = (case extremity of
     physicalAreaInsideAdqPatch \<Rightarrow> setToZero
   | physicalAreaOutsideAdqPatch \<Rightarrow> setToZero
   | _ \<Rightarrow> leaveLocalValues)"

definition getNTCtoZeroStatusOriginNodeOutsideAdq ::
  "AdequacyPatchMode \<Rightarrow> bool \<Rightarrow> bool \<Rightarrow> NtcSetToZeroStatus_AdqPatchStep1" where
  "getNTCtoZeroStatusOriginNodeOutsideAdq extremity fromOutToIn fromOutToOut = (case extremity of
     physicalAreaInsideAdqPatch \<Rightarrow> (if fromOutToIn then setToZero else setExtremityOriginToZero)
   | physicalAreaOutsideAdqPatch \<Rightarrow> (if fromOutToOut then setToZero else leaveLocalValues)
   | _ \<Rightarrow> leaveLocalValues)"

definition getNTCtoZeroStatus ::
  "DONNEES \<Rightarrow> AdqPatchParams \<Rightarrow> nat \<Rightarrow> NtcSetToZeroStatus_AdqPatchStep1 resultat" where
  "getNTCtoZeroStatus d adq interco =
     bindE (lire (originAreaMode (adequacyPatchRuntimeData d)) interco) (\<lambda>origin.
     bindE (lire (extremityAreaMode (adequacyPatchRuntimeData d)) interco) (\<lambda>extremity.
     Inr (case origin of
       physicalAreaInsideAdqPatch \<Rightarrow> SetNTCForAdequacyFirstStepOriginNodeInsideAdq extremity
     | physicalAreaOutsideAdqPatch \<Rightarrow> getNTCtoZeroStatusOriginNodeOutsideAdq extremity
         (setToZeroOutsideInsideLinks adq) (setToZeroOutsideOutsideLinks adq)
     | _ \<Rightarrow> leaveLocalValues)))"

text \<open>The values of \<open>Xmax\<close> and \<open>Xmin\<close>, which the code receives by reference.\<close>

definition setNTCbounds ::
  "DONNEES \<Rightarrow> AdqPatchParams \<Rightarrow> VALEURS_DE_NTC_ET_RESISTANCES \<Rightarrow> nat \<Rightarrow> (borne \<times> borne) resultat" where
  "setNTCbounds d adq ntc interco =
     bindE (lire (ValeurDeNTCOrigineVersExtremite ntc) interco) (\<lambda>direct.
     bindE (lire (ValeurDeNTCExtremiteVersOrigine ntc) interco) (\<lambda>indirect.
     let xmax = direct; xmin = opposee indirect in
     if adq_enabled adq \<and> localMatching_enabled adq \<and> AdequacyFirstStep (adequacyPatchRuntimeData d)
     then bindE (getNTCtoZeroStatus d adq interco) (\<lambda>status.
       Inr (case status of
         setToZero \<Rightarrow> (Fini 0, Fini 0)
       | setOriginExtremityToZero \<Rightarrow> (Fini 0, opposee indirect)
       | setExtremityOriginToZero \<Rightarrow> (direct, Fini 0)
       | leaveLocalValues \<Rightarrow> (xmax, xmin)))
     else Inr (xmax, xmin)))"

subsection \<open>Writing the vectors\<close>

type_synonym etat_bornes = "RESULTATS_HORAIRES list \<times> PROBLEME_ANTARES_A_RESOUDRE"

definition ecrire_Xmin :: "int \<Rightarrow> borne \<Rightarrow> etat_bornes \<Rightarrow> etat_bornes resultat" where
  "ecrire_Xmin var v z = (case z of (rs, p) \<Rightarrow>
     bindE (ecrire_int (Xmin p) var v) (\<lambda>x. Inr (rs, p\<lparr>Xmin := x\<rparr>)))"

definition ecrire_Xmax :: "int \<Rightarrow> borne \<Rightarrow> etat_bornes \<Rightarrow> etat_bornes resultat" where
  "ecrire_Xmax var v z = (case z of (rs, p) \<Rightarrow>
     bindE (ecrire_int (Xmax p) var v) (\<lambda>x. Inr (rs, p\<lparr>Xmax := x\<rparr>)))"

definition ecrire_type :: "int \<Rightarrow> type_variable \<Rightarrow> etat_bornes \<Rightarrow> etat_bornes resultat" where
  "ecrire_type var v z = (case z of (rs, p) \<Rightarrow>
     bindE (ecrire_int (TypeDeVariable p) var v) (\<lambda>x. Inr (rs, p\<lparr>TypeDeVariable := x\<rparr>)))"

definition ecrire_optimisee :: "int \<Rightarrow> adresse option \<Rightarrow> etat_bornes \<Rightarrow> etat_bornes resultat" where
  "ecrire_optimisee var v z = (case z of (rs, p) \<Rightarrow>
     bindE (ecrire_int (AdresseOuPlacerLaValeurDesVariablesOptimisees p) var v) (\<lambda>x.
     Inr (rs, p\<lparr>AdresseOuPlacerLaValeurDesVariablesOptimisees := x\<rparr>)))"

definition ecrire_reduit :: "int \<Rightarrow> adresse option \<Rightarrow> etat_bornes \<Rightarrow> etat_bornes resultat" where
  "ecrire_reduit var v z = (case z of (rs, p) \<Rightarrow>
     bindE (ecrire_int (AdresseOuPlacerLaValeurDesCoutsReduits p) var v) (\<lambda>x.
     Inr (rs, p\<lparr>AdresseOuPlacerLaValeurDesCoutsReduits := x\<rparr>)))"

definition modifier_Xmax :: "int \<Rightarrow> (borne \<Rightarrow> borne) \<Rightarrow> etat_bornes \<Rightarrow> etat_bornes resultat" where
  "modifier_Xmax var f z = bindE (lire_int (Xmax (snd z)) var) (\<lambda>x. ecrire_Xmax var (f x) z)"

text \<open>\<open>problemeHebdo->ResultatsHoraires[pays]\<close>: one hourly result is set to 0.\<close>

definition annuler_resultat ::
  "(RESULTATS_HORAIRES \<Rightarrow> real list) \<Rightarrow> (real list \<Rightarrow> RESULTATS_HORAIRES \<Rightarrow> RESULTATS_HORAIRES) \<Rightarrow> nat \<Rightarrow> nat \<Rightarrow>
     etat_bornes \<Rightarrow> etat_bornes resultat" where
  "annuler_resultat champ poser pays pdt z = (case z of (rs, p) \<Rightarrow>
     bindE (lire rs pays) (\<lambda>r.
     bindE (ecrire (champ r) pdt 0) (\<lambda>x.
     bindE (ecrire rs pays (poser x r)) (\<lambda>rs. Inr (rs, p)))))"

definition lire_heure_pays :: "'a list list \<Rightarrow> nat \<Rightarrow> nat \<Rightarrow> 'a resultat" where
  "lire_heure_pays xs a b = bindE (lire xs a) (\<lambda>x. lire x b)"

subsection \<open>The links\<close>

definition type_de_bornes :: "borne \<Rightarrow> borne \<Rightarrow> type_variable" where
  "type_de_bornes xmin xmax =
     (if Infinite xmax = 1
      then (if Infinite xmin = - 1 then VARIABLE_NON_BORNEE else VARIABLE_BORNEE_INFERIEUREMENT)
      else (if Infinite xmin = - 1 then VARIABLE_BORNEE_SUPERIEUREMENT else VARIABLE_BORNEE_DES_DEUX_COTES))"

definition bornes_flux ::
  "DONNEES \<Rightarrow> AdqPatchParams \<Rightarrow> nat \<Rightarrow> nat \<Rightarrow> int \<Rightarrow> etat_bornes \<Rightarrow> etat_bornes resultat" where
  "bornes_flux d adq pdtHebdo interco var z =
     bindE (lire (ValeursDeNTC d) pdtHebdo) (\<lambda>ntc.
     bindE (setNTCbounds d adq ntc interco) (\<lambda>(xmax, xmin). seqE
       [ecrire_Xmax var xmax,
        ecrire_Xmin var xmin,
        \<lambda>z. bindE (lire_int (Xmin (snd z)) var) (\<lambda>xmin.
            bindE (lire_int (Xmax (snd z)) var) (\<lambda>xmax.
            ecrire_type var (type_de_bornes xmin xmax) z)),
        ecrire_reduit var (Some (VariableDualeParInterconnexion pdtHebdo interco)),
        ecrire_optimisee var (Some (ValeurDuFlux pdtHebdo interco))] z))"

definition bornes_cout_flux ::
  "borne \<Rightarrow> bool \<Rightarrow> real \<Rightarrow> int \<Rightarrow> etat_bornes \<Rightarrow> etat_bornes resultat" where
  "bornes_cout_flux ntc avecLoopFlow loopFlow var = seqE
     [ecrire_Xmax var (if avecLoopFlow then plus_reel ntc loopFlow else ntc),
      modifier_Xmax var (\<lambda>x. plus_reel x (1 / 100)),
      ecrire_type var VARIABLE_BORNEE_DES_DEUX_COTES,
      \<lambda>z. bindE (lire_int (Xmax (snd z)) var) (\<lambda>xmax.
        whenE (Infinite xmax = 1) (ecrire_type var VARIABLE_BORNEE_INFERIEUREMENT) z),
      ecrire_Xmin var (Fini 0),
      ecrire_reduit var None,
      ecrire_optimisee var None]"

definition bornes_interco ::
  "PROBLEME_HEBDO \<Rightarrow> DONNEES \<Rightarrow> AdqPatchParams \<Rightarrow> etat \<Rightarrow> nat \<Rightarrow> nat \<Rightarrow> nat \<Rightarrow> etat_bornes \<Rightarrow>
     etat_bornes resultat" where
  "bornes_interco h d adq s pdtHebdo pdtJour interco z =
     bindE (lire (CoutDeTransport h) interco) (\<lambda>cout.
     bindE (lire (TransportDonnees d) interco) (\<lambda>transport.
     bindE (lire (ValeursDeNTC d) pdtHebdo) (\<lambda>ntc. seqE
     [\<lambda>z. bindE (lire_var s NumeroDeVariableDeLInterconnexion pdtJour interco) (\<lambda>var.
        bornes_flux d adq pdtHebdo interco var z),
      whenE (IntercoGereeAvecDesCouts cout) (seqE
        [\<lambda>z. bindE (lire_var s NumeroDeVariableCoutOrigineVersExtremiteDeLInterconnexion pdtJour interco) (\<lambda>var.
            bindE (lire (ValeurDeNTCOrigineVersExtremite ntc) interco) (\<lambda>v.
            bindE (lire (ValeurDeLoopFlowOrigineVersExtremite ntc) interco) (\<lambda>l.
            bornes_cout_flux v (IntercoGereeAvecLoopFlow transport) (- l) var z))),
         \<lambda>z. bindE (lire_var s NumeroDeVariableCoutExtremiteVersOrigineDeLInterconnexion pdtJour interco) (\<lambda>var.
            bindE (lire (ValeurDeNTCExtremiteVersOrigine ntc) interco) (\<lambda>v.
            bindE (lire (ValeurDeLoopFlowOrigineVersExtremite ntc) interco) (\<lambda>l.
            bornes_cout_flux v (IntercoGereeAvecLoopFlow transport) l var z)))])] z)))"

subsection \<open>The areas\<close>

definition bornes_palier ::
  "PROBLEME_HEBDO \<Rightarrow> DONNEES \<Rightarrow> etat \<Rightarrow> nat \<Rightarrow> nat \<Rightarrow> nat \<Rightarrow> nat \<Rightarrow> etat_bornes \<Rightarrow> etat_bornes resultat" where
  "bornes_palier h d s pdtHebdo pdtJour pays index z =
     bindE (lire (PaliersThermiquesDuPays h) pays) (\<lambda>pt.
     bindE (lire (NumeroDuPalierDansLEnsembleDesPaliersThermiques pt) index) (\<lambda>palier.
     bindE (lire_var s NumeroDeVariableDuPalierThermique pdtJour palier) (\<lambda>var.
     bindE (palier_donnees d pays index) (\<lambda>pdisp. seqE
       [\<lambda>z. bindE (lire (PuissanceMinDuPalierThermique pdisp) pdtHebdo) (\<lambda>v. ecrire_Xmin var (Fini v) z),
        \<lambda>z. bindE (lire (PuissanceDisponibleDuPalierThermique pdisp) pdtHebdo) (\<lambda>v. ecrire_Xmax var (Fini v) z),
        ecrire_optimisee var (Some (ProductionThermiqueDuPalier pays pdtHebdo index))] z))))"

definition bornes_prod_hydro ::
  "DONNEES \<Rightarrow> etat \<Rightarrow> nat \<Rightarrow> nat \<Rightarrow> nat \<Rightarrow> etat_bornes \<Rightarrow> etat_bornes resultat" where
  "bornes_prod_hydro d s pdtHebdo pdtJour pays z =
     bindE (lire_var s NumeroDeVariablesDeLaProdHyd pdtJour pays) (\<lambda>var. seqE
       [annuler_resultat TurbinageHoraire (\<lambda>x. TurbinageHoraire_update (\<lambda>_. x)) pays pdtHebdo,
        whenE (var \<ge> 0) (\<lambda>z. bindE (lire (HydroDonnees d) pays) (\<lambda>hd. seqE
          [\<lambda>z. bindE (lire (MingenHoraire hd) pdtHebdo) (\<lambda>v. ecrire_Xmin var (Fini v) z),
           \<lambda>z. bindE (lire (ContrainteDePmaxHydrauliqueHoraire hd) pdtHebdo) (\<lambda>v. ecrire_Xmax var (Fini v) z),
           ecrire_optimisee var (Some (TurbinageHoraire_de pays pdtHebdo))] z))] z)"

definition bornes_variation ::
  "etat \<Rightarrow> champ_var \<Rightarrow> borne \<Rightarrow> nat \<Rightarrow> nat \<Rightarrow> etat_bornes \<Rightarrow> etat_bornes resultat" where
  "bornes_variation s c xmax pdtJour pays z =
     bindE (lire_var s c pdtJour pays) (\<lambda>var.
     whenE (var \<ge> 0 \<and> var < int (NombreDeVariables (snd z))) (seqE
       [ecrire_Xmin var (Fini 0), ecrire_Xmax var xmax, ecrire_reduit var None, ecrire_optimisee var None]) z)"

definition bornes_variations ::
  "PROBLEME_HEBDO \<Rightarrow> DONNEES \<Rightarrow> etat \<Rightarrow> nat \<Rightarrow> nat \<Rightarrow> etat_bornes \<Rightarrow> etat_bornes resultat" where
  "bornes_variations h d s pdtJour pays z =
     bindE (lire (CaracteristiquesHydrauliques h) pays) (\<lambda>c.
     bindE (lire (HydroDonnees d) pays) (\<lambda>hd.
     whenE (PresenceDHydrauliqueModulable c)
       (if TypeDeLissageHydraulique h = LISSAGE_HYDRAULIQUE_SUR_SOMME_DES_VARIATIONS
        then seqE [bornes_variation s NumeroDeVariablesVariationHydALaBaisse LINFINI_ANTARES pdtJour pays,
                   bornes_variation s NumeroDeVariablesVariationHydALaHausse LINFINI_ANTARES pdtJour pays]
        else if TypeDeLissageHydraulique h = LISSAGE_HYDRAULIQUE_SUR_VARIATION_MAX \<and> pdtJour = 0
        then seqE [bornes_variation s NumeroDeVariablesVariationHydALaBaisse
                     (Fini (MaxDesPmaxHydrauliques hd)) pdtJour pays,
                   bornes_variation s NumeroDeVariablesVariationHydALaHausse
                     (Fini (MaxDesPmaxHydrauliques hd)) pdtJour pays]
        else Inr) z))"

definition bornes_pompage ::
  "DONNEES \<Rightarrow> etat \<Rightarrow> nat \<Rightarrow> nat \<Rightarrow> nat \<Rightarrow> etat_bornes \<Rightarrow> etat_bornes resultat" where
  "bornes_pompage d s pdtHebdo pdtJour pays z =
     bindE (lire_var s NumeroDeVariablesDePompage pdtJour pays) (\<lambda>var. seqE
       [annuler_resultat PompageHoraire (\<lambda>x. PompageHoraire_update (\<lambda>_. x)) pays pdtHebdo,
        whenE (var \<ge> 0) (\<lambda>z. bindE (lire (HydroDonnees d) pays) (\<lambda>hd. seqE
          [ecrire_Xmin var (Fini 0),
           \<lambda>z. bindE (lire (ContrainteDePmaxPompageHoraire hd) pdtHebdo) (\<lambda>v. ecrire_Xmax var (Fini v) z),
           ecrire_optimisee var (Some (PompageHoraire_de pays pdtHebdo))] z))] z)"

definition bornes_debordement ::
  "DONNEES \<Rightarrow> etat \<Rightarrow> nat \<Rightarrow> nat \<Rightarrow> nat \<Rightarrow> etat_bornes \<Rightarrow> etat_bornes resultat" where
  "bornes_debordement d s pdtHebdo pdtJour pays z =
     bindE (lire_var s NumeroDeVariablesDeDebordement pdtJour pays) (\<lambda>var. seqE
       [annuler_resultat debordementsHoraires (\<lambda>x. debordementsHoraires_update (\<lambda>_. x)) pays pdtHebdo,
        whenE (var \<ge> 0) (\<lambda>z. bindE (lire (HydroDonnees d) pays) (\<lambda>hd. seqE
          [ecrire_Xmin var (Fini 0),
           \<lambda>z. bindE (lire (ApportNaturelHoraire hd) pdtHebdo) (\<lambda>v. ecrire_Xmax var (Fini v) z),
           ecrire_reduit var None,
           ecrire_optimisee var None] z))] z)"

definition bornes_niveau ::
  "DONNEES \<Rightarrow> etat \<Rightarrow> nat \<Rightarrow> nat \<Rightarrow> nat \<Rightarrow> etat_bornes \<Rightarrow> etat_bornes resultat" where
  "bornes_niveau d s pdtHebdo pdtJour pays z =
     bindE (lire_var s NumeroDeVariablesDeNiveau pdtJour pays) (\<lambda>var.
        whenE (var \<ge> 0) (\<lambda>z. bindE (lire (HydroDonnees d) pays) (\<lambda>hd. seqE
          [\<lambda>z. bindE (lire (NiveauHoraireInf hd) pdtHebdo) (\<lambda>v. ecrire_Xmin var (Fini v) z),
           \<lambda>z. bindE (lire (NiveauHoraireSup hd) pdtHebdo) (\<lambda>v. ecrire_Xmax var (Fini v) z),
           ecrire_reduit var None,
           ecrire_optimisee var (Some (NiveauxHoraires_de pays pdtHebdo))] z)) z)"

definition bornes_defaillance_negative ::
  "etat \<Rightarrow> nat \<Rightarrow> nat \<Rightarrow> nat \<Rightarrow> etat_bornes \<Rightarrow> etat_bornes resultat" where
  "bornes_defaillance_negative s pdtHebdo pdtJour pays z =
     bindE (lire_var s NumeroDeVariableDefaillanceNegative pdtJour pays) (\<lambda>var. seqE
       [ecrire_Xmin var (Fini 0),
        ecrire_Xmax var LINFINI_ANTARES,
        annuler_resultat ValeursHorairesDeDefaillanceNegative
          (\<lambda>x. ValeursHorairesDeDefaillanceNegative_update (\<lambda>_. x)) pays pdtHebdo,
        ecrire_optimisee var (Some (DefaillanceNegative_de pays pdtHebdo))] z)"

definition bornes_pays ::
  "PROBLEME_HEBDO \<Rightarrow> DONNEES \<Rightarrow> etat \<Rightarrow> nat \<Rightarrow> nat \<Rightarrow> nat \<Rightarrow> etat_bornes \<Rightarrow> etat_bornes resultat" where
  "bornes_pays h d s pdtHebdo pdtJour pays z =
     bindE (lire (PaliersThermiquesDuPays h) pays) (\<lambda>pt. seqE
     [forE [0..<NombreDePaliersThermiques pt] (bornes_palier h d s pdtHebdo pdtJour pays),
      bornes_prod_hydro d s pdtHebdo pdtJour pays,
      bornes_variations h d s pdtJour pays,
      bornes_pompage d s pdtHebdo pdtJour pays,
      bornes_debordement d s pdtHebdo pdtJour pays,
      bornes_niveau d s pdtHebdo pdtJour pays,
      bornes_defaillance_negative s pdtHebdo pdtJour pays,
      annuler_resultat ValeursHorairesDeDefaillanceEnReserve
        (\<lambda>x. ValeursHorairesDeDefaillanceEnReserve_update (\<lambda>_. x)) pays pdtHebdo] z)"

subsection \<open>Unsupplied energy\<close>

definition charge_residuelle ::
  "DONNEES \<Rightarrow> numero_optimisation \<Rightarrow> nat \<Rightarrow> nat \<Rightarrow> real resultat" where
  "charge_residuelle d opt pdtHebdo pays =
     bindE (lire_heure_pays (ConsommationAbattueDuPays d) pdtHebdo pays) (\<lambda>charge.
     bindE (if YaDeLaReserveJmoins1 d \<and> opt = PREMIERE_OPTIMISATION
            then bindE (lire_heure_pays (ReserveHoraireJMoins1 d) pays pdtHebdo) (\<lambda>r. Inr (charge + r))
            else Inr charge) (\<lambda>charge.
     bindE (lire_heure_pays (AllMustRunGenerationOfArea d) pdtHebdo pays) (\<lambda>g.
     Inr (charge + (if g > 0 then g else 0)))))"

definition bornes_defaillance_positive ::
  "DONNEES \<Rightarrow> AdqPatchParams \<Rightarrow> numero_optimisation \<Rightarrow> etat \<Rightarrow> nat \<Rightarrow> nat \<Rightarrow> nat \<Rightarrow> etat_bornes \<Rightarrow>
     etat_bornes resultat" where
  "bornes_defaillance_positive d adq opt s pdtHebdo pdtJour pays z =
     bindE (lire_var s NumeroDeVariableDefaillancePositive pdtJour pays) (\<lambda>var. seqE
       [ecrire_Xmin var (Fini 0),
        \<lambda>z. bindE (charge_residuelle d opt pdtHebdo pays) (\<lambda>charge.
          ecrire_Xmax var (if charge \<ge> 0 then Fini (charge + 1 / 100000) else Fini 0) z),
        whenE (adq_enabled adq \<and> localMatching_enabled adq \<and> \<not> AdequacyFirstStep (adequacyPatchRuntimeData d))
          (\<lambda>z. bindE (lire (areaMode (adequacyPatchRuntimeData d)) pays) (\<lambda>mode.
            whenE (mode = physicalAreaInsideAdqPatch) (\<lambda>z.
              bindE (lire (fst z) pays) (\<lambda>r.
              bindE (lire (ValeursHorairesDENS r) pdtHebdo) (\<lambda>dens.
              modifier_Xmax var (\<lambda>x. minimum_reel x dens) z))) z)),
        annuler_resultat ValeursHorairesDeDefaillancePositive
          (\<lambda>x. ValeursHorairesDeDefaillancePositive_update (\<lambda>_. x)) pays pdtHebdo,
        ecrire_optimisee var (Some (DefaillancePositive_de pays pdtHebdo))] z)"

definition setBoundsForUnsuppliedEnergy ::
  "PROBLEME_HEBDO \<Rightarrow> DONNEES \<Rightarrow> AdqPatchParams \<Rightarrow> numero_optimisation \<Rightarrow> etat \<Rightarrow> nat \<Rightarrow> nat \<Rightarrow> etat_bornes \<Rightarrow>
     etat_bornes resultat" where
  "setBoundsForUnsuppliedEnergy h d adq opt s premier dernier =
     forE [premier..<dernier] (\<lambda>pdtHebdo.
       forE [0..<NombreDePays h] (bornes_defaillance_positive d adq opt s pdtHebdo (pdtHebdo - premier)))"

subsection \<open>Short-term storages\<close>

definition bornes_stockage ::
  "PROBLEME_HEBDO \<Rightarrow> DONNEES \<Rightarrow> etat \<Rightarrow> nat \<Rightarrow> nat \<Rightarrow> nat \<Rightarrow> nat \<Rightarrow> nat \<Rightarrow> etat_bornes \<Rightarrow>
     etat_bornes resultat" where
  "bornes_stockage h d s dernier pdtHebdo pdtJour areaIndex storageIndex z =
     bindE (lire_heure_pays (ShortTermStorage h) areaIndex storageIndex) (\<lambda>storage.
     bindE (lire_heure_pays (StockageDonnees d) areaIndex storageIndex) (\<lambda>sd.
     let hourInTheYear = weekInTheYear h * 168 + pdtHebdo; g = clusterGlobalIndex storage in seqE
     [\<lambda>z. bindE (lire_var s InjectionVariable pdtJour g) (\<lambda>var. seqE
        [ecrire_Xmin var (Fini 0),
         \<lambda>z. bindE (lire (maxInjectionModulation sd) hourInTheYear) (\<lambda>m.
           ecrire_Xmax var (Fini (injectionNominalCapacity sd * m)) z),
         ecrire_optimisee var (Some (STS_injection areaIndex pdtHebdo storageIndex))] z),
      \<lambda>z. bindE (lire_var s WithdrawalVariable pdtJour g) (\<lambda>var. seqE
        [ecrire_Xmin var (Fini 0),
         \<lambda>z. bindE (lire (maxWithdrawalModulation sd) hourInTheYear) (\<lambda>m.
           ecrire_Xmax var (Fini (withdrawalNominalCapacity sd * m)) z),
         ecrire_optimisee var (Some (STS_withdrawal areaIndex pdtHebdo storageIndex))] z),
      \<lambda>z. bindE (lire_var s LevelVariable pdtJour g) (\<lambda>var. seqE
        [if pdtHebdo + 1 = dernier \<and> \<not> initialLevelOptim sd
         then seqE [ecrire_Xmax var (Fini (reservoirCapacity sd * initialLevel sd)),
                    ecrire_Xmin var (Fini (reservoirCapacity sd * initialLevel sd))]
         else seqE
          [\<lambda>z. bindE (lire (lowerRuleCurve sd) hourInTheYear) (\<lambda>c.
             ecrire_Xmin var (Fini (reservoirCapacity sd * c)) z),
           \<lambda>z. bindE (lire (upperRuleCurve sd) hourInTheYear) (\<lambda>c.
             ecrire_Xmax var (Fini (reservoirCapacity sd * c)) z)],
         ecrire_optimisee var (Some (STS_level areaIndex pdtHebdo storageIndex))] z)] z))"

definition setBoundsForShortTermStorage ::
  "PROBLEME_HEBDO \<Rightarrow> DONNEES \<Rightarrow> etat \<Rightarrow> nat \<Rightarrow> nat \<Rightarrow> etat_bornes \<Rightarrow> etat_bornes resultat" where
  "setBoundsForShortTermStorage h d s premier dernier =
     forE [premier..<dernier] (\<lambda>pdtHebdo. forE [0..<NombreDePays h] (\<lambda>areaIndex z.
       bindE (lire (ShortTermStorage h) areaIndex) (\<lambda>storages.
       forE [0..<length storages]
         (bornes_stockage h d s dernier pdtHebdo (pdtHebdo - premier) areaIndex) z)))"

subsection \<open>Final stocks and start-up variables\<close>

definition bornes_stock ::
  "PROBLEME_HEBDO \<Rightarrow> DONNEES \<Rightarrow> etat \<Rightarrow> nat \<Rightarrow> etat_bornes \<Rightarrow> etat_bornes resultat" where
  "bornes_stock h d s pays z =
     bindE (lire (CaracteristiquesHydrauliques h) pays) (\<lambda>c.
     bindE (lire (HydroDonnees d) pays) (\<lambda>hd.
     whenE (AccurateWaterValue c) (seqE
       [\<lambda>z. bindE (lire_stock s pays) (\<lambda>var. whenE (var \<ge> 0) (seqE
          [ecrire_Xmin var (opposee LINFINI_ANTARES), ecrire_Xmax var LINFINI_ANTARES,
           ecrire_optimisee var None, ecrire_reduit var None]) z),
        forE [0..<100] (\<lambda>nblayer z. bindE (lire_tranche s pays nblayer) (\<lambda>var. whenE (var \<ge> 0) (seqE
          [ecrire_Xmin var (Fini 0), ecrire_Xmax var (Fini (TailleReservoir hd / 100)),
           ecrire_optimisee var None, ecrire_reduit var None]) z))]) z))"

definition bornes_demarrage ::
  "PROBLEME_HEBDO \<Rightarrow> DONNEES \<Rightarrow> etat \<Rightarrow> nat \<Rightarrow> nat \<Rightarrow> nat \<Rightarrow> nat \<Rightarrow> etat_bornes \<Rightarrow>
     etat_bornes resultat" where
  "bornes_demarrage h d s pdtHebdo pdtJour pays index z =
     bindE (lire (PaliersThermiquesDuPays h) pays) (\<lambda>pt.
     bindE (palier_donnees d pays index) (\<lambda>pdisp.
     bindE (lire (NumeroDuPalierDansLEnsembleDesPaliersThermiques pt) index) (\<lambda>palier.
     let maxi = NombreMaxDeGroupesEnMarcheDuPalierThermique pdisp;
         mini = NombreMinDeGroupesEnMarcheDuPalierThermique pdisp in seqE
     [\<lambda>z. bindE (lire_var s NumeroDeVariableDuNombreDeGroupesEnMarcheDuPalierThermique pdtJour palier) (\<lambda>var. seqE
        [\<lambda>z. bindE (lire maxi pdtHebdo) (\<lambda>v. ecrire_Xmax var (Fini (of_int v)) z),
         \<lambda>z. bindE (lire mini pdtHebdo) (\<lambda>v. ecrire_Xmin var (Fini (of_int v)) z),
         ecrire_optimisee var (Some (NombreDeGroupesEnMarcheDuPalier pays pdtHebdo index))] z),
      \<lambda>z. bindE (lire_var s NumeroDeVariableDuNombreDeGroupesQuiDemarrentDuPalierThermique pdtJour palier) (\<lambda>var. seqE
        [ecrire_Xmax var LINFINI_ANTARES, ecrire_Xmin var (Fini 0),
         ecrire_optimisee var (Some (NombreDeGroupesQuiDemarrentDuPalier pays pdtHebdo index))] z),
      \<lambda>z. bindE (lire_var s NumeroDeVariableDuNombreDeGroupesQuiSArretentDuPalierThermique pdtJour palier) (\<lambda>var. seqE
        [ecrire_Xmax var LINFINI_ANTARES, ecrire_Xmin var (Fini 0),
         ecrire_optimisee var (Some (NombreDeGroupesQuiSArretentDuPalier pays pdtHebdo index))] z),
      \<lambda>z. bindE (lire_var s NumeroDeVariableDuNombreDeGroupesQuiTombentEnPanneDuPalierThermique pdtJour palier) (\<lambda>var.
        let t1moins1 = int pdtHebdo - 1;
            t1moins1 = (if t1moins1 < 0 then int (NombreDePasDeTempsPourUneOptimisation h) + t1moins1
                        else t1moins1) in seqE
        [ecrire_Xmin var (Fini 0),
         ecrire_Xmax var (Fini 0),
         \<lambda>z. bindE (lire_int maxi t1moins1) (\<lambda>avant. bindE (lire maxi pdtHebdo) (\<lambda>maintenant.
           whenE (avant - maintenant > 0) (ecrire_Xmax var (Fini (of_int (avant - maintenant)))) z)),
         ecrire_optimisee var (Some (NombreDeGroupesQuiTombentEnPanneDuPalier pays pdtHebdo index))] z)] z)))"

definition OPT_InitialiserLesBornesDesVariablesDuProblemeLineaireCoutsDeDemarrage ::
  "PROBLEME_HEBDO \<Rightarrow> DONNEES \<Rightarrow> etat \<Rightarrow> nat \<Rightarrow> nat \<Rightarrow> etat_bornes \<Rightarrow> etat_bornes resultat" where
  "OPT_InitialiserLesBornesDesVariablesDuProblemeLineaireCoutsDeDemarrage h d s premier dernier =
     forE [premier..<dernier] (\<lambda>pdtHebdo. forE [0..<NombreDePays h] (\<lambda>pays z.
       bindE (lire (PaliersThermiquesDuPays h) pays) (\<lambda>pt.
       forE [0..<NombreDePaliersThermiques pt]
         (bornes_demarrage h d s pdtHebdo (pdtHebdo - premier) pays) z)))"

subsection \<open>The whole function\<close>

definition bornes_lineaires ::
  "PROBLEME_HEBDO \<Rightarrow> DONNEES \<Rightarrow> AdqPatchParams \<Rightarrow> numero_optimisation \<Rightarrow> etat \<Rightarrow> nat \<Rightarrow> nat \<Rightarrow>
     etat_bornes \<Rightarrow> etat_bornes resultat" where
  "bornes_lineaires h d adq opt s premier dernier = seqE
     [\<lambda>z. forE [0..<NombreDeVariables (snd z)]
        (\<lambda>i. seqE [ecrire_optimisee (int i) None, ecrire_reduit (int i) None]) z,
      forE [premier..<dernier] (\<lambda>pdtHebdo. seqE
        [forE [0..<NombreDInterconnexions h] (bornes_interco h d adq s pdtHebdo (pdtHebdo - premier)),
         forE [0..<NombreDePays h] (bornes_pays h d s pdtHebdo (pdtHebdo - premier))]),
      setBoundsForUnsuppliedEnergy h d adq opt s premier dernier,
      setBoundsForShortTermStorage h d s premier dernier,
      forE [0..<NombreDePays h] (bornes_stock h d s),
      whenE (OptimisationAvecCoutsDeDemarrage h)
        (OPT_InitialiserLesBornesDesVariablesDuProblemeLineaireCoutsDeDemarrage h d s premier dernier)]"

definition OPT_InitialiserLesBornesDesVariablesDuProblemeLineaire ::
  "PROBLEME_HEBDO \<Rightarrow> DONNEES \<Rightarrow> AdqPatchParams \<Rightarrow> nat \<Rightarrow> nat \<Rightarrow> numero_optimisation \<Rightarrow>
     RESULTATS_HORAIRES list \<times> etat \<Rightarrow> (RESULTATS_HORAIRES list \<times> etat) resultat" where
  "OPT_InitialiserLesBornesDesVariablesDuProblemeLineaire h d adq premier dernier opt rss =
     (case rss of (rs, s) \<Rightarrow>
      bindE (bornes_lineaires h d adq opt s premier dernier (rs, ProblemeAResoudre s)) (\<lambda>(rs, p).
      Inr (rs, s\<lparr>ProblemeAResoudre := p\<rparr>)))"

subsection \<open>The table of the bounds\<close>

definition premiere_etape :: "DONNEES \<Rightarrow> AdqPatchParams \<Rightarrow> bool" where
  "premiere_etape d adq \<longleftrightarrow>
     adq_enabled adq \<and> localMatching_enabled adq \<and> AdequacyFirstStep (adequacyPatchRuntimeData d)"

text \<open>In the first step of the patch a link is cut between two areas inside the patch, from inside to
  outside, and, by option, from outside to inside and between two areas outside. A link from outside to inside
  that is not cut cannot be used backwards.\<close>

definition lien_coupe :: "DONNEES \<Rightarrow> AdqPatchParams \<Rightarrow> nat \<Rightarrow> bool" where
  "lien_coupe d adq l \<longleftrightarrow> premiere_etape d adq \<and>
     (case (originAreaMode (adequacyPatchRuntimeData d) ! l, extremityAreaMode (adequacyPatchRuntimeData d) ! l) of
        (physicalAreaInsideAdqPatch, m) \<Rightarrow> m \<noteq> virtualArea
      | (physicalAreaOutsideAdqPatch, physicalAreaInsideAdqPatch) \<Rightarrow> setToZeroOutsideInsideLinks adq
      | (physicalAreaOutsideAdqPatch, physicalAreaOutsideAdqPatch) \<Rightarrow> setToZeroOutsideOutsideLinks adq
      | _ \<Rightarrow> False)"

definition lien_sens_unique :: "DONNEES \<Rightarrow> AdqPatchParams \<Rightarrow> nat \<Rightarrow> bool" where
  "lien_sens_unique d adq l \<longleftrightarrow> premiere_etape d adq \<and>
     originAreaMode (adequacyPatchRuntimeData d) ! l = physicalAreaOutsideAdqPatch \<and>
     extremityAreaMode (adequacyPatchRuntimeData d) ! l = physicalAreaInsideAdqPatch"

definition charge_de :: "DONNEES \<Rightarrow> numero_optimisation \<Rightarrow> nat \<Rightarrow> nat \<Rightarrow> real" where
  "charge_de d opt t pays = ConsommationAbattueDuPays d ! t ! pays +
     (if YaDeLaReserveJmoins1 d \<and> opt = PREMIERE_OPTIMISATION then ReserveHoraireJMoins1 d ! pays ! t else 0) +
     max 0 (AllMustRunGenerationOfArea d ! t ! pays)"

text \<open>The unsupplied energy of the second run inside the patch is at most that of the first run.\<close>

definition defaillance_max ::
  "DONNEES \<Rightarrow> AdqPatchParams \<Rightarrow> numero_optimisation \<Rightarrow> RESULTATS_HORAIRES list \<Rightarrow> nat \<Rightarrow> nat \<Rightarrow> real" where
  "defaillance_max d adq opt rs t pays =
     (let c = charge_de d opt t pays; m = (if c \<ge> 0 then c + 1 / 100000 else 0) in
      if adq_enabled adq \<and> localMatching_enabled adq \<and> \<not> AdequacyFirstStep (adequacyPatchRuntimeData d) \<and>
         areaMode (adequacyPatchRuntimeData d) ! pays = physicalAreaInsideAdqPatch
      then min m (ValeursHorairesDENS (rs ! pays) ! t) else m)"

text \<open>Units broken down at most: those the availability loses since the hour before. The hour before hour 0 is
  the last hour of the range.\<close>

definition groupes_perdus :: "PROBLEME_HEBDO \<Rightarrow> PDISP_ET_COUTS_HORAIRES_PAR_PALIER \<Rightarrow> nat \<Rightarrow> int" where
  "groupes_perdus h pdisp t = (let maxi = NombreMaxDeGroupesEnMarcheDuPalierThermique pdisp;
     avant = (if t = 0 then NombreDePasDeTempsPourUneOptimisation h - 1 else t - 1) in
     max 0 (maxi ! avant - maxi ! t))"

definition variation_max :: "PROBLEME_HEBDO \<Rightarrow> DONNEES \<Rightarrow> nat \<Rightarrow> borne" where
  "variation_max h d pays =
     (if TypeDeLissageHydraulique h = LISSAGE_HYDRAULIQUE_SUR_SOMME_DES_VARIATIONS then LINFINI_ANTARES
      else Fini (MaxDesPmaxHydrauliques (HydroDonnees d ! pays)))"

abbreviation pdisp_de :: "DONNEES \<Rightarrow> nat \<times> nat \<Rightarrow> PDISP_ET_COUTS_HORAIRES_PAR_PALIER" where
  "pdisp_de d x \<equiv> PuissanceDisponibleEtCout (PaliersDonnees d ! fst x) ! snd x"

abbreviation sts_de :: "DONNEES \<Rightarrow> nat \<times> nat \<Rightarrow> STS_DONNEES" where
  "sts_de d x \<equiv> StockageDonnees d ! fst x ! snd x"

text \<open>The level of a storage at the end of the range is its initial level, unless this level is optimised.\<close>

definition niveau_fixe :: "PROBLEME_HEBDO \<Rightarrow> STS_DONNEES \<Rightarrow> nat \<Rightarrow> bool" where
  "niveau_fixe h sd t \<longleftrightarrow> t + 1 = NombreDePasDeTempsPourUneOptimisation h \<and> \<not> initialLevelOptim sd"

record contexte_bornes =
  bh :: PROBLEME_HEBDO
  bd :: DONNEES
  badq :: AdqPatchParams
  bopt :: numero_optimisation
  brs :: "RESULTATS_HORAIRES list"
  bpremier :: nat

fun xmin_de :: "contexte_bornes \<Rightarrow> place \<Rightarrow> borne" where
  "xmin_de b (Var NumeroDeVariableDeLInterconnexion t l) =
     (if lien_coupe (bd b) (badq b) l \<or> lien_sens_unique (bd b) (badq b) l then Fini 0
      else opposee (ValeurDeNTCExtremiteVersOrigine (ValeursDeNTC (bd b) ! (bpremier b + t)) ! l))"
| "xmin_de b (Var NumeroDeVariableDuPalierThermique t p) =
     Fini (PuissanceMinDuPalierThermique (pdisp_de (bd b) (palier_de (bh b) p)) ! (bpremier b + t))"
| "xmin_de b (Var NumeroDeVariablesDeLaProdHyd t pays) =
     Fini (MingenHoraire (HydroDonnees (bd b) ! pays) ! (bpremier b + t))"
| "xmin_de b (Var NumeroDeVariablesDeNiveau t pays) =
     Fini (NiveauHoraireInf (HydroDonnees (bd b) ! pays) ! (bpremier b + t))"
| "xmin_de b (Var LevelVariable t g) = (let sd = sts_de (bd b) (stockage_de (bh b) g) in
     Fini (reservoirCapacity sd * (if niveau_fixe (bh b) sd t then initialLevel sd
       else lowerRuleCurve sd ! (weekInTheYear (bh b) * 168 + (bpremier b + t)))))"
| "xmin_de b (Var NumeroDeVariableDuNombreDeGroupesEnMarcheDuPalierThermique t p) =
     Fini (of_int (NombreMinDeGroupesEnMarcheDuPalierThermique
       (pdisp_de (bd b) (palier_de (bh b) p)) ! (bpremier b + t)))"
| "xmin_de b (Stock pays) = opposee LINFINI_ANTARES"
| "xmin_de b _ = Fini 0"

fun xmax_de :: "contexte_bornes \<Rightarrow> place \<Rightarrow> borne" where
  "xmax_de b (Var NumeroDeVariableDeLInterconnexion t l) =
     (if lien_coupe (bd b) (badq b) l then Fini 0
      else ValeurDeNTCOrigineVersExtremite (ValeursDeNTC (bd b) ! (bpremier b + t)) ! l)"
| "xmax_de b (Var NumeroDeVariableCoutOrigineVersExtremiteDeLInterconnexion t l) =
     (let ntc = ValeursDeNTC (bd b) ! (bpremier b + t); v = ValeurDeNTCOrigineVersExtremite ntc ! l in
      plus_reel (if IntercoGereeAvecLoopFlow (TransportDonnees (bd b) ! l)
        then plus_reel v (- (ValeurDeLoopFlowOrigineVersExtremite ntc ! l)) else v) (1 / 100))"
| "xmax_de b (Var NumeroDeVariableCoutExtremiteVersOrigineDeLInterconnexion t l) =
     (let ntc = ValeursDeNTC (bd b) ! (bpremier b + t); v = ValeurDeNTCExtremiteVersOrigine ntc ! l in
      plus_reel (if IntercoGereeAvecLoopFlow (TransportDonnees (bd b) ! l)
        then plus_reel v (ValeurDeLoopFlowOrigineVersExtremite ntc ! l) else v) (1 / 100))"
| "xmax_de b (Var NumeroDeVariableDuPalierThermique t p) =
     Fini (PuissanceDisponibleDuPalierThermique (pdisp_de (bd b) (palier_de (bh b) p)) ! (bpremier b + t))"
| "xmax_de b (Var NumeroDeVariablesDeLaProdHyd t pays) =
     Fini (ContrainteDePmaxHydrauliqueHoraire (HydroDonnees (bd b) ! pays) ! (bpremier b + t))"
| "xmax_de b (Var NumeroDeVariablesVariationHydALaBaisse t pays) = variation_max (bh b) (bd b) pays"
| "xmax_de b (Var NumeroDeVariablesVariationHydALaHausse t pays) = variation_max (bh b) (bd b) pays"
| "xmax_de b (Var NumeroDeVariablesDePompage t pays) =
     Fini (ContrainteDePmaxPompageHoraire (HydroDonnees (bd b) ! pays) ! (bpremier b + t))"
| "xmax_de b (Var NumeroDeVariablesDeDebordement t pays) =
     Fini (ApportNaturelHoraire (HydroDonnees (bd b) ! pays) ! (bpremier b + t))"
| "xmax_de b (Var NumeroDeVariablesDeNiveau t pays) =
     Fini (NiveauHoraireSup (HydroDonnees (bd b) ! pays) ! (bpremier b + t))"
| "xmax_de b (Var NumeroDeVariableDefaillancePositive t pays) =
     Fini (defaillance_max (bd b) (badq b) (bopt b) (brs b) (bpremier b + t) pays)"
| "xmax_de b (Var InjectionVariable t g) = (let sd = sts_de (bd b) (stockage_de (bh b) g) in
     Fini (injectionNominalCapacity sd *
       maxInjectionModulation sd ! (weekInTheYear (bh b) * 168 + (bpremier b + t))))"
| "xmax_de b (Var WithdrawalVariable t g) = (let sd = sts_de (bd b) (stockage_de (bh b) g) in
     Fini (withdrawalNominalCapacity sd *
       maxWithdrawalModulation sd ! (weekInTheYear (bh b) * 168 + (bpremier b + t))))"
| "xmax_de b (Var LevelVariable t g) = (let sd = sts_de (bd b) (stockage_de (bh b) g) in
     Fini (reservoirCapacity sd * (if niveau_fixe (bh b) sd t then initialLevel sd
       else upperRuleCurve sd ! (weekInTheYear (bh b) * 168 + (bpremier b + t)))))"
| "xmax_de b (Var NumeroDeVariableDuNombreDeGroupesEnMarcheDuPalierThermique t p) =
     Fini (of_int (NombreMaxDeGroupesEnMarcheDuPalierThermique
       (pdisp_de (bd b) (palier_de (bh b) p)) ! (bpremier b + t)))"
| "xmax_de b (Var NumeroDeVariableDuNombreDeGroupesQuiTombentEnPanneDuPalierThermique t p) =
     Fini (of_int (groupes_perdus (bh b) (pdisp_de (bd b) (palier_de (bh b) p)) (bpremier b + t)))"
| "xmax_de b (Tranche pays l) = Fini (TailleReservoir (HydroDonnees (bd b) ! pays) / 100)"
| "xmax_de b _ = LINFINI_ANTARES"

text \<open>Where the optimised value goes.\<close>

fun adresse_de :: "contexte_bornes \<Rightarrow> place \<Rightarrow> adresse option" where
  "adresse_de b (Var NumeroDeVariableDeLInterconnexion t l) = Some (ValeurDuFlux (bpremier b + t) l)"
| "adresse_de b (Var NumeroDeVariableDuPalierThermique t p) = (case palier_de (bh b) p of (pays, i) \<Rightarrow>
     Some (ProductionThermiqueDuPalier pays (bpremier b + t) i))"
| "adresse_de b (Var NumeroDeVariablesDeLaProdHyd t pays) = Some (TurbinageHoraire_de pays (bpremier b + t))"
| "adresse_de b (Var NumeroDeVariablesDePompage t pays) = Some (PompageHoraire_de pays (bpremier b + t))"
| "adresse_de b (Var NumeroDeVariablesDeNiveau t pays) = Some (NiveauxHoraires_de pays (bpremier b + t))"
| "adresse_de b (Var NumeroDeVariableDefaillancePositive t pays) = Some (DefaillancePositive_de pays (bpremier b + t))"
| "adresse_de b (Var NumeroDeVariableDefaillanceNegative t pays) = Some (DefaillanceNegative_de pays (bpremier b + t))"
| "adresse_de b (Var InjectionVariable t g) = (case stockage_de (bh b) g of (pays, k) \<Rightarrow>
     Some (STS_injection pays (bpremier b + t) k))"
| "adresse_de b (Var WithdrawalVariable t g) = (case stockage_de (bh b) g of (pays, k) \<Rightarrow>
     Some (STS_withdrawal pays (bpremier b + t) k))"
| "adresse_de b (Var LevelVariable t g) = (case stockage_de (bh b) g of (pays, k) \<Rightarrow>
     Some (STS_level pays (bpremier b + t) k))"
| "adresse_de b (Var NumeroDeVariableDuNombreDeGroupesEnMarcheDuPalierThermique t p) =
     (case palier_de (bh b) p of (pays, i) \<Rightarrow> Some (NombreDeGroupesEnMarcheDuPalier pays (bpremier b + t) i))"
| "adresse_de b (Var NumeroDeVariableDuNombreDeGroupesQuiDemarrentDuPalierThermique t p) =
     (case palier_de (bh b) p of (pays, i) \<Rightarrow> Some (NombreDeGroupesQuiDemarrentDuPalier pays (bpremier b + t) i))"
| "adresse_de b (Var NumeroDeVariableDuNombreDeGroupesQuiSArretentDuPalierThermique t p) =
     (case palier_de (bh b) p of (pays, i) \<Rightarrow> Some (NombreDeGroupesQuiSArretentDuPalier pays (bpremier b + t) i))"
| "adresse_de b (Var NumeroDeVariableDuNombreDeGroupesQuiTombentEnPanneDuPalierThermique t p) =
     (case palier_de (bh b) p of (pays, i) \<Rightarrow> Some (NombreDeGroupesQuiTombentEnPanneDuPalier pays (bpremier b + t) i))"
| "adresse_de b _ = None"

fun est_flux :: "place \<Rightarrow> bool" where
  "est_flux (Var NumeroDeVariableDeLInterconnexion t l) = True"
| "est_flux _ = False"

fun est_cout_flux :: "place \<Rightarrow> bool" where
  "est_cout_flux (Var NumeroDeVariableCoutOrigineVersExtremiteDeLInterconnexion t l) = True"
| "est_cout_flux (Var NumeroDeVariableCoutExtremiteVersOrigineDeLInterconnexion t l) = True"
| "est_cout_flux _ = False"

fun cout_reduit_de :: "contexte_bornes \<Rightarrow> place \<Rightarrow> adresse option" where
  "cout_reduit_de b (Var NumeroDeVariableDeLInterconnexion t l) =
     Some (VariableDualeParInterconnexion (bpremier b + t) l)"
| "cout_reduit_de b _ = None"

text \<open>The places whose address of the reduced cost is written, and the type of the variables of the links.\<close>

fun reduit_ecrit :: "place \<Rightarrow> bool" where
  "reduit_ecrit (Var c t i) \<longleftrightarrow> c \<in> {NumeroDeVariableDeLInterconnexion,
     NumeroDeVariableCoutOrigineVersExtremiteDeLInterconnexion,
     NumeroDeVariableCoutExtremiteVersOrigineDeLInterconnexion, NumeroDeVariablesVariationHydALaBaisse,
     NumeroDeVariablesVariationHydALaHausse, NumeroDeVariablesDeDebordement, NumeroDeVariablesDeNiveau}"
| "reduit_ecrit _ \<longleftrightarrow> True"

definition type_apres :: "contexte_bornes \<Rightarrow> place \<Rightarrow> type_variable \<Rightarrow> type_variable" where
  "type_apres b q ty = (if est_flux q then type_de_bornes (xmin_de b q) (xmax_de b q)
     else if est_cout_flux q then (if Infinite (xmax_de b q) = 1 then VARIABLE_BORNEE_INFERIEUREMENT
       else VARIABLE_BORNEE_DES_DEUX_COTES)
     else ty)"

type_synonym cellule_bornes = "borne \<times> borne \<times> type_variable \<times> adresse option \<times> adresse option"

definition maj_bornes :: "contexte_bornes \<Rightarrow> place \<Rightarrow> cellule_bornes \<Rightarrow> cellule_bornes" where
  "maj_bornes b q x = (case x of (xmin, xmax, ty, optimisee, reduit) \<Rightarrow>
     (xmin_de b q, xmax_de b q, type_apres b q ty, adresse_de b q,
      if reduit_ecrit q then cout_reduit_de b q else reduit))"

definition cellule_bornes :: "etat_bornes \<Rightarrow> nat \<Rightarrow> cellule_bornes" where
  "cellule_bornes z i = (case z of (rs, p) \<Rightarrow>
     (Xmin p ! i, Xmax p ! i, TypeDeVariable p ! i, AdresseOuPlacerLaValeurDesVariablesOptimisees p ! i,
      AdresseOuPlacerLaValeurDesCoutsReduits p ! i))"

end
