(* ===== verification/Vector_Passes.thy ===== *)
theory Vector_Passes
  imports Antares_Prelude
begin

text \<open>
  Code that walks over the vectors of a nested structure and updates its elements in place, such as
  \<open>problemeHebdo->PaliersThermiquesDuPays[pays].PuissanceDisponibleEtCout[index].X[pdt] = ...\<close>. \<open>dans\<close> is the
  update of a field, \<open>modifier\<close> that of an element of a vector; both run a statement on the part alone. The
  locale \<open>champ\<close> is the contract of a field; it holds for every field of a record. The lemmas take a loop
  over such updates apart into the loops over the single elements, also when the hours are the outer loop.
\<close>

subsection \<open>Updating a part\<close>

definition dans :: "('a \<Rightarrow> 'b) \<Rightarrow> (('b \<Rightarrow> 'b) \<Rightarrow> 'a \<Rightarrow> 'a) \<Rightarrow> ('b \<Rightarrow> 'b resultat) \<Rightarrow> 'a \<Rightarrow> 'a resultat" where
  "dans get upd f a = bindE (f (get a)) (\<lambda>b. Inr (upd (\<lambda>_. b) a))"

definition modifier :: "nat \<Rightarrow> ('a \<Rightarrow> 'a resultat) \<Rightarrow> 'a list \<Rightarrow> 'a list resultat" where
  "modifier i f xs = bindE (lire xs i) (\<lambda>x. bindE (f x) (ecrire xs i))"

text \<open>A search that stops at the first success.\<close>

fun chercher :: "('a \<Rightarrow> bool resultat) \<Rightarrow> 'a list \<Rightarrow> bool resultat" where
  "chercher p [] = Inr False"
| "chercher p (x # xs) = bindE (p x) (\<lambda>b. if b then Inr True else chercher p xs)"

lemma chercher_ok: "(\<And>x. x \<in> set xs \<Longrightarrow> p x = Inr (q x)) \<Longrightarrow> chercher p xs = Inr (\<exists>x \<in> set xs. q x)"
  by (induction xs) auto

lemma modifier_ok: "i < length xs \<Longrightarrow> f (xs ! i) = Inr y \<Longrightarrow> modifier i f xs = Inr (xs[i := y])"
  by (simp add: modifier_def)

lemma modifier_forE:
  assumes "i < length xs"
  shows "forE ts (\<lambda>t. modifier i (f t)) xs = modifier i (forE ts f) xs"
  using assms
proof (induction ts arbitrary: xs)
  case Nil
  then show ?case by (simp add: modifier_def)
next
  case (Cons t ts)
  show ?case
  proof (cases "f t (xs ! i)")
    case (Inr y)
    then have "modifier i (f t) xs = Inr (xs[i := y])" using Cons.prems by (simp add: modifier_def)
    with Cons.IH [of "xs[i := y]"] Cons.prems Inr show ?thesis
      by (cases "forE ts f y") (simp_all add: modifier_def)
  qed (use Cons.prems in \<open>simp add: modifier_def\<close>)
qed

lemma modifier_length: "modifier i f xs = Inr ys \<Longrightarrow> length ys = length xs"
  by (cases "i < length xs"; cases "f (xs ! i)") (auto simp: modifier_def lire_out)

text \<open>Two bodies that agree on the states a loop goes through.\<close>

lemma forE_cong_inv:
  assumes "I s" and "\<And>x s. x \<in> set xs \<Longrightarrow> I s \<Longrightarrow> f x s = g x s"
    and "\<And>x s s'. x \<in> set xs \<Longrightarrow> I s \<Longrightarrow> g x s = Inr s' \<Longrightarrow> I s'"
  shows "forE xs f s = forE xs g s"
  using assms
proof (induction xs arbitrary: s)
  case (Cons x xs)
  show ?case
  proof (cases "g x s")
    case (Inr s')
    have "I s'" using Cons.prems(3) [of x s s'] Cons.prems(1) Inr by simp
    have "forE xs f s' = forE xs g s'"
    proof (rule Cons.IH [OF \<open>I s'\<close>])
      show "f y t = g y t" if "y \<in> set xs" "I t" for y t using Cons.prems(2) [of y t] that by simp
      show "I t'" if "y \<in> set xs" "I t" "g y t = Inr t'" for y t t' using Cons.prems(3) [of y t t'] that by simp
    qed
    then show ?thesis using Cons.prems Inr by simp
  qed (use Cons.prems in simp)
qed simp

lemma forE_inv:
  assumes "I s" and "\<And>x s s'. x \<in> set xs \<Longrightarrow> I s \<Longrightarrow> f x s = Inr s' \<Longrightarrow> I s'" and "forE xs f s = Inr s'"
  shows "I s'"
  using assms
proof (induction xs arbitrary: s)
  case (Cons x xs)
  then obtain s1 where s1: "f x s = Inr s1" "forE xs f s1 = Inr s'" by (cases "f x s") auto
  show ?case by (rule Cons.IH [OF _ _ s1(2)]) (use Cons.prems s1(1) in auto)
qed simp

text \<open>Every element once.\<close>

lemma forE_modifier:
  assumes "length xs = n" and "\<And>i. i < n \<Longrightarrow> f i (xs ! i) = Inr (g i)"
  shows "forE [0..<n] (\<lambda>i. modifier i (f i)) xs = Inr (map g [0..<n])"
proof -
  have "returns (forE [0..<n] (\<lambda>i. modifier i (f i)) xs) (\<lambda>ys. ys = map g [0..<n] @ drop n xs)"
  proof (rule returns_for_upt)
    fix k ys assume k: "k < n" and ys: "ys = map g [0..<k] @ drop k xs"
    have x: "drop k xs = xs ! k # drop (Suc k) xs"
      using k assms(1) by (simp add: Cons_nth_drop_Suc)
    have "modifier k (f k) ys = Inr (ys[k := g k])"
      using k assms ys by (intro modifier_ok) (simp_all add: nth_append)
    moreover have "ys[k := g k] = map g [0..<Suc k] @ drop (Suc k) xs"
      unfolding ys x by (simp add: list_update_append)
    ultimately show "returns (modifier k (f k) ys) (\<lambda>ys. ys = map g [0..<Suc k] @ drop (Suc k) xs)" by simp
  qed simp
  then show ?thesis using assms(1) by (auto elim: returnsE)
qed

text \<open>The loop over \<open>ts\<close> is the outer one.\<close>

lemma forE_forE_modifier:
  assumes "length xs = n" and "\<And>i. i < n \<Longrightarrow> forE ts (\<lambda>t. f t i) (xs ! i) = Inr (g i)"
  shows "forE ts (\<lambda>t. forE [0..<n] (\<lambda>i. modifier i (f t i))) xs = Inr (map g [0..<n])"
  using assms
proof (induction ts arbitrary: xs)
  case Nil
  then have "xs = map g [0..<n]" by (intro nth_equalityI) auto
  then show ?case by simp
next
  case (Cons t ts)
  define y where "y i = projr (f t i (xs ! i))" for i
  have y: "f t i (xs ! i) = Inr (y i) \<and> forE ts (\<lambda>t. f t i) (y i) = Inr (g i)" if "i < n" for i
    using Cons.prems(2) [OF that] by (cases "f t i (xs ! i)") (simp_all add: y_def)
  have "forE [0..<n] (\<lambda>i. modifier i (f t i)) xs = Inr (map y [0..<n])"
    by (rule forE_modifier) (use Cons.prems(1) y in auto)
  then show ?case using Cons.IH [of "map y [0..<n]"] y by simp
qed

text \<open>A vector, element after element, seen through the structure \<open>U\<close> it is in.\<close>

lemma forE_colonne:
  assumes "length b0 = n" and "\<And>t b. t < n \<Longrightarrow> length b = n \<Longrightarrow> f t (U b) = Inr (U (b[t := v t (b ! t)]))"
  shows "forE [0..<n] f (U b0) = Inr (U (map (\<lambda>t. v t (b0 ! t)) [0..<n]))"
proof -
  have "returns (forE [0..<n] f (U b0)) (\<lambda>x. x = U (map (\<lambda>t. v t (b0 ! t)) [0..<n] @ drop n b0))"
  proof (rule returns_for_upt)
    fix k x assume k: "k < n" and x: "x = U (map (\<lambda>t. v t (b0 ! t)) [0..<k] @ drop k b0)" (is "x = U ?b")
    have d: "drop k b0 = b0 ! k # drop (Suc k) b0" using k assms(1) by (simp add: Cons_nth_drop_Suc)
    have "f k x = Inr (U (?b[k := v k (?b ! k)]))" using k assms x by simp
    moreover have "?b[k := v k (?b ! k)] = map (\<lambda>t. v t (b0 ! t)) [0..<Suc k] @ drop (Suc k) b0"
      unfolding d by (simp add: list_update_append nth_append)
    ultimately show "returns (f k x) (\<lambda>x. x = U (map (\<lambda>t. v t (b0 ! t)) [0..<Suc k] @ drop (Suc k) b0))" by simp
  qed simp
  then show ?thesis using assms(1) by (auto elim: returnsE)
qed

subsection \<open>Fields\<close>

locale champ =
  fixes get :: "'a \<Rightarrow> 'b" and upd :: "('b \<Rightarrow> 'b) \<Rightarrow> 'a \<Rightarrow> 'a"
  assumes get_upd: "get (upd (\<lambda>_. b) a) = b"
    and upd_upd: "upd (\<lambda>_. c) (upd (\<lambda>_. b) a) = upd (\<lambda>_. c) a"
    and upd_get: "upd (\<lambda>_. get a) a = a"
begin

lemma dans_ok: "f (get a) = Inr b \<Longrightarrow> dans get upd f a = Inr (upd (\<lambda>_. b) a)"
  by (simp add: dans_def)

lemma dans_forE: "forE ts (\<lambda>t. dans get upd (f t)) a = dans get upd (forE ts f) a"
proof (induction ts arbitrary: a)
  case Nil
  then show ?case by (simp add: dans_def upd_get)
next
  case (Cons t ts)
  then show ?case
    by (cases "f t (get a)"; cases "forE ts f (projr (f t (get a)))") (simp_all add: dans_def get_upd upd_upd)
qed

end

text \<open>A field that is a vector.\<close>

locale champ_vecteur = champ get upd for get :: "'a \<Rightarrow> 'c list" and upd :: "('c list \<Rightarrow> 'c list) \<Rightarrow> 'a \<Rightarrow> 'a"
begin

lemma dans_forE_modifier:
  assumes "length (get a) = n" and "\<And>i. i < n \<Longrightarrow> f i (get a ! i) = Inr (g i)"
  shows "forE [0..<n] (\<lambda>i. dans get upd (modifier i (f i))) a = Inr (upd (\<lambda>_. map g [0..<n]) a)"
  unfolding dans_forE by (rule dans_ok, rule forE_modifier) (use assms in auto)

lemma dans_forE_forE_modifier:
  assumes "length (get a) = n" and "\<And>i. i < n \<Longrightarrow> forE ts (\<lambda>t. f t i) (get a ! i) = Inr (g i)"
  shows "forE ts (\<lambda>t. forE [0..<n] (\<lambda>i. dans get upd (modifier i (f t i)))) a = Inr (upd (\<lambda>_. map g [0..<n]) a)"
proof -
  have "forE [0..<n] (\<lambda>i. dans get upd (modifier i (f t i))) = dans get upd (forE [0..<n] (\<lambda>i. modifier i (f t i)))" for t
    by (rule ext) (rule dans_forE)
  then show ?thesis
    by (simp add: dans_forE) (rule dans_ok, rule forE_forE_modifier, use assms in auto)
qed

end

end
