(* ===== verification/Weekly_Results.thy ===== *)
theory Weekly_Results
  imports Bounds Vector_Passes
begin

text \<open>
  The results of a week as the solver call leaves them: what the pointers of the linear problem point to. The
  hourly results the passes also reset or read are the vectors of \<open>RESULTATS_HORAIRES\<close>; every other result is kept
  under its address. A pointer is valid when it points into the vectors that
  \<open>src/src/solver/simulation/sim_alloc_probleme_hebdo.cpp\<close> allocates; a write through any other pointer is an error.
\<close>

record RESULTATS =
  horaires :: "RESULTATS_HORAIRES list"
  memoire :: "adresse \<Rightarrow> real"

fun adresse_valide :: "PROBLEME_HEBDO \<Rightarrow> adresse \<Rightarrow> bool" where
  "adresse_valide h (ValeurDuFlux t l) \<longleftrightarrow> t < NombreDePasDeTemps h \<and> l < NombreDInterconnexions h"
| "adresse_valide h (VariableDualeParInterconnexion t l) \<longleftrightarrow> t < NombreDePasDeTemps h \<and> l < NombreDInterconnexions h"
| "adresse_valide h (ProductionThermiqueDuPalier pays t i) \<longleftrightarrow>
     pays < NombreDePays h \<and> t < NombreDePasDeTemps h \<and> i < nb_paliers h pays"
| "adresse_valide h (NombreDeGroupesEnMarcheDuPalier pays t i) \<longleftrightarrow>
     pays < NombreDePays h \<and> t < NombreDePasDeTemps h \<and> i < nb_paliers h pays"
| "adresse_valide h (NombreDeGroupesQuiDemarrentDuPalier pays t i) \<longleftrightarrow>
     pays < NombreDePays h \<and> t < NombreDePasDeTemps h \<and> i < nb_paliers h pays"
| "adresse_valide h (NombreDeGroupesQuiSArretentDuPalier pays t i) \<longleftrightarrow>
     pays < NombreDePays h \<and> t < NombreDePasDeTemps h \<and> i < nb_paliers h pays"
| "adresse_valide h (NombreDeGroupesQuiTombentEnPanneDuPalier pays t i) \<longleftrightarrow>
     pays < NombreDePays h \<and> t < NombreDePasDeTemps h \<and> i < nb_paliers h pays"
| "adresse_valide h (TurbinageHoraire_de pays t) \<longleftrightarrow> pays < NombreDePays h \<and> t < NombreDePasDeTemps h"
| "adresse_valide h (PompageHoraire_de pays t) \<longleftrightarrow> pays < NombreDePays h \<and> t < NombreDePasDeTemps h"
| "adresse_valide h (NiveauxHoraires_de pays t) \<longleftrightarrow> pays < NombreDePays h \<and> t < NombreDePasDeTemps h"
| "adresse_valide h (DefaillancePositive_de pays t) \<longleftrightarrow> pays < NombreDePays h \<and> t < NombreDePasDeTemps h"
| "adresse_valide h (DefaillanceNegative_de pays t) \<longleftrightarrow> pays < NombreDePays h \<and> t < NombreDePasDeTemps h"
| "adresse_valide h (STS_injection pays t k) \<longleftrightarrow>
     pays < NombreDePays h \<and> t < NombreDePasDeTemps h \<and> k < length (ShortTermStorage h ! pays)"
| "adresse_valide h (STS_withdrawal pays t k) \<longleftrightarrow>
     pays < NombreDePays h \<and> t < NombreDePasDeTemps h \<and> k < length (ShortTermStorage h ! pays)"
| "adresse_valide h (STS_level pays t k) \<longleftrightarrow>
     pays < NombreDePays h \<and> t < NombreDePasDeTemps h \<and> k < length (ShortTermStorage h ! pays)"
| "adresse_valide h (CoutsMarginauxHoraires_de pays t) \<longleftrightarrow> pays < NombreDePays h \<and> t < NombreDePasDeTemps h"
| "adresse_valide h (VariablesDuales_de c t) \<longleftrightarrow> c < NombreDeContraintesCouplantes h \<and>
     t < (case TypeDeContrainteCouplante (MatriceDesContraintesCouplantes h ! c) of
            CONTRAINTE_HORAIRE \<Rightarrow> NombreDePasDeTemps h | CONTRAINTE_JOURNALIERE \<Rightarrow> 7 | CONTRAINTE_HEBDOMADAIRE \<Rightarrow> 1)"

text \<open>The result at an address, and \<open>*pt = v\<close>.\<close>

fun contenu :: "RESULTATS \<Rightarrow> adresse \<Rightarrow> real" where
  "contenu R (DefaillancePositive_de pays t) = ValeursHorairesDeDefaillancePositive (horaires R ! pays) ! t"
| "contenu R (DefaillanceNegative_de pays t) = ValeursHorairesDeDefaillanceNegative (horaires R ! pays) ! t"
| "contenu R (PompageHoraire_de pays t) = PompageHoraire (horaires R ! pays) ! t"
| "contenu R (TurbinageHoraire_de pays t) = TurbinageHoraire (horaires R ! pays) ! t"
| "contenu R a = memoire R a"

definition sur_horaires :: "nat \<Rightarrow> (RESULTATS_HORAIRES \<Rightarrow> RESULTATS_HORAIRES resultat) \<Rightarrow> RESULTATS \<Rightarrow> RESULTATS resultat" where
  "sur_horaires pays f = dans horaires horaires_update (modifier pays f)"

fun ecrire_adresse :: "PROBLEME_HEBDO \<Rightarrow> adresse \<Rightarrow> real \<Rightarrow> RESULTATS \<Rightarrow> RESULTATS resultat" where
  "ecrire_adresse h (DefaillancePositive_de pays t) v = sur_horaires pays
     (dans ValeursHorairesDeDefaillancePositive ValeursHorairesDeDefaillancePositive_update (\<lambda>xs. ecrire xs t v))"
| "ecrire_adresse h (DefaillanceNegative_de pays t) v = sur_horaires pays
     (dans ValeursHorairesDeDefaillanceNegative ValeursHorairesDeDefaillanceNegative_update (\<lambda>xs. ecrire xs t v))"
| "ecrire_adresse h (PompageHoraire_de pays t) v = sur_horaires pays
     (dans PompageHoraire PompageHoraire_update (\<lambda>xs. ecrire xs t v))"
| "ecrire_adresse h (TurbinageHoraire_de pays t) v = sur_horaires pays
     (dans TurbinageHoraire TurbinageHoraire_update (\<lambda>xs. ecrire xs t v))"
| "ecrire_adresse h a v = (\<lambda>R.
     if adresse_valide h a then Inr (R\<lparr>memoire := (memoire R)(a := v)\<rparr>) else Inl IndexHorsBornes)"

text \<open>The results of the week keep their sizes; what no pointer points to is not changed.\<close>

definition resultats_semaine_ok :: "PROBLEME_HEBDO \<Rightarrow> RESULTATS \<Rightarrow> bool" where
  "resultats_semaine_ok h R \<longleftrightarrow> resultats_ok h (horaires R)"

text \<open>The four kinds of results that are vectors of \<open>RESULTATS_HORAIRES\<close>.\<close>

fun est_horaire :: "adresse \<Rightarrow> bool" where
  "est_horaire (DefaillancePositive_de pays t) \<longleftrightarrow> True"
| "est_horaire (DefaillanceNegative_de pays t) \<longleftrightarrow> True"
| "est_horaire (PompageHoraire_de pays t) \<longleftrightarrow> True"
| "est_horaire (TurbinageHoraire_de pays t) \<longleftrightarrow> True"
| "est_horaire _ \<longleftrightarrow> False"

lemma ecrire_adresse_memoire:
  "\<not> est_horaire a \<Longrightarrow> adresse_valide h a \<Longrightarrow> ecrire_adresse h a v R = Inr (R\<lparr>memoire := (memoire R)(a := v)\<rparr>)"
  "\<not> est_horaire a \<Longrightarrow> contenu (R\<lparr>memoire := (memoire R)(a := v)\<rparr>) c = (if c = a then v else contenu R c)"
  by (cases a; simp) (cases a; cases c; simp)

lemma ecrire_adresse_ok:
  assumes R: "resultats_semaine_ok h R" and a: "adresse_valide h a"
  obtains R' where "ecrire_adresse h a v R = Inr R'" and "resultats_semaine_ok h R'"
    and "map ValeursHorairesDENS (horaires R') = map ValeursHorairesDENS (horaires R)"
    and "\<And>c. adresse_valide h c \<Longrightarrow> contenu R' c = (if c = a then v else contenu R c)"
proof (cases "est_horaire a")
  case False
  show thesis
    by (rule that [OF ecrire_adresse_memoire(1) [OF False a]])
      (use R ecrire_adresse_memoire(2) [OF False] in \<open>auto simp: resultats_semaine_ok_def\<close>)
next
  case True
  note fini = that
  let ?T = "NombreDePasDeTemps h"
  have l: "length (horaires R) = NombreDePays h" and r: "\<And>pays. pays < NombreDePays h \<Longrightarrow> resultat_ok ?T (horaires R ! pays)"
    using R by (auto simp: resultats_semaine_ok_def resultats_ok_def)
  have une: thesis
    if e: "ecrire_adresse h a v = sur_horaires pays (dans get upd (\<lambda>xs. ecrire xs t v))"
      and p: "pays < NombreDePays h" "t < ?T" and g: "length (get (horaires R ! pays)) = ?T"
      and u: "\<And>xs. length xs = ?T \<Longrightarrow> resultat_ok ?T (upd (\<lambda>_. xs) (horaires R ! pays))"
        "\<And>xs. ValeursHorairesDENS (upd (\<lambda>_. xs) (horaires R ! pays)) = ValeursHorairesDENS (horaires R ! pays)"
      and c: "\<And>c. adresse_valide h c \<Longrightarrow> contenu (R\<lparr>horaires := (horaires R)[pays :=
        upd (\<lambda>_. (get (horaires R ! pays))[t := v]) (horaires R ! pays)]\<rparr>) c = (if c = a then v else contenu R c)"
    for pays t and get :: "RESULTATS_HORAIRES \<Rightarrow> real list" and upd
  proof (rule fini [of "R\<lparr>horaires := (horaires R)[pays := upd (\<lambda>_. (get (horaires R ! pays))[t := v]) (horaires R ! pays)]\<rparr>"])
    show "ecrire_adresse h a v R = Inr (R\<lparr>horaires := (horaires R)[pays := upd (\<lambda>_. (get (horaires R ! pays))[t := v]) (horaires R ! pays)]\<rparr>)"
      using p l g by (simp add: e sur_horaires_def dans_def modifier_def)
    show "resultats_semaine_ok h (R\<lparr>horaires := (horaires R)[pays := upd (\<lambda>_. (get (horaires R ! pays))[t := v]) (horaires R ! pays)]\<rparr>)"
      using R g u(1) set_update_subset_insert [of "horaires R" pays] by (fastforce simp: resultats_semaine_ok_def resultats_ok_def)
    show "map ValeursHorairesDENS (horaires (R\<lparr>horaires := (horaires R)[pays :=
        upd (\<lambda>_. (get (horaires R ! pays))[t := v]) (horaires R ! pays)]\<rparr>)) = map ValeursHorairesDENS (horaires R)"
      using p l by (simp add: map_update u(2)) (metis list_update_id nth_map)
  qed (rule c)
  from True consider pays t where "a = DefaillancePositive_de pays t" | pays t where "a = DefaillanceNegative_de pays t"
    | pays t where "a = PompageHoraire_de pays t" | pays t where "a = TurbinageHoraire_de pays t"
    by (cases a) auto
  then show thesis
  proof cases
    case (1 pays t)
    show thesis
      by (rule une [of pays ValeursHorairesDeDefaillancePositive ValeursHorairesDeDefaillancePositive_update t])
        (use 1 a l r [of pays] in \<open>simp_all add: resultat_ok_def, case_tac c, simp_all add: nth_list_update\<close>)
  next
    case (2 pays t)
    show thesis
      by (rule une [of pays ValeursHorairesDeDefaillanceNegative ValeursHorairesDeDefaillanceNegative_update t])
        (use 2 a l r [of pays] in \<open>simp_all add: resultat_ok_def, case_tac c, simp_all add: nth_list_update\<close>)
  next
    case (3 pays t)
    show thesis
      by (rule une [of pays PompageHoraire PompageHoraire_update t])
        (use 3 a l r [of pays] in \<open>simp_all add: resultat_ok_def, case_tac c, simp_all add: nth_list_update\<close>)
  next
    case (4 pays t)
    show thesis
      by (rule une [of pays TurbinageHoraire TurbinageHoraire_update t])
        (use 4 a l r [of pays] in \<open>simp_all add: resultat_ok_def, case_tac c, simp_all add: nth_list_update\<close>)
  qed
qed

end
