(* ===== verification/Solver_Call.thy ===== *)
theory Solver_Call
  imports Weekly_Results
begin

text \<open>
  The call of the solver on one range of the week: \<open>OPT_TryToCallSimplex\<close> and \<open>OPT_AppelDuSimplexe\<close> of
  \<open>src/src/solver/optimisation/opt_appel_solveur_lineaire.cpp\<close>. The solvers are libraries outside the repository:
  they are the parameter \<open>bibliotheque\<close>, a record of functions over a state of the library; the objects the library
  keeps are handles. What is modelled is which object is passed, when it is updated, released and kept, the second
  attempt, the fatal error, and where the values the solver found are placed. The export of the problem to files, the
  measured times and the analysis of an infeasible problem change nothing of this state and are left out.
\<close>

subsection \<open>The library\<close>

datatype existence_solution = OUI_SPX | NON_SPX | SPX_ERREUR_INTERNE

text \<open>One call: the problem, the object (none for the Sirius solver that builds its own), whether the basis of the
  object is used (\<open>BaseDeDepartFournie\<close>), the scaling (\<open>FaireDuScaling\<close>) and whether the basis found is kept.\<close>

record appel =
  appel_probleme :: PROBLEME_ANTARES_A_RESOUDRE
  appel_objet :: "nat option"
  BaseDeDepartFournie :: bool
  FaireDuScaling :: bool
  keepBasis :: bool

record reponse =
  reponse_existence :: existence_solution
  reponse_objet :: "nat option"
  reponse_X :: "real list"
  reponse_CoutsReduits :: "real list"
  reponse_CoutsMarginaux :: "real list"

record 'l bibliotheque =
  ConvertIfNeeded :: "PROBLEME_ANTARES_A_RESOUDRE \<Rightarrow> 'l \<Rightarrow> nat \<times> 'l"
  ModifierLeVecteurCouts :: "nat \<Rightarrow> PROBLEME_ANTARES_A_RESOUDRE \<Rightarrow> 'l \<Rightarrow> 'l"
  ModifierLeVecteurSecondMembre :: "nat \<Rightarrow> PROBLEME_ANTARES_A_RESOUDRE \<Rightarrow> 'l \<Rightarrow> 'l"
  CorrigerLesBornes :: "nat \<Rightarrow> PROBLEME_ANTARES_A_RESOUDRE \<Rightarrow> 'l \<Rightarrow> 'l"
  LibererProbleme :: "nat \<Rightarrow> 'l \<Rightarrow> 'l"
  Simplexe :: "appel \<Rightarrow> 'l \<Rightarrow> reponse \<times> 'l"

text \<open>The options that decide how the solver is called, and whether there is a second optimisation.\<close>

record options =
  useOrtools :: bool
  ReinitOptimisation :: bool
  Expansion :: bool

subsection \<open>The state of the week\<close>

record 'l SEMAINE =
  etat_de :: etat
  resultats_de :: RESULTATS
  ProblemesSpx :: "nat option list"
  ExistenceDUneSolution :: existence_solution
  ValeursX :: "real list"
  CoutsReduits :: "real list"
  CoutsMarginauxDesContraintes :: "real list"
  coutOptimalSolution1 :: "real list"
  coutOptimalSolution2 :: "real list"
  bib :: 'l

subsection \<open>One attempt\<close>

text \<open>The object to solve with: none at first and in the second attempt; released when every optimisation starts
  anew; updated otherwise.\<close>

definition preparer_objet ::
  "'l bibliotheque \<Rightarrow> options \<Rightarrow> nat \<Rightarrow> nat option \<Rightarrow> 'l SEMAINE \<Rightarrow> (nat option \<times> bool \<times> 'l SEMAINE) resultat" where
  "preparer_objet B op NumIntervalle objet w = (let p = ProblemeAResoudre (etat_de w) in
     case objet of
       None \<Rightarrow> Inr (None, False, w)
     | Some o' \<Rightarrow>
         if ReinitOptimisation op
         then bindE (ecrire (ProblemesSpx w) NumIntervalle None) (\<lambda>objets.
           Inr (None, False, w\<lparr>bib := LibererProbleme B o' (bib w), ProblemesSpx := objets\<rparr>))
         else let l = ModifierLeVecteurSecondMembre B o' p (ModifierLeVecteurCouts B o' p (bib w)) in
           Inr (Some o', True, w\<lparr>bib := if useOrtools op then CorrigerLesBornes B o' p l else l\<rparr>))"

definition convertir_objet ::
  "'l bibliotheque \<Rightarrow> options \<Rightarrow> nat option \<Rightarrow> 'l SEMAINE \<Rightarrow> nat option \<times> 'l SEMAINE" where
  "convertir_objet B op objet w =
     (case objet of
        None \<Rightarrow> if useOrtools op
          then (case ConvertIfNeeded B (ProblemeAResoudre (etat_de w)) (bib w) of (o', l) \<Rightarrow> (Some o', w\<lparr>bib := l\<rparr>))
          else (None, w)
      | Some o' \<Rightarrow> (Some o', w))"

text \<open>What is released after a failed first attempt: the object the solver answered; \<open>ProbSpx\<close> still holds the
  object of the week when OR-Tools answered none.\<close>

definition a_liberer :: "options \<Rightarrow> nat option \<Rightarrow> reponse \<Rightarrow> nat option" where
  "a_liberer op ProbSpx rep = (case reponse_objet rep of Some o' \<Rightarrow> Some o'
     | None \<Rightarrow> if useOrtools op then ProbSpx else None)"

definition OPT_TryToCallSimplex ::
  "'l bibliotheque \<Rightarrow> options \<Rightarrow> nat \<Rightarrow> numero_optimisation \<Rightarrow> bool \<Rightarrow> 'l SEMAINE \<Rightarrow> (bool \<times> 'l SEMAINE) resultat" where
  "OPT_TryToCallSimplex B op NumIntervalle opt PremierPassage w =
     bindE (lire (ProblemesSpx w) NumIntervalle) (\<lambda>objet.
     bindE (preparer_objet B op NumIntervalle (if PremierPassage then objet else None) w) (\<lambda>(ProbSpx, base, w).
     case convertir_objet B op ProbSpx w of (objet, w) \<Rightarrow>
     case Simplexe B \<lparr>appel_probleme = ProblemeAResoudre (etat_de w), appel_objet = objet, BaseDeDepartFournie = base,
         FaireDuScaling = PremierPassage, keepBasis = (opt = PREMIERE_OPTIMISATION)\<rparr> (bib w) of (rep, l) \<Rightarrow>
     let w = w\<lparr>bib := l, ValeursX := reponse_X rep, CoutsReduits := reponse_CoutsReduits rep,
         CoutsMarginauxDesContraintes := reponse_CoutsMarginaux rep, ExistenceDUneSolution := reponse_existence rep\<rparr> in
     bindE (case reponse_objet rep of None \<Rightarrow> Inr w
       | Some o' \<Rightarrow> bindE (ecrire (ProblemesSpx w) NumIntervalle (Some o')) (\<lambda>objets. Inr (w\<lparr>ProblemesSpx := objets\<rparr>))) (\<lambda>w.
     if ExistenceDUneSolution w \<noteq> OUI_SPX \<and> PremierPassage
     then if ExistenceDUneSolution w \<noteq> SPX_ERREUR_INTERNE
       then Inr (False, case a_liberer op ProbSpx rep of None \<Rightarrow> w | Some o' \<Rightarrow> w\<lparr>bib := LibererProbleme B o' (bib w)\<rparr>)
       else Inl (FatalError ''Internal error: insufficient memory'')
     else Inr (True, w))))"

subsection \<open>Placing the values\<close>

text \<open>\<open>if (pt != nullptr) *pt = v\<close>.\<close>

definition placer :: "PROBLEME_HEBDO \<Rightarrow> adresse option \<Rightarrow> real list \<Rightarrow> nat \<Rightarrow> RESULTATS \<Rightarrow> RESULTATS resultat" where
  "placer h pt vs i R = (case pt of None \<Rightarrow> Inr R | Some a \<Rightarrow> bindE (lire vs i) (\<lambda>v. ecrire_adresse h a v R))"

definition placer_variable ::
  "PROBLEME_HEBDO \<Rightarrow> 'l SEMAINE \<Rightarrow> nat \<Rightarrow> real \<times> RESULTATS \<Rightarrow> (real \<times> RESULTATS) resultat" where
  "placer_variable h w i z = (case z of (CoutOpt, R) \<Rightarrow> let p = ProblemeAResoudre (etat_de w) in
     bindE (lire (CoutLineaire p) i) (\<lambda>c.
     bindE (lire (ValeursX w) i) (\<lambda>x.
     bindE (lire (AdresseOuPlacerLaValeurDesVariablesOptimisees p) i) (\<lambda>pt.
     bindE (placer h pt (ValeursX w) i R) (\<lambda>R.
     bindE (lire (AdresseOuPlacerLaValeurDesCoutsReduits p) i) (\<lambda>pt.
     bindE (placer h pt (CoutsReduits w) i R) (\<lambda>R.
     Inr (CoutOpt + c * x, R))))))))"

definition placer_marginal :: "PROBLEME_HEBDO \<Rightarrow> 'l SEMAINE \<Rightarrow> nat \<Rightarrow> RESULTATS \<Rightarrow> RESULTATS resultat" where
  "placer_marginal h w Cnt R =
     bindE (lire (AdresseOuPlacerLaValeurDesCoutsMarginaux (ProblemeAResoudre (etat_de w))) Cnt) (\<lambda>pt.
     placer h pt (CoutsMarginauxDesContraintes w) Cnt R)"

definition noter_cout :: "nat \<Rightarrow> numero_optimisation \<Rightarrow> real \<Rightarrow> 'l SEMAINE \<Rightarrow> 'l SEMAINE resultat" where
  "noter_cout NumIntervalle opt CoutOpt w =
     (if opt = PREMIERE_OPTIMISATION
      then bindE (ecrire (coutOptimalSolution1 w) NumIntervalle CoutOpt) (\<lambda>cs. Inr (w\<lparr>coutOptimalSolution1 := cs\<rparr>))
      else bindE (ecrire (coutOptimalSolution2 w) NumIntervalle CoutOpt) (\<lambda>cs. Inr (w\<lparr>coutOptimalSolution2 := cs\<rparr>)))"

definition placer_resultats ::
  "PROBLEME_HEBDO \<Rightarrow> nat \<Rightarrow> numero_optimisation \<Rightarrow> 'l SEMAINE \<Rightarrow> 'l SEMAINE resultat" where
  "placer_resultats h NumIntervalle opt w = (let p = ProblemeAResoudre (etat_de w) in
     bindE (forE [0..<NombreDeVariables p] (placer_variable h w) (0, resultats_de w)) (\<lambda>(CoutOpt, R).
     bindE (noter_cout NumIntervalle opt CoutOpt w) (\<lambda>w.
     bindE (forE [0..<NombreDeContraintes p] (placer_marginal h w) R) (\<lambda>R.
     Inr (w\<lparr>resultats_de := R\<rparr>)))))"

definition OPT_AppelDuSimplexe ::
  "'l bibliotheque \<Rightarrow> options \<Rightarrow> PROBLEME_HEBDO \<Rightarrow> nat \<Rightarrow> numero_optimisation \<Rightarrow> 'l SEMAINE \<Rightarrow>
     (bool \<times> 'l SEMAINE) resultat" where
  "OPT_AppelDuSimplexe B op h NumIntervalle opt w =
     bindE (OPT_TryToCallSimplex B op NumIntervalle opt True w) (\<lambda>(succes, w).
     bindE (if succes then Inr w
       else bindE (OPT_TryToCallSimplex B op NumIntervalle opt False w) (\<lambda>(succes, w). Inr w)) (\<lambda>w.
     if ExistenceDUneSolution w = OUI_SPX
     then bindE (placer_resultats h NumIntervalle opt w) (\<lambda>w. Inr (True, w))
     else Inr (False, w)))"


subsection \<open>A list of writes\<close>

definition ecritures :: "(adresse \<times> real) list \<Rightarrow> (adresse \<Rightarrow> real) \<Rightarrow> adresse \<Rightarrow> real" where
  "ecritures ws m = foldl (\<lambda>m (a, v). m(a := v)) m ws"

lemma ecritures_simps [simp]:
  "ecritures [] m = m" "ecritures ((a, v) # ws) m = ecritures ws (m(a := v))"
  "ecritures (ws @ vs) m = ecritures vs (ecritures ws m)"
  by (simp_all add: ecritures_def)

lemma ecritures_hors: "a \<notin> fst ` set ws \<Longrightarrow> ecritures ws m a = m a"
  by (induction ws arbitrary: m) auto

lemma ecritures_dans: "distinct (map fst ws) \<Longrightarrow> (a, v) \<in> set ws \<Longrightarrow> ecritures ws m a = v"
proof (induction ws arbitrary: m)
  case (Cons w ws)
  then show ?case by (cases w) (auto simp: ecritures_hors)
qed simp

text \<open>What a place of the problem writes: nothing through a null pointer.\<close>

definition ecriture :: "adresse option \<Rightarrow> real \<Rightarrow> (adresse \<times> real) list" where
  "ecriture pt v = (case pt of None \<Rightarrow> [] | Some a \<Rightarrow> [(a, v)])"

lemma ecriture_simps [simp]: "ecriture None v = []" "ecriture (Some a) v = [(a, v)]"
  by (simp_all add: ecriture_def)

definition ecritures_variables :: "'l SEMAINE \<Rightarrow> nat list \<Rightarrow> (adresse \<times> real) list" where
  "ecritures_variables w is = concat (map (\<lambda>i. let p = ProblemeAResoudre (etat_de w) in
     ecriture (AdresseOuPlacerLaValeurDesVariablesOptimisees p ! i) (ValeursX w ! i) @
     ecriture (AdresseOuPlacerLaValeurDesCoutsReduits p ! i) (CoutsReduits w ! i)) is)"

definition ecritures_marginaux :: "'l SEMAINE \<Rightarrow> nat list \<Rightarrow> (adresse \<times> real) list" where
  "ecritures_marginaux w is = concat (map (\<lambda>i. ecriture
     (AdresseOuPlacerLaValeurDesCoutsMarginaux (ProblemeAResoudre (etat_de w)) ! i) (CoutsMarginauxDesContraintes w ! i)) is)"

lemma ecritures_variables_dans:
  assumes "k \<in> set is"
  shows "AdresseOuPlacerLaValeurDesVariablesOptimisees (ProblemeAResoudre (etat_de w)) ! k = Some a \<Longrightarrow>
      (a, ValeursX w ! k) \<in> set (ecritures_variables w is)"
    and "AdresseOuPlacerLaValeurDesCoutsReduits (ProblemeAResoudre (etat_de w)) ! k = Some a \<Longrightarrow>
      (a, CoutsReduits w ! k) \<in> set (ecritures_variables w is)"
    and "AdresseOuPlacerLaValeurDesCoutsMarginaux (ProblemeAResoudre (etat_de w)) ! k = Some a \<Longrightarrow>
      (a, CoutsMarginauxDesContraintes w ! k) \<in> set (ecritures_marginaux w is)"
  using assms by (auto simp: ecritures_variables_def ecritures_marginaux_def Let_def intro!: bexI [of _ k])

text \<open>The results differ from those before by these writes.\<close>

definition ecrits :: "PROBLEME_HEBDO \<Rightarrow> RESULTATS \<Rightarrow> (adresse \<times> real) list \<Rightarrow> RESULTATS \<Rightarrow> bool" where
  "ecrits h R ws R' \<longleftrightarrow> resultats_semaine_ok h R' \<and>
     map ValeursHorairesDENS (horaires R') = map ValeursHorairesDENS (horaires R) \<and>
     (\<forall>c. adresse_valide h c \<longrightarrow> contenu R' c = ecritures ws (contenu R) c)"

lemma ecritures_cong: "m c = n c \<Longrightarrow> ecritures ws m c = ecritures ws n c"
proof (induction ws arbitrary: m n)
  case (Cons w ws)
  obtain a v where "w = (a, v)" by (cases w)
  moreover have "ecritures ws (m(a := v)) c = ecritures ws (n(a := v)) c"
    by (rule Cons.IH) (simp add: Cons.prems)
  ultimately show ?case by simp
qed simp

lemma ecrits_suite:
  assumes "ecrits h R ws R'" and "ecrits h R' vs R''"
  shows "ecrits h R (ws @ vs) R''"
proof -
  have "contenu R'' c = ecritures (ws @ vs) (contenu R) c" if "adresse_valide h c" for c
    using assms ecritures_cong [of "contenu R'" c "ecritures ws (contenu R)" vs] that
    by (simp add: ecrits_def)
  then show ?thesis using assms by (simp add: ecrits_def)
qed

lemma placer_ok:
  assumes R: "resultats_semaine_ok h R" and a: "\<forall>a. pt = Some a \<longrightarrow> adresse_valide h a \<and> i < length vs"
  shows "returns (placer h pt vs i R) (ecrits h R (ecriture pt (vs ! i)))"
proof (cases pt)
  case None
  then show ?thesis using R by (simp add: placer_def ecrits_def)
next
  case (Some a)
  obtain R' where "ecrire_adresse h a (vs ! i) R = Inr R'" "resultats_semaine_ok h R'"
    "map ValeursHorairesDENS (horaires R') = map ValeursHorairesDENS (horaires R)"
    "\<And>c. adresse_valide h c \<Longrightarrow> contenu R' c = (if c = a then vs ! i else contenu R c)"
    by (rule ecrire_adresse_ok [OF R, of a "vs ! i"]) (use assms Some in auto)
  then show ?thesis using Some a by (simp add: placer_def ecrits_def)
qed

text \<open>The vectors are long enough, and every pointer of the problem is valid.\<close>

definition pointeurs_ok :: "PROBLEME_HEBDO \<Rightarrow> PROBLEME_ANTARES_A_RESOUDRE \<Rightarrow> bool" where
  "pointeurs_ok h p \<longleftrightarrow> NombreDeVariables p \<le> length (CoutLineaire p) \<and>
     NombreDeVariables p \<le> length (AdresseOuPlacerLaValeurDesVariablesOptimisees p) \<and>
     NombreDeVariables p \<le> length (AdresseOuPlacerLaValeurDesCoutsReduits p) \<and>
     NombreDeContraintes p \<le> length (AdresseOuPlacerLaValeurDesCoutsMarginaux p) \<and>
     (\<forall>i < NombreDeVariables p. \<forall>a. Some a \<in> {AdresseOuPlacerLaValeurDesVariablesOptimisees p ! i,
        AdresseOuPlacerLaValeurDesCoutsReduits p ! i} \<longrightarrow> adresse_valide h a) \<and>
     (\<forall>i < NombreDeContraintes p. \<forall>a. AdresseOuPlacerLaValeurDesCoutsMarginaux p ! i = Some a \<longrightarrow> adresse_valide h a)"

definition solution_lisible :: "PROBLEME_ANTARES_A_RESOUDRE \<Rightarrow> real list \<Rightarrow> real list \<Rightarrow> real list \<Rightarrow> bool" where
  "solution_lisible p xs rs ms \<longleftrightarrow> NombreDeVariables p \<le> length xs \<and> NombreDeVariables p \<le> length rs \<and>
     NombreDeContraintes p \<le> length ms"

definition cout_de_solution :: "PROBLEME_ANTARES_A_RESOUDRE \<Rightarrow> real list \<Rightarrow> real" where
  "cout_de_solution p xs = (\<Sum>i < NombreDeVariables p. CoutLineaire p ! i * xs ! i)"

lemma placer_variables_ok:
  fixes w :: "'l SEMAINE"
  defines "p \<equiv> ProblemeAResoudre (etat_de w)"
  assumes P: "pointeurs_ok h p" and L: "solution_lisible p (ValeursX w) (CoutsReduits w) (CoutsMarginauxDesContraintes w)"
    and R: "resultats_semaine_ok h R"
  shows "returns (forE [0..<NombreDeVariables p] (placer_variable h w) (0, R)) (\<lambda>(CoutOpt, R').
    CoutOpt = cout_de_solution p (ValeursX w) \<and> ecrits h R (ecritures_variables w [0..<NombreDeVariables p]) R')"
proof -
  have "returns (forE [0..<NombreDeVariables p] (placer_variable h w) (0, R)) (\<lambda>(CoutOpt, R').
    CoutOpt = (\<Sum>i < NombreDeVariables p. CoutLineaire p ! i * ValeursX w ! i) \<and>
    ecrits h R (ecritures_variables w [0..<NombreDeVariables p]) R')"
  proof (rule returns_for_upt [where I = "\<lambda>n (CoutOpt, R'). CoutOpt = (\<Sum>i < n. CoutLineaire p ! i * ValeursX w ! i) \<and>
      ecrits h R (ecritures_variables w [0..<n]) R'"])
    show "case (0, R) of (CoutOpt, R') \<Rightarrow> CoutOpt = (\<Sum>i < 0. CoutLineaire p ! i * ValeursX w ! i) \<and>
        ecrits h R (ecritures_variables w [0..<0]) R'"
      using R by (simp add: ecrits_def ecritures_variables_def)
    fix k and z :: "real \<times> RESULTATS"
    assume k: "k < NombreDeVariables p" and z: "case z of (CoutOpt, R') \<Rightarrow>
      CoutOpt = (\<Sum>i < k. CoutLineaire p ! i * ValeursX w ! i) \<and> ecrits h R (ecritures_variables w [0..<k]) R'"
    obtain c R1 where z': "z = (c, R1)" "c = (\<Sum>i < k. CoutLineaire p ! i * ValeursX w ! i)"
      "ecrits h R (ecritures_variables w [0..<k]) R1" using z by (cases z) auto
    have l: "k < length (CoutLineaire p)" "k < length (AdresseOuPlacerLaValeurDesVariablesOptimisees p)"
      "k < length (AdresseOuPlacerLaValeurDesCoutsReduits p)" "k < length (ValeursX w)" "k < length (CoutsReduits w)"
      using P L k by (auto simp: pointeurs_ok_def solution_lisible_def)
    have a: "\<forall>a. AdresseOuPlacerLaValeurDesVariablesOptimisees p ! k = Some a \<longrightarrow> adresse_valide h a \<and> k < length (ValeursX w)"
      "\<forall>a. AdresseOuPlacerLaValeurDesCoutsReduits p ! k = Some a \<longrightarrow> adresse_valide h a \<and> k < length (CoutsReduits w)"
      using P k l by (auto simp: pointeurs_ok_def)
    have "returns (placer h (AdresseOuPlacerLaValeurDesVariablesOptimisees p ! k) (ValeursX w) k R1) (\<lambda>R2.
      returns (placer h (AdresseOuPlacerLaValeurDesCoutsReduits p ! k) (CoutsReduits w) k R2)
        (\<lambda>R3. ecrits h R (ecritures_variables w [0..<Suc k]) R3))"
    proof (rule returns_mono [OF placer_ok [OF _ a(1)]])
      show "resultats_semaine_ok h R1" using z'(3) by (simp add: ecrits_def)
      fix R2 assume R2: "ecrits h R1 (ecriture (AdresseOuPlacerLaValeurDesVariablesOptimisees p ! k) (ValeursX w ! k)) R2"
      show "returns (placer h (AdresseOuPlacerLaValeurDesCoutsReduits p ! k) (CoutsReduits w) k R2)
        (\<lambda>R3. ecrits h R (ecritures_variables w [0..<Suc k]) R3)"
      proof (rule returns_mono [OF placer_ok [OF _ a(2)]])
        show "resultats_semaine_ok h R2" using R2 by (simp add: ecrits_def)
        fix R3 assume R3: "ecrits h R2 (ecriture (AdresseOuPlacerLaValeurDesCoutsReduits p ! k) (CoutsReduits w ! k)) R3"
        from ecrits_suite [OF z'(3) ecrits_suite [OF R2 R3]]
        show "ecrits h R (ecritures_variables w [0..<Suc k]) R3"
          by (simp add: ecritures_variables_def Let_def p_def)
      qed
    qed
    with l show "returns (placer_variable h w k z) (\<lambda>(CoutOpt, R').
      CoutOpt = (\<Sum>i < Suc k. CoutLineaire p ! i * ValeursX w ! i) \<and> ecrits h R (ecritures_variables w [0..<Suc k]) R')"
      by (simp add: placer_variable_def z' p_def [symmetric] Let_def)
  qed
  then show ?thesis by (simp add: cout_de_solution_def)
qed

lemma placer_marginaux_ok:
  fixes w :: "'l SEMAINE"
  defines "p \<equiv> ProblemeAResoudre (etat_de w)"
  assumes P: "pointeurs_ok h p" and L: "solution_lisible p (ValeursX w) (CoutsReduits w) (CoutsMarginauxDesContraintes w)"
    and R: "resultats_semaine_ok h R"
  shows "returns (forE [0..<NombreDeContraintes p] (placer_marginal h w) R)
    (ecrits h R (ecritures_marginaux w [0..<NombreDeContraintes p]))"
proof (rule returns_for_upt)
  show "ecrits h R (ecritures_marginaux w [0..<0]) R"
    using R by (simp add: ecrits_def ecritures_marginaux_def)
  fix k R1 assume k: "k < NombreDeContraintes p" and R1: "ecrits h R (ecritures_marginaux w [0..<k]) R1"
  have l: "k < length (AdresseOuPlacerLaValeurDesCoutsMarginaux p)" "k < length (CoutsMarginauxDesContraintes w)"
    using P L k by (auto simp: pointeurs_ok_def solution_lisible_def)
  have "returns (placer h (AdresseOuPlacerLaValeurDesCoutsMarginaux p ! k) (CoutsMarginauxDesContraintes w) k R1)
      (ecrits h R (ecritures_marginaux w [0..<Suc k]))"
  proof (rule returns_mono [OF placer_ok])
    show "resultats_semaine_ok h R1" using R1 by (simp add: ecrits_def)
    show "\<forall>a. AdresseOuPlacerLaValeurDesCoutsMarginaux p ! k = Some a \<longrightarrow>
        adresse_valide h a \<and> k < length (CoutsMarginauxDesContraintes w)"
      using P k l by (auto simp: pointeurs_ok_def)
    fix R2 assume "ecrits h R1 (ecriture (AdresseOuPlacerLaValeurDesCoutsMarginaux p ! k) (CoutsMarginauxDesContraintes w ! k)) R2"
    from ecrits_suite [OF R1 this] show "ecrits h R (ecritures_marginaux w [0..<Suc k]) R2"
      by (simp add: ecritures_marginaux_def p_def)
  qed
  then show "returns (placer_marginal h w k R1) (ecrits h R (ecritures_marginaux w [0..<Suc k]))"
    using l by (simp add: placer_marginal_def p_def [symmetric])
qed


subsection \<open>The call\<close>

text \<open>What the code relies on: on the problems of \<open>Q\<close> the library has memory enough, and fills the vectors it is
  given.\<close>

definition solveur_ok :: "'l bibliotheque \<Rightarrow> (PROBLEME_ANTARES_A_RESOUDRE \<Rightarrow> bool) \<Rightarrow> bool" where
  "solveur_ok B Q \<longleftrightarrow> (\<forall>ap l. Q (appel_probleme ap) \<longrightarrow> (let rep = fst (Simplexe B ap l) in
     reponse_existence rep \<noteq> SPX_ERREUR_INTERNE \<and>
     solution_lisible (appel_probleme ap) (reponse_X rep) (reponse_CoutsReduits rep) (reponse_CoutsMarginaux rep)))"

text \<open>What an attempt keeps.\<close>

definition tentee :: "'l SEMAINE \<Rightarrow> 'l SEMAINE \<Rightarrow> bool" where
  "tentee w w' \<longleftrightarrow> etat_de w' = etat_de w \<and> resultats_de w' = resultats_de w \<and>
     length (ProblemesSpx w') = length (ProblemesSpx w) \<and> coutOptimalSolution1 w' = coutOptimalSolution1 w \<and>
     coutOptimalSolution2 w' = coutOptimalSolution2 w"

lemma tentee_trans: "tentee w w' \<Longrightarrow> tentee w' w'' \<Longrightarrow> tentee w w''"
  by (simp add: tentee_def)

lemma preparer_objet_ok:
  assumes "n < length (ProblemesSpx w)"
  shows "returns (preparer_objet B op n objet w) (\<lambda>(objet', base, w'). tentee w w')"
  using assms by (cases objet) (simp_all add: preparer_objet_def tentee_def Let_def)

lemma convertir_objet_ok: "tentee w (snd (convertir_objet B op objet w))"
  by (cases objet) (simp_all add: convertir_objet_def tentee_def split: prod.split)

lemma OPT_TryToCallSimplex_ok:
  fixes w :: "'l SEMAINE"
  assumes n: "n < length (ProblemesSpx w)" and S: "solveur_ok B Q" and Q: "Q (ProblemeAResoudre (etat_de w))"
  shows "returns (OPT_TryToCallSimplex B op n opt premier w) (\<lambda>(succes, w'). tentee w w' \<and>
    solution_lisible (ProblemeAResoudre (etat_de w)) (ValeursX w') (CoutsReduits w') (CoutsMarginauxDesContraintes w') \<and>
    (succes \<longleftrightarrow> \<not> premier \<or> ExistenceDUneSolution w' = OUI_SPX))"
  unfolding OPT_TryToCallSimplex_def returns_bindE lire_in [OF n] returns_Inr
proof (rule returns_mono [OF preparer_objet_ok [OF n]])
  fix z :: "nat option \<times> bool \<times> 'l SEMAINE"
  assume z: "case z of (objet', base, w') \<Rightarrow> tentee w w'"
  obtain objet1 base w1 where z1: "z = (objet1, base, w1)" by (cases z)
  obtain objet2 w2 where c: "convertir_objet B op objet1 w1 = (objet2, w2)" by (cases "convertir_objet B op objet1 w1")
  have t: "tentee w w2" using tentee_trans [of w w1 w2] convertir_objet_ok [of w1 B op objet1] z c by (simp add: z1)
  let ?ap = "\<lparr>appel_probleme = ProblemeAResoudre (etat_de w2), appel_objet = objet2, BaseDeDepartFournie = base,
         FaireDuScaling = premier, keepBasis = (opt = PREMIERE_OPTIMISATION)\<rparr>"
  obtain rep l where s: "Simplexe B ?ap (bib w2) = (rep, l)" by (cases "Simplexe B ?ap (bib w2)")
  have p: "ProblemeAResoudre (etat_de w2) = ProblemeAResoudre (etat_de w)" using t by (simp add: tentee_def)
  have e: "reponse_existence rep \<noteq> SPX_ERREUR_INTERNE"
    "solution_lisible (ProblemeAResoudre (etat_de w)) (reponse_X rep) (reponse_CoutsReduits rep) (reponse_CoutsMarginaux rep)"
    using S [unfolded solveur_ok_def, rule_format, of ?ap "bib w2"] Q s by (simp_all add: p Let_def)
  show "returns (case z of (ProbSpx, base, w) \<Rightarrow>
     case convertir_objet B op ProbSpx w of (objet, w) \<Rightarrow>
     case Simplexe B \<lparr>appel_probleme = ProblemeAResoudre (etat_de w), appel_objet = objet, BaseDeDepartFournie = base,
         FaireDuScaling = premier, keepBasis = (opt = PREMIERE_OPTIMISATION)\<rparr> (bib w) of (rep, l) \<Rightarrow>
     let w = w\<lparr>bib := l, ValeursX := reponse_X rep, CoutsReduits := reponse_CoutsReduits rep,
         CoutsMarginauxDesContraintes := reponse_CoutsMarginaux rep, ExistenceDUneSolution := reponse_existence rep\<rparr> in
     bindE (case reponse_objet rep of None \<Rightarrow> Inr w
       | Some o' \<Rightarrow> bindE (ecrire (ProblemesSpx w) n (Some o')) (\<lambda>objets. Inr (w\<lparr>ProblemesSpx := objets\<rparr>))) (\<lambda>w.
     if ExistenceDUneSolution w \<noteq> OUI_SPX \<and> premier
     then if ExistenceDUneSolution w \<noteq> SPX_ERREUR_INTERNE
       then Inr (False, case a_liberer op ProbSpx rep of None \<Rightarrow> w | Some o' \<Rightarrow> w\<lparr>bib := LibererProbleme B o' (bib w)\<rparr>)
       else Inl (FatalError ''Internal error: insufficient memory'')
     else Inr (True, w)))
    (\<lambda>(succes, w'). tentee w w' \<and>
    solution_lisible (ProblemeAResoudre (etat_de w)) (ValeursX w') (CoutsReduits w') (CoutsMarginauxDesContraintes w') \<and>
    (succes \<longleftrightarrow> \<not> premier \<or> ExistenceDUneSolution w' = OUI_SPX))"
  proof -
    have n2: "n < length (ProblemesSpx w2)" using n t by (simp add: tentee_def)
    show ?thesis
    proof (cases "reponse_objet rep")
      case None
      then show ?thesis using t e
        by (cases "a_liberer op objet1 rep") (simp_all add: z1 c s [unfolded p] p tentee_def Let_def)
    next
      case (Some o1)
      then show ?thesis using t e n2
        by (cases "a_liberer op objet1 rep") (simp_all add: z1 c s [unfolded p] p tentee_def Let_def)
    qed
  qed
qed

text \<open>When memory runs out in the first attempt the program stops with the fatal error.\<close>

lemma OPT_TryToCallSimplex_memoire:
  assumes n: "n < length (ProblemesSpx w)" and S: "\<And>ap l. reponse_existence (fst (Simplexe B ap l)) = SPX_ERREUR_INTERNE"
  shows "OPT_TryToCallSimplex B op n opt True w = Inl (FatalError ''Internal error: insufficient memory'')"
proof -
  obtain objet1 base w1 where z: "preparer_objet B op n (ProblemesSpx w ! n) w = Inr (objet1, base, w1)" "tentee w w1"
    using preparer_objet_ok [OF n, of B op "ProblemesSpx w ! n"] by (auto elim!: returnsE)
  obtain objet2 w2 where c: "convertir_objet B op objet1 w1 = (objet2, w2)" by (cases "convertir_objet B op objet1 w1")
  have t: "tentee w w2" using tentee_trans [OF z(2), of w2] convertir_objet_ok [of w1 B op objet1] by (simp add: c)
  let ?ap = "\<lparr>appel_probleme = ProblemeAResoudre (etat_de w2), appel_objet = objet2, BaseDeDepartFournie = base,
         FaireDuScaling = True, keepBasis = (opt = PREMIERE_OPTIMISATION)\<rparr>"
  obtain rep l where s: "Simplexe B ?ap (bib w2) = (rep, l)" by (cases "Simplexe B ?ap (bib w2)")
  have "reponse_existence rep = SPX_ERREUR_INTERNE" using S [of ?ap "bib w2"] s by simp
  moreover have "n < length (ProblemesSpx w2)" using n t by (simp add: tentee_def)
  ultimately show ?thesis
    using n by (cases "reponse_objet rep") (simp_all add: OPT_TryToCallSimplex_def z(1) c s Let_def)
qed

text \<open>What a call leaves: either the values of a solution at the addresses of the problem, and its cost, or the
  results as they were.\<close>

definition cout_note :: "numero_optimisation \<Rightarrow> 'l SEMAINE \<Rightarrow> real list" where
  "cout_note opt w = (if opt = PREMIERE_OPTIMISATION then coutOptimalSolution1 w else coutOptimalSolution2 w)"

definition ecritures_appel :: "'l SEMAINE \<Rightarrow> (adresse \<times> real) list" where
  "ecritures_appel w = ecritures_variables w [0..<NombreDeVariables (ProblemeAResoudre (etat_de w))] @
     ecritures_marginaux w [0..<NombreDeContraintes (ProblemeAResoudre (etat_de w))]"

definition appel_fait ::
  "PROBLEME_HEBDO \<Rightarrow> nat \<Rightarrow> numero_optimisation \<Rightarrow> 'l SEMAINE \<Rightarrow> bool \<Rightarrow> 'l SEMAINE \<Rightarrow> bool" where
  "appel_fait h n opt w succes w' \<longleftrightarrow> etat_de w' = etat_de w \<and> length (ProblemesSpx w') = length (ProblemesSpx w) \<and>
     length (coutOptimalSolution1 w') = length (coutOptimalSolution1 w) \<and>
     length (coutOptimalSolution2 w') = length (coutOptimalSolution2 w) \<and>
     resultats_semaine_ok h (resultats_de w') \<and>
     map ValeursHorairesDENS (horaires (resultats_de w')) = map ValeursHorairesDENS (horaires (resultats_de w)) \<and>
     (succes \<longleftrightarrow> ExistenceDUneSolution w' = OUI_SPX) \<and>
     (succes \<longrightarrow> solution_lisible (ProblemeAResoudre (etat_de w)) (ValeursX w') (CoutsReduits w') (CoutsMarginauxDesContraintes w') \<and>
        cout_note opt w' = (cout_note opt w)[n := cout_de_solution (ProblemeAResoudre (etat_de w)) (ValeursX w')] \<and>
        ecrits h (resultats_de w) (ecritures_appel w') (resultats_de w')) \<and>
     (\<not> succes \<longrightarrow> resultats_de w' = resultats_de w \<and> cout_note opt w' = cout_note opt w)"

lemma ecritures_noter:
  "ecritures_variables (w\<lparr>coutOptimalSolution1 := c1\<rparr>) = ecritures_variables w"
  "ecritures_variables (w\<lparr>coutOptimalSolution2 := c1\<rparr>) = ecritures_variables w"
  "ecritures_variables (w\<lparr>resultats_de := R\<rparr>) = ecritures_variables w"
  "ecritures_marginaux (w\<lparr>coutOptimalSolution1 := c1\<rparr>) = ecritures_marginaux w"
  "ecritures_marginaux (w\<lparr>coutOptimalSolution2 := c1\<rparr>) = ecritures_marginaux w"
  "ecritures_marginaux (w\<lparr>resultats_de := R\<rparr>) = ecritures_marginaux w"
  by (simp_all add: ecritures_variables_def [abs_def] ecritures_marginaux_def [abs_def])

lemma placer_marginal_noter:
  "placer_marginal h (w\<lparr>coutOptimalSolution1 := c1\<rparr>) = placer_marginal h w"
  "placer_marginal h (w\<lparr>coutOptimalSolution2 := c1\<rparr>) = placer_marginal h w"
  by (simp_all add: placer_marginal_def [abs_def])

lemma placer_resultats_ok:
  fixes w :: "'l SEMAINE"
  defines "p \<equiv> ProblemeAResoudre (etat_de w)"
  assumes P: "pointeurs_ok h p" and L: "solution_lisible p (ValeursX w) (CoutsReduits w) (CoutsMarginauxDesContraintes w)"
    and R: "resultats_semaine_ok h (resultats_de w)" and n: "n < length (coutOptimalSolution1 w)" "n < length (coutOptimalSolution2 w)"
    and e: "ExistenceDUneSolution w = OUI_SPX"
  shows "returns (placer_resultats h n opt w) (appel_fait h n opt w True)"
  unfolding placer_resultats_def returns_bindE Let_def p_def [symmetric]
proof (rule returns_mono [OF placer_variables_ok [OF P [unfolded p_def] L [unfolded p_def] R, folded p_def]])
  fix z assume z: "case z of (CoutOpt, R') \<Rightarrow> CoutOpt = cout_de_solution p (ValeursX w) \<and>
    ecrits h (resultats_de w) (ecritures_variables w [0..<NombreDeVariables p]) R'"
  obtain R1 where z1: "z = (cout_de_solution p (ValeursX w), R1)"
    "ecrits h (resultats_de w) (ecritures_variables w [0..<NombreDeVariables p]) R1" using z by (cases z) auto
  have R1: "resultats_semaine_ok h R1" using z1(2) by (simp add: ecrits_def)
  have "returns (forE [0..<NombreDeContraintes p] (placer_marginal h w) R1)
      (\<lambda>R. ecrits h (resultats_de w) (ecritures_appel w) R)"
    using placer_marginaux_ok [OF P [unfolded p_def] L [unfolded p_def] R1, folded p_def]
    by (elim returns_mono) (use ecrits_suite [OF z1(2)] in \<open>simp add: ecritures_appel_def p_def\<close>)
  then have suite: "returns (forE [0..<NombreDeContraintes p] (placer_marginal h w) R1)
      (\<lambda>R. resultats_semaine_ok h R \<and> map ValeursHorairesDENS (horaires R) = map ValeursHorairesDENS (horaires (resultats_de w)) \<and>
        ecrits h (resultats_de w) (ecritures_appel w) R)"
    by (elim returns_mono) (simp add: ecrits_def)
  show "returns (case z of (CoutOpt, R) \<Rightarrow> bindE (noter_cout n opt CoutOpt w) (\<lambda>w.
     bindE (forE [0..<NombreDeContraintes p] (placer_marginal h w) R) (\<lambda>R. Inr (w\<lparr>resultats_de := R\<rparr>))))
    (appel_fait h n opt w True)"
  proof (cases opt)
    case PREMIERE_OPTIMISATION
    with suite n L e show ?thesis
      by (auto simp: z1(1) noter_cout_def placer_marginal_noter appel_fait_def cout_note_def ecritures_appel_def ecritures_noter p_def
          elim!: returns_mono)
  next
    case DEUXIEME_OPTIMISATION
    with suite n L e show ?thesis
      by (auto simp: z1(1) noter_cout_def placer_marginal_noter appel_fait_def cout_note_def ecritures_appel_def ecritures_noter p_def
          elim!: returns_mono)
  qed
qed

lemma appel_fait_tentee:
  assumes "tentee w w'" and "appel_fait h n opt w' succes w''"
  shows "appel_fait h n opt w succes w''"
  using assms by (auto simp: tentee_def appel_fait_def cout_note_def)

lemma OPT_AppelDuSimplexe_ok:
  fixes w :: "'l SEMAINE"
  assumes S: "solveur_ok B Q" and Q: "Q (ProblemeAResoudre (etat_de w))"
    and P: "pointeurs_ok h (ProblemeAResoudre (etat_de w))" and R: "resultats_semaine_ok h (resultats_de w)"
    and n: "n < length (ProblemesSpx w)" "n < length (coutOptimalSolution1 w)" "n < length (coutOptimalSolution2 w)"
  shows "returns (OPT_AppelDuSimplexe B op h n opt w) (\<lambda>(succes, w'). appel_fait h n opt w succes w')"
  unfolding OPT_AppelDuSimplexe_def returns_bindE
proof (rule returns_mono [OF OPT_TryToCallSimplex_ok [OF n(1) S Q]])
  let ?p = "ProblemeAResoudre (etat_de w)"
  have fin: "returns (if ExistenceDUneSolution w' = OUI_SPX
       then bindE (placer_resultats h n opt w') (\<lambda>w. Inr (True, w)) else Inr (False, w')) (\<lambda>(succes, w'). appel_fait h n opt w succes w')"
    if t: "tentee w w'" and l: "solution_lisible ?p (ValeursX w') (CoutsReduits w') (CoutsMarginauxDesContraintes w')" for w'
  proof (cases "ExistenceDUneSolution w' = OUI_SPX")
    case True
    have "returns (placer_resultats h n opt w') (appel_fait h n opt w' True)"
      by (rule placer_resultats_ok) (use P l R n t True in \<open>simp_all add: tentee_def\<close>)
    then show ?thesis using True appel_fait_tentee [OF t] by (auto elim!: returns_mono)
  next
    case False
    then show ?thesis using t R by (simp add: appel_fait_def tentee_def cout_note_def)
  qed
  fix z assume z: "case z of (succes, w') \<Rightarrow> tentee w w' \<and>
    solution_lisible ?p (ValeursX w') (CoutsReduits w') (CoutsMarginauxDesContraintes w') \<and>
    (succes \<longleftrightarrow> \<not> True \<or> ExistenceDUneSolution w' = OUI_SPX)"
  obtain succes w1 where z1: "z = (succes, w1)" by (cases z)
  have t: "tentee w w1" and l: "solution_lisible ?p (ValeursX w1) (CoutsReduits w1) (CoutsMarginauxDesContraintes w1)"
    using z by (simp_all add: z1)
  have p: "ProblemeAResoudre (etat_de w1) = ?p" "length (ProblemesSpx w1) = length (ProblemesSpx w)" using t by (simp_all add: tentee_def)
  show "returns (case z of (succes, w) \<Rightarrow> bindE (if succes then Inr w
       else bindE (OPT_TryToCallSimplex B op n opt False w) (\<lambda>(succes, w). Inr w)) (\<lambda>w.
     if ExistenceDUneSolution w = OUI_SPX then bindE (placer_resultats h n opt w) (\<lambda>w. Inr (True, w)) else Inr (False, w)))
    (\<lambda>(succes, w'). appel_fait h n opt w succes w')"
  proof (cases succes)
    case True
    then show ?thesis using fin [OF t l] by (simp add: z1)
  next
    case False
    have "returns (OPT_TryToCallSimplex B op n opt False w1) (\<lambda>(succes, w'). tentee w w' \<and>
        solution_lisible ?p (ValeursX w') (CoutsReduits w') (CoutsMarginauxDesContraintes w'))"
      by (rule returns_mono [OF OPT_TryToCallSimplex_ok [OF _ S]]) (use p n Q tentee_trans [OF t] in auto)
    then have "returns (OPT_TryToCallSimplex B op n opt False w1) (\<lambda>(succes, w'). returns (if ExistenceDUneSolution w' = OUI_SPX
       then bindE (placer_resultats h n opt w') (\<lambda>w. Inr (True, w)) else Inr (False, w')) (\<lambda>(succes, w'). appel_fait h n opt w succes w'))"
      by (rule returns_mono) (clarsimp simp del: returns_bindE split del: if_split, rule fin)
    then show ?thesis using False by (simp add: z1 split_def)
  qed
qed


end
