(* ===== verification/Row_Numbering.thy ===== *)
theory Row_Numbering
  imports Problem_Pipeline
begin

text \<open>
  The numbers of the constraints. While it builds the matrix, the code records the number of a row in the
  correspondences (\<open>CorrespondanceCntNativesCntOptim\<close> and the vectors of \<open>PROBLEME_HEBDO\<close>), just before it loads
  the row; the numeric passes find the rows again there. \<open>effet ms f\<close>: the statement \<open>f\<close> records exactly the
  marks \<open>ms\<close>. \<open>numerote\<close>: it does so and appends exactly the given rows. Main fact: what the whole
  construction of the matrix records, \<open>OPT_ConstruireMatrice_numerote\<close>.
\<close>

subsection \<open>Where a number is recorded\<close>

datatype place_cnt =
    Ligne champ_cnt nat nat
  | LigneJour nat nat
  | LigneHebdo nat
  | LignePays champ_pays nat

fun lecture_cnt :: "etat \<Rightarrow> place_cnt \<Rightarrow> int" where
  "lecture_cnt s (Ligne c pdt i) = (if c = NumeroDeContrainteDesContraintesDeDureeMinDeMarche then 0
     else (CorrespondanceCntNativesCntOptim s ! pdt) c ! i)"
| "lecture_cnt s (LigneJour jour i) = CorrespondanceCntNativesCntOptimJournalieres s ! jour ! i"
| "lecture_cnt s (LigneHebdo i) = CorrespondanceCntNativesCntOptimHebdomadaires s ! i"
| "lecture_cnt s (LignePays c pays) = NumerosDeContrainteDuPays s c ! pays"

text \<open>
  The numbers of the minimum up time rows are recorded as well, twice over (the rows on the outages erase them
  first), but nothing reads them: the right-hand side of these rows is 0. They are left out.
\<close>

text \<open>A place gets the number of the next row, or -1.\<close>

datatype marque = Numerote place_cnt | Efface place_cnt

fun poser :: "nat \<Rightarrow> marque \<Rightarrow> (place_cnt \<Rightarrow> int) \<Rightarrow> place_cnt \<Rightarrow> int" where
  "poser n (Numerote q) m = m(q := int n)"
| "poser n (Efface q) m = m(q := - 1)"

definition effet :: "marque list \<Rightarrow> (etat \<Rightarrow> etat resultat) \<Rightarrow> bool" where
  "effet ms f \<longleftrightarrow> (\<forall>s s'. f s = Inr s' \<longrightarrow>
     lecture_cnt s' = fold (poser (NombreDeContraintes (ProblemeAResoudre s))) ms (lecture_cnt s))"

text \<open>\<open>marque_seule\<close>: the number of rows does not change either.\<close>

definition marque_seule :: "marque list \<Rightarrow> (etat \<Rightarrow> etat resultat) \<Rightarrow> bool" where
  "marque_seule ms f \<longleftrightarrow> effet ms f \<and> (\<forall>s s'. f s = Inr s' \<longrightarrow>
     NombreDeContraintes (ProblemeAResoudre s') = NombreDeContraintes (ProblemeAResoudre s))"

named_theorems marques \<open>what the statements record\<close>

lemma marque_seuleI:
  assumes "\<And>s s'. f s = Inr s' \<Longrightarrow> NombreDeContraintes (ProblemeAResoudre s') = NombreDeContraintes (ProblemeAResoudre s) \<and>
     lecture_cnt s' = fold (poser (NombreDeContraintes (ProblemeAResoudre s))) ms (lecture_cnt s)"
  shows "marque_seule ms f"
  using assms by (auto simp: marque_seule_def effet_def)

lemma lecture_cnt_cong:
  assumes "CorrespondanceCntNativesCntOptim s' = CorrespondanceCntNativesCntOptim s"
    and "CorrespondanceCntNativesCntOptimJournalieres s' = CorrespondanceCntNativesCntOptimJournalieres s"
    and "CorrespondanceCntNativesCntOptimHebdomadaires s' = CorrespondanceCntNativesCntOptimHebdomadaires s"
    and "NumerosDeContrainteDuPays s' = NumerosDeContrainteDuPays s"
  shows "lecture_cnt s' = lecture_cnt s"
proof
  show "lecture_cnt s' q = lecture_cnt s q" for q
    using assms by (cases q) simp_all
qed

lemma lire_Inr: "lire xs i = Inr x \<longleftrightarrow> i < length xs \<and> x = xs ! i"
  by (auto simp: lire_def)

lemma ecrire_Inr: "ecrire xs i v = Inr ys \<longleftrightarrow> i < length xs \<and> ys = xs[i := v]"
  by (auto simp: ecrire_def)

text \<open>Statements that record nothing.\<close>

lemma marque_rien:
  assumes "\<And>s s'. f s = Inr s' \<Longrightarrow> NombreDeContraintes (ProblemeAResoudre s') = NombreDeContraintes (ProblemeAResoudre s) \<and>
     CorrespondanceCntNativesCntOptim s' = CorrespondanceCntNativesCntOptim s \<and>
     CorrespondanceCntNativesCntOptimJournalieres s' = CorrespondanceCntNativesCntOptimJournalieres s \<and>
     CorrespondanceCntNativesCntOptimHebdomadaires s' = CorrespondanceCntNativesCntOptimHebdomadaires s \<and>
     NumerosDeContrainteDuPays s' = NumerosDeContrainteDuPays s"
  shows "marque_seule [] f"
proof (rule marque_seuleI)
  fix s s' assume "f s = Inr s'"
  from assms [OF this] show "NombreDeContraintes (ProblemeAResoudre s') = NombreDeContraintes (ProblemeAResoudre s) \<and>
     lecture_cnt s' = fold (poser (NombreDeContraintes (ProblemeAResoudre s))) [] (lecture_cnt s)"
    using lecture_cnt_cong [of s' s] by simp
qed

lemma marque_heure [marques]: "marque_seule [] (updateHourWithinWeek hr)"
  by (rule marque_rien) (auto simp: updateHourWithinWeek_def maj_builder_def)

lemma marque_operateur [marques]:
  "marque_seule [] equalTo" "marque_seule [] lessThan" "marque_seule [] greaterThan" "marque_seule [] (SetOperator c)"
  by (rule marque_rien, auto simp: equalTo_def lessThan_def greaterThan_def SetOperator_def maj_builder_def
      split: if_splits)+

lemma marque_ajouter_decale [marques]: "marque_seule [] (ajouter_decale h nv c offset delta)"
  by (rule marque_rien) (auto simp: ajouter_decale_def AddVariable_def bindE_Inr maj_builder_def Let_def split: if_splits)

lemma marque_ajouter [marques]: "marque_seule [] (ajouter h nv c)"
  unfolding ajouter_def by (rule marque_ajouter_decale)

lemma marque_nommer [marques]: "marque_seule [] (nommer_contrainte nm c)"
  by (rule marque_rien) (auto simp: nommer_contrainte_def maj_probleme_def bindE_Inr)

lemma marque_Inr [marques]: "marque_seule [] Inr"
  by (rule marque_rien) simp

text \<open>Reading first.\<close>

lemma marque_lire [marques]:
  assumes "\<And>x. marque_seule ms (f x)"
  shows "marque_seule ms (\<lambda>s. bindE (lire xs i) (\<lambda>x. f x s))"
  using assms by (auto simp: marque_seule_def effet_def bindE_Inr)

lemma effet_lire: "(\<And>x. lire xs i = Inr x \<Longrightarrow> effet ms (f x)) \<Longrightarrow> effet ms (\<lambda>s. bindE (lire xs i) (\<lambda>x. f x s))"
  by (auto simp: effet_def bindE_Inr)

text \<open>Statements that record.\<close>

lemma marque_ecrire_cnt:
  assumes e: "ecrire_cnt c pdt i v s = Inr s'"
  shows "ProblemeAResoudre s' = ProblemeAResoudre s \<and> lecture_cnt s' =
     (if c = NumeroDeContrainteDesContraintesDeDureeMinDeMarche then lecture_cnt s else (lecture_cnt s)(Ligne c pdt i := v))"
proof -
  let ?C = "CorrespondanceCntNativesCntOptim s"
  from e have b: "pdt < length ?C" "i < length ((?C ! pdt) c)"
    and s': "s' = s\<lparr>CorrespondanceCntNativesCntOptim := ?C[pdt := (?C ! pdt)(c := ((?C ! pdt) c)[i := v])]\<rparr>"
    by (auto simp: ecrire_cnt_def bindE_Inr lire_Inr ecrire_Inr)
  have "lecture_cnt s' q = (if c = NumeroDeContrainteDesContraintesDeDureeMinDeMarche then lecture_cnt s
      else (lecture_cnt s)(Ligne c pdt i := v)) q" for q
  proof (cases q)
    case (Ligne c' pdt' i')
    show ?thesis
    proof (cases "pdt' = pdt")
      case True
      then show ?thesis using b Ligne by (cases "c' = c"; cases "i' = i") (simp_all add: s')
    next
      case False
      then show ?thesis using Ligne by (simp add: s')
    qed
  qed (simp_all add: s')
  then show ?thesis by (auto simp: s')
qed

lemma marque_ecrire_cnt_pays:
  assumes e: "ecrire_cnt_pays c pays v s = Inr s'"
  shows "ProblemeAResoudre s' = ProblemeAResoudre s \<and> lecture_cnt s' = (lecture_cnt s)(LignePays c pays := v)"
proof -
  let ?C = "NumerosDeContrainteDuPays s"
  from e have b: "pays < length (?C c)"
    and s': "s' = s\<lparr>NumerosDeContrainteDuPays := ?C(c := (?C c)[pays := v])\<rparr>"
    by (auto simp: ecrire_cnt_pays_def bindE_Inr ecrire_Inr)
  have "lecture_cnt s' q = ((lecture_cnt s)(LignePays c pays := v)) q" for q
  proof (cases q)
    case (LignePays c' pays')
    then show ?thesis using b by (cases "c' = c"; cases "pays' = pays") (simp_all add: s')
  qed (simp_all add: s')
  then show ?thesis by (auto simp: s')
qed

lemma marque_ecrire_cnt_jour:
  assumes e: "ecrire_cnt_jour jour i v s = Inr s'"
  shows "ProblemeAResoudre s' = ProblemeAResoudre s \<and> lecture_cnt s' = (lecture_cnt s)(LigneJour jour i := v)"
proof -
  let ?C = "CorrespondanceCntNativesCntOptimJournalieres s"
  from e have b: "jour < length ?C" "i < length (?C ! jour)"
    and s': "s' = s\<lparr>CorrespondanceCntNativesCntOptimJournalieres := ?C[jour := (?C ! jour)[i := v]]\<rparr>"
    by (auto simp: ecrire_cnt_jour_def bindE_Inr lire_Inr ecrire_Inr)
  have "lecture_cnt s' q = ((lecture_cnt s)(LigneJour jour i := v)) q" for q
  proof (cases q)
    case (LigneJour jour' i')
    then show ?thesis using b by (cases "jour' = jour"; cases "i' = i") (simp_all add: s')
  qed (simp_all add: s')
  then show ?thesis by (auto simp: s')
qed

lemma marque_ecrire_cnt_hebdo:
  assumes e: "ecrire_cnt_hebdo i v s = Inr s'"
  shows "ProblemeAResoudre s' = ProblemeAResoudre s \<and> lecture_cnt s' = (lecture_cnt s)(LigneHebdo i := v)"
proof -
  let ?C = "CorrespondanceCntNativesCntOptimHebdomadaires s"
  from e have b: "i < length ?C" and s': "s' = s\<lparr>CorrespondanceCntNativesCntOptimHebdomadaires := ?C[i := v]\<rparr>"
    by (auto simp: ecrire_cnt_hebdo_def bindE_Inr ecrire_Inr)
  have "lecture_cnt s' q = ((lecture_cnt s)(LigneHebdo i := v)) q" for q
  proof (cases q)
    case (LigneHebdo i')
    then show ?thesis using b by (cases "i' = i") (simp_all add: s')
  qed (simp_all add: s')
  then show ?thesis by (auto simp: s')
qed

lemma marque_numeroter [marques]:
  "c \<noteq> NumeroDeContrainteDesContraintesDeDureeMinDeMarche \<Longrightarrow>
     marque_seule [Numerote (Ligne c pdt i)] (numeroter_cnt c pdt i)"
  "c \<noteq> NumeroDeContrainteDesContraintesDeDureeMinDeMarche \<Longrightarrow>
     marque_seule [Efface (Ligne c pdt i)] (ecrire_cnt c pdt i (- 1))"
  "marque_seule [] (numeroter_cnt NumeroDeContrainteDesContraintesDeDureeMinDeMarche pdt i)"
  "marque_seule [] (ecrire_cnt NumeroDeContrainteDesContraintesDeDureeMinDeMarche pdt i (- 1))"
  "marque_seule [Numerote (LignePays c' pays)] (numeroter_cnt_pays c' pays)"
  "marque_seule [Efface (LignePays c' pays)] (ecrire_cnt_pays c' pays (- 1))"
  "marque_seule [Numerote (LigneJour jour i)] (\<lambda>s. ecrire_cnt_jour jour i (numero_courant s) s)"
  "marque_seule [Numerote (LigneHebdo i)] (\<lambda>s. ecrire_cnt_hebdo i (numero_courant s) s)"
  by (rule marque_seuleI, auto simp: numeroter_cnt_def numeroter_cnt_pays_def numero_courant_def
      dest!: marque_ecrire_cnt marque_ecrire_cnt_pays marque_ecrire_cnt_jour marque_ecrire_cnt_hebdo)+

subsection \<open>Sequences and loops\<close>

lemma effet_seqE_Nil [marques]: "marque_seule [] (seqE [])"
  by (rule marque_rien) simp

lemma effet_puis:
  assumes f: "marque_seule ms f" and g: "effet ms' g" and e: "\<And>s. h s = bindE (f s) g"
  shows "effet (ms @ ms') h"
  unfolding effet_def
proof (intro allI impI)
  fix s s' assume "h s = Inr s'"
  then obtain s1 where s1: "f s = Inr s1" "g s1 = Inr s'" by (auto simp: e bindE_Inr)
  then have "NombreDeContraintes (ProblemeAResoudre s1) = NombreDeContraintes (ProblemeAResoudre s)"
    "lecture_cnt s1 = fold (poser (NombreDeContraintes (ProblemeAResoudre s))) ms (lecture_cnt s)"
    "lecture_cnt s' = fold (poser (NombreDeContraintes (ProblemeAResoudre s1))) ms' (lecture_cnt s1)"
    using f g by (auto simp: marque_seule_def effet_def)
  then show "lecture_cnt s' = fold (poser (NombreDeContraintes (ProblemeAResoudre s))) (ms @ ms') (lecture_cnt s)"
    by simp
qed

lemma marque_puis:
  assumes "marque_seule ms f" and "marque_seule ms' g" and "\<And>s. h s = bindE (f s) g"
  shows "marque_seule (ms @ ms') h"
  using effet_puis [of ms f ms' g h] assms by (auto simp: marque_seule_def bindE_Inr)

lemma effet_seqE_Cons: "marque_seule ms f \<Longrightarrow> effet ms' (seqE fs) \<Longrightarrow> effet (ms @ ms') (seqE (f # fs))"
  by (rule effet_puis) auto

lemma marque_seqE_Cons: "marque_seule ms f \<Longrightarrow> marque_seule ms' (seqE fs) \<Longrightarrow> marque_seule (ms @ ms') (seqE (f # fs))"
  by (rule marque_puis) auto

lemma marque_forE [marques]:
  assumes "\<And>x. marque_seule [] (f x)"
  shows "marque_seule [] (forE xs f)"
proof (induction xs)
  case Nil
  show ?case by (rule marque_rien) simp
next
  case (Cons x xs)
  show ?case by (rule marque_puis [OF assms Cons, of _ x, simplified append_Nil]) simp
qed

lemma marque_si [marques]:
  "marque_seule [] f \<Longrightarrow> marque_seule [] g \<Longrightarrow> marque_seule [] (if b then f else g)"
  "marque_seule [] f \<Longrightarrow> marque_seule [] (\<lambda>s. whenE (c s) f s)"
  by (auto simp: marque_seule_def effet_def whenE_def split: if_splits)

lemma marque_boucle_interco [marques]:
  assumes f: "\<And>l. marque_seule [] (f l)"
  shows "marque_seule [] (\<lambda>s. boucle_interco suivant f n l s)"
proof (induction n arbitrary: l)
  case 0
  show ?case by (rule marque_rien) (simp split: if_splits)
next
  case (Suc n)
  show ?case
  proof (cases "l < 0")
    case True
    show ?thesis by (rule marque_rien) (use True in simp)
  next
    case False
    from marque_puis [OF f marque_lire [OF Suc], of "\<lambda>s. boucle_interco suivant f (Suc n) l s" "nat l" suivant "nat l"] False
    show ?thesis by simp
  qed
qed

lemma effet_build: "effet [] build"
  unfolding effet_def
proof (intro allI impI)
  fix s s' assume "build s = Inr s'"
  then show "lecture_cnt s' = fold (poser (NombreDeContraintes (ProblemeAResoudre s))) [] (lecture_cnt s)"
    by (auto simp: build_def maj_probleme_def bindE_Inr maj_builder_def split: if_splits intro!: lecture_cnt_cong)
qed

lemma effet_seule: "marque_seule ms f \<Longrightarrow> effet ms f"
  by (simp add: marque_seule_def)

lemma effet_si_lignes:
  "effet [] f \<Longrightarrow> effet [] (\<lambda>s. if b s then f s else Inr s)"
  by (simp add: effet_def)

lemma effet_si: "(b \<Longrightarrow> effet ms f) \<Longrightarrow> (\<not> b \<Longrightarrow> effet ms g) \<Longrightarrow> effet ms (if b then f else g)"
  by simp

lemma effet_avec: "effet ms f \<Longrightarrow> effet ms (avec c f)"
  unfolding effet_def
proof (intro allI impI)
  fix s s'
  assume f: "\<forall>s s'. f s = Inr s' \<longrightarrow> lecture_cnt s' = fold (poser (NombreDeContraintes (ProblemeAResoudre s))) ms (lecture_cnt s)"
    and "avec c f s = Inr s'"
  then obtain s1 where s1: "f (s\<lparr>courant := builders s c\<rparr>) = Inr s1" "s' = s1\<lparr>builders := (builders s1)(c := courant s1)\<rparr>"
    by (auto simp: avec_def bindE_Inr)
  have "lecture_cnt s' = lecture_cnt s1" "lecture_cnt (s\<lparr>courant := builders s c\<rparr>) = lecture_cnt s"
    by (rule lecture_cnt_cong; simp add: s1(2))+
  with f s1(1) show "lecture_cnt s' = fold (poser (NombreDeContraintes (ProblemeAResoudre s))) ms (lecture_cnt s)"
    by fastforce
qed

subsection \<open>Rows and the numbers recorded for them\<close>

text \<open>One step of the construction: the mark it leaves, and the rows it appends.\<close>

type_synonym fiche_cnt = "marque option \<times> ligne list"

definition lignes_de :: "fiche_cnt list \<Rightarrow> ligne list" where
  "lignes_de fs = concat (map snd fs)"

fun effets :: "fiche_cnt list \<Rightarrow> nat \<Rightarrow> (place_cnt \<Rightarrow> int) \<Rightarrow> place_cnt \<Rightarrow> int" where
  "effets [] n m = m"
| "effets ((mo, ls) # fs) n m = effets fs (n + length ls) (case mo of None \<Rightarrow> m | Some k \<Rightarrow> poser n k m)"

lemma lignes_de_simps [simp]:
  "lignes_de [] = []" "lignes_de (f # fs) = snd f @ lignes_de fs" "lignes_de (fs @ gs) = lignes_de fs @ lignes_de gs"
  "lignes_de (concat (map F xs)) = concat (map (\<lambda>x. lignes_de (F x)) xs)"
  "lignes_de (if b then fs else gs) = (if b then lignes_de fs else lignes_de gs)"
proof -
  show "lignes_de (concat (map F xs)) = concat (map (\<lambda>x. lignes_de (F x)) xs)"
    by (induction xs) (simp_all add: lignes_de_def)
qed (simp_all add: lignes_de_def)

lemma effets_append: "effets (fs @ gs) n m = effets gs (n + length (lignes_de fs)) (effets fs n m)"
  by (induction fs n m rule: effets.induct) (simp_all add: add.assoc)

definition numerote ::
  "(etat \<Rightarrow> ligne list \<Rightarrow> bool) \<Rightarrow> (etat \<Rightarrow> ligne list \<Rightarrow> bool) \<Rightarrow> contexte \<Rightarrow> (etat \<Rightarrow> etat resultat) \<Rightarrow> fiche_cnt list \<Rightarrow> nat \<Rightarrow> bool" where
  "numerote R R' K f fs k \<longleftrightarrow> length (lignes_de fs) \<le> k \<and>
     (\<forall>s L. R s L \<and> tient K (L @ lignes_de fs) \<and> length L + k \<le> knc K \<longrightarrow>
        returns (f s) (\<lambda>s'. R' s' (L @ lignes_de fs) \<and> lecture_cnt s' = effets fs (length L) (lecture_cnt s)))"

lemma numeroteI:
  assumes "length (lignes_de fs) \<le> k"
    and "\<And>s L. R s L \<Longrightarrow> tient K (L @ lignes_de fs) \<Longrightarrow> length L + k \<le> knc K \<Longrightarrow>
        returns (f s) (\<lambda>s'. R' s' (L @ lignes_de fs) \<and> lecture_cnt s' = effets fs (length L) (lecture_cnt s))"
  shows "numerote R R' K f fs k"
  using assms by (simp add: numerote_def)

lemma numeroteD:
  assumes "numerote R R' K f fs k" and "R s L" and "tient K (L @ lignes_de fs)" and "length L + k \<le> knc K"
  shows "returns (f s) (\<lambda>s'. R' s' (L @ lignes_de fs) \<and> lecture_cnt s' = effets fs (length L) (lecture_cnt s))"
  using assms by (simp add: numerote_def)

lemma numerote_length: "numerote R R' K f fs k \<Longrightarrow> length (lignes_de fs) \<le> k"
  by (simp add: numerote_def)

lemma numerote_puis:
  assumes f: "numerote R R1 K f fs k" and g: "numerote R1 R' K g gs k'" and e: "\<And>s. h s = bindE (f s) g"
  shows "numerote R R' K h (fs @ gs) (k + k')"
proof (rule numeroteI)
  show "length (lignes_de (fs @ gs)) \<le> k + k'"
    using numerote_length [OF f] numerote_length [OF g] by simp
next
  fix s L assume s: "R s L" and t: "tient K (L @ lignes_de (fs @ gs))" and place: "length L + (k + k') \<le> knc K"
  have "returns (f s) (\<lambda>s1. R1 s1 (L @ lignes_de fs) \<and> lecture_cnt s1 = effets fs (length L) (lecture_cnt s))"
    by (rule numeroteD [OF f s]) (use t place in \<open>auto simp: tient_def\<close>)
  then have "returns (f s) (\<lambda>s1. returns (g s1) (\<lambda>s'. R' s' ((L @ lignes_de fs) @ lignes_de gs) \<and>
      lecture_cnt s' = effets gs (length (L @ lignes_de fs)) (effets fs (length L) (lecture_cnt s))))"
  proof (rule returns_mono)
    fix s1 assume s1: "R1 s1 (L @ lignes_de fs) \<and> lecture_cnt s1 = effets fs (length L) (lecture_cnt s)"
    then have "returns (g s1) (\<lambda>s'. R' s' ((L @ lignes_de fs) @ lignes_de gs) \<and>
        lecture_cnt s' = effets gs (length (L @ lignes_de fs)) (lecture_cnt s1))"
      by (intro numeroteD [OF g]) (use t place numerote_length [OF f] in simp_all)
    with s1 show "returns (g s1) (\<lambda>s'. R' s' ((L @ lignes_de fs) @ lignes_de gs) \<and>
        lecture_cnt s' = effets gs (length (L @ lignes_de fs)) (effets fs (length L) (lecture_cnt s)))"
      by simp
  qed
  then show "returns (h s) (\<lambda>s'. R' s' (L @ lignes_de (fs @ gs)) \<and>
      lecture_cnt s' = effets (fs @ gs) (length L) (lecture_cnt s))"
    by (simp add: e effets_append)
qed

lemma numerote_Inr: "numerote R R K Inr [] 0"
  by (simp add: numerote_def)

lemma numerote_seqE_Nil: "numerote R R K (seqE []) [] 0"
  by (simp add: numerote_def)

lemma numerote_seqE_Cons:
  "numerote R R1 K f fs k \<Longrightarrow> numerote R1 R' K (seqE gs) fs' k' \<Longrightarrow> numerote R R' K (seqE (f # gs)) (fs @ fs') (k + k')"
  by (rule numerote_puis) auto

lemma numerote_forE:
  assumes "\<And>x. x \<in> set xs \<Longrightarrow> numerote R R K (f x) (fs x) (k x)"
  shows "numerote R R K (forE xs f) (concat (map fs xs)) (sum_list (map k xs))"
  using assms
proof (induction xs)
  case Nil
  then show ?case by (simp add: numerote_def)
next
  case (Cons x xs)
  show ?case
    unfolding list.map concat.simps sum_list.Cons
    by (rule numerote_puis [where f = "f x" and g = "forE xs f"]) (use Cons in auto)
qed

lemma numerote_whenE:
  assumes "b \<Longrightarrow> numerote R R K f fs k"
  shows "numerote R R K (whenE b f) (if b then fs else []) (if b then k else 0)"
  using assms by (auto simp: numerote_def whenE_def)

text \<open>A statement whose rows are known records its marks before its first row.\<close>

definition marques_de :: "marque option \<Rightarrow> marque list" where
  "marques_de mo = (case mo of None \<Rightarrow> [] | Some k \<Rightarrow> [k])"

lemma numerote_construit:
  assumes c: "construit K f ls k" and e: "effet ms f" and p: "\<And>n. fold (poser n) ms = fold (poser n) (marques_de mo)"
  shows "numerote (rep_lignes K ()) (rep_lignes K ()) K f [(mo, ls)] k"
proof (rule numeroteI)
  show "length (lignes_de [(mo, ls)]) \<le> k" using rangs.emits_length [OF c] by simp
next
  fix s L assume s: "rep_lignes K () s L" and t: "tient K (L @ lignes_de [(mo, ls)])" and place: "length L + k \<le> knc K"
  have n: "NombreDeContraintes (ProblemeAResoudre s) = length L"
    using s by (auto simp: rep_lignes_def simp flip: length_lignes)
  have "returns (f s) (\<lambda>s'. rep_lignes K () s' (L @ ls))"
    by (rule rangs.emitsD [OF c s]) (use t place in simp_all)
  then show "returns (f s) (\<lambda>s'. rep_lignes K () s' (L @ lignes_de [(mo, ls)]) \<and>
      lecture_cnt s' = effets [(mo, ls)] (length L) (lecture_cnt s))"
    using e n p by (cases "f s"; cases mo) (auto simp: effet_def marques_de_def)
qed

lemma numerote_produit:
  assumes c: "produit K i f ls k j" and e: "effet ms f" and p: "\<And>n. fold (poser n) ms = fold (poser n) (marques_de mo)"
  shows "numerote (fini K i) (fini K j) K f [(mo, ls)] k"
proof (rule numeroteI)
  show "length (lignes_de [(mo, ls)]) \<le> k" using rangs_avec.emits_length [OF c] by simp
next
  fix s L assume s: "fini K i s L" and t: "tient K (L @ lignes_de [(mo, ls)])" and place: "length L + k \<le> knc K"
  have n: "NombreDeContraintes (ProblemeAResoudre s) = length L"
    using s by (auto simp: fini_def rep_lignes_def simp flip: length_lignes)
  have "returns (f s) (\<lambda>s'. fini K j s' (L @ ls))"
    by (rule rangs_avec.emitsD [OF c s]) (use t place in simp_all)
  then show "returns (f s) (\<lambda>s'. fini K j s' (L @ lignes_de [(mo, ls)]) \<and>
      lecture_cnt s' = effets [(mo, ls)] (length L) (lecture_cnt s))"
    using e n p by (cases "f s"; cases mo) (auto simp: effet_def marques_de_def)
qed

lemma numerote_avec:
  assumes f: "numerote (fini K (None, None)) (fini K j) K f fs k"
  shows "numerote (rep_lignes K ()) (rep_lignes K ()) K (avec c f) fs k"
proof (rule numeroteI)
  show "length (lignes_de fs) \<le> k" by (rule numerote_length [OF f])
next
  fix s L assume s: "rep_lignes K () s L" and t: "tient K (L @ lignes_de fs)" and place: "length L + k \<le> knc K"
  have "fini K (None, None) (s\<lparr>courant := builders s c\<rparr>) L"
    using s by (simp add: fini_def rep_lignes_def mode_ok_def inv_def dims_cnt_def)
  from numeroteD [OF f this t place]
  have r: "returns (f (s\<lparr>courant := builders s c\<rparr>)) (\<lambda>s'. fini K j s' (L @ lignes_de fs) \<and>
      lecture_cnt s' = effets fs (length L) (lecture_cnt (s\<lparr>courant := builders s c\<rparr>)))" .
  have "lecture_cnt (s\<lparr>courant := b\<rparr>) = lecture_cnt s" "lecture_cnt (s'\<lparr>builders := b'\<rparr>) = lecture_cnt s'" for b s' b'
    by (rule lecture_cnt_cong; simp)+
  with r show "returns (avec c f s) (\<lambda>s'. rep_lignes K () s' (L @ lignes_de fs) \<and>
      lecture_cnt s' = effets fs (length L) (lecture_cnt s))"
    by (auto simp: avec_def fini_def rep_lignes_def inv_def dims_cnt_def elim!: returns_mono)
qed

subsection \<open>What each class records\<close>

lemma marque_seqE_rien [marques]: "marque_seule [] f \<Longrightarrow> marque_seule [] (seqE fs) \<Longrightarrow> marque_seule [] (seqE (f # fs))"
  using marque_seqE_Cons [of "[]" f "[]" fs] by simp

lemma marque_nommages [marques]:
  "marque_seule [] (nommer_pays h ts pays cn)" "marque_seule [] (nommer_interco h ts interco cn')"
  "marque_seule [] (nommer_couplante ts nm)" "marque_seule [] (nommer_palier h ts pays i cn'')"
  unfolding nommer_pays_def [abs_def] nommer_interco_def [abs_def] nommer_couplante_def nommer_palier_def [abs_def]
  by (intro marques)+

lemma marque_termes [marques]:
  "marque_seule [] (intercos_origine h pays)" "marque_seule [] (intercos_extremite h pays)"
  "marque_seule [] (exportPaliers h pays)" "marque_seule [] (shortTermStorageBalance h pays)"
  "marque_seule [] (terme_couplant h nv pdt i poids offset)" "marque_seule [] (somme_couplante h nv pdts i poids offset)"
  unfolding intercos_origine_def [abs_def] intercos_extremite_def [abs_def] exportPaliers_def [abs_def]
    shortTermStorageBalance_def [abs_def] terme_couplant_def somme_couplante_def
  by (intro marques)+

lemma marque_couplantes [marques]:
  assumes "\<And>i poids offset. marque_seule [] (f i poids offset)"
  shows "marque_seule [] (pour_intercos c f)" "marque_seule [] (pour_paliers h c f)"
  unfolding pour_intercos_def pour_paliers_def by (intro marques assms)+

lemma marque_fenetre [marques]:
  assumes "\<And>t. marque_seule [] (f t)"
  shows "marque_seule [] (pour_fenetre h pdt duree f)"
  unfolding pour_fenetre_def Let_def by (intro marques assms)

lemma effet_rien: "marque_seule [] f \<Longrightarrow> effet ms (seqE fs) \<Longrightarrow> effet ms (seqE (f # fs))"
  using effet_seqE_Cons [of "[]"] by simp

lemma effet_fin: "effet [] (seqE [])" "effet [] (seqE [build])"
  using effet_seule [OF effet_seqE_Nil] effet_build by (simp_all add: effet_def bindE_Inr)

lemma effet_numeros:
  "effet ms (seqE fs) \<Longrightarrow> c \<noteq> NumeroDeContrainteDesContraintesDeDureeMinDeMarche \<Longrightarrow>
     effet (Numerote (Ligne c pdt i) # ms) (seqE (numeroter_cnt c pdt i # fs))"
  "effet ms (seqE fs) \<Longrightarrow> c \<noteq> NumeroDeContrainteDesContraintesDeDureeMinDeMarche \<Longrightarrow>
     effet (Efface (Ligne c pdt i) # ms) (seqE (ecrire_cnt c pdt i (- 1) # fs))"
  "effet ms (seqE fs) \<Longrightarrow> effet (Numerote (LignePays c' pays) # ms) (seqE (numeroter_cnt_pays c' pays # fs))"
  "effet ms (seqE fs) \<Longrightarrow> effet (Efface (LignePays c' pays) # ms) (seqE (ecrire_cnt_pays c' pays (- 1) # fs))"
  "effet ms (seqE fs) \<Longrightarrow> effet (Numerote (LigneJour jour i) # ms) (seqE ((\<lambda>s. ecrire_cnt_jour jour i (numero_courant s) s) # fs))"
  "effet ms (seqE fs) \<Longrightarrow> effet (Numerote (LigneHebdo i) # ms) (seqE ((\<lambda>s. ecrire_cnt_hebdo i (numero_courant s) s) # fs))"
  using effet_seqE_Cons [OF marque_numeroter(1)] effet_seqE_Cons [OF marque_numeroter(2)]
    effet_seqE_Cons [OF marque_numeroter(5)] effet_seqE_Cons [OF marque_numeroter(6)]
    effet_seqE_Cons [OF marque_numeroter(7)] effet_seqE_Cons [OF marque_numeroter(8)]
  by (simp_all del: seqE.simps)

lemma effet_pays:
  "effet [Numerote (Ligne NumeroDeContrainteDesBilansPays pdt pays)] (AreaBalance_add h pdt pays)"
  "effet [Numerote (Ligne NumeroDeContraintePourEviterLesChargesFictives pdt pays)] (FictitiousLoad_add h pdt pays)"
  "effet [Numerote (Ligne ShortTermStorageLevelConstraint pdt (clusterGlobalIndex st))]
     (ShortTermStorageLevel_corps h pdt pays st)"
  unfolding AreaBalance_add_def FictitiousLoad_add_def ShortTermStorageLevel_corps_def Let_def
  by ((rule effet_avec)?, (rule effet_numeros effet_fin | (rule effet_rien, (intro marques; fail)) | (simp; fail))+)+

lemma effet_couts: "effet (if IntercoGereeAvecDesCouts (CoutDeTransport h ! l)
     then [Numerote (Ligne NumeroDeContrainteDeDissociationDeFlux pdt l)] else []) (FlowDissociation_add h pdt l)"
proof -
  have "effet [Numerote (Ligne NumeroDeContrainteDeDissociationDeFlux pdt l)] (avec C_FlowDissociation (seqE
       [numeroter_cnt NumeroDeContrainteDeDissociationDeFlux pdt l,
        nommer_interco h (heure_annee h pdt) l CN_FlowDissociation,
        updateHourWithinWeek pdt,
        ajouter h (NTCDirect l) 1,
        ajouter h (IntercoDirectCost l) (- 1),
        ajouter h (IntercoIndirectCost l) 1,
        equalTo,
        build]))"
    by (rule effet_avec, (rule effet_numeros effet_fin | (rule effet_rien, (intro marques; fail)) | (simp; fail))+)
  then show ?thesis
    by (auto simp: FlowDissociation_add_def effet_def bindE_Inr lire_Inr)
qed

lemma effet_couplantes:
  "effet [Numerote (Ligne NumeroDeContrainteDesContraintesCouplantes pdt c)] (BindingConstraintHour_add h pdt c)"
  "effet [Numerote (LigneJour (NumeroDeJourDuPasDeTemps h ! d) c)] (BindingConstraintDay_corps h c cc d)"
  "effet (if TypeDeContrainteCouplante (MatriceDesContraintesCouplantes h ! c) = CONTRAINTE_HEBDOMADAIRE
     then [Numerote (LigneHebdo c)] else []) (BindingConstraintWeek_add h c)"
proof -
  have corps: "effet [] (avec C_BindingConstraintHour (BindingConstraintHour_corps h pdt cc))"
    "effet [Numerote (LigneHebdo c)] (avec C_BindingConstraintWeek (BindingConstraintWeek_corps h c cc))"
    "effet [Numerote (LigneJour jour c)] (seqE
     [pour_intercos cc (somme_couplante h NTCDirect pdts), pour_paliers h cc (somme_couplante h DispatchableProduction pdts),
      (\<lambda>s. ecrire_cnt_jour jour c (numero_courant s) s), SetOperator (SensDeLaContrainteCouplante cc),
      nommer_couplante jour (CN_BindingConstraintDay (NomDeLaContrainteCouplante cc)), build])" for cc jour pdts
    unfolding BindingConstraintHour_corps_def BindingConstraintWeek_corps_def
    by ((rule effet_avec)?, (rule effet_numeros effet_fin | (rule effet_rien, (intro marques; fail)) | (simp; fail))+)+
  have "effet [Numerote (Ligne NumeroDeContrainteDesContraintesCouplantes pdt c)] (seqE
     [numeroter_cnt NumeroDeContrainteDesContraintesCouplantes pdt c,
      if TypeDeContrainteCouplante cc \<noteq> CONTRAINTE_HORAIRE then Inr
      else avec C_BindingConstraintHour (BindingConstraintHour_corps h pdt cc)])" for cc
    using corps(1) effet_seule [OF marque_Inr] by (intro effet_numeros) (simp_all add: effet_def bindE_Inr)
  then show "effet [Numerote (Ligne NumeroDeContrainteDesContraintesCouplantes pdt c)] (BindingConstraintHour_add h pdt c)"
    unfolding BindingConstraintHour_add_def [abs_def] by (rule effet_lire)
  show "effet [Numerote (LigneJour (NumeroDeJourDuPasDeTemps h ! d) c)] (BindingConstraintDay_corps h c cc d)"
    unfolding BindingConstraintDay_corps_def [abs_def] Let_def
    by (rule effet_lire) (use corps(3) in \<open>simp add: lire_Inr del: seqE.simps\<close>)
  show "effet (if TypeDeContrainteCouplante (MatriceDesContraintesCouplantes h ! c) = CONTRAINTE_HEBDOMADAIRE
     then [Numerote (LigneHebdo c)] else []) (BindingConstraintWeek_add h c)"
    unfolding BindingConstraintWeek_add_def [abs_def]
    by (rule effet_lire) (use corps(2) effet_seule [OF marque_Inr] in \<open>auto simp: lire_Inr effet_def\<close>)
qed

text \<open>The hydro classes record the number twice, or record it and erase it; the last one counts.\<close>

lemma effet_double: "effet (k1 # k2 # ms) f \<Longrightarrow> (\<And>n m. poser n k2 (poser n k1 m) = poser n k2 m) \<Longrightarrow> effet (k2 # ms) f"
  by (simp add: effet_def)

abbreviation marque_si :: "bool \<Rightarrow> place_cnt \<Rightarrow> marque" where
  "marque_si b q \<equiv> (if b then Numerote q else Efface q)"

abbreviation energie_fixee :: "ENERGIES_ET_PUISSANCES_HYDRAULIQUES \<Rightarrow> bool" where
  "energie_fixee c \<equiv> PresenceDHydrauliqueModulable c \<and> \<not> TurbinageEntreBornes c"

abbreviation energie_bornee :: "ENERGIES_ET_PUISSANCES_HYDRAULIQUES \<Rightarrow> bool" where
  "energie_bornee c \<equiv> PresenceDHydrauliqueModulable c \<and> (TurbinageEntreBornes c \<or> PresenceDePompageModulable c)"

lemma effet_hydro_si:
  assumes "\<And>c. effet [Numerote q] (f c)" and "effet ms g"
  shows "effet (if b (CaracteristiquesHydrauliques h ! pays) then [Numerote q] else ms)
    (\<lambda>s. bindE (lire (CaracteristiquesHydrauliques h) pays) (\<lambda>c. if b c then f c s else g s))"
  by (rule effet_lire) (use assms in \<open>auto simp: lire_Inr effet_def\<close>)

lemma effet_hydro_marque:
  assumes "\<And>c. effet [Numerote q] (f c)" and "effet [Efface q] g"
  shows "effet [marque_si (b (CaracteristiquesHydrauliques h ! pays)) q]
    (\<lambda>s. bindE (lire (CaracteristiquesHydrauliques h) pays) (\<lambda>c. if b c then f c s else g s))"
  using effet_hydro_si [OF assms, of b h pays] by (auto split: if_splits)

lemma effet_efface: "effet [Efface (LignePays c pays)] (ecrire_cnt_pays c pays (- 1))"
  by (rule effet_seule [OF marque_numeroter(6)])

lemma effet_corps_HydroPower:
  "effet [Numerote (LignePays NumeroDeContrainteEnergieHydraulique pays)] (seqE
      [if b then seqE
         [numeroter_cnt_pays NumeroDeContrainteEnergieHydraulique pays, forE (heures h) (\<lambda>pdt. seqE
            [updateHourWithinWeek pdt, ajouter h (HydProd pays) 1, ajouter h (Pumping pays) x])]
       else forE (heures h) (\<lambda>pdt. seqE [updateHourWithinWeek pdt, ajouter h (HydProd pays) 1]),
       numeroter_cnt_pays NumeroDeContrainteEnergieHydraulique pays, equalTo,
       nommer_pays h (weekInTheYear h) pays CN_HydroPower, build])"
proof (cases b)
  case True
  let ?f = "seqE [numeroter_cnt_pays NumeroDeContrainteEnergieHydraulique pays, forE (heures h) (\<lambda>pdt. seqE
            [updateHourWithinWeek pdt, ajouter h (HydProd pays) 1, ajouter h (Pumping pays) x])]"
  have m: "marque_seule [Numerote (LignePays NumeroDeContrainteEnergieHydraulique pays)] ?f"
    by (rule marque_seqE_Cons [of "[_]" _ "[]", simplified], rule marque_numeroter) (intro marques)
  have "effet [Numerote (LignePays NumeroDeContrainteEnergieHydraulique pays), Numerote (LignePays NumeroDeContrainteEnergieHydraulique pays)]
    (seqE [?f, numeroter_cnt_pays NumeroDeContrainteEnergieHydraulique pays, equalTo,
       nommer_pays h (weekInTheYear h) pays CN_HydroPower, build])"
    by (rule effet_seqE_Cons [OF m, simplified append_Cons append_Nil], (rule effet_numeros effet_fin | (rule effet_rien, (intro marques; fail)) | (simp; fail))+)
  with True show ?thesis by (auto intro: effet_double simp del: seqE.simps)
next
  case False
  then show ?thesis
    by (simp del: seqE.simps) ((rule effet_numeros effet_fin | (rule effet_rien, (intro marques; fail)) | (simp; fail))+)
qed

lemma effet_HydroPower:
  "effet [marque_si (energie_fixee (CaracteristiquesHydrauliques h ! pays)) (LignePays NumeroDeContrainteEnergieHydraulique pays)]
     (HydroPower_add h pays)"
proof -
  have e: "HydroPower_add h pays = (\<lambda>s. bindE (lire (CaracteristiquesHydrauliques h) pays) (\<lambda>c.
      if energie_fixee c then avec C_HydroPower (seqE
       [if PresenceDePompageModulable c then seqE
         [numeroter_cnt_pays NumeroDeContrainteEnergieHydraulique pays, forE (heures h) (\<lambda>pdt. seqE
            [updateHourWithinWeek pdt, ajouter h (HydProd pays) 1, ajouter h (Pumping pays) (- PumpingRatio c)])]
       else forE (heures h) (\<lambda>pdt. seqE [updateHourWithinWeek pdt, ajouter h (HydProd pays) 1]),
       numeroter_cnt_pays NumeroDeContrainteEnergieHydraulique pays, equalTo,
       nommer_pays h (weekInTheYear h) pays CN_HydroPower, build]) s
      else ecrire_cnt_pays NumeroDeContrainteEnergieHydraulique pays (- 1) s))"
    by (simp add: HydroPower_add_def fun_eq_iff del: seqE.simps)
  show ?thesis
    unfolding e by (rule effet_hydro_marque [where b = energie_fixee, OF effet_avec [OF effet_corps_HydroPower] effet_efface])
qed

lemma effet_MinHydroPower:
  "effet [marque_si (energie_bornee (CaracteristiquesHydrauliques h ! pays)) (LignePays NumeroDeContrainteMinEnergieHydraulique pays)]
     (MinHydroPower_add h pays)"
proof -
  let ?q = "LignePays NumeroDeContrainteMinEnergieHydraulique pays"
  have e: "effet [Numerote ?q, Numerote ?q] (avec C_MinHydroPower (seqE [numeroter_cnt_pays NumeroDeContrainteMinEnergieHydraulique pays,
        nommer_pays h (weekInTheYear h) pays CN_MinHydroPower,
        forE (heures h) (\<lambda>pdt. seqE [updateHourWithinWeek pdt, ajouter h (HydProd pays) 1]),
        numeroter_cnt_pays NumeroDeContrainteMinEnergieHydraulique pays, greaterThan, build]))"
    by (rule effet_avec, (rule effet_numeros effet_fin | (rule effet_rien, (intro marques; fail)) | (simp; fail))+)
  show ?thesis
    unfolding MinHydroPower_add_def [abs_def]
    by (rule effet_hydro_marque [where b = energie_bornee, OF effet_double [OF e, simplified] effet_efface])
qed

lemma effet_MaxHydroPower:
  "effet [marque_si (energie_bornee (CaracteristiquesHydrauliques h ! pays)) (LignePays NumeroDeContrainteMaxEnergieHydraulique pays)]
     (MaxHydroPower_add h pays)"
proof -
  let ?q = "LignePays NumeroDeContrainteMaxEnergieHydraulique pays"
  have e: "effet [Numerote ?q, Numerote ?q] (avec C_MaxHydroPower (seqE [numeroter_cnt_pays NumeroDeContrainteMaxEnergieHydraulique pays,
        forE (heures h) (\<lambda>pdt. seqE [updateHourWithinWeek pdt, ajouter h (HydProd pays) 1]),
        numeroter_cnt_pays NumeroDeContrainteMaxEnergieHydraulique pays,
        nommer_pays h (weekInTheYear h) pays CN_MaxHydroPower, lessThan, build]))"
    by (rule effet_avec, (rule effet_numeros effet_fin | (rule effet_rien, (intro marques; fail)) | (simp; fail))+)
  show ?thesis
    unfolding MaxHydroPower_add_def [abs_def]
    by (rule effet_hydro_marque [where b = energie_bornee, OF effet_double [OF e, simplified] effet_efface])
qed

lemma effet_MaxPumping:
  "effet [marque_si (PresenceDePompageModulable (CaracteristiquesHydrauliques h ! pays)) (LignePays NumeroDeContrainteMaxPompage pays)]
     (MaxPumping_add h pays)"
proof -
  let ?q = "LignePays NumeroDeContrainteMaxPompage pays"
  have e: "effet [Numerote ?q, Numerote ?q] (avec C_MaxPumping (seqE [numeroter_cnt_pays NumeroDeContrainteMaxPompage pays,
        forE (heures h) (\<lambda>pdt. seqE [updateHourWithinWeek pdt, ajouter h (Pumping pays) 1]),
        numeroter_cnt_pays NumeroDeContrainteMaxPompage pays,
        nommer_pays h (weekInTheYear h) pays CN_MaxPumping, lessThan, build]))"
    by (rule effet_avec, (rule effet_numeros effet_fin | (rule effet_rien, (intro marques; fail)) | (simp; fail))+)
  show ?thesis
    unfolding MaxPumping_add_def [abs_def]
    by (rule effet_hydro_marque [where b = PresenceDePompageModulable, OF effet_double [OF e, simplified] effet_efface])
qed

lemma effet_AreaHydroLevel:
  "effet [marque_si (SuiviNiveauHoraire (CaracteristiquesHydrauliques h ! pays)) (Ligne NumeroDeContrainteDesNiveauxPays pdt pays)]
     (AreaHydroLevel_add h pays pdt)"
proof -
  let ?q = "Ligne NumeroDeContrainteDesNiveauxPays pdt pays"
  have oui: "effet [Numerote ?q, Numerote ?q] (avec C_AreaHydroLevel (AreaHydroLevel_corps h pays pdt c))" for c
    unfolding AreaHydroLevel_corps_def
    by (rule effet_avec, (rule effet_numeros effet_fin | (rule effet_rien, (intro marques; fail)) | (simp; fail))+)
  have non: "effet [Numerote ?q, Efface ?q] (seqE [numeroter_cnt NumeroDeContrainteDesNiveauxPays pdt pays,
                ecrire_cnt NumeroDeContrainteDesNiveauxPays pdt pays (- 1)])"
    by ((rule effet_numeros effet_fin | (simp; fail))+)
  show ?thesis
    unfolding AreaHydroLevel_add_def [abs_def]
    by (rule effet_hydro_marque [where b = SuiviNiveauHoraire, OF effet_double [OF oui, simplified] effet_double [OF non, simplified]])
qed

lemma effet_stock:
  "effet (if AccurateWaterValue (CaracteristiquesHydrauliques h ! pays) \<and> DirectLevelAccess (CaracteristiquesHydrauliques h ! pays)
     then [Numerote (LignePays NumeroDeContrainteEquivalenceStockFinal pays)] else []) (FinalStockEquivalent_add h pays)"
  "effet (if AccurateWaterValue (CaracteristiquesHydrauliques h ! pays)
     then [Numerote (LignePays NumeroDeContrainteExpressionStockFinal pays)] else []) (FinalStockExpression_add h pays)"
  unfolding FinalStockEquivalent_add_def [abs_def] FinalStockExpression_add_def [abs_def] Let_def
   apply (rule effet_hydro_si [where b = "\<lambda>c. AccurateWaterValue c \<and> DirectLevelAccess c", OF effet_avec effet_seule [OF marque_Inr]])
   apply ((rule effet_numeros effet_fin | (rule effet_rien, (intro marques; fail)) | (simp; fail))+)
  apply (rule effet_hydro_si [where b = AccurateWaterValue, OF effet_avec effet_seule [OF marque_Inr]])
  apply ((rule effet_numeros effet_fin | (rule effet_rien, (intro marques; fail)) | (simp; fail))+)
  done

subsection \<open>Classes that record nothing\<close>

lemma effet_rien_seqE [marques]: "effet [] f \<Longrightarrow> effet [] (seqE fs) \<Longrightarrow> effet [] (seqE (f # fs))"
  by (auto simp: effet_def bindE_Inr)

lemma effet_rien_Nil [marques]: "effet [] (seqE [])"
  by (simp add: effet_def)

lemma effet_rien_forE [marques]:
  assumes "\<And>x. effet [] (f x)"
  shows "effet [] (forE xs f)"
proof -
  have "forE xs f s = Inr s' \<Longrightarrow> lecture_cnt s' = lecture_cnt s" for s s'
    using assms by (induction xs arbitrary: s) (auto simp: effet_def bindE_Inr)
  then show ?thesis by (simp add: effet_def)
qed

lemma effet_rien_lire [marques]: "(\<And>x. effet [] (f x)) \<Longrightarrow> effet [] (\<lambda>s. bindE (lire xs i) (\<lambda>x. f x s))"
  by (rule effet_lire)

lemma effet_rien_si [marques]:
  "effet [] f \<Longrightarrow> effet [] g \<Longrightarrow> effet [] (\<lambda>s. if b s then f s else g s)"
  "effet [] f \<Longrightarrow> effet [] g \<Longrightarrow> effet [] (if b' then f else g)"
  by (simp_all add: effet_def)

lemma effet_rien_nouveau [marques]: "effet [] (nouveau c)"
  unfolding effet_def nouveau_def by (auto intro!: lecture_cnt_cong)

lemmas effet_rien_avec [marques] = effet_avec [where ms = "[]"]
lemmas effet_rien_build [marques] = effet_build
lemmas effet_rien_marque = effet_seule [where ms = "[]"]

text \<open>One statement of a class that records nothing.\<close>

lemma effet_lissage:
  "effet [] (HydroPowerSmoothingUsingVariationSum_add h pays)" "effet [] (HydroPowerSmoothingUsingVariationMaxDown_add h pays pdt)"
  "effet [] (HydroPowerSmoothingUsingVariationMaxUp_add h pays pdt)"
  unfolding HydroPowerSmoothingUsingVariationSum_add_def [abs_def] HydroPowerSmoothingUsingVariationSum_corps_def [abs_def]
    HydroPowerSmoothingUsingVariationMaxDown_add_def [abs_def] HydroPowerSmoothingUsingVariationMaxUp_add_def [abs_def] Let_def
  by ((rule effet_rien_marque, (intro marques; fail)) | rule effet_rien_seqE effet_rien_Nil effet_rien_forE effet_rien_lire
      effet_rien_si effet_rien_avec effet_rien_build)+

lemma effet_contraintes_lissage: "effet [] (contraintes_lissage h)"
  unfolding contraintes_lissage_def si_hydraulique_def [abs_def]
  by ((rule effet_lissage) | (rule effet_rien_marque, (intro marques; fail)) | rule effet_rien_seqE effet_rien_Nil
      effet_rien_forE effet_rien_lire effet_rien_si)+

lemma effet_demarrage:
  "effet [] (PMaxDispatchableGeneration_add h pays p i pdt False)" "effet [] (PMinDispatchableGeneration_add h pays p i pdt False)"
  "effet [] (ConsistenceNumberOfDispatchableUnits_add h pays p i pdt False)"
  "effet [] (NbUnitsOutageLessThanNbUnitsStop_add h pays p i pdt False)"
  "effet [] (NbDispUnitsMinBoundSinceMinUpTime_add h pays p i pdt False)"
  unfolding PMaxDispatchableGeneration_add_def [abs_def] PMinDispatchableGeneration_add_def [abs_def]
    ConsistenceNumberOfDispatchableUnits_add_def [abs_def] NbUnitsOutageLessThanNbUnitsStop_add_def [abs_def]
    NbDispUnitsMinBoundSinceMinUpTime_add_def [abs_def] Let_def not_False_eq_True if_True
  by ((rule effet_rien_marque, (intro marques; fail)) | rule effet_rien_seqE effet_rien_Nil effet_rien_forE effet_rien_lire
      effet_rien_si effet_rien_avec effet_rien_build)+

lemma effet_boucles:
  "effet [] (boucle_PMax_PMin h False pays)" "effet [] (boucle_Consistence h False pays)"
  "effet [] (boucle_NbUnitsOutage h False pays)" "effet [] (boucle_MinUpTime h False pays)"
  unfolding boucle_PMax_PMin_def boucle_Consistence_def boucle_NbUnitsOutage_def boucle_MinUpTime_def pour_paliers_du_pays_def [abs_def]
  by ((rule effet_demarrage effet_rien_nouveau) | (rule effet_rien_marque, (intro marques; fail))
      | rule effet_rien_seqE effet_rien_Nil effet_rien_forE effet_rien_lire effet_rien_si)+

subsection \<open>The minimum down times\<close>

text \<open>This class records its number only when it has a row; so its effect is known when the number of rows changes.\<close>

definition effet_ligne :: "marque list \<Rightarrow> (etat \<Rightarrow> etat resultat) \<Rightarrow> bool" where
  "effet_ligne ms f \<longleftrightarrow> (\<forall>s s'. f s = Inr s' \<and>
     NombreDeContraintes (ProblemeAResoudre s') \<noteq> NombreDeContraintes (ProblemeAResoudre s) \<longrightarrow>
     lecture_cnt s' = fold (poser (NombreDeContraintes (ProblemeAResoudre s))) ms (lecture_cnt s))"

lemma effet_ligne_seqE:
  assumes f: "marque_seule ms f" and fs: "effet_ligne ms' (seqE fs)"
  shows "effet_ligne (ms @ ms') (seqE (f # fs))"
  unfolding effet_ligne_def
proof (intro allI impI)
  fix s s' assume "seqE (f # fs) s = Inr s' \<and> NombreDeContraintes (ProblemeAResoudre s') \<noteq> NombreDeContraintes (ProblemeAResoudre s)"
  then obtain s1 where s1: "f s = Inr s1" "seqE fs s1 = Inr s'"
    "NombreDeContraintes (ProblemeAResoudre s') \<noteq> NombreDeContraintes (ProblemeAResoudre s)" by (auto simp: bindE_Inr)
  then have "NombreDeContraintes (ProblemeAResoudre s1) = NombreDeContraintes (ProblemeAResoudre s)"
    "lecture_cnt s1 = fold (poser (NombreDeContraintes (ProblemeAResoudre s))) ms (lecture_cnt s)"
    using f by (auto simp: marque_seule_def effet_def)
  with fs [unfolded effet_ligne_def, rule_format, of s1 s'] s1
  show "lecture_cnt s' = fold (poser (NombreDeContraintes (ProblemeAResoudre s))) (ms @ ms') (lecture_cnt s)"
    by simp
qed

lemma effet_ligne_seqE_1: "effet_ligne ms f \<Longrightarrow> effet_ligne ms (seqE [f])"
  by (auto simp: effet_ligne_def bindE_Inr)

lemma effet_ligne_si: "effet ms f \<Longrightarrow> effet_ligne ms (\<lambda>s. if b s then f s else Inr s)"
  by (auto simp: effet_ligne_def effet_def)

lemma effet_ligne_avec: "effet_ligne ms f \<Longrightarrow> effet_ligne ms (avec c f)"
  unfolding effet_ligne_def
proof (intro allI impI)
  fix s s'
  assume f: "\<forall>s s'. f s = Inr s' \<and> NombreDeContraintes (ProblemeAResoudre s') \<noteq> NombreDeContraintes (ProblemeAResoudre s) \<longrightarrow>
      lecture_cnt s' = fold (poser (NombreDeContraintes (ProblemeAResoudre s))) ms (lecture_cnt s)"
    and a: "avec c f s = Inr s' \<and> NombreDeContraintes (ProblemeAResoudre s') \<noteq> NombreDeContraintes (ProblemeAResoudre s)"
  then obtain s1 where s1: "f (s\<lparr>courant := builders s c\<rparr>) = Inr s1" "s' = s1\<lparr>builders := (builders s1)(c := courant s1)\<rparr>"
    by (auto simp: avec_def bindE_Inr)
  have "lecture_cnt s' = lecture_cnt s1" "lecture_cnt (s\<lparr>courant := builders s c\<rparr>) = lecture_cnt s"
    by (rule lecture_cnt_cong; simp add: s1(2))+
  moreover have "NombreDeContraintes (ProblemeAResoudre s1) \<noteq> NombreDeContraintes (ProblemeAResoudre s)"
    using a s1(2) by simp
  ultimately show "lecture_cnt s' = fold (poser (NombreDeContraintes (ProblemeAResoudre s))) ms (lecture_cnt s)"
    using f [rule_format, of "s\<lparr>courant := builders s c\<rparr>" s1] s1(1) by simp
qed

lemma effet_MinDownTime:
  "effet_ligne [Numerote (Ligne NumeroDeContrainteDesContraintesDeDureeMinDArret pdt p)] (MinDownTime_add h pays p i pdt False)"
proof -
  let ?q = "Ligne NumeroDeContrainteDesContraintesDeDureeMinDArret pdt p"
  have n: "effet [Numerote ?q] (seqE [numeroter_cnt NumeroDeContrainteDesContraintesDeDureeMinDArret pdt p,
      nommer_palier h (heure_annee h pdt) pays i CN_MinDownTime, build])"
    by ((rule effet_numeros effet_fin | (rule effet_rien, (intro marques; fail)) | (simp; fail))+)
  have "effet_ligne ([] @ [] @ [] @ [] @ [Numerote ?q]) (avec C_MinDownTime (seqE
           [updateHourWithinWeek pdt, ajouter h (NumberOfDispatchableUnits p) 1,
            pour_fenetre h pdt duree (\<lambda>t1. seqE
              [updateHourWithinWeek t1, ajouter h (NumberStoppingDispatchableUnits p) 1]),
            lessThan,
            (\<lambda>s. if 1 < NumberOfVariables s
                 then seqE [numeroter_cnt NumeroDeContrainteDesContraintesDeDureeMinDArret pdt p,
                    nommer_palier h (heure_annee h pdt) pays i CN_MinDownTime, build] s
                 else Inr s)]))" for duree
    by (intro effet_ligne_avec effet_ligne_seqE effet_ligne_seqE_1 effet_ligne_si n) (intro marques)+
  from effet_ligne_seqE [OF marque_numeroter(2) effet_ligne_seqE_1 [OF this], of NumeroDeContrainteDesContraintesDeDureeMinDArret pdt p]
  show ?thesis
    by (auto simp: MinDownTime_add_def effet_ligne_def bindE_Inr lire_Inr simp del: seqE.simps)
qed

end
