(* ===== verification/Matrix_Numbering.thy ===== *)
theory Matrix_Numbering
  imports Row_Numbering
begin

text \<open>
  What the construction of the whole matrix records: \<open>fiches_cnt\<close> is the list of its steps, each with the place
  where the number is recorded (or erased) and the rows. Their rows are \<open>liste_lignes\<close>, in the same order; so
  the number recorded for a place is the number of its row, unless the step has no row.
\<close>

abbreviation inscrit :: "contexte \<Rightarrow> (etat \<Rightarrow> etat resultat) \<Rightarrow> fiche_cnt list \<Rightarrow> nat \<Rightarrow> bool" where
  "inscrit K f fs k \<equiv> numerote (rep_lignes K ()) (rep_lignes K ()) K f fs k"

subsection \<open>The steps\<close>

definition fiches_cnt_pays :: "contexte \<Rightarrow> nat \<Rightarrow> nat \<Rightarrow> fiche_cnt list" where
  "fiches_cnt_pays K pdt pays =
     [(Some (Numerote (Ligne NumeroDeContrainteDesBilansPays pdt pays)), ligne_AreaBalance K pdt pays),
      (Some (Numerote (Ligne NumeroDeContraintePourEviterLesChargesFictives pdt pays)), ligne_FictitiousLoad K pdt pays)] @
     map (\<lambda>st. (Some (Numerote (Ligne ShortTermStorageLevelConstraint pdt (clusterGlobalIndex st))), ligne_stockage K pdt st))
       (ShortTermStorage (kh K) ! pays)"

definition fiche_cnt_couts :: "contexte \<Rightarrow> nat \<Rightarrow> nat \<Rightarrow> fiche_cnt" where
  "fiche_cnt_couts K pdt l =
     (if IntercoGereeAvecDesCouts (CoutDeTransport (kh K) ! l)
      then Some (Numerote (Ligne NumeroDeContrainteDeDissociationDeFlux pdt l)) else None, ligne_FlowDissociation K pdt l)"

definition fiche_cnt_couplante :: "contexte \<Rightarrow> nat \<Rightarrow> nat \<Rightarrow> fiche_cnt" where
  "fiche_cnt_couplante K pdt c =
     (Some (Numerote (Ligne NumeroDeContrainteDesContraintesCouplantes pdt c)), ligne_BindingConstraintHour K pdt c)"

definition fiches_cnt_heure :: "contexte \<Rightarrow> nat \<Rightarrow> fiche_cnt list" where
  "fiches_cnt_heure K pdt = par_pays (kh K) (fiches_cnt_pays K pdt) @
     map (fiche_cnt_couts K pdt) [0..<NombreDInterconnexions (kh K)] @
     map (fiche_cnt_couplante K pdt) [0..<NombreDeContraintesCouplantes (kh K)]"

definition fiches_cnt_jour :: "contexte \<Rightarrow> nat \<Rightarrow> fiche_cnt list" where
  "fiches_cnt_jour K c =
     (if TypeDeContrainteCouplante (couplante K c) = CONTRAINTE_JOURNALIERE
      then map (\<lambda>d. (Some (Numerote (LigneJour (NumeroDeJourDuPasDeTemps (kh K) ! d) c)),
             ligne_couplante K (couplante K c) (jour_depuis (kh K) d))) (debuts_de_jour (kh K))
      else [])"

definition fiche_cnt_semaine :: "contexte \<Rightarrow> nat \<Rightarrow> fiche_cnt" where
  "fiche_cnt_semaine K c =
     (if TypeDeContrainteCouplante (couplante K c) = CONTRAINTE_HEBDOMADAIRE then Some (Numerote (LigneHebdo c)) else None,
      ligne_BindingConstraintWeek K c)"

definition fiche_cnt_energie :: "contexte \<Rightarrow> nat \<Rightarrow> fiche_cnt" where
  "fiche_cnt_energie K pays =
     (Some (marque_si (energie_fixee (hydro K pays)) (LignePays NumeroDeContrainteEnergieHydraulique pays)), ligne_HydroPower K pays)"

definition fiches_cnt_bornes :: "contexte \<Rightarrow> nat \<Rightarrow> fiche_cnt list" where
  "fiches_cnt_bornes K pays =
     [(Some (marque_si (energie_bornee (hydro K pays)) (LignePays NumeroDeContrainteMinEnergieHydraulique pays)), ligne_MinHydroPower K pays),
      (Some (marque_si (energie_bornee (hydro K pays)) (LignePays NumeroDeContrainteMaxEnergieHydraulique pays)), ligne_MaxHydroPower K pays)]"

definition fiche_cnt_pompage :: "contexte \<Rightarrow> nat \<Rightarrow> fiche_cnt" where
  "fiche_cnt_pompage K pays =
     (Some (marque_si (PresenceDePompageModulable (hydro K pays)) (LignePays NumeroDeContrainteMaxPompage pays)), ligne_MaxPumping K pays)"

definition fiche_cnt_niveau :: "contexte \<Rightarrow> nat \<Rightarrow> nat \<Rightarrow> fiche_cnt" where
  "fiche_cnt_niveau K pdt pays =
     (Some (marque_si (SuiviNiveauHoraire (hydro K pays)) (Ligne NumeroDeContrainteDesNiveauxPays pdt pays)), ligne_AreaHydroLevel K pays pdt)"

definition fiches_cnt_stock :: "contexte \<Rightarrow> nat \<Rightarrow> fiche_cnt list" where
  "fiches_cnt_stock K pays =
     [(if AccurateWaterValue (hydro K pays) \<and> DirectLevelAccess (hydro K pays)
       then Some (Numerote (LignePays NumeroDeContrainteEquivalenceStockFinal pays)) else None, ligne_FinalStockEquivalent K pays),
      (if AccurateWaterValue (hydro K pays)
       then Some (Numerote (LignePays NumeroDeContrainteExpressionStockFinal pays)) else None, ligne_FinalStockExpression K pays)]"

definition fiche_cnt_arret :: "contexte \<Rightarrow> nat \<Rightarrow> nat \<Rightarrow> nat \<Rightarrow> fiche_cnt" where
  "fiche_cnt_arret K pays i pdt =
     (Some (Numerote (Ligne NumeroDeContrainteDesContraintesDeDureeMinDArret pdt (palier_du K pays i))), ligne_MinDownTime K pays i pdt)"

definition fiches_cnt_demarrage :: "contexte \<Rightarrow> fiche_cnt list" where
  "fiches_cnt_demarrage K =
     map (\<lambda>pays. (None, concat (map (\<lambda>i. concat (map (\<lambda>pdt. ligne_PMax K pays i pdt @ ligne_PMin K pays i pdt) (heures (kh K))))
       [0..<nb_paliers (kh K) pays]))) [0..<NombreDePays (kh K)] @
     map (\<lambda>pays. (None, concat (map (\<lambda>i. concat (map (ligne_Consistence K pays i) (heures (kh K))))
       [0..<nb_paliers (kh K) pays]))) [0..<NombreDePays (kh K)] @
     map (\<lambda>pays. (None, concat (map (\<lambda>i. concat (map (ligne_NbUnitsOutage K pays i) (heures (kh K))))
       [0..<nb_paliers (kh K) pays]))) [0..<NombreDePays (kh K)] @
     map (\<lambda>pays. (None, concat (map (\<lambda>i. if duree_marche (kh K) pays i \<le> 0 then []
       else concat (map (ligne_MinUpTime K pays i) (heures (kh K)))) [0..<nb_paliers (kh K) pays]))) [0..<NombreDePays (kh K)] @
     par_palier (kh K) (\<lambda>pays i. map (fiche_cnt_arret K pays i) (heures (kh K)))"

definition fiches_cnt :: "contexte \<Rightarrow> fiche_cnt list" where
  "fiches_cnt K =
     concat (map (fiches_cnt_heure K) (heures (kh K))) @
     par_couplante (kh K) (fiches_cnt_jour K) @
     (if NombreDePasDeTempsDUneJournee (kh K) < NombreDePasDeTempsPourUneOptimisation (kh K)
      then map (fiche_cnt_semaine K) [0..<NombreDeContraintesCouplantes (kh K)] else []) @
     map (fiche_cnt_energie K) [0..<NombreDePays (kh K)] @
     [(None, lignes_lissage K)] @
     par_pays (kh K) (fiches_cnt_bornes K) @
     map (fiche_cnt_pompage K) [0..<NombreDePays (kh K)] @
     concat (map (\<lambda>pdt. map (fiche_cnt_niveau K pdt) [0..<NombreDePays (kh K)]) (heures (kh K))) @
     par_pays (kh K) (fiches_cnt_stock K) @
     (if OptimisationAvecCoutsDeDemarrage (kh K) then fiches_cnt_demarrage K else [])"

subsection \<open>Their rows\<close>

lemma lignes_de_map [simp]: "lignes_de (map f xs) = concat (map (\<lambda>x. snd (f x)) xs)"
  by (simp add: lignes_de_def comp_def)

lemma lignes_de_par [simp]:
  "lignes_de (par_pays h F) = par_pays h (\<lambda>x. lignes_de (F x))"
  "lignes_de (par_couplante h F) = par_couplante h (\<lambda>x. lignes_de (F x))"
  "lignes_de (par_palier h G) = par_palier h (\<lambda>x y. lignes_de (G x y))"
  by (simp_all add: par_pays_def par_couplante_def par_palier_def)

lemma lignes_fiches_cnt: "lignes_de (fiches_cnt K) = liste_lignes K"
proof -
  have heure: "lignes_de (fiches_cnt_heure K pdt) = lignes_horaires K pdt" for pdt
    by (simp add: fiches_cnt_heure_def fiches_cnt_pays_def fiche_cnt_couts_def fiche_cnt_couplante_def lignes_horaires_def
        lignes_ShortTermStorageLevel_def par_couplante_def)
  have jour: "lignes_de (fiches_cnt_jour K c) = lignes_BindingConstraintDay K c" for c
    by (simp add: fiches_cnt_jour_def lignes_BindingConstraintDay_def)
  have demarrage: "lignes_de (fiches_cnt_demarrage K) = lignes_demarrage K"
    by (simp add: fiches_cnt_demarrage_def lignes_demarrage_def par_palier_def fiche_cnt_arret_def)
  show ?thesis
    by (simp add: fiches_cnt_def liste_lignes_def heure jour demarrage fiche_cnt_semaine_def fiche_cnt_energie_def
        fiches_cnt_bornes_def fiche_cnt_pompage_def fiche_cnt_niveau_def fiches_cnt_stock_def par_pays_def par_couplante_def)
qed

subsection \<open>The steps are what the code does\<close>

lemma numerote_une:
  assumes "construit K f ls k" and "effet (marques_de mo) f"
  shows "inscrit K f [(mo, ls)] k"
  by (rule numerote_construit [OF assms]) simp

lemma numerote_ligne:
  assumes c: "construit K f ls k" and e: "effet_ligne (marques_de mo) f" and l: "ls \<noteq> []"
  shows "inscrit K f [(mo, ls)] k"
proof (rule numeroteI)
  show "length (lignes_de [(mo, ls)]) \<le> k" using rangs.emits_length [OF c] by simp
next
  fix s L assume s: "rep_lignes K () s L" and t: "tient K (L @ lignes_de [(mo, ls)])" and place: "length L + k \<le> knc K"
  have n: "NombreDeContraintes (ProblemeAResoudre s) = length L"
    using s by (auto simp: rep_lignes_def simp flip: length_lignes)
  have "returns (f s) (\<lambda>s'. rep_lignes K () s' (L @ ls))"
    by (rule rangs.emitsD [OF c s]) (use t place in simp_all)
  then obtain s' where s': "f s = Inr s'" "rep_lignes K () s' (L @ ls)" by (auto elim: returnsE)
  then have "NombreDeContraintes (ProblemeAResoudre s') = length L + length ls"
    by (auto simp: rep_lignes_def simp flip: length_lignes)
  with e [unfolded effet_ligne_def, rule_format, of s s'] s'(1) n l
  have "lecture_cnt s' = fold (poser (length L)) (marques_de mo) (lecture_cnt s)" by simp
  with s' show "returns (f s) (\<lambda>s'. rep_lignes K () s' (L @ lignes_de [(mo, ls)]) \<and>
      lecture_cnt s' = effets [(mo, ls)] (length L) (lecture_cnt s))"
    by (cases mo) (simp_all add: marques_de_def)
qed

lemma inscrit_weaken: "inscrit K f fs k \<Longrightarrow> k \<le> k' \<Longrightarrow> inscrit K f fs k'"
  by (auto simp: numerote_def)

lemmas inscrit_seqE_Cons = numerote_seqE_Cons [of "rep_lignes K ()" "rep_lignes K ()" K _ _ _ "rep_lignes K ()" for K]

lemma inscrit_seqE_1: "inscrit K f fs k \<Longrightarrow> inscrit K (seqE [f]) fs k"
  using numerote_seqE_Cons [OF _ numerote_seqE_Nil, of "rep_lignes K ()" "rep_lignes K ()" K f fs k] by simp

lemma inscrit_map:
  assumes "\<And>x. x \<in> set xs \<Longrightarrow> inscrit K (f x) [g x] (k x)"
  shows "inscrit K (forE xs f) (map g xs) (sum_list (map k xs))"
  using numerote_forE [OF assms] by (simp add: concat_map_singleton)

lemma inscrit_par_pays:
  assumes "\<And>pays. pays < NombreDePays (kh K) \<Longrightarrow> inscrit K (f pays) (fs pays) (k pays)"
  shows "inscrit K (forE [0..<NombreDePays (kh K)] f) (par_pays (kh K) fs) (somme_pays (kh K) k)"
  unfolding par_pays_def somme_pays_def by (rule numerote_forE) (use assms in simp)

lemma inscrit_map_pays:
  assumes "\<And>pays. pays < NombreDePays (kh K) \<Longrightarrow> inscrit K (f pays) [g pays] (k pays)"
  shows "inscrit K (forE [0..<NombreDePays (kh K)] f) (map g [0..<NombreDePays (kh K)]) (somme_pays (kh K) k)"
  unfolding somme_pays_def by (rule inscrit_map) (use assms in simp)

lemma inscrit_heures:
  assumes "\<And>pdt. pdt < NombreDePasDeTempsPourUneOptimisation (kh K) \<Longrightarrow> inscrit K (f pdt) (fs pdt) n"
  shows "inscrit K (forE (heures (kh K)) f) (concat (map fs (heures (kh K)))) (n * NombreDePasDeTempsPourUneOptimisation (kh K))"
  using numerote_forE [of "heures (kh K)" "rep_lignes K ()" K f fs "\<lambda>_. n"] assms
  by (simp add: sum_list_triv mult.commute)

lemma inscrit_stockages:
  assumes K: "contexte_ok K" and pdt: "pdt < NombreDePasDeTempsPourUneOptimisation (kh K)" and pays: "pays < NombreDePays (kh K)"
  shows "inscrit K (ShortTermStorageLevel_add (kh K) pdt pays)
    (map (\<lambda>st. (Some (Numerote (Ligne ShortTermStorageLevelConstraint pdt (clusterGlobalIndex st))), ligne_stockage K pdt st))
       (ShortTermStorage (kh K) ! pays)) (length (ShortTermStorage (kh K) ! pays))"
proof -
  let ?sts = "ShortTermStorage (kh K) ! pays"
  have st: "numerote (fini K (Some pdt, None)) (fini K (Some pdt, None)) K (ShortTermStorageLevel_corps (kh K) pdt pays st)
      [(Some (Numerote (Ligne ShortTermStorageLevelConstraint pdt (clusterGlobalIndex st))), ligne_stockage K pdt st)] 1"
    if "st \<in> set ?sts" for st
    by (rule numerote_produit [OF ShortTermStorageLevel_corps_ok [OF K pdt pays that] effet_pays(3)]) (simp add: marques_de_def)
  have "numerote (fini K (None, None)) (fini K (Some pdt, None)) K (updateHourWithinWeek pdt) [(None, [])] 0"
    by (rule numerote_produit [OF produit_heure effet_seule [OF marque_heure]])
      (use pdt_lt [OF contexte_ok_hebdo [OF K] pdt] in \<open>simp_all add: marques_de_def\<close>)
  then have heure: "numerote (fini K (None, None)) (fini K (Some pdt, None)) K (updateHourWithinWeek pdt) [] 0"
    by (simp add: numerote_def)
  have "numerote (fini K (None, None)) (fini K (Some pdt, None)) K
      (seqE [updateHourWithinWeek pdt, forE ?sts (ShortTermStorageLevel_corps (kh K) pdt pays)])
      (map (\<lambda>st. (Some (Numerote (Ligne ShortTermStorageLevelConstraint pdt (clusterGlobalIndex st))), ligne_stockage K pdt st)) ?sts)
      (length ?sts)"
    using numerote_seqE_Cons [OF heure numerote_seqE_Cons [OF numerote_forE [OF st] numerote_seqE_Nil]]
    by (simp add: concat_map_singleton sum_list_triv del: seqE.simps)
  note corps = numerote_avec [OF this, of C_ShortTermStorageLevel]
  have "ShortTermStorageLevel_add (kh K) pdt pays = avec C_ShortTermStorageLevel
      (seqE [updateHourWithinWeek pdt, forE ?sts (ShortTermStorageLevel_corps (kh K) pdt pays)])"
    using pays K by (intro ext) (simp add: ShortTermStorageLevel_add_def)
  with corps show ?thesis by simp
qed

lemma inscrit_jour:
  assumes K: "contexte_ok K" and c: "c < NombreDeContraintesCouplantes (kh K)"
  shows "inscrit K (BindingConstraintDay_add (kh K) c) (fiches_cnt_jour K c)
    (if TypeDeContrainteCouplante (couplante K c) = CONTRAINTE_JOURNALIERE
     then NombreDePasDeTempsPourUneOptimisation (kh K) div NombreDePasDeTempsDUneJournee (kh K) else 0)"
proof (cases "TypeDeContrainteCouplante (couplante K c) = CONTRAINTE_JOURNALIERE")
  case True
  let ?c = "couplante K c"
  have "numerote (fini K (None, None)) (fini K (None, None)) K (BindingConstraintDay_corps (kh K) c ?c d)
      [(Some (Numerote (LigneJour (NumeroDeJourDuPasDeTemps (kh K) ! d) c)), ligne_couplante K ?c (jour_depuis (kh K) d))] 1"
    if "d \<in> set (debuts_de_jour (kh K))" for d
    by (rule numerote_produit [OF BindingConstraintDay_corps_ok [OF K c that] effet_couplantes(2)]) (simp add: marques_de_def)
  then have corps: "inscrit K (avec C_BindingConstraintDay (forE (debuts_de_jour (kh K)) (BindingConstraintDay_corps (kh K) c ?c)))
      (concat (map (\<lambda>d. [(Some (Numerote (LigneJour (NumeroDeJourDuPasDeTemps (kh K) ! d) c)),
         ligne_couplante K ?c (jour_depuis (kh K) d))]) (debuts_de_jour (kh K)))) (sum_list (map (\<lambda>_. 1) (debuts_de_jour (kh K))))"
    by (intro numerote_avec [where j = "(None, None)"] numerote_forE)
  have "boucle_jours (kh K) f (NombreDePasDeTempsPourUneOptimisation (kh K)) 0 = forE (debuts_de_jour (kh K)) f" for f
    by (rule ext, rule boucle_jours_forE [OF contexte_ok_hebdo [OF K]])
  then have "BindingConstraintDay_add (kh K) c = avec C_BindingConstraintDay
      (forE (debuts_de_jour (kh K)) (BindingConstraintDay_corps (kh K) c ?c))"
    using True K c by (intro ext) (simp add: BindingConstraintDay_add_def)
  with corps True K show ?thesis
    by (simp add: fiches_cnt_jour_def sum_list_triv concat_map_singleton)
next
  case False
  then show ?thesis
    using K c numerote_Inr by (simp add: BindingConstraintDay_add_def [abs_def] fiches_cnt_jour_def)
qed

text \<open>One hour.\<close>

lemma inscrit_heure:
  assumes K [simp]: "contexte_ok K" and pdt [simp]: "pdt < NombreDePasDeTempsPourUneOptimisation (kh K)"
  shows "inscrit K (contraintes_horaires (kh K) pdt) (fiches_cnt_heure K pdt) (places_horaires (kh K))"
proof -
  let ?h = "kh K"
  have pays: "inscrit K (seqE [AreaBalance_add ?h pdt pays, FictitiousLoad_add ?h pdt pays, ShortTermStorageLevel_add ?h pdt pays])
      (fiches_cnt_pays K pdt pays) (2 + length (ShortTermStorage ?h ! pays))" if "pays < NombreDePays ?h" for pays
    using numerote_seqE_Cons [OF numerote_une [OF AreaBalance_ok [OF K pdt that], of "Some _"]
      numerote_seqE_Cons [OF numerote_une [OF FictitiousLoad_ok [OF K pdt that], of "Some _"]
        inscrit_seqE_1 [OF inscrit_stockages [OF K pdt that]]]] effet_pays
    by (simp add: fiches_cnt_pays_def marques_de_def del: seqE.simps)
  have "inscrit K (FlowDissociation_add ?h pdt l) [fiche_cnt_couts K pdt l] 1" if "l < NombreDInterconnexions ?h" for l
    unfolding fiche_cnt_couts_def
    by (rule numerote_une [OF FlowDissociation_ok [OF K pdt that]]) (use effet_couts [of ?h l pdt] in \<open>simp add: marques_de_def split: if_splits\<close>)
  then have couts: "inscrit K (forE [0..<NombreDInterconnexions ?h] (FlowDissociation_add ?h pdt))
      (map (fiche_cnt_couts K pdt) [0..<NombreDInterconnexions ?h]) (NombreDInterconnexions ?h)"
    using inscrit_map [of "[0..<NombreDInterconnexions ?h]" K "FlowDissociation_add ?h pdt" "fiche_cnt_couts K pdt" "\<lambda>_. 1"]
    by (simp add: sum_list_triv)
  have "inscrit K (BindingConstraintHour_add ?h pdt c) [fiche_cnt_couplante K pdt c]
      (if TypeDeContrainteCouplante (couplante K c) = CONTRAINTE_HORAIRE then 1 else 0)"
    if "c < NombreDeContraintesCouplantes ?h" for c
    unfolding fiche_cnt_couplante_def
    by (rule numerote_une [OF BindingConstraintHour_ok [OF K pdt that]]) (simp add: marques_de_def effet_couplantes)
  then have couplantes: "inscrit K (forE [0..<NombreDeContraintesCouplantes ?h] (BindingConstraintHour_add ?h pdt))
      (map (fiche_cnt_couplante K pdt) [0..<NombreDeContraintesCouplantes ?h]) (nb_couplantes ?h CONTRAINTE_HORAIRE)"
    unfolding nb_couplantes_def by (intro inscrit_map) simp
  show ?thesis
    unfolding contraintes_horaires_def fiches_cnt_heure_def places_horaires_def
    by (intro inscrit_seqE_Cons inscrit_seqE_1 inscrit_par_pays pays couts couplantes)
qed

text \<open>The hydro steps and the start-up steps.\<close>

lemma inscrit_hydro:
  assumes K: "contexte_ok K" and pays: "pays < NombreDePays (kh K)"
  shows "inscrit K (HydroPower_add (kh K) pays) [fiche_cnt_energie K pays] (places_energie (kh K) pays)"
    and "inscrit K (seqE [MinHydroPower_add (kh K) pays, MaxHydroPower_add (kh K) pays]) (fiches_cnt_bornes K pays)
      (places_bornes (kh K) pays)"
    and "inscrit K (MaxPumping_add (kh K) pays) [fiche_cnt_pompage K pays] (places_pompage (kh K) pays)"
    and "inscrit K (seqE [FinalStockEquivalent_add (kh K) pays, FinalStockExpression_add (kh K) pays])
      (fiches_cnt_stock K pays) (places_stock (kh K) pays)"
proof -
  show "inscrit K (HydroPower_add (kh K) pays) [fiche_cnt_energie K pays] (places_energie (kh K) pays)"
    unfolding fiche_cnt_energie_def
    by (rule numerote_une [OF construit_bornes(3) [OF K pays]]) (use effet_HydroPower in \<open>simp add: marques_de_def\<close>)
  show "inscrit K (MaxPumping_add (kh K) pays) [fiche_cnt_pompage K pays] (places_pompage (kh K) pays)"
    unfolding fiche_cnt_pompage_def
    by (rule numerote_une [OF construit_bornes(4) [OF K pays]]) (use effet_MaxPumping in \<open>simp add: marques_de_def\<close>)
  have "inscrit K (MinHydroPower_add (kh K) pays) [(Some (marque_si (energie_bornee (hydro K pays))
      (LignePays NumeroDeContrainteMinEnergieHydraulique pays)), ligne_MinHydroPower K pays)] (if energie_bornee (hydro K pays) then 1 else 0)"
    "inscrit K (MaxHydroPower_add (kh K) pays) [(Some (marque_si (energie_bornee (hydro K pays))
      (LignePays NumeroDeContrainteMaxEnergieHydraulique pays)), ligne_MaxHydroPower K pays)] (if energie_bornee (hydro K pays) then 1 else 0)"
    by (rule numerote_une [OF MinHydroPower_ok [OF K pays]], use effet_MinHydroPower in \<open>simp add: marques_de_def\<close>)
      (rule numerote_une [OF MaxHydroPower_ok [OF K pays]], use effet_MaxHydroPower in \<open>simp add: marques_de_def\<close>)
  note b = inscrit_seqE_Cons [OF this(1) inscrit_seqE_1 [OF this(2)]]
  have "places_bornes (kh K) pays = (if energie_bornee (hydro K pays) then 1 else 0) + (if energie_bornee (hydro K pays) then 1 else 0)"
    by (simp add: places_bornes_def)
  with b show "inscrit K (seqE [MinHydroPower_add (kh K) pays, MaxHydroPower_add (kh K) pays]) (fiches_cnt_bornes K pays)
      (places_bornes (kh K) pays)"
    by (simp only: fiches_cnt_bornes_def append_Cons append_Nil)
  let ?m = "\<lambda>b q. if b then Some (Numerote (LignePays q pays)) else None"
  have e: "inscrit K (FinalStockEquivalent_add (kh K) pays) [(?m (AccurateWaterValue (hydro K pays) \<and> DirectLevelAccess (hydro K pays))
      NumeroDeContrainteEquivalenceStockFinal, ligne_FinalStockEquivalent K pays)]
      (if AccurateWaterValue (hydro K pays) \<and> DirectLevelAccess (hydro K pays) then 1 else 0)"
    by (rule numerote_une [OF FinalStockEquivalent_ok [OF K pays]])
      (use effet_stock(1) [of "kh K" pays] in \<open>auto simp: marques_de_def split: if_splits\<close>)
  have x: "inscrit K (FinalStockExpression_add (kh K) pays) [(?m (AccurateWaterValue (hydro K pays))
      NumeroDeContrainteExpressionStockFinal, ligne_FinalStockExpression K pays)] (if AccurateWaterValue (hydro K pays) then 1 else 0)"
    by (rule numerote_une [OF FinalStockExpression_ok [OF K pays]])
      (use effet_stock(2) [of "kh K" pays] in \<open>auto simp: marques_de_def split: if_splits\<close>)
  note b = inscrit_seqE_Cons [OF e inscrit_seqE_1 [OF x]]
  have "places_stock (kh K) pays = (if AccurateWaterValue (hydro K pays) \<and> DirectLevelAccess (hydro K pays) then 1 else 0) +
      (if AccurateWaterValue (hydro K pays) then 1 else 0)"
    by (simp add: places_stock_def)
  with b show "inscrit K (seqE [FinalStockEquivalent_add (kh K) pays, FinalStockExpression_add (kh K) pays])
      (fiches_cnt_stock K pays) (places_stock (kh K) pays)"
    by (simp only: fiches_cnt_stock_def append_Cons append_Nil)
qed

lemma inscrit_niveau:
  assumes K: "contexte_ok K" and pdt: "pdt < NombreDePasDeTempsPourUneOptimisation (kh K)"
  shows "inscrit K (forE [0..<NombreDePays (kh K)] (\<lambda>pays. AreaHydroLevel_add (kh K) pays pdt))
    (map (fiche_cnt_niveau K pdt) [0..<NombreDePays (kh K)]) (somme_pays (kh K) (places_niveau (kh K)))"
proof (rule inscrit_map_pays)
  fix pays assume pays: "pays < NombreDePays (kh K)"
  have "inscrit K (AreaHydroLevel_add (kh K) pays pdt) [fiche_cnt_niveau K pdt pays] (if SuiviNiveauHoraire (hydro K pays) then 1 else 0)"
    unfolding fiche_cnt_niveau_def
    by (rule numerote_une [OF AreaHydroLevel_ok [OF K pays pdt]]) (use effet_AreaHydroLevel in \<open>simp add: marques_de_def\<close>)
  then show "inscrit K (AreaHydroLevel_add (kh K) pays pdt) [fiche_cnt_niveau K pdt pays] (places_niveau (kh K) pays)"
    by (simp add: places_niveau_def split: if_splits)
qed

lemma inscrit_arrets:
  assumes K: "contexte_ok K" and num: "demarrage_numerote K" and dem: "OptimisationAvecCoutsDeDemarrage (kh K)"
    and pays: "pays < NombreDePays (kh K)"
  shows "inscrit K (boucle_MinDownTime (kh K) False pays)
    (concat (map (\<lambda>i. map (fiche_cnt_arret K pays i) (heures (kh K))) [0..<nb_paliers (kh K) pays]))
    (sum_list (map (\<lambda>i. NombreDePasDeTempsPourUneOptimisation (kh K)) [0..<nb_paliers (kh K) pays]))"
proof -
  have une: "inscrit K (MinDownTime_add (kh K) pays (palier_du K pays i) i pdt False) [fiche_cnt_arret K pays i pdt] 1"
    if i: "i < nb_paliers (kh K) pays" and pdt: "pdt < NombreDePasDeTempsPourUneOptimisation (kh K)" for i pdt
    unfolding fiche_cnt_arret_def
  proof (rule numerote_ligne)
    note d = hebdo_ok_demarrage(2,3) [OF contexte_ok_hebdo [OF K] dem pays i]
    show "construit K (MinDownTime_add (kh K) pays (palier_du K pays i) i pdt False) (ligne_MinDownTime K pays i pdt) 1"
      by (rule MinDownTime_ok [OF K pays i pdt num d])
    show "effet_ligne (marques_de (Some (Numerote (Ligne NumeroDeContrainteDesContraintesDeDureeMinDArret pdt (palier_du K pays i)))))
        (MinDownTime_add (kh K) pays (palier_du K pays i) i pdt False)"
      using effet_MinDownTime by (simp add: marques_de_def)
    show "ligne_MinDownTime K pays i pdt \<noteq> []"
      using demarrage_numerote_terme(1) [OF num pays i pdt, of 1] by (auto simp: ligne_MinDownTime_def rang_def)
  qed
  have "inscrit K (pour_paliers_du_pays (kh K) pays (\<lambda>index palier.
        forE (heures (kh K)) (\<lambda>pdt. MinDownTime_add (kh K) pays palier index pdt False)))
      (concat (map (\<lambda>i. map (fiche_cnt_arret K pays i) (heures (kh K))) [0..<nb_paliers (kh K) pays]))
      (sum_list (map (\<lambda>i. NombreDePasDeTempsPourUneOptimisation (kh K)) [0..<nb_paliers (kh K) pays]))"
  proof -
    have "pour_paliers_du_pays (kh K) pays (\<lambda>index palier.
        forE (heures (kh K)) (\<lambda>pdt. MinDownTime_add (kh K) pays palier index pdt False)) =
      forE [0..<nb_paliers (kh K) pays] (\<lambda>i. forE (heures (kh K)) (\<lambda>pdt. MinDownTime_add (kh K) pays (palier_du K pays i) i pdt False))"
      using contexte_ok_hebdo [OF K] pays by (intro ext) (auto simp: pour_paliers_du_pays_def intro!: forE_cong)
    moreover have "inscrit K \<dots> (concat (map (\<lambda>i. map (fiche_cnt_arret K pays i) (heures (kh K))) [0..<nb_paliers (kh K) pays]))
      (sum_list (map (\<lambda>i. NombreDePasDeTempsPourUneOptimisation (kh K)) [0..<nb_paliers (kh K) pays]))"
    proof (rule numerote_forE)
      fix i assume "i \<in> set [0..<nb_paliers (kh K) pays]"
      with inscrit_heures [of K _ "\<lambda>pdt. [fiche_cnt_arret K pays i pdt]" 1, OF une [of i]]
      show "inscrit K (forE (heures (kh K)) (\<lambda>pdt. MinDownTime_add (kh K) pays (palier_du K pays i) i pdt False))
          (map (fiche_cnt_arret K pays i) (heures (kh K))) (NombreDePasDeTempsPourUneOptimisation (kh K))"
        by (simp add: concat_map_singleton)
    qed
    ultimately show ?thesis by simp
  qed
  from inscrit_seqE_Cons [OF numerote_une [OF construit_nouveau, of None] inscrit_seqE_1 [OF this]]
  show ?thesis
    by (simp add: boucle_MinDownTime_def marques_de_def effet_rien_nouveau numerote_def del: seqE.simps)
qed

text \<open>The start-up loops.\<close>

lemma inscrit_demarrage:
  assumes K [simp]: "contexte_ok K" and num: "demarrage_numerote K" and dem: "OptimisationAvecCoutsDeDemarrage (kh K)"
  shows "inscrit K (OPT_ConstruireLaMatriceDesContraintesDuProblemeLineaireCoutsDeDemarrage (kh K) False)
    (fiches_cnt_demarrage K) (places_demarrage (kh K))"
proof -
  have une: "inscrit K f [(None, ls)] k" if "construit K f ls k" "effet [] f" for f ls k
    by (rule numerote_une [OF that(1)]) (use that(2) in \<open>simp add: marques_de_def\<close>)
  show ?thesis
    unfolding OPT_ConstruireLaMatriceDesContraintesDuProblemeLineaireCoutsDeDemarrage_def
      fiches_cnt_demarrage_def places_demarrage_def Let_def par_palier_def somme_paliers_def somme_pays_def [symmetric]
      par_pays_def [symmetric]
    by (intro inscrit_seqE_Cons inscrit_seqE_1 inscrit_map_pays inscrit_par_pays une inscrit_arrets
        boucle_PMax_PMin_ok boucles_paliers_ok boucle_MinUpTime_ok effet_boucles num dem K)
qed

lemma nb_couplantes_fois:
  "nb_couplantes h t * n = sum_list (map (\<lambda>c. if TypeDeContrainteCouplante (MatriceDesContraintesCouplantes h ! c) = t
     then n else 0) [0..<NombreDeContraintesCouplantes h])"
proof -
  have "sum_list (map (\<lambda>c. if b c then 1 else 0) xs) * n = sum_list (map (\<lambda>c. if b c then n else 0) xs)"
    for b and xs :: "nat list"
    by (induction xs) simp_all
  then show ?thesis by (simp add: nb_couplantes_def)
qed

theorem OPT_ConstruireMatrice_numerote:
  assumes K: "contexte_ok K"
    and num: "OptimisationAvecCoutsDeDemarrage (kh K) \<Longrightarrow> demarrage_numerote K"
    and s: "pret K s" and larg: "tient K (liste_lignes K)" and place: "places (kh K) \<le> knc K"
  shows "returns (OPT_ConstruireLaMatriceDesContraintesDuProblemeLineaire (kh K) s)
    (\<lambda>s'. rep_lignes K () s' (liste_lignes K) \<and> lecture_cnt s' = effets (fiches_cnt K) 0 (lecture_cnt s))"
proof -
  let ?h = "kh K"
  have demarrage: "inscrit K (whenE (OptimisationAvecCoutsDeDemarrage ?h)
        (OPT_ConstruireLaMatriceDesContraintesDuProblemeLineaireCoutsDeDemarrage ?h False))
      (if OptimisationAvecCoutsDeDemarrage ?h then fiches_cnt_demarrage K else [])
      (if OptimisationAvecCoutsDeDemarrage ?h then places_demarrage ?h else 0)"
    by (rule numerote_whenE) (rule inscrit_demarrage [OF K num])
  have nouveaux: "inscrit K (forE classes_lineaires nouveau) [] 0"
  proof -
    have "construit K (forE classes_lineaires nouveau) [] 0"
      using rangs.emits_forE [of classes_lineaires K "()" nouveau "\<lambda>_. []" "\<lambda>_. 0"] construit_nouveau
      by (simp add: concat_map_Nil)
    from numerote_une [OF this, of None] show ?thesis
      by (simp add: marques_de_def effet_rien_forE effet_rien_nouveau numerote_def)
  qed
  have lissage: "inscrit K (contraintes_lissage ?h) [(None, lignes_lissage K)] (places_lissage ?h)"
    by (rule numerote_une [OF contraintes_lissage_ok [OF K]]) (simp add: marques_de_def effet_contraintes_lissage)
  have "inscrit K (BindingConstraintWeek_add ?h c) [fiche_cnt_semaine K c]
      (if TypeDeContrainteCouplante (couplante K c) = CONTRAINTE_HEBDOMADAIRE then 1 else 0)"
    if "c < NombreDeContraintesCouplantes ?h" for c
    unfolding fiche_cnt_semaine_def
    by (rule numerote_une [OF BindingConstraintWeek_ok [OF K that]])
      (use effet_couplantes(3) [of ?h c] in \<open>auto simp: marques_de_def split: if_splits\<close>)
  then have semaine: "inscrit K (forE [0..<NombreDeContraintesCouplantes ?h] (BindingConstraintWeek_add ?h))
      (map (fiche_cnt_semaine K) [0..<NombreDeContraintesCouplantes ?h]) (nb_couplantes ?h CONTRAINTE_HEBDOMADAIRE)"
    unfolding nb_couplantes_def by (intro inscrit_map) simp
  have jours: "inscrit K (forE [0..<NombreDeContraintesCouplantes ?h] (BindingConstraintDay_add ?h))
      (par_couplante ?h (fiches_cnt_jour K)) (nb_couplantes ?h CONTRAINTE_JOURNALIERE *
       (NombreDePasDeTempsPourUneOptimisation ?h div NombreDePasDeTempsDUneJournee ?h))"
    unfolding par_couplante_def nb_couplantes_fois
    by (rule numerote_forE) (use inscrit_jour [OF K] in simp)
  have "inscrit K (seqE
     [forE classes_lineaires nouveau,
      forE (heures ?h) (contraintes_horaires ?h),
      forE [0..<NombreDeContraintesCouplantes ?h] (BindingConstraintDay_add ?h),
      whenE (NombreDePasDeTempsDUneJournee ?h < NombreDePasDeTempsPourUneOptimisation ?h)
        (forE [0..<NombreDeContraintesCouplantes ?h] (BindingConstraintWeek_add ?h)),
      forE [0..<NombreDePays ?h] (HydroPower_add ?h),
      contraintes_lissage ?h,
      forE [0..<NombreDePays ?h] (\<lambda>pays. seqE [MinHydroPower_add ?h pays, MaxHydroPower_add ?h pays]),
      forE [0..<NombreDePays ?h] (MaxPumping_add ?h),
      forE (heures ?h) (\<lambda>pdt. forE [0..<NombreDePays ?h] (\<lambda>pays. AreaHydroLevel_add ?h pays pdt)),
      forE [0..<NombreDePays ?h] (\<lambda>pays. seqE
        [FinalStockEquivalent_add ?h pays, FinalStockExpression_add ?h pays]),
      whenE (OptimisationAvecCoutsDeDemarrage ?h)
        (OPT_ConstruireLaMatriceDesContraintesDuProblemeLineaireCoutsDeDemarrage ?h False)])
     ([] @ fiches_cnt K) (0 + places ?h)"
    unfolding fiches_cnt_def places_def
    by (intro inscrit_seqE_Cons inscrit_seqE_1 nouveaux inscrit_heures inscrit_heure jours semaine numerote_whenE
        inscrit_map_pays inscrit_par_pays lissage inscrit_hydro inscrit_niveau demarrage K)
  from numeroteD [OF this rep_lignes_vider [OF s]] larg place
  have "returns (OPT_ConstruireLaMatriceDesContraintesDuProblemeLineaire ?h s)
      (\<lambda>s'. rep_lignes K () s' (liste_lignes K) \<and> lecture_cnt s' = effets (fiches_cnt K) 0 (lecture_cnt (vider_matrice s)))"
    by (simp add: OPT_ConstruireLaMatriceDesContraintesDuProblemeLineaire_def lignes_fiches_cnt)
  moreover have "lecture_cnt (vider_matrice s) = lecture_cnt s"
    by (rule lecture_cnt_cong) (simp_all add: vider_matrice_def)
  ultimately show ?thesis by simp
qed

end
