(* ===== verification/Constraint_Numbers.thy ===== *)
theory Constraint_Numbers
  imports Matrix_Numbering Cell_Writes
begin

text \<open>
  The numbers of the constraints once the matrix is built. \<open>noms_lignes\<close> gives each row the place where its
  number was recorded, if any; \<open>contraintes_numerotees\<close>: the number at the place of row k is k, and a place
  that was erased holds -1. The numeric pass on the right-hand sides starts from there. The places are distinct,
  and every step that records the number of a row the pass will look for has its row (\<open>lignes_presentes\<close>).
\<close>

subsection \<open>What a list of steps leaves behind\<close>

definition nom_marque :: "marque option \<Rightarrow> place_cnt option" where
  "nom_marque mo = (case mo of Some (Numerote q) \<Rightarrow> Some q | _ \<Rightarrow> None)"

definition noms_lignes :: "fiche_cnt list \<Rightarrow> place_cnt option list" where
  "noms_lignes fs = concat (map (\<lambda>f. replicate (length (snd f)) (nom_marque (fst f))) fs)"

fun places_marque :: "marque option \<Rightarrow> place_cnt list" where
  "places_marque None = []"
| "places_marque (Some (Numerote q)) = [q]"
| "places_marque (Some (Efface q)) = [q]"

definition places_cnt :: "fiche_cnt list \<Rightarrow> place_cnt list" where
  "places_cnt fs = concat (map (\<lambda>f. places_marque (fst f)) fs)"

text \<open>A step that records a number has at most one row.\<close>

definition fiche_simple :: "fiche_cnt \<Rightarrow> bool" where
  "fiche_simple f \<longleftrightarrow> nom_marque (fst f) = None \<or> length (snd f) \<le> 1"

lemma noms_lignes_simps [simp]:
  "noms_lignes [] = []" "noms_lignes (f # fs) = replicate (length (snd f)) (nom_marque (fst f)) @ noms_lignes fs"
  by (simp_all add: noms_lignes_def)

lemma length_noms_lignes [simp]: "length (noms_lignes fs) = length (lignes_de fs)"
  by (induction fs) simp_all

lemma places_cnt_simps [simp]:
  "places_cnt [] = []" "places_cnt (f # fs) = places_marque (fst f) @ places_cnt fs"
  "places_cnt (fs @ gs) = places_cnt fs @ places_cnt gs"
  "places_cnt (map F xs) = concat (map (\<lambda>x. places_marque (fst (F x))) xs)"
  "places_cnt (concat (map G ys)) = concat (map (\<lambda>y. places_cnt (G y)) ys)"
  "places_cnt (if b then fs else gs) = (if b then places_cnt fs else places_cnt gs)"
proof -
  show "places_cnt (concat (map G ys)) = concat (map (\<lambda>y. places_cnt (G y)) ys)"
    by (induction ys) (simp_all add: places_cnt_def)
qed (simp_all add: places_cnt_def comp_def)

lemma effets_Cons:
  "effets (f # fs) n m = effets fs (n + length (snd f)) (case fst f of None \<Rightarrow> m | Some k \<Rightarrow> poser n k m)"
  by (cases f) simp

lemma effets_ailleurs: "q \<notin> set (places_cnt fs) \<Longrightarrow> effets fs n m q = m q"
proof (induction fs arbitrary: n m)
  case (Cons f fs)
  then have "effets (f # fs) n m q = (case fst f of None \<Rightarrow> m | Some k \<Rightarrow> poser n k m) q"
    by (simp add: effets_Cons)
  also have "\<dots> = m q"
    using Cons.prems by (cases "fst f" rule: places_marque.cases) simp_all
  finally show ?case .
qed simp

text \<open>The number of a row is found at its place, and -1 where a step erased it.\<close>

lemma effets_numero:
  "distinct (places_cnt fs) \<Longrightarrow> \<forall>f \<in> set fs. fiche_simple f \<Longrightarrow> k < length (lignes_de fs) \<Longrightarrow>
     noms_lignes fs ! k = Some q \<Longrightarrow> effets fs n m q = int (n + k)"
proof (induction fs arbitrary: n m k)
  case (Cons f fs)
  show ?case
  proof (cases "k < length (snd f)")
    case True
    then have f: "fst f = Some (Numerote q)"
      using Cons.prems(4) by (auto simp: nth_append nom_marque_def split: option.splits marque.splits)
    then have "length (snd f) \<le> 1" and q: "q \<notin> set (places_cnt fs)"
      using Cons.prems(1,2) by (auto simp: fiche_simple_def nom_marque_def)
    then have "k = 0" using True by simp
    then show ?thesis using effets_ailleurs [OF q] f by (simp add: effets_Cons)
  next
    case False
    then have "effets (f # fs) n m q = int (n + length (snd f) + (k - length (snd f)))"
      unfolding effets_Cons by (intro Cons.IH) (use Cons.prems in \<open>auto simp: nth_append\<close>)
    then show ?thesis using False by simp
  qed
qed simp

lemma effets_efface:
  "distinct (places_cnt fs) \<Longrightarrow> (Some (Efface q), ls) \<in> set fs \<Longrightarrow> effets fs n m q = - 1"
proof (induction fs arbitrary: n m)
  case (Cons f fs)
  show ?case
  proof (cases "f = (Some (Efface q), ls)")
    case True
    then have "q \<notin> set (places_cnt fs)" using Cons.prems(1) by simp
    then show ?thesis using effets_ailleurs True by simp
  next
    case False
    then show ?thesis using Cons by (simp add: effets_Cons)
  qed
qed simp

lemma nom_present:
  assumes "(Some (Numerote q), ls) \<in> set fs" and "ls \<noteq> []"
  shows "Some q \<in> set (noms_lignes fs)"
  using assms by (auto simp: noms_lignes_def nom_marque_def intro!: bexI [of _ "(Some (Numerote q), ls)"])

text \<open>Two rows never have the same place.\<close>

lemma noms_distincts:
  assumes "distinct (places_cnt fs)" and "\<forall>f \<in> set fs. fiche_simple f"
    and "i < length (lignes_de fs)" and "j < length (lignes_de fs)"
    and "noms_lignes fs ! i = Some q" and "noms_lignes fs ! j = Some q"
  shows "i = j"
  using effets_numero [OF assms(1,2,3,5), of 0 m] effets_numero [OF assms(1,2,4,6), of 0 m] by simp

subsection \<open>The places of the whole construction are distinct\<close>

lemma distinct_append_si:
  "distinct xs \<Longrightarrow> distinct ys \<Longrightarrow> (\<forall>x \<in> set xs. P x) \<Longrightarrow> (\<forall>y \<in> set ys. \<not> P y) \<Longrightarrow> distinct (xs @ ys)"
  by auto

text \<open>What the places of one piece have in common.\<close>

lemma distinct_concat_cle:
  assumes "distinct xs" and "\<And>x. x \<in> set xs \<Longrightarrow> distinct (F x)"
    and "\<And>x p. x \<in> set xs \<Longrightarrow> p \<in> set (F x) \<Longrightarrow> cle p = x"
  shows "distinct (concat (map F xs))"
  by (rule distinct_concat_mapI) (use assms in blast)+

fun heure_de_place :: "place_cnt \<Rightarrow> nat" where
  "heure_de_place (Ligne c pdt i) = pdt"
| "heure_de_place _ = 0"

fun rang_de_place :: "place_cnt \<Rightarrow> nat" where
  "rang_de_place (Ligne c pdt i) = i"
| "rang_de_place (LigneJour jour i) = i"
| "rang_de_place (LigneHebdo i) = i"
| "rang_de_place (LignePays c pays) = pays"

lemma places_marque_si [simp]:
  "places_marque (if b then mo else mo') = (if b then places_marque mo else places_marque mo')"
  "places_marque (Some (marque_si b q)) = [q]"
  by simp_all

text \<open>An area at an hour.\<close>

definition champs_cnt_pays :: "champ_cnt set" where
  "champs_cnt_pays = {NumeroDeContrainteDesBilansPays, NumeroDeContraintePourEviterLesChargesFictives, ShortTermStorageLevelConstraint}"

lemma places_cnt_pays:
  assumes N: "numeros_distincts (kh K)" and "pays < NombreDePays (kh K)"
  shows "distinct (places_cnt (fiches_cnt_pays K pdt pays))"
    and "q \<in> set (places_cnt (fiches_cnt_pays K pdt pays)) \<Longrightarrow>
      q = Ligne NumeroDeContrainteDesBilansPays pdt pays \<or> q = Ligne NumeroDeContraintePourEviterLesChargesFictives pdt pays \<or>
      (\<exists>st \<in> set (ShortTermStorage (kh K) ! pays). q = Ligne ShortTermStorageLevelConstraint pdt (clusterGlobalIndex st))"
  using stockages_distincts(1) [OF assms]
  by (auto simp: fiches_cnt_pays_def distinct_map inj_on_def concat_map_singleton)

lemma places_cnt_heure:
  assumes N: "numeros_distincts (kh K)"
  shows "distinct (places_cnt (fiches_cnt_heure K pdt))"
    and "q \<in> set (places_cnt (fiches_cnt_heure K pdt)) \<Longrightarrow> \<exists>c \<in> champs_cnt_pays \<union>
      {NumeroDeContrainteDeDissociationDeFlux, NumeroDeContrainteDesContraintesCouplantes}. \<exists>i. q = Ligne c pdt i"
proof -
  let ?A = "places_cnt (par_pays (kh K) (fiches_cnt_pays K pdt))"
    and ?B = "places_cnt (map (fiche_cnt_couts K pdt) [0..<NombreDInterconnexions (kh K)])"
    and ?C = "places_cnt (map (fiche_cnt_couplante K pdt) [0..<NombreDeContraintesCouplantes (kh K)])"
  have A: "\<exists>c \<in> champs_cnt_pays. \<exists>i. q = Ligne c pdt i" if "q \<in> set ?A" for q
    using that by (auto simp: par_pays_def champs_cnt_pays_def dest!: places_cnt_pays(2) [OF N])
  have B: "\<exists>i. q = Ligne NumeroDeContrainteDeDissociationDeFlux pdt i" if "q \<in> set ?B" for q
    using that by (auto simp: fiche_cnt_couts_def split: if_splits)
  have C: "\<exists>i. q = Ligne NumeroDeContrainteDesContraintesCouplantes pdt i" if "q \<in> set ?C" for q
    using that by (auto simp: fiche_cnt_couplante_def)
  have "distinct ?A"
    unfolding par_pays_def places_cnt_simps
  proof (rule distinct_concat_mapI)
    fix x y assume xy: "x \<in> set [0..<NombreDePays (kh K)]" "y \<in> set [0..<NombreDePays (kh K)]" "x \<noteq> y"
    then have "clusterGlobalIndex st \<noteq> clusterGlobalIndex st'"
      if "st \<in> set (ShortTermStorage (kh K) ! x)" "st' \<in> set (ShortTermStorage (kh K) ! y)" for st st'
      using stockages_distincts(2) [OF N, of x y] that by simp
    then have "False" if "q \<in> set (places_cnt (fiches_cnt_pays K pdt x))" "q \<in> set (places_cnt (fiches_cnt_pays K pdt y))" for q
      using places_cnt_pays(2) [OF N _ that(1)] places_cnt_pays(2) [OF N _ that(2)] xy by auto
    then show "set (places_cnt (fiches_cnt_pays K pdt x)) \<inter> set (places_cnt (fiches_cnt_pays K pdt y)) = {}"
      by blast
  qed (use places_cnt_pays(1) [OF N] in simp_all)
  moreover have "distinct ?B"
    unfolding places_cnt_simps
    by (rule distinct_concat_cle [where cle = rang_de_place]) (auto simp: fiche_cnt_couts_def split: if_splits)
  moreover have "distinct ?C"
    unfolding places_cnt_simps
    by (rule distinct_concat_cle [where cle = rang_de_place]) (auto simp: fiche_cnt_couplante_def)
  moreover have "set ?A \<inter> set ?B = {}" "set ?A \<inter> set ?C = {}" "set ?B \<inter> set ?C = {}"
  proof -
    have "False" if "q \<in> set ?A" "q \<in> set ?B" for q
      using A [OF that(1)] B [OF that(2)] by (auto simp: champs_cnt_pays_def)
    moreover have "False" if "q \<in> set ?A" "q \<in> set ?C" for q
      using A [OF that(1)] C [OF that(2)] by (auto simp: champs_cnt_pays_def)
    moreover have "False" if "q \<in> set ?B" "q \<in> set ?C" for q
      using B [OF that(1)] C [OF that(2)] by auto
    ultimately show "set ?A \<inter> set ?B = {}" "set ?A \<inter> set ?C = {}" "set ?B \<inter> set ?C = {}" by blast+
  qed
  ultimately have "distinct (?A @ ?B @ ?C)"
    by (simp only: distinct_append set_append Int_Un_distrib) simp
  then show "distinct (places_cnt (fiches_cnt_heure K pdt))"
    by (simp add: fiches_cnt_heure_def del: places_cnt_simps(4,5))
  show "q \<in> set (places_cnt (fiches_cnt_heure K pdt)) \<Longrightarrow> \<exists>c \<in> champs_cnt_pays \<union>
      {NumeroDeContrainteDeDissociationDeFlux, NumeroDeContrainteDesContraintesCouplantes}. \<exists>i. q = Ligne c pdt i"
    using A [of q] B [of q] C [of q]
    by (auto simp: fiches_cnt_heure_def simp del: places_cnt_simps(4,5))
qed

text \<open>The days, numbered by \<open>NumeroDeJourDuPasDeTemps\<close>.\<close>

definition jours_numerotes :: "PROBLEME_HEBDO \<Rightarrow> bool" where
  "jours_numerotes h \<longleftrightarrow> NombreDeJours h = NombreDePasDeTemps h div NombreDePasDeTempsDUneJournee h \<and>
     (\<forall>t < NombreDePasDeTemps h. NumeroDeJourDuPasDeTemps h ! t = t div NombreDePasDeTempsDUneJournee h)"

lemma jour_de_debut:
  assumes h: "hebdo_ok h" and J: "jours_numerotes h" and d: "d \<in> set (debuts_de_jour h)"
  shows "d < NombreDePasDeTempsPourUneOptimisation h"
    and "NumeroDeJourDuPasDeTemps h ! d * NombreDePasDeTempsDUneJournee h = d"
proof -
  obtain j where j: "j < NombreDePasDeTempsPourUneOptimisation h div NombreDePasDeTempsDUneJournee h"
    "d = j * NombreDePasDeTempsDUneJournee h" using d by (auto simp: debuts_de_jour_def)
  have D: "0 < NombreDePasDeTempsDUneJournee h" using hebdo_ok_horizon(5) [OF h] .
  have "d < NombreDePasDeTempsPourUneOptimisation h"
    using j hebdo_ok_horizon(6) [OF h] D by (metis dvd_div_mult_self mult_less_cancel2)
  then show "d < NombreDePasDeTempsPourUneOptimisation h" .
  then have "d < NombreDePasDeTemps h" using h by simp
  with J j D show "NumeroDeJourDuPasDeTemps h ! d * NombreDePasDeTempsDUneJournee h = d"
    by (simp add: jours_numerotes_def)
qed

lemma places_cnt_jours:
  assumes h: "hebdo_ok (kh K)" and J: "jours_numerotes (kh K)"
  shows "distinct (places_cnt (par_couplante (kh K) (fiches_cnt_jour K)))"
    and "q \<in> set (places_cnt (par_couplante (kh K) (fiches_cnt_jour K))) \<Longrightarrow> \<exists>jour c. q = LigneJour jour c"
proof -
  have F: "\<exists>jour. q = LigneJour jour c" if "q \<in> set (places_cnt (fiches_cnt_jour K c))" for q c
    using that by (auto simp: fiches_cnt_jour_def split: if_splits)
  have "distinct (debuts_de_jour (kh K))"
    using hebdo_ok_horizon(5) [OF h] by (simp add: debuts_de_jour_def distinct_map inj_on_def)
  moreover have "inj_on (\<lambda>d. NumeroDeJourDuPasDeTemps (kh K) ! d) (set (debuts_de_jour (kh K)))"
    using jour_de_debut(2) [OF h J] by (metis inj_onI)
  ultimately have "distinct (places_cnt (fiches_cnt_jour K c))" for c
    by (simp add: fiches_cnt_jour_def concat_map_singleton distinct_map inj_on_def)
  then show "distinct (places_cnt (par_couplante (kh K) (fiches_cnt_jour K)))"
    unfolding par_couplante_def places_cnt_simps
    by (intro distinct_concat_cle [where cle = rang_de_place]) (use F in fastforce)+
  show "q \<in> set (places_cnt (par_couplante (kh K) (fiches_cnt_jour K))) \<Longrightarrow> \<exists>jour c. q = LigneJour jour c"
    using F by (fastforce simp: par_couplante_def)
qed

lemma places_cnt_arrets:
  assumes N: "numeros_distincts (kh K)"
  shows "distinct (places_cnt (fiches_cnt_demarrage K))"
    and "q \<in> set (places_cnt (fiches_cnt_demarrage K)) \<Longrightarrow>
      \<exists>pdt i. q = Ligne NumeroDeContrainteDesContraintesDeDureeMinDArret pdt i"
proof -
  let ?F = "\<lambda>pays i. map (\<lambda>pdt. Ligne NumeroDeContrainteDesContraintesDeDureeMinDArret pdt (palier_du K pays i)) (heures (kh K))"
  have e: "places_cnt (fiches_cnt_demarrage K) =
      concat (map (\<lambda>pays. concat (map (?F pays) [0..<nb_paliers (kh K) pays])) [0..<NombreDePays (kh K)])"
    by (simp add: fiches_cnt_demarrage_def par_palier_def fiche_cnt_arret_def concat_map_singleton concat_map_Nil)
  have palier: "distinct (concat (map (?F pays) [0..<nb_paliers (kh K) pays]))"
    if "pays < NombreDePays (kh K)" for pays
  proof (rule distinct_concat_mapI)
    fix i j assume "i \<in> set [0..<nb_paliers (kh K) pays]" "j \<in> set [0..<nb_paliers (kh K) pays]" "i \<noteq> j"
    then have "palier_du K pays i \<noteq> palier_du K pays j"
      using paliers_distincts [OF N that _ that] by auto
    then show "set (?F pays i) \<inter> set (?F pays j) = {}" by auto
  qed (auto simp: distinct_map inj_on_def)
  show "distinct (places_cnt (fiches_cnt_demarrage K))"
    unfolding e
  proof (rule distinct_concat_mapI)
    fix pays pays'
    assume "pays \<in> set [0..<NombreDePays (kh K)]" "pays' \<in> set [0..<NombreDePays (kh K)]" "pays \<noteq> pays'"
    then have "palier_du K pays i \<noteq> palier_du K pays' j"
      if "i < nb_paliers (kh K) pays" "j < nb_paliers (kh K) pays'" for i j
      using paliers_distincts [OF N, of pays i pays' j] that by auto
    then show "set (concat (map (?F pays) [0..<nb_paliers (kh K) pays])) \<inter>
        set (concat (map (?F pays') [0..<nb_paliers (kh K) pays'])) = {}"
      by fastforce
  qed (simp_all add: palier)
  show "q \<in> set (places_cnt (fiches_cnt_demarrage K)) \<Longrightarrow>
      \<exists>pdt i. q = Ligne NumeroDeContrainteDesContraintesDeDureeMinDArret pdt i"
    unfolding e by auto
qed

lemma places_cnt_hydro:
  "places_cnt (map (fiche_cnt_energie K) xs) = map (LignePays NumeroDeContrainteEnergieHydraulique) xs"
  "places_cnt (map (fiche_cnt_pompage K) xs) = map (LignePays NumeroDeContrainteMaxPompage) xs"
  "places_cnt (map (fiche_cnt_niveau K pdt) xs) = map (Ligne NumeroDeContrainteDesNiveauxPays pdt) xs"
  "places_cnt (fiches_cnt_bornes K pays) =
     [LignePays NumeroDeContrainteMinEnergieHydraulique pays, LignePays NumeroDeContrainteMaxEnergieHydraulique pays]"
  by (simp_all add: fiche_cnt_energie_def fiche_cnt_pompage_def fiche_cnt_niveau_def fiches_cnt_bornes_def concat_map_singleton)

lemma places_cnt_stock:
  "distinct (places_cnt (fiches_cnt_stock K pays))"
  "q \<in> set (places_cnt (fiches_cnt_stock K pays)) \<Longrightarrow>
     \<exists>c \<in> {NumeroDeContrainteEquivalenceStockFinal, NumeroDeContrainteExpressionStockFinal}. q = LignePays c pays"
  by (auto simp: fiches_cnt_stock_def split: if_splits)

lemma places_cnt_semaine:
  "distinct (places_cnt (map (fiche_cnt_semaine K) [0..<n]))"
  "q \<in> set (places_cnt (map (fiche_cnt_semaine K) [0..<n])) \<Longrightarrow> \<exists>i. q = LigneHebdo i"
proof -
  show "distinct (places_cnt (map (fiche_cnt_semaine K) [0..<n]))"
    unfolding places_cnt_simps
    by (rule distinct_concat_cle [where cle = rang_de_place]) (auto simp: fiche_cnt_semaine_def split: if_splits)
  show "q \<in> set (places_cnt (map (fiche_cnt_semaine K) [0..<n])) \<Longrightarrow> \<exists>i. q = LigneHebdo i"
    by (auto simp: fiche_cnt_semaine_def split: if_splits)
qed

text \<open>Which part of the construction a place belongs to.\<close>

fun partie :: "place_cnt \<Rightarrow> nat" where
  "partie (Ligne NumeroDeContrainteDesNiveauxPays pdt i) = 6"
| "partie (Ligne NumeroDeContrainteDesContraintesDeDureeMinDArret pdt i) = 8"
| "partie (Ligne c pdt i) = 0"
| "partie (LigneJour jour i) = 1"
| "partie (LigneHebdo i) = 2"
| "partie (LignePays NumeroDeContrainteEnergieHydraulique pays) = 3"
| "partie (LignePays NumeroDeContrainteMinEnergieHydraulique pays) = 4"
| "partie (LignePays NumeroDeContrainteMaxEnergieHydraulique pays) = 4"
| "partie (LignePays NumeroDeContrainteMaxPompage pays) = 5"
| "partie (LignePays c pays) = 7"

definition de_partie :: "nat \<Rightarrow> place_cnt list \<Rightarrow> bool" where
  "de_partie n qs \<longleftrightarrow> distinct qs \<and> (\<forall>q \<in> set qs. partie q = n)"

lemma de_partie_concat:
  assumes "distinct xs" and "\<And>x. x \<in> set xs \<Longrightarrow> de_partie n (F x)"
    and "\<And>x p. x \<in> set xs \<Longrightarrow> p \<in> set (F x) \<Longrightarrow> cle p = x"
  shows "de_partie n (concat (map F xs))"
  using distinct_concat_cle [where F = F and cle = cle and xs = xs] assms by (auto simp: de_partie_def)

lemma de_partie_Nil: "de_partie n []"
  by (simp add: de_partie_def)

definition a_partir :: "nat \<Rightarrow> place_cnt list \<Rightarrow> bool" where
  "a_partir n qs \<longleftrightarrow> distinct qs \<and> (\<forall>q \<in> set qs. n \<le> partie q)"

lemma a_partir_Cons: "de_partie n xs \<Longrightarrow> n < k \<Longrightarrow> a_partir k ys \<Longrightarrow> a_partir n (xs @ ys)"
  by (force simp: de_partie_def a_partir_def)

lemma a_partir_fin: "de_partie n xs \<Longrightarrow> a_partir n xs"
  by (simp add: de_partie_def a_partir_def)

lemma places_cnt_distinctes:
  assumes h: "hebdo_ok (kh K)" and N: "numeros_distincts (kh K)" and J: "jours_numerotes (kh K)"
  shows "distinct (places_cnt (fiches_cnt K))"
proof -
  let ?h = "kh K"
  let ?P0 = "places_cnt (concat (map (fiches_cnt_heure K) (heures ?h)))"
    and ?P1 = "places_cnt (par_couplante ?h (fiches_cnt_jour K))"
    and ?P2 = "places_cnt (if NombreDePasDeTempsDUneJournee ?h < NombreDePasDeTempsPourUneOptimisation ?h
      then map (fiche_cnt_semaine K) [0..<NombreDeContraintesCouplantes ?h] else [])"
    and ?P3 = "places_cnt (map (fiche_cnt_energie K) [0..<NombreDePays ?h])"
    and ?P4 = "places_cnt (par_pays ?h (fiches_cnt_bornes K))"
    and ?P5 = "places_cnt (map (fiche_cnt_pompage K) [0..<NombreDePays ?h])"
    and ?P6 = "places_cnt (concat (map (\<lambda>pdt. map (fiche_cnt_niveau K pdt) [0..<NombreDePays ?h]) (heures ?h)))"
    and ?P7 = "places_cnt (par_pays ?h (fiches_cnt_stock K))"
    and ?P8 = "places_cnt (if OptimisationAvecCoutsDeDemarrage ?h then fiches_cnt_demarrage K else [])"
  have 0: "de_partie 0 ?P0"
    unfolding places_cnt_simps
    by (rule de_partie_concat [where cle = heure_de_place])
      (use places_cnt_heure [OF N] in \<open>fastforce simp: de_partie_def champs_cnt_pays_def\<close>)+
  have 1: "de_partie 1 ?P1"
    using places_cnt_jours [OF h J] by (fastforce simp: de_partie_def)
  have 2: "de_partie 2 ?P2"
    using places_cnt_semaine [where K = K and n = "NombreDeContraintesCouplantes ?h"]
    by (fastforce simp: de_partie_def simp del: places_cnt_simps(4))
  have 3: "de_partie 3 ?P3" and 5: "de_partie 5 ?P5"
    by (simp_all add: places_cnt_hydro de_partie_def distinct_map inj_on_def del: places_cnt_simps(4))
  have 4: "de_partie 4 ?P4" and 7: "de_partie 7 ?P7"
    unfolding par_pays_def places_cnt_simps
    by (rule de_partie_concat [where cle = rang_de_place];
      use places_cnt_stock in \<open>fastforce simp: de_partie_def places_cnt_hydro\<close>)+
  have 6: "de_partie 6 ?P6"
    unfolding places_cnt_simps(5) places_cnt_hydro
    by (rule de_partie_concat [where cle = heure_de_place]) (auto simp: de_partie_def distinct_map inj_on_def)
  have 8: "de_partie 8 ?P8"
    using places_cnt_arrets [OF N] by (fastforce simp: de_partie_def)
  have "a_partir 0 (?P0 @ ?P1 @ ?P2 @ ?P3 @ ?P4 @ ?P5 @ ?P6 @ ?P7 @ ?P8)"
    by (rule a_partir_Cons [OF 0 _ a_partir_Cons [OF 1 _ a_partir_Cons [OF 2 _ a_partir_Cons [OF 3 _ a_partir_Cons [OF 4 _
      a_partir_Cons [OF 5 _ a_partir_Cons [OF 6 _ a_partir_Cons [OF 7 _ a_partir_fin [OF 8]]]]]]]]]) simp_all
  moreover have "places_cnt (fiches_cnt K) = ?P0 @ ?P1 @ ?P2 @ ?P3 @ ?P4 @ ?P5 @ ?P6 @ ?P7 @ ?P8"
    unfolding fiches_cnt_def places_cnt_simps(3) by simp
  ultimately show ?thesis by (simp only: a_partir_def)
qed

subsection \<open>Every row that is looked for is there\<close>

definition presente_variable :: "PROBLEME_HEBDO \<Rightarrow> nat \<Rightarrow> native \<Rightarrow> bool" where
  "presente_variable h hr nv \<longleftrightarrow> (\<exists>v. (place_native hr nv, Some v) \<in> set (liste_variables h))"

lemma presente_numero:
  assumes V: "variables_construites h s" and "(p, Some v) \<in> set (liste_variables h)"
  shows "0 \<le> lecture s p"
proof -
  from assms(2) obtain w where "(p, w) \<in> set (creees (liste_variables h))"
    by (auto simp: creees_subset)
  then obtain k where k: "k < nb_variables h" "creees (liste_variables h) ! k = (p, w)"
    by (auto simp: in_set_conv_nth nb_variables_def)
  then have "variable_ok s k (p, w)"
    using V by (auto simp: variables_construites_def)
  then show ?thesis by (cases w) (simp add: variable_ok_def)
qed

lemma terme_present:
  assumes N: "probleme_numerote h s" and "hr < NombreDePasDeTempsPourUneOptimisation h" and "native_ok h nv"
    and "presente_variable h hr nv"
  shows "terme (contexte_de h s) hr nv c \<noteq> []"
  using presente_numero [OF numerote_ok(1) [OF N]] numero_lecture [OF numerote_ok(2) [OF N] _ assms(3), of hr]
    numerote_ok(3) [OF N] assms(2,4)
  by (force simp: presente_variable_def terme_def)

lemma presentes_interco:
  assumes "hr < NombreDePasDeTempsPourUneOptimisation h" and "l < NombreDInterconnexions h"
  shows "presente_variable h hr (NTCDirect l)"
proof -
  have "set (fiches_interco h hr l) \<subseteq> set (liste_variables h)"
    using dans_liste_interco [OF assms] by blast
  then show ?thesis by (auto simp: presente_variable_def fiches_interco_def fiches_paires Let_def)
qed

lemma presentes_pays:
  assumes "hr < NombreDePasDeTempsPourUneOptimisation h" and "pays < NombreDePays h"
  shows "presente_variable h hr (NegativeUnsuppliedEnergy pays)"
    and "i < nb_paliers h pays \<Longrightarrow> presente_variable h hr (DispatchableProduction (numero_palier h pays i))"
    and "st \<in> set (ShortTermStorage h ! pays) \<Longrightarrow> presente_variable h hr (ShortTermStorageInjection (clusterGlobalIndex st))"
    and "PresenceDHydrauliqueModulable (hydro_de h pays) \<Longrightarrow> presente_variable h hr (HydProd pays)"
    and "PresenceDePompageModulable (hydro_de h pays) \<Longrightarrow> presente_variable h hr (Pumping pays)"
    and "SuiviNiveauHoraire (hydro_de h pays) \<Longrightarrow> presente_variable h hr (HydroLevel pays)"
proof -
  have s: "set (fiches_pays h hr pays) \<subseteq> set (liste_variables h)" "set (fiches_hydro h hr pays) \<subseteq> set (liste_variables h)"
    using dans_liste_pays [OF assms] by auto
  then show "presente_variable h hr (NegativeUnsuppliedEnergy pays)"
    "PresenceDHydrauliqueModulable (hydro_de h pays) \<Longrightarrow> presente_variable h hr (HydProd pays)"
    "PresenceDePompageModulable (hydro_de h pays) \<Longrightarrow> presente_variable h hr (Pumping pays)"
    "SuiviNiveauHoraire (hydro_de h pays) \<Longrightarrow> presente_variable h hr (HydroLevel pays)"
    by (auto simp: presente_variable_def fiches_pays_def fiches_hydro_def fiches_paires Let_def)
  show "i < nb_paliers h pays \<Longrightarrow> presente_variable h hr (DispatchableProduction (numero_palier h pays i))"
  proof -
    assume i: "i < nb_paliers h pays"
    have "fiche_palier h hr pays i \<in> set (liste_variables h)"
      by (rule dans_liste_pays [OF assms]) (use i in \<open>simp add: fiches_pays_def Let_def\<close>)
    then show ?thesis by (auto simp: presente_variable_def fiche_palier_def fiches_paires Let_def)
  qed
  have "set (fiches_stockage h hr pays st) \<subseteq> set (fiches_pays h hr pays)" if "st \<in> set (ShortTermStorage h ! pays)"
    using that by (auto simp: fiches_pays_def Let_def)
  then have "set (fiches_stockage h hr pays st) \<subseteq> set (liste_variables h)" if "st \<in> set (ShortTermStorage h ! pays)"
    using that s(1) by blast
  then show "st \<in> set (ShortTermStorage h ! pays) \<Longrightarrow> presente_variable h hr (ShortTermStorageInjection (clusterGlobalIndex st))"
    by (auto simp: presente_variable_def fiches_stockage_def fiches_paires Let_def)
qed

lemma presentes_stock:
  assumes "pays < NombreDePays h" and "AccurateWaterValue (hydro_de h pays)"
  shows "presente_variable h hr (FinalStorage pays)"
proof -
  have "set (fiches_stock h pays) \<subseteq> set (liste_variables h)"
    using dans_liste_stock [OF assms(1)] by blast
  then show ?thesis
    using assms(2) by (auto simp: presente_variable_def fiches_stock_def fiches_paires Let_def)
qed

lemma rang_vide [simp]: "rang op ts = [] \<longleftrightarrow> ts = []"
  by (simp add: rang_def)

lemma somme_presente:
  assumes "hebdo_ok (kh K)" and "F 0 \<noteq> []"
  shows "somme K F \<noteq> []"
  using assms hebdo_ok_horizon(1) [of "kh K"] by (auto simp: somme_def)

text \<open>A binding constraint has at least one link or one cluster (\<open>BindingConstraint::isActive\<close>).\<close>

definition couplantes_actives :: "PROBLEME_HEBDO \<Rightarrow> bool" where
  "couplantes_actives h \<longleftrightarrow> (\<forall>c < NombreDeContraintesCouplantes h. let m = MatriceDesContraintesCouplantes h ! c in
     0 < NombreDInterconnexionsDansLaContrainteCouplante m + NombreDePaliersDispatchDansLaContrainteCouplante m)"

lemma couplante_presente:
  assumes N: "probleme_numerote h s" and A: "couplantes_actives h" and c: "c < NombreDeContraintesCouplantes h"
    and pdts: "pdts \<noteq> []"
  shows "ligne_couplante (contexte_de h s) (couplante (contexte_de h s) c) pdts \<noteq> []"
proof -
  let ?K = "contexte_de h s"
  let ?c = "couplante ?K c"
  have ok: "couplante_ok h ?c"
    unfolding contexte_de_kh by (rule hebdo_ok_couplante [OF numerote_ok(3) [OF N] c])
  obtain t ts where t: "pdts = t # ts" using pdts by (cases pdts) auto
  have d: "decale ?K t o' < NombreDePasDeTempsPourUneOptimisation h" for o'
    using decale_borne numerote_ok(3) [OF N] by blast
  have "termes_couplante ?K ?c pdts \<noteq> []"
  proof (cases "0 < NombreDInterconnexionsDansLaContrainteCouplante ?c")
    case True
    then have "NumeroDeLInterconnexion ?c ! 0 < NombreDInterconnexions h"
      by (rule couplante_ok_interco(1) [OF ok])
    then have "terme ?K (decale ?K t (OffsetTemporelSurLInterco ?c ! 0)) (NTCDirect (NumeroDeLInterconnexion ?c ! 0))
        (PoidsDeLInterconnexion ?c ! 0) \<noteq> []"
      by (intro terme_present [OF N d] presentes_interco [OF d]) simp
    then show ?thesis using True by (auto simp: termes_couplante_def termes_decales_def t upt_conv_Cons)
  next
    case False
    then have "0 < NombreDePaliersDispatchDansLaContrainteCouplante ?c"
      using A c by (auto simp: couplantes_actives_def Let_def)
    note p = couplante_ok_palier(1,2) [OF ok this] this
    then have "terme ?K (decale ?K t (OffsetTemporelSurLePalierDispatch ?c ! 0)) (DispatchableProduction (palier_couplant h ?c 0))
        (PoidsDuPalierDispatch ?c ! 0) \<noteq> []"
      unfolding palier_couplant_def
      by (intro terme_present [OF N d] presentes_pays(2) [OF d]) (use numerote_ok(3) [OF N] in simp_all)
    then show ?thesis using p(3) by (auto simp: termes_couplante_def termes_decales_def t upt_conv_Cons)
  qed
  then show ?thesis by (simp add: ligne_couplante_def)
qed

text \<open>Every row the right-hand sides look for; the number of a constraint that is not hourly is recorded at every
  hour, but not read.\<close>

fun lue :: "PROBLEME_HEBDO \<Rightarrow> place_cnt \<Rightarrow> bool" where
  "lue h (Ligne NumeroDeContrainteDesContraintesCouplantes pdt c) \<longleftrightarrow>
     TypeDeContrainteCouplante (MatriceDesContraintesCouplantes h ! c) = CONTRAINTE_HORAIRE"
| "lue h _ \<longleftrightarrow> True"

definition fiche_remplie :: "PROBLEME_HEBDO \<Rightarrow> fiche_cnt \<Rightarrow> bool" where
  "fiche_remplie h f \<longleftrightarrow> (\<forall>q. nom_marque (fst f) = Some q \<longrightarrow> length (snd f) \<le> 1 \<and> (lue h q \<longrightarrow> snd f \<noteq> []))"

lemma fiche_remplie_simple: "fiche_remplie h f \<Longrightarrow> fiche_simple f"
  by (cases "nom_marque (fst f)") (simp_all add: fiche_remplie_def fiche_simple_def)

lemma fiche_remplie_rang:
  "fiche_remplie h (mo, rang op ts) \<longleftrightarrow> (\<forall>q. nom_marque mo = Some q \<and> lue h q \<longrightarrow> ts \<noteq> [])"
  "fiche_remplie h (mo, []) \<longleftrightarrow> (\<forall>q. nom_marque mo = Some q \<longrightarrow> \<not> lue h q)"
  by (auto simp: fiche_remplie_def rang_def)

lemma nom_marque_simps [simp]:
  "nom_marque None = None" "nom_marque (Some (Numerote q)) = Some q" "nom_marque (Some (Efface q)) = None"
  "nom_marque (if b then mo else mo') = (if b then nom_marque mo else nom_marque mo')"
  "nom_marque (Some (marque_si b q)) = (if b then Some q else None)"
  by (simp_all add: nom_marque_def)

lemma heure_remplie:
  assumes N: "probleme_numerote h s" and A: "couplantes_actives h" and pdt: "pdt < NombreDePasDeTempsPourUneOptimisation h"
    and f: "f \<in> set (fiches_cnt_heure (contexte_de h s) pdt)"
  shows "fiche_remplie h f"
proof -
  let ?K = "contexte_de h s"
  note h = numerote_ok(3) [OF N]
  from f consider (pays) pays where "pays < NombreDePays h" "f \<in> set (fiches_cnt_pays ?K pdt pays)"
    | (lien) l where "l < NombreDInterconnexions h" "f = fiche_cnt_couts ?K pdt l"
    | (couplante) c where "c < NombreDeContraintesCouplantes h" "f = fiche_cnt_couplante ?K pdt c"
    by (auto simp: fiches_cnt_heure_def par_pays_def)
  then show ?thesis
  proof cases
    case pays
    have t: "terme ?K pdt (NegativeUnsuppliedEnergy pays) c \<noteq> []" for c
      by (rule terme_present [OF N pdt]) (use pays(1) presentes_pays(1) [OF pdt] in simp_all)
    have "terme ?K pdt (ShortTermStorageInjection (clusterGlobalIndex st)) c \<noteq> []" if "st \<in> set (ShortTermStorage h ! pays)" for st c
      by (rule terme_present [OF N pdt]) (use pays(1) that presentes_pays(3) [OF pdt] h in simp_all)
    with t pays(2) show ?thesis
      by (auto simp: fiches_cnt_pays_def ligne_AreaBalance_def ligne_FictitiousLoad_def ligne_stockage_def Let_def fiche_remplie_rang)
  next
    case lien
    have "terme ?K pdt (NTCDirect l) c \<noteq> []" for c
      by (rule terme_present [OF N pdt]) (use lien(1) presentes_interco [OF pdt] in simp_all)
    with lien(2) show ?thesis
      by (auto simp: fiche_cnt_couts_def ligne_FlowDissociation_def fiche_remplie_rang)
  next
    case couplante
    from couplante_presente [OF N A couplante(1), of "[pdt]"] couplante(2) show ?thesis
      by (auto simp: fiche_cnt_couplante_def ligne_BindingConstraintHour_def ligne_couplante_def fiche_remplie_rang)
  qed
qed

lemma hydro_remplie:
  assumes N: "probleme_numerote h s" and pays: "pays < NombreDePays h"
  shows "fiche_remplie h (fiche_cnt_energie (contexte_de h s) pays)" and "fiche_remplie h (fiche_cnt_pompage (contexte_de h s) pays)"
    and "f \<in> set (fiches_cnt_bornes (contexte_de h s) pays) \<Longrightarrow> fiche_remplie h f"
    and "f \<in> set (fiches_cnt_stock (contexte_de h s) pays) \<Longrightarrow> fiche_remplie h f"
    and "pdt < NombreDePasDeTempsPourUneOptimisation h \<Longrightarrow> fiche_remplie h (fiche_cnt_niveau (contexte_de h s) pdt pays)"
proof -
  let ?K = "contexte_de h s"
  note h = numerote_ok(3) [OF N]
  have T: "0 < NombreDePasDeTempsPourUneOptimisation h" using hebdo_ok_horizon(1) [OF h] .
  have prod: "terme ?K 0 (HydProd pays) c \<noteq> []" if "PresenceDHydrauliqueModulable (hydro ?K pays)" for c
    by (rule terme_present [OF N T]) (use pays that presentes_pays(4) [OF T] in simp_all)
  have pompe: "terme ?K 0 (Pumping pays) c \<noteq> []" if "PresenceDePompageModulable (hydro ?K pays)" for c
    by (rule terme_present [OF N T]) (use pays that presentes_pays(5) [OF T] in simp_all)
  have stock: "terme ?K (derniere_heure ?K) (FinalStorage pays) c \<noteq> []" if "AccurateWaterValue (hydro ?K pays)" for c
    by (rule terme_present [OF N]) (use pays that presentes_stock h derniere_heure_lt(1) [of ?K] in simp_all)
  have niveau: "terme ?K pdt (HydroLevel pays) c \<noteq> []"
    if "pdt < NombreDePasDeTempsPourUneOptimisation h" "SuiviNiveauHoraire (hydro ?K pays)" for pdt c
    by (rule terme_present [OF N that(1)]) (use pays that presentes_pays(6) [OF that(1)] in simp_all)
  have somme: "somme ?K F \<noteq> []" if "F 0 \<noteq> []" for F
    by (rule somme_presente) (use h that in simp_all)
  show "fiche_remplie h (fiche_cnt_energie ?K pays)" "fiche_remplie h (fiche_cnt_pompage ?K pays)"
    "f \<in> set (fiches_cnt_bornes ?K pays) \<Longrightarrow> fiche_remplie h f"
    using somme prod pompe
    by (auto simp: fiche_cnt_energie_def fiche_cnt_pompage_def fiches_cnt_bornes_def ligne_HydroPower_def ligne_MaxPumping_def
        ligne_MinHydroPower_def ligne_MaxHydroPower_def fiche_remplie_rang simp del: contexte_de_kh)
  show "f \<in> set (fiches_cnt_stock ?K pays) \<Longrightarrow> fiche_remplie h f"
    using stock by (auto simp: fiches_cnt_stock_def ligne_FinalStockEquivalent_def ligne_FinalStockExpression_def
        fiche_remplie_rang simp del: contexte_de_kh)
  show "pdt < NombreDePasDeTempsPourUneOptimisation h \<Longrightarrow> fiche_remplie h (fiche_cnt_niveau ?K pdt pays)"
    using niveau by (auto simp: fiche_cnt_niveau_def ligne_AreaHydroLevel_def fiche_remplie_rang simp del: contexte_de_kh)
qed

lemma remplies:
  assumes N: "probleme_numerote h s" and A: "couplantes_actives h"
    and D: "OptimisationAvecCoutsDeDemarrage h \<Longrightarrow> demarrage_numerote (contexte_de h s)"
    and f: "f \<in> set (fiches_cnt (contexte_de h s))"
  shows "fiche_remplie h f"
proof -
  let ?K = "contexte_de h s"
  note h = numerote_ok(3) [OF N]
  have rien: "fiche_remplie h (None, ls)" for ls
    by (simp add: fiche_remplie_def)
  have jour: "fiche_remplie h f" if "c < NombreDeContraintesCouplantes h" "f \<in> set (fiches_cnt_jour ?K c)" for c f
    using that couplante_presente [OF N A that(1), of "jour_depuis h d" for d] hebdo_ok_horizon(5) [OF h]
    by (auto simp: fiches_cnt_jour_def fiche_remplie_rang ligne_couplante_def jour_depuis_def split: if_splits)
  have semaine: "fiche_remplie h (fiche_cnt_semaine ?K c)" if "c < NombreDeContraintesCouplantes h" for c
    using couplante_presente [OF N A that, of "heures h"] hebdo_ok_horizon(1) [OF h]
    by (auto simp: fiche_cnt_semaine_def ligne_BindingConstraintWeek_def fiche_remplie_rang ligne_couplante_def heures_def
        split: if_splits)
  have arret: "fiche_remplie h (fiche_cnt_arret ?K pays i pdt)"
    if "OptimisationAvecCoutsDeDemarrage h" "pays < NombreDePays h" "i < nb_paliers h pays"
      "pdt < NombreDePasDeTempsPourUneOptimisation h" for pays i pdt
    using demarrage_numerote_terme(1) [OF D [OF that(1)], of pays i pdt 1] that
    by (auto simp: fiche_cnt_arret_def ligne_MinDownTime_def fiche_remplie_rang)
  have demarrage: "fiche_remplie h f" if "OptimisationAvecCoutsDeDemarrage h" "f \<in> set (fiches_cnt_demarrage ?K)" for f
    using that(2) arret [OF that(1)] rien by (auto simp: fiches_cnt_demarrage_def par_palier_def)
  from f consider (heure) pdt where "pdt < NombreDePasDeTempsPourUneOptimisation h" "f \<in> set (fiches_cnt_heure ?K pdt)"
    | (jour) c where "c < NombreDeContraintesCouplantes h" "f \<in> set (fiches_cnt_jour ?K c)"
    | (semaine) c where "c < NombreDeContraintesCouplantes h" "f = fiche_cnt_semaine ?K c"
    | (energie) pays where "pays < NombreDePays h" "f = fiche_cnt_energie ?K pays"
    | (pompage) pays where "pays < NombreDePays h" "f = fiche_cnt_pompage ?K pays"
    | (bornes) pays where "pays < NombreDePays h" "f \<in> set (fiches_cnt_bornes ?K pays)"
    | (stock) pays where "pays < NombreDePays h" "f \<in> set (fiches_cnt_stock ?K pays)"
    | (niveau) pdt pays where "pdt < NombreDePasDeTempsPourUneOptimisation h" "pays < NombreDePays h"
        "f = fiche_cnt_niveau ?K pdt pays"
    | (lissage) "f = (None, lignes_lissage ?K)"
    | (demarrage) "OptimisationAvecCoutsDeDemarrage h" "f \<in> set (fiches_cnt_demarrage ?K)"
    unfolding fiches_cnt_def par_pays_def par_couplante_def
    by (auto split: if_splits)
  then show ?thesis
  proof cases
    case heure
    then show ?thesis by (rule heure_remplie [OF N A])
  next
    case niveau
    then show ?thesis using hydro_remplie(5) [OF N niveau(2,1)] by blast
  qed (use jour semaine rien demarrage hydro_remplie(1,2,3,4) [OF N] in blast)+
qed

subsection \<open>Numbered constraints\<close>

definition nom_ligne :: "contexte \<Rightarrow> nat \<Rightarrow> place_cnt option" where
  "nom_ligne K k = noms_lignes (fiches_cnt K) ! k"

datatype place_ligne = Nommee place_cnt | Anonyme nat

definition place_ligne :: "contexte \<Rightarrow> nat \<Rightarrow> place_ligne" where
  "place_ligne K k = (case nom_ligne K k of Some q \<Rightarrow> Nommee q | None \<Rightarrow> Anonyme k)"

definition contraintes_numerotees :: "contexte \<Rightarrow> etat \<Rightarrow> bool" where
  "contraintes_numerotees K s \<longleftrightarrow> NombreDeContraintes (ProblemeAResoudre s) = length (liste_lignes K) \<and>
     (\<forall>f \<in> set (fiches_cnt K). fiche_remplie (kh K) f) \<and>
     (\<forall>k < length (liste_lignes K). \<forall>q. nom_ligne K k = Some q \<longrightarrow> lecture_cnt s q = int k) \<and>
     (\<forall>q \<in> set (places_cnt (fiches_cnt K)). lue (kh K) q \<and> (\<forall>k < length (liste_lignes K). nom_ligne K k \<noteq> Some q) \<longrightarrow>
        lecture_cnt s q = - 1)"

lemma lecture_ligne:
  assumes "contraintes_numerotees K s" and "k < length (liste_lignes K)" and "place_ligne K k = Nommee q"
  shows "lecture_cnt s q = int k"
  using assms by (auto simp: contraintes_numerotees_def place_ligne_def split: option.splits)

lemma lecture_sans_ligne:
  assumes "contraintes_numerotees K s" and "q \<in> set (places_cnt (fiches_cnt K))" and "lue (kh K) q"
    and "\<forall>k < length (liste_lignes K). place_ligne K k \<noteq> Nommee q"
  shows "lecture_cnt s q = - 1"
proof -
  have "nom_ligne K k \<noteq> Some q" if "k < length (liste_lignes K)" for k
    using assms(4) that by (auto simp: place_ligne_def)
  with assms(1-3) show ?thesis by (simp add: contraintes_numerotees_def)
qed

lemma ligne_presente:
  assumes "contraintes_numerotees K s" and "(Some (Numerote q), ls) \<in> set (fiches_cnt K)" and "lue (kh K) q"
  shows "\<exists>k < length (liste_lignes K). place_ligne K k = Nommee q"
proof -
  have "fiche_remplie (kh K) (Some (Numerote q), ls)"
    using assms(1,2) by (simp add: contraintes_numerotees_def)
  then have "ls \<noteq> []" using assms(3) by (simp add: fiche_remplie_def)
  then have "Some q \<in> set (noms_lignes (fiches_cnt K))" by (rule nom_present [OF assms(2)])
  then show ?thesis
    by (auto simp: in_set_conv_nth nom_ligne_def lignes_fiches_cnt place_ligne_def)
qed

text \<open>A pass over the linear problem that adds no row and renumbers none keeps the numbers.\<close>

lemma contraintes_numerotees_cong:
  assumes "contraintes_numerotees K s" and "lecture_cnt s' = lecture_cnt s"
    and "NombreDeContraintes (ProblemeAResoudre s') = NombreDeContraintes (ProblemeAResoudre s)"
  shows "contraintes_numerotees K s'"
  using assms by (simp add: contraintes_numerotees_def)

text \<open>Different rows have different places.\<close>

lemma place_ligne_injective:
  assumes "contraintes_numerotees K s"
  shows "inj_on (place_ligne K) {..<length (liste_lignes K)}"
proof (rule inj_onI)
  fix i j assume ij: "i \<in> {..<length (liste_lignes K)}" "j \<in> {..<length (liste_lignes K)}" "place_ligne K i = place_ligne K j"
  show "i = j"
  proof (cases "place_ligne K i")
    case (Nommee q)
    then have "lecture_cnt s q = int i" "lecture_cnt s q = int j"
      using lecture_ligne [OF assms _ Nommee] lecture_ligne [OF assms, of j q] ij by simp_all
    then show ?thesis by simp
  next
    case (Anonyme n)
    then show ?thesis using ij(3) by (auto simp: place_ligne_def split: option.splits)
  qed
qed

text \<open>The steps of each part of the construction.\<close>

lemma dans_fiches_cnt:
  "pdt < NombreDePasDeTempsPourUneOptimisation (kh K) \<Longrightarrow> pays < NombreDePays (kh K) \<Longrightarrow>
     f \<in> set (fiches_cnt_pays K pdt pays) \<Longrightarrow> f \<in> set (fiches_cnt K)"
  "pdt < NombreDePasDeTempsPourUneOptimisation (kh K) \<Longrightarrow> l < NombreDInterconnexions (kh K) \<Longrightarrow>
     fiche_cnt_couts K pdt l \<in> set (fiches_cnt K)"
  "pdt < NombreDePasDeTempsPourUneOptimisation (kh K) \<Longrightarrow> c < NombreDeContraintesCouplantes (kh K) \<Longrightarrow>
     fiche_cnt_couplante K pdt c \<in> set (fiches_cnt K)"
  "c < NombreDeContraintesCouplantes (kh K) \<Longrightarrow> f \<in> set (fiches_cnt_jour K c) \<Longrightarrow> f \<in> set (fiches_cnt K)"
  "NombreDePasDeTempsDUneJournee (kh K) < NombreDePasDeTempsPourUneOptimisation (kh K) \<Longrightarrow>
     c < NombreDeContraintesCouplantes (kh K) \<Longrightarrow> fiche_cnt_semaine K c \<in> set (fiches_cnt K)"
  "pays < NombreDePays (kh K) \<Longrightarrow> fiche_cnt_energie K pays \<in> set (fiches_cnt K)"
  "pays < NombreDePays (kh K) \<Longrightarrow> f \<in> set (fiches_cnt_bornes K pays) \<Longrightarrow> f \<in> set (fiches_cnt K)"
  "pays < NombreDePays (kh K) \<Longrightarrow> fiche_cnt_pompage K pays \<in> set (fiches_cnt K)"
  "pdt < NombreDePasDeTempsPourUneOptimisation (kh K) \<Longrightarrow> pays < NombreDePays (kh K) \<Longrightarrow>
     fiche_cnt_niveau K pdt pays \<in> set (fiches_cnt K)"
  "pays < NombreDePays (kh K) \<Longrightarrow> f \<in> set (fiches_cnt_stock K pays) \<Longrightarrow> f \<in> set (fiches_cnt K)"
  "OptimisationAvecCoutsDeDemarrage (kh K) \<Longrightarrow> pays < NombreDePays (kh K) \<Longrightarrow> i < nb_paliers (kh K) pays \<Longrightarrow>
     pdt < NombreDePasDeTempsPourUneOptimisation (kh K) \<Longrightarrow> fiche_cnt_arret K pays i pdt \<in> set (fiches_cnt K)"
proof -
  have heure: "f \<in> set (fiches_cnt K)" if "pdt < NombreDePasDeTempsPourUneOptimisation (kh K)" "f \<in> set (fiches_cnt_heure K pdt)" for f pdt
    using that by (auto simp: fiches_cnt_def)
  show "pdt < NombreDePasDeTempsPourUneOptimisation (kh K) \<Longrightarrow> pays < NombreDePays (kh K) \<Longrightarrow>
      f \<in> set (fiches_cnt_pays K pdt pays) \<Longrightarrow> f \<in> set (fiches_cnt K)"
    "pdt < NombreDePasDeTempsPourUneOptimisation (kh K) \<Longrightarrow> l < NombreDInterconnexions (kh K) \<Longrightarrow>
      fiche_cnt_couts K pdt l \<in> set (fiches_cnt K)"
    "pdt < NombreDePasDeTempsPourUneOptimisation (kh K) \<Longrightarrow> c < NombreDeContraintesCouplantes (kh K) \<Longrightarrow>
      fiche_cnt_couplante K pdt c \<in> set (fiches_cnt K)"
    by (rule heure, assumption, force simp: fiches_cnt_heure_def par_pays_def)+
  show "c < NombreDeContraintesCouplantes (kh K) \<Longrightarrow> f \<in> set (fiches_cnt_jour K c) \<Longrightarrow> f \<in> set (fiches_cnt K)"
    by (auto simp: fiches_cnt_def par_couplante_def)
  show "pays < NombreDePays (kh K) \<Longrightarrow> f \<in> set (fiches_cnt_bornes K pays) \<Longrightarrow> f \<in> set (fiches_cnt K)"
    "pays < NombreDePays (kh K) \<Longrightarrow> f \<in> set (fiches_cnt_stock K pays) \<Longrightarrow> f \<in> set (fiches_cnt K)"
    by (auto simp: fiches_cnt_def par_pays_def)
  show "OptimisationAvecCoutsDeDemarrage (kh K) \<Longrightarrow> pays < NombreDePays (kh K) \<Longrightarrow> i < nb_paliers (kh K) pays \<Longrightarrow>
      pdt < NombreDePasDeTempsPourUneOptimisation (kh K) \<Longrightarrow> fiche_cnt_arret K pays i pdt \<in> set (fiches_cnt K)"
  proof -
    assume D: "OptimisationAvecCoutsDeDemarrage (kh K)" and a: "pays < NombreDePays (kh K)" "i < nb_paliers (kh K) pays"
      "pdt < NombreDePasDeTempsPourUneOptimisation (kh K)"
    have "fiche_cnt_arret K pays i pdt \<in> set (par_palier (kh K) (\<lambda>pays i. map (fiche_cnt_arret K pays i) (heures (kh K))))"
      using a by (force simp: par_palier_def)
    then have "fiche_cnt_arret K pays i pdt \<in> set (fiches_cnt_demarrage K)"
      unfolding fiches_cnt_demarrage_def by simp
    then show ?thesis using D by (simp add: fiches_cnt_def)
  qed
  show "pdt < NombreDePasDeTempsPourUneOptimisation (kh K) \<Longrightarrow> pays < NombreDePays (kh K) \<Longrightarrow>
      fiche_cnt_niveau K pdt pays \<in> set (fiches_cnt K)"
  proof -
    assume "pdt < NombreDePasDeTempsPourUneOptimisation (kh K)" "pays < NombreDePays (kh K)"
    then have "fiche_cnt_niveau K pdt pays \<in> set (concat (map (\<lambda>pdt. map (fiche_cnt_niveau K pdt) [0..<NombreDePays (kh K)]) (heures (kh K))))"
      by force
    then show ?thesis unfolding fiches_cnt_def by simp
  qed
qed (auto simp: fiches_cnt_def)

text \<open>This is what the construction of the matrix leaves.\<close>

lemma effets_numerotees:
  assumes N: "probleme_numerote h s" and num: "numeros_distincts h" and J: "jours_numerotes h" and A: "couplantes_actives h"
    and D: "OptimisationAvecCoutsDeDemarrage h \<Longrightarrow> demarrage_numerote (contexte_de h s)"
    and c: "NombreDeContraintes (ProblemeAResoudre s') = length (liste_lignes (contexte_de h s))"
    and e: "lecture_cnt s' = effets (fiches_cnt (contexte_de h s)) 0 m"
  shows "contraintes_numerotees (contexte_de h s) s'"
proof -
  let ?K = "contexte_de h s"
  let ?fs = "fiches_cnt ?K"
  have d: "distinct (places_cnt ?fs)"
    by (rule places_cnt_distinctes) (use num J numerote_ok(3) [OF N] in simp_all)
  have r: "\<forall>f \<in> set ?fs. fiche_remplie h f"
    using remplies [OF N A D] by blast
  then have sm: "\<forall>f \<in> set ?fs. fiche_simple f"
    using fiche_remplie_simple by blast
  have n: "length (lignes_de ?fs) = length (liste_lignes ?K)"
    by (simp add: lignes_fiches_cnt)
  have 1: "lecture_cnt s' q = int k" if "k < length (liste_lignes ?K)" "nom_ligne ?K k = Some q" for k q
    using effets_numero [OF d sm, of k q 0 m] that n by (simp add: e nom_ligne_def)
  have 2: "lecture_cnt s' q = - 1"
    if q: "q \<in> set (places_cnt ?fs)" "lue h q" "\<forall>k < length (liste_lignes ?K). nom_ligne ?K k \<noteq> Some q" for q
  proof -
    from q(1) obtain mo ls where f: "(mo, ls) \<in> set ?fs" "q \<in> set (places_marque mo)"
      by (auto simp: places_cnt_def)
    then consider "mo = Some (Numerote q)" | "mo = Some (Efface q)"
      by (cases mo rule: places_marque.cases) auto
    then show ?thesis
    proof cases
      case 1
      then have "ls \<noteq> []" using r f(1) q(2) by (auto simp: fiche_remplie_def)
      then have "Some q \<in> set (noms_lignes ?fs)" using nom_present f(1) 1 by blast
      then show ?thesis using q(3) by (auto simp: in_set_conv_nth nom_ligne_def lignes_fiches_cnt)
    next
      case 2
      then show ?thesis using effets_efface [OF d] f(1) by (simp add: e)
    qed
  qed
  from 1 2 c r show ?thesis by (simp add: contraintes_numerotees_def)
qed

text \<open>The whole construction of a range, with the numbers of both sides.\<close>

lemma construction_numerotee:
  assumes p: "pret_a_construire h" and s: "alloue h s" and J: "jours_numerotes h" and A: "couplantes_actives h"
  shows "returns (bindE (OPT_ConstruireLaListeDesVariablesOptimiseesDuProblemeLineaire h s)
     (OPT_ConstruireLaMatriceDesContraintesDuProblemeLineaire h))
   (\<lambda>s'. alloue h s' \<and> probleme_construit h s' \<and> contraintes_numerotees (contexte_de h s') s' \<and>
     length (liste_lignes (contexte_de h s')) \<le> nb_contraintes_prevues h)"
  unfolding returns_bindE
  using liste_construite [OF p s]
proof (rule returns_mono)
  fix s1 assume s1: "alloue h s1 \<and> variables_construites h s1"
  let ?K = "contexte_de h s1"
  have h: "hebdo_ok h" "numeros_distincts h" "tailles_ok h"
    and niv: "\<forall>pays < NombreDePays h. \<not> niveau_impossible h pays"
    using p by (simp_all add: pret_a_construire_def)
  have K: "contexte_ok ?K"
    using h s1 by (simp add: contexte_ok_def contexte_de_def alloue_def dims_variables_def)
  have large: "tient ?K (liste_lignes ?K)"
    by (rule lignes_tiennent) (use h in \<open>simp add: contexte_large_def contexte_de_def\<close>)
  have place: "places (kh ?K) \<le> knc ?K"
    using places_le [OF h(1,2) niv] by (simp add: contexte_de_def)
  have D: "OptimisationAvecCoutsDeDemarrage h \<Longrightarrow> demarrage_numerote ?K"
    using demarrage_numerote_construit [OF _ _ K] s1 by simp
  have N: "probleme_numerote h s1" using K s1 by (simp add: probleme_numerote_def)
  have "returns (OPT_ConstruireLaMatriceDesContraintesDuProblemeLineaire (kh ?K) s1)
      (\<lambda>s'. rep_lignes ?K () s' (liste_lignes ?K) \<and> lecture_cnt s' = effets (fiches_cnt ?K) 0 (lecture_cnt s1))"
    by (rule OPT_ConstruireMatrice_numerote [OF K _ _ large place]) (use s1 alloue_pret D in auto)
  then show "returns (OPT_ConstruireLaMatriceDesContraintesDuProblemeLineaire h s1)
      (\<lambda>s'. alloue h s' \<and> probleme_construit h s' \<and> contraintes_numerotees (contexte_de h s') s' \<and>
     length (liste_lignes (contexte_de h s')) \<le> nb_contraintes_prevues h)"
    unfolding contexte_de_kh
  proof (rule returns_mono)
    fix s' assume r: "rep_lignes ?K () s' (liste_lignes ?K) \<and> lecture_cnt s' = effets (fiches_cnt ?K) 0 (lecture_cnt s1)"
    then have i: "inv ?K s'" by (simp add: rep_lignes_def)
    have c: "contexte_de h s' = ?K"
      using i by (simp add: inv_def contexte_de_def)
    have n: "NombreDeContraintes (ProblemeAResoudre s') = length (liste_lignes ?K)"
      using r by (auto simp: rep_lignes_def simp flip: length_lignes)
    moreover have "NombreDeContraintes (ProblemeAResoudre s') \<le> nb_contraintes_prevues h"
      using i by (simp add: inv_def matrice_inv_def contexte_de_def)
    moreover have "contraintes_numerotees ?K s'"
      using r n by (intro effets_numerotees [OF N h(2) J A D]) simp_all
    ultimately show "alloue h s' \<and> probleme_construit h s' \<and> contraintes_numerotees (contexte_de h s') s' \<and>
        length (liste_lignes (contexte_de h s')) \<le> nb_contraintes_prevues h"
      using r c inv_alloue [OF i] inv_variables [OF i] s1
      by (simp add: probleme_construit_def rep_lignes_def)
  qed
qed

end
