(* ===== verification/Data_Preparation.thy ===== *)
theory Data_Preparation
  imports Bounds Constraint_Numbers Vector_Passes
begin

text \<open>
  The preparation of the numeric data of a week, before its problem is built: the presence of a reserve
  (\<open>opt_verification_presence_reserve_jmoins1.cpp\<close>), the reference minimum powers (\<open>opt_gestion_des_pmin.cpp\<close>), the
  energies of each range (\<open>opt_init_contraintes_hydrauliques.cpp\<close>), the largest hydro power
  (\<open>OPT_MaxDesPmaxHydrauliques\<close> of \<open>opt_gestion_des_bornes_cas_lineaire.cpp\<close>), the numbers of units
  (\<open>opt_init_minmax_groupes_couts_demarrage.cpp\<close>), and the restoration of the data an optimisation changed
  (\<open>opt_restaurer_les_donnees.cpp\<close>), under \<open>src/src/solver/optimisation/\<close>. Each function is followed by what it
  computes, as a map over the elements.
\<close>

subsection \<open>The elements of the structure\<close>

text \<open>\<open>PaliersThermiquesDuPays[pays].PuissanceDisponibleEtCout[palier]\<close> and
  \<open>CaracteristiquesHydrauliques[pays]\<close>.\<close>

definition sur_palier ::
  "nat \<Rightarrow> nat \<Rightarrow> (PDISP_ET_COUTS_HORAIRES_PAR_PALIER \<Rightarrow> PDISP_ET_COUTS_HORAIRES_PAR_PALIER resultat) \<Rightarrow>
     DONNEES \<Rightarrow> DONNEES resultat" where
  "sur_palier pays palier f = dans PaliersDonnees PaliersDonnees_update
     (modifier pays (dans PuissanceDisponibleEtCout PuissanceDisponibleEtCout_update (modifier palier f)))"

definition sur_hydro :: "nat \<Rightarrow> (HYDRO_DONNEES \<Rightarrow> HYDRO_DONNEES resultat) \<Rightarrow> DONNEES \<Rightarrow> DONNEES resultat" where
  "sur_hydro pays f = dans HydroDonnees HydroDonnees_update (modifier pays f)"

text \<open>The loops over the clusters of every area, and over the areas.\<close>

definition pour_tous_paliers ::
  "PROBLEME_HEBDO \<Rightarrow> (nat \<Rightarrow> nat \<Rightarrow> PDISP_ET_COUTS_HORAIRES_PAR_PALIER \<Rightarrow> PDISP_ET_COUTS_HORAIRES_PAR_PALIER resultat) \<Rightarrow>
     DONNEES \<Rightarrow> DONNEES resultat" where
  "pour_tous_paliers h f = forE [0..<NombreDePays h] (\<lambda>pays d.
     bindE (lire (PaliersThermiquesDuPays h) pays) (\<lambda>pt.
     forE [0..<NombreDePaliersThermiques pt] (\<lambda>palier. sur_palier pays palier (f pays palier)) d))"

definition pour_hydro ::
  "PROBLEME_HEBDO \<Rightarrow> (nat \<Rightarrow> ENERGIES_ET_PUISSANCES_HYDRAULIQUES \<Rightarrow> HYDRO_DONNEES \<Rightarrow> HYDRO_DONNEES resultat) \<Rightarrow>
     DONNEES \<Rightarrow> DONNEES resultat" where
  "pour_hydro h f = forE [0..<NombreDePays h] (\<lambda>pays d.
     bindE (lire (CaracteristiquesHydrauliques h) pays) (\<lambda>c. sur_hydro pays (f pays c) d))"

subsection \<open>The reserve of the day before\<close>

definition ZERO_RESERVE_J_MOINS1 :: real where "ZERO_RESERVE_J_MOINS1 = 1 / 100"

definition OPT_VerifierPresenceReserveJmoins1 :: "PROBLEME_HEBDO \<Rightarrow> DONNEES \<Rightarrow> DONNEES resultat" where
  "OPT_VerifierPresenceReserveJmoins1 h d =
     bindE (chercher (\<lambda>pays.
       bindE (lire (ReserveHoraireJMoins1 d) pays) (\<lambda>reserve.
       chercher (\<lambda>pdt. bindE (lire reserve pdt) (\<lambda>v. Inr (ZERO_RESERVE_J_MOINS1 < \<bar>v\<bar>))) [0..<NombreDePasDeTemps h]))
       [0..<NombreDePays h]) (\<lambda>trouve.
     Inr (d\<lparr>YaDeLaReserveJmoins1 := trouve\<rparr>))"

subsection \<open>The reference minimum powers\<close>

definition memoriser_pmin ::
  "nat \<Rightarrow> PDISP_ET_COUTS_HORAIRES_PAR_PALIER \<Rightarrow> PDISP_ET_COUTS_HORAIRES_PAR_PALIER resultat" where
  "memoriser_pmin pdt x =
     bindE (lire (PuissanceMinDuPalierThermique x) pdt) (\<lambda>v.
     bindE (ecrire (PuissanceMinDuPalierThermiqueRef x) pdt v) (\<lambda>r.
     Inr (x\<lparr>PuissanceMinDuPalierThermiqueRef := r\<rparr>)))"

definition OPT_InitialiserLesPminHebdo :: "PROBLEME_HEBDO \<Rightarrow> DONNEES \<Rightarrow> DONNEES resultat" where
  "OPT_InitialiserLesPminHebdo h =
     pour_tous_paliers h (\<lambda>pays palier. forE [0..<NombreDePasDeTemps h] memoriser_pmin)"

subsection \<open>The energies of the ranges\<close>

definition nb_intervalles :: "PROBLEME_HEBDO \<Rightarrow> nat" where
  "nb_intervalles h = NombreDePasDeTemps h div NombreDePasDeTempsPourUneOptimisation h"

definition jours_par_intervalle :: "PROBLEME_HEBDO \<Rightarrow> nat" where
  "jours_par_intervalle h = NombreDePasDeTempsPourUneOptimisation h div NombreDePasDeTempsDUneJournee h"

text \<open>The sum of a range of days, which replaces the entry whose number is the range.\<close>

definition cumuler :: "nat \<Rightarrow> nat \<Rightarrow> real list \<Rightarrow> real list resultat" where
  "cumuler jours intervalle xs =
     bindE (forE [0..<jours] (\<lambda>jour somme.
       bindE (lire xs (intervalle * jours + jour)) (\<lambda>v. Inr (somme + v))) 0) (\<lambda>somme.
     ecrire xs intervalle somme)"

definition cumuler_energie :: "nat \<Rightarrow> nat \<Rightarrow> HYDRO_DONNEES \<Rightarrow> HYDRO_DONNEES resultat" where
  "cumuler_energie jours intervalle x =
     bindE (forE [0..<jours] (\<lambda>jour (somme, x).
       let index = intervalle * jours + jour in
       bindE (lire (CntEnergieH2OParIntervalleOptimise x) index) (\<lambda>v.
       bindE (ecrire (CntEnergieH2OParJour x) index v) (\<lambda>ys.
       Inr (somme + v, x\<lparr>CntEnergieH2OParJour := ys\<rparr>)))) (0, x)) (\<lambda>(somme, x).
     bindE (ecrire (CntEnergieH2OParIntervalleOptimise x) intervalle somme) (\<lambda>ys.
     Inr (x\<lparr>CntEnergieH2OParIntervalleOptimise := ys\<rparr>)))"

definition cumuler_bornes :: "nat \<Rightarrow> nat \<Rightarrow> HYDRO_DONNEES \<Rightarrow> HYDRO_DONNEES resultat" where
  "cumuler_bornes jours intervalle x =
     bindE (forE [0..<jours] (\<lambda>jour (mini, maxi, x).
       let index = intervalle * jours + jour in
       bindE (lire (MinEnergieHydrauParIntervalleOptimise x) index) (\<lambda>v.
       bindE (lire (MaxEnergieHydrauParIntervalleOptimise x) index) (\<lambda>w.
       bindE (ecrire (CntEnergieH2OParJour x) index w) (\<lambda>ys.
       Inr (mini + v, maxi + w, x\<lparr>CntEnergieH2OParJour := ys\<rparr>))))) (0, 0, x)) (\<lambda>(mini, maxi, x).
     bindE (ecrire (MinEnergieHydrauParIntervalleOptimise x) intervalle mini) (\<lambda>ys.
     bindE (ecrire (MaxEnergieHydrauParIntervalleOptimise x) intervalle maxi) (\<lambda>zs.
     Inr (x\<lparr>MinEnergieHydrauParIntervalleOptimise := ys, MaxEnergieHydrauParIntervalleOptimise := zs\<rparr>))))"

definition OPT_InitialiserLesContrainteDEnergieHydrauliqueParIntervalleOptimise ::
  "PROBLEME_HEBDO \<Rightarrow> DONNEES \<Rightarrow> DONNEES resultat" where
  "OPT_InitialiserLesContrainteDEnergieHydrauliqueParIntervalleOptimise h =
     (let intervalles = [0..<nb_intervalles h]; jours = jours_par_intervalle h in seqE
     [pour_hydro h (\<lambda>pays c. whenE (PresenceDHydrauliqueModulable c \<and> \<not> TurbinageEntreBornes c)
        (forE intervalles (cumuler_energie jours))),
      pour_hydro h (\<lambda>pays c. whenE (PresenceDHydrauliqueModulable c \<and> (TurbinageEntreBornes c \<or> PresenceDePompageModulable c))
        (forE intervalles (cumuler_bornes jours))),
      pour_hydro h (\<lambda>pays c. dans MaxEnergiePompageParIntervalleOptimise MaxEnergiePompageParIntervalleOptimise_update
        (forE intervalles (cumuler jours))),
      pour_hydro h (\<lambda>pays c. dans InflowForTimeInterval InflowForTimeInterval_update (forE intervalles (cumuler jours)))])"

subsection \<open>The largest hydro power\<close>

definition OPT_MaxDesPmaxHydrauliques :: "PROBLEME_HEBDO \<Rightarrow> DONNEES \<Rightarrow> DONNEES resultat" where
  "OPT_MaxDesPmaxHydrauliques h = pour_hydro h (\<lambda>pays c x.
     whenE (PresenceDHydrauliqueModulable c) (\<lambda>x.
       bindE (forE [0..<NombreDePasDeTemps h] (\<lambda>pdtHebdo pmaxHyd.
         bindE (lire (ContrainteDePmaxHydrauliqueHoraire x) pdtHebdo) (\<lambda>v.
         Inr (if v > pmaxHyd then v else pmaxHyd))) (- 1)) (\<lambda>pmaxHyd.
       Inr (x\<lparr>MaxDesPmaxHydrauliques := pmaxHyd\<rparr>))) (x\<lparr>MaxDesPmaxHydrauliques := 0\<rparr>))"

subsection \<open>The numbers of units\<close>

text \<open>The conversion of \<open>ceil\<close> to \<open>int\<close> is exact for the numbers of units of a study.\<close>

definition nombres_de_groupes ::
  "real \<Rightarrow> nat \<Rightarrow> PDISP_ET_COUTS_HORAIRES_PAR_PALIER \<Rightarrow> PDISP_ET_COUTS_HORAIRES_PAR_PALIER resultat" where
  "nombres_de_groupes taille pdtHebdo x =
     (if taille \<noteq> 0
      then bindE (lire (PuissanceDisponibleDuPalierThermiqueRef x) pdtHebdo) (\<lambda>p.
           bindE (ecrire (NombreMaxDeGroupesEnMarcheDuPalierThermique x) pdtHebdo \<lceil>p / taille\<rceil>) (\<lambda>maxi.
           bindE (lire (PuissanceMinDuPalierThermiqueRef x) pdtHebdo) (\<lambda>q.
           bindE (ecrire (NombreMinDeGroupesEnMarcheDuPalierThermique x) pdtHebdo \<lceil>q / taille\<rceil>) (\<lambda>mini.
           Inr (x\<lparr>NombreMaxDeGroupesEnMarcheDuPalierThermique := maxi,
                  NombreMinDeGroupesEnMarcheDuPalierThermique := mini\<rparr>)))))
      else bindE (ecrire (NombreMaxDeGroupesEnMarcheDuPalierThermique x) pdtHebdo 0) (\<lambda>maxi.
           bindE (ecrire (NombreMinDeGroupesEnMarcheDuPalierThermique x) pdtHebdo 0) (\<lambda>mini.
           Inr (x\<lparr>NombreMaxDeGroupesEnMarcheDuPalierThermique := maxi,
                  NombreMinDeGroupesEnMarcheDuPalierThermique := mini\<rparr>))))"

definition OPT_InitialiserNombreMinEtMaxDeGroupesCoutsDeDemarrage ::
  "PROBLEME_HEBDO \<Rightarrow> DONNEES \<Rightarrow> DONNEES resultat" where
  "OPT_InitialiserNombreMinEtMaxDeGroupesCoutsDeDemarrage h =
     whenE (OptimisationAvecCoutsDeDemarrage h) (\<lambda>d.
       pour_tous_paliers h (\<lambda>pays index x.
         bindE (lire (PaliersDonnees d) pays) (\<lambda>pd.
         bindE (lire (TailleUnitaireDUnGroupeDuPalierThermique pd) index) (\<lambda>taille.
         forE [0..<NombreDePasDeTemps h] (nombres_de_groupes taille) x))) d)"

subsection \<open>The restoration of the data\<close>

definition restaurer_transport :: "nat \<Rightarrow> TRANSPORT_DONNEES \<Rightarrow> TRANSPORT_DONNEES resultat" where
  "restaurer_transport pdt x =
     bindE (lire (CoutDeTransportOrigineVersExtremiteRef x) pdt) (\<lambda>v.
     bindE (ecrire (CoutDeTransportOrigineVersExtremite x) pdt v) (\<lambda>ys.
     bindE (lire (CoutDeTransportExtremiteVersOrigineRef x) pdt) (\<lambda>w.
     bindE (ecrire (CoutDeTransportExtremiteVersOrigine x) pdt w) (\<lambda>zs.
     Inr (x\<lparr>CoutDeTransportOrigineVersExtremite := ys, CoutDeTransportExtremiteVersOrigine := zs\<rparr>)))))"

definition restaurer_pmax_hydro ::
  "PROBLEME_HEBDO \<Rightarrow> real list \<Rightarrow> nat \<Rightarrow> nat \<Rightarrow> ENERGIES_ET_PUISSANCES_HYDRAULIQUES \<Rightarrow> HYDRO_DONNEES \<Rightarrow>
     HYDRO_DONNEES resultat" where
  "restaurer_pmax_hydro h coefficients pdt pays c =
     whenE (PresenceDHydrauliqueModulable c) (\<lambda>x.
       bindE (lire (ContrainteDePmaxHydrauliqueHoraireRef x) pdt) (\<lambda>ref.
       bindE (ecrire (ContrainteDePmaxHydrauliqueHoraire x) pdt ref) (\<lambda>pmax.
       let x = x\<lparr>ContrainteDePmaxHydrauliqueHoraire := pmax\<rparr> in
       whenE (\<not> SansHeuristique x) (\<lambda>x.
         bindE (lire (NumeroDeJourDuPasDeTemps h) pdt) (\<lambda>jour.
         bindE (lire (CntEnergieH2OParJour x) jour) (\<lambda>energie.
         bindE (lire coefficients pays) (\<lambda>coefficient.
         let PmaxHydEcretee = energie * coefficient / real (NombreDePasDeTempsDUneJournee h) in
         bindE (if PresenceDePompageModulable c
           then bindE (lire (ContrainteDePmaxPompageHoraire x) pdt) (\<lambda>pompage.
             let PmaxHydUplift = pompage * coefficient in
             Inr (if PmaxHydEcretee < PmaxHydUplift then PmaxHydUplift else PmaxHydEcretee))
           else Inr PmaxHydEcretee) (\<lambda>PmaxHydEcretee.
         bindE (lire (ContrainteDePmaxHydrauliqueHoraire x) pdt) (\<lambda>v.
         if PmaxHydEcretee < v
         then bindE (ecrire (ContrainteDePmaxHydrauliqueHoraire x) pdt PmaxHydEcretee) (\<lambda>pmax.
           Inr (x\<lparr>ContrainteDePmaxHydrauliqueHoraire := pmax\<rparr>))
         else Inr x)))))) x)))"

definition restaurer_pmin ::
  "nat \<Rightarrow> PDISP_ET_COUTS_HORAIRES_PAR_PALIER \<Rightarrow> PDISP_ET_COUTS_HORAIRES_PAR_PALIER resultat" where
  "restaurer_pmin pdt x =
     bindE (lire (PuissanceMinDuPalierThermiqueRef x) pdt) (\<lambda>v.
     bindE (ecrire (PuissanceMinDuPalierThermique x) pdt v) (\<lambda>ys.
     Inr (x\<lparr>PuissanceMinDuPalierThermique := ys\<rparr>)))"

definition restaurer_disponible ::
  "nat \<Rightarrow> PDISP_ET_COUTS_HORAIRES_PAR_PALIER \<Rightarrow> PDISP_ET_COUTS_HORAIRES_PAR_PALIER resultat" where
  "restaurer_disponible pdt x =
     bindE (lire (PuissanceDisponibleDuPalierThermiqueRef x) pdt) (\<lambda>ref.
     bindE (ecrire (PuissanceDisponibleDuPalierThermique x) pdt ref) (\<lambda>dispo.
     bindE (lire (PuissanceMinDuPalierThermique x) pdt) (\<lambda>pmin.
     bindE (lire dispo pdt) (\<lambda>p.
     if pmin > p
     then bindE (ecrire dispo pdt pmin) (\<lambda>dispo.
          bindE (lire dispo pdt) (\<lambda>p.
          if p > ref
          then bindE (ecrire dispo pdt ref) (\<lambda>dispo.
               bindE (ecrire (PuissanceMinDuPalierThermique x) pdt ref) (\<lambda>mini.
               Inr (x\<lparr>PuissanceMinDuPalierThermique := mini, PuissanceDisponibleDuPalierThermique := dispo\<rparr>)))
          else Inr (x\<lparr>PuissanceDisponibleDuPalierThermique := dispo\<rparr>)))
     else Inr (x\<lparr>PuissanceDisponibleDuPalierThermique := dispo\<rparr>)))))"

definition OPT_RestaurerLesDonnees :: "PROBLEME_HEBDO \<Rightarrow> DONNEES \<Rightarrow> DONNEES resultat" where
  "OPT_RestaurerLesDonnees h = seqE
     [forE [0..<NombreDePasDeTemps h] (\<lambda>pdt. forE [0..<NombreDInterconnexions h] (\<lambda>interco d.
        bindE (lire (CoutDeTransport h) interco) (\<lambda>cout.
        whenE (IntercoGereeAvecDesCouts cout)
          (dans TransportDonnees TransportDonnees_update (modifier interco (restaurer_transport pdt))) d))),
      forE [0..<NombreDePasDeTemps h] (\<lambda>pdt d.
        pour_hydro h (restaurer_pmax_hydro h (CoefficientEcretementPMaxHydraulique d) pdt) d),
      forE [0..<NombreDePasDeTemps h] (\<lambda>pdt. pour_tous_paliers h (\<lambda>pays palier. restaurer_pmin pdt)),
      forE [0..<NombreDePasDeTemps h] (\<lambda>pdt. pour_tous_paliers h (\<lambda>pays palier. restaurer_disponible pdt))]"

subsection \<open>What the loops over the elements compute\<close>

definition avec_paliers ::
  "PROBLEME_HEBDO \<Rightarrow> (nat \<Rightarrow> nat \<Rightarrow> PDISP_ET_COUTS_HORAIRES_PAR_PALIER) \<Rightarrow> DONNEES \<Rightarrow> DONNEES" where
  "avec_paliers h g d = d\<lparr>PaliersDonnees := map (\<lambda>pays. (PaliersDonnees d ! pays)
     \<lparr>PuissanceDisponibleEtCout := map (g pays) [0..<nb_paliers h pays]\<rparr>) [0..<NombreDePays h]\<rparr>"

definition avec_hydro :: "PROBLEME_HEBDO \<Rightarrow> (nat \<Rightarrow> HYDRO_DONNEES) \<Rightarrow> DONNEES \<Rightarrow> DONNEES" where
  "avec_hydro h g d = d\<lparr>HydroDonnees := map g [0..<NombreDePays h]\<rparr>"

interpretation paliers: champ_vecteur PaliersDonnees PaliersDonnees_update
  by unfold_locales simp_all

interpretation pdisp: champ_vecteur PuissanceDisponibleEtCout PuissanceDisponibleEtCout_update
  by unfold_locales simp_all

interpretation hydro: champ_vecteur HydroDonnees HydroDonnees_update
  by unfold_locales simp_all

interpretation transport: champ_vecteur TransportDonnees TransportDonnees_update
  by unfold_locales simp_all

lemma dans_length:
  assumes "dans PaliersDonnees PaliersDonnees_update (modifier i f) d = Inr d'"
  shows "length (PaliersDonnees d') = length (PaliersDonnees d)"
  using assms modifier_length [of i f "PaliersDonnees d"]
  by (cases "modifier i f (PaliersDonnees d)") (auto simp: dans_def)

lemma pour_paliers_dans:
  assumes "length (PaliersThermiquesDuPays h) = NombreDePays h" and "length (PaliersDonnees d) = NombreDePays h"
  shows "pour_tous_paliers h f d = forE [0..<NombreDePays h] (\<lambda>pays. dans PaliersDonnees PaliersDonnees_update (modifier pays
    (dans PuissanceDisponibleEtCout PuissanceDisponibleEtCout_update
       (forE [0..<nb_paliers h pays] (\<lambda>palier. modifier palier (f pays palier)))))) d"
  unfolding pour_tous_paliers_def
proof (rule forE_cong_inv [where I = "\<lambda>d. length (PaliersDonnees d) = NombreDePays h"])
  fix pays and d :: DONNEES
  assume pays: "pays \<in> set [0..<NombreDePays h]" and d: "length (PaliersDonnees d) = NombreDePays h"
  have "forE [0..<nb_paliers h pays] (\<lambda>palier. sur_palier pays palier (f pays palier)) d =
      dans PaliersDonnees PaliersDonnees_update (forE [0..<nb_paliers h pays] (\<lambda>palier. modifier pays
        (dans PuissanceDisponibleEtCout PuissanceDisponibleEtCout_update (modifier palier (f pays palier))))) d"
    unfolding sur_palier_def by (rule paliers.dans_forE)
  also have "\<dots> = dans PaliersDonnees PaliersDonnees_update (modifier pays
      (dans PuissanceDisponibleEtCout PuissanceDisponibleEtCout_update
         (forE [0..<nb_paliers h pays] (\<lambda>palier. modifier palier (f pays palier))))) d"
    using pays d by (simp add: dans_def [of PaliersDonnees] modifier_forE pdisp.dans_forE [abs_def])
  finally show "bindE (lire (PaliersThermiquesDuPays h) pays)
      (\<lambda>pt. forE [0..<NombreDePaliersThermiques pt] (\<lambda>palier. sur_palier pays palier (f pays palier)) d) = \<dots>"
    using pays assms(1) by simp
next
  show "length (PaliersDonnees d') = NombreDePays h" if "length (PaliersDonnees d) = NombreDePays h"
    "dans PaliersDonnees PaliersDonnees_update (modifier pays (dans PuissanceDisponibleEtCout PuissanceDisponibleEtCout_update
       (forE [0..<nb_paliers h pays] (\<lambda>palier. modifier palier (f pays palier))))) d = Inr d'" for pays d d'
    using dans_length [OF that(2)] that(1) by simp
qed (rule assms(2))

text \<open>Every cluster, the hours being the outer loop.\<close>

lemma pour_paliers_ok:
  assumes h: "length (PaliersThermiquesDuPays h) = NombreDePays h" and d: "length (PaliersDonnees d) = NombreDePays h"
    and n: "\<And>pays. pays < NombreDePays h \<Longrightarrow> length (PuissanceDisponibleEtCout (PaliersDonnees d ! pays)) = nb_paliers h pays"
    and f: "\<And>pays palier. pays < NombreDePays h \<Longrightarrow> palier < nb_paliers h pays \<Longrightarrow>
      forE ts (\<lambda>t. f t pays palier) (pdisp_de d (pays, palier)) = Inr (g pays palier)"
  shows "forE ts (\<lambda>t. pour_tous_paliers h (f t)) d = Inr (avec_paliers h g d)"
proof -
  let ?F = "\<lambda>t pays. dans PuissanceDisponibleEtCout PuissanceDisponibleEtCout_update
     (forE [0..<nb_paliers h pays] (\<lambda>palier. modifier palier (f t pays palier)))"
  have "forE ts (\<lambda>t. pour_tous_paliers h (f t)) d =
      forE ts (\<lambda>t. forE [0..<NombreDePays h] (\<lambda>pays. dans PaliersDonnees PaliersDonnees_update (modifier pays (?F t pays)))) d"
  proof (rule forE_cong_inv [where I = "\<lambda>d. length (PaliersDonnees d) = NombreDePays h"])
    fix t and d d' :: DONNEES assume "length (PaliersDonnees d) = NombreDePays h"
    then show "pour_tous_paliers h (f t) d =
        forE [0..<NombreDePays h] (\<lambda>pays. dans PaliersDonnees PaliersDonnees_update (modifier pays (?F t pays))) d"
      by (rule pour_paliers_dans [OF h])
    assume "forE [0..<NombreDePays h] (\<lambda>pays. dans PaliersDonnees PaliersDonnees_update (modifier pays (?F t pays))) d = Inr d'"
    from forE_inv [OF _ _ this, of "\<lambda>d. length (PaliersDonnees d) = NombreDePays h"]
    show "length (PaliersDonnees d') = NombreDePays h"
      using \<open>length (PaliersDonnees d) = _\<close> dans_length by metis
  qed (rule d)
  also have "\<dots> = Inr (PaliersDonnees_update (\<lambda>_. map (\<lambda>pays. (PaliersDonnees d ! pays)
     \<lparr>PuissanceDisponibleEtCout := map (g pays) [0..<nb_paliers h pays]\<rparr>) [0..<NombreDePays h]) d)"
  proof (rule paliers.dans_forE_forE_modifier [OF d])
    fix pays assume pays: "pays < NombreDePays h"
    show "forE ts (\<lambda>t. ?F t pays) (PaliersDonnees d ! pays) =
        Inr ((PaliersDonnees d ! pays)\<lparr>PuissanceDisponibleEtCout := map (g pays) [0..<nb_paliers h pays]\<rparr>)"
      unfolding pdisp.dans_forE
      by (rule pdisp.dans_ok) (rule forE_forE_modifier, use n [OF pays] f [OF pays] in auto)
  qed
  finally show ?thesis by (simp add: avec_paliers_def)
qed

lemma pour_paliers_une:
  assumes "length (PaliersThermiquesDuPays h) = NombreDePays h" and "length (PaliersDonnees d) = NombreDePays h"
    and "\<And>pays. pays < NombreDePays h \<Longrightarrow> length (PuissanceDisponibleEtCout (PaliersDonnees d ! pays)) = nb_paliers h pays"
    and "\<And>pays palier. pays < NombreDePays h \<Longrightarrow> palier < nb_paliers h pays \<Longrightarrow>
      f pays palier (pdisp_de d (pays, palier)) = Inr (g pays palier)"
  shows "pour_tous_paliers h f d = Inr (avec_paliers h g d)"
proof -
  have "forE [()] (\<lambda>_. pour_tous_paliers h f) d = Inr (avec_paliers h g d)"
    by (rule pour_paliers_ok) (use assms in auto)
  then show ?thesis by (cases "pour_tous_paliers h f d") auto
qed

lemma pour_hydro_ok:
  assumes h: "length (CaracteristiquesHydrauliques h) = NombreDePays h" and d: "length (HydroDonnees d) = NombreDePays h"
    and f: "\<And>pays. pays < NombreDePays h \<Longrightarrow>
      forE ts (\<lambda>t. f t pays (CaracteristiquesHydrauliques h ! pays)) (HydroDonnees d ! pays) = Inr (g pays)"
  shows "forE ts (\<lambda>t. pour_hydro h (f t)) d = Inr (avec_hydro h g d)"
proof -
  have "pour_hydro h (f t) d = forE [0..<NombreDePays h] (\<lambda>pays. dans HydroDonnees HydroDonnees_update
      (modifier pays (f t pays (CaracteristiquesHydrauliques h ! pays)))) d" for t d
    unfolding pour_hydro_def sur_hydro_def by (rule forE_cong) (use h in simp)
  then have "forE ts (\<lambda>t. pour_hydro h (f t)) d = forE ts (\<lambda>t. forE [0..<NombreDePays h] (\<lambda>pays. dans HydroDonnees HydroDonnees_update
      (modifier pays (f t pays (CaracteristiquesHydrauliques h ! pays))))) d"
    by (intro forE_cong)
  also have "\<dots> = Inr (HydroDonnees_update (\<lambda>_. map g [0..<NombreDePays h]) d)"
    by (rule hydro.dans_forE_forE_modifier [OF d f])
  finally show ?thesis by (simp add: avec_hydro_def)
qed

lemma pour_hydro_une:
  assumes "length (CaracteristiquesHydrauliques h) = NombreDePays h" and "length (HydroDonnees d) = NombreDePays h"
    and "\<And>pays. pays < NombreDePays h \<Longrightarrow> f pays (CaracteristiquesHydrauliques h ! pays) (HydroDonnees d ! pays) = Inr (g pays)"
  shows "pour_hydro h f d = Inr (avec_hydro h g d)"
proof -
  have "forE [()] (\<lambda>_. pour_hydro h f) d = Inr (avec_hydro h g d)"
    by (rule pour_hydro_ok) (use assms in auto)
  then show ?thesis by (cases "pour_hydro h f d") auto
qed

lemma avec_hydro_simps [simp]:
  "length (HydroDonnees (avec_hydro h g d)) = NombreDePays h"
  "pays < NombreDePays h \<Longrightarrow> HydroDonnees (avec_hydro h g d) ! pays = g pays"
  "avec_hydro h f (avec_hydro h g d) = avec_hydro h f d"
  by (simp_all add: avec_hydro_def)

lemma avec_paliers_simps [simp]:
  "length (PaliersDonnees (avec_paliers h g d)) = NombreDePays h"
  "pays < NombreDePays h \<Longrightarrow> length (PuissanceDisponibleEtCout (PaliersDonnees (avec_paliers h g d) ! pays)) = nb_paliers h pays"
  "pays < NombreDePays h \<Longrightarrow> i < nb_paliers h pays \<Longrightarrow> pdisp_de (avec_paliers h g d) (pays, i) = g pays i"
  by (simp_all add: avec_paliers_def)

lemma avec_paliers_deux: "avec_paliers h f (avec_paliers h g d) = avec_paliers h f d"
  by (auto simp: avec_paliers_def intro!: map_cong arg_cong [where f = "\<lambda>x. d\<lparr>PaliersDonnees := x\<rparr>"])

subsection \<open>Reserve and reference minimum powers\<close>

lemma OPT_VerifierPresenceReserve_ok:
  assumes "donnees_hebdo_ok h d"
  shows "OPT_VerifierPresenceReserveJmoins1 h d = Inr (d\<lparr>YaDeLaReserveJmoins1 :=
    \<exists>pays < NombreDePays h. \<exists>t < NombreDePasDeTemps h. 1 / 100 < \<bar>ReserveHoraireJMoins1 d ! pays ! t\<bar>\<rparr>)"
proof -
  let ?q = "\<lambda>pays. \<exists>t \<in> set [0..<NombreDePasDeTemps h]. 1 / 100 < \<bar>ReserveHoraireJMoins1 d ! pays ! t\<bar>"
  have "chercher (\<lambda>pays. bindE (lire (ReserveHoraireJMoins1 d) pays) (\<lambda>reserve.
       chercher (\<lambda>pdt. bindE (lire reserve pdt) (\<lambda>v. Inr (ZERO_RESERVE_J_MOINS1 < \<bar>v\<bar>))) [0..<NombreDePasDeTemps h]))
       [0..<NombreDePays h] = Inr (\<exists>pays \<in> set [0..<NombreDePays h]. ?q pays)"
  proof (rule chercher_ok)
    fix pays assume "pays \<in> set [0..<NombreDePays h]"
    then have pays: "pays < NombreDePays h" by simp
    have "chercher (\<lambda>pdt. bindE (lire (ReserveHoraireJMoins1 d ! pays) pdt) (\<lambda>v. Inr (ZERO_RESERVE_J_MOINS1 < \<bar>v\<bar>)))
        [0..<NombreDePasDeTemps h] = Inr (?q pays)"
      by (rule chercher_ok) (use donnees_pays(6) [OF assms pays] in \<open>simp add: ZERO_RESERVE_J_MOINS1_def\<close>)
    then show "bindE (lire (ReserveHoraireJMoins1 d) pays) (\<lambda>reserve.
       chercher (\<lambda>pdt. bindE (lire reserve pdt) (\<lambda>v. Inr (ZERO_RESERVE_J_MOINS1 < \<bar>v\<bar>))) [0..<NombreDePasDeTemps h]) = Inr (?q pays)"
      using pays donnees_tailles(15) [OF assms] by simp
  qed
  then show ?thesis by (simp add: OPT_VerifierPresenceReserveJmoins1_def Bex_def)
qed

lemma memoriser_pmin_ok:
  assumes "pdisp_ok T x"
  shows "forE [0..<T] memoriser_pmin x = Inr (x\<lparr>PuissanceMinDuPalierThermiqueRef := PuissanceMinDuPalierThermique x\<rparr>)"
proof -
  let ?U = "\<lambda>b. x\<lparr>PuissanceMinDuPalierThermiqueRef := b\<rparr>"
  have "forE [0..<T] memoriser_pmin (?U (PuissanceMinDuPalierThermiqueRef x)) =
      Inr (?U (map (\<lambda>t. PuissanceMinDuPalierThermique x ! t) [0..<T]))"
    by (rule forE_colonne [where v = "\<lambda>t _. PuissanceMinDuPalierThermique x ! t"])
      (use assms in \<open>simp_all add: memoriser_pmin_def pdisp_ok_def\<close>)
  moreover have "map (\<lambda>t. PuissanceMinDuPalierThermique x ! t) [0..<T] = PuissanceMinDuPalierThermique x"
    using assms map_nth [of "PuissanceMinDuPalierThermique x"] by (simp add: pdisp_ok_def)
  ultimately show ?thesis by simp
qed

lemma OPT_InitialiserLesPminHebdo_ok:
  assumes h: "length (PaliersThermiquesDuPays h) = NombreDePays h" and d: "donnees_hebdo_ok h d"
  shows "OPT_InitialiserLesPminHebdo h d = Inr (avec_paliers h (\<lambda>pays i. (pdisp_de d (pays, i))
    \<lparr>PuissanceMinDuPalierThermiqueRef := PuissanceMinDuPalierThermique (pdisp_de d (pays, i))\<rparr>) d)"
  unfolding OPT_InitialiserLesPminHebdo_def
  by (rule pour_paliers_une [OF h])
    (use donnees_tailles(8) [OF d] donnees_pays(1) [OF d] donnees_palier(2) [OF d] in
      \<open>simp_all add: paliers_donnees_ok_def memoriser_pmin_ok\<close>)

subsection \<open>The energies of the ranges\<close>

definition cumule :: "nat \<Rightarrow> nat \<Rightarrow> real list \<Rightarrow> real list" where
  "cumule K J xs = map (\<lambda>i. if i < K then \<Sum>j < J. xs ! (i * J + j) else xs ! i) [0..<length xs]"

lemma cumule_Suc: "K < length xs \<Longrightarrow> (cumule K J xs)[K := \<Sum>j < J. xs ! (K * J + j)] = cumule (Suc K) J xs"
  by (rule nth_equalityI) (auto simp: cumule_def nth_list_update)

lemma length_cumule [simp]: "length (cumule K J xs) = length xs"
  by (simp add: cumule_def)

text \<open>The entries still to be summed have not been overwritten.\<close>

lemma cumule_lu: "0 < J \<Longrightarrow> K * J + j < length xs \<Longrightarrow> cumule K J xs ! (K * J + j) = xs ! (K * J + j)"
proof -
  assume a: "0 < J" "K * J + j < length xs"
  then have "K \<le> K * J + j" by (simp add: trans_le_add1)
  with a show ?thesis by (simp add: cumule_def)
qed

lemma indice_jour: "i < K \<Longrightarrow> j < J \<Longrightarrow> K * J \<le> (n :: nat) \<Longrightarrow> i * J + j < n"
proof -
  assume a: "i < K" "j < J" "K * J \<le> n"
  have "i * J + j < Suc i * J" using a(2) by simp
  also have "Suc i * J \<le> K * J" using a(1) by (intro mult_le_mono1) simp
  finally show ?thesis using a(3) by simp
qed

lemma cumuler_ok:
  assumes "0 < J" and "K * J \<le> length xs"
  shows "forE [0..<K] (cumuler J) xs = Inr (cumule K J xs)"
proof -
  have "returns (forE [0..<K] (cumuler J) xs) (\<lambda>ys. ys = cumule K J xs)"
  proof (rule returns_for_upt)
    fix k ys assume k: "k < K" and ys: "ys = cumule k J xs"
    have "returns (forE [0..<J] (\<lambda>jour somme. bindE (lire ys (k * J + jour)) (\<lambda>v. Inr (somme + v))) 0)
        (\<lambda>somme. somme = (\<Sum>j < J. xs ! (k * J + j)))"
      by (rule returns_for_upt) (use k assms indice_jour [OF k _ assms(2)] cumule_lu in \<open>simp_all add: ys\<close>)
    moreover have "k < length xs" using indice_jour [OF k assms(1,2)] assms(1) by (simp add: trans_le_add1 le_less_trans [of k "k * J"])
    ultimately show "returns (cumuler J k ys) (\<lambda>ys. ys = cumule (Suc k) J xs)"
      unfolding cumuler_def returns_bindE by (auto simp: ys cumule_Suc elim!: returns_mono)
  qed (simp add: cumule_def map_nth)
  then show ?thesis by (auto elim: returnsE)
qed

text \<open>A daily energy is kept before the sums replace it: the first \<open>n\<close> days have been copied.\<close>

definition copie :: "nat \<Rightarrow> 'a list \<Rightarrow> 'a list \<Rightarrow> 'a list" where
  "copie n xs ys = take n xs @ drop n ys"

lemma copie_Suc: "n < length xs \<Longrightarrow> length ys = length xs \<Longrightarrow> (copie n xs ys)[n := xs ! n] = copie (Suc n) xs ys"
  by (simp add: copie_def list_update_append take_Suc_conv_app_nth Cons_nth_drop_Suc [symmetric])

lemma copie_simps [simp]: "copie 0 xs ys = ys" "length ys = length xs \<Longrightarrow> length (copie n xs ys) = length xs"
  "length xs \<le> n \<Longrightarrow> length ys \<le> n \<Longrightarrow> copie n xs ys = xs"
  by (simp_all add: copie_def)

lemma cumuler_energie_ok:
  assumes J: "0 < J" and n: "length (CntEnergieH2OParIntervalleOptimise x) = K * J" "length (CntEnergieH2OParJour x) = K * J"
  shows "forE [0..<K] (cumuler_energie J) x = Inr (x\<lparr>CntEnergieH2OParJour := CntEnergieH2OParIntervalleOptimise x,
    CntEnergieH2OParIntervalleOptimise := cumule K J (CntEnergieH2OParIntervalleOptimise x)\<rparr>)"
proof -
  let ?xs = "CntEnergieH2OParIntervalleOptimise x" and ?ys = "CntEnergieH2OParJour x"
  let ?x = "\<lambda>k. x\<lparr>CntEnergieH2OParJour := copie (k * J) ?xs ?ys, CntEnergieH2OParIntervalleOptimise := cumule k J ?xs\<rparr>"
  have "returns (forE [0..<K] (cumuler_energie J) x) (\<lambda>x'. x' = ?x K)"
  proof (rule returns_for_upt)
    fix k y assume k: "k < K" and y: "y = ?x k"
    let ?f = "\<lambda>jour (somme, x). let index = k * J + jour in
       bindE (lire (CntEnergieH2OParIntervalleOptimise x) index) (\<lambda>v.
       bindE (ecrire (CntEnergieH2OParJour x) index v) (\<lambda>ys.
       Inr (somme + v, x\<lparr>CntEnergieH2OParJour := ys\<rparr>)))"
    have "returns (forE [0..<J] ?f (0, y)) (\<lambda>(somme, x'). somme = (\<Sum>j < J. ?xs ! (k * J + j)) \<and>
        x' = y\<lparr>CntEnergieH2OParJour := copie (k * J + J) ?xs ?ys\<rparr>)"
      by (rule returns_for_upt [where I = "\<lambda>j (somme, x'). somme = (\<Sum>j < j. ?xs ! (k * J + j)) \<and>
          x' = y\<lparr>CntEnergieH2OParJour := copie (k * J + j) ?xs ?ys\<rparr>"])
        (use k y n indice_jour [OF k, of _ J "K * J"] cumule_lu [OF J, of k _ ?xs] copie_Suc [of _ ?xs ?ys] in
          \<open>auto simp: Let_def\<close>)
    moreover have "k < K * J" using k J by (metis less_le_trans mult.right_neutral mult_le_mono2 Suc_leI One_nat_def)
    ultimately show "returns (cumuler_energie J k y) (\<lambda>x'. x' = ?x (Suc k))"
      unfolding cumuler_energie_def returns_bindE
      using y n cumule_Suc [of k ?xs J] by (auto simp: add.commute elim!: returns_mono)
  qed (simp add: cumule_def map_nth)
  then show ?thesis using n by (auto elim: returnsE)
qed

lemma cumuler_bornes_ok:
  assumes J: "0 < J" and n: "length (MinEnergieHydrauParIntervalleOptimise x) = K * J"
    "length (MaxEnergieHydrauParIntervalleOptimise x) = K * J" "length (CntEnergieH2OParJour x) = K * J"
  shows "forE [0..<K] (cumuler_bornes J) x = Inr (x\<lparr>CntEnergieH2OParJour := MaxEnergieHydrauParIntervalleOptimise x,
    MinEnergieHydrauParIntervalleOptimise := cumule K J (MinEnergieHydrauParIntervalleOptimise x),
    MaxEnergieHydrauParIntervalleOptimise := cumule K J (MaxEnergieHydrauParIntervalleOptimise x)\<rparr>)"
proof -
  let ?ms = "MinEnergieHydrauParIntervalleOptimise x" and ?xs = "MaxEnergieHydrauParIntervalleOptimise x"
    and ?ys = "CntEnergieH2OParJour x"
  let ?x = "\<lambda>k. x\<lparr>CntEnergieH2OParJour := copie (k * J) ?xs ?ys, MinEnergieHydrauParIntervalleOptimise := cumule k J ?ms,
     MaxEnergieHydrauParIntervalleOptimise := cumule k J ?xs\<rparr>"
  have "returns (forE [0..<K] (cumuler_bornes J) x) (\<lambda>x'. x' = ?x K)"
  proof (rule returns_for_upt)
    fix k y assume k: "k < K" and y: "y = ?x k"
    let ?f = "\<lambda>jour (mini, maxi, x). let index = k * J + jour in
       bindE (lire (MinEnergieHydrauParIntervalleOptimise x) index) (\<lambda>v.
       bindE (lire (MaxEnergieHydrauParIntervalleOptimise x) index) (\<lambda>w.
       bindE (ecrire (CntEnergieH2OParJour x) index w) (\<lambda>ys.
       Inr (mini + v, maxi + w, x\<lparr>CntEnergieH2OParJour := ys\<rparr>))))"
    have "returns (forE [0..<J] ?f (0, 0, y)) (\<lambda>(mini, maxi, x'). mini = (\<Sum>j < J. ?ms ! (k * J + j)) \<and>
        maxi = (\<Sum>j < J. ?xs ! (k * J + j)) \<and> x' = y\<lparr>CntEnergieH2OParJour := copie (k * J + J) ?xs ?ys\<rparr>)"
      by (rule returns_for_upt [where I = "\<lambda>j (mini, maxi, x'). mini = (\<Sum>j < j. ?ms ! (k * J + j)) \<and>
          maxi = (\<Sum>j < j. ?xs ! (k * J + j)) \<and> x' = y\<lparr>CntEnergieH2OParJour := copie (k * J + j) ?xs ?ys\<rparr>"])
        (use k y n indice_jour [OF k, of _ J "K * J"] cumule_lu [OF J, of k _ ?xs] cumule_lu [OF J, of k _ ?ms]
          copie_Suc [of _ ?xs ?ys] in \<open>auto simp: Let_def\<close>)
    moreover have "k < K * J" using k J by (metis less_le_trans mult.right_neutral mult_le_mono2 Suc_leI One_nat_def)
    ultimately show "returns (cumuler_bornes J k y) (\<lambda>x'. x' = ?x (Suc k))"
      unfolding cumuler_bornes_def returns_bindE
      using y n cumule_Suc [of k ?xs J] cumule_Suc [of k ?ms J] by (auto simp: add.commute elim!: returns_mono)
  qed (simp add: cumule_def map_nth)
  then show ?thesis using n by (auto elim: returnsE)
qed

text \<open>What the function does to one reservoir.\<close>

definition energies_cumulees ::
  "PROBLEME_HEBDO \<Rightarrow> ENERGIES_ET_PUISSANCES_HYDRAULIQUES \<Rightarrow> HYDRO_DONNEES \<Rightarrow> HYDRO_DONNEES" where
  "energies_cumulees h c x =
     (let cumule = cumule (nb_intervalles h) (jours_par_intervalle h);
          x = (if PresenceDHydrauliqueModulable c \<and> \<not> TurbinageEntreBornes c
               then x\<lparr>CntEnergieH2OParJour := CntEnergieH2OParIntervalleOptimise x,
                      CntEnergieH2OParIntervalleOptimise := cumule (CntEnergieH2OParIntervalleOptimise x)\<rparr> else x);
          x = (if PresenceDHydrauliqueModulable c \<and> (TurbinageEntreBornes c \<or> PresenceDePompageModulable c)
               then x\<lparr>CntEnergieH2OParJour := MaxEnergieHydrauParIntervalleOptimise x,
                      MinEnergieHydrauParIntervalleOptimise := cumule (MinEnergieHydrauParIntervalleOptimise x),
                      MaxEnergieHydrauParIntervalleOptimise := cumule (MaxEnergieHydrauParIntervalleOptimise x)\<rparr> else x) in
      x\<lparr>MaxEnergiePompageParIntervalleOptimise := cumule (MaxEnergiePompageParIntervalleOptimise x),
        InflowForTimeInterval := cumule (InflowForTimeInterval x)\<rparr>)"

interpretation pompage: champ_vecteur MaxEnergiePompageParIntervalleOptimise MaxEnergiePompageParIntervalleOptimise_update
  by unfold_locales simp_all

interpretation apports: champ_vecteur InflowForTimeInterval InflowForTimeInterval_update
  by unfold_locales simp_all

text \<open>What the passes need of the structure; the prepared data of every week have it.\<close>

definition passes_ok :: "PROBLEME_HEBDO \<Rightarrow> bool" where
  "passes_ok h \<longleftrightarrow> length (PaliersThermiquesDuPays h) = NombreDePays h \<and>
     length (CaracteristiquesHydrauliques h) = NombreDePays h \<and> length (CoutDeTransport h) = NombreDInterconnexions h \<and>
     0 < NombreDePasDeTempsPourUneOptimisation h \<and> 0 < NombreDePasDeTempsDUneJournee h \<and>
     NombreDePasDeTempsDUneJournee h dvd NombreDePasDeTempsPourUneOptimisation h \<and>
     NombreDePasDeTempsPourUneOptimisation h dvd NombreDePasDeTemps h \<and>
     NombreDeJours h = NombreDePasDeTemps h div NombreDePasDeTempsDUneJournee h"

lemma passes_ok_hebdo: "hebdo_ok h \<Longrightarrow> jours_numerotes h \<Longrightarrow> passes_ok h"
  using hebdo_ok_horizon by (simp add: passes_ok_def jours_numerotes_def)

lemma intervalles_jours:
  assumes "passes_ok h"
  shows "nb_intervalles h * jours_par_intervalle h = NombreDeJours h" and "0 < jours_par_intervalle h"
proof -
  let ?T = "NombreDePasDeTempsPourUneOptimisation h" and ?D = "NombreDePasDeTempsDUneJournee h"
  have d: "?T dvd NombreDePasDeTemps h" "?D dvd ?T" "0 < ?T" "0 < ?D"
    and n: "NombreDeJours h = NombreDePasDeTemps h div ?D"
    using assms by (simp_all add: passes_ok_def)
  then show "nb_intervalles h * jours_par_intervalle h = NombreDeJours h"
    unfolding nb_intervalles_def jours_par_intervalle_def n by (metis div_mult_swap dvd_div_mult_self)
  show "0 < jours_par_intervalle h"
    using d by (simp add: jours_par_intervalle_def div_greater_zero_iff dvd_imp_le)
qed

lemma OPT_InitialiserLesEnergies_ok:
  assumes P: "passes_ok h" and d: "donnees_hebdo_ok h d"
  shows "OPT_InitialiserLesContrainteDEnergieHydrauliqueParIntervalleOptimise h d =
    Inr (avec_hydro h (\<lambda>pays. energies_cumulees h (CaracteristiquesHydrauliques h ! pays) (HydroDonnees d ! pays)) d)"
proof -
  let ?K = "nb_intervalles h" and ?J = "jours_par_intervalle h" and ?C = "\<lambda>pays. CaracteristiquesHydrauliques h ! pays"
  note J = intervalles_jours [OF P]
  have c: "length (CaracteristiquesHydrauliques h) = NombreDePays h" using P by (simp add: passes_ok_def)
  define g1 where "g1 c x = (if PresenceDHydrauliqueModulable c \<and> \<not> TurbinageEntreBornes c
     then x\<lparr>CntEnergieH2OParJour := CntEnergieH2OParIntervalleOptimise x,
            CntEnergieH2OParIntervalleOptimise := cumule ?K ?J (CntEnergieH2OParIntervalleOptimise x)\<rparr> else x)"
    for c :: ENERGIES_ET_PUISSANCES_HYDRAULIQUES and x :: HYDRO_DONNEES
  define g2 where "g2 c x = (if PresenceDHydrauliqueModulable c \<and> (TurbinageEntreBornes c \<or> PresenceDePompageModulable c)
     then x\<lparr>CntEnergieH2OParJour := MaxEnergieHydrauParIntervalleOptimise x,
            MinEnergieHydrauParIntervalleOptimise := cumule ?K ?J (MinEnergieHydrauParIntervalleOptimise x),
            MaxEnergieHydrauParIntervalleOptimise := cumule ?K ?J (MaxEnergieHydrauParIntervalleOptimise x)\<rparr> else x)"
    for c :: ENERGIES_ET_PUISSANCES_HYDRAULIQUES and x :: HYDRO_DONNEES
  define g3 where "g3 x = x\<lparr>MaxEnergiePompageParIntervalleOptimise := cumule ?K ?J (MaxEnergiePompageParIntervalleOptimise x)\<rparr>"
    for x :: HYDRO_DONNEES
  define g4 where "g4 x = x\<lparr>InflowForTimeInterval := cumule ?K ?J (InflowForTimeInterval x)\<rparr>" for x :: HYDRO_DONNEES
  let ?x1 = "\<lambda>pays. g1 (?C pays) (HydroDonnees d ! pays)"
  let ?x2 = "\<lambda>pays. g2 (?C pays) (?x1 pays)" let ?x3 = "\<lambda>pays. g3 (?x2 pays)" let ?x4 = "\<lambda>pays. g4 (?x3 pays)"
  have n: "length (MinEnergieHydrauParIntervalleOptimise (HydroDonnees d ! pays)) = ?K * ?J"
    "length (MaxEnergieHydrauParIntervalleOptimise (HydroDonnees d ! pays)) = ?K * ?J"
    "length (CntEnergieH2OParIntervalleOptimise (HydroDonnees d ! pays)) = ?K * ?J"
    "length (CntEnergieH2OParJour (HydroDonnees d ! pays)) = ?K * ?J"
    "length (MaxEnergiePompageParIntervalleOptimise (HydroDonnees d ! pays)) = ?K * ?J"
    "length (InflowForTimeInterval (HydroDonnees d ! pays)) = ?K * ?J" if "pays < NombreDePays h" for pays
    using donnees_pays(2) [OF d that] J(1) by (simp_all add: hydro_donnees_ok_def)
  have 1: "pour_hydro h (\<lambda>pays c. whenE (PresenceDHydrauliqueModulable c \<and> \<not> TurbinageEntreBornes c)
      (forE [0..<?K] (cumuler_energie ?J))) d = Inr (avec_hydro h ?x1 d)"
    by (rule pour_hydro_une [OF c]) (use donnees_tailles(9) [OF d] n in \<open>simp_all add: whenE_def cumuler_energie_ok [OF J(2)] g1_def\<close>)
  have 2: "pour_hydro h (\<lambda>pays c. whenE (PresenceDHydrauliqueModulable c \<and> (TurbinageEntreBornes c \<or> PresenceDePompageModulable c))
      (forE [0..<?K] (cumuler_bornes ?J))) (avec_hydro h ?x1 d) = Inr (avec_hydro h ?x2 d)"
    by (subst pour_hydro_une [OF c, where g = ?x2])
      (use n in \<open>auto simp: whenE_def g1_def g2_def intro!: cumuler_bornes_ok [OF J(2), THEN trans]\<close>)
  have 3: "pour_hydro h (\<lambda>pays c. dans MaxEnergiePompageParIntervalleOptimise MaxEnergiePompageParIntervalleOptimise_update
      (forE [0..<?K] (cumuler ?J))) (avec_hydro h ?x2 d) = Inr (avec_hydro h ?x3 d)"
    by (subst pour_hydro_une [OF c, where g = ?x3])
      (use n in \<open>auto simp: g1_def g2_def g3_def dans_def cumuler_ok [OF J(2)]\<close>)
  have 4: "pour_hydro h (\<lambda>pays c. dans InflowForTimeInterval InflowForTimeInterval_update (forE [0..<?K] (cumuler ?J)))
      (avec_hydro h ?x3 d) = Inr (avec_hydro h ?x4 d)"
    by (subst pour_hydro_une [OF c, where g = ?x4])
      (use n in \<open>auto simp: g1_def g2_def g3_def g4_def dans_def cumuler_ok [OF J(2)]\<close>)
  have "?x4 = (\<lambda>pays. energies_cumulees h (?C pays) (HydroDonnees d ! pays))"
    by (rule ext) (simp add: energies_cumulees_def Let_def g1_def g2_def g3_def g4_def)
  with 1 2 3 4 show ?thesis
    by (simp add: OPT_InitialiserLesContrainteDEnergieHydrauliqueParIntervalleOptimise_def Let_def)
qed

subsection \<open>The largest hydro power and the numbers of units\<close>

lemma OPT_MaxDesPmaxHydrauliques_ok:
  assumes P: "passes_ok h" and d: "donnees_hebdo_ok h d"
  shows "OPT_MaxDesPmaxHydrauliques h d = Inr (avec_hydro h (\<lambda>pays. let x = HydroDonnees d ! pays in
    x\<lparr>MaxDesPmaxHydrauliques := if PresenceDHydrauliqueModulable (CaracteristiquesHydrauliques h ! pays)
      then Max (insert (- 1) (set (ContrainteDePmaxHydrauliqueHoraire x))) else 0\<rparr>) d)"
  unfolding OPT_MaxDesPmaxHydrauliques_def
proof (rule pour_hydro_une)
  fix pays assume pays: "pays < NombreDePays h"
  let ?x = "HydroDonnees d ! pays" let ?v = "ContrainteDePmaxHydrauliqueHoraire ?x"
  have l: "length ?v = NombreDePasDeTemps h"
    using donnees_pays(2) [OF d pays] by (simp add: hydro_donnees_ok_def)
  have "returns (forE [0..<NombreDePasDeTemps h] (\<lambda>pdtHebdo pmaxHyd. bindE (lire ?v pdtHebdo) (\<lambda>v.
      Inr (if v > pmaxHyd then v else pmaxHyd))) (- 1)) (\<lambda>m. m = Max (insert (- 1) (set (take (NombreDePasDeTemps h) ?v))))"
  proof (rule returns_for_upt)
    fix k m assume k: "k < NombreDePasDeTemps h" and m: "m = Max (insert (- 1) (set (take k ?v)))"
    have "Max (insert (- 1) (set (take (Suc k) ?v))) = Max (insert (?v ! k) (insert (- 1) (set (take k ?v))))"
      using k l by (simp add: take_Suc_conv_app_nth insert_commute)
    also have "\<dots> = max (?v ! k) m" unfolding m by (rule Max_insert) simp_all
    finally show "returns (bindE (lire ?v k) (\<lambda>v. Inr (if v > m then v else m)))
        (\<lambda>m. m = Max (insert (- 1) (set (take (Suc k) ?v))))" using k l by (simp add: max_def)
  qed simp
  then have "forE [0..<NombreDePasDeTemps h] (\<lambda>pdtHebdo pmaxHyd. bindE (lire ?v pdtHebdo) (\<lambda>v.
      Inr (if v > pmaxHyd then v else pmaxHyd))) (- 1) = Inr (Max (insert (- 1) (set ?v)))"
    using l by (auto elim: returnsE)
  then show "whenE (PresenceDHydrauliqueModulable (CaracteristiquesHydrauliques h ! pays)) (\<lambda>x.
       bindE (forE [0..<NombreDePasDeTemps h] (\<lambda>pdtHebdo pmaxHyd.
         bindE (lire (ContrainteDePmaxHydrauliqueHoraire x) pdtHebdo) (\<lambda>v.
         Inr (if v > pmaxHyd then v else pmaxHyd))) (- 1)) (\<lambda>pmaxHyd.
       Inr (x\<lparr>MaxDesPmaxHydrauliques := pmaxHyd\<rparr>))) (?x\<lparr>MaxDesPmaxHydrauliques := 0\<rparr>) =
    Inr (let x = ?x in x\<lparr>MaxDesPmaxHydrauliques := if PresenceDHydrauliqueModulable (CaracteristiquesHydrauliques h ! pays)
      then Max (insert (- 1) (set (ContrainteDePmaxHydrauliqueHoraire x))) else 0\<rparr>)"
    by (simp add: whenE_def Let_def)
qed (use P donnees_tailles(9) [OF d] in \<open>simp_all add: passes_ok_def\<close>)

definition groupes_de :: "real \<Rightarrow> PDISP_ET_COUTS_HORAIRES_PAR_PALIER \<Rightarrow> PDISP_ET_COUTS_HORAIRES_PAR_PALIER" where
  "groupes_de taille x = (let groupes = (\<lambda>p. if taille \<noteq> 0 then \<lceil>p / taille\<rceil> else 0) in
     x\<lparr>NombreMaxDeGroupesEnMarcheDuPalierThermique := map groupes (PuissanceDisponibleDuPalierThermiqueRef x),
       NombreMinDeGroupesEnMarcheDuPalierThermique := map groupes (PuissanceMinDuPalierThermiqueRef x)\<rparr>)"

lemma map_nth_map: "length xs = T \<Longrightarrow> map (\<lambda>t. f (xs ! t)) [0..<T] = map f xs"
  by (rule nth_equalityI) simp_all

lemma nombres_de_groupes_ok:
  assumes x: "pdisp_ok T x"
  shows "forE [0..<T] (nombres_de_groupes taille) x = Inr (groupes_de taille x)"
proof -
  let ?U = "\<lambda>b. x\<lparr>NombreMaxDeGroupesEnMarcheDuPalierThermique := map fst b, NombreMinDeGroupesEnMarcheDuPalierThermique := map snd b\<rparr>"
  let ?b = "zip (NombreMaxDeGroupesEnMarcheDuPalierThermique x) (NombreMinDeGroupesEnMarcheDuPalierThermique x)"
  let ?g = "\<lambda>p. if taille \<noteq> 0 then \<lceil>p / taille\<rceil> else 0"
  let ?v = "\<lambda>t _. (?g (PuissanceDisponibleDuPalierThermiqueRef x ! t), ?g (PuissanceMinDuPalierThermiqueRef x ! t))"
  have "forE [0..<T] (nombres_de_groupes taille) (?U ?b) = Inr (?U (map (\<lambda>t. ?v t (?b ! t)) [0..<T]))"
    by (rule forE_colonne) (use x in \<open>auto simp: nombres_de_groupes_def pdisp_ok_def map_update\<close>)
  moreover have "?U ?b = x" using x by (simp add: pdisp_ok_def)
  moreover have "?U (map (\<lambda>t. ?v t (?b ! t)) [0..<T]) = groupes_de taille x"
    using x by (simp add: groupes_de_def pdisp_ok_def Let_def comp_def map_nth_map [of _ T ?g])
  ultimately show ?thesis by simp
qed

lemma OPT_InitialiserNombreMinEtMax_ok:
  assumes P: "passes_ok h" and d: "donnees_hebdo_ok h d"
  shows "OPT_InitialiserNombreMinEtMaxDeGroupesCoutsDeDemarrage h d =
    Inr (if OptimisationAvecCoutsDeDemarrage h then avec_paliers h (\<lambda>pays i. groupes_de
      (TailleUnitaireDUnGroupeDuPalierThermique (PaliersDonnees d ! pays) ! i) (pdisp_de d (pays, i))) d else d)"
proof -
  have "pour_tous_paliers h (\<lambda>pays index x. bindE (lire (PaliersDonnees d) pays) (\<lambda>pd.
         bindE (lire (TailleUnitaireDUnGroupeDuPalierThermique pd) index) (\<lambda>taille.
         forE [0..<NombreDePasDeTemps h] (nombres_de_groupes taille) x))) d =
    Inr (avec_paliers h (\<lambda>pays i. groupes_de
      (TailleUnitaireDUnGroupeDuPalierThermique (PaliersDonnees d ! pays) ! i) (pdisp_de d (pays, i))) d)"
    by (rule pour_paliers_une)
      (use P donnees_tailles(8) [OF d] donnees_pays(1) [OF d] donnees_palier(2) [OF d] in
        \<open>simp_all add: passes_ok_def paliers_donnees_ok_def nombres_de_groupes_ok\<close>)
  then show ?thesis by (simp add: OPT_InitialiserNombreMinEtMaxDeGroupesCoutsDeDemarrage_def whenE_def)
qed

subsection \<open>The restoration\<close>

lemma forE_whenE: "forE ts (\<lambda>t. whenE b (f t)) x = (if b then forE ts f x else Inr x)"
proof (cases b)
  case True
  then show ?thesis by (auto simp: whenE_def intro!: forE_cong)
next
  case False
  then show ?thesis by (induction ts) (simp_all add: whenE_def)
qed

definition transport_restaure :: "TRANSPORT_DONNEES \<Rightarrow> TRANSPORT_DONNEES" where
  "transport_restaure x = x\<lparr>CoutDeTransportOrigineVersExtremite := CoutDeTransportOrigineVersExtremiteRef x,
     CoutDeTransportExtremiteVersOrigine := CoutDeTransportExtremiteVersOrigineRef x\<rparr>"

lemma restaurer_transport_ok:
  assumes x: "transport_donnees_ok T x"
  shows "forE [0..<T] restaurer_transport x = Inr (transport_restaure x)"
proof -
  let ?U = "\<lambda>b. x\<lparr>CoutDeTransportOrigineVersExtremite := map fst b, CoutDeTransportExtremiteVersOrigine := map snd b\<rparr>"
  let ?b = "zip (CoutDeTransportOrigineVersExtremite x) (CoutDeTransportExtremiteVersOrigine x)"
  let ?v = "\<lambda>t _. (CoutDeTransportOrigineVersExtremiteRef x ! t, CoutDeTransportExtremiteVersOrigineRef x ! t)"
  have "forE [0..<T] restaurer_transport (?U ?b) = Inr (?U (map (\<lambda>t. ?v t (?b ! t)) [0..<T]))"
    by (rule forE_colonne) (use x in \<open>auto simp: restaurer_transport_def transport_donnees_ok_def map_update\<close>)
  moreover have "?U ?b = x" using x by (simp add: transport_donnees_ok_def)
  moreover have "?U (map (\<lambda>t. ?v t (?b ! t)) [0..<T]) = transport_restaure x"
    using x by (simp add: transport_restaure_def transport_donnees_ok_def comp_def map_nth_map [of _ T "\<lambda>v. v", simplified])
  ultimately show ?thesis by simp
qed

lemma restaurer_transports_ok:
  assumes P: "passes_ok h" and d: "donnees_hebdo_ok h d"
  shows "forE [0..<NombreDePasDeTemps h] (\<lambda>pdt. forE [0..<NombreDInterconnexions h] (\<lambda>interco d.
      bindE (lire (CoutDeTransport h) interco) (\<lambda>cout. whenE (IntercoGereeAvecDesCouts cout)
        (dans TransportDonnees TransportDonnees_update (modifier interco (restaurer_transport pdt))) d))) d =
    Inr (d\<lparr>TransportDonnees := map (\<lambda>l. let x = TransportDonnees d ! l in
      if IntercoGereeAvecDesCouts (CoutDeTransport h ! l) then transport_restaure x else x) [0..<NombreDInterconnexions h]\<rparr>)"
proof -
  let ?n = "NombreDInterconnexions h" let ?b = "\<lambda>l. IntercoGereeAvecDesCouts (CoutDeTransport h ! l)"
  let ?I = "\<lambda>d. length (TransportDonnees d) = ?n"
  let ?f = "\<lambda>pdt. forE [0..<?n] (\<lambda>interco d. bindE (lire (CoutDeTransport h) interco) (\<lambda>cout. whenE (IntercoGereeAvecDesCouts cout)
    (dans TransportDonnees TransportDonnees_update (modifier interco (restaurer_transport pdt))) d))"
  let ?g = "\<lambda>pdt l. dans TransportDonnees TransportDonnees_update (modifier l (whenE (?b l) (restaurer_transport pdt)))"
  have I: "?I d'" if "?I d" "?g pdt l d = Inr d'" for pdt l and d d' :: DONNEES
    using that modifier_length [of l "whenE (?b l) (restaurer_transport pdt)" "TransportDonnees d"]
    by (cases "modifier l (whenE (?b l) (restaurer_transport pdt)) (TransportDonnees d)") (auto simp: dans_def)
  have g: "?f pdt d = forE [0..<?n] (?g pdt) d" if "?I d" for pdt and d :: DONNEES
  proof (rule forE_cong_inv [where I = ?I])
    show "bindE (lire (CoutDeTransport h) l) (\<lambda>cout. whenE (IntercoGereeAvecDesCouts cout)
        (dans TransportDonnees TransportDonnees_update (modifier l (restaurer_transport pdt))) d) = ?g pdt l d"
      if "l \<in> set [0..<?n]" "?I d" for l and d :: DONNEES
      using that P by (simp add: passes_ok_def whenE_def dans_def modifier_def list_update_id)
    show "?I d'" if "l \<in> set [0..<?n]" "?I d" "?g pdt l d = Inr d'" for l and d d' :: DONNEES by (rule I [OF that(2,3)])
  qed (rule that)
  have J: "?I d'" if "?I d" "forE [0..<?n] (?g pdt) d = Inr d'" for pdt and d d' :: DONNEES
    by (rule forE_inv [of ?I, OF that(1) _ that(2)]) (rule I)
  have "forE [0..<NombreDePasDeTemps h] ?f d = forE [0..<NombreDePasDeTemps h] (\<lambda>pdt. forE [0..<?n] (?g pdt)) d"
  proof (rule forE_cong_inv [where I = ?I])
    show "?I d" by (rule donnees_tailles(1) [OF d])
  qed (erule g, rule J)
  also have "\<dots> = Inr (TransportDonnees_update (\<lambda>_. map (\<lambda>l. let x = TransportDonnees d ! l in
      if ?b l then transport_restaure x else x) [0..<?n]) d)"
    by (rule transport.dans_forE_forE_modifier)
      (use donnees_tailles(1) [OF d] donnees_lien [OF d] in \<open>simp_all add: forE_whenE restaurer_transport_ok\<close>)
  finally show ?thesis .
qed

definition pmax_restaure ::
  "PROBLEME_HEBDO \<Rightarrow> real \<Rightarrow> ENERGIES_ET_PUISSANCES_HYDRAULIQUES \<Rightarrow> HYDRO_DONNEES \<Rightarrow> nat \<Rightarrow> real" where
  "pmax_restaure h coefficient c x t =
     (let ref = ContrainteDePmaxHydrauliqueHoraireRef x ! t;
          ecretee = CntEnergieH2OParJour x ! (NumeroDeJourDuPasDeTemps h ! t) * coefficient / real (NombreDePasDeTempsDUneJournee h) in
      if SansHeuristique x then ref
      else min ref (if PresenceDePompageModulable c
        then max ecretee (ContrainteDePmaxPompageHoraire x ! t * coefficient) else ecretee))"

definition hydro_restaure ::
  "PROBLEME_HEBDO \<Rightarrow> real \<Rightarrow> ENERGIES_ET_PUISSANCES_HYDRAULIQUES \<Rightarrow> HYDRO_DONNEES \<Rightarrow> HYDRO_DONNEES" where
  "hydro_restaure h coefficient c x =
     (if PresenceDHydrauliqueModulable c
      then x\<lparr>ContrainteDePmaxHydrauliqueHoraire := map (pmax_restaure h coefficient c x) [0..<NombreDePasDeTemps h]\<rparr> else x)"

lemma restaurer_pmax_hydro_ok:
  assumes x: "hydro_donnees_ok (NombreDePasDeTemps h) (NombreDeJours h) x" and pays: "pays < length coefficients"
    and jours: "length (NumeroDeJourDuPasDeTemps h) = NombreDePasDeTemps h"
      "\<And>t. t < NombreDePasDeTemps h \<Longrightarrow> NumeroDeJourDuPasDeTemps h ! t < NombreDeJours h"
  shows "forE [0..<NombreDePasDeTemps h] (\<lambda>pdt. restaurer_pmax_hydro h coefficients pdt pays c) x =
    Inr (hydro_restaure h (coefficients ! pays) c x)"
proof -
  let ?U = "\<lambda>b. x\<lparr>ContrainteDePmaxHydrauliqueHoraire := b\<rparr>" and ?b = "ContrainteDePmaxHydrauliqueHoraire x"
  show ?thesis
  proof (cases "PresenceDHydrauliqueModulable c")
    case True
    have "forE [0..<NombreDePasDeTemps h] (\<lambda>pdt. restaurer_pmax_hydro h coefficients pdt pays c) (?U ?b) =
        Inr (?U (map (pmax_restaure h (coefficients ! pays) c x) [0..<NombreDePasDeTemps h]))"
    proof (rule forE_colonne [where v = "\<lambda>t _. pmax_restaure h (coefficients ! pays) c x t"])
      fix t and b :: "real list" assume "t < NombreDePasDeTemps h" and "length b = NombreDePasDeTemps h"
      then show "restaurer_pmax_hydro h coefficients t pays c (?U b) =
          Inr (?U (b[t := pmax_restaure h (coefficients ! pays) c x t]))"
        using True x pays jours
        by (simp add: restaurer_pmax_hydro_def whenE_def Let_def pmax_restaure_def hydro_donnees_ok_def max_def min_def)
    qed (use x in \<open>simp add: hydro_donnees_ok_def\<close>)
    then show ?thesis using True by (simp add: hydro_restaure_def)
  qed (simp add: restaurer_pmax_hydro_def [abs_def] forE_whenE hydro_restaure_def)
qed

definition palier_restaure :: "PDISP_ET_COUTS_HORAIRES_PAR_PALIER \<Rightarrow> PDISP_ET_COUTS_HORAIRES_PAR_PALIER" where
  "palier_restaure x = x\<lparr>PuissanceMinDuPalierThermique :=
       map2 min (PuissanceMinDuPalierThermiqueRef x) (PuissanceDisponibleDuPalierThermiqueRef x),
     PuissanceDisponibleDuPalierThermique := PuissanceDisponibleDuPalierThermiqueRef x\<rparr>"

lemma restaurer_pmin_ok:
  assumes x: "pdisp_ok T x"
  shows "forE [0..<T] restaurer_pmin x = Inr (x\<lparr>PuissanceMinDuPalierThermique := PuissanceMinDuPalierThermiqueRef x\<rparr>)"
proof -
  let ?U = "\<lambda>b. x\<lparr>PuissanceMinDuPalierThermique := b\<rparr>"
  have "forE [0..<T] restaurer_pmin (?U (PuissanceMinDuPalierThermique x)) =
      Inr (?U (map (\<lambda>t. PuissanceMinDuPalierThermiqueRef x ! t) [0..<T]))"
    by (rule forE_colonne [where v = "\<lambda>t _. PuissanceMinDuPalierThermiqueRef x ! t"])
      (use x in \<open>simp_all add: restaurer_pmin_def pdisp_ok_def\<close>)
  then show ?thesis using x map_nth [of "PuissanceMinDuPalierThermiqueRef x"] by (simp add: pdisp_ok_def)
qed

lemma restaurer_disponible_ok:
  assumes x: "pdisp_ok T x" and r: "PuissanceMinDuPalierThermique x = PuissanceMinDuPalierThermiqueRef x"
  shows "forE [0..<T] restaurer_disponible x = Inr (palier_restaure x)"
proof -
  let ?U = "\<lambda>b. x\<lparr>PuissanceMinDuPalierThermique := map fst b, PuissanceDisponibleDuPalierThermique := map snd b\<rparr>"
  let ?b = "zip (PuissanceMinDuPalierThermique x) (PuissanceDisponibleDuPalierThermique x)"
  let ?ref = "PuissanceDisponibleDuPalierThermiqueRef x"
  let ?v = "\<lambda>t p. (min (fst p) (?ref ! t), ?ref ! t)"
  have "forE [0..<T] restaurer_disponible (?U ?b) = Inr (?U (map (\<lambda>t. ?v t (?b ! t)) [0..<T]))"
  proof (rule forE_colonne)
    fix t and b :: "(real \<times> real) list" assume "t < T" "length b = T"
    then show "restaurer_disponible t (?U b) = Inr (?U (b[t := ?v t (b ! t)]))"
      using x list_update_id [of "map fst b" t]
      by (auto simp: restaurer_disponible_def pdisp_ok_def map_update min_def)
  qed (use x in \<open>simp add: pdisp_ok_def\<close>)
  moreover have "?U ?b = x" using x by (simp add: pdisp_ok_def)
  moreover have "?U (map (\<lambda>t. ?v t (?b ! t)) [0..<T]) = palier_restaure x"
  proof -
    have "map (\<lambda>t. min (PuissanceMinDuPalierThermiqueRef x ! t) (?ref ! t)) [0..<T] = map2 min (PuissanceMinDuPalierThermiqueRef x) ?ref"
      using x by (intro nth_equalityI) (simp_all add: pdisp_ok_def)
    moreover have "map (\<lambda>t. ?ref ! t) [0..<T] = ?ref"
      using x map_nth [of ?ref] by (simp add: pdisp_ok_def)
    moreover have "map (\<lambda>t. min (fst (?b ! t)) (?ref ! t)) [0..<T] = map (\<lambda>t. min (PuissanceMinDuPalierThermiqueRef x ! t) (?ref ! t)) [0..<T]"
      using x r by (simp add: pdisp_ok_def)
    ultimately show ?thesis by (simp add: palier_restaure_def comp_def)
  qed
  ultimately show ?thesis by simp
qed

lemma avec_paliers_autres:
  "TransportDonnees (avec_paliers h g d) = TransportDonnees d" "ValeursDeNTC (avec_paliers h g d) = ValeursDeNTC d"
  "ConsommationAbattueDuPays (avec_paliers h g d) = ConsommationAbattueDuPays d"
  "AllMustRunGenerationOfArea (avec_paliers h g d) = AllMustRunGenerationOfArea d"
  "CoutDeDefaillancePositive (avec_paliers h g d) = CoutDeDefaillancePositive d"
  "CoutDeDefaillanceNegative (avec_paliers h g d) = CoutDeDefaillanceNegative d"
  "CoutDeDefaillanceEnReserve (avec_paliers h g d) = CoutDeDefaillanceEnReserve d"
  "HydroDonnees (avec_paliers h g d) = HydroDonnees d" "StockageDonnees (avec_paliers h g d) = StockageDonnees d"
  "DefaillanceNegativeUtiliserPMinThermique (avec_paliers h g d) = DefaillanceNegativeUtiliserPMinThermique d"
  "DefaillanceNegativeUtiliserConsoAbattue (avec_paliers h g d) = DefaillanceNegativeUtiliserConsoAbattue d"
  "BruitSurCoutHydraulique (avec_paliers h g d) = BruitSurCoutHydraulique d" "HeureDansLAnnee (avec_paliers h g d) = HeureDansLAnnee d"
  "SecondMembreDeLaContrainteCouplante (avec_paliers h g d) = SecondMembreDeLaContrainteCouplante d"
  "ReserveHoraireJMoins1 (avec_paliers h g d) = ReserveHoraireJMoins1 d"
  "CoefficientEcretementPMaxHydraulique (avec_paliers h g d) = CoefficientEcretementPMaxHydraulique d"
  "adequacyPatchRuntimeData (avec_paliers h g d) = adequacyPatchRuntimeData d"
  "NbGrpCourbeGuide (avec_paliers h g d) = NbGrpCourbeGuide d" "NbGrpOpt (avec_paliers h g d) = NbGrpOpt d"
  "YaDeLaReserveJmoins1 (avec_paliers h g d) = YaDeLaReserveJmoins1 d"
  by (simp_all add: avec_paliers_def)

lemma avec_hydro_autres:
  "TransportDonnees (avec_hydro h f d) = TransportDonnees d" "ValeursDeNTC (avec_hydro h f d) = ValeursDeNTC d"
  "ConsommationAbattueDuPays (avec_hydro h f d) = ConsommationAbattueDuPays d"
  "AllMustRunGenerationOfArea (avec_hydro h f d) = AllMustRunGenerationOfArea d"
  "CoutDeDefaillancePositive (avec_hydro h f d) = CoutDeDefaillancePositive d"
  "CoutDeDefaillanceNegative (avec_hydro h f d) = CoutDeDefaillanceNegative d"
  "CoutDeDefaillanceEnReserve (avec_hydro h f d) = CoutDeDefaillanceEnReserve d"
  "PaliersDonnees (avec_hydro h f d) = PaliersDonnees d" "StockageDonnees (avec_hydro h f d) = StockageDonnees d"
  "DefaillanceNegativeUtiliserPMinThermique (avec_hydro h f d) = DefaillanceNegativeUtiliserPMinThermique d"
  "DefaillanceNegativeUtiliserConsoAbattue (avec_hydro h f d) = DefaillanceNegativeUtiliserConsoAbattue d"
  "BruitSurCoutHydraulique (avec_hydro h f d) = BruitSurCoutHydraulique d" "HeureDansLAnnee (avec_hydro h f d) = HeureDansLAnnee d"
  "SecondMembreDeLaContrainteCouplante (avec_hydro h f d) = SecondMembreDeLaContrainteCouplante d"
  "ReserveHoraireJMoins1 (avec_hydro h f d) = ReserveHoraireJMoins1 d"
  "CoefficientEcretementPMaxHydraulique (avec_hydro h f d) = CoefficientEcretementPMaxHydraulique d"
  "adequacyPatchRuntimeData (avec_hydro h f d) = adequacyPatchRuntimeData d"
  "NbGrpCourbeGuide (avec_hydro h f d) = NbGrpCourbeGuide d" "NbGrpOpt (avec_hydro h f d) = NbGrpOpt d"
  "YaDeLaReserveJmoins1 (avec_hydro h f d) = YaDeLaReserveJmoins1 d"
  by (simp_all add: avec_hydro_def)

lemma avec_paliers_ok:
  assumes "donnees_hebdo_ok h d"
    and "\<And>pays i. pays < NombreDePays h \<Longrightarrow> i < nb_paliers h pays \<Longrightarrow> pdisp_ok (NombreDePasDeTemps h) (g pays i)"
  shows "donnees_hebdo_ok h (avec_paliers h g d)"
proof -
  have "paliers_donnees_ok (NombreDePasDeTemps h) (nb_paliers h p) (PaliersDonnees (avec_paliers h g d) ! p)"
    if "p < NombreDePays h" for p
    using assms(2) donnees_pays(1) [OF assms(1)] that by (simp add: avec_paliers_def paliers_donnees_ok_def list_all_length)
  with assms(1) show ?thesis
    unfolding donnees_hebdo_ok_def Let_def avec_paliers_autres
    by (elim conjE, intro conjI) (assumption | rule avec_paliers_simps(1) | blast)+
qed

lemma avec_hydro_ok:
  assumes "donnees_hebdo_ok h d"
    and "\<And>pays. pays < NombreDePays h \<Longrightarrow> hydro_donnees_ok (NombreDePasDeTemps h) (NombreDeJours h) (g pays)"
  shows "donnees_hebdo_ok h (avec_hydro h g d)"
proof -
  have "hydro_donnees_ok (NombreDePasDeTemps h) (NombreDeJours h) (HydroDonnees (avec_hydro h g d) ! p)"
    if "p < NombreDePays h" for p
    using assms(2) that by simp
  with assms(1) show ?thesis
    unfolding donnees_hebdo_ok_def Let_def avec_hydro_autres
    by (elim conjE, intro conjI) (assumption | rule avec_hydro_simps(1) | blast)+
qed

definition transports_restaures :: "PROBLEME_HEBDO \<Rightarrow> DONNEES \<Rightarrow> DONNEES" where
  "transports_restaures h d = d\<lparr>TransportDonnees := map (\<lambda>l. let x = TransportDonnees d ! l in
     if IntercoGereeAvecDesCouts (CoutDeTransport h ! l) then transport_restaure x else x) [0..<NombreDInterconnexions h]\<rparr>"

definition donnees_restaurees :: "PROBLEME_HEBDO \<Rightarrow> DONNEES \<Rightarrow> DONNEES" where
  "donnees_restaurees h d = avec_paliers h (\<lambda>pays i. palier_restaure (pdisp_de d (pays, i)))
     (avec_hydro h (\<lambda>pays. hydro_restaure h (CoefficientEcretementPMaxHydraulique d ! pays)
        (CaracteristiquesHydrauliques h ! pays) (HydroDonnees d ! pays)) (transports_restaures h d))"

lemma pour_hydro_coefficients:
  assumes "pour_hydro h f d = Inr d'"
  shows "CoefficientEcretementPMaxHydraulique d' = CoefficientEcretementPMaxHydraulique d"
proof (rule forE_inv [of "\<lambda>d'. CoefficientEcretementPMaxHydraulique d' = CoefficientEcretementPMaxHydraulique d", OF _ _ assms [unfolded pour_hydro_def]])
  fix pays and s s' :: DONNEES
  assume s: "CoefficientEcretementPMaxHydraulique s = CoefficientEcretementPMaxHydraulique d"
    and r: "bindE (lire (CaracteristiquesHydrauliques h) pays) (\<lambda>c. sur_hydro pays (f pays c) s) = Inr s'"
  from r obtain c where "sur_hydro pays (f pays c) s = Inr s'"
    by (cases "lire (CaracteristiquesHydrauliques h) pays") auto
  then show "CoefficientEcretementPMaxHydraulique s' = CoefficientEcretementPMaxHydraulique d"
    using s by (cases "modifier pays (f pays c) (HydroDonnees s)") (auto simp: sur_hydro_def dans_def)
qed simp

lemma OPT_RestaurerLesDonnees_ok:
  assumes P: "passes_ok h" and d: "donnees_hebdo_ok h d" and J: "jours_numerotes h"
    and n: "length (NumeroDeJourDuPasDeTemps h) = NombreDePasDeTemps h"
  shows "OPT_RestaurerLesDonnees h d = Inr (donnees_restaurees h d)" and "donnees_hebdo_ok h (donnees_restaurees h d)"
proof -
  let ?T = "NombreDePasDeTemps h" and ?coef = "CoefficientEcretementPMaxHydraulique d"
  have jours: "NumeroDeJourDuPasDeTemps h ! t < NombreDeJours h" if "t < ?T" for t
  proof -
    have "NombreDePasDeTempsDUneJournee h dvd ?T"
      using P dvd_trans unfolding passes_ok_def by blast
    then show ?thesis
      using J P that unfolding jours_numerotes_def passes_ok_def
      by (metis div_less_mono dvd_div_mult_self less_mult_imp_div_less)
  qed
  define d1 where "d1 = transports_restaures h d"
  define gh where "gh pays = hydro_restaure h (?coef ! pays) (CaracteristiquesHydrauliques h ! pays) (HydroDonnees d ! pays)" for pays
  define d2 where "d2 = avec_hydro h gh d1"
  define gp where "gp pays i = (pdisp_de d (pays, i))\<lparr>PuissanceMinDuPalierThermique :=
     PuissanceMinDuPalierThermiqueRef (pdisp_de d (pays, i))\<rparr>" for pays i
  define d3 where "d3 = avec_paliers h gp d2"
  have s1: "HydroDonnees d1 = HydroDonnees d" "PaliersDonnees d1 = PaliersDonnees d" "CoefficientEcretementPMaxHydraulique d1 = ?coef"
    by (simp_all add: d1_def transports_restaures_def)
  have "donnees_hebdo_ok h d1"
    using d donnees_lien [OF d]
    by (auto simp: donnees_hebdo_ok_def Let_def d1_def transports_restaures_def transport_restaure_def transport_donnees_ok_def)
  then have "donnees_hebdo_ok h d2"
    unfolding d2_def by (rule avec_hydro_ok)
      (use donnees_pays(2) [OF d] in \<open>auto simp: gh_def hydro_restaure_def hydro_donnees_ok_def\<close>)
  moreover have p2: "PaliersDonnees d2 = PaliersDonnees d" by (simp add: d2_def avec_hydro_def s1)
  ultimately have d3: "donnees_hebdo_ok h d3"
    unfolding d3_def by (intro avec_paliers_ok) (use donnees_palier(2) [OF d] in \<open>auto simp: gp_def pdisp_ok_def\<close>)
  have fin: "donnees_restaurees h d = avec_paliers h (\<lambda>pays i. palier_restaure (gp pays i)) d3"
    by (simp add: donnees_restaurees_def d3_def avec_paliers_deux d2_def d1_def gh_def [abs_def] gp_def palier_restaure_def)
  have 1: "forE [0..<?T] (\<lambda>pdt. forE [0..<NombreDInterconnexions h] (\<lambda>interco d.
        bindE (lire (CoutDeTransport h) interco) (\<lambda>cout. whenE (IntercoGereeAvecDesCouts cout)
          (dans TransportDonnees TransportDonnees_update (modifier interco (restaurer_transport pdt))) d))) d = Inr d1"
    unfolding d1_def transports_restaures_def by (rule restaurer_transports_ok [OF P d])
  have "forE [0..<?T] (\<lambda>pdt d. pour_hydro h (restaurer_pmax_hydro h (CoefficientEcretementPMaxHydraulique d) pdt) d) d1 =
      forE [0..<?T] (\<lambda>pdt. pour_hydro h (restaurer_pmax_hydro h ?coef pdt)) d1"
    by (rule forE_cong_inv [where I = "\<lambda>d. CoefficientEcretementPMaxHydraulique d = ?coef"])
      (use s1 pour_hydro_coefficients in auto)
  also have "\<dots> = Inr d2"
    unfolding d2_def
    by (rule pour_hydro_ok)
      (use P s1 donnees_tailles(9,16) [OF d] donnees_pays(2) [OF d] n jours in
        \<open>simp_all add: passes_ok_def gh_def restaurer_pmax_hydro_ok\<close>)
  finally have 2: "forE [0..<?T] (\<lambda>pdt d. pour_hydro h (restaurer_pmax_hydro h (CoefficientEcretementPMaxHydraulique d) pdt) d) d1 = Inr d2" .
  have 3: "forE [0..<?T] (\<lambda>pdt. pour_tous_paliers h (\<lambda>pays palier. restaurer_pmin pdt)) d2 = Inr d3"
    unfolding d3_def
    by (rule pour_paliers_ok) (use P p2 donnees_tailles(8) [OF d] donnees_pays(1) [OF d] donnees_palier(2) [OF d] in
        \<open>simp_all add: passes_ok_def paliers_donnees_ok_def restaurer_pmin_ok gp_def\<close>)
  have 4: "forE [0..<?T] (\<lambda>pdt. pour_tous_paliers h (\<lambda>pays palier. restaurer_disponible pdt)) d3 = Inr (donnees_restaurees h d)"
    unfolding fin
  proof (rule pour_paliers_ok)
    fix pays i assume a: "pays < NombreDePays h" "i < nb_paliers h pays"
    have "pdisp_de d3 (pays, i) = gp pays i" unfolding d3_def using a by (rule avec_paliers_simps(3))
    moreover have "pdisp_ok ?T (gp pays i)" using donnees_palier(2) [OF d a] by (simp add: gp_def pdisp_ok_def)
    ultimately show "forE [0..<?T] (\<lambda>pdt. restaurer_disponible pdt) (pdisp_de d3 (pays, i)) = Inr (palier_restaure (gp pays i))"
      using restaurer_disponible_ok [of ?T "gp pays i"] by (simp add: gp_def)
  qed (use P d3_def in \<open>simp_all add: passes_ok_def\<close>)
  show "OPT_RestaurerLesDonnees h d = Inr (donnees_restaurees h d)"
    using 1 2 3 4 by (simp add: OPT_RestaurerLesDonnees_def)
  show "donnees_hebdo_ok h (donnees_restaurees h d)"
    unfolding fin by (rule avec_paliers_ok [OF d3])
      (use donnees_palier(2) [OF d] in \<open>auto simp: gp_def palier_restaure_def pdisp_ok_def\<close>)
qed

subsection \<open>The whole preparation\<close>

text \<open>The part of \<open>OPT_PilotageOptimisationLineaire\<close> between the instantiation and the optimisation.\<close>

definition preparer_donnees :: "PROBLEME_HEBDO \<Rightarrow> DONNEES \<Rightarrow> DONNEES resultat" where
  "preparer_donnees h = seqE
     [OPT_VerifierPresenceReserveJmoins1 h, OPT_InitialiserLesPminHebdo h,
      OPT_InitialiserLesContrainteDEnergieHydrauliqueParIntervalleOptimise h, OPT_MaxDesPmaxHydrauliques h,
      whenE (OptimisationAvecCoutsDeDemarrage h) (OPT_InitialiserNombreMinEtMaxDeGroupesCoutsDeDemarrage h)]"

text \<open>What it makes of a cluster and of a reservoir.\<close>

definition palier_prepare ::
  "PROBLEME_HEBDO \<Rightarrow> real \<Rightarrow> PDISP_ET_COUTS_HORAIRES_PAR_PALIER \<Rightarrow> PDISP_ET_COUTS_HORAIRES_PAR_PALIER" where
  "palier_prepare h taille x =
     (let x = x\<lparr>PuissanceMinDuPalierThermiqueRef := PuissanceMinDuPalierThermique x\<rparr> in
      if OptimisationAvecCoutsDeDemarrage h then groupes_de taille x else x)"

definition hydro_prepare ::
  "PROBLEME_HEBDO \<Rightarrow> ENERGIES_ET_PUISSANCES_HYDRAULIQUES \<Rightarrow> HYDRO_DONNEES \<Rightarrow> HYDRO_DONNEES" where
  "hydro_prepare h c x = (energies_cumulees h c x)\<lparr>MaxDesPmaxHydrauliques :=
     if PresenceDHydrauliqueModulable c then Max (insert (- 1) (set (ContrainteDePmaxHydrauliqueHoraire x))) else 0\<rparr>"

definition donnees_preparees :: "PROBLEME_HEBDO \<Rightarrow> DONNEES \<Rightarrow> DONNEES" where
  "donnees_preparees h d = avec_hydro h (\<lambda>pays. hydro_prepare h (CaracteristiquesHydrauliques h ! pays) (HydroDonnees d ! pays))
     (avec_paliers h (\<lambda>pays i. palier_prepare h (TailleUnitaireDUnGroupeDuPalierThermique (PaliersDonnees d ! pays) ! i)
        (pdisp_de d (pays, i)))
     (d\<lparr>YaDeLaReserveJmoins1 := \<exists>pays < NombreDePays h. \<exists>t < NombreDePasDeTemps h. 1 / 100 < \<bar>ReserveHoraireJMoins1 d ! pays ! t\<bar>\<rparr>))"

lemma avec_commutent: "avec_hydro h f (avec_paliers h g d) = avec_paliers h g (avec_hydro h f d)"
  by (simp add: avec_hydro_def avec_paliers_def)

lemma preparer_donnees_ok:
  assumes P: "passes_ok h" and d: "donnees_hebdo_ok h d"
  shows "preparer_donnees h d = Inr (donnees_preparees h d)" and "donnees_hebdo_ok h (donnees_preparees h d)"
proof -
  let ?T = "NombreDePasDeTemps h" and ?C = "\<lambda>pays. CaracteristiquesHydrauliques h ! pays"
  define d1 where "d1 = d\<lparr>YaDeLaReserveJmoins1 := \<exists>pays < NombreDePays h. \<exists>t < ?T. 1 / 100 < \<bar>ReserveHoraireJMoins1 d ! pays ! t\<bar>\<rparr>"
  define g2 where "g2 pays i = (pdisp_de d (pays, i))\<lparr>PuissanceMinDuPalierThermiqueRef := PuissanceMinDuPalierThermique (pdisp_de d (pays, i))\<rparr>"
    for pays i
  define d2 where "d2 = avec_paliers h g2 d1"
  define g3 where "g3 pays = energies_cumulees h (?C pays) (HydroDonnees d ! pays)" for pays
  define d3 where "d3 = avec_hydro h g3 d2"
  define g4 where "g4 pays = hydro_prepare h (?C pays) (HydroDonnees d ! pays)" for pays
  define d4 where "d4 = avec_hydro h g4 d3"
  have e: "ContrainteDePmaxHydrauliqueHoraire (energies_cumulees h c x) = ContrainteDePmaxHydrauliqueHoraire x" for c x
    by (simp add: energies_cumulees_def Let_def)
  have eo: "hydro_donnees_ok ?T (NombreDeJours h) (energies_cumulees h c x)" if "hydro_donnees_ok ?T (NombreDeJours h) x" for c x
    using that by (simp add: energies_cumulees_def Let_def hydro_donnees_ok_def)
  have ok1: "donnees_hebdo_ok h d1" using d by (simp add: d1_def donnees_hebdo_ok_def Let_def)
  have ok2: "donnees_hebdo_ok h d2"
    unfolding d2_def by (rule avec_paliers_ok [OF ok1]) (use donnees_palier(2) [OF d] in \<open>simp add: g2_def pdisp_ok_def\<close>)
  have ok3: "donnees_hebdo_ok h d3"
    unfolding d3_def by (rule avec_hydro_ok [OF ok2]) (use eo donnees_pays(2) [OF d] in \<open>simp add: g3_def\<close>)
  have ok4: "donnees_hebdo_ok h d4"
    unfolding d4_def by (rule avec_hydro_ok [OF ok3])
      (use eo donnees_pays(2) [OF d] in \<open>simp add: g4_def hydro_prepare_def hydro_donnees_ok_def\<close>)
  have p1: "PaliersDonnees d1 = PaliersDonnees d" "HydroDonnees d1 = HydroDonnees d" by (simp_all add: d1_def)
  have h2: "HydroDonnees d2 = HydroDonnees d" by (simp add: d2_def avec_paliers_def p1)
  have 1: "OPT_VerifierPresenceReserveJmoins1 h d = Inr d1" unfolding d1_def by (rule OPT_VerifierPresenceReserve_ok [OF d])
  have 2: "OPT_InitialiserLesPminHebdo h d1 = Inr d2"
    using OPT_InitialiserLesPminHebdo_ok [OF _ ok1] P by (simp add: passes_ok_def d2_def g2_def [abs_def] p1)
  have 3: "OPT_InitialiserLesContrainteDEnergieHydrauliqueParIntervalleOptimise h d2 = Inr d3"
    using OPT_InitialiserLesEnergies_ok [OF P ok2] by (simp add: d3_def g3_def [abs_def] h2)
  have 4: "OPT_MaxDesPmaxHydrauliques h d3 = Inr d4"
  proof -
    have "map (\<lambda>pays. let x = HydroDonnees d3 ! pays in x\<lparr>MaxDesPmaxHydrauliques :=
        if PresenceDHydrauliqueModulable (?C pays) then Max (insert (- 1) (set (ContrainteDePmaxHydrauliqueHoraire x))) else 0\<rparr>)
        [0..<NombreDePays h] = map g4 [0..<NombreDePays h]"
      by (simp add: d3_def g3_def g4_def hydro_prepare_def Let_def e)
    then show ?thesis
      using OPT_MaxDesPmaxHydrauliques_ok [OF P ok3] by (simp add: d4_def avec_hydro_def)
  qed
  let ?g5 = "\<lambda>pays i. groupes_de (TailleUnitaireDUnGroupeDuPalierThermique (PaliersDonnees d4 ! pays) ! i) (pdisp_de d4 (pays, i))"
  have d4: "d4 = avec_paliers h g2 (avec_hydro h g4 d1)" by (simp add: d4_def d3_def d2_def avec_commutent)
  have 5: "whenE (OptimisationAvecCoutsDeDemarrage h) (OPT_InitialiserNombreMinEtMaxDeGroupesCoutsDeDemarrage h) d4 =
      Inr (donnees_preparees h d)"
  proof -
    have "avec_paliers h ?g5 d4 = avec_paliers h (\<lambda>pays i. groupes_de
        (TailleUnitaireDUnGroupeDuPalierThermique (PaliersDonnees d ! pays) ! i) (g2 pays i)) (avec_hydro h g4 d1)"
      unfolding d4 avec_paliers_deux
      by (auto simp: avec_paliers_def avec_hydro_def p1 intro!: map_cong arg_cong [where f = "\<lambda>x. d1\<lparr>HydroDonnees := y, PaliersDonnees := x\<rparr>" for y])
    then show ?thesis
      using OPT_InitialiserNombreMinEtMax_ok [OF P ok4]
      by (simp add: whenE_def donnees_preparees_def avec_commutent palier_prepare_def Let_def d4 g2_def [abs_def] g4_def [abs_def] d1_def)
  qed
  show "preparer_donnees h d = Inr (donnees_preparees h d)"
    using 1 2 3 4 5 by (simp add: preparer_donnees_def)
  show "donnees_hebdo_ok h (donnees_preparees h d)"
    unfolding donnees_preparees_def
    by (intro avec_hydro_ok avec_paliers_ok ok1 [unfolded d1_def])
      (use donnees_palier(2) [OF d] eo donnees_pays(2) [OF d] in
        \<open>auto simp: palier_prepare_def groupes_de_def pdisp_ok_def Let_def hydro_prepare_def hydro_donnees_ok_def\<close>)
qed

end
