(* ===== verification/Thermal_Heuristic.thy ===== *)
theory Thermal_Heuristic
  imports Data_Preparation Weekly_Results
begin

text \<open>
  The heuristic between the two optimisations of a week without start-up costs:
  \<open>src/src/solver/optimisation/opt_calcul_des_pmin_MUT_MDT.cpp\<close>. From the thermal power the first optimisation found
  it counts the units a cluster needs every hour (the guide), looks for the cheapest step curve above the guide
  that only changes at the ends of blocks of the minimum up and down time, and raises the minimum powers to it.
\<close>

subsection \<open>The code\<close>

definition ZERO_PMIN :: real where "ZERO_PMIN = 1 / 100"

text \<open>\<open>for hour: if (guide[hour] > NbMx) NbMx = guide[hour];\<close> and \<open>opt[hour] = NbMx; Cout += opt[hour] - guide[hour]\<close>.\<close>

definition plus_grand :: "int list \<Rightarrow> nat list \<Rightarrow> int \<Rightarrow> int resultat" where
  "plus_grand guide pdts = forE pdts (\<lambda>hour NbMx.
     bindE (lire guide hour) (\<lambda>v. Inr (if v > NbMx then v else NbMx)))"

definition poser_groupes :: "int list \<Rightarrow> int \<Rightarrow> nat list \<Rightarrow> real \<times> int list \<Rightarrow> (real \<times> int list) resultat" where
  "poser_groupes guide NbMx pdts = forE pdts (\<lambda>hour (Cout, opt).
     bindE (ecrire opt hour NbMx) (\<lambda>opt.
     bindE (lire guide hour) (\<lambda>v. Inr (Cout + real_of_int (NbMx - v), opt))))"

text \<open>The \<open>while\<close> over the blocks between the first and the last hour. One turn of the loop is one block; the
  number of hours is fuel enough when a block has at least an hour, and no fuel is enough otherwise.\<close>

fun boucle_blocs :: "int \<Rightarrow> nat \<Rightarrow> int list \<Rightarrow> nat \<Rightarrow> nat \<Rightarrow> real \<times> int list \<Rightarrow> (real \<times> int list) resultat" where
  "boucle_blocs MUTetMDT DernierPdt guide 0 hour z = (if hour < DernierPdt then Inl CarburantEpuise else Inr z)"
| "boucle_blocs MUTetMDT DernierPdt guide (Suc n) hour z =
     (if hour < DernierPdt
      then let fin = min (hour + nat MUTetMDT) DernierPdt in
        bindE (plus_grand guide [hour..<fin] 0) (\<lambda>NbMx.
        bindE (poser_groupes guide NbMx [hour..<fin] z) (boucle_blocs MUTetMDT DernierPdt guide n fin))
      else Inr z)"

definition OPT_CalculerAireMaxPminJour ::
  "nat \<Rightarrow> nat \<Rightarrow> int \<Rightarrow> nat \<Rightarrow> int list \<Rightarrow> int list \<Rightarrow> (real \<times> int list) resultat" where
  "OPT_CalculerAireMaxPminJour PremierPdt DernierPdt MUTetMDT N guide opt =
     bindE (plus_grand guide [0..<PremierPdt] 0) (\<lambda>NbMx.
     bindE (plus_grand guide [DernierPdt..<N] NbMx) (\<lambda>NbMx.
     bindE (poser_groupes guide NbMx [0..<PremierPdt] (0, opt)) (\<lambda>z.
     bindE (poser_groupes guide NbMx [DernierPdt..<N] z) (\<lambda>z.
     boucle_blocs MUTetMDT DernierPdt guide N PremierPdt z))))"

text \<open>The units that produce a power, and the guide of a cluster.\<close>

definition groupes_pour :: "real \<Rightarrow> real \<Rightarrow> int" where
  "groupes_pour taille P =
     (if \<bar>P\<bar> < ZERO_PMIN then 0 else if taille > ZERO_PMIN then \<lceil>P / taille\<rceil> else \<lceil>P\<rceil>)"

definition lire_adresse :: "PROBLEME_HEBDO \<Rightarrow> RESULTATS \<Rightarrow> adresse \<Rightarrow> real resultat" where
  "lire_adresse h R a = (if adresse_valide h a then Inr (contenu R a) else Inl IndexHorsBornes)"

definition calculer_guide ::
  "PROBLEME_HEBDO \<Rightarrow> RESULTATS \<Rightarrow> nat \<Rightarrow> nat \<Rightarrow> real \<Rightarrow> int list \<Rightarrow> int list resultat" where
  "calculer_guide h R pays palier taille = forE [0..<NombreDePasDeTemps h] (\<lambda>pdt guide.
     bindE (lire_adresse h R (ProductionThermiqueDuPalier pays pdt palier)) (\<lambda>P.
     ecrire guide pdt (groupes_pour taille P)))"

text \<open>\<open>if (Ecart < EcartOpt) { EcartOpt = Ecart; iOpt = hour; }\<close> over the possible shifts; \<open>iOpt\<close> starts at -1.\<close>

definition intervalle_ajustement :: "nat \<Rightarrow> int \<Rightarrow> nat" where
  "intervalle_ajustement N MUTetMDT =
     nat (let i = MUTetMDT in if int N - MUTetMDT < i then int N - MUTetMDT else i)"

definition chercher_decalage ::
  "nat \<Rightarrow> int \<Rightarrow> int list \<Rightarrow> int list \<Rightarrow> (real \<times> nat option \<times> int list) resultat" where
  "chercher_decalage N MUTetMDT guide opt =
     (let I = intervalle_ajustement N MUTetMDT in
      forE [0..<Suc I] (\<lambda>hour (EcartOpt, iOpt, opt).
        bindE (OPT_CalculerAireMaxPminJour hour (N - I + hour) MUTetMDT N guide opt) (\<lambda>(Ecart, opt).
        Inr (if Ecart < EcartOpt then (Ecart, Some hour, opt) else (EcartOpt, iOpt, opt)))) (10 ^ 80, None, opt))"

definition relever_pmin ::
  "nat \<Rightarrow> real \<Rightarrow> int list \<Rightarrow> PDISP_ET_COUTS_HORAIRES_PAR_PALIER \<Rightarrow> PDISP_ET_COUTS_HORAIRES_PAR_PALIER resultat" where
  "relever_pmin N pmin opt = forE [0..<N] (\<lambda>pdt x.
     bindE (lire opt pdt) (\<lambda>n.
     bindE (lire (PuissanceMinDuPalierThermique x) pdt) (\<lambda>v.
     bindE (if pmin * real_of_int n > v then ecrire (PuissanceMinDuPalierThermique x) pdt (pmin * real_of_int n)
            else Inr (PuissanceMinDuPalierThermique x)) (\<lambda>mini.
     bindE (lire mini pdt) (\<lambda>v.
     bindE (lire (PuissanceDisponibleDuPalierThermique x) pdt) (\<lambda>dispo.
     bindE (if v > dispo then ecrire mini pdt dispo else Inr mini) (\<lambda>mini.
     Inr (x\<lparr>PuissanceMinDuPalierThermique := mini\<rparr>))))))))"

definition calculer_pmin_palier :: "PROBLEME_HEBDO \<Rightarrow> RESULTATS \<Rightarrow> nat \<Rightarrow> nat \<Rightarrow> DONNEES \<Rightarrow> DONNEES resultat" where
  "calculer_pmin_palier h R pays palier d =
     (let N = NombreDePasDeTemps h in
      bindE (lire (PaliersDonnees d) pays) (\<lambda>pd.
      bindE (lire (PminDuPalierThermiquePendantUneHeure pd) palier) (\<lambda>pmin.
      if \<bar>pmin\<bar> < ZERO_PMIN then Inr d
      else
        bindE (lire (TailleUnitaireDUnGroupeDuPalierThermique pd) palier) (\<lambda>taille.
        bindE (calculer_guide h R pays palier taille (NbGrpCourbeGuide d)) (\<lambda>guide.
        bindE (lire (minUpDownTime pd) palier) (\<lambda>MUTetMDT.
        bindE (chercher_decalage N MUTetMDT guide (NbGrpOpt d)) (\<lambda>(EcartOpt, iOpt, opt).
        let I = intervalle_ajustement N MUTetMDT; d = d\<lparr>NbGrpCourbeGuide := guide, NbGrpOpt := opt\<rparr> in
        case iOpt of None \<Rightarrow> Inr d
        | Some i \<Rightarrow>
            bindE (OPT_CalculerAireMaxPminJour i (N - I + i) MUTetMDT N guide opt) (\<lambda>(Ecart, opt).
            sur_palier pays palier (relever_pmin N pmin opt) (d\<lparr>NbGrpOpt := opt\<rparr>)))))))))"

definition OPT_CalculerLesPminThermiquesEnFonctionDeMUTetMDT ::
  "PROBLEME_HEBDO \<Rightarrow> RESULTATS \<Rightarrow> DONNEES \<Rightarrow> DONNEES resultat" where
  "OPT_CalculerLesPminThermiquesEnFonctionDeMUTetMDT h R =
     forE [0..<NombreDePays h] (\<lambda>pays d.
       bindE (lire (PaliersThermiquesDuPays h) pays) (\<lambda>pt.
       forE [0..<NombreDePaliersThermiques pt] (calculer_pmin_palier h R pays) d))"

subsection \<open>The step curve\<close>

text \<open>The hours that share a value: those before the first and after the last hour together, and the blocks
  between them.\<close>

definition bloc :: "nat \<Rightarrow> nat \<Rightarrow> nat \<Rightarrow> nat \<Rightarrow> nat \<Rightarrow> nat set" where
  "bloc P D m N t = (if P \<le> t \<and> t < D then let k = (t - P) div m in {P + k * m..<min (P + Suc k * m) D}
     else {..<P} \<union> {D..<N})"

definition courbe :: "nat \<Rightarrow> nat \<Rightarrow> nat \<Rightarrow> nat \<Rightarrow> int list \<Rightarrow> int list" where
  "courbe P D m N guide = map (\<lambda>t. Max (insert 0 ((!) guide ` bloc P D m N t))) [0..<N]"

definition ecart :: "int list \<Rightarrow> int list \<Rightarrow> real" where
  "ecart opt guide = (\<Sum>t < length guide. real_of_int (opt ! t - guide ! t))"

lemma bloc_finie [simp]: "finite (bloc P D m N t)"
  by (simp add: bloc_def Let_def)

lemma bloc_contient: "0 < m \<Longrightarrow> t < N \<Longrightarrow> t \<in> bloc P D m N t"
proof (cases "P \<le> t \<and> t < D")
  case True
  assume m: "0 < m"
  define K where "K = (t - P) div m * m"
  have "K \<le> t - P" "t - P < m + K" using m dividend_less_div_times [of m "t - P"] by (simp_all add: K_def)
  then have "P + K \<le> t" "t < P + (m + K)" using True by linarith+
  then show ?thesis using True by (simp add: bloc_def Let_def K_def)
qed (auto simp: bloc_def)

lemma bloc_constant:
  assumes "0 < m" and "u \<in> bloc P D m N t" and "P \<le> D"
  shows "bloc P D m N u = bloc P D m N t"
proof (cases "P \<le> t \<and> t < D")
  case True
  let ?k = "(t - P) div m"
  have u: "P + ?k * m \<le> u" "u < P + Suc ?k * m" "u < D" using assms(2) True by (auto simp: bloc_def Let_def)
  then have "?k * m \<le> u - P" "u - P < Suc ?k * m" by linarith+
  then have "(u - P) div m = ?k"
    by (intro div_nat_eqI) (simp_all only: mult.commute)
  then show ?thesis using True u by (simp add: bloc_def Let_def)
next
  case False
  then have "\<not> (P \<le> u \<and> u < D)" using assms(2) by (auto simp: bloc_def)
  then show ?thesis by (simp only: bloc_def False if_False)
qed

lemma courbe_simps [simp]: "length (courbe P D m N guide) = N"
  "t < N \<Longrightarrow> courbe P D m N guide ! t = Max (insert 0 ((!) guide ` bloc P D m N t))"
  by (simp_all add: courbe_def)

text \<open>The curve is above the guide, and no lower curve with the same steps is.\<close>

lemma courbe_au_dessus: "0 < m \<Longrightarrow> t < N \<Longrightarrow> guide ! t \<le> courbe P D m N guide ! t"
  by (simp add: bloc_contient Max_ge)

lemma courbe_constante: "0 < m \<Longrightarrow> P \<le> D \<Longrightarrow> t < N \<Longrightarrow> u < N \<Longrightarrow> u \<in> bloc P D m N t \<Longrightarrow>
    courbe P D m N guide ! u = courbe P D m N guide ! t"
  by (simp add: bloc_constant)

lemma courbe_minimale:
  assumes "\<And>t. t < N \<Longrightarrow> max 0 (guide ! t) \<le> c t" and "\<And>t u. t < N \<Longrightarrow> u < N \<Longrightarrow> u \<in> bloc P D m N t \<Longrightarrow> c u = c t"
    and "t < N" and "D \<le> N" and "P \<le> D"
  shows "courbe P D m N guide ! t \<le> c t"
proof -
  have b: "u < N" if "u \<in> bloc P D m N t" for u
    using that assms(3-5) by (auto simp: bloc_def Let_def split: if_splits)
  have "guide ! u \<le> c t" if "u \<in> bloc P D m N t" for u
    using assms(1) [OF b [OF that]] assms(2) [OF assms(3) b [OF that] that] by simp
  then show ?thesis using assms(1) [OF assms(3)] assms(3) by simp
qed

subsection \<open>The code computes the step curve\<close>

lemma Max_insert_Max: "finite A \<Longrightarrow> A \<noteq> {} \<Longrightarrow> finite B \<Longrightarrow> Max (insert (Max A) B) = Max (A \<union> B)"
  for A :: "int set"
  by (cases "B = {}") (simp_all add: Max_Un)

lemma plus_grand_ok:
  assumes "\<forall>t \<in> set pdts. t < length guide"
  shows "plus_grand guide pdts m = Inr (Max (insert m ((!) guide ` set pdts)))"
  using assms
proof (induction pdts arbitrary: m)
  case (Cons t pdts)
  have "Max (insert m (insert (guide ! t) ((!) guide ` set pdts))) = Max (insert (max m (guide ! t)) ((!) guide ` set pdts))"
    by (cases "pdts = []") (simp_all add: max.assoc)
  then show ?case using Cons by (simp add: plus_grand_def max_def)
qed (simp add: plus_grand_def)

lemma poser_groupes_ok:
  assumes "length guide = N" and "length opt = N" and "distinct pdts" and "\<forall>t \<in> set pdts. t < N"
  shows "poser_groupes guide m pdts (c, opt) =
    Inr (c + (\<Sum>t \<in> set pdts. real_of_int (m - guide ! t)), map (\<lambda>t. if t \<in> set pdts then m else opt ! t) [0..<N])"
  using assms(2-4)
proof (induction pdts arbitrary: c opt)
  case Nil
  then show ?case using map_nth [of opt] by (simp add: poser_groupes_def)
next
  case (Cons t pdts)
  have "map (\<lambda>u. if u \<in> set pdts then m else opt[t := m] ! u) [0..<N] = map (\<lambda>u. if u \<in> set (t # pdts) then m else opt ! u) [0..<N]"
    using Cons.prems by (intro map_cong) (auto simp: nth_list_update)
  then show ?case
    using Cons.IH [of "opt[t := m]" "c + real_of_int (m - guide ! t)"] Cons.prems assms(1)
    by (simp add: poser_groupes_def add.assoc)
qed

lemma map_garde: "length opt = N \<Longrightarrow> (\<And>t. t < N \<Longrightarrow> \<not> Q t) \<Longrightarrow> map (\<lambda>t. if Q t then f t else opt ! t) [0..<N] = opt"
  by (rule nth_equalityI) auto

lemma boucle_blocs_ok:
  assumes g: "length guide = N" and m: "0 < m" "m = nat MUTetMDT" and D: "D \<le> N"
    and h: "hour = P + k * m \<or> D \<le> hour \<and> P \<le> D" and o: "length opt = N" and n: "D - hour \<le> n"
  shows "boucle_blocs MUTetMDT D guide n hour (c, opt) =
    Inr (c + (\<Sum>t \<in> {hour..<D}. real_of_int (courbe P D m N guide ! t - guide ! t)),
      map (\<lambda>t. if hour \<le> t \<and> t < D then courbe P D m N guide ! t else opt ! t) [0..<N])"
  using h o n
proof (induction n arbitrary: hour k c opt)
  case 0
  then have "map (\<lambda>t. if hour \<le> t \<and> t < D then courbe P D m N guide ! t else opt ! t) [0..<N] = opt"
    by (intro map_garde) auto
  then show ?case using 0 by simp
next
  case (Suc n)
  show ?case
  proof (cases "hour < D")
    case True
    define fin where "fin = min (hour + m) D"
    have hk: "hour = P + k * m" using Suc.prems(1) True by auto
    have f: "hour < fin" "fin \<le> D" using True m(1) by (simp_all add: fin_def)
    have b: "bloc P D m N t = {hour..<fin}" if "t \<in> {hour..<fin}" for t
    proof -
      have t: "hour \<le> t" "t < D" "t < hour + m" using that by (auto simp: fin_def)
      then have "P \<le> t" using hk by linarith
      have "k * m \<le> t - P" "t - P < Suc k * m" using t unfolding hk mult_Suc by linarith+
      then have "(t - P) div m = k" by (intro div_nat_eqI) (simp_all only: mult.commute)
      moreover have "{P + k * m..<min (P + Suc k * m) D} = {hour..<fin}"
        unfolding fin_def hk mult_Suc by (simp add: add.assoc add.commute [of m])
      ultimately show ?thesis using \<open>P \<le> t\<close> t(2) unfolding bloc_def Let_def by (simp only: simp_thms if_True)
    qed
    let ?M = "Max (insert 0 ((!) guide ` {hour..<fin}))"
    have M: "courbe P D m N guide ! t = ?M" if "t \<in> {hour..<fin}" for t
      using b [OF that] that D by (simp add: fin_def)
    let ?opt = "map (\<lambda>t. if t \<in> {hour..<fin} then ?M else opt ! t) [0..<N]"
    have suite: "boucle_blocs MUTetMDT D guide n fin (c + (\<Sum>t \<in> {hour..<fin}. real_of_int (?M - guide ! t)), ?opt) =
        Inr (c + (\<Sum>t \<in> {hour..<fin}. real_of_int (?M - guide ! t)) +
          (\<Sum>t \<in> {fin..<D}. real_of_int (courbe P D m N guide ! t - guide ! t)),
          map (\<lambda>t. if fin \<le> t \<and> t < D then courbe P D m N guide ! t else ?opt ! t) [0..<N])"
    proof (rule Suc.IH [of fin "Suc k"])
      show "fin = P + Suc k * m \<or> D \<le> fin \<and> P \<le> D" using hk True by (auto simp: fin_def)
      show "D - fin \<le> n" using Suc.prems(3) m(1) True by (auto simp: fin_def)
    qed simp
    have s: "(\<Sum>t \<in> {hour..<fin}. real_of_int (?M - guide ! t)) + (\<Sum>t \<in> {fin..<D}. real_of_int (courbe P D m N guide ! t - guide ! t)) =
        (\<Sum>t \<in> {hour..<D}. real_of_int (courbe P D m N guide ! t - guide ! t))"
    proof -
      have "(\<Sum>t \<in> {hour..<fin}. real_of_int (?M - guide ! t)) =
          (\<Sum>t \<in> {hour..<fin}. real_of_int (courbe P D m N guide ! t - guide ! t))"
        by (rule sum.cong) (use M in auto)
      moreover have "hour \<le> fin" "fin \<le> D" using True by (auto simp: fin_def)
      ultimately show ?thesis by (simp add: sum.atLeastLessThan_concat)
    qed
    have o': "map (\<lambda>t. if fin \<le> t \<and> t < D then courbe P D m N guide ! t else ?opt ! t) [0..<N] =
        map (\<lambda>t. if hour \<le> t \<and> t < D then courbe P D m N guide ! t else opt ! t) [0..<N]"
      by (rule map_cong) (use M f in \<open>auto simp del: courbe_simps(2) Max_insert\<close>)
    have "fin \<le> N" using f(2) D by simp
    then have "plus_grand guide [hour..<fin] 0 = Inr ?M"
      using plus_grand_ok [of "[hour..<fin]" guide 0] g by simp
    moreover have "poser_groupes guide ?M [hour..<fin] (c, opt) = Inr (c + (\<Sum>t \<in> {hour..<fin}. real_of_int (?M - guide ! t)), ?opt)"
      using poser_groupes_ok [OF g Suc.prems(2), of "[hour..<fin]" ?M c] \<open>fin \<le> N\<close> by (simp del: Max_insert)
    ultimately have "boucle_blocs MUTetMDT D guide (Suc n) hour (c, opt) =
        boucle_blocs MUTetMDT D guide n fin (c + (\<Sum>t \<in> {hour..<fin}. real_of_int (?M - guide ! t)), ?opt)"
      using True by (simp add: fin_def [symmetric] m(2) [symmetric] del: Max_insert)
    then show ?thesis
      unfolding suite o' add.assoc s .
  next
    case False
    then have "map (\<lambda>t. if hour \<le> t \<and> t < D then courbe P D m N guide ! t else opt ! t) [0..<N] = opt"
      using Suc.prems(2) by (intro map_garde) auto
    then show ?thesis using False by simp
  qed
qed

text \<open>A block without an hour is never left.\<close>

lemma boucle_blocs_sans_fin: "MUTetMDT \<le> 0 \<Longrightarrow> hour < D \<Longrightarrow> boucle_blocs MUTetMDT D guide n hour z = Inl CarburantEpuise"
  by (induction n arbitrary: z) (auto simp: min_def plus_grand_def poser_groupes_def Let_def)

lemma OPT_CalculerAire_ok:
  assumes g: "length guide = N" "length opt = N" and P: "P \<le> D" "D \<le> N" and m: "0 < MUTetMDT"
  defines "c \<equiv> courbe P D (nat MUTetMDT) N guide"
  shows "OPT_CalculerAireMaxPminJour P D MUTetMDT N guide opt = Inr (ecart c guide, c)"
proof -
  let ?E = "{..<P} \<union> {D..<N}"
  let ?M = "Max (insert 0 ((!) guide ` ?E))"
  let ?o1 = "map (\<lambda>t. if t \<in> set [0..<P] then ?M else opt ! t) [0..<N]"
  let ?o2 = "map (\<lambda>t. if t \<in> set [D..<N] then ?M else ?o1 ! t) [0..<N]"
  let ?d = "\<lambda>t. real_of_int (c ! t - guide ! t)"
  have M: "c ! t = ?M" if "t \<in> ?E" for t
    using that P by (auto simp: c_def bloc_def)
  have max: "plus_grand guide [0..<P] 0 = Inr (Max (insert 0 ((!) guide ` {0..<P})))"
    "plus_grand guide [D..<N] (Max (insert 0 ((!) guide ` {0..<P}))) = Inr ?M"
  proof -
    show "plus_grand guide [0..<P] 0 = Inr (Max (insert 0 ((!) guide ` {0..<P})))"
      using plus_grand_ok [of "[0..<P]" guide 0] P g by simp
    have "Max (insert (Max (insert 0 ((!) guide ` {0..<P}))) ((!) guide ` {D..<N})) = Max (insert 0 ((!) guide ` {0..<P}) \<union> (!) guide ` {D..<N})"
      by (rule Max_insert_Max) simp_all
    also have "insert 0 ((!) guide ` {0..<P}) \<union> (!) guide ` {D..<N} = insert 0 ((!) guide ` ?E)"
      by (simp add: image_Un atLeast0LessThan)
    finally show "plus_grand guide [D..<N] (Max (insert 0 ((!) guide ` {0..<P}))) = Inr ?M"
      using plus_grand_ok [of "[D..<N]" guide "Max (insert 0 ((!) guide ` {0..<P}))"] g by simp
  qed
  have 1: "poser_groupes guide ?M [0..<P] (0, opt) = Inr ((\<Sum>t \<in> {0..<P}. ?d t), ?o1)"
    using poser_groupes_ok [OF g, of "[0..<P]" ?M 0] P M by (simp add: atLeast0LessThan)
  have 2: "poser_groupes guide ?M [D..<N] ((\<Sum>t \<in> {0..<P}. ?d t), ?o1) = Inr ((\<Sum>t \<in> {0..<P}. ?d t) + (\<Sum>t \<in> {D..<N}. ?d t), ?o2)"
    using poser_groupes_ok [OF g(1), of ?o1 "[D..<N]" ?M] M by simp
  have 3: "boucle_blocs MUTetMDT D guide N P ((\<Sum>t \<in> {0..<P}. ?d t) + (\<Sum>t \<in> {D..<N}. ?d t), ?o2) =
      Inr ((\<Sum>t \<in> {0..<P}. ?d t) + (\<Sum>t \<in> {D..<N}. ?d t) + (\<Sum>t \<in> {P..<D}. ?d t),
        map (\<lambda>t. if P \<le> t \<and> t < D then c ! t else ?o2 ! t) [0..<N])"
    unfolding c_def by (rule boucle_blocs_ok [where k = 0]) (use g m P in auto)
  have "(\<Sum>t \<in> {0..<P}. ?d t) + (\<Sum>t \<in> {D..<N}. ?d t) + (\<Sum>t \<in> {P..<D}. ?d t) = (\<Sum>t \<in> {0..<N}. ?d t)"
    using sum.atLeastLessThan_concat [of 0 P D ?d] sum.atLeastLessThan_concat [of 0 D N ?d] P by simp
  moreover have "map (\<lambda>t. if P \<le> t \<and> t < D then c ! t else ?o2 ! t) [0..<N] = c"
    proof (rule nth_equalityI)
    fix i assume "i < length (map (\<lambda>t. if P \<le> t \<and> t < D then c ! t else ?o2 ! t) [0..<N])"
    then have i: "i < N" by simp
    show "map (\<lambda>t. if P \<le> t \<and> t < D then c ! t else ?o2 ! t) [0..<N] ! i = c ! i"
    proof (cases "P \<le> i \<and> i < D")
      case False
      then have "i \<in> ?E" using i by auto
      then have "c ! i = ?M" by (rule M)
      moreover have "?o2 ! i = ?M" using False i by (auto simp del: Max_insert)
      ultimately show ?thesis using False i by (simp del: Max_insert)
    qed (use i in simp)
  qed (simp add: c_def)
  ultimately show ?thesis
    using max 1 2 3 g by (simp add: OPT_CalculerAireMaxPminJour_def ecart_def atLeast0LessThan)
qed

end
