(* ===== verification/Startup_Heuristic.thy ===== *)
theory Startup_Heuristic
  imports Solver_Call Thermal_Heuristic
begin

text \<open>
  The heuristic between the two optimisations of a week with start-up costs:
  \<open>OPT_AjusterLeNombreMinDeGroupesDemarresCoutsDeDemarrage\<close> of
  \<open>src/src/solver/optimisation/opt_nombre_min_groupes_demarres_couts_demarrage.cpp\<close>. For every cluster the numbers of
  running units the first optimisation found are rounded up; unless they are integers already, a small linear problem
  of the cluster alone (running, started, stopped and broken down units of every hour of the week) finds the least
  numbers above them that respect the minimum up and down times. The solver is the parameter \<open>SPX\<close>: the problem it is
  given, and whether there is a solution and the values. The warnings are not modelled, what they read is.
\<close>

subsection \<open>The small linear problem\<close>

record AJUSTEMENT =
  NumeroDeVariableDeM :: "nat list"
  NumeroDeVariableDeMMoinsMoins :: "nat list"
  NumeroDeVariableDeMPlus :: "nat list"
  NumeroDeVariableDeMMoins :: "nat list"
  aj_NombreDeVariables :: nat
  aj_CoutLineaire :: "real list"
  aj_Xmin :: "real list"
  aj_Xmax :: "real list"
  aj_TypeDeVariable :: "type_variable list"
  aj_NombreDeContraintes :: nat
  aj_IndicesDebutDeLigne :: "nat list"
  aj_NombreDeTermesDesLignes :: "nat list"
  aj_Sens :: "char list"
  aj_SecondMembre :: "real list"
  aj_NbTermesMatrice :: nat
  aj_IndicesColonnes :: "nat list"
  aj_Coefficients :: "real list"

type_synonym simplexe_seul = "AJUSTEMENT \<Rightarrow> existence_solution \<times> real list"

definition allouer_ajustement :: "nat \<Rightarrow> int \<Rightarrow> int \<Rightarrow> AJUSTEMENT" where
  "allouer_ajustement N DureeMarche DureeArret =
     (let variables = 4 * N; contraintes = 5 * N;
          termes = nat (int (4 * N + 2 * N + N) + int N * (1 + 2 * DureeMarche) + int N * (1 + DureeArret)) in
      \<lparr>NumeroDeVariableDeM = replicate N 0, NumeroDeVariableDeMMoinsMoins = replicate N 0,
       NumeroDeVariableDeMPlus = replicate N 0, NumeroDeVariableDeMMoins = replicate N 0,
       aj_NombreDeVariables = 0, aj_CoutLineaire = replicate variables 0, aj_Xmin = replicate variables 0,
       aj_Xmax = replicate variables 0, aj_TypeDeVariable = replicate variables VARIABLE_FIXE,
       aj_NombreDeContraintes = 0, aj_IndicesDebutDeLigne = replicate contraintes 0,
       aj_NombreDeTermesDesLignes = replicate contraintes 0, aj_Sens = replicate contraintes (CHR 0x00),
       aj_SecondMembre = replicate contraintes 0, aj_NbTermesMatrice = 0,
       aj_IndicesColonnes = replicate termes 0, aj_Coefficients = replicate termes 0\<rparr>)"

text \<open>\<open>if (t1 < 0) t1 = NombreDePasDeTemps + t1\<close>.\<close>

definition retour :: "nat \<Rightarrow> int \<Rightarrow> int" where
  "retour N t1 = (if t1 < 0 then int N + t1 else t1)"

text \<open>One variable: the number goes to its table; \<open>None\<close> leaves the upper bound for later.\<close>

definition ajouter_variable ::
  "((nat list \<Rightarrow> nat list) \<Rightarrow> AJUSTEMENT \<Rightarrow> AJUSTEMENT) \<Rightarrow> (AJUSTEMENT \<Rightarrow> nat list) \<Rightarrow> nat \<Rightarrow> real \<Rightarrow> real \<Rightarrow> real option \<Rightarrow>
     type_variable \<Rightarrow> AJUSTEMENT \<Rightarrow> AJUSTEMENT resultat" where
  "ajouter_variable table_update table pdt cout mini maxi ty p = (let n = aj_NombreDeVariables p in
     bindE (ecrire (table p) pdt n) (\<lambda>numeros.
     bindE (ecrire (aj_CoutLineaire p) n cout) (\<lambda>couts.
     bindE (ecrire (aj_Xmin p) n mini) (\<lambda>xmin.
     bindE (case maxi of None \<Rightarrow> Inr (aj_Xmax p) | Some v \<Rightarrow> ecrire (aj_Xmax p) n v) (\<lambda>xmax.
     bindE (ecrire (aj_TypeDeVariable p) n ty) (\<lambda>types.
     Inr ((table_update (\<lambda>_. numeros) p)\<lparr>aj_CoutLineaire := couts, aj_Xmin := xmin, aj_Xmax := xmax,
       aj_TypeDeVariable := types, aj_NombreDeVariables := n + 1\<rparr>)))))))"

definition variables_heure :: "int list \<Rightarrow> int list \<Rightarrow> nat \<Rightarrow> AJUSTEMENT \<Rightarrow> AJUSTEMENT resultat" where
  "variables_heure NbMinOpt maxi pdt =
     seqE [\<lambda>p. bindE (lire NbMinOpt pdt) (\<lambda>n. bindE (lire maxi pdt) (\<lambda>m.
             ajouter_variable NumeroDeVariableDeM_update NumeroDeVariableDeM pdt 1 (of_int n) (Some (of_int m))
               VARIABLE_BORNEE_DES_DEUX_COTES p)),
           ajouter_variable NumeroDeVariableDeMMoinsMoins_update NumeroDeVariableDeMMoinsMoins pdt 0 0 None
             VARIABLE_BORNEE_DES_DEUX_COTES,
           ajouter_variable NumeroDeVariableDeMPlus_update NumeroDeVariableDeMPlus pdt 0 0 (Some (10 ^ 80))
             VARIABLE_BORNEE_INFERIEUREMENT,
           ajouter_variable NumeroDeVariableDeMMoins_update NumeroDeVariableDeMMoins pdt 0 0 (Some (10 ^ 80))
             VARIABLE_BORNEE_INFERIEUREMENT]"

text \<open>The rows: a term of the row that is being written, and its beginning and end.\<close>

definition debut_ligne :: "AJUSTEMENT \<Rightarrow> AJUSTEMENT resultat" where
  "debut_ligne p = bindE (ecrire (aj_IndicesDebutDeLigne p) (aj_NombreDeContraintes p) (aj_NbTermesMatrice p)) (\<lambda>d.
     Inr (p\<lparr>aj_IndicesDebutDeLigne := d\<rparr>))"

definition terme_ligne :: "real \<Rightarrow> (AJUSTEMENT \<Rightarrow> nat list) \<Rightarrow> int \<Rightarrow> nat \<times> AJUSTEMENT \<Rightarrow> (nat \<times> AJUSTEMENT) resultat" where
  "terme_ligne c table t z = (case z of (NombreDeTermes, p) \<Rightarrow>
     bindE (ecrire (aj_Coefficients p) (aj_NbTermesMatrice p) c) (\<lambda>cs.
     bindE (lire_int (table p) t) (\<lambda>var.
     bindE (ecrire (aj_IndicesColonnes p) (aj_NbTermesMatrice p) var) (\<lambda>cols.
     Inr (NombreDeTermes + 1, p\<lparr>aj_Coefficients := cs, aj_IndicesColonnes := cols,
       aj_NbTermesMatrice := aj_NbTermesMatrice p + 1\<rparr>)))))"

definition fin_ligne :: "char \<Rightarrow> nat \<Rightarrow> AJUSTEMENT \<Rightarrow> AJUSTEMENT resultat" where
  "fin_ligne sens NombreDeTermes p = (let n = aj_NombreDeContraintes p in
     bindE (ecrire (aj_NombreDeTermesDesLignes p) n NombreDeTermes) (\<lambda>ts.
     bindE (ecrire (aj_Sens p) n sens) (\<lambda>ss.
     Inr (p\<lparr>aj_NombreDeTermesDesLignes := ts, aj_Sens := ss\<rparr>))))"

definition second_membre_ligne :: "real \<Rightarrow> AJUSTEMENT \<Rightarrow> AJUSTEMENT resultat" where
  "second_membre_ligne v p = bindE (ecrire (aj_SecondMembre p) (aj_NombreDeContraintes p) v) (\<lambda>xs.
     Inr (p\<lparr>aj_SecondMembre := xs\<rparr>))"

definition ligne_suivante :: "AJUSTEMENT \<Rightarrow> AJUSTEMENT resultat" where
  "ligne_suivante p = Inr (p\<lparr>aj_NombreDeContraintes := aj_NombreDeContraintes p + 1\<rparr>)"

definition ligne_equilibre :: "nat \<Rightarrow> nat \<Rightarrow> AJUSTEMENT \<Rightarrow> AJUSTEMENT resultat" where
  "ligne_equilibre N pdt =
     seqE [debut_ligne,
       \<lambda>p. bindE (seqE [terme_ligne 1 NumeroDeVariableDeM (int pdt),
             terme_ligne (- 1) NumeroDeVariableDeM (retour N (int pdt - 1)),
             terme_ligne (- 1) NumeroDeVariableDeMPlus (int pdt),
             terme_ligne 1 NumeroDeVariableDeMMoins (int pdt)] (0, p)) (\<lambda>(n, p). fin_ligne (CHR ''='') n p),
       second_membre_ligne 0, ligne_suivante]"

definition ligne_pannes :: "nat \<Rightarrow> AJUSTEMENT \<Rightarrow> AJUSTEMENT resultat" where
  "ligne_pannes pdt =
     seqE [debut_ligne,
       \<lambda>p. bindE (seqE [terme_ligne 1 NumeroDeVariableDeMMoinsMoins (int pdt),
             terme_ligne (- 1) NumeroDeVariableDeMMoins (int pdt)] (0, p)) (\<lambda>(n, p). fin_ligne (CHR ''<'') n p),
       second_membre_ligne 0, ligne_suivante]"

definition borne_pannes :: "nat \<Rightarrow> int list \<Rightarrow> nat \<Rightarrow> AJUSTEMENT \<Rightarrow> AJUSTEMENT resultat" where
  "borne_pannes N maxi pdt p =
     bindE (lire (NumeroDeVariableDeMMoinsMoins p) pdt) (\<lambda>var.
     bindE (ecrire (aj_Xmax p) var 0) (\<lambda>xmax.
     bindE (lire_int maxi (retour N (int pdt - 1))) (\<lambda>avant.
     bindE (lire maxi pdt) (\<lambda>apres.
     if avant - apres > 0
     then bindE (ecrire xmax var (of_int (avant - apres))) (\<lambda>xmax. Inr (p\<lparr>aj_Xmax := xmax\<rparr>))
     else Inr (p\<lparr>aj_Xmax := xmax\<rparr>)))))"

definition ligne_marche :: "nat \<Rightarrow> int \<Rightarrow> nat \<Rightarrow> AJUSTEMENT \<Rightarrow> AJUSTEMENT resultat" where
  "ligne_marche N DureeMarche pdt =
     seqE [debut_ligne,
       \<lambda>p. bindE (seqE [terme_ligne 1 NumeroDeVariableDeM (int pdt),
             forE [int pdt - DureeMarche + 1..int pdt] (\<lambda>k. seqE
               [terme_ligne (- 1) NumeroDeVariableDeMPlus (retour N k),
                terme_ligne 1 NumeroDeVariableDeMMoinsMoins (retour N k)])] (0, p)) (\<lambda>(n, p). fin_ligne (CHR ''>'') n p),
       second_membre_ligne 0, ligne_suivante]"

definition ligne_arret :: "nat \<Rightarrow> int list \<Rightarrow> int \<Rightarrow> nat \<Rightarrow> AJUSTEMENT \<Rightarrow> AJUSTEMENT resultat" where
  "ligne_arret N maxi DureeArret pdt =
     seqE [debut_ligne,
       \<lambda>p. bindE (seqE [terme_ligne 1 NumeroDeVariableDeM (int pdt),
             forE [int pdt - DureeArret + 1..int pdt] (\<lambda>k. terme_ligne 1 NumeroDeVariableDeMMoins (retour N k))] (0, p))
             (\<lambda>(n, p). fin_ligne (CHR ''<'') n p),
       \<lambda>p. bindE (lire_int maxi (retour N (int pdt - DureeArret))) (\<lambda>v. second_membre_ligne (of_int v) p),
       forE [int pdt - DureeArret + 1..int pdt] (\<lambda>k p.
         let t1 = retour N k in
         bindE (lire_int maxi t1) (\<lambda>v. bindE (lire_int maxi (retour N (t1 - 1))) (\<lambda>v'.
         whenE (v - v' > 0) (\<lambda>p. bindE (lire (aj_SecondMembre p) (aj_NombreDeContraintes p)) (\<lambda>b.
           second_membre_ligne (b + of_int (v - v')) p)) p))),
       ligne_suivante]"

definition construire_ajustement :: "nat \<Rightarrow> int list \<Rightarrow> int list \<Rightarrow> int \<Rightarrow> int \<Rightarrow> AJUSTEMENT resultat" where
  "construire_ajustement N NbMinOpt maxi DureeMarche DureeArret =
     bindE (forE [0..<N] (variables_heure NbMinOpt maxi) (allouer_ajustement N DureeMarche DureeArret))
       (forE [0..<N] (\<lambda>pdt. seqE [ligne_equilibre N pdt, ligne_pannes pdt, borne_pannes N maxi pdt,
          ligne_marche N DureeMarche pdt, ligne_arret N maxi DureeArret pdt]))"


subsection \<open>Starts, stops and breakdowns\<close>

text \<open>The results of hour \<open>t1\<close>, addressed through \<open>ProductionThermique[t1]\<close>.\<close>

definition lire_groupes :: "PROBLEME_HEBDO \<Rightarrow> RESULTATS \<Rightarrow> (nat \<Rightarrow> adresse) \<Rightarrow> int \<Rightarrow> real resultat" where
  "lire_groupes h R a t1 = (if t1 < 0 then Inl IndexHorsBornes else lire_adresse h R (a (nat t1)))"

definition transitions_heure ::
  "PROBLEME_HEBDO \<Rightarrow> nat \<Rightarrow> nat \<Rightarrow> int list \<Rightarrow> int list \<Rightarrow> nat \<Rightarrow> RESULTATS \<Rightarrow> RESULTATS resultat" where
  "transitions_heure h pays index NbMinOpt maxi t1 R =
     (let t1moins1 = retour (NombreDePasDeTemps h) (int t1 - 1);
          demarrent = NombreDeGroupesQuiDemarrentDuPalier pays t1 index;
          arretent = NombreDeGroupesQuiSArretentDuPalier pays t1 index;
          pannes = NombreDeGroupesQuiTombentEnPanneDuPalier pays t1 index in
      bindE (lire NbMinOpt t1) (\<lambda>n. bindE (lire_int NbMinOpt t1moins1) (\<lambda>n'.
      if n - n' < 0 then
        seqE [ecrire_adresse h demarrent 0, ecrire_adresse h arretent (of_int (n' - n)), ecrire_adresse h pannes 0,
          \<lambda>R. bindE (lire maxi t1) (\<lambda>m. bindE (lire_int maxi t1moins1) (\<lambda>m'.
            whenE (m < m') (\<lambda>R. bindE (lire_adresse h R arretent) (\<lambda>s.
              ecrire_adresse h pannes (if of_int (m' - m) < s then of_int (m' - m) else s) R)) R))] R
      else if n - n' > 0 then
        seqE [ecrire_adresse h demarrent (of_int (n - n')), ecrire_adresse h arretent 0, ecrire_adresse h pannes 0] R
      else
        seqE [ecrire_adresse h demarrent 0, ecrire_adresse h arretent 0, ecrire_adresse h pannes 0] R)))"

text \<open>One hour of the check: the minimum up time first, then the minimum down time. The variable \<open>t1\<close> is the hour of the
  last turn of the loop; \<open>True\<close> leaves the loop over the hours.\<close>

definition duree_marche_violee ::
  "PROBLEME_HEBDO \<Rightarrow> RESULTATS \<Rightarrow> nat \<Rightarrow> nat \<Rightarrow> int list \<Rightarrow> int \<Rightarrow> nat \<Rightarrow> bool resultat" where
  "duree_marche_violee h R pays index NbMinOpt Duree pdt =
     (if Duree > 0 then
        bindE (forE [int pdt - Duree + 1..int pdt] (\<lambda>k (t1, SMarche).
          let t1 = retour (NombreDePasDeTemps h) k in
          bindE (lire_groupes h R (\<lambda>t. NombreDeGroupesQuiDemarrentDuPalier pays t index) t1) (\<lambda>demarrent.
          bindE (lire_groupes h R (\<lambda>t. NombreDeGroupesQuiTombentEnPanneDuPalier pays t index) t1) (\<lambda>pannes.
          Inr (t1, SMarche + (demarrent - pannes))))) (0, 0)) (\<lambda>(t1, SMarche).
        bindE (lire_int NbMinOpt t1) (\<lambda>n. Inr (of_int n < SMarche)))
      else Inr False)"

definition duree_arret_violee ::
  "PROBLEME_HEBDO \<Rightarrow> RESULTATS \<Rightarrow> nat \<Rightarrow> nat \<Rightarrow> int list \<Rightarrow> int list \<Rightarrow> int \<Rightarrow> nat \<Rightarrow> bool resultat" where
  "duree_arret_violee h R pays index NbMinOpt maxi Duree pdt =
     (let N = NombreDePasDeTemps h; t1 = retour N (int pdt - Duree) in
      bindE (lire_int maxi t1) (\<lambda>m.
      bindE (forE [int pdt - Duree + 1..int pdt] (\<lambda>k (t1, SArret).
        let t1 = retour N k; t1moins1 = retour N (t1 - 1) in
        bindE (lire_int maxi t1) (\<lambda>m. bindE (lire_int maxi t1moins1) (\<lambda>m'.
        let SArret = (if m - m' > 0 then SArret + of_int (m - m') else SArret) in
        bindE (lire_groupes h R (\<lambda>t. NombreDeGroupesQuiSArretentDuPalier pays t index) t1) (\<lambda>s.
        Inr (t1, SArret - s))))) (t1, of_int m)) (\<lambda>(t1, SArret).
      bindE (lire_int NbMinOpt t1) (\<lambda>n. Inr (of_int n > SArret)))))"

definition verifier_heure ::
  "PROBLEME_HEBDO \<Rightarrow> RESULTATS \<Rightarrow> nat \<Rightarrow> nat \<Rightarrow> int list \<Rightarrow> int list \<Rightarrow> int \<Rightarrow> int \<Rightarrow> nat \<Rightarrow> bool resultat" where
  "verifier_heure h R pays index NbMinOpt maxi DureeMarche DureeArret pdt =
     bindE (duree_marche_violee h R pays index NbMinOpt DureeMarche pdt) (\<lambda>violee.
     if violee then Inr True else duree_arret_violee h R pays index NbMinOpt maxi DureeArret pdt)"

fun boucle_verification :: "(nat \<Rightarrow> bool resultat) \<Rightarrow> nat list \<Rightarrow> bool \<Rightarrow> bool resultat" where
  "boucle_verification violee [] Resoudre = Inr Resoudre"
| "boucle_verification violee (pdt # pdts) Resoudre =
     bindE (violee pdt) (\<lambda>v. if v then Inr True else boucle_verification violee pdts Resoudre)"

definition OPT_PbLineairePourAjusterLeNombreMinDeGroupesDemarresCoutsDeDemarrage ::
  "simplexe_seul \<Rightarrow> PROBLEME_HEBDO \<Rightarrow> nat \<Rightarrow> nat \<Rightarrow> int list \<Rightarrow> int list \<Rightarrow> RESULTATS \<Rightarrow> (RESULTATS \<times> int list) resultat" where
  "OPT_PbLineairePourAjusterLeNombreMinDeGroupesDemarresCoutsDeDemarrage SPX h Pays index maxi NbMinOpt R =
     (let N = NombreDePasDeTemps h in
      bindE (lire (PaliersThermiquesDuPays h) Pays) (\<lambda>pt.
      bindE (lire (DureeMinimaleDeMarcheDUnGroupeDuPalierThermique pt) index) (\<lambda>DureeMarche.
      bindE (lire (DureeMinimaleDArretDUnGroupeDuPalierThermique pt) index) (\<lambda>DureeArret.
      let Resoudre = True in
      bindE (forE [0..<N] (transitions_heure h Pays index NbMinOpt maxi) R) (\<lambda>R.
      bindE (boucle_verification (verifier_heure h R Pays index NbMinOpt maxi DureeMarche DureeArret) [0..<N] Resoudre) (\<lambda>Resoudre.
      if \<not> Resoudre then Inr (R, NbMinOpt)
      else
        bindE (construire_ajustement N NbMinOpt maxi DureeMarche DureeArret) (\<lambda>p.
        case SPX p of (existence, Xsolution) \<Rightarrow>
        if existence = OUI_SPX
        then bindE (forE [0..<N] (\<lambda>pdt mini. bindE (lire (NumeroDeVariableDeM p) pdt) (\<lambda>var.
               bindE (lire Xsolution var) (\<lambda>x. ecrire mini pdt \<lceil>x\<rceil>))) NbMinOpt) (\<lambda>mini. Inr (R, mini))
        else Inr (R, NbMinOpt))))))))"

subsection \<open>One cluster\<close>

text \<open>In expansion mode the powers and the units of the second optimisation stay close to those of the first.\<close>

definition resserrer_heure ::
  "PROBLEME_HEBDO \<Rightarrow> RESULTATS \<Rightarrow> nat \<Rightarrow> nat \<Rightarrow> nat \<Rightarrow> PDISP_ET_COUTS_HORAIRES_PAR_PALIER \<Rightarrow>
     PDISP_ET_COUTS_HORAIRES_PAR_PALIER resultat" where
  "resserrer_heure h R pays index pdt x =
     bindE (lire_adresse h R (ProductionThermiqueDuPalier pays pdt index)) (\<lambda>P.
     bindE (lire (PuissanceMinDuPalierThermique x) pdt) (\<lambda>v.
     bindE (if P - 1 > v then ecrire (PuissanceMinDuPalierThermique x) pdt (P - 1)
            else Inr (PuissanceMinDuPalierThermique x)) (\<lambda>pmin.
     bindE (lire (PuissanceDisponibleDuPalierThermique x) pdt) (\<lambda>v.
     bindE (if P + 1 < v then ecrire (PuissanceDisponibleDuPalierThermique x) pdt (P + 1)
            else Inr (PuissanceDisponibleDuPalierThermique x)) (\<lambda>dispo.
     bindE (lire_adresse h R (NombreDeGroupesEnMarcheDuPalier pays pdt index)) (\<lambda>n.
     bindE (lire (NombreMinDeGroupesEnMarcheDuPalierThermique x) pdt) (\<lambda>v.
     bindE (if n - 1 > of_int v then ecrire (NombreMinDeGroupesEnMarcheDuPalierThermique x) pdt \<lceil>n - 1\<rceil>
            else Inr (NombreMinDeGroupesEnMarcheDuPalierThermique x)) (\<lambda>mini.
     Inr (x\<lparr>PuissanceMinDuPalierThermique := pmin, PuissanceDisponibleDuPalierThermique := dispo,
       NombreMinDeGroupesEnMarcheDuPalierThermique := mini\<rparr>)))))))))"

text \<open>The numbers of units of the first optimisation, rounded up; the warnings read the maximum and the power.\<close>

definition arrondir_groupes ::
  "PROBLEME_HEBDO \<Rightarrow> RESULTATS \<Rightarrow> nat \<Rightarrow> nat \<Rightarrow> int list \<Rightarrow> int list \<Rightarrow> int list resultat" where
  "arrondir_groupes h R pays index maxi = forE [0..<NombreDePasDeTemps h] (\<lambda>pdt mini.
     bindE (lire_adresse h R (NombreDeGroupesEnMarcheDuPalier pays pdt index)) (\<lambda>X.
     bindE (lire maxi pdt) (\<lambda>m. bindE (lire mini pdt) (\<lambda>n.
     bindE (lire_adresse h R (ProductionThermiqueDuPalier pays pdt index)) (\<lambda>P.
     ecrire mini pdt \<lceil>X\<rceil>)))))"

definition elargir_maximum ::
  "real \<Rightarrow> nat \<Rightarrow> PDISP_ET_COUTS_HORAIRES_PAR_PALIER \<Rightarrow> PDISP_ET_COUTS_HORAIRES_PAR_PALIER resultat" where
  "elargir_maximum pmin pdt x =
     bindE (lire (NombreMaxDeGroupesEnMarcheDuPalierThermique x) pdt) (\<lambda>m.
     bindE (lire (NombreMinDeGroupesEnMarcheDuPalierThermique x) pdt) (\<lambda>n.
     bindE (if m < n then ecrire (NombreMaxDeGroupesEnMarcheDuPalierThermique x) pdt n
            else Inr (NombreMaxDeGroupesEnMarcheDuPalierThermique x)) (\<lambda>maxi.
     bindE (lire maxi pdt) (\<lambda>m.
     bindE (lire (PuissanceDisponibleDuPalierThermique x) pdt) (\<lambda>dispo.
     bindE (if pmin * of_int m > dispo then ecrire (PuissanceDisponibleDuPalierThermique x) pdt (pmin * of_int m)
            else Inr (PuissanceDisponibleDuPalierThermique x)) (\<lambda>puissances.
     Inr (x\<lparr>NombreMaxDeGroupesEnMarcheDuPalierThermique := maxi, PuissanceDisponibleDuPalierThermique := puissances\<rparr>)))))))"

definition egaler_maximum ::
  "nat \<Rightarrow> PDISP_ET_COUTS_HORAIRES_PAR_PALIER \<Rightarrow> PDISP_ET_COUTS_HORAIRES_PAR_PALIER resultat" where
  "egaler_maximum pdt x =
     bindE (lire (NombreMinDeGroupesEnMarcheDuPalierThermique x) pdt) (\<lambda>n.
     bindE (ecrire (NombreMaxDeGroupesEnMarcheDuPalierThermique x) pdt n) (\<lambda>maxi.
     Inr (x\<lparr>NombreMaxDeGroupesEnMarcheDuPalierThermique := maxi\<rparr>)))"

definition ajuster_palier ::
  "simplexe_seul \<Rightarrow> options \<Rightarrow> PROBLEME_HEBDO \<Rightarrow> nat \<Rightarrow> nat \<Rightarrow> RESULTATS \<times> PDISP_ET_COUTS_HORAIRES_PAR_PALIER \<Rightarrow>
     (RESULTATS \<times> PDISP_ET_COUTS_HORAIRES_PAR_PALIER) resultat" where
  "ajuster_palier SPX op h pays index z = (case z of (R, x) \<Rightarrow>
     if Expansion op
     then bindE (forE [0..<NombreDePasDeTemps h] (resserrer_heure h R pays index) x) (\<lambda>x. Inr (R, x))
     else
       bindE (lire (PaliersThermiquesDuPays h) pays) (\<lambda>pt.
       bindE (lire (pminDUnGroupeDuPalierThermique pt) index) (\<lambda>pmin.
       bindE (lire (PmaxDUnGroupeDuPalierThermique pt) index) (\<lambda>pmax.
       let maxi = NombreMaxDeGroupesEnMarcheDuPalierThermique x in
       bindE (arrondir_groupes h R pays index maxi (NombreMinDeGroupesEnMarcheDuPalierThermique x)) (\<lambda>mini.
       if \<not> OptimisationAvecVariablesEntieres h
       then bindE (OPT_PbLineairePourAjusterLeNombreMinDeGroupesDemarresCoutsDeDemarrage SPX h pays index maxi mini R)
              (\<lambda>(R, mini).
            bindE (forE [0..<NombreDePasDeTemps h] (elargir_maximum pmin)
              (x\<lparr>NombreMinDeGroupesEnMarcheDuPalierThermique := mini\<rparr>)) (\<lambda>x. Inr (R, x)))
       else bindE (forE [0..<NombreDePasDeTemps h] egaler_maximum
              (x\<lparr>NombreMinDeGroupesEnMarcheDuPalierThermique := mini\<rparr>)) (\<lambda>x. Inr (R, x)))))))"

definition OPT_AjusterLeNombreMinDeGroupesDemarresCoutsDeDemarrage ::
  "simplexe_seul \<Rightarrow> options \<Rightarrow> PROBLEME_HEBDO \<Rightarrow> RESULTATS \<times> DONNEES \<Rightarrow> (RESULTATS \<times> DONNEES) resultat" where
  "OPT_AjusterLeNombreMinDeGroupesDemarresCoutsDeDemarrage SPX op h z =
     (if \<not> OptimisationAvecCoutsDeDemarrage h then Inr z
      else forE [0..<NombreDePays h] (\<lambda>pays z.
        bindE (lire (PaliersThermiquesDuPays h) pays) (\<lambda>pt.
        forE [0..<NombreDePaliersThermiques pt] (\<lambda>index (R, d).
          bindE (lire (PaliersDonnees d) pays) (\<lambda>pd.
          bindE (lire (PuissanceDisponibleEtCout pd) index) (\<lambda>x.
          bindE (ajuster_palier SPX op h pays index (R, x)) (\<lambda>(R, x).
          bindE (sur_palier pays index (\<lambda>_. Inr x) d) (\<lambda>d. Inr (R, d)))))) z)) z)"


subsection \<open>The rows that are written\<close>

text \<open>A row of the problem: its sense, its right-hand side, its columns with their coefficients.\<close>

type_synonym ligne_aj = "char \<times> real \<times> (nat \<times> real) list"

definition termes_de :: "ligne_aj \<Rightarrow> (nat \<times> real) list" where
  "termes_de l = snd (snd l)"

definition lignes_aj :: "AJUSTEMENT \<Rightarrow> ligne_aj list" where
  "lignes_aj p = map (\<lambda>i. let d = aj_IndicesDebutDeLigne p ! i; n = aj_NombreDeTermesDesLignes p ! i in
     (aj_Sens p ! i, aj_SecondMembre p ! i,
      zip (take n (drop d (aj_IndicesColonnes p))) (take n (drop d (aj_Coefficients p))))) [0..<aj_NombreDeContraintes p]"

text \<open>The layout: the terms of the complete rows one after the other, then those of the row that is being written.\<close>

definition hors_lignes_aj :: "AJUSTEMENT \<Rightarrow> AJUSTEMENT" where
  "hors_lignes_aj p = p\<lparr>aj_NombreDeContraintes := 0, aj_IndicesDebutDeLigne := [], aj_NombreDeTermesDesLignes := [],
     aj_Sens := [], aj_SecondMembre := [], aj_NbTermesMatrice := 0, aj_IndicesColonnes := [], aj_Coefficients := []\<rparr>"

definition nb_termes :: "ligne_aj list \<Rightarrow> nat" where
  "nb_termes L = length (concat (map termes_de L))"

definition tailles_aj :: "nat \<Rightarrow> nat \<Rightarrow> AJUSTEMENT \<Rightarrow> bool" where
  "tailles_aj C M p \<longleftrightarrow> length (aj_IndicesDebutDeLigne p) = C \<and> length (aj_NombreDeTermesDesLignes p) = C \<and>
     length (aj_Sens p) = C \<and> length (aj_SecondMembre p) = C \<and> length (aj_IndicesColonnes p) = M \<and>
     length (aj_Coefficients p) = M"

definition rangees :: "AJUSTEMENT \<Rightarrow> ligne_aj list \<Rightarrow> (nat \<times> real) list \<Rightarrow> bool" where
  "rangees p L ts \<longleftrightarrow> (let us = concat (map termes_de L) @ ts in
     aj_NombreDeContraintes p = length L \<and> aj_NbTermesMatrice p = length us \<and>
     take (length us) (aj_IndicesColonnes p) = map fst us \<and> take (length us) (aj_Coefficients p) = map snd us \<and>
     (\<forall>i < length L. aj_IndicesDebutDeLigne p ! i = nb_termes (take i L) \<and>
        aj_NombreDeTermesDesLignes p ! i = length (termes_de (L ! i)) \<and>
        aj_Sens p ! i = fst (L ! i) \<and> aj_SecondMembre p ! i = fst (snd (L ! i))))"

lemma concat_take_nth:
  assumes "i < length L"
  shows "take (length (termes_de (L ! i))) (drop (nb_termes (take i L)) (concat (map termes_de L))) = termes_de (L ! i)"
proof -
  have "concat (map termes_de L) = concat (map termes_de (take i L)) @ termes_de (L ! i) @ concat (map termes_de (drop (Suc i) L))"
    using arg_cong [OF id_take_nth_drop [OF assms], of "\<lambda>x. concat (map termes_de x)"] by simp
  then show ?thesis by (simp add: nb_termes_def)
qed

lemma take_drop_prefixe: "take m xs = ys \<Longrightarrow> length ys = m \<Longrightarrow> n + d \<le> m \<Longrightarrow> take n (drop d xs) = take n (drop d ys)"
  by (metis add.commute drop_take min.absorb1 take_take diff_add_inverse2 le_diff_conv le_add_diff_inverse2 take_drop)

lemma lignes_aj_lues:
  assumes "rangees p L []"
  shows "lignes_aj p = L"
proof -
  let ?us = "concat (map termes_de L)"
  have n: "aj_NombreDeContraintes p = length L" and c: "take (length ?us) (aj_IndicesColonnes p) = map fst ?us"
    "take (length ?us) (aj_Coefficients p) = map snd ?us"
    and l: "\<And>i. i < length L \<Longrightarrow> aj_IndicesDebutDeLigne p ! i = nb_termes (take i L) \<and>
        aj_NombreDeTermesDesLignes p ! i = length (termes_de (L ! i)) \<and>
        aj_Sens p ! i = fst (L ! i) \<and> aj_SecondMembre p ! i = fst (snd (L ! i))"
    using assms by (simp_all add: rangees_def Let_def)
  show ?thesis
  proof (rule nth_equalityI)
    show "length (lignes_aj p) = length L" by (simp add: lignes_aj_def n)
    fix i assume "i < length (lignes_aj p)"
    then have i: "i < length L" by (simp add: lignes_aj_def n)
    let ?n = "length (termes_de (L ! i))" and ?d = "nb_termes (take i L)"
    have "concat (map termes_de L) = concat (map termes_de (take i L)) @ termes_de (L ! i) @ concat (map termes_de (drop (Suc i) L))"
      using arg_cong [OF id_take_nth_drop [OF i], of "\<lambda>x. concat (map termes_de x)"] by simp
    then have le: "?n + ?d \<le> length ?us" by (simp add: nb_termes_def)
    have "take ?n (drop ?d (aj_IndicesColonnes p)) = map fst (take ?n (drop ?d ?us))"
      "take ?n (drop ?d (aj_Coefficients p)) = map snd (take ?n (drop ?d ?us))"
      using take_drop_prefixe [OF c(1) _ le] take_drop_prefixe [OF c(2) _ le] by (simp_all add: take_map drop_map)
    then show "lignes_aj p ! i = L ! i"
      using i l [OF i] by (simp add: lignes_aj_def n Let_def concat_take_nth zip_map_fst_snd)
        (simp add: termes_de_def)
  qed
qed

text \<open>Both levels are append-only stores: the rows, in the mode given by the upper bounds, and the terms of a row.\<close>

definition rep_aj :: "AJUSTEMENT \<Rightarrow> nat \<Rightarrow> nat \<Rightarrow> real list \<Rightarrow> AJUSTEMENT \<Rightarrow> ligne_aj list \<Rightarrow> bool" where
  "rep_aj p0 C M xmax p L \<longleftrightarrow> rangees p L [] \<and> tailles_aj C M p \<and>
     hors_lignes_aj p = (hors_lignes_aj p0)\<lparr>aj_Xmax := xmax\<rparr>"

definition rep_termes :: "AJUSTEMENT \<Rightarrow> nat \<Rightarrow> nat \<Rightarrow> ligne_aj list \<Rightarrow> nat \<times> AJUSTEMENT \<Rightarrow> (nat \<times> real) list \<Rightarrow> bool" where
  "rep_termes p0 C M L z ts \<longleftrightarrow> (case z of (n, p) \<Rightarrow> n = length ts \<and> rangees p L ts \<and> tailles_aj C M p \<and>
     hors_lignes_aj p = hors_lignes_aj p0 \<and> length L < C \<and> aj_IndicesDebutDeLigne p ! length L = nb_termes L)"

interpretation ajustement: append_store "rep_aj p0 C M" "\<lambda>L. nb_termes L \<le> M" C for p0 C M
  by unfold_locales (simp add: nb_termes_def)

interpretation termes: append_store "\<lambda>_ :: unit. rep_termes p0 C M L" "\<lambda>_. True" "M - nb_termes L" for p0 C M L
  by unfold_locales simp

lemma hors_lignes_tables:
  assumes "hors_lignes_aj p = hors_lignes_aj p0"
  shows "NumeroDeVariableDeM p = NumeroDeVariableDeM p0" "NumeroDeVariableDeMMoinsMoins p = NumeroDeVariableDeMMoinsMoins p0"
    "NumeroDeVariableDeMPlus p = NumeroDeVariableDeMPlus p0" "NumeroDeVariableDeMMoins p = NumeroDeVariableDeMMoins p0"
    "aj_Xmax p = aj_Xmax p0"
  using arg_cong [OF assms, of NumeroDeVariableDeM] arg_cong [OF assms, of NumeroDeVariableDeMMoinsMoins]
    arg_cong [OF assms, of NumeroDeVariableDeMPlus] arg_cong [OF assms, of NumeroDeVariableDeMMoins]
    arg_cong [OF assms, of aj_Xmax]
  by (simp_all add: hors_lignes_aj_def)

lemma terme_ligne_ok:
  assumes t: "0 \<le> t" "nat t < length (table p0)"
    and table: "\<And>p. hors_lignes_aj p = hors_lignes_aj p0 \<Longrightarrow> table p = table p0"
  shows "termes.emits p0 C M L () (terme_ligne c table t) [(table p0 ! nat t, c)] 1 ()"
proof (rule termes.emitsI)
  fix z :: "nat \<times> AJUSTEMENT" and ts
  assume z: "rep_termes p0 C M L z ts" and l: "length ts + 1 \<le> M - nb_termes L"
  obtain n p where np: "z = (n, p)" by (cases z)
  let ?k = "aj_NbTermesMatrice p" and ?var = "table p0 ! nat t"
  have k: "?k = nb_termes L + length ts" "?k < M" using z l by (simp_all add: np rep_termes_def rangees_def Let_def nb_termes_def)
  have lens: "length (aj_Coefficients p) = M" "length (aj_IndicesColonnes p) = M"
    using z by (simp_all add: np rep_termes_def tailles_aj_def)
  have tp: "table p = table p0" using z by (intro table) (simp add: np rep_termes_def)
  let ?p' = "p\<lparr>aj_Coefficients := (aj_Coefficients p)[?k := c], aj_IndicesColonnes := (aj_IndicesColonnes p)[?k := ?var],
       aj_NbTermesMatrice := ?k + 1\<rparr>"
  have e: "terme_ligne c table t (n, p) = Inr (n + 1, ?p')"
    using t k lens by (simp add: terme_ligne_def tp)
  have us: "take (nb_termes L + length ts) (aj_IndicesColonnes p) = map fst (concat (map termes_de L) @ ts)"
    "take (nb_termes L + length ts) (aj_Coefficients p) = map snd (concat (map termes_de L) @ ts)"
    using z by (simp_all add: np rep_termes_def rangees_def Let_def nb_termes_def)
  have "rangees ?p' L (ts @ [(?var, c)])"
    using z us k lens take_Suc_update [of ?k "aj_IndicesColonnes p" ?var] take_Suc_update [of ?k "aj_Coefficients p" c]
    by (simp add: np rep_termes_def rangees_def Let_def nb_termes_def)
  then have "rep_termes p0 C M L (n + 1, ?p') (ts @ [(?var, c)])"
    using z by (simp add: np rep_termes_def tailles_aj_def hors_lignes_aj_def)
  then show "returns (terme_ligne c table t z) (\<lambda>s'. rep_termes p0 C M L s' (ts @ [(?var, c)]))"
    by (simp add: np e)
qed simp


lemma nb_termes_append [simp]: "nb_termes (L @ [l]) = nb_termes L + length (termes_de l)"
  by (simp add: nb_termes_def)

lemma ligne_ecrite:
  assumes F: "\<And>L. termes.emits (p0\<lparr>aj_Xmax := xmax\<rparr>) C M L () F ts (length ts) ()"
    and G: "\<And>p. aj_NombreDeContraintes p < length (aj_SecondMembre p) \<Longrightarrow>
      G p = Inr (p\<lparr>aj_SecondMembre := (aj_SecondMembre p)[aj_NombreDeContraintes p := b]\<rparr>)"
  shows "ajustement.emits p0 C M xmax (seqE [debut_ligne, \<lambda>p. bindE (F (0, p)) (\<lambda>(n, p). fin_ligne s n p), G, ligne_suivante])
    [(s, b, ts)] 1 xmax"
proof (rule ajustement.emitsI)
  fix p L assume r: "rep_aj p0 C M xmax p L" and a: "nb_termes (L @ [(s, b, ts)]) \<le> M" and l: "length L + 1 \<le> C"
  let ?p0 = "p0\<lparr>aj_Xmax := xmax\<rparr>"
  let ?p1 = "p\<lparr>aj_IndicesDebutDeLigne := (aj_IndicesDebutDeLigne p)[length L := nb_termes L]\<rparr>"
  have nc: "aj_NombreDeContraintes p = length L" "aj_NbTermesMatrice p = nb_termes L"
    using r by (simp_all add: rep_aj_def rangees_def Let_def nb_termes_def)
  have lens: "length (aj_IndicesDebutDeLigne p) = C" using r by (simp add: rep_aj_def tailles_aj_def)
  have d: "debut_ligne p = Inr ?p1" using l by (simp add: debut_ligne_def nc lens)
  have "hors_lignes_aj ?p1 = hors_lignes_aj ?p0" using r by (simp add: rep_aj_def) (simp add: hors_lignes_aj_def)
  moreover have "rangees ?p1 L []"
    using r by (simp add: rep_aj_def rangees_def Let_def)
  ultimately have "rep_termes ?p0 C M L (0, ?p1) []"
    using r l lens by (simp add: rep_termes_def rep_aj_def tailles_aj_def)
  from termes.emitsD [OF F this] a have "returns (F (0, ?p1)) (\<lambda>z. rep_termes ?p0 C M L z ts)"
    by (simp add: termes_de_def)
  then obtain p2 where p2: "F (0, ?p1) = Inr (length ts, p2)" and R: "rep_termes ?p0 C M L (length ts, p2) ts"
    by (elim returnsE) (auto simp: rep_termes_def split: prod.splits)
  have t2: "tailles_aj C M p2" "hors_lignes_aj p2 = hors_lignes_aj ?p0" "rangees p2 L ts"
    "aj_IndicesDebutDeLigne p2 ! length L = nb_termes L" and n2: "aj_NombreDeContraintes p2 = length L"
    using R by (simp_all add: rep_termes_def rangees_def Let_def)
  let ?p3 = "p2\<lparr>aj_NombreDeTermesDesLignes := (aj_NombreDeTermesDesLignes p2)[length L := length ts],
    aj_Sens := (aj_Sens p2)[length L := s]\<rparr>"
  let ?p4 = "?p3\<lparr>aj_SecondMembre := (aj_SecondMembre p2)[length L := b]\<rparr>"
  let ?p5 = "?p4\<lparr>aj_NombreDeContraintes := length L + 1\<rparr>"
  have 3: "fin_ligne s (length ts) p2 = Inr ?p3"
    using t2(1) l by (simp add: fin_ligne_def tailles_aj_def n2 Let_def)
  have 4: "G ?p3 = Inr ?p4" using G [of ?p3] t2(1) l by (simp add: tailles_aj_def n2)
  have 5: "ligne_suivante ?p4 = Inr ?p5" by (simp add: ligne_suivante_def n2)
  have "rangees ?p5 (L @ [(s, b, ts)]) []"
    using t2 l by (auto simp: rangees_def Let_def termes_de_def tailles_aj_def nth_append less_Suc_eq nth_list_update)
  moreover have "tailles_aj C M ?p5" using t2(1) by (simp add: tailles_aj_def)
  moreover have "hors_lignes_aj ?p5 = (hors_lignes_aj p0)\<lparr>aj_Xmax := xmax\<rparr>"
  proof -
    have "hors_lignes_aj ?p5 = hors_lignes_aj p2" by (simp add: hors_lignes_aj_def)
    also have "\<dots> = (hors_lignes_aj p0)\<lparr>aj_Xmax := xmax\<rparr>" unfolding t2(2) by (simp add: hors_lignes_aj_def)
    finally show ?thesis .
  qed
  ultimately have "rep_aj p0 C M xmax ?p5 (L @ [(s, b, ts)])" by (simp add: rep_aj_def)
  then show "returns (seqE [debut_ligne, \<lambda>p. bindE (F (0, p)) (\<lambda>(n, p). fin_ligne s n p), G, ligne_suivante] p)
      (\<lambda>s'. rep_aj p0 C M xmax s' (L @ [(s, b, ts)]))"
    using 4 by (simp add: d p2 3 5)
qed simp

subsection \<open>The rows of an hour\<close>

text \<open>The number of a variable of an hour: 0 for the running units, 1 for those that break down, 2 for those that start, 3
  for those that stop.\<close>

definition num_aj :: "nat \<Rightarrow> int \<Rightarrow> nat \<Rightarrow> nat" where
  "num_aj N t k = 4 * nat (retour N t) + k"

definition maxi_aj :: "nat \<Rightarrow> int list \<Rightarrow> int \<Rightarrow> int" where
  "maxi_aj N maxi t = maxi ! nat (retour N t)"

definition arret_max :: "nat \<Rightarrow> int list \<Rightarrow> int \<Rightarrow> int \<Rightarrow> int" where
  "arret_max N maxi Duree t = maxi_aj N maxi (t - Duree) +
     sum_list (map (\<lambda>k. max 0 (maxi_aj N maxi k - maxi_aj N maxi (k - 1))) [t - Duree + 1..t])"

definition lignes_heure :: "nat \<Rightarrow> int list \<Rightarrow> int \<Rightarrow> int \<Rightarrow> nat \<Rightarrow> ligne_aj list" where
  "lignes_heure N maxi DureeMarche DureeArret pdt = (let t = int pdt; v = num_aj N in
     [(CHR ''='', 0, [(v t 0, 1), (v (t - 1) 0, - 1), (v t 2, - 1), (v t 3, 1)]),
      (CHR ''<'', 0, [(v t 1, 1), (v t 3, - 1)]),
      (CHR ''>'', 0, (v t 0, 1) # concat (map (\<lambda>k. [(v k 2, - 1), (v k 1, 1)]) [t - DureeMarche + 1..t])),
      (CHR ''<'', of_int (arret_max N maxi DureeArret t), (v t 0, 1) # map (\<lambda>k. (v k 3, 1)) [t - DureeArret + 1..t])])"

definition tables_aj :: "nat \<Rightarrow> AJUSTEMENT \<Rightarrow> bool" where
  "tables_aj N p \<longleftrightarrow> NumeroDeVariableDeM p = map (\<lambda>t. 4 * t) [0..<N] \<and>
     NumeroDeVariableDeMMoinsMoins p = map (\<lambda>t. 4 * t + 1) [0..<N] \<and>
     NumeroDeVariableDeMPlus p = map (\<lambda>t. 4 * t + 2) [0..<N] \<and> NumeroDeVariableDeMMoins p = map (\<lambda>t. 4 * t + 3) [0..<N]"

definition heure_aj :: "nat \<Rightarrow> int \<Rightarrow> bool" where
  "heure_aj N t \<longleftrightarrow> - int N \<le> t \<and> t < int N"

lemma heure_ajD: "heure_aj N t \<Longrightarrow> 0 \<le> retour N t \<and> nat (retour N t) < N"
  by (auto simp: heure_aj_def retour_def)

lemma terme_aj_heure:
  assumes p0: "tables_aj N p0" and t: "heure_aj N t"
  shows "termes.emits p0 C M L () (terme_ligne c NumeroDeVariableDeM (retour N t)) [(num_aj N t 0, c)] 1 ()"
    "termes.emits p0 C M L () (terme_ligne c NumeroDeVariableDeMMoinsMoins (retour N t)) [(num_aj N t 1, c)] 1 ()"
    "termes.emits p0 C M L () (terme_ligne c NumeroDeVariableDeMPlus (retour N t)) [(num_aj N t 2, c)] 1 ()"
    "termes.emits p0 C M L () (terme_ligne c NumeroDeVariableDeMMoins (retour N t)) [(num_aj N t 3, c)] 1 ()"
  using terme_ligne_ok [of "retour N t" NumeroDeVariableDeM p0 C M L c, OF _ _ hors_lignes_tables(1)]
    terme_ligne_ok [of "retour N t" NumeroDeVariableDeMMoinsMoins p0 C M L c, OF _ _ hors_lignes_tables(2)]
    terme_ligne_ok [of "retour N t" NumeroDeVariableDeMPlus p0 C M L c, OF _ _ hors_lignes_tables(3)]
    terme_ligne_ok [of "retour N t" NumeroDeVariableDeMMoins p0 C M L c, OF _ _ hors_lignes_tables(4)]
    heure_ajD [OF t] p0
  by (simp_all add: tables_aj_def num_aj_def)


lemma retour_simps [simp]: "0 \<le> t \<Longrightarrow> retour N t = t" "retour N (int n) = int n"
  by (simp_all add: retour_def)

lemma heure_aj_nat [simp]: "heure_aj N (int t) \<longleftrightarrow> t < N"
  by (simp add: heure_aj_def)

lemma second_membre_pose:
  "aj_NombreDeContraintes p < length (aj_SecondMembre p) \<Longrightarrow>
     second_membre_ligne v p = Inr (p\<lparr>aj_SecondMembre := (aj_SecondMembre p)[aj_NombreDeContraintes p := v]\<rparr>)"
  by (simp add: second_membre_ligne_def)

text \<open>The terms of a row as one step of the store.\<close>

lemma termes_une: "termes.emits p0 C M L () f ts k () \<Longrightarrow> termes.emits p0 C M L () (seqE [f]) ts k ()"
  using termes.emits_seqE_Cons [OF _ termes.emits_seqE_Nil] by fastforce

lemmas termes_suite = termes.emits_seqE_Cons [of p0 C M L "()" _ _ _ "()" _ _ _ "()" for p0 C M L]

lemma termes_exacts: "termes.emits p0 C M L () f ts k () \<Longrightarrow> ts = ts' \<Longrightarrow> k = length ts' \<Longrightarrow>
    termes.emits p0 C M L () f ts' (length ts') ()"
  by simp

lemma tables_aj_xmax [simp]: "tables_aj N (p\<lparr>aj_Xmax := x\<rparr>) = tables_aj N p"
  by (simp add: tables_aj_def)

lemma lignes_heure_lues:
  fixes N maxi Dm Da pdt defines "v \<equiv> num_aj N" and "t \<equiv> int pdt"
  shows "lignes_heure N maxi Dm Da pdt ! 0 = (CHR ''='', 0, [(v t 0, 1), (v (t - 1) 0, - 1), (v t 2, - 1), (v t 3, 1)])"
    "lignes_heure N maxi Dm Da pdt ! 1 = (CHR ''<'', 0, [(v t 1, 1), (v t 3, - 1)])"
    "lignes_heure N maxi Dm Da pdt ! 2 =
      (CHR ''>'', 0, (v t 0, 1) # concat (map (\<lambda>k. [(v k 2, - 1), (v k 1, 1)]) [t - Dm + 1..t]))"
    "lignes_heure N maxi Dm Da pdt ! 3 =
      (CHR ''<'', of_int (arret_max N maxi Da t), (v t 0, 1) # map (\<lambda>k. (v k 3, 1)) [t - Da + 1..t])"
  by (simp_all add: lignes_heure_def Let_def v_def t_def numeral_2_eq_2 numeral_3_eq_3)

lemma ligne_equilibre_ok:
  assumes p0: "tables_aj N p0" and pdt: "pdt < N"
  shows "ajustement.emits p0 C M xmax (ligne_equilibre N pdt) [lignes_heure N maxi Dm Da pdt ! 0] 1 xmax"
proof -
  have h: "heure_aj N (int pdt)" "heure_aj N (int pdt - 1)" using pdt by (simp_all add: heure_aj_def)
  have q: "tables_aj N (p0\<lparr>aj_Xmax := xmax\<rparr>)" using p0 by simp
  note T = terme_aj_heure [OF q h(1), unfolded retour_simps]
  show ?thesis
    unfolding ligne_equilibre_def lignes_heure_lues
    by (rule ligne_ecrite [OF termes_exacts [OF termes_suite [OF T(1) termes_suite [OF terme_aj_heure(1) [OF q h(2)]
      termes_suite [OF T(3) termes_une [OF T(4)]]]]] second_membre_pose]) simp_all
qed

lemma ligne_pannes_ok:
  assumes p0: "tables_aj N p0" and pdt: "pdt < N"
  shows "ajustement.emits p0 C M xmax (ligne_pannes pdt) [lignes_heure N maxi Dm Da pdt ! 1] 1 xmax"
proof -
  have h: "heure_aj N (int pdt)" using pdt by simp
  have q: "tables_aj N (p0\<lparr>aj_Xmax := xmax\<rparr>)" using p0 by simp
  note T = terme_aj_heure [OF q h, unfolded retour_simps]
  show ?thesis
    unfolding ligne_pannes_def lignes_heure_lues
    by (rule ligne_ecrite [OF termes_exacts [OF termes_suite [OF T(2) termes_une [OF T(4)]]] second_membre_pose]) simp_all
qed

lemma ligne_marche_ok:
  assumes p0: "tables_aj N p0" and pdt: "pdt < N"
    and A: "0 \<le> Dm" "Dm \<le> int N"
  shows "ajustement.emits p0 C M xmax (ligne_marche N Dm pdt) [lignes_heure N maxi Dm Da pdt ! 2] 1 xmax"
proof -
  have h: "heure_aj N (int pdt)" using pdt by simp
  have q: "tables_aj N (p0\<lparr>aj_Xmax := xmax\<rparr>)" using p0 by simp
  have F: "termes.emits (p0\<lparr>aj_Xmax := xmax\<rparr>) C M L () (forE [int pdt - Dm + 1..int pdt] (\<lambda>k. seqE
      [terme_ligne (- 1) NumeroDeVariableDeMPlus (retour N k), terme_ligne 1 NumeroDeVariableDeMMoinsMoins (retour N k)]))
      (concat (map (\<lambda>k. [(num_aj N k 2, - 1), (num_aj N k 1, 1)]) [int pdt - Dm + 1..int pdt]))
      (sum_list (map (\<lambda>_. 2) [int pdt - Dm + 1..int pdt])) ()" for L
  proof (rule termes.emits_forE)
    fix k assume "k \<in> set [int pdt - Dm + 1..int pdt]"
    then have k: "heure_aj N k" using A pdt by (auto simp: heure_aj_def)
    show "termes.emits (p0\<lparr>aj_Xmax := xmax\<rparr>) C M L () (seqE [terme_ligne (- 1) NumeroDeVariableDeMPlus (retour N k),
        terme_ligne 1 NumeroDeVariableDeMMoinsMoins (retour N k)]) [(num_aj N k 2, - 1), (num_aj N k 1, 1)] 2 ()"
      using termes_suite [OF terme_aj_heure(3) [OF q k] termes_une [OF terme_aj_heure(2) [OF q k]]] by (simp add: numeral_2_eq_2)
  qed
  note T = terme_aj_heure [OF q h, unfolded retour_simps]
  show ?thesis
    unfolding ligne_marche_def lignes_heure_lues
    by (rule ligne_ecrite [OF termes_exacts [OF termes_suite [OF T(1) termes_une [OF F]]] second_membre_pose])
      (simp_all add: length_concat o_def numeral_2_eq_2)
qed


lemma forE_membre:
  assumes "\<And>k p. k \<in> set xs \<Longrightarrow> F k p = whenE (0 < y k) (\<lambda>p. bindE (lire (aj_SecondMembre p) (aj_NombreDeContraintes p)) (\<lambda>b.
      second_membre_ligne (b + of_int (y k)) p)) p"
    and "aj_NombreDeContraintes p < length (aj_SecondMembre p)"
  shows "forE xs F p = Inr (p\<lparr>aj_SecondMembre := (aj_SecondMembre p)[aj_NombreDeContraintes p :=
    aj_SecondMembre p ! aj_NombreDeContraintes p + of_int (sum_list (map (\<lambda>x. max 0 (y x)) xs))]\<rparr>)"
  using assms
proof (induction xs arbitrary: p)
  case (Cons x xs)
  let ?n = "aj_NombreDeContraintes p"
  let ?p = "if 0 < y x then p\<lparr>aj_SecondMembre := (aj_SecondMembre p)[?n := aj_SecondMembre p ! ?n + of_int (y x)]\<rparr> else p"
  have "F x p = Inr ?p"
    using Cons.prems by (simp add: whenE_def second_membre_ligne_def)
  moreover have "forE xs F ?p = Inr (?p\<lparr>aj_SecondMembre := (aj_SecondMembre ?p)[aj_NombreDeContraintes ?p :=
      aj_SecondMembre ?p ! aj_NombreDeContraintes ?p + of_int (sum_list (map (\<lambda>x. max 0 (y x)) xs))]\<rparr>)"
    by (rule Cons.IH) (use Cons.prems in simp_all)
  ultimately show ?case
    using Cons.prems(2) by (auto simp: max_def add.assoc)
qed simp

lemma retour_precedent: "- int N < k \<Longrightarrow> k < int N \<Longrightarrow> retour N (retour N k - 1) = retour N (k - 1)"
  by (auto simp: retour_def)

lemma lire_maxi:
  assumes "length maxi = N" and "heure_aj N t"
  shows "lire_int maxi (retour N t) = Inr (maxi_aj N maxi t)"
  using heure_ajD [OF assms(2)] assms(1) by (simp add: maxi_aj_def)

lemma membre_arret_pose:
  assumes maxi: "length maxi = N" and pdt: "pdt < N" and Da: "0 \<le> Da" "Da \<le> int N"
    and p: "aj_NombreDeContraintes p < length (aj_SecondMembre p)"
  shows "bindE (bindE (lire_int maxi (retour N (int pdt - Da))) (\<lambda>v. second_membre_ligne (of_int v) p))
      (forE [int pdt - Da + 1..int pdt] (\<lambda>k p. let t1 = retour N k in
         bindE (lire_int maxi t1) (\<lambda>v. bindE (lire_int maxi (retour N (t1 - 1))) (\<lambda>v'.
         whenE (v - v' > 0) (\<lambda>p. bindE (lire (aj_SecondMembre p) (aj_NombreDeContraintes p)) (\<lambda>b.
           second_membre_ligne (b + of_int (v - v')) p)) p)))) =
    Inr (p\<lparr>aj_SecondMembre := (aj_SecondMembre p)[aj_NombreDeContraintes p := of_int (arret_max N maxi Da (int pdt))]\<rparr>)"
proof -
  let ?y = "\<lambda>k. maxi_aj N maxi k - maxi_aj N maxi (k - 1)"
  have 1: "lire_int maxi (retour N (int pdt - Da)) = Inr (maxi_aj N maxi (int pdt - Da))"
    by (rule lire_maxi [OF maxi]) (use pdt Da in \<open>simp add: heure_aj_def\<close>)
  have pas: "(let t1 = retour N k in bindE (lire_int maxi t1) (\<lambda>v. bindE (lire_int maxi (retour N (t1 - 1))) (\<lambda>v'.
         whenE (v - v' > 0) (\<lambda>p. bindE (lire (aj_SecondMembre p) (aj_NombreDeContraintes p)) (\<lambda>b.
           second_membre_ligne (b + of_int (v - v')) p)) p))) =
      whenE (0 < ?y k) (\<lambda>p. bindE (lire (aj_SecondMembre p) (aj_NombreDeContraintes p)) (\<lambda>b.
        second_membre_ligne (b + of_int (?y k)) p)) p"
    if "k \<in> set [int pdt - Da + 1..int pdt]" for k p
  proof -
    have k: "heure_aj N k" "heure_aj N (k - 1)" "- int N < k" "k < int N" using that pdt Da by (auto simp: heure_aj_def)
    show ?thesis
      unfolding Let_def retour_precedent [OF k(3,4)] lire_maxi [OF maxi k(1)] lire_maxi [OF maxi k(2)] bindE_simps by simp
  qed
  note 2 = forE_membre [OF pas, of "[int pdt - Da + 1..int pdt]"]
  show ?thesis
    unfolding 1 bindE_simps second_membre_pose [OF p]
    by (subst 2) (use p in \<open>simp_all add: arret_max_def\<close>)
qed

lemma seqE_regroupe: "seqE [a, b, c, d, e] = seqE [a, b, \<lambda>p. bindE (c p) d, e]"
proof -
  have "seqE [c, d, e] = seqE [\<lambda>p. bindE (c p) d, e]"
  proof
    show "seqE [c, d, e] s = seqE [\<lambda>p. bindE (c p) d, e] s" for s by (cases "c s") simp_all
  qed
  then have "seqE [b, c, d, e] = seqE [b, \<lambda>p. bindE (c p) d, e]" by (intro ext) (simp only: seqE.simps)
  then show ?thesis by (intro ext) (simp only: seqE.simps)
qed

lemma hors_lignes_xmax [simp]: "hors_lignes_aj (p\<lparr>aj_Xmax := y\<rparr>) = (hors_lignes_aj p)\<lparr>aj_Xmax := y\<rparr>"
  by (simp add: hors_lignes_aj_def)

lemma ligne_arret_ok:
  assumes p0: "tables_aj N p0" and pdt: "pdt < N" and maxi: "length maxi = N"
    and A: "0 \<le> Da" "Da \<le> int N"
  shows "ajustement.emits p0 C M xmax (ligne_arret N maxi Da pdt) [lignes_heure N maxi Dm Da pdt ! 3] 1 xmax"
proof -
  have h: "heure_aj N (int pdt)" using pdt by simp
  have q: "tables_aj N (p0\<lparr>aj_Xmax := xmax\<rparr>)" using p0 by simp
  have F: "termes.emits (p0\<lparr>aj_Xmax := xmax\<rparr>) C M L ()
      (forE [int pdt - Da + 1..int pdt] (\<lambda>k. terme_ligne 1 NumeroDeVariableDeMMoins (retour N k)))
      (concat (map (\<lambda>k. [(num_aj N k 3, 1)]) [int pdt - Da + 1..int pdt]))
      (sum_list (map (\<lambda>_. 1) [int pdt - Da + 1..int pdt])) ()" for L
  proof (rule termes.emits_forE)
    fix k assume "k \<in> set [int pdt - Da + 1..int pdt]"
    then have "heure_aj N k" using A pdt by (auto simp: heure_aj_def)
    then show "termes.emits (p0\<lparr>aj_Xmax := xmax\<rparr>) C M L () (terme_ligne 1 NumeroDeVariableDeMMoins (retour N k))
        [(num_aj N k 3, 1)] 1 ()" by (rule terme_aj_heure(4) [OF q])
  qed
  note T = terme_aj_heure [OF q h, unfolded retour_simps]
  show ?thesis
    unfolding ligne_arret_def lignes_heure_lues seqE_regroupe
    by (rule ligne_ecrite [OF termes_exacts [OF termes_suite [OF T(1) termes_une [OF F]]]
      membre_arret_pose [OF maxi pdt A]]) (simp_all add: length_concat o_def sum_list_triv concat_map_singleton)
qed

lemma borne_pannes_ok:
  assumes p0: "tables_aj N p0" and pdt: "pdt < N" and maxi: "length maxi = N"
    and A: "length xmax = 4 * N"
  shows "ajustement.emits p0 C M xmax (borne_pannes N maxi pdt) [] 0
    (xmax[num_aj N (int pdt) 1 := of_int (max 0 (maxi_aj N maxi (int pdt - 1) - maxi_aj N maxi (int pdt)))])"
proof (rule ajustement.emitsI)
  fix p L assume r: "rep_aj p0 C M xmax p L"
  let ?v = "of_int (max 0 (maxi_aj N maxi (int pdt - 1) - maxi_aj N maxi (int pdt))) :: real"
  have hp: "hors_lignes_aj p = hors_lignes_aj (p0\<lparr>aj_Xmax := xmax\<rparr>)" using r by (simp add: rep_aj_def)
  have t: "lire (NumeroDeVariableDeMMoinsMoins p) pdt = Inr (4 * pdt + 1)" "aj_Xmax p = xmax"
    using hors_lignes_tables [OF hp] p0 pdt by (simp_all add: tables_aj_def)
  have "heure_aj N (int pdt - 1)" using pdt by (simp add: heure_aj_def)
  then have m: "lire_int maxi (retour N (int pdt - 1)) = Inr (maxi_aj N maxi (int pdt - 1))" by (rule lire_maxi [OF maxi])
  have m': "lire maxi pdt = Inr (maxi_aj N maxi (int pdt))" using pdt maxi by (simp add: maxi_aj_def)
  have l: "4 * pdt + 1 < length xmax" using A pdt by simp
  have "borne_pannes N maxi pdt p = Inr (p\<lparr>aj_Xmax := xmax[4 * pdt + 1 := ?v]\<rparr>)"
    using l unfolding borne_pannes_def t m m' bindE_simps by (simp add: max_def)
  moreover have "rep_aj p0 C M (xmax[4 * pdt + 1 := ?v]) (p\<lparr>aj_Xmax := xmax[4 * pdt + 1 := ?v]\<rparr>) L"
    using r by (simp add: rep_aj_def rangees_def Let_def tailles_aj_def)
  ultimately show "returns (borne_pannes N maxi pdt p)
      (\<lambda>s'. rep_aj p0 C M (xmax[num_aj N (int pdt) 1 := ?v]) s' (L @ []))"
    by (simp add: num_aj_def)
qed simp

lemma heure_ecrite:
  assumes p0: "tables_aj N p0" and pdt: "pdt < N" and maxi: "length maxi = N"
    and D: "0 \<le> Dm" "Dm \<le> int N" "0 \<le> Da" "Da \<le> int N" and x: "length xmax = 4 * N"
  shows "ajustement.emits p0 C M xmax (seqE [ligne_equilibre N pdt, ligne_pannes pdt, borne_pannes N maxi pdt,
      ligne_marche N Dm pdt, ligne_arret N maxi Da pdt]) (lignes_heure N maxi Dm Da pdt) 4
    (xmax[num_aj N (int pdt) 1 := of_int (max 0 (maxi_aj N maxi (int pdt - 1) - maxi_aj N maxi (int pdt)))])"
proof -
  have e: "lignes_heure N maxi Dm Da pdt = [lignes_heure N maxi Dm Da pdt ! 0] @ [lignes_heure N maxi Dm Da pdt ! 1] @ [] @
      [lignes_heure N maxi Dm Da pdt ! 2] @ [lignes_heure N maxi Dm Da pdt ! 3] @ []"
    by (simp add: lignes_heure_def Let_def numeral_2_eq_2 numeral_3_eq_3)
  have k: "(4 :: nat) = 1 + (1 + (0 + (1 + (1 + 0))))" by simp
  show ?thesis
    by (subst e, subst k)
      (intro ajustement.emits_seqE_Cons [OF ligne_equilibre_ok [OF p0 pdt]] ajustement.emits_seqE_Cons [OF ligne_pannes_ok [OF p0 pdt]]
        ajustement.emits_seqE_Cons [OF borne_pannes_ok [OF p0 pdt maxi x]] ajustement.emits_seqE_Cons [OF ligne_marche_ok [OF p0 pdt D(1,2)]]
        ajustement.emits_seqE_Cons [OF ligne_arret_ok [OF p0 pdt maxi D(3,4)]] ajustement.emits_seqE_Nil)
qed



subsection \<open>The variables\<close>

definition quatre :: "'a \<Rightarrow> nat \<Rightarrow> (nat \<Rightarrow> 'a list) \<Rightarrow> nat \<Rightarrow> 'a list" where
  "quatre z N f k = concat (map f [0..<k]) @ replicate (4 * (N - k)) z"

lemma quatre_simps [simp]: "quatre z N f 0 = replicate (4 * N) z" "quatre z N f N = concat (map f [0..<N])"
  by (simp_all add: quatre_def)

lemma quatre_Suc:
  assumes "k < N" and "\<And>t. length (f t) = 4"
  shows "length (quatre z N f k) = 4 * N"
    and "(quatre z N f k)[4 * k := f k ! 0, 4 * k + 1 := f k ! 1, 4 * k + 2 := f k ! 2, 4 * k + 3 := f k ! 3] = quatre z N f (Suc k)"
proof -
  have l: "length (concat (map f [0..<k])) = 4 * k"
    using assms(2) by (simp add: length_concat o_def sum_list_triv)
  show "length (quatre z N f k) = 4 * N" using l assms(1) by (simp add: quatre_def)
  obtain m where m: "N - k = Suc m" using assms(1) by (metis Suc_diff_Suc)
  then have m': "N - Suc k = m" by simp
  have r: "replicate (4 * Suc m) z = [z, z, z, z] @ replicate (4 * m) z" by (simp add: numeral_eq_Suc)
  obtain a b c d where f: "f k = [a, b, c, d]"
    using assms(2) [of k] by (auto simp: length_Suc_conv numeral_eq_Suc)
  show "(quatre z N f k)[4 * k := f k ! 0, 4 * k + 1 := f k ! 1, 4 * k + 2 := f k ! 2, 4 * k + 3 := f k ! 3] = quatre z N f (Suc k)"
    unfolding quatre_def m m' r by (simp add: list_update_append l f numeral_2_eq_2 numeral_3_eq_3)
qed

definition table_posee :: "nat \<Rightarrow> nat \<Rightarrow> nat \<Rightarrow> nat list" where
  "table_posee N j k = map (\<lambda>t. 4 * t + j) [0..<k] @ replicate (N - k) 0"

lemma table_posee_simps [simp]: "table_posee N j 0 = replicate N 0" "table_posee N j N = map (\<lambda>t. 4 * t + j) [0..<N]"
  by (simp_all add: table_posee_def)

lemma table_posee_Suc:
  assumes "k < N"
  shows "length (table_posee N j k) = N" and "(table_posee N j k)[k := 4 * k + j] = table_posee N j (Suc k)"
proof -
  obtain m where m: "N - k = Suc m" using assms by (metis Suc_diff_Suc)
  then have m': "N - Suc k = m" by simp
  show "length (table_posee N j k) = N" using assms by (simp add: table_posee_def)
  show "(table_posee N j k)[k := 4 * k + j] = table_posee N j (Suc k)"
    unfolding table_posee_def m m' by (simp add: list_update_append)
qed

definition couts_aj :: "nat \<Rightarrow> real list" where "couts_aj t = [1, 0, 0, 0]"

definition xmin_aj :: "int list \<Rightarrow> nat \<Rightarrow> real list" where "xmin_aj mini t = [of_int (mini ! t), 0, 0, 0]"

definition xmax_aj :: "int list \<Rightarrow> nat \<Rightarrow> real list" where "xmax_aj maxi t = [of_int (maxi ! t), 0, 10 ^ 80, 10 ^ 80]"

definition types_aj :: "nat \<Rightarrow> type_variable list" where
  "types_aj t = [VARIABLE_BORNEE_DES_DEUX_COTES, VARIABLE_BORNEE_DES_DEUX_COTES, VARIABLE_BORNEE_INFERIEUREMENT,
     VARIABLE_BORNEE_INFERIEUREMENT]"

lemma length_aj [simp]: "length (couts_aj t) = 4" "length (xmin_aj mini t) = 4" "length (xmax_aj maxi t) = 4"
  "length (types_aj t) = 4"
  by (simp_all add: couts_aj_def xmin_aj_def xmax_aj_def types_aj_def)

definition variables_posees :: "nat \<Rightarrow> int list \<Rightarrow> int list \<Rightarrow> int \<Rightarrow> int \<Rightarrow> nat \<Rightarrow> AJUSTEMENT" where
  "variables_posees N mini maxi Dm Da k = (allouer_ajustement N Dm Da)\<lparr>NumeroDeVariableDeM := table_posee N 0 k,
     NumeroDeVariableDeMMoinsMoins := table_posee N 1 k, NumeroDeVariableDeMPlus := table_posee N 2 k,
     NumeroDeVariableDeMMoins := table_posee N 3 k, aj_NombreDeVariables := 4 * k,
     aj_CoutLineaire := quatre 0 N couts_aj k, aj_Xmin := quatre 0 N (xmin_aj mini) k,
     aj_Xmax := quatre 0 N (xmax_aj maxi) k, aj_TypeDeVariable := quatre VARIABLE_FIXE N types_aj k\<rparr>"

lemma ajouter_variable_ok:
  assumes "pdt < length (table p)" and "aj_NombreDeVariables p < length (aj_CoutLineaire p)"
    "aj_NombreDeVariables p < length (aj_Xmin p)" "aj_NombreDeVariables p < length (aj_Xmax p)"
    "aj_NombreDeVariables p < length (aj_TypeDeVariable p)"
  shows "ajouter_variable upd table pdt cout mini maxi ty p = Inr ((upd (\<lambda>_. (table p)[pdt := aj_NombreDeVariables p]) p)
     \<lparr>aj_CoutLineaire := (aj_CoutLineaire p)[aj_NombreDeVariables p := cout],
      aj_Xmin := (aj_Xmin p)[aj_NombreDeVariables p := mini],
      aj_Xmax := (case maxi of None \<Rightarrow> aj_Xmax p | Some v \<Rightarrow> (aj_Xmax p)[aj_NombreDeVariables p := v]),
      aj_TypeDeVariable := (aj_TypeDeVariable p)[aj_NombreDeVariables p := ty],
      aj_NombreDeVariables := aj_NombreDeVariables p + 1\<rparr>)"
  using assms by (cases maxi) (simp_all add: ajouter_variable_def Let_def)


lemma quatre_trois:
  assumes "k < N" and "\<And>t. length (f t) = 4" and "f k ! 1 = z"
  shows "(quatre z N f k)[4 * k := f k ! 0, 4 * k + 2 := f k ! 2, 4 * k + 3 := f k ! 3] = quatre z N f (Suc k)"
proof -
  have l: "length (concat (map f [0..<k])) = 4 * k"
    using assms(2) by (simp add: length_concat o_def sum_list_triv)
  have "quatre z N f k ! (4 * k + 1) = z" using assms(1) by (simp add: quatre_def nth_append l)
  then have "(quatre z N f k)[4 * k := f k ! 0] = (quatre z N f k)[4 * k := f k ! 0, 4 * k + 1 := f k ! 1]"
    using assms(3) list_update_id [of "(quatre z N f k)[4 * k := f k ! 0]" "4 * k + 1"] by simp
  moreover have "(quatre z N f k)[4 * k := f k ! 0, 4 * k + 1 := f k ! 1, 4 * k + 2 := f k ! 2, 4 * k + 3 := f k ! 3] =
      quatre z N f (Suc k)"
    by (rule quatre_Suc(2)) (use assms in simp_all)
  ultimately show ?thesis by (simp only:)
qed

lemma variables_heure_ok:
  assumes k: "k < N" and l: "length mini = N" "length maxi = N"
  shows "variables_heure mini maxi k (variables_posees N mini maxi Dm Da k) = Inr (variables_posees N mini maxi Dm Da (Suc k))"
proof -
  have n: "4 * k < 4 * N" "Suc (4 * k) < 4 * N" "4 * k + 2 < 4 * N" "4 * k + 3 < 4 * N" using k by simp_all
  note t = table_posee_Suc [OF k]
  have q: "length (quatre 0 N couts_aj k) = 4 * N" "length (quatre 0 N (xmin_aj mini) k) = 4 * N"
    "length (quatre 0 N (xmax_aj maxi) k) = 4 * N" "length (quatre VARIABLE_FIXE N types_aj k) = 4 * N"
    by (rule quatre_Suc(1) [OF k], simp)+
  have e: "(quatre 0 N couts_aj k)[4 * k := 1, Suc (4 * k) := 0, 4 * k + 2 := 0, 4 * k + 3 := 0] = quatre 0 N couts_aj (Suc k)"
    "(quatre 0 N (xmin_aj mini) k)[4 * k := of_int (mini ! k), Suc (4 * k) := 0, 4 * k + 2 := 0, 4 * k + 3 := 0] =
       quatre 0 N (xmin_aj mini) (Suc k)"
    "(quatre VARIABLE_FIXE N types_aj k)[4 * k := VARIABLE_BORNEE_DES_DEUX_COTES, Suc (4 * k) := VARIABLE_BORNEE_DES_DEUX_COTES,
       4 * k + 2 := VARIABLE_BORNEE_INFERIEUREMENT, 4 * k + 3 := VARIABLE_BORNEE_INFERIEUREMENT] =
       quatre VARIABLE_FIXE N types_aj (Suc k)"
    using quatre_Suc(2) [OF k, of couts_aj 0] quatre_Suc(2) [OF k, of "xmin_aj mini" 0]
      quatre_Suc(2) [OF k, of types_aj VARIABLE_FIXE]
    by (simp_all add: couts_aj_def xmin_aj_def types_aj_def numeral_2_eq_2 numeral_3_eq_3)
  have x: "(quatre 0 N (xmax_aj maxi) k)[4 * k := of_int (maxi ! k), 4 * k + 2 := 10 ^ 80, 4 * k + 3 := 10 ^ 80] =
       quatre 0 N (xmax_aj maxi) (Suc k)"
    using quatre_trois [OF k, of "xmax_aj maxi" 0] by (simp add: xmax_aj_def numeral_2_eq_2 numeral_3_eq_3)
  define r where "r m mm mp mo n c a z ty = (allouer_ajustement N Dm Da)\<lparr>NumeroDeVariableDeM := m,
     NumeroDeVariableDeMMoinsMoins := mm, NumeroDeVariableDeMPlus := mp, NumeroDeVariableDeMMoins := mo,
     aj_NombreDeVariables := n, aj_CoutLineaire := c, aj_Xmin := a, aj_Xmax := z, aj_TypeDeVariable := ty\<rparr>"
    for m mm mp mo n c a z ty
  let ?T = "\<lambda>j. table_posee N j k" and ?T' = "\<lambda>j. table_posee N j (Suc k)"
  let ?c = "quatre 0 N couts_aj k" and ?a = "quatre 0 N (xmin_aj mini) k" and ?z = "quatre 0 N (xmax_aj maxi) k"
    and ?y = "quatre VARIABLE_FIXE N types_aj k" and ?D = VARIABLE_BORNEE_DES_DEUX_COTES and ?I = VARIABLE_BORNEE_INFERIEUREMENT
  let ?c1 = "?c[4 * k := 1]" and ?a1 = "?a[4 * k := of_int (mini ! k)]" and ?z1 = "?z[4 * k := of_int (maxi ! k)]"
    and ?y1 = "?y[4 * k := ?D]"
  let ?c2 = "?c1[Suc (4 * k) := 0]" and ?a2 = "?a1[Suc (4 * k) := 0]" and ?y2 = "?y1[Suc (4 * k) := ?D]"
  let ?c3 = "?c2[4 * k + 2 := 0]" and ?a3 = "?a2[4 * k + 2 := 0]" and ?z3 = "?z1[4 * k + 2 := 10 ^ 80]" and ?y3 = "?y2[4 * k + 2 := ?I]"
  have b: "variables_posees N mini maxi Dm Da k = r (?T 0) (?T 1) (?T 2) (?T 3) (4 * k) ?c ?a ?z ?y"
    by (simp only: variables_posees_def r_def)
  have 1: "ajouter_variable NumeroDeVariableDeM_update NumeroDeVariableDeM k 1 (of_int (mini ! k)) (Some (of_int (maxi ! k)))
      ?D (r (?T 0) (?T 1) (?T 2) (?T 3) (4 * k) ?c ?a ?z ?y) = Inr (r (?T' 0) (?T 1) (?T 2) (?T 3) (4 * k + 1) ?c1 ?a1 ?z1 ?y1)"
    using n t(1) q t(2) [of 0] by (subst ajouter_variable_ok) (simp_all add: r_def)
  have 2: "ajouter_variable NumeroDeVariableDeMMoinsMoins_update NumeroDeVariableDeMMoinsMoins k 0 0 None ?D
      (r (?T' 0) (?T 1) (?T 2) (?T 3) (4 * k + 1) ?c1 ?a1 ?z1 ?y1) =
      Inr (r (?T' 0) (?T' 1) (?T 2) (?T 3) (4 * k + 2) ?c2 ?a2 ?z1 ?y2)"
    using n t(1) q t(2) [of 1] by (subst ajouter_variable_ok) (simp_all add: r_def)
  have 3: "ajouter_variable NumeroDeVariableDeMPlus_update NumeroDeVariableDeMPlus k 0 0 (Some (10 ^ 80)) ?I
      (r (?T' 0) (?T' 1) (?T 2) (?T 3) (4 * k + 2) ?c2 ?a2 ?z1 ?y2) =
      Inr (r (?T' 0) (?T' 1) (?T' 2) (?T 3) (4 * k + 3) ?c3 ?a3 ?z3 ?y3)"
    using n t(1) q t(2) [of 2] by (subst ajouter_variable_ok) (simp_all add: r_def)
  have 4: "ajouter_variable NumeroDeVariableDeMMoins_update NumeroDeVariableDeMMoins k 0 0 (Some (10 ^ 80)) ?I
      (r (?T' 0) (?T' 1) (?T' 2) (?T 3) (4 * k + 3) ?c3 ?a3 ?z3 ?y3) =
      Inr (r (?T' 0) (?T' 1) (?T' 2) (?T' 3) (4 * k + 4) (?c3[4 * k + 3 := 0]) (?a3[4 * k + 3 := 0]) (?z3[4 * k + 3 := 10 ^ 80])
        (?y3[4 * k + 3 := ?I]))"
    using n t(1) q t(2) [of 3] by (subst ajouter_variable_ok) (simp_all add: r_def)
  have m: "4 * k + 4 = 4 * Suc k" by simp
  have "variables_posees N mini maxi Dm Da (Suc k) = r (?T' 0) (?T' 1) (?T' 2) (?T' 3) (4 * k + 4) (?c3[4 * k + 3 := 0])
      (?a3[4 * k + 3 := 0]) (?z3[4 * k + 3 := 10 ^ 80]) (?y3[4 * k + 3 := ?I])"
    unfolding e x m by (simp only: variables_posees_def r_def)
  then show ?thesis
    using k l by (simp only: b variables_heure_def seqE.simps lire_in bindE_simps 1 2 3 4)
qed

definition variables_ajustement :: "nat \<Rightarrow> int list \<Rightarrow> int list \<Rightarrow> int \<Rightarrow> int \<Rightarrow> AJUSTEMENT" where
  "variables_ajustement N mini maxi Dm Da = variables_posees N mini maxi Dm Da N"

lemma variables_ok:
  assumes "length mini = N" and "length maxi = N"
  shows "forE [0..<N] (variables_heure mini maxi) (allouer_ajustement N Dm Da) = Inr (variables_ajustement N mini maxi Dm Da)"
proof -
  have "returns (forE [0..<N] (variables_heure mini maxi) (variables_posees N mini maxi Dm Da 0))
      (\<lambda>p. p = variables_posees N mini maxi Dm Da N)"
    by (rule returns_for_upt) (use variables_heure_ok [OF _ assms] in simp_all)
  moreover have "variables_posees N mini maxi Dm Da 0 = allouer_ajustement N Dm Da"
    by (simp add: variables_posees_def allouer_ajustement_def Let_def)
  ultimately show ?thesis by (auto dest!: returnsD simp: variables_ajustement_def)
qed


subsection \<open>The whole problem\<close>

definition bornes_sup :: "nat \<Rightarrow> int list \<Rightarrow> nat \<Rightarrow> real list" where
  "bornes_sup N maxi t = [of_int (maxi ! t), of_int (max 0 (maxi_aj N maxi (int t - 1) - maxi_aj N maxi (int t))), 10 ^ 80, 10 ^ 80]"

definition ajustement_pose :: "nat \<Rightarrow> int list \<Rightarrow> int list \<Rightarrow> int \<Rightarrow> int \<Rightarrow> AJUSTEMENT \<Rightarrow> bool" where
  "ajustement_pose N mini maxi Dm Da p \<longleftrightarrow> tables_aj N p \<and> aj_NombreDeVariables p = 4 * N \<and>
     lignes_aj p = concat (map (lignes_heure N maxi Dm Da) [0..<N]) \<and>
     aj_CoutLineaire p = concat (map couts_aj [0..<N]) \<and> aj_Xmin p = concat (map (xmin_aj mini) [0..<N]) \<and>
     aj_Xmax p = concat (map (bornes_sup N maxi) [0..<N]) \<and> aj_TypeDeVariable p = concat (map types_aj [0..<N])"

definition xmax_apres :: "nat \<Rightarrow> int list \<Rightarrow> nat \<Rightarrow> real list" where
  "xmax_apres N maxi k = concat (map (bornes_sup N maxi) [0..<k]) @ concat (map (xmax_aj maxi) [k..<N])"

lemma xmax_apres_ok:
  assumes "k < N"
  shows "length (xmax_apres N maxi k) = 4 * N"
    and "(xmax_apres N maxi k)[num_aj N (int k) 1 := of_int (max 0 (maxi_aj N maxi (int k - 1) - maxi_aj N maxi (int k)))] =
      xmax_apres N maxi (Suc k)"
proof -
  have l: "length (concat (map (bornes_sup N maxi) [0..<k])) = 4 * k"
    by (simp add: length_concat o_def sum_list_triv bornes_sup_def)
  show "length (xmax_apres N maxi k) = 4 * N"
    using assms by (simp add: xmax_apres_def length_concat o_def sum_list_triv bornes_sup_def)
  have "[k..<N] = k # [Suc k..<N]" using assms by (rule upt_conv_Cons)
  then show "(xmax_apres N maxi k)[num_aj N (int k) 1 := of_int (max 0 (maxi_aj N maxi (int k - 1) - maxi_aj N maxi (int k)))] =
      xmax_apres N maxi (Suc k)"
    by (simp add: xmax_apres_def num_aj_def list_update_append l) (simp add: xmax_aj_def bornes_sup_def)
qed

lemma nb_termes_heure:
  assumes "0 \<le> Dm" and "0 \<le> Da"
  shows "nb_termes (lignes_heure N maxi Dm Da t) = nat (8 + 2 * Dm + Da)"
proof -
  have "length (concat (map (\<lambda>k. [(num_aj N k 2, - 1 :: real), (num_aj N k 1, 1)]) [int t - Dm + 1..int t])) = 2 * nat Dm"
    by (simp add: length_concat o_def sum_list_triv)
  then show ?thesis
    using assms by (simp add: nb_termes_def lignes_heure_def Let_def termes_de_def)
qed

lemma nb_termes_heures:
  assumes "0 \<le> Dm" and "0 \<le> Da"
  shows "nb_termes (concat (map (lignes_heure N maxi Dm Da) [0..<k])) = k * nat (8 + 2 * Dm + Da)"
proof (induction k)
  case (Suc k)
  have "nb_termes (xs @ ys) = nb_termes xs + nb_termes ys" for xs ys by (simp add: nb_termes_def)
  then show ?case using Suc.IH nb_termes_heure [OF assms, of N maxi k] by (simp add: add.commute)
qed (simp add: nb_termes_def)

lemma construire_ajustement_ok:
  assumes l: "length mini = N" "length maxi = N" and D: "0 \<le> Dm" "Dm \<le> int N" "0 \<le> Da" "Da \<le> int N"
  shows "returns (construire_ajustement N mini maxi Dm Da) (ajustement_pose N mini maxi Dm Da)"
proof -
  let ?p0 = "variables_ajustement N mini maxi Dm Da"
  let ?M = "nat (int (4 * N + 2 * N + N) + int N * (1 + 2 * Dm) + int N * (1 + Da))"
  have M: "?M = N * nat (9 + 2 * Dm + Da)"
    using D by (simp add: nat_eq_iff algebra_simps)
  have t0: "tables_aj N ?p0"
    by (simp add: tables_aj_def variables_ajustement_def variables_posees_def)
  let ?I = "\<lambda>k p. rep_aj ?p0 (5 * N) ?M (xmax_apres N maxi k) p (concat (map (lignes_heure N maxi Dm Da) [0..<k]))"
  have "returns (forE [0..<N] (\<lambda>pdt. seqE [ligne_equilibre N pdt, ligne_pannes pdt, borne_pannes N maxi pdt,
      ligne_marche N Dm pdt, ligne_arret N maxi Da pdt]) ?p0) (?I N)"
  proof (rule returns_for_upt [where I = ?I])
    have "aj_Xmax ?p0 = xmax_apres N maxi 0"
      by (simp add: variables_ajustement_def variables_posees_def xmax_apres_def)
    then have "hors_lignes_aj ?p0 = (hors_lignes_aj ?p0)\<lparr>aj_Xmax := xmax_apres N maxi 0\<rparr>"
      by (simp add: hors_lignes_aj_def)
    moreover have "rangees ?p0 [] []" "tailles_aj (5 * N) ?M ?p0"
      by (simp_all add: rangees_def tailles_aj_def variables_ajustement_def variables_posees_def allouer_ajustement_def Let_def)
    ultimately show "?I 0 ?p0" by (simp add: rep_aj_def)
    fix k p assume k: "k < N" and p: "?I k p"
    let ?L = "concat (map (lignes_heure N maxi Dm Da) [0..<k])"
    have "Suc k * nat (8 + 2 * Dm + Da) \<le> ?M" unfolding M using k D by (intro mult_le_mono) simp_all
    then have a: "nb_termes (?L @ lignes_heure N maxi Dm Da k) \<le> ?M"
      using nb_termes_heures [OF D(1,3), of N maxi "Suc k"] by simp
    have "length ?L = 4 * k"
      by (simp add: length_concat o_def sum_list_triv lignes_heure_def Let_def)
    then have "length ?L + 4 \<le> 5 * N" using k by simp
    from ajustement.emitsD [OF heure_ecrite [OF t0 k l(2) D xmax_apres_ok(1) [OF k]] p a this]
    show "returns (seqE [ligne_equilibre N k, ligne_pannes k, borne_pannes N maxi k, ligne_marche N Dm k,
        ligne_arret N maxi Da k] p) (?I (Suc k))"
      unfolding xmax_apres_ok(2) [OF k] by simp
  qed
  then show ?thesis
    unfolding construire_ajustement_def variables_ok [OF l] bindE_simps
  proof (rule returns_mono)
    fix p assume p: "?I N p"
    then have r: "lignes_aj p = concat (map (lignes_heure N maxi Dm Da) [0..<N])"
      by (intro lignes_aj_lues) (simp add: rep_aj_def)
    have h: "hors_lignes_aj p = (hors_lignes_aj ?p0)\<lparr>aj_Xmax := xmax_apres N maxi N\<rparr>"
      using p by (simp add: rep_aj_def)
    have x: "xmax_apres N maxi N = concat (map (bornes_sup N maxi) [0..<N])" by (simp add: xmax_apres_def)
    have h': "hors_lignes_aj p = hors_lignes_aj (?p0\<lparr>aj_Xmax := xmax_apres N maxi N\<rparr>)" using h by simp
    note f = hors_lignes_tables [OF h'] arg_cong [OF h', of aj_NombreDeVariables] arg_cong [OF h', of aj_CoutLineaire]
      arg_cong [OF h', of aj_Xmin] arg_cong [OF h', of aj_TypeDeVariable]
    show "ajustement_pose N mini maxi Dm Da p"
      using f t0 r x by (simp add: ajustement_pose_def tables_aj_def)
        (simp add: hors_lignes_aj_def variables_ajustement_def variables_posees_def)
  qed
qed


end
