(* ===== verification/Heuristic_Correct.thy ===== *)
theory Heuristic_Correct
  imports Thermal_Heuristic
begin

text \<open>
  The heuristics of \<open>Thermal_Heuristic\<close> on the whole: the search keeps the first of the cheapest shifts, and the
  minimum powers of every cluster are raised to its step curve, within the power available; nothing but these minimum
  powers and the two work vectors changes.
\<close>

subsection \<open>The shift that is kept\<close>

lemma intervalle_ajustement_le: "intervalle_ajustement N MUTetMDT \<le> N"
  by (cases "MUTetMDT \<le> int N") (auto simp: intervalle_ajustement_def Let_def)

text \<open>The curve of a shift and its distance from the guide.\<close>

definition courbe_decalee :: "nat \<Rightarrow> int \<Rightarrow> int list \<Rightarrow> nat \<Rightarrow> int list" where
  "courbe_decalee N MUTetMDT guide i =
     courbe i (N - intervalle_ajustement N MUTetMDT + i) (nat MUTetMDT) N guide"

text \<open>The first of the cheapest shifts; none when no shift costs less than the initial value of \<open>EcartOpt\<close>.\<close>

definition meilleur_decalage :: "nat \<Rightarrow> int \<Rightarrow> int list \<Rightarrow> nat \<Rightarrow> bool" where
  "meilleur_decalage N MUTetMDT guide i \<longleftrightarrow> (let e = \<lambda>j. ecart (courbe_decalee N MUTetMDT guide j) guide in
     i \<le> intervalle_ajustement N MUTetMDT \<and> e i < 10 ^ 80 \<and>
     (\<forall>j \<le> intervalle_ajustement N MUTetMDT. e i \<le> e j) \<and> (\<forall>j < i. e i < e j))"

lemma courbe_decalee_ok:
  assumes g: "length guide = N" "length opt = N" and m: "0 < MUTetMDT" and i: "i \<le> intervalle_ajustement N MUTetMDT"
  shows "OPT_CalculerAireMaxPminJour i (N - intervalle_ajustement N MUTetMDT + i) MUTetMDT N guide opt =
    Inr (ecart (courbe_decalee N MUTetMDT guide i) guide, courbe_decalee N MUTetMDT guide i)"
  unfolding courbe_decalee_def
  by (rule OPT_CalculerAire_ok [OF g _ _ m]) (use i intervalle_ajustement_le [of N MUTetMDT] in auto)

lemma length_courbe_decalee [simp]: "length (courbe_decalee N MUTetMDT guide i) = N"
  by (simp add: courbe_decalee_def)

lemma chercher_decalage_ok:
  assumes g: "length guide = N" "length opt = N" and m: "0 < MUTetMDT"
  shows "returns (chercher_decalage N MUTetMDT guide opt) (\<lambda>(EcartOpt, iOpt, opt'). length opt' = N \<and>
    (case iOpt of None \<Rightarrow> \<forall>j \<le> intervalle_ajustement N MUTetMDT. 10 ^ 80 \<le> ecart (courbe_decalee N MUTetMDT guide j) guide
     | Some i \<Rightarrow> meilleur_decalage N MUTetMDT guide i))"
proof -
  let ?I = "intervalle_ajustement N MUTetMDT" and ?e = "\<lambda>j. ecart (courbe_decalee N MUTetMDT guide j) guide"
  let ?J = "\<lambda>n (E, iOpt, opt'). length opt' = N \<and> (case iOpt of None \<Rightarrow> E = 10 ^ 80 \<and> (\<forall>j < n. 10 ^ 80 \<le> ?e j)
     | Some i \<Rightarrow> i < n \<and> E = ?e i \<and> E < 10 ^ 80 \<and> (\<forall>j < n. ?e i \<le> ?e j) \<and> (\<forall>j < i. ?e i < ?e j))"
  have "returns (chercher_decalage N MUTetMDT guide opt) (?J (Suc ?I))"
    unfolding chercher_decalage_def Let_def
  proof (rule returns_for_upt [where I = ?J])
    show "?J 0 (10 ^ 80, None, opt)" using g(2) by simp
    fix k and z :: "real \<times> nat option \<times> int list"
    assume k: "k < Suc ?I" and J: "?J k z"
    obtain E iOpt o1 where z: "z = (E, iOpt, o1)" by (cases z)
    have c: "OPT_CalculerAireMaxPminJour k (N - ?I + k) MUTetMDT N guide o1 = Inr (?e k, courbe_decalee N MUTetMDT guide k)"
      by (rule courbe_decalee_ok) (use J k g m in \<open>simp_all add: z\<close>)
    show "returns (case z of (EcartOpt, iOpt, opt) \<Rightarrow>
        bindE (OPT_CalculerAireMaxPminJour k (N - ?I + k) MUTetMDT N guide opt) (\<lambda>(Ecart, opt).
        Inr (if Ecart < EcartOpt then (Ecart, Some k, opt) else (EcartOpt, iOpt, opt)))) (?J (Suc k))"
      using J by (cases iOpt) (auto simp: z c less_Suc_eq)
  qed
  then show ?thesis
    by (rule returns_mono) (auto simp: meilleur_decalage_def less_Suc_eq_le Let_def split: option.splits)
qed

subsection \<open>The minimum powers of a cluster\<close>

lemma calculer_guide_ok:
  assumes g: "length guide = NombreDePasDeTemps h"
    and a: "\<And>t. t < NombreDePasDeTemps h \<Longrightarrow> adresse_valide h (ProductionThermiqueDuPalier pays t palier)"
  shows "calculer_guide h R pays palier taille guide = Inr (map (\<lambda>t. groupes_pour taille
    (contenu R (ProductionThermiqueDuPalier pays t palier))) [0..<NombreDePasDeTemps h])"
proof -
  let ?v = "\<lambda>t. groupes_pour taille (contenu R (ProductionThermiqueDuPalier pays t palier))"
  have "returns (calculer_guide h R pays palier taille guide)
      (\<lambda>g'. g' = map ?v [0..<NombreDePasDeTemps h] @ drop (NombreDePasDeTemps h) guide)"
    unfolding calculer_guide_def
  proof (rule returns_for_upt [where I = "\<lambda>n g'. g' = map ?v [0..<n] @ drop n guide"])
    fix k g' assume k: "k < NombreDePasDeTemps h" and "g' = map ?v [0..<k] @ drop k guide"
    then show "returns (bindE (lire_adresse h R (ProductionThermiqueDuPalier pays k palier))
        (\<lambda>P. ecrire g' k (groupes_pour taille P))) (\<lambda>g'. g' = map ?v [0..<Suc k] @ drop (Suc k) guide)"
      using g a [OF k] by (simp add: lire_adresse_def list_update_append1 list_update_append upd_conv_take_nth_drop
          Cons_nth_drop_Suc [symmetric])
  qed simp
  then show ?thesis using g by (auto dest!: returnsD)
qed

definition pmin_releve :: "nat \<Rightarrow> real \<Rightarrow> int list \<Rightarrow> PDISP_ET_COUTS_HORAIRES_PAR_PALIER \<Rightarrow> PDISP_ET_COUTS_HORAIRES_PAR_PALIER" where
  "pmin_releve N pmin opt x = x\<lparr>PuissanceMinDuPalierThermique := map (\<lambda>t.
     min (max (PuissanceMinDuPalierThermique x ! t) (pmin * real_of_int (opt ! t))) (PuissanceDisponibleDuPalierThermique x ! t))
     [0..<N]\<rparr>"

lemma relever_pmin_ok:
  assumes x: "pdisp_ok N x" and o: "length opt = N"
  shows "relever_pmin N pmin opt x = Inr (pmin_releve N pmin opt x)"
proof -
  let ?U = "\<lambda>m. x\<lparr>PuissanceMinDuPalierThermique := m\<rparr>" and ?m = "PuissanceMinDuPalierThermique x"
  let ?v = "\<lambda>t v. min (max v (pmin * real_of_int (opt ! t))) (PuissanceDisponibleDuPalierThermique x ! t)"
  have l: "length ?m = N" "length (PuissanceDisponibleDuPalierThermique x) = N" using x by (simp_all add: pdisp_ok_def)
  have "relever_pmin N pmin opt (?U ?m) = Inr (?U (map (\<lambda>t. ?v t (?m ! t)) [0..<N]))"
    unfolding relever_pmin_def
  proof (rule forE_colonne [OF l(1)])
    fix t and m :: "real list" assume "t < N" "length m = N"
    then show "bindE (lire opt t) (\<lambda>n. bindE (lire (PuissanceMinDuPalierThermique (?U m)) t) (\<lambda>v.
     bindE (if pmin * real_of_int n > v then ecrire (PuissanceMinDuPalierThermique (?U m)) t (pmin * real_of_int n)
            else Inr (PuissanceMinDuPalierThermique (?U m))) (\<lambda>mini.
     bindE (lire mini t) (\<lambda>v. bindE (lire (PuissanceDisponibleDuPalierThermique (?U m)) t) (\<lambda>dispo.
     bindE (if v > dispo then ecrire mini t dispo else Inr mini) (\<lambda>mini.
     Inr ((?U m)\<lparr>PuissanceMinDuPalierThermique := mini\<rparr>))))))) = Inr (?U (m[t := ?v t (m ! t)]))"
      using l o list_update_id [of m t] by (auto simp: min_def max_def)
  qed
  then show ?thesis by (simp add: pmin_releve_def)
qed


subsection \<open>One cluster of the data\<close>

definition avec_palier :: "nat \<Rightarrow> nat \<Rightarrow> PDISP_ET_COUTS_HORAIRES_PAR_PALIER \<Rightarrow> DONNEES \<Rightarrow> DONNEES" where
  "avec_palier pays palier x d = d\<lparr>PaliersDonnees := (PaliersDonnees d)[pays := (PaliersDonnees d ! pays)
     \<lparr>PuissanceDisponibleEtCout := (PuissanceDisponibleEtCout (PaliersDonnees d ! pays))[palier := x]\<rparr>]\<rparr>"

lemma sur_palier_ok:
  assumes "pays < length (PaliersDonnees d)" and "palier < length (PuissanceDisponibleEtCout (PaliersDonnees d ! pays))"
    and "f (pdisp_de d (pays, palier)) = Inr x"
  shows "sur_palier pays palier f d = Inr (avec_palier pays palier x d)"
proof -
  have "modifier palier f (PuissanceDisponibleEtCout (PaliersDonnees d ! pays)) =
      Inr ((PuissanceDisponibleEtCout (PaliersDonnees d ! pays))[palier := x])"
    by (rule modifier_ok) (use assms in simp_all)
  then have "dans PuissanceDisponibleEtCout PuissanceDisponibleEtCout_update (modifier palier f) (PaliersDonnees d ! pays) =
      Inr ((PaliersDonnees d ! pays)\<lparr>PuissanceDisponibleEtCout := (PuissanceDisponibleEtCout (PaliersDonnees d ! pays))[palier := x]\<rparr>)"
    by (simp add: dans_def)
  from modifier_ok [OF assms(1), of "dans PuissanceDisponibleEtCout PuissanceDisponibleEtCout_update (modifier palier f)", OF this]
  show ?thesis by (simp add: sur_palier_def dans_def [of PaliersDonnees] avec_palier_def)
qed

lemma avec_palier_paliers:
  assumes "pays < NombreDePays h" and "palier < nb_paliers h pays"
  shows "avec_palier pays palier x (avec_paliers h g d) = avec_paliers h (g(pays := (g pays)(palier := x))) d"
proof -
  have "(map (g pays) [0..<nb_paliers h pays])[palier := x] = map ((g pays)(palier := x)) [0..<nb_paliers h pays]"
    using assms(2) by (intro nth_equalityI) (auto simp: nth_list_update)
  then have "(map (\<lambda>p. (PaliersDonnees d ! p)\<lparr>PuissanceDisponibleEtCout := map (g p) [0..<nb_paliers h p]\<rparr>) [0..<NombreDePays h])
      [pays := (PaliersDonnees d ! pays)\<lparr>PuissanceDisponibleEtCout := (map (g pays) [0..<nb_paliers h pays])[palier := x]\<rparr>] =
    map (\<lambda>p. (PaliersDonnees d ! p)\<lparr>PuissanceDisponibleEtCout := map ((g(pays := (g pays)(palier := x))) p) [0..<nb_paliers h p]\<rparr>)
      [0..<NombreDePays h]"
    using assms(1) by (intro nth_equalityI) (auto simp: nth_list_update)
  then show ?thesis using assms(1) by (simp add: avec_palier_def avec_paliers_def)
qed

lemma avec_paliers_meme:
  assumes "donnees_hebdo_ok h d"
  shows "avec_paliers h (\<lambda>pays palier. pdisp_de d (pays, palier)) d = d"
proof -
  have "map (\<lambda>i. PuissanceDisponibleEtCout (PaliersDonnees d ! pays) ! i) [0..<nb_paliers h pays] =
      PuissanceDisponibleEtCout (PaliersDonnees d ! pays)" if "pays < NombreDePays h" for pays
  proof -
    have "length (PuissanceDisponibleEtCout (PaliersDonnees d ! pays)) = nb_paliers h pays"
      using donnees_pays(1) [OF assms that] by (simp add: paliers_donnees_ok_def)
    then show ?thesis by (intro nth_equalityI) simp_all
  qed
  then have "map (\<lambda>pays. (PaliersDonnees d ! pays)\<lparr>PuissanceDisponibleEtCout :=
      map (\<lambda>i. PuissanceDisponibleEtCout (PaliersDonnees d ! pays) ! i) [0..<nb_paliers h pays]\<rparr>) [0..<NombreDePays h] = PaliersDonnees d"
    using donnees_tailles(8) [OF assms] by (intro nth_equalityI) simp_all
  then show ?thesis by (simp add: avec_paliers_def)
qed

text \<open>A loop over the clusters in which each cluster gets its new data; \<open>travail\<close> is what else may change.\<close>

definition avec_travail :: "int list \<times> int list \<Rightarrow> DONNEES \<Rightarrow> DONNEES" where
  "avec_travail go d = d\<lparr>NbGrpCourbeGuide := fst go, NbGrpOpt := snd go\<rparr>"

lemma avec_travail_simps [simp]:
  "PaliersDonnees (avec_travail go d) = PaliersDonnees d" "NbGrpCourbeGuide (avec_travail go d) = fst go"
  "NbGrpOpt (avec_travail go d) = snd go" "avec_travail go (avec_travail go' d) = avec_travail go d"
  "avec_palier pays palier x (avec_travail go d) = avec_travail go (avec_palier pays palier x d)"
  "avec_travail (NbGrpCourbeGuide d, NbGrpOpt d) d = d"
  by (simp_all add: avec_travail_def avec_palier_def)

lemma avec_travail_ok:
  assumes "donnees_hebdo_ok h d" and "length (fst go) = NombreDePasDeTemps h" and "length (snd go) = NombreDePasDeTemps h"
  shows "donnees_hebdo_ok h (avec_travail go d)"
proof -
  have e: "TransportDonnees (avec_travail go d) = TransportDonnees d" "ValeursDeNTC (avec_travail go d) = ValeursDeNTC d"
    "ConsommationAbattueDuPays (avec_travail go d) = ConsommationAbattueDuPays d"
    "AllMustRunGenerationOfArea (avec_travail go d) = AllMustRunGenerationOfArea d"
    "CoutDeDefaillancePositive (avec_travail go d) = CoutDeDefaillancePositive d"
    "CoutDeDefaillanceNegative (avec_travail go d) = CoutDeDefaillanceNegative d"
    "CoutDeDefaillanceEnReserve (avec_travail go d) = CoutDeDefaillanceEnReserve d"
    "HydroDonnees (avec_travail go d) = HydroDonnees d" "StockageDonnees (avec_travail go d) = StockageDonnees d"
    "DefaillanceNegativeUtiliserPMinThermique (avec_travail go d) = DefaillanceNegativeUtiliserPMinThermique d"
    "DefaillanceNegativeUtiliserConsoAbattue (avec_travail go d) = DefaillanceNegativeUtiliserConsoAbattue d"
    "BruitSurCoutHydraulique (avec_travail go d) = BruitSurCoutHydraulique d" "HeureDansLAnnee (avec_travail go d) = HeureDansLAnnee d"
    "SecondMembreDeLaContrainteCouplante (avec_travail go d) = SecondMembreDeLaContrainteCouplante d"
    "ReserveHoraireJMoins1 (avec_travail go d) = ReserveHoraireJMoins1 d"
    "CoefficientEcretementPMaxHydraulique (avec_travail go d) = CoefficientEcretementPMaxHydraulique d"
    "adequacyPatchRuntimeData (avec_travail go d) = adequacyPatchRuntimeData d"
    by (simp_all add: avec_travail_def)
  show ?thesis
    using assms unfolding donnees_hebdo_ok_def Let_def e avec_travail_simps
    by (elim conjE, intro conjI) (assumption | blast)+
qed

text \<open>What the heuristic makes of a cluster.\<close>

definition guide_de :: "PROBLEME_HEBDO \<Rightarrow> RESULTATS \<Rightarrow> DONNEES \<Rightarrow> nat \<Rightarrow> nat \<Rightarrow> int list" where
  "guide_de h R d pays palier = map (\<lambda>t. groupes_pour (TailleUnitaireDUnGroupeDuPalierThermique (PaliersDonnees d ! pays) ! palier)
     (contenu R (ProductionThermiqueDuPalier pays t palier))) [0..<NombreDePasDeTemps h]"

definition palier_releve ::
  "PROBLEME_HEBDO \<Rightarrow> RESULTATS \<Rightarrow> DONNEES \<Rightarrow> nat \<Rightarrow> nat \<Rightarrow> PDISP_ET_COUTS_HORAIRES_PAR_PALIER \<Rightarrow> bool" where
  "palier_releve h R d pays palier x' \<longleftrightarrow>
     (let N = NombreDePasDeTemps h; pmin = PminDuPalierThermiquePendantUneHeure (PaliersDonnees d ! pays) ! palier;
          m = minUpDownTime (PaliersDonnees d ! pays) ! palier; guide = guide_de h R d pays palier; x = pdisp_de d (pays, palier) in
      if \<bar>pmin\<bar> < ZERO_PMIN then x' = x
      else (\<exists>i. meilleur_decalage N m guide i \<and> x' = pmin_releve N pmin (courbe_decalee N m guide i) x) \<or>
        (\<forall>j \<le> intervalle_ajustement N m. 10 ^ 80 \<le> ecart (courbe_decalee N m guide j) guide) \<and> x' = x)"

lemma palier_releve_ok:
  "palier_releve h R d pays palier x' \<Longrightarrow> pdisp_ok (NombreDePasDeTemps h) (pdisp_de d (pays, palier)) \<Longrightarrow>
     pdisp_ok (NombreDePasDeTemps h) x'"
  by (auto simp: palier_releve_def pmin_releve_def pdisp_ok_def Let_def split: if_splits)

text \<open>The clusters treated so far.\<close>

definition releves ::
  "PROBLEME_HEBDO \<Rightarrow> RESULTATS \<Rightarrow> DONNEES \<Rightarrow> (nat \<times> nat \<Rightarrow> bool) \<Rightarrow> DONNEES \<Rightarrow> bool" where
  "releves h R d S d' \<longleftrightarrow> (\<exists>g go. d' = avec_travail go (avec_paliers h g d) \<and>
     length (fst go) = NombreDePasDeTemps h \<and> length (snd go) = NombreDePasDeTemps h \<and>
     (\<forall>pays < NombreDePays h. \<forall>i < nb_paliers h pays. if S (pays, i) then palier_releve h R d pays i (g pays i)
        else g pays i = pdisp_de d (pays, i)))"

lemma calculer_pmin_palier_ok:
  assumes d: "donnees_hebdo_ok h d" and a: "pays < NombreDePays h" "palier < nb_paliers h pays"
    and m: "0 < minUpDownTime (PaliersDonnees d ! pays) ! palier"
    and D: "releves h R d S d'" and S: "\<not> S (pays, palier)"
  shows "returns (calculer_pmin_palier h R pays palier d') (releves h R d (\<lambda>x. S x \<or> x = (pays, palier)))"
proof -
  let ?N = "NombreDePasDeTemps h" and ?pd = "PaliersDonnees d ! pays"
  let ?m = "minUpDownTime ?pd ! palier" and ?pmin = "PminDuPalierThermiquePendantUneHeure ?pd ! palier"
    and ?taille = "TailleUnitaireDUnGroupeDuPalierThermique ?pd ! palier" and ?guide = "guide_de h R d pays palier"
  let ?I = "intervalle_ajustement ?N ?m"
  obtain g go where d': "d' = avec_travail go (avec_paliers h g d)" and go: "length (fst go) = ?N" "length (snd go) = ?N"
    and g: "\<And>p i. p < NombreDePays h \<Longrightarrow> i < nb_paliers h p \<Longrightarrow>
      if S (p, i) then palier_releve h R d p i (g p i) else g p i = pdisp_de d (p, i)"
    using D unfolding releves_def by blast
  have x: "g pays palier = pdisp_de d (pays, palier)" using g [OF a] S by simp
  have ok: "pdisp_ok ?N (pdisp_de d (pays, palier))" using donnees_palier(2) [OF d a] by simp
  have pd: "PaliersDonnees d' ! pays = ?pd\<lparr>PuissanceDisponibleEtCout := map (g pays) [0..<nb_paliers h pays]\<rparr>"
    "pays < length (PaliersDonnees d')" "palier < length (minUpDownTime ?pd)" "palier < length (PminDuPalierThermiquePendantUneHeure ?pd)"
    "palier < length (TailleUnitaireDUnGroupeDuPalierThermique ?pd)"
    using a donnees_pays(1) [OF d a(1)] by (simp_all add: d' avec_paliers_def paliers_donnees_ok_def)
  have gardes: "releves h R d (\<lambda>x. S x \<or> x = (pays, palier)) (avec_travail go' (avec_paliers h (g(pays := (g pays)(palier := x'))) d))"
    if "palier_releve h R d pays palier x'" "length (fst go') = ?N" "length (snd go') = ?N" for x' go'
    unfolding releves_def
    by (rule exI [of _ "g(pays := (g pays)(palier := x'))"], rule exI [of _ go']) (use that g in auto)
  have meme: "avec_paliers h (g(pays := (g pays)(palier := pdisp_de d (pays, palier)))) d = avec_paliers h g d"
  proof -
    have "(g pays)(palier := pdisp_de d (pays, palier)) = g pays" using x by (metis fun_upd_triv)
    then show ?thesis by (simp only: fun_upd_triv)
  qed
  show ?thesis
  proof (cases "\<bar>?pmin\<bar> < ZERO_PMIN")
    case True
    then have "palier_releve h R d pays palier (pdisp_de d (pays, palier))" by (simp add: palier_releve_def Let_def)
    from gardes [OF this go, unfolded meme, folded d'] True pd show ?thesis by (simp add: calculer_pmin_palier_def)
  next
    case False
    have guide: "calculer_guide h R pays palier ?taille (fst go) = Inr ?guide"
      unfolding guide_de_def by (rule calculer_guide_ok [OF go(1)]) (use a in simp)
    have lg: "length ?guide = ?N" by (simp add: guide_de_def)
    from chercher_decalage_ok [OF lg go(2) m] obtain E iOpt opt where
      c: "chercher_decalage ?N ?m ?guide (snd go) = Inr (E, iOpt, opt)" "length opt = ?N"
        "case iOpt of None \<Rightarrow> \<forall>j \<le> ?I. 10 ^ 80 \<le> ecart (courbe_decalee ?N ?m ?guide j) ?guide
         | Some i \<Rightarrow> meilleur_decalage ?N ?m ?guide i"
      by (auto elim!: returnsE)
    have dt: "d'\<lparr>NbGrpCourbeGuide := a, NbGrpOpt := b\<rparr> = avec_travail (a, b) (avec_paliers h g d)" for a b
      by (simp add: d' avec_travail_def)
    have tr: "NbGrpCourbeGuide d' = fst go" "NbGrpOpt d' = snd go" by (simp_all add: d')
    show ?thesis
    proof (cases iOpt)
      case None
      have r: "palier_releve h R d pays palier (pdisp_de d (pays, palier))"
        using c(3) False by (simp add: palier_releve_def Let_def None)
      have "calculer_pmin_palier h R pays palier d' = Inr (avec_travail (?guide, opt) (avec_paliers h g d))"
        using False pd guide c(1) tr by (simp add: calculer_pmin_palier_def Let_def None flip: dt)
      then show ?thesis using gardes [OF r, unfolded meme, of "(?guide, opt)"] lg c(2) by simp
    next
      case (Some i)
      let ?c = "courbe_decalee ?N ?m ?guide i"
      have i: "i \<le> ?I" using c(3) by (simp add: Some meilleur_decalage_def Let_def)
      have aire: "OPT_CalculerAireMaxPminJour i (?N - ?I + i) ?m ?N ?guide opt = Inr (ecart ?c ?guide, ?c)"
        by (rule courbe_decalee_ok [OF lg c(2) m i])
      have "palier_releve h R d pays palier (pmin_releve ?N ?pmin ?c (pdisp_de d (pays, palier)))"
        using c(3) False by (auto simp: palier_releve_def Let_def Some)
      note fin = gardes [OF this, of "(?guide, ?c)"]
      have "sur_palier pays palier (relever_pmin ?N ?pmin ?c) (avec_travail (?guide, ?c) (avec_paliers h g d)) =
          Inr (avec_palier pays palier (pmin_releve ?N ?pmin ?c (pdisp_de d (pays, palier))) (avec_travail (?guide, ?c) (avec_paliers h g d)))"
      proof (rule sur_palier_ok)
        have "pdisp_de (avec_travail (?guide, ?c) (avec_paliers h g d)) (pays, palier) = pdisp_de d (pays, palier)"
          using avec_paliers_simps(3) [OF a, of g d] x by simp
        then show "relever_pmin ?N ?pmin ?c (pdisp_de (avec_travail (?guide, ?c) (avec_paliers h g d)) (pays, palier)) =
            Inr (pmin_releve ?N ?pmin ?c (pdisp_de d (pays, palier)))"
          using relever_pmin_ok [OF ok, of ?c ?pmin] by simp
      qed (use a in simp_all)
      also have "\<dots> = Inr (avec_travail (?guide, ?c) (avec_paliers h (g(pays := (g pays)(palier := pmin_releve ?N ?pmin ?c (pdisp_de d (pays, palier))))) d))"
        using avec_palier_paliers [OF a] by simp
      finally have s: "sur_palier pays palier (relever_pmin ?N ?pmin ?c) (d'\<lparr>NbGrpCourbeGuide := ?guide, NbGrpOpt := ?c\<rparr>) = \<dots>"
        unfolding dt .
      have "calculer_pmin_palier h R pays palier d' =
          sur_palier pays palier (relever_pmin ?N ?pmin ?c) (d'\<lparr>NbGrpCourbeGuide := ?guide, NbGrpOpt := ?c\<rparr>)"
        using False pd guide c(1) aire tr by (simp add: calculer_pmin_palier_def Let_def Some)
      then show ?thesis using s fin lg by simp
    qed
  qed
qed


lemma releves_ok:
  assumes d: "donnees_hebdo_ok h d" and D: "releves h R d S d'"
  shows "donnees_hebdo_ok h d'"
proof -
  obtain g go where d': "d' = avec_travail go (avec_paliers h g d)"
    and go: "length (fst go) = NombreDePasDeTemps h" "length (snd go) = NombreDePasDeTemps h"
    and g: "\<forall>pays < NombreDePays h. \<forall>i < nb_paliers h pays. if S (pays, i) then palier_releve h R d pays i (g pays i)
        else g pays i = pdisp_de d (pays, i)"
    using D unfolding releves_def by blast
  have "donnees_hebdo_ok h (avec_paliers h g d)"
  proof (rule avec_paliers_ok [OF d])
    fix pays palier assume a: "pays < NombreDePays h" "palier < nb_paliers h pays"
    note ok = donnees_palier(2) [OF d a]
    show "pdisp_ok (NombreDePasDeTemps h) (g pays palier)"
    proof (cases "S (pays, palier)")
      case True
      then have "palier_releve h R d pays palier (g pays palier)" using g a by metis
      then show ?thesis by (rule palier_releve_ok) (use ok in simp)
    next
      case False
      then have "g pays palier = pdisp_de d (pays, palier)" using g a by metis
      then show ?thesis using ok by simp
    qed
  qed
  then show ?thesis unfolding d' by (rule avec_travail_ok [OF _ go])
qed

text \<open>The whole function: every cluster of every area, in order.\<close>

lemma releves_cong:
  assumes "releves h R d S d'" and "\<And>p i. p < NombreDePays h \<Longrightarrow> i < nb_paliers h p \<Longrightarrow> S (p, i) = T (p, i)"
  shows "releves h R d T d'"
  using assms unfolding releves_def by (metis (no_types, lifting))

lemma boucle_paliers:
  assumes h: "length (PaliersThermiquesDuPays h) = NombreDePays h" and debut: "P (\<lambda>_. False) s"
    and cong: "\<And>S T s. P S s \<Longrightarrow> (\<And>p i. p < NombreDePays h \<Longrightarrow> i < nb_paliers h p \<Longrightarrow> S (p, i) = T (p, i)) \<Longrightarrow> P T s"
    and pas: "\<And>S s pays i. pays < NombreDePays h \<Longrightarrow> i < nb_paliers h pays \<Longrightarrow> P S s \<Longrightarrow> \<not> S (pays, i) \<Longrightarrow>
      returns (f pays i s) (P (\<lambda>x. S x \<or> x = (pays, i)))"
  shows "returns (forE [0..<NombreDePays h] (\<lambda>pays s. bindE (lire (PaliersThermiquesDuPays h) pays) (\<lambda>pt.
      forE [0..<NombreDePaliersThermiques pt] (f pays) s)) s) (P (\<lambda>_. True))"
proof -
  let ?B = "\<lambda>pays s. bindE (lire (PaliersThermiquesDuPays h) pays) (\<lambda>pt. forE [0..<NombreDePaliersThermiques pt] (f pays) s)"
  have "returns (forE [0..<NombreDePays h] ?B s) (P (\<lambda>(p, i). p < NombreDePays h))"
  proof (rule returns_for_upt [where I = "\<lambda>n. P (\<lambda>(p, i). p < n)"])
    show "P (\<lambda>(p, i). p < 0) s" by (rule cong [OF debut]) simp
    fix pays s1 assume p: "pays < NombreDePays h" and s1: "P (\<lambda>(p, i). p < pays) s1"
    have "returns (forE [0..<nb_paliers h pays] (f pays) s1) (P (\<lambda>(p, i). p < pays \<or> p = pays \<and> i < nb_paliers h pays))"
    proof (rule returns_for_upt [where I = "\<lambda>n. P (\<lambda>(p, i). p < pays \<or> p = pays \<and> i < n)"])
      show "P (\<lambda>(p, i). p < pays \<or> p = pays \<and> i < 0) s1" by (rule cong [OF s1]) simp
      fix k s2 assume k: "k < nb_paliers h pays" and s2: "P (\<lambda>(p, i). p < pays \<or> p = pays \<and> i < k) s2"
      have "returns (f pays k s2) (P (\<lambda>x. (case x of (p, i) \<Rightarrow> p < pays \<or> p = pays \<and> i < k) \<or> x = (pays, k)))"
        by (rule pas [OF p k s2]) simp
      then show "returns (f pays k s2) (P (\<lambda>(p, i). p < pays \<or> p = pays \<and> i < Suc k))"
        by (rule returns_mono) (erule cong, auto)
    qed
    then have "returns (forE [0..<nb_paliers h pays] (f pays) s1) (P (\<lambda>(p, i). p < Suc pays))"
      by (rule returns_mono) (erule cong, auto simp: less_Suc_eq)
    then show "returns (?B pays s1) (P (\<lambda>(p, i). p < Suc pays))" using p h by simp
  qed
  then show ?thesis by (rule returns_mono) (erule cong, simp)
qed

lemma OPT_CalculerLesPminThermiquesEnFonctionDeMUTetMDT_ok:
  assumes h: "length (PaliersThermiquesDuPays h) = NombreDePays h" and d: "donnees_hebdo_ok h d"
    and t: "length (NbGrpCourbeGuide d) = NombreDePasDeTemps h" "length (NbGrpOpt d) = NombreDePasDeTemps h"
    and m: "\<And>pays palier. pays < NombreDePays h \<Longrightarrow> palier < nb_paliers h pays \<Longrightarrow>
      0 < minUpDownTime (PaliersDonnees d ! pays) ! palier"
  shows "returns (OPT_CalculerLesPminThermiquesEnFonctionDeMUTetMDT h R d)
    (\<lambda>d'. releves h R d (\<lambda>_. True) d' \<and> donnees_hebdo_ok h d')"
proof -
  have "returns (OPT_CalculerLesPminThermiquesEnFonctionDeMUTetMDT h R d) (releves h R d (\<lambda>_. True))"
    unfolding OPT_CalculerLesPminThermiquesEnFonctionDeMUTetMDT_def
  proof (rule boucle_paliers [OF h])
    show "releves h R d (\<lambda>_. False) d"
      unfolding releves_def
      by (rule exI [of _ "\<lambda>pays palier. pdisp_de d (pays, palier)"], rule exI [of _ "(NbGrpCourbeGuide d, NbGrpOpt d)"])
        (use t avec_paliers_meme [OF d] in simp)
  qed (rule releves_cong, assumption+, rule calculer_pmin_palier_ok [OF d _ _ m], assumption+)
  then show ?thesis
    by (rule returns_mono) (auto intro: releves_ok [OF d])
qed


subsection \<open>The heuristic leaves no trace in the next week\<close>

text \<open>The references of the clusters are not touched, so restoring the data afterwards gives what restoring them
  before would have given, but for the two work vectors.\<close>

lemma palier_restaure_releve:
  assumes "palier_releve h R d pays palier x'"
  shows "palier_restaure x' = palier_restaure (pdisp_de d (pays, palier))"
  using assms by (auto simp: palier_releve_def palier_restaure_def pmin_releve_def Let_def split: if_splits)

lemma avec_paliers_cong:
  assumes "\<And>p i. p < NombreDePays h \<Longrightarrow> i < nb_paliers h p \<Longrightarrow> f p i = g p i"
  shows "avec_paliers h f d = avec_paliers h g d"
proof -
  have "map (f p) [0..<nb_paliers h p] = map (g p) [0..<nb_paliers h p]" if "p < NombreDePays h" for p
    using assms [OF that] by simp
  then show ?thesis by (simp add: avec_paliers_def)
qed

lemma restaurees_releves:
  assumes D: "releves h R d (\<lambda>_. True) d'"
  shows "donnees_restaurees h d' = avec_travail (NbGrpCourbeGuide d', NbGrpOpt d') (donnees_restaurees h d)"
proof -
  obtain g go where d': "d' = avec_travail go (avec_paliers h g d)"
    and g: "\<And>p i. p < NombreDePays h \<Longrightarrow> i < nb_paliers h p \<Longrightarrow> palier_releve h R d p i (g p i)"
    using D by (auto simp: releves_def)
  have t: "avec_paliers h f (avec_hydro h k (transports_restaures h (avec_travail go (avec_paliers h g d)))) =
      avec_travail go (avec_paliers h f (avec_hydro h k (transports_restaures h d)))" for f k
    by (simp add: avec_travail_def avec_paliers_def avec_hydro_def transports_restaures_def)
  have "avec_paliers h (\<lambda>pays i. palier_restaure (pdisp_de d' (pays, i))) x =
      avec_paliers h (\<lambda>pays i. palier_restaure (pdisp_de d (pays, i))) x" for x
  proof (rule avec_paliers_cong)
    fix p i assume a: "p < NombreDePays h" "i < nb_paliers h p"
    have "pdisp_de d' (p, i) = g p i" using avec_paliers_simps(3) [OF a, of g d] by (simp add: d')
    then show "palier_restaure (pdisp_de d' (p, i)) = palier_restaure (pdisp_de d (p, i))"
      using palier_restaure_releve [OF g [OF a]] by simp
  qed
  then show ?thesis
    using t by (simp add: donnees_restaurees_def d') (simp add: avec_travail_def avec_paliers_def)
qed


subsection \<open>The result read from the data\<close>

lemma releves_entier:
  assumes "releves h R d (\<lambda>_. True) d'"
  shows "d' = avec_travail (NbGrpCourbeGuide d', NbGrpOpt d') (avec_paliers h (\<lambda>pays i. pdisp_de d' (pays, i)) d)"
    and "pays < NombreDePays h \<Longrightarrow> i < nb_paliers h pays \<Longrightarrow> palier_releve h R d pays i (pdisp_de d' (pays, i))"
proof -
  obtain g go where d': "d' = avec_travail go (avec_paliers h g d)"
    and g: "\<And>p i. p < NombreDePays h \<Longrightarrow> i < nb_paliers h p \<Longrightarrow> palier_releve h R d p i (g p i)"
    using assms by (auto simp: releves_def)
  have e: "pdisp_de d' (p, i) = g p i" if "p < NombreDePays h" "i < nb_paliers h p" for p i
    using avec_paliers_simps(3) [OF that, of g d] by (simp add: d')
  have "avec_paliers h (\<lambda>pays i. pdisp_de d' (pays, i)) d = avec_paliers h g d"
    by (rule avec_paliers_cong) (rule e)
  then show "d' = avec_travail (NbGrpCourbeGuide d', NbGrpOpt d') (avec_paliers h (\<lambda>pays i. pdisp_de d' (pays, i)) d)"
    unfolding d' by (metis avec_travail_simps(2,3) prod.collapse)
  show "palier_releve h R d pays i (pdisp_de d' (pays, i))" if "pays < NombreDePays h" "i < nb_paliers h pays"
    using e [OF that] g [OF that] by metis
qed

lemma meilleur_existe:
  assumes "\<exists>k \<le> intervalle_ajustement N m. ecart (courbe_decalee N m guide k) guide < 10 ^ 80"
    and "palier_releve h R d pays i x'" and "N = NombreDePasDeTemps h" and "guide = guide_de h R d pays i"
    and "m = minUpDownTime (PaliersDonnees d ! pays) ! i" and "pmin = PminDuPalierThermiquePendantUneHeure (PaliersDonnees d ! pays) ! i"
    and "\<not> \<bar>pmin\<bar> < ZERO_PMIN"
  shows "\<exists>k. meilleur_decalage N m guide k \<and> x' = pmin_releve N pmin (courbe_decalee N m guide k) (pdisp_de d (pays, i))"
  using assms by (auto simp: palier_releve_def Let_def not_le [symmetric] simp del: not_le)

lemma courbe_decalee_au_dessus: "0 < m \<Longrightarrow> t < N \<Longrightarrow> guide ! t \<le> courbe_decalee N m guide k ! t"
  unfolding courbe_decalee_def by (rule courbe_au_dessus) simp_all

lemma palier_releve_lu:
  assumes x: "palier_releve h R d pays i x'" and m: "0 < minUpDownTime (PaliersDonnees d ! pays) ! i"
  shows "let N = NombreDePasDeTemps h; pmin = PminDuPalierThermiquePendantUneHeure (PaliersDonnees d ! pays) ! i;
          m = minUpDownTime (PaliersDonnees d ! pays) ! i; guide = guide_de h R d pays i; x = pdisp_de d (pays, i) in
      if \<bar>pmin\<bar> < 1 / 100 \<or> (\<forall>k \<le> intervalle_ajustement N m. 10 ^ 80 \<le> ecart (courbe_decalee N m guide k) guide) then x' = x
      else \<exists>k. let c = courbe_decalee N m guide k in meilleur_decalage N m guide k \<and>
        x' = x\<lparr>PuissanceMinDuPalierThermique := PuissanceMinDuPalierThermique x'\<rparr> \<and>
        (\<forall>t < N. guide ! t \<le> c ! t \<and> PuissanceMinDuPalierThermique x' ! t =
           min (max (PuissanceMinDuPalierThermique x ! t) (pmin * real_of_int (c ! t))) (PuissanceDisponibleDuPalierThermique x ! t))"
proof -
  let ?N = "NombreDePasDeTemps h" and ?pmin = "PminDuPalierThermiquePendantUneHeure (PaliersDonnees d ! pays) ! i"
    and ?m = "minUpDownTime (PaliersDonnees d ! pays) ! i" and ?g = "guide_de h R d pays i"
  show ?thesis
  proof (cases "\<bar>?pmin\<bar> < 1 / 100 \<or> (\<forall>k \<le> intervalle_ajustement ?N ?m. 10 ^ 80 \<le> ecart (courbe_decalee ?N ?m ?g k) ?g)")
    case True
    have "x' = pdisp_de d (pays, i)"
    proof (cases "\<bar>?pmin\<bar> < ZERO_PMIN")
      case False
      have "\<not> meilleur_decalage ?N ?m ?g k" for k
        using True False by (auto simp: ZERO_PMIN_def meilleur_decalage_def Let_def not_less)
      then show ?thesis using x False by (auto simp: palier_releve_def Let_def)
    qed (use x in \<open>simp add: palier_releve_def Let_def\<close>)
    then show ?thesis using True by (simp add: Let_def)
  next
    case False
    then obtain k where "meilleur_decalage ?N ?m ?g k"
      "x' = pmin_releve ?N ?pmin (courbe_decalee ?N ?m ?g k) (pdisp_de d (pays, i))"
      using meilleur_existe [OF _ x refl refl refl refl] by (auto simp: ZERO_PMIN_def not_le)
    with False courbe_decalee_au_dessus [OF m] show ?thesis
      by (auto simp: Let_def pmin_releve_def intro!: exI [of _ k])
  qed
qed


end
