(* ===== verification/Startup_Correct.thy ===== *)
theory Startup_Correct
  imports Startup_Heuristic Heuristic_Correct
begin

text \<open>
  The heuristic of \<open>Startup_Heuristic\<close> on the whole: it stays inside its vectors, the problem of every cluster is the
  one of \<open>ajustement_pose\<close>, and the numbers of units it leaves are coherent. The check that could avoid the small
  problem never does: \<open>ResoudreLeProblemeLineaire\<close> is true from the start.
\<close>

subsection \<open>Starts, stops and breakdowns\<close>

fun est_transition :: "adresse \<Rightarrow> bool" where
  "est_transition (NombreDeGroupesQuiDemarrentDuPalier pays t i) \<longleftrightarrow> True"
| "est_transition (NombreDeGroupesQuiSArretentDuPalier pays t i) \<longleftrightarrow> True"
| "est_transition (NombreDeGroupesQuiTombentEnPanneDuPalier pays t i) \<longleftrightarrow> True"
| "est_transition _ \<longleftrightarrow> False"

text \<open>The values of the first \<open>k\<close> hours of a cluster, for numbers of units \<open>mini\<close> and greatest numbers \<open>maxi\<close>; hours are
  cyclic.\<close>

definition baisse :: "nat \<Rightarrow> int list \<Rightarrow> nat \<Rightarrow> int" where
  "baisse N xs t = xs ! nat (retour N (int t - 1)) - xs ! t"

definition transition_de :: "nat \<Rightarrow> nat \<Rightarrow> nat \<Rightarrow> int list \<Rightarrow> int list \<Rightarrow> nat \<Rightarrow> adresse \<Rightarrow> real option" where
  "transition_de N pays index mini maxi k c =
     (case c of
        NombreDeGroupesQuiDemarrentDuPalier p t i \<Rightarrow>
          if p = pays \<and> i = index \<and> t < k then Some (of_int (max 0 (- baisse N mini t))) else None
      | NombreDeGroupesQuiSArretentDuPalier p t i \<Rightarrow>
          if p = pays \<and> i = index \<and> t < k then Some (of_int (max 0 (baisse N mini t))) else None
      | NombreDeGroupesQuiTombentEnPanneDuPalier p t i \<Rightarrow>
          if p = pays \<and> i = index \<and> t < k then Some (of_int (min (max 0 (baisse N mini t)) (max 0 (baisse N maxi t)))) else None
      | _ \<Rightarrow> None)"

definition resultats_gardes :: "PROBLEME_HEBDO \<Rightarrow> RESULTATS \<Rightarrow> RESULTATS \<Rightarrow> bool" where
  "resultats_gardes h R R' \<longleftrightarrow> resultats_semaine_ok h R' \<and>
     map ValeursHorairesDENS (horaires R') = map ValeursHorairesDENS (horaires R) \<and>
     (\<forall>c. adresse_valide h c \<and> \<not> est_transition c \<longrightarrow> contenu R' c = contenu R c)"

definition transitions_posees ::
  "PROBLEME_HEBDO \<Rightarrow> nat \<Rightarrow> nat \<Rightarrow> int list \<Rightarrow> int list \<Rightarrow> nat \<Rightarrow> RESULTATS \<Rightarrow> RESULTATS \<Rightarrow> bool" where
  "transitions_posees h pays index mini maxi k R R' \<longleftrightarrow> resultats_semaine_ok h R' \<and>
     map ValeursHorairesDENS (horaires R') = map ValeursHorairesDENS (horaires R) \<and>
     (\<forall>c. adresse_valide h c \<longrightarrow> contenu R' c =
        (case transition_de (NombreDePasDeTemps h) pays index mini maxi k c of Some v \<Rightarrow> v | None \<Rightarrow> contenu R c))"

lemma transition_de_None: "\<not> est_transition c \<Longrightarrow> transition_de N pays index mini maxi k c = None"
  by (cases c) (simp_all add: transition_de_def)

lemma transitions_gardes: "transitions_posees h pays index mini maxi k R R' \<Longrightarrow> resultats_gardes h R R'"
  by (simp add: transitions_posees_def resultats_gardes_def transition_de_None)

lemma resultats_gardes_trans: "resultats_gardes h R R' \<Longrightarrow> resultats_gardes h R' R'' \<Longrightarrow> resultats_gardes h R R''"
  by (auto simp: resultats_gardes_def)

lemma transitions_heure_ok:
  assumes P: "transitions_posees h pays index mini maxi k R0 R" and k: "k < NombreDePasDeTemps h"
    and a: "pays < NombreDePays h" "index < nb_paliers h pays"
    and l: "length mini = NombreDePasDeTemps h" "length maxi = NombreDePasDeTemps h"
  shows "returns (transitions_heure h pays index mini maxi k R) (transitions_posees h pays index mini maxi (Suc k) R0)"
proof -
  let ?N = "NombreDePasDeTemps h" and ?j = "retour (NombreDePasDeTemps h) (int k - 1)"
  let ?d = "NombreDeGroupesQuiDemarrentDuPalier pays k index" and ?s = "NombreDeGroupesQuiSArretentDuPalier pays k index"
    and ?q = "NombreDeGroupesQuiTombentEnPanneDuPalier pays k index"
  have "heure_aj ?N (int k - 1)" using k by (simp add: heure_aj_def)
  from heure_ajD [OF this] l have j: "lire_int mini ?j = Inr (mini ! nat ?j)" "lire_int maxi ?j = Inr (maxi ! nat ?j)"
    by simp_all
  define b where "b = baisse ?N mini k"
  define e where "e = baisse ?N maxi k"
  have be: "mini ! k - mini ! nat ?j = - b" "mini ! nat ?j - mini ! k = b" "maxi ! nat ?j - maxi ! k = e"
    "maxi ! k < maxi ! nat ?j \<longleftrightarrow> 0 < e"
    by (auto simp: b_def e_def baisse_def)
  let ?R = "R\<lparr>memoire := (memoire R)(?d := of_int (max 0 (- b)), ?s := of_int (max 0 b), ?q := of_int (min (max 0 b) (max 0 e)))\<rparr>"
  have run: "transitions_heure h pays index mini maxi k R = Inr ?R"
    unfolding transitions_heure_def Let_def j lire_in [OF k [folded l(1)]] lire_in [OF k [folded l(2)]] bindE_simps be
    using a k by (cases "0 < b"; cases "0 < e"; cases "b = 0"; cases "e < b")
      (simp_all add: whenE_def lire_adresse_def min_def max_def fun_upd_upd)
  have "contenu ?R c = (case transition_de ?N pays index mini maxi (Suc k) c of Some v \<Rightarrow> v | None \<Rightarrow> contenu R0 c)"
    if "adresse_valide h c" for c
  proof -
    have 1: "contenu ?R c = ((contenu R)(?d := of_int (max 0 (- b)), ?s := of_int (max 0 b), ?q := of_int (min (max 0 b) (max 0 e)))) c"
      by (cases c) simp_all
    have 2: "transition_de ?N pays index mini maxi (Suc k) c = ((transition_de ?N pays index mini maxi k)(?d := Some (of_int (max 0 (- b))),
        ?s := Some (of_int (max 0 b)), ?q := Some (of_int (min (max 0 b) (max 0 e))))) c"
      by (cases c) (auto simp: transition_de_def less_Suc_eq b_def e_def)
    have "contenu R c = (case transition_de ?N pays index mini maxi k c of Some v \<Rightarrow> v | None \<Rightarrow> contenu R0 c)"
      using P that by (simp add: transitions_posees_def)
    then show ?thesis unfolding 1 2 by (simp only: fun_upd_apply) simp
  qed
  then show ?thesis using P by (simp add: run transitions_posees_def resultats_semaine_ok_def)
qed

lemma transitions_ok:
  assumes a: "pays < NombreDePays h" "index < nb_paliers h pays" and R: "resultats_semaine_ok h R"
    and l: "length mini = NombreDePasDeTemps h" "length maxi = NombreDePasDeTemps h"
  shows "returns (forE [0..<NombreDePasDeTemps h] (transitions_heure h pays index mini maxi) R)
    (transitions_posees h pays index mini maxi (NombreDePasDeTemps h) R)"
proof (rule returns_for_upt)
  have "transition_de (NombreDePasDeTemps h) pays index mini maxi 0 c = None" for c
    by (cases c) (simp_all add: transition_de_def)
  then show "transitions_posees h pays index mini maxi 0 R R" using R by (simp add: transitions_posees_def)
qed (use transitions_heure_ok a l in blast)

subsection \<open>The check\<close>

lemma lire_groupes_ok:
  "heure_aj (NombreDePasDeTemps h) t \<Longrightarrow> adresse_valide h (a (nat (retour (NombreDePasDeTemps h) t))) \<Longrightarrow>
     \<exists>v. lire_groupes h R a (retour (NombreDePasDeTemps h) t) = Inr v"
  using heure_ajD [of "NombreDePasDeTemps h" t] by (simp add: lire_groupes_def lire_adresse_def)

lemma duree_marche_lue:
  assumes a: "pays < NombreDePays h" "index < nb_paliers h pays" and pdt: "pdt < NombreDePasDeTemps h"
    and l: "length mini = NombreDePasDeTemps h" and D: "D \<le> int (NombreDePasDeTemps h)"
  shows "returns (duree_marche_violee h R pays index mini D pdt) (\<lambda>_. True)"
proof -
  let ?N = "NombreDePasDeTemps h"
  have "returns (forE [int pdt - D + 1..int pdt] (\<lambda>k (t1, SMarche).
          let t1 = retour ?N k in
          bindE (lire_groupes h R (\<lambda>t. NombreDeGroupesQuiDemarrentDuPalier pays t index) t1) (\<lambda>demarrent.
          bindE (lire_groupes h R (\<lambda>t. NombreDeGroupesQuiTombentEnPanneDuPalier pays t index) t1) (\<lambda>pannes.
          Inr (t1, SMarche + (demarrent - pannes))))) (0, 0)) (\<lambda>(t1, SMarche). 0 \<le> t1 \<and> nat t1 < ?N)"
  proof (rule returns_forE_inv)
    fix k and z :: "int \<times> real" assume "k \<in> set [int pdt - D + 1..int pdt]"
    then have k: "heure_aj ?N k" using pdt D by (auto simp: heure_aj_def)
    have h: "nat (retour ?N k) < ?N" using heure_ajD [OF k] by simp
    show "returns ((\<lambda>(t1, SMarche). let t1 = retour ?N k in
          bindE (lire_groupes h R (\<lambda>t. NombreDeGroupesQuiDemarrentDuPalier pays t index) t1) (\<lambda>demarrent.
          bindE (lire_groupes h R (\<lambda>t. NombreDeGroupesQuiTombentEnPanneDuPalier pays t index) t1) (\<lambda>pannes.
          Inr (t1, SMarche + (demarrent - pannes))))) z) (\<lambda>(t1, SMarche). 0 \<le> t1 \<and> nat t1 < ?N)"
      using lire_groupes_ok [OF k, of "\<lambda>t. NombreDeGroupesQuiDemarrentDuPalier pays t index" R]
        lire_groupes_ok [OF k, of "\<lambda>t. NombreDeGroupesQuiTombentEnPanneDuPalier pays t index" R] a h heure_ajD [OF k]
      by (auto simp: Let_def split: prod.split)
  qed (use pdt in simp)
  then show ?thesis
    unfolding duree_marche_violee_def using l by (auto elim!: returns_mono)
qed

lemma duree_arret_lue:
  assumes a: "pays < NombreDePays h" "index < nb_paliers h pays" and pdt: "pdt < NombreDePasDeTemps h"
    and l: "length mini = NombreDePasDeTemps h" "length maxi = NombreDePasDeTemps h"
    and D: "0 \<le> D" "D \<le> int (NombreDePasDeTemps h)"
  shows "returns (duree_arret_violee h R pays index mini maxi D pdt) (\<lambda>_. True)"
proof -
  let ?N = "NombreDePasDeTemps h"
  have t: "heure_aj ?N (int pdt - D)" using pdt D by (auto simp: heure_aj_def)
  have "returns (forE [int pdt - D + 1..int pdt] (\<lambda>k (t1, SArret).
        let t1 = retour ?N k; t1moins1 = retour ?N (t1 - 1) in
        bindE (lire_int maxi t1) (\<lambda>m. bindE (lire_int maxi t1moins1) (\<lambda>m'.
        let SArret = (if m - m' > 0 then SArret + of_int (m - m') else SArret) in
        bindE (lire_groupes h R (\<lambda>t. NombreDeGroupesQuiSArretentDuPalier pays t index) t1) (\<lambda>s.
        Inr (t1, SArret - s))))) (retour ?N (int pdt - D), x)) (\<lambda>(t1, SArret). 0 \<le> t1 \<and> nat t1 < ?N)" for x :: real
  proof (rule returns_forE_inv)
    fix k and z :: "int \<times> real" assume "k \<in> set [int pdt - D + 1..int pdt]"
    then have k: "heure_aj ?N k" "heure_aj ?N (k - 1)" "- int ?N < k" "k < int ?N" using pdt D by (auto simp: heure_aj_def)
    note p = retour_precedent [OF k(3,4)] lire_maxi [OF l(2) k(1)] lire_maxi [OF l(2) k(2)]
    show "returns ((\<lambda>(t1, SArret).
        let t1 = retour ?N k; t1moins1 = retour ?N (t1 - 1) in
        bindE (lire_int maxi t1) (\<lambda>m. bindE (lire_int maxi t1moins1) (\<lambda>m'.
        let SArret = (if m - m' > 0 then SArret + of_int (m - m') else SArret) in
        bindE (lire_groupes h R (\<lambda>t. NombreDeGroupesQuiSArretentDuPalier pays t index) t1) (\<lambda>s.
        Inr (t1, SArret - s))))) z) (\<lambda>(t1, SArret). 0 \<le> t1 \<and> nat t1 < ?N)"
      using lire_groupes_ok [OF k(1), of "\<lambda>t. NombreDeGroupesQuiSArretentDuPalier pays t index" R] a heure_ajD [OF k(1)]
      unfolding Let_def p bindE_simps by (auto split: prod.split)
  qed (use heure_ajD [OF t] in simp)
  from this [of "of_int (maxi_aj ?N maxi (int pdt - D))"] show ?thesis
    unfolding duree_arret_violee_def Let_def lire_maxi [OF l(2) t] bindE_simps returns_bindE
    by (rule returns_mono) (use l in \<open>auto simp: Let_def\<close>)
qed

lemma boucle_verification_True:
  assumes "\<And>pdt. pdt \<in> set pdts \<Longrightarrow> returns (violee pdt) (\<lambda>_. True)"
  shows "boucle_verification violee pdts True = Inr True"
  using assms
proof (induction pdts)
  case (Cons pdt pdts)
  obtain v where "violee pdt = Inr v" using Cons.prems [of pdt] by (auto elim!: returnsE)
  then show ?case using Cons by simp
qed simp


subsection \<open>The small problem\<close>

text \<open>What the code relies on: a solver that answers that there is a solution has found one.\<close>

definition solution_ajustement :: "AJUSTEMENT \<Rightarrow> real list \<Rightarrow> bool" where
  "solution_ajustement p X \<longleftrightarrow> length X = aj_NombreDeVariables p \<and>
     (\<forall>i < aj_NombreDeVariables p. aj_Xmin p ! i \<le> X ! i \<and> X ! i \<le> aj_Xmax p ! i) \<and>
     (\<forall>(s, b, ts) \<in> set (lignes_aj p). let v = sum_list (map (\<lambda>(j, c). c * X ! j) ts) in
        if s = CHR ''='' then v = b else if s = CHR ''<'' then v \<le> b else b \<le> v)"

definition simplexe_ok :: "simplexe_seul \<Rightarrow> bool" where
  "simplexe_ok SPX \<longleftrightarrow> (\<forall>p X. SPX p = (OUI_SPX, X) \<longrightarrow> solution_ajustement p X)"

text \<open>The numbers of units it gives: those of a solution of the small problem rounded up, or the ones before.\<close>

definition groupes_optimaux ::
  "simplexe_seul \<Rightarrow> nat \<Rightarrow> int list \<Rightarrow> int list \<Rightarrow> int \<Rightarrow> int \<Rightarrow> int list \<Rightarrow> bool" where
  "groupes_optimaux SPX N mini maxi Dm Da mini' \<longleftrightarrow> (\<exists>p. ajustement_pose N mini maxi Dm Da p \<and>
     (if fst (SPX p) = OUI_SPX
      then solution_ajustement p (snd (SPX p)) \<and> mini' = map (\<lambda>t. \<lceil>snd (SPX p) ! (4 * t)\<rceil>) [0..<N]
      else mini' = mini))"

lemma nth_concat_4:
  assumes "\<And>t. length (f t) = 4" and "t < N" and "j < 4"
  shows "concat (map f [0..<N]) ! (4 * t + j) = f t ! j"
  using assms(2)
proof (induction N)
  case (Suc N)
  have "length (concat (map f [0..<N])) = 4 * N" by (simp add: length_concat o_def assms(1) sum_list_triv)
  then show ?case using Suc assms(3) by (cases "t = N") (simp_all add: nth_append)
qed simp

lemma groupes_optimaux_bornes:
  assumes G: "groupes_optimaux SPX N mini maxi Dm Da mini'" and l: "length mini = N"
  shows "length mini' = N" and "t < N \<Longrightarrow> mini ! t \<le> mini' ! t" and "t < N \<Longrightarrow> mini' \<noteq> mini \<Longrightarrow> mini' ! t \<le> maxi ! t"
proof -
  obtain p where P: "ajustement_pose N mini maxi Dm Da p" and
    c: "if fst (SPX p) = OUI_SPX then solution_ajustement p (snd (SPX p)) \<and> mini' = map (\<lambda>t. \<lceil>snd (SPX p) ! (4 * t)\<rceil>) [0..<N]
      else mini' = mini"
    using G by (auto simp: groupes_optimaux_def)
  have b: "mini ! t \<le> \<lceil>X ! (4 * t)\<rceil> \<and> \<lceil>X ! (4 * t)\<rceil> \<le> maxi ! t" if "solution_ajustement p X" "t < N" for X t
  proof -
    have "aj_Xmin p ! (4 * t) = of_int (mini ! t)" "aj_Xmax p ! (4 * t) = of_int (maxi ! t)"
      using P nth_concat_4 [of "xmin_aj mini" t N 0] nth_concat_4 [of "bornes_sup N maxi" t N 0] that(2)
      by (simp_all add: ajustement_pose_def) (simp_all add: xmin_aj_def bornes_sup_def)
    moreover have "4 * t < aj_NombreDeVariables p" using P that(2) by (simp add: ajustement_pose_def)
    ultimately have "of_int (mini ! t) \<le> X ! (4 * t)" "X ! (4 * t) \<le> of_int (maxi ! t)"
      using that(1) by (metis solution_ajustement_def)+
    then show ?thesis by (simp add: ceiling_le_iff) (metis ceiling_mono ceiling_of_int)
  qed
  show "length mini' = N" using c l by (auto split: if_splits)
  show "mini ! t \<le> mini' ! t" if "t < N" using c b [OF _ that] that by (auto split: if_splits)
  show "mini' ! t \<le> maxi ! t" if "t < N" "mini' \<noteq> mini" using c b [OF _ that(1)] that by (auto split: if_splits)
qed

lemma OPT_PbLineaire_ok:
  assumes S: "simplexe_ok SPX" and H: "length (PaliersThermiquesDuPays h) = NombreDePays h"
    and a: "pays < NombreDePays h" "index < nb_paliers h pays" and R: "resultats_semaine_ok h R"
    and l: "length mini = NombreDePasDeTemps h" "length maxi = NombreDePasDeTemps h"
    and pt: "index < length (DureeMinimaleDeMarcheDUnGroupeDuPalierThermique (PaliersThermiquesDuPays h ! pays))"
      "index < length (DureeMinimaleDArretDUnGroupeDuPalierThermique (PaliersThermiquesDuPays h ! pays))"
    and D: "Dm = DureeMinimaleDeMarcheDUnGroupeDuPalierThermique (PaliersThermiquesDuPays h ! pays) ! index" "0 \<le> Dm"
      "Dm \<le> int (NombreDePasDeTemps h)"
      "Da = DureeMinimaleDArretDUnGroupeDuPalierThermique (PaliersThermiquesDuPays h ! pays) ! index" "0 \<le> Da"
      "Da \<le> int (NombreDePasDeTemps h)"
  shows "returns (OPT_PbLineairePourAjusterLeNombreMinDeGroupesDemarresCoutsDeDemarrage SPX h pays index maxi mini R)
    (\<lambda>(R', mini'). transitions_posees h pays index mini maxi (NombreDePasDeTemps h) R R' \<and>
       groupes_optimaux SPX (NombreDePasDeTemps h) mini maxi Dm Da mini')"
proof -
  let ?N = "NombreDePasDeTemps h" and ?pt = "PaliersThermiquesDuPays h ! pays"
  have l1: "lire (PaliersThermiquesDuPays h) pays = Inr ?pt" using H a by simp
  have l2: "lire (DureeMinimaleDeMarcheDUnGroupeDuPalierThermique ?pt) index = Inr Dm"
    "lire (DureeMinimaleDArretDUnGroupeDuPalierThermique ?pt) index = Inr Da"
    using pt D(1,4) by simp_all
  obtain R1 where R1: "forE [0..<?N] (transitions_heure h pays index mini maxi) R = Inr R1"
    "transitions_posees h pays index mini maxi ?N R R1"
    using transitions_ok [OF a R l] by (auto elim!: returnsE)
  have "returns (verifier_heure h R1 pays index mini maxi Dm Da pdt) (\<lambda>_. True)" if "pdt < ?N" for pdt
    unfolding verifier_heure_def returns_bindE
    by (rule returns_mono [OF duree_marche_lue [OF a that l(1) D(3)]])
      (use duree_arret_lue [OF a that l D(5,6)] in simp)
  then have v: "boucle_verification (verifier_heure h R1 pays index mini maxi Dm Da) [0..<?N] True = Inr True"
    by (intro boucle_verification_True) simp
  obtain p where p: "construire_ajustement ?N mini maxi Dm Da = Inr p" "ajustement_pose ?N mini maxi Dm Da p"
    using construire_ajustement_ok [OF l D(2,3,5,6)] by (auto elim!: returnsE)
  obtain e X where s: "SPX p = (e, X)" by (cases "SPX p")
  note run = OPT_PbLineairePourAjusterLeNombreMinDeGroupesDemarresCoutsDeDemarrage_def Let_def l1 l2 R1(1) v p(1) s
  show ?thesis
  proof (cases "e = OUI_SPX")
    case True
    then have X: "solution_ajustement p X" using S s by (simp add: simplexe_ok_def)
    then have n: "length X = 4 * ?N" using p(2) by (simp add: solution_ajustement_def ajustement_pose_def)
    have t: "lire (NumeroDeVariableDeM p) t = Inr (4 * t)" if "t < ?N" for t
      using p(2) that by (simp add: ajustement_pose_def tables_aj_def)
    have "returns (forE [0..<?N] (\<lambda>pdt mini. bindE (lire (NumeroDeVariableDeM p) pdt) (\<lambda>var.
        bindE (lire X var) (\<lambda>x. ecrire mini pdt \<lceil>x\<rceil>))) mini) (\<lambda>m. m = map (\<lambda>t. \<lceil>X ! (4 * t)\<rceil>) [0..<?N] @ drop ?N mini)"
    proof (rule returns_for_upt [where I = "\<lambda>k m. m = map (\<lambda>t. \<lceil>X ! (4 * t)\<rceil>) [0..<k] @ drop k mini"])
      fix k m assume k: "k < ?N" and m: "m = map (\<lambda>t. \<lceil>X ! (4 * t)\<rceil>) [0..<k] @ drop k mini"
      then show "returns (bindE (lire (NumeroDeVariableDeM p) k) (\<lambda>var. bindE (lire X var) (\<lambda>x. ecrire m k \<lceil>x\<rceil>)))
          (\<lambda>m. m = map (\<lambda>t. \<lceil>X ! (4 * t)\<rceil>) [0..<Suc k] @ drop (Suc k) mini)"
        using t [OF k] n l(1) by (simp add: list_update_append upd_conv_take_nth_drop Cons_nth_drop_Suc [symmetric])
    qed simp
    then obtain m where m: "forE [0..<?N] (\<lambda>pdt mini. bindE (lire (NumeroDeVariableDeM p) pdt) (\<lambda>var.
        bindE (lire X var) (\<lambda>x. ecrire mini pdt \<lceil>x\<rceil>))) mini = Inr m" "m = map (\<lambda>t. \<lceil>X ! (4 * t)\<rceil>) [0..<?N]"
      using l(1) by (auto dest!: returnsD)
    have "groupes_optimaux SPX ?N mini maxi Dm Da m"
      using p(2) X True s m(2) by (auto simp: groupes_optimaux_def intro!: exI [of _ p])
    then show ?thesis using True R1(2) m(1) by (simp add: run)
  next
    case False
    have "groupes_optimaux SPX ?N mini maxi Dm Da mini"
      using p(2) False s by (auto simp: groupes_optimaux_def intro!: exI [of _ p])
    then show ?thesis using False R1(2) by (simp add: run)
  qed
qed


subsection \<open>One cluster\<close>

text \<open>A column that is rewritten from the first hour on.\<close>

definition colonne_jusqua :: "(nat \<Rightarrow> 'a) \<Rightarrow> 'a list \<Rightarrow> nat \<Rightarrow> 'a list" where
  "colonne_jusqua v xs k = map v [0..<k] @ drop k xs"

lemma colonne_jusqua_simps [simp]:
  "colonne_jusqua v xs 0 = xs" "length xs = N \<Longrightarrow> colonne_jusqua v xs N = map v [0..<N]"
  "k \<le> length xs \<Longrightarrow> length (colonne_jusqua v xs k) = length xs" "k < length xs \<Longrightarrow> colonne_jusqua v xs k ! k = xs ! k"
  by (simp_all add: colonne_jusqua_def nth_append)

lemma colonne_jusqua_Suc: "k < length xs \<Longrightarrow> (colonne_jusqua v xs k)[k := v k] = colonne_jusqua v xs (Suc k)"
  by (simp add: colonne_jusqua_def list_update_append upd_conv_take_nth_drop Cons_nth_drop_Suc [symmetric])

lemma colonne_jusqua_garde: "k < length xs \<Longrightarrow> v k = xs ! k \<Longrightarrow> colonne_jusqua v xs (Suc k) = colonne_jusqua v xs k"
  using colonne_jusqua_Suc [of k xs v] list_update_id [of "colonne_jusqua v xs k" k] by simp

lemma ecrire_colonne:
  assumes "k < length xs" and "b \<Longrightarrow> v k = w" and "\<not> b \<Longrightarrow> v k = xs ! k"
  shows "(if b then ecrire (colonne_jusqua v xs k) k w else Inr (colonne_jusqua v xs k)) = Inr (colonne_jusqua v xs (Suc k))"
  using assms colonne_jusqua_Suc [of k xs v] colonne_jusqua_garde [of k xs v] by (cases b) simp_all

definition groupes_arrondis :: "PROBLEME_HEBDO \<Rightarrow> RESULTATS \<Rightarrow> nat \<Rightarrow> nat \<Rightarrow> int list" where
  "groupes_arrondis h R pays index =
     map (\<lambda>t. \<lceil>contenu R (NombreDeGroupesEnMarcheDuPalier pays t index)\<rceil>) [0..<NombreDePasDeTemps h]"

lemma length_groupes_arrondis [simp]: "length (groupes_arrondis h R pays index) = NombreDePasDeTemps h"
  by (simp add: groupes_arrondis_def)

lemma arrondir_groupes_ok:
  assumes a: "pays < NombreDePays h" "index < nb_paliers h pays"
    and l: "length mini = NombreDePasDeTemps h" "length maxi = NombreDePasDeTemps h"
  shows "arrondir_groupes h R pays index maxi mini = Inr (groupes_arrondis h R pays index)"
proof -
  let ?N = "NombreDePasDeTemps h" and ?v = "\<lambda>t. \<lceil>contenu R (NombreDeGroupesEnMarcheDuPalier pays t index)\<rceil>"
  have "returns (arrondir_groupes h R pays index maxi mini) (\<lambda>m. m = colonne_jusqua ?v mini ?N)"
    unfolding arrondir_groupes_def
  proof (rule returns_for_upt [where I = "\<lambda>k m. m = colonne_jusqua ?v mini k"])
    fix k m assume "k < ?N" and "m = colonne_jusqua ?v mini k"
    then show "returns (bindE (lire_adresse h R (NombreDeGroupesEnMarcheDuPalier pays k index)) (\<lambda>X.
       bindE (lire maxi k) (\<lambda>x. bindE (lire m k) (\<lambda>n.
       bindE (lire_adresse h R (ProductionThermiqueDuPalier pays k index)) (\<lambda>P. ecrire m k \<lceil>X\<rceil>)))))
       (\<lambda>m. m = colonne_jusqua ?v mini (Suc k))"
      using a l colonne_jusqua_Suc [of k mini ?v] by (simp add: lire_adresse_def)
  qed simp
  then show ?thesis using l by (auto dest!: returnsD simp: groupes_arrondis_def)
qed

definition palier_elargi :: "nat \<Rightarrow> real \<Rightarrow> PDISP_ET_COUTS_HORAIRES_PAR_PALIER \<Rightarrow> PDISP_ET_COUTS_HORAIRES_PAR_PALIER" where
  "palier_elargi N pmin x = x\<lparr>
    NombreMaxDeGroupesEnMarcheDuPalierThermique := map (\<lambda>t. max (NombreMaxDeGroupesEnMarcheDuPalierThermique x ! t)
      (NombreMinDeGroupesEnMarcheDuPalierThermique x ! t)) [0..<N],
    PuissanceDisponibleDuPalierThermique := map (\<lambda>t. max (PuissanceDisponibleDuPalierThermique x ! t)
      (pmin * of_int (max (NombreMaxDeGroupesEnMarcheDuPalierThermique x ! t) (NombreMinDeGroupesEnMarcheDuPalierThermique x ! t)))) [0..<N]\<rparr>"

lemma elargir_maximum_ok:
  assumes x: "pdisp_ok N x"
  shows "forE [0..<N] (elargir_maximum pmin) x = Inr (palier_elargi N pmin x)"
proof -
  let ?mx = "NombreMaxDeGroupesEnMarcheDuPalierThermique x" and ?mn = "NombreMinDeGroupesEnMarcheDuPalierThermique x"
    and ?pd = "PuissanceDisponibleDuPalierThermique x"
  let ?v = "\<lambda>t. max (?mx ! t) (?mn ! t)" and ?w = "\<lambda>t. max (?pd ! t) (pmin * of_int (max (?mx ! t) (?mn ! t)))"
  let ?I = "\<lambda>k y. y = x\<lparr>NombreMaxDeGroupesEnMarcheDuPalierThermique := colonne_jusqua ?v ?mx k,
    PuissanceDisponibleDuPalierThermique := colonne_jusqua ?w ?pd k\<rparr>"
  have l: "length ?mx = N" "length ?mn = N" "length ?pd = N" using x by (simp_all add: pdisp_ok_def)
  have "returns (forE [0..<N] (elargir_maximum pmin) x) (?I N)"
  proof (rule returns_for_upt [where I = ?I])
    fix k y assume k: "k < N" and y: "?I k y"
    have sel: "NombreMaxDeGroupesEnMarcheDuPalierThermique y = colonne_jusqua ?v ?mx k"
      "NombreMinDeGroupesEnMarcheDuPalierThermique y = ?mn" "PuissanceDisponibleDuPalierThermique y = colonne_jusqua ?w ?pd k"
      by (simp_all add: y)
    have v: "lire (colonne_jusqua ?v ?mx (Suc k)) k = Inr (?v k)"
      using k l by (simp add: colonne_jusqua_def nth_append)
    have ly: "lire (colonne_jusqua ?v ?mx k) k = Inr (?mx ! k)" "lire ?mn k = Inr (?mn ! k)"
      "lire (colonne_jusqua ?w ?pd k) k = Inr (?pd ! k)"
      using k l by simp_all
    have e: "(if ?mx ! k < ?mn ! k then ecrire (colonne_jusqua ?v ?mx k) k (?mn ! k) else Inr (colonne_jusqua ?v ?mx k))
        = Inr (colonne_jusqua ?v ?mx (Suc k))"
      by (rule ecrire_colonne) (use k l in \<open>auto simp: max_def\<close>)
    have f: "(if ?pd ! k < pmin * of_int (?v k) then ecrire (colonne_jusqua ?w ?pd k) k (pmin * of_int (?v k))
        else Inr (colonne_jusqua ?w ?pd k)) = Inr (colonne_jusqua ?w ?pd (Suc k))"
      by (rule ecrire_colonne) (use k l in \<open>simp_all add: max_absorb1 max_absorb2\<close>)
    have "elargir_maximum pmin k y = Inr (x\<lparr>NombreMaxDeGroupesEnMarcheDuPalierThermique := colonne_jusqua ?v ?mx (Suc k),
      PuissanceDisponibleDuPalierThermique := colonne_jusqua ?w ?pd (Suc k)\<rparr>)"
      unfolding elargir_maximum_def sel ly bindE_simps e v f by (simp add: y)
    then show "returns (elargir_maximum pmin k y) (?I (Suc k))" by simp
  qed simp
  then show ?thesis using l by (auto dest!: returnsD simp: palier_elargi_def)
qed

lemma egaler_maximum_ok:
  assumes x: "pdisp_ok N x"
  shows "forE [0..<N] egaler_maximum x = Inr (x\<lparr>NombreMaxDeGroupesEnMarcheDuPalierThermique :=
    NombreMinDeGroupesEnMarcheDuPalierThermique x\<rparr>)"
proof -
  let ?mx = "NombreMaxDeGroupesEnMarcheDuPalierThermique x" and ?mn = "NombreMinDeGroupesEnMarcheDuPalierThermique x"
  let ?I = "\<lambda>k y. y = x\<lparr>NombreMaxDeGroupesEnMarcheDuPalierThermique := colonne_jusqua ((!) ?mn) ?mx k\<rparr>"
  have l: "length ?mx = N" "length ?mn = N" using x by (simp_all add: pdisp_ok_def)
  have "returns (forE [0..<N] egaler_maximum x) (?I N)"
  proof (rule returns_for_upt [where I = ?I])
    fix k y assume "k < N" and "?I k y"
    then show "returns (egaler_maximum k y) (?I (Suc k))"
      using l colonne_jusqua_Suc [of k ?mx "(!) ?mn"] by (simp add: egaler_maximum_def)
  qed simp
  moreover have "map ((!) ?mn) [0..<N] = ?mn" using l(2) map_nth [of ?mn] by simp
  ultimately show ?thesis using l by (auto dest!: returnsD)
qed

text \<open>With an expansion, the second optimisation stays near the first.\<close>

definition palier_resserre ::
  "PROBLEME_HEBDO \<Rightarrow> RESULTATS \<Rightarrow> nat \<Rightarrow> nat \<Rightarrow> PDISP_ET_COUTS_HORAIRES_PAR_PALIER \<Rightarrow> PDISP_ET_COUTS_HORAIRES_PAR_PALIER" where
  "palier_resserre h R pays index x = (let N = NombreDePasDeTemps h in x\<lparr>
    PuissanceMinDuPalierThermique := map (\<lambda>t. max (PuissanceMinDuPalierThermique x ! t)
      (contenu R (ProductionThermiqueDuPalier pays t index) - 1)) [0..<N],
    PuissanceDisponibleDuPalierThermique := map (\<lambda>t. min (PuissanceDisponibleDuPalierThermique x ! t)
      (contenu R (ProductionThermiqueDuPalier pays t index) + 1)) [0..<N],
    NombreMinDeGroupesEnMarcheDuPalierThermique := map (\<lambda>t. max (NombreMinDeGroupesEnMarcheDuPalierThermique x ! t)
      \<lceil>contenu R (NombreDeGroupesEnMarcheDuPalier pays t index) - 1\<rceil>) [0..<N]\<rparr>)"

lemma resserrer_heures_ok:
  assumes a: "pays < NombreDePays h" "index < nb_paliers h pays" and x: "pdisp_ok (NombreDePasDeTemps h) x"
  shows "forE [0..<NombreDePasDeTemps h] (resserrer_heure h R pays index) x = Inr (palier_resserre h R pays index x)"
proof -
  let ?N = "NombreDePasDeTemps h" and ?P = "\<lambda>t. contenu R (ProductionThermiqueDuPalier pays t index)"
    and ?n = "\<lambda>t. contenu R (NombreDeGroupesEnMarcheDuPalier pays t index)"
  let ?a = "PuissanceMinDuPalierThermique x" and ?b = "PuissanceDisponibleDuPalierThermique x"
    and ?c = "NombreMinDeGroupesEnMarcheDuPalierThermique x"
  let ?u = "\<lambda>t. max (?a ! t) (?P t - 1)" and ?v = "\<lambda>t. min (?b ! t) (?P t + 1)" and ?w = "\<lambda>t. max (?c ! t) \<lceil>?n t - 1\<rceil>"
  let ?I = "\<lambda>k y. y = x\<lparr>PuissanceMinDuPalierThermique := colonne_jusqua ?u ?a k,
    PuissanceDisponibleDuPalierThermique := colonne_jusqua ?v ?b k, NombreMinDeGroupesEnMarcheDuPalierThermique := colonne_jusqua ?w ?c k\<rparr>"
  have l: "length ?a = ?N" "length ?b = ?N" "length ?c = ?N" using x by (simp_all add: pdisp_ok_def)
  have "returns (forE [0..<?N] (resserrer_heure h R pays index) x) (?I ?N)"
  proof (rule returns_for_upt [where I = ?I])
    fix k y assume k: "k < ?N" and y: "?I k y"
    have sel: "PuissanceMinDuPalierThermique y = colonne_jusqua ?u ?a k" "PuissanceDisponibleDuPalierThermique y = colonne_jusqua ?v ?b k"
      "NombreMinDeGroupesEnMarcheDuPalierThermique y = colonne_jusqua ?w ?c k"
      by (simp_all add: y)
    have ly: "lire (colonne_jusqua ?u ?a k) k = Inr (?a ! k)" "lire (colonne_jusqua ?v ?b k) k = Inr (?b ! k)"
      "lire (colonne_jusqua ?w ?c k) k = Inr (?c ! k)" "lire_adresse h R (ProductionThermiqueDuPalier pays k index) = Inr (?P k)"
      "lire_adresse h R (NombreDeGroupesEnMarcheDuPalier pays k index) = Inr (?n k)"
      using k l a by (simp_all add: lire_adresse_def)
    have e: "(if ?P k - 1 > ?a ! k then ecrire (colonne_jusqua ?u ?a k) k (?P k - 1) else Inr (colonne_jusqua ?u ?a k))
        = Inr (colonne_jusqua ?u ?a (Suc k))"
      by (rule ecrire_colonne) (use k l in \<open>auto simp: max_def\<close>)
    have f: "(if ?P k + 1 < ?b ! k then ecrire (colonne_jusqua ?v ?b k) k (?P k + 1) else Inr (colonne_jusqua ?v ?b k))
        = Inr (colonne_jusqua ?v ?b (Suc k))"
      by (rule ecrire_colonne) (use k l in \<open>auto simp: min_def\<close>)
    have m: "?n k - 1 > of_int (?c ! k) \<longleftrightarrow> ?c ! k < \<lceil>?n k - 1\<rceil>" by (simp only: less_ceiling_iff)
    have g: "(if ?n k - 1 > of_int (?c ! k) then ecrire (colonne_jusqua ?w ?c k) k \<lceil>?n k - 1\<rceil> else Inr (colonne_jusqua ?w ?c k))
        = Inr (colonne_jusqua ?w ?c (Suc k))"
      unfolding m by (rule ecrire_colonne) (use k l in \<open>simp_all only: max_def not_less if_True if_False less_imp_le, auto\<close>)
    have "resserrer_heure h R pays index k y = Inr (x\<lparr>PuissanceMinDuPalierThermique := colonne_jusqua ?u ?a (Suc k),
      PuissanceDisponibleDuPalierThermique := colonne_jusqua ?v ?b (Suc k),
      NombreMinDeGroupesEnMarcheDuPalierThermique := colonne_jusqua ?w ?c (Suc k)\<rparr>)"
      unfolding resserrer_heure_def sel ly bindE_simps e f g by (simp add: y)
    then show "returns (resserrer_heure h R pays index k y) (?I (Suc k))" by simp
  qed simp
  then show ?thesis using l by (auto dest!: returnsD simp: palier_resserre_def Let_def)
qed

text \<open>What a cluster becomes. Integer units are those of the first optimisation; otherwise the small problem chooses
  them, and the greatest numbers and the available power make room for them.\<close>

definition palier_ajuste ::
  "simplexe_seul \<Rightarrow> options \<Rightarrow> PROBLEME_HEBDO \<Rightarrow> RESULTATS \<Rightarrow> nat \<Rightarrow> nat \<Rightarrow> PDISP_ET_COUTS_HORAIRES_PAR_PALIER \<Rightarrow>
     PDISP_ET_COUTS_HORAIRES_PAR_PALIER \<Rightarrow> bool" where
  "palier_ajuste SPX op h R pays index x x' \<longleftrightarrow> (let pt = PaliersThermiquesDuPays h ! pays; n = groupes_arrondis h R pays index in
     if Expansion op then x' = palier_resserre h R pays index x
     else if OptimisationAvecVariablesEntieres h
     then x' = x\<lparr>NombreMinDeGroupesEnMarcheDuPalierThermique := n, NombreMaxDeGroupesEnMarcheDuPalierThermique := n\<rparr>
     else \<exists>mini. groupes_optimaux SPX (NombreDePasDeTemps h) n (NombreMaxDeGroupesEnMarcheDuPalierThermique x)
         (DureeMinimaleDeMarcheDUnGroupeDuPalierThermique pt ! index) (DureeMinimaleDArretDUnGroupeDuPalierThermique pt ! index) mini \<and>
       x' = palier_elargi (NombreDePasDeTemps h) (pminDUnGroupeDuPalierThermique pt ! index)
         (x\<lparr>NombreMinDeGroupesEnMarcheDuPalierThermique := mini\<rparr>))"

lemma palier_ajuste_ok:
  assumes "palier_ajuste SPX op h R pays index x x'" and "pdisp_ok (NombreDePasDeTemps h) x"
  shows "pdisp_ok (NombreDePasDeTemps h) x'"
  using assms groupes_optimaux_bornes(1) [of SPX "NombreDePasDeTemps h"]
  by (auto simp: palier_ajuste_def Let_def pdisp_ok_def palier_resserre_def palier_elargi_def split: if_splits)

lemma gardes_lus:
  assumes G: "resultats_gardes h R0 R" and a: "pays < NombreDePays h" "index < nb_paliers h pays"
  shows "groupes_arrondis h R pays index = groupes_arrondis h R0 pays index"
    and "palier_resserre h R pays index x = palier_resserre h R0 pays index x"
proof -
  have c: "contenu R (NombreDeGroupesEnMarcheDuPalier pays t index) = contenu R0 (NombreDeGroupesEnMarcheDuPalier pays t index)"
    "contenu R (ProductionThermiqueDuPalier pays t index) = contenu R0 (ProductionThermiqueDuPalier pays t index)"
    if "t < NombreDePasDeTemps h" for t
  proof -
    have "\<forall>c. adresse_valide h c \<and> \<not> est_transition c \<longrightarrow> contenu R c = contenu R0 c" using G unfolding resultats_gardes_def by blast
    from this [rule_format, of "NombreDeGroupesEnMarcheDuPalier pays t index"] this [rule_format, of "ProductionThermiqueDuPalier pays t index"]
    show "contenu R (NombreDeGroupesEnMarcheDuPalier pays t index) = contenu R0 (NombreDeGroupesEnMarcheDuPalier pays t index)"
      "contenu R (ProductionThermiqueDuPalier pays t index) = contenu R0 (ProductionThermiqueDuPalier pays t index)"
      using a that by simp_all
  qed
  show "groupes_arrondis h R pays index = groupes_arrondis h R0 pays index"
    using c by (auto simp: groupes_arrondis_def)
  have "map (\<lambda>t. max (PuissanceMinDuPalierThermique x ! t) (contenu R (ProductionThermiqueDuPalier pays t index) - 1)) [0..<NombreDePasDeTemps h] =
      map (\<lambda>t. max (PuissanceMinDuPalierThermique x ! t) (contenu R0 (ProductionThermiqueDuPalier pays t index) - 1)) [0..<NombreDePasDeTemps h]"
    "map (\<lambda>t. min (PuissanceDisponibleDuPalierThermique x ! t) (contenu R (ProductionThermiqueDuPalier pays t index) + 1)) [0..<NombreDePasDeTemps h] =
      map (\<lambda>t. min (PuissanceDisponibleDuPalierThermique x ! t) (contenu R0 (ProductionThermiqueDuPalier pays t index) + 1)) [0..<NombreDePasDeTemps h]"
    "map (\<lambda>t. max (NombreMinDeGroupesEnMarcheDuPalierThermique x ! t) \<lceil>contenu R (NombreDeGroupesEnMarcheDuPalier pays t index) - 1\<rceil>) [0..<NombreDePasDeTemps h] =
      map (\<lambda>t. max (NombreMinDeGroupesEnMarcheDuPalierThermique x ! t) \<lceil>contenu R0 (NombreDeGroupesEnMarcheDuPalier pays t index) - 1\<rceil>) [0..<NombreDePasDeTemps h]"
    using c by simp_all
  then show "palier_resserre h R pays index x = palier_resserre h R0 pays index x"
    unfolding palier_resserre_def Let_def by metis
qed

lemma ajuster_palier_ok:
  assumes S: "simplexe_ok SPX" and H: "hebdo_ok h" "OptimisationAvecCoutsDeDemarrage h"
    and a: "pays < NombreDePays h" "index < nb_paliers h pays" and D: "0 \<le> duree_marche h pays index"
    and G: "resultats_gardes h R0 R" and x: "pdisp_ok (NombreDePasDeTemps h) x"
  shows "returns (ajuster_palier SPX op h pays index (R, x))
    (\<lambda>(R', x'). resultats_gardes h R0 R' \<and> palier_ajuste SPX op h R0 pays index x x')"
proof (cases "Expansion op")
  case True
  then show ?thesis
    using resserrer_heures_ok [OF a x] gardes_lus(2) [OF G a] G by (simp add: ajuster_palier_def palier_ajuste_def Let_def)
next
  case False
  let ?N = "NombreDePasDeTemps h" and ?pt = "PaliersThermiquesDuPays h ! pays"
  let ?n = "groupes_arrondis h R0 pays index" and ?maxi = "NombreMaxDeGroupesEnMarcheDuPalierThermique x"
  let ?pmin = "pminDUnGroupeDuPalierThermique ?pt ! index"
  have l: "length (NombreMinDeGroupesEnMarcheDuPalierThermique x) = ?N" "length ?maxi = ?N" using x by (simp_all add: pdisp_ok_def)
  have lu: "lire (PaliersThermiquesDuPays h) pays = Inr ?pt" "lire (pminDUnGroupeDuPalierThermique ?pt) index = Inr ?pmin"
    "lire (PmaxDUnGroupeDuPalierThermique ?pt) index = Inr (PmaxDUnGroupeDuPalierThermique ?pt ! index)"
    using H a by simp_all
  have n: "arrondir_groupes h R pays index ?maxi (NombreMinDeGroupesEnMarcheDuPalierThermique x) = Inr ?n"
    using arrondir_groupes_ok [OF a l] gardes_lus(1) [OF G a] by simp
  have xn: "pdisp_ok ?N (x\<lparr>NombreMinDeGroupesEnMarcheDuPalierThermique := m\<rparr>)" if "length m = ?N" for m
    using x that by (simp add: pdisp_ok_def)
  show ?thesis
  proof (cases "OptimisationAvecVariablesEntieres h")
    case True
    then show ?thesis
      using False G egaler_maximum_ok [OF xn [of ?n]]
      by (simp add: ajuster_palier_def Let_def lu n palier_ajuste_def)
  next
    case c: False
    have d: "DureeMinimaleDeMarcheDUnGroupeDuPalierThermique ?pt ! index = duree_marche h pays index" by (simp add: duree_marche_def)
    note b = hebdo_ok_demarrage [OF H a]
    have "int (NombreDePasDeTempsPourUneOptimisation h) \<le> int ?N" using hebdo_ok_horizon(3) [OF H(1)] by simp
    then have c': "duree_marche h pays index \<le> int ?N" "DureeMinimaleDArretDUnGroupeDuPalierThermique ?pt ! index \<le> int ?N"
      using b by linarith+
    have "returns (OPT_PbLineairePourAjusterLeNombreMinDeGroupesDemarresCoutsDeDemarrage SPX h pays index ?maxi ?n R)
      (\<lambda>(R', mini'). transitions_posees h pays index ?n ?maxi ?N R R' \<and>
         groupes_optimaux SPX ?N ?n ?maxi (DureeMinimaleDeMarcheDUnGroupeDuPalierThermique ?pt ! index)
           (DureeMinimaleDArretDUnGroupeDuPalierThermique ?pt ! index) mini')"
    proof (rule OPT_PbLineaire_ok [OF S _ a _ _ l(2) _ _ refl _ _ refl])
      show "resultats_semaine_ok h R" using G by (simp add: resultats_gardes_def)
    qed (use H a b c' D d in simp_all)
    then obtain R' mini where r: "OPT_PbLineairePourAjusterLeNombreMinDeGroupesDemarresCoutsDeDemarrage SPX h pays index ?maxi ?n R = Inr (R', mini)"
      "transitions_posees h pays index ?n ?maxi ?N R R'"
      "groupes_optimaux SPX ?N ?n ?maxi (DureeMinimaleDeMarcheDUnGroupeDuPalierThermique ?pt ! index)
           (DureeMinimaleDArretDUnGroupeDuPalierThermique ?pt ! index) mini"
      by (auto elim!: returnsE)
    have "length mini = ?N" by (rule groupes_optimaux_bornes(1) [OF r(3)]) simp
    note e = elargir_maximum_ok [OF xn [OF this], of ?pmin]
    have "ajuster_palier SPX op h pays index (R, x) = Inr (R', palier_elargi ?N ?pmin (x\<lparr>NombreMinDeGroupesEnMarcheDuPalierThermique := mini\<rparr>))"
      using False c by (simp add: ajuster_palier_def Let_def lu n r(1) e)
    moreover have "palier_ajuste SPX op h R0 pays index x (palier_elargi ?N ?pmin (x\<lparr>NombreMinDeGroupesEnMarcheDuPalierThermique := mini\<rparr>))"
      unfolding palier_ajuste_def Let_def using False c r(3) by (simp only: if_False) blast
    moreover have "resultats_gardes h R0 R'" using resultats_gardes_trans [OF G transitions_gardes [OF r(2)]] .
    ultimately show ?thesis by simp
  qed
qed

subsection \<open>All the clusters\<close>

definition ajustes ::
  "simplexe_seul \<Rightarrow> options \<Rightarrow> PROBLEME_HEBDO \<Rightarrow> RESULTATS \<Rightarrow> DONNEES \<Rightarrow> (nat \<times> nat \<Rightarrow> bool) \<Rightarrow> RESULTATS \<times> DONNEES \<Rightarrow> bool" where
  "ajustes SPX op h R d S z \<longleftrightarrow> resultats_gardes h R (fst z) \<and> (\<exists>g. snd z = avec_paliers h g d \<and>
     (\<forall>pays < NombreDePays h. \<forall>i < nb_paliers h pays.
        if S (pays, i) then palier_ajuste SPX op h R pays i (pdisp_de d (pays, i)) (g pays i)
        else g pays i = pdisp_de d (pays, i)))"

lemma ajustes_cong:
  assumes "ajustes SPX op h R d S z" and "\<And>p i. p < NombreDePays h \<Longrightarrow> i < nb_paliers h p \<Longrightarrow> S (p, i) = T (p, i)"
  shows "ajustes SPX op h R d T z"
  using assms unfolding ajustes_def by (metis (no_types, lifting))

lemma ajustes_pas:
  assumes S: "simplexe_ok SPX" and H: "hebdo_ok h" "OptimisationAvecCoutsDeDemarrage h" and d: "donnees_hebdo_ok h d"
    and a: "pays < NombreDePays h" "index < nb_paliers h pays" and D: "0 \<le> duree_marche h pays index"
    and z: "ajustes SPX op h R0 d U z" and U: "\<not> U (pays, index)"
  shows "returns ((\<lambda>(R, d). bindE (lire (PaliersDonnees d) pays) (\<lambda>pd.
      bindE (lire (PuissanceDisponibleEtCout pd) index) (\<lambda>x.
      bindE (ajuster_palier SPX op h pays index (R, x)) (\<lambda>(R, x).
      bindE (sur_palier pays index (\<lambda>_. Inr x) d) (\<lambda>d. Inr (R, d)))))) z)
    (ajustes SPX op h R0 d (\<lambda>x. U x \<or> x = (pays, index)))"
proof -
  obtain R g where zd: "z = (R, avec_paliers h g d)" and G: "resultats_gardes h R0 R"
    and g: "\<And>p i. p < NombreDePays h \<Longrightarrow> i < nb_paliers h p \<Longrightarrow>
      if U (p, i) then palier_ajuste SPX op h R0 p i (pdisp_de d (p, i)) (g p i) else g p i = pdisp_de d (p, i)"
    using z unfolding ajustes_def by (metis prod.collapse)
  have g1: "palier_ajuste SPX op h R0 p i (pdisp_de d (p, i)) (g p i)" if "p < NombreDePays h" "i < nb_paliers h p" "U (p, i)" for p i
    using g [OF that(1,2)] that(3) by (simp only: if_True)
  have g0: "g p i = pdisp_de d (p, i)" if "p < NombreDePays h" "i < nb_paliers h p" "\<not> U (p, i)" for p i
    using g [OF that(1,2)] that(3) by (simp only: if_False)
  have x: "g pays index = pdisp_de d (pays, index)" by (rule g0 [OF a U])
  obtain R' x' where r: "ajuster_palier SPX op h pays index (R, g pays index) = Inr (R', x')" "resultats_gardes h R0 R'"
    "palier_ajuste SPX op h R0 pays index (pdisp_de d (pays, index)) x'"
    using ajuster_palier_ok [OF S H a D G, of "g pays index" op] donnees_palier(2) [OF d a] x by (auto elim!: returnsE)
  have s: "sur_palier pays index (\<lambda>_. Inr x') (avec_paliers h g d) = Inr (avec_paliers h (g(pays := (g pays)(index := x'))) d)"
    using sur_palier_ok [of pays "avec_paliers h g d" index "\<lambda>_. Inr x'" x'] avec_palier_paliers [OF a] a by simp
  have pd: "PuissanceDisponibleEtCout (PaliersDonnees (avec_paliers h g d) ! pays) ! index = g pays index"
    using avec_paliers_simps(3) [OF a, of g d] by simp
  have "ajustes SPX op h R0 d (\<lambda>x. U x \<or> x = (pays, index)) (R', avec_paliers h (g(pays := (g pays)(index := x'))) d)"
    unfolding ajustes_def
    by (rule conjI, use r(2) in simp, rule exI [of _ "g(pays := (g pays)(index := x'))"]) (use r(3) g1 g0 in auto)
  then show ?thesis using a s r(1) pd by (simp add: zd)
qed

lemma OPT_Ajuster_ok:
  assumes S: "simplexe_ok SPX" and H: "hebdo_ok h" "OptimisationAvecCoutsDeDemarrage h" and d: "donnees_hebdo_ok h d"
    and R: "resultats_semaine_ok h R"
    and D: "\<And>pays index. pays < NombreDePays h \<Longrightarrow> index < nb_paliers h pays \<Longrightarrow> 0 \<le> duree_marche h pays index"
  shows "returns (OPT_AjusterLeNombreMinDeGroupesDemarresCoutsDeDemarrage SPX op h (R, d))
    (\<lambda>z. ajustes SPX op h R d (\<lambda>_. True) z \<and> donnees_hebdo_ok h (snd z) \<and> resultats_semaine_ok h (fst z))"
proof -
  have l: "length (PaliersThermiquesDuPays h) = NombreDePays h" and dem: "\<not> \<not> OptimisationAvecCoutsDeDemarrage h"
    using H by simp_all
  have "returns (OPT_AjusterLeNombreMinDeGroupesDemarresCoutsDeDemarrage SPX op h (R, d)) (ajustes SPX op h R d (\<lambda>_. True))"
    unfolding OPT_AjusterLeNombreMinDeGroupesDemarresCoutsDeDemarrage_def if_not_P [OF dem]
  proof (rule boucle_paliers [OF l])
    show "ajustes SPX op h R d (\<lambda>_. False) (R, d)"
      unfolding ajustes_def
      by (rule conjI, use R in \<open>simp add: resultats_gardes_def\<close>, rule exI [of _ "\<lambda>pays i. pdisp_de d (pays, i)"])
        (use avec_paliers_meme [OF d] in simp)
  qed (rule ajustes_cong, assumption+, rule ajustes_pas [OF S H d _ _ D], assumption+)
  then show ?thesis
  proof (rule returns_mono)
    fix z assume z: "ajustes SPX op h R d (\<lambda>_. True) z"
    then obtain g where zd: "snd z = avec_paliers h g d" and G: "resultats_gardes h R (fst z)"
      and g: "\<And>p i. p < NombreDePays h \<Longrightarrow> i < nb_paliers h p \<Longrightarrow> palier_ajuste SPX op h R p i (pdisp_de d (p, i)) (g p i)"
      by (auto simp: ajustes_def)
    have "donnees_hebdo_ok h (snd z)" unfolding zd
      by (rule avec_paliers_ok [OF d]) (use palier_ajuste_ok [OF g] donnees_palier(2) [OF d] in simp)
    then show "ajustes SPX op h R d (\<lambda>_. True) z \<and> donnees_hebdo_ok h (snd z) \<and> resultats_semaine_ok h (fst z)"
      using z G by (simp add: resultats_gardes_def)
  qed
qed


end
