(* ===== verification/Bounds_Correct.thy ===== *)
theory Bounds_Correct
  imports Bounds
begin

text \<open>
  The functions of \<open>Bounds\<close> write the table of \<open>Bounds\<close>: every variable of the problem gets its bounds, its type
  for the links, and the addresses of its value and of its reduced cost, and nothing else of the linear problem changes.
\<close>

subsection \<open>The statements of the code\<close>

definition sans_bornes :: "PROBLEME_ANTARES_A_RESOUDRE \<Rightarrow> PROBLEME_ANTARES_A_RESOUDRE" where
  "sans_bornes p = p\<lparr>TypeDeVariable := [], Xmin := [], Xmax := [],
     AdresseOuPlacerLaValeurDesVariablesOptimisees := [], AdresseOuPlacerLaValeurDesCoutsReduits := []\<rparr>"

definition bornes_ok :: "contexte_bornes \<Rightarrow> PROBLEME_ANTARES_A_RESOUDRE \<Rightarrow> etat_bornes \<Rightarrow> bool" where
  "bornes_ok b p0 z \<longleftrightarrow> (case z of (rs, p) \<Rightarrow> resultats_ok (bh b) rs \<and>
     map ValeursHorairesDENS rs = map ValeursHorairesDENS (brs b) \<and> sans_bornes p = sans_bornes p0 \<and>
     NombreDeVariables p = nb_variables (bh b) \<and>
     (let nv = nb_variables_prevues (bh b) in length (TypeDeVariable p) = nv \<and> length (Xmin p) = nv \<and>
       length (Xmax p) = nv \<and> length (AdresseOuPlacerLaValeurDesVariablesOptimisees p) = nv \<and>
       length (AdresseOuPlacerLaValeurDesCoutsReduits p) = nv))"

lemma est_flux_reduit: "est_flux q \<Longrightarrow> reduit_ecrit q"
  by (cases q rule: est_flux.cases) simp_all

interpretation bornes: cellules "bornes_ok b p0" cellule_bornes "nb_variables (bh b)" "place_de (bh b)"
    "maj_bornes b" for b p0
  by unfold_locales (auto simp: maj_bornes_def type_apres_def split: prod.splits)

abbreviation bornes_ecrites ::
  "contexte_bornes \<Rightarrow> PROBLEME_ANTARES_A_RESOUDRE \<Rightarrow> place set \<Rightarrow> (etat_bornes \<Rightarrow> etat_bornes resultat) \<Rightarrow> bool" where
  "bornes_ecrites b p0 \<equiv> cellules.ecrites (bornes_ok b p0) cellule_bornes (nb_variables (bh b))
     (place_de (bh b)) (maj_bornes b)"

text \<open>A pass over the range: the constructed problem and its data.\<close>

definition pass_bornes :: "contexte_bornes \<Rightarrow> etat \<Rightarrow> bool" where
  "pass_bornes b s \<longleftrightarrow> remplissage (bh b) (bd b) s (bpremier b) \<and> resultats_ok (bh b) (brs b)"

lemma pass_bornesD: "pass_bornes b s \<Longrightarrow> remplissage (bh b) (bd b) s (bpremier b)"
  by (simp add: pass_bornes_def)

lemma bornes_ok_taille:
  assumes "pass_bornes b s" and "bornes_ok b p0 (rs, p)" and "k < nb_variables (bh b)"
  shows "k < length (TypeDeVariable p)" "k < length (Xmin p)" "k < length (Xmax p)"
    "k < length (AdresseOuPlacerLaValeurDesVariablesOptimisees p)"
    "k < length (AdresseOuPlacerLaValeurDesCoutsReduits p)"
  using assms(2,3) remplir_ok(7) [OF remplissage_pret [OF pass_bornesD [OF assms(1)]]]
  by (simp_all add: bornes_ok_def Let_def)

text \<open>What the statement of a place must do when the variable exists, at its number.\<close>

definition ecrit_en ::
  "contexte_bornes \<Rightarrow> PROBLEME_ANTARES_A_RESOUDRE \<Rightarrow> place \<Rightarrow> nat \<Rightarrow> (etat_bornes \<Rightarrow> etat_bornes resultat) \<Rightarrow> bool" where
  "ecrit_en b p0 q k f \<longleftrightarrow> (\<forall>rs p. bornes_ok b p0 (rs, p) \<longrightarrow> k < length (TypeDeVariable p) \<longrightarrow> k < length (Xmin p) \<longrightarrow>
     k < length (Xmax p) \<longrightarrow> k < length (AdresseOuPlacerLaValeurDesVariablesOptimisees p) \<longrightarrow>
     k < length (AdresseOuPlacerLaValeurDesCoutsReduits p) \<longrightarrow> (\<exists>rs' p'. f (rs, p) = Inr (rs', p') \<and>
       bornes_ok b p0 (rs', p') \<and> cellule_bornes (rs', p') k = maj_bornes b q (cellule_bornes (rs, p) k) \<and>
       (\<forall>i. i \<noteq> k \<longrightarrow> cellule_bornes (rs', p') i = cellule_bornes (rs, p) i)))"

lemma borne_ecrite:
  assumes R: "pass_bornes b s" and q: "q \<in> set (places_de (liste_variables (bh b)))"
    and absente: "lecture s q = - 1 \<Longrightarrow> bornes_ecrites b p0 {} f"
    and presente: "\<And>k. k < nb_variables (bh b) \<Longrightarrow> lecture s q = int k \<Longrightarrow> ecrit_en b p0 q k f"
  shows "bornes_ecrites b p0 {q} f"
proof (rule bornes.ecrites_place)
  note R' = remplissage_pret [OF pass_bornesD [OF R]]
  show "inj_on (place_de (bh b)) {..<nb_variables (bh b)}"
    by (rule place_de_injective [OF remplir_ok(2) [OF R']])
  show "returns (f z) (\<lambda>z'. bornes_ok b p0 z' \<and> (\<forall>i < nb_variables (bh b). cellule_bornes z' i = cellule_bornes z i))"
    if "bornes_ok b p0 z" "\<forall>i < nb_variables (bh b). place_de (bh b) i \<noteq> q" for z
    using bornes.ecritesD [OF absente that(1)] lecture_sans_place [OF remplir_ok(3) [OF R'] q that(2)] by simp
  fix z k assume z: "bornes_ok b p0 z" and k: "k < nb_variables (bh b)" "place_de (bh b) k = q"
  obtain rs p where z': "z = (rs, p)" by (cases z)
  have "lecture s q = int k" using lecture_place [OF remplir_ok(3) [OF R'] k(1)] k(2) by simp
  from presente [OF k(1) this] show "returns (f z) (\<lambda>z'. bornes_ok b p0 z' \<and> cellule_bornes z' k = maj_bornes b q (cellule_bornes z k) \<and>
      (\<forall>i < nb_variables (bh b). i \<noteq> k \<longrightarrow> cellule_bornes z' i = cellule_bornes z i))"
    using bornes_ok_taille [OF R z [unfolded z'] k(1)] z unfolding ecrit_en_def z' by fastforce
qed

text \<open>A variable of the list that exists has a number.\<close>

lemma borne_toujours:
  assumes R: "pass_bornes b s" and q: "q \<in> set (places_de (liste_variables (bh b)))"
    and existe: "(q, None) \<notin> set (liste_variables (bh b))"
    and presente: "\<And>k. k < nb_variables (bh b) \<Longrightarrow> lecture s q = int k \<Longrightarrow> ecrit_en b p0 q k f"
  shows "bornes_ecrites b p0 {q} f"
proof (rule borne_ecrite [OF R q])
  note R' = remplissage_pret [OF pass_bornesD [OF R]]
  assume l: "lecture s q = - 1"
  obtain v where "(q, v) \<in> set (liste_variables (bh b))" using q by (auto simp: places_de_def)
  with existe obtain w where "(q, w) \<in> set (creees (liste_variables (bh b)))"
    by (cases v) (auto simp: creees_subset)
  then obtain k where "k < nb_variables (bh b)" "place_de (bh b) k = q"
    by (metis fst_conv in_set_conv_nth nb_variables_def)
  then show "bornes_ecrites b p0 {} f"
    using lecture_place [OF remplir_ok(3) [OF R']] l by fastforce
qed (use presente in simp)

text \<open>The writes of the code at a number.\<close>

lemmas ecritures_bornes = ecrire_Xmin_def ecrire_Xmax_def ecrire_type_def ecrire_optimisee_def ecrire_reduit_def
  modifier_Xmax_def

lemma annuler_resultat_ok:
  assumes "bornes_ok b p0 (rs, p)" and "pays < NombreDePays (bh b)" and "t < NombreDePasDeTemps (bh b)"
    and champ: "\<And>r. resultat_ok (NombreDePasDeTemps (bh b)) r \<Longrightarrow> length (champ r) = NombreDePasDeTemps (bh b)"
    and poser: "\<And>r x. resultat_ok (NombreDePasDeTemps (bh b)) r \<Longrightarrow> length x = NombreDePasDeTemps (bh b) \<Longrightarrow>
      resultat_ok (NombreDePasDeTemps (bh b)) (poser x r) \<and> ValeursHorairesDENS (poser x r) = ValeursHorairesDENS r"
  shows "\<exists>rs'. resultats_ok (bh b) rs' \<and> map ValeursHorairesDENS rs' = map ValeursHorairesDENS rs \<and>
    (\<forall>p. annuler_resultat champ poser pays t (rs, p) = Inr (rs', p))"
proof -
  have rs: "resultats_ok (bh b) rs" using assms(1) by (simp add: bornes_ok_def)
  then have l: "pays < length rs" and r: "resultat_ok (NombreDePasDeTemps (bh b)) (rs ! pays)"
    using assms(2) by (simp_all add: resultats_ok_def)
  let ?r = "poser ((champ (rs ! pays))[t := 0]) (rs ! pays)"
  have ok: "resultat_ok (NombreDePasDeTemps (bh b)) ?r" "ValeursHorairesDENS ?r = ValeursHorairesDENS (rs ! pays)"
    using poser [OF r] champ [OF r] by simp_all
  have "resultats_ok (bh b) (rs[pays := ?r])"
    using rs ok(1) set_update_subset_insert [of rs pays ?r] by (auto simp: resultats_ok_def)
  moreover have "map ValeursHorairesDENS (rs[pays := ?r]) = map ValeursHorairesDENS rs"
    using l by (simp add: map_update ok(2) list_update_same_conv)
  ultimately show ?thesis
    using l champ [OF r] assms(3) by (intro exI [of _ "rs[pays := ?r]"]) (simp add: annuler_resultat_def)
qed

lemma annuler_ecrites:
  assumes "pays < NombreDePays (bh b)" and "t < NombreDePasDeTemps (bh b)"
    and "\<And>r. resultat_ok (NombreDePasDeTemps (bh b)) r \<Longrightarrow> length (champ r) = NombreDePasDeTemps (bh b)"
    and "\<And>r x. resultat_ok (NombreDePasDeTemps (bh b)) r \<Longrightarrow> length x = NombreDePasDeTemps (bh b) \<Longrightarrow>
      resultat_ok (NombreDePasDeTemps (bh b)) (poser x r) \<and> ValeursHorairesDENS (poser x r) = ValeursHorairesDENS r"
  shows "bornes_ecrites b p0 {} (annuler_resultat champ poser pays t)"
proof (rule bornes.ecritesI)
  fix z assume z: "bornes_ok b p0 z"
  obtain rs p where z': "z = (rs, p)" by (cases z)
  show
    "returns (annuler_resultat champ poser pays t z) (\<lambda>z'. bornes_ok b p0 z' \<and> (\<forall>i < nb_variables (bh b).
       cellule_bornes z' i = (if place_de (bh b) i \<in> {} then maj_bornes b (place_de (bh b) i) (cellule_bornes z i)
         else cellule_bornes z i)))"
    using annuler_resultat_ok [OF z [unfolded z'] assms] z
    by (fastforce simp: z' bornes_ok_def cellule_bornes_def Let_def)
qed

lemma annulations:
  assumes "pays < NombreDePays (bh b)" and "t < NombreDePasDeTemps (bh b)"
  shows "bornes_ecrites b p0 {} (annuler_resultat TurbinageHoraire (\<lambda>x. TurbinageHoraire_update (\<lambda>_. x)) pays t)"
    "bornes_ecrites b p0 {} (annuler_resultat PompageHoraire (\<lambda>x. PompageHoraire_update (\<lambda>_. x)) pays t)"
    "bornes_ecrites b p0 {} (annuler_resultat debordementsHoraires (\<lambda>x. debordementsHoraires_update (\<lambda>_. x)) pays t)"
    "bornes_ecrites b p0 {} (annuler_resultat ValeursHorairesDeDefaillanceEnReserve
      (\<lambda>x. ValeursHorairesDeDefaillanceEnReserve_update (\<lambda>_. x)) pays t)"
  by (rule annuler_ecrites [OF assms]; simp add: resultat_ok_def)+

subsection \<open>The links\<close>

lemma borne_var:
  assumes R: "pass_bornes b s" and q: "Var c t i \<in> set (places_de (liste_variables (bh b)))"
    and existe: "(Var c t i, None) \<notin> set (liste_variables (bh b))"
    and f: "\<And>k. ecrit_en b p0 (Var c t i) k (f (int k))"
  shows "bornes_ecrites b p0 {Var c t i} (\<lambda>z. bindE (lire_var s c t i) (\<lambda>var. f var z))"
proof (rule borne_toujours [OF R q existe])
  show "ecrit_en b p0 (Var c t i) k (\<lambda>z. bindE (lire_var s c t i) (\<lambda>var. f var z))"
    if "lecture s (Var c t i) = int k" for k
    using f [of k] that by (simp add: lire_var_ok [OF remplissage_pret [OF pass_bornesD [OF R]] q] del: lecture.simps)
qed

lemma borne_var_si:
  assumes R: "pass_bornes b s" and q: "Var c t i \<in> set (places_de (liste_variables (bh b)))"
    and absente: "bornes_ecrites b p0 {} (f (- 1))"
    and f: "\<And>k. k < nb_variables (bh b) \<Longrightarrow> ecrit_en b p0 (Var c t i) k (f (int k))"
  shows "bornes_ecrites b p0 {Var c t i} (\<lambda>z. bindE (lire_var s c t i) (\<lambda>var. f var z))"
  by (rule borne_ecrite [OF R q])
    (use absente f in \<open>simp_all add: lire_var_ok [OF remplissage_pret [OF pass_bornesD [OF R]] q] del: lecture.simps\<close>)

lemmas ecrit_simps = ecrit_en_def ecritures_bornes cellule_bornes_def maj_bornes_def bornes_ok_def sans_bornes_def
  type_apres_def Let_def

text \<open>A variable of a link, of an area, of a cluster always exists.\<close>

lemma existe_dans:
  assumes "numeros_distincts h" and "set fs \<subseteq> set (liste_variables h)" and "q \<in> set (places_de fs)"
    and "\<forall>f \<in> set fs. snd f \<noteq> None"
  shows "(q, None) \<notin> set (liste_variables h)"
proof
  assume n: "(q, None) \<in> set (liste_variables h)"
  obtain v where "(q, Some v) \<in> set fs"
    using assms(3,4) by (fastforce simp: places_de_def)
  with assms(2) have "(q, Some v) \<in> set (liste_variables h)" by blast
  with n places_distinctes [OF assms(1)] show False
    by (metis eq_key_imp_eq_value option.distinct(1) places_de_def)
qed

lemma existe_toujours:
  "numeros_distincts h \<Longrightarrow> j < NombreDePasDeTempsPourUneOptimisation h \<Longrightarrow> l < NombreDInterconnexions h \<Longrightarrow>
     q \<in> set (places_de (fiches_interco h j l)) \<Longrightarrow> (q, None) \<notin> set (liste_variables h)"
  "numeros_distincts h \<Longrightarrow> j < NombreDePasDeTempsPourUneOptimisation h \<Longrightarrow> pays < NombreDePays h \<Longrightarrow>
     q \<in> set (places_de (fiches_pays h j pays)) \<Longrightarrow> (q, None) \<notin> set (liste_variables h)"
  "numeros_distincts h \<Longrightarrow> OptimisationAvecCoutsDeDemarrage h \<Longrightarrow> j < NombreDePasDeTempsPourUneOptimisation h \<Longrightarrow>
     pays < NombreDePays h \<Longrightarrow> i < nb_paliers h pays \<Longrightarrow>
     q \<in> set (places_de (fiches_demarrage h pays i j)) \<Longrightarrow> (q, None) \<notin> set (liste_variables h)"
proof -
  show "(q, None) \<notin> set (liste_variables h)" if "numeros_distincts h"
    and "j < NombreDePasDeTempsPourUneOptimisation h" "l < NombreDInterconnexions h"
    "q \<in> set (places_de (fiches_interco h j l))"
    by (rule existe_dans [OF that(1) _ that(4)])
      (use dans_liste_interco [OF that(2,3)] in \<open>auto simp: fiches_interco_def existe_def Let_def\<close>)
  show "(q, None) \<notin> set (liste_variables h)" if "numeros_distincts h"
    and "j < NombreDePasDeTempsPourUneOptimisation h" "pays < NombreDePays h"
    "q \<in> set (places_de (fiches_pays h j pays))"
    by (rule existe_dans [OF that(1) _ that(4)])
      (use dans_liste_pays [OF that(2,3)] in \<open>auto simp: fiches_pays_def fiche_palier_def fiches_stockage_def existe_def Let_def\<close>)
  show "(q, None) \<notin> set (liste_variables h)" if "numeros_distincts h" "OptimisationAvecCoutsDeDemarrage h"
    and "j < NombreDePasDeTempsPourUneOptimisation h" "pays < NombreDePays h" "i < nb_paliers h pays"
    "q \<in> set (places_de (fiches_demarrage h pays i j))"
    by (rule existe_dans [OF that(1) _ that(6)])
      (use dans_liste_demarrage that in \<open>auto simp: fiches_demarrage_def entiere_def Let_def\<close>)
qed

lemma setNTCbounds_ok:
  assumes R: "pass_bornes b s" and t: "t < NombreDePasDeTempsPourUneOptimisation (bh b)"
    and l: "l < NombreDInterconnexions (bh b)"
  shows "setNTCbounds (bd b) (badq b) (ValeursDeNTC (bd b) ! (bpremier b + t)) l =
    Inr (xmax_de b (Var NumeroDeVariableDeLInterconnexion t l), xmin_de b (Var NumeroDeVariableDeLInterconnexion t l))"
proof -
  note R' = pass_bornesD [OF R]
  note [simp] = remplissage_simps [OF R'] remplissage_tailles [OF R'] l t
  have "ntc_ok (NombreDInterconnexions (bh b)) (ValeursDeNTC (bd b) ! (bpremier b + t))"
    using donnees_heure(1) [of "bh b" "bd b" "bpremier b + t"] R' by (simp add: remplissage_def)
  then show ?thesis
    by (cases "originAreaMode (adequacyPatchRuntimeData (bd b)) ! l";
        cases "extremityAreaMode (adequacyPatchRuntimeData (bd b)) ! l")
      (simp_all add: setNTCbounds_def getNTCtoZeroStatus_def Let_def ntc_ok_def lien_coupe_def lien_sens_unique_def
        premiere_etape_def SetNTCForAdequacyFirstStepOriginNodeInsideAdq_def
        getNTCtoZeroStatusOriginNodeOutsideAdq_def)
qed

lemma bornes_interco_ok:
  assumes R: "pass_bornes b s" and [simp]: "j < NombreDePasDeTempsPourUneOptimisation (bh b)"
    "l < NombreDInterconnexions (bh b)"
  shows "bornes_ecrites b p0 (set (places_de (fiches_interco (bh b) j l)))
    (bornes_interco (bh b) (bd b) (badq b) s (bpremier b + j) j l)"
proof -
  note R' = pass_bornesD [OF R]
  note [simp] = remplissage_simps [OF R'] remplissage_tailles [OF R']
  note dans = places_dans_liste(1) [OF assms(2,3)] and existe = existe_toujours(1) [OF remplir_ok(2) [OF remplissage_pret [OF R']] assms(2,3)]
  let ?c = "CoutDeTransport (bh b) ! l" and ?t = "TransportDonnees (bd b) ! l"
    and ?n = "ValeursDeNTC (bd b) ! (bpremier b + j)"
  have n: "ntc_ok (NombreDInterconnexions (bh b)) ?n"
    using donnees_heure(1) [of "bh b" "bd b" "bpremier b + j"] R' by (simp add: remplissage_def)
  have lus: "lire (CoutDeTransport (bh b)) l = Inr ?c" "lire (TransportDonnees (bd b)) l = Inr ?t"
    "lire (ValeursDeNTC (bd b)) (bpremier b + j) = Inr ?n" by simp_all
  have 1: "bornes_ecrites b p0 {Var NumeroDeVariableDeLInterconnexion j l}
     (\<lambda>z. bindE (lire_var s NumeroDeVariableDeLInterconnexion j l) (\<lambda>var. bornes_flux (bd b) (badq b) (bpremier b + j) l var z))"
  proof (rule borne_var [OF R dans existe])
    show "ecrit_en b p0 (Var NumeroDeVariableDeLInterconnexion j l) k (bornes_flux (bd b) (badq b) (bpremier b + j) l (int k))" for k
      using setNTCbounds_ok [OF R assms(2,3)] by (simp add: bornes_flux_def ecrit_simps del: xmin_de.simps xmax_de.simps)
  qed (simp_all add: fiches_interco_def Let_def)
  have 2: "bornes_ecrites b p0 {Var NumeroDeVariableCoutOrigineVersExtremiteDeLInterconnexion j l}
     (\<lambda>z. bindE (lire_var s NumeroDeVariableCoutOrigineVersExtremiteDeLInterconnexion j l) (\<lambda>var.
        bindE (lire (ValeurDeNTCOrigineVersExtremite ?n) l) (\<lambda>v.
        bindE (lire (ValeurDeLoopFlowOrigineVersExtremite ?n) l) (\<lambda>lf.
        bornes_cout_flux v (IntercoGereeAvecLoopFlow ?t) (- lf) var z))))"
    "bornes_ecrites b p0 {Var NumeroDeVariableCoutExtremiteVersOrigineDeLInterconnexion j l}
     (\<lambda>z. bindE (lire_var s NumeroDeVariableCoutExtremiteVersOrigineDeLInterconnexion j l) (\<lambda>var.
        bindE (lire (ValeurDeNTCExtremiteVersOrigine ?n) l) (\<lambda>v.
        bindE (lire (ValeurDeLoopFlowOrigineVersExtremite ?n) l) (\<lambda>lf.
        bornes_cout_flux v (IntercoGereeAvecLoopFlow ?t) lf var z))))"
    if i: "IntercoGereeAvecDesCouts ?c"
  proof -
    let ?q1 = "Var NumeroDeVariableCoutOrigineVersExtremiteDeLInterconnexion j l"
      and ?q2 = "Var NumeroDeVariableCoutExtremiteVersOrigineDeLInterconnexion j l"
    have f: "?q1 \<in> set (places_de (fiches_interco (bh b) j l))" "?q2 \<in> set (places_de (fiches_interco (bh b) j l))"
      by (simp_all add: fiches_interco_def Let_def i)
    have e: "ecrit_en b p0 ?q1 k (bornes_cout_flux (ValeurDeNTCOrigineVersExtremite ?n ! l) (IntercoGereeAvecLoopFlow ?t)
        (- (ValeurDeLoopFlowOrigineVersExtremite ?n ! l)) (int k))"
      "ecrit_en b p0 ?q2 k (bornes_cout_flux (ValeurDeNTCExtremiteVersOrigine ?n ! l) (IntercoGereeAvecLoopFlow ?t)
        (ValeurDeLoopFlowOrigineVersExtremite ?n ! l) (int k))" for k
      by (simp_all add: bornes_cout_flux_def ecrit_simps whenE_def)
    show "bornes_ecrites b p0 {?q1} (\<lambda>z. bindE (lire_var s NumeroDeVariableCoutOrigineVersExtremiteDeLInterconnexion j l) (\<lambda>var.
        bindE (lire (ValeurDeNTCOrigineVersExtremite ?n) l) (\<lambda>v.
        bindE (lire (ValeurDeLoopFlowOrigineVersExtremite ?n) l) (\<lambda>lf.
        bornes_cout_flux v (IntercoGereeAvecLoopFlow ?t) (- lf) var z))))"
      by (rule borne_var [OF R dans [OF f(1)] existe [OF f(1)]]) (use n e(1) in \<open>simp add: ntc_ok_def\<close>)
    show "bornes_ecrites b p0 {?q2} (\<lambda>z. bindE (lire_var s NumeroDeVariableCoutExtremiteVersOrigineDeLInterconnexion j l) (\<lambda>var.
        bindE (lire (ValeurDeNTCExtremiteVersOrigine ?n) l) (\<lambda>v.
        bindE (lire (ValeurDeLoopFlowOrigineVersExtremite ?n) l) (\<lambda>lf.
        bornes_cout_flux v (IntercoGereeAvecLoopFlow ?t) lf var z))))"
      by (rule borne_var [OF R dans [OF f(2)] existe [OF f(2)]]) (use n e(2) in \<open>simp add: ntc_ok_def\<close>)
  qed
  show ?thesis
    unfolding bornes_interco_def [abs_def]
    by (intro bornes.ecrites_lire [OF lus(1)] bornes.ecrites_lire [OF lus(2)] bornes.ecrites_lire [OF lus(3)]
        bornes.ecrites_egal [OF bornes.ecrites_seqE_Cons [OF 1 bornes.ecrites_seqE_Cons [OF bornes.ecrites_whenE
          [OF bornes.ecrites_seqE_Cons [OF 2(1) bornes.ecrites_seqE_Cons [OF 2(2) bornes.ecrites_seqE_Nil]]]
          bornes.ecrites_seqE_Nil]]])
      (auto simp: fiches_interco_def Let_def)
qed

subsection \<open>The areas\<close>

text \<open>The sizes of the data of an area that the bounds read.\<close>

lemma pass_pays:
  assumes R: "pass_bornes b s" and "pays < NombreDePays (bh b)"
  shows "hydro_donnees_ok (NombreDePasDeTemps (bh b)) (NombreDeJours (bh b)) (HydroDonnees (bd b) ! pays)"
    "i < nb_paliers (bh b) pays \<Longrightarrow> pdisp_ok (NombreDePasDeTemps (bh b)) (PuissanceDisponibleEtCout (PaliersDonnees (bd b) ! pays) ! i)"
    "k < length (ShortTermStorage (bh b) ! pays) \<Longrightarrow>
      sts_donnees_ok (weekInTheYear (bh b) * 168 + NombreDePasDeTemps (bh b)) (StockageDonnees (bd b) ! pays ! k)"
  using donnees_pays [of "bh b" "bd b" pays] remplissage_pays(7) [OF pass_bornesD [OF R] assms(2)] pass_bornesD [OF R] assms(2)
  by (simp_all add: remplissage_def list_all_length)

lemma hydro_tailles:
  "hydro_donnees_ok T jours x \<Longrightarrow> length (MingenHoraire x) = T \<and> length (ContrainteDePmaxHydrauliqueHoraire x) = T \<and>
     length (ContrainteDePmaxPompageHoraire x) = T \<and> length (ApportNaturelHoraire x) = T \<and>
     length (NiveauHoraireInf x) = T \<and> length (NiveauHoraireSup x) = T"
  by (simp add: hydro_donnees_ok_def)

lemma bornes_palier_ok:
  assumes R: "pass_bornes b s" and [simp]: "j < NombreDePasDeTempsPourUneOptimisation (bh b)" "pays < NombreDePays (bh b)"
    "i < nb_paliers (bh b) pays"
  shows "bornes_ecrites b p0 {Var NumeroDeVariableDuPalierThermique j (numero_palier (bh b) pays i)}
    (bornes_palier (bh b) (bd b) s (bpremier b + j) j pays i)"
proof -
  note R' = pass_bornesD [OF R]
  note [simp] = remplissage_simps [OF R'] pass_pays(2) [OF R assms(3,4), unfolded pdisp_ok_def]
  note q = places_pays_dans(1) [OF assms(4)]
  let ?pt = "PaliersThermiquesDuPays (bh b) ! pays"
  have lus: "lire (PaliersThermiquesDuPays (bh b)) pays = Inr ?pt"
    "lire (NumeroDuPalierDansLEnsembleDesPaliersThermiques ?pt) i = Inr (numero_palier (bh b) pays i)"
    by simp_all
  show ?thesis
    unfolding bornes_palier_def [abs_def]
    by (intro bornes.ecrites_lire [OF lus(1)] bornes.ecrites_lire [OF lus(2)]
        borne_var [OF R places_dans_liste(2) [OF assms(2,3) q]
          existe_toujours(2) [OF remplir_ok(2) [OF remplissage_pret [OF R']] assms(2,3) q]])
      (simp add: ecrit_simps)
qed

text \<open>A variable of the reservoir: its statement is skipped when it does not exist.\<close>

lemma borne_hydro:
  assumes R: "pass_bornes b s"
    and a: "j < NombreDePasDeTempsPourUneOptimisation (bh b)" "pays < NombreDePays (bh b)"
    and c: "Var c j pays \<in> set (places_de (fiches_hydro (bh b) j pays))"
    and f: "\<And>k. k < nb_variables (bh b) \<Longrightarrow> ecrit_en b p0 (Var c j pays) k (f (int k))"
    and absente: "bornes_ecrites b p0 {} (f (- 1))"
  shows "bornes_ecrites b p0 {Var c j pays} (\<lambda>z. bindE (lire_var s c j pays) (\<lambda>var. f var z))"
  by (rule borne_var_si [OF R places_dans_liste(3) [OF a c] absente f])

lemma ecrit_apres:
  assumes "bornes_ecrites b p0 {} g" and "ecrit_en b p0 q k f" and "k < nb_variables (bh b)" and "pass_bornes b s"
    and "\<And>rs p. bornes_ok b p0 (rs, p) \<Longrightarrow> \<exists>rs'. g (rs, p) = Inr (rs', p)"
  shows "ecrit_en b p0 q k (seqE [g, f])"
  unfolding ecrit_en_def
proof (intro allI impI)
  fix rs p
  assume ok: "bornes_ok b p0 (rs, p)" and l: "k < length (TypeDeVariable p)" "k < length (Xmin p)" "k < length (Xmax p)"
    "k < length (AdresseOuPlacerLaValeurDesVariablesOptimisees p)" "k < length (AdresseOuPlacerLaValeurDesCoutsReduits p)"
  from assms(5) [OF ok] obtain rs' where g: "g (rs, p) = Inr (rs', p)" by blast
  have ok': "bornes_ok b p0 (rs', p)"
    using bornes.ecritesD [OF assms(1) ok] g by simp
  have c: "cellule_bornes (rs', p) i = cellule_bornes (rs, p) i" for i by (simp add: cellule_bornes_def)
  from assms(2) ok' l obtain rs'' p'' where "f (rs', p) = Inr (rs'', p'')" "bornes_ok b p0 (rs'', p'')"
    "cellule_bornes (rs'', p'') k = maj_bornes b q (cellule_bornes (rs', p) k)"
    "\<forall>i. i \<noteq> k \<longrightarrow> cellule_bornes (rs'', p'') i = cellule_bornes (rs', p) i"
    unfolding ecrit_en_def by blast
  with g show "\<exists>rs' p'. seqE [g, f] (rs, p) = Inr (rs', p') \<and> bornes_ok b p0 (rs', p') \<and>
       cellule_bornes (rs', p') k = maj_bornes b q (cellule_bornes (rs, p) k) \<and>
       (\<forall>i. i \<noteq> k \<longrightarrow> cellule_bornes (rs', p') i = cellule_bornes (rs, p) i)"
    by (simp add: c)
qed

lemma annuler_ok:
  assumes "pays < NombreDePays (bh b)" and "t < NombreDePasDeTemps (bh b)" and "bornes_ok b p0 (rs, p)"
  shows "\<exists>rs'. annuler_resultat TurbinageHoraire (\<lambda>x. TurbinageHoraire_update (\<lambda>_. x)) pays t (rs, p) = Inr (rs', p)"
    "\<exists>rs'. annuler_resultat PompageHoraire (\<lambda>x. PompageHoraire_update (\<lambda>_. x)) pays t (rs, p) = Inr (rs', p)"
    "\<exists>rs'. annuler_resultat debordementsHoraires (\<lambda>x. debordementsHoraires_update (\<lambda>_. x)) pays t (rs, p) = Inr (rs', p)"
  using annuler_resultat_ok [OF assms(3,1,2), of TurbinageHoraire "\<lambda>x. TurbinageHoraire_update (\<lambda>_. x)"]
    annuler_resultat_ok [OF assms(3,1,2), of PompageHoraire "\<lambda>x. PompageHoraire_update (\<lambda>_. x)"]
    annuler_resultat_ok [OF assms(3,1,2), of debordementsHoraires "\<lambda>x. debordementsHoraires_update (\<lambda>_. x)"]
  by (auto simp: resultat_ok_def)

lemma bornes_hydro_ok:
  assumes R: "pass_bornes b s" and [simp]: "j < NombreDePasDeTempsPourUneOptimisation (bh b)" "pays < NombreDePays (bh b)"
  shows "bornes_ecrites b p0 {Var NumeroDeVariablesDeLaProdHyd j pays}
      (bornes_prod_hydro (bd b) s (bpremier b + j) j pays)" (is ?P1)
    and "bornes_ecrites b p0 {Var NumeroDeVariablesDePompage j pays}
      (bornes_pompage (bd b) s (bpremier b + j) j pays)" (is ?P2)
    and "bornes_ecrites b p0 {Var NumeroDeVariablesDeDebordement j pays}
      (bornes_debordement (bd b) s (bpremier b + j) j pays)" (is ?P3)
    and "bornes_ecrites b p0 {Var NumeroDeVariablesDeNiveau j pays}
      (bornes_niveau (bd b) s (bpremier b + j) j pays)" (is ?P4)
proof -
  note R' = pass_bornesD [OF R]
  note [simp] = remplissage_simps [OF R'] remplissage_tailles [OF R'] hydro_tailles [OF pass_pays(1) [OF R assms(3)]]
  have t: "bpremier b + j < NombreDePasDeTemps (bh b)" by simp
  note a = annulations [OF assms(3) t, of p0]
  have rien: "bornes_ecrites b p0 {} (seqE [g, whenE (- 1 \<ge> (0 :: int)) f])" if "bornes_ecrites b p0 {} g" for f g
    by (rule bornes.ecrites_egal [OF bornes.ecrites_seqE_Cons [OF that bornes.ecrites_seqE_Cons
      [OF bornes.ecrites_whenE [where P = "{}"] bornes.ecrites_seqE_Nil]]]) simp_all
  show ?P1
    unfolding bornes_prod_hydro_def [abs_def]
    by (rule borne_hydro [OF R assms(2,3)], simp add: places_hydro_dans,
        rule ecrit_apres [OF a(1) _ _ R annuler_ok(1) [OF assms(3) t]],
        simp add: ecrit_simps whenE_def, assumption, assumption, rule rien [OF a(1)])
  show ?P2
    unfolding bornes_pompage_def [abs_def]
    by (rule borne_hydro [OF R assms(2,3)], simp add: places_hydro_dans,
        rule ecrit_apres [OF a(2) _ _ R annuler_ok(2) [OF assms(3) t]],
        simp add: ecrit_simps whenE_def, assumption, assumption, rule rien [OF a(2)])
  show ?P3
    unfolding bornes_debordement_def [abs_def]
    by (rule borne_hydro [OF R assms(2,3)], simp add: places_hydro_dans,
        rule ecrit_apres [OF a(3) _ _ R annuler_ok(3) [OF assms(3) t]],
        simp add: ecrit_simps whenE_def, assumption, assumption, rule rien [OF a(3)])
  show ?P4
    unfolding bornes_niveau_def [abs_def]
    by (rule borne_hydro [OF R assms(2,3)], simp add: places_hydro_dans, simp add: ecrit_simps whenE_def,
        simp add: whenE_def [abs_def] bornes.ecrites_Inr)
qed

lemma absente_jamais:
  assumes "pass_bornes b s" and "(q, None) \<in> set (liste_variables (bh b))" and "i < nb_variables (bh b)"
  shows "place_de (bh b) i \<noteq> q"
proof
  assume "place_de (bh b) i = q"
  moreover have v: "variables_numerotees (bh b) s"
    using remplir_ok(3) [OF remplissage_pret [OF pass_bornesD [OF assms(1)]]] .
  ultimately show False
    using lecture_place [OF v assms(3)] assms(2) by (auto simp: variables_numerotees_def)
qed

lemma bornes_variations_ok:
  assumes R: "pass_bornes b s" and [simp]: "j < NombreDePasDeTempsPourUneOptimisation (bh b)" "pays < NombreDePays (bh b)"
  shows "bornes_ecrites b p0 {Var NumeroDeVariablesVariationHydALaBaisse j pays, Var NumeroDeVariablesVariationHydALaHausse j pays}
    (bornes_variations (bh b) (bd b) s j pays)"
proof -
  note R' = pass_bornesD [OF R]
  note [simp] = remplissage_simps [OF R'] remplissage_tailles [OF R']
  let ?B = "Var NumeroDeVariablesVariationHydALaBaisse j pays" and ?H = "Var NumeroDeVariablesVariationHydALaHausse j pays"
  let ?m = "variation_max (bh b) (bd b) pays"
  have lus: "lire (CaracteristiquesHydrauliques (bh b)) pays = Inr (hydro_de (bh b) pays)"
    "lire (HydroDonnees (bd b)) pays = Inr (HydroDonnees (bd b) ! pays)" by simp_all
  have n: "NombreDeVariables p = nb_variables (bh b)" if "bornes_ok b p0 (rs, p)" for rs p
    using that by (simp add: bornes_ok_def)
  have ecrit: "bornes_ecrites b p0 {Var c j pays} (bornes_variation s c ?m j pays)"
    if "c \<in> {NumeroDeVariablesVariationHydALaBaisse, NumeroDeVariablesVariationHydALaHausse}" for c
    unfolding bornes_variation_def [abs_def]
    by (rule borne_hydro [OF R assms(2,3)])
      (use that in \<open>auto simp: places_hydro_dans ecrit_simps whenE_def [abs_def] bornes.ecrites_Inr\<close>)
  have deux: "bornes_ecrites b p0 {?B, ?H} (seqE [bornes_variation s NumeroDeVariablesVariationHydALaBaisse ?m j pays,
      bornes_variation s NumeroDeVariablesVariationHydALaHausse ?m j pays])"
    by (rule bornes.ecrites_egal [OF bornes.ecrites_seqE_Cons [OF ecrit bornes.ecrites_seqE_Cons [OF ecrit bornes.ecrites_seqE_Nil]]])
      auto
  show ?thesis
  proof (cases "variation_existe (bh b) j pays")
    case True
    then have "bornes_variations (bh b) (bd b) s j pays =
        seqE [bornes_variation s NumeroDeVariablesVariationHydALaBaisse ?m j pays,
          bornes_variation s NumeroDeVariablesVariationHydALaHausse ?m j pays]"
      by (auto simp: bornes_variations_def variation_existe_def variation_max_def whenE_def fun_eq_iff Let_def simp del: seqE.simps)
    then show ?thesis using deux by simp
  next
    case False
    have "(q, None) \<in> set (liste_variables (bh b))" if "q \<in> {?B, ?H}" for q
    proof -
      have "(q, None) \<in> set (fiches_hydro (bh b) j pays)"
        using that False by (auto simp: fiches_hydro_def Let_def fiche_si_paire)
      then show ?thesis by (intro dans_liste_pays [OF assms(2,3)]) blast
    qed
    then have absentes: "place_de (bh b) i \<notin> {?B, ?H}" if "i < nb_variables (bh b)" for i
      using absente_jamais [OF R _ that] by blast
    have "bornes_ecrites b p0 {} (bornes_variations (bh b) (bd b) s j pays)"
      unfolding bornes_variations_def [abs_def] Let_def
      by (intro bornes.ecrites_lire [OF lus(1)] bornes.ecrites_lire [OF lus(2)])
        (use False in \<open>auto simp: variation_existe_def whenE_def [abs_def] intro!: bornes.ecrites_Inr\<close>)
    then show ?thesis
      by (rule bornes.ecrites_egal) (use absentes in auto)
  qed
qed

text \<open>A variable that always exists, of an area.\<close>

lemma borne_pays:
  assumes R: "pass_bornes b s"
    and a: "j < NombreDePasDeTempsPourUneOptimisation (bh b)" "pays < NombreDePays (bh b)"
    and q: "Var c j i \<in> set (places_de (fiches_pays (bh b) j pays))"
    and f: "\<And>k. ecrit_en b p0 (Var c j i) k (f (int k))"
  shows "bornes_ecrites b p0 {Var c j i} (\<lambda>z. bindE (lire_var s c j i) (\<lambda>var. f var z))"
  by (rule borne_var [OF R places_dans_liste(2) [OF a q]
        existe_toujours(2) [OF remplir_ok(2) [OF remplissage_pret [OF pass_bornesD [OF R]]] a q] f])

lemma bornes_defaillance_negative_ok:
  assumes R: "pass_bornes b s" and a: "j < NombreDePasDeTempsPourUneOptimisation (bh b)" "pays < NombreDePays (bh b)"
  shows "bornes_ecrites b p0 {Var NumeroDeVariableDefaillanceNegative j pays}
    (bornes_defaillance_negative s (bpremier b + j) j pays)"
  unfolding bornes_defaillance_negative_def [abs_def]
proof (rule borne_pays [OF R a places_pays_dans(3)])
  fix k
  have t: "bpremier b + j < NombreDePasDeTemps (bh b)" using remplissage_simps(2) [OF pass_bornesD [OF R] a(1)] .
  show "ecrit_en b p0 (Var NumeroDeVariableDefaillanceNegative j pays) k (seqE
       [ecrire_Xmin (int k) (Fini 0), ecrire_Xmax (int k) LINFINI_ANTARES,
        annuler_resultat ValeursHorairesDeDefaillanceNegative
          (\<lambda>x. ValeursHorairesDeDefaillanceNegative_update (\<lambda>_. x)) pays (bpremier b + j),
        ecrire_optimisee (int k) (Some (DefaillanceNegative_de pays (bpremier b + j)))])"
    unfolding ecrit_en_def
  proof (intro allI impI)
    fix rs p
    assume ok: "bornes_ok b p0 (rs, p)" and l: "k < length (TypeDeVariable p)" "k < length (Xmin p)"
      "k < length (Xmax p)" "k < length (AdresseOuPlacerLaValeurDesVariablesOptimisees p)"
      "k < length (AdresseOuPlacerLaValeurDesCoutsReduits p)"
    from annuler_resultat_ok [OF ok a(2) t, of ValeursHorairesDeDefaillanceNegative
        "\<lambda>x. ValeursHorairesDeDefaillanceNegative_update (\<lambda>_. x)"]
    obtain rs' where rs': "resultats_ok (bh b) rs'" "map ValeursHorairesDENS rs' = map ValeursHorairesDENS rs"
      "\<And>p. annuler_resultat ValeursHorairesDeDefaillanceNegative
        (\<lambda>x. ValeursHorairesDeDefaillanceNegative_update (\<lambda>_. x)) pays (bpremier b + j) (rs, p) = Inr (rs', p)"
      by (auto simp: resultat_ok_def)
    show "\<exists>rs' p'. seqE
       [ecrire_Xmin (int k) (Fini 0), ecrire_Xmax (int k) LINFINI_ANTARES,
        annuler_resultat ValeursHorairesDeDefaillanceNegative
          (\<lambda>x. ValeursHorairesDeDefaillanceNegative_update (\<lambda>_. x)) pays (bpremier b + j),
        ecrire_optimisee (int k) (Some (DefaillanceNegative_de pays (bpremier b + j)))] (rs, p) = Inr (rs', p') \<and>
       bornes_ok b p0 (rs', p') \<and> cellule_bornes (rs', p') k =
         maj_bornes b (Var NumeroDeVariableDefaillanceNegative j pays) (cellule_bornes (rs, p) k) \<and>
       (\<forall>i. i \<noteq> k \<longrightarrow> cellule_bornes (rs', p') i = cellule_bornes (rs, p) i)"
      using ok l rs' by (simp add: ecrit_simps)
  qed
qed

lemma bornes_pays_ok:
  assumes R: "pass_bornes b s" and a: "j < NombreDePasDeTempsPourUneOptimisation (bh b)" "pays < NombreDePays (bh b)"
  shows "bornes_ecrites b p0 (places_pays_heure (bh b) j pays - {Var NumeroDeVariableDefaillancePositive j pays})
    (bornes_pays (bh b) (bd b) s (bpremier b + j) j pays)"
proof -
  note R' = pass_bornesD [OF R]
  have lus: "lire (PaliersThermiquesDuPays (bh b)) pays = Inr (PaliersThermiquesDuPays (bh b) ! pays)"
    using remplissage_simps(1) [OF R'] a(2) by simp_all
  have t: "bpremier b + j < NombreDePasDeTemps (bh b)" using remplissage_simps(2) [OF R' a(1)] .
  have paliers: "bornes_ecrites b p0
      (\<Union>i \<in> set [0..<nb_paliers (bh b) pays]. {Var NumeroDeVariableDuPalierThermique j (numero_palier (bh b) pays i)})
      (forE [0..<nb_paliers (bh b) pays] (bornes_palier (bh b) (bd b) s (bpremier b + j) j pays))"
    by (rule bornes.ecrites_forE) (use bornes_palier_ok [OF R a] in simp)
  have "bornes_ecrites b p0
      ((\<Union>i \<in> set [0..<nb_paliers (bh b) pays]. {Var NumeroDeVariableDuPalierThermique j (numero_palier (bh b) pays i)}) \<union>
       ({Var NumeroDeVariablesDeLaProdHyd j pays} \<union>
        ({Var NumeroDeVariablesVariationHydALaBaisse j pays, Var NumeroDeVariablesVariationHydALaHausse j pays} \<union>
         ({Var NumeroDeVariablesDePompage j pays} \<union> ({Var NumeroDeVariablesDeDebordement j pays} \<union>
          ({Var NumeroDeVariablesDeNiveau j pays} \<union> ({Var NumeroDeVariableDefaillanceNegative j pays} \<union> ({} \<union> {}))))))))
      (bornes_pays (bh b) (bd b) s (bpremier b + j) j pays)"
    unfolding bornes_pays_def [abs_def]
    by (intro bornes.ecrites_lire [OF lus] bornes.ecrites_seqE_Cons bornes.ecrites_seqE_Nil paliers
        bornes_hydro_ok [OF R a] bornes_variations_ok [OF R a] bornes_defaillance_negative_ok [OF R a]
        annulations(4) [OF a(2) t])
  then show ?thesis
    by (rule bornes.ecrites_egal) (auto simp: places_pays_heure_def)
qed

subsection \<open>Unsupplied energy and storages\<close>

lemma bornes_defaillance_positive_ok:
  assumes R: "pass_bornes b s" and a: "j < NombreDePasDeTempsPourUneOptimisation (bh b)" "pays < NombreDePays (bh b)"
  shows "bornes_ecrites b p0 {Var NumeroDeVariableDefaillancePositive j pays}
    (bornes_defaillance_positive (bd b) (badq b) (bopt b) s (bpremier b + j) j pays)"
  unfolding bornes_defaillance_positive_def [abs_def]
proof (rule borne_pays [OF R a places_pays_dans(2)])
  fix k
  note R' = pass_bornesD [OF R]
  note [simp] = remplissage_simps [OF R'] remplissage_tailles [OF R'] a
  have t: "bpremier b + j < NombreDePasDeTemps (bh b)" by simp
  have d: "donnees_hebdo_ok (bh b) (bd b)" using R' by (simp add: remplissage_def)
  note [simp] = donnees_heure(2,3) [OF d t] donnees_pays(6) [OF d a(2)]
  let ?t = "bpremier b + j" and ?q = "Var NumeroDeVariableDefaillancePositive j pays"
  have charge: "charge_residuelle (bd b) (bopt b) ?t pays = Inr (charge_de (bd b) (bopt b) ?t pays)"
    by (simp add: charge_residuelle_def charge_de_def lire_heure_pays_def max_def)
  show "ecrit_en b p0 ?q k (seqE
       [ecrire_Xmin (int k) (Fini 0),
        \<lambda>z. bindE (charge_residuelle (bd b) (bopt b) ?t pays) (\<lambda>charge.
          ecrire_Xmax (int k) (if charge \<ge> 0 then Fini (charge + 1 / 100000) else Fini 0) z),
        whenE (adq_enabled (badq b) \<and> localMatching_enabled (badq b) \<and> \<not> AdequacyFirstStep (adequacyPatchRuntimeData (bd b)))
          (\<lambda>z. bindE (lire (areaMode (adequacyPatchRuntimeData (bd b))) pays) (\<lambda>mode.
            whenE (mode = physicalAreaInsideAdqPatch) (\<lambda>z.
              bindE (lire (fst z) pays) (\<lambda>r.
              bindE (lire (ValeursHorairesDENS r) ?t) (\<lambda>dens.
              modifier_Xmax (int k) (\<lambda>x. minimum_reel x dens) z))) z)),
        annuler_resultat ValeursHorairesDeDefaillancePositive
          (\<lambda>x. ValeursHorairesDeDefaillancePositive_update (\<lambda>_. x)) pays ?t,
        ecrire_optimisee (int k) (Some (DefaillancePositive_de pays ?t))])" (is "ecrit_en _ _ _ _ ?f")
    unfolding ecrit_en_def
  proof (intro allI impI)
    fix rs p
    assume ok: "bornes_ok b p0 (rs, p)" and l: "k < length (TypeDeVariable p)" "k < length (Xmin p)"
      "k < length (Xmax p)" "k < length (AdresseOuPlacerLaValeurDesVariablesOptimisees p)"
      "k < length (AdresseOuPlacerLaValeurDesCoutsReduits p)"
    from annuler_resultat_ok [OF ok a(2) t, of ValeursHorairesDeDefaillancePositive
        "\<lambda>x. ValeursHorairesDeDefaillancePositive_update (\<lambda>_. x)"]
    obtain rs' where rs': "resultats_ok (bh b) rs'" "map ValeursHorairesDENS rs' = map ValeursHorairesDENS rs"
      "\<And>p. annuler_resultat ValeursHorairesDeDefaillancePositive
        (\<lambda>x. ValeursHorairesDeDefaillancePositive_update (\<lambda>_. x)) pays ?t (rs, p) = Inr (rs', p)"
      by (auto simp: resultat_ok_def)
    have r: "resultats_ok (bh b) rs" "map ValeursHorairesDENS rs = map ValeursHorairesDENS (brs b)"
      using ok by (simp_all add: bornes_ok_def)
    then have p: "pays < length rs" "length (ValeursHorairesDENS (rs ! pays)) = NombreDePasDeTemps (bh b)"
      by (simp_all add: resultats_ok_def resultat_ok_def)
    moreover have "length rs = length (brs b)" using r(2) by (metis length_map)
    ultimately have dens: "ValeursHorairesDENS (rs ! pays) = ValeursHorairesDENS (brs b ! pays)"
      using r(2) by (metis nth_map)
    have m: "minimum_reel (Fini x) y = Fini (min x y)" for x y by (simp add: min_def)
    show "\<exists>rs' p'. ?f (rs, p) = Inr (rs', p') \<and> bornes_ok b p0 (rs', p') \<and>
       cellule_bornes (rs', p') k = maj_bornes b ?q (cellule_bornes (rs, p) k) \<and>
       (\<forall>i. i \<noteq> k \<longrightarrow> cellule_bornes (rs', p') i = cellule_bornes (rs, p) i)"
      using ok l rs' p
      by (simp add: charge ecrit_simps whenE_def defaillance_max_def dens m del: minimum_reel.simps)
  qed
qed

lemma bornes_stockage_ok:
  assumes R: "pass_bornes b s" and a: "j < NombreDePasDeTempsPourUneOptimisation (bh b)" "pays < NombreDePays (bh b)"
    and k: "k < length (ShortTermStorage (bh b) ! pays)"
  shows "bornes_ecrites b p0 (places_stockage_heure (ShortTermStorage (bh b) ! pays ! k, j))
    (bornes_stockage (bh b) (bd b) s (bpremier b + NombreDePasDeTempsPourUneOptimisation (bh b)) (bpremier b + j) j pays k)"
proof -
  note R' = pass_bornesD [OF R]
  let ?st = "ShortTermStorage (bh b) ! pays ! k" and ?sd = "StockageDonnees (bd b) ! pays ! k"
  let ?g = "clusterGlobalIndex ?st" and ?t = "bpremier b + j" and ?T = "NombreDePasDeTempsPourUneOptimisation (bh b)"
  note [simp] = remplissage_simps [OF R'] remplissage_tailles [OF R'] remplissage_pays(6) [OF R' a(2)] a k
    stockage_de_numero [OF remplir_ok(2) [OF remplissage_pret [OF R']] a(2) k]
  have t: "?t < NombreDePasDeTemps (bh b)" by simp
  have tailles: "weekInTheYear (bh b) * 168 + ?t < length (maxInjectionModulation ?sd)"
    "weekInTheYear (bh b) * 168 + ?t < length (maxWithdrawalModulation ?sd)"
    "weekInTheYear (bh b) * 168 + ?t < length (lowerRuleCurve ?sd)"
    "weekInTheYear (bh b) * 168 + ?t < length (upperRuleCurve ?sd)"
    using pass_pays(3) [OF R a(2) k] t unfolding sts_donnees_ok_def by linarith+
  note [simp] = lire_in [OF tailles(1)] lire_in [OF tailles(2)] lire_in [OF tailles(3)] lire_in [OF tailles(4)]
  have fin: "?t + 1 = bpremier b + ?T \<longleftrightarrow> j + 1 = ?T" by linarith
  have lus: "lire_heure_pays (ShortTermStorage (bh b)) pays k = Inr ?st"
    "lire_heure_pays (StockageDonnees (bd b)) pays k = Inr ?sd"
    by (simp_all add: lire_heure_pays_def)
  have st: "?st \<in> set (ShortTermStorage (bh b) ! pays)" by simp
  note q = places_pays_dans(4) [OF st, where j = j]
  have "bornes_ecrites b p0 ({Var InjectionVariable j ?g} \<union> ({Var WithdrawalVariable j ?g} \<union> ({Var LevelVariable j ?g} \<union> {})))
    (bornes_stockage (bh b) (bd b) s (bpremier b + ?T) ?t j pays k)"
    unfolding bornes_stockage_def [abs_def] Let_def fin
    by (intro bornes.ecrites_lire [OF lus(1)] bornes.ecrites_lire [OF lus(2)] bornes.ecrites_seqE_Cons
        bornes.ecrites_seqE_Nil borne_pays [OF R a q])
      (simp_all add: ecrit_simps niveau_fixe_def)
  then show ?thesis by (rule bornes.ecrites_egal) (auto simp: places_stockage_heure_def)
qed

subsection \<open>Final stocks and start-up variables\<close>

lemma bornes_stock_ok:
  assumes R: "pass_bornes b s" and [simp]: "pays < NombreDePays (bh b)"
  shows "bornes_ecrites b p0 (insert (Stock pays) (Tranche pays ` {..<100})) (bornes_stock (bh b) (bd b) s pays)"
proof -
  note R' = pass_bornesD [OF R]
  note [simp] = remplissage_simps [OF R'] remplissage_tailles [OF R']
  let ?c = "hydro_de (bh b) pays" and ?hd = "HydroDonnees (bd b) ! pays"
  have lus: "lire (CaracteristiquesHydrauliques (bh b)) pays = Inr ?c" "lire (HydroDonnees (bd b)) pays = Inr ?hd" by simp_all
  have dans: "Stock pays \<in> set (places_de (liste_variables (bh b)))"
    "l < 100 \<Longrightarrow> Tranche pays l \<in> set (places_de (liste_variables (bh b)))" for l
    by (rule places_dans_liste(4) [OF assms(2)]; simp add: fiches_stock_def Let_def image_iff del: upt_rec_numeral)+
  have 1: "bornes_ecrites b p0 {Stock pays} (\<lambda>z. bindE (lire_stock s pays) (\<lambda>var. whenE (var \<ge> 0) (seqE
          [ecrire_Xmin var (opposee LINFINI_ANTARES), ecrire_Xmax var LINFINI_ANTARES, ecrire_optimisee var None, ecrire_reduit var None]) z))"
    by (rule borne_ecrite [OF R dans(1)])
      (simp_all add: lire_stock_ok(1) [OF R'] whenE_def [abs_def] bornes.ecrites_Inr ecrit_simps del: lecture.simps)
  have 2: "bornes_ecrites b p0 (\<Union>l \<in> set [0..<100]. {Tranche pays l})
      (forE [0..<100] (\<lambda>nblayer z. bindE (lire_tranche s pays nblayer) (\<lambda>var. whenE (var \<ge> 0) (seqE
          [ecrire_Xmin var (Fini 0), ecrire_Xmax var (Fini (TailleReservoir ?hd / 100)),
           ecrire_optimisee var None, ecrire_reduit var None]) z)))"
  proof (rule bornes.ecrites_forE)
    fix l assume "l \<in> set [0..<100::nat]"
    then have l: "l < 100" by simp
    show "bornes_ecrites b p0 {Tranche pays l} (\<lambda>z. bindE (lire_tranche s pays l) (\<lambda>var. whenE (var \<ge> 0) (seqE
          [ecrire_Xmin var (Fini 0), ecrire_Xmax var (Fini (TailleReservoir ?hd / 100)),
           ecrire_optimisee var None, ecrire_reduit var None]) z))"
      by (rule borne_ecrite [OF R dans(2) [OF l]])
        (simp_all add: lire_stock_ok(2) [OF R' _ l] whenE_def [abs_def] bornes.ecrites_Inr ecrit_simps del: lecture.simps)
  qed
  have "bornes_ecrites b p0
      (if AccurateWaterValue ?c then {Stock pays} \<union> ((\<Union>l \<in> set [0..<100]. {Tranche pays l}) \<union> {}) else {})
      (bornes_stock (bh b) (bd b) s pays)"
    unfolding bornes_stock_def [abs_def]
    by (intro bornes.ecrites_lire [OF lus(1)] bornes.ecrites_lire [OF lus(2)] bornes.ecrites_whenE
        bornes.ecrites_seqE_Cons bornes.ecrites_seqE_Nil 1 2)
  then show ?thesis
  proof (rule bornes.ecrites_egal)
    fix i assume i: "i < nb_variables (bh b)"
    have "place_de (bh b) i \<notin> insert (Stock pays) (Tranche pays ` {..<100})" if "\<not> AccurateWaterValue ?c"
    proof
      assume "place_de (bh b) i \<in> insert (Stock pays) (Tranche pays ` {..<100})"
      then have "(place_de (bh b) i, None) \<in> set (fiches_stock (bh b) pays)"
        using that by (auto simp: fiches_stock_def Let_def fiche_si_paire image_iff simp del: upt_rec_numeral)
      then show False
        using absente_jamais [OF R dans_liste_stock [OF assms(2)] i] by blast
    qed
    then show "place_de (bh b) i \<in> (if AccurateWaterValue ?c then {Stock pays} \<union> ((\<Union>l \<in> set [0..<100]. {Tranche pays l}) \<union> {}) else {})
        \<longleftrightarrow> place_de (bh b) i \<in> insert (Stock pays) (Tranche pays ` {..<100})"
      by (auto simp del: upt_rec_numeral)
  qed
qed

lemma heure_precedente:
  "0 < T \<Longrightarrow> (if int t - 1 < 0 then int T + (int t - 1) else int t - 1) = int (if t = 0 then T - 1 else t - 1)"
  by (cases t; cases T) simp_all

lemma bornes_demarrage_ok:
  assumes R: "pass_bornes b s" and D: "OptimisationAvecCoutsDeDemarrage (bh b)"
    and a: "j < NombreDePasDeTempsPourUneOptimisation (bh b)" "pays < NombreDePays (bh b)" "i < nb_paliers (bh b) pays"
  shows "bornes_ecrites b p0 (places_demarrage_heure (bh b) j pays i)
    (bornes_demarrage (bh b) (bd b) s (bpremier b + j) j pays i)"
proof -
  note R' = pass_bornesD [OF R]
  note [simp] = remplissage_simps [OF R'] pass_pays(2) [OF R a(2,3), unfolded pdisp_ok_def] a
  let ?pt = "PaliersThermiquesDuPays (bh b) ! pays" and ?pd = "PuissanceDisponibleEtCout (PaliersDonnees (bd b) ! pays) ! i"
  let ?n = "numero_palier (bh b) pays i" and ?T = "NombreDePasDeTempsPourUneOptimisation (bh b)" and ?t = "bpremier b + j"
  have T: "?T \<le> NombreDePasDeTemps (bh b)" using R' by (simp add: remplissage_def)
  have lus: "lire (PaliersThermiquesDuPays (bh b)) pays = Inr ?pt" "palier_donnees (bd b) pays i = Inr ?pd"
    "lire (NumeroDuPalierDansLEnsembleDesPaliersThermiques ?pt) i = Inr ?n"
    by simp_all
  define u where "u = (if ?t = 0 then ?T - 1 else ?t - 1)"
  have e: "(if int ?t - 1 < 0 then int ?T + (int ?t - 1) else int ?t - 1) = int u"
    unfolding u_def by (rule heure_precedente) (use a(1) in linarith)
  have "?T - 1 < NombreDePasDeTemps (bh b)" using T a(1) by linarith
  moreover have "?t - 1 < NombreDePasDeTemps (bh b)" using remplissage_simps(2) [OF R' a(1)] by linarith
  ultimately have [simp]: "u < NombreDePasDeTemps (bh b)" unfolding u_def by presburger
  have perdus: "groupes_perdus (bh b) ?pd ?t = max 0 (NombreMaxDeGroupesEnMarcheDuPalierThermique ?pd ! u -
      NombreMaxDeGroupesEnMarcheDuPalierThermique ?pd ! ?t)"
    by (simp only: groupes_perdus_def u_def Let_def)
  have ecrit: "bornes_ecrites b p0 {Var c j ?n} (\<lambda>z. bindE (lire_var s c j ?n) (\<lambda>var. f var z))"
    if "Var c j ?n \<in> places_demarrage_heure (bh b) j pays i" and "\<And>k. ecrit_en b p0 (Var c j ?n) k (f (int k))" for c f
    by (rule borne_var [OF R places_dans_liste(5) [OF D a places_demarrage_dans]
        existe_toujours(3) [OF remplir_ok(2) [OF remplissage_pret [OF R']] D a places_demarrage_dans] that(2)])
      (use that(1) in simp_all)
  have "bornes_ecrites b p0
     ({Var NumeroDeVariableDuNombreDeGroupesEnMarcheDuPalierThermique j ?n} \<union>
      ({Var NumeroDeVariableDuNombreDeGroupesQuiDemarrentDuPalierThermique j ?n} \<union>
       ({Var NumeroDeVariableDuNombreDeGroupesQuiSArretentDuPalierThermique j ?n} \<union>
        ({Var NumeroDeVariableDuNombreDeGroupesQuiTombentEnPanneDuPalierThermique j ?n} \<union> {}))))
     (bornes_demarrage (bh b) (bd b) s ?t j pays i)"
    unfolding bornes_demarrage_def [abs_def] Let_def e lire_int_of_nat
    by (intro bornes.ecrites_lire [OF lus(1)] bornes.ecrites_lire [OF lus(2)] bornes.ecrites_lire [OF lus(3)]
        bornes.ecrites_seqE_Cons bornes.ecrites_seqE_Nil ecrit)
      (simp_all add: places_demarrage_heure_def ecrit_simps perdus whenE_def max_def)
  then show ?thesis by (rule bornes.ecrites_egal) (auto simp: places_demarrage_heure_def)
qed

subsection \<open>The whole function\<close>

lemma boucle_pays_heures:
  assumes "\<And>j pays. j \<in> set (heures (bh b)) \<Longrightarrow> pays \<in> set [0..<NombreDePays (bh b)] \<Longrightarrow> bornes_ecrites b p0 (P j pays) (f (bpremier b + j) pays)"
  shows "bornes_ecrites b p0 (\<Union>j \<in> set (heures (bh b)). \<Union>pays \<in> set [0..<NombreDePays (bh b)]. P j pays)
    (forE [bpremier b..<bpremier b + NombreDePasDeTempsPourUneOptimisation (bh b)] (\<lambda>t. forE [0..<NombreDePays (bh b)] (f t)))"
  unfolding forE_intervalle heures_def [symmetric] by (intro bornes.ecrites_forE assms)

lemma setBoundsForUnsuppliedEnergy_ok:
  assumes R: "pass_bornes b s"
  shows "bornes_ecrites b p0
      (\<Union>j \<in> set (heures (bh b)). \<Union>pays \<in> set [0..<NombreDePays (bh b)]. {Var NumeroDeVariableDefaillancePositive j pays})
    (setBoundsForUnsuppliedEnergy (bh b) (bd b) (badq b) (bopt b) s (bpremier b)
      (bpremier b + NombreDePasDeTempsPourUneOptimisation (bh b)))"
  unfolding setBoundsForUnsuppliedEnergy_def
  by (rule boucle_pays_heures) (use bornes_defaillance_positive_ok [OF R] in simp)

lemma setBoundsForShortTermStorage_ok:
  assumes R: "pass_bornes b s"
  shows "bornes_ecrites b p0 (\<Union>j \<in> set (heures (bh b)). \<Union>pays \<in> set [0..<NombreDePays (bh b)].
       \<Union>k \<in> set [0..<length (ShortTermStorage (bh b) ! pays)]. places_stockage_heure (ShortTermStorage (bh b) ! pays ! k, j))
    (setBoundsForShortTermStorage (bh b) (bd b) s (bpremier b)
      (bpremier b + NombreDePasDeTempsPourUneOptimisation (bh b)))"
  unfolding setBoundsForShortTermStorage_def
proof (rule boucle_pays_heures)
  fix j pays assume "j \<in> set (heures (bh b))" "pays \<in> set [0..<NombreDePays (bh b)]"
  then have a: "j < NombreDePasDeTempsPourUneOptimisation (bh b)" "pays < NombreDePays (bh b)" by simp_all
  then have lu: "lire (ShortTermStorage (bh b)) pays = Inr (ShortTermStorage (bh b) ! pays)"
    using remplissage_simps(1) [OF pass_bornesD [OF R]] by simp
  show "bornes_ecrites b p0 (\<Union>k \<in> set [0..<length (ShortTermStorage (bh b) ! pays)].
       places_stockage_heure (ShortTermStorage (bh b) ! pays ! k, j))
    (\<lambda>z. bindE (lire (ShortTermStorage (bh b)) pays) (\<lambda>storages. forE [0..<length storages]
       (bornes_stockage (bh b) (bd b) s (bpremier b + NombreDePasDeTempsPourUneOptimisation (bh b))
          (bpremier b + j) (bpremier b + j - bpremier b) pays) z))"
    by (intro bornes.ecrites_lire [OF lu] bornes.ecrites_forE) (use bornes_stockage_ok [OF R a] in simp)
qed

lemma bornes_demarrages_ok:
  assumes R: "pass_bornes b s" and D: "OptimisationAvecCoutsDeDemarrage (bh b)"
  shows "bornes_ecrites b p0 (\<Union>j \<in> set (heures (bh b)). \<Union>pays \<in> set [0..<NombreDePays (bh b)].
       \<Union>i \<in> set [0..<nb_paliers (bh b) pays]. places_demarrage_heure (bh b) j pays i)
    (OPT_InitialiserLesBornesDesVariablesDuProblemeLineaireCoutsDeDemarrage (bh b) (bd b) s (bpremier b)
      (bpremier b + NombreDePasDeTempsPourUneOptimisation (bh b)))"
  unfolding OPT_InitialiserLesBornesDesVariablesDuProblemeLineaireCoutsDeDemarrage_def
proof (rule boucle_pays_heures)
  fix j pays assume "j \<in> set (heures (bh b))" "pays \<in> set [0..<NombreDePays (bh b)]"
  then have a: "j < NombreDePasDeTempsPourUneOptimisation (bh b)" "pays < NombreDePays (bh b)" by simp_all
  then have lu: "lire (PaliersThermiquesDuPays (bh b)) pays = Inr (PaliersThermiquesDuPays (bh b) ! pays)"
    using remplissage_simps(1) [OF pass_bornesD [OF R]] by simp
  show "bornes_ecrites b p0 (\<Union>i \<in> set [0..<nb_paliers (bh b) pays]. places_demarrage_heure (bh b) j pays i)
    (\<lambda>z. bindE (lire (PaliersThermiquesDuPays (bh b)) pays) (\<lambda>pt. forE [0..<NombreDePaliersThermiques pt]
       (bornes_demarrage (bh b) (bd b) s (bpremier b + j) (bpremier b + j - bpremier b) pays) z))"
    by (intro bornes.ecrites_lire [OF lu] bornes.ecrites_forE) (use bornes_demarrage_ok [OF R D a] in simp)
qed

text \<open>The addresses are erased first.\<close>

definition sans_adresses :: "cellule_bornes \<Rightarrow> cellule_bornes" where
  "sans_adresses x = (case x of (xmin, xmax, ty, _, _) \<Rightarrow> (xmin, xmax, ty, None, None))"

lemma effacer_ok:
  assumes R: "pass_bornes b s" and z: "bornes_ok b p0 z"
  shows "returns (forE [0..<nb_variables (bh b)] (\<lambda>i. seqE [ecrire_optimisee (int i) None, ecrire_reduit (int i) None]) z)
    (\<lambda>z'. bornes_ok b p0 z' \<and> (\<forall>i < nb_variables (bh b). cellule_bornes z' i = sans_adresses (cellule_bornes z i)))"
proof -
  let ?I = "\<lambda>n z'. bornes_ok b p0 z' \<and> (\<forall>i < n. cellule_bornes z' i = sans_adresses (cellule_bornes z i)) \<and>
    (\<forall>i. n \<le> i \<longrightarrow> cellule_bornes z' i = cellule_bornes z i)"
  have "returns (forE [0..<nb_variables (bh b)] (\<lambda>i. seqE [ecrire_optimisee (int i) None, ecrire_reduit (int i) None]) z)
      (?I (nb_variables (bh b)))"
  proof (rule returns_for_upt [where I = ?I])
    fix k z' assume k: "k < nb_variables (bh b)" and I: "?I k z'"
    obtain rs p where z': "z' = (rs, p)" by (cases z')
    show "returns (seqE [ecrire_optimisee (int k) None, ecrire_reduit (int k) None] z') (?I (Suc k))"
      using I bornes_ok_taille [OF R, of p0 rs p k] k unfolding z'
      by (auto simp: ecrire_optimisee_def ecrire_reduit_def bornes_ok_def sans_bornes_def Let_def
          cellule_bornes_def sans_adresses_def nth_list_update less_Suc_eq split: prod.splits)
  qed (use z in simp_all)
  then show ?thesis by (auto elim!: returns_mono)
qed

lemma maj_sans_adresses:
  "maj_bornes b q (sans_adresses x) = (xmin_de b q, xmax_de b q, type_apres b q (fst (snd (snd x))),
     adresse_de b q, cout_reduit_de b q)"
  by (cases "(b, q)" rule: cout_reduit_de.cases) (auto simp: maj_bornes_def sans_adresses_def split: prod.splits)

lemma union_nth: "(\<Union>k \<in> set [0..<length xs]. f (xs ! k)) = (\<Union>x \<in> set xs. f x)"
  by (auto simp: set_conv_nth)

lemma bornes_lineaires_ok:
  assumes R: "pass_bornes b s" and z: "bornes_ok b p0 z"
  shows "returns (bornes_lineaires (bh b) (bd b) (badq b) (bopt b) s (bpremier b)
      (bpremier b + NombreDePasDeTempsPourUneOptimisation (bh b)) z)
    (\<lambda>z'. bornes_ok b p0 z' \<and> (\<forall>i < nb_variables (bh b). let q = place_de (bh b) i in
      cellule_bornes z' i = (xmin_de b q, xmax_de b q, type_apres b q (fst (snd (snd (cellule_bornes z i)))),
        adresse_de b q, cout_reduit_de b q)))"
proof -
  note R' = pass_bornesD [OF R]
  let ?T = "NombreDePasDeTempsPourUneOptimisation (bh b)" and ?h = "bh b"
  have h: "hebdo_ok ?h" using remplissage_simps(1) [OF R'] .
  have intercos: "bornes_ecrites b p0 (\<Union>l \<in> set [0..<NombreDInterconnexions ?h]. set (places_de (fiches_interco ?h j l)))
      (forE [0..<NombreDInterconnexions ?h] (bornes_interco ?h (bd b) (badq b) s (bpremier b + j) j))" if "j \<in> set (heures ?h)" for j
    by (rule bornes.ecrites_forE) (use bornes_interco_ok [OF R] that in simp)
  have lespays: "bornes_ecrites b p0
      (\<Union>pays \<in> set [0..<NombreDePays ?h]. places_pays_heure ?h j pays - {Var NumeroDeVariableDefaillancePositive j pays})
      (forE [0..<NombreDePays ?h] (bornes_pays ?h (bd b) s (bpremier b + j) j))" if "j \<in> set (heures ?h)" for j
    by (rule bornes.ecrites_forE) (use bornes_pays_ok [OF R] that in simp)
  have stocks: "bornes_ecrites b p0 (\<Union>pays \<in> set [0..<NombreDePays ?h]. insert (Stock pays) (Tranche pays ` {..<100}))
      (forE [0..<NombreDePays ?h] (bornes_stock ?h (bd b) s))"
    by (rule bornes.ecrites_forE) (use bornes_stock_ok [OF R] in simp)
  let ?H = "(\<Union>j \<in> set (heures ?h). (\<Union>l \<in> set [0..<NombreDInterconnexions ?h]. set (places_de (fiches_interco ?h j l))) \<union>
        ((\<Union>pays \<in> set [0..<NombreDePays ?h]. places_pays_heure ?h j pays - {Var NumeroDeVariableDefaillancePositive j pays}) \<union> {}))"
    and ?D = "\<Union>j \<in> set (heures ?h). \<Union>pays \<in> set [0..<NombreDePays ?h]. {Var NumeroDeVariableDefaillancePositive j pays}"
    and ?S = "\<Union>j \<in> set (heures ?h). \<Union>pays \<in> set [0..<NombreDePays ?h].
       \<Union>k \<in> set [0..<length (ShortTermStorage ?h ! pays)]. places_stockage_heure (ShortTermStorage ?h ! pays ! k, j)"
    and ?K = "\<Union>pays \<in> set [0..<NombreDePays ?h]. insert (Stock pays) (Tranche pays ` {..<100})"
    and ?G = "if OptimisationAvecCoutsDeDemarrage ?h then (\<Union>j \<in> set (heures ?h). \<Union>pays \<in> set [0..<NombreDePays ?h].
       \<Union>i \<in> set [0..<nb_paliers ?h pays]. places_demarrage_heure ?h j pays i) else {}"
  have heures: "bornes_ecrites b p0 ?H
      (forE [bpremier b..<bpremier b + ?T] (\<lambda>pdtHebdo. seqE
        [forE [0..<NombreDInterconnexions ?h] (bornes_interco ?h (bd b) (badq b) s pdtHebdo (pdtHebdo - bpremier b)),
         forE [0..<NombreDePays ?h] (bornes_pays ?h (bd b) s pdtHebdo (pdtHebdo - bpremier b))]))"
    unfolding forE_intervalle heures_def [symmetric] add_diff_cancel_left'
    by (intro bornes.ecrites_forE bornes.ecrites_seqE_Cons bornes.ecrites_seqE_Nil intercos lespays)
  let ?reste = "seqE [forE [bpremier b..<bpremier b + ?T] (\<lambda>pdtHebdo. seqE
        [forE [0..<NombreDInterconnexions ?h] (bornes_interco ?h (bd b) (badq b) s pdtHebdo (pdtHebdo - bpremier b)),
         forE [0..<NombreDePays ?h] (bornes_pays ?h (bd b) s pdtHebdo (pdtHebdo - bpremier b))]),
      setBoundsForUnsuppliedEnergy ?h (bd b) (badq b) (bopt b) s (bpremier b) (bpremier b + ?T),
      setBoundsForShortTermStorage ?h (bd b) s (bpremier b) (bpremier b + ?T),
      forE [0..<NombreDePays ?h] (bornes_stock ?h (bd b) s),
      whenE (OptimisationAvecCoutsDeDemarrage ?h) (OPT_InitialiserLesBornesDesVariablesDuProblemeLineaireCoutsDeDemarrage ?h (bd b) s (bpremier b) (bpremier b + ?T))]"
  have reste: "bornes_ecrites b p0 (?H \<union> (?D \<union> (?S \<union> (?K \<union> (?G \<union> {}))))) ?reste"
    by (intro bornes.ecrites_seqE_Cons bornes.ecrites_seqE_Nil heures setBoundsForUnsuppliedEnergy_ok [OF R]
        setBoundsForShortTermStorage_ok [OF R] stocks bornes.ecrites_whenE bornes_demarrages_ok [OF R])
  have "?S = (\<Union>e \<in> set (tirages_stockage ?h). places_stockage_heure e)"
    unfolding union_nth [where f = "\<lambda>st. places_stockage_heure (st, _)"] tirages_stockage_def by force
  then have toutes: "place_de ?h i \<in> ?H \<union> (?D \<union> (?S \<union> (?K \<union> (?G \<union> {}))))" if "i < nb_variables ?h" for i
    using places_toutes [OF h that] by (auto simp del: upt_rec_numeral)
  have n: "NombreDeVariables (snd z) = nb_variables ?h"
    using z by (cases z) (simp add: bornes_ok_def)
  show ?thesis
    unfolding bornes_lineaires_def
  proof (subst seqE.simps(2), unfold returns_bindE n, rule returns_mono [OF effacer_ok [OF R z]])
    fix z1 assume z1: "bornes_ok b p0 z1 \<and> (\<forall>i < nb_variables ?h. cellule_bornes z1 i = sans_adresses (cellule_bornes z i))"
    show "returns (?reste z1) (\<lambda>z'. bornes_ok b p0 z' \<and> (\<forall>i < nb_variables ?h. let q = place_de ?h i in
      cellule_bornes z' i = (xmin_de b q, xmax_de b q, type_apres b q (fst (snd (snd (cellule_bornes z i)))),
        adresse_de b q, cout_reduit_de b q)))"
      using bornes.ecrites_toutes [OF reste toutes, of z1] z1
      by (auto simp: maj_sans_adresses Let_def elim!: returns_mono)
  qed
qed

text \<open>On the state: nothing but these five vectors and the results changes.\<close>

definition hors_bornes :: "etat \<Rightarrow> etat" where
  "hors_bornes s = s\<lparr>ProblemeAResoudre := sans_bornes (ProblemeAResoudre s)\<rparr>"

definition bornes_posees :: "contexte_bornes \<Rightarrow> etat \<Rightarrow> etat \<Rightarrow> bool" where
  "bornes_posees b s s' \<longleftrightarrow> (\<forall>i < nb_variables (bh b).
     let p = ProblemeAResoudre s'; q = place_de (bh b) i in
     Xmin p ! i = xmin_de b q \<and> Xmax p ! i = xmax_de b q \<and>
     TypeDeVariable p ! i = type_apres b q (TypeDeVariable (ProblemeAResoudre s) ! i) \<and>
     AdresseOuPlacerLaValeurDesVariablesOptimisees p ! i = adresse_de b q \<and>
     AdresseOuPlacerLaValeurDesCoutsReduits p ! i = cout_reduit_de b q)"

lemma OPT_InitialiserLesBornes_ok:
  assumes R: "pass_bornes b s"
  shows "returns (OPT_InitialiserLesBornesDesVariablesDuProblemeLineaire (bh b) (bd b) (badq b) (bpremier b)
      (bpremier b + NombreDePasDeTempsPourUneOptimisation (bh b)) (bopt b) (brs b, s))
    (\<lambda>(rs', s'). resultats_ok (bh b) rs' \<and> map ValeursHorairesDENS rs' = map ValeursHorairesDENS (brs b) \<and>
      hors_bornes s' = hors_bornes s \<and> alloue (bh b) s' \<and> bornes_posees b s s')"
proof -
  let ?p = "ProblemeAResoudre s"
  note R' = remplissage_pret [OF pass_bornesD [OF R]]
  have a: "alloue (bh b) s" by (rule remplir_ok(4) [OF R'])
  then have z: "bornes_ok b ?p (brs b, ?p)"
    using remplir_ok(5,6) [OF R'] R
    by (simp add: bornes_ok_def alloue_def vecteurs_alloues_def cote_vecteurs_def dims_variables_def pass_bornes_def Let_def)
  show ?thesis
    unfolding OPT_InitialiserLesBornesDesVariablesDuProblemeLineaire_def prod.case returns_bindE
  proof (rule returns_mono [OF bornes_lineaires_ok [OF R z]])
    fix z' assume z': "bornes_ok b ?p z' \<and> (\<forall>i < nb_variables (bh b). let q = place_de (bh b) i in
      cellule_bornes z' i = (xmin_de b q, xmax_de b q, type_apres b q (fst (snd (snd (cellule_bornes (brs b, ?p) i)))),
        adresse_de b q, cout_reduit_de b q))"
    obtain rs' p' where e: "z' = (rs', p')" by (cases z')
    have sb: "sans_bornes p' = sans_bornes ?p" using z' by (simp add: e bornes_ok_def)
    have "alloue (bh b) (s\<lparr>ProblemeAResoudre := p'\<rparr>)"
    proof -
      have c: "NombreDeTermesAllouesDansLaMatriceDesContraintes p' = NombreDeTermesAllouesDansLaMatriceDesContraintes ?p"
        "NomDesVariables p' = NomDesVariables ?p" "VariablesEntieres p' = VariablesEntieres ?p"
        using sb by (cases p'; cases ?p; simp add: sans_bornes_def)+
      show ?thesis
        using a z' sb
        by (cases p'; cases ?p; simp add: e alloue_def alloue_matrice_def dims_variables_def dims_cnt_def
            vecteurs_alloues_def cote_vecteurs_def bornes_ok_def sans_bornes_def Let_def)
    qed
    then show "returns (case z' of (rs, p) \<Rightarrow> Inr (rs, s\<lparr>ProblemeAResoudre := p\<rparr>)) (\<lambda>(rs', s'). resultats_ok (bh b) rs' \<and>
      map ValeursHorairesDENS rs' = map ValeursHorairesDENS (brs b) \<and> hors_bornes s' = hors_bornes s \<and>
      alloue (bh b) s' \<and> bornes_posees b s s')"
      using z' sb by (simp add: e bornes_ok_def hors_bornes_def bornes_posees_def cellule_bornes_def Let_def)
  qed
qed

end
