(* ===== verification/Right_Hand_Sides.thy ===== *)
theory Right_Hand_Sides
  imports Bounds
begin

text \<open>
  The right-hand sides of the constraints: \<open>opt_gestion_second_membre_cas_lineaire.cpp\<close> and
  \<open>opt_gestion_second_membre_couts_demarrage.cpp\<close>, with \<open>OPT_SommeDesPminThermiques\<close> of
  \<open>opt_gestion_des_bornes_cas_lineaire.cpp\<close>, under \<open>src/src/solver/optimisation/\<close>. The function finds each
  row by the number the construction of the matrix recorded for it, and also says where its marginal cost goes.
  The state \<open>s\<close> is only read (the numbers of the rows); the linear problem \<open>p\<close> changes.
\<close>

subsection \<open>The numbers of the rows\<close>

definition lire_cnt :: "etat \<Rightarrow> champ_cnt \<Rightarrow> nat \<Rightarrow> nat \<Rightarrow> int resultat" where
  "lire_cnt s c pdt i = bindE (lire (CorrespondanceCntNativesCntOptim s) pdt) (\<lambda>corr. lire (corr c) i)"

definition lire_cnt_pays :: "etat \<Rightarrow> champ_pays \<Rightarrow> nat \<Rightarrow> int resultat" where
  "lire_cnt_pays s c pays = lire (NumerosDeContrainteDuPays s c) pays"

subsection \<open>Writing the vectors\<close>

definition ecrire_membre :: "int \<Rightarrow> real \<Rightarrow> PROBLEME_ANTARES_A_RESOUDRE \<Rightarrow> PROBLEME_ANTARES_A_RESOUDRE resultat" where
  "ecrire_membre cnt v p = bindE (ecrire_int (SecondMembre p) cnt v) (\<lambda>x. Inr (p\<lparr>SecondMembre := x\<rparr>))"

definition ajouter_membre :: "int \<Rightarrow> real \<Rightarrow> PROBLEME_ANTARES_A_RESOUDRE \<Rightarrow> PROBLEME_ANTARES_A_RESOUDRE resultat" where
  "ajouter_membre cnt v p = bindE (lire_int (SecondMembre p) cnt) (\<lambda>x. ecrire_membre cnt (x + v) p)"

definition ecrire_marginal ::
  "int \<Rightarrow> adresse option \<Rightarrow> PROBLEME_ANTARES_A_RESOUDRE \<Rightarrow> PROBLEME_ANTARES_A_RESOUDRE resultat" where
  "ecrire_marginal cnt a p =
     bindE (ecrire_int (AdresseOuPlacerLaValeurDesCoutsMarginaux p) cnt a) (\<lambda>x.
     Inr (p\<lparr>AdresseOuPlacerLaValeurDesCoutsMarginaux := x\<rparr>))"

text \<open>\<open>if (cnt >= 0) { SecondMembre[cnt] = v; Adresse[cnt] = a; }\<close>.\<close>

definition poser_membre ::
  "int \<Rightarrow> real resultat \<Rightarrow> adresse option \<Rightarrow> PROBLEME_ANTARES_A_RESOUDRE \<Rightarrow> PROBLEME_ANTARES_A_RESOUDRE resultat" where
  "poser_membre cnt v a p = whenE (cnt \<ge> 0) (seqE [\<lambda>p. bindE v (\<lambda>v. ecrire_membre cnt v p), ecrire_marginal cnt a]) p"

subsection \<open>The areas\<close>

definition OPT_SommeDesPminThermiques :: "PROBLEME_HEBDO \<Rightarrow> DONNEES \<Rightarrow> nat \<Rightarrow> nat \<Rightarrow> real resultat" where
  "OPT_SommeDesPminThermiques h d pays pdtHebdo =
     bindE (lire (PaliersThermiquesDuPays h) pays) (\<lambda>pt.
     forE [0..<NombreDePaliersThermiques pt] (\<lambda>index somme.
       bindE (palier_donnees d pays index) (\<lambda>pdisp.
       bindE (lire (PuissanceMinDuPalierThermique pdisp) pdtHebdo) (\<lambda>v. Inr (somme + v)))) 0)"

definition membre_bilan ::
  "DONNEES \<Rightarrow> numero_optimisation \<Rightarrow> etat \<Rightarrow> nat \<Rightarrow> nat \<Rightarrow> nat \<Rightarrow> PROBLEME_ANTARES_A_RESOUDRE \<Rightarrow>
     PROBLEME_ANTARES_A_RESOUDRE resultat" where
  "membre_bilan d opt s pdtHebdo pdtJour pays p =
     bindE (lire_cnt s NumeroDeContrainteDesBilansPays pdtJour pays) (\<lambda>cnt. seqE
       [\<lambda>p. bindE (lire_heure_pays (ConsommationAbattueDuPays d) pdtHebdo pays) (\<lambda>c. ecrire_membre cnt (- c) p),
        whenE (YaDeLaReserveJmoins1 d \<and> opt = PREMIERE_OPTIMISATION) (\<lambda>p.
          bindE (lire_heure_pays (ReserveHoraireJMoins1 d) pays pdtHebdo) (\<lambda>r. ajouter_membre cnt (- r) p)),
        ecrire_marginal cnt (Some (CoutsMarginauxHoraires_de pays pdtHebdo))] p)"

definition membre_charges_fictives ::
  "PROBLEME_HEBDO \<Rightarrow> DONNEES \<Rightarrow> etat \<Rightarrow> nat \<Rightarrow> nat \<Rightarrow> nat \<Rightarrow> PROBLEME_ANTARES_A_RESOUDRE \<Rightarrow>
     PROBLEME_ANTARES_A_RESOUDRE resultat" where
  "membre_charges_fictives h d s pdtHebdo pdtJour pays p =
     bindE (lire_cnt s NumeroDeContraintePourEviterLesChargesFictives pdtJour pays) (\<lambda>cnt. seqE
       [ecrire_membre cnt 0,
        \<lambda>p. bindE (lire_heure_pays (AllMustRunGenerationOfArea d) pdtHebdo pays) (\<lambda>g.
          bindE (lire_heure_pays (ConsommationAbattueDuPays d) pdtHebdo pays) (\<lambda>c.
          bindE (lire (DefaillanceNegativeUtiliserConsoAbattue d) pays) (\<lambda>utiliser.
          let maxAllMustRun = (if g > 0 then g else 0);
              maxMoinsConso = (if - (c + g) > 0 then - (c + g) else 0) in
          ecrire_membre cnt (of_bool utiliser * (maxAllMustRun + maxMoinsConso)) p))),
        \<lambda>p. bindE (lire (DefaillanceNegativeUtiliserPMinThermique d) pays) (\<lambda>utiliser.
          whenE (\<not> utiliser) (\<lambda>p.
            bindE (OPT_SommeDesPminThermiques h d pays pdtHebdo) (\<lambda>pmin. ajouter_membre cnt (- pmin) p)) p),
        ecrire_marginal cnt None] p)"

definition shortTermStorageLevelsRHS ::
  "PROBLEME_HEBDO \<Rightarrow> DONNEES \<Rightarrow> etat \<Rightarrow> nat \<Rightarrow> nat \<Rightarrow> PROBLEME_ANTARES_A_RESOUDRE \<Rightarrow>
     PROBLEME_ANTARES_A_RESOUDRE resultat" where
  "shortTermStorageLevelsRHS h d s pdtJour hourInTheYear =
     forE [0..<NombreDePays h] (\<lambda>areaIndex p.
       bindE (lire (ShortTermStorage h) areaIndex) (\<lambda>storages.
       forE [0..<length storages] (\<lambda>k p.
         bindE (lire storages k) (\<lambda>storage.
         bindE (lire_heure_pays (StockageDonnees d) areaIndex k) (\<lambda>sd.
         bindE (lire_cnt s ShortTermStorageLevelConstraint pdtJour (clusterGlobalIndex storage)) (\<lambda>cnt.
         bindE (lire (series_inflows sd) hourInTheYear) (\<lambda>v. ecrire_membre cnt v p))))) p))"

subsection \<open>The links and the binding constraints\<close>

definition membre_flux ::
  "PROBLEME_HEBDO \<Rightarrow> DONNEES \<Rightarrow> etat \<Rightarrow> nat \<Rightarrow> nat \<Rightarrow> nat \<Rightarrow> PROBLEME_ANTARES_A_RESOUDRE \<Rightarrow>
     PROBLEME_ANTARES_A_RESOUDRE resultat" where
  "membre_flux h d s pdtHebdo pdtJour interco p =
     bindE (lire (CoutDeTransport h) interco) (\<lambda>cout.
     bindE (lire (TransportDonnees d) interco) (\<lambda>transport.
     whenE (IntercoGereeAvecDesCouts cout) (\<lambda>p.
       bindE (lire_cnt s NumeroDeContrainteDeDissociationDeFlux pdtJour interco) (\<lambda>cnt. seqE
       [if IntercoGereeAvecLoopFlow transport
        then (\<lambda>p. bindE (lire (ValeursDeNTC d) pdtHebdo) (\<lambda>ntc.
          bindE (lire (ValeurDeLoopFlowOrigineVersExtremite ntc) interco) (\<lambda>v. ecrire_membre cnt v p)))
        else ecrire_membre cnt 0,
        ecrire_marginal cnt None] p)) p))"

definition membre_couplante ::
  "PROBLEME_HEBDO \<Rightarrow> DONNEES \<Rightarrow> etat \<Rightarrow> nat \<Rightarrow> nat \<Rightarrow> nat \<Rightarrow> PROBLEME_ANTARES_A_RESOUDRE \<Rightarrow>
     PROBLEME_ANTARES_A_RESOUDRE resultat" where
  "membre_couplante h d s pdtHebdo pdtJour cntCouplante p =
     bindE (lire (MatriceDesContraintesCouplantes h) cntCouplante) (\<lambda>c.
     if TypeDeContrainteCouplante c \<noteq> CONTRAINTE_HORAIRE then Inr p
     else bindE (lire_cnt s NumeroDeContrainteDesContraintesCouplantes pdtJour cntCouplante) (\<lambda>cnt.
       poser_membre cnt (lire_heure_pays (SecondMembreDeLaContrainteCouplante d) cntCouplante pdtHebdo)
         (Some (VariablesDuales_de cntCouplante pdtHebdo)) p))"

definition membre_couplante_jour ::
  "PROBLEME_HEBDO \<Rightarrow> DONNEES \<Rightarrow> int list \<Rightarrow> nat \<Rightarrow> nat \<Rightarrow> PROBLEME_ANTARES_A_RESOUDRE \<Rightarrow>
     PROBLEME_ANTARES_A_RESOUDRE resultat" where
  "membre_couplante_jour h d corr jour cntCouplante p =
     bindE (lire (MatriceDesContraintesCouplantes h) cntCouplante) (\<lambda>c.
     whenE (TypeDeContrainteCouplante c = CONTRAINTE_JOURNALIERE) (\<lambda>p.
       bindE (lire corr cntCouplante) (\<lambda>cnt.
       poser_membre cnt (lire_heure_pays (SecondMembreDeLaContrainteCouplante d) cntCouplante jour)
         (Some (VariablesDuales_de cntCouplante jour)) p)) p)"

definition membre_couplante_semaine ::
  "PROBLEME_HEBDO \<Rightarrow> DONNEES \<Rightarrow> etat \<Rightarrow> nat \<Rightarrow> PROBLEME_ANTARES_A_RESOUDRE \<Rightarrow> PROBLEME_ANTARES_A_RESOUDRE resultat" where
  "membre_couplante_semaine h d s cntCouplante p =
     bindE (lire (MatriceDesContraintesCouplantes h) cntCouplante) (\<lambda>c.
     if TypeDeContrainteCouplante c \<noteq> CONTRAINTE_HEBDOMADAIRE then Inr p
     else bindE (lire (CorrespondanceCntNativesCntOptimHebdomadaires s) cntCouplante) (\<lambda>cnt.
       poser_membre cnt (lire_heure_pays (SecondMembreDeLaContrainteCouplante d) cntCouplante 0)
         (Some (VariablesDuales_de cntCouplante 0)) p))"

text \<open>\<open>for (pdtHebdo = premier; pdtHebdo < dernier;) { ...; pdtHebdo += D; }\<close>. The length of the range is fuel
  enough as soon as the day has a positive length.\<close>

fun boucle_pas ::
  "nat \<Rightarrow> nat \<Rightarrow> (nat \<Rightarrow> 'z \<Rightarrow> 'z resultat) \<Rightarrow> nat \<Rightarrow> nat \<Rightarrow> 'z \<Rightarrow> 'z resultat" where
  "boucle_pas pas dernier f 0 pdtHebdo z = (if pdtHebdo < dernier then Inl CarburantEpuise else Inr z)"
| "boucle_pas pas dernier f (Suc n) pdtHebdo z =
     (if pdtHebdo < dernier then bindE (f pdtHebdo z) (boucle_pas pas dernier f n (pdtHebdo + pas)) else Inr z)"

definition membres_couplantes_jours ::
  "PROBLEME_HEBDO \<Rightarrow> DONNEES \<Rightarrow> etat \<Rightarrow> nat \<Rightarrow> nat \<Rightarrow> PROBLEME_ANTARES_A_RESOUDRE \<Rightarrow>
     PROBLEME_ANTARES_A_RESOUDRE resultat" where
  "membres_couplantes_jours h d s premier dernier =
     boucle_pas (NombreDePasDeTempsDUneJournee h) dernier (\<lambda>pdtHebdo p.
       bindE (lire (NumeroDeJourDuPasDeTemps h) pdtHebdo) (\<lambda>jour.
       let indexCorrespondanceCnt = (if \<not> OptimisationAuPasHebdomadaire h then 0 else jour) in
       bindE (lire (CorrespondanceCntNativesCntOptimJournalieres s) indexCorrespondanceCnt) (\<lambda>corr.
       forE [0..<NombreDeContraintesCouplantes h] (membre_couplante_jour h d corr jour) p)))
       (dernier - premier) premier"

subsection \<open>Hydro\<close>

definition membre_energie ::
  "DONNEES \<Rightarrow> etat \<Rightarrow> nat \<Rightarrow> nat \<Rightarrow> PROBLEME_ANTARES_A_RESOUDRE \<Rightarrow> PROBLEME_ANTARES_A_RESOUDRE resultat" where
  "membre_energie d s intervalle pays p =
     bindE (lire_cnt_pays s NumeroDeContrainteEnergieHydraulique pays) (\<lambda>cnt.
     bindE (lire (HydroDonnees d) pays) (\<lambda>hyd.
     poser_membre cnt (lire (CntEnergieH2OParIntervalleOptimise hyd) intervalle) None p))"

definition membre_min_energie ::
  "PROBLEME_HEBDO \<Rightarrow> DONNEES \<Rightarrow> etat \<Rightarrow> nat \<Rightarrow> nat \<Rightarrow> PROBLEME_ANTARES_A_RESOUDRE \<Rightarrow>
     PROBLEME_ANTARES_A_RESOUDRE resultat" where
  "membre_min_energie h d s intervalle pays p =
     bindE (lire (CaracteristiquesHydrauliques h) pays) (\<lambda>c.
     bindE (lire (HydroDonnees d) pays) (\<lambda>hyd.
     whenE (PresenceDHydrauliqueModulable c \<and> (TurbinageEntreBornes c \<or> PresenceDePompageModulable c)) (\<lambda>p.
       bindE (lire_cnt_pays s NumeroDeContrainteMinEnergieHydraulique pays) (\<lambda>cnt.
       poser_membre cnt (lire (MinEnergieHydrauParIntervalleOptimise hyd) intervalle) None p)) p))"

definition membre_max_energie ::
  "PROBLEME_HEBDO \<Rightarrow> DONNEES \<Rightarrow> etat \<Rightarrow> nat \<Rightarrow> nat \<Rightarrow> PROBLEME_ANTARES_A_RESOUDRE \<Rightarrow>
     PROBLEME_ANTARES_A_RESOUDRE resultat" where
  "membre_max_energie h d s intervalle pays p =
     bindE (lire (CaracteristiquesHydrauliques h) pays) (\<lambda>c.
     bindE (lire (HydroDonnees d) pays) (\<lambda>hyd.
     whenE (PresenceDHydrauliqueModulable c \<and> (TurbinageEntreBornes c \<or> PresenceDePompageModulable c)) (\<lambda>p.
       bindE (lire_cnt_pays s NumeroDeContrainteMaxEnergieHydraulique pays) (\<lambda>cnt.
       poser_membre cnt (lire (MaxEnergieHydrauParIntervalleOptimise hyd) intervalle) None p)) p))"

definition membre_pompage ::
  "PROBLEME_HEBDO \<Rightarrow> DONNEES \<Rightarrow> etat \<Rightarrow> nat \<Rightarrow> nat \<Rightarrow> PROBLEME_ANTARES_A_RESOUDRE \<Rightarrow>
     PROBLEME_ANTARES_A_RESOUDRE resultat" where
  "membre_pompage h d s intervalle pays p =
     bindE (lire (CaracteristiquesHydrauliques h) pays) (\<lambda>c.
     bindE (lire (HydroDonnees d) pays) (\<lambda>hyd.
     whenE (PresenceDePompageModulable c) (\<lambda>p.
       bindE (lire_cnt_pays s NumeroDeContrainteMaxPompage pays) (\<lambda>cnt.
       poser_membre cnt (lire (MaxEnergiePompageParIntervalleOptimise hyd) intervalle) None p)) p))"

definition membre_niveau ::
  "PROBLEME_HEBDO \<Rightarrow> DONNEES \<Rightarrow> etat \<Rightarrow> nat \<Rightarrow> nat \<Rightarrow> nat \<Rightarrow> PROBLEME_ANTARES_A_RESOUDRE \<Rightarrow>
     PROBLEME_ANTARES_A_RESOUDRE resultat" where
  "membre_niveau h d s pdtHebdo pdtJour pays p =
     bindE (lire (CaracteristiquesHydrauliques h) pays) (\<lambda>c.
     bindE (lire (HydroDonnees d) pays) (\<lambda>hyd.
     if \<not> SuiviNiveauHoraire c then Inr p
     else bindE (lire_cnt s NumeroDeContrainteDesNiveauxPays pdtJour pays) (\<lambda>cnt.
       whenE (cnt \<ge> 0) (seqE
         [\<lambda>p. bindE (lire (ApportNaturelHoraire hyd) pdtHebdo) (\<lambda>v. ecrire_membre cnt v p),
          whenE (pdtHebdo = 0) (ajouter_membre cnt (NiveauInitialReservoir hyd)),
          ecrire_marginal cnt None]) p)))"

definition membre_stock ::
  "PROBLEME_HEBDO \<Rightarrow> etat \<Rightarrow> nat \<Rightarrow> PROBLEME_ANTARES_A_RESOUDRE \<Rightarrow> PROBLEME_ANTARES_A_RESOUDRE resultat" where
  "membre_stock h s pays p =
     bindE (lire (CaracteristiquesHydrauliques h) pays) (\<lambda>c. seqE
     [whenE (AccurateWaterValue c \<and> DirectLevelAccess c) (\<lambda>p.
        bindE (lire_cnt_pays s NumeroDeContrainteEquivalenceStockFinal pays) (\<lambda>cnt. poser_membre cnt (Inr 0) None p)),
      whenE (AccurateWaterValue c) (\<lambda>p.
        bindE (lire_cnt_pays s NumeroDeContrainteExpressionStockFinal pays) (\<lambda>cnt. poser_membre cnt (Inr 0) None p))] p)"

subsection \<open>The minimum down times\<close>

text \<open>An hour of the range, counted from its end when it is negative.\<close>

definition boucler :: "PROBLEME_HEBDO \<Rightarrow> int \<Rightarrow> int" where
  "boucler h t1 = (if t1 < 0 then int (NombreDePasDeTempsPourUneOptimisation h) + t1 else t1)"

definition membre_arret ::
  "PROBLEME_HEBDO \<Rightarrow> DONNEES \<Rightarrow> etat \<Rightarrow> nat \<Rightarrow> nat \<Rightarrow> nat \<Rightarrow> nat \<Rightarrow> PROBLEME_ANTARES_A_RESOUDRE \<Rightarrow>
     PROBLEME_ANTARES_A_RESOUDRE resultat" where
  "membre_arret h d s pdtHebdo pdtJour pays index p =
     bindE (lire (PaliersThermiquesDuPays h) pays) (\<lambda>pt.
     bindE (palier_donnees d pays index) (\<lambda>pdisp.
     bindE (lire (DureeMinimaleDArretDUnGroupeDuPalierThermique pt) index) (\<lambda>duree.
     bindE (lire (NumeroDuPalierDansLEnsembleDesPaliersThermiques pt) index) (\<lambda>palier.
     bindE (lire_cnt s NumeroDeContrainteDesContraintesDeDureeMinDArret pdtJour palier) (\<lambda>cnt.
     let maxi = NombreMaxDeGroupesEnMarcheDuPalierThermique pdisp in
     whenE (cnt \<ge> 0) (seqE
       [\<lambda>p. bindE (lire_int maxi (boucler h (int pdtHebdo - duree))) (\<lambda>v. ecrire_membre cnt (of_int v) p),
        forE [int pdtHebdo - duree + 1..int pdtHebdo] (\<lambda>k p.
          let t1 = boucler h k; t1moins1 = boucler h (t1 - 1) in
          bindE (lire_int maxi t1) (\<lambda>v.
          bindE (lire_int maxi t1moins1) (\<lambda>v'.
          whenE (v - v' > 0) (ajouter_membre cnt (of_int (v - v'))) p))),
        ecrire_marginal cnt None]) p)))))"

definition OPT_InitialiserLeSecondMembreDuProblemeLineaireCoutsDeDemarrage ::
  "PROBLEME_HEBDO \<Rightarrow> DONNEES \<Rightarrow> etat \<Rightarrow> nat \<Rightarrow> nat \<Rightarrow> PROBLEME_ANTARES_A_RESOUDRE \<Rightarrow>
     PROBLEME_ANTARES_A_RESOUDRE resultat" where
  "OPT_InitialiserLeSecondMembreDuProblemeLineaireCoutsDeDemarrage h d s premier dernier =
     forE [0..<NombreDePays h] (\<lambda>pays p.
       bindE (lire (PaliersThermiquesDuPays h) pays) (\<lambda>pt.
       forE [0..<NombreDePaliersThermiques pt] (\<lambda>index.
         forE [premier..<dernier] (\<lambda>pdtHebdo. membre_arret h d s pdtHebdo (pdtHebdo - premier) pays index)) p))"

subsection \<open>The whole function\<close>

definition membres_heure ::
  "PROBLEME_HEBDO \<Rightarrow> DONNEES \<Rightarrow> numero_optimisation \<Rightarrow> etat \<Rightarrow> nat \<Rightarrow> nat \<Rightarrow> PROBLEME_ANTARES_A_RESOUDRE \<Rightarrow>
     PROBLEME_ANTARES_A_RESOUDRE resultat" where
  "membres_heure h d opt s pdtHebdo pdtJour = seqE
     [forE [0..<NombreDePays h] (\<lambda>pays. seqE
        [membre_bilan d opt s pdtHebdo pdtJour pays, membre_charges_fictives h d s pdtHebdo pdtJour pays]),
      shortTermStorageLevelsRHS h d s pdtJour (weekInTheYear h * 168 + pdtHebdo),
      forE [0..<NombreDInterconnexions h] (membre_flux h d s pdtHebdo pdtJour),
      forE [0..<NombreDeContraintesCouplantes h] (membre_couplante h d s pdtHebdo pdtJour)]"

definition membres_lineaires ::
  "PROBLEME_HEBDO \<Rightarrow> DONNEES \<Rightarrow> numero_optimisation \<Rightarrow> etat \<Rightarrow> nat \<Rightarrow> nat \<Rightarrow> nat \<Rightarrow> PROBLEME_ANTARES_A_RESOUDRE \<Rightarrow>
     PROBLEME_ANTARES_A_RESOUDRE resultat" where
  "membres_lineaires h d opt s premier dernier intervalle = seqE
     [\<lambda>p. forE [0..<NombreDeContraintes p] (\<lambda>i. seqE [ecrire_marginal (int i) None, ecrire_membre (int i) 0]) p,
      forE [premier..<dernier] (\<lambda>pdtHebdo. membres_heure h d opt s pdtHebdo (pdtHebdo - premier)),
      membres_couplantes_jours h d s premier dernier,
      whenE (NombreDePasDeTempsDUneJournee h < NombreDePasDeTempsPourUneOptimisation h)
        (forE [0..<NombreDeContraintesCouplantes h] (membre_couplante_semaine h d s)),
      forE [0..<NombreDePays h] (membre_energie d s intervalle),
      forE [0..<NombreDePays h] (membre_min_energie h d s intervalle),
      forE [0..<NombreDePays h] (membre_max_energie h d s intervalle),
      forE [0..<NombreDePays h] (membre_pompage h d s intervalle),
      forE [premier..<dernier] (\<lambda>pdtHebdo. forE [0..<NombreDePays h] (membre_niveau h d s pdtHebdo (pdtHebdo - premier))),
      forE [0..<NombreDePays h] (membre_stock h s),
      whenE (OptimisationAvecCoutsDeDemarrage h)
        (OPT_InitialiserLeSecondMembreDuProblemeLineaireCoutsDeDemarrage h d s premier dernier)]"

definition OPT_InitialiserLeSecondMembreDuProblemeLineaire ::
  "PROBLEME_HEBDO \<Rightarrow> DONNEES \<Rightarrow> nat \<Rightarrow> nat \<Rightarrow> nat \<Rightarrow> numero_optimisation \<Rightarrow> etat \<Rightarrow> etat resultat" where
  "OPT_InitialiserLeSecondMembreDuProblemeLineaire h d premier dernier intervalle opt s =
     bindE (membres_lineaires h d opt s premier dernier intervalle (ProblemeAResoudre s)) (\<lambda>p.
     Inr (s\<lparr>ProblemeAResoudre := p\<rparr>))"

end
