(* ===== verification/Right_Hand_Sides_Correct.thy ===== *)
theory Right_Hand_Sides_Correct
  imports Right_Hand_Sides Constraint_Numbers
begin

text \<open>
  The functions of \<open>Right_Hand_Sides\<close> write the table below: on a problem whose constraints are numbered, every
  row gets the right-hand side and the address of the place where its number was recorded, a row whose number
  was not recorded gets 0 and no address, and nothing else of the linear problem changes.
\<close>

subsection \<open>The table\<close>

record contexte_membres =
  mh :: PROBLEME_HEBDO
  md :: DONNEES
  mopt :: numero_optimisation
  mpremier :: nat
  mintervalle :: nat

text \<open>The must-run generation and the negative load an area may spill, less its minimum thermal powers.\<close>

definition charges_fictives :: "PROBLEME_HEBDO \<Rightarrow> DONNEES \<Rightarrow> nat \<Rightarrow> nat \<Rightarrow> real" where
  "charges_fictives h d t pays =
     (let g = AllMustRunGenerationOfArea d ! t ! pays; c = ConsommationAbattueDuPays d ! t ! pays in
      (if DefaillanceNegativeUtiliserConsoAbattue d ! pays then max 0 g + max 0 (- (c + g)) else 0) -
      (if DefaillanceNegativeUtiliserPMinThermique d ! pays then 0
       else (\<Sum>i = 0..<nb_paliers h pays. PuissanceMinDuPalierThermique (pdisp_de d (pays, i)) ! t)))"

definition groupes_max :: "PROBLEME_HEBDO \<Rightarrow> PDISP_ET_COUTS_HORAIRES_PAR_PALIER \<Rightarrow> int \<Rightarrow> int" where
  "groupes_max h pdisp t = NombreMaxDeGroupesEnMarcheDuPalierThermique pdisp ! nat (boucler h t)"

text \<open>At most this many units run or have stopped within the minimum down time: those available before it, and
  those that became available during it.\<close>

definition groupes_arret :: "PROBLEME_HEBDO \<Rightarrow> PDISP_ET_COUTS_HORAIRES_PAR_PALIER \<Rightarrow> int \<Rightarrow> int \<Rightarrow> int" where
  "groupes_arret h pdisp duree t = groupes_max h pdisp (t - duree) +
     sum_list (map (\<lambda>k. max 0 (groupes_max h pdisp k - groupes_max h pdisp (k - 1))) [t - duree + 1..t])"

text \<open>The day a daily constraint is about: the ranges of one day all use the first place.\<close>

definition jour_lu :: "contexte_membres \<Rightarrow> nat \<Rightarrow> nat" where
  "jour_lu m jour = (if OptimisationAuPasHebdomadaire (mh m) then jour else NumeroDeJourDuPasDeTemps (mh m) ! mpremier m)"

abbreviation couplante_de :: "contexte_membres \<Rightarrow> nat \<Rightarrow> nat \<Rightarrow> real" where
  "couplante_de m c t \<equiv> SecondMembreDeLaContrainteCouplante (md m) ! c ! t"

fun membre_de :: "contexte_membres \<Rightarrow> place_cnt \<Rightarrow> real" where
  "membre_de m (Ligne NumeroDeContrainteDesBilansPays t pays) =
     - (ConsommationAbattueDuPays (md m) ! (mpremier m + t) ! pays) -
       (if YaDeLaReserveJmoins1 (md m) \<and> mopt m = PREMIERE_OPTIMISATION
        then ReserveHoraireJMoins1 (md m) ! pays ! (mpremier m + t) else 0)"
| "membre_de m (Ligne NumeroDeContraintePourEviterLesChargesFictives t pays) =
     charges_fictives (mh m) (md m) (mpremier m + t) pays"
| "membre_de m (Ligne ShortTermStorageLevelConstraint t g) =
     series_inflows (sts_de (md m) (stockage_de (mh m) g)) ! (weekInTheYear (mh m) * 168 + (mpremier m + t))"
| "membre_de m (Ligne NumeroDeContrainteDeDissociationDeFlux t l) =
     (if IntercoGereeAvecLoopFlow (TransportDonnees (md m) ! l)
      then ValeurDeLoopFlowOrigineVersExtremite (ValeursDeNTC (md m) ! (mpremier m + t)) ! l else 0)"
| "membre_de m (Ligne NumeroDeContrainteDesContraintesCouplantes t c) = couplante_de m c (mpremier m + t)"
| "membre_de m (Ligne NumeroDeContrainteDesNiveauxPays t pays) =
     ApportNaturelHoraire (HydroDonnees (md m) ! pays) ! (mpremier m + t) +
       (if mpremier m + t = 0 then NiveauInitialReservoir (HydroDonnees (md m) ! pays) else 0)"
| "membre_de m (Ligne NumeroDeContrainteDesContraintesDeDureeMinDArret t p) = (case palier_de (mh m) p of (pays, i) \<Rightarrow>
     of_int (groupes_arret (mh m) (pdisp_de (md m) (pays, i))
       (DureeMinimaleDArretDUnGroupeDuPalierThermique (PaliersThermiquesDuPays (mh m) ! pays) ! i) (int (mpremier m + t))))"
| "membre_de m (LigneJour jour c) = couplante_de m c (jour_lu m jour)"
| "membre_de m (LigneHebdo c) = couplante_de m c 0"
| "membre_de m (LignePays NumeroDeContrainteEnergieHydraulique pays) =
     CntEnergieH2OParIntervalleOptimise (HydroDonnees (md m) ! pays) ! mintervalle m"
| "membre_de m (LignePays NumeroDeContrainteMinEnergieHydraulique pays) =
     MinEnergieHydrauParIntervalleOptimise (HydroDonnees (md m) ! pays) ! mintervalle m"
| "membre_de m (LignePays NumeroDeContrainteMaxEnergieHydraulique pays) =
     MaxEnergieHydrauParIntervalleOptimise (HydroDonnees (md m) ! pays) ! mintervalle m"
| "membre_de m (LignePays NumeroDeContrainteMaxPompage pays) =
     MaxEnergiePompageParIntervalleOptimise (HydroDonnees (md m) ! pays) ! mintervalle m"
| "membre_de m _ = 0"

fun marginal_de :: "contexte_membres \<Rightarrow> place_cnt \<Rightarrow> adresse option" where
  "marginal_de m (Ligne NumeroDeContrainteDesBilansPays t pays) = Some (CoutsMarginauxHoraires_de pays (mpremier m + t))"
| "marginal_de m (Ligne NumeroDeContrainteDesContraintesCouplantes t c) = Some (VariablesDuales_de c (mpremier m + t))"
| "marginal_de m (LigneJour jour c) = Some (VariablesDuales_de c (jour_lu m jour))"
| "marginal_de m (LigneHebdo c) = Some (VariablesDuales_de c 0)"
| "marginal_de m _ = None"

text \<open>The code does not write the address of the rows of the storages.\<close>

fun marginal_ecrit :: "place_cnt \<Rightarrow> bool" where
  "marginal_ecrit (Ligne ShortTermStorageLevelConstraint t g) \<longleftrightarrow> False"
| "marginal_ecrit _ \<longleftrightarrow> True"

definition maj_membres :: "contexte_membres \<Rightarrow> place_ligne \<Rightarrow> real \<times> adresse option \<Rightarrow> real \<times> adresse option" where
  "maj_membres m pl x = (case pl of Nommee q \<Rightarrow> (membre_de m q, if marginal_ecrit q then marginal_de m q else snd x)
     | Anonyme k \<Rightarrow> x)"

definition cellule_membres :: "PROBLEME_ANTARES_A_RESOUDRE \<Rightarrow> nat \<Rightarrow> real \<times> adresse option" where
  "cellule_membres p k = (SecondMembre p ! k, AdresseOuPlacerLaValeurDesCoutsMarginaux p ! k)"

subsection \<open>The statements of the code\<close>

definition sans_membres :: "PROBLEME_ANTARES_A_RESOUDRE \<Rightarrow> PROBLEME_ANTARES_A_RESOUDRE" where
  "sans_membres p = p\<lparr>SecondMembre := [], AdresseOuPlacerLaValeurDesCoutsMarginaux := []\<rparr>"

definition membres_ok :: "contexte_membres \<Rightarrow> contexte \<Rightarrow> PROBLEME_ANTARES_A_RESOUDRE \<Rightarrow> PROBLEME_ANTARES_A_RESOUDRE \<Rightarrow> bool" where
  "membres_ok m K p0 p \<longleftrightarrow> sans_membres p = sans_membres p0 \<and> NombreDeContraintes p = length (liste_lignes K) \<and>
     length (liste_lignes K) \<le> length (SecondMembre p) \<and>
     length (SecondMembre p) = nb_contraintes_prevues (mh m) \<and>
     length (AdresseOuPlacerLaValeurDesCoutsMarginaux p) = nb_contraintes_prevues (mh m)"

interpretation membres: cellules "membres_ok m K p0" cellule_membres "length (liste_lignes K)" "place_ligne K" "maj_membres m"
  for m K p0
  by unfold_locales (auto simp: maj_membres_def split: place_ligne.splits)

abbreviation membres_ecrits ::
  "contexte_membres \<Rightarrow> contexte \<Rightarrow> PROBLEME_ANTARES_A_RESOUDRE \<Rightarrow> place_ligne set \<Rightarrow>
     (PROBLEME_ANTARES_A_RESOUDRE \<Rightarrow> PROBLEME_ANTARES_A_RESOUDRE resultat) \<Rightarrow> bool" where
  "membres_ecrits m K p0 \<equiv> cellules.ecrites (membres_ok m K p0) cellule_membres (length (liste_lignes K)) (place_ligne K)
     (maj_membres m)"

text \<open>A pass over a range: the constructed problem and its data.\<close>

definition horizon_choisi :: "PROBLEME_HEBDO \<Rightarrow> bool" where
  "horizon_choisi h \<longleftrightarrow> NombreDePasDeTempsPourUneOptimisation h =
     (if OptimisationAuPasHebdomadaire h then NombreDePasDeTemps h else NombreDePasDeTempsDUneJournee h)"

definition pass_membres :: "contexte_membres \<Rightarrow> contexte \<Rightarrow> etat \<Rightarrow> bool" where
  "pass_membres m K s \<longleftrightarrow> remplissage (mh m) (md m) s (mpremier m) \<and> kh K = mh m \<and> contraintes_numerotees K s \<and>
     jours_numerotes (mh m) \<and> horizon_choisi (mh m) \<and> mintervalle m < NombreDeJours (mh m)"

lemma pass_membresD:
  assumes "pass_membres m K s"
  shows "remplissage (mh m) (md m) s (mpremier m)" "kh K = mh m" "contraintes_numerotees K s" "hebdo_ok (mh m)"
    "jours_numerotes (mh m)" "horizon_choisi (mh m)" "mintervalle m < NombreDeJours (mh m)"
  using assms remplissage_simps(1) by (auto simp: pass_membres_def)

text \<open>What the statement of a place must do when the row exists, at its number.\<close>

definition ecrit_membre ::
  "contexte_membres \<Rightarrow> place_cnt \<Rightarrow> nat \<Rightarrow> (PROBLEME_ANTARES_A_RESOUDRE \<Rightarrow> PROBLEME_ANTARES_A_RESOUDRE resultat) \<Rightarrow> bool" where
  "ecrit_membre m q k f \<longleftrightarrow> (\<forall>p. k < length (SecondMembre p) \<longrightarrow> k < length (AdresseOuPlacerLaValeurDesCoutsMarginaux p) \<longrightarrow>
     f p = Inr (p\<lparr>SecondMembre := (SecondMembre p)[k := membre_de m q],
       AdresseOuPlacerLaValeurDesCoutsMarginaux := (if marginal_ecrit q
         then (AdresseOuPlacerLaValeurDesCoutsMarginaux p)[k := marginal_de m q]
         else AdresseOuPlacerLaValeurDesCoutsMarginaux p)\<rparr>))"

lemma membre_ecrit:
  assumes R: "pass_membres m K s" and q: "q \<in> set (places_cnt (fiches_cnt K))" "lue (mh m) q"
    and absente: "lecture_cnt s q = - 1 \<Longrightarrow> membres_ecrits m K p0 {} f"
    and presente: "\<And>k. lecture_cnt s q = int k \<Longrightarrow> ecrit_membre m q k f"
  shows "membres_ecrits m K p0 {Nommee q} f"
proof (rule membres.ecrites_place)
  note C = pass_membresD(3) [OF R]
  show "inj_on (place_ligne K) {..<length (liste_lignes K)}"
    by (rule place_ligne_injective [OF C])
  show "returns (f p) (\<lambda>p'. membres_ok m K p0 p' \<and> (\<forall>i < length (liste_lignes K). cellule_membres p' i = cellule_membres p i))"
    if "membres_ok m K p0 p" "\<forall>i < length (liste_lignes K). place_ligne K i \<noteq> Nommee q" for p
    using membres.ecritesD [OF absente that(1)] lecture_sans_ligne [OF C q(1) _ that(2)] q(2) pass_membresD(2) [OF R] by simp
  fix p k assume p: "membres_ok m K p0 p" and k: "k < length (liste_lignes K)" "place_ligne K k = Nommee q"
  have "lecture_cnt s q = int k" using lecture_ligne [OF C k] .
  from presente [OF this] show "returns (f p) (\<lambda>p'. membres_ok m K p0 p' \<and>
      cellule_membres p' k = maj_membres m (Nommee q) (cellule_membres p k) \<and>
      (\<forall>i < length (liste_lignes K). i \<noteq> k \<longrightarrow> cellule_membres p' i = cellule_membres p i))"
    using p k(1) by (auto simp: ecrit_membre_def membres_ok_def sans_membres_def cellule_membres_def maj_membres_def)
qed

text \<open>A step of the construction that recorded the number of a row: the row is there.\<close>

lemma membre_toujours:
  assumes R: "pass_membres m K s" and f: "(Some (Numerote q), ls) \<in> set (fiches_cnt K)" "lue (mh m) q"
    and presente: "\<And>k. lecture_cnt s q = int k \<Longrightarrow> ecrit_membre m q k f"
  shows "membres_ecrits m K p0 {Nommee q} f"
proof (rule membre_ecrit [OF R _ f(2)])
  show "q \<in> set (places_cnt (fiches_cnt K))"
    using f(1) by (force simp: places_cnt_def)
  assume l: "lecture_cnt s q = - 1"
  obtain k where "k < length (liste_lignes K)" "place_ligne K k = Nommee q"
    using ligne_presente [OF pass_membresD(3) [OF R] f(1)] f(2) pass_membresD(2) [OF R] by auto
  then show "membres_ecrits m K p0 {} f"
    using lecture_ligne [OF pass_membresD(3) [OF R]] l by fastforce
qed (rule presente)

subsection \<open>Reading the numbers\<close>

lemma pass_dims:
  assumes "pass_membres m K s"
  shows "dims_cnt (mh m) s" and "donnees_hebdo_ok (mh m) (md m)"
    and "mpremier m + NombreDePasDeTempsPourUneOptimisation (mh m) \<le> NombreDePasDeTemps (mh m)"
  using pass_membresD(1) [OF assms] remplir_ok(4) [of "mh m" s]
  by (simp_all add: remplissage_def alloue_def alloue_matrice_def)

lemma lire_cnt_ok:
  assumes R: "pass_membres m K s" and "c \<noteq> NumeroDeContrainteDesContraintesDeDureeMinDeMarche"
    and "t < NombreDePasDeTempsPourUneOptimisation (mh m)" and "i < taille_cnt (mh m) c"
  shows "lire_cnt s c t i = Inr (lecture_cnt s (Ligne c t i))"
proof -
  have "t < NombreDePasDeTemps (mh m)" using assms(3) pass_membresD(4) [OF R] by simp
  with assms(2,4) pass_dims(1) [OF R] show ?thesis
    by (simp add: lire_cnt_def dims_cnt_def)
qed

lemma lire_cnt_pays_ok:
  assumes R: "pass_membres m K s" and "pays < NombreDePays (mh m)"
  shows "lire_cnt_pays s c pays = Inr (lecture_cnt s (LignePays c pays))"
  using assms(2) pass_dims(1) [OF R] by (simp add: lire_cnt_pays_def dims_cnt_def)

lemma membre_cnt:
  assumes R: "pass_membres m K s" and f: "(Some (Numerote (Ligne c t i)), ls) \<in> set (fiches_cnt K)" "lue (mh m) (Ligne c t i)"
    and "c \<noteq> NumeroDeContrainteDesContraintesDeDureeMinDeMarche"
    and "t < NombreDePasDeTempsPourUneOptimisation (mh m)" and "i < taille_cnt (mh m) c"
    and g: "\<And>k. ecrit_membre m (Ligne c t i) k (g (int k))"
  shows "membres_ecrits m K p0 {Nommee (Ligne c t i)} (\<lambda>p. bindE (lire_cnt s c t i) (\<lambda>cnt. g cnt p))"
  unfolding lire_cnt_ok [OF R assms(4-6)] bindE_simps
proof (rule membre_toujours [OF R f])
  fix k assume "lecture_cnt s (Ligne c t i) = int k"
  then show "ecrit_membre m (Ligne c t i) k (g (lecture_cnt s (Ligne c t i)))"
    using g by (simp only:)
qed

lemma poser_membre_ok:
  assumes "v = Inr (membre_de m q)" and "a = marginal_de m q" and "marginal_ecrit q"
  shows "ecrit_membre m q k (poser_membre (int k) v a)"
  using assms by (simp add: ecrit_membre_def poser_membre_def whenE_def ecrire_membre_def ecrire_marginal_def)

lemma poser_membre_absent: "membres_ecrits m K p0 {} (poser_membre (- 1) v a)"
  using membres.ecrites_Inr by (simp add: poser_membre_def [abs_def] whenE_def)

text \<open>A guarded row of an area: its number may have been erased.\<close>

lemma membre_pays:
  assumes R: "pass_membres m K s" and q: "LignePays c pays \<in> set (places_cnt (fiches_cnt K))"
    and pays: "pays < NombreDePays (mh m)" and v: "v = Inr (membre_de m (LignePays c pays))"
  shows "membres_ecrits m K p0 {Nommee (LignePays c pays)}
    (\<lambda>p. bindE (lire_cnt_pays s c pays) (\<lambda>cnt. poser_membre cnt v None p))"
  unfolding lire_cnt_pays_ok [OF R pays] bindE_simps
proof (rule membre_ecrit [OF R q])
  assume "lecture_cnt s (LignePays c pays) = - 1"
  then show "membres_ecrits m K p0 {} (poser_membre (lecture_cnt s (LignePays c pays)) v None)"
    using poser_membre_absent by (simp only:)
next
  fix k assume "lecture_cnt s (LignePays c pays) = int k"
  then show "ecrit_membre m (LignePays c pays) k (poser_membre (lecture_cnt s (LignePays c pays)) v None)"
    using poser_membre_ok [OF v] by (simp del: lecture_cnt.simps)
qed simp

subsection \<open>The areas\<close>

lemma membre_bilan_ok:
  assumes R: "pass_membres m K s" and t: "t < NombreDePasDeTempsPourUneOptimisation (mh m)" and pays: "pays < NombreDePays (mh m)"
  shows "membres_ecrits m K p0 {Nommee (Ligne NumeroDeContrainteDesBilansPays t pays)}
    (membre_bilan (md m) (mopt m) s (mpremier m + t) t pays)"
  unfolding membre_bilan_def [abs_def]
proof (rule membre_cnt [OF R])
  show "(Some (Numerote (Ligne NumeroDeContrainteDesBilansPays t pays)), ligne_AreaBalance K t pays) \<in> set (fiches_cnt K)"
    by (rule dans_fiches_cnt(1)) (use t pays pass_membresD(2) [OF R] in \<open>auto simp: fiches_cnt_pays_def\<close>)
  note donnees = pass_dims(2) [OF R]
  have lu: "mpremier m + t < NombreDePasDeTemps (mh m)" using pass_dims(3) [OF R] t by linarith
  then have "lire_heure_pays (ConsommationAbattueDuPays (md m)) (mpremier m + t) pays =
      Inr (ConsommationAbattueDuPays (md m) ! (mpremier m + t) ! pays)"
    "lire_heure_pays (ReserveHoraireJMoins1 (md m)) pays (mpremier m + t) =
      Inr (ReserveHoraireJMoins1 (md m) ! pays ! (mpremier m + t))"
    using donnees_tailles [OF donnees] donnees_heure [OF donnees lu] donnees_pays(6) [OF donnees pays] pays
    by (simp_all add: lire_heure_pays_def)
  then show "ecrit_membre m (Ligne NumeroDeContrainteDesBilansPays t pays) k (seqE
     [\<lambda>p. bindE (lire_heure_pays (ConsommationAbattueDuPays (md m)) (mpremier m + t) pays) (\<lambda>c. ecrire_membre (int k) (- c) p),
      whenE (YaDeLaReserveJmoins1 (md m) \<and> mopt m = PREMIERE_OPTIMISATION) (\<lambda>p.
        bindE (lire_heure_pays (ReserveHoraireJMoins1 (md m)) pays (mpremier m + t)) (\<lambda>r. ajouter_membre (int k) (- r) p)),
      ecrire_marginal (int k) (Some (CoutsMarginauxHoraires_de pays (mpremier m + t)))])" for k
    by (auto simp: ecrit_membre_def ecrire_membre_def ajouter_membre_def ecrire_marginal_def whenE_def)
qed (use t pays in simp_all)

lemma forE_somme:
  "(\<And>i. i < n \<Longrightarrow> v i = Inr (x i)) \<Longrightarrow> forE [0..<n] (\<lambda>i somme. bindE (v i) (\<lambda>y. Inr (somme + y))) (a :: real) =
     Inr (a + (\<Sum>i = 0..<n. x i))"
  by (induction n arbitrary: a) (simp_all add: forE_append add.assoc)

lemma OPT_SommeDesPminThermiques_ok:
  assumes R: "remplissage h d s premier" and pays: "pays < NombreDePays h" and t: "t < NombreDePasDeTemps h"
  shows "OPT_SommeDesPminThermiques h d pays t =
    Inr (\<Sum>i = 0..<nb_paliers h pays. PuissanceMinDuPalierThermique (pdisp_de d (pays, i)) ! t)"
proof -
  have "lire (PuissanceMinDuPalierThermique (pdisp_de d (pays, i))) t =
      Inr (PuissanceMinDuPalierThermique (pdisp_de d (pays, i)) ! t)" if "i < nb_paliers h pays" for i
    using remplissage_pays(7) [OF R pays that] t by (simp add: pdisp_ok_def)
  from forE_somme [of "nb_paliers h pays", OF this, of _ 0]
  have "forE [0..<nb_paliers h pays] (\<lambda>i somme. bindE (lire (PuissanceMinDuPalierThermique (pdisp_de d (pays, i))) t)
      (\<lambda>v. Inr (somme + v))) 0 = Inr (\<Sum>i = 0..<nb_paliers h pays. PuissanceMinDuPalierThermique (pdisp_de d (pays, i)) ! t)"
    by simp
  moreover have "forE [0..<nb_paliers h pays] (\<lambda>index somme. bindE (palier_donnees d pays index) (\<lambda>pdisp.
       bindE (lire (PuissanceMinDuPalierThermique pdisp) t) (\<lambda>v. Inr (somme + v)))) (0 :: real) =
    forE [0..<nb_paliers h pays] (\<lambda>i somme. bindE (lire (PuissanceMinDuPalierThermique (pdisp_de d (pays, i))) t)
      (\<lambda>v. Inr (somme + v))) 0"
    by (rule forE_cong) (use remplissage_simps(3) [OF R pays] in simp)
  ultimately show ?thesis
    using remplissage_simps(1) [OF R] pays by (simp add: OPT_SommeDesPminThermiques_def)
qed

lemma membre_charges_fictives_ok:
  assumes R: "pass_membres m K s" and t: "t < NombreDePasDeTempsPourUneOptimisation (mh m)" and pays: "pays < NombreDePays (mh m)"
  shows "membres_ecrits m K p0 {Nommee (Ligne NumeroDeContraintePourEviterLesChargesFictives t pays)}
    (membre_charges_fictives (mh m) (md m) s (mpremier m + t) t pays)"
  unfolding membre_charges_fictives_def [abs_def]
proof (rule membre_cnt [OF R])
  show "(Some (Numerote (Ligne NumeroDeContraintePourEviterLesChargesFictives t pays)), ligne_FictitiousLoad K t pays) \<in> set (fiches_cnt K)"
    by (rule dans_fiches_cnt(1)) (use t pays pass_membresD(2) [OF R] in \<open>auto simp: fiches_cnt_pays_def\<close>)
  note donnees = pass_dims(2) [OF R]
  have lu: "mpremier m + t < NombreDePasDeTemps (mh m)" using pass_dims(3) [OF R] t by linarith
  then have [simp]: "lire_heure_pays (ConsommationAbattueDuPays (md m)) (mpremier m + t) pays =
      Inr (ConsommationAbattueDuPays (md m) ! (mpremier m + t) ! pays)"
    "lire_heure_pays (AllMustRunGenerationOfArea (md m)) (mpremier m + t) pays =
      Inr (AllMustRunGenerationOfArea (md m) ! (mpremier m + t) ! pays)"
    "pays < length (DefaillanceNegativeUtiliserConsoAbattue (md m))" "pays < length (DefaillanceNegativeUtiliserPMinThermique (md m))"
    using donnees_tailles [OF donnees] donnees_heure [OF donnees lu] pays
    by (simp_all add: lire_heure_pays_def)
  have e: "charges_fictives (mh m) (md m) (mpremier m + t) pays =
      of_bool (DefaillanceNegativeUtiliserConsoAbattue (md m) ! pays) *
        ((if AllMustRunGenerationOfArea (md m) ! (mpremier m + t) ! pays > 0
          then AllMustRunGenerationOfArea (md m) ! (mpremier m + t) ! pays else 0) +
         (if - (ConsommationAbattueDuPays (md m) ! (mpremier m + t) ! pays + AllMustRunGenerationOfArea (md m) ! (mpremier m + t) ! pays) > 0
          then - (ConsommationAbattueDuPays (md m) ! (mpremier m + t) ! pays + AllMustRunGenerationOfArea (md m) ! (mpremier m + t) ! pays)
          else 0)) -
      (if DefaillanceNegativeUtiliserPMinThermique (md m) ! pays then 0
       else (\<Sum>i = 0..<nb_paliers (mh m) pays. PuissanceMinDuPalierThermique (pdisp_de (md m) (pays, i)) ! (mpremier m + t)))"
    by (auto simp: charges_fictives_def Let_def max_def)
  show "ecrit_membre m (Ligne NumeroDeContraintePourEviterLesChargesFictives t pays) k (seqE
       [ecrire_membre (int k) 0,
        \<lambda>p. bindE (lire_heure_pays (AllMustRunGenerationOfArea (md m)) (mpremier m + t) pays) (\<lambda>g.
          bindE (lire_heure_pays (ConsommationAbattueDuPays (md m)) (mpremier m + t) pays) (\<lambda>c.
          bindE (lire (DefaillanceNegativeUtiliserConsoAbattue (md m)) pays) (\<lambda>utiliser.
          let maxAllMustRun = (if g > 0 then g else 0);
              maxMoinsConso = (if - (c + g) > 0 then - (c + g) else 0) in
          ecrire_membre (int k) (of_bool utiliser * (maxAllMustRun + maxMoinsConso)) p))),
        \<lambda>p. bindE (lire (DefaillanceNegativeUtiliserPMinThermique (md m)) pays) (\<lambda>utiliser.
          whenE (\<not> utiliser) (\<lambda>p.
            bindE (OPT_SommeDesPminThermiques (mh m) (md m) pays (mpremier m + t)) (\<lambda>pmin. ajouter_membre (int k) (- pmin) p)) p),
        ecrire_marginal (int k) None])" for k
    unfolding ecrit_membre_def membre_de.simps e OPT_SommeDesPminThermiques_ok [OF pass_membresD(1) [OF R] pays lu]
    by (simp add: ecrire_membre_def ajouter_membre_def ecrire_marginal_def whenE_def Let_def)
qed (use t pays in simp_all)

lemma shortTermStorageLevelsRHS_ok:
  assumes R: "pass_membres m K s" and t: "t < NombreDePasDeTempsPourUneOptimisation (mh m)"
  shows "membres_ecrits m K p0 (\<Union>pays \<in> set [0..<NombreDePays (mh m)]. \<Union>k \<in> set [0..<length (ShortTermStorage (mh m) ! pays)].
      {Nommee (Ligne ShortTermStorageLevelConstraint t (clusterGlobalIndex (ShortTermStorage (mh m) ! pays ! k)))})
    (shortTermStorageLevelsRHS (mh m) (md m) s t (weekInTheYear (mh m) * 168 + (mpremier m + t)))"
  unfolding shortTermStorageLevelsRHS_def
proof (rule membres.ecrites_forE)
  let ?h = "mh m"
  note H = pass_membresD(4) [OF R]
  note donnees = pass_dims(2) [OF R]
  have num: "numeros_distincts ?h"
    using remplir_ok(2) [OF remplissage_pret [OF pass_membresD(1) [OF R]]] .
  fix pays assume p: "pays \<in> set [0..<NombreDePays ?h]"
  then have lu: "lire (ShortTermStorage ?h) pays = Inr (ShortTermStorage ?h ! pays)" using H by simp
  have une: "membres_ecrits m K p0 {Nommee (Ligne ShortTermStorageLevelConstraint t (clusterGlobalIndex (ShortTermStorage ?h ! pays ! k)))}
      (\<lambda>p. bindE (lire (ShortTermStorage ?h ! pays) k) (\<lambda>storage.
         bindE (lire_heure_pays (StockageDonnees (md m)) pays k) (\<lambda>sd.
         bindE (lire_cnt s ShortTermStorageLevelConstraint t (clusterGlobalIndex storage)) (\<lambda>cnt.
         bindE (lire (series_inflows sd) (weekInTheYear ?h * 168 + (mpremier m + t))) (\<lambda>v. ecrire_membre cnt v p)))))"
    if k: "k \<in> set [0..<length (ShortTermStorage ?h ! pays)]" for k
  proof -
    let ?st = "ShortTermStorage ?h ! pays ! k" and ?hr = "weekInTheYear ?h * 168 + (mpremier m + t)"
    have sd: "sts_donnees_ok (weekInTheYear ?h * 168 + NombreDePasDeTemps ?h) (StockageDonnees (md m) ! pays ! k)"
      using donnees_pays(3,4) [OF donnees, of pays] p k by (simp add: list_all_length)
    have "?hr < length (series_inflows (StockageDonnees (md m) ! pays ! k))"
      using sd t pass_dims(3) [OF R] by (simp add: sts_donnees_ok_def)
    then have hr: "lire (series_inflows (StockageDonnees (md m) ! pays ! k)) ?hr =
        Inr (series_inflows (StockageDonnees (md m) ! pays ! k) ! ?hr)" by simp
    have l1: "lire (ShortTermStorage ?h ! pays) k = Inr ?st"
      "lire_heure_pays (StockageDonnees (md m)) pays k = Inr (StockageDonnees (md m) ! pays ! k)"
      using k p donnees_tailles(10) [OF donnees] donnees_pays(3) [OF donnees, of pays] by (simp_all add: lire_heure_pays_def)
    show ?thesis
      unfolding l1 bindE_simps
    proof (rule membre_cnt [OF R])
      show "(Some (Numerote (Ligne ShortTermStorageLevelConstraint t (clusterGlobalIndex ?st))), ligne_stockage K t ?st) \<in> set (fiches_cnt K)"
        by (rule dans_fiches_cnt(1) [of _ _ pays]) (use t p k pass_membresD(2) [OF R] in \<open>auto simp: fiches_cnt_pays_def\<close>)
      show "clusterGlobalIndex ?st < taille_cnt ?h ShortTermStorageLevelConstraint"
        using hebdo_ok_stockage [OF H] p k by simp
      show "ecrit_membre m (Ligne ShortTermStorageLevelConstraint t (clusterGlobalIndex ?st)) n
          (\<lambda>p. bindE (lire (series_inflows (StockageDonnees (md m) ! pays ! k)) ?hr) (\<lambda>v. ecrire_membre (int n) v p))" for n
        unfolding hr using stockage_de_numero [OF num, of pays k] p k by (simp add: ecrit_membre_def ecrire_membre_def)
    qed (use t in simp_all)
  qed
  show "membres_ecrits m K p0 (\<Union>k \<in> set [0..<length (ShortTermStorage ?h ! pays)].
      {Nommee (Ligne ShortTermStorageLevelConstraint t (clusterGlobalIndex (ShortTermStorage ?h ! pays ! k)))})
    (\<lambda>p. bindE (lire (ShortTermStorage ?h) pays) (\<lambda>storages.
       forE [0..<length storages] (\<lambda>k p.
         bindE (lire storages k) (\<lambda>storage.
         bindE (lire_heure_pays (StockageDonnees (md m)) pays k) (\<lambda>sd.
         bindE (lire_cnt s ShortTermStorageLevelConstraint t (clusterGlobalIndex storage)) (\<lambda>cnt.
         bindE (lire (series_inflows sd) (weekInTheYear ?h * 168 + (mpremier m + t))) (\<lambda>v. ecrire_membre cnt v p))))) p))"
    by (intro membres.ecrites_lire [OF lu] membres.ecrites_forE une)
qed

subsection \<open>The links and the binding constraints\<close>

lemma membre_flux_ok:
  assumes R: "pass_membres m K s" and t: "t < NombreDePasDeTempsPourUneOptimisation (mh m)" and l: "l < NombreDInterconnexions (mh m)"
  shows "membres_ecrits m K p0 (if IntercoGereeAvecDesCouts (CoutDeTransport (mh m) ! l)
      then {Nommee (Ligne NumeroDeContrainteDeDissociationDeFlux t l)} else {})
    (membre_flux (mh m) (md m) s (mpremier m + t) t l)"
proof -
  note donnees = pass_dims(2) [OF R]
  have lu: "mpremier m + t < NombreDePasDeTemps (mh m)" using pass_dims(3) [OF R] t by linarith
  have ntc: "lire (ValeursDeNTC (md m)) (mpremier m + t) = Inr (ValeursDeNTC (md m) ! (mpremier m + t))"
    "lire (ValeurDeLoopFlowOrigineVersExtremite (ValeursDeNTC (md m) ! (mpremier m + t))) l =
      Inr (ValeurDeLoopFlowOrigineVersExtremite (ValeursDeNTC (md m) ! (mpremier m + t)) ! l)"
    using donnees_tailles(2) [OF donnees] donnees_heure(1) [OF donnees lu] l lu by (simp_all add: ntc_ok_def)
  have l1: "lire (CoutDeTransport (mh m)) l = Inr (CoutDeTransport (mh m) ! l)"
    "lire (TransportDonnees (md m)) l = Inr (TransportDonnees (md m) ! l)"
    using l pass_membresD(4) [OF R] donnees_tailles(1) [OF donnees] by simp_all
  show ?thesis
    unfolding membre_flux_def [abs_def] l1 bindE_simps
  proof (rule membres.ecrites_whenE, rule membre_cnt [OF R])
    assume c: "IntercoGereeAvecDesCouts (CoutDeTransport (mh m) ! l)"
    show "(Some (Numerote (Ligne NumeroDeContrainteDeDissociationDeFlux t l)), ligne_FlowDissociation K t l) \<in> set (fiches_cnt K)"
      using dans_fiches_cnt(2) [of t K l] c t l pass_membresD(2) [OF R] by (simp add: fiche_cnt_couts_def)
    show "ecrit_membre m (Ligne NumeroDeContrainteDeDissociationDeFlux t l) k (seqE
       [if IntercoGereeAvecLoopFlow (TransportDonnees (md m) ! l)
        then (\<lambda>p. bindE (lire (ValeursDeNTC (md m)) (mpremier m + t)) (\<lambda>ntc.
          bindE (lire (ValeurDeLoopFlowOrigineVersExtremite ntc) l) (\<lambda>v. ecrire_membre (int k) v p)))
        else ecrire_membre (int k) 0,
        ecrire_marginal (int k) None])" for k
      using ntc by (simp add: ecrit_membre_def ecrire_membre_def ecrire_marginal_def)
  qed (use t l in simp_all)
qed

lemma membre_couplante_ok:
  assumes R: "pass_membres m K s" and t: "t < NombreDePasDeTempsPourUneOptimisation (mh m)" and c: "c < NombreDeContraintesCouplantes (mh m)"
  shows "membres_ecrits m K p0 (if TypeDeContrainteCouplante (MatriceDesContraintesCouplantes (mh m) ! c) = CONTRAINTE_HORAIRE
      then {Nommee (Ligne NumeroDeContrainteDesContraintesCouplantes t c)} else {})
    (membre_couplante (mh m) (md m) s (mpremier m + t) t c)"
proof (cases "TypeDeContrainteCouplante (MatriceDesContraintesCouplantes (mh m) ! c) = CONTRAINTE_HORAIRE")
  case True
  note donnees = pass_dims(2) [OF R]
  have lu: "mpremier m + t < NombreDePasDeTemps (mh m)" using pass_dims(3) [OF R] t by linarith
  then have v: "lire_heure_pays (SecondMembreDeLaContrainteCouplante (md m)) c (mpremier m + t) =
      Inr (membre_de m (Ligne NumeroDeContrainteDesContraintesCouplantes t c))"
    using donnees_tailles(14) [OF donnees] donnees_couplante [OF donnees c] c True by (simp add: lire_heure_pays_def)
  have l1: "lire (MatriceDesContraintesCouplantes (mh m)) c = Inr (MatriceDesContraintesCouplantes (mh m) ! c)"
    using c pass_membresD(4) [OF R] by simp
  have "membres_ecrits m K p0 {Nommee (Ligne NumeroDeContrainteDesContraintesCouplantes t c)}
      (\<lambda>p. bindE (lire_cnt s NumeroDeContrainteDesContraintesCouplantes t c) (\<lambda>cnt.
       poser_membre cnt (lire_heure_pays (SecondMembreDeLaContrainteCouplante (md m)) c (mpremier m + t))
         (Some (VariablesDuales_de c (mpremier m + t))) p))"
  proof (rule membre_cnt [OF R])
    show "(Some (Numerote (Ligne NumeroDeContrainteDesContraintesCouplantes t c)), ligne_BindingConstraintHour K t c) \<in> set (fiches_cnt K)"
      using dans_fiches_cnt(3) [of t K c] t c pass_membresD(2) [OF R] by (simp add: fiche_cnt_couplante_def)
  qed (use t c True in \<open>simp_all add: poser_membre_ok [OF v]\<close>)
  then show ?thesis using True by (simp add: membre_couplante_def [abs_def] l1)
next
  case False
  then show ?thesis
    using c pass_membresD(4) [OF R] membres.ecrites_Inr by (simp add: membre_couplante_def [abs_def])
qed

text \<open>The loop over the days.\<close>

lemma boucle_pas_forE:
  assumes D: "0 < pas" and dernier: "dernier = a + n * pas"
  shows "j \<le> n \<Longrightarrow> n - j \<le> c \<Longrightarrow> boucle_pas pas dernier f c (a + j * pas) z = forE (map (\<lambda>j. a + j * pas) [j..<n]) f z"
proof (induction c arbitrary: j z)
  case 0
  then show ?case by (simp add: dernier)
next
  case (Suc c)
  show ?case
  proof (cases "j < n")
    case True
    have "boucle_pas pas dernier f c (a + j * pas + pas) z' = forE (map (\<lambda>j. a + j * pas) [Suc j..<n]) f z'" for z'
      using Suc.IH [of "Suc j" z'] Suc.prems True by (simp add: add.commute add.left_commute)
    then have "boucle_pas pas dernier f c (a + j * pas + pas) = forE (map (\<lambda>j. a + j * pas) [Suc j..<n]) f"
      by (rule ext)
    moreover have "a + j * pas < dernier" using True D by (simp add: dernier)
    ultimately show ?thesis using True by (simp add: upt_conv_Cons)
  next
    case False
    then show ?thesis using Suc.prems by (simp add: dernier)
  qed
qed

lemma boucle_jours_range:
  assumes h: "hebdo_ok h"
  shows "boucle_pas (NombreDePasDeTempsDUneJournee h) (premier + NombreDePasDeTempsPourUneOptimisation h) f
      (premier + NombreDePasDeTempsPourUneOptimisation h - premier) premier =
    forE (debuts_de_jour h) (\<lambda>d. f (premier + d))"
proof
  fix z
  let ?D = "NombreDePasDeTempsDUneJournee h" and ?T = "NombreDePasDeTempsPourUneOptimisation h"
  have D: "0 < ?D" "?T = ?T div ?D * ?D"
    using hebdo_ok_horizon(5,6) [OF h] by simp_all
  then have "?T div ?D \<le> ?T" by (simp add: div_le_dividend)
  from boucle_pas_forE [OF D(1), of "premier + ?T" premier "?T div ?D" 0 ?T f z] D this
  show "boucle_pas ?D (premier + ?T) f (premier + ?T - premier) premier z = forE (debuts_de_jour h) (\<lambda>d. f (premier + d)) z"
    by (simp add: debuts_de_jour_def forE_map)
qed

lemma jour_de_range:
  assumes R: "pass_membres m K s" and d: "d \<in> set (debuts_de_jour (mh m))"
  shows "mpremier m + d < NombreDePasDeTemps (mh m)"
    and "(if \<not> OptimisationAuPasHebdomadaire (mh m) then 0 else NumeroDeJourDuPasDeTemps (mh m) ! (mpremier m + d)) =
      NumeroDeJourDuPasDeTemps (mh m) ! d"
    and "NumeroDeJourDuPasDeTemps (mh m) ! (mpremier m + d) = jour_lu m (NumeroDeJourDuPasDeTemps (mh m) ! d)"
    and "NumeroDeJourDuPasDeTemps (mh m) ! (mpremier m + d) < NombreDeJours (mh m)"
    and "NumeroDeJourDuPasDeTemps (mh m) ! d < 7"
proof -
  let ?h = "mh m"
  note h = pass_membresD(4) [OF R] and J = pass_membresD(5) [OF R]
  have dT: "d < NombreDePasDeTempsPourUneOptimisation ?h" using jour_de_debut(1) [OF h J d] .
  then show lu: "mpremier m + d < NombreDePasDeTemps ?h" using pass_dims(3) [OF R] by linarith
  have D: "0 < NombreDePasDeTempsDUneJournee ?h" "NombreDePasDeTempsDUneJournee ?h dvd NombreDePasDeTemps ?h"
    using hebdo_ok_horizon(2,5,6) [OF h] dvd_trans by blast+
  have "NumeroDeJourDuPasDeTemps ?h ! (mpremier m + d) = (mpremier m + d) div NombreDePasDeTempsDUneJournee ?h"
    using J lu by (simp add: jours_numerotes_def)
  then show "NumeroDeJourDuPasDeTemps ?h ! (mpremier m + d) < NombreDeJours ?h"
    using J lu D by (simp add: jours_numerotes_def less_mult_imp_div_less)
  have j: "jours_ok ?h" using h unfolding hebdo_ok_def by blast
  have "d < NombreDePasDeTemps ?h" using dT h by simp
  with j show "NumeroDeJourDuPasDeTemps ?h ! d < 7"
    by (simp add: jours_ok_def list_all_length)
  have d0: "d = 0" if "\<not> OptimisationAuPasHebdomadaire ?h"
    using d pass_membresD(6) [OF R] that D(1) by (simp add: horizon_choisi_def debuts_de_jour_def)
  have p0: "mpremier m = 0" if "OptimisationAuPasHebdomadaire ?h"
    using pass_membresD(6) [OF R] pass_dims(3) [OF R] that by (simp add: horizon_choisi_def)
  have z: "NumeroDeJourDuPasDeTemps ?h ! 0 = 0"
    using J lu by (simp add: jours_numerotes_def)
  show "(if \<not> OptimisationAuPasHebdomadaire ?h then 0 else NumeroDeJourDuPasDeTemps ?h ! (mpremier m + d)) =
      NumeroDeJourDuPasDeTemps ?h ! d"
    "NumeroDeJourDuPasDeTemps ?h ! (mpremier m + d) = jour_lu m (NumeroDeJourDuPasDeTemps ?h ! d)"
    using d0 p0 z by (cases "OptimisationAuPasHebdomadaire ?h"; simp add: jour_lu_def)+
qed

lemma membre_couplante_jour_ok:
  assumes R: "pass_membres m K s" and d: "d \<in> set (debuts_de_jour (mh m))" and c: "c < NombreDeContraintesCouplantes (mh m)"
  shows "membres_ecrits m K p0 (if TypeDeContrainteCouplante (MatriceDesContraintesCouplantes (mh m) ! c) = CONTRAINTE_JOURNALIERE
      then {Nommee (LigneJour (NumeroDeJourDuPasDeTemps (mh m) ! d) c)} else {})
    (membre_couplante_jour (mh m) (md m) (CorrespondanceCntNativesCntOptimJournalieres s ! (NumeroDeJourDuPasDeTemps (mh m) ! d))
      (NumeroDeJourDuPasDeTemps (mh m) ! (mpremier m + d)) c)"
proof -
  let ?h = "mh m" and ?j = "NumeroDeJourDuPasDeTemps (mh m) ! d"
  note donnees = pass_dims(2) [OF R] and jour = jour_de_range [OF R d]
  have l1: "lire (MatriceDesContraintesCouplantes ?h) c = Inr (MatriceDesContraintesCouplantes ?h ! c)"
    "lire (CorrespondanceCntNativesCntOptimJournalieres s ! ?j) c = Inr (lecture_cnt s (LigneJour ?j c))"
    using c pass_membresD(4) [OF R] pass_dims(1) [OF R] jour(5) by (simp_all add: dims_cnt_def)
  show ?thesis
    unfolding membre_couplante_jour_def [abs_def] l1 bindE_simps
  proof (rule membres.ecrites_whenE)
    assume t: "TypeDeContrainteCouplante (MatriceDesContraintesCouplantes ?h ! c) = CONTRAINTE_JOURNALIERE"
    have v: "lire_heure_pays (SecondMembreDeLaContrainteCouplante (md m)) c (NumeroDeJourDuPasDeTemps ?h ! (mpremier m + d)) =
        Inr (membre_de m (LigneJour ?j c))"
      using donnees_tailles(14) [OF donnees] donnees_couplante [OF donnees c] c t jour(3,4) by (simp add: lire_heure_pays_def)
    show "membres_ecrits m K p0 {Nommee (LigneJour ?j c)} (poser_membre (lecture_cnt s (LigneJour ?j c))
        (lire_heure_pays (SecondMembreDeLaContrainteCouplante (md m)) c (NumeroDeJourDuPasDeTemps ?h ! (mpremier m + d)))
        (Some (VariablesDuales_de c (NumeroDeJourDuPasDeTemps ?h ! (mpremier m + d)))))"
    proof (rule membre_toujours [OF R])
      show "(Some (Numerote (LigneJour ?j c)), ligne_couplante K (couplante K c) (jour_depuis ?h d)) \<in> set (fiches_cnt K)"
        by (rule dans_fiches_cnt(4) [of c]) (use c d t pass_membresD(2) [OF R] in \<open>auto simp: fiches_cnt_jour_def\<close>)
      fix k assume "lecture_cnt s (LigneJour ?j c) = int k"
      then show "ecrit_membre m (LigneJour ?j c) k (poser_membre (lecture_cnt s (LigneJour ?j c))
          (lire_heure_pays (SecondMembreDeLaContrainteCouplante (md m)) c (NumeroDeJourDuPasDeTemps ?h ! (mpremier m + d)))
          (Some (VariablesDuales_de c (NumeroDeJourDuPasDeTemps ?h ! (mpremier m + d)))))"
        using poser_membre_ok [OF v] jour(3) by (simp del: lecture_cnt.simps)
    qed simp
  qed
qed

lemma membres_couplantes_jours_ok:
  assumes R: "pass_membres m K s"
  shows "membres_ecrits m K p0 (\<Union>d \<in> set (debuts_de_jour (mh m)). \<Union>c \<in> set [0..<NombreDeContraintesCouplantes (mh m)].
      if TypeDeContrainteCouplante (MatriceDesContraintesCouplantes (mh m) ! c) = CONTRAINTE_JOURNALIERE
      then {Nommee (LigneJour (NumeroDeJourDuPasDeTemps (mh m) ! d) c)} else {})
    (membres_couplantes_jours (mh m) (md m) s (mpremier m) (mpremier m + NombreDePasDeTempsPourUneOptimisation (mh m)))"
  unfolding membres_couplantes_jours_def boucle_jours_range [OF pass_membresD(4) [OF R]]
proof (rule membres.ecrites_forE)
  let ?h = "mh m"
  fix d assume d: "d \<in> set (debuts_de_jour ?h)"
  note jour = jour_de_range [OF R d]
  have l1: "lire (NumeroDeJourDuPasDeTemps ?h) (mpremier m + d) = Inr (NumeroDeJourDuPasDeTemps ?h ! (mpremier m + d))"
    using pass_membresD(4) [OF R] jour(1) by simp
  have l2: "lire (CorrespondanceCntNativesCntOptimJournalieres s) (NumeroDeJourDuPasDeTemps ?h ! d) =
      Inr (CorrespondanceCntNativesCntOptimJournalieres s ! (NumeroDeJourDuPasDeTemps ?h ! d))"
    using pass_dims(1) [OF R] jour(5) by (simp add: dims_cnt_def)
  show "membres_ecrits m K p0 (\<Union>c \<in> set [0..<NombreDeContraintesCouplantes ?h].
      if TypeDeContrainteCouplante (MatriceDesContraintesCouplantes ?h ! c) = CONTRAINTE_JOURNALIERE
      then {Nommee (LigneJour (NumeroDeJourDuPasDeTemps ?h ! d) c)} else {})
    (\<lambda>p. bindE (lire (NumeroDeJourDuPasDeTemps ?h) (mpremier m + d)) (\<lambda>jour.
       let indexCorrespondanceCnt = (if \<not> OptimisationAuPasHebdomadaire ?h then 0 else jour) in
       bindE (lire (CorrespondanceCntNativesCntOptimJournalieres s) indexCorrespondanceCnt) (\<lambda>corr.
       forE [0..<NombreDeContraintesCouplantes ?h] (membre_couplante_jour ?h (md m) corr jour) p)))"
    unfolding l1 bindE_simps Let_def jour(2) l2
    by (rule membres.ecrites_forE) (use membre_couplante_jour_ok [OF R d] in simp)
qed

lemma membre_couplante_semaine_ok:
  assumes R: "pass_membres m K s" and c: "c < NombreDeContraintesCouplantes (mh m)"
    and D: "NombreDePasDeTempsDUneJournee (mh m) < NombreDePasDeTempsPourUneOptimisation (mh m)"
  shows "membres_ecrits m K p0 (if TypeDeContrainteCouplante (MatriceDesContraintesCouplantes (mh m) ! c) = CONTRAINTE_HEBDOMADAIRE
      then {Nommee (LigneHebdo c)} else {}) (membre_couplante_semaine (mh m) (md m) s c)"
proof (cases "TypeDeContrainteCouplante (MatriceDesContraintesCouplantes (mh m) ! c) = CONTRAINTE_HEBDOMADAIRE")
  case True
  note donnees = pass_dims(2) [OF R]
  have v: "lire_heure_pays (SecondMembreDeLaContrainteCouplante (md m)) c 0 = Inr (membre_de m (LigneHebdo c))"
    using donnees_tailles(14) [OF donnees] donnees_couplante [OF donnees c] c True
    by (auto simp: lire_heure_pays_def lire_def)
  have l1: "lire (MatriceDesContraintesCouplantes (mh m)) c = Inr (MatriceDesContraintesCouplantes (mh m) ! c)"
    "lire (CorrespondanceCntNativesCntOptimHebdomadaires s) c = Inr (lecture_cnt s (LigneHebdo c))"
    using c pass_membresD(4) [OF R] pass_dims(1) [OF R] by (simp_all add: dims_cnt_def)
  have "membres_ecrits m K p0 {Nommee (LigneHebdo c)} (poser_membre (lecture_cnt s (LigneHebdo c))
      (lire_heure_pays (SecondMembreDeLaContrainteCouplante (md m)) c 0) (Some (VariablesDuales_de c 0)))"
  proof (rule membre_toujours [OF R])
    show "(Some (Numerote (LigneHebdo c)), ligne_BindingConstraintWeek K c) \<in> set (fiches_cnt K)"
      using dans_fiches_cnt(5) [of K c] c D True pass_membresD(2) [OF R] by (simp add: fiche_cnt_semaine_def)
    fix k assume "lecture_cnt s (LigneHebdo c) = int k"
    then show "ecrit_membre m (LigneHebdo c) k (poser_membre (lecture_cnt s (LigneHebdo c))
        (lire_heure_pays (SecondMembreDeLaContrainteCouplante (md m)) c 0) (Some (VariablesDuales_de c 0)))"
      using poser_membre_ok [OF v] by (simp del: lecture_cnt.simps)
  qed simp
  then show ?thesis
    unfolding membre_couplante_semaine_def [abs_def] l1 bindE_simps using True by simp
next
  case False
  then show ?thesis
    using c pass_membresD(4) [OF R] membres.ecrites_Inr by (simp add: membre_couplante_semaine_def [abs_def])
qed

subsection \<open>Hydro\<close>

lemma places_pays_cnt:
  assumes "pays < NombreDePays (kh K)"
  shows "LignePays NumeroDeContrainteEnergieHydraulique pays \<in> set (places_cnt (fiches_cnt K))"
    and "LignePays NumeroDeContrainteMinEnergieHydraulique pays \<in> set (places_cnt (fiches_cnt K))"
    and "LignePays NumeroDeContrainteMaxEnergieHydraulique pays \<in> set (places_cnt (fiches_cnt K))"
    and "LignePays NumeroDeContrainteMaxPompage pays \<in> set (places_cnt (fiches_cnt K))"
    and "pdt < NombreDePasDeTempsPourUneOptimisation (kh K) \<Longrightarrow>
      Ligne NumeroDeContrainteDesNiveauxPays pdt pays \<in> set (places_cnt (fiches_cnt K))"
    and "AccurateWaterValue (hydro K pays) \<Longrightarrow> DirectLevelAccess (hydro K pays) \<Longrightarrow>
      LignePays NumeroDeContrainteEquivalenceStockFinal pays \<in> set (places_cnt (fiches_cnt K))"
    and "AccurateWaterValue (hydro K pays) \<Longrightarrow>
      LignePays NumeroDeContrainteExpressionStockFinal pays \<in> set (places_cnt (fiches_cnt K))"
proof -
  have dans: "f \<in> set (fiches_cnt K) \<Longrightarrow> q \<in> set (places_marque (fst f)) \<Longrightarrow> q \<in> set (places_cnt (fiches_cnt K))" for f q
    by (auto simp: places_cnt_def)
  note b = dans [OF dans_fiches_cnt(7) [OF assms]] and st = dans [OF dans_fiches_cnt(10) [OF assms]]
  show "LignePays NumeroDeContrainteEnergieHydraulique pays \<in> set (places_cnt (fiches_cnt K))"
    by (rule dans [OF dans_fiches_cnt(6) [OF assms]]) (simp add: fiche_cnt_energie_def)
  show "LignePays NumeroDeContrainteMinEnergieHydraulique pays \<in> set (places_cnt (fiches_cnt K))"
    by (rule b [of "(Some (marque_si (energie_bornee (hydro K pays))
        (LignePays NumeroDeContrainteMinEnergieHydraulique pays)), ligne_MinHydroPower K pays)"]) (simp_all add: fiches_cnt_bornes_def)
  show "LignePays NumeroDeContrainteMaxEnergieHydraulique pays \<in> set (places_cnt (fiches_cnt K))"
    by (rule b [of "(Some (marque_si (energie_bornee (hydro K pays))
        (LignePays NumeroDeContrainteMaxEnergieHydraulique pays)), ligne_MaxHydroPower K pays)"]) (simp_all add: fiches_cnt_bornes_def)
  show "LignePays NumeroDeContrainteMaxPompage pays \<in> set (places_cnt (fiches_cnt K))"
    by (rule dans [OF dans_fiches_cnt(8) [OF assms]]) (simp add: fiche_cnt_pompage_def)
  show "pdt < NombreDePasDeTempsPourUneOptimisation (kh K) \<Longrightarrow>
      Ligne NumeroDeContrainteDesNiveauxPays pdt pays \<in> set (places_cnt (fiches_cnt K))"
    by (rule dans [OF dans_fiches_cnt(9) [OF _ assms]]) (simp_all add: fiche_cnt_niveau_def)
  show "AccurateWaterValue (hydro K pays) \<Longrightarrow> DirectLevelAccess (hydro K pays) \<Longrightarrow>
      LignePays NumeroDeContrainteEquivalenceStockFinal pays \<in> set (places_cnt (fiches_cnt K))"
    by (rule st [of "(Some (Numerote (LignePays NumeroDeContrainteEquivalenceStockFinal pays)), ligne_FinalStockEquivalent K pays)"])
      (simp_all add: fiches_cnt_stock_def)
  show "AccurateWaterValue (hydro K pays) \<Longrightarrow>
      LignePays NumeroDeContrainteExpressionStockFinal pays \<in> set (places_cnt (fiches_cnt K))"
    by (rule st [of "(Some (Numerote (LignePays NumeroDeContrainteExpressionStockFinal pays)), ligne_FinalStockExpression K pays)"])
      (simp_all add: fiches_cnt_stock_def)
qed

lemma membres_hydro_ok:
  assumes R: "pass_membres m K s" and pays: "pays < NombreDePays (mh m)"
  shows "membres_ecrits m K p0 {Nommee (LignePays NumeroDeContrainteEnergieHydraulique pays)}
      (membre_energie (md m) s (mintervalle m) pays)"
    and "membres_ecrits m K p0 (if energie_bornee (hydro_de (mh m) pays)
        then {Nommee (LignePays NumeroDeContrainteMinEnergieHydraulique pays)} else {})
      (membre_min_energie (mh m) (md m) s (mintervalle m) pays)"
    and "membres_ecrits m K p0 (if energie_bornee (hydro_de (mh m) pays)
        then {Nommee (LignePays NumeroDeContrainteMaxEnergieHydraulique pays)} else {})
      (membre_max_energie (mh m) (md m) s (mintervalle m) pays)"
    and "membres_ecrits m K p0 (if PresenceDePompageModulable (hydro_de (mh m) pays)
        then {Nommee (LignePays NumeroDeContrainteMaxPompage pays)} else {})
      (membre_pompage (mh m) (md m) s (mintervalle m) pays)"
    and "membres_ecrits m K p0
      ((if AccurateWaterValue (hydro_de (mh m) pays) \<and> DirectLevelAccess (hydro_de (mh m) pays)
        then {Nommee (LignePays NumeroDeContrainteEquivalenceStockFinal pays)} else {}) \<union>
       ((if AccurateWaterValue (hydro_de (mh m) pays) then {Nommee (LignePays NumeroDeContrainteExpressionStockFinal pays)} else {}) \<union> {}))
      (membre_stock (mh m) s pays)"
proof -
  note K = pass_membresD(2) [OF R]
  note donnees = pass_dims(2) [OF R]
  have l1: "lire (CaracteristiquesHydrauliques (mh m)) pays = Inr (hydro_de (mh m) pays)"
    "lire (HydroDonnees (md m)) pays = Inr (HydroDonnees (md m) ! pays)"
    using pays pass_membresD(4) [OF R] donnees_tailles(9) [OF donnees] by simp_all
  note e = donnees_pays(2) [OF donnees pays, unfolded hydro_donnees_ok_def] pass_membresD(7) [OF R]
  note q = places_pays_cnt [of pays K, unfolded K, OF pays]
  show "membres_ecrits m K p0 {Nommee (LignePays NumeroDeContrainteEnergieHydraulique pays)}
      (membre_energie (md m) s (mintervalle m) pays)"
    unfolding membre_energie_def [abs_def] l1 bindE_simps by (rule membre_pays [OF R q(1) pays]) (use e in simp)
  show "membres_ecrits m K p0 (if energie_bornee (hydro_de (mh m) pays)
        then {Nommee (LignePays NumeroDeContrainteMinEnergieHydraulique pays)} else {})
      (membre_min_energie (mh m) (md m) s (mintervalle m) pays)"
    unfolding membre_min_energie_def [abs_def] l1 bindE_simps
    by (rule membres.ecrites_whenE, rule membre_pays [OF R q(2) pays]) (use e in simp)
  show "membres_ecrits m K p0 (if energie_bornee (hydro_de (mh m) pays)
        then {Nommee (LignePays NumeroDeContrainteMaxEnergieHydraulique pays)} else {})
      (membre_max_energie (mh m) (md m) s (mintervalle m) pays)"
    unfolding membre_max_energie_def [abs_def] l1 bindE_simps
    by (rule membres.ecrites_whenE, rule membre_pays [OF R q(3) pays]) (use e in simp)
  show "membres_ecrits m K p0 (if PresenceDePompageModulable (hydro_de (mh m) pays)
        then {Nommee (LignePays NumeroDeContrainteMaxPompage pays)} else {})
      (membre_pompage (mh m) (md m) s (mintervalle m) pays)"
    unfolding membre_pompage_def [abs_def] l1 bindE_simps
    by (rule membres.ecrites_whenE, rule membre_pays [OF R q(4) pays]) (use e in simp)
  show "membres_ecrits m K p0
      ((if AccurateWaterValue (hydro_de (mh m) pays) \<and> DirectLevelAccess (hydro_de (mh m) pays)
        then {Nommee (LignePays NumeroDeContrainteEquivalenceStockFinal pays)} else {}) \<union>
       ((if AccurateWaterValue (hydro_de (mh m) pays) then {Nommee (LignePays NumeroDeContrainteExpressionStockFinal pays)} else {}) \<union> {}))
      (membre_stock (mh m) s pays)"
    unfolding membre_stock_def [abs_def] l1 bindE_simps
    by (intro membres.ecrites_seqE_Cons membres.ecrites_seqE_Nil membres.ecrites_whenE membre_pays [OF R _ pays] q) simp_all
qed

lemma membre_niveau_ok:
  assumes R: "pass_membres m K s" and t: "t < NombreDePasDeTempsPourUneOptimisation (mh m)" and pays: "pays < NombreDePays (mh m)"
  shows "membres_ecrits m K p0 (if SuiviNiveauHoraire (hydro_de (mh m) pays)
      then {Nommee (Ligne NumeroDeContrainteDesNiveauxPays t pays)} else {})
    (membre_niveau (mh m) (md m) s (mpremier m + t) t pays)"
proof (cases "SuiviNiveauHoraire (hydro_de (mh m) pays)")
  case True
  let ?q = "Ligne NumeroDeContrainteDesNiveauxPays t pays" and ?hyd = "HydroDonnees (md m) ! pays"
  note K = pass_membresD(2) [OF R] and donnees = pass_dims(2) [OF R]
  have l1: "lire (CaracteristiquesHydrauliques (mh m)) pays = Inr (hydro_de (mh m) pays)"
    "lire (HydroDonnees (md m)) pays = Inr ?hyd"
    using pays pass_membresD(4) [OF R] donnees_tailles(9) [OF donnees] by simp_all
  have lu: "lire (ApportNaturelHoraire ?hyd) (mpremier m + t) = Inr (ApportNaturelHoraire ?hyd ! (mpremier m + t))"
    using donnees_pays(2) [OF donnees pays] pass_dims(3) [OF R] t by (simp add: hydro_donnees_ok_def)
  let ?f = "\<lambda>cnt. whenE (cnt \<ge> 0) (seqE
       [\<lambda>p. bindE (lire (ApportNaturelHoraire ?hyd) (mpremier m + t)) (\<lambda>v. ecrire_membre cnt v p),
        whenE (mpremier m + t = 0) (ajouter_membre cnt (NiveauInitialReservoir ?hyd)),
        ecrire_marginal cnt None])"
  have "membres_ecrits m K p0 {Nommee ?q} (?f (lecture_cnt s ?q))"
  proof (rule membre_ecrit [OF R])
    show "?q \<in> set (places_cnt (fiches_cnt K))" using places_pays_cnt(5) [of pays K t] K pays t by simp
    assume "lecture_cnt s ?q = - 1"
    moreover have "membres_ecrits m K p0 {} (?f (- 1))" using membres.ecrites_Inr by (simp add: whenE_def [abs_def])
    ultimately show "membres_ecrits m K p0 {} (?f (lecture_cnt s ?q))" by (simp only:)
  next
    fix k assume "lecture_cnt s ?q = int k"
    moreover have "ecrit_membre m ?q k (?f (int k))"
      unfolding lu by (auto simp: ecrit_membre_def ecrire_membre_def ajouter_membre_def ecrire_marginal_def whenE_def)
    ultimately show "ecrit_membre m ?q k (?f (lecture_cnt s ?q))" by (simp only:)
  qed simp
  moreover have "lire_cnt s NumeroDeContrainteDesNiveauxPays t pays = Inr (lecture_cnt s ?q)"
    by (rule lire_cnt_ok [OF R]) (use t pays in simp_all)
  ultimately show ?thesis
    using True by (simp only: membre_niveau_def [abs_def] l1 bindE_simps not_True_eq_False if_False if_True simp_thms)
next
  case False
  then show ?thesis
    using pays pass_membresD(4) [OF R] donnees_tailles(9) [OF pass_dims(2) [OF R]] membres.ecrites_Inr
    by (simp add: membre_niveau_def [abs_def])
qed

subsection \<open>The minimum down times\<close>

lemma forE_ajouter:
  assumes "\<And>x p. x \<in> set xs \<Longrightarrow> F x p = (if 0 < y x then ajouter_membre (int k) (of_int (y x)) p else Inr p)"
    and "k < length (SecondMembre p)"
  shows "forE xs F p = Inr (p\<lparr>SecondMembre := (SecondMembre p)[k := SecondMembre p ! k + of_int (sum_list (map (\<lambda>x. max 0 (y x)) xs))]\<rparr>)"
  using assms
proof (induction xs arbitrary: p)
  case (Cons x xs)
  let ?p = "if 0 < y x then p\<lparr>SecondMembre := (SecondMembre p)[k := SecondMembre p ! k + of_int (y x)]\<rparr> else p"
  have "F x p = Inr ?p"
    using Cons.prems by (simp add: ajouter_membre_def ecrire_membre_def)
  moreover have "forE xs F ?p = Inr (?p\<lparr>SecondMembre := (SecondMembre ?p)[k := SecondMembre ?p ! k +
      of_int (sum_list (map (\<lambda>x. max 0 (y x)) xs))]\<rparr>)"
    by (rule Cons.IH) (use Cons.prems in simp_all)
  ultimately show ?case
    using Cons.prems(2) by (auto simp: max_def add.assoc)
qed simp

lemma ecrit_en_sommant:
  assumes v: "v0 = Inr v" and boucle: "\<And>p. k < length (SecondMembre p) \<Longrightarrow>
      forE xs F p = Inr (p\<lparr>SecondMembre := (SecondMembre p)[k := SecondMembre p ! k + of_int S]\<rparr>)"
    and q: "membre_de m q = of_int (v + S)" "marginal_de m q = None" "marginal_ecrit q"
  shows "ecrit_membre m q k (whenE (int k \<ge> 0)
    (seqE [\<lambda>p. bindE v0 (\<lambda>v. ecrire_membre (int k) (of_int v) p), forE xs F, ecrire_marginal (int k) None]))"
  using boucle by (simp add: v q ecrit_membre_def whenE_def ecrire_membre_def ecrire_marginal_def)

lemma boucler_bornes:
  assumes "- int (NombreDePasDeTempsPourUneOptimisation h) \<le> k" and "k < int (NombreDePasDeTemps h)"
    and "NombreDePasDeTempsPourUneOptimisation h \<le> NombreDePasDeTemps h"
  shows "0 \<le> boucler h k" and "nat (boucler h k) < NombreDePasDeTemps h"
  using assms by (auto simp: boucler_def)

lemma boucler_precedente:
  assumes "- int (NombreDePasDeTempsPourUneOptimisation h) < k"
  shows "boucler h (boucler h k - 1) = boucler h (k - 1)"
  using assms by (auto simp: boucler_def)

lemma membre_arret_ok:
  assumes R: "pass_membres m K s" and dem: "OptimisationAvecCoutsDeDemarrage (mh m)" and pays: "pays < NombreDePays (mh m)"
    and i: "i < nb_paliers (mh m) pays" and t: "t < NombreDePasDeTempsPourUneOptimisation (mh m)"
  shows "membres_ecrits m K p0 {Nommee (Ligne NumeroDeContrainteDesContraintesDeDureeMinDArret t (numero_palier (mh m) pays i))}
    (membre_arret (mh m) (md m) s (mpremier m + t) t pays i)"
proof -
  let ?h = "mh m" and ?T = "NombreDePasDeTempsPourUneOptimisation (mh m)"
  let ?palier = "numero_palier ?h pays i" and ?hr = "int (mpremier m + t)"
    and ?d = "DureeMinimaleDArretDUnGroupeDuPalierThermique (PaliersThermiquesDuPays ?h ! pays) ! i"
    and ?pdisp = "pdisp_de (md m) (pays, i)"
  note K = pass_membresD(2) [OF R] and H = pass_membresD(4) [OF R] and R' = pass_membresD(1) [OF R]
  have lu: "mpremier m + t < NombreDePasDeTemps ?h" using pass_dims(3) [OF R] t by linarith
  note d = hebdo_ok_demarrage(2,3) [OF H dem pays i]
  have maxi: "length (NombreMaxDeGroupesEnMarcheDuPalierThermique ?pdisp) = NombreDePasDeTemps ?h"
    using remplissage_pays(7) [OF R' pays i] by (simp add: pdisp_ok_def)
  have lit: "lire_int (NombreMaxDeGroupesEnMarcheDuPalierThermique ?pdisp) (boucler ?h k) = Inr (groupes_max ?h ?pdisp k)"
    if "- int ?T \<le> k" "k \<le> ?hr" for k
    using boucler_bornes [of ?h k] that lu H maxi by (simp add: groupes_max_def)
  define y where "y k = groupes_max ?h ?pdisp k - groupes_max ?h ?pdisp (k - 1)" for k
  have pas: "(let t1 = boucler ?h k; t1moins1 = boucler ?h (t1 - 1) in
          bindE (lire_int (NombreMaxDeGroupesEnMarcheDuPalierThermique ?pdisp) t1) (\<lambda>v.
          bindE (lire_int (NombreMaxDeGroupesEnMarcheDuPalierThermique ?pdisp) t1moins1) (\<lambda>v'.
          whenE (v - v' > 0) (ajouter_membre (int n) (of_int (v - v'))) p))) =
      (if 0 < y k then ajouter_membre (int n) (of_int (y k)) p else Inr p)"
    if "k \<in> set [?hr - ?d + 1..?hr]" for k n p
    using that d lit [of k] lit [of "k - 1"] boucler_precedente [of ?h k] by (simp add: y_def whenE_def)
  let ?f = "\<lambda>cnt. whenE (cnt \<ge> 0) (seqE
       [\<lambda>p. bindE (lire_int (NombreMaxDeGroupesEnMarcheDuPalierThermique ?pdisp) (boucler ?h (?hr - ?d))) (\<lambda>v. ecrire_membre cnt (of_int v) p),
        forE [?hr - ?d + 1..?hr] (\<lambda>k p.
          let t1 = boucler ?h k; t1moins1 = boucler ?h (t1 - 1) in
          bindE (lire_int (NombreMaxDeGroupesEnMarcheDuPalierThermique ?pdisp) t1) (\<lambda>v.
          bindE (lire_int (NombreMaxDeGroupesEnMarcheDuPalierThermique ?pdisp) t1moins1) (\<lambda>v'.
          whenE (v - v' > 0) (ajouter_membre cnt (of_int (v - v'))) p))),
        ecrire_marginal cnt None])"
  have premier: "lire_int (NombreMaxDeGroupesEnMarcheDuPalierThermique ?pdisp) (boucler ?h (?hr - ?d)) = Inr (groupes_max ?h ?pdisp (?hr - ?d))"
    by (rule lit) (use d in linarith)+
  have num: "palier_de ?h ?palier = (pays, i)" by (rule remplissage_simps(4) [OF R' pays i])
  have f: "ecrit_membre m (Ligne NumeroDeContrainteDesContraintesDeDureeMinDArret t ?palier) k (?f (int k))" for k
    by (rule ecrit_en_sommant [OF premier forE_ajouter [OF pas]])
      (simp_all add: num groupes_arret_def y_def)
  have l1: "lire (PaliersThermiquesDuPays ?h) pays = Inr (PaliersThermiquesDuPays ?h ! pays)"
    "palier_donnees (md m) pays i = Inr ?pdisp"
    "lire (DureeMinimaleDArretDUnGroupeDuPalierThermique (PaliersThermiquesDuPays ?h ! pays)) i = Inr ?d"
    "lire (NumeroDuPalierDansLEnsembleDesPaliersThermiques (PaliersThermiquesDuPays ?h ! pays)) i = Inr ?palier"
    using remplissage_simps(3) [OF R' pays i] H pays i by simp_all
  have "membres_ecrits m K p0 {Nommee (Ligne NumeroDeContrainteDesContraintesDeDureeMinDArret t ?palier)}
      (\<lambda>p. bindE (lire_cnt s NumeroDeContrainteDesContraintesDeDureeMinDArret t ?palier) (\<lambda>cnt. ?f cnt p))"
  proof (rule membre_cnt [OF R])
    show "(Some (Numerote (Ligne NumeroDeContrainteDesContraintesDeDureeMinDArret t ?palier)), ligne_MinDownTime K pays i t) \<in> set (fiches_cnt K)"
      using dans_fiches_cnt(11) [of K pays i t] dem pays i t K by (simp add: fiche_cnt_arret_def)
    show "?palier < taille_cnt ?h NumeroDeContrainteDesContraintesDeDureeMinDArret"
      using hebdo_ok_palier [OF H pays i] by simp
    show "ecrit_membre m (Ligne NumeroDeContrainteDesContraintesDeDureeMinDArret t ?palier) k (?f (int k))" for k by (rule f)
  qed (use t in simp_all)
  then show ?thesis
    unfolding membre_arret_def [abs_def] l1 bindE_simps Let_def .
qed

subsection \<open>The whole function\<close>

definition places_membres_heure :: "contexte_membres \<Rightarrow> nat \<Rightarrow> place_ligne set" where
  "places_membres_heure m t =
     (\<Union>pays \<in> set [0..<NombreDePays (mh m)]. {Nommee (Ligne NumeroDeContrainteDesBilansPays t pays)} \<union>
        ({Nommee (Ligne NumeroDeContraintePourEviterLesChargesFictives t pays)} \<union> {})) \<union>
     ((\<Union>pays \<in> set [0..<NombreDePays (mh m)]. \<Union>k \<in> set [0..<length (ShortTermStorage (mh m) ! pays)].
        {Nommee (Ligne ShortTermStorageLevelConstraint t (clusterGlobalIndex (ShortTermStorage (mh m) ! pays ! k)))}) \<union>
     ((\<Union>l \<in> set [0..<NombreDInterconnexions (mh m)]. if IntercoGereeAvecDesCouts (CoutDeTransport (mh m) ! l)
        then {Nommee (Ligne NumeroDeContrainteDeDissociationDeFlux t l)} else {}) \<union>
     ((\<Union>c \<in> set [0..<NombreDeContraintesCouplantes (mh m)].
        if TypeDeContrainteCouplante (MatriceDesContraintesCouplantes (mh m) ! c) = CONTRAINTE_HORAIRE
        then {Nommee (Ligne NumeroDeContrainteDesContraintesCouplantes t c)} else {}) \<union> {})))"

lemma membres_heure_ok:
  assumes R: "pass_membres m K s" and t: "t < NombreDePasDeTempsPourUneOptimisation (mh m)"
  shows "membres_ecrits m K p0 (places_membres_heure m t) (membres_heure (mh m) (md m) (mopt m) s (mpremier m + t) t)"
proof -
  have pays: "membres_ecrits m K p0 ({Nommee (Ligne NumeroDeContrainteDesBilansPays t pays)} \<union>
        ({Nommee (Ligne NumeroDeContraintePourEviterLesChargesFictives t pays)} \<union> {}))
      (seqE [membre_bilan (md m) (mopt m) s (mpremier m + t) t pays, membre_charges_fictives (mh m) (md m) s (mpremier m + t) t pays])"
    if "pays \<in> set [0..<NombreDePays (mh m)]" for pays
    by (intro membres.ecrites_seqE_Cons membres.ecrites_seqE_Nil membre_bilan_ok [OF R t] membre_charges_fictives_ok [OF R t])
      (use that in simp_all)
  show ?thesis
    unfolding membres_heure_def places_membres_heure_def
    by (intro membres.ecrites_seqE_Cons membres.ecrites_seqE_Nil membres.ecrites_forE pays shortTermStorageLevelsRHS_ok [OF R t]
        membre_flux_ok [OF R t] membre_couplante_ok [OF R t]; simp)
qed

definition places_membres :: "contexte_membres \<Rightarrow> place_ligne set" where
  "places_membres m = (let h = mh m in
     (\<Union>t \<in> set (heures h). places_membres_heure m t) \<union>
     ((\<Union>d \<in> set (debuts_de_jour h). \<Union>c \<in> set [0..<NombreDeContraintesCouplantes h].
        if TypeDeContrainteCouplante (MatriceDesContraintesCouplantes h ! c) = CONTRAINTE_JOURNALIERE
        then {Nommee (LigneJour (NumeroDeJourDuPasDeTemps h ! d) c)} else {}) \<union>
     ((if NombreDePasDeTempsDUneJournee h < NombreDePasDeTempsPourUneOptimisation h
       then (\<Union>c \<in> set [0..<NombreDeContraintesCouplantes h].
         if TypeDeContrainteCouplante (MatriceDesContraintesCouplantes h ! c) = CONTRAINTE_HEBDOMADAIRE
         then {Nommee (LigneHebdo c)} else {}) else {}) \<union>
     ((\<Union>pays \<in> set [0..<NombreDePays h]. {Nommee (LignePays NumeroDeContrainteEnergieHydraulique pays)}) \<union>
     ((\<Union>pays \<in> set [0..<NombreDePays h]. if energie_bornee (hydro_de h pays)
        then {Nommee (LignePays NumeroDeContrainteMinEnergieHydraulique pays)} else {}) \<union>
     ((\<Union>pays \<in> set [0..<NombreDePays h]. if energie_bornee (hydro_de h pays)
        then {Nommee (LignePays NumeroDeContrainteMaxEnergieHydraulique pays)} else {}) \<union>
     ((\<Union>pays \<in> set [0..<NombreDePays h]. if PresenceDePompageModulable (hydro_de h pays)
        then {Nommee (LignePays NumeroDeContrainteMaxPompage pays)} else {}) \<union>
     ((\<Union>t \<in> set (heures h). \<Union>pays \<in> set [0..<NombreDePays h]. if SuiviNiveauHoraire (hydro_de h pays)
        then {Nommee (Ligne NumeroDeContrainteDesNiveauxPays t pays)} else {}) \<union>
     ((\<Union>pays \<in> set [0..<NombreDePays h].
        (if AccurateWaterValue (hydro_de h pays) \<and> DirectLevelAccess (hydro_de h pays)
         then {Nommee (LignePays NumeroDeContrainteEquivalenceStockFinal pays)} else {}) \<union>
        ((if AccurateWaterValue (hydro_de h pays) then {Nommee (LignePays NumeroDeContrainteExpressionStockFinal pays)} else {}) \<union> {})) \<union>
     ((if OptimisationAvecCoutsDeDemarrage h
       then (\<Union>pays \<in> set [0..<NombreDePays h]. \<Union>i \<in> set [0..<nb_paliers h pays]. \<Union>t \<in> set (heures h).
         {Nommee (Ligne NumeroDeContrainteDesContraintesDeDureeMinDArret t (numero_palier h pays i))}) else {}) \<union> {}))))))))))"

lemma membres_demarrage_ok:
  assumes R: "pass_membres m K s" and dem: "OptimisationAvecCoutsDeDemarrage (mh m)"
  shows "membres_ecrits m K p0 (\<Union>pays \<in> set [0..<NombreDePays (mh m)]. \<Union>i \<in> set [0..<nb_paliers (mh m) pays]. \<Union>t \<in> set (heures (mh m)).
         {Nommee (Ligne NumeroDeContrainteDesContraintesDeDureeMinDArret t (numero_palier (mh m) pays i))})
    (OPT_InitialiserLeSecondMembreDuProblemeLineaireCoutsDeDemarrage (mh m) (md m) s (mpremier m)
      (mpremier m + NombreDePasDeTempsPourUneOptimisation (mh m)))"
  unfolding OPT_InitialiserLeSecondMembreDuProblemeLineaireCoutsDeDemarrage_def forE_intervalle heures_def [symmetric]
    add_diff_cancel_left'
proof (rule membres.ecrites_forE)
  fix pays assume p: "pays \<in> set [0..<NombreDePays (mh m)]"
  then have lu: "lire (PaliersThermiquesDuPays (mh m)) pays = Inr (PaliersThermiquesDuPays (mh m) ! pays)"
    using pass_membresD(4) [OF R] by simp
  show "membres_ecrits m K p0 (\<Union>i \<in> set [0..<nb_paliers (mh m) pays]. \<Union>t \<in> set (heures (mh m)).
         {Nommee (Ligne NumeroDeContrainteDesContraintesDeDureeMinDArret t (numero_palier (mh m) pays i))})
    (\<lambda>p. bindE (lire (PaliersThermiquesDuPays (mh m)) pays) (\<lambda>pt.
       forE [0..<NombreDePaliersThermiques pt] (\<lambda>index.
         forE (heures (mh m)) (\<lambda>t. membre_arret (mh m) (md m) s (mpremier m + t) t pays index)) p))"
    unfolding lu bindE_simps
    by (intro membres.ecrites_forE membre_arret_ok [OF R dem]) (use p in simp_all)
qed

text \<open>Every row with a recorded number is written.\<close>

lemma rang_marque_place:
  assumes f: "(Some (Numerote q), ls) \<in> set (fiches_cnt K)" and ls: "ls \<noteq> []" and K: "kh K = mh m"
  shows "Nommee q \<in> places_membres m"
proof -
  have e: "P \<in> places_membres m" if "P \<in> places_membres_heure m t" "t < NombreDePasDeTempsPourUneOptimisation (mh m)" for P t
    using that by (auto simp: places_membres_def Let_def)
  have heure: "Nommee q \<in> places_membres m"
    if t: "t < NombreDePasDeTempsPourUneOptimisation (mh m)" and f: "(Some (Numerote q), ls) \<in> set (fiches_cnt_heure K t)" for t
  proof (rule e [OF _ t])
    from f consider (pays) pays where "pays < NombreDePays (mh m)" "(Some (Numerote q), ls) \<in> set (fiches_cnt_pays K t pays)"
      | (lien) l where "l < NombreDInterconnexions (mh m)" "(Some (Numerote q), ls) = fiche_cnt_couts K t l"
      | (couplante) c where "c < NombreDeContraintesCouplantes (mh m)" "(Some (Numerote q), ls) = fiche_cnt_couplante K t c"
      by (auto simp: fiches_cnt_heure_def par_pays_def K)
    then show "Nommee q \<in> places_membres_heure m t"
    proof cases
      case pays
      then consider "q = Ligne NumeroDeContrainteDesBilansPays t pays" | "q = Ligne NumeroDeContraintePourEviterLesChargesFictives t pays"
        | k where "k < length (ShortTermStorage (mh m) ! pays)"
            "q = Ligne ShortTermStorageLevelConstraint t (clusterGlobalIndex (ShortTermStorage (mh m) ! pays ! k))"
        by (auto simp: fiches_cnt_pays_def K in_set_conv_nth)
      then show ?thesis using pays(1) by cases (fastforce simp: places_membres_heure_def)+
    next
      case lien
      then show ?thesis by (auto simp: places_membres_heure_def fiche_cnt_couts_def K split: if_splits)
    next
      case couplante
      then show ?thesis using ls
        by (auto simp: places_membres_heure_def fiche_cnt_couplante_def ligne_BindingConstraintHour_def K split: if_splits)
    qed
  qed
  from f consider (heure) t where "t < NombreDePasDeTempsPourUneOptimisation (mh m)" "(Some (Numerote q), ls) \<in> set (fiches_cnt_heure K t)"
    | (jour) c where "c < NombreDeContraintesCouplantes (mh m)" "(Some (Numerote q), ls) \<in> set (fiches_cnt_jour K c)"
    | (semaine) c where "NombreDePasDeTempsDUneJournee (mh m) < NombreDePasDeTempsPourUneOptimisation (mh m)"
        "c < NombreDeContraintesCouplantes (mh m)" "(Some (Numerote q), ls) = fiche_cnt_semaine K c"
    | (energie) pays where "pays < NombreDePays (mh m)" "(Some (Numerote q), ls) = fiche_cnt_energie K pays"
    | (pompage) pays where "pays < NombreDePays (mh m)" "(Some (Numerote q), ls) = fiche_cnt_pompage K pays"
    | (bornes) pays where "pays < NombreDePays (mh m)" "(Some (Numerote q), ls) \<in> set (fiches_cnt_bornes K pays)"
    | (stock) pays where "pays < NombreDePays (mh m)" "(Some (Numerote q), ls) \<in> set (fiches_cnt_stock K pays)"
    | (niveau) t pays where "t < NombreDePasDeTempsPourUneOptimisation (mh m)" "pays < NombreDePays (mh m)"
        "(Some (Numerote q), ls) = fiche_cnt_niveau K t pays"
    | (demarrage) "OptimisationAvecCoutsDeDemarrage (mh m)" "(Some (Numerote q), ls) \<in> set (fiches_cnt_demarrage K)"
    unfolding fiches_cnt_def par_pays_def par_couplante_def K
    by (auto split: if_splits)
  then show ?thesis
  proof cases
    case demarrage
    then obtain pays i t where "pays < NombreDePays (mh m)" "i < nb_paliers (mh m) pays"
      "t < NombreDePasDeTempsPourUneOptimisation (mh m)"
      "q = Ligne NumeroDeContrainteDesContraintesDeDureeMinDArret t (numero_palier (mh m) pays i)"
      by (auto simp: fiches_cnt_demarrage_def par_palier_def fiche_cnt_arret_def K)
    with demarrage(1) show ?thesis by (force simp: places_membres_def Let_def)
  next
    case jour
    then show ?thesis by (auto simp: places_membres_def Let_def fiches_cnt_jour_def K split: if_splits)
  next
    case semaine
    then show ?thesis by (auto simp: places_membres_def Let_def fiche_cnt_semaine_def K split: if_splits)
  next
    case energie
    then show ?thesis by (auto simp: places_membres_def Let_def fiche_cnt_energie_def K split: if_splits)
  next
    case pompage
    then show ?thesis by (auto simp: places_membres_def Let_def fiche_cnt_pompage_def K split: if_splits)
  next
    case bornes
    then show ?thesis by (auto simp: places_membres_def Let_def fiches_cnt_bornes_def K split: if_splits)
  next
    case stock
    then show ?thesis by (auto simp: places_membres_def Let_def fiches_cnt_stock_def K split: if_splits)
  next
    case niveau
    then show ?thesis by (auto simp: places_membres_def Let_def fiche_cnt_niveau_def K split: if_splits)
  qed (rule heure)
qed

definition valeur_membre :: "contexte_membres \<Rightarrow> place_ligne \<Rightarrow> real" where
  "valeur_membre m pl = (case pl of Nommee q \<Rightarrow> membre_de m q | Anonyme k \<Rightarrow> 0)"

definition adresse_marginale :: "contexte_membres \<Rightarrow> place_ligne \<Rightarrow> adresse option" where
  "adresse_marginale m pl = (case pl of Nommee q \<Rightarrow> marginal_de m q | Anonyme k \<Rightarrow> None)"

lemma place_ecrite:
  assumes K: "kh K = mh m" and k: "k < length (liste_lignes K)" and q: "place_ligne K k = Nommee q"
  shows "Nommee q \<in> places_membres m"
proof -
  have "Some q \<in> set (noms_lignes (fiches_cnt K))"
    using k q by (auto simp: place_ligne_def nom_ligne_def in_set_conv_nth lignes_fiches_cnt split: option.splits)
  then obtain mo ls where f: "(mo, ls) \<in> set (fiches_cnt K)" "ls \<noteq> []" "nom_marque mo = Some q"
    by (auto simp: noms_lignes_def)
  then have "mo = Some (Numerote q)"
    by (auto simp: nom_marque_def split: option.splits marque.splits)
  then show ?thesis using rang_marque_place [OF _ f(2) K] f(1) by blast
qed

lemma vider_membres_ok:
  assumes p: "membres_ok m K p0 p"
  shows "returns (forE [0..<length (liste_lignes K)] (\<lambda>i. seqE [ecrire_marginal (int i) None, ecrire_membre (int i) 0]) p)
    (\<lambda>p'. membres_ok m K p0 p' \<and> (\<forall>i < length (liste_lignes K). cellule_membres p' i = (0, None)))"
proof -
  let ?I = "\<lambda>n p'. membres_ok m K p0 p' \<and> (\<forall>i < n. cellule_membres p' i = (0, None))"
  show ?thesis
  proof (rule returns_for_upt [where I = ?I])
    fix k p' assume k: "k < length (liste_lignes K)" and I: "?I k p'"
    show "returns (seqE [ecrire_marginal (int k) None, ecrire_membre (int k) 0] p') (?I (Suc k))"
      using I k by (auto simp: ecrire_membre_def ecrire_marginal_def membres_ok_def sans_membres_def cellule_membres_def
          nth_list_update less_Suc_eq)
  qed (use p in simp_all)
qed

lemma membres_lineaires_ok:
  assumes R: "pass_membres m K s" and p: "membres_ok m K p0 p"
  shows "returns (membres_lineaires (mh m) (md m) (mopt m) s (mpremier m)
      (mpremier m + NombreDePasDeTempsPourUneOptimisation (mh m)) (mintervalle m) p)
    (\<lambda>p'. membres_ok m K p0 p' \<and> (\<forall>i < length (liste_lignes K).
      cellule_membres p' i = (valeur_membre m (place_ligne K i), adresse_marginale m (place_ligne K i))))"
proof -
  let ?T = "NombreDePasDeTempsPourUneOptimisation (mh m)" and ?h = "mh m"
  note K = pass_membresD(2) [OF R]
  let ?reste = "seqE [forE [mpremier m..<mpremier m + ?T] (\<lambda>pdtHebdo. membres_heure ?h (md m) (mopt m) s pdtHebdo (pdtHebdo - mpremier m)),
      membres_couplantes_jours ?h (md m) s (mpremier m) (mpremier m + ?T),
      whenE (NombreDePasDeTempsDUneJournee ?h < NombreDePasDeTempsPourUneOptimisation ?h)
        (forE [0..<NombreDeContraintesCouplantes ?h] (membre_couplante_semaine ?h (md m) s)),
      forE [0..<NombreDePays ?h] (membre_energie (md m) s (mintervalle m)),
      forE [0..<NombreDePays ?h] (membre_min_energie ?h (md m) s (mintervalle m)),
      forE [0..<NombreDePays ?h] (membre_max_energie ?h (md m) s (mintervalle m)),
      forE [0..<NombreDePays ?h] (membre_pompage ?h (md m) s (mintervalle m)),
      forE [mpremier m..<mpremier m + ?T] (\<lambda>pdtHebdo. forE [0..<NombreDePays ?h] (membre_niveau ?h (md m) s pdtHebdo (pdtHebdo - mpremier m))),
      forE [0..<NombreDePays ?h] (membre_stock ?h s),
      whenE (OptimisationAvecCoutsDeDemarrage ?h)
        (OPT_InitialiserLeSecondMembreDuProblemeLineaireCoutsDeDemarrage ?h (md m) s (mpremier m) (mpremier m + ?T))]"
  have reste: "membres_ecrits m K p0 (places_membres m) ?reste"
    unfolding places_membres_def Let_def forE_intervalle heures_def [symmetric] add_diff_cancel_left'
    by (intro membres.ecrites_seqE_Cons membres.ecrites_seqE_Nil membres.ecrites_forE membres.ecrites_whenE
        membres_heure_ok [OF R] membres_couplantes_jours_ok [OF R] membre_couplante_semaine_ok [OF R] membres_hydro_ok [OF R]
        membre_niveau_ok [OF R] membres_demarrage_ok [OF R]) (simp_all add: heures_def)
  have n: "NombreDeContraintes p = length (liste_lignes K)"
    using p by (simp add: membres_ok_def)
  show ?thesis
    unfolding membres_lineaires_def
  proof (subst seqE.simps(2), unfold returns_bindE n, rule returns_mono [OF vider_membres_ok [OF p]])
    fix p1 assume p1: "membres_ok m K p0 p1 \<and> (\<forall>i < length (liste_lignes K). cellule_membres p1 i = (0, None))"
    from membres.ecritesD [OF reste, of p1] p1
    have "returns (?reste p1) (\<lambda>p'. membres_ok m K p0 p' \<and> (\<forall>i < length (liste_lignes K).
        cellule_membres p' i = (if place_ligne K i \<in> places_membres m then maj_membres m (place_ligne K i) (0, None) else (0, None))))"
      by (auto elim!: returns_mono)
    then show "returns (?reste p1) (\<lambda>p'. membres_ok m K p0 p' \<and> (\<forall>i < length (liste_lignes K).
      cellule_membres p' i = (valeur_membre m (place_ligne K i), adresse_marginale m (place_ligne K i))))"
    proof (rule returns_mono)
      fix p' assume p': "membres_ok m K p0 p' \<and> (\<forall>i < length (liste_lignes K).
        cellule_membres p' i = (if place_ligne K i \<in> places_membres m then maj_membres m (place_ligne K i) (0, None) else (0, None)))"
      have "(if place_ligne K i \<in> places_membres m then maj_membres m (place_ligne K i) (0, None) else (0, None)) =
          (valeur_membre m (place_ligne K i), adresse_marginale m (place_ligne K i))" if i: "i < length (liste_lignes K)" for i
      proof (cases "place_ligne K i")
        case (Nommee q)
        have "\<not> marginal_ecrit q \<Longrightarrow> marginal_de m q = None" by (cases q rule: marginal_ecrit.cases) simp_all
        then show ?thesis
          using place_ecrite [OF K i Nommee] Nommee by (auto simp: maj_membres_def valeur_membre_def adresse_marginale_def)
      qed (auto simp: maj_membres_def valeur_membre_def adresse_marginale_def)
      with p' show "membres_ok m K p0 p' \<and> (\<forall>i < length (liste_lignes K).
          cellule_membres p' i = (valeur_membre m (place_ligne K i), adresse_marginale m (place_ligne K i)))" by simp
    qed
  qed
qed

text \<open>On the state: nothing but these two vectors changes.\<close>

definition hors_membres :: "etat \<Rightarrow> etat" where
  "hors_membres s = s\<lparr>ProblemeAResoudre := sans_membres (ProblemeAResoudre s)\<rparr>"

definition membres_poses :: "contexte_membres \<Rightarrow> contexte \<Rightarrow> etat \<Rightarrow> bool" where
  "membres_poses m K s' \<longleftrightarrow> (\<forall>i < length (liste_lignes K). let p = ProblemeAResoudre s'; q = place_ligne K i in
     SecondMembre p ! i = valeur_membre m q \<and> AdresseOuPlacerLaValeurDesCoutsMarginaux p ! i = adresse_marginale m q)"

lemma OPT_InitialiserLeSecondMembre_ok:
  assumes R: "pass_membres m K s" and l: "length (liste_lignes K) \<le> nb_contraintes_prevues (mh m)"
  shows "returns (OPT_InitialiserLeSecondMembreDuProblemeLineaire (mh m) (md m) (mpremier m)
      (mpremier m + NombreDePasDeTempsPourUneOptimisation (mh m)) (mintervalle m) (mopt m) s)
    (\<lambda>s'. hors_membres s' = hors_membres s \<and> alloue (mh m) s' \<and> membres_poses m K s')"
proof -
  let ?p = "ProblemeAResoudre s"
  note R' = remplissage_pret [OF pass_membresD(1) [OF R]]
  have a: "alloue (mh m) s" by (rule remplir_ok(4) [OF R'])
  have p: "membres_ok m K ?p ?p"
    using a pass_membresD(3) [OF R] l
    by (simp add: membres_ok_def alloue_def vecteurs_alloues_def cote_vecteurs_def contraintes_numerotees_def)
  show ?thesis
    unfolding OPT_InitialiserLeSecondMembreDuProblemeLineaire_def returns_bindE
  proof (rule returns_mono [OF membres_lineaires_ok [OF R p]])
    fix p' assume p': "membres_ok m K ?p p' \<and> (\<forall>i < length (liste_lignes K).
      cellule_membres p' i = (valeur_membre m (place_ligne K i), adresse_marginale m (place_ligne K i)))"
    then have sm: "sans_membres p' = sans_membres ?p" by (simp add: membres_ok_def)
    have "alloue (mh m) (s\<lparr>ProblemeAResoudre := p'\<rparr>)"
      using a p' sm by (cases p'; cases ?p; simp add: alloue_def alloue_matrice_def dims_variables_def dims_cnt_def
          vecteurs_alloues_def cote_vecteurs_def membres_ok_def sans_membres_def Let_def)
    then show "returns (Inr (s\<lparr>ProblemeAResoudre := p'\<rparr>)) (\<lambda>s'. hors_membres s' = hors_membres s \<and> alloue (mh m) s' \<and>
        membres_poses m K s')"
      using p' sm by (simp add: hors_membres_def membres_poses_def cellule_membres_def Let_def)
  qed
qed

end
