(* ===== verification/Solver_Addresses.thy ===== *)
theory Solver_Addresses
  imports Solver_Call Bounds_Correct Right_Hand_Sides_Correct
begin

text \<open>
  The pointers of a filled problem: after the passes on the bounds and on the right-hand sides, every pointer of the
  linear problem is null or points into the results of the week, and no two of them point to the same place. What the
  solver call writes through one of them is therefore found there afterwards.
\<close>

subsection \<open>The variables\<close>

text \<open>The place of a variable, by the loop that created it.\<close>

lemma place_cas:
  assumes k: "k < nb_variables h"
  obtains (lien) j l c where "j < NombreDePasDeTempsPourUneOptimisation h" "l < NombreDInterconnexions h"
      "place_de h k = Var c j l" "c \<in> {NumeroDeVariableDeLInterconnexion,
        NumeroDeVariableCoutOrigineVersExtremiteDeLInterconnexion, NumeroDeVariableCoutExtremiteVersOrigineDeLInterconnexion}"
    | (palier) j pays i where "j < NombreDePasDeTempsPourUneOptimisation h" "pays < NombreDePays h" "i < nb_paliers h pays"
      "place_de h k = Var NumeroDeVariableDuPalierThermique j (numero_palier h pays i)"
    | (stockage) j pays i c where "j < NombreDePasDeTempsPourUneOptimisation h" "pays < NombreDePays h"
      "i < length (ShortTermStorage h ! pays)" "place_de h k = Var c j (clusterGlobalIndex (ShortTermStorage h ! pays ! i))"
      "c \<in> {InjectionVariable, WithdrawalVariable, LevelVariable}"
    | (pays) j pays c where "j < NombreDePasDeTempsPourUneOptimisation h" "pays < NombreDePays h" "place_de h k = Var c j pays"
      "c \<in> {NumeroDeVariableDefaillancePositive, NumeroDeVariableDefaillanceNegative, NumeroDeVariablesDeLaProdHyd,
        NumeroDeVariablesVariationHydALaBaisse, NumeroDeVariablesVariationHydALaHausse, NumeroDeVariablesDePompage,
        NumeroDeVariablesDeNiveau, NumeroDeVariablesDeDebordement}"
    | (stock) pays where "pays < NombreDePays h" "place_de h k = Stock pays"
    | (tranche) pays l where "pays < NombreDePays h" "place_de h k = Tranche pays l"
    | (demarrage) j pays i c where "j < NombreDePasDeTempsPourUneOptimisation h" "pays < NombreDePays h" "i < nb_paliers h pays"
      "place_de h k = Var c j (numero_palier h pays i)"
      "c \<in> {NumeroDeVariableDuNombreDeGroupesEnMarcheDuPalierThermique, NumeroDeVariableDuNombreDeGroupesQuiDemarrentDuPalierThermique,
        NumeroDeVariableDuNombreDeGroupesQuiSArretentDuPalierThermique, NumeroDeVariableDuNombreDeGroupesQuiTombentEnPanneDuPalierThermique}"
proof -
  let ?q = "place_de h k"
  have p: "?q \<in> set (places_de (liste_variables h))"
    using place_de_dans [OF k] by (force simp: places_de_def)
  from p consider
      j l where "j < NombreDePasDeTempsPourUneOptimisation h" "l < NombreDInterconnexions h"
        "?q \<in> set (places_de (fiches_interco h j l))"
    | j pays where "j < NombreDePasDeTempsPourUneOptimisation h" "pays < NombreDePays h"
        "?q \<in> set (places_de (fiches_pays h j pays)) \<union> set (places_de (fiches_hydro h j pays))"
    | pays where "pays < NombreDePays h" "?q \<in> set (places_de (fiches_stock h pays))"
    | j pays i where "j < NombreDePasDeTempsPourUneOptimisation h" "pays < NombreDePays h"
        "i < nb_paliers h pays" "?q \<in> set (places_de (fiches_demarrage h pays i j))"
    by (auto simp: liste_variables_def fiches_lineaires_def fiches_demarrages_def par_pays_def par_palier_def
        heures_def split: if_splits)
  then show thesis
  proof cases
    case (1 j l)
    then obtain c where "?q = Var c j l" "c \<in> {NumeroDeVariableDeLInterconnexion,
        NumeroDeVariableCoutOrigineVersExtremiteDeLInterconnexion, NumeroDeVariableCoutExtremiteVersOrigineDeLInterconnexion}"
      by (auto simp: fiches_interco_def Let_def split: if_splits)
    then show thesis using 1(1,2) lien by blast
  next
    case (2 j p)
    from 2(3) consider i where "i < nb_paliers h p" "?q = Var NumeroDeVariableDuPalierThermique j (numero_palier h p i)"
      | i c where "i < length (ShortTermStorage h ! p)" "?q = Var c j (clusterGlobalIndex (ShortTermStorage h ! p ! i))"
          "c = InjectionVariable \<or> c = WithdrawalVariable \<or> c = LevelVariable"
      | c where "?q = Var c j p" "c \<in> {NumeroDeVariableDefaillancePositive, NumeroDeVariableDefaillanceNegative,
          NumeroDeVariablesDeLaProdHyd, NumeroDeVariablesVariationHydALaBaisse, NumeroDeVariablesVariationHydALaHausse,
          NumeroDeVariablesDePompage, NumeroDeVariablesDeNiveau, NumeroDeVariablesDeDebordement}"
      by (auto simp: fiches_pays_def fiches_hydro_def fiche_palier_def fiches_stockage_def Let_def in_set_conv_nth)
    then show thesis
      by cases (use 2(1,2) palier stockage pays in \<open>blast+\<close>)
  next
    case (3 p)
    then show thesis using places_stock(2) [OF 3(2)] stock tranche by blast
  next
    case (4 j p i)
    then obtain c where "?q = Var c j (numero_palier h p i)" "c \<in> {NumeroDeVariableDuNombreDeGroupesEnMarcheDuPalierThermique,
        NumeroDeVariableDuNombreDeGroupesQuiDemarrentDuPalierThermique, NumeroDeVariableDuNombreDeGroupesQuiSArretentDuPalierThermique,
        NumeroDeVariableDuNombreDeGroupesQuiTombentEnPanneDuPalierThermique}"
      by (auto simp: fiches_demarrage_def Let_def)
    then show thesis using 4(1-3) demarrage by blast
  qed
qed

lemma adresse_de_valide:
  assumes R: "pass_bornes b s" and k: "k < nb_variables (bh b)"
    and a: "adresse_de b (place_de (bh b) k) = Some a \<or> cout_reduit_de b (place_de (bh b) k) = Some a"
  shows "adresse_valide (bh b) a"
proof -
  note R' = pass_bornesD [OF R]
  note n = remplir_ok(2) [OF remplissage_pret [OF R']]
  have t: "bpremier b + j < NombreDePasDeTemps (bh b)" if "j < NombreDePasDeTempsPourUneOptimisation (bh b)" for j
    using remplissage_simps(2) [OF R' that] .
  from k show ?thesis
  proof (cases rule: place_cas)
    case (palier j pays i)
    then show ?thesis using a t palier_de_numero [OF n palier(2,3)] by auto
  next
    case (demarrage j pays i c)
    then show ?thesis using a t palier_de_numero [OF n demarrage(2,3)] by auto
  next
    case (stockage j pays i c)
    then show ?thesis using a t stockage_de_numero [OF n stockage(2,3)] by auto
  qed (use a t in auto)
qed

text \<open>Two variables never share an address: the address of a value tells the place of the variable.\<close>

fun place_ecrivant :: "contexte_bornes \<Rightarrow> adresse \<Rightarrow> place" where
  "place_ecrivant b (ValeurDuFlux t l) = Var NumeroDeVariableDeLInterconnexion (t - bpremier b) l"
| "place_ecrivant b (VariableDualeParInterconnexion t l) = Var NumeroDeVariableDeLInterconnexion (t - bpremier b) l"
| "place_ecrivant b (ProductionThermiqueDuPalier pays t i) =
     Var NumeroDeVariableDuPalierThermique (t - bpremier b) (numero_palier (bh b) pays i)"
| "place_ecrivant b (NombreDeGroupesEnMarcheDuPalier pays t i) =
     Var NumeroDeVariableDuNombreDeGroupesEnMarcheDuPalierThermique (t - bpremier b) (numero_palier (bh b) pays i)"
| "place_ecrivant b (NombreDeGroupesQuiDemarrentDuPalier pays t i) =
     Var NumeroDeVariableDuNombreDeGroupesQuiDemarrentDuPalierThermique (t - bpremier b) (numero_palier (bh b) pays i)"
| "place_ecrivant b (NombreDeGroupesQuiSArretentDuPalier pays t i) =
     Var NumeroDeVariableDuNombreDeGroupesQuiSArretentDuPalierThermique (t - bpremier b) (numero_palier (bh b) pays i)"
| "place_ecrivant b (NombreDeGroupesQuiTombentEnPanneDuPalier pays t i) =
     Var NumeroDeVariableDuNombreDeGroupesQuiTombentEnPanneDuPalierThermique (t - bpremier b) (numero_palier (bh b) pays i)"
| "place_ecrivant b (TurbinageHoraire_de pays t) = Var NumeroDeVariablesDeLaProdHyd (t - bpremier b) pays"
| "place_ecrivant b (PompageHoraire_de pays t) = Var NumeroDeVariablesDePompage (t - bpremier b) pays"
| "place_ecrivant b (NiveauxHoraires_de pays t) = Var NumeroDeVariablesDeNiveau (t - bpremier b) pays"
| "place_ecrivant b (DefaillancePositive_de pays t) = Var NumeroDeVariableDefaillancePositive (t - bpremier b) pays"
| "place_ecrivant b (DefaillanceNegative_de pays t) = Var NumeroDeVariableDefaillanceNegative (t - bpremier b) pays"
| "place_ecrivant b (STS_injection pays t k) =
     Var InjectionVariable (t - bpremier b) (clusterGlobalIndex (ShortTermStorage (bh b) ! pays ! k))"
| "place_ecrivant b (STS_withdrawal pays t k) =
     Var WithdrawalVariable (t - bpremier b) (clusterGlobalIndex (ShortTermStorage (bh b) ! pays ! k))"
| "place_ecrivant b (STS_level pays t k) =
     Var LevelVariable (t - bpremier b) (clusterGlobalIndex (ShortTermStorage (bh b) ! pays ! k))"
| "place_ecrivant b (CoutsMarginauxHoraires_de pays t) = Stock pays"
| "place_ecrivant b (VariablesDuales_de c t) = Stock c"

fun est_marginale :: "adresse \<Rightarrow> bool" where
  "est_marginale (CoutsMarginauxHoraires_de pays t) \<longleftrightarrow> True"
| "est_marginale (VariablesDuales_de c t) \<longleftrightarrow> True"
| "est_marginale _ \<longleftrightarrow> False"

lemma adresse_de_marginale: "adresse_de b q = Some a \<Longrightarrow> \<not> est_marginale a" "cout_reduit_de b q = Some a \<Longrightarrow> \<not> est_marginale a"
  by (induction b q rule: adresse_de.induct) (auto split: prod.splits)

lemma adresse_de_place:
  assumes R: "pass_bornes b s" and k: "k < nb_variables (bh b)"
    and a: "adresse_de b (place_de (bh b) k) = Some a \<or> cout_reduit_de b (place_de (bh b) k) = Some a"
  shows "place_de (bh b) k = place_ecrivant b a"
proof -
  note n = remplir_ok(2) [OF remplissage_pret [OF pass_bornesD [OF R]]]
  from k show ?thesis
  proof (cases rule: place_cas)
    case (palier j pays i)
    then show ?thesis using a palier_de_numero [OF n palier(2,3)] by auto
  next
    case (demarrage j pays i c)
    then show ?thesis using a palier_de_numero [OF n demarrage(2,3)] by auto
  next
    case (stockage j pays i c)
    then show ?thesis using a stockage_de_numero [OF n stockage(2,3)] by auto
  qed (use a in auto)
qed


text \<open>Whatever the pass wrote, each pointer is written by one variable.\<close>

lemma adresses_distinctes:
  assumes R: "pass_bornes b s" and B: "bornes_posees b s s'" and n: "NombreDeVariables (ProblemeAResoudre s') = nb_variables (bh b)"
    and e: "ProblemeAResoudre (etat_de w) = ProblemeAResoudre s'"
  shows "distinct (map fst (ecritures_variables w [0..<nb_variables (bh b)]))"
    and "\<And>a. a \<in> fst ` set (ecritures_variables w [0..<nb_variables (bh b)]) \<Longrightarrow>
      adresse_valide (bh b) a \<and> \<not> est_marginale a \<and> (\<exists>k < nb_variables (bh b). place_de (bh b) k = place_ecrivant b a)"
proof -
  let ?h = "bh b"
  let ?w = "\<lambda>i. let p = ProblemeAResoudre (etat_de w) in
     ecriture (AdresseOuPlacerLaValeurDesVariablesOptimisees p ! i) (ValeursX w ! i) @
     ecriture (AdresseOuPlacerLaValeurDesCoutsReduits p ! i) (CoutsReduits w ! i)"
  note inj = place_de_injective [OF remplir_ok(2) [OF remplissage_pret [OF pass_bornesD [OF R]]]]
  have w: "?w i = ecriture (adresse_de b (place_de ?h i)) (ValeursX w ! i) @ ecriture (cout_reduit_de b (place_de ?h i)) (CoutsReduits w ! i)"
    if "i < nb_variables ?h" for i
    using B that by (simp add: bornes_posees_def e Let_def)
  have a: "adresse_valide ?h a \<and> \<not> est_marginale a \<and> place_de ?h i = place_ecrivant b a"
    if "i < nb_variables ?h" "a \<in> fst ` set (?w i)" for i a
  proof -
    have "adresse_de b (place_de ?h i) = Some a \<or> cout_reduit_de b (place_de ?h i) = Some a"
      using that(2) unfolding w [OF that(1)]
      by (cases "adresse_de b (place_de ?h i)"; cases "cout_reduit_de b (place_de ?h i)") auto
    then show ?thesis using adresse_de_valide [OF R that(1)] adresse_de_place [OF R that(1)] adresse_de_marginale by blast
  qed
  show "\<And>a. a \<in> fst ` set (ecritures_variables w [0..<nb_variables ?h]) \<Longrightarrow>
      adresse_valide ?h a \<and> \<not> est_marginale a \<and> (\<exists>k < nb_variables ?h. place_de ?h k = place_ecrivant b a)"
    using a unfolding ecritures_variables_def by (fastforce simp del: upt_rec_numeral)
  have "distinct (map fst (?w i))" if "i < nb_variables ?h" for i
  proof -
    have "adresse_de b q \<noteq> Some a \<or> cout_reduit_de b q \<noteq> Some a" for q a
      by (cases q) (rename_tac c t l, case_tac c, auto)
    then show ?thesis unfolding w [OF that]
      by (cases "adresse_de b (place_de ?h i)"; cases "cout_reduit_de b (place_de ?h i)") auto
  qed
  moreover have "set (map fst (?w i)) \<inter> set (map fst (?w j)) = {}" if "i < nb_variables ?h" "j < nb_variables ?h" "i \<noteq> j" for i j
  proof -
    have "False" if x: "x \<in> fst ` set (?w i)" "x \<in> fst ` set (?w j)" for x
      using a [OF \<open>i < _\<close> x(1)] a [OF \<open>j < _\<close> x(2)] inj_onD [OF inj, of i j] that \<open>i < _\<close> \<open>j < _\<close> \<open>i \<noteq> j\<close> by simp
    then show ?thesis by auto
  qed
  ultimately have "distinct (concat (map (\<lambda>i. map fst (?w i)) [0..<nb_variables ?h]))"
    by (intro distinct_concat_mapI) simp_all
  then show "distinct (map fst (ecritures_variables w [0..<nb_variables ?h]))"
    by (simp add: ecritures_variables_def map_concat comp_def)
qed


subsection \<open>The rows\<close>

fun ligne_ecrivant :: "contexte_membres \<Rightarrow> adresse \<Rightarrow> place_ligne" where
  "ligne_ecrivant m (CoutsMarginauxHoraires_de pays t) = Nommee (Ligne NumeroDeContrainteDesBilansPays (t - mpremier m) pays)"
| "ligne_ecrivant m (VariablesDuales_de c t) =
     Nommee (case TypeDeContrainteCouplante (MatriceDesContraintesCouplantes (mh m) ! c) of
       CONTRAINTE_HORAIRE \<Rightarrow> Ligne NumeroDeContrainteDesContraintesCouplantes (t - mpremier m) c
     | CONTRAINTE_JOURNALIERE \<Rightarrow> LigneJour (if OptimisationAuPasHebdomadaire (mh m) then t else NumeroDeJourDuPasDeTemps (mh m) ! 0) c
     | CONTRAINTE_HEBDOMADAIRE \<Rightarrow> LigneHebdo c)"
| "ligne_ecrivant m _ = Anonyme 0"

lemma debut_unique:
  assumes R: "pass_membres m K s" and d: "d \<in> set (debuts_de_jour (mh m))" and j: "\<not> OptimisationAuPasHebdomadaire (mh m)"
  shows "d = 0"
proof -
  have "NombreDePasDeTempsPourUneOptimisation (mh m) = NombreDePasDeTempsDUneJournee (mh m)"
    using pass_membresD(6) [OF R] j by (simp add: horizon_choisi_def)
  then show ?thesis using d hebdo_ok_horizon(5) [OF pass_membresD(4) [OF R]] by (simp add: debuts_de_jour_def)
qed

lemma place_marginale:
  assumes q: "Nommee q \<in> places_membres m" and a: "marginal_de m q = Some a"
  shows "(\<exists>t pays. t < NombreDePasDeTempsPourUneOptimisation (mh m) \<and> pays < NombreDePays (mh m) \<and>
      q = Ligne NumeroDeContrainteDesBilansPays t pays) \<or>
    (\<exists>t c. t < NombreDePasDeTempsPourUneOptimisation (mh m) \<and> c < NombreDeContraintesCouplantes (mh m) \<and>
      TypeDeContrainteCouplante (MatriceDesContraintesCouplantes (mh m) ! c) = CONTRAINTE_HORAIRE \<and>
      q = Ligne NumeroDeContrainteDesContraintesCouplantes t c) \<or>
    (\<exists>d c. d \<in> set (debuts_de_jour (mh m)) \<and> c < NombreDeContraintesCouplantes (mh m) \<and>
      TypeDeContrainteCouplante (MatriceDesContraintesCouplantes (mh m) ! c) = CONTRAINTE_JOURNALIERE \<and>
      q = LigneJour (NumeroDeJourDuPasDeTemps (mh m) ! d) c) \<or>
    (\<exists>c. c < NombreDeContraintesCouplantes (mh m) \<and>
      TypeDeContrainteCouplante (MatriceDesContraintesCouplantes (mh m) ! c) = CONTRAINTE_HEBDOMADAIRE \<and> q = LigneHebdo c)"
  using q unfolding places_membres_def Let_def Un_iff
proof (elim disjE, goal_cases)
  case 1
  then show ?case using a by (fastforce simp: places_membres_heure_def split: if_splits)
next
  case 2
  then show ?case by (fastforce split: if_splits)
next
  case 3
  then show ?case by (fastforce split: if_splits)
qed (use a in \<open>auto split: if_splits\<close>)

lemma adresse_marginale_ok:
  assumes R: "pass_membres m K s" and i: "i < length (liste_lignes K)" and a: "adresse_marginale m (place_ligne K i) = Some a"
  shows "adresse_valide (mh m) a \<and> est_marginale a \<and> place_ligne K i = ligne_ecrivant m a"
proof -
  let ?h = "mh m"
  note h = pass_membresD(4) [OF R]
  obtain q where q: "place_ligne K i = Nommee q" "marginal_de m q = Some a"
    using a by (cases "place_ligne K i") (auto simp: adresse_marginale_def)
  have T: "mpremier m + t < NombreDePasDeTemps ?h" if "t < NombreDePasDeTempsPourUneOptimisation ?h" for t
    using pass_dims(3) [OF R] that by linarith
  have J: "NumeroDeJourDuPasDeTemps ?h ! t < 7" if "t < NombreDePasDeTemps ?h" for t
  proof -
    have "jours_ok ?h" using h unfolding hebdo_ok_def by blast
    then show ?thesis using that by (simp add: jours_ok_def list_all_length)
  qed
  have j: "jour_lu m (NumeroDeJourDuPasDeTemps ?h ! d) < 7" if "d \<in> set (debuts_de_jour ?h)" for d
  proof -
    have "d < NombreDePasDeTemps ?h" using jour_de_debut(1) [OF h pass_membresD(5) [OF R] that] h by simp
    moreover have "mpremier m < NombreDePasDeTemps ?h" using T [of 0] hebdo_ok_horizon(1) [OF h] by simp
    ultimately show ?thesis using J by (simp add: jour_lu_def)
  qed
  have l: "LigneJour (NumeroDeJourDuPasDeTemps ?h ! d) c = (LigneJour (if OptimisationAuPasHebdomadaire ?h
      then jour_lu m (NumeroDeJourDuPasDeTemps ?h ! d) else NumeroDeJourDuPasDeTemps ?h ! 0) c)" if "d \<in> set (debuts_de_jour ?h)" for d c
    using debut_unique [OF R that] by (simp add: jour_lu_def)
  have "Nommee q \<in> places_membres m" by (rule place_ecrite [OF pass_membresD(2) [OF R] i q(1)])
  from place_marginale [OF this q(2)] consider (bilan) t pays where "t < NombreDePasDeTempsPourUneOptimisation ?h" "pays < NombreDePays ?h"
      "q = Ligne NumeroDeContrainteDesBilansPays t pays"
    | (couplante) t c where "t < NombreDePasDeTempsPourUneOptimisation ?h" "c < NombreDeContraintesCouplantes ?h"
      "TypeDeContrainteCouplante (MatriceDesContraintesCouplantes ?h ! c) = CONTRAINTE_HORAIRE"
      "q = Ligne NumeroDeContrainteDesContraintesCouplantes t c"
    | (jour) d c where "d \<in> set (debuts_de_jour ?h)" "c < NombreDeContraintesCouplantes ?h"
      "TypeDeContrainteCouplante (MatriceDesContraintesCouplantes ?h ! c) = CONTRAINTE_JOURNALIERE"
      "q = LigneJour (NumeroDeJourDuPasDeTemps ?h ! d) c"
    | (semaine) c where "c < NombreDeContraintesCouplantes ?h"
      "TypeDeContrainteCouplante (MatriceDesContraintesCouplantes ?h ! c) = CONTRAINTE_HEBDOMADAIRE" "q = LigneHebdo c"
    by (elim disjE exE conjE) blast+
  then show ?thesis
  proof cases
    case bilan
    then show ?thesis using q T by auto
  next
    case couplante
    then show ?thesis using q T by auto
  next
    case jour
    then show ?thesis using q j [OF jour(1)] l [OF jour(1)] by auto
  next
    case semaine
    then show ?thesis using q by auto
  qed
qed

lemma marginaux_distincts:
  assumes R: "pass_membres m K s" and M: "membres_poses m K s'"
    and e: "ProblemeAResoudre (etat_de w) = ProblemeAResoudre s'"
  shows "distinct (map fst (ecritures_marginaux w [0..<length (liste_lignes K)]))"
    and "\<And>a. a \<in> fst ` set (ecritures_marginaux w [0..<length (liste_lignes K)]) \<Longrightarrow> adresse_valide (mh m) a \<and> est_marginale a"
proof -
  let ?n = "length (liste_lignes K)"
  let ?w = "\<lambda>i. ecriture (AdresseOuPlacerLaValeurDesCoutsMarginaux (ProblemeAResoudre (etat_de w)) ! i) (CoutsMarginauxDesContraintes w ! i)"
  have w: "?w i = ecriture (adresse_marginale m (place_ligne K i)) (CoutsMarginauxDesContraintes w ! i)" if "i < ?n" for i
    using M that by (simp add: membres_poses_def e Let_def)
  have a: "adresse_valide (mh m) a \<and> est_marginale a \<and> place_ligne K i = ligne_ecrivant m a"
    if "i < ?n" "a \<in> fst ` set (?w i)" for i a
    using that(2) adresse_marginale_ok [OF R that(1), of a] unfolding w [OF that(1)]
    by (cases "adresse_marginale m (place_ligne K i)") auto
  show "\<And>a. a \<in> fst ` set (ecritures_marginaux w [0..<?n]) \<Longrightarrow> adresse_valide (mh m) a \<and> est_marginale a"
    using a unfolding ecritures_marginaux_def by (fastforce simp del: upt_rec_numeral)
  note inj = place_ligne_injective [OF pass_membresD(3) [OF R]]
  have "distinct (map fst (?w i))" if "i < ?n" for i
    unfolding w [OF that] by (cases "adresse_marginale m (place_ligne K i)") auto
  moreover have "set (map fst (?w i)) \<inter> set (map fst (?w j)) = {}" if "i < ?n" "j < ?n" "i \<noteq> j" for i j
  proof -
    have "False" if x: "x \<in> fst ` set (?w i)" "x \<in> fst ` set (?w j)" for x
      using a [OF \<open>i < _\<close> x(1)] a [OF \<open>j < _\<close> x(2)] inj_onD [OF inj, of i j] \<open>i < _\<close> \<open>j < _\<close> \<open>i \<noteq> j\<close> by simp
    then show ?thesis by auto
  qed
  ultimately have "distinct (concat (map (\<lambda>i. map fst (?w i)) [0..<?n]))"
    by (intro distinct_concat_mapI) simp_all
  then show "distinct (map fst (ecritures_marginaux w [0..<?n]))"
    by (simp add: ecritures_marginaux_def map_concat comp_def)
qed

end
