(* ===== verification/Weekly_Optimisation.thy ===== *)
theory Weekly_Optimisation
  imports Solver_Addresses Thermal_Heuristic
begin

text \<open>
  One optimisation of a week: \<open>runWeeklyOptimization\<close> of \<open>src/src/solver/optimisation/opt_optimisation_lineaire.cpp\<close>.
  Range after range it fills the bounds, the right-hand sides and the costs of the linear problem and calls the
  solver; it stops at the first range without a solution. Main fact: on a constructed problem it always ends, the
  solver is only called on problems that are filled as the tables say, and a range that has a solution has its values
  at the addresses of its variables. The criterion file is not modelled.
\<close>

subsection \<open>The code\<close>

definition optimiser_intervalle ::
  "'l bibliotheque \<Rightarrow> options \<Rightarrow> PROBLEME_HEBDO \<Rightarrow> DONNEES \<Rightarrow> AdqPatchParams \<Rightarrow> numero_optimisation \<Rightarrow> nat \<Rightarrow> nat \<Rightarrow>
     'l SEMAINE \<Rightarrow> (bool \<times> 'l SEMAINE) resultat" where
  "optimiser_intervalle B op h d adq opt PremierPdt numeroDeLIntervalle w =
     (let DernierPdt = PremierPdt + NombreDePasDeTempsPourUneOptimisation h in
      bindE (OPT_InitialiserLesBornesDesVariablesDuProblemeLineaire h d adq PremierPdt DernierPdt opt
        (horaires (resultats_de w), etat_de w)) (\<lambda>(rs, s).
      bindE (OPT_InitialiserLeSecondMembreDuProblemeLineaire h d PremierPdt DernierPdt numeroDeLIntervalle opt s) (\<lambda>s.
      bindE (OPT_InitialiserLesCoutsLineaire h d PremierPdt DernierPdt s) (\<lambda>s.
      OPT_AppelDuSimplexe B op h numeroDeLIntervalle opt
        (w\<lparr>etat_de := s, resultats_de := (resultats_de w)\<lparr>horaires := rs\<rparr>\<rparr>)))))"

text \<open>The loop over the ranges; one unit of fuel is one range, so the hours of the week are enough.\<close>

fun boucle_intervalles ::
  "'l bibliotheque \<Rightarrow> options \<Rightarrow> PROBLEME_HEBDO \<Rightarrow> DONNEES \<Rightarrow> AdqPatchParams \<Rightarrow> numero_optimisation \<Rightarrow> nat \<Rightarrow> nat \<Rightarrow> nat \<Rightarrow>
     'l SEMAINE \<Rightarrow> (bool \<times> 'l SEMAINE) resultat" where
  "boucle_intervalles B op h d adq opt 0 pdtHebdo n w =
     (if pdtHebdo < NombreDePasDeTemps h then Inl CarburantEpuise else Inr (True, w))"
| "boucle_intervalles B op h d adq opt (Suc fuel) pdtHebdo n w =
     (if pdtHebdo < NombreDePasDeTemps h
      then bindE (optimiser_intervalle B op h d adq opt pdtHebdo n w) (\<lambda>(succes, w).
        if succes then boucle_intervalles B op h d adq opt fuel (pdtHebdo + NombreDePasDeTempsPourUneOptimisation h) (Suc n) w
        else Inr (False, w))
      else Inr (True, w))"

definition runWeeklyOptimization ::
  "'l bibliotheque \<Rightarrow> options \<Rightarrow> PROBLEME_HEBDO \<Rightarrow> DONNEES \<Rightarrow> AdqPatchParams \<Rightarrow> numero_optimisation \<Rightarrow> 'l SEMAINE \<Rightarrow>
     (bool \<times> 'l SEMAINE) resultat" where
  "runWeeklyOptimization B op h d adq opt w = boucle_intervalles B op h d adq opt (NombreDePasDeTemps h) 0 0 w"


subsection \<open>What the passes keep\<close>

text \<open>The structure of the problem: the numbers of its variables and constraints, and its rows.\<close>

definition meme_structure :: "etat \<Rightarrow> etat \<Rightarrow> bool" where
  "meme_structure s s' \<longleftrightarrow> lecture s' = lecture s \<and> lecture_cnt s' = lecture_cnt s \<and>
     (let p = ProblemeAResoudre s; p' = ProblemeAResoudre s' in NombreDeVariables p' = NombreDeVariables p \<and>
        NombreDeContraintes p' = NombreDeContraintes p \<and> lignes p' = lignes p \<and> Sens p' = Sens p)"

lemma lecture_avec_probleme: "lecture (s\<lparr>ProblemeAResoudre := p\<rparr>) = lecture s"
proof
  show "lecture (s\<lparr>ProblemeAResoudre := p\<rparr>) q = lecture s q" for q by (cases q) simp_all
qed

lemma lecture_cnt_probleme: "lecture_cnt (s\<lparr>ProblemeAResoudre := p\<rparr>) = lecture_cnt s"
  by (rule lecture_cnt_cong) simp_all

lemma memeI:
  assumes "f s' = f s" and "\<And>s. lecture (f s) = lecture s" and "\<And>s. lecture_cnt (f s) = lecture_cnt s"
    and "\<And>s. NombreDeVariables (ProblemeAResoudre (f s)) = NombreDeVariables (ProblemeAResoudre s)"
    and "\<And>s. NombreDeContraintes (ProblemeAResoudre (f s)) = NombreDeContraintes (ProblemeAResoudre s)"
    and "\<And>s. lignes (ProblemeAResoudre (f s)) = lignes (ProblemeAResoudre s)"
    and "\<And>s. Sens (ProblemeAResoudre (f s)) = Sens (ProblemeAResoudre s)"
  shows "meme_structure s s'"
  unfolding meme_structure_def Let_def using assms by metis

lemma passes_structure:
  "hors_bornes s' = hors_bornes s \<Longrightarrow> meme_structure s s'"
  "hors_membres s' = hors_membres s \<Longrightarrow> meme_structure s s'"
  "hors_couts s' = hors_couts s \<Longrightarrow> meme_structure s s'"
  by (erule memeI; simp add: hors_bornes_def sans_bornes_def hors_membres_def sans_membres_def hors_couts_def
      lecture_avec_probleme lecture_cnt_probleme lignes_def ligne_at_def)+

lemma meme_structure_trans: "meme_structure s s' \<Longrightarrow> meme_structure s' s'' \<Longrightarrow> meme_structure s s''"
  by (simp add: meme_structure_def Let_def)

text \<open>What each pass leaves to the others.\<close>

lemma hors_membres_garde:
  assumes "hors_membres s' = hors_membres s"
  shows "Xmin (ProblemeAResoudre s') = Xmin (ProblemeAResoudre s)" "Xmax (ProblemeAResoudre s') = Xmax (ProblemeAResoudre s)"
    "TypeDeVariable (ProblemeAResoudre s') = TypeDeVariable (ProblemeAResoudre s)"
    "AdresseOuPlacerLaValeurDesVariablesOptimisees (ProblemeAResoudre s') = AdresseOuPlacerLaValeurDesVariablesOptimisees (ProblemeAResoudre s)"
    "AdresseOuPlacerLaValeurDesCoutsReduits (ProblemeAResoudre s') = AdresseOuPlacerLaValeurDesCoutsReduits (ProblemeAResoudre s)"
  using arg_cong [OF assms, of "Xmin \<circ> ProblemeAResoudre"] arg_cong [OF assms, of "Xmax \<circ> ProblemeAResoudre"]
    arg_cong [OF assms, of "TypeDeVariable \<circ> ProblemeAResoudre"]
    arg_cong [OF assms, of "AdresseOuPlacerLaValeurDesVariablesOptimisees \<circ> ProblemeAResoudre"]
    arg_cong [OF assms, of "AdresseOuPlacerLaValeurDesCoutsReduits \<circ> ProblemeAResoudre"]
  by (simp_all add: hors_membres_def sans_membres_def)

lemma hors_couts_garde:
  assumes "hors_couts s' = hors_couts s"
  shows "Xmin (ProblemeAResoudre s') = Xmin (ProblemeAResoudre s)" "Xmax (ProblemeAResoudre s') = Xmax (ProblemeAResoudre s)"
    "TypeDeVariable (ProblemeAResoudre s') = TypeDeVariable (ProblemeAResoudre s)"
    "AdresseOuPlacerLaValeurDesVariablesOptimisees (ProblemeAResoudre s') = AdresseOuPlacerLaValeurDesVariablesOptimisees (ProblemeAResoudre s)"
    "AdresseOuPlacerLaValeurDesCoutsReduits (ProblemeAResoudre s') = AdresseOuPlacerLaValeurDesCoutsReduits (ProblemeAResoudre s)"
    "SecondMembre (ProblemeAResoudre s') = SecondMembre (ProblemeAResoudre s)"
    "AdresseOuPlacerLaValeurDesCoutsMarginaux (ProblemeAResoudre s') = AdresseOuPlacerLaValeurDesCoutsMarginaux (ProblemeAResoudre s)"
  using arg_cong [OF assms, of "Xmin \<circ> ProblemeAResoudre"] arg_cong [OF assms, of "Xmax \<circ> ProblemeAResoudre"]
    arg_cong [OF assms, of "TypeDeVariable \<circ> ProblemeAResoudre"]
    arg_cong [OF assms, of "AdresseOuPlacerLaValeurDesVariablesOptimisees \<circ> ProblemeAResoudre"]
    arg_cong [OF assms, of "AdresseOuPlacerLaValeurDesCoutsReduits \<circ> ProblemeAResoudre"]
    arg_cong [OF assms, of "SecondMembre \<circ> ProblemeAResoudre"]
    arg_cong [OF assms, of "AdresseOuPlacerLaValeurDesCoutsMarginaux \<circ> ProblemeAResoudre"]
  by (simp_all add: hors_couts_def)

lemma alloue_couts:
  assumes e: "hors_couts s' = hors_couts s" and a: "alloue h s"
    and l: "length (CoutLineaire (ProblemeAResoudre s')) = nb_variables_prevues h"
      "length (CoutQuadratique (ProblemeAResoudre s')) \<le> nb_variables_prevues h"
  shows "alloue h s'"
proof -
  obtain p' where p': "s' = s\<lparr>ProblemeAResoudre := p'\<rparr>"
    "p'\<lparr>CoutQuadratique := [], CoutLineaire := []\<rparr> = (ProblemeAResoudre s)\<lparr>CoutQuadratique := [], CoutLineaire := []\<rparr>"
    using e by (cases s; cases s') (simp add: hors_couts_def)
  obtain q l' where "p' = (ProblemeAResoudre s)\<lparr>CoutQuadratique := q, CoutLineaire := l'\<rparr>"
    using p'(2) by (cases p'; cases "ProblemeAResoudre s") simp
  with a l show ?thesis
    by (simp add: p'(1) alloue_def alloue_matrice_def dims_variables_def dims_cnt_def vecteurs_alloues_def cote_vecteurs_def Let_def)
qed

text \<open>A problem with numbered variables and constraints, whose rows are those of the context.\<close>

definition probleme_pret :: "PROBLEME_HEBDO \<Rightarrow> contexte \<Rightarrow> etat \<Rightarrow> bool" where
  "probleme_pret h K s \<longleftrightarrow> pret_a_remplir h s \<and> contraintes_numerotees K s \<and> lignes (ProblemeAResoudre s) = liste_lignes K \<and>
     length (liste_lignes K) \<le> nb_contraintes_prevues h \<and> kh K = h \<and> jours_numerotes h \<and> horizon_choisi h"

lemma probleme_pret_structure:
  assumes "probleme_pret h K s" and "meme_structure s s'" and "alloue h s'"
  shows "probleme_pret h K s'"
  using assms by (auto simp: probleme_pret_def meme_structure_def Let_def pret_a_remplir_def variables_numerotees_def
      contraintes_numerotees_def)


subsection \<open>A filled problem\<close>

abbreviation contexte_bornes_de ::
  "PROBLEME_HEBDO \<Rightarrow> DONNEES \<Rightarrow> AdqPatchParams \<Rightarrow> numero_optimisation \<Rightarrow> RESULTATS_HORAIRES list \<Rightarrow> nat \<Rightarrow> contexte_bornes" where
  "contexte_bornes_de h d adq opt rs premier \<equiv>
     \<lparr>bh = h, bd = d, badq = adq, bopt = opt, brs = rs, bpremier = premier\<rparr>"

definition membres_du :: "contexte_bornes \<Rightarrow> nat \<Rightarrow> contexte_membres" where
  "membres_du b n = \<lparr>mh = bh b, md = bd b, mopt = bopt b, mpremier = bpremier b, mintervalle = n\<rparr>"

lemma membres_du_sel [simp]:
  "mh (membres_du b n) = bh b" "md (membres_du b n) = bd b" "mopt (membres_du b n) = bopt b"
  "mpremier (membres_du b n) = bpremier b" "mintervalle (membres_du b n) = n"
  by (simp_all add: membres_du_def)

text \<open>The linear problem of a range, as the tables of the bounds, of the costs and of the right-hand sides give it.\<close>

definition probleme_rempli :: "contexte_bornes \<Rightarrow> contexte \<Rightarrow> nat \<Rightarrow> PROBLEME_ANTARES_A_RESOUDRE \<Rightarrow> bool" where
  "probleme_rempli b K n p \<longleftrightarrow> (let h = bh b in
     NombreDeVariables p = nb_variables h \<and> lignes p = liste_lignes K \<and>
     (\<forall>k < nb_variables h. let q = place_de h k in
        Xmin p ! k = xmin_de b q \<and> Xmax p ! k = xmax_de b q \<and> CoutLineaire p ! k = cout_de h (bd b) (bpremier b) q) \<and>
     (\<forall>i < length (liste_lignes K). SecondMembre p ! i = valeur_membre (membres_du b n) (place_ligne K i)))"

text \<open>The values of a solution, at the addresses of the variables and of the rows.\<close>

definition valeurs_placees :: "contexte_bornes \<Rightarrow> contexte \<Rightarrow> nat \<Rightarrow> 'l SEMAINE \<Rightarrow> bool" where
  "valeurs_placees b K n w \<longleftrightarrow>
     (\<forall>k < nb_variables (bh b). \<forall>a.
        (adresse_de b (place_de (bh b) k) = Some a \<longrightarrow> contenu (resultats_de w) a = ValeursX w ! k) \<and>
        (cout_reduit_de b (place_de (bh b) k) = Some a \<longrightarrow> contenu (resultats_de w) a = CoutsReduits w ! k)) \<and>
     (\<forall>i < length (liste_lignes K). \<forall>a. adresse_marginale (membres_du b n) (place_ligne K i) = Some a \<longrightarrow>
        contenu (resultats_de w) a = CoutsMarginauxDesContraintes w ! i)"

definition intervalle_resolu ::
  "contexte_bornes \<Rightarrow> contexte \<Rightarrow> nat \<Rightarrow> 'l SEMAINE \<Rightarrow> bool" where
  "intervalle_resolu b K n w \<longleftrightarrow> ExistenceDUneSolution w = OUI_SPX \<and> probleme_rempli b K n (ProblemeAResoudre (etat_de w)) \<and>
     valeurs_placees b K n w \<and>
     cout_note (bopt b) w ! n = (\<Sum>k < nb_variables (bh b). cout_de (bh b) (bd b) (bpremier b) (place_de (bh b) k) * ValeursX w ! k)"

text \<open>The state of the week between two ranges.\<close>

definition semaine_prete :: "PROBLEME_HEBDO \<Rightarrow> contexte \<Rightarrow> 'l SEMAINE \<Rightarrow> bool" where
  "semaine_prete h K w \<longleftrightarrow> probleme_pret h K (etat_de w) \<and> resultats_semaine_ok h (resultats_de w) \<and>
     nb_intervalles h \<le> length (ProblemesSpx w) \<and> nb_intervalles h \<le> length (coutOptimalSolution1 w) \<and>
     nb_intervalles h \<le> length (coutOptimalSolution2 w)"

text \<open>The problems the solver is called on in an optimisation of a week.\<close>

definition probleme_de_semaine ::
  "PROBLEME_HEBDO \<Rightarrow> DONNEES \<Rightarrow> AdqPatchParams \<Rightarrow> numero_optimisation \<Rightarrow> contexte \<Rightarrow> PROBLEME_ANTARES_A_RESOUDRE \<Rightarrow> bool" where
  "probleme_de_semaine h d adq opt K p \<longleftrightarrow> (\<exists>n < nb_intervalles h. \<exists>rs.
     probleme_rempli (contexte_bornes_de h d adq opt rs (n * NombreDePasDeTempsPourUneOptimisation h)) K n p)"

text \<open>After the three passes.\<close>

definition passes_faites :: "contexte_bornes \<Rightarrow> contexte \<Rightarrow> nat \<Rightarrow> etat \<Rightarrow> etat \<Rightarrow> bool" where
  "passes_faites b K n s s' \<longleftrightarrow> probleme_pret (bh b) K s' \<and> bornes_posees b s s' \<and> membres_poses (membres_du b n) K s' \<and>
     probleme_rempli b K n (ProblemeAResoudre s') \<and>
     length (CoutLineaire (ProblemeAResoudre s')) = nb_variables_prevues (bh b)"

lemma passe_membres:
  assumes P: "probleme_pret h K s" and d: "donnees_hebdo_ok h d" and n: "n < nb_intervalles h"
    and b: "bh b = h" "bd b = d" "bpremier b = n * NombreDePasDeTempsPourUneOptimisation h"
  shows "pass_membres (membres_du b n) K s" and "remplissage h d s (bpremier b)"
proof -
  have R: "pret_a_remplir h s" using P by (simp add: probleme_pret_def)
  note h = remplir_ok(1) [OF R]
  have T: "NombreDePasDeTemps h = nb_intervalles h * NombreDePasDeTempsPourUneOptimisation h"
    using hebdo_ok_horizon(2) [OF h] by (simp add: nb_intervalles_def)
  have "Suc n * NombreDePasDeTempsPourUneOptimisation h \<le> NombreDePasDeTemps h"
    unfolding T using n by (intro mult_le_mono1) simp
  then show R': "remplissage h d s (bpremier b)" using R d by (simp add: remplissage_def b)
  have D: "nb_intervalles h \<le> NombreDeJours h"
  proof -
    have "passes_ok h" using h P by (simp add: passes_ok_hebdo probleme_pret_def)
    note j = intervalles_jours [OF this]
    have "nb_intervalles h * 1 \<le> nb_intervalles h * jours_par_intervalle h" by (rule mult_le_mono2) (use j(2) in simp)
    then show ?thesis using j(1) by simp
  qed
  show "pass_membres (membres_du b n) K s"
    using P R' n D by (auto simp: pass_membres_def probleme_pret_def b)
qed

lemma passes_intervalle_ok:
  fixes adq :: AdqPatchParams and opt :: numero_optimisation
  assumes P: "probleme_pret h K s" and d: "donnees_hebdo_ok h d" and n: "n < nb_intervalles h" and rs: "resultats_ok h rs"
  defines "premier \<equiv> n * NombreDePasDeTempsPourUneOptimisation h"
  defines "b \<equiv> contexte_bornes_de h d adq opt rs premier"
  shows "returns (bindE (OPT_InitialiserLesBornesDesVariablesDuProblemeLineaire h d adq premier
        (premier + NombreDePasDeTempsPourUneOptimisation h) opt (rs, s)) (\<lambda>(rs, s).
      bindE (OPT_InitialiserLeSecondMembreDuProblemeLineaire h d premier (premier + NombreDePasDeTempsPourUneOptimisation h) n opt s) (\<lambda>s.
      bindE (OPT_InitialiserLesCoutsLineaire h d premier (premier + NombreDePasDeTempsPourUneOptimisation h) s) (\<lambda>s. Inr (rs, s)))))
    (\<lambda>(rs', s'). resultats_ok h rs' \<and> map ValeursHorairesDENS rs' = map ValeursHorairesDENS rs \<and> passes_faites b K n s s')"
proof -
  let ?T = "NombreDePasDeTempsPourUneOptimisation h" and ?m = "membres_du b n"
  have b: "bh b = h" "bd b = d" "badq b = adq" "bopt b = opt" "brs b = rs" "bpremier b = premier" by (simp_all add: b_def)
  note p = passe_membres [OF _ d n b(1,2) b(6) [unfolded premier_def], folded premier_def, unfolded b(6)]
  have B: "pass_bornes b s" using p(2) [OF P] rs by (simp add: pass_bornes_def b)
  have B': "returns (OPT_InitialiserLesBornesDesVariablesDuProblemeLineaire h d adq premier (premier + ?T) opt (rs, s))
      (\<lambda>(rs', s'). resultats_ok h rs' \<and> map ValeursHorairesDENS rs' = map ValeursHorairesDENS rs \<and>
      hors_bornes s' = hors_bornes s \<and> alloue h s' \<and> bornes_posees b s s')"
    using OPT_InitialiserLesBornes_ok [OF B] unfolding b .
  show ?thesis
    unfolding returns_bindE
  proof (rule returns_mono [OF B'], clarsimp simp del: returns_bindE)
    fix rs1 s1
    assume r1: "resultats_ok h rs1" "map ValeursHorairesDENS rs1 = map ValeursHorairesDENS rs"
      and s1: "hors_bornes s1 = hors_bornes s" "alloue h s1" "bornes_posees b s s1"
    have P1: "probleme_pret h K s1" by (rule probleme_pret_structure [OF P passes_structure(1) [OF s1(1)] s1(2)])
    have M: "returns (OPT_InitialiserLeSecondMembreDuProblemeLineaire h d premier (premier + ?T) n opt s1)
        (\<lambda>s'. hors_membres s' = hors_membres s1 \<and> alloue h s' \<and> membres_poses ?m K s')"
      using OPT_InitialiserLeSecondMembre_ok [OF p(1) [OF P1]] P1 by (simp add: b probleme_pret_def)
    show "returns (bindE (OPT_InitialiserLeSecondMembreDuProblemeLineaire h d premier (premier + ?T) n opt s1) (\<lambda>s.
        bindE (OPT_InitialiserLesCoutsLineaire h d premier (premier + ?T) s) (\<lambda>s. Inr (rs1, s))))
        (\<lambda>(rs', s'). resultats_ok h rs' \<and> map ValeursHorairesDENS rs' = map ValeursHorairesDENS rs \<and> passes_faites b K n s s')"
      unfolding returns_bindE
    proof (rule returns_mono [OF M], elim conjE)
      fix s2 assume s2: "hors_membres s2 = hors_membres s1" "alloue h s2" "membres_poses ?m K s2"
      have P2: "probleme_pret h K s2" by (rule probleme_pret_structure [OF P1 passes_structure(2) [OF s2(1)] s2(2)])
      have C: "returns (OPT_InitialiserLesCoutsLineaire h d premier (premier + ?T) s2) (\<lambda>s'. hors_couts s' = hors_couts s2 \<and>
          length (CoutLineaire (ProblemeAResoudre s')) = nb_variables_prevues h \<and>
          CoutQuadratique (ProblemeAResoudre s') = replicate (nb_variables h) 0 \<and>
          (\<forall>i < nb_variables h. CoutLineaire (ProblemeAResoudre s') ! i = cout_de h d premier (place_de h i)))"
        using OPT_InitialiserLesCouts_ok [OF p(2) [OF P2]] .
      show "returns (OPT_InitialiserLesCoutsLineaire h d premier (premier + ?T) s2) (\<lambda>a. returns (Inr (rs1, a)) (\<lambda>(rs', s'). resultats_ok h rs' \<and> map ValeursHorairesDENS rs' = map ValeursHorairesDENS rs \<and> passes_faites b K n s s'))"
      proof (rule returns_mono [OF C], elim conjE)
        fix s3 assume s3: "hors_couts s3 = hors_couts s2" "length (CoutLineaire (ProblemeAResoudre s3)) = nb_variables_prevues h"
          "CoutQuadratique (ProblemeAResoudre s3) = replicate (nb_variables h) 0"
          "\<forall>i < nb_variables h. CoutLineaire (ProblemeAResoudre s3) ! i = cout_de h d premier (place_de h i)"
        have R2: "pret_a_remplir h s2" using P2 by (simp add: probleme_pret_def)
        have "alloue h s3" by (rule alloue_couts [OF s3(1) s2(2) s3(2)]) (use s3(3) remplir_ok(7) [OF R2] in simp)
        then have P3: "probleme_pret h K s3" by (rule probleme_pret_structure [OF P2 passes_structure(3) [OF s3(1)]])
        note g2 = hors_membres_garde [OF s2(1)] and g3 = hors_couts_garde [OF s3(1)]
        have B3: "bornes_posees b s s3" using s1(3) by (simp add: bornes_posees_def g2 g3 Let_def)
        have M3: "membres_poses ?m K s3" using s2(3) by (simp add: membres_poses_def g3 Let_def)
        have "probleme_rempli b K n (ProblemeAResoudre s3)"
          using P3 B3 M3 s3(4) by (simp add: probleme_rempli_def probleme_pret_def pret_a_remplir_def variables_numerotees_def
              bornes_posees_def membres_poses_def b Let_def)
        then show "returns (Inr (rs1, s3)) (\<lambda>(rs', s'). resultats_ok h rs' \<and> map ValeursHorairesDENS rs' = map ValeursHorairesDENS rs \<and>
            passes_faites b K n s s')"
          using r1 P3 B3 M3 s3(2) by (simp add: passes_faites_def b)
      qed
    qed
  qed
qed


subsection \<open>One range\<close>

lemma passes_faites_pointeurs:
  assumes R: "pass_bornes b s" and M: "pass_membres (membres_du b n) K s" and F: "passes_faites b K n s s'"
  shows "pointeurs_ok (bh b) (ProblemeAResoudre s')"
proof -
  let ?p = "ProblemeAResoudre s'" and ?h = "bh b"
  have P: "probleme_pret ?h K s'" and B: "bornes_posees b s s'" and S: "membres_poses (membres_du b n) K s'"
    and l: "length (CoutLineaire ?p) = nb_variables_prevues ?h"
    using F by (simp_all add: passes_faites_def)
  have pret: "pret_a_remplir ?h s'" using P by (simp add: probleme_pret_def)
  have nv: "NombreDeVariables ?p = nb_variables ?h" "nb_variables ?h \<le> nb_variables_prevues ?h"
    using remplir_ok(6,7) [OF pret] .
  have nc: "NombreDeContraintes ?p = length (liste_lignes K)" "length (liste_lignes K) \<le> nb_contraintes_prevues ?h"
    using P by (simp_all add: probleme_pret_def contraintes_numerotees_def)
  have a: "length (AdresseOuPlacerLaValeurDesVariablesOptimisees ?p) = nb_variables_prevues ?h"
    "length (AdresseOuPlacerLaValeurDesCoutsReduits ?p) = nb_variables_prevues ?h"
    "length (AdresseOuPlacerLaValeurDesCoutsMarginaux ?p) = nb_contraintes_prevues ?h"
    using remplir_ok(4) [OF pret] by (simp_all add: alloue_def vecteurs_alloues_def cote_vecteurs_def)
  have "adresse_valide ?h x" if "i < nb_variables ?h" "Some x \<in> {AdresseOuPlacerLaValeurDesVariablesOptimisees ?p ! i,
      AdresseOuPlacerLaValeurDesCoutsReduits ?p ! i}" for i x
  proof (rule adresse_de_valide [OF R that(1)])
    show "adresse_de b (place_de ?h i) = Some x \<or> cout_reduit_de b (place_de ?h i) = Some x"
      using that B by (auto simp: bornes_posees_def Let_def)
  qed
  moreover have "adresse_valide ?h x" if i: "i < length (liste_lignes K)" and x: "AdresseOuPlacerLaValeurDesCoutsMarginaux ?p ! i = Some x" for i x
  proof -
    have "adresse_marginale (membres_du b n) (place_ligne K i) = Some x"
      using i x S by (simp add: membres_poses_def Let_def)
    from adresse_marginale_ok [OF M i this] show ?thesis by simp
  qed
  ultimately show ?thesis
    using nv nc a l by (simp add: pointeurs_ok_def)
qed

text \<open>The values written at the end of a call are found at the addresses of the tables.\<close>

lemma appel_valeurs:
  assumes R: "pass_bornes b s" and M: "pass_membres (membres_du b n) K s" and F: "passes_faites b K n s s'"
    and w: "ProblemeAResoudre (etat_de w) = ProblemeAResoudre s'" and W: "ecrits (bh b) R0 (ecritures_appel w) (resultats_de w)"
  shows "valeurs_placees b K n w"
proof -
  let ?p = "ProblemeAResoudre s'" and ?h = "bh b"
  have P: "probleme_pret ?h K s'" and B: "bornes_posees b s s'" and S: "membres_poses (membres_du b n) K s'"
    using F by (simp_all add: passes_faites_def)
  have pret: "pret_a_remplir ?h s'" using P by (simp add: probleme_pret_def)
  have nv: "NombreDeVariables ?p = nb_variables ?h" using remplir_ok(6) [OF pret] .
  have nc: "NombreDeContraintes ?p = length (liste_lignes K)"
    using P by (simp add: probleme_pret_def contraintes_numerotees_def)
  note V = adresses_distinctes [OF R B nv w] and C = marginaux_distincts [OF M S w]
  have pl: "ecritures_appel w = ecritures_variables w [0..<nb_variables ?h] @ ecritures_marginaux w [0..<length (liste_lignes K)]"
    by (simp add: ecritures_appel_def w nv nc)
  have d: "distinct (map fst (ecritures_appel w))"
    using V C unfolding pl map_append distinct_append by fastforce
  have lu: "contenu (resultats_de w) a = v" if "(a, v) \<in> set (ecritures_appel w)" for a v
  proof -
    have "a \<in> fst ` set (ecritures_appel w)" using that by force
    then have "adresse_valide ?h a" using V(2) C(2) by (auto simp: pl)
    then show ?thesis using W ecritures_dans [OF d that] by (simp add: ecrits_def)
  qed
  have v: "(a, ValeursX w ! k) \<in> set (ecritures_appel w)" if "k < nb_variables ?h" "adresse_de b (place_de ?h k) = Some a" for k a
  proof -
    have "AdresseOuPlacerLaValeurDesVariablesOptimisees ?p ! k = Some a" using B that by (simp add: bornes_posees_def Let_def)
    then show ?thesis using that(1) ecritures_variables_dans [of k "[0..<nb_variables ?h]" w a] by (simp add: pl w)
  qed
  have r: "(a, CoutsReduits w ! k) \<in> set (ecritures_appel w)" if "k < nb_variables ?h" "cout_reduit_de b (place_de ?h k) = Some a" for k a
  proof -
    have "AdresseOuPlacerLaValeurDesCoutsReduits ?p ! k = Some a" using B that by (simp add: bornes_posees_def Let_def)
    then show ?thesis using that(1) ecritures_variables_dans [of k "[0..<nb_variables ?h]" w a] by (simp add: pl w)
  qed
  have c: "(a, CoutsMarginauxDesContraintes w ! i) \<in> set (ecritures_appel w)"
    if "i < length (liste_lignes K)" "adresse_marginale (membres_du b n) (place_ligne K i) = Some a" for i a
  proof -
    have "AdresseOuPlacerLaValeurDesCoutsMarginaux ?p ! i = Some a" using S that by (simp add: membres_poses_def Let_def)
    then show ?thesis using that(1) ecritures_variables_dans [of i "[0..<length (liste_lignes K)]" w a] by (simp add: pl w)
  qed
  show ?thesis using lu v r c by (simp add: valeurs_placees_def)
qed

text \<open>A range: the state stays ready, and a range with a solution is solved.\<close>

lemma optimiser_intervalle_ok:
  fixes adq :: AdqPatchParams and opt :: numero_optimisation
  assumes W: "semaine_prete h K w" and d: "donnees_hebdo_ok h d" and n: "n < nb_intervalles h"
    and S: "solveur_ok B (probleme_de_semaine h d adq opt K)"
  defines "b \<equiv> contexte_bornes_de h d adq opt (horaires (resultats_de w)) (n * NombreDePasDeTempsPourUneOptimisation h)"
  shows "returns (optimiser_intervalle B op h d adq opt (n * NombreDePasDeTempsPourUneOptimisation h) n w)
    (\<lambda>(succes, w'). semaine_prete h K w' \<and>
      map ValeursHorairesDENS (horaires (resultats_de w')) = map ValeursHorairesDENS (horaires (resultats_de w)) \<and>
      (succes \<longleftrightarrow> ExistenceDUneSolution w' = OUI_SPX) \<and> (succes \<longrightarrow> intervalle_resolu b K n w'))"
proof -
  let ?T = "NombreDePasDeTempsPourUneOptimisation h" and ?rs = "horaires (resultats_de w)"
  have P: "probleme_pret h K (etat_de w)" and rs: "resultats_ok h ?rs"
    and l: "nb_intervalles h \<le> length (ProblemesSpx w)" "nb_intervalles h \<le> length (coutOptimalSolution1 w)"
      "nb_intervalles h \<le> length (coutOptimalSolution2 w)"
    using W by (simp_all add: semaine_prete_def resultats_semaine_ok_def)
  have b: "bh b = h" "bd b = d" "badq b = adq" "bopt b = opt" "brs b = ?rs" "bpremier b = n * ?T" by (simp_all add: b_def)
  note pass = passe_membres [OF P d n b(1,2,6), unfolded b(6)]
  have R: "pass_bornes b (etat_de w)" using pass(2) rs by (simp add: pass_bornes_def b)
  have A: "returns (OPT_AppelDuSimplexe B op h n opt (w\<lparr>etat_de := s', resultats_de := (resultats_de w)\<lparr>horaires := rs'\<rparr>\<rparr>))
      (\<lambda>(succes, w'). semaine_prete h K w' \<and> map ValeursHorairesDENS (horaires (resultats_de w')) = map ValeursHorairesDENS ?rs \<and>
      (succes \<longleftrightarrow> ExistenceDUneSolution w' = OUI_SPX) \<and> (succes \<longrightarrow> intervalle_resolu b K n w'))"
    if rs': "resultats_ok h rs'" "map ValeursHorairesDENS rs' = map ValeursHorairesDENS ?rs"
      and F: "passes_faites b K n (etat_de w) s'" for rs' s'
  proof -
    let ?w = "w\<lparr>etat_de := s', resultats_de := (resultats_de w)\<lparr>horaires := rs'\<rparr>\<rparr>"
    have p: "probleme_pret h K s'" "probleme_rempli b K n (ProblemeAResoudre s')"
      using F by (simp_all add: passes_faites_def b)
    have ptr: "pointeurs_ok h (ProblemeAResoudre s')"
      using passes_faites_pointeurs [OF R pass(1) F] by (simp add: b)
    have Q: "probleme_de_semaine h d adq opt K (ProblemeAResoudre (etat_de ?w))"
      using p(2) n by (auto simp: probleme_de_semaine_def b_def)
    have "returns (OPT_AppelDuSimplexe B op h n opt ?w) (\<lambda>(succes, w'). appel_fait h n opt ?w succes w')"
      by (rule OPT_AppelDuSimplexe_ok [OF S Q]) (use ptr rs' l n in \<open>simp_all add: resultats_semaine_ok_def\<close>)
    then show ?thesis
    proof (rule returns_mono, clarify)
      fix succes w' assume f: "appel_fait h n opt ?w succes w'"
      have e: "etat_de w' = s'" using f by (simp add: appel_fait_def)
      have "semaine_prete h K w'"
        using f l p(1) by (simp add: semaine_prete_def appel_fait_def)
      moreover have "map ValeursHorairesDENS (horaires (resultats_de w')) = map ValeursHorairesDENS ?rs"
        using f rs'(2) by (simp add: appel_fait_def)
      moreover have "succes \<longleftrightarrow> ExistenceDUneSolution w' = OUI_SPX" using f by (simp add: appel_fait_def)
      moreover have "intervalle_resolu b K n w'" if succes
      proof -
        have W': "ecrits (bh b) ((resultats_de w)\<lparr>horaires := rs'\<rparr>) (ecritures_appel w') (resultats_de w')"
          using f that by (simp add: appel_fait_def b)
        have v: "valeurs_placees b K n w'" by (rule appel_valeurs [OF R pass(1) F _ W']) (simp add: e)
        have nv: "NombreDeVariables (ProblemeAResoudre s') = nb_variables h"
          "\<And>k. k < nb_variables h \<Longrightarrow> CoutLineaire (ProblemeAResoudre s') ! k = cout_de h d (n * ?T) (place_de h k)"
          using p(2) by (simp_all add: probleme_rempli_def b Let_def)
        have "cout_note opt w' ! n = cout_de_solution (ProblemeAResoudre s') (ValeursX w')"
          using f that l n by (simp add: appel_fait_def cout_note_def split: if_splits)
        also have "\<dots> = (\<Sum>k < nb_variables h. cout_de h d (n * ?T) (place_de h k) * ValeursX w' ! k)"
          by (simp add: cout_de_solution_def nv)
        finally show ?thesis using v p(2) f that by (simp add: intervalle_resolu_def e b appel_fait_def)
      qed
      ultimately show "semaine_prete h K w' \<and> map ValeursHorairesDENS (horaires (resultats_de w')) = map ValeursHorairesDENS ?rs \<and>
        (succes \<longleftrightarrow> ExistenceDUneSolution w' = OUI_SPX) \<and> (succes \<longrightarrow> intervalle_resolu b K n w')" by blast
    qed
  qed
  from passes_intervalle_ok [OF P d n rs, of adq opt] obtain rs' s1 s2 s' where
    e: "OPT_InitialiserLesBornesDesVariablesDuProblemeLineaire h d adq (n * ?T) (n * ?T + ?T) opt (?rs, etat_de w) = Inr (rs', s1)"
      "OPT_InitialiserLeSecondMembreDuProblemeLineaire h d (n * ?T) (n * ?T + ?T) n opt s1 = Inr s2"
      "OPT_InitialiserLesCoutsLineaire h d (n * ?T) (n * ?T + ?T) s2 = Inr s'"
    and f: "resultats_ok h rs'" "map ValeursHorairesDENS rs' = map ValeursHorairesDENS ?rs" "passes_faites b K n (etat_de w) s'"
    unfolding b_def by (auto elim!: returnsE simp: bindE_def split: sum.splits)
  show ?thesis
    unfolding optimiser_intervalle_def Let_def e bindE_simps prod.case by (rule A [OF f])
qed


subsection \<open>The week\<close>

text \<open>The states after the ranges that have a solution.\<close>

fun etapes ::
  "PROBLEME_HEBDO \<Rightarrow> DONNEES \<Rightarrow> AdqPatchParams \<Rightarrow> numero_optimisation \<Rightarrow> contexte \<Rightarrow> nat \<Rightarrow> 'l SEMAINE \<Rightarrow> 'l SEMAINE list \<Rightarrow> bool" where
  "etapes h d adq opt K n w [] \<longleftrightarrow> True"
| "etapes h d adq opt K n w (w' # ws) \<longleftrightarrow>
     intervalle_resolu (contexte_bornes_de h d adq opt (horaires (resultats_de w)) (n * NombreDePasDeTempsPourUneOptimisation h)) K n w' \<and>
     etapes h d adq opt K (Suc n) w' ws"

definition semaine_faite ::
  "PROBLEME_HEBDO \<Rightarrow> DONNEES \<Rightarrow> AdqPatchParams \<Rightarrow> numero_optimisation \<Rightarrow> contexte \<Rightarrow> nat \<Rightarrow> 'l SEMAINE \<Rightarrow> bool \<Rightarrow> 'l SEMAINE \<Rightarrow> bool" where
  "semaine_faite h d adq opt K n w succes w' \<longleftrightarrow> semaine_prete h K w' \<and>
     map ValeursHorairesDENS (horaires (resultats_de w')) = map ValeursHorairesDENS (horaires (resultats_de w)) \<and>
     (\<exists>ws. etapes h d adq opt K n w ws \<and> n + length ws \<le> nb_intervalles h \<and>
        (if succes then n + length ws = nb_intervalles h \<and> w' = last (w # ws)
         else n + length ws < nb_intervalles h \<and> ExistenceDUneSolution w' \<noteq> OUI_SPX))"

lemma boucle_intervalles_ok:
  fixes w :: "'l SEMAINE"
  assumes d: "donnees_hebdo_ok h d" and S: "solveur_ok B (probleme_de_semaine h d adq opt K)"
    and W: "semaine_prete h K w" and n: "n \<le> nb_intervalles h" "nb_intervalles h \<le> n + fuel"
  shows "returns (boucle_intervalles B op h d adq opt fuel (n * NombreDePasDeTempsPourUneOptimisation h) n w)
    (\<lambda>(succes, w'). semaine_faite h d adq opt K n w succes w')"
  using W n
proof (induction fuel arbitrary: n w)
  case (0 n w)
  have h: "hebdo_ok h" using 0(1) remplir_ok(1) by (auto simp: semaine_prete_def probleme_pret_def)
  have "NombreDePasDeTemps h = nb_intervalles h * NombreDePasDeTempsPourUneOptimisation h"
    using hebdo_ok_horizon(2) [OF h] by (simp add: nb_intervalles_def)
  moreover have "n = nb_intervalles h" using 0(2,3) by simp
  ultimately show ?case using 0(1) by (auto simp: semaine_faite_def intro!: exI [of _ "[]"])
next
  case (Suc fuel n w)
  let ?T = "NombreDePasDeTempsPourUneOptimisation h"
  have h: "hebdo_ok h" using Suc.prems(1) remplir_ok(1) by (auto simp: semaine_prete_def probleme_pret_def)
  have N: "NombreDePasDeTemps h = nb_intervalles h * ?T" "0 < ?T"
    using hebdo_ok_horizon(1,2) [OF h] by (simp_all add: nb_intervalles_def)
  show ?case
  proof (cases "n < nb_intervalles h")
    case False
    then have "n = nb_intervalles h" using Suc.prems(2) by simp
    then show ?thesis using Suc.prems(1) N by (auto simp: semaine_faite_def intro!: exI [of _ "[]"])
  next
    case True
    then have t: "n * ?T < NombreDePasDeTemps h" using N by simp
    have "returns (optimiser_intervalle B op h d adq opt (n * ?T) n w) (\<lambda>(succes, w'). returns
        (if succes then boucle_intervalles B op h d adq opt fuel (n * ?T + ?T) (Suc n) w' else Inr (False, w'))
        (\<lambda>(succes, w'). semaine_faite h d adq opt K n w succes w'))"
    proof (rule returns_mono [OF optimiser_intervalle_ok [OF Suc.prems(1) d True S]], unfold split_paired_all prod.case, goal_cases)
      case (1 succes w1)
      then have w1: "semaine_prete h K w1" "map ValeursHorairesDENS (horaires (resultats_de w1)) = map ValeursHorairesDENS (horaires (resultats_de w))"
        "succes \<longleftrightarrow> ExistenceDUneSolution w1 = OUI_SPX"
        "succes \<longrightarrow> intervalle_resolu (contexte_bornes_de h d adq opt (horaires (resultats_de w)) (n * ?T)) K n w1"
        by blast+
      show ?case
      proof (cases succes)
        case False
        then show ?thesis using w1 True by (auto simp: semaine_faite_def intro!: exI [of _ "[]"])
      next
        case succes: True
        have e: "n * ?T + ?T = Suc n * ?T" by simp
        have "returns (boucle_intervalles B op h d adq opt fuel (Suc n * ?T) (Suc n) w1)
            (\<lambda>(succes, w'). semaine_faite h d adq opt K (Suc n) w1 succes w')"
          by (rule Suc.IH) (use w1 True Suc.prems in auto)
        then show ?thesis
          unfolding e using succes
        proof (simp only: if_True, elim returns_mono, clarify)
          fix fini w' assume f: "semaine_faite h d adq opt K (Suc n) w1 fini w'"
          then obtain ws where ws: "etapes h d adq opt K (Suc n) w1 ws" "Suc n + length ws \<le> nb_intervalles h"
            "if fini then Suc n + length ws = nb_intervalles h \<and> w' = last (w1 # ws)
             else Suc n + length ws < nb_intervalles h \<and> ExistenceDUneSolution w' \<noteq> OUI_SPX"
            by (auto simp: semaine_faite_def)
          then show "semaine_faite h d adq opt K n w fini w'"
            using f w1 succes unfolding semaine_faite_def
            by (intro conjI exI [of _ "w1 # ws"]) (simp_all split: if_splits)
        qed
      qed
    qed
    then show ?thesis using t by (simp add: split_def)
  qed
qed

lemma runWeeklyOptimization_ok:
  fixes w :: "'l SEMAINE"
  assumes d: "donnees_hebdo_ok h d" and S: "solveur_ok B (probleme_de_semaine h d adq opt K)" and W: "semaine_prete h K w"
  shows "returns (runWeeklyOptimization B op h d adq opt w) (\<lambda>(succes, w'). semaine_faite h d adq opt K 0 w succes w')"
proof -
  have h: "hebdo_ok h" using W remplir_ok(1) by (auto simp: semaine_prete_def probleme_pret_def)
  have "nb_intervalles h \<le> NombreDePasDeTemps h" by (simp add: nb_intervalles_def)
  then show ?thesis
    using boucle_intervalles_ok [OF d S W, of 0 "NombreDePasDeTemps h"] by (simp add: runWeeklyOptimization_def)
qed

text \<open>A range without an hour is never left.\<close>

lemma boucle_intervalles_sans_heure:
  assumes "NombreDePasDeTempsPourUneOptimisation h = 0" and "0 < NombreDePasDeTemps h"
    and "\<And>n w. \<exists>w'. optimiser_intervalle B op h d adq opt 0 n w = Inr (True, w')"
  shows "boucle_intervalles B op h d adq opt fuel 0 n w = Inl CarburantEpuise"
proof (induction fuel arbitrary: n w)
  case (Suc fuel)
  obtain w' where "optimiser_intervalle B op h d adq opt 0 n w = Inr (True, w')" using assms(3) by blast
  then show ?case using Suc assms(1,2) by simp
qed (use assms in simp)


end
