(* ===== verification/Linear_Pilot.thy ===== *)
theory Linear_Pilot
  imports Startup_Correct Weekly_Optimisation
begin

text \<open>
  The linear optimisation of a week on the whole: \<open>OPT_OptimisationLineaire\<close>
  (\<open>src/src/solver/optimisation/opt_optimisation_lineaire.cpp\<close>) restores the data, builds the problem, runs the first
  optimisation, then the heuristic and the second one; \<open>OPT_PilotageOptimisationLineaire\<close>
  (\<open>opt_pilotage_optimisation_lineaire.cpp\<close>) instantiates the problem in the first week and prepares the data. Main
  fact: the state the pilot starts from is again the state it leaves, so week after week it ends without an access
  outside a vector.
\<close>

subsection \<open>The code\<close>

definition runThermalHeuristic ::
  "simplexe_seul \<Rightarrow> options \<Rightarrow> PROBLEME_HEBDO \<Rightarrow> RESULTATS \<times> DONNEES \<Rightarrow> (RESULTATS \<times> DONNEES) resultat" where
  "runThermalHeuristic SPX op h z =
     (if OptimisationAvecCoutsDeDemarrage h
      then OPT_AjusterLeNombreMinDeGroupesDemarresCoutsDeDemarrage SPX op h z
      else bindE (OPT_CalculerLesPminThermiquesEnFonctionDeMUTetMDT h (fst z) (snd z)) (\<lambda>d. Inr (fst z, d)))"

definition OPT_OptimisationLineaire ::
  "'l bibliotheque \<Rightarrow> simplexe_seul \<Rightarrow> options \<Rightarrow> AdqPatchParams \<Rightarrow> PROBLEME_HEBDO \<Rightarrow> DONNEES \<Rightarrow> 'l SEMAINE \<Rightarrow>
     (bool \<times> PROBLEME_HEBDO \<times> DONNEES \<times> 'l SEMAINE) resultat" where
  "OPT_OptimisationLineaire B SPX op adq h d w =
     bindE (OPT_NumeroDeJourDuPasDeTemps (choisir_horizon h)) (\<lambda>h.
     bindE (OPT_NumeroDIntervalleOptimiseDuPasDeTemps h) (\<lambda>h.
     bindE (OPT_RestaurerLesDonnees h d) (\<lambda>d.
     bindE (OPT_ConstruireLaListeDesVariablesOptimiseesDuProblemeLineaire h (etat_de w)) (\<lambda>s.
     bindE (OPT_ConstruireLaMatriceDesContraintesDuProblemeLineaire h s) (\<lambda>s.
     bindE (runWeeklyOptimization B op h d adq PREMIERE_OPTIMISATION (w\<lparr>etat_de := s\<rparr>)) (\<lambda>(ret, w).
     if ret \<and> \<not> Expansion op \<and> \<not> OptimisationAvecVariablesEntieres h
     then bindE (runThermalHeuristic SPX op h (resultats_de w, d)) (\<lambda>(R, d).
          bindE (runWeeklyOptimization B op h d adq DEUXIEME_OPTIMISATION (w\<lparr>resultats_de := R\<rparr>)) (\<lambda>(ret, w).
          Inr (ret, h, d, w)))
     else Inr (ret, h, d, w)))))))"

text \<open>The pilot keeps whether the problem has been instantiated.\<close>

datatype type_optimisation = OPTIMISATION_LINEAIRE | OPTIMISATION_QUADRATIQUE

record 'l PILOTE =
  hebdo_de :: PROBLEME_HEBDO
  donnees_de :: DONNEES
  semaine_de :: "'l SEMAINE"
  TypeDOptimisation :: type_optimisation
  LeProblemeADejaEteInstancie :: bool

definition cout_de_reserve :: "PROBLEME_HEBDO \<Rightarrow> DONNEES \<Rightarrow> DONNEES resultat" where
  "cout_de_reserve h d = forE [0..<NombreDePays h] (\<lambda>pays d.
     bindE (ecrire (CoutDeDefaillanceEnReserve d) pays (10 ^ 6)) (\<lambda>xs. Inr (d\<lparr>CoutDeDefaillanceEnReserve := xs\<rparr>))) d"

definition instancier_si_besoin :: "'l PILOTE \<Rightarrow> 'l PILOTE resultat" where
  "instancier_si_besoin z =
     (if \<not> LeProblemeADejaEteInstancie z
      then bindE (if TypeDOptimisation z = OPTIMISATION_LINEAIRE
          then bindE (cout_de_reserve (hebdo_de z) (donnees_de z)) (\<lambda>d.
               bindE (instancier (hebdo_de z) (etat_de (semaine_de z))) (\<lambda>(h, s).
               Inr (z\<lparr>hebdo_de := h, donnees_de := d, semaine_de := (semaine_de z)\<lparr>etat_de := s\<rparr>\<rparr>)))
          else Inr z) (\<lambda>z. Inr (z\<lparr>LeProblemeADejaEteInstancie := True\<rparr>))
      else Inr z)"

definition OPT_PilotageOptimisationLineaire ::
  "'l bibliotheque \<Rightarrow> simplexe_seul \<Rightarrow> options \<Rightarrow> AdqPatchParams \<Rightarrow> 'l PILOTE \<Rightarrow> (bool \<times> 'l PILOTE) resultat" where
  "OPT_PilotageOptimisationLineaire B SPX op adq z =
     bindE (instancier_si_besoin z) (\<lambda>z.
     bindE (preparer_donnees (hebdo_de z) (donnees_de z)) (\<lambda>d.
     bindE (OPT_OptimisationLineaire B SPX op adq (hebdo_de z) d (semaine_de z)) (\<lambda>(ret, h, d, w).
     Inr (ret, z\<lparr>hebdo_de := h, donnees_de := d, semaine_de := w\<rparr>))))"

subsection \<open>The heuristics\<close>

text \<open>What the heuristic of the options relies on besides the sizes of the data.\<close>

definition durees_lues :: "PROBLEME_HEBDO \<Rightarrow> DONNEES \<Rightarrow> bool" where
  "durees_lues h d \<longleftrightarrow>
     (if OptimisationAvecCoutsDeDemarrage h
      then \<forall>pays < NombreDePays h. \<forall>i < nb_paliers h pays. 0 \<le> duree_marche h pays i
      else length (NbGrpCourbeGuide d) = NombreDePasDeTemps h \<and> length (NbGrpOpt d) = NombreDePasDeTemps h \<and>
        (\<forall>pays < NombreDePays h. \<forall>i < nb_paliers h pays. 0 < minUpDownTime (PaliersDonnees d ! pays) ! i))"

definition heuristique_faite ::
  "simplexe_seul \<Rightarrow> options \<Rightarrow> PROBLEME_HEBDO \<Rightarrow> RESULTATS \<Rightarrow> DONNEES \<Rightarrow> RESULTATS \<times> DONNEES \<Rightarrow> bool" where
  "heuristique_faite SPX op h R d z \<longleftrightarrow>
     (if OptimisationAvecCoutsDeDemarrage h then ajustes SPX op h R d (\<lambda>_. True) z
      else fst z = R \<and> releves h R d (\<lambda>_. True) (snd z))"

lemma minUpDownTime_avec_paliers:
  "pays < NombreDePays h \<Longrightarrow> minUpDownTime (PaliersDonnees (avec_paliers h g d) ! pays) = minUpDownTime (PaliersDonnees d ! pays)"
  by (simp add: avec_paliers_def)

lemma travail_avec_paliers:
  "NbGrpCourbeGuide (avec_paliers h g d) = NbGrpCourbeGuide d" "NbGrpOpt (avec_paliers h g d) = NbGrpOpt d"
  "NbGrpCourbeGuide (avec_hydro h k d) = NbGrpCourbeGuide d" "NbGrpOpt (avec_hydro h k d) = NbGrpOpt d"
  "PaliersDonnees (avec_hydro h k d) = PaliersDonnees d"
  by (simp_all add: avec_paliers_def avec_hydro_def)

lemma durees_lues_paliers:
  "durees_lues h (avec_paliers h g d) \<longleftrightarrow> durees_lues h d" "durees_lues h (avec_hydro h k d) \<longleftrightarrow> durees_lues h d"
  "durees_lues h (transports_restaures h d) \<longleftrightarrow> durees_lues h d"
  "durees_lues h (d\<lparr>YaDeLaReserveJmoins1 := b\<rparr>) \<longleftrightarrow> durees_lues h d"
  by (auto simp: durees_lues_def travail_avec_paliers minUpDownTime_avec_paliers transports_restaures_def)

lemma durees_lues_travail:
  "durees_lues h d \<Longrightarrow> length (fst go) = NombreDePasDeTemps h \<Longrightarrow> length (snd go) = NombreDePasDeTemps h \<Longrightarrow>
     durees_lues h (avec_travail go d)"
  by (auto simp: durees_lues_def)

lemma durees_lues_heuristique:
  assumes "durees_lues h d" and "heuristique_faite SPX op h R d z"
  shows "durees_lues h (snd z)"
  using assms by (auto simp: heuristique_faite_def ajustes_def releves_def durees_lues_paliers
      intro!: durees_lues_travail split: if_splits)

lemma runThermalHeuristic_ok:
  assumes S: "simplexe_ok SPX" and H: "hebdo_ok h" and d: "donnees_hebdo_ok h d" and D: "durees_lues h d"
    and R: "resultats_semaine_ok h R"
  shows "returns (runThermalHeuristic SPX op h (R, d)) (\<lambda>z. heuristique_faite SPX op h R d z \<and> donnees_hebdo_ok h (snd z) \<and>
    resultats_semaine_ok h (fst z) \<and> durees_lues h (snd z))"
proof (cases "OptimisationAvecCoutsDeDemarrage h")
  case True
  have "returns (runThermalHeuristic SPX op h (R, d))
    (\<lambda>z. ajustes SPX op h R d (\<lambda>_. True) z \<and> donnees_hebdo_ok h (snd z) \<and> resultats_semaine_ok h (fst z))"
    unfolding runThermalHeuristic_def if_P [OF True]
    by (rule OPT_Ajuster_ok [OF S H True d R]) (use D True in \<open>simp add: durees_lues_def\<close>)
  then show ?thesis
    by (rule returns_mono) (use True durees_lues_heuristique [OF D, of SPX op R] in \<open>auto simp: heuristique_faite_def\<close>)
next
  case False
  have t: "length (NbGrpCourbeGuide d) = NombreDePasDeTemps h" "length (NbGrpOpt d) = NombreDePasDeTemps h"
    and m: "\<And>pays i. pays < NombreDePays h \<Longrightarrow> i < nb_paliers h pays \<Longrightarrow> 0 < minUpDownTime (PaliersDonnees d ! pays) ! i"
    using D False by (simp_all add: durees_lues_def)
  have l: "length (PaliersThermiquesDuPays h) = NombreDePays h" using H by simp
  obtain d' where d': "OPT_CalculerLesPminThermiquesEnFonctionDeMUTetMDT h R d = Inr d'" "releves h R d (\<lambda>_. True) d'"
    "donnees_hebdo_ok h d'"
    using OPT_CalculerLesPminThermiquesEnFonctionDeMUTetMDT_ok [OF l d t m, of R] by (auto elim!: returnsE)
  then have f: "heuristique_faite SPX op h R d (R, d')" using False by (simp add: heuristique_faite_def)
  show ?thesis
    using False d' R f durees_lues_heuristique [OF D f] by (simp add: runThermalHeuristic_def)
qed

subsection \<open>The two optimisations\<close>

text \<open>The first optimisation, from the constructed problem; then, if it has solutions, if the units are not integers and
  outside the expansion mode, the heuristic and the second optimisation on the data it leaves.\<close>

definition deux_optimisations ::
  "simplexe_seul \<Rightarrow> options \<Rightarrow> AdqPatchParams \<Rightarrow> PROBLEME_HEBDO \<Rightarrow> contexte \<Rightarrow> DONNEES \<Rightarrow> 'l SEMAINE \<Rightarrow> bool \<Rightarrow> DONNEES \<Rightarrow>
     'l SEMAINE \<Rightarrow> bool" where
  "deux_optimisations SPX op adq h K d w ret d' w' \<longleftrightarrow> (\<exists>ret1 w1.
     semaine_faite h d adq PREMIERE_OPTIMISATION K 0 w ret1 w1 \<and>
     (if ret1 \<and> \<not> Expansion op \<and> \<not> OptimisationAvecVariablesEntieres h
      then \<exists>R. heuristique_faite SPX op h (resultats_de w1) d (R, d') \<and>
        semaine_faite h d' adq DEUXIEME_OPTIMISATION K 0 (w1\<lparr>resultats_de := R\<rparr>) ret w'
      else ret = ret1 \<and> d' = d \<and> w' = w1))"

definition solveur_hebdo_ok :: "'l bibliotheque \<Rightarrow> bool" where
  "solveur_hebdo_ok B \<longleftrightarrow> solveur_ok B (\<lambda>p. \<exists>h d adq opt K. probleme_de_semaine h d adq opt K p)"

lemma solveur_hebdo_okD: "solveur_hebdo_ok B \<Longrightarrow> solveur_ok B (probleme_de_semaine h d adq opt K)"
  unfolding solveur_hebdo_ok_def solveur_ok_def by blast

lemma semaine_faite_prete: "semaine_faite h d adq opt K n w ret w' \<Longrightarrow> semaine_prete h K w'"
  by (simp add: semaine_faite_def)

lemma semaine_prete_resultats:
  "semaine_prete h K w \<Longrightarrow> resultats_semaine_ok h R \<Longrightarrow> semaine_prete h K (w\<lparr>resultats_de := R\<rparr>)"
  by (simp add: semaine_prete_def)

lemma semaine_prete_hebdo:
  assumes "semaine_prete h K w"
  shows "hebdo_ok h" and "resultats_semaine_ok h (resultats_de w)" and "alloue h (etat_de w)"
  using assms remplir_ok(1) by (auto simp: semaine_prete_def probleme_pret_def pret_a_remplir_def)

lemma prepare_jours:
  "jours_numerotes (prepare h)" "horizon_choisi (prepare h)"
  "length (NumeroDeJourDuPasDeTemps (prepare h)) = NombreDePasDeTemps (prepare h)" "numerotation_ok (prepare h)"
  by (simp_all add: jours_numerotes_def horizon_choisi_def numerotation_ok_def prepare_def Let_def choisir_horizon_def)

lemma construire_pret:
  assumes "pret_a_construire h" and "alloue h s" and "jours_numerotes h" and "couplantes_actives h" and "horizon_choisi h"
  shows "returns (bindE (OPT_ConstruireLaListeDesVariablesOptimiseesDuProblemeLineaire h s)
      (OPT_ConstruireLaMatriceDesContraintesDuProblemeLineaire h)) (\<lambda>s'. probleme_pret h (contexte_de h s') s')"
  by (rule returns_mono [OF construction_numerotee [OF assms(1-4)]])
    (use assms in \<open>auto simp: probleme_pret_def probleme_construit_def intro: pret_a_remplir_construit\<close>)

lemma OPT_OptimisationLineaire_ok:
  fixes w :: "'l SEMAINE" and h :: PROBLEME_HEBDO and d :: DONNEES
  defines "h' \<equiv> prepare h" and "d1 \<equiv> donnees_restaurees (prepare h) d"
  assumes S: "simplexe_ok SPX" and B: "solveur_hebdo_ok B" and n: "numerotation_ok h"
    and p: "pret_a_construire h'" and s: "alloue h' (etat_de w)" and a: "couplantes_actives h'"
    and d: "donnees_hebdo_ok h' d" and D: "durees_lues h' d" and R: "resultats_semaine_ok h' (resultats_de w)"
    and l: "nb_intervalles h' \<le> length (ProblemesSpx w)" "nb_intervalles h' \<le> length (coutOptimalSolution1 w)"
      "nb_intervalles h' \<le> length (coutOptimalSolution2 w)"
  shows "returns (OPT_OptimisationLineaire B SPX op adq h d w) (\<lambda>(ret, h2, d', w'). h2 = h' \<and> donnees_hebdo_ok h' d' \<and>
    durees_lues h' d' \<and> (\<exists>s. let K = contexte_de h' s in semaine_prete h' K (w\<lparr>etat_de := s\<rparr>) \<and> semaine_prete h' K w' \<and>
      deux_optimisations SPX op adq h' K d1 (w\<lparr>etat_de := s\<rparr>) ret d' w'))"
proof -
  note j = prepare_jours [of h, folded h'_def]
  have H: "hebdo_ok h'" using p by (simp add: pret_a_construire_def)
  have rd: "OPT_RestaurerLesDonnees h' d = Inr d1" "donnees_hebdo_ok h' d1"
    unfolding d1_def h'_def [symmetric] by (rule OPT_RestaurerLesDonnees_ok [OF passes_ok_hebdo [OF H j(1)] d j(1,3)])+
  have D1: "durees_lues h' d1" using D by (simp add: d1_def h'_def donnees_restaurees_def durees_lues_paliers)
  obtain s0 s where c: "OPT_ConstruireLaListeDesVariablesOptimiseesDuProblemeLineaire h' (etat_de w) = Inr s0"
    "OPT_ConstruireLaMatriceDesContraintesDuProblemeLineaire h' s0 = Inr s" and s: "probleme_pret h' (contexte_de h' s) s"
    using construire_pret [OF p s j(1) a j(2)] by (auto elim!: returnsE)
  let ?K = "contexte_de h' s" and ?w = "w\<lparr>etat_de := s\<rparr>"
  have W: "semaine_prete h' ?K ?w" using s R l by (simp add: semaine_prete_def)
  obtain ret1 w1 where r1: "runWeeklyOptimization B op h' d1 adq PREMIERE_OPTIMISATION ?w = Inr (ret1, w1)"
    and f1: "semaine_faite h' d1 adq PREMIERE_OPTIMISATION ?K 0 ?w ret1 w1"
    using runWeeklyOptimization_ok [OF rd(2) solveur_hebdo_okD [OF B] W, where adq = adq and opt = PREMIERE_OPTIMISATION and op = op] by (auto elim!: returnsE)
  note W1 = semaine_faite_prete [OF f1]
  have run: "OPT_OptimisationLineaire B SPX op adq h d w =
     (if ret1 \<and> \<not> Expansion op \<and> \<not> OptimisationAvecVariablesEntieres h'
     then bindE (runThermalHeuristic SPX op h' (resultats_de w1, d1)) (\<lambda>(R, d).
          bindE (runWeeklyOptimization B op h' d adq DEUXIEME_OPTIMISATION (w1\<lparr>resultats_de := R\<rparr>)) (\<lambda>(ret, w).
          Inr (ret, h', d, w)))
     else Inr (ret1, h', d1, w1))"
    unfolding OPT_OptimisationLineaire_def numeroter_prepare [OF n] h'_def [symmetric] rd(1) bindE_simps c r1 by simp
  show ?thesis
  proof (cases "ret1 \<and> \<not> Expansion op \<and> \<not> OptimisationAvecVariablesEntieres h'")
    case True
    obtain R2 d2 where h2: "runThermalHeuristic SPX op h' (resultats_de w1, d1) = Inr (R2, d2)"
      and g: "heuristique_faite SPX op h' (resultats_de w1) d1 (R2, d2)" "donnees_hebdo_ok h' d2" "resultats_semaine_ok h' R2"
        "durees_lues h' d2"
      using runThermalHeuristic_ok [OF S H rd(2) D1 semaine_prete_hebdo(2) [OF W1], of op] by (auto elim!: returnsE)
    obtain ret w2 where r2: "runWeeklyOptimization B op h' d2 adq DEUXIEME_OPTIMISATION (w1\<lparr>resultats_de := R2\<rparr>) = Inr (ret, w2)"
      and f2: "semaine_faite h' d2 adq DEUXIEME_OPTIMISATION ?K 0 (w1\<lparr>resultats_de := R2\<rparr>) ret w2"
      using runWeeklyOptimization_ok [OF g(2) solveur_hebdo_okD [OF B] semaine_prete_resultats [OF W1 g(3)], where adq = adq and opt = DEUXIEME_OPTIMISATION and op = op]
      by (auto elim!: returnsE)
    have "deux_optimisations SPX op adq h' ?K d1 ?w ret d2 w2"
      unfolding deux_optimisations_def using f1 g(1) f2 True by auto
    then have "\<exists>s. let K = contexte_de h' s in semaine_prete h' K (w\<lparr>etat_de := s\<rparr>) \<and> semaine_prete h' K w2 \<and>
        deux_optimisations SPX op adq h' K d1 (w\<lparr>etat_de := s\<rparr>) ret d2 w2"
      unfolding Let_def using W semaine_faite_prete [OF f2] by blast
    then show ?thesis unfolding run if_P [OF True] h2 bindE_simps using r2 g by simp
  next
    case False
    have "deux_optimisations SPX op adq h' ?K d1 ?w ret1 d1 w1"
      unfolding deux_optimisations_def using f1 False by auto
    then have "\<exists>s. let K = contexte_de h' s in semaine_prete h' K (w\<lparr>etat_de := s\<rparr>) \<and> semaine_prete h' K w1 \<and>
        deux_optimisations SPX op adq h' K d1 (w\<lparr>etat_de := s\<rparr>) ret1 d1 w1"
      unfolding Let_def using W W1 by blast
    then show ?thesis unfolding run if_not_P [OF False] using rd D1 by simp
  qed
qed

subsection \<open>The pilot\<close>

text \<open>What the pilot starts from: in the first week the data as they are read and the allocated correspondences; later a
  problem in service. The sizes are those of the chosen range.\<close>

definition semaine_lisible :: "PROBLEME_HEBDO \<Rightarrow> DONNEES \<Rightarrow> 'l SEMAINE \<Rightarrow> bool" where
  "semaine_lisible h d w \<longleftrightarrow> couplantes_actives h \<and> donnees_hebdo_ok h d \<and> durees_lues h d \<and>
     resultats_semaine_ok h (resultats_de w) \<and> nb_intervalles h \<le> length (ProblemesSpx w) \<and>
     nb_intervalles h \<le> length (coutOptimalSolution1 w) \<and> nb_intervalles h \<le> length (coutOptimalSolution2 w)"

definition pilote_ok :: "'l PILOTE \<Rightarrow> bool" where
  "pilote_ok z \<longleftrightarrow> TypeDOptimisation z = OPTIMISATION_LINEAIRE \<and>
     semaine_lisible (avec_horizon (hebdo_de z)) (donnees_de z) (semaine_de z) \<and>
     (if LeProblemeADejaEteInstancie z then en_service (hebdo_de z, etat_de (semaine_de z))
      else donnees_ok (hebdo_de z) \<and> etat_ok (hebdo_de z) (etat_de (semaine_de z)))"

lemma avec_horizon_prepare: "avec_horizon (prepare h) = prepare h"
  by (simp add: avec_horizon_def prepare_def Let_def choisir_horizon_def)

lemma preparation_lue:
  assumes "NombreDeJours g = NombreDeJours h"
  shows "couplantes_actives (avec_preparation g h) = couplantes_actives h"
    and "donnees_hebdo_ok (avec_preparation g h) = donnees_hebdo_ok h"
    and "durees_lues (avec_preparation g h) = durees_lues h"
    and "resultats_semaine_ok (avec_preparation g h) = resultats_semaine_ok h"
    and "nb_intervalles (avec_preparation g h) = nb_intervalles h"
    and "passes_ok (avec_preparation g h) = passes_ok h"
    and "donnees_preparees (avec_preparation g h) = donnees_preparees h"
proof -
  have j: "NombreDeJours (avec_preparation g h) = NombreDeJours h" using assms by (simp add: avec_preparation_def)
  have t: "CoutDeTransport (avec_preparation g h) = CoutDeTransport h" by (simp add: avec_preparation_def)
  show "couplantes_actives (avec_preparation g h) = couplantes_actives h" by (simp add: couplantes_actives_def)
  show "donnees_hebdo_ok (avec_preparation g h) = donnees_hebdo_ok h"
    by (intro ext) (simp only: donnees_hebdo_ok_def Let_def avec_preparation_sel j)
  show "durees_lues (avec_preparation g h) = durees_lues h" by (intro ext) (simp add: durees_lues_def duree_marche_def)
  show "resultats_semaine_ok (avec_preparation g h) = resultats_semaine_ok h"
    by (intro ext) (simp add: resultats_semaine_ok_def resultats_ok_def)
  show "nb_intervalles (avec_preparation g h) = nb_intervalles h" by (simp add: nb_intervalles_def)
  show "passes_ok (avec_preparation g h) = passes_ok h" by (simp add: passes_ok_def j t)
  show "donnees_preparees (avec_preparation g h) = donnees_preparees h"
    by (intro ext) (simp add: donnees_preparees_def avec_hydro_def avec_paliers_def hydro_prepare_def [abs_def]
        palier_prepare_def [abs_def] energies_cumulees_def [abs_def] nb_intervalles_def jours_par_intervalle_def j)
qed

lemma semaine_lisible_preparation:
  "NombreDeJours g = NombreDeJours h \<Longrightarrow> semaine_lisible (avec_preparation g h) d w = semaine_lisible h d w"
  by (simp add: semaine_lisible_def preparation_lue)

lemma cout_de_reserve_ok:
  assumes "donnees_hebdo_ok g d" and "NombreDePays g = NombreDePays h"
  shows "cout_de_reserve h d = Inr (d\<lparr>CoutDeDefaillanceEnReserve := replicate (NombreDePays h) (10 ^ 6)\<rparr>)"
proof -
  let ?n = "NombreDePays h" and ?xs = "CoutDeDefaillanceEnReserve d"
  have l: "length ?xs = ?n" using donnees_tailles(7) [OF assms(1)] assms(2) by simp
  have "returns (cout_de_reserve h d) (\<lambda>d'. d' = d\<lparr>CoutDeDefaillanceEnReserve := colonne_jusqua (\<lambda>_. 10 ^ 6) ?xs ?n\<rparr>)"
    unfolding cout_de_reserve_def
    by (rule returns_for_upt [where I = "\<lambda>k d'. d' = d\<lparr>CoutDeDefaillanceEnReserve := colonne_jusqua (\<lambda>_. 10 ^ 6) ?xs k\<rparr>"])
      (use l colonne_jusqua_Suc [of _ ?xs "\<lambda>_. 10 ^ 6"] in simp_all)
  then show ?thesis using l by (auto dest!: returnsD simp: map_replicate_const)
qed

lemma reserve_ok:
  assumes "semaine_lisible h d w"
  shows "semaine_lisible h (d\<lparr>CoutDeDefaillanceEnReserve := replicate (NombreDePays h) v\<rparr>) w"
proof -
  have "donnees_hebdo_ok h (d\<lparr>CoutDeDefaillanceEnReserve := replicate (NombreDePays h) v\<rparr>)"
    using assms unfolding semaine_lisible_def donnees_hebdo_ok_def Let_def by simp
  then show ?thesis using assms by (simp add: semaine_lisible_def durees_lues_def)
qed

text \<open>The data of the week once the problem is instantiated.\<close>

definition donnees_de_semaine :: "'l PILOTE \<Rightarrow> DONNEES" where
  "donnees_de_semaine z = (if LeProblemeADejaEteInstancie z then donnees_de z
     else (donnees_de z)\<lparr>CoutDeDefaillanceEnReserve := replicate (NombreDePays (hebdo_de z)) (10 ^ 6)\<rparr>)"

lemma instancie_preparation:
  assumes "instancie h h'"
  shows "h' = avec_preparation h' (prepare h')" and "NombreDeJours h' = NombreDeJours (prepare h')"
    and "NombreDeJours (avec_horizon h) = NombreDeJours (prepare h')" and "NombreDePays h' = NombreDePays h"
proof -
  obtain a b c d where "h' = (avec_horizon h)\<lparr>IndexDebutIntercoOrigine := a,
      IndexSuivantIntercoOrigine := b, IndexDebutIntercoExtremite := c, IndexSuivantIntercoExtremite := d\<rparr>"
    using assms unfolding instancie_def by blast
  then show "h' = avec_preparation h' (prepare h')" "NombreDeJours h' = NombreDeJours (prepare h')"
    "NombreDeJours (avec_horizon h) = NombreDeJours (prepare h')" "NombreDePays h' = NombreDePays h"
    by (cases h; simp add: prepare_def Let_def avec_horizon_def choisir_horizon_def avec_preparation_def)+
qed

text \<open>After the first step the data are instantiated: prepared, they are those of a problem in service.\<close>

definition pilote_instancie :: "'l PILOTE \<Rightarrow> bool" where
  "pilote_instancie z \<longleftrightarrow> (let h = hebdo_de z; g = prepare h in TypeDOptimisation z = OPTIMISATION_LINEAIRE \<and>
     LeProblemeADejaEteInstancie z \<and> numerotation_ok h \<and> pret_a_construire g \<and> alloue g (etat_de (semaine_de z)) \<and>
     h = avec_preparation h g \<and> NombreDeJours h = NombreDeJours g \<and> semaine_lisible g (donnees_de z) (semaine_de z))"

definition instanciation :: "'l PILOTE \<Rightarrow> 'l PILOTE \<Rightarrow> bool" where
  "instanciation z z1 \<longleftrightarrow> (if LeProblemeADejaEteInstancie z then hebdo_de z1 = hebdo_de z
     else instancie (hebdo_de z) (hebdo_de z1)) \<and> donnees_de z1 = donnees_de_semaine z \<and>
     (\<exists>s. semaine_de z1 = (semaine_de z)\<lparr>etat_de := s\<rparr>)"

lemma instancier_si_besoin_ok:
  assumes "pilote_ok z"
  shows "returns (instancier_si_besoin z) (\<lambda>z1. pilote_instancie z1 \<and> instanciation z z1)"
proof (cases "LeProblemeADejaEteInstancie z")
  case True
  let ?h = "hebdo_de z"
  have e: "pret_a_construire ?h" "numerotation_ok ?h" "prepare ?h = ?h" "alloue ?h (etat_de (semaine_de z))"
    using assms True by (simp_all add: pilote_ok_def en_service_def)
  have "?h = avec_preparation ?h ?h" by (cases ?h) (simp add: avec_preparation_def)
  moreover have "avec_horizon ?h = ?h" using avec_horizon_prepare [of ?h] e(3) by simp
  ultimately have "pilote_instancie z"
    using assms True e by (simp add: pilote_instancie_def pilote_ok_def Let_def)
  moreover have "instanciation z z"
    using True by (auto simp: instanciation_def donnees_de_semaine_def intro!: exI [of _ "etat_de (semaine_de z)"])
  ultimately show ?thesis using True by (simp add: instancier_si_besoin_def)
next
  case False
  let ?h = "hebdo_de z" and ?w = "semaine_de z"
  have o: "donnees_ok ?h" "etat_ok ?h (etat_de ?w)" "semaine_lisible (avec_horizon ?h) (donnees_de z) ?w"
    "TypeDOptimisation z = OPTIMISATION_LINEAIRE"
    using assms False by (simp_all add: pilote_ok_def)
  obtain h' s' where i: "instancier ?h (etat_de ?w) = Inr (h', s')" "instancie ?h h'" "alloue (prepare h') s'"
    using instancier_ok [OF o(1,2)] by (auto elim!: returnsE)
  note n = instancie_preparation [OF i(2)]
  have p: "NombreDePays (avec_horizon ?h) = NombreDePays ?h" by (simp add: avec_horizon_def choisir_horizon_def)
  have c: "cout_de_reserve ?h (donnees_de z) = Inr (donnees_de_semaine z)"
    using cout_de_reserve_ok [of "avec_horizon ?h" "donnees_de z" ?h] o(3) p False
    by (simp add: semaine_lisible_def donnees_de_semaine_def)
  have "semaine_lisible (avec_horizon ?h) (donnees_de_semaine z) ?w"
    using reserve_ok [OF o(3), of "10 ^ 6"] p False by (simp add: donnees_de_semaine_def)
  moreover have "avec_horizon ?h = avec_preparation (avec_horizon ?h) (prepare h')" by (rule prepare_instancie [OF i(2)])
  ultimately have l: "semaine_lisible (prepare h') (donnees_de_semaine z) ?w"
    using semaine_lisible_preparation [OF n(3)] by metis
  let ?z = "z\<lparr>hebdo_de := h', donnees_de := donnees_de_semaine z, semaine_de := ?w\<lparr>etat_de := s'\<rparr>, LeProblemeADejaEteInstancie := True\<rparr>"
  have "instancier_si_besoin z = Inr ?z"
    using False o(4) c i(1) by (simp add: instancier_si_besoin_def)
  moreover have "pilote_instancie ?z"
    using n o(4) i(3) l instancie_numerotation [OF o(1) i(2)] pret_a_construire_prepare [OF o(1) i(2)]
    by (simp add: pilote_instancie_def Let_def semaine_lisible_def)
  moreover have "instanciation z ?z"
    using False i(2) by (auto simp: instanciation_def)
  ultimately show ?thesis by simp
qed

text \<open>The whole week.\<close>

definition semaine_pilotee ::
  "simplexe_seul \<Rightarrow> options \<Rightarrow> AdqPatchParams \<Rightarrow> 'l PILOTE \<Rightarrow> bool \<Rightarrow> 'l PILOTE \<Rightarrow> bool" where
  "semaine_pilotee SPX op adq z ret z' \<longleftrightarrow> (let h = hebdo_de z' in
     (if LeProblemeADejaEteInstancie z then h = hebdo_de z else \<exists>g. instancie (hebdo_de z) g \<and> h = prepare g) \<and>
     (\<exists>s. let K = contexte_de h s; w = (semaine_de z)\<lparr>etat_de := s\<rparr> in semaine_prete h K w \<and> semaine_prete h K (semaine_de z') \<and>
        deux_optimisations SPX op adq h K (donnees_restaurees h (donnees_preparees h (donnees_de_semaine z))) w ret
          (donnees_de z') (semaine_de z')))"

lemma OPT_PilotageOptimisationLineaire_ok:
  assumes S: "simplexe_ok SPX" and B: "solveur_hebdo_ok B" and P: "pilote_ok z"
  shows "returns (OPT_PilotageOptimisationLineaire B SPX op adq z) (\<lambda>(ret, z').
    pilote_ok z' \<and> LeProblemeADejaEteInstancie z' \<and> semaine_pilotee SPX op adq z ret z')"
proof -
  obtain z1 where z1: "instancier_si_besoin z = Inr z1" "pilote_instancie z1" "instanciation z z1"
    using instancier_si_besoin_ok [OF P] by (auto elim!: returnsE)
  let ?h = "hebdo_de z1" and ?d = "donnees_de z1" and ?w = "semaine_de z1" and ?g = "prepare (hebdo_de z1)"
  have o: "numerotation_ok ?h" "pret_a_construire ?g" "alloue ?g (etat_de ?w)" "?h = avec_preparation ?h ?g"
    "NombreDeJours ?h = NombreDeJours ?g" "semaine_lisible ?g ?d ?w" "TypeDOptimisation z1 = OPTIMISATION_LINEAIRE"
    "LeProblemeADejaEteInstancie z1"
    using z1(2) by (simp_all add: pilote_instancie_def Let_def)
  have l: "couplantes_actives ?g" "donnees_hebdo_ok ?g ?d" "durees_lues ?g ?d" "resultats_semaine_ok ?g (resultats_de ?w)"
    "nb_intervalles ?g \<le> length (ProblemesSpx ?w)" "nb_intervalles ?g \<le> length (coutOptimalSolution1 ?w)"
    "nb_intervalles ?g \<le> length (coutOptimalSolution2 ?w)"
    using o(6) by (simp_all add: semaine_lisible_def)
  have g: "passes_ok ?g" using passes_ok_hebdo [of ?g] o(2) prepare_jours(1) by (simp add: pret_a_construire_def)
  have "passes_ok ?h" "donnees_hebdo_ok ?h ?d" "donnees_preparees ?h = donnees_preparees ?g"
    using preparation_lue(2,6,7) [OF o(5)] g l(2) o(4) by metis+
  then have pr: "preparer_donnees ?h ?d = Inr (donnees_preparees ?g ?d)"
    using preparer_donnees_ok(1) by metis
  have D: "donnees_hebdo_ok ?g (donnees_preparees ?g ?d)" "durees_lues ?g (donnees_preparees ?g ?d)"
    using preparer_donnees_ok(2) [OF g l(2)] l(3) by (simp_all add: donnees_preparees_def durees_lues_paliers)
  obtain ret d' w' s where r: "OPT_OptimisationLineaire B SPX op adq ?h (donnees_preparees ?g ?d) ?w = Inr (ret, ?g, d', w')"
    and f: "donnees_hebdo_ok ?g d'" "durees_lues ?g d'"
    and W: "semaine_prete ?g (contexte_de ?g s) (?w\<lparr>etat_de := s\<rparr>)" "semaine_prete ?g (contexte_de ?g s) w'"
      "deux_optimisations SPX op adq ?g (contexte_de ?g s) (donnees_restaurees ?g (donnees_preparees ?g ?d))
        (?w\<lparr>etat_de := s\<rparr>) ret d' w'"
    using OPT_OptimisationLineaire_ok [OF S B o(1,2,3) l(1) D l(4-7), of op adq] by (auto simp: Let_def elim!: returnsE)
  let ?z = "z1\<lparr>hebdo_de := ?g, donnees_de := d', semaine_de := w'\<rparr>"
  have run: "OPT_PilotageOptimisationLineaire B SPX op adq z = Inr (ret, ?z)"
    by (simp add: OPT_PilotageOptimisationLineaire_def z1(1) pr r)
  have "pilote_ok ?z"
    using W(2) semaine_prete_hebdo [OF W(2)] f o l(1) prepare_jours(4)
    by (simp add: pilote_ok_def avec_horizon_prepare en_service_def semaine_lisible_def semaine_prete_def)
  moreover have "semaine_pilotee SPX op adq z ret ?z"
  proof -
    obtain t where "?w = (semaine_de z)\<lparr>etat_de := t\<rparr>" using z1(3) by (auto simp: instanciation_def)
    then have w: "?w\<lparr>etat_de := s\<rparr> = (semaine_de z)\<lparr>etat_de := s\<rparr>" by simp
    have d: "?d = donnees_de_semaine z" using z1(3) by (simp add: instanciation_def)
    have "if LeProblemeADejaEteInstancie z then ?g = hebdo_de z else \<exists>g. instancie (hebdo_de z) g \<and> ?g = prepare g"
      using z1(3) P by (auto simp: instanciation_def pilote_ok_def en_service_def)
    moreover have "hebdo_de ?z = ?g" "donnees_de ?z = d'" "semaine_de ?z = w'" by simp_all
    ultimately show ?thesis unfolding semaine_pilotee_def Let_def using W [unfolded w d] by (simp only:) blast
  qed
  ultimately show ?thesis using run o(8) by simp
qed

text \<open>With start-up costs, the second optimisation starts from numbers of units that hold those of the first.\<close>

lemma heuristique_groupes:
  assumes F: "heuristique_faite SPX op h R d (R', d')" and o: "OptimisationAvecCoutsDeDemarrage h" "\<not> Expansion op"
      "\<not> OptimisationAvecVariablesEntieres h"
    and a: "pays < NombreDePays h" "i < nb_paliers h pays" and t: "t < NombreDePasDeTemps h"
  shows "\<lceil>contenu R (NombreDeGroupesEnMarcheDuPalier pays t i)\<rceil> \<le> NombreMinDeGroupesEnMarcheDuPalierThermique (pdisp_de d' (pays, i)) ! t"
    and "NombreMinDeGroupesEnMarcheDuPalierThermique (pdisp_de d' (pays, i)) ! t \<le>
      NombreMaxDeGroupesEnMarcheDuPalierThermique (pdisp_de d' (pays, i)) ! t"
proof -
  let ?pt = "PaliersThermiquesDuPays h ! pays" and ?x = "pdisp_de d (pays, i)"
  obtain g where d': "d' = avec_paliers h g d" and g: "palier_ajuste SPX op h R pays i ?x (g pays i)"
    using F o(1) a by (auto simp: heuristique_faite_def ajustes_def)
  obtain mini where m: "groupes_optimaux SPX (NombreDePasDeTemps h) (groupes_arrondis h R pays i)
        (NombreMaxDeGroupesEnMarcheDuPalierThermique ?x) (DureeMinimaleDeMarcheDUnGroupeDuPalierThermique ?pt ! i)
        (DureeMinimaleDArretDUnGroupeDuPalierThermique ?pt ! i) mini"
    and x': "g pays i = palier_elargi (NombreDePasDeTemps h) (pminDUnGroupeDuPalierThermique ?pt ! i)
        (?x\<lparr>NombreMinDeGroupesEnMarcheDuPalierThermique := mini\<rparr>)"
    using g o(2,3) unfolding palier_ajuste_def Let_def by auto
  have e: "pdisp_de d' (pays, i) = g pays i" unfolding d' by (rule avec_paliers_simps(3) [OF a])
  have "groupes_arrondis h R pays i ! t \<le> mini ! t" by (rule groupes_optimaux_bornes(2) [OF m _ t]) simp
  then show "\<lceil>contenu R (NombreDeGroupesEnMarcheDuPalier pays t i)\<rceil> \<le> NombreMinDeGroupesEnMarcheDuPalierThermique (pdisp_de d' (pays, i)) ! t"
    unfolding e x' using t by (simp add: palier_elargi_def groupes_arrondis_def)
  show "NombreMinDeGroupesEnMarcheDuPalierThermique (pdisp_de d' (pays, i)) ! t \<le>
      NombreMaxDeGroupesEnMarcheDuPalierThermique (pdisp_de d' (pays, i)) ! t"
    unfolding e x' using t by (simp add: palier_elargi_def)
qed

text \<open>What the two optimisations do, with what is read of the heuristic.\<close>

definition groupes_tenus :: "PROBLEME_HEBDO \<Rightarrow> RESULTATS \<Rightarrow> DONNEES \<Rightarrow> bool" where
  "groupes_tenus h R d \<longleftrightarrow> (\<forall>pays < NombreDePays h. \<forall>i < nb_paliers h pays. \<forall>t < NombreDePasDeTemps h.
     let x = pdisp_de d (pays, i); n = NombreMinDeGroupesEnMarcheDuPalierThermique x ! t in
     \<lceil>contenu R (NombreDeGroupesEnMarcheDuPalier pays t i)\<rceil> \<le> n \<and> n \<le> NombreMaxDeGroupesEnMarcheDuPalierThermique x ! t)"

lemma deux_optimisations_lues:
  assumes "deux_optimisations SPX op adq h K d w ret d' w'"
  obtains ret1 w1 where "semaine_faite h d adq PREMIERE_OPTIMISATION K 0 w ret1 w1"
    and "if ret1 \<and> \<not> Expansion op \<and> \<not> OptimisationAvecVariablesEntieres h
      then (\<exists>R. heuristique_faite SPX op h (resultats_de w1) d (R, d') \<and>
          semaine_faite h d' adq DEUXIEME_OPTIMISATION K 0 (w1\<lparr>resultats_de := R\<rparr>) ret w') \<and>
        (OptimisationAvecCoutsDeDemarrage h \<longrightarrow> groupes_tenus h (resultats_de w1) d')
      else ret = ret1 \<and> d' = d \<and> w' = w1"
proof -
  obtain ret1 w1 where f: "semaine_faite h d adq PREMIERE_OPTIMISATION K 0 w ret1 w1"
    and c: "if ret1 \<and> \<not> Expansion op \<and> \<not> OptimisationAvecVariablesEntieres h
      then \<exists>R. heuristique_faite SPX op h (resultats_de w1) d (R, d') \<and>
        semaine_faite h d' adq DEUXIEME_OPTIMISATION K 0 (w1\<lparr>resultats_de := R\<rparr>) ret w'
      else ret = ret1 \<and> d' = d \<and> w' = w1"
    using assms unfolding deux_optimisations_def by blast
  show thesis
  proof (cases "ret1 \<and> \<not> Expansion op \<and> \<not> OptimisationAvecVariablesEntieres h")
    case True
    then have o: "\<not> Expansion op" "\<not> OptimisationAvecVariablesEntieres h" by simp_all
    obtain R where R: "heuristique_faite SPX op h (resultats_de w1) d (R, d')"
      "semaine_faite h d' adq DEUXIEME_OPTIMISATION K 0 (w1\<lparr>resultats_de := R\<rparr>) ret w'"
      using c [unfolded if_P [OF True]] by blast
    have "groupes_tenus h (resultats_de w1) d'" if "OptimisationAvecCoutsDeDemarrage h"
      unfolding groupes_tenus_def Let_def using heuristique_groupes [OF R(1) that o] by blast
    then show thesis using f R by (intro that [of ret1 w1]) (auto simp: True)
  next
    case False
    then show thesis using f c by (intro that [of ret1 w1]) auto
  qed
qed


end
