(* ===== verification/Bounds_Results.thy ===== *)
theory Bounds_Results
  imports Bounds
begin

text \<open>
  What the bounds pass leaves in the hourly results. The pass resets the vectors the solver will fill, area by
  area and hour by hour, while it writes the bounds; it keeps the unsupplied energy of the first run of the
  adequacy patch, which it reads. The resets are followed statement by statement: \<open>remet C f\<close> says that a
  run of \<open>f\<close> puts 0 at the places \<open>C\<close> of the results and keeps everything else.
\<close>

subsection \<open>Places reset\<close>

datatype colonne_resultat =
  RDefaillancePositive | RDefaillanceNegative | RDefaillanceEnReserve | RPompage | RTurbinage | RDebordement

fun colonne_horaire :: "colonne_resultat \<Rightarrow> RESULTATS_HORAIRES \<Rightarrow> real list" where
  "colonne_horaire RDefaillancePositive = ValeursHorairesDeDefaillancePositive"
| "colonne_horaire RDefaillanceNegative = ValeursHorairesDeDefaillanceNegative"
| "colonne_horaire RDefaillanceEnReserve = ValeursHorairesDeDefaillanceEnReserve"
| "colonne_horaire RPompage = PompageHoraire"
| "colonne_horaire RTurbinage = TurbinageHoraire"
| "colonne_horaire RDebordement = debordementsHoraires"

definition remis :: "(colonne_resultat \<times> nat \<times> nat) set \<Rightarrow> RESULTATS_HORAIRES list \<Rightarrow> RESULTATS_HORAIRES list \<Rightarrow> bool" where
  "remis C rs rs' \<longleftrightarrow> length rs' = length rs \<and> (\<forall>pays < length rs.
     ValeursHorairesDENS (rs' ! pays) = ValeursHorairesDENS (rs ! pays) \<and>
     (\<forall>c. length (colonne_horaire c (rs' ! pays)) = length (colonne_horaire c (rs ! pays)) \<and>
       (\<forall>t < length (colonne_horaire c (rs ! pays)).
          colonne_horaire c (rs' ! pays) ! t = (if (c, pays, t) \<in> C then 0 else colonne_horaire c (rs ! pays) ! t))))"

lemma remisD:
  assumes "remis C rs rs'" and "pays < length rs"
  shows "ValeursHorairesDENS (rs' ! pays) = ValeursHorairesDENS (rs ! pays)"
    and "t < length (colonne_horaire c (rs ! pays)) \<Longrightarrow>
      colonne_horaire c (rs' ! pays) ! t = (if (c, pays, t) \<in> C then 0 else colonne_horaire c (rs ! pays) ! t)"
  using assms by (simp_all add: remis_def)

lemma remis_vide: "remis {} rs rs"
  by (simp add: remis_def)

lemma remis_union: "remis C rs rs1 \<Longrightarrow> remis D rs1 rs2 \<Longrightarrow> remis (C \<union> D) rs rs2"
  by (simp add: remis_def)

definition remet :: "(colonne_resultat \<times> nat \<times> nat) set \<Rightarrow> (etat_bornes \<Rightarrow> etat_bornes resultat) \<Rightarrow> bool" where
  "remet C f \<longleftrightarrow> (\<forall>z z'. f z = Inr z' \<longrightarrow> remis C (fst z) (fst z'))"

lemma remetI: "(\<And>rs p rs' p'. f (rs, p) = Inr (rs', p') \<Longrightarrow> remis C rs rs') \<Longrightarrow> remet C f"
  by (auto simp: remet_def)

lemma remetD: "remet C f \<Longrightarrow> f z = Inr z' \<Longrightarrow> remis C (fst z) (fst z')"
  unfolding remet_def by blast

named_theorems remises \<open>the statements that reset no result\<close>

lemma remet_rien [remises]: "remet {} Inr"
  by (simp add: remet_def remis_vide)

lemma remet_bindE: "(\<And>a. remet C (g a)) \<Longrightarrow> remet C (\<lambda>z. bindE (m z) (\<lambda>a. g a z))"
  unfolding remet_def bindE_Inr by blast

lemma remet_seqE:
  assumes "remet C f" and "remet D (seqE fs)" shows "remet (C \<union> D) (seqE (f # fs))"
proof (rule remetI)
  fix rs p rs' p' assume "seqE (f # fs) (rs, p) = Inr (rs', p')"
  then obtain z where "f (rs, p) = Inr z" "seqE fs z = Inr (rs', p')" by (auto simp: bindE_Inr)
  with remetD [OF assms(1), of "(rs, p)" z] remetD [OF assms(2), of z "(rs', p')"] show "remis (C \<union> D) rs rs'"
    by (auto intro: remis_union)
qed

lemma remet_seqE_Nil [remises]: "remet {} (seqE [])"
  by (simp add: remet_def remis_vide)

lemma remet_forE: "(\<And>x. x \<in> set xs \<Longrightarrow> remet (C x) (f x)) \<Longrightarrow> remet (\<Union>x \<in> set xs. C x) (forE xs f)"
proof (induction xs)
  case Nil
  then show ?case by (simp add: remet_def remis_vide)
next
  case (Cons x xs)
  then have "remet (C x \<union> (\<Union>x \<in> set xs. C x)) (seqE [f x, forE xs f])"
    using remet_seqE [OF Cons.prems [of x] remet_seqE [of "\<Union>x \<in> set xs. C x" "forE xs f" "{}" "[]"]]
    by (simp add: remet_seqE_Nil)
  moreover have "seqE [f x, forE xs f] = forE (x # xs) f"
    by (rule ext) (auto simp: bindE_def split: sum.splits)
  ultimately show ?case by (simp del: forE.simps seqE.simps)
qed

text \<open>The same rules for statements that reset nothing.\<close>

lemma remet_rien_bindE [remises]: "(\<And>a. remet {} (g a)) \<Longrightarrow> remet {} (\<lambda>z. bindE (m z) (\<lambda>a. g a z))"
  by (rule remet_bindE)

lemma remet_rien_seqE [remises]: "remet {} f \<Longrightarrow> remet {} (seqE fs) \<Longrightarrow> remet {} (seqE (f # fs))"
  using remet_seqE [of "{}" f "{}" fs] by simp

lemma remet_rien_forE [remises]: "(\<And>x. remet {} (f x)) \<Longrightarrow> remet {} (forE xs f)"
  using remet_forE [of xs "\<lambda>_. {}" f] by simp

lemma remet_rien_whenE [remises]: "remet {} f \<Longrightarrow> remet {} (\<lambda>z. whenE (c z) f z)"
  by (simp add: remet_def whenE_def remis_vide)

lemma remet_rien_if [remises]: "remet {} f \<Longrightarrow> remet {} g \<Longrightarrow> remet {} (if c then f else g)"
  by simp

subsection \<open>The statements of the code\<close>

lemma remet_ecritures [remises]:
  "remet {} (ecrire_Xmin var v)" "remet {} (ecrire_Xmax var v)" "remet {} (ecrire_type var ty)"
  "remet {} (ecrire_optimisee var a)" "remet {} (ecrire_reduit var a)"
  by (auto simp: remet_def ecrire_Xmin_def ecrire_Xmax_def ecrire_type_def ecrire_optimisee_def ecrire_reduit_def
      bindE_Inr remis_vide)

lemma remet_modifier_Xmax [remises]: "remet {} (modifier_Xmax var f)"
  unfolding modifier_Xmax_def [abs_def] by (intro remises)

lemma remet_annuler:
  assumes "\<And>r. champ r = colonne_horaire c r" and "\<And>x r. colonne_horaire c (poser x r) = x"
    and "\<And>x r. ValeursHorairesDENS (poser x r) = ValeursHorairesDENS r"
    and "\<And>e x r. e \<noteq> c \<Longrightarrow> colonne_horaire e (poser x r) = colonne_horaire e r"
  shows "remet {(c, pays, t)} (annuler_resultat champ poser pays t)"
proof (rule remetI)
  fix rs p rs' p' assume "annuler_resultat champ poser pays t (rs, p) = Inr (rs', p')"
  then have l: "pays < length rs" "t < length (colonne_horaire c (rs ! pays))"
    and rs': "rs' = rs[pays := poser ((colonne_horaire c (rs ! pays))[t := 0]) (rs ! pays)]"
    by (auto simp: annuler_resultat_def bindE_Inr lire_def ecrire_def assms(1) split: if_splits)
  show "remis {(c, pays, t)} rs rs'"
    unfolding remis_def
  proof (intro conjI allI impI)
    fix q e u assume "q < length rs"
    show "length (colonne_horaire e (rs' ! q)) = length (colonne_horaire e (rs ! q))"
      using l assms(2,4) by (cases "q = pays"; cases "e = c") (simp_all add: rs')
    show "colonne_horaire e (rs' ! q) ! u = (if (e, q, u) \<in> {(c, pays, t)} then 0 else colonne_horaire e (rs ! q) ! u)"
      using l assms(2,4) by (cases "q = pays"; cases "e = c") (auto simp: rs' nth_list_update)
  qed (use l assms(3) in \<open>auto simp: rs' nth_list_update\<close>)
qed

lemma remet_annulations:
  "remet {(RTurbinage, pays, t)} (annuler_resultat TurbinageHoraire (\<lambda>x. TurbinageHoraire_update (\<lambda>_. x)) pays t)"
  "remet {(RPompage, pays, t)} (annuler_resultat PompageHoraire (\<lambda>x. PompageHoraire_update (\<lambda>_. x)) pays t)"
  "remet {(RDebordement, pays, t)} (annuler_resultat debordementsHoraires (\<lambda>x. debordementsHoraires_update (\<lambda>_. x)) pays t)"
  "remet {(RDefaillanceNegative, pays, t)} (annuler_resultat ValeursHorairesDeDefaillanceNegative
     (\<lambda>x. ValeursHorairesDeDefaillanceNegative_update (\<lambda>_. x)) pays t)"
  "remet {(RDefaillanceEnReserve, pays, t)} (annuler_resultat ValeursHorairesDeDefaillanceEnReserve
     (\<lambda>x. ValeursHorairesDeDefaillanceEnReserve_update (\<lambda>_. x)) pays t)"
  "remet {(RDefaillancePositive, pays, t)} (annuler_resultat ValeursHorairesDeDefaillancePositive
     (\<lambda>x. ValeursHorairesDeDefaillancePositive_update (\<lambda>_. x)) pays t)"
  by (rule remet_annuler; (simp; fail)?; case_tac e; simp)+

lemma remet_sans [remises]:
  "remet {} (bornes_interco h d adq s t j l)" "remet {} (bornes_palier h d s t j pays i)"
  "remet {} (bornes_variations h d s j pays)" "remet {} (bornes_niveau d s t j pays)"
  unfolding bornes_interco_def [abs_def] bornes_palier_def [abs_def] bornes_variations_def [abs_def]
    bornes_niveau_def [abs_def] bornes_flux_def [abs_def] bornes_cout_flux_def bornes_variation_def [abs_def]
    Let_def case_prod_beta
  by (intro remises)+

lemma remet_sans_suite [remises]:
  "remet {} (bornes_stock h d s pays)" "remet {} (bornes_stockage h d s dernier t j pays i)"
  "remet {} (bornes_demarrage h d s t j pays i)"
  unfolding bornes_stock_def [abs_def] bornes_stockage_def [abs_def] bornes_demarrage_def [abs_def] Let_def
  by (intro remises)+

lemma remet_boucles [remises]:
  "remet {} (setBoundsForShortTermStorage h d s premier dernier)"
  "remet {} (OPT_InitialiserLesBornesDesVariablesDuProblemeLineaireCoutsDeDemarrage h d s premier dernier)"
  unfolding setBoundsForShortTermStorage_def OPT_InitialiserLesBornesDesVariablesDuProblemeLineaireCoutsDeDemarrage_def
  by (intro remises)+

lemma remet_puis:
  "remet C f \<Longrightarrow> remet {} (seqE fs) \<Longrightarrow> remet C (seqE (f # fs))"
  "remet {} f \<Longrightarrow> remet C (seqE fs) \<Longrightarrow> remet C (seqE (f # fs))"
  using remet_seqE [of C f "{}" fs] remet_seqE [of "{}" f C fs] by simp_all

lemma remet_hydro:
  "remet {(RTurbinage, pays, t)} (bornes_prod_hydro d s t j pays)"
  "remet {(RPompage, pays, t)} (bornes_pompage d s t j pays)"
  "remet {(RDebordement, pays, t)} (bornes_debordement d s t j pays)"
  "remet {(RDefaillanceNegative, pays, t)} (bornes_defaillance_negative s t j pays)"
  "remet {(RDefaillancePositive, pays, t)} (bornes_defaillance_positive d adq opt s t j pays)"
proof -
  show "remet {(RTurbinage, pays, t)} (bornes_prod_hydro d s t j pays)"
    unfolding bornes_prod_hydro_def [abs_def] by (rule remet_bindE, rule remet_puis(1) [OF remet_annulations(1)]) (intro remises)
  show "remet {(RPompage, pays, t)} (bornes_pompage d s t j pays)"
    unfolding bornes_pompage_def [abs_def] by (rule remet_bindE, rule remet_puis(1) [OF remet_annulations(2)]) (intro remises)
  show "remet {(RDebordement, pays, t)} (bornes_debordement d s t j pays)"
    unfolding bornes_debordement_def [abs_def] by (rule remet_bindE, rule remet_puis(1) [OF remet_annulations(3)]) (intro remises)
  show "remet {(RDefaillanceNegative, pays, t)} (bornes_defaillance_negative s t j pays)"
    unfolding bornes_defaillance_negative_def [abs_def]
    by (rule remet_bindE, rule remet_puis(2) [OF remet_ecritures(1)], rule remet_puis(2) [OF remet_ecritures(2)],
        rule remet_puis(1) [OF remet_annulations(4)]) (intro remises)
  show "remet {(RDefaillancePositive, pays, t)} (bornes_defaillance_positive d adq opt s t j pays)"
    unfolding bornes_defaillance_positive_def [abs_def]
    by (rule remet_bindE, rule remet_puis(2) [OF remet_ecritures(1)], rule remet_puis(2), (intro remises)[1],
        rule remet_puis(2), (intro remises)[1], rule remet_puis(1) [OF remet_annulations(6)]) (intro remises)
qed

lemma remet_egal: "remet C f \<Longrightarrow> C = D \<Longrightarrow> remet D f"
  by simp

lemma remet_pays:
  "remet ({RDefaillanceNegative, RDefaillanceEnReserve, RPompage, RTurbinage, RDebordement} \<times> {pays} \<times> {t})
     (bornes_pays h d s t j pays)"
  unfolding bornes_pays_def [abs_def]
  by (rule remet_bindE, rule remet_egal,
      (rule remet_seqE remet_rien_forE remet_sans remet_hydro remet_annulations remet_seqE_Nil)+) auto

lemma remet_defaillances:
  "remet ({RDefaillancePositive} \<times> {..<NombreDePays h} \<times> {premier..<dernier})
     (setBoundsForUnsuppliedEnergy h d adq opt s premier dernier)"
  unfolding setBoundsForUnsuppliedEnergy_def
  by (rule remet_egal, (rule remet_forE remet_hydro(5))+) auto

lemma remet_bornes:
  "remet (UNIV \<times> {..<NombreDePays h} \<times> {premier..<dernier}) (bornes_lineaires h d adq opt s premier dernier)"
proof -
  have heures: "remet (\<Union>t \<in> set [premier..<dernier]. {} \<union> ((\<Union>pays \<in> set [0..<NombreDePays h].
        {RDefaillanceNegative, RDefaillanceEnReserve, RPompage, RTurbinage, RDebordement} \<times> {pays} \<times> {t}) \<union> {}))
      (forE [premier..<dernier] (\<lambda>pdtHebdo. seqE
        [forE [0..<NombreDInterconnexions h] (bornes_interco h d adq s pdtHebdo (pdtHebdo - premier)),
         forE [0..<NombreDePays h] (bornes_pays h d s pdtHebdo (pdtHebdo - premier))]))"
    by (rule remet_forE, rule remet_seqE, rule remet_rien_forE, rule remet_sans, rule remet_seqE, rule remet_forE,
        rule remet_pays, rule remet_seqE_Nil)
  have debut: "remet {} (\<lambda>z. forE [0..<NombreDeVariables (snd z)]
      (\<lambda>i. seqE [ecrire_optimisee (int i) None, ecrire_reduit (int i) None]) z)"
    unfolding remet_def by (intro allI impI, erule remetD [rotated]) (intro remises)
  have c: "UNIV = {RDefaillancePositive, RDefaillanceNegative, RDefaillanceEnReserve, RPompage, RTurbinage, RDebordement}"
    using colonne_resultat.exhaust by auto
  show ?thesis
    unfolding bornes_lineaires_def c
    by (rule remet_egal, rule remet_seqE, rule debut, rule remet_seqE, rule heures, rule remet_seqE, rule remet_defaillances,
        rule remet_seqE, rule remet_boucles(1), rule remet_seqE, rule remet_rien_forE, rule remet_sans_suite(1),
        rule remet_seqE, rule remet_rien_whenE, rule remet_boucles(2), rule remet_seqE_Nil) auto
qed

lemma OPT_InitialiserLesBornes_remises:
  assumes "OPT_InitialiserLesBornesDesVariablesDuProblemeLineaire h d adq premier dernier opt (rs, s) = Inr (rs', s')"
  shows "remis (UNIV \<times> {..<NombreDePays h} \<times> {premier..<dernier}) rs rs'"
proof -
  obtain p where "bornes_lineaires h d adq opt s premier dernier (rs, ProblemeAResoudre s) = Inr (rs', p)"
    using assms by (auto simp: OPT_InitialiserLesBornesDesVariablesDuProblemeLineaire_def bindE_Inr)
  from remetD [OF remet_bornes this] show ?thesis by simp
qed

end
