(* ===== verification/Numeric_Properties.thy ===== *)
theory Numeric_Properties
  imports Bounds_Correct Bounds_Results Right_Hand_Sides_Correct Row_Properties
begin

text \<open>
  The properties of the numeric passes: the costs, the random numbers of the storages, the bounds. Each is applied
  to the week of \<open>Worked_Example\<close> with the data defined here.
\<close>

subsection \<open>The numeric data of the example\<close>

definition pdisp_exemple :: "real \<Rightarrow> PDISP_ET_COUTS_HORAIRES_PAR_PALIER" where
  "pdisp_exemple c = \<lparr>PuissanceDisponibleDuPalierThermique = replicate 8 100,
     PuissanceDisponibleDuPalierThermiqueRef = replicate 8 100,
     PuissanceMinDuPalierThermique = replicate 8 10, PuissanceMinDuPalierThermiqueRef = replicate 8 10,
     CoutHoraireDeProductionDuPalierThermique = replicate 8 c,
     NombreMaxDeGroupesEnMarcheDuPalierThermique = [3, 3, 2, 2, 2, 2, 2, 2],
     NombreMinDeGroupesEnMarcheDuPalierThermique = replicate 8 0\<rparr>"

definition paliers_exemple :: "real \<Rightarrow> PALIERS_DONNEES" where
  "paliers_exemple c = \<lparr>minUpDownTime = [2], TailleUnitaireDUnGroupeDuPalierThermique = [100],
     PminDuPalierThermiquePendantUneHeure = [10], PuissanceDisponibleEtCout = [pdisp_exemple c],
     CoutDeDemarrageDUnGroupeDuPalierThermique = [500], CoutDArretDUnGroupeDuPalierThermique = [0],
     CoutFixeDeMarcheDUnGroupeDuPalierThermique = [20]\<rparr>"

definition hydro_exemple :: HYDRO_DONNEES where
  "hydro_exemple = \<lparr>MinEnergieHydrauParIntervalleOptimise = replicate 2 0,
     MaxEnergieHydrauParIntervalleOptimise = replicate 2 200,
     CntEnergieH2OParIntervalleOptimise = replicate 2 100, CntEnergieH2OParJour = replicate 2 100,
     ContrainteDePmaxHydrauliqueHoraire = replicate 8 60, ContrainteDePmaxHydrauliqueHoraireRef = replicate 8 60,
     MaxEnergiePompageParIntervalleOptimise = replicate 2 80, ContrainteDePmaxPompageHoraire = replicate 8 40,
     MaxDesPmaxHydrauliques = 60, PenalisationSurSommeDesVariations = 1 / 100, PenalisationSurVariationMax = 1,
     WeeklyWaterValueStateRegular = 30, SansHeuristique = False, NiveauHoraireSup = replicate 8 1000,
     NiveauHoraireInf = replicate 8 100, ApportNaturelHoraire = replicate 8 15, MingenHoraire = replicate 8 5,
     NiveauInitialReservoir = 500, TailleReservoir = 1000, WaterLayerValues = replicate 100 25,
     InflowForTimeInterval = replicate 2 60\<rparr>"

definition sts_exemple :: STS_DONNEES where
  "sts_exemple = \<lparr>reservoirCapacity = 50, injectionNominalCapacity = 10, withdrawalNominalCapacity = 12,
     initialLevel = 1 / 2, initialLevelOptim = False, maxInjectionModulation = replicate 512 1,
     maxWithdrawalModulation = replicate 512 (1 / 2), series_inflows = replicate 512 1,
     lowerRuleCurve = replicate 512 0, upperRuleCurve = replicate 512 1\<rparr>"

definition exemple_donnees :: DONNEES where
  "exemple_donnees = \<lparr>HeureDansLAnnee = 504,
     TransportDonnees = [\<lparr>IntercoGereeAvecLoopFlow = True, CoutDeTransportOrigineVersExtremite = replicate 8 2,
       CoutDeTransportExtremiteVersOrigine = replicate 8 3, CoutDeTransportOrigineVersExtremiteRef = replicate 8 2,
       CoutDeTransportExtremiteVersOrigineRef = replicate 8 3\<rparr>],
     ValeursDeNTC = replicate 8 \<lparr>ValeurDeNTCOrigineVersExtremite = [Fini 500],
       ValeurDeNTCExtremiteVersOrigine = [PlusInfini], ValeurDeLoopFlowOrigineVersExtremite = [10]\<rparr>,
     ConsommationAbattueDuPays = replicate 8 [120, 80], AllMustRunGenerationOfArea = replicate 8 [7, - 4],
     CoutDeDefaillancePositive = [10000, 9000], CoutDeDefaillanceNegative = [0, 1],
     CoutDeDefaillanceEnReserve = [0, 0], PaliersDonnees = [paliers_exemple 35, paliers_exemple 42],
     HydroDonnees = [hydro_exemple, hydro_exemple], StockageDonnees = [[], [sts_exemple]],
     DefaillanceNegativeUtiliserPMinThermique = [True, False],
     DefaillanceNegativeUtiliserConsoAbattue = [True, False],
     BruitSurCoutHydraulique = replicate 2 (replicate 512 (1 / 1000)),
     SecondMembreDeLaContrainteCouplante = [replicate 8 400, replicate 2 2000, [9000]],
     ReserveHoraireJMoins1 = replicate 2 (replicate 8 6), YaDeLaReserveJmoins1 = True,
     CoefficientEcretementPMaxHydraulique = [1, 1],
     adequacyPatchRuntimeData = \<lparr>areaMode = [physicalAreaInsideAdqPatch, physicalAreaOutsideAdqPatch],
       originAreaMode = [physicalAreaInsideAdqPatch], extremityAreaMode = [physicalAreaOutsideAdqPatch],
       AdequacyFirstStep = True\<rparr>,
     NbGrpCourbeGuide = replicate 8 2, NbGrpOpt = replicate 8 1\<rparr>"

definition exemple_resultats :: "RESULTATS_HORAIRES list" where
  "exemple_resultats = replicate 2 \<lparr>ValeursHorairesDeDefaillancePositive = replicate 8 1,
     ValeursHorairesDENS = replicate 8 (1 / 4), ValeursHorairesDeDefaillanceNegative = replicate 8 1,
     ValeursHorairesDeDefaillanceEnReserve = replicate 8 1, PompageHoraire = replicate 8 1,
     TurbinageHoraire = replicate 8 1, debordementsHoraires = replicate 8 1\<rparr>"

definition exemple_adq :: AdqPatchParams where
  "exemple_adq = \<lparr>adq_enabled = True, localMatching_enabled = True, setToZeroOutsideInsideLinks = False,
     setToZeroOutsideOutsideLinks = False\<rparr>"

lemma exemple_jours [simp]: "NombreDeJours exemple_pret = 2"
  by (simp add: exemple_pret_defs Let_def)

lemma exemple_deux: "P 0 \<Longrightarrow> P 1 \<Longrightarrow> \<forall>p < (2 :: nat). P p"
  by (auto simp: less_Suc_eq numeral_2_eq_2)

lemma exemple_donnees_ok: "donnees_hebdo_ok exemple_pret exemple_donnees"
  unfolding donnees_hebdo_ok_def Let_def exemple_pret_sel exemple_jours
  by (intro conjI exemple_deux)
    (simp_all add: exemple_donnees_def transport_donnees_ok_def ntc_ok_def paliers_donnees_ok_def pdisp_ok_def
      hydro_donnees_ok_def sts_donnees_ok_def paliers_exemple_def pdisp_exemple_def hydro_exemple_def sts_exemple_def
      grappe_def contrainte_def less_Suc_eq eval_nat_numeral)

lemma exemple_resultats_ok: "resultats_ok exemple_pret exemple_resultats"
  by (simp add: resultats_ok_def resultat_ok_def exemple_resultats_def)

lemma exemple_remplissage:
  obtains s where "pret_a_remplir exemple_pret s" and "remplissage exemple_pret exemple_donnees s 0"
proof -
  obtain s where "alloue exemple_pret s" "probleme_construit exemple_pret s" using exemple_construit by metis
  with exemple_pret_ok have "pret_a_remplir exemple_pret s" by (intro pret_a_remplir_construit)
  with exemple_donnees_ok show thesis by (intro that [of s]) (simp_all add: remplissage_def)
qed

text \<open>The number of a variable that exists.\<close>

lemma numero_existe:
  assumes "pret_a_remplir h s" and "(p, Some v) \<in> set (liste_variables h)"
  obtains k where "k < nb_variables h" and "place_de h k = p" and "lecture s p = int k"
proof -
  have "(p, v) \<in> set (creees (liste_variables h))" using assms(2) by (simp add: creees_subset)
  then obtain k where "k < nb_variables h" "creees (liste_variables h) ! k = (p, v)"
    by (metis in_set_conv_nth nb_variables_def)
  then show thesis
    using that [of k] lecture_place [OF remplir_ok(3) [OF assms(1)], of k] by simp
qed

lemma exemple_numero_palier:
  assumes "pret_a_remplir exemple_pret s" and "t < 8"
  obtains k where "k < nb_variables exemple_pret" and "place_de exemple_pret k = Var NumeroDeVariableDuPalierThermique t 1"
    and "lecture s (Var NumeroDeVariableDuPalierThermique t 1) = int k"
proof -
  have "fiche_palier exemple_pret t 1 0 \<in> set (fiches_pays exemple_pret t 1)"
    by (simp add: fiches_pays_def Let_def grappe_def)
  then have "fiche_palier exemple_pret t 1 0 \<in> set (liste_variables exemple_pret)"
    using dans_liste_pays(1) [of t exemple_pret 1] assms(2) by auto
  then have "\<exists>v. (Var NumeroDeVariableDuPalierThermique t 1, Some v) \<in> set (liste_variables exemple_pret)"
    by (auto simp: fiche_palier_def existe_def Let_def grappe_def)
  then show thesis using numero_existe [OF assms(1)] that by metis
qed

lemma stockage_existe:
  assumes "c = InjectionVariable \<or> c = WithdrawalVariable \<or> c = LevelVariable"
  shows "\<exists>v. (Var c t (clusterGlobalIndex st), Some v) \<in> set (fiches_stockage h t pays st)"
  using assms by (elim disjE) (simp_all add: fiches_stockage_def existe_def Let_def)

lemma exemple_numero_stockage:
  assumes "pret_a_remplir exemple_pret s" and "t < 8"
    and "c = InjectionVariable \<or> c = WithdrawalVariable \<or> c = LevelVariable"
  obtains k where "k < nb_variables exemple_pret" and "place_de exemple_pret k = Var c t 0"
    and "lecture s (Var c t 0) = int k"
proof -
  let ?st = "\<lparr>efficiency = 9 / 10, clusterGlobalIndex = 0, storage_name = ''battery''\<rparr> :: STS_PROPERTIES"
  obtain v where "(Var c t 0, Some v) \<in> set (fiches_stockage exemple_pret t 1 ?st)"
    using stockage_existe [OF assms(3), of t ?st exemple_pret 1] by auto
  then have "(Var c t 0, Some v) \<in> set (fiches_pays exemple_pret t 1)"
    by (simp add: fiches_pays_def Let_def)
  then have "(Var c t 0, Some v) \<in> set (liste_variables exemple_pret)"
    using dans_liste_pays(1) [of t exemple_pret 1] assms(2) by auto
  then show thesis using numero_existe [OF assms(1)] that by blast
qed

lemma costs_set_lemma:
  assumes "pret_a_remplir h s" and "donnees_hebdo_ok h d"
    and "premier + NombreDePasDeTempsPourUneOptimisation h \<le> NombreDePasDeTemps h"
  shows "\<exists>s'. OPT_InitialiserLesCoutsLineaire h d premier (premier + NombreDePasDeTempsPourUneOptimisation h) s = Inr s' \<and>
    (\<forall>k < nb_variables h. CoutLineaire (ProblemeAResoudre s') ! k = cout_de h d premier (place_de h k)) \<and>
    CoutQuadratique (ProblemeAResoudre s') = replicate (nb_variables h) 0 \<and> hors_couts s' = hors_couts s"
  using OPT_InitialiserLesCouts_ok [of h d s premier] assms by (auto simp: remplissage_def elim!: returnsE)

section \<open>Costs\<close>

text \<open>
  C27: the costs of the weekly problem. On a constructed problem, for a range of hours inside the week,
  \<open>OPT_InitialiserLesCoutsLineaire\<close> ends without an access outside a vector: every variable of the problem gets the
  cost the table \<open>cout_de\<close> gives to its place, the quadratic costs are 0, and nothing else changes.
\<close>

theorem costs_set:
  assumes "pret_a_remplir h s" and "donnees_hebdo_ok h d"
    and "premier + NombreDePasDeTempsPourUneOptimisation h \<le> NombreDePasDeTemps h"
  shows "\<exists>s'. OPT_InitialiserLesCoutsLineaire h d premier (premier + NombreDePasDeTempsPourUneOptimisation h) s = Inr s' \<and>
    (\<forall>k < nb_variables h. CoutLineaire (ProblemeAResoudre s') ! k = cout_de h d premier (place_de h k)) \<and>
    CoutQuadratique (ProblemeAResoudre s') = replicate (nb_variables h) 0 \<and> hors_couts s' = hors_couts s"
  by (rule costs_set_lemma [OF assms])

theorem costs_set_witness:
  "\<exists>s s'. pret_a_remplir exemple_pret s \<and> OPT_InitialiserLesCoutsLineaire exemple_pret exemple_donnees 0 8 s = Inr s' \<and>
    CoutLineaire (ProblemeAResoudre s') ! nat (lecture s (Var NumeroDeVariableDuPalierThermique 2 1)) = 42"
proof -
  obtain s where s: "pret_a_remplir exemple_pret s" using exemple_remplissage by metis
  obtain k where k: "k < nb_variables exemple_pret" "place_de exemple_pret k = Var NumeroDeVariableDuPalierThermique 2 1"
    "lecture s (Var NumeroDeVariableDuPalierThermique 2 1) = int k"
    using exemple_numero_palier [OF s, of 2] by auto
  have "palier_de exemple_pret 1 = (1, 0)"
    using palier_de_numero [OF exemple_hebdo(2), of 1 0] by (simp add: grappe_def)
  then have "cout_de exemple_pret exemple_donnees 0 (place_de exemple_pret k) = 42"
    unfolding k(2) by (simp add: exemple_donnees_def paliers_exemple_def pdisp_exemple_def eval_nat_numeral)
  with costs_set [OF s exemple_donnees_ok, of 0] s k show ?thesis by fastforce
qed

text \<open>
  C28: the costs that tell the storages apart. For every storage and hour of the range, the pass gives
  the injection a random cost between 0 and 1/1000, the withdrawal the efficiency times the same cost, and the
  level no cost: the noise never exceeds what the generator promises.
\<close>

theorem storage_costs_bounded:
  assumes "pret_a_remplir h s" and "donnees_hebdo_ok h d"
    and "premier + NombreDePasDeTempsPourUneOptimisation h \<le> NombreDePasDeTemps h"
    and "pays < NombreDePays h" and "i < length (ShortTermStorage h ! pays)"
    and "t < NombreDePasDeTempsPourUneOptimisation h"
  shows "\<exists>s'. OPT_InitialiserLesCoutsLineaire h d premier (premier + NombreDePasDeTempsPourUneOptimisation h) s = Inr s' \<and>
    (let st = ShortTermStorage h ! pays ! i;
         cout = (\<lambda>c. CoutLineaire (ProblemeAResoudre s') ! nat (lecture s (Var c t (clusterGlobalIndex st)))) in
     0 \<le> cout InjectionVariable \<and> cout InjectionVariable \<le> 1 / 1000 \<and>
     cout WithdrawalVariable = efficiency st * cout InjectionVariable \<and> cout LevelVariable = 0)"
proof -
  let ?st = "ShortTermStorage h ! pays ! i"
  let ?b = "bruit_stockage h (clusterGlobalIndex ?st) t"
  have k: "\<exists>k < nb_variables h. place_de h k = Var c t (clusterGlobalIndex ?st) \<and>
      lecture s (Var c t (clusterGlobalIndex ?st)) = int k"
    if c: "c = InjectionVariable \<or> c = WithdrawalVariable \<or> c = LevelVariable" for c
  proof -
    obtain v where "(Var c t (clusterGlobalIndex ?st), Some v) \<in> set (fiches_stockage h t pays ?st)"
      using stockage_existe [OF c] by blast
    then have "(Var c t (clusterGlobalIndex ?st), Some v) \<in> set (fiches_pays h t pays)"
      using assms(5) by (auto simp: fiches_pays_def Let_def)
    then have "(Var c t (clusterGlobalIndex ?st), Some v) \<in> set (liste_variables h)"
      using dans_liste_pays(1) [of t h pays] assms(4,6) by auto
    then show ?thesis using numero_existe [OF assms(1)] by metis
  qed
  have b: "0 \<le> ?b" "?b \<le> 1 / 1000"
    using tirage_bornes by (simp_all add: bruit_stockage_def rangeDefault_def)
  have st: "stockage_de h (clusterGlobalIndex ?st) = (pays, i)"
    by (rule stockage_de_numero [OF remplir_ok(2) [OF assms(1)] assms(4,5)])
  from costs_set_lemma [OF assms(1-3)] obtain s' where
    s': "OPT_InitialiserLesCoutsLineaire h d premier (premier + NombreDePasDeTempsPourUneOptimisation h) s = Inr s'"
    "\<And>k. k < nb_variables h \<Longrightarrow> CoutLineaire (ProblemeAResoudre s') ! k = cout_de h d premier (place_de h k)" by blast
  show ?thesis
  proof (intro exI conjI)
    show "let st = ?st; cout = (\<lambda>c. CoutLineaire (ProblemeAResoudre s') ! nat (lecture s (Var c t (clusterGlobalIndex st)))) in
     0 \<le> cout InjectionVariable \<and> cout InjectionVariable \<le> 1 / 1000 \<and>
     cout WithdrawalVariable = efficiency st * cout InjectionVariable \<and> cout LevelVariable = 0"
      using k [of InjectionVariable] k [of WithdrawalVariable] k [of LevelVariable] b s'(2)
      by (auto simp: Let_def st simp del: lecture.simps)
  qed (rule s'(1))
qed

theorem storage_costs_bounded_witness:
  "\<exists>s s'. pret_a_remplir exemple_pret s \<and> OPT_InitialiserLesCoutsLineaire exemple_pret exemple_donnees 0 8 s = Inr s' \<and>
    (let cout = (\<lambda>c. CoutLineaire (ProblemeAResoudre s') ! nat (lecture s (Var c 3 0))) in
     0 \<le> cout InjectionVariable \<and> cout InjectionVariable \<le> 1 / 1000 \<and>
     cout WithdrawalVariable = 9 / 10 * cout InjectionVariable)"
proof -
  obtain s where s: "pret_a_remplir exemple_pret s" using exemple_remplissage by metis
  from storage_costs_bounded [OF s exemple_donnees_ok, of 0 1 0 3] obtain s' where
    "OPT_InitialiserLesCoutsLineaire exemple_pret exemple_donnees 0 8 s = Inr s'"
    "let cout = (\<lambda>c. CoutLineaire (ProblemeAResoudre s') ! nat (lecture s (Var c 3 0))) in
     0 \<le> cout InjectionVariable \<and> cout InjectionVariable \<le> 1 / 1000 \<and>
     cout WithdrawalVariable = 9 / 10 * cout InjectionVariable"
    by (auto simp: Let_def simp del: lecture.simps)
  with s show ?thesis by blast
qed

section \<open>Random numbers\<close>

primrec tirer :: "nat \<Rightarrow> mersenne \<Rightarrow> (mersenne \<times> real list) resultat" where
  "tirer 0 g = Inr (g, [])"
| "tirer (Suc n) g = bindE (next_twister g) (\<lambda>(g, x). bindE (tirer n g) (\<lambda>(g, xs). Inr (g, x # xs)))"

lemma tirer_ok:
  "apres_tirages x m g \<Longrightarrow> \<exists>g'. tirer n g = Inr (g', map (tirage x) [m..<m + n])"
proof (induction n arbitrary: m g)
  case (Suc n)
  obtain g1 where g1: "next_twister g = Inr (g1, tirage x m)" "apres_tirages x (m + 1) g1"
    using next_twister_ok [OF Suc.prems] by (auto elim!: returnsE)
  obtain g2 where "tirer n g1 = Inr (g2, map (tirage x) [m + 1..<m + 1 + n])"
    using Suc.IH [OF g1(2)] by blast
  with g1(1) show ?case by (simp add: upt_rec [of m])
qed simp

text \<open>
  C29: the random numbers. After \<open>reset\<close> with a seed, the calls of \<open>next\<close> return, for any number of draws, the
  tempered terms of the published Mersenne Twister sequence (\<open>suite\<close>: a linear recurrence over the words of the seed),
  scaled to the interval from 0 to 1; the in-place generation of 624 words at a time does not show.
\<close>

theorem twister_draws:
  assumes "length (mt g) = 624"
  shows "\<exists>g0. reset seed g = Inr g0 \<and>
    (\<forall>n. \<exists>g'. tirer n g0 = Inr (g', map (\<lambda>i. real (unat (temperer (suite (graine seed) (624 + i)))) / 4294967295) [0..<n])) \<and>
    (\<forall>k. suite (graine seed) (k + 624) =
       suite (graine seed) (k + 397) XOR torsion (suite (graine seed) k) (suite (graine seed) (k + 1))) \<and>
    (\<forall>k < 624. suite (graine seed) k = mots_graine seed k)"
proof (rule exI [of _ "\<lparr>mt = graine seed, mti = 624\<rparr>"], intro conjI allI impI)
  show "reset seed g = Inr \<lparr>mt = graine seed, mti = 624\<rparr>" by (rule reset_ok [OF assms])
  show "\<exists>g'. tirer n \<lparr>mt = graine seed, mti = 624\<rparr> =
      Inr (g', map (\<lambda>i. real (unat (temperer (suite (graine seed) (624 + i)))) / 4294967295) [0..<n])" for n
    using tirer_ok [OF reset_tirages [of seed], of n] by (simp add: tirage_def cong: map_cong)
  show "suite (graine seed) (k + 624) =
      suite (graine seed) (k + 397) XOR torsion (suite (graine seed) k) (suite (graine seed) (k + 1))" for k
    by (rule suite_recurrence)
  show "suite (graine seed) k = mots_graine seed k" if "k < 624" for k
    using that by (simp add: graine_def del: upt_rec_numeral)
qed

theorem twister_draws_witness:
  "\<exists>g0 g'. reset defaultSeed \<lparr>mt = replicate 624 0, mti = 0\<rparr> = Inr g0 \<and>
    tirer 2 g0 = Inr (g', [real (unat (temperer (suite (graine defaultSeed) 624))) / 4294967295,
      real (unat (temperer (suite (graine defaultSeed) 625))) / 4294967295])"
  using twister_draws [of "\<lparr>mt = replicate 624 0, mti = 0\<rparr>" defaultSeed]
  by (auto simp: numeral_2_eq_2 dest!: spec [of _ "2 :: nat"])

text \<open>
  C30: tempering loses nothing. Two different words of the state give two different outputs: \<open>temperer\<close> is
  injective on 32-bit words.
\<close>

theorem tempering_injective: "temperer y = temperer z \<longleftrightarrow> y = z"
  using temperer_injectif by (simp add: inj_eq)

section \<open>Bounds\<close>

text \<open>
  C31: the bounds of the weekly problem. On a constructed problem and its data,
  \<open>OPT_InitialiserLesBornesDesVariablesDuProblemeLineaire\<close> ends without an access outside a vector. Every variable gets
  the lower and upper bounds the tables \<open>xmin_de\<close> and \<open>xmax_de\<close> give to its place, the variables of the links get
  the type of their bounds, every value and reduced cost gets its address; nothing else of the problem changes.
  The hourly results of every area are reset over the range (generation, pumping, overflow, spilled and unsupplied
  energy, reserve) and kept outside it; the unsupplied energy of the first run of the adequacy patch is kept everywhere.
\<close>

theorem bounds_set:
  assumes "pret_a_remplir (bh b) s" and "donnees_hebdo_ok (bh b) (bd b)" and "resultats_ok (bh b) (brs b)"
    and "bpremier b + NombreDePasDeTempsPourUneOptimisation (bh b) \<le> NombreDePasDeTemps (bh b)"
  shows "\<exists>rs' s'. OPT_InitialiserLesBornesDesVariablesDuProblemeLineaire (bh b) (bd b) (badq b) (bpremier b)
      (bpremier b + NombreDePasDeTempsPourUneOptimisation (bh b)) (bopt b) (brs b, s) = Inr (rs', s') \<and>
    (\<forall>k < nb_variables (bh b). let p = ProblemeAResoudre s'; q = place_de (bh b) k in
       Xmin p ! k = xmin_de b q \<and> Xmax p ! k = xmax_de b q \<and>
       TypeDeVariable p ! k = type_apres b q (TypeDeVariable (ProblemeAResoudre s) ! k) \<and>
       AdresseOuPlacerLaValeurDesVariablesOptimisees p ! k = adresse_de b q \<and>
       AdresseOuPlacerLaValeurDesCoutsReduits p ! k = cout_reduit_de b q) \<and>
    hors_bornes s' = hors_bornes s \<and> resultats_ok (bh b) rs' \<and>
    (\<forall>pays < NombreDePays (bh b). ValeursHorairesDENS (rs' ! pays) = ValeursHorairesDENS (brs b ! pays) \<and>
       (\<forall>c. \<forall>t < NombreDePasDeTemps (bh b). colonne_horaire c (rs' ! pays) ! t =
          (if bpremier b \<le> t \<and> t < bpremier b + NombreDePasDeTempsPourUneOptimisation (bh b) then 0
           else colonne_horaire c (brs b ! pays) ! t)))"
proof -
  from OPT_InitialiserLesBornes_ok [of b s] assms obtain rs' s' where
    r: "OPT_InitialiserLesBornesDesVariablesDuProblemeLineaire (bh b) (bd b) (badq b) (bpremier b)
      (bpremier b + NombreDePasDeTempsPourUneOptimisation (bh b)) (bopt b) (brs b, s) = Inr (rs', s')"
    and q: "resultats_ok (bh b) rs'" "hors_bornes s' = hors_bornes s" "bornes_posees b s s'"
    by (auto simp: pass_bornes_def remplissage_def elim!: returnsE)
  have l: "length (brs b) = NombreDePays (bh b)" "length (colonne_horaire c (brs b ! pays)) = NombreDePasDeTemps (bh b)"
    if "pays < NombreDePays (bh b)" for c pays
    using assms(3) that by (cases c; auto simp: resultats_ok_def resultat_ok_def)+
  from remisD [OF OPT_InitialiserLesBornes_remises [OF r]] l r q show ?thesis
    by (auto simp: bornes_posees_def)
qed

definition exemple_bornes :: contexte_bornes where
  "exemple_bornes = \<lparr>bh = exemple_pret, bd = exemple_donnees, badq = exemple_adq,
     bopt = PREMIERE_OPTIMISATION, brs = exemple_resultats, bpremier = 0\<rparr>"

theorem bounds_set_witness:
  "\<exists>s rs' s'. pret_a_remplir exemple_pret s \<and>
    OPT_InitialiserLesBornesDesVariablesDuProblemeLineaire exemple_pret exemple_donnees exemple_adq 0 8
      PREMIERE_OPTIMISATION (exemple_resultats, s) = Inr (rs', s') \<and>
    (let k = nat (lecture s (Var NumeroDeVariableDuPalierThermique 2 1)) in
     Xmin (ProblemeAResoudre s') ! k = Fini 10 \<and> Xmax (ProblemeAResoudre s') ! k = Fini 100 \<and>
     AdresseOuPlacerLaValeurDesVariablesOptimisees (ProblemeAResoudre s') ! k = Some (ProductionThermiqueDuPalier 1 2 0)) \<and>
    TurbinageHoraire (exemple_resultats ! 1) ! 2 = 1 \<and> TurbinageHoraire (rs' ! 1) ! 2 = 0 \<and>
    ValeursHorairesDENS (rs' ! 1) ! 2 = 1 / 4"
proof -
  obtain s where s: "pret_a_remplir exemple_pret s" using exemple_remplissage by metis
  obtain k where k: "k < nb_variables exemple_pret" "place_de exemple_pret k = Var NumeroDeVariableDuPalierThermique 2 1"
    "lecture s (Var NumeroDeVariableDuPalierThermique 2 1) = int k"
    using exemple_numero_palier [OF s, of 2] by auto
  have p: "palier_de exemple_pret 1 = (1, 0)"
    using palier_de_numero [OF exemple_hebdo(2), of 1 0] by (simp add: grappe_def)
  have e [simp]: "bh exemple_bornes = exemple_pret" "bd exemple_bornes = exemple_donnees" "badq exemple_bornes = exemple_adq"
    "bopt exemple_bornes = PREMIERE_OPTIMISATION" "brs exemple_bornes = exemple_resultats" "bpremier exemple_bornes = 0"
    by (simp_all add: exemple_bornes_def)
  from bounds_set [of exemple_bornes s] s exemple_donnees_ok exemple_resultats_ok obtain rs' s' where
    r: "OPT_InitialiserLesBornesDesVariablesDuProblemeLineaire exemple_pret exemple_donnees exemple_adq 0 8
      PREMIERE_OPTIMISATION (exemple_resultats, s) = Inr (rs', s')"
    and v: "\<forall>k < nb_variables exemple_pret. Xmin (ProblemeAResoudre s') ! k = xmin_de exemple_bornes (place_de exemple_pret k) \<and>
      Xmax (ProblemeAResoudre s') ! k = xmax_de exemple_bornes (place_de exemple_pret k) \<and>
      AdresseOuPlacerLaValeurDesVariablesOptimisees (ProblemeAResoudre s') ! k =
        adresse_de exemple_bornes (place_de exemple_pret k)"
    and z: "\<forall>pays < 2. ValeursHorairesDENS (rs' ! pays) = ValeursHorairesDENS (exemple_resultats ! pays) \<and>
      (\<forall>c. \<forall>t < 8. colonne_horaire c (rs' ! pays) ! t = 0)"
    by (auto simp: Let_def)
  from z [rule_format, of 1] have "TurbinageHoraire (rs' ! 1) ! 2 = 0"
    "ValeursHorairesDENS (rs' ! 1) = ValeursHorairesDENS (exemple_resultats ! 1)"
    by (auto dest: spec [of _ RTurbinage])
  then show ?thesis
    using s r v [rule_format, OF k(1)] k p unfolding k(2)
    by (intro exI [of _ s] exI [of _ rs'] exI [of _ s'])
      (simp add: exemple_donnees_def exemple_resultats_def paliers_exemple_def pdisp_exemple_def Let_def eval_nat_numeral
        del: lecture.simps)
qed

text \<open>The order of the bounds, and what coherent data are.\<close>

fun inf_egal :: "borne \<Rightarrow> borne \<Rightarrow> bool" where
  "inf_egal MoinsInfini y = True"
| "inf_egal x PlusInfini = True"
| "inf_egal (Fini x) (Fini y) = (x \<le> y)"
| "inf_egal x y = False"

lemma inf_egal_linfini: "inf_egal (Fini 0) LINFINI_ANTARES" "inf_egal (opposee LINFINI_ANTARES) LINFINI_ANTARES"
  by (simp_all add: LINFINI_ANTARES_def)

definition liens_coherents :: "contexte_bornes \<Rightarrow> bool" where
  "liens_coherents b \<longleftrightarrow> (\<forall>t < NombreDePasDeTempsPourUneOptimisation (bh b). \<forall>l < NombreDInterconnexions (bh b).
     let ntc = ValeursDeNTC (bd b) ! (bpremier b + t); direct = ValeurDeNTCOrigineVersExtremite ntc ! l;
         indirect = ValeurDeNTCExtremiteVersOrigine ntc ! l; boucle = ValeurDeLoopFlowOrigineVersExtremite ntc ! l in
     inf_egal (Fini 0) direct \<and> inf_egal (Fini 0) indirect \<and>
     inf_egal (Fini boucle) direct \<and> inf_egal (Fini (- boucle)) indirect)"

definition paliers_coherents :: "contexte_bornes \<Rightarrow> bool" where
  "paliers_coherents b \<longleftrightarrow> (\<forall>pays < NombreDePays (bh b). \<forall>i < nb_paliers (bh b) pays.
     \<forall>t < NombreDePasDeTempsPourUneOptimisation (bh b).
     let p = pdisp_de (bd b) (pays, i) in
     PuissanceMinDuPalierThermique p ! (bpremier b + t) \<le> PuissanceDisponibleDuPalierThermique p ! (bpremier b + t) \<and>
     NombreMinDeGroupesEnMarcheDuPalierThermique p ! (bpremier b + t) \<le>
       NombreMaxDeGroupesEnMarcheDuPalierThermique p ! (bpremier b + t))"

definition reservoirs_coherents :: "contexte_bornes \<Rightarrow> bool" where
  "reservoirs_coherents b \<longleftrightarrow> (\<forall>pays < NombreDePays (bh b). let x = HydroDonnees (bd b) ! pays in
     0 \<le> MaxDesPmaxHydrauliques x \<and> 0 \<le> TailleReservoir x \<and>
     (\<forall>t < NombreDePasDeTempsPourUneOptimisation (bh b).
       MingenHoraire x ! (bpremier b + t) \<le> ContrainteDePmaxHydrauliqueHoraire x ! (bpremier b + t) \<and>
       0 \<le> ContrainteDePmaxPompageHoraire x ! (bpremier b + t) \<and> 0 \<le> ApportNaturelHoraire x ! (bpremier b + t) \<and>
       NiveauHoraireInf x ! (bpremier b + t) \<le> NiveauHoraireSup x ! (bpremier b + t)) \<and>
     (\<forall>t < NombreDePasDeTempsPourUneOptimisation (bh b). 0 \<le> ValeursHorairesDENS (brs b ! pays) ! (bpremier b + t)))"

definition stockages_coherents :: "contexte_bornes \<Rightarrow> bool" where
  "stockages_coherents b \<longleftrightarrow> (\<forall>pays < NombreDePays (bh b). \<forall>k < length (ShortTermStorage (bh b) ! pays).
     let x = sts_de (bd b) (pays, k) in
     0 \<le> reservoirCapacity x \<and> 0 \<le> injectionNominalCapacity x \<and> 0 \<le> withdrawalNominalCapacity x \<and>
     (\<forall>t < NombreDePasDeTempsPourUneOptimisation (bh b). let u = weekInTheYear (bh b) * 168 + (bpremier b + t) in
       0 \<le> maxInjectionModulation x ! u \<and> 0 \<le> maxWithdrawalModulation x ! u \<and>
       lowerRuleCurve x ! u \<le> upperRuleCurve x ! u))"

lemma bornes_demarrage_coherentes:
  assumes "paliers_coherents b" and n: "numeros_distincts (bh b)"
    and "j < NombreDePasDeTempsPourUneOptimisation (bh b)" and "pays < NombreDePays (bh b)" and "i < nb_paliers (bh b) pays"
    and "q \<in> set (places_de (fiches_demarrage (bh b) pays i j))"
  shows "inf_egal (xmin_de b q) (xmax_de b q)"
  using assms palier_de_numero [OF n assms(4,5)]
  by (auto simp: fiches_demarrage_def Let_def paliers_coherents_def groupes_perdus_def inf_egal_linfini)

lemma bornes_interco_coherentes:
  assumes "liens_coherents b" and "j < NombreDePasDeTempsPourUneOptimisation (bh b)" and "l < NombreDInterconnexions (bh b)"
    and "q \<in> set (places_de (fiches_interco (bh b) j l))"
  shows "inf_egal (xmin_de b q) (xmax_de b q)"
proof -
  let ?n = "ValeursDeNTC (bd b) ! (bpremier b + j)"
  have c: "inf_egal (Fini 0) (ValeurDeNTCOrigineVersExtremite ?n ! l)" "inf_egal (Fini 0) (ValeurDeNTCExtremiteVersOrigine ?n ! l)"
    "inf_egal (Fini (ValeurDeLoopFlowOrigineVersExtremite ?n ! l)) (ValeurDeNTCOrigineVersExtremite ?n ! l)"
    "inf_egal (Fini (- (ValeurDeLoopFlowOrigineVersExtremite ?n ! l))) (ValeurDeNTCExtremiteVersOrigine ?n ! l)"
    using assms(1-3) by (auto simp: liens_coherents_def Let_def)
  show ?thesis
    using assms(4) c
    by (cases "ValeurDeNTCOrigineVersExtremite ?n ! l"; cases "ValeurDeNTCExtremiteVersOrigine ?n ! l")
      (auto simp: fiches_interco_def Let_def split: if_splits)
qed

lemma bornes_pays_coherentes:
  assumes "paliers_coherents b" and "reservoirs_coherents b" and s: "stockages_coherents b"
    and n: "numeros_distincts (bh b)"
    and a: "j < NombreDePasDeTempsPourUneOptimisation (bh b)" "pays < NombreDePays (bh b)"
    and q: "q \<in> set (places_de (fiches_pays (bh b) j pays)) \<union> set (places_de (fiches_hydro (bh b) j pays))"
  shows "inf_egal (xmin_de b q) (xmax_de b q)"
proof -
  let ?T = "NombreDePasDeTempsPourUneOptimisation (bh b)" and ?x = "HydroDonnees (bd b) ! pays" and ?t = "bpremier b + j"
  have h: "0 \<le> MaxDesPmaxHydrauliques ?x" "MingenHoraire ?x ! ?t \<le> ContrainteDePmaxHydrauliqueHoraire ?x ! ?t"
    "0 \<le> ContrainteDePmaxPompageHoraire ?x ! ?t" "0 \<le> ApportNaturelHoraire ?x ! ?t"
    "NiveauHoraireInf ?x ! ?t \<le> NiveauHoraireSup ?x ! ?t" "0 \<le> ValeursHorairesDENS (brs b ! pays) ! ?t"
    using assms(2) a by (simp_all add: reservoirs_coherents_def Let_def)
  have d: "0 \<le> defaillance_max (bd b) (badq b) (bopt b) (brs b) ?t pays"
    using h(6) by (simp add: defaillance_max_def Let_def)
  consider i where "i < nb_paliers (bh b) pays" "q = Var NumeroDeVariableDuPalierThermique j (numero_palier (bh b) pays i)"
    | k c where "k < length (ShortTermStorage (bh b) ! pays)" "q = Var c j (clusterGlobalIndex (ShortTermStorage (bh b) ! pays ! k))"
        "c = InjectionVariable \<or> c = WithdrawalVariable \<or> c = LevelVariable"
    | c where "q = Var c j pays" "c \<in> {NumeroDeVariableDefaillancePositive, NumeroDeVariableDefaillanceNegative,
        NumeroDeVariablesDeLaProdHyd, NumeroDeVariablesVariationHydALaBaisse, NumeroDeVariablesVariationHydALaHausse,
        NumeroDeVariablesDePompage, NumeroDeVariablesDeNiveau, NumeroDeVariablesDeDebordement}"
    using q by (auto simp: fiches_pays_def fiches_hydro_def fiche_palier_def fiches_stockage_def Let_def in_set_conv_nth)
  then show ?thesis
  proof cases
    case 1
    then show ?thesis
      using palier_de_numero [OF n a(2) 1(1)] assms(1) a by (simp add: paliers_coherents_def Let_def)
  next
    case 2
    let ?y = "StockageDonnees (bd b) ! pays ! k" and ?u = "weekInTheYear (bh b) * 168 + ?t"
    have "0 \<le> reservoirCapacity ?y \<and> 0 \<le> injectionNominalCapacity ?y \<and> 0 \<le> withdrawalNominalCapacity ?y \<and>
       0 \<le> maxInjectionModulation ?y ! ?u \<and> 0 \<le> maxWithdrawalModulation ?y ! ?u \<and>
       lowerRuleCurve ?y ! ?u \<le> upperRuleCurve ?y ! ?u"
      using s a 2(1) by (simp add: stockages_coherents_def Let_def)
    then show ?thesis
      using 2(2,3) stockage_de_numero [OF n a(2) 2(1)]
      by (elim disjE) (simp_all add: Let_def mult_left_mono)
  next
    case 3
    then show ?thesis
      using h d by (auto simp: variation_max_def inf_egal_linfini)
  qed
qed

text \<open>
  C32: coherent bounds. When the data are coherent (capacities and inflows not negative, minimum powers, levels and
  unit counts below the maxima, loop flows within the capacities), the bounds the pass writes are too: no variable of
  the problem has its lower bound above its upper bound, in either step of the adequacy patch.
\<close>

theorem bounds_consistent:
  assumes "pret_a_remplir (bh b) s" and "donnees_hebdo_ok (bh b) (bd b)" and "resultats_ok (bh b) (brs b)"
    and "bpremier b + NombreDePasDeTempsPourUneOptimisation (bh b) \<le> NombreDePasDeTemps (bh b)"
    and "liens_coherents b" and "paliers_coherents b" and "reservoirs_coherents b"
    and "stockages_coherents b"
  shows "\<exists>rs' s'. OPT_InitialiserLesBornesDesVariablesDuProblemeLineaire (bh b) (bd b) (badq b) (bpremier b)
      (bpremier b + NombreDePasDeTempsPourUneOptimisation (bh b)) (bopt b) (brs b, s) = Inr (rs', s') \<and>
    (\<forall>k < nb_variables (bh b). inf_egal (Xmin (ProblemeAResoudre s') ! k) (Xmax (ProblemeAResoudre s') ! k))"
proof -
  have "pass_bornes b s" using assms by (simp add: pass_bornes_def remplissage_def)
  from OPT_InitialiserLesBornes_ok [OF this] obtain rs' s' where
    s': "OPT_InitialiserLesBornesDesVariablesDuProblemeLineaire (bh b) (bd b) (badq b) (bpremier b)
      (bpremier b + NombreDePasDeTempsPourUneOptimisation (bh b)) (bopt b) (brs b, s) = Inr (rs', s')"
    "bornes_posees b s s'" by (auto elim!: returnsE)
  have n: "numeros_distincts (bh b)" by (rule remplir_ok(2) [OF assms(1)])
  have "inf_egal (xmin_de b (place_de (bh b) k)) (xmax_de b (place_de (bh b) k))"
    if k: "k < nb_variables (bh b)" for k
  proof -
    let ?q = "place_de (bh b) k"
    have p: "?q \<in> set (places_de (liste_variables (bh b)))"
      using place_de_dans [OF k] by (force simp: places_de_def)
    from p consider
        j l where "j < NombreDePasDeTempsPourUneOptimisation (bh b)" "l < NombreDInterconnexions (bh b)"
          "?q \<in> set (places_de (fiches_interco (bh b) j l))"
      | j pays where "j < NombreDePasDeTempsPourUneOptimisation (bh b)" "pays < NombreDePays (bh b)"
          "?q \<in> set (places_de (fiches_pays (bh b) j pays)) \<union> set (places_de (fiches_hydro (bh b) j pays))"
      | pays where "pays < NombreDePays (bh b)" "?q \<in> set (places_de (fiches_stock (bh b) pays))"
      | j pays i where "j < NombreDePasDeTempsPourUneOptimisation (bh b)" "pays < NombreDePays (bh b)"
          "i < nb_paliers (bh b) pays" "?q \<in> set (places_de (fiches_demarrage (bh b) pays i j))"
      by (auto simp: liste_variables_def fiches_lineaires_def fiches_demarrages_def par_pays_def par_palier_def
          heures_def split: if_splits)
    then show ?thesis
    proof cases
      case 3
      have "0 \<le> TailleReservoir (HydroDonnees (bd b) ! pays)"
        using assms(7) 3(1) by (simp add: reservoirs_coherents_def Let_def)
      then show ?thesis using places_stock(2) [OF 3(2)] by (auto simp: inf_egal_linfini simp del: upt_rec_numeral)
    qed (use bornes_interco_coherentes bornes_pays_coherentes bornes_demarrage_coherentes assms n in blast)+
  qed
  with s' show ?thesis by (auto simp: bornes_posees_def Let_def)
qed

theorem bounds_consistent_witness:
  "\<exists>s rs' s'. pret_a_remplir exemple_pret s \<and>
    OPT_InitialiserLesBornesDesVariablesDuProblemeLineaire exemple_pret exemple_donnees exemple_adq 0 8
      PREMIERE_OPTIMISATION (exemple_resultats, s) = Inr (rs', s') \<and>
    (let k = nat (lecture s (Var NumeroDeVariableDuPalierThermique 2 1)) in
     inf_egal (Xmin (ProblemeAResoudre s') ! k) (Xmax (ProblemeAResoudre s') ! k))"
proof -
  obtain s where s: "pret_a_remplir exemple_pret s" using exemple_remplissage by metis
  obtain k where k: "k < nb_variables exemple_pret" "place_de exemple_pret k = Var NumeroDeVariableDuPalierThermique 2 1"
    "lecture s (Var NumeroDeVariableDuPalierThermique 2 1) = int k"
    using exemple_numero_palier [OF s, of 2] by auto
  have c: "liens_coherents exemple_bornes" "paliers_coherents exemple_bornes" "reservoirs_coherents exemple_bornes"
    "stockages_coherents exemple_bornes"
    by (auto simp: liens_coherents_def paliers_coherents_def reservoirs_coherents_def stockages_coherents_def Let_def
        exemple_bornes_def exemple_donnees_def paliers_exemple_def pdisp_exemple_def hydro_exemple_def sts_exemple_def
        exemple_resultats_def grappe_def less_Suc_eq eval_nat_numeral)
  from bounds_consistent [of exemple_bornes s] c s exemple_donnees_ok exemple_resultats_ok obtain rs' s' where
    "OPT_InitialiserLesBornesDesVariablesDuProblemeLineaire exemple_pret exemple_donnees exemple_adq 0 8
      PREMIERE_OPTIMISATION (exemple_resultats, s) = Inr (rs', s')"
    "inf_egal (Xmin (ProblemeAResoudre s') ! k) (Xmax (ProblemeAResoudre s') ! k)"
    using k(1) by (auto simp: exemple_bornes_def)
  then show ?thesis using s k(3) by (auto simp: Let_def simp del: lecture.simps)
qed

lemma numero_dans:
  assumes "pret_a_remplir h s" and "q \<in> set (places_de fs)" and "set fs \<subseteq> set (liste_variables h)"
    and "(q, None) \<notin> set (liste_variables h)"
  obtains k where "k < nb_variables h" and "place_de h k = q" and "lecture s q = int k"
proof -
  obtain v where v: "(q, v) \<in> set (liste_variables h)" using assms(2,3) by (auto simp: places_de_def)
  with assms(4) obtain w where "v = Some w" by (cases v) auto
  with v show thesis using numero_existe [OF assms(1)] that by metis
qed

text \<open>
  C33: the adequacy patch on the bounds, case by case. In its first step a link whose origin is inside the patch and
  whose extremity is physical carries nothing, in either direction and whatever the options. A link from an outside
  area to an inside one cannot be used backwards, and carries at most its direct capacity, or nothing when the option
  that cuts these links is set. A link between two outside areas is cut when the option for these links is set, and
  otherwise keeps its own capacities. A link with a virtual area at one end, and every link outside the first step, keeps
  its own capacities. In the second run the unsupplied energy of an area inside the patch is at most what the first run
  found. The reference guide makes the cut from outside to inside an option; the code only reads that option for
  the links oriented from outside to inside: the capacity from outside to inside of a link declared the other way round is
  cut as well.
\<close>

theorem adequacy_patch_bounds:
  fixes b :: contexte_bornes
  assumes "pret_a_remplir (bh b) s" and "donnees_hebdo_ok (bh b) (bd b)" and "resultats_ok (bh b) (brs b)"
    and "bpremier b + NombreDePasDeTempsPourUneOptimisation (bh b) \<le> NombreDePasDeTemps (bh b)"
    and "t < NombreDePasDeTempsPourUneOptimisation (bh b)" and "l < NombreDInterconnexions (bh b)" and "pays < NombreDePays (bh b)"
  shows "\<exists>rs' s'. OPT_InitialiserLesBornesDesVariablesDuProblemeLineaire (bh b) (bd b) (badq b) (bpremier b)
      (bpremier b + NombreDePasDeTempsPourUneOptimisation (bh b)) (bopt b) (brs b, s) = Inr (rs', s') \<and>
    (let k = nat (lecture s (Var NumeroDeVariableDeLInterconnexion t l));
         e = nat (lecture s (Var NumeroDeVariableDefaillancePositive t pays));
         bas = Xmin (ProblemeAResoudre s') ! k; haut = Xmax (ProblemeAResoudre s') ! k;
         ntc = ValeursDeNTC (bd b) ! (bpremier b + t); rt = adequacyPatchRuntimeData (bd b);
         actif = adq_enabled (badq b) \<and> localMatching_enabled (badq b);
         premiere = actif \<and> AdequacyFirstStep rt; seconde = actif \<and> \<not> AdequacyFirstStep rt in
     (premiere \<and> originAreaMode rt ! l = physicalAreaInsideAdqPatch \<and> extremityAreaMode rt ! l \<noteq> virtualArea \<longrightarrow>
        bas = Fini 0 \<and> haut = Fini 0) \<and>
     (premiere \<and> originAreaMode rt ! l = physicalAreaOutsideAdqPatch \<and>
        extremityAreaMode rt ! l = physicalAreaInsideAdqPatch \<longrightarrow>
        bas = Fini 0 \<and> haut = (if setToZeroOutsideInsideLinks (badq b) then Fini 0
          else ValeurDeNTCOrigineVersExtremite ntc ! l)) \<and>
     (premiere \<and> originAreaMode rt ! l = physicalAreaOutsideAdqPatch \<and>
        extremityAreaMode rt ! l = physicalAreaOutsideAdqPatch \<and> setToZeroOutsideOutsideLinks (badq b) \<longrightarrow>
        bas = Fini 0 \<and> haut = Fini 0) \<and>
     (\<not> premiere \<or> originAreaMode rt ! l = virtualArea \<or> extremityAreaMode rt ! l = virtualArea \<or>
        originAreaMode rt ! l = physicalAreaOutsideAdqPatch \<and> extremityAreaMode rt ! l = physicalAreaOutsideAdqPatch \<and>
          \<not> setToZeroOutsideOutsideLinks (badq b) \<longrightarrow>
        bas = opposee (ValeurDeNTCExtremiteVersOrigine ntc ! l) \<and> haut = ValeurDeNTCOrigineVersExtremite ntc ! l) \<and>
     (seconde \<and> areaMode rt ! pays = physicalAreaInsideAdqPatch \<longrightarrow>
        inf_egal (Xmax (ProblemeAResoudre s') ! e) (Fini (ValeursHorairesDENS (brs b ! pays) ! (bpremier b + t)))))"
proof -
  have "pass_bornes b s" using assms by (simp add: pass_bornes_def remplissage_def)
  from OPT_InitialiserLesBornes_ok [OF this] obtain rs' s' where
    s': "OPT_InitialiserLesBornesDesVariablesDuProblemeLineaire (bh b) (bd b) (badq b) (bpremier b)
      (bpremier b + NombreDePasDeTempsPourUneOptimisation (bh b)) (bopt b) (brs b, s) = Inr (rs', s')"
    "bornes_posees b s s'" by (auto elim!: returnsE)
  have n: "numeros_distincts (bh b)" by (rule remplir_ok(2) [OF assms(1)])
  have f: "Var NumeroDeVariableDeLInterconnexion t l \<in> set (places_de (fiches_interco (bh b) t l))"
    by (simp add: fiches_interco_def Let_def)
  obtain k where k: "k < nb_variables (bh b)" "place_de (bh b) k = Var NumeroDeVariableDeLInterconnexion t l"
    "lecture s (Var NumeroDeVariableDeLInterconnexion t l) = int k"
    using numero_dans [OF assms(1) f subsetI [OF dans_liste_interco [OF assms(5,6)]] existe_toujours(1) [OF n assms(5,6) f]] .
  note p = places_pays_dans(2) [of t pays "bh b"]
  have sub: "set (fiches_pays (bh b) t pays) \<subseteq> set (liste_variables (bh b))"
    using dans_liste_pays(1) [OF assms(5,7)] by blast
  obtain e where e: "e < nb_variables (bh b)" "place_de (bh b) e = Var NumeroDeVariableDefaillancePositive t pays"
    "lecture s (Var NumeroDeVariableDefaillancePositive t pays) = int e"
    using numero_dans [OF assms(1) p sub existe_toujours(2) [OF n assms(5,7) p]] .
  have v: "Xmin (ProblemeAResoudre s') ! k = xmin_de b (Var NumeroDeVariableDeLInterconnexion t l)"
    "Xmax (ProblemeAResoudre s') ! k = xmax_de b (Var NumeroDeVariableDeLInterconnexion t l)"
    "Xmax (ProblemeAResoudre s') ! e = xmax_de b (Var NumeroDeVariableDefaillancePositive t pays)"
    using s'(2) k(1,2) e(1,2) by (auto simp: bornes_posees_def Let_def)
  show ?thesis
    by (rule exI [of _ rs'], rule exI [of _ s'], rule conjI [OF s'(1)], unfold k(3) e(3) Let_def nat_int v,
        cases "originAreaMode (adequacyPatchRuntimeData (bd b)) ! l"; cases "extremityAreaMode (adequacyPatchRuntimeData (bd b)) ! l")
      (auto simp: lien_coupe_def lien_sens_unique_def premiere_etape_def defaillance_max_def Let_def)
qed

theorem adequacy_patch_bounds_witness:
  "\<exists>s rs' s'. pret_a_remplir exemple_pret s \<and>
    OPT_InitialiserLesBornesDesVariablesDuProblemeLineaire exemple_pret exemple_donnees exemple_adq 0 8
      PREMIERE_OPTIMISATION (exemple_resultats, s) = Inr (rs', s') \<and>
    Xmin (ProblemeAResoudre s') ! nat (lecture s (Var NumeroDeVariableDeLInterconnexion 5 0)) = Fini 0 \<and>
    Xmax (ProblemeAResoudre s') ! nat (lecture s (Var NumeroDeVariableDeLInterconnexion 5 0)) = Fini 0"
proof -
  obtain s where s: "pret_a_remplir exemple_pret s" using exemple_remplissage by metis
  have "originAreaMode (adequacyPatchRuntimeData exemple_donnees) ! 0 = physicalAreaInsideAdqPatch"
    "extremityAreaMode (adequacyPatchRuntimeData exemple_donnees) ! 0 = physicalAreaOutsideAdqPatch"
    "AdequacyFirstStep (adequacyPatchRuntimeData exemple_donnees)" "adq_enabled exemple_adq" "localMatching_enabled exemple_adq"
    by (simp_all add: exemple_donnees_def exemple_adq_def)
  with adequacy_patch_bounds [of exemple_bornes s 5 0 0] s exemple_donnees_ok exemple_resultats_ok show ?thesis
    by (fastforce simp: exemple_bornes_def Let_def simp del: lecture.simps)
qed

end
