(* ===== verification/Week_Properties.thy ===== *)
theory Week_Properties
  imports Numeric_Properties Heuristic_Correct Weekly_Optimisation
begin

text \<open>
  The properties of a week from its data to its results: the numbers of the rows, the right-hand sides, the
  preparation of the data, the heuristic between the two optimisations, the optimisation itself. Each is applied to
  the week of \<open>Worked_Example\<close>.
\<close>

subsection \<open>The example, with its numbered rows\<close>

lemma exemple_jours_numerotes: "jours_numerotes exemple_pret"
  by (simp add: jours_numerotes_def exemple_pret_defs Let_def)

lemma exemple_actives: "couplantes_actives exemple_pret"
  by (simp add: couplantes_actives_def contrainte_def Let_def eval_nat_numeral less_Suc_eq)

lemma exemple_horizon: "horizon_choisi exemple_pret"
  by (simp add: horizon_choisi_def exemple_pret_defs Let_def)

lemma exemple_intervalles [simp]: "nb_intervalles exemple_pret = 1"
  by (simp add: nb_intervalles_def)

lemma exemple_alloue:
  obtains s where "alloue exemple_pret s"
  using exemple_construit by metis

lemma exemple_problemes:
  obtains s where "probleme_pret exemple_pret (contexte_de exemple_pret s) s"
proof -
  obtain s0 where "alloue exemple_pret s0" using exemple_alloue by metis
  from construction_numerotee [OF exemple_pret_ok this exemple_jours_numerotes exemple_actives] obtain s where
    "alloue exemple_pret s" "probleme_construit exemple_pret s" "contraintes_numerotees (contexte_de exemple_pret s) s"
    "length (liste_lignes (contexte_de exemple_pret s)) \<le> nb_contraintes_prevues exemple_pret"
    by (auto elim!: returnsE)
  with exemple_pret_ok exemple_jours_numerotes exemple_horizon show thesis
    by (intro that [of s]) (auto simp: probleme_pret_def probleme_construit_def intro: pret_a_remplir_construit)
qed

section \<open>Rows and right-hand sides\<close>

text \<open>
  C34: the rows are numbered. After the construction of a week whose binding constraints all have a link or a
  cluster, the number kept for a constraint is the number of its own row, and a constraint that has no row is at -1:
  the pass over the right-hand sides finds each row where it is, and no row it should not touch.
\<close>

theorem rows_numbered:
  assumes "pret_a_construire h" and "alloue h s" and "jours_numerotes h" and "couplantes_actives h"
  shows "\<exists>s'. bindE (OPT_ConstruireLaListeDesVariablesOptimiseesDuProblemeLineaire h s)
      (OPT_ConstruireLaMatriceDesContraintesDuProblemeLineaire h) = Inr s' \<and>
    (let K = contexte_de h s'; n = NombreDeContraintes (ProblemeAResoudre s') in
     n = length (liste_lignes K) \<and>
     (\<forall>k < n. \<forall>q. place_ligne K k = Nommee q \<longrightarrow> lecture_cnt s' q = int k) \<and>
     (\<forall>q \<in> set (places_cnt (fiches_cnt K)). lue h q \<and> (\<forall>k < n. place_ligne K k \<noteq> Nommee q) \<longrightarrow> lecture_cnt s' q = - 1))"
proof -
  obtain s' where s': "bindE (OPT_ConstruireLaListeDesVariablesOptimiseesDuProblemeLineaire h s)
      (OPT_ConstruireLaMatriceDesContraintesDuProblemeLineaire h) = Inr s'"
    and c: "contraintes_numerotees (contexte_de h s') s'"
    using construction_numerotee [OF assms] by (auto elim!: returnsE)
  have "NombreDeContraintes (ProblemeAResoudre s') = length (liste_lignes (contexte_de h s'))"
    using c by (simp add: contraintes_numerotees_def)
  then show ?thesis
    using s' lecture_ligne [OF c] lecture_sans_ligne [OF c] by (auto simp: Let_def)
qed

theorem rows_numbered_witness:
  "\<exists>s s'. bindE (OPT_ConstruireLaListeDesVariablesOptimiseesDuProblemeLineaire exemple_pret s)
      (OPT_ConstruireLaMatriceDesContraintesDuProblemeLineaire exemple_pret) = Inr s' \<and>
    NombreDeContraintes (ProblemeAResoudre s') = length (liste_lignes (contexte_de exemple_pret s'))"
proof -
  obtain s where "alloue exemple_pret s" using exemple_alloue by metis
  from rows_numbered [OF exemple_pret_ok this exemple_jours_numerotes exemple_actives] show ?thesis
    by (auto simp: Let_def)
qed

text \<open>
  C35: the right-hand sides. On a constructed problem whose rows are numbered,
  \<open>OPT_InitialiserLeSecondMembreDuProblemeLineaire\<close> ends without an access outside a vector. Every row gets the
  right-hand side the table \<open>membre_de\<close> gives to its constraint and the address of its marginal cost, a row without
  a name gets 0 and no address, and nothing else of the problem changes.
\<close>

theorem right_hand_sides_set:
  assumes "pass_membres m K s" and "length (liste_lignes K) \<le> nb_contraintes_prevues (mh m)"
  shows "\<exists>s'. OPT_InitialiserLeSecondMembreDuProblemeLineaire (mh m) (md m) (mpremier m)
      (mpremier m + NombreDePasDeTempsPourUneOptimisation (mh m)) (mintervalle m) (mopt m) s = Inr s' \<and>
    (\<forall>i < length (liste_lignes K). let p = ProblemeAResoudre s' in
       SecondMembre p ! i = (case place_ligne K i of Nommee q \<Rightarrow> membre_de m q | Anonyme k \<Rightarrow> 0) \<and>
       AdresseOuPlacerLaValeurDesCoutsMarginaux p ! i =
         (case place_ligne K i of Nommee q \<Rightarrow> marginal_de m q | Anonyme k \<Rightarrow> None)) \<and>
    hors_membres s' = hors_membres s"
  using OPT_InitialiserLeSecondMembre_ok [OF assms]
  by (auto simp: membres_poses_def valeur_membre_def adresse_marginale_def Let_def elim!: returnsE)


lemma exemple_pass_membres:
  assumes "probleme_pret exemple_pret K s"
  shows "pass_membres \<lparr>mh = exemple_pret, md = exemple_donnees, mopt = opt, mpremier = 0, mintervalle = 0\<rparr> K s"
  using assms exemple_donnees_ok by (simp add: pass_membres_def probleme_pret_def remplissage_def)

theorem right_hand_sides_set_witness:
  "\<exists>s s'. probleme_pret exemple_pret (contexte_de exemple_pret s) s \<and>
    OPT_InitialiserLeSecondMembreDuProblemeLineaire exemple_pret exemple_donnees 0 8 0 PREMIERE_OPTIMISATION s = Inr s' \<and>
    SecondMembre (ProblemeAResoudre s') ! nat (lecture_cnt s (Ligne NumeroDeContrainteDesBilansPays 2 1)) = - 86"
proof -
  obtain s where s: "probleme_pret exemple_pret (contexte_de exemple_pret s) s" using exemple_problemes by metis
  let ?K = "contexte_de exemple_pret s" and ?q = "Ligne NumeroDeContrainteDesBilansPays 2 1"
  have c: "contraintes_numerotees ?K s" and l: "length (liste_lignes ?K) \<le> nb_contraintes_prevues exemple_pret"
    using s by (simp_all add: probleme_pret_def)
  have "(Some (Numerote ?q), ligne_AreaBalance ?K 2 1) \<in> set (fiches_cnt ?K)"
    by (rule dans_fiches_cnt(1) [of 2 _ 1]) (simp_all add: fiches_cnt_pays_def)
  from ligne_presente [OF c this] obtain k where k: "k < length (liste_lignes ?K)" "place_ligne ?K k = Nommee ?q"
    by auto
  from right_hand_sides_set [OF exemple_pass_membres [OF s, of PREMIERE_OPTIMISATION]] l obtain s' where
    "OPT_InitialiserLeSecondMembreDuProblemeLineaire exemple_pret exemple_donnees 0 8 0 PREMIERE_OPTIMISATION s = Inr s'"
    "SecondMembre (ProblemeAResoudre s') ! k = membre_de
      \<lparr>mh = exemple_pret, md = exemple_donnees, mopt = PREMIERE_OPTIMISATION, mpremier = 0, mintervalle = 0\<rparr> ?q"
    using k by (auto simp: Let_def simp del: membre_de.simps)
  moreover have "membre_de \<lparr>mh = exemple_pret, md = exemple_donnees, mopt = PREMIERE_OPTIMISATION, mpremier = 0, mintervalle = 0\<rparr> ?q = - 86"
    by (simp add: exemple_donnees_def eval_nat_numeral)
  ultimately show ?thesis using s lecture_ligne [OF c k] by auto
qed


section \<open>The data\<close>

text \<open>
  C36: the data keep their type. The preparation of a week ends without an access outside a vector, gives the data
  \<open>donnees_preparees\<close> (energies summed over the ranges, minimum powers memorised, numbers of units, greatest hydro
  power), and every vector keeps the size and every table the shape the later passes index them with.
\<close>

theorem data_prepared:
  assumes "passes_ok h" and "donnees_hebdo_ok h d"
  shows "preparer_donnees h d = Inr (donnees_preparees h d) \<and> donnees_hebdo_ok h (donnees_preparees h d)"
  using preparer_donnees_ok [OF assms] by (rule conjI)

lemma exemple_passes: "passes_ok exemple_pret"
  by (rule passes_ok_hebdo [OF exemple_hebdo(1) exemple_jours_numerotes])

theorem data_prepared_witness:
  "\<exists>d'. preparer_donnees exemple_pret exemple_donnees = Inr d' \<and> donnees_hebdo_ok exemple_pret d' \<and>
    MaxDesPmaxHydrauliques (HydroDonnees d' ! 1) = 60"
proof (intro exI conjI)
  note p = data_prepared [OF exemple_passes exemple_donnees_ok]
  show "preparer_donnees exemple_pret exemple_donnees = Inr (donnees_preparees exemple_pret exemple_donnees)"
    using p by (rule conjunct1)
  show "donnees_hebdo_ok exemple_pret (donnees_preparees exemple_pret exemple_donnees)" using p by (rule conjunct2)
  show "MaxDesPmaxHydrauliques (HydroDonnees (donnees_preparees exemple_pret exemple_donnees) ! 1) = 60"
    by (simp add: donnees_preparees_def avec_hydro_def hydro_prepare_def sans_reservoir_def exemple_donnees_def
        hydro_exemple_def energies_cumulees_def Let_def)
qed


subsection \<open>The example before the heuristic\<close>

definition exemple_production :: "RESULTATS" where
  "exemple_production = \<lparr>horaires = exemple_resultats, memoire = (\<lambda>a. 150)\<rparr>"

lemma courbe_replicate:
  assumes "0 < m" and "P \<le> D" and "D \<le> N" and "0 \<le> v"
  shows "courbe P D m N (replicate N v) = replicate N v"
proof (rule nth_equalityI)
  fix t assume "t < length (courbe P D m N (replicate N v))"
  then have t: "t < N" by simp
  have "courbe P D m N (replicate N v) ! t \<le> v"
    by (rule courbe_minimale [where c = "\<lambda>_. v"]) (use assms t in simp_all)
  moreover have "v \<le> courbe P D m N (replicate N v) ! t"
    using courbe_au_dessus [OF assms(1) t, of "replicate N v" P D] t by (simp only: nth_replicate)
  ultimately show "courbe P D m N (replicate N v) ! t = replicate N v ! t"
    using t by (simp only: nth_replicate antisym)
qed simp

lemma exemple_durees: "pays < NombreDePays exemple_pret \<Longrightarrow> palier < nb_paliers exemple_pret pays \<Longrightarrow>
    0 < minUpDownTime (PaliersDonnees exemple_donnees ! pays) ! palier"
  by (auto simp: exemple_donnees_def paliers_exemple_def grappe_def less_Suc_eq eval_nat_numeral)

lemma exemple_travail: "length (NbGrpCourbeGuide exemple_donnees) = NombreDePasDeTemps exemple_pret"
    "length (NbGrpOpt exemple_donnees) = NombreDePasDeTemps exemple_pret"
  by (simp_all add: exemple_donnees_def)

lemma exemple_guide: "guide_de exemple_pret exemple_production exemple_donnees 1 0 = replicate 8 2"
  by (simp add: guide_de_def exemple_production_def groupes_pour_def ZERO_PMIN_def exemple_donnees_def paliers_exemple_def
      map_replicate_const)

section \<open>The heuristic between the two optimisations\<close>

text \<open>
  C37: the minimum powers. After the first optimisation of a week without start-up costs,
  \<open>OPT_CalculerLesPminThermiquesEnFonctionDeMUTetMDT\<close> ends without an access outside a vector. For every cluster with a
  minimum power it keeps the first of the cheapest shifts of the step curve over the units that ran, and raises the
  minimum powers to that curve, which is nowhere below the units, within the power available. The other clusters,
  and everything else but the two work vectors, are left as they are.
\<close>

theorem minimum_powers_raised:
  assumes "length (PaliersThermiquesDuPays h) = NombreDePays h" and "donnees_hebdo_ok h d"
    and "length (NbGrpCourbeGuide d) = NombreDePasDeTemps h" and "length (NbGrpOpt d) = NombreDePasDeTemps h"
    and "\<And>pays palier. pays < NombreDePays h \<Longrightarrow> palier < nb_paliers h pays \<Longrightarrow>
      0 < minUpDownTime (PaliersDonnees d ! pays) ! palier"
  shows "\<exists>d'. OPT_CalculerLesPminThermiquesEnFonctionDeMUTetMDT h R d = Inr d' \<and>
    d' = avec_travail (NbGrpCourbeGuide d', NbGrpOpt d') (avec_paliers h (\<lambda>pays i. pdisp_de d' (pays, i)) d) \<and>
    (\<forall>pays < NombreDePays h. \<forall>i < nb_paliers h pays.
      let N = NombreDePasDeTemps h; pmin = PminDuPalierThermiquePendantUneHeure (PaliersDonnees d ! pays) ! i;
          m = minUpDownTime (PaliersDonnees d ! pays) ! i; guide = guide_de h R d pays i;
          x = pdisp_de d (pays, i); x' = pdisp_de d' (pays, i) in
      if \<bar>pmin\<bar> < 1 / 100 \<or> (\<forall>k \<le> intervalle_ajustement N m. 10 ^ 80 \<le> ecart (courbe_decalee N m guide k) guide) then x' = x
      else \<exists>k. let c = courbe_decalee N m guide k in meilleur_decalage N m guide k \<and>
        x' = x\<lparr>PuissanceMinDuPalierThermique := PuissanceMinDuPalierThermique x'\<rparr> \<and>
        (\<forall>t < N. guide ! t \<le> c ! t \<and> PuissanceMinDuPalierThermique x' ! t =
           min (max (PuissanceMinDuPalierThermique x ! t) (pmin * real_of_int (c ! t))) (PuissanceDisponibleDuPalierThermique x ! t)))"
proof -
  obtain d' where d': "OPT_CalculerLesPminThermiquesEnFonctionDeMUTetMDT h R d = Inr d'" and D: "releves h R d (\<lambda>_. True) d'"
    using OPT_CalculerLesPminThermiquesEnFonctionDeMUTetMDT_ok [OF assms, of R] by (auto elim!: returnsE)
  note r = releves_entier [OF D] and lu = palier_releve_lu [OF releves_entier(2) [OF D] assms(5), unfolded Let_def]
  show ?thesis
    unfolding Let_def by (intro exI conjI allI impI) (rule d', rule r(1), (rule lu; assumption))
qed


lemma exemple_courbe:
  assumes "k \<le> 2"
  shows "courbe_decalee 8 2 (replicate 8 2) k = replicate 8 2"
  unfolding courbe_decalee_def
  by (rule courbe_replicate) (use assms in \<open>simp_all add: intervalle_ajustement_def Let_def\<close>)

theorem minimum_powers_raised_witness:
  "\<exists>d'. OPT_CalculerLesPminThermiquesEnFonctionDeMUTetMDT exemple_pret exemple_production exemple_donnees = Inr d' \<and>
    PuissanceMinDuPalierThermique (pdisp_de exemple_donnees (1, 0)) ! 3 = 10 \<and>
    PuissanceMinDuPalierThermique (pdisp_de d' (1, 0)) ! 3 = 20"
proof -
  have h: "length (PaliersThermiquesDuPays exemple_pret) = NombreDePays exemple_pret" by simp
  have a: "(1 :: nat) < NombreDePays exemple_pret" "(0 :: nat) < nb_paliers exemple_pret 1" by (simp_all add: grappe_def)
  have p: "PminDuPalierThermiquePendantUneHeure (PaliersDonnees exemple_donnees ! 1) ! 0 = 10"
    "minUpDownTime (PaliersDonnees exemple_donnees ! 1) ! 0 = 2"
    "PuissanceMinDuPalierThermique (pdisp_de exemple_donnees (1, 0)) ! 3 = 10"
    "PuissanceDisponibleDuPalierThermique (pdisp_de exemple_donnees (1, 0)) ! 3 = 100"
    by (simp_all add: exemple_donnees_def paliers_exemple_def pdisp_exemple_def)
  have I: "intervalle_ajustement 8 2 = 2" by (simp add: intervalle_ajustement_def Let_def)
  have e: "\<not> (\<forall>k \<le> 2. 10 ^ 80 \<le> ecart (courbe_decalee 8 2 (replicate 8 2) k) (replicate 8 2))"
    using exemple_courbe [of 0] by (auto simp: ecart_def intro!: exI [of _ 0])
  let ?m = "minUpDownTime (PaliersDonnees exemple_donnees ! 1) ! 0" and ?x = "pdisp_de exemple_donnees (1, 0)"
    and ?pmin = "PminDuPalierThermiquePendantUneHeure (PaliersDonnees exemple_donnees ! 1) ! 0"
    and ?g = "guide_de exemple_pret exemple_production exemple_donnees 1 0" and ?N = "NombreDePasDeTemps exemple_pret"
  from minimum_powers_raised [OF h exemple_donnees_ok exemple_travail exemple_durees, of exemple_production, unfolded Let_def]
  obtain d' where d': "OPT_CalculerLesPminThermiquesEnFonctionDeMUTetMDT exemple_pret exemple_production exemple_donnees = Inr d'"
    and c: "if \<bar>?pmin\<bar> < 1 / 100 \<or> (\<forall>k \<le> intervalle_ajustement ?N ?m. 10 ^ 80 \<le> ecart (courbe_decalee ?N ?m ?g k) ?g)
      then pdisp_de d' (1, 0) = ?x
      else \<exists>k. meilleur_decalage ?N ?m ?g k \<and>
        pdisp_de d' (1, 0) = ?x\<lparr>PuissanceMinDuPalierThermique := PuissanceMinDuPalierThermique (pdisp_de d' (1, 0))\<rparr> \<and>
        (\<forall>t < ?N. ?g ! t \<le> courbe_decalee ?N ?m ?g k ! t \<and> PuissanceMinDuPalierThermique (pdisp_de d' (1, 0)) ! t =
           min (max (PuissanceMinDuPalierThermique ?x ! t) (?pmin * real_of_int (courbe_decalee ?N ?m ?g k ! t)))
             (PuissanceDisponibleDuPalierThermique ?x ! t))"
    using a by blast
  have nc: "\<not> (\<bar>10 :: real\<bar> < 1 / 100 \<or> (\<forall>k \<le> 2. 10 ^ 80 \<le> ecart (courbe_decalee 8 2 (replicate 8 2) k) (replicate 8 2)))"
    using e by simp
  from c have "\<exists>k. meilleur_decalage 8 2 (replicate 8 2) k \<and> (\<forall>t < 8. PuissanceMinDuPalierThermique (pdisp_de d' (1, 0)) ! t =
      min (max (PuissanceMinDuPalierThermique ?x ! t) (10 * real_of_int (courbe_decalee 8 2 (replicate 8 2) k ! t)))
        (PuissanceDisponibleDuPalierThermique ?x ! t))"
    unfolding exemple_guide p(1,2) exemple_pret_sel I if_not_P [OF nc] by blast
  then obtain k where "k \<le> 2" "PuissanceMinDuPalierThermique (pdisp_de d' (1, 0)) ! 3 =
      min (max 10 (10 * real_of_int (courbe_decalee 8 2 (replicate 8 2) k ! 3))) 100"
    using p(3,4) by (auto simp: meilleur_decalage_def Let_def I)
  with d' p(3) exemple_courbe [of k] show ?thesis by auto
qed

text \<open>
  C38: nothing of the heuristic is left in the next preparation. Restoring the data after the heuristic gives exactly
  what restoring them before it would have given, but for the two work vectors: every cluster has its reference
  power again, and as minimum power the smaller of its two references.
\<close>

theorem heuristic_undone:
  assumes "passes_ok h" and "jours_numerotes h" and "length (NumeroDeJourDuPasDeTemps h) = NombreDePasDeTemps h"
    and "donnees_hebdo_ok h d"
    and "length (NbGrpCourbeGuide d) = NombreDePasDeTemps h" and "length (NbGrpOpt d) = NombreDePasDeTemps h"
    and "\<And>pays palier. pays < NombreDePays h \<Longrightarrow> palier < nb_paliers h pays \<Longrightarrow>
      0 < minUpDownTime (PaliersDonnees d ! pays) ! palier"
  shows "\<exists>d1 d2. OPT_CalculerLesPminThermiquesEnFonctionDeMUTetMDT h R d = Inr d1 \<and> OPT_RestaurerLesDonnees h d = Inr d2 \<and>
    OPT_RestaurerLesDonnees h d1 = Inr (d2\<lparr>NbGrpCourbeGuide := NbGrpCourbeGuide d1, NbGrpOpt := NbGrpOpt d1\<rparr>) \<and>
    (\<forall>pays < NombreDePays h. \<forall>i < nb_paliers h pays. let x = pdisp_de d (pays, i); x' = pdisp_de d2 (pays, i) in
       PuissanceDisponibleDuPalierThermique x' = PuissanceDisponibleDuPalierThermiqueRef x \<and>
       PuissanceMinDuPalierThermique x' = map2 min (PuissanceMinDuPalierThermiqueRef x) (PuissanceDisponibleDuPalierThermiqueRef x))"
proof -
  have l: "length (PaliersThermiquesDuPays h) = NombreDePays h" using assms(1) by (simp add: passes_ok_def)
  obtain d1 where d1: "OPT_CalculerLesPminThermiquesEnFonctionDeMUTetMDT h R d = Inr d1" "releves h R d (\<lambda>_. True) d1"
    "donnees_hebdo_ok h d1"
    using OPT_CalculerLesPminThermiquesEnFonctionDeMUTetMDT_ok [OF l assms(4-7), of R] by (auto elim!: returnsE)
  have "OPT_RestaurerLesDonnees h d = Inr (donnees_restaurees h d)"
    "OPT_RestaurerLesDonnees h d1 = Inr (donnees_restaurees h d1)"
    using OPT_RestaurerLesDonnees_ok(1) [OF assms(1) _ assms(2,3)] assms(4) d1(3) by blast+
  moreover have "pdisp_de (donnees_restaurees h d) (pays, i) = palier_restaure (pdisp_de d (pays, i))"
    if "pays < NombreDePays h" "i < nb_paliers h pays" for pays i
    unfolding donnees_restaurees_def using that by (rule avec_paliers_simps(3))
  ultimately show ?thesis
    using d1(1) restaurees_releves [OF d1(2)]
    by (intro exI [of _ d1] exI [of _ "donnees_restaurees h d"]) (auto simp: avec_travail_def palier_restaure_def Let_def)
qed

lemma exemple_longueur_jours: "length (NumeroDeJourDuPasDeTemps exemple_pret) = NombreDePasDeTemps exemple_pret"
  by (simp add: exemple_pret_defs Let_def)

theorem heuristic_undone_witness:
  "\<exists>d1 d2. OPT_CalculerLesPminThermiquesEnFonctionDeMUTetMDT exemple_pret exemple_production exemple_donnees = Inr d1 \<and>
    OPT_RestaurerLesDonnees exemple_pret d1 = Inr d2 \<and> PuissanceMinDuPalierThermique (pdisp_de d2 (1, 0)) ! 3 = 10"
proof -
  from heuristic_undone [OF exemple_passes exemple_jours_numerotes exemple_longueur_jours exemple_donnees_ok
    exemple_travail exemple_durees, of exemple_production]
  obtain d1 d2 where d: "OPT_CalculerLesPminThermiquesEnFonctionDeMUTetMDT exemple_pret exemple_production exemple_donnees = Inr d1"
    "OPT_RestaurerLesDonnees exemple_pret d1 = Inr (d2\<lparr>NbGrpCourbeGuide := NbGrpCourbeGuide d1, NbGrpOpt := NbGrpOpt d1\<rparr>)"
    and "PuissanceMinDuPalierThermique (pdisp_de d2 (1, 0)) =
      map2 min (PuissanceMinDuPalierThermiqueRef (pdisp_de exemple_donnees (1, 0)))
        (PuissanceDisponibleDuPalierThermiqueRef (pdisp_de exemple_donnees (1, 0)))"
    by (auto simp: Let_def grappe_def)
  then have "PuissanceMinDuPalierThermique (pdisp_de d2 (1, 0)) ! 3 = 10"
    by (simp add: exemple_donnees_def paliers_exemple_def pdisp_exemple_def)
  with d show ?thesis by auto
qed


section \<open>The optimisation of a week\<close>

text \<open>
  C39: the optimisation of a week always ends. On a constructed week whose rows are numbered, and with a solver that
  fills its vectors, \<open>runWeeklyOptimization\<close> returns without an access outside a vector: it fills the problem of one
  range after the other, calls the solver on filled problems only, and stops at the first range without a solution.
  Every range before that is solved: the problem is the one the tables give, the cost noted is the cost of the
  solution, and the values, reduced costs and marginal costs are at the addresses of their variables and rows.
\<close>

theorem week_optimised:
  assumes "donnees_hebdo_ok h d" and "solveur_ok B (probleme_de_semaine h d adq opt K)" and "semaine_prete h K w"
  shows "\<exists>succes w' ws. runWeeklyOptimization B op h d adq opt w = Inr (succes, w') \<and> semaine_prete h K w' \<and>
    etapes h d adq opt K 0 w ws \<and>
    (if succes then length ws = nb_intervalles h \<and> w' = last (w # ws)
     else length ws < nb_intervalles h \<and> ExistenceDUneSolution w' \<noteq> OUI_SPX)"
proof -
  obtain succes w' where r: "runWeeklyOptimization B op h d adq opt w = Inr (succes, w')"
    and f: "semaine_faite h d adq opt K 0 w succes w'"
    using runWeeklyOptimization_ok [OF assms, of op] by (blast elim: returnsE)
  from f obtain ws where "semaine_prete h K w'" "etapes h d adq opt K 0 w ws"
    "if succes then length ws = nb_intervalles h \<and> w' = last (w # ws)
     else length ws < nb_intervalles h \<and> ExistenceDUneSolution w' \<noteq> OUI_SPX"
    unfolding semaine_faite_def add_0 by blast
  with r show ?thesis by blast
qed

text \<open>A solver that answers the same value everywhere.\<close>

definition exemple_bibliotheque :: "unit bibliotheque" where
  "exemple_bibliotheque = \<lparr>ConvertIfNeeded = (\<lambda>p l. (0, l)), ModifierLeVecteurCouts = (\<lambda>i p l. l),
     ModifierLeVecteurSecondMembre = (\<lambda>i p l. l), CorrigerLesBornes = (\<lambda>i p l. l), LibererProbleme = (\<lambda>i l. l),
     Simplexe = (\<lambda>ap l. (\<lparr>reponse_existence = OUI_SPX, reponse_objet = appel_objet ap,
       reponse_X = replicate (NombreDeVariables (appel_probleme ap)) 3,
       reponse_CoutsReduits = replicate (NombreDeVariables (appel_probleme ap)) 0,
       reponse_CoutsMarginaux = replicate (NombreDeContraintes (appel_probleme ap)) 0\<rparr>, l))\<rparr>"

lemma exemple_solveur: "solveur_ok exemple_bibliotheque Q"
  by (simp add: solveur_ok_def exemple_bibliotheque_def solution_lisible_def Let_def)

definition exemple_semaine :: "etat \<Rightarrow> unit SEMAINE" where
  "exemple_semaine s = \<lparr>etat_de = s, resultats_de = exemple_production, ProblemesSpx = [None],
     ExistenceDUneSolution = NON_SPX, ValeursX = [], CoutsReduits = [], CoutsMarginauxDesContraintes = [],
     coutOptimalSolution1 = [0], coutOptimalSolution2 = [0], bib = ()\<rparr>"

lemma exemple_semaine_prete:
  assumes "probleme_pret exemple_pret K s"
  shows "semaine_prete exemple_pret K (exemple_semaine s)"
  using assms exemple_resultats_ok
  by (simp add: semaine_prete_def exemple_semaine_def resultats_semaine_ok_def exemple_production_def)

definition exemple_options :: options where
  "exemple_options = \<lparr>useOrtools = True, ReinitOptimisation = False, Expansion = False\<rparr>"

theorem week_optimised_witness:
  "\<exists>s succes w'. runWeeklyOptimization exemple_bibliotheque exemple_options exemple_pret exemple_donnees exemple_adq
      PREMIERE_OPTIMISATION (exemple_semaine s) = Inr (succes, w') \<and>
    (succes \<longrightarrow> cout_note PREMIERE_OPTIMISATION w' ! 0 = (\<Sum>k < nb_variables exemple_pret.
      cout_de exemple_pret exemple_donnees 0 (place_de exemple_pret k) * ValeursX w' ! k))"
proof -
  obtain s where s: "probleme_pret exemple_pret (contexte_de exemple_pret s) s" using exemple_problemes by metis
  from week_optimised [OF exemple_donnees_ok exemple_solveur exemple_semaine_prete [OF s],
    where adq = exemple_adq and opt = PREMIERE_OPTIMISATION and op = exemple_options] obtain succes w' ws where
    r: "runWeeklyOptimization exemple_bibliotheque exemple_options exemple_pret exemple_donnees exemple_adq
      PREMIERE_OPTIMISATION (exemple_semaine s) = Inr (succes, w')"
    "etapes exemple_pret exemple_donnees exemple_adq PREMIERE_OPTIMISATION (contexte_de exemple_pret s) 0 (exemple_semaine s) ws"
    "if succes then length ws = nb_intervalles exemple_pret \<and> w' = last (exemple_semaine s # ws)
     else length ws < nb_intervalles exemple_pret \<and> ExistenceDUneSolution w' \<noteq> OUI_SPX"
    by blast
  have "cout_note PREMIERE_OPTIMISATION w' ! 0 = (\<Sum>k < nb_variables exemple_pret.
      cout_de exemple_pret exemple_donnees 0 (place_de exemple_pret k) * ValeursX w' ! k)" if succes
    using r(2,3) that by (auto simp: length_Suc_conv intervalle_resolu_def)
  with r(1) show ?thesis by blast
qed


end
