(* ===== verification/Pilot_Properties.thy ===== *)
theory Pilot_Properties
  imports Linear_Pilot Week_Properties
begin

text \<open>
  The property of the whole weekly optimisation, from the pilot to the results of the second optimisation, and its
  witness: the first week of the worked example, with real numbers of units so that both optimisations are run.
\<close>

subsection \<open>The example before its first week\<close>

text \<open>Whether the units are integers is not read by the construction.\<close>

lemma entieres_non_lu:
  fixes h :: PROBLEME_HEBDO and b :: bool
  defines "h' \<equiv> h\<lparr>OptimisationAvecVariablesEntieres := b\<rparr>"
  shows "donnees_ok h' = donnees_ok h" and "avec_horizon h' = (avec_horizon h)\<lparr>OptimisationAvecVariablesEntieres := b\<rparr>"
    and "semaine_lisible h' d w = semaine_lisible h d w"
proof -
  have "paliers_ok h' = paliers_ok h" by (rule paliers_ok_cong) (simp add: h'_def)
  moreover have "demarrage_ok (choisir_horizon h') = demarrage_ok (choisir_horizon h)"
    by (rule demarrage_ok_cong) (simp add: h'_def choisir_horizon_def)
  moreover have "couplante_ok h' = couplante_ok h" by (rule couplante_ok_cong) (simp_all add: h'_def)
  ultimately have s: "structure_ok h' = structure_ok h" unfolding structure_ok_def by (simp add: h'_def)
  have "numeros_distincts h' = numeros_distincts h" "horaire_ok h' = horaire_ok h" "intercos_ok h' = intercos_ok h"
    "niveau_impossible h' = niveau_impossible h" "tailles_ok (choisir_horizon h') = tailles_ok (choisir_horizon h)"
    by (simp_all add: h'_def numeros_distincts_def horaire_ok_def intercos_ok_def niveau_impossible_def [abs_def] tailles_ok_def
        somme_pays_def choisir_horizon_def)
  with s show "donnees_ok h' = donnees_ok h" by (simp add: donnees_ok_def) (simp add: h'_def)
  show "avec_horizon h' = (avec_horizon h)\<lparr>OptimisationAvecVariablesEntieres := b\<rparr>"
    by (simp add: h'_def avec_horizon_def choisir_horizon_def)
  have e: "NombreDePasDeTemps h' = NombreDePasDeTemps h" "NombreDePays h' = NombreDePays h"
    "NombreDInterconnexions h' = NombreDInterconnexions h" "PaliersThermiquesDuPays h' = PaliersThermiquesDuPays h"
    "NombreDeJours h' = NombreDeJours h" "ShortTermStorage h' = ShortTermStorage h" "weekInTheYear h' = weekInTheYear h"
    "NombreDeContraintesCouplantes h' = NombreDeContraintesCouplantes h"
    "MatriceDesContraintesCouplantes h' = MatriceDesContraintesCouplantes h"
    by (simp_all add: h'_def)
  have "donnees_hebdo_ok h' d = donnees_hebdo_ok h d" by (simp only: donnees_hebdo_ok_def Let_def e)
  then show "semaine_lisible h' d w = semaine_lisible h d w"
    by (simp add: semaine_lisible_def) (simp add: h'_def couplantes_actives_def durees_lues_def duree_marche_def
        resultats_semaine_ok_def resultats_ok_def nb_intervalles_def)
qed

definition exemple_pilote :: "unit PILOTE" where
  "exemple_pilote = (let h = exemple\<lparr>OptimisationAvecVariablesEntieres := False\<rparr> in
     \<lparr>hebdo_de = h, donnees_de = exemple_donnees, semaine_de = exemple_semaine (SIM_AllocationProblemeHebdo h),
      TypeDOptimisation = OPTIMISATION_LINEAIRE, LeProblemeADejaEteInstancie = False\<rparr>)"

lemma exemple_pilote_ok: "pilote_ok exemple_pilote"
proof -
  have "semaine_lisible exemple_pret exemple_donnees (exemple_semaine s)" for s
    using exemple_actives exemple_donnees_ok exemple_resultats_ok
    by (simp add: semaine_lisible_def durees_lues_def exemple_semaine_def resultats_semaine_ok_def exemple_production_def
        duree_marche_def grappe_def less_Suc_eq eval_nat_numeral)
  moreover have "avec_horizon exemple = avec_preparation (avec_horizon exemple) exemple_pret"
    using prepare_instancie [OF exemple_instancie] by (simp add: exemple_pret_def)
  moreover have "NombreDeJours (avec_horizon exemple) = NombreDeJours exemple_pret"
    using instancie_preparation(3) [OF exemple_instancie] by (simp add: exemple_pret_def)
  ultimately have "semaine_lisible (avec_horizon exemple) exemple_donnees (exemple_semaine s)" for s
    using semaine_lisible_preparation by metis
  then show ?thesis
    using exemple_ok SIM_Allocation_ok
    by (simp add: pilote_ok_def exemple_pilote_def Let_def entieres_non_lu) (simp add: exemple_semaine_def)
qed

text \<open>A solver of the small problems that only finds the least numbers of units.\<close>

definition exemple_simplexe :: simplexe_seul where
  "exemple_simplexe p = (if solution_ajustement p (aj_Xmin p) then (OUI_SPX, aj_Xmin p) else (NON_SPX, []))"

lemma exemple_simplexe_ok: "simplexe_ok exemple_simplexe"
  by (auto simp: simplexe_ok_def exemple_simplexe_def)

subsection \<open>The week\<close>

text \<open>
  C40: the weekly optimisation is an invariant step. From data that are read (first week) or a problem in service (the
  next ones), with solvers that answer as they document, \<open>OPT_PilotageOptimisationLineaire\<close> ends without an access
  outside a vector and leaves a state from which it can run again. In between, the first optimisation runs on the
  prepared and restored data; if all its ranges have a solution, outside the expansion mode and with real units, the
  heuristic of the options follows and the second optimisation runs on the data it leaves. With start-up costs these
  hold, hour by hour, at least the units of the first optimisation rounded up, and no more than the greatest number.
\<close>

theorem week_piloted:
  fixes z :: "'l PILOTE"
  assumes "simplexe_ok SPX" and "solveur_hebdo_ok B" and "pilote_ok z"
  shows "\<exists>ret z' s ret1 w1. OPT_PilotageOptimisationLineaire B SPX op adq z = Inr (ret, z') \<and>
    pilote_ok z' \<and> LeProblemeADejaEteInstancie z' \<and>
    (let h = hebdo_de z'; K = contexte_de h s; d = donnees_restaurees h (donnees_preparees h (donnees_de_semaine z));
         d' = donnees_de z' in
     semaine_faite h d adq PREMIERE_OPTIMISATION K 0 ((semaine_de z)\<lparr>etat_de := s\<rparr>) ret1 w1 \<and>
     (if ret1 \<and> \<not> Expansion op \<and> \<not> OptimisationAvecVariablesEntieres h
      then (\<exists>R. heuristique_faite SPX op h (resultats_de w1) d (R, d') \<and>
          semaine_faite h d' adq DEUXIEME_OPTIMISATION K 0 (w1\<lparr>resultats_de := R\<rparr>) ret (semaine_de z')) \<and>
        (OptimisationAvecCoutsDeDemarrage h \<longrightarrow> groupes_tenus h (resultats_de w1) d')
      else ret = ret1 \<and> d' = d \<and> semaine_de z' = w1))"
proof -
  obtain ret z' where r: "OPT_PilotageOptimisationLineaire B SPX op adq z = Inr (ret, z')" "pilote_ok z'"
    "LeProblemeADejaEteInstancie z'" "semaine_pilotee SPX op adq z ret z'"
    using OPT_PilotageOptimisationLineaire_ok [OF assms, of op adq] by (auto elim!: returnsE)
  let ?h = "hebdo_de z'" and ?d = "donnees_restaurees (hebdo_de z') (donnees_preparees (hebdo_de z') (donnees_de_semaine z))"
  obtain s where D: "deux_optimisations SPX op adq ?h (contexte_de ?h s) ?d ((semaine_de z)\<lparr>etat_de := s\<rparr>) ret (donnees_de z') (semaine_de z')"
    using r(4) by (auto simp: semaine_pilotee_def Let_def)
  show ?thesis
  proof (rule deux_optimisations_lues [OF D])
    fix ret1 w1
    show ?thesis if f: "semaine_faite ?h ?d adq PREMIERE_OPTIMISATION (contexte_de ?h s) 0 ((semaine_de z)\<lparr>etat_de := s\<rparr>) ret1 w1"
      and c: "if ret1 \<and> \<not> Expansion op \<and> \<not> OptimisationAvecVariablesEntieres ?h
        then (\<exists>R. heuristique_faite SPX op ?h (resultats_de w1) ?d (R, donnees_de z') \<and>
            semaine_faite ?h (donnees_de z') adq DEUXIEME_OPTIMISATION (contexte_de ?h s) 0 (w1\<lparr>resultats_de := R\<rparr>) ret (semaine_de z')) \<and>
          (OptimisationAvecCoutsDeDemarrage ?h \<longrightarrow> groupes_tenus ?h (resultats_de w1) (donnees_de z'))
        else ret = ret1 \<and> donnees_de z' = ?d \<and> semaine_de z' = w1"
      by (rule exI [of _ ret], rule exI [of _ z'], rule exI [of _ s], rule exI [of _ ret1], rule exI [of _ w1], unfold Let_def)
        (rule conjI [OF r(1) conjI [OF r(2) conjI [OF r(3) conjI [OF f c]]]])
  qed
qed

theorem week_piloted_witness:
  "\<exists>ret z'. OPT_PilotageOptimisationLineaire exemple_bibliotheque exemple_simplexe exemple_options exemple_adq exemple_pilote = Inr (ret, z') \<and>
    pilote_ok z' \<and> LeProblemeADejaEteInstancie z'"
proof -
  have "solveur_hebdo_ok exemple_bibliotheque" unfolding solveur_hebdo_ok_def by (rule exemple_solveur)
  from week_piloted [OF exemple_simplexe_ok this exemple_pilote_ok, of exemple_options exemple_adq] show ?thesis by blast
qed

end
