(* ===== verification/Problem_Solutions.thy ===== *)
theory Problem_Solutions
  imports Right_Hand_Sides_Correct
begin

text \<open>
  What a solution of the linear problem says of the week. The matrix and the right-hand sides are read where the
  code wrote them: \<open>satisfait\<close> says that values of the variables satisfy one row of the sparse matrix with the
  right-hand side of the same number. A problem is assembled by the construction of the variables, of the matrix and
  by the pass over the right-hand sides; the lemmas below give the sums that every solution of its rows satisfies.
\<close>

subsection \<open>Rows that hold\<close>

definition satisfait :: "(int \<Rightarrow> real) \<Rightarrow> PROBLEME_ANTARES_A_RESOUDRE \<Rightarrow> nat \<Rightarrow> bool" where
  "satisfait x p k \<longleftrightarrow> (let (sens, ts) = lignes p ! k; v = valeur_termes x ts; b = SecondMembre p ! k in
     if sens = CHR ''='' then v = b else if sens = CHR ''<'' then v \<le> b else v \<ge> b)"

text \<open>The rows of \<open>R\<close> that are in the matrix with the right-hand side 0.\<close>

definition satisfait_nulles :: "(int \<Rightarrow> real) \<Rightarrow> PROBLEME_ANTARES_A_RESOUDRE \<Rightarrow> ligne list \<Rightarrow> bool" where
  "satisfait_nulles x p R \<longleftrightarrow>
     (\<forall>k < NombreDeContraintes p. lignes p ! k \<in> set R \<and> SecondMembre p ! k = 0 \<longrightarrow> satisfait x p k)"

text \<open>The row whose number the construction recorded for a constraint.\<close>

abbreviation satisfait_contrainte :: "(int \<Rightarrow> real) \<Rightarrow> etat \<Rightarrow> place_cnt \<Rightarrow> bool" where
  "satisfait_contrainte x s q \<equiv> satisfait x (ProblemeAResoudre s) (nat (lecture_cnt s q))"

definition assemble :: "contexte_membres \<Rightarrow> contexte \<Rightarrow> etat \<Rightarrow> bool" where
  "assemble m K s \<longleftrightarrow> kh K = mh m \<and> contraintes_numerotees K s \<and> lignes (ProblemeAResoudre s) = liste_lignes K \<and>
     membres_poses m K s"

text \<open>The week, its data and vectors of the right sizes: what the assembly needs.\<close>

definition a_assembler :: "contexte_membres \<Rightarrow> etat \<Rightarrow> bool" where
  "a_assembler m s \<longleftrightarrow> pret_a_construire (mh m) \<and> alloue (mh m) s \<and> jours_numerotes (mh m) \<and>
     couplantes_actives (mh m) \<and> horizon_choisi (mh m) \<and> donnees_hebdo_ok (mh m) (md m) \<and>
     mpremier m + NombreDePasDeTempsPourUneOptimisation (mh m) \<le> NombreDePasDeTemps (mh m) \<and>
     mintervalle m < NombreDeJours (mh m)"

lemma hors_membresD:
  assumes "hors_membres s' = hors_membres s"
  shows "lecture_cnt s' = lecture_cnt s" and "lignes (ProblemeAResoudre s') = lignes (ProblemeAResoudre s)"
    and "NombreDeContraintes (ProblemeAResoudre s') = NombreDeContraintes (ProblemeAResoudre s)"
    and "contexte_de h s = (contexte_de h s')\<lparr>kcote := kcote (contexte_de h s)\<rparr>"
    and "lecture s' = lecture s" and "NombreDeVariables (ProblemeAResoudre s') = NombreDeVariables (ProblemeAResoudre s)"
proof -
  have p: "sans_membres (ProblemeAResoudre s') = sans_membres (ProblemeAResoudre s)"
    using assms by (cases s; cases s') (simp add: hors_membres_def)
  have e: "CorrespondanceVarNativesVarOptim s' = CorrespondanceVarNativesVarOptim s"
    "NumeroDeVariableStockFinal s' = NumeroDeVariableStockFinal s"
    "NumeroDeVariableDeTrancheDeStock s' = NumeroDeVariableDeTrancheDeStock s"
    using assms by (cases s; cases s'; simp add: hors_membres_def)+
  then show "contexte_de h s = (contexte_de h s')\<lparr>kcote := kcote (contexte_de h s)\<rparr>" by (simp add: contexte_de_def)
  show "lecture s' = lecture s"
  proof
    show "lecture s' q = lecture s q" for q using e by (cases q) simp_all
  qed
  show "lecture_cnt s' = lecture_cnt s"
    by (rule lecture_cnt_cong) (use assms in \<open>cases s; cases s'; simp add: hors_membres_def\<close>)+
  show "NombreDeContraintes (ProblemeAResoudre s') = NombreDeContraintes (ProblemeAResoudre s)"
    "NombreDeVariables (ProblemeAResoudre s') = NombreDeVariables (ProblemeAResoudre s)"
    using p by (cases "ProblemeAResoudre s"; cases "ProblemeAResoudre s'"; simp add: sans_membres_def)+
  show "lignes (ProblemeAResoudre s') = lignes (ProblemeAResoudre s)"
    using p by (cases "ProblemeAResoudre s"; cases "ProblemeAResoudre s'") (simp add: sans_membres_def lignes_def ligne_at_def Let_def)
qed

lemma assemble_ok:
  assumes "a_assembler m s"
  obtains K s' where "bindE (bindE (OPT_ConstruireLaListeDesVariablesOptimiseesDuProblemeLineaire (mh m) s)
      (OPT_ConstruireLaMatriceDesContraintesDuProblemeLineaire (mh m)))
      (OPT_InitialiserLeSecondMembreDuProblemeLineaire (mh m) (md m) (mpremier m)
        (mpremier m + NombreDePasDeTempsPourUneOptimisation (mh m)) (mintervalle m) (mopt m)) = Inr s'"
    and "assemble m K s'" and "K = (contexte_de (mh m) s')\<lparr>kcote := kcote K\<rparr>"
    and "alloue (mh m) s'" and "variables_numerotees (mh m) s'"
proof -
  let ?h = "mh m"
  have p: "pret_a_construire ?h" "alloue ?h s" "jours_numerotes ?h" "couplantes_actives ?h"
    using assms by (simp_all add: a_assembler_def)
  from construction_numerotee [OF p] obtain s1 where
    s1: "bindE (OPT_ConstruireLaListeDesVariablesOptimiseesDuProblemeLineaire ?h s)
      (OPT_ConstruireLaMatriceDesContraintesDuProblemeLineaire ?h) = Inr s1" and
    a: "alloue ?h s1" "probleme_construit ?h s1" "contraintes_numerotees (contexte_de ?h s1) s1"
      "length (liste_lignes (contexte_de ?h s1)) \<le> nb_contraintes_prevues ?h"
    by (auto elim!: returnsE)
  let ?K = "contexte_de ?h s1"
  have "pass_membres m ?K s1"
    using assms a p pret_a_remplir_construit by (simp add: pass_membres_def remplissage_def a_assembler_def)
  from OPT_InitialiserLeSecondMembre_ok [OF this] a(4) obtain s' where
    s': "OPT_InitialiserLeSecondMembreDuProblemeLineaire ?h (md m) (mpremier m)
        (mpremier m + NombreDePasDeTempsPourUneOptimisation ?h) (mintervalle m) (mopt m) s1 = Inr s'"
      "hors_membres s' = hors_membres s1" "alloue ?h s'" "membres_poses m ?K s'"
    by (auto elim!: returnsE)
  note d = hors_membresD [OF s'(2)]
  show thesis
  proof
    show "assemble m ?K s'"
      using a(2,3) s'(4) d(1,2,3) contraintes_numerotees_cong
      by (auto simp: assemble_def probleme_construit_def)
    show "variables_numerotees ?h s'"
      using variables_numerotees_construites [of ?h s1] a(2) d(5,6) by (simp add: probleme_construit_def variables_numerotees_def)
  qed (use s1 s' d(4) in simp_all)
qed

subsection \<open>The rows of a constraint\<close>

lemma fiche_ligne:
  "(mo, ls) \<in> set fs \<Longrightarrow> l \<in> set ls \<Longrightarrow>
     \<exists>k < length (lignes_de fs). lignes_de fs ! k = l \<and> noms_lignes fs ! k = nom_marque mo"
proof (induction fs)
  case (Cons f fs)
  show ?case
  proof (cases "f = (mo, ls)")
    case True
    then obtain k where "k < length (snd f)" "snd f ! k = l" using Cons.prems(2) by (auto simp: in_set_conv_nth)
    with True show ?thesis by (intro exI [of _ k]) (simp add: nth_append)
  next
    case False
    with Cons obtain k where "k < length (lignes_de fs)" "lignes_de fs ! k = l" "noms_lignes fs ! k = nom_marque mo" by auto
    then show ?thesis by (intro exI [of _ "length (snd f) + k"]) (simp add: nth_append)
  qed
qed simp

lemma assembleD:
  assumes "assemble m K s" and "k < length (liste_lignes K)"
  shows "lignes (ProblemeAResoudre s) ! k = liste_lignes K ! k"
    and "SecondMembre (ProblemeAResoudre s) ! k = valeur_membre m (place_ligne K k)"
  using assms by (auto simp: assemble_def membres_poses_def Let_def)

text \<open>An equality the construction numbered holds when its left-hand side is the right-hand side of the table.\<close>

lemma contrainte_satisfaite:
  assumes A: "assemble m K s" and f: "(Some (Numerote q), rang CHR ''='' ts) \<in> set (fiches_cnt K)" and q: "lue (kh K) q"
  shows "satisfait_contrainte x s q \<longleftrightarrow> valeur_lignes x (rang CHR ''='' ts) = membre_de m q"
proof -
  have c: "contraintes_numerotees K s" using A by (simp add: assemble_def)
  then have "fiche_remplie (kh K) (Some (Numerote q), rang CHR ''='' ts)" using f by (simp add: contraintes_numerotees_def)
  then have "ts \<noteq> []" using q by (simp add: fiche_remplie_rang nom_marque_def)
  then have "(CHR ''='', ts) \<in> set (rang CHR ''='' ts)" by (simp add: rang_def)
  from fiche_ligne [OF f this] obtain k where k: "k < length (liste_lignes K)" "liste_lignes K ! k = (CHR ''='', ts)"
    "nom_ligne K k = Some q"
    by (auto simp: lignes_fiches_cnt nom_ligne_def nom_marque_def)
  then have n: "place_ligne K k = Nommee q" by (simp add: place_ligne_def)
  then have "nat (lecture_cnt s q) = k" using lecture_ligne [OF c k(1)] by simp
  then show ?thesis
    using assembleD [OF A k(1)] k(2) n by (simp add: satisfait_def valeur_membre_def rang_def valeur_lignes_def del: membre_de.simps)
qed

text \<open>The balances, the levels of the storages and those of the reservoirs.\<close>

lemma contraintes_satisfaites:
  assumes A: "assemble m K s" and t: "t < NombreDePasDeTempsPourUneOptimisation (kh K)" and p: "pays < NombreDePays (kh K)"
  shows "satisfait_contrainte x s (Ligne NumeroDeContrainteDesBilansPays t pays) \<longleftrightarrow>
      valeur_lignes x (ligne_AreaBalance K t pays) = membre_de m (Ligne NumeroDeContrainteDesBilansPays t pays)"
    and "st \<in> set (ShortTermStorage (kh K) ! pays) \<Longrightarrow>
      satisfait_contrainte x s (Ligne ShortTermStorageLevelConstraint t (clusterGlobalIndex st)) \<longleftrightarrow>
      valeur_lignes x (ligne_stockage K t st) = membre_de m (Ligne ShortTermStorageLevelConstraint t (clusterGlobalIndex st))"
    and "SuiviNiveauHoraire (hydro K pays) \<Longrightarrow>
      satisfait_contrainte x s (Ligne NumeroDeContrainteDesNiveauxPays t pays) \<longleftrightarrow>
      valeur_lignes x (ligne_AreaHydroLevel K pays t) = membre_de m (Ligne NumeroDeContrainteDesNiveauxPays t pays)"
proof -
  have "(Some (Numerote (Ligne NumeroDeContrainteDesBilansPays t pays)), ligne_AreaBalance K t pays) \<in> set (fiches_cnt K)"
    by (rule dans_fiches_cnt(1) [OF t p]) (simp add: fiches_cnt_pays_def)
  then show "satisfait_contrainte x s (Ligne NumeroDeContrainteDesBilansPays t pays) \<longleftrightarrow>
      valeur_lignes x (ligne_AreaBalance K t pays) = membre_de m (Ligne NumeroDeContrainteDesBilansPays t pays)"
    unfolding ligne_AreaBalance_def by (rule contrainte_satisfaite [OF A]) simp
  show "satisfait_contrainte x s (Ligne ShortTermStorageLevelConstraint t (clusterGlobalIndex st)) \<longleftrightarrow>
      valeur_lignes x (ligne_stockage K t st) = membre_de m (Ligne ShortTermStorageLevelConstraint t (clusterGlobalIndex st))"
    if st: "st \<in> set (ShortTermStorage (kh K) ! pays)"
  proof -
    have "(Some (Numerote (Ligne ShortTermStorageLevelConstraint t (clusterGlobalIndex st))), ligne_stockage K t st) \<in> set (fiches_cnt K)"
      by (rule dans_fiches_cnt(1) [OF t p]) (use st in \<open>auto simp: fiches_cnt_pays_def\<close>)
    then show ?thesis
      unfolding ligne_stockage_def Let_def by (rule contrainte_satisfaite [OF A]) simp
  qed
  show "satisfait_contrainte x s (Ligne NumeroDeContrainteDesNiveauxPays t pays) \<longleftrightarrow>
      valeur_lignes x (ligne_AreaHydroLevel K pays t) = membre_de m (Ligne NumeroDeContrainteDesNiveauxPays t pays)"
    if S: "SuiviNiveauHoraire (hydro K pays)"
  proof -
    have "(Some (Numerote (Ligne NumeroDeContrainteDesNiveauxPays t pays)), ligne_AreaHydroLevel K pays t) \<in> set (fiches_cnt K)"
      using dans_fiches_cnt(9) [OF t p] S by (simp add: fiche_cnt_niveau_def)
    then show ?thesis
      unfolding ligne_AreaHydroLevel_def if_P [OF S] by (rule contrainte_satisfaite [OF A]) simp
  qed
qed

text \<open>An equality whose number is not kept: its left-hand side is 0.\<close>

lemma anonyme_satisfaite:
  assumes A: "assemble m K s" and f: "(None, ls) \<in> set (fiches_cnt K)" and r: "set R \<subseteq> set ls" and R: "R = rang CHR ''='' ts"
    and x: "satisfait_nulles x (ProblemeAResoudre s) R"
  shows "valeur_lignes x R = 0"
proof (cases "ts = []")
  case False
  then have l: "(CHR ''='', ts) \<in> set R" by (simp add: rang_def R)
  with r have "(CHR ''='', ts) \<in> set ls" by blast
  from fiche_ligne [OF f this] obtain k where k: "k < length (liste_lignes K)" "liste_lignes K ! k = (CHR ''='', ts)"
    "nom_ligne K k = None"
    by (auto simp: lignes_fiches_cnt nom_ligne_def nom_marque_def)
  then have n: "place_ligne K k = Anonyme k" by (simp add: place_ligne_def)
  have "NombreDeContraintes (ProblemeAResoudre s) = length (liste_lignes K)"
    using A by (simp add: assemble_def contraintes_numerotees_def)
  with x k l have "satisfait x (ProblemeAResoudre s) k"
    using assembleD [OF A k(1)] n by (simp add: satisfait_nulles_def valeur_membre_def)
  then show ?thesis
    using assembleD [OF A k(1)] k(2) n False by (simp add: satisfait_def valeur_membre_def R rang_def valeur_lignes_def)
qed (simp add: R rang_def)

text \<open>An equality of value 0 holds wherever its right-hand side is 0.\<close>

lemma satisfait_nullesI:
  assumes "valeur_lignes x (rang CHR ''='' ts) = 0"
  shows "satisfait_nulles x p (rang CHR ''='' ts)"
  using assms by (auto simp: satisfait_nulles_def satisfait_def rang_def valeur_lignes_def Let_def split: if_splits)

text \<open>The vectors of the variables do not matter for the rows.\<close>

lemma sans_cote [simp]:
  "numero (K\<lparr>kcote := c\<rparr>) = numero K" "terme (K\<lparr>kcote := c\<rparr>) = terme K" "decale (K\<lparr>kcote := c\<rparr>) = decale K"
  "suivante (K\<lparr>kcote := c\<rparr>) = suivante K"
  "valeur_native (K\<lparr>kcote := c\<rparr>) = valeur_native K" "production_nette (K\<lparr>kcote := c\<rparr>) = production_nette K"
  "ligne_Consistence (K\<lparr>kcote := c\<rparr>) = ligne_Consistence K" "ligne_VariationSum (K\<lparr>kcote := c\<rparr>) = ligne_VariationSum K"
proof -
  show n: "numero (K\<lparr>kcote := c\<rparr>) = numero K" by (intro ext) (simp add: numero_def)
  show t: "terme (K\<lparr>kcote := c\<rparr>) = terme K" by (intro ext) (simp add: terme_def n)
  show d: "decale (K\<lparr>kcote := c\<rparr>) = decale K" by (intro ext) (simp add: decale_def)
  show u: "suivante (K\<lparr>kcote := c\<rparr>) = suivante K" by (intro ext) (simp add: suivante_def)
  show v: "valeur_native (K\<lparr>kcote := c\<rparr>) = valeur_native K" by (intro ext) (simp add: valeur_native_def n)
  show "production_nette (K\<lparr>kcote := c\<rparr>) = production_nette K" by (intro ext) (simp add: production_nette_def v)
  show "ligne_Consistence (K\<lparr>kcote := c\<rparr>) = ligne_Consistence K" by (intro ext) (simp add: ligne_Consistence_def t d)
  show "ligne_VariationSum (K\<lparr>kcote := c\<rparr>) = ligne_VariationSum K" by (intro ext) (simp add: ligne_VariationSum_def t u)
qed

lemma sans_coteD:
  assumes "K = K'\<lparr>kcote := c\<rparr>"
  shows "valeur_native K = valeur_native K'" "production_nette K = production_nette K'"
    "ligne_Consistence K = ligne_Consistence K'" "ligne_VariationSum K = ligne_VariationSum K'" "kh K = kh K'"
  using assms by simp_all

subsection \<open>The balances of a solution\<close>

text \<open>What the balance of an area must supply: the load, and in the first optimisation the day-ahead reserve.\<close>

definition besoin :: "contexte_membres \<Rightarrow> nat \<Rightarrow> nat \<Rightarrow> real" where
  "besoin m t pays = ConsommationAbattueDuPays (md m) ! (mpremier m + t) ! pays +
     (if YaDeLaReserveJmoins1 (md m) \<and> mopt m = PREMIERE_OPTIMISATION
      then ReserveHoraireJMoins1 (md m) ! pays ! (mpremier m + t) else 0)"

lemma membre_bilan: "membre_de m (Ligne NumeroDeContrainteDesBilansPays t pays) = - besoin m t pays"
  by (simp add: besoin_def)

lemma bilan_energie:
  assumes A: "assemble m K s" and "intercos_ok (kh K)" and t: "t < NombreDePasDeTempsPourUneOptimisation (kh K)"
    and x: "\<forall>pays < NombreDePays (kh K). satisfait_contrainte x s (Ligne NumeroDeContrainteDesBilansPays t pays)"
  shows "(\<Sum>pays < NombreDePays (kh K). production_nette K x t pays) = (\<Sum>pays < NombreDePays (kh K). besoin m t pays)"
proof -
  have "valeur_lignes x (ligne_AreaBalance K t pays) = - besoin m t pays" if p: "pays < NombreDePays (kh K)" for pays
    using contraintes_satisfaites(1) [OF A t p, of x] x p unfolding membre_bilan by blast
  with somme_AreaBalance [OF assms(2), of x t] show ?thesis by (simp add: sum_negf)
qed

lemma bilan_stockage:
  assumes A: "assemble m K s" and T: "0 < NombreDePasDeTempsPourUneOptimisation (kh K)"
    and p: "pays < NombreDePays (kh K)" and st: "st \<in> set (ShortTermStorage (kh K) ! pays)"
    and x: "\<forall>t < NombreDePasDeTempsPourUneOptimisation (kh K).
      satisfait_contrainte x s (Ligne ShortTermStorageLevelConstraint t (clusterGlobalIndex st))"
  shows "(\<Sum>t < NombreDePasDeTempsPourUneOptimisation (kh K).
      valeur_native K x t (ShortTermStorageWithdrawal (clusterGlobalIndex st)) -
      efficiency st * valeur_native K x t (ShortTermStorageInjection (clusterGlobalIndex st))) =
    (\<Sum>t < NombreDePasDeTempsPourUneOptimisation (kh K).
      membre_de m (Ligne ShortTermStorageLevelConstraint t (clusterGlobalIndex st)))"
proof -
  have "valeur_lignes x (ligne_stockage K t st) = membre_de m (Ligne ShortTermStorageLevelConstraint t (clusterGlobalIndex st))"
    if t: "t < NombreDePasDeTempsPourUneOptimisation (kh K)" for t
    using contraintes_satisfaites(2) [OF A t p st] x t by blast
  with somme_ligne_stockage [OF T, of x st] show ?thesis
    by (simp add: somme_sur_heures del: membre_de.simps)
qed

lemma bilan_groupes:
  assumes A: "assemble m K s" and T: "0 < NombreDePasDeTempsPourUneOptimisation (kh K)"
    and D: "OptimisationAvecCoutsDeDemarrage (kh K)" and p: "pays < NombreDePays (kh K)" and i: "i < nb_paliers (kh K) pays"
    and x: "\<forall>t < NombreDePasDeTempsPourUneOptimisation (kh K).
      satisfait_nulles x (ProblemeAResoudre s) (ligne_Consistence K pays i t)"
  shows "(\<Sum>t < NombreDePasDeTempsPourUneOptimisation (kh K). valeur_native K x t (NumberStoppingDispatchableUnits (palier_du K pays i))) =
    (\<Sum>t < NombreDePasDeTempsPourUneOptimisation (kh K). valeur_native K x t (NumberStartingDispatchableUnits (palier_du K pays i)))"
proof -
  let ?ls = "concat (map (\<lambda>i. concat (map (ligne_Consistence K pays i) (heures (kh K)))) [0..<nb_paliers (kh K) pays])"
  have f: "(None, ?ls) \<in> set (fiches_cnt K)"
    using D p by (auto simp: fiches_cnt_def fiches_cnt_demarrage_def image_iff)
  have s: "set (ligne_Consistence K pays i t) \<subseteq> set ?ls" if "t < NombreDePasDeTempsPourUneOptimisation (kh K)" for t
  proof -
    have "set (ligne_Consistence K pays i t) \<subseteq> set (concat (map (ligne_Consistence K pays i) (heures (kh K))))"
      using that by (auto simp: heures_def)
    also have "\<dots> \<subseteq> set ?ls" using i by auto
    finally show ?thesis .
  qed
  have "valeur_lignes x (ligne_Consistence K pays i t) = 0" if t: "t < NombreDePasDeTempsPourUneOptimisation (kh K)" for t
    by (rule anonyme_satisfaite [OF A f s [OF t] ligne_Consistence_def]) (use x t in blast)
 with somme_ligne_Consistence [OF T, of x pays i] show ?thesis
    by (simp add: somme_sur_heures sum_subtractf)
qed

lemma bilan_variations:
  assumes A: "assemble m K s" and T: "0 < NombreDePasDeTempsPourUneOptimisation (kh K)" and p: "pays < NombreDePays (kh K)"
    and l: "TypeDeLissageHydraulique (kh K) = LISSAGE_HYDRAULIQUE_SUR_SOMME_DES_VARIATIONS"
    and M: "PresenceDHydrauliqueModulable (hydro K pays)"
    and x: "\<forall>t < NombreDePasDeTempsPourUneOptimisation (kh K).
      satisfait_nulles x (ProblemeAResoudre s) (ligne_VariationSum K pays t)"
  shows "(\<Sum>t < NombreDePasDeTempsPourUneOptimisation (kh K). valeur_native K x t (HydProdUp pays)) =
    (\<Sum>t < NombreDePasDeTempsPourUneOptimisation (kh K). valeur_native K x t (HydProdDown pays))"
proof -
  have f: "(None, lignes_lissage K) \<in> set (fiches_cnt K)" by (simp add: fiches_cnt_def)
  have s: "set (ligne_VariationSum K pays t) \<subseteq> set (lignes_lissage K)" if "t < NombreDePasDeTempsPourUneOptimisation (kh K)" for t
  proof -
    have "set (ligne_VariationSum K pays t) \<subseteq> set (lignes_VariationSum K pays)"
      using M that by (auto simp: lignes_VariationSum_def heures_def)
    also have "\<dots> \<subseteq> set (lignes_lissage K)" using p l by (auto simp: lignes_lissage_def par_pays_def)
    finally show ?thesis .
  qed
  have "valeur_lignes x (ligne_VariationSum K pays t) = 0" if t: "t < NombreDePasDeTempsPourUneOptimisation (kh K)" for t
    by (rule anonyme_satisfaite [OF A f s [OF t] ligne_VariationSum_def]) (use x t in blast)
 with somme_ligne_VariationSum [OF T, of x pays] show ?thesis
    by (simp add: somme_sur_heures sum_subtractf)
qed

lemma bilan_reservoir:
  assumes A: "assemble m K s" and S: "SuiviNiveauHoraire (hydro K pays)" and p: "pays < NombreDePays (kh K)"
    and n: "0 < n" "n \<le> NombreDePasDeTempsPourUneOptimisation (kh K)"
    and x: "\<forall>t < n. satisfait_contrainte x s (Ligne NumeroDeContrainteDesNiveauxPays t pays)"
  shows "valeur_native K x (n - 1) (HydroLevel pays) =
    (\<Sum>t < n. membre_de m (Ligne NumeroDeContrainteDesNiveauxPays t pays)) -
    (\<Sum>t < n. valeur_native K x t (HydProd pays) + valeur_native K x t (Overflow pays) -
       PumpingRatio (hydro K pays) * valeur_native K x t (Pumping pays))"
proof -
  have "valeur_lignes x (ligne_AreaHydroLevel K pays t) = membre_de m (Ligne NumeroDeContrainteDesNiveauxPays t pays)"
    if t: "t < n" for t
    using contraintes_satisfaites(3) [OF A _ p S, of t x] x t n(2) by auto
  with somme_ligne_AreaHydroLevel [OF S n(2), of x] n(1) show ?thesis
    by (simp add: sum.distrib sum_subtractf del: membre_de.simps)
qed

end
