(* ===== verification/Solution_Properties.thy ===== *)
theory Solution_Properties
  imports Week_Properties Problem_Solutions
begin

text \<open>
  What every solution of an assembled problem satisfies: the energy of the areas at an hour, the stocks followed over the
  cyclic hours, the level of a reservoir. The matrix and the right-hand sides are those the code writes; a row is
  found by the number the code keeps for its constraint. Each property is applied to values of the variables of the week
  of \<open>Worked_Example\<close>.
\<close>

text \<open>The variables, the matrix, then the right-hand sides of a range, as the code chains them.\<close>

abbreviation assembler :: "contexte_membres \<Rightarrow> etat \<Rightarrow> etat resultat" where
  "assembler m s \<equiv> bindE (bindE (OPT_ConstruireLaListeDesVariablesOptimiseesDuProblemeLineaire (mh m) s)
      (OPT_ConstruireLaMatriceDesContraintesDuProblemeLineaire (mh m)))
      (OPT_InitialiserLeSecondMembreDuProblemeLineaire (mh m) (md m) (mpremier m)
        (mpremier m + NombreDePasDeTempsPourUneOptimisation (mh m)) (mintervalle m) (mopt m))"

lemma a_assembler_hebdo:
  assumes "a_assembler m s"
  shows "hebdo_ok (mh m)" "intercos_ok (mh m)" "0 < NombreDePasDeTempsPourUneOptimisation (mh m)"
proof -
  show h: "hebdo_ok (mh m)" using assms by (simp add: a_assembler_def pret_a_construire_def)
  then show "intercos_ok (mh m)" unfolding hebdo_ok_def by blast
  show "0 < NombreDePasDeTempsPourUneOptimisation (mh m)" by (rule hebdo_ok_horizon(1) [OF h])
qed

subsection \<open>Values of the variables, place by place\<close>

text \<open>Values given by the places where the numbers of the variables are kept.\<close>

definition valeurs_de :: "PROBLEME_HEBDO \<Rightarrow> (place \<Rightarrow> real) \<Rightarrow> int \<Rightarrow> real" where
  "valeurs_de h f j = (if 0 \<le> j then f (place_de h (nat j)) else 0)"

lemma valeur_place:
  assumes R: "pret_a_remplir h s" and hr: "hr < NombreDePasDeTempsPourUneOptimisation h" and nv: "native_ok h nv" "declaree h hr nv"
  shows "valeur_native (contexte_de h s) (valeurs_de h f) hr nv =
    (if presente_variable h hr nv then f (place_native hr nv) else 0)"
proof -
  have h: "hebdo_ok h" "alloue h s" by (rule remplir_ok [OF R])+
  then have "contexte_ok (contexte_de h s)"
    by (simp add: contexte_ok_def contexte_de_def alloue_def dims_variables_def)
  then have n: "numero (contexte_de h s) hr nv = lecture s (place_native hr nv)"
    using numero_lecture [of h s hr nv] h(1) hr nv(1) by simp
  show ?thesis
  proof (cases "presente_variable h hr nv")
    case True
    then obtain v where "(place_native hr nv, Some v) \<in> set (liste_variables h)" by (auto simp: presente_variable_def)
    then obtain k where "place_de h k = place_native hr nv" "lecture s (place_native hr nv) = int k"
      using numero_existe [OF R] by metis
    with True n show ?thesis by (simp add: valeur_native_def valeurs_de_def)
  next
    case False
    then have "(place_native hr nv, None) \<in> set (liste_variables h)"
      using nv(2) unfolding declaree_def presente_variable_def by (metis option.exhaust)
    then have "lecture s (place_native hr nv) = - 1"
      using remplir_ok(3) [OF R] by (simp add: variables_numerotees_def)
    with False n show ?thesis by (simp add: valeur_native_def)
  qed
qed

text \<open>The variables that are there.\<close>

lemma presentes:
  assumes "hr < NombreDePasDeTempsPourUneOptimisation h" and "pays < NombreDePays h"
  shows "presente_variable h hr (PositiveUnsuppliedEnergy pays)"
    and "st \<in> set (ShortTermStorage h ! pays) \<Longrightarrow> presente_variable h hr (ShortTermStorageWithdrawal (clusterGlobalIndex st))"
    and "st \<in> set (ShortTermStorage h ! pays) \<Longrightarrow> presente_variable h hr (ShortTermStorageLevel (clusterGlobalIndex st))"
    and "SuiviNiveauHoraire (hydro_de h pays) \<Longrightarrow> presente_variable h hr (Overflow pays)"
    and "variation_existe h hr pays \<Longrightarrow> presente_variable h hr (HydProdUp pays)"
    and "variation_existe h hr pays \<Longrightarrow> presente_variable h hr (HydProdDown pays)"
proof -
  have s: "set (fiches_pays h hr pays) \<subseteq> set (liste_variables h)" "set (fiches_hydro h hr pays) \<subseteq> set (liste_variables h)"
    using dans_liste_pays [OF assms] by auto
  then show "presente_variable h hr (PositiveUnsuppliedEnergy pays)"
    "SuiviNiveauHoraire (hydro_de h pays) \<Longrightarrow> presente_variable h hr (Overflow pays)"
    "variation_existe h hr pays \<Longrightarrow> presente_variable h hr (HydProdUp pays)"
    "variation_existe h hr pays \<Longrightarrow> presente_variable h hr (HydProdDown pays)"
    by (auto simp: presente_variable_def fiches_pays_def fiches_hydro_def fiches_paires Let_def)
  have "set (fiches_stockage h hr pays st) \<subseteq> set (fiches_pays h hr pays)" if "st \<in> set (ShortTermStorage h ! pays)"
    using that by (auto simp: fiches_pays_def Let_def)
  then have "set (fiches_stockage h hr pays st) \<subseteq> set (liste_variables h)" if "st \<in> set (ShortTermStorage h ! pays)"
    using that s(1) by blast
  then show "st \<in> set (ShortTermStorage h ! pays) \<Longrightarrow> presente_variable h hr (ShortTermStorageWithdrawal (clusterGlobalIndex st))"
    "st \<in> set (ShortTermStorage h ! pays) \<Longrightarrow> presente_variable h hr (ShortTermStorageLevel (clusterGlobalIndex st))"
    by (auto simp: presente_variable_def fiches_stockage_def fiches_paires Let_def)
qed

lemma presentes_demarrage:
  assumes "OptimisationAvecCoutsDeDemarrage h" and "hr < NombreDePasDeTempsPourUneOptimisation h"
    and "pays < NombreDePays h" and "i < nb_paliers h pays"
  shows "presente_variable h hr (NumberOfDispatchableUnits (numero_palier h pays i))"
    and "presente_variable h hr (NumberStartingDispatchableUnits (numero_palier h pays i))"
    and "presente_variable h hr (NumberStoppingDispatchableUnits (numero_palier h pays i))"
proof -
  have "set (fiches_demarrage h pays i hr) \<subseteq> set (liste_variables h)" using dans_liste_demarrage [OF assms] by blast
  then show "presente_variable h hr (NumberOfDispatchableUnits (numero_palier h pays i))"
    "presente_variable h hr (NumberStartingDispatchableUnits (numero_palier h pays i))"
    "presente_variable h hr (NumberStoppingDispatchableUnits (numero_palier h pays i))"
    by (auto simp: presente_variable_def fiches_demarrage_def fiches_paires Let_def)
qed

subsection \<open>The example, assembled\<close>

definition exemple_membres :: contexte_membres where
  "exemple_membres = \<lparr>mh = exemple_pret, md = exemple_donnees, mopt = PREMIERE_OPTIMISATION, mpremier = 0, mintervalle = 0\<rparr>"

lemma exemple_membres_sel [simp]:
  "mh exemple_membres = exemple_pret" "md exemple_membres = exemple_donnees" "mopt exemple_membres = PREMIERE_OPTIMISATION"
  "mpremier exemple_membres = 0" "mintervalle exemple_membres = 0"
  by (simp_all add: exemple_membres_def)

lemma exemple_a_assembler:
  obtains s K s' where "a_assembler exemple_membres s" and "assembler exemple_membres s = Inr s'"
    and "assemble exemple_membres K s'" and "K = (contexte_de exemple_pret s')\<lparr>kcote := kcote K\<rparr>"
    and "pret_a_remplir exemple_pret s'"
proof -
  obtain s where "alloue exemple_pret s" using exemple_alloue by metis
  then have a: "a_assembler exemple_membres s"
    using exemple_pret_ok exemple_jours_numerotes exemple_actives exemple_horizon exemple_donnees_ok
    by (simp add: a_assembler_def)
  obtain K s' where r: "assembler exemple_membres s = Inr s'" "assemble exemple_membres K s'"
    "K = (contexte_de (mh exemple_membres) s')\<lparr>kcote := kcote K\<rparr>" "alloue (mh exemple_membres) s'"
    "variables_numerotees (mh exemple_membres) s'"
    using assemble_ok [OF a] .
  from r(4,5) exemple_pret_ok have "pret_a_remplir exemple_pret s'" by (simp add: pret_a_remplir_def)
  with a r(1,2) r(3) [unfolded exemple_membres_sel] show thesis by (rule that)
qed

section \<open>Energy\<close>

text \<open>
  C22: generation meets the load, and the links neither create nor lose energy. Assemble a range: the variables, the
  matrix and the right-hand sides. Whatever the values of the variables, if they satisfy at an hour the row the code
  numbers as the balance of each area, with the right-hand side the code put there, then the net generation of the areas
  (generation, unsupplied energy and storage withdrawals, minus pumping, spillage and injections) is in total the load of
  the areas, with the day-ahead reserve in the first optimisation: the flows of the links cancel.
\<close>

theorem flows_cancel:
  assumes "a_assembler m s" and "t < NombreDePasDeTempsPourUneOptimisation (mh m)"
  shows "\<exists>s'. assembler m s = Inr s' \<and>
    (\<forall>x. (\<forall>pays < NombreDePays (mh m). satisfait_contrainte x s' (Ligne NumeroDeContrainteDesBilansPays t pays)) \<longrightarrow>
      (\<Sum>pays < NombreDePays (mh m). production_nette (contexte_de (mh m) s') x t pays) =
      (\<Sum>pays < NombreDePays (mh m). ConsommationAbattueDuPays (md m) ! (mpremier m + t) ! pays +
        (if YaDeLaReserveJmoins1 (md m) \<and> mopt m = PREMIERE_OPTIMISATION
         then ReserveHoraireJMoins1 (md m) ! pays ! (mpremier m + t) else 0)))"
proof -
  obtain K s' where r: "assembler m s = Inr s'" and A: "assemble m K s'"
    and K: "K = (contexte_de (mh m) s')\<lparr>kcote := kcote K\<rparr>"
    using assemble_ok [OF assms(1)] .
  have k: "kh K = mh m" "production_nette K = production_nette (contexte_de (mh m) s')"
    using A sans_coteD [OF K] by (simp_all add: assemble_def)
  note b = bilan_energie [OF A, of t, unfolded k besoin_def, OF a_assembler_hebdo(2) [OF assms(1)] assms(2)]
  show ?thesis by (intro exI conjI, rule r, intro allI impI, rule b)
qed

theorem flows_cancel_witness:
  "\<exists>s s' x. assembler exemple_membres s = Inr s' \<and>
    satisfait_contrainte x s' (Ligne NumeroDeContrainteDesBilansPays 2 0) \<and>
    satisfait_contrainte x s' (Ligne NumeroDeContrainteDesBilansPays 2 1) \<and>
    valeur_native (contexte_de exemple_pret s') x 2 (NTCDirect 0) = 30 \<and>
    production_nette (contexte_de exemple_pret s') x 2 0 = 156 \<and>
    production_nette (contexte_de exemple_pret s') x 2 0 + production_nette (contexte_de exemple_pret s') x 2 1 = 212"
proof -
  obtain s K s' where a: "a_assembler exemple_membres s" and r: "assembler exemple_membres s = Inr s'"
    and A: "assemble exemple_membres K s'" and K: "K = (contexte_de exemple_pret s')\<lparr>kcote := kcote K\<rparr>"
    and R: "pret_a_remplir exemple_pret s'"
    using exemple_a_assembler .
  define f where "f q = (if q = Var NumeroDeVariableDefaillancePositive 2 0 then 156
    else if q = Var NumeroDeVariableDefaillancePositive 2 1 then 56
    else if q = Var NumeroDeVariableDeLInterconnexion 2 0 then 30 else (0 :: real))" for q
  let ?x = "valeurs_de exemple_pret f"
  note v = valeur_place [OF R, of 2 _ f]
  have d: "declaree exemple_pret 2 (DispatchableProduction 0)" "declaree exemple_pret 2 (DispatchableProduction 1)"
    "declaree exemple_pret 2 (ShortTermStorageInjection 0)" "declaree exemple_pret 2 (ShortTermStorageWithdrawal 0)"
    using declaree_palier [of 2 exemple_pret 0 0] declaree_palier [of 2 exemple_pret 1 0]
      declaree_stockage(1,2) [of 2 exemple_pret 1 "\<lparr>efficiency = 9 / 10, clusterGlobalIndex = 0, storage_name = ''battery''\<rparr>"]
    by (simp_all add: grappe_def)
  have k: "kh K = exemple_pret" "valeur_native K = valeur_native (contexte_de exemple_pret s')"
    using A sans_coteD [OF K] by (simp_all add: assemble_def)
  have pn: "production_nette (contexte_de exemple_pret s') = production_nette K" using sans_coteD [OF K] by simp
  have l: "valeur_native K ?x 2 (NTCDirect 0) = 30"
    using presentes_interco [of 2 exemple_pret 0] by (simp add: k v f_def)
  have n: "production_nette K ?x 2 0 = 156" "production_nette K ?x 2 1 = 56"
    using d presentes(1) [of 2 exemple_pret 0] presentes(1) [of 2 exemple_pret 1]
    by (simp_all add: production_nette_def k v f_def Let_def grappe_def)
  have "valeur_lignes ?x (ligne_AreaBalance K 2 0) = - 126" "valeur_lignes ?x (ligne_AreaBalance K 2 1) = - 86"
    unfolding valeur_AreaBalance n
    by (simp_all add: k l [unfolded k] liens_origine_def liens_extremite_def liens_def)
  then have sat: "satisfait_contrainte ?x s' (Ligne NumeroDeContrainteDesBilansPays 2 0)"
    "satisfait_contrainte ?x s' (Ligne NumeroDeContrainteDesBilansPays 2 1)"
    using contraintes_satisfaites(1) [OF A, of 2 0 ?x] contraintes_satisfaites(1) [OF A, of 2 1 ?x]
    by (simp_all add: k exemple_donnees_def eval_nat_numeral del: lecture_cnt.simps)
  then have "\<forall>pays < NombreDePays (mh exemple_membres). satisfait_contrainte ?x s' (Ligne NumeroDeContrainteDesBilansPays 2 pays)"
    by (auto simp: less_2_cases_iff simp del: lecture_cnt.simps)
  with flows_cancel [OF a, of 2] r have "(\<Sum>pays < 2. production_nette (contexte_de exemple_pret s') ?x 2 pays) = 212"
    by (auto simp: exemple_donnees_def eval_nat_numeral simp del: lecture_cnt.simps)
  then have t: "production_nette (contexte_de exemple_pret s') ?x 2 0 + production_nette (contexte_de exemple_pret s') ?x 2 1 = 212"
    by (simp add: numeral_2_eq_2)
  show ?thesis
    by (rule exI [of _ s], rule exI [of _ s'], rule exI [of _ ?x], intro conjI r sat t l [unfolded k] n(1) [folded pn])
qed

section \<open>Stocks\<close>

text \<open>
  C23: what is followed over the cyclic hours ends where it started. In an assembled problem, values of the variables that
  satisfy the level rows of a storage withdraw over the range what they inject times the efficiency, plus the inflows;
  values that satisfy the consistency rows of a cluster stop as many units as they start; values that satisfy the
  smoothing rows of a reservoir go up as much as they go down. The level rows are found by their numbers; no number is
  kept for the others, which are the rows of the matrix with their terms and the right-hand side 0.
\<close>

theorem cyclic_stocks:
  assumes "a_assembler m s" and "pays < NombreDePays (mh m)"
  shows "\<exists>s'. assembler m s = Inr s' \<and> (\<forall>x. let h = mh m; K = contexte_de h s'; v = valeur_native K x;
      T = NombreDePasDeTempsPourUneOptimisation h; p = ProblemeAResoudre s' in
    (\<forall>st \<in> set (ShortTermStorage h ! pays).
      (\<forall>t < T. satisfait_contrainte x s' (Ligne ShortTermStorageLevelConstraint t (clusterGlobalIndex st))) \<longrightarrow>
      (\<Sum>t < T. v t (ShortTermStorageWithdrawal (clusterGlobalIndex st)) -
         efficiency st * v t (ShortTermStorageInjection (clusterGlobalIndex st))) =
      (\<Sum>t < T. series_inflows (sts_de (md m) (stockage_de h (clusterGlobalIndex st))) !
         (weekInTheYear h * 168 + (mpremier m + t)))) \<and>
    (\<forall>i < nb_paliers h pays. OptimisationAvecCoutsDeDemarrage h \<and> (\<forall>t < T. satisfait_nulles x p (ligne_Consistence K pays i t)) \<longrightarrow>
      (\<Sum>t < T. v t (NumberStoppingDispatchableUnits (numero_palier h pays i))) =
      (\<Sum>t < T. v t (NumberStartingDispatchableUnits (numero_palier h pays i)))) \<and>
    (TypeDeLissageHydraulique h = LISSAGE_HYDRAULIQUE_SUR_SOMME_DES_VARIATIONS \<and>
      PresenceDHydrauliqueModulable (hydro_de h pays) \<and> (\<forall>t < T. satisfait_nulles x p (ligne_VariationSum K pays t)) \<longrightarrow>
      (\<Sum>t < T. v t (HydProdUp pays)) = (\<Sum>t < T. v t (HydProdDown pays))))"
proof -
  obtain K s' where r: "assembler m s = Inr s'" and A: "assemble m K s'"
    and K: "K = (contexte_de (mh m) s')\<lparr>kcote := kcote K\<rparr>"
    using assemble_ok [OF assms(1)] .
  note k = sans_coteD(1,3,4,5) [OF K, unfolded contexte_de_kh]
  note T = a_assembler_hebdo(3) [OF assms(1)]
  have "(\<Sum>t < NombreDePasDeTempsPourUneOptimisation (mh m).
      valeur_native (contexte_de (mh m) s') x t (ShortTermStorageWithdrawal (clusterGlobalIndex st)) -
      efficiency st * valeur_native (contexte_de (mh m) s') x t (ShortTermStorageInjection (clusterGlobalIndex st))) =
    (\<Sum>t < NombreDePasDeTempsPourUneOptimisation (mh m).
      series_inflows (sts_de (md m) (stockage_de (mh m) (clusterGlobalIndex st))) !
        (weekInTheYear (mh m) * 168 + (mpremier m + t)))"
    if "st \<in> set (ShortTermStorage (mh m) ! pays)" and "\<forall>t < NombreDePasDeTempsPourUneOptimisation (mh m).
      satisfait_contrainte x s' (Ligne ShortTermStorageLevelConstraint t (clusterGlobalIndex st))" for st x
    using bilan_stockage [OF A, unfolded k membre_de.simps, OF T assms(2) that] .
  note st = this
  note g = bilan_groupes [OF A, unfolded k, OF T _ assms(2)]
  note u = bilan_variations [OF A, unfolded k, OF T assms(2)]
  show ?thesis
    unfolding Let_def
    by (rule exI [of _ s'], rule conjI [OF r], intro allI conjI ballI impI, (elim conjE)?, rule st; (elim conjE)?)
      (assumption | erule (2) g [rotated 2] | erule (2) u)+
qed

text \<open>Constant values for the storage, the second cluster and the second reservoir of the example.\<close>

definition valeurs_stocks :: "place \<Rightarrow> real" where
  "valeurs_stocks q = (case q of Var c t i \<Rightarrow>
      if c = LevelVariable then 5 else if c = InjectionVariable then 2 else if c = WithdrawalVariable then 14 / 5
      else if c = NumeroDeVariableDuNombreDeGroupesEnMarcheDuPalierThermique then 3
      else if c = NumeroDeVariableDuNombreDeGroupesQuiDemarrentDuPalierThermique then 1
      else if c = NumeroDeVariableDuNombreDeGroupesQuiSArretentDuPalierThermique then 1
      else if c = NumeroDeVariablesDeLaProdHyd then 5 else 2 | _ \<Rightarrow> 0)"

abbreviation batterie :: STS_PROPERTIES where
  "batterie \<equiv> \<lparr>efficiency = 9 / 10, clusterGlobalIndex = 0, storage_name = ''battery''\<rparr>"

lemma valeurs_stocks_exemple:
  assumes R: "pret_a_remplir exemple_pret s" and t: "t < 8"
  shows "valeur_native (contexte_de exemple_pret s) (valeurs_de exemple_pret valeurs_stocks) t (ShortTermStorageLevel 0) = 5"
    "valeur_native (contexte_de exemple_pret s) (valeurs_de exemple_pret valeurs_stocks) t (ShortTermStorageInjection 0) = 2"
    "valeur_native (contexte_de exemple_pret s) (valeurs_de exemple_pret valeurs_stocks) t (ShortTermStorageWithdrawal 0) = 14 / 5"
    "valeur_native (contexte_de exemple_pret s) (valeurs_de exemple_pret valeurs_stocks) t (NumberOfDispatchableUnits 1) = 3"
    "valeur_native (contexte_de exemple_pret s) (valeurs_de exemple_pret valeurs_stocks) t (NumberStartingDispatchableUnits 1) = 1"
    "valeur_native (contexte_de exemple_pret s) (valeurs_de exemple_pret valeurs_stocks) t (NumberStoppingDispatchableUnits 1) = 1"
    "valeur_native (contexte_de exemple_pret s) (valeurs_de exemple_pret valeurs_stocks) t (HydProd 1) = 5"
    "valeur_native (contexte_de exemple_pret s) (valeurs_de exemple_pret valeurs_stocks) t (HydProdUp 1) = 2"
    "valeur_native (contexte_de exemple_pret s) (valeurs_de exemple_pret valeurs_stocks) t (HydProdDown 1) = 2"
  using t valeur_place [OF R, of t _ valeurs_stocks] declaree_stockage [of t exemple_pret 1 batterie]
    presentes(2,3) [of t exemple_pret 1 batterie] presentes_pays(3) [of t exemple_pret 1 batterie]
    declaree_demarrage [of exemple_pret t 1 0] presentes_demarrage [of exemple_pret t 1 0]
    presentes(5,6) [of t exemple_pret 1] presentes_pays(4) [of t exemple_pret 1]
  by (simp_all add: valeurs_stocks_def grappe_def variation_existe_def sans_reservoir_def)

theorem cyclic_stocks_witness:
  "\<exists>s s' x. assembler exemple_membres s = Inr s' \<and> (let v = valeur_native (contexte_de exemple_pret s') x in
    (\<forall>t < 8. satisfait_contrainte x s' (Ligne ShortTermStorageLevelConstraint t 0)) \<and>
    v 3 (ShortTermStorageInjection 0) = 2 \<and> v 3 (NumberStartingDispatchableUnits 1) = 1 \<and> v 3 (HydProdUp 1) = 2 \<and>
    (\<Sum>t < 8. v t (ShortTermStorageWithdrawal 0) - 9 / 10 * v t (ShortTermStorageInjection 0)) = 8 \<and>
    (\<Sum>t < 8. v t (NumberStoppingDispatchableUnits 1)) = (\<Sum>t < 8. v t (NumberStartingDispatchableUnits 1)) \<and>
    (\<Sum>t < 8. v t (HydProdUp 1)) = (\<Sum>t < 8. v t (HydProdDown 1)))"
proof -
  obtain s K s' where a: "a_assembler exemple_membres s" and r: "assembler exemple_membres s = Inr s'"
    and A: "assemble exemple_membres K s'" and K: "K = (contexte_de exemple_pret s')\<lparr>kcote := kcote K\<rparr>"
    and R: "pret_a_remplir exemple_pret s'"
    using exemple_a_assembler .
  let ?x = "valeurs_de exemple_pret valeurs_stocks" and ?K = "contexte_de exemple_pret s'"
  note v = valeurs_stocks_exemple [OF R] valeurs_stocks_exemple [OF R, unfolded One_nat_def]
  have k: "kh K = exemple_pret" "valeur_native K = valeur_native ?K"
    using A sans_coteD [OF K] by (simp_all add: assemble_def)
  have d: "decale K t d < 8" "decale ?K t d < 8" "suivante ?K t < 8" for t d
    by (simp_all add: decale_def suivante_def k nat_less_iff)
  have p: "stockage_de exemple_pret 0 = (1, 0)"
    using stockage_de_numero [OF exemple_hebdo(2), of 1 0] by simp
  have sat: "satisfait_contrainte ?x s' (Ligne ShortTermStorageLevelConstraint t 0)" if t: "t < 8" for t
  proof -
    have "valeur_lignes ?x (ligne_stockage K t batterie) = 1"
      by (simp add: ligne_stockage_def Let_def k v d t)
    then show ?thesis
      using t contraintes_satisfaites(2) [OF A, of t 1 batterie ?x]
      by (simp add: k p exemple_donnees_def sts_exemple_def del: lecture_cnt.simps)
  qed
  have n: "satisfait_nulles ?x (ProblemeAResoudre s') (ligne_Consistence ?K 1 0 t)"
    "satisfait_nulles ?x (ProblemeAResoudre s') (ligne_VariationSum ?K 1 t)" if "t < 8" for t
    unfolding ligne_Consistence_def ligne_VariationSum_def
    by (rule satisfait_nullesI; simp add: grappe_def v that d)+
  have ok: "1 < NombreDePays (mh exemple_membres)" by simp
  have "(\<forall>st \<in> set (ShortTermStorage exemple_pret ! 1).
      (\<forall>t < 8. satisfait_contrainte ?x s' (Ligne ShortTermStorageLevelConstraint t (clusterGlobalIndex st))) \<longrightarrow>
      (\<Sum>t < 8. valeur_native ?K ?x t (ShortTermStorageWithdrawal (clusterGlobalIndex st)) -
         efficiency st * valeur_native ?K ?x t (ShortTermStorageInjection (clusterGlobalIndex st))) =
      (\<Sum>t < 8. series_inflows (sts_de exemple_donnees (stockage_de exemple_pret (clusterGlobalIndex st))) ! (504 + t))) \<and>
    (\<forall>i < nb_paliers exemple_pret 1. (\<forall>t < 8. satisfait_nulles ?x (ProblemeAResoudre s') (ligne_Consistence ?K 1 i t)) \<longrightarrow>
      (\<Sum>t < 8. valeur_native ?K ?x t (NumberStoppingDispatchableUnits (numero_palier exemple_pret 1 i))) =
      (\<Sum>t < 8. valeur_native ?K ?x t (NumberStartingDispatchableUnits (numero_palier exemple_pret 1 i)))) \<and>
    (PresenceDHydrauliqueModulable (hydro_de exemple_pret 1) \<and>
      (\<forall>t < 8. satisfait_nulles ?x (ProblemeAResoudre s') (ligne_VariationSum ?K 1 t)) \<longrightarrow>
      (\<Sum>t < 8. valeur_native ?K ?x t (HydProdUp 1)) = (\<Sum>t < 8. valeur_native ?K ?x t (HydProdDown 1)))"
    using cyclic_stocks [OF a ok] r
    by (elim exE conjE) (drule spec [of _ ?x], simp add: Let_def del: lecture_cnt.simps)
  note c = conjunct1 [OF this] conjunct1 [OF conjunct2 [OF this]] conjunct2 [OF conjunct2 [OF this]]
  have i: "(\<Sum>t < 8. series_inflows sts_exemple ! (504 + t)) = (8 :: real)" by (simp add: sts_exemple_def)
  have q: "StockageDonnees exemple_donnees ! Suc 0 ! 0 = sts_exemple" by (simp add: exemple_donnees_def)
  have "(\<Sum>t < 8. valeur_native ?K ?x t (ShortTermStorageWithdrawal 0) - 9 / 10 * valeur_native ?K ?x t (ShortTermStorageInjection 0)) = 8"
    using c(1) sat by (simp add: p q i del: lecture_cnt.simps)
  moreover have "(\<Sum>t < 8. valeur_native ?K ?x t (NumberStoppingDispatchableUnits 1)) =
      (\<Sum>t < 8. valeur_native ?K ?x t (NumberStartingDispatchableUnits 1))"
    using c(2) [rule_format, of 0] n(1) by (simp add: grappe_def)
  moreover have "(\<Sum>t < 8. valeur_native ?K ?x t (HydProdUp 1)) = (\<Sum>t < 8. valeur_native ?K ?x t (HydProdDown 1))"
    using c(3) n(2) by (simp add: sans_reservoir_def)
  moreover have "valeur_native ?K ?x 3 (ShortTermStorageInjection 0) = 2"
    "valeur_native ?K ?x 3 (NumberStartingDispatchableUnits 1) = 1" "valeur_native ?K ?x 3 (HydProdUp 1) = 2"
    using v by simp_all
  ultimately show ?thesis
    unfolding Let_def using r sat by blast
qed

text \<open>
  C24: the level of a reservoir. In an assembled problem, values of the variables that satisfy the first \<open>n\<close> level rows of
  a reservoir followed hour by hour give as level at the end of hour \<open>n - 1\<close> the initial level (when the range starts
  the week) plus the inflows of the \<open>n\<close> hours, minus the generation and the overflow, plus the pumping times its ratio.
\<close>

theorem reservoir_balance:
  assumes "a_assembler m s" and "pays < NombreDePays (mh m)"
    and "SuiviNiveauHoraire (CaracteristiquesHydrauliques (mh m) ! pays)" and "0 < n"
    and "n \<le> NombreDePasDeTempsPourUneOptimisation (mh m)"
  shows "\<exists>s'. assembler m s = Inr s' \<and> (\<forall>x. let v = valeur_native (contexte_de (mh m) s') x; hd = HydroDonnees (md m) ! pays in
    (\<forall>t < n. satisfait_contrainte x s' (Ligne NumeroDeContrainteDesNiveauxPays t pays)) \<longrightarrow>
      v (n - 1) (HydroLevel pays) =
        (if mpremier m = 0 then NiveauInitialReservoir hd else 0) + (\<Sum>t < n. ApportNaturelHoraire hd ! (mpremier m + t)) -
        (\<Sum>t < n. v t (HydProd pays) + v t (Overflow pays) -
           PumpingRatio (CaracteristiquesHydrauliques (mh m) ! pays) * v t (Pumping pays)))"
proof -
  obtain K s' where r: "assembler m s = Inr s'" and A: "assemble m K s'"
    and K: "K = (contexte_de (mh m) s')\<lparr>kcote := kcote K\<rparr>"
    using assemble_ok [OF assms(1)] .
  note k = sans_coteD(1,5) [OF K, unfolded contexte_de_kh]
  have c: "(\<Sum>t < n. if mpremier m + t = 0 then c else 0) = (if mpremier m = 0 then c else 0)" for c :: real
    using assms(4) by (cases n) (auto simp: lessThan_Suc_eq_insert_0 sum.reindex)
  have w: "(\<Sum>t < n. membre_de m (Ligne NumeroDeContrainteDesNiveauxPays t pays)) =
      (if mpremier m = 0 then NiveauInitialReservoir (HydroDonnees (md m) ! pays) else 0) +
      (\<Sum>t < n. ApportNaturelHoraire (HydroDonnees (md m) ! pays) ! (mpremier m + t))"
    unfolding membre_de.simps sum.distrib c by (rule add.commute)
  have b: "valeur_native (contexte_de (mh m) s') x (n - 1) (HydroLevel pays) =
      (\<Sum>t < n. membre_de m (Ligne NumeroDeContrainteDesNiveauxPays t pays)) -
      (\<Sum>t < n. valeur_native (contexte_de (mh m) s') x t (HydProd pays) + valeur_native (contexte_de (mh m) s') x t (Overflow pays) -
         PumpingRatio (CaracteristiquesHydrauliques (mh m) ! pays) * valeur_native (contexte_de (mh m) s') x t (Pumping pays))"
    if "\<forall>t < n. satisfait_contrainte x s' (Ligne NumeroDeContrainteDesNiveauxPays t pays)" for x
    using bilan_reservoir [OF A, unfolded k, OF assms(3,2,4,5) that] .
  show ?thesis
    unfolding Let_def by (intro exI conjI, rule r, intro allI impI, rule b [unfolded w])
qed

theorem reservoir_balance_witness:
  "\<exists>s s' x. assembler exemple_membres s = Inr s' \<and>
    satisfait_contrainte x s' (Ligne NumeroDeContrainteDesNiveauxPays 0 0) \<and>
    satisfait_contrainte x s' (Ligne NumeroDeContrainteDesNiveauxPays 1 0) \<and>
    (let v = valeur_native (contexte_de exemple_pret s') x in
     v 0 (HydProd 0) = 4 \<and> v 0 (Pumping 0) = 4 \<and> v 0 (Overflow 0) = 2 \<and>
     v 1 (HydroLevel 0) = 500 + (15 + 15) - ((4 + 2 - 3 / 4 * 4) + (4 + 2 - 3 / 4 * 4)))"
proof -
  obtain s K s' where a: "a_assembler exemple_membres s" and r: "assembler exemple_membres s = Inr s'"
    and A: "assemble exemple_membres K s'" and K: "K = (contexte_de exemple_pret s')\<lparr>kcote := kcote K\<rparr>"
    and R: "pret_a_remplir exemple_pret s'"
    using exemple_a_assembler .
  define f where "f q = (case q of Var c t i \<Rightarrow>
      if c = NumeroDeVariablesDeNiveau then 500 + 12 * (1 + real t)
      else if c = NumeroDeVariablesDeDebordement then 2 else 4 | _ \<Rightarrow> 0)" for q
  let ?x = "valeurs_de exemple_pret f" and ?K = "contexte_de exemple_pret s'"
  have v: "valeur_native ?K ?x t (HydProd 0) = 4" "valeur_native ?K ?x t (Pumping 0) = 4" "valeur_native ?K ?x t (Overflow 0) = 2"
    "valeur_native ?K ?x t (HydroLevel 0) = 500 + 12 * (1 + real t)" if "t < 8" for t
    using that valeur_place [OF R, of t _ f] presentes_pays(4,5,6) [of t exemple_pret 0] presentes(4) [of t exemple_pret 0]
    by (simp_all add: f_def reservoir_def)
  have k: "kh K = exemple_pret" "valeur_native K = valeur_native ?K"
    using A sans_coteD [OF K] by (simp_all add: assemble_def)
  have sat: "satisfait_contrainte ?x s' (Ligne NumeroDeContrainteDesNiveauxPays t 0)" if "t < 2" for t
  proof -
    have "valeur_lignes ?x (ligne_AreaHydroLevel K 0 t) = 15 + (if t = 0 then 500 else 0)"
      using that by (auto simp: ligne_AreaHydroLevel_def k v reservoir_def less_2_cases_iff)
    then show ?thesis
      using that contraintes_satisfaites(3) [OF A, of t 0 ?x]
      by (auto simp: k exemple_donnees_def hydro_exemple_def reservoir_def simp del: lecture_cnt.simps)
  qed
  have ok: "0 < NombreDePays (mh exemple_membres)" "SuiviNiveauHoraire (CaracteristiquesHydrauliques (mh exemple_membres) ! 0)"
    "0 < (2 :: nat)" "2 \<le> NombreDePasDeTempsPourUneOptimisation (mh exemple_membres)"
    by (simp_all add: reservoir_def)
  have "(\<forall>t < 2. satisfait_contrainte ?x s' (Ligne NumeroDeContrainteDesNiveauxPays t 0)) \<longrightarrow>
    valeur_native ?K ?x (2 - 1) (HydroLevel 0) =
      NiveauInitialReservoir (HydroDonnees exemple_donnees ! 0) + (\<Sum>t < 2. ApportNaturelHoraire (HydroDonnees exemple_donnees ! 0) ! t) -
      (\<Sum>t < 2. valeur_native ?K ?x t (HydProd 0) + valeur_native ?K ?x t (Overflow 0) -
         PumpingRatio (hydro_de exemple_pret 0) * valeur_native ?K ?x t (Pumping 0))"
    using reservoir_balance [OF a ok] r
    by (elim exE conjE) (drule spec [of _ ?x], simp add: Let_def del: lecture_cnt.simps)
  with sat have "valeur_native ?K ?x 1 (HydroLevel 0) = 500 + (15 + 15) - ((4 + 2 - 3 / 4 * 4) + (4 + 2 - 3 / 4 * 4))"
    by (simp add: exemple_donnees_def hydro_exemple_def reservoir_def numeral_2_eq_2 v(1,2,3) v(1,2,3) [unfolded One_nat_def] del: lecture_cnt.simps)
  then show ?thesis
    using r sat [of 0] sat [of 1] v(1,2,3) [of 0]
    by - (rule exI [of _ s], rule exI [of _ s'], rule exI [of _ ?x], simp add: Let_def del: lecture_cnt.simps)
qed

end
