(* ===== verification/Spec2Isabelle.thy ===== *)
theory Spec2Isabelle
  imports Row_Properties Pilot_Properties Solution_Properties
begin

text \<open>
  \<^bold>\<open>Antares Simulator: the weekly linear problem, from its data to its results\<close>

  \<^bold>\<open>The program.\<close> Antares Simulator computes, week after week, the least-cost operation of a power system.
  Its core (\<open>src/src/solver/optimisation\<close>, with the data of \<open>src/src/solver/simulation\<close>) turns the business
  problem of a week, \<open>PROBLEME_HEBDO\<close>, into a linear problem, \<open>PROBLEME_ANTARES_A_RESOUDRE\<close>: a list of
  variables, and a sparse matrix of constraints over them. This library models that construction, from the
  allocation of the correspondences to the finished matrix, then the preparation of the data, the passes that fill
  the costs, the bounds and the right-hand sides, the call of the solver range after range, the two heuristics that
  come between the two optimisations of a week and the pilot that chains all this, and proves that they are correct.

  \<^bold>\<open>Correspondence with the code.\<close> C++ structures are records with the names of the source; a method or a
  function is a HOL function of the same name, or the same name with a suffix for the class
  (\<open>AreaBalance::add\<close> is \<open>AreaBalance_add\<close>). What the construction only reads is the argument \<open>h\<close> of type
  \<open>PROBLEME_HEBDO\<close>; what it writes (correspondences, linear problem, counters, builders) is the record
  \<open>etat\<close>, passed explicitly. Every access to a vector goes through \<open>lire\<close> or \<open>ecrire\<close>, which give the error
  \<open>IndexHorsBornes\<close> out of range; an exception of the code is another constructor of the type of errors. So a
  theorem that a function returns \<open>Inr\<close> says in particular that the code stays inside its vectors and throws
  nothing. Coefficients are reals (the code uses \<open>double\<close>: rounding is not modelled); \<open>int\<close> computations that
  can leave the 32 bits, and the C remainder, are written out.

  \<^bold>\<open>Theories\<close>, in the order of the imports:
  - \<open>Antares_Prelude\<close>: errors, checked access, sequences and loops of fallible steps, the locale
    \<open>append_store\<close> (a store that only grows: what a step appends, and how steps compose).
  - \<open>Probleme_Hebdo\<close>: the data (\<open>sim_structure_probleme_economique.h\<close>, \<open>opt_structure_probleme_a_resoudre.h\<close>,
    \<open>opt_constants.h\<close>) and their allocation (\<open>sim_alloc_probleme_hebdo.cpp\<close>).
  - \<open>Interco_Chaining\<close>: the linked lists of the links of an area (\<open>opt_chainage_intercos.cpp\<close>) and their walk.
  - \<open>Naming\<close>: names of variables and constraints (\<open>opt_rename_problem.h\<close>, \<open>.cpp\<close>).
  - \<open>Constraint_Matrix\<close>: the sparse matrix and its growth (\<open>opt_construction_matrice_des_contraintes_outils.cpp\<close>,
    \<open>opt_alloc_probleme_a_optimiser.cpp\<close>); interpretation of \<open>append_store_push\<close> on it.
  - \<open>Hebdo_Invariant\<close>: what the construction relies on in \<open>PROBLEME_HEBDO\<close>.
  - \<open>Constraint_Builder\<close>: \<open>ConstraintBuilder\<close> (\<open>constraints/ConstraintBuilder.h\<close>, \<open>.cpp\<close>) and the calculus that
    says which terms and rows a piece of code emits.
  - \<open>Constraints_Area\<close>, \<open>Constraints_Hydro\<close>, \<open>Constraints_Binding\<close>, \<open>Constraints_Thermal\<close>: the 23 classes of
    \<open>constraints/\<close> and the start-up loops of \<open>opt_construction_contraintes_couts_demarrage.cpp\<close>, each with the
    row it must append.
  - \<open>Matrix_Construction\<close>: \<open>opt_construction_matrice_des_contraintes_cas_lineaire.cpp\<close>; \<open>liste_lignes\<close> is the
    specification of the whole matrix.
  - \<open>Variables_Construction\<close>, \<open>Variables_Numbering\<close>: \<open>opt_construction_variables_optimisees_lineaire.cpp\<close> and
    \<open>opt_construction_variables_couts_demarrages.cpp\<close>; \<open>liste_variables\<close> is the specification of the variables.
  - \<open>Problem_Counting\<close>: the counting pass (\<open>opt_decompte_variables_et_contraintes*.cpp\<close>) and the allocation
    (\<open>opt_alloc_probleme_a_optimiser.cpp\<close>).
  - \<open>Row_Width\<close>, \<open>Row_Semantics\<close>, \<open>Row_Columns\<close>: no row overruns the work vectors; the value of rows on a
    solution; every column is a variable of the problem.
  - \<open>Problem_Pipeline\<close>: choice of the range, allocation, chaining, numbering of the days, variables, matrix, in
    the order of \<open>opt_pilotage_optimisation_lineaire.cpp\<close> and \<open>opt_optimisation_lineaire.cpp\<close>; repetition week
    after week.
  - \<open>Weekly_Data\<close>: the numeric data of the week (\<open>DONNEES\<close>) and the hourly results, with the sizes the passes
    rely on. \<open>Cell_Writes\<close>: the locale \<open>cellules\<close> (passes that write the cell of a variable, each place at most
    once or in a known order) and the places of the variables.
  - \<open>Mersenne_Twister\<close>: \<open>libs/antares/mersenne-twister\<close> and \<open>sim_spread_generator.cpp\<close>, which draw the noise on
    the costs of the storages, against the recurrence of the generator.
  - \<open>Costs\<close>: \<open>opt_gestion_des_couts_cas_lineaire.cpp\<close>, \<open>opt_gestion_des_couts_couts_demarrage.cpp\<close>; \<open>cout_de\<close> is
    the table of the costs, one line per kind of variable.
  - \<open>Bounds\<close>, \<open>Bounds_Correct\<close>: \<open>opt_gestion_des_bornes_cas_lineaire.cpp\<close>,
    \<open>opt_gestion_des_bornes_couts_demarrage.cpp\<close> and \<open>adq_patch_local_matching.cpp\<close>; \<open>xmin_de\<close>, \<open>xmax_de\<close>,
    \<open>adresse_de\<close>, \<open>cout_reduit_de\<close> and \<open>type_apres\<close> are the tables. \<open>Bounds_Results\<close>: the same pass seen from the
    hourly results; \<open>remet\<close> says which places it resets to 0 and that it keeps the others.
  - \<open>Row_Numbering\<close>, \<open>Matrix_Numbering\<close>, \<open>Constraint_Numbers\<close>: the numbers the construction keeps for the rows;
    \<open>fiches_cnt\<close> lists its steps, \<open>place_ligne\<close> names the constraint of a row.
  - \<open>Right_Hand_Sides\<close>, \<open>Right_Hand_Sides_Correct\<close>: \<open>opt_gestion_second_membre_cas_lineaire.cpp\<close> and
    \<open>opt_gestion_second_membre_couts_demarrage.cpp\<close>; \<open>membre_de\<close> and \<open>marginal_de\<close> are the tables.
  - \<open>Problem_Solutions\<close>: what values of the variables that satisfy the rows of an assembled problem say of the week.
    The rows are those of the sparse matrix with the right-hand sides the code wrote, found by the numbers it keeps
    for the constraints; energy of the areas, cyclic stocks, units and level of a reservoir.
  - \<open>Vector_Passes\<close>, \<open>Data_Preparation\<close>: loops that rewrite a vector of a table; \<open>opt_gestion_des_pmin.cpp\<close>,
    \<open>opt_init_contraintes_hydrauliques.cpp\<close>, \<open>opt_init_minmax_groupes_couts_demarrage.cpp\<close>,
    \<open>opt_restaurer_les_donnees.cpp\<close> and the check of the reserve; \<open>donnees_preparees\<close> and \<open>donnees_restaurees\<close> say
    what they make of the data.
  - \<open>Weekly_Results\<close>: the results of the week, what the pointers of the problem point to. \<open>Thermal_Heuristic\<close>,
    \<open>Heuristic_Correct\<close>: \<open>opt_calcul_des_pmin_MUT_MDT.cpp\<close>; \<open>courbe\<close> is the least step curve above the units that
    ran.
  - \<open>Solver_Call\<close>, \<open>Solver_Addresses\<close>: \<open>opt_appel_solveur_lineaire.cpp\<close>. The solver libraries are the parameter
    \<open>bibliotheque\<close>; \<open>solveur_ok\<close> is what the code relies on (on the problems it is given it has memory enough and fills
    its vectors), \<open>exemple_bibliotheque\<close> an instance.
  - \<open>Weekly_Optimisation\<close>: \<open>runWeeklyOptimization\<close> of \<open>opt_optimisation_lineaire.cpp\<close>; \<open>probleme_rempli\<close> is a problem
    filled as the tables say, \<open>valeurs_placees\<close> says where the values of a solution are.
  - \<open>Startup_Heuristic\<close>, \<open>Startup_Correct\<close>: \<open>opt_nombre_min_groupes_demarres_couts_demarrage.cpp\<close>, the numbers of
    units with start-up costs; \<open>ajustement_pose\<close> is the small problem of a cluster, \<open>palier_ajuste\<close> what the cluster
    becomes. The solver of the small problem is the parameter \<open>SPX\<close>; \<open>simplexe_ok\<close> is what the code relies on (the
    solution it announces is one). The check that could avoid the small problem is modelled, and never avoids it.
  - \<open>Linear_Pilot\<close>: \<open>OPT_OptimisationLineaire\<close> and \<open>OPT_PilotageOptimisationLineaire\<close>, which chain all the parts;
    \<open>pilote_ok\<close> is the state between two weeks, \<open>deux_optimisations\<close> what a week does. The heuristics are only called
    with real numbers of units and outside the expansion mode: the other branches of the start-up heuristic are
    modelled but no week reaches them.
  - \<open>Worked_Example\<close>, \<open>Row_Properties\<close>, \<open>Numeric_Properties\<close>, \<open>Week_Properties\<close>, \<open>Solution_Properties\<close>,
    \<open>Pilot_Properties\<close> and this theory: a small week on which every property is instantiated, the properties of the
    rows, those of the costs and bounds, those of the week from its data to its results, those of the solutions of the
    assembled problem, the one of the pilot, those of the whole construction.

  \<^bold>\<open>Bounds and fuel.\<close> The walk over the links of an area gets as many steps as there are links, the \<open>while\<close> loop
    over the days as many as there are hours; running out is an error value, and \<open>links_walked\<close> and
    \<open>binding_day_rows\<close> show that it never happens. \<open>donnees_ok\<close> asks for less than 2^30 time steps, at most 7 days,
    at least 4 hours per range, offsets of binding constraints not below minus the number of hours, and minimum
    up and down times within the range; \<open>shift_before_start\<close> shows what happens beyond the third one. The loop over
    the ranges of a week gets as many steps as there are hours; \<open>week_optimised\<close> shows that it never runs out. An
    infinite bound (\<open>LINFINI_ANTARES\<close>) is the number 10^80 of the code. Where the code converts a number of units by
    \<open>(int)ceil(x)\<close> the model takes the ceiling as an unbounded integer: numbers of units are far below 2^31.

  \<^bold>\<open>Where the guide and the code differ.\<close> In the first step of the adequacy patch the reference guide
    (\<open>docs/reference-guide/14-adequacy-patch.md\<close>) makes the cut of the links from outside to inside an option. The
    code reads the option for the links declared from outside to inside, and cuts both directions of a link declared from
    inside to outside whatever the option; \<open>adequacy_patch_bounds\<close> states what the code does.

  \<^bold>\<open>Not modelled.\<close> The solver itself (Sirius and OR-tools, outside \<open>src/\<close>) and the wrapper of OR-tools (\<open>ortools_utils.cpp\<close>,
    part of the parameter \<open>bibliotheque\<close>), the zero the small problem of the start-up heuristic first puts in its solution
    vector (the solver overwrites it), the writing
    of the problem to files, the quadratic problem and the choice between the two problems, the
    commands of the adequacy patch and the hydro remix that follow the optimisations, and everything around the weekly
    problem: study loading, time-series generation, driver of the simulation, outputs, user interface. Rounding of
    \<open>double\<close> and concurrency are outside the model as well.
\<close>


section \<open>The weekly problem\<close>

text \<open>
  C1: on well-formed data, the first week goes through: counting, allocation, chaining of the links,
  numbering of the days, of the variables and construction of the matrix all end without an access
  outside a vector, without an exception and without an endless walk; the matrix then holds exactly the
  rows of the specification, in its order; the number of variables is the length of the specified list,
  each variable of it is stored at its place with its rank as number, its type, its integer flag and its
  name; a variable the options exclude has number -1.
\<close>

theorem first_week_built:
  assumes "donnees_ok h"
  shows "\<exists>h' s'. bindE (instancier h (SIM_AllocationProblemeHebdo h)) (\<lambda>(h, s). construire_probleme h s) = Inr (h', s') \<and>
    lignes (ProblemeAResoudre s') = liste_lignes (contexte_de h' s') \<and>
    NombreDeVariables (ProblemeAResoudre s') = nb_variables h' \<and>
    (\<forall>k < nb_variables h'. variable_ok s' k (creees (liste_variables h') ! k)) \<and>
    (\<forall>p. (p, None) \<in> set (liste_variables h') \<longrightarrow> lecture s' p = - 1)"
proof -
  obtain hs where "bindE (instancier h (SIM_AllocationProblemeHebdo h)) (\<lambda>(h, s). construire_probleme h s) = Inr hs"
    and "probleme_construit (fst hs) (snd hs)"
    using premiere_semaine_ok [OF assms SIM_Allocation_ok] by (auto elim!: returnsE)
  then show ?thesis
    by (cases hs) (auto simp: probleme_construit_def variables_construites_def)
qed

theorem first_week_built_witness:
  "\<exists>h' s'. bindE (instancier exemple (SIM_AllocationProblemeHebdo exemple)) (\<lambda>(h, s). construire_probleme h s) = Inr (h', s') \<and>
    lignes (ProblemeAResoudre s') = liste_lignes (contexte_de h' s')"
  using first_week_built [OF exemple_ok] by blast

text \<open>
  C2: the construction can be repeated. Once a week has been built, building any sequence of further
  weeks in the same vectors (which hold what the weeks before left there) ends normally, and the last
  week built has exactly its own rows and its own variables: nothing of the earlier weeks survives.
\<close>

theorem weeks_rebuilt:
  assumes "donnees_ok h" and "semaines \<noteq> []"
  shows "\<exists>h' s' h1 s1. bindE (instancier h (SIM_AllocationProblemeHebdo h)) (\<lambda>(h, s). construire_probleme h s) = Inr (h1, s1) \<and>
    forE semaines semaine_suivante (h1, s1) = Inr (h', s') \<and>
    h' = h1\<lparr>weekInTheYear := last semaines\<rparr> \<and>
    lignes (ProblemeAResoudre s') = liste_lignes (contexte_de h' s') \<and> variables_construites h' s'"
proof -
  obtain hs where hs: "bindE (instancier h (SIM_AllocationProblemeHebdo h)) (\<lambda>(h, s). construire_probleme h s) = Inr hs"
    and e: "en_service hs"
    using premiere_semaine_ok [OF assms(1) SIM_Allocation_ok]
    by (auto elim!: returnsE simp: en_service_def)
  obtain hs' where "forE semaines semaine_suivante hs = Inr hs'"
    "fst hs' = (fst hs)\<lparr>weekInTheYear := last semaines\<rparr>" "probleme_construit (fst hs') (snd hs')"
    using semaines_ok [OF e, of semaines] assms(2) by (auto elim!: returnsE)
  with hs show ?thesis
    by (cases hs; cases hs') (auto simp: probleme_construit_def)
qed

theorem weeks_rebuilt_witness:
  "\<exists>h' s' h1 s1. bindE (instancier exemple (SIM_AllocationProblemeHebdo exemple)) (\<lambda>(h, s). construire_probleme h s) = Inr (h1, s1) \<and>
    forE [4, 5, 6] semaine_suivante (h1, s1) = Inr (h', s') \<and>
    h' = h1\<lparr>weekInTheYear := last [4, 5, 6]\<rparr> \<and>
    lignes (ProblemeAResoudre s') = liste_lignes (contexte_de h' s')"
  using weeks_rebuilt [OF exemple_ok, of "[4, 5, 6]"] by blast

text \<open>The places of the variables the options keep.\<close>

definition places_gardees :: "PROBLEME_HEBDO \<Rightarrow> place set" where
  "places_gardees h = {p. \<exists>v. (p, Some v) \<in> set (liste_variables h)}"

lemma numero_de_place:
  assumes "variables_construites h s"
    and "(p, v) \<in> set (liste_variables h)" and "k < NombreDeVariables (ProblemeAResoudre s)"
  shows "lecture s p = int k \<longleftrightarrow> p = fst (creees (liste_variables h) ! k)"
proof -
  let ?C = "creees (liste_variables h)"
  have n: "NombreDeVariables (ProblemeAResoudre s) = length ?C"
    using assms(1) by (simp add: variables_construites_def nb_variables_def)
  have ok: "lecture s (fst (?C ! j)) = int j" if "j < length ?C" for j
    using assms(1) that
    by (cases "?C ! j") (auto simp: variables_construites_def nb_variables_def variable_ok_def split: prod.splits)
  have abs: "lecture s p = - 1" if "v = None"
    using assms(1,2) that by (auto simp: variables_construites_def)
  show ?thesis
  proof
    assume l: "lecture s p = int k"
    with abs obtain x where "v = Some x" by (cases v) auto
    then obtain j where "j < length ?C" "?C ! j = (p, x)"
      using assms(2) by (metis creees_subset in_set_conv_nth)
    then show "p = fst (?C ! k)" using ok [of j] l by simp
  next
    assume "p = fst (?C ! k)"
    then show "lecture s p = int k" using ok n assms(3) by simp
  qed
qed

lemma numeros_bijectifs:
  assumes "variables_construites h s"
  shows "bij_betw (lecture s) (places_gardees h) {0..<int (NombreDeVariables (ProblemeAResoudre s))}"
proof -
  let ?C = "creees (liste_variables h)" and ?n = "NombreDeVariables (ProblemeAResoudre s)"
  have n: "?n = length ?C" using assms by (simp add: variables_construites_def nb_variables_def)
  have C: "fst (?C ! k) \<in> places_gardees h" if "k < ?n" for k
  proof -
    obtain p v where "?C ! k = (p, v)" by (cases "?C ! k")
    then have "(p, v) \<in> set ?C" using that n nth_mem [of k ?C] by simp
    then have "(p, Some v) \<in> set (liste_variables h)" by (simp add: creees_subset)
    then have "p \<in> places_gardees h" unfolding places_gardees_def by blast
    with \<open>?C ! k = (p, v)\<close> show ?thesis by simp
  qed
  have num: "\<exists>k < ?n. p = fst (?C ! k)" if p: "p \<in> places_gardees h" for p
  proof -
    from p obtain v where "(p, v) \<in> set ?C" by (auto simp: places_gardees_def creees_subset)
    then show ?thesis by (auto simp: in_set_conv_nth n)
  qed
  have lu: "lecture s (fst (?C ! k)) = int k" if "k < ?n" for k
    using numero_de_place [OF assms _ that] C [OF that] by (auto simp: places_gardees_def)
  show ?thesis
  proof (rule bij_betwI')
    show "lecture s p = lecture s q \<longleftrightarrow> p = q" if "p \<in> places_gardees h" "q \<in> places_gardees h" for p q
      using num [OF that(1)] num [OF that(2)] lu by auto
    show "lecture s p \<in> {0..<int ?n}" if "p \<in> places_gardees h" for p
      using num [OF that] lu by auto
    show "\<exists>p \<in> places_gardees h. k = lecture s p" if "k \<in> {0..<int ?n}" for k
      using C [of "nat k"] lu [of "nat k"] that by (intro bexI [of _ "fst (?C ! nat k)"]) auto
  qed
qed

text \<open>
  C4: the numbering is one to one. \<open>OPT_ConstruireLaListeDesVariablesOptimiseesDuProblemeLineaire\<close>, run on allocated
  vectors whatever they hold, ends normally; the numbers it leaves in the correspondences put the places of the
  variables the options keep in bijection with the numbers 0 to \<open>NombreDeVariables\<close> excluded, number \<open>k\<close> at the k-th of
  them and at no other place of the list; a place the options exclude holds -1.
\<close>

theorem numbering_bijective:
  assumes "pret_a_construire h" and "alloue h s"
  shows "\<exists>s'. OPT_ConstruireLaListeDesVariablesOptimiseesDuProblemeLineaire h s = Inr s' \<and>
    bij_betw (lecture s') (places_gardees h) {0..<int (NombreDeVariables (ProblemeAResoudre s'))} \<and>
    (\<forall>(p, v) \<in> set (liste_variables h).
      (v = None \<longrightarrow> lecture s' p = - 1) \<and>
      (\<forall>k < NombreDeVariables (ProblemeAResoudre s'). lecture s' p = int k \<longleftrightarrow> p = fst (creees (liste_variables h) ! k)))"
proof -
  obtain s' where r: "OPT_ConstruireLaListeDesVariablesOptimiseesDuProblemeLineaire h s = Inr s'"
    and v: "variables_construites h s'"
    using liste_construite [OF assms] by (auto elim!: returnsE)
  have "\<forall>(p, v) \<in> set (liste_variables h). v = None \<longrightarrow> lecture s' p = - 1"
    using v by (auto simp: variables_construites_def)
  then show ?thesis using r numeros_bijectifs [OF v] numero_de_place [OF v] by auto
qed

theorem numbering_bijective_witness:
  "\<exists>s s'. OPT_ConstruireLaListeDesVariablesOptimiseesDuProblemeLineaire exemple_pret s = Inr s' \<and>
     lecture s' (Var NumeroDeVariableDeLInterconnexion 0 0) = 0 \<and>
     0 < NombreDeVariables (ProblemeAResoudre s')"
proof -
  obtain s where "alloue exemple_pret s" using exemple_construit by metis
  from numbering_bijective [OF exemple_pret_ok this] obtain s' where
    r: "OPT_ConstruireLaListeDesVariablesOptimiseesDuProblemeLineaire exemple_pret s = Inr s'"
    and b: "bij_betw (lecture s') (places_gardees exemple_pret) {0..<int (NombreDeVariables (ProblemeAResoudre s'))}"
    and l: "\<forall>(p, v) \<in> set (liste_variables exemple_pret). \<forall>k < NombreDeVariables (ProblemeAResoudre s').
      lecture s' p = int k \<longleftrightarrow> p = fst (creees (liste_variables exemple_pret) ! k)"
    by fastforce
  obtain v fs where e: "liste_variables exemple_pret = (Var NumeroDeVariableDeLInterconnexion 0 0, Some v) # fs"
    by (simp add: liste_variables_def fiches_lineaires_def heures_def upt_rec [of 0] fiches_interco_def Let_def existe_def)
  then have "lecture s' (Var NumeroDeVariableDeLInterconnexion 0 0) \<in> {0..<int (NombreDeVariables (ProblemeAResoudre s'))}"
    by (intro bij_betw_apply [OF b], unfold places_gardees_def, intro CollectI exI [of _ v]) simp
  then have n: "0 < NombreDeVariables (ProblemeAResoudre s')" by (auto simp del: lecture.simps)
  with l have "lecture s' (Var NumeroDeVariableDeLInterconnexion 0 0) = int 0" by (auto simp: e simp del: lecture.simps)
  with r n show ?thesis by (auto simp del: lecture.simps)
qed

section \<open>The sizes\<close>

text \<open>
  C5: the counting pass announces the right sizes. On a prepared problem it returns the number of clusters
  and the two sizes of the linear problem, touches nothing else than these two counters, the builders (left
  empty) and the constraint numbers; and the sizes are enough for every variable and every row built later.
\<close>

theorem counting_makes_room:
  assumes "pret_a_construire h" and "etat_ok h s"
  shows "\<exists>s'. OPT_DecompteDesVariablesEtDesContraintesDuProblemeAOptimiser h s = Inr (somme_pays h (nb_paliers h), s') \<and>
    hors_decompte s' = hors_decompte s \<and>
    nb_variables h \<le> NombreDeVariables (ProblemeAResoudre s') \<and>
    places h \<le> NombreDeContraintes (ProblemeAResoudre s') \<and>
    NombreDeVariables (ProblemeAResoudre s') = nb_variables_prevues h \<and>
    NombreDeContraintes (ProblemeAResoudre s') = nb_contraintes_prevues h"
proof -
  have h: "hebdo_ok h" "numeros_distincts h" "\<forall>pays < NombreDePays h. \<not> niveau_impossible h pays"
    using assms(1) by (simp_all add: pret_a_construire_def)
  from OPT_Decompte_ok [OF h(1,3), of s] assms(2) obtain s' where
    "OPT_DecompteDesVariablesEtDesContraintesDuProblemeAOptimiser h s = Inr (somme_pays h (nb_paliers h), s')"
    "NombreDeVariables (ProblemeAResoudre s') = nb_variables_prevues h"
    "NombreDeContraintes (ProblemeAResoudre s') = nb_contraintes_prevues h"
    "hors_decompte s' = hors_decompte s"
    by (auto simp: etat_ok_def elim!: returnsE)
  then show ?thesis
    using places_le [OF h] nb_variables_le [OF h(1,2)] by auto
qed

theorem counting_makes_room_witness:
  "\<exists>s'. OPT_DecompteDesVariablesEtDesContraintesDuProblemeAOptimiser exemple_pret
      (SIM_AllocationProblemeHebdo exemple_pret) = Inr (somme_pays exemple_pret (nb_paliers exemple_pret), s') \<and>
    places exemple_pret \<le> NombreDeContraintes (ProblemeAResoudre s')"
  using counting_makes_room [OF exemple_pret_ok SIM_Allocation_ok] by blast

text \<open>
  C8: the only exception of the construction. When an area asks for the explicit modelling of its level but
  its reservoir is not followed hour by hour between bounds, the counting pass throws the fatal error that
  names the first such area, and nothing is allocated.
\<close>

theorem level_modeling_refused:
  assumes "hebdo_ok h" and "pays < NombreDePays h" and "niveau_impossible h pays"
    and "\<forall>q < pays. \<not> niveau_impossible h q"
  shows "OPT_AllocDuProblemeAOptimiser h s =
    Inl (FatalError (''Level explicit modeling requires flexible generation in area '' @ NomsDesPays h ! pays))"
  by (simp add: OPT_AllocDuProblemeAOptimiser_def OPT_Decompte_erreur [OF assms])

definition exemple_refuse :: PROBLEME_HEBDO where
  "exemple_refuse = exemple_pret\<lparr>CaracteristiquesHydrauliques :=
     [reservoir, reservoir\<lparr>TurbinageEntreBornes := False, PresenceDePompageModulable := False\<rparr>]\<rparr>"

theorem level_modeling_refused_witness:
  "OPT_AllocDuProblemeAOptimiser exemple_refuse (SIM_AllocationProblemeHebdo exemple_refuse) =
    Inl (FatalError ''Level explicit modeling requires flexible generation in area south'')"
proof -
  have "paliers_ok exemple_refuse = paliers_ok exemple_pret" "demarrage_ok exemple_refuse = demarrage_ok exemple_pret"
    "couplante_ok exemple_refuse = couplante_ok exemple_pret"
    by (auto intro!: paliers_ok_cong demarrage_ok_cong couplante_ok_cong simp: exemple_refuse_def)
  then have "hebdo_ok exemple_refuse"
    using exemple_hebdo(1) unfolding hebdo_ok_def
    by (simp add: exemple_refuse_def horizon_ok_def jours_ok_def intercos_ok_def chainage_jusqua_def)
  moreover have "niveau_impossible exemple_refuse 1" "\<forall>q < 1. \<not> niveau_impossible exemple_refuse q"
    by (simp_all add: niveau_impossible_def exemple_refuse_def reservoir_def)
  ultimately show ?thesis
    using level_modeling_refused [of exemple_refuse 1] by (simp add: exemple_refuse_def)
qed

section \<open>The links\<close>

text \<open>
  C9: after \<open>OPT_ChainagesDesIntercoPartantDUnNoeud\<close>, the walk over the links leaving an area (and the walk
  over the links entering it) terminates within one step per link and runs its body exactly once on each
  such link, in decreasing link order, and on no other link.
\<close>

theorem links_walked:
  assumes "intercos_ok h" and "pays < NombreDePays h"
  shows "\<exists>h'. OPT_ChainagesDesIntercoPartantDUnNoeud h = Inr h' \<and>
    boucle_interco (IndexSuivantIntercoOrigine h') f (NombreDInterconnexions h)
        (IndexDebutIntercoOrigine h' ! pays) s =
      forE (liens (PaysOrigineDeLInterconnexion h) pays (NombreDInterconnexions h)) f s \<and>
    boucle_interco (IndexSuivantIntercoExtremite h') f (NombreDInterconnexions h)
        (IndexDebutIntercoExtremite h' ! pays) s =
      forE (liens (PaysExtremiteDeLInterconnexion h) pays (NombreDInterconnexions h)) f s \<and>
    distinct (liens (PaysOrigineDeLInterconnexion h) pays (NombreDInterconnexions h)) \<and>
    set (liens (PaysOrigineDeLInterconnexion h) pays (NombreDInterconnexions h)) =
      {l. l < NombreDInterconnexions h \<and> PaysOrigineDeLInterconnexion h ! l = pays}"
  using chainage_parcours [OF assms] by auto

theorem links_walked_witness:
  "\<exists>h'. OPT_ChainagesDesIntercoPartantDUnNoeud exemple = Inr h' \<and>
    boucle_interco (IndexSuivantIntercoOrigine h') (\<lambda>l ls. Inr (ls @ [l])) 1 (IndexDebutIntercoOrigine h' ! 0) [] = Inr [0] \<and>
    boucle_interco (IndexSuivantIntercoExtremite h') (\<lambda>l ls. Inr (ls @ [l])) 1 (IndexDebutIntercoExtremite h' ! 0) [] = Inr []"
proof -
  have "NombreDePays exemple = 2" "NombreDInterconnexions exemple = 1"
    "PaysOrigineDeLInterconnexion exemple = [0]" "PaysExtremiteDeLInterconnexion exemple = [1]"
    by (simp_all add: exemple_def)
  then show ?thesis
    using links_walked [OF exemple_intercos, of 0 "\<lambda>l ls. Inr (ls @ [l])" "[]"] by (auto simp: liens_def simp del: boucle_interco.simps)
qed

section \<open>Storing a row\<close>

text \<open>
  C7: loading a constraint into the sparse matrix appends exactly one row, with its direction and its terms
  in order, keeps every row already there, keeps the storage invariant even when the term vectors have to
  grow in the middle of the row, and changes nothing else of the problem.
\<close>

theorem row_appended:
  assumes "matrice_inv nc p" and "NombreDeContraintes p < nc" and "n \<le> length vpi" and "n \<le> length colonne"
  shows "\<exists>p'. OPT_ChargerLaContrainteDansLaMatriceDesContraintes vpi colonne n sens p = Inr p' \<and>
    lignes p' = lignes p @ [(sens, zip (take n colonne) (take n vpi))] \<and>
    matrice_inv nc p' \<and> hors_matrice p' = hors_matrice p"
  using OPT_Charger_ok [OF assms] by (auto elim!: returnsE)

definition petite_matrice :: PROBLEME_ANTARES_A_RESOUDRE where
  "petite_matrice = PROBLEME_ANTARES_A_RESOUDRE_vide\<lparr>Sens := replicate 2 CHR '' '',
     IndicesDebutDeLigne := [0, 0], NombreDeTermesDesLignes := [0, 0],
     CoefficientsDeLaMatriceDesContraintes := [0, 0], IndicesColonnes := [0, 0],
     NombreDeTermesAllouesDansLaMatriceDesContraintes := 2, IncrementDAllocationMatriceDesContraintes := 1\<rparr>"

theorem row_appended_witness:
  "\<exists>p'. OPT_ChargerLaContrainteDansLaMatriceDesContraintes [2, - 1, 5] [4, 0, 7] 3 CHR ''<'' petite_matrice = Inr p' \<and>
    lignes p' = [(CHR ''<'', [(4, 2), (0, - 1), (7, 5)])] \<and> matrice_inv 2 p'"
proof -
  have p: "matrice_inv 2 petite_matrice" "lignes petite_matrice = []" "NombreDeContraintes petite_matrice < 2"
    by (simp_all add: petite_matrice_def PROBLEME_ANTARES_A_RESOUDRE_vide_def matrice_inv_def stockage_ok_def lignes_def)
  show ?thesis
    using row_appended [OF p(1,3), of 3 "[2, - 1, 5]" "[4, 0, 7]" "CHR ''<''"] p(2)
    by auto
qed

section \<open>The cyclic hours\<close>

text \<open>
  C20: the hour a shifted variable is read at. Within a range of optimisation, a shift forward, or a shift
  backward by no more than the shift \<open>delta\<close> the caller adds (a multiple of the range), reads the hour of
  the cyclic range: the remainder is never negative, although the code uses the remainder of C.
\<close>

theorem shifted_hour_cyclic:
  assumes "hour < NombreDePasDeTempsPourUneOptimisation h"
    and "int (NombreDePasDeTempsPourUneOptimisation h) dvd delta"
    and "0 \<le> int hour + offset + delta" and "- (2 ^ 31) \<le> int hour + offset" and "int hour + offset < 2 ^ 31"
  shows "GetShiftedTimeStep h hour offset delta =
      (int hour + offset) mod int (NombreDePasDeTempsPourUneOptimisation h) \<and>
    GetShiftedTimeStep h hour offset delta \<in> {0..<int (NombreDePasDeTempsPourUneOptimisation h)}"
  using GetShiftedTimeStep_cyclic [OF assms] assms(1) by simp

theorem shifted_hour_cyclic_witness: "GetShiftedTimeStep exemple_pret 2 (- 5) 8 = 5"
  using shifted_hour_cyclic [of 2 exemple_pret 8 "- 5"] by simp

lemma smod_negatif:
  assumes "(x::int) < 0" and "0 < n" and "\<not> n dvd x"
  shows "x smod n < 0"
proof -
  have "0 < (- x) mod n"
    using assms by (metis dvd_minus_iff mod_0_imp_dvd order_le_less pos_mod_sign)
  then show ?thesis using assms(1,2) by (simp add: signed_modulo_int_def)
qed

text \<open>
  C21: what happens beyond. A shift backward that \<open>delta\<close> does not compensate gives the negative remainder
  of C, and the access to the vector of correspondences is out of range (the code reads before the start
  of the vector; here, an error). The loading of the binding constraints accepts such a shift.
\<close>

theorem shift_before_start:
  assumes "hour < NombreDePasDeTempsPourUneOptimisation h" and "NombreDePasDeTempsPourUneOptimisation h < 2 ^ 31"
    and "offset < 0" and "- (2 ^ 31) \<le> int hour + offset" and "int hour + offset + delta < 0"
    and "\<not> int (NombreDePasDeTempsPourUneOptimisation h) dvd int hour + offset + delta"
    and "hourInWeek (courant s) = hour"
  shows "GetShiftedTimeStep h hour offset delta < 0 \<and>
    ajouter_decale h nv coeff offset delta s = Inl IndexHorsBornes"
proof -
  let ?T = "int (NombreDePasDeTempsPourUneOptimisation h)" and ?x = "int hour + offset + delta"
  have "int hour < 2 ^ 31" using assms(1,2) by simp
  then have "int hour + offset < 2 ^ 31" using assms(3) by linarith
  then have g: "GetShiftedTimeStep h hour offset delta = ?x smod ?T"
    using assms(3,4) by (simp add: GetShiftedTimeStep_def Let_def signed_take_bit_31_id)
  have "?x smod ?T < 0"
    by (rule smod_negatif) (use assms(1,5,6) in simp_all)
  with g assms(7) show ?thesis
    by (simp add: ajouter_decale_def GetVariable_def)
qed

theorem shift_before_start_witness:
  "\<exists>s. ajouter_decale exemple_pret (NTCDirect 0) 1 (- 11) 8 s = Inl IndexHorsBornes"
proof -
  define s where "s = maj_builder (\<lambda>b. b\<lparr>hourInWeek := 2\<rparr>) (SIM_AllocationProblemeHebdo exemple_pret)"
  have "hourInWeek (courant s) = 2" by (simp add: s_def maj_builder_def)
  then have "ajouter_decale exemple_pret (NTCDirect 0) 1 (- 11) 8 s = Inl IndexHorsBornes"
    using shift_before_start [of 2 exemple_pret "- 11" 8 s "NTCDirect 0" 1] by simp
  then show ?thesis ..
qed

section \<open>Columns, lengths and names\<close>

text \<open>
  C3: every term points to a variable of the problem. In the first week built, every term of every row of
  the sparse matrix has a column between 0 and \<open>NombreDeVariables\<close>: the vectors of the variables (values,
  bounds, costs) can be indexed by it.
\<close>

theorem columns_in_range:
  assumes "donnees_ok h"
    and "bindE (instancier h (SIM_AllocationProblemeHebdo h)) (\<lambda>(h, s). construire_probleme h s) = Inr (h', s')"
    and "l \<in> set (lignes (ProblemeAResoudre s'))" and "t \<in> set (snd l)"
  shows "0 \<le> fst t \<and> fst t < int (NombreDeVariables (ProblemeAResoudre s'))"
proof -
  have p: "pret_a_construire h'" "alloue h' s'" "probleme_construit h' s'"
    using premiere_semaine_ok [OF assms(1) SIM_Allocation_ok] assms(2) by (auto simp: returns_def)
  then have "contexte_ok (contexte_de h' s')"
    by (simp add: contexte_ok_def contexte_de_def alloue_def dims_variables_def pret_a_construire_def)
  with p(3) have "probleme_numerote h' s'"
    by (simp add: probleme_numerote_def probleme_construit_def)
  from liste_lignes_colonnes [OF this] assms(3,4) p(3) show ?thesis
    by (auto simp: probleme_construit_def variables_construites_def lignes_colonnes_def colonnes_ok_def)
qed

theorem columns_in_range_witness:
  "\<exists>h' s'. bindE (instancier exemple (SIM_AllocationProblemeHebdo exemple)) (\<lambda>(h, s). construire_probleme h s) = Inr (h', s') \<and>
    {j. \<exists>l t. l \<in> set (lignes (ProblemeAResoudre s')) \<and> t \<in> set (snd l) \<and> j = fst t} \<subseteq>
      {0..<int (NombreDeVariables (ProblemeAResoudre s'))}"
proof -
  obtain hs where r: "bindE (instancier exemple (SIM_AllocationProblemeHebdo exemple)) (\<lambda>(h, s). construire_probleme h s) = Inr hs"
    using premiere_semaine_ok [OF exemple_ok SIM_Allocation_ok] by (auto elim!: returnsE)
  obtain h' s' where "hs = (h', s')" by (cases hs)
  with r show ?thesis
    using columns_in_range [OF exemple_ok, of h' s'] by force
qed

text \<open>
  C6: no row overruns the work vectors. On well-formed data the first week is counted, allocated and built without an
  access outside a vector, so that no call of \<open>ConstraintBuilder::AddVariable\<close>, which writes into \<open>Pi\<close> and \<open>Colonne\<close>
  without a check, writes past their end; these two vectors have exactly as many slots as the counting pass announced
  variables, and every row of the matrix that is built fits in them.
\<close>

theorem rows_fit_work_vectors:
  assumes "donnees_ok h"
  shows "\<exists>h' s'. bindE (instancier h (SIM_AllocationProblemeHebdo h)) (\<lambda>(h, s). construire_probleme h s) = Inr (h', s') \<and>
    length (Pi (ProblemeAResoudre s')) = nb_variables_prevues h' \<and>
    length (Colonne (ProblemeAResoudre s')) = nb_variables_prevues h' \<and>
    (\<forall>l \<in> set (lignes (ProblemeAResoudre s')). length (snd l) \<le> length (Pi (ProblemeAResoudre s')))"
proof -
  obtain h' s' where r: "bindE (instancier h (SIM_AllocationProblemeHebdo h)) (\<lambda>(h, s). construire_probleme h s) = Inr (h', s')"
    and p: "pret_a_construire h'" "alloue h' s'" "probleme_construit h' s'"
    using premiere_semaine_ok [OF assms SIM_Allocation_ok] by (auto elim!: returnsE)
  have "contexte_large (contexte_de h' s')"
    using p(1) by (simp add: contexte_large_def contexte_de_def pret_a_construire_def)
  from lignes_tiennent [OF this] have "\<forall>l \<in> set (liste_lignes (contexte_de h' s')). length (snd l) \<le> nb_variables_prevues h'"
    by (simp add: tient_def contexte_de_def)
  then show ?thesis
    using r p(2,3) by (auto simp: alloue_def alloue_matrice_def probleme_construit_def Let_def)
qed

theorem rows_fit_work_vectors_witness:
  "\<exists>h' s'. bindE (instancier exemple (SIM_AllocationProblemeHebdo exemple)) (\<lambda>(h, s). construire_probleme h s) = Inr (h', s') \<and>
    (\<lambda>l. length (snd l)) ` set (lignes (ProblemeAResoudre s')) \<subseteq> {..length (Pi (ProblemeAResoudre s'))}"
  using rows_fit_work_vectors [OF exemple_ok] by (fastforce simp: image_subset_iff)

text \<open>
  C25: the time step can be read back from a name. Whatever the names of the areas, links, clusters and binding
  constraints contain, the number between the last \<open><\<close> and the final \<open>>\<close> of the name of a variable or of a
  constraint is the time step its namer was updated with; and no name contains a space, so that a name is one
  word of the files the problem is written to.
\<close>

theorem names_round_trip:
  "pas_du_nom (VariableNamer nm v) = namer_timeStep nm \<and> pas_du_nom (ConstraintNamer nm c) = namer_timeStep nm \<and>
   CHR '' '' \<notin> set (VariableNamer nm v) \<and> CHR '' '' \<notin> set (ConstraintNamer nm c)"
  by (simp add: pas_VariableNamer pas_ConstraintNamer VariableNamer_no_space ConstraintNamer_no_space)

text \<open>
  C26: the days and the ranges. The two numbering passes end normally on vectors of one entry per hour, give
  each hour its day and its optimisation range (integer quotients), and the days are numbered below
  \<open>NombreDeJours\<close> when the hours are whole days.
\<close>

theorem hours_numbered:
  assumes "length (NumeroDeJourDuPasDeTemps h) = NombreDePasDeTemps h"
    and "length (NumeroDIntervalleOptimiseDuPasDeTemps h) = NombreDePasDeTemps h"
    and "0 < NombreDePasDeTempsDUneJournee h" and "NombreDePasDeTempsDUneJournee h dvd NombreDePasDeTemps h"
  shows "\<exists>h'. bindE (OPT_NumeroDeJourDuPasDeTemps h) OPT_NumeroDIntervalleOptimiseDuPasDeTemps = Inr h' \<and>
    NumeroDeJourDuPasDeTemps h' = map (\<lambda>pdt. pdt div NombreDePasDeTempsDUneJournee h) [0..<NombreDePasDeTemps h] \<and>
    NumeroDIntervalleOptimiseDuPasDeTemps h' =
      map (\<lambda>pdt. pdt div NombreDePasDeTempsPourUneOptimisation h) [0..<NombreDePasDeTemps h] \<and>
    list_all (\<lambda>j. j < NombreDeJours h') (NumeroDeJourDuPasDeTemps h')"
proof -
  let ?g = "h\<lparr>NombreDeJours := NombreDePasDeTemps h div NombreDePasDeTempsDUneJournee h,
    NumeroDeJourDuPasDeTemps := map (\<lambda>pdt. pdt div NombreDePasDeTempsDUneJournee h) [0..<NombreDePasDeTemps h]\<rparr>"
  have "OPT_NumeroDeJourDuPasDeTemps h = Inr ?g" by (rule OPT_NumeroDeJour_ok [OF assms(1)])
  moreover have "pdt div NombreDePasDeTempsDUneJournee h < NombreDePasDeTemps h div NombreDePasDeTempsDUneJournee h"
    if "pdt < NombreDePasDeTemps h" for pdt
    using assms(3,4) that by (metis dvd_div_mult_self less_mult_imp_div_less)
  ultimately show ?thesis
    using OPT_NumeroDIntervalle_ok [of ?g] assms(2) by (simp add: list_all_iff)
qed

theorem hours_numbered_witness:
  "\<exists>h'. bindE (OPT_NumeroDeJourDuPasDeTemps exemple_pret) OPT_NumeroDIntervalleOptimiseDuPasDeTemps = Inr h' \<and>
    NumeroDeJourDuPasDeTemps h' = [0, 0, 0, 0, 1, 1, 1, 1]"
proof -
  have "length (NumeroDeJourDuPasDeTemps exemple_pret) = 8" "length (NumeroDIntervalleOptimiseDuPasDeTemps exemple_pret) = 8"
    by (simp_all add: exemple_pret_def prepare_def Let_def exemple_chaine_def avec_horizon_def choisir_horizon_def exemple_def)
  then show ?thesis
    using hours_numbered [of exemple_pret] by (auto simp: upt_rec)
qed


end
